(* ===== verification/Prelude.thy ===== *)
theory Prelude
  imports Main "HOL-Library.Char_ord" "HOL-Library.List_Lexorder" "HOL-Library.Sublist"
begin

text \<open>
  Shared vocabulary of the development: chains of early returns, results that are
  an error or a value, association lists for Go maps and for tables, and the lemma
  collections the components use.

  A Go function that returns \<open>error\<close> is modelled by an \<open>'e option\<close> (\<open>None\<close> is
  nil) or by \<open>'e + 'a\<close> (\<open>Inl\<close> is the error). A sequence of
  \<open>if bad { return err }\<close> statements is \<open>first_error\<close> over the list of conditions in
  source order.
\<close>

named_theorems release_defs \<open>unfolding rules of the release executor\<close>
named_theorems store_simps \<open>rewrite rules of the tables\<close>
named_theorems go_simps \<open>rewrite rules of the Go string and path functions\<close>

subsection \<open>Chains of early returns\<close>

fun first_error :: "(bool \<times> 'e) list \<Rightarrow> 'e option" where
  "first_error [] = None"
| "first_error ((bad, e) # rest) = (if bad then Some e else first_error rest)"

lemma first_error_None: "first_error xs = None \<longleftrightarrow> (\<forall>x \<in> set xs. \<not> fst x)"
  by (induction xs rule: first_error.induct) auto

lemma first_error_Some_in: "first_error xs = Some e \<Longrightarrow> (True, e) \<in> set xs"
  by (induction xs rule: first_error.induct) (auto split: if_splits)

lemma first_error_append:
  "first_error (xs @ ys) = (case first_error xs of None \<Rightarrow> first_error ys | Some e \<Rightarrow> Some e)"
  by (induction xs rule: first_error.induct) auto

text \<open>A check that returns early, followed by the rest of the function.\<close>

lemma chain_None: "(case x of None \<Rightarrow> a | Some e \<Rightarrow> Some e) = None \<longleftrightarrow> x = None \<and> a = None"
  by (cases x) auto

lemma chain_sum_None:
  "(case x of Inl e \<Rightarrow> Some (f e) | Inr y \<Rightarrow> g y) = None \<longleftrightarrow> (\<exists>y. x = Inr y \<and> g y = None)"
  by (cases x) auto

lemma chain_Some_None:
  "(case x of None \<Rightarrow> a | Some e \<Rightarrow> Some (f e)) = None \<longleftrightarrow> x = None \<and> a = None"
  by (cases x) auto

text \<open>The first check of a list of items that reports something.\<close>

fun first_some :: "('a \<Rightarrow> 'e option) \<Rightarrow> 'a list \<Rightarrow> 'e option" where
  "first_some f [] = None"
| "first_some f (x # xs) = (case f x of None \<Rightarrow> first_some f xs | Some e \<Rightarrow> Some e)"

lemma first_some_None: "first_some f xs = None \<longleftrightarrow> (\<forall>x \<in> set xs. f x = None)"
  by (induction xs) (auto split: option.splits)

lemma first_some_Some: "first_some f xs = Some e \<Longrightarrow> \<exists>x \<in> set xs. f x = Some e"
  by (induction xs) (auto split: option.splits)

text \<open>An optional error followed by a value.\<close>

definition or_error :: "'e option \<Rightarrow> 'a \<Rightarrow> 'e + 'a" where
  "or_error e x = (case e of None \<Rightarrow> Inr x | Some err \<Rightarrow> Inl err)"

lemma or_error_Inr [simp]: "or_error e x = Inr y \<longleftrightarrow> e = None \<and> y = x"
  by (auto simp: or_error_def split: option.splits)

lemma or_error_Inl [simp]: "or_error e x = Inl err \<longleftrightarrow> e = Some err"
  by (auto simp: or_error_def split: option.splits)

definition is_ok :: "'e + 'a \<Rightarrow> bool" where
  "is_ok r = (case r of Inl _ \<Rightarrow> False | Inr _ \<Rightarrow> True)"

lemma is_ok_simps [simp]: "is_ok (Inr x)" "\<not> is_ok (Inl e)"
  by (simp_all add: is_ok_def)

lemma is_ok_iff: "is_ok r \<longleftrightarrow> (\<exists>x. r = Inr x)"
  by (cases r) auto

subsection \<open>Association lists as Go maps\<close>

text \<open>
  A Go map that the code iterates over is an association list with distinct keys;
  one that is only looked up is a function into \<open>option\<close>.
\<close>

definition al_keys :: "('k \<times> 'v) list \<Rightarrow> 'k list" where
  "al_keys m = map fst m"

definition al_has :: "('k \<times> 'v) list \<Rightarrow> 'k \<Rightarrow> bool" where
  "al_has m k = (map_of m k \<noteq> None)"

definition al_put :: "'k \<Rightarrow> 'v \<Rightarrow> ('k \<times> 'v) list \<Rightarrow> ('k \<times> 'v) list" where
  "al_put k v m = (k, v) # filter (\<lambda>e. fst e \<noteq> k) m"

definition al_del :: "'k \<Rightarrow> ('k \<times> 'v) list \<Rightarrow> ('k \<times> 'v) list" where
  "al_del k m = filter (\<lambda>e. fst e \<noteq> k) m"

definition al_sweep :: "('v \<Rightarrow> bool) \<Rightarrow> ('k \<times> 'v) list \<Rightarrow> ('k \<times> 'v) list" where
  "al_sweep live m = filter (\<lambda>e. live (snd e)) m"

definition al_wf :: "('k \<times> 'v) list \<Rightarrow> bool" where
  "al_wf m = distinct (map fst m)"

lemma map_of_filter_key: "map_of (filter (\<lambda>e. fst e \<noteq> k) m) = (map_of m)(k := None)"
  by (induction m) (auto simp: fun_eq_iff)

lemma map_of_put [store_simps]: "map_of (al_put k v m) = (map_of m)(k \<mapsto> v)"
  by (auto simp: al_put_def map_of_filter_key fun_eq_iff)

lemma map_of_del [store_simps]: "map_of (al_del k m) = (map_of m)(k := None)"
  by (auto simp: al_del_def map_of_filter_key fun_eq_iff)

lemma distinct_map_filter_fst: "distinct (map fst m) \<Longrightarrow> distinct (map fst (filter P m))"
  by (induction m) auto

lemma map_of_sweep:
  assumes "al_wf m"
  shows "map_of (al_sweep live m) k =
    (case map_of m k of None \<Rightarrow> None | Some v \<Rightarrow> if live v then Some v else None)"
  using assms
proof (induction m)
  case Nil
  then show ?case by (simp add: al_sweep_def)
next
  case (Cons e m)
  then have "fst e = k \<Longrightarrow> map_of m k = None"
    by (auto simp: al_wf_def map_of_eq_None_iff)
  with Cons show ?case
    by (cases e) (auto simp: al_sweep_def al_wf_def split: option.splits)
qed

lemma al_wf_simps [simp, store_simps]:
  "al_wf []"
  "al_wf m \<Longrightarrow> al_wf (al_put k v m)"
  "al_wf m \<Longrightarrow> al_wf (al_del k m)"
  "al_wf m \<Longrightarrow> al_wf (al_sweep live m)"
  by (auto simp: al_wf_def al_put_def al_del_def al_sweep_def distinct_map_filter_fst)

lemma length_filter_lt: "x \<in> set xs \<Longrightarrow> \<not> P x \<Longrightarrow> length (filter P xs) < length xs"
  by (induction xs) (auto simp: less_Suc_eq_le)

lemma al_put_length_new:
  "map_of m k = None \<Longrightarrow> length (al_put k v m) = Suc (length m)"
proof -
  assume "map_of m k = None"
  then have "filter (\<lambda>e. fst e \<noteq> k) m = m"
    by (auto simp: map_of_eq_None_iff filter_id_conv)
  then show ?thesis by (simp add: al_put_def)
qed

lemma al_put_length_old:
  assumes "map_of m k \<noteq> None" shows "length (al_put k v m) \<le> length m"
proof -
  from assms obtain v0 where "(k, v0) \<in> set m" by (auto dest: map_of_SomeD)
  then have "length (filter (\<lambda>e. fst e \<noteq> k) m) < length m"
    by (rule length_filter_lt) simp
  then show ?thesis by (simp add: al_put_def)
qed

lemma length_al_put_le: "length (al_put k v m) \<le> Suc (length m)"
  by (simp add: al_put_def)

lemma length_al_del [simp]: "length (al_del k m) \<le> length m"
  by (simp add: al_del_def)

lemma length_al_sweep [simp]: "length (al_sweep live m) \<le> length m"
  by (simp add: al_sweep_def)

subsection \<open>Lists\<close>

lemma filter_length_le1_unique:
  assumes "length (filter P xs) \<le> 1" "i < length xs" "j < length xs" "P (xs ! i)" "P (xs ! j)"
  shows "i = j"
  using assms
proof (induction xs arbitrary: i j)
  case Nil
  then show ?case by simp
next
  case (Cons x xs)
  have none: "length (filter P xs) = 0 \<Longrightarrow> k < length xs \<Longrightarrow> \<not> P (xs ! k)" for k
    by (auto simp: filter_empty_conv)
  show ?case
    using Cons none by (cases i; cases j) (auto split: if_splits)
qed

text \<open>Updating every row of a table that a \<open>WHERE\<close> clause selects.\<close>

definition update_where :: "('r \<Rightarrow> bool) \<Rightarrow> ('r \<Rightarrow> 'r) \<Rightarrow> 'r list \<Rightarrow> 'r list" where
  "update_where p f rows = map (\<lambda>r. if p r then f r else r) rows"

definition count_where :: "('r \<Rightarrow> bool) \<Rightarrow> 'r list \<Rightarrow> nat" where
  "count_where p rows = length (filter p rows)"

lemma set_update_where:
  "set (update_where p f rows) = f ` {r \<in> set rows. p r} \<union> {r \<in> set rows. \<not> p r}"
  by (auto simp: update_where_def)

lemma length_update_where [simp]: "length (update_where p f rows) = length rows"
  by (simp add: update_where_def)

lemma update_where_none: "\<forall>r \<in> set rows. \<not> p r \<Longrightarrow> update_where p f rows = rows"
  by (auto simp: update_where_def intro: map_idI)

lemma map_update_where_frame:
  assumes "\<And>r. g (f r) = g r"
  shows "map g (update_where p f rows) = map g rows"
  using assms by (induction rows) (auto simp: update_where_def)

lemma count_where_0: "count_where p rows = 0 \<longleftrightarrow> (\<forall>r \<in> set rows. \<not> p r)"
  by (auto simp: count_where_def filter_empty_conv)

lemma count_where_pos: "0 < count_where p rows \<longleftrightarrow> (\<exists>r \<in> set rows. p r)"
  using count_where_0[of p rows] by auto

lemma find_None_iff': "List.find p rows = None \<longleftrightarrow> (\<forall>r \<in> set rows. \<not> p r)"
  by (induction rows) auto

lemma find_Some_in: "List.find p rows = Some r \<Longrightarrow> r \<in> set rows \<and> p r"
  by (induction rows) (auto split: if_splits)

lemma find_unique:
  assumes "distinct (map k rows)" "r \<in> set rows"
  shows "List.find (\<lambda>x. k x = k r) rows = Some r"
  using assms by (induction rows) auto

end
