(* ===== verification/Go_Strings.thy ===== *)
theory Go_Strings
  imports Prelude
begin

text \<open>
  The functions of Go's \<open>strings\<close> and \<open>path/filepath\<close> packages the program uses, on byte
  strings (\<open>string\<close> is a list of 8-bit characters, as a Go string is a sequence of
  bytes). Paths are Unix paths. White space and letter case are those of ASCII;
  \<open>to_lower\<close> also maps the two runes outside ASCII whose lower case is an ASCII letter
  (U+212A and U+0130), so that a comparison with an ASCII constant gives the same answer
  as in Go.

  The regular expressions of the program are anchored at both ends and use character
  classes, bounded repetition and one level of grouping; each is a recognizer beside
  the code that compiles it, built from the classes here.
\<close>

subsection \<open>Prefixes, suffixes, substrings\<close>

definition has_prefix :: "string \<Rightarrow> string \<Rightarrow> bool" where
  "has_prefix s p \<longleftrightarrow> take (length p) s = p"

definition has_suffix :: "string \<Rightarrow> string \<Rightarrow> bool" where
  "has_suffix s p \<longleftrightarrow> length p \<le> length s \<and> drop (length s - length p) s = p"

fun contains_str :: "string \<Rightarrow> string \<Rightarrow> bool" where
  "contains_str [] t \<longleftrightarrow> t = []"
| "contains_str (c # s) t \<longleftrightarrow> has_prefix (c # s) t \<or> contains_str s t"

definition contains_any :: "string \<Rightarrow> string \<Rightarrow> bool" where
  "contains_any s cs \<longleftrightarrow> list_ex (\<lambda>c. c \<in> set cs) s"

definition trim_prefix :: "string \<Rightarrow> string \<Rightarrow> string" where
  "trim_prefix s p = (if has_prefix s p then drop (length p) s else s)"

definition trim_suffix :: "string \<Rightarrow> string \<Rightarrow> string" where
  "trim_suffix s p = (if has_suffix s p then take (length s - length p) s else s)"

lemma has_prefix_append [simp, go_simps]: "has_prefix (p @ s) p"
  by (simp add: has_prefix_def)

lemma has_prefix_iff: "has_prefix s p \<longleftrightarrow> (\<exists>t. s = p @ t)"
  by (metis append_take_drop_id has_prefix_def append_eq_conv_conj)

lemma has_suffix_iff: "has_suffix s p \<longleftrightarrow> (\<exists>t. s = t @ p)"
proof
  assume "has_suffix s p"
  then have "s = take (length s - length p) s @ p"
    unfolding has_suffix_def by (metis append_take_drop_id)
  then show "\<exists>t. s = t @ p" by blast
qed (auto simp: has_suffix_def)

lemma trim_prefix_append [simp, go_simps]: "trim_prefix (p @ s) p = s"
  by (simp add: trim_prefix_def)

lemma contains_str_iff: "contains_str s t \<longleftrightarrow> (\<exists>a b. s = a @ t @ b)"
proof (induction s)
  case Nil
  then show ?case by auto
next
  case (Cons c s)
  show ?case
  proof
    assume "contains_str (c # s) t"
    then show "\<exists>a b. c # s = a @ t @ b"
    proof (simp, elim disjE)
      assume "has_prefix (c # s) t"
      then obtain b where "c # s = t @ b" by (auto simp: has_prefix_iff)
      then show ?thesis by (metis append_Nil)
    next
      assume "contains_str s t"
      with Cons obtain a b where "s = a @ t @ b" by auto
      then show ?thesis by (metis append_Cons)
    qed
  next
    assume "\<exists>a b. c # s = a @ t @ b"
    then obtain a b where ab: "c # s = a @ t @ b" by auto
    show "contains_str (c # s) t"
    proof (cases a)
      case Nil
      with ab have "has_prefix (c # s) t" by (simp add: has_prefix_iff)
      then show ?thesis by simp
    next
      case (Cons d a')
      with ab have "s = a' @ t @ b" by simp
      with Cons.IH show ?thesis by auto
    qed
  qed
qed

subsection \<open>Splitting, joining, trimming\<close>

text \<open>\<open>strings.Split\<close> by a one-byte separator; the result is never empty.\<close>

fun split_on :: "char \<Rightarrow> string \<Rightarrow> string list" where
  "split_on d [] = [[]]"
| "split_on d (c # s) =
     (if c = d then [] # split_on d s
      else (case split_on d s of [] \<Rightarrow> [[c]] | w # ws \<Rightarrow> (c # w) # ws))"

fun join_with :: "string \<Rightarrow> string list \<Rightarrow> string" where
  "join_with d [] = []"
| "join_with d [w] = w"
| "join_with d (w # v # ws) = w @ d @ join_with d (v # ws)"

text \<open>\<open>strings.Cut\<close> at the first separator.\<close>

fun cut_at :: "char \<Rightarrow> string \<Rightarrow> string \<times> string \<times> bool" where
  "cut_at d [] = ([], [], False)"
| "cut_at d (c # s) =
     (if c = d then ([], s, True)
      else (case cut_at d s of (a, b, found) \<Rightarrow> (c # a, b, found)))"

definition before :: "char \<Rightarrow> string \<Rightarrow> string" where
  "before d s = takeWhile (\<lambda>c. c \<noteq> d) s"

lemma split_on_nonempty [simp]: "split_on d s \<noteq> []"
  by (induction s) (auto split: list.splits)

lemma join_split [simp]: "join_with [d] (split_on d s) = s"
proof (induction s)
  case Nil
  then show ?case by simp
next
  case (Cons c s)
  obtain w ws where "split_on d s = w # ws" by (cases "split_on d s") auto
  with Cons show ?case by (cases ws) auto
qed

lemma split_on_no_sep: "w \<in> set (split_on d s) \<Longrightarrow> d \<notin> set w"
  by (induction s arbitrary: w) (auto split: if_splits list.splits)

lemma hd_split_on: "hd (split_on d s) = before d s"
  by (induction s) (auto simp: before_def split: list.splits)

definition is_space :: "char \<Rightarrow> bool" where
  "is_space c \<longleftrightarrow> c \<in> {CHR 0x20, CHR 0x09, CHR 0x0A, CHR 0x0B, CHR 0x0C, CHR 0x0D}"

definition trim_space :: "string \<Rightarrow> string" where
  "trim_space s = rev (dropWhile is_space (rev (dropWhile is_space s)))"

fun fields_go :: "string \<Rightarrow> string \<Rightarrow> string list" where
  "fields_go cur [] = (if cur = [] then [] else [rev cur])"
| "fields_go cur (c # s) =
     (if is_space c then (if cur = [] then fields_go [] s else rev cur # fields_go [] s)
      else fields_go (c # cur) s)"

definition fields :: "string \<Rightarrow> string list" where
  "fields s = fields_go [] s"

lemma fields_go_nonempty: "w \<in> set (fields_go cur s) \<Longrightarrow> w \<noteq> []"
  by (induction cur s rule: fields_go.induct) (auto split: if_splits)

lemma fields_nonempty: "[] \<notin> set (fields s)"
  using fields_go_nonempty[of "[]" "[]" s] by (auto simp: fields_def)

abbreviation newline :: char where "newline \<equiv> CHR 0x0A"

definition lines :: "string \<Rightarrow> string list" where
  "lines s = split_on newline s"

subsection \<open>Letter case and character classes\<close>

definition is_upper :: "char \<Rightarrow> bool" where
  "is_upper c \<longleftrightarrow> 65 \<le> (of_char c :: nat) \<and> (of_char c :: nat) \<le> 90"

definition is_lower :: "char \<Rightarrow> bool" where
  "is_lower c \<longleftrightarrow> 97 \<le> (of_char c :: nat) \<and> (of_char c :: nat) \<le> 122"

definition is_digit :: "char \<Rightarrow> bool" where
  "is_digit c \<longleftrightarrow> 48 \<le> (of_char c :: nat) \<and> (of_char c :: nat) \<le> 57"

definition is_alnum :: "char \<Rightarrow> bool" where
  "is_alnum c \<longleftrightarrow> is_upper c \<or> is_lower c \<or> is_digit c"

definition is_lower_alnum :: "char \<Rightarrow> bool" where
  "is_lower_alnum c \<longleftrightarrow> is_lower c \<or> is_digit c"

definition is_lower_hex :: "char \<Rightarrow> bool" where
  "is_lower_hex c \<longleftrightarrow> is_digit c \<or> (97 \<le> (of_char c :: nat) \<and> (of_char c :: nat) \<le> 102)"

definition lower_char :: "char \<Rightarrow> char" where
  "lower_char c = (if is_upper c then char_of ((of_char c :: nat) + 32) else c)"

fun to_lower :: "string \<Rightarrow> string" where
  "to_lower (c1 # c2 # c3 # s) =
     (if c1 = CHR 0xE2 \<and> c2 = CHR 0x84 \<and> c3 = CHR 0xAA then CHR ''k'' # to_lower s
      else if c1 = CHR 0xC4 \<and> c2 = CHR 0xB0 then CHR ''i'' # to_lower (c3 # s)
      else lower_char c1 # to_lower (c2 # c3 # s))"
| "to_lower [c1, c2] =
     (if c1 = CHR 0xC4 \<and> c2 = CHR 0xB0 then ''i'' else [lower_char c1, lower_char c2])"
| "to_lower [c] = [lower_char c]"
| "to_lower [] = []"

text \<open>
  \<open>strings.EqualFold\<close>: equality of the case-folded strings; U+212A folds to \<open>k\<close> and
  U+017F to \<open>s\<close>, the two runes outside ASCII with an ASCII letter in their orbit.
\<close>

fun fold_case :: "string \<Rightarrow> string" where
  "fold_case (c1 # c2 # c3 # s) =
     (if c1 = CHR 0xE2 \<and> c2 = CHR 0x84 \<and> c3 = CHR 0xAA then CHR ''k'' # fold_case s
      else if c1 = CHR 0xC5 \<and> c2 = CHR 0xBF then CHR ''s'' # fold_case (c3 # s)
      else lower_char c1 # fold_case (c2 # c3 # s))"
| "fold_case [c1, c2] =
     (if c1 = CHR 0xC5 \<and> c2 = CHR 0xBF then ''s'' else [lower_char c1, lower_char c2])"
| "fold_case [c] = [lower_char c]"
| "fold_case [] = []"

definition equal_fold :: "string \<Rightarrow> string \<Rightarrow> bool" where
  "equal_fold s t \<longleftrightarrow> fold_case s = fold_case t"

text \<open>A string of \<open>lo\<close> to \<open>hi\<close> characters of a class: \<open>^[class]{lo,hi}$\<close>.\<close>

definition class_rep :: "(char \<Rightarrow> bool) \<Rightarrow> nat \<Rightarrow> nat \<Rightarrow> string \<Rightarrow> bool" where
  "class_rep p lo hi s \<longleftrightarrow> lo \<le> length s \<and> length s \<le> hi \<and> list_all p s"

text \<open>Decimal digits of a natural number (\<open>strconv.Itoa\<close>, \<open>%d\<close>).\<close>

fun digits_of :: "nat \<Rightarrow> string" where
  "digits_of n = (if n < 10 then [char_of (48 + n)]
     else digits_of (n div 10) @ [char_of (48 + n mod 10)])"

declare digits_of.simps [simp del]

definition show_int :: "int \<Rightarrow> string" where
  "show_int i = (if i < 0 then CHR ''-'' # digits_of (nat (- i)) else digits_of (nat i))"

subsection \<open>File paths\<close>

definition is_abs :: "string \<Rightarrow> bool" where
  "is_abs p \<longleftrightarrow> has_prefix p ''/''"

text \<open>
  \<open>filepath.Clean\<close>: the components of the path without empty and \<open>.\<close> ones, where \<open>..\<close>
  removes the component before it. The stack holds the components, last one first.
\<close>

fun clean_step :: "bool \<Rightarrow> string list \<Rightarrow> string list \<Rightarrow> string list" where
  "clean_step rooted st [] = rev st"
| "clean_step rooted st (w # ws) =
     (if w = [] \<or> w = ''.'' then clean_step rooted st ws
      else if w = ''..'' then
        (case st of
           [] \<Rightarrow> if rooted then clean_step rooted [] ws else clean_step rooted [''..''] ws
         | t # st' \<Rightarrow> if t = ''..'' then clean_step rooted (''..'' # st) ws
                     else clean_step rooted st' ws)
      else clean_step rooted (w # st) ws)"

definition clean_components :: "string \<Rightarrow> string list" where
  "clean_components p = clean_step (is_abs p) [] (split_on CHR ''/'' p)"

definition path_clean :: "string \<Rightarrow> string" where
  "path_clean p =
     (let ws = clean_components p
      in if is_abs p then CHR ''/'' # join_with ''/'' ws
         else if ws = [] then ''.'' else join_with ''/'' ws)"

definition path_join :: "string list \<Rightarrow> string" where
  "path_join ws =
     (let ne = filter (\<lambda>w. w \<noteq> []) ws
      in if ne = [] then [] else path_clean (join_with ''/'' ne))"

text \<open>\<open>filepath.IsLocal\<close> on Unix.\<close>

definition is_local :: "string \<Rightarrow> bool" where
  "is_local p \<longleftrightarrow>
     \<not> is_abs p \<and> p \<noteq> [] \<and>
     (let q = (if list_ex (\<lambda>w. w = ''.'' \<or> w = ''..'') (split_on CHR ''/'' p)
               then path_clean p else p)
      in q \<noteq> ''..'' \<and> \<not> has_prefix q ''../'')"

text \<open>\<open>filepath.Base\<close> and \<open>filepath.Dir\<close>.\<close>

definition path_base :: "string \<Rightarrow> string" where
  "path_base p =
     (if p = [] then ''.''
      else let q = rev (dropWhile (\<lambda>c. c = CHR ''/'') (rev p))
           in if q = [] then ''/'' else last (split_on CHR ''/'' q))"

definition path_dir :: "string \<Rightarrow> string" where
  "path_dir p = path_clean (rev (dropWhile (\<lambda>c. c \<noteq> CHR ''/'') (rev p)))"

text \<open>
  \<open>filepath.Rel\<close> from one cleaned path to another: the components after the longest
  common prefix, behind one \<open>..\<close> per component of the base that is left. It fails when
  only one of the two is absolute, or when the base has a \<open>..\<close> left.
\<close>

fun drop_common :: "string list \<Rightarrow> string list \<Rightarrow> string list \<times> string list" where
  "drop_common (a # as) (b # bs) =
     (if a = b then drop_common as bs else (a # as, b # bs))"
| "drop_common as bs = (as, bs)"

definition path_rel :: "string \<Rightarrow> string \<Rightarrow> string option" where
  "path_rel base targ =
     (if is_abs base \<noteq> is_abs targ then None
      else case drop_common (clean_components base) (clean_components targ) of
        (bs, ts) \<Rightarrow>
          if ''..'' \<in> set bs then None
          else let ws = map (\<lambda>_. ''..'') bs @ ts
               in Some (if ws = [] then ''.'' else join_with ''/'' ws))"

end
