(* ===== verification/Go_Paths.thy ===== *)
theory Go_Paths
  imports Go_Strings
begin

text \<open>
  Lemmas on \<open>filepath\<close>: what \<open>Clean\<close>, \<open>Dir\<close> and \<open>Rel\<close> do to the components of a path. A normal
  component is non-empty, has no slash and is neither \<open>.\<close> nor \<open>..\<close>.
\<close>

subsection \<open>Components\<close>

lemma split_on_append: "d \<notin> set a \<Longrightarrow> split_on d (a @ d # b) = a # split_on d b"
  by (induction a) auto

lemma split_on_single: "d \<notin> set b \<Longrightarrow> split_on d b = [b]"
  by (induction b) auto

lemma clean_step_no_dotdot:
  "''..'' \<notin> set st \<Longrightarrow> ''..'' \<notin> set (clean_step True st ws)"
  by (induction "True" st ws rule: clean_step.induct) (auto split: list.splits)

lemma clean_components_rooted: "is_abs p \<Longrightarrow> ''..'' \<notin> set (clean_components p)"
  by (simp add: clean_components_def clean_step_no_dotdot)

lemma drop_common_prefix:
  "drop_common as bs = (xs, ys) \<Longrightarrow> \<exists>zs. as = zs @ xs \<and> bs = zs @ ys"
  by (induction as bs rule: drop_common.induct) (auto split: if_splits intro: exI[of _ "_ # _"])

lemma drop_common_self: "drop_common zs (zs @ ys) = ([], ys)"
  by (induction zs) auto

lemma clean_step_no_slash:
  "\<forall>w \<in> set st \<union> set ws. CHR ''/'' \<notin> set w \<Longrightarrow> w \<in> set (clean_step r st ws) \<Longrightarrow> CHR ''/'' \<notin> set w"
  by (induction r st ws rule: clean_step.induct) (auto split: if_splits list.splits)

lemma join_dotdot_prefix:
  assumes "''..'' \<notin> set ws" "\<forall>w \<in> set ws. CHR ''/'' \<notin> set w" "ws \<noteq> []"
  shows "join_with ''/'' ws \<noteq> ''..''" "\<not> has_prefix (join_with ''/'' ws) ''../''"
proof -
  obtain w rest where ws: "ws = w # rest" using assms(3) by (cases ws) auto
  have split: "split_on CHR ''/'' (join_with ''/'' ws) = ws"
    using assms(2,3)
  proof (induction ws rule: induct_list012)
    case (3 x y zs)
    then show ?case by (simp add: split_on_append)
  qed (simp_all add: split_on_single)
  show "join_with ''/'' ws \<noteq> ''..''"
  proof
    assume "join_with ''/'' ws = ''..''"
    then have "ws = [''..'']" using split by (simp add: split_on_single)
    then show False using assms(1) by simp
  qed
  show "\<not> has_prefix (join_with ''/'' ws) ''../''"
  proof
    assume "has_prefix (join_with ''/'' ws) ''../''"
    then obtain z where "join_with ''/'' ws = ''..'' @ CHR ''/'' # z" by (auto simp: has_prefix_iff)
    then have "ws = ''..'' # split_on CHR ''/'' z"
      using split split_on_append[of "CHR ''/''" "''..''" z] by simp
    then show False using assms(1) by simp
  qed
qed

lemma clean_components_no_slash: "w \<in> set (clean_components p) \<Longrightarrow> CHR ''/'' \<notin> set w"
  unfolding clean_components_def
  by (rule clean_step_no_slash[where st = "[]" and ws = "split_on CHR ''/'' p" and r = "is_abs p"])
    (auto dest: split_on_no_sep)

subsection \<open>Cleaned absolute paths\<close>

definition normal_component :: "string \<Rightarrow> bool" where
  "normal_component w \<longleftrightarrow> w \<noteq> [] \<and> w \<noteq> ''.'' \<and> w \<noteq> ''..'' \<and> CHR ''/'' \<notin> set w"

definition abs_path :: "string list \<Rightarrow> string" where
  "abs_path ws = CHR ''/'' # join_with ''/'' ws"

lemma clean_step_normal:
  "list_all normal_component st \<Longrightarrow> \<forall>w \<in> set ws. CHR ''/'' \<notin> set w
    \<Longrightarrow> list_all normal_component (clean_step True st ws)"
  by (induction "True" st ws rule: clean_step.induct)
    (auto simp: normal_component_def split: list.splits)

lemma clean_components_normal: "is_abs p \<Longrightarrow> list_all normal_component (clean_components p)"
  by (auto simp: clean_components_def dest: split_on_no_sep
      intro!: clean_step_normal[of "[]" "split_on CHR ''/'' p"])

lemma path_clean_abs: "is_abs p \<Longrightarrow> path_clean p = abs_path (clean_components p)"
  by (simp add: path_clean_def abs_path_def Let_def)

lemma clean_step_keeps:
  "\<forall>w \<in> set ws. w = [] \<or> normal_component w
    \<Longrightarrow> clean_step True st ws = rev st @ filter (\<lambda>w. w \<noteq> []) ws"
  by (induction ws arbitrary: st) (auto simp: normal_component_def)

lemma split_on_join_slash:
  "list_all normal_component ws \<Longrightarrow> ws \<noteq> [] \<Longrightarrow>
     split_on CHR ''/'' (join_with ''/'' ws @ ''/'') = ws @ [[]]"
proof (induction ws rule: induct_list012)
  case (2 x)
  then show ?case by (simp add: split_on_append normal_component_def)
next
  case (3 x y zs)
  then show ?case by (simp add: split_on_append normal_component_def)
qed simp

lemma join_with_snoc: "ws \<noteq> [] \<Longrightarrow> join_with d (ws @ [w]) = join_with d ws @ d @ w"
  by (induction ws rule: induct_list012) auto

lemma filter_nonempty_normal: "list_all normal_component ws \<Longrightarrow> filter (\<lambda>w. w \<noteq> []) ws = ws"
  by (auto simp: list_all_iff normal_component_def filter_id_conv)

lemma path_dir_root: "path_dir (abs_path []) = abs_path []"
  by (simp add: path_dir_def abs_path_def path_clean_def clean_components_def is_abs_def has_prefix_def)

lemma drop_last_component:
  assumes "CHR ''/'' \<notin> set w"
  shows "rev (dropWhile (\<lambda>c. c \<noteq> CHR ''/'') (rev (a @ CHR ''/'' # w))) = a @ ''/''"
proof -
  have "dropWhile (\<lambda>c. c \<noteq> CHR ''/'') (rev w @ CHR ''/'' # rev a) = CHR ''/'' # rev a"
    using assms by (subst dropWhile_append2) auto
  then show ?thesis by simp
qed

lemma path_dir_snoc:
  assumes "list_all normal_component ws" "normal_component w"
  shows "path_dir (abs_path (ws @ [w])) = abs_path ws"
proof (cases "ws = []")
  case True
  have "path_dir (abs_path [w]) = path_clean ''/''"
    using drop_last_component[of w "[]"] assms(2)
    by (simp add: path_dir_def abs_path_def normal_component_def)
  with True show ?thesis
    by (simp add: path_clean_def clean_components_def abs_path_def is_abs_def has_prefix_def)
next
  case False
  let ?a = "abs_path ws"
  have "path_dir (abs_path (ws @ [w])) = path_clean (?a @ ''/'')"
    using drop_last_component[of w ?a] assms(2) False
    by (simp add: path_dir_def abs_path_def join_with_snoc normal_component_def)
  moreover have "is_abs (?a @ ''/'')" by (simp add: is_abs_def abs_path_def has_prefix_def)
  moreover have "clean_components (?a @ ''/'') = ws"
  proof -
    have split: "split_on CHR ''/'' (?a @ ''/'') = [] # ws @ [[]]"
      using split_on_join_slash[OF assms(1) False] by (simp add: abs_path_def)
    have "clean_step True [] ([] # ws @ [[]]) = ws"
      using assms(1) by (subst clean_step_keeps) (auto simp: filter_nonempty_normal list_all_iff)
    with split \<open>is_abs (?a @ ''/'')\<close> show ?thesis by (simp add: clean_components_def)
  qed
  ultimately show ?thesis by (simp add: path_clean_abs)
qed

lemma join_with_empty: "list_all normal_component ws \<Longrightarrow> join_with ''/'' ws = [] \<longleftrightarrow> ws = []"
  by (cases ws rule: remdups_adj.cases) (auto simp: normal_component_def)

lemma abs_path_snoc_neq:
  assumes "list_all normal_component ws" "normal_component w"
  shows "abs_path ws \<noteq> abs_path (ws @ [w])"
  using assms by (cases "ws = []") (auto simp: abs_path_def join_with_snoc normal_component_def)

end
