(* ===== verification/Fleet_Config.thy ===== *)
theory Fleet_Config
  imports Go_Paths
begin

text \<open>
  \<open>internal/config/config.go\<close>: the configuration, its validation, the release target
  policies and the loading order (defaults, file, environment). Durations are integers
  in nanoseconds. Three library parsers are parameters: \<open>toml\<close> (a third-party package,
  which fills a configuration from the text of a file), \<open>url\<close> for \<open>url.Parse\<close> and \<open>dur\<close>
  for \<open>time.ParseDuration\<close>; no law is assumed of them. The \<open>fleet\<close> section
  (\<open>internal/fleet\<close>) is left out of the record: no function of this file reads it.
\<close>

subsection \<open>The configuration\<close>

type_synonym duration = int
type_synonym time = int

abbreviation millisecond :: duration where "millisecond \<equiv> 1000000"
abbreviation second :: duration where "second \<equiv> 1000000000"
abbreviation minute :: duration where "minute \<equiv> 60 * second"
abbreviation hour :: duration where "hour \<equiv> 60 * minute"

record AuditConfig =
  au_Journal :: bool
  au_Enabled :: bool
  au_LogPath :: string

record OIDCConfig =
  oidc_Enabled :: bool
  oidc_Issuer :: string
  oidc_ClientID :: string
  oidc_ClientSecretFile :: string
  oidc_PublicURL :: string
  oidc_AdminGroup :: string
  oidc_AuthenticationMethod :: string

record ServerConfig =
  sc_BasePath :: string
  sc_Domain :: string
  sc_EncryptionKey :: string
  sc_APIToken :: string
  sc_MetricsToken :: string
  sc_OIDC :: OIDCConfig
  sc_WebhookSecret :: string
  sc_MaxConcurrentDeploys :: int

record TraefikConfig =
  tc_Network :: string
  tc_Entrypoint :: string
  tc_CertResolver :: string

record DefaultsConfig =
  dc_Template :: string
  dc_PostgresVersion :: string

record BackupRemoteConfig =
  br_Driver :: string
  br_Target :: string
  br_AutoPush :: bool

record BackupConfig =
  bc_BasePath :: string
  bc_MaxManualBackups :: int
  bc_MaxSnapshots :: int
  bc_MaxAgeDays :: int
  bc_MaxTotalSizeGB :: int
  bc_AutoSnapshot :: bool
  bc_Remote :: BackupRemoteConfig

record DiscoveryConfig =
  dsc_SearchPaths :: "string list"
  dsc_ExcludePaths :: "string list"

record MonitoringConfig =
  mc_StateFile :: string
  mc_TelegramConfigFile :: string
  mc_SMTPConfigFile :: string
  mc_EmailTo :: "string list"
  mc_Enabled :: bool
  mc_Interval :: string
  mc_Timeout :: string
  mc_WebhookURL :: string
  mc_SlackURL :: string
  mc_Threshold :: int

record DNSConfig =
  dns_Provider :: string
  dns_APIToken :: string

record DeployConfig =
  dep_Strategy :: string
  dep_DefaultProfile :: string
  dep_Timeout :: string

record ReleaseTargetConfig =
  rt_ImageRepositories :: "(string \<times> string) list"
  rt_Project :: string
  rt_Environment :: string
  rt_Profile :: string
  rt_ComposeFile :: string
  rt_MigrationService :: string
  rt_MigrationArgs :: "string list"
  rt_HealthProfile :: string
  rt_HealthURLs :: "string list"
  rt_HealthMaxAttempts :: int
  rt_HealthRetryInterval :: string
  rt_HealthTimeout :: string

record ReleaseConfig =
  rc_Enabled :: bool
  rc_AllowProduction :: bool
  rc_ProductionBackupCommand :: string
  rc_Targets :: "(string \<times> ReleaseTargetConfig) list"

record Config =
  cfg_Server :: ServerConfig
  cfg_Traefik :: TraefikConfig
  cfg_GitHub_DefaultOrg :: string
  cfg_Defaults :: DefaultsConfig
  cfg_Backup :: BackupConfig
  cfg_Discovery :: DiscoveryConfig
  cfg_Audit :: AuditConfig
  cfg_Monitoring :: MonitoringConfig
  cfg_DNS :: DNSConfig
  cfg_Deploy :: DeployConfig
  cfg_Release :: ReleaseConfig

text \<open>What the program reads of a parsed URL.\<close>

record url =
  url_Scheme :: string
  url_Host :: string
  url_HasUser :: bool
  url_Path :: string
  url_RawQuery :: string
  url_Fragment :: string

datatype config_error =
    ShortEncryptionKey nat
  | InvalidStrategy string
  | InvalidDefaultProfile string
  | InvalidDNSProvider string
  | NegativeConcurrency int
  | NegativeRetention
  | NoReleaseTargets
  | BackupCommandRequired
  | InvalidTargetID string
  | InvalidTargetField string
  | InvalidTargetEnvironment string
  | ProductionDisabled string
  | InvalidComposeFile string
  | HealthURLCount string
  | InvalidHealthURL string
  | InsecureHealthURL string
  | InvalidHealthPolicy string
  | MigrationTogether string
  | InvalidMigrationService string
  | InvalidMigrationArg string
  | AttemptsOutOfRange
  | DurationOutOfRange string
  | RetryNotShorter
  | UnreadableFile
  | InvalidTOML

subsection \<open>Release targets\<close>

record ReleaseHealthPolicy =
  hp_MaxAttempts :: int
  hp_RetryInterval :: duration
  hp_Timeout :: duration

definition releaseDuration ::
  "(string \<Rightarrow> duration option) \<Rightarrow> string \<Rightarrow> duration \<Rightarrow> duration \<Rightarrow> duration \<Rightarrow> string
    \<Rightarrow> config_error + duration" where
  "releaseDuration dur raw fallback minimum maximum name =
     (if raw = [] then Inr fallback
      else case dur raw of
        None \<Rightarrow> Inl (DurationOutOfRange name)
      | Some parsed \<Rightarrow>
          if parsed < minimum \<or> parsed > maximum then Inl (DurationOutOfRange name)
          else Inr parsed)"

definition HealthReadinessPolicy ::
  "(string \<Rightarrow> duration option) \<Rightarrow> ReleaseTargetConfig \<Rightarrow> config_error + ReleaseHealthPolicy" where
  "HealthReadinessPolicy dur target =
     (let maxAttempts = (if rt_HealthMaxAttempts target = 0 then 1
                         else rt_HealthMaxAttempts target)
      in if maxAttempts < 1 \<or> maxAttempts > 60 then Inl AttemptsOutOfRange
         else case releaseDuration dur (rt_HealthRetryInterval target) (2 * second)
                     (100 * millisecond) (30 * second) ''health_retry_interval'' of
           Inl e \<Rightarrow> Inl e
         | Inr retryInterval \<Rightarrow>
             (case releaseDuration dur (rt_HealthTimeout target) (10 * second)
                     second (10 * minute) ''health_timeout'' of
                Inl e \<Rightarrow> Inl e
              | Inr timeout \<Rightarrow>
                  if maxAttempts > 1 \<and> retryInterval \<ge> timeout then Inl RetryNotShorter
                  else Inr \<lparr>hp_MaxAttempts = maxAttempts, hp_RetryInterval = retryInterval,
                            hp_Timeout = timeout\<rparr>))"

text \<open>\<open>^[a-zA-Z0-9][a-zA-Z0-9._-]{0,127}$\<close>, here and in the release contract.\<close>

definition identifier_char :: "char \<Rightarrow> bool" where
  "identifier_char c \<longleftrightarrow> is_alnum c \<or> c = CHR ''.'' \<or> c = CHR ''_'' \<or> c = CHR ''-''"

fun releaseIdentifierPattern :: "string \<Rightarrow> bool" where
  "releaseIdentifierPattern [] \<longleftrightarrow> False"
| "releaseIdentifierPattern (c # cs) \<longleftrightarrow> is_alnum c \<and> class_rep identifier_char 0 127 cs"

definition valid_health_url ::
  "(string \<Rightarrow> url option) \<Rightarrow> string \<Rightarrow> ReleaseTargetConfig \<Rightarrow> string \<Rightarrow> config_error option" where
  "valid_health_url parse tid target raw =
     (case parse raw of
        None \<Rightarrow> Some (InvalidHealthURL tid)
      | Some u \<Rightarrow> first_error
          [(url_Host u = [] \<or> url_HasUser u \<or> (url_Scheme u \<noteq> ''http'' \<and> url_Scheme u \<noteq> ''https''),
              InvalidHealthURL tid),
           (rt_Environment target = ''production'' \<and> url_Scheme u \<noteq> ''https'',
              InsecureHealthURL tid)])"

definition validateReleaseTarget ::
  "(string \<Rightarrow> url option) \<Rightarrow> (string \<Rightarrow> duration option) \<Rightarrow> bool \<Rightarrow> string \<times> ReleaseTargetConfig
    \<Rightarrow> config_error option" where
  "validateReleaseTarget parse dur allow entry =
     (case entry of (tid, target) \<Rightarrow>
      case first_error
        [(\<not> releaseIdentifierPattern tid, InvalidTargetID tid),
         (\<not> list_all releaseIdentifierPattern
              [rt_Project target, rt_Profile target, rt_HealthProfile target],
            InvalidTargetField tid),
         (rt_Environment target \<noteq> ''staging'' \<and> rt_Environment target \<noteq> ''production'',
            InvalidTargetEnvironment tid),
         (rt_Environment target = ''production'' \<and> \<not> allow, ProductionDisabled tid),
         (rt_ComposeFile target = [] \<or> is_abs (rt_ComposeFile target)
            \<or> path_base (rt_ComposeFile target) \<noteq> rt_ComposeFile target, InvalidComposeFile tid),
         (rt_HealthURLs target = [] \<or> length (rt_HealthURLs target) > 16, HealthURLCount tid)] of
        Some e \<Rightarrow> Some e
      | None \<Rightarrow>
          (case first_some (valid_health_url parse tid target) (rt_HealthURLs target) of
             Some e \<Rightarrow> Some e
           | None \<Rightarrow>
               (case HealthReadinessPolicy dur target of
                  Inl _ \<Rightarrow> Some (InvalidHealthPolicy tid)
                | Inr _ \<Rightarrow>
                    first_error
                      [((rt_MigrationService target = []) \<noteq> (rt_MigrationArgs target = []),
                          MigrationTogether tid),
                       (rt_MigrationService target \<noteq> []
                          \<and> \<not> releaseIdentifierPattern (rt_MigrationService target),
                          InvalidMigrationService tid),
                       (list_ex (\<lambda>arg. arg = [] \<or> CHR 0x00 \<in> set arg \<or> length arg > 512)
                          (rt_MigrationArgs target), InvalidMigrationArg tid)])))"

definition validateReleaseConfig ::
  "(string \<Rightarrow> url option) \<Rightarrow> (string \<Rightarrow> duration option) \<Rightarrow> ReleaseConfig \<Rightarrow> config_error option" where
  "validateReleaseConfig parse dur release =
     (if \<not> rc_Enabled release then None
      else case first_error
        [(rc_Targets release = [], NoReleaseTargets),
         (rc_AllowProduction release
            \<and> (rc_ProductionBackupCommand release = []
               \<or> \<not> is_abs (rc_ProductionBackupCommand release)
               \<or> CHR 0x00 \<in> set (rc_ProductionBackupCommand release)), BackupCommandRequired)] of
        Some e \<Rightarrow> Some e
      | None \<Rightarrow> first_some (validateReleaseTarget parse dur (rc_AllowProduction release))
                  (rc_Targets release))"

subsection \<open>Validation and loading\<close>

definition minEncryptionKeyChars :: nat where "minEncryptionKeyChars = 16"

definition validate_config ::
  "(string \<Rightarrow> url option) \<Rightarrow> (string \<Rightarrow> duration option) \<Rightarrow> Config \<Rightarrow> config_error option" where
  "validate_config parse dur c =
     (case first_error
        [(sc_EncryptionKey (cfg_Server c) \<noteq> []
            \<and> length (sc_EncryptionKey (cfg_Server c)) < minEncryptionKeyChars,
            ShortEncryptionKey (length (sc_EncryptionKey (cfg_Server c)))),
         (dep_Strategy (cfg_Deploy c) \<notin> set [[], ''basic'', ''bluegreen'', ''rolling''],
            InvalidStrategy (dep_Strategy (cfg_Deploy c))),
         (dep_DefaultProfile (cfg_Deploy c) \<notin>
            set [[], ''bare'', ''server'', ''saas'', ''static'', ''worker'', ''fullstack''],
            InvalidDefaultProfile (dep_DefaultProfile (cfg_Deploy c))),
         (dns_Provider (cfg_DNS c) \<notin> set [[], ''cloudflare''],
            InvalidDNSProvider (dns_Provider (cfg_DNS c))),
         (sc_MaxConcurrentDeploys (cfg_Server c) < 0,
            NegativeConcurrency (sc_MaxConcurrentDeploys (cfg_Server c))),
         (bc_MaxManualBackups (cfg_Backup c) < 0 \<or> bc_MaxSnapshots (cfg_Backup c) < 0
            \<or> bc_MaxAgeDays (cfg_Backup c) < 0 \<or> bc_MaxTotalSizeGB (cfg_Backup c) < 0,
            NegativeRetention)] of
        Some e \<Rightarrow> Some e
      | None \<Rightarrow> validateReleaseConfig parse dur (cfg_Release c))"

definition DefaultConfigPath :: string where
  "DefaultConfigPath = ''/etc/fleetdeck/config.toml''"

definition DefaultConfig :: Config where
  "DefaultConfig =
    \<lparr>cfg_Server = \<lparr>sc_BasePath = ''/opt/fleetdeck'', sc_Domain = [], sc_EncryptionKey = [],
       sc_APIToken = [], sc_MetricsToken = [],
       sc_OIDC = \<lparr>oidc_Enabled = False, oidc_Issuer = [], oidc_ClientID = [],
         oidc_ClientSecretFile = [], oidc_PublicURL = [], oidc_AdminGroup = [],
         oidc_AuthenticationMethod = []\<rparr>,
       sc_WebhookSecret = [], sc_MaxConcurrentDeploys = 0\<rparr>,
     cfg_Traefik = \<lparr>tc_Network = ''traefik_default'', tc_Entrypoint = ''websecure'',
       tc_CertResolver = ''letsencrypt''\<rparr>,
     cfg_GitHub_DefaultOrg = [],
     cfg_Defaults = \<lparr>dc_Template = ''node'', dc_PostgresVersion = ''15-alpine''\<rparr>,
     cfg_Backup = \<lparr>bc_BasePath = ''/opt/fleetdeck/backups'', bc_MaxManualBackups = 10,
       bc_MaxSnapshots = 20, bc_MaxAgeDays = 30, bc_MaxTotalSizeGB = 5, bc_AutoSnapshot = True,
       bc_Remote = \<lparr>br_Driver = [], br_Target = [], br_AutoPush = False\<rparr>\<rparr>,
     cfg_Discovery = \<lparr>dsc_SearchPaths = [''/opt/fleetdeck'', ''/home'', ''/srv''],
       dsc_ExcludePaths = [''.cache'', ''.local'', ''node_modules'', ''.git'', ''vendor'']\<rparr>,
     cfg_Audit = \<lparr>au_Journal = False, au_Enabled = True,
       au_LogPath = ''/var/log/fleetdeck/audit.log''\<rparr>,
     cfg_Monitoring = \<lparr>mc_StateFile = [], mc_TelegramConfigFile = [], mc_SMTPConfigFile = [],
       mc_EmailTo = [], mc_Enabled = False, mc_Interval = ''30s'', mc_Timeout = ''10s'',
       mc_WebhookURL = [], mc_SlackURL = [], mc_Threshold = 3\<rparr>,
     cfg_DNS = \<lparr>dns_Provider = ''cloudflare'', dns_APIToken = []\<rparr>,
     cfg_Deploy = \<lparr>dep_Strategy = ''basic'', dep_DefaultProfile = ''server'', dep_Timeout = ''5m''\<rparr>,
     cfg_Release = \<lparr>rc_Enabled = False, rc_AllowProduction = False,
       rc_ProductionBackupCommand = [], rc_Targets = []\<rparr>\<rparr>"

text \<open>\<open>os.Getenv\<close> returns the empty string for an unset variable.\<close>

definition applyEnvOverrides :: "(string \<Rightarrow> string) \<Rightarrow> Config \<Rightarrow> Config" where
  "applyEnvOverrides getenv cfg =
     (let over = (\<lambda>name old. if getenv name \<noteq> [] then getenv name else old);
          s = cfg_Server cfg; b = cfg_Backup cfg; d = cfg_DNS cfg; m = cfg_Monitoring cfg
      in cfg\<lparr>cfg_Server := s\<lparr>
               sc_APIToken := over ''FLEETDECK_API_TOKEN'' (sc_APIToken s),
               sc_MetricsToken := over ''FLEETDECK_METRICS_TOKEN'' (sc_MetricsToken s),
               sc_WebhookSecret := over ''FLEETDECK_WEBHOOK_SECRET'' (sc_WebhookSecret s),
               sc_EncryptionKey := over ''FLEETDECK_ENCRYPTION_KEY'' (sc_EncryptionKey s),
               sc_BasePath := over ''FLEETDECK_BASE_PATH'' (sc_BasePath s),
               sc_Domain := over ''FLEETDECK_DOMAIN'' (sc_Domain s)\<rparr>,
             cfg_Backup := b\<lparr>bc_BasePath := over ''FLEETDECK_BACKUP_PATH'' (bc_BasePath b)\<rparr>,
             cfg_DNS := d\<lparr>dns_APIToken := over ''FLEETDECK_DNS_TOKEN'' (dns_APIToken d)\<rparr>,
             cfg_Monitoring := m\<lparr>
               mc_WebhookURL := over ''FLEETDECK_MONITORING_WEBHOOK'' (mc_WebhookURL m),
               mc_SlackURL := over ''FLEETDECK_MONITORING_SLACK'' (mc_SlackURL m),
               mc_TelegramConfigFile := over ''FLEETDECK_TELEGRAM_CONFIG''
                 (mc_TelegramConfigFile m)\<rparr>\<rparr>)"

datatype stat_answer = StatOk | StatNotExist | StatError
datatype read_answer = ReadOk string | ReadNotExist | ReadError

text \<open>The host as \<open>Load\<close> sees it: environment, files and the user's configuration directory.\<close>

record config_host =
  ch_getenv :: "string \<Rightarrow> string"
  ch_stat :: "string \<Rightarrow> stat_answer"
  ch_read :: "string \<Rightarrow> read_answer"
  ch_UserConfigDir :: "string option"

definition applyLocalBasePath :: "config_host \<Rightarrow> Config \<Rightarrow> Config" where
  "applyLocalBasePath h cfg =
     (if ch_getenv h ''FLEETDECK_BASE_PATH'' \<noteq> [] then cfg
      else if ch_stat h (sc_BasePath (cfg_Server cfg)) = StatOk then cfg
      else if ch_getenv h ''HOME'' = [] then cfg
      else cfg\<lparr>cfg_Server := (cfg_Server cfg)\<lparr>sc_BasePath :=
             path_join [ch_getenv h ''HOME'', ''.local'', ''share'', ''fleetdeck'']\<rparr>\<rparr>)"

definition load_path :: "config_host \<Rightarrow> string \<Rightarrow> config_error + string" where
  "load_path h path =
     (if path \<noteq> [] then Inr path
      else case ch_UserConfigDir h of
        None \<Rightarrow> Inr DefaultConfigPath
      | Some dir \<Rightarrow>
          (let userPath = path_join [dir, ''fleetdeck'', ''config.toml'']
           in case ch_stat h userPath of
                StatOk \<Rightarrow> Inr userPath
              | StatNotExist \<Rightarrow> Inr DefaultConfigPath
              | StatError \<Rightarrow> Inl UnreadableFile))"

definition load_config ::
  "(string \<Rightarrow> url option) \<Rightarrow> (string \<Rightarrow> duration option) \<Rightarrow> (string \<Rightarrow> Config \<Rightarrow> Config option)
    \<Rightarrow> config_host \<Rightarrow> string \<Rightarrow> config_error + Config" where
  "load_config parse dur toml h path0 =
     (case load_path h path0 of
        Inl e \<Rightarrow> Inl e
      | Inr path \<Rightarrow>
          (case ch_read h path of
             ReadError \<Rightarrow> Inl UnreadableFile
           | ReadNotExist \<Rightarrow>
               (let cfg = applyLocalBasePath h (applyEnvOverrides (ch_getenv h) DefaultConfig)
                in or_error (validate_config parse dur cfg) cfg)
           | ReadOk data \<Rightarrow>
               (case toml data DefaultConfig of
                  None \<Rightarrow> Inl InvalidTOML
                | Some cfg0 \<Rightarrow>
                    (let cfg = applyEnvOverrides (ch_getenv h) cfg0
                     in or_error (validate_config parse dur cfg) cfg))))"

definition ProjectPath :: "Config \<Rightarrow> string \<Rightarrow> string" where
  "ProjectPath c name = path_join [sc_BasePath (cfg_Server c), name]"

definition DBPath :: "Config \<Rightarrow> string" where
  "DBPath c = path_join [sc_BasePath (cfg_Server c), ''fleetdeck.db'']"

definition BackupPath :: "Config \<Rightarrow> string \<Rightarrow> string" where
  "BackupPath c projectName = path_join [bc_BasePath (cfg_Backup c), projectName]"

subsection \<open>Lemmas\<close>

lemma releaseDuration_bounds:
  assumes "releaseDuration dur raw f lo hi n = Inr d" "lo \<le> f" "f \<le> hi"
  shows "lo \<le> d \<and> d \<le> hi"
  using assms by (auto simp: releaseDuration_def split: if_splits option.splits)

lemma HealthReadinessPolicy_bounds:
  assumes "HealthReadinessPolicy dur t = Inr p"
  shows "1 \<le> hp_MaxAttempts p \<and> hp_MaxAttempts p \<le> 60
    \<and> 100 * millisecond \<le> hp_RetryInterval p \<and> hp_RetryInterval p \<le> 30 * second
    \<and> second \<le> hp_Timeout p \<and> hp_Timeout p \<le> 10 * minute
    \<and> (1 < hp_MaxAttempts p \<longrightarrow> hp_RetryInterval p < hp_Timeout p)"
  using assms
  by (auto simp: HealthReadinessPolicy_def Let_def split: if_splits sum.splits
      dest!: releaseDuration_bounds)

lemma releaseIdentifierPattern_ascii:
  "releaseIdentifierPattern s \<Longrightarrow> c \<in> set s \<Longrightarrow> identifier_char c"
  by (cases s) (auto simp: class_rep_def identifier_char_def list_all_iff)

lemma releaseIdentifierPattern_length:
  "releaseIdentifierPattern s \<Longrightarrow> 1 \<le> length s \<and> length s \<le> 128"
  by (cases s) (auto simp: class_rep_def)

lemma validateReleaseTarget_None:
  assumes "validateReleaseTarget parse dur allow (tid, t) = None"
  shows "releaseIdentifierPattern tid" "releaseIdentifierPattern (rt_Project t)"
    "releaseIdentifierPattern (rt_Profile t)" "releaseIdentifierPattern (rt_HealthProfile t)"
    "rt_Environment t = ''staging'' \<or> rt_Environment t = ''production''"
    "rt_Environment t = ''production'' \<longrightarrow> allow"
    "rt_ComposeFile t \<noteq> []" "path_base (rt_ComposeFile t) = rt_ComposeFile t"
    "\<not> is_abs (rt_ComposeFile t)"
    "is_ok (HealthReadinessPolicy dur t)"
    "rt_HealthURLs t \<noteq> []" "length (rt_HealthURLs t) \<le> 16"
    "\<forall>u \<in> set (rt_HealthURLs t). valid_health_url parse tid t u = None"
    "rt_MigrationService t = [] \<longleftrightarrow> rt_MigrationArgs t = []"
    "rt_MigrationService t \<noteq> [] \<longrightarrow> releaseIdentifierPattern (rt_MigrationService t)"
  using assms
  unfolding validateReleaseTarget_def prod.case chain_None chain_sum_None first_error_None
    first_some_None is_ok_iff
  by (simp_all add: not_less) blast

lemma validateReleaseConfig_target:
  assumes "validateReleaseConfig parse dur r = None" "rc_Enabled r" "(tid, t) \<in> set (rc_Targets r)"
  shows "validateReleaseTarget parse dur (rc_AllowProduction r) (tid, t) = None"
  using assms(1,3) unfolding validateReleaseConfig_def
  by (simp add: assms(2) chain_None first_some_None del: first_error.simps)

lemma path_base_no_slash:
  assumes base: "path_base p = p" and ne: "p \<noteq> ''/''"
  shows "CHR ''/'' \<notin> set p"
proof -
  define q where "q = rev (dropWhile (\<lambda>c. c = CHR ''/'') (rev p))"
  consider "p = []" | "p \<noteq> []" "q = []" | "p \<noteq> []" "q \<noteq> []" by blast
  then show ?thesis
  proof cases
    case 2
    then have "path_base p = ''/''" by (simp add: path_base_def q_def[symmetric] Let_def)
    with base ne show ?thesis by simp
  next
    case 3
    then have "path_base p = last (split_on CHR ''/'' q)"
      by (simp add: path_base_def q_def[symmetric] Let_def)
    then have "p \<in> set (split_on CHR ''/'' q)"
      using base last_in_set[OF split_on_nonempty, of "CHR ''/''" q] by simp
    then show ?thesis by (rule split_on_no_sep)
  qed simp
qed

lemma load_config_cases:
  assumes "load_config parse dur toml h path = Inr cfg"
  shows "validate_config parse dur cfg = None
    \<and> (\<exists>cfg0. cfg = applyEnvOverrides (ch_getenv h) cfg0
        \<or> cfg = applyLocalBasePath h (applyEnvOverrides (ch_getenv h) cfg0))"
  using assms
  by (auto simp: load_config_def Let_def split: sum.splits read_answer.splits option.splits)

subsection \<open>Properties\<close>

text \<open>
  The readiness policy a release runs under is bounded whatever the configuration
  says: when the settings are accepted there are between 1 and 60 attempts, the retry
  interval is between 100 ms and 30 s, the timeout between 1 s and 10 min, and a policy
  with more than one attempt leaves room for a second one.
\<close>

theorem health_policy_bounded:
  assumes "HealthReadinessPolicy dur target = Inr p"
  shows "hp_MaxAttempts p \<in> {1..60} \<and> hp_RetryInterval p \<in> {100 * millisecond..30 * second}
    \<and> hp_Timeout p \<in> {second..10 * minute}
    \<and> (1 < hp_MaxAttempts p \<longrightarrow> hp_RetryInterval p < hp_Timeout p)"
  using HealthReadinessPolicy_bounds[OF assms] by auto

definition sample_target :: ReleaseTargetConfig where
  "sample_target = \<lparr>rt_ImageRepositories = [(''web'', ''registry/app'')], rt_Project = ''app'',
     rt_Environment = ''staging'', rt_Profile = ''p'', rt_ComposeFile = ''compose.yaml'',
     rt_MigrationService = [], rt_MigrationArgs = [], rt_HealthProfile = ''h'',
     rt_HealthURLs = [''http://x/''], rt_HealthMaxAttempts = 3,
     rt_HealthRetryInterval = [], rt_HealthTimeout = ''5s''\<rparr>"

theorem health_policy_bounded_witness:
  "hp_Timeout \<lparr>hp_MaxAttempts = 3, hp_RetryInterval = 2 * second, hp_Timeout = 5 * second\<rparr>
     \<in> {second..10 * minute}"
proof -
  have "HealthReadinessPolicy (\<lambda>_. Some (5 * second)) sample_target
      = Inr \<lparr>hp_MaxAttempts = 3, hp_RetryInterval = 2 * second, hp_Timeout = 5 * second\<rparr>"
    by (simp add: HealthReadinessPolicy_def sample_target_def releaseDuration_def Let_def)
  from health_policy_bounded[OF this] show ?thesis by blast
qed

text \<open>
  A loaded configuration never lets a production release through unprotected: a
  production target of an enabled release section requires the production switch and an
  absolute backup command, a compose file named by one path component, and health URLs that
  parse to an https address with a host and without credentials.
\<close>

theorem load_config_production:
  assumes "load_config parse dur toml h path = Inr cfg"
    and "rc_Enabled (cfg_Release cfg)" "(tid, t) \<in> set (rc_Targets (cfg_Release cfg))"
    and "rt_Environment t = ''production''"
  shows "rc_AllowProduction (cfg_Release cfg)
    \<and> is_abs (rc_ProductionBackupCommand (cfg_Release cfg))
    \<and> rt_ComposeFile t \<noteq> [] \<and> CHR ''/'' \<notin> set (rt_ComposeFile t)
    \<and> list_all (\<lambda>raw. case parse raw of None \<Rightarrow> False
        | Some u \<Rightarrow> url_Scheme u = ''https'' \<and> url_Host u \<noteq> [] \<and> \<not> url_HasUser u) (rt_HealthURLs t)"
proof -
  let ?r = "cfg_Release cfg"
  have rel: "validateReleaseConfig parse dur ?r = None"
    using load_config_cases[OF assms(1)] unfolding validate_config_def chain_None by blast
  note target = validateReleaseConfig_target[OF rel assms(2,3)]
  note ok = validateReleaseTarget_None[OF target]
  have allow: "rc_AllowProduction ?r" using ok(6) assms(4) by blast
  moreover have "is_abs (rc_ProductionBackupCommand ?r)"
    using rel allow assms(2) unfolding validateReleaseConfig_def
    by (auto simp: chain_None split: if_splits)
  moreover have "CHR ''/'' \<notin> set (rt_ComposeFile t)"
    using path_base_no_slash[OF ok(8)] ok(9)
    by (cases "rt_ComposeFile t = ''/''") (simp_all add: is_abs_def has_prefix_def)
  moreover have "case parse raw of None \<Rightarrow> False
      | Some u \<Rightarrow> url_Scheme u = ''https'' \<and> url_Host u \<noteq> [] \<and> \<not> url_HasUser u"
    if "raw \<in> set (rt_HealthURLs t)" for raw
    using ok(13) that assms(4) by (force simp: valid_health_url_def split: option.splits if_splits)
  ultimately show ?thesis using ok(7) by (simp add: list_all_iff)
qed

definition sample_production_config :: Config where
  "sample_production_config = DefaultConfig\<lparr>cfg_Release := \<lparr>rc_Enabled = True,
     rc_AllowProduction = True, rc_ProductionBackupCommand = ''/usr/bin/backup'',
     rc_Targets = [(''shop'', sample_target\<lparr>rt_Environment := ''production'',
       rt_HealthURLs := [''https://x/'']\<rparr>)]\<rparr>\<rparr>"

definition sample_host :: config_host where
  "sample_host = \<lparr>ch_getenv = (\<lambda>_. []), ch_stat = (\<lambda>_. StatOk), ch_read = (\<lambda>_. ReadOk []),
     ch_UserConfigDir = None\<rparr>"

definition sample_parse :: "string \<Rightarrow> url option" where
  "sample_parse raw = Some \<lparr>url_Scheme = ''https'', url_Host = ''x'', url_HasUser = False,
     url_Path = ''/'', url_RawQuery = [], url_Fragment = []\<rparr>"

theorem load_config_production_witness:
  "load_config sample_parse (\<lambda>_. Some (5 * second)) (\<lambda>_ _. Some sample_production_config)
     sample_host [] = Inr sample_production_config
   \<and> is_abs (rc_ProductionBackupCommand (cfg_Release sample_production_config))"
proof -
  have load: "load_config sample_parse (\<lambda>_. Some (5 * second)) (\<lambda>_ _. Some sample_production_config)
     sample_host [] = Inr sample_production_config"
    by code_simp
  have "rc_Enabled (cfg_Release sample_production_config)"
    "(''shop'', sample_target\<lparr>rt_Environment := ''production'', rt_HealthURLs := [''https://x/'']\<rparr>)
      \<in> set (rc_Targets (cfg_Release sample_production_config))"
    "rt_Environment (sample_target\<lparr>rt_Environment := ''production'',
      rt_HealthURLs := [''https://x/'']\<rparr>) = ''production''"
    by (simp_all add: sample_production_config_def)
  from load_config_production[OF load this] load show ?thesis by blast
qed

end
