(* ===== verification/Release_Contract.thy ===== *)
theory Release_Contract
  imports Fleet_Config
begin

text \<open>
  \<open>internal/releasejob/contract.go\<close> and \<open>receiver.go\<close>: the request of a release job,
  its validation, its bounded decoding, and the policy of the receiver used by CI.
  The patterns of the package are recognizers. \<open>Validate\<close> ranges over a Go map of six
  identifiers, whose order is random; the error here does not name which one failed.
  JSON decoding is a parameter: \<open>dec\<close> reads one value and tells how many bytes the
  decoder took from its reader, \<open>rest\<close> is the answer of the second \<open>Decode\<close>.
\<close>

record Target =
  tgt_ID :: string
  tgt_Environment :: string
  tgt_Profile :: string
  tgt_ExpectedCurrentReleaseID :: "string option"

record Image =
  img_Component :: string
  img_Reference :: string

record BackupPolicy = bp_Required :: bool

record MigrationPolicy =
  mp_Mode :: string
  mp_Compatibility :: string

record RecoveryPolicy = rp_Mode :: string

record Request =
  rq_SchemaVersion :: int
  rq_JobID :: string
  rq_IdempotencyKey :: string
  rq_ReleaseID :: string
  rq_ManifestDigest :: string
  rq_Target :: Target
  rq_Images :: "Image list"
  rq_Backup :: BackupPolicy
  rq_Migration :: MigrationPolicy
  rq_Recovery :: RecoveryPolicy
  rq_HealthProfile :: string

definition SchemaVersion :: int where "SchemaVersion = 2"
definition MaxRequestSize :: nat where "MaxRequestSize = 256 * 1024"

datatype contract_error =
    UnsupportedSchema int
  | InvalidIdentifier
  | InvalidManifestDigest
  | InvalidEnvironment
  | InvalidExpectedRelease
  | BackupNotRequired
  | InvalidMigrationMode
  | CompatibilityNotApplicable
  | UnsupportedCompatibility
  | StagingRecovery
  | ProductionMigration
  | ProductionRecovery
  | ImageCount
  | InvalidComponent nat
  | DuplicateComponent string
  | MutableReference nat
  | DecodeFailed
  | TooLarge
  | TrailingJSON
  | TrailingGarbage
  | TargetMismatch
  | ImageNotAllowed
  | ReceiverNotConfigured
  | ReceiverNotStaging
  | ReceiverAllowlist

subsection \<open>Patterns\<close>

abbreviation identifierPattern :: "string \<Rightarrow> bool" where
  "identifierPattern \<equiv> releaseIdentifierPattern"

text \<open>\<open>^sha256:[a-f0-9]{64}$\<close>\<close>

definition digestPattern :: "string \<Rightarrow> bool" where
  "digestPattern s \<longleftrightarrow>
     has_prefix s ''sha256:'' \<and> class_rep is_lower_hex 64 64 (drop 7 s)"

text \<open>\<open>[a-z0-9]+(?:[._-][a-z0-9]+)*\<close>: the flag says whether the last character was
  alphanumeric.\<close>

fun name_segment :: "bool \<Rightarrow> string \<Rightarrow> bool" where
  "name_segment after [] \<longleftrightarrow> after"
| "name_segment after (c # cs) \<longleftrightarrow>
     (if is_lower_alnum c then name_segment True cs
      else (c = CHR ''.'' \<or> c = CHR ''_'' \<or> c = CHR ''-'') \<and> after \<and> name_segment False cs)"

text \<open>A registry repository: two segments or more, separated by slashes.\<close>

definition repository_ok :: "string \<Rightarrow> bool" where
  "repository_ok s \<longleftrightarrow>
     2 \<le> length (split_on CHR ''/'' s) \<and> list_all (name_segment False) (split_on CHR ''/'' s)"

definition imagePattern :: "string \<Rightarrow> bool" where
  "imagePattern s \<longleftrightarrow>
     (case split_on CHR ''@'' s of [repo, dig] \<Rightarrow> repository_ok repo \<and> digestPattern dig
      | _ \<Rightarrow> False)"

subsection \<open>Validation\<close>

fun validate_images :: "nat \<Rightarrow> string list \<Rightarrow> Image list \<Rightarrow> contract_error option" where
  "validate_images i components [] = None"
| "validate_images i components (im # ims) =
     (if \<not> identifierPattern (img_Component im) then Some (InvalidComponent i)
      else if img_Component im \<in> set components
        then Some (DuplicateComponent (img_Component im))
      else if contains_str (img_Reference im) '':latest''
              \<or> \<not> imagePattern (img_Reference im) then Some (MutableReference i)
      else validate_images (Suc i) (img_Component im # components) ims)"

definition Validate :: "Request \<Rightarrow> contract_error option" where
  "Validate r =
     (case first_error
        [(rq_SchemaVersion r \<noteq> SchemaVersion, UnsupportedSchema (rq_SchemaVersion r)),
         (\<not> list_all identifierPattern
              [rq_JobID r, rq_IdempotencyKey r, rq_ReleaseID r, tgt_ID (rq_Target r),
               tgt_Profile (rq_Target r), rq_HealthProfile r], InvalidIdentifier),
         (\<not> digestPattern (rq_ManifestDigest r), InvalidManifestDigest),
         (tgt_Environment (rq_Target r) \<noteq> ''staging''
            \<and> tgt_Environment (rq_Target r) \<noteq> ''production'', InvalidEnvironment),
         (case tgt_ExpectedCurrentReleaseID (rq_Target r) of None \<Rightarrow> False
            | Some e \<Rightarrow> \<not> identifierPattern e, InvalidExpectedRelease),
         (tgt_Environment (rq_Target r) = ''production'' \<and> \<not> bp_Required (rq_Backup r),
            BackupNotRequired),
         (mp_Mode (rq_Migration r) \<noteq> ''preflight-and-apply''
            \<and> mp_Mode (rq_Migration r) \<noteq> ''none'', InvalidMigrationMode),
         (mp_Mode (rq_Migration r) = ''none''
            \<and> mp_Compatibility (rq_Migration r) \<noteq> ''not-applicable'',
            CompatibilityNotApplicable),
         (mp_Mode (rq_Migration r) = ''preflight-and-apply''
            \<and> mp_Compatibility (rq_Migration r) \<noteq> ''unreviewed''
            \<and> mp_Compatibility (rq_Migration r) \<noteq> ''online-expand-contract''
            \<and> mp_Compatibility (rq_Migration r) \<noteq> ''maintenance-write-freeze'',
            UnsupportedCompatibility),
         (tgt_Environment (rq_Target r) = ''staging'' \<and> rp_Mode (rq_Recovery r) \<noteq> ''manual'',
            StagingRecovery),
         (tgt_Environment (rq_Target r) = ''production''
            \<and> mp_Mode (rq_Migration r) = ''preflight-and-apply''
            \<and> mp_Compatibility (rq_Migration r) \<noteq> ''online-expand-contract'',
            ProductionMigration),
         (tgt_Environment (rq_Target r) = ''production''
            \<and> rp_Mode (rq_Recovery r) \<noteq> ''runtime-only'', ProductionRecovery),
         (rq_Images r = [] \<or> length (rq_Images r) > 32, ImageCount)] of
        Some e \<Rightarrow> Some e
      | None \<Rightarrow> validate_images 0 [] (rq_Images r))"

datatype trailing = TrailEOF | TrailValue | TrailError

definition Decode ::
  "(string \<Rightarrow> (Request \<times> nat) option) \<Rightarrow> (string \<Rightarrow> nat \<Rightarrow> trailing) \<Rightarrow> string
    \<Rightarrow> contract_error + Request" where
  "Decode dec rest input =
     (let limited = take (MaxRequestSize + 1) input
      in case dec limited of
           None \<Rightarrow> Inl DecodeFailed
         | Some (request, taken) \<Rightarrow>
             if MaxRequestSize + 1 \<le> taken then Inl TooLarge
             else case rest limited taken of
                 TrailValue \<Rightarrow> Inl TrailingJSON
               | TrailError \<Rightarrow> Inl TrailingGarbage
               | TrailEOF \<Rightarrow> or_error (Validate request) request)"

subsection \<open>The receiver for CI\<close>

definition ReceiverPolicy :: "Config option \<Rightarrow> string \<Rightarrow> contract_error + ReleaseTargetConfig" where
  "ReceiverPolicy cfg target =
     (case cfg of None \<Rightarrow> Inl ReceiverNotConfigured
      | Some c \<Rightarrow>
          if \<not> rc_Enabled (cfg_Release c) \<or> \<not> identifierPattern target
          then Inl ReceiverNotConfigured
          else case map_of (rc_Targets (cfg_Release c)) target of
            None \<Rightarrow> Inl ReceiverNotStaging
          | Some p \<Rightarrow>
              if rt_Environment p \<noteq> ''staging'' \<or> rt_ImageRepositories p = []
                 \<or> length (rt_ImageRepositories p) > 32
              then Inl ReceiverNotStaging
              else if list_ex (\<lambda>(component, repository).
                  \<not> identifierPattern component
                  \<or> \<not> imagePattern (repository @ ''@sha256:'' @ replicate 64 CHR ''0''))
                  (rt_ImageRepositories p)
              then Inl ReceiverAllowlist
              else Inr p)"

definition ValidateReceived ::
  "Request \<Rightarrow> string \<Rightarrow> ReleaseTargetConfig \<Rightarrow> contract_error option" where
  "ValidateReceived request target policy =
     (case Validate request of
        Some e \<Rightarrow> Some e
      | None \<Rightarrow>
          if tgt_ID (rq_Target request) \<noteq> target
             \<or> tgt_Environment (rq_Target request) \<noteq> ''staging''
             \<or> tgt_Profile (rq_Target request) \<noteq> rt_Profile policy
             \<or> rq_HealthProfile request \<noteq> rt_HealthProfile policy
          then Some TargetMismatch
          else first_some (\<lambda>im.
            case map_of (rt_ImageRepositories policy) (img_Component im) of
              None \<Rightarrow> Some ImageNotAllowed
            | Some repository \<Rightarrow>
                if hd (split_on CHR ''@'' (img_Reference im)) \<noteq> repository
                then Some ImageNotAllowed else None) (rq_Images request))"

subsection \<open>What a valid request is\<close>

text \<open>A reference that names content, not a tag: a repository and a 64-digit digest.\<close>

definition immutable_reference :: "string \<Rightarrow> bool" where
  "immutable_reference s \<longleftrightarrow>
     (\<exists>repo hex. s = repo @ ''@sha256:'' @ hex \<and> repository_ok repo
        \<and> length hex = 64 \<and> list_all is_lower_hex hex)"

definition environment_policy :: "Request \<Rightarrow> bool" where
  "environment_policy r \<longleftrightarrow>
     (tgt_Environment (rq_Target r) = ''staging'' \<and> rp_Mode (rq_Recovery r) = ''manual''
        \<and> (mp_Mode (rq_Migration r) = ''none''
              \<and> mp_Compatibility (rq_Migration r) = ''not-applicable''
          \<or> mp_Mode (rq_Migration r) = ''preflight-and-apply''
              \<and> mp_Compatibility (rq_Migration r)
                 \<in> {''unreviewed'', ''online-expand-contract'', ''maintenance-write-freeze''}))
   \<or> (tgt_Environment (rq_Target r) = ''production'' \<and> bp_Required (rq_Backup r)
        \<and> rp_Mode (rq_Recovery r) = ''runtime-only''
        \<and> (mp_Mode (rq_Migration r) = ''none''
              \<and> mp_Compatibility (rq_Migration r) = ''not-applicable''
          \<or> mp_Mode (rq_Migration r) = ''preflight-and-apply''
              \<and> mp_Compatibility (rq_Migration r) = ''online-expand-contract''))"

definition images_policy :: "Image list \<Rightarrow> bool" where
  "images_policy ims \<longleftrightarrow>
     1 \<le> length ims \<and> length ims \<le> 32 \<and> distinct (map img_Component ims)
     \<and> (\<forall>i \<in> set ims. identifierPattern (img_Component i)
           \<and> immutable_reference (img_Reference i))"

definition valid_request :: "Request \<Rightarrow> bool" where
  "valid_request r \<longleftrightarrow>
     rq_SchemaVersion r = 2
     \<and> (\<forall>s \<in> {rq_JobID r, rq_IdempotencyKey r, rq_ReleaseID r, tgt_ID (rq_Target r),
              tgt_Profile (rq_Target r), rq_HealthProfile r}. identifierPattern s)
     \<and> digestPattern (rq_ManifestDigest r)
     \<and> (\<forall>e. tgt_ExpectedCurrentReleaseID (rq_Target r) = Some e \<longrightarrow> identifierPattern e)
     \<and> environment_policy r \<and> images_policy (rq_Images r)"

subsection \<open>Lemmas on the patterns\<close>

lemma split_on_chars: "c \<in> set s \<Longrightarrow> c \<noteq> d \<Longrightarrow> \<exists>w \<in> set (split_on d s). c \<in> set w"
proof (induction s)
  case (Cons x s)
  obtain w ws where w: "split_on d s = w # ws" by (cases "split_on d s") auto
  with Cons show ?case by auto
qed simp

lemma name_segment_chars:
  "name_segment b s \<Longrightarrow> c \<in> set s \<Longrightarrow>
    is_lower_alnum c \<or> c = CHR ''.'' \<or> c = CHR ''_'' \<or> c = CHR ''-''"
  by (induction b s rule: name_segment.induct) (auto split: if_splits)

lemma repository_ok_chars:
  assumes "repository_ok s" "c \<in> set s"
  shows "is_lower_alnum c \<or> c \<in> {CHR ''.'', CHR ''_'', CHR ''-'', CHR ''/''}"
proof (cases "c = CHR ''/''")
  case False
  then obtain w where w: "w \<in> set (split_on CHR ''/'' s)" "c \<in> set w"
    using split_on_chars[OF assms(2)] by blast
  then have "name_segment False w"
    using assms(1) by (simp add: repository_ok_def list_all_iff)
  from name_segment_chars[OF this w(2)] show ?thesis by auto
qed simp

lemma digestPattern_iff:
  "digestPattern s \<longleftrightarrow> (\<exists>hex. s = ''sha256:'' @ hex \<and> length hex = 64 \<and> list_all is_lower_hex hex)"
  by (auto simp: digestPattern_def has_prefix_iff class_rep_def)

lemma digestPattern_length: "digestPattern s \<Longrightarrow> length s = 71"
  by (auto simp: digestPattern_iff)

lemma not_special [simp]:
  "\<not> is_lower_hex CHR ''@''" "\<not> is_lower_hex CHR '':''" "\<not> is_lower_hex CHR ''l''"
  "\<not> is_lower_alnum CHR ''@''" "\<not> is_lower_alnum CHR '':''"
  by (simp_all add: is_lower_hex_def is_lower_alnum_def is_digit_def is_lower_def)

lemma repository_ok_special:
  assumes "repository_ok s" shows "CHR ''@'' \<notin> set s" "CHR '':'' \<notin> set s"
  using repository_ok_chars[OF assms] by fastforce+

lemma hex_special:
  assumes "list_all is_lower_hex h" shows "CHR ''@'' \<notin> set h" "CHR '':'' \<notin> set h" "CHR ''l'' \<notin> set h"
  using assms not_special by (auto simp: list_all_iff)

lemma imagePattern_iff: "imagePattern s \<longleftrightarrow> immutable_reference s"
proof
  assume im: "imagePattern s"
  then obtain repo dig where split: "split_on CHR ''@'' s = [repo, dig]"
      and ok: "repository_ok repo" "digestPattern dig"
    by (auto simp: imagePattern_def split: list.splits)
  from ok(2) obtain hex where hex: "dig = ''sha256:'' @ hex" "length hex = 64"
      "list_all is_lower_hex hex"
    by (auto simp: digestPattern_iff)
  have "s = repo @ ''@'' @ dig" using join_split[of "CHR ''@''" s] split by simp
  with ok(1) hex show "immutable_reference s" by (auto simp: immutable_reference_def)
next
  assume "immutable_reference s"
  then obtain repo hex where s: "s = repo @ ''@sha256:'' @ hex" and ok: "repository_ok repo"
      "length hex = 64" "list_all is_lower_hex hex"
    by (auto simp: immutable_reference_def)
  have "s = repo @ CHR ''@'' # (''sha256:'' @ hex)" using s by simp
  moreover have "CHR ''@'' \<notin> set (''sha256:'' @ hex)" using hex_special[OF ok(3)] by simp
  ultimately have "split_on CHR ''@'' s = [repo, ''sha256:'' @ hex]"
    using repository_ok_special[OF ok(1)] by (simp add: split_on_append split_on_single)
  then show "imagePattern s" using ok by (auto simp: imagePattern_def digestPattern_iff)
qed

text \<open>The test for \<open>:latest\<close> is implied by the pattern.\<close>

lemma immutable_not_latest:
  assumes "immutable_reference s" shows "\<not> contains_str s '':latest''"
proof
  assume "contains_str s '':latest''"
  then obtain a b where ab: "s = a @ '':latest'' @ b" by (auto simp: contains_str_iff)
  from assms obtain repo hex where s: "s = repo @ ''@sha256:'' @ hex" and ok: "repository_ok repo"
      "list_all is_lower_hex hex"
    by (auto simp: immutable_reference_def)
  have "(repo @ ''@sha256'') @ CHR '':'' # hex = a @ CHR '':'' # (''latest'' @ b)"
    using s ab by simp
  then have "hex = ''latest'' @ b"
    using repository_ok_special[OF ok(1)] hex_special[OF ok(2)]
    by (subst (asm) append_Cons_eq_iff) auto
  then show False using hex_special[OF ok(2)] by auto
qed

subsection \<open>Lemmas on validation\<close>

lemma validate_images_None:
  "validate_images i seen ims = None \<longleftrightarrow>
     distinct (map img_Component ims) \<and> set (map img_Component ims) \<inter> set seen = {}
     \<and> (\<forall>x \<in> set ims. identifierPattern (img_Component x)
          \<and> immutable_reference (img_Reference x))"
  by (induction i seen ims rule: validate_images.induct)
    (auto simp: imagePattern_iff immutable_not_latest)

lemma environment_checks:
  "\<not> (e \<noteq> ''staging'' \<and> e \<noteq> ''production'') \<and> \<not> (e = ''production'' \<and> \<not> b)
   \<and> \<not> (m \<noteq> ''preflight-and-apply'' \<and> m \<noteq> ''none'') \<and> \<not> (m = ''none'' \<and> c \<noteq> ''not-applicable'')
   \<and> \<not> (m = ''preflight-and-apply'' \<and> c \<noteq> ''unreviewed'' \<and> c \<noteq> ''online-expand-contract''
        \<and> c \<noteq> ''maintenance-write-freeze'')
   \<and> \<not> (e = ''staging'' \<and> v \<noteq> ''manual'')
   \<and> \<not> (e = ''production'' \<and> m = ''preflight-and-apply'' \<and> c \<noteq> ''online-expand-contract'')
   \<and> \<not> (e = ''production'' \<and> v \<noteq> ''runtime-only'') \<longleftrightarrow>
   (e = ''staging'' \<and> v = ''manual'' \<and> (m = ''none'' \<and> c = ''not-applicable''
      \<or> m = ''preflight-and-apply'' \<and> c \<in> {''unreviewed'', ''online-expand-contract'',
           ''maintenance-write-freeze''}))
   \<or> (e = ''production'' \<and> b \<and> v = ''runtime-only'' \<and> (m = ''none'' \<and> c = ''not-applicable''
      \<or> m = ''preflight-and-apply'' \<and> c = ''online-expand-contract''))"
  by (cases "e = ''staging''"; cases "m = ''none''") auto

lemma Validate_iff: "Validate r = None \<longleftrightarrow> valid_request r"
proof -
  have expected: "\<not> (case x of None \<Rightarrow> False | Some e \<Rightarrow> \<not> P e) \<longleftrightarrow> (\<forall>e. x = Some e \<longrightarrow> P e)"
    for x :: "string option" and P
    by (cases x) auto
  show ?thesis
    unfolding Validate_def chain_None first_error_None valid_request_def environment_policy_def
      environment_checks[symmetric] images_policy_def validate_images_None
    by (simp add: expected SchemaVersion_def Suc_le_eq not_less) blast
qed

subsection \<open>Properties\<close>

text \<open>\<open>Validate\<close> accepts exactly the requests of the contract: schema 2, six well-formed
  identifiers, a manifest digest, 1 to 32 images with distinct components that are all pinned by
  a SHA-256 digest, and the policy of the environment (production requires a backup,
  runtime-only recovery and an online migration or none; staging recovers by hand).\<close>
theorem Validate_sound: "Validate r = None \<longleftrightarrow> valid_request r"
  by (rule Validate_iff)

lemma hd_split_on_before:
  "d \<notin> set a \<Longrightarrow> hd (split_on d (a @ d # b)) = a"
  by (simp add: split_on_append)

text \<open>What the CI receiver accepts deploys to staging only, on the target it was called
  for, and every image is pinned by digest in the one repository the operator's policy allows
  for its component.\<close>
theorem ValidateReceived_policy:
  assumes "ReceiverPolicy cfg target = Inr policy"
    and "ValidateReceived request target policy = None"
  shows "rt_Environment policy = ''staging'' \<and> tgt_Environment (rq_Target request) = ''staging''
    \<and> tgt_ID (rq_Target request) = target \<and> rp_Mode (rq_Recovery request) = ''manual''
    \<and> list_all (\<lambda>im. case map_of (rt_ImageRepositories policy) (img_Component im) of
         None \<Rightarrow> False
       | Some repository \<Rightarrow> digestPattern (drop (Suc (length repository)) (img_Reference im))
           \<and> has_prefix (img_Reference im) (repository @ ''@'')) (rq_Images request)"
proof -
  have valid: "valid_request request"
    using assms(2) unfolding ValidateReceived_def by (auto simp: Validate_iff split: option.splits)
  have rest: "tgt_ID (rq_Target request) = target" "tgt_Environment (rq_Target request) = ''staging''"
    using assms(2) valid unfolding ValidateReceived_def by (auto simp: Validate_iff[symmetric] split: if_splits)
  have "case map_of (rt_ImageRepositories policy) (img_Component im) of
         None \<Rightarrow> False
       | Some repository \<Rightarrow> digestPattern (drop (Suc (length repository)) (img_Reference im))
           \<and> has_prefix (img_Reference im) (repository @ ''@'')"
    if im: "im \<in> set (rq_Images request)" for im
  proof -
    from assms(2) valid im obtain repository
      where repo: "map_of (rt_ImageRepositories policy) (img_Component im) = Some repository"
        "hd (split_on CHR ''@'' (img_Reference im)) = repository"
      unfolding ValidateReceived_def Validate_iff[symmetric]
      by (force simp: first_some_None split: if_splits option.splits)
    from valid im have "immutable_reference (img_Reference im)"
      by (simp add: valid_request_def images_policy_def)
    then obtain r hex where ref: "img_Reference im = r @ CHR ''@'' # (''sha256:'' @ hex)"
        "repository_ok r" "length hex = 64" "list_all is_lower_hex hex"
      by (auto simp: immutable_reference_def)
    then have "r = repository"
      using repo(2) hd_split_on_before[OF repository_ok_special(1)[OF ref(2)]] by simp
    with repo ref show ?thesis by (auto simp: digestPattern_iff has_prefix_iff)
  qed
  moreover have "rt_Environment policy = ''staging''"
    using assms(1) unfolding ReceiverPolicy_def by (auto split: option.splits if_splits)
  moreover have "rp_Mode (rq_Recovery request) = ''manual''"
    using valid rest(2) by (auto simp: valid_request_def environment_policy_def)
  ultimately show ?thesis using rest by (simp add: list_all_iff)
qed

definition sample_digest :: string where
  "sample_digest = ''sha256:'' @ replicate 64 (CHR ''a'')"

definition staging_request :: Request where
  "staging_request = \<lparr>rq_SchemaVersion = 2, rq_JobID = ''job-1'', rq_IdempotencyKey = ''key-1'',
     rq_ReleaseID = ''v2'', rq_ManifestDigest = sample_digest,
     rq_Target = \<lparr>tgt_ID = ''shop'', tgt_Environment = ''staging'', tgt_Profile = ''p'',
       tgt_ExpectedCurrentReleaseID = None\<rparr>,
     rq_Images = [\<lparr>img_Component = ''web'', img_Reference = ''registry/app@'' @ sample_digest\<rparr>],
     rq_Backup = \<lparr>bp_Required = False\<rparr>,
     rq_Migration = \<lparr>mp_Mode = ''none'', mp_Compatibility = ''not-applicable''\<rparr>,
     rq_Recovery = \<lparr>rp_Mode = ''manual''\<rparr>, rq_HealthProfile = ''h''\<rparr>"

definition staging_config :: Config where
  "staging_config = DefaultConfig\<lparr>cfg_Release := \<lparr>rc_Enabled = True, rc_AllowProduction = False,
     rc_ProductionBackupCommand = [], rc_Targets = [(''shop'', sample_target)]\<rparr>\<rparr>"

lemma ValidateReceived_policy_witness:
  "ValidateReceived staging_request ''shop'' sample_target = None
   \<and> tgt_Environment (rq_Target staging_request) = ''staging''"
proof -
  have "ReceiverPolicy (Some staging_config) ''shop'' = Inr sample_target" by code_simp
  moreover have ok: "ValidateReceived staging_request ''shop'' sample_target = None" by code_simp
  ultimately show ?thesis
    using ValidateReceived_policy[of "Some staging_config" "''shop''" sample_target staging_request]
    by blast
qed

end
