(* ===== verification/Release_Store.thy ===== *)
theory Release_Store
  imports Release_Contract
begin

text \<open>
  The result types of \<open>internal/releasejob/executor.go\<close>, the store interface it declares
  (\<open>JobStore\<close>) as the locale \<open>job_store\<close>, and \<open>internal/db/release_jobs.go\<close>, which provides it
  over the tables \<open>release_jobs\<close> and \<open>release_targets\<close> of \<open>internal/db/db.go\<close>.

  A table is a list of rows in insertion order. A statement of a method may fail (the
  driver returns an error); \<open>up k\<close> tells whether the \<open>k\<close>-th statement of the method
  succeeds, so a theorem that holds for every \<open>up\<close> covers every failure. A transaction
  that does not reach a successful \<open>Commit\<close> leaves the tables as they were. JSON is a
  parameter: a \<open>codec\<close> encodes a request and a result and decodes a result. Times are
  integers (nanoseconds).
\<close>

subsection \<open>Results and reservations\<close>

record PreflightEvidence =
  pe_ComposeValid :: bool
  pe_ImagesResolved :: bool
  pe_MigrationReady :: bool

record BackupEvidence =
  be_BackupID :: string
  be_ManifestSHA256 :: string
  be_Verified :: bool
  be_Encrypted :: bool
  be_OffsiteVerified :: bool

record RollbackEvidence =
  rb_BackupID :: string
  rb_Mode :: string
  rb_Restored :: bool
  rb_HealthVerified :: bool

record ApplyEvidence =
  ae_AppliedComponents :: int
  ae_MigrationApplied :: bool

record HealthEvidence =
  he_Profile :: string
  he_ChecksPassed :: int
  he_Attempts :: int

record Result =
  rs_SchemaVersion :: int
  rs_JobID :: string
  rs_IdempotencyKey :: string
  rs_ReleaseID :: string
  rs_TargetID :: string
  rs_Status :: string
  rs_StartedAt :: time
  rs_FinishedAt :: "time option"
  rs_Preflight :: "PreflightEvidence option"
  rs_Backup :: "BackupEvidence option"
  rs_Rollback :: "RollbackEvidence option"
  rs_Apply :: "ApplyEvidence option"
  rs_Health :: "HealthEvidence option"
  rs_FailedStep :: string
  rs_ErrorCode :: string

datatype ReservationState = ReservationAcquired | ReservationReplay

record Reservation =
  rv_State :: ReservationState
  rv_Result :: "Result option"

datatype store_error =
    StatementFailed nat
  | KeyReused
  | ErrJobInProgress
  | ErrTargetBusy
  | InvalidStoredStatus string
  | NoStoredResult
  | UndecodableResult
  | ConstraintViolation
  | NotFinishedSuccess
  | BadManifestDigest
  | NotFinishedFailure
  | LostRace

subsection \<open>Tables\<close>

record job_row =
  jr_idempotency_key :: string
  jr_job_id :: string
  jr_release_id :: string
  jr_manifest_digest :: string
  jr_target_id :: string
  jr_environment :: string
  jr_request_sha256 :: string
  jr_request_json :: string
  jr_status :: string
  jr_result_json :: "string option"
  jr_started_at :: time
  jr_finished_at :: "time option"

record target_row =
  tr_target_id :: string
  tr_current_release_id :: string
  tr_manifest_digest :: string
  tr_updated_at :: "time option"

record release_db =
  release_jobs :: "job_row list"
  release_targets :: "target_row list"

definition empty_release_db :: release_db where
  "empty_release_db = \<lparr>release_jobs = [], release_targets = []\<rparr>"

record codec =
  encode_request :: "Request \<Rightarrow> string"
  encode_result :: "Result \<Rightarrow> string"
  decode_result :: "string \<Rightarrow> Result option"

subsection \<open>Operations\<close>

text \<open>\<open>INSERT INTO release_jobs\<close>: refused when the primary key or the unique column is taken.\<close>

definition insert_job :: "job_row \<Rightarrow> job_row list \<Rightarrow> job_row list option" where
  "insert_job row rows =
     (if list_ex (\<lambda>r. jr_idempotency_key r = jr_idempotency_key row
                    \<or> jr_job_id r = jr_job_id row) rows
      then None else Some (rows @ [row]))"

definition new_job_row :: "codec \<Rightarrow> Request \<Rightarrow> string \<Rightarrow> time \<Rightarrow> job_row" where
  "new_job_row c request sha startedAt =
     \<lparr>jr_idempotency_key = rq_IdempotencyKey request, jr_job_id = rq_JobID request,
      jr_release_id = rq_ReleaseID request, jr_manifest_digest = rq_ManifestDigest request,
      jr_target_id = tgt_ID (rq_Target request),
      jr_environment = tgt_Environment (rq_Target request), jr_request_sha256 = sha,
      jr_request_json = encode_request c request, jr_status = ''running'',
      jr_result_json = None, jr_started_at = startedAt, jr_finished_at = None\<rparr>"

definition replay_row :: "codec \<Rightarrow> string \<Rightarrow> job_row \<Rightarrow> store_error + Reservation" where
  "replay_row c sha row =
     (if jr_request_sha256 row \<noteq> sha then Inl KeyReused
      else if jr_status row = ''running'' then Inl ErrJobInProgress
      else if jr_status row \<noteq> ''succeeded'' \<and> jr_status row \<noteq> ''failed''
        then Inl (InvalidStoredStatus (jr_status row))
      else case jr_result_json row of
          None \<Rightarrow> Inl NoStoredResult
        | Some json \<Rightarrow>
            (case decode_result c json of
               None \<Rightarrow> Inl UndecodableResult
             | Some result \<Rightarrow> Inr \<lparr>rv_State = ReservationReplay, rv_Result = Some result\<rparr>))"

definition Reserve ::
  "codec \<Rightarrow> (nat \<Rightarrow> bool) \<Rightarrow> release_db \<Rightarrow> Request \<Rightarrow> string \<Rightarrow> time
    \<Rightarrow> (store_error + Reservation) \<times> release_db" where
  "Reserve c up db request sha startedAt =
     (if \<not> up 0 then (Inl (StatementFailed 0), db)
      else if \<not> up 1 then (Inl (StatementFailed 1), db)
      else case List.find (\<lambda>r. jr_idempotency_key r = rq_IdempotencyKey request)
                  (release_jobs db) of
          Some row \<Rightarrow> (replay_row c sha row, db)
        | None \<Rightarrow>
            if \<not> up 2 then (Inl (StatementFailed 2), db)
            else if list_ex (\<lambda>r. jr_target_id r = tgt_ID (rq_Target request)
                      \<and> jr_status r = ''running'') (release_jobs db)
              then (Inl ErrTargetBusy, db)
            else if \<not> up 3 then (Inl (StatementFailed 3), db)
            else case insert_job (new_job_row c request sha startedAt) (release_jobs db) of
                None \<Rightarrow> (Inl ConstraintViolation, db)
              | Some rows \<Rightarrow>
                  if \<not> up 4 then (Inl (StatementFailed 4), db)
                  else (Inr \<lparr>rv_State = ReservationAcquired, rv_Result = None\<rparr>,
                        db\<lparr>release_jobs := rows\<rparr>))"

definition CurrentRelease ::
  "(nat \<Rightarrow> bool) \<Rightarrow> release_db \<Rightarrow> string \<Rightarrow> store_error + string option" where
  "CurrentRelease up db targetID =
     (if \<not> up 0 then Inl (StatementFailed 0)
      else Inr (map_option tr_current_release_id
                  (List.find (\<lambda>r. tr_target_id r = targetID) (release_targets db))))"

definition is_running_job :: "Result \<Rightarrow> job_row \<Rightarrow> bool" where
  "is_running_job result r \<longleftrightarrow> jr_idempotency_key r = rs_IdempotencyKey result
     \<and> jr_job_id r = rs_JobID result \<and> jr_status r = ''running''"

definition finish_row :: "codec \<Rightarrow> string \<Rightarrow> Result \<Rightarrow> job_row \<Rightarrow> job_row" where
  "finish_row c status result r =
     r\<lparr>jr_status := status, jr_result_json := Some (encode_result c result),
       jr_finished_at := rs_FinishedAt result\<rparr>"

text \<open>\<open>INSERT INTO release_targets ... ON CONFLICT(target_id) DO UPDATE\<close>\<close>

definition upsert_target :: "target_row \<Rightarrow> target_row list \<Rightarrow> target_row list" where
  "upsert_target row rows =
     (if list_ex (\<lambda>r. tr_target_id r = tr_target_id row) rows
      then update_where (\<lambda>r. tr_target_id r = tr_target_id row) (\<lambda>_. row) rows
      else rows @ [row])"

definition requireOneUpdated :: "nat \<Rightarrow> store_error option" where
  "requireOneUpdated count = (if count \<noteq> 1 then Some LostRace else None)"

definition CompleteSuccess ::
  "codec \<Rightarrow> (nat \<Rightarrow> bool) \<Rightarrow> release_db \<Rightarrow> Result \<Rightarrow> string \<Rightarrow> store_error option \<times> release_db" where
  "CompleteSuccess c up db result manifestDigest =
     (if rs_Status result \<noteq> ''succeeded'' \<or> rs_FinishedAt result = None
        then (Some NotFinishedSuccess, db)
      else if \<not> has_prefix manifestDigest ''sha256:'' \<or> length manifestDigest \<noteq> 71
        then (Some BadManifestDigest, db)
      else if \<not> up 0 then (Some (StatementFailed 0), db)
      else if \<not> up 1 then (Some (StatementFailed 1), db)
      else case requireOneUpdated (count_where (is_running_job result) (release_jobs db)) of
          Some e \<Rightarrow> (Some e, db)
        | None \<Rightarrow>
            if \<not> up 2 then (Some (StatementFailed 2), db)
            else if \<not> up 3 then (Some (StatementFailed 3), db)
            else (None, db\<lparr>
              release_jobs := update_where (is_running_job result)
                (finish_row c ''succeeded'' result) (release_jobs db),
              release_targets := upsert_target
                \<lparr>tr_target_id = rs_TargetID result, tr_current_release_id = rs_ReleaseID result,
                 tr_manifest_digest = manifestDigest, tr_updated_at = rs_FinishedAt result\<rparr>
                (release_targets db)\<rparr>))"

text \<open>
  \<open>CompleteFailure\<close> runs one statement outside a transaction, so the update stays even
  when \<open>requireOneUpdated\<close> then reports an error; with no matching row it changes
  nothing.
\<close>

definition CompleteFailure ::
  "codec \<Rightarrow> (nat \<Rightarrow> bool) \<Rightarrow> release_db \<Rightarrow> Result \<Rightarrow> store_error option \<times> release_db" where
  "CompleteFailure c up db result =
     (if rs_Status result \<noteq> ''failed'' \<or> rs_FinishedAt result = None \<or> rs_ErrorCode result = []
        then (Some NotFinishedFailure, db)
      else if \<not> up 0 then (Some (StatementFailed 0), db)
      else (requireOneUpdated (count_where (is_running_job result) (release_jobs db)),
            db\<lparr>release_jobs := update_where (is_running_job result)
                 (finish_row c ''failed'' result) (release_jobs db)\<rparr>))"

subsection \<open>The invariant of the tables\<close>

definition running_on :: "string \<Rightarrow> job_row \<Rightarrow> bool" where
  "running_on t r \<longleftrightarrow> jr_target_id r = t \<and> jr_status r = ''running''"

definition terminal_row :: "job_row \<Rightarrow> bool" where
  "terminal_row r \<longleftrightarrow> (jr_status r = ''succeeded'' \<or> jr_status r = ''failed'')
     \<and> jr_result_json r \<noteq> None \<and> jr_finished_at r \<noteq> None"

definition db_inv :: "release_db \<Rightarrow> bool" where
  "db_inv db \<longleftrightarrow>
     distinct (map jr_idempotency_key (release_jobs db))
     \<and> distinct (map jr_job_id (release_jobs db))
     \<and> (\<forall>r \<in> set (release_jobs db). jr_status r = ''running'' \<or> terminal_row r)
     \<and> (\<forall>t. count_where (running_on t) (release_jobs db) \<le> 1)
     \<and> distinct (map tr_target_id (release_targets db))"

lemma db_inv_empty: "db_inv empty_release_db"
  by (simp add: db_inv_def empty_release_db_def count_where_def)

lemma insert_job_Some:
  "insert_job row rows = Some rows' \<Longrightarrow>
     rows' = rows @ [row] \<and> jr_idempotency_key row \<notin> jr_idempotency_key ` set rows
     \<and> jr_job_id row \<notin> jr_job_id ` set rows"
  by (auto simp: insert_job_def list_ex_iff split: if_splits)

lemma Reserve_cases:
  assumes "Reserve c up db rq sha t = (res, db')"
  obtains (unchanged) "db' = db" "res \<noteq> Inr \<lparr>rv_State = ReservationAcquired, rv_Result = None\<rparr>"
      "\<And>rv. res = Inr rv \<Longrightarrow> rv_State rv = ReservationReplay \<and> rv_Result rv \<noteq> None"
  | (acquired) "res = Inr \<lparr>rv_State = ReservationAcquired, rv_Result = None\<rparr>"
      "db' = db\<lparr>release_jobs := release_jobs db @ [new_job_row c rq sha t]\<rparr>"
      "rq_IdempotencyKey rq \<notin> jr_idempotency_key ` set (release_jobs db)"
      "rq_JobID rq \<notin> jr_job_id ` set (release_jobs db)"
      "\<forall>r \<in> set (release_jobs db). \<not> running_on (tgt_ID (rq_Target rq)) r"
  using assms
  by (auto simp: Reserve_def replay_row_def running_on_def list_ex_iff new_job_row_def
      dest!: insert_job_Some split: if_splits option.splits)

lemma count_where_append: "count_where p (xs @ ys) = count_where p xs + count_where p ys"
  by (simp add: count_where_def)

lemma Reserve_inv:
  assumes "Reserve c up db rq sha t = (res, db')" "db_inv db" shows "db_inv db'"
  using assms(1)
proof (cases rule: Reserve_cases)
  case acquired
  let ?row = "new_job_row c rq sha t"
  have "count_where (running_on x) (release_jobs db @ [?row]) \<le> 1" for x
  proof (cases "x = tgt_ID (rq_Target rq)")
    case True
    then have "count_where (running_on x) (release_jobs db) = 0"
      using acquired by (simp add: count_where_0)
    then show ?thesis by (simp add: count_where_append count_where_def)
  next
    case False
    then have "count_where (running_on x) [?row] = 0"
      by (simp add: count_where_0 running_on_def new_job_row_def)
    with assms(2) show ?thesis by (simp add: count_where_append db_inv_def)
  qed
  with acquired assms(2) show ?thesis by (auto simp: db_inv_def new_job_row_def)
qed (use assms in simp)

lemma finish_row_frame [simp]:
  "jr_idempotency_key (finish_row c s res r) = jr_idempotency_key r"
  "jr_job_id (finish_row c s res r) = jr_job_id r"
  "jr_target_id (finish_row c s res r) = jr_target_id r"
  "jr_request_sha256 (finish_row c s res r) = jr_request_sha256 r"
  "jr_status (finish_row c s res r) = s"
  "jr_result_json (finish_row c s res r) = Some (encode_result c res)"
  "jr_finished_at (finish_row c s res r) = rs_FinishedAt res"
  by (simp_all add: finish_row_def)

lemma count_running_finish:
  assumes "s \<noteq> ''running''"
  shows "count_where (running_on t) (update_where p (finish_row c s res) rows)
    \<le> count_where (running_on t) rows"
  using assms
  by (induction rows) (auto simp: update_where_def count_where_def running_on_def)

lemma finish_rows_inv:
  assumes inv: "db_inv db" and s: "s = ''succeeded'' \<or> s = ''failed''" and fin: "rs_FinishedAt res \<noteq> None"
    and jobs: "release_jobs db' = update_where p (finish_row c s res) (release_jobs db)"
    and dt: "distinct (map tr_target_id (release_targets db'))"
  shows "db_inv db'"
proof -
  have ne: "s \<noteq> ''running''" using s by auto
  have "count_where (running_on t) (release_jobs db') \<le> 1" for t
    unfolding jobs
    using count_running_finish[OF ne, of t p c res "release_jobs db"] inv
    by (simp add: db_inv_def) (meson le_trans)
  moreover have "\<forall>r \<in> set (release_jobs db'). jr_status r = ''running'' \<or> terminal_row r"
    unfolding jobs using inv s fin by (auto simp: set_update_where db_inv_def terminal_row_def)
  ultimately show ?thesis
    using inv dt by (simp add: db_inv_def map_update_where_frame jobs)
qed

lemma upsert_target_distinct:
  "distinct (map tr_target_id rows) \<Longrightarrow> distinct (map tr_target_id (upsert_target row rows))"
proof -
  have "map tr_target_id (update_where (\<lambda>r. tr_target_id r = tr_target_id row) (\<lambda>_. row) rows)
      = map tr_target_id rows"
    by (auto simp: update_where_def)
  then show "distinct (map tr_target_id rows) \<Longrightarrow> ?thesis"
    by (auto simp: upsert_target_def list_ex_iff)
qed

lemma CompleteSuccess_error: "CompleteSuccess c up db res dig = (Some e, db') \<Longrightarrow> db' = db"
  unfolding CompleteSuccess_def requireOneUpdated_def by (simp split: if_splits)

lemma CompleteSuccess_ok:
  assumes "CompleteSuccess c up db res dig = (None, db')"
  shows "rs_Status res = ''succeeded''" "rs_FinishedAt res \<noteq> None"
    "has_prefix dig ''sha256:''" "length dig = 71"
    "count_where (is_running_job res) (release_jobs db) = 1"
    "release_jobs db' = update_where (is_running_job res) (finish_row c ''succeeded'' res)
       (release_jobs db)"
    "release_targets db' = upsert_target
       \<lparr>tr_target_id = rs_TargetID res, tr_current_release_id = rs_ReleaseID res,
        tr_manifest_digest = dig, tr_updated_at = rs_FinishedAt res\<rparr> (release_targets db)"
  using assms unfolding CompleteSuccess_def requireOneUpdated_def
  by (simp_all split: if_splits option.splits) auto

lemma CompleteFailure_ok:
  assumes "CompleteFailure c up db res = (None, db')"
  shows "rs_Status res = ''failed''" "rs_FinishedAt res \<noteq> None"
    "count_where (is_running_job res) (release_jobs db) = 1"
    "release_jobs db' = update_where (is_running_job res) (finish_row c ''failed'' res)
       (release_jobs db)"
    "release_targets db' = release_targets db"
  using assms unfolding CompleteFailure_def requireOneUpdated_def
  by (simp_all split: if_splits) auto

lemma is_running_job_unique:
  assumes "distinct (map jr_idempotency_key rows)"
  shows "count_where (is_running_job res) rows \<le> 1"
  using assms
proof (induction rows)
  case (Cons r rows)
  have "is_running_job res r \<Longrightarrow> count_where (is_running_job res) rows = 0"
    using Cons.prems unfolding count_where_0 by (force simp: is_running_job_def)
  with Cons show ?case by (auto simp: count_where_def)
qed (simp add: count_where_def)

text \<open>A failed completion changes nothing: the key selects at most one row.\<close>

lemma CompleteFailure_error:
  assumes "CompleteFailure c up db res = (Some e, db')" "db_inv db" shows "db' = db"
proof (cases "count_where (is_running_job res) (release_jobs db) = 0")
  case True
  then have "update_where (is_running_job res) (finish_row c ''failed'' res) (release_jobs db)
      = release_jobs db"
    by (simp add: count_where_0 update_where_none)
  with assms(1) show ?thesis unfolding CompleteFailure_def by (simp split: if_splits)
next
  case False
  then have "count_where (is_running_job res) (release_jobs db) = 1"
    using is_running_job_unique[of "release_jobs db" res] assms(2)
    by (simp add: db_inv_def le_Suc_eq)
  with assms(1) show ?thesis
    unfolding CompleteFailure_def requireOneUpdated_def by (simp split: if_splits)
qed

lemma CompleteSuccess_inv:
  assumes "CompleteSuccess c up db res dig = (err, db')" "db_inv db" shows "db_inv db'"
proof (cases err)
  case None
  note ok = CompleteSuccess_ok[OF assms(1)[unfolded None]]
  have "distinct (map tr_target_id (release_targets db'))"
    unfolding ok(7) by (rule upsert_target_distinct) (use assms(2) in \<open>simp add: db_inv_def\<close>)
  with finish_rows_inv[OF assms(2) disjI1[OF refl] ok(2) ok(6)] show ?thesis .
next
  case (Some e)
  with assms show ?thesis by (auto dest: CompleteSuccess_error)
qed

lemma CompleteFailure_inv:
  assumes "CompleteFailure c up db res = (err, db')" "db_inv db" shows "db_inv db'"
proof (cases err)
  case None
  note ok = CompleteFailure_ok[OF assms(1)[unfolded None]]
  have "distinct (map tr_target_id (release_targets db'))"
    unfolding ok(5) using assms(2) by (simp add: db_inv_def)
  with finish_rows_inv[OF assms(2) disjI2[OF refl] ok(2) ok(4)] show ?thesis .
next
  case (Some e)
  with assms show ?thesis by (auto dest: CompleteFailure_error)
qed

end
