(* ===== verification/Release_Executor.thy ===== *)
theory Release_Executor
  imports Release_Store
begin

text \<open>
  \<open>internal/releasejob/executor.go\<close>: the executor of a release job over its two
  interfaces, \<open>JobStore\<close> (record \<open>jobstore\<close>, state \<open>'s\<close>) and \<open>Runtime\<close> (record \<open>runtime\<close>,
  state \<open>'w\<close>: the host, its containers and the clock). A method of the runtime returns its
  evidence and whether its error is non-nil, as the executor only tests that. The stages
  of \<open>Execute\<close> are one definition each, composed in the order of the code.
\<close>

subsection \<open>Interfaces\<close>

record 's jobstore =
  st_Reserve :: "'s \<Rightarrow> Request \<Rightarrow> string \<Rightarrow> time \<Rightarrow> (store_error + Reservation) \<times> 's"
  st_CurrentRelease :: "'s \<Rightarrow> string \<Rightarrow> (store_error + string option) \<times> 's"
  st_CompleteSuccess :: "'s \<Rightarrow> Result \<Rightarrow> string \<Rightarrow> store_error option \<times> 's"
  st_CompleteFailure :: "'s \<Rightarrow> Result \<Rightarrow> store_error option \<times> 's"

record 'w runtime =
  rtm_Preflight :: "Request \<Rightarrow> 'w \<Rightarrow> (PreflightEvidence \<times> bool) \<times> 'w"
  rtm_CreateAndVerifyBackup :: "Request \<Rightarrow> 'w \<Rightarrow> (BackupEvidence \<times> bool) \<times> 'w"
  rtm_RestoreBackup :: "Request \<Rightarrow> BackupEvidence \<Rightarrow> 'w \<Rightarrow> (RollbackEvidence \<times> bool) \<times> 'w"
  rtm_Apply :: "Request \<Rightarrow> 'w \<Rightarrow> (ApplyEvidence \<times> bool) \<times> 'w"
  rtm_VerifyHealth :: "Request \<Rightarrow> 'w \<Rightarrow> (HealthEvidence \<times> bool) \<times> 'w"
  rtm_now :: "'w \<Rightarrow> time \<times> 'w"

datatype exec_error =
    ExecInvalid contract_error
  | ExecReserve store_error
  | ReplayWithoutResult
  | ExecPersist store_error
  | JobFailed string string

type_synonym ('s, 'w) outcome = "(Result \<times> exec_error option) \<times> 's \<times> 'w"

text \<open>Go's zero value \<open>Result{}\<close>, returned with the errors that carry no result.\<close>

definition zero_Result :: Result where
  "zero_Result = \<lparr>rs_SchemaVersion = 0, rs_JobID = [], rs_IdempotencyKey = [], rs_ReleaseID = [],
     rs_TargetID = [], rs_Status = [], rs_StartedAt = 0, rs_FinishedAt = None,
     rs_Preflight = None, rs_Backup = None, rs_Rollback = None, rs_Apply = None,
     rs_Health = None, rs_FailedStep = [], rs_ErrorCode = []\<rparr>"

definition RequestSHA256 :: "(Request \<Rightarrow> string) \<Rightarrow> (string \<Rightarrow> string) \<Rightarrow> Request \<Rightarrow> string" where
  "RequestSHA256 marshal sha256hex request = ''sha256:'' @ sha256hex (marshal request)"

definition sameOptionalString :: "string option \<Rightarrow> string option \<Rightarrow> bool" where
  "sameOptionalString a b =
     (case (a, b) of (Some x, Some y) \<Rightarrow> x = y | _ \<Rightarrow> a = None \<and> b = None)"

subsection \<open>Stages of an execution\<close>

definition exec_fail ::
  "'s jobstore \<Rightarrow> 'w runtime \<Rightarrow> 's \<Rightarrow> 'w \<Rightarrow> Result \<Rightarrow> string \<Rightarrow> string \<Rightarrow> ('s, 'w) outcome" where
  "exec_fail st rt s w result step code =
     (case rtm_now rt w of (finishedAt, w') \<Rightarrow>
      let failed = result\<lparr>rs_Status := ''failed'', rs_FinishedAt := Some finishedAt,
                          rs_FailedStep := step, rs_ErrorCode := code\<rparr>
      in case st_CompleteFailure st s failed of
           (Some e, s') \<Rightarrow> ((zero_Result, Some (ExecPersist e)), s', w')
         | (None, s') \<Rightarrow> ((failed, Some (JobFailed step code)), s', w'))"

definition recoverAndFail ::
  "'s jobstore \<Rightarrow> 'w runtime \<Rightarrow> 's \<Rightarrow> 'w \<Rightarrow> Result \<Rightarrow> Request \<Rightarrow> BackupEvidence
    \<Rightarrow> string \<Rightarrow> string \<Rightarrow> ('s, 'w) outcome" where
  "recoverAndFail st rt s w result request backup originalStep originalCode =
     (case rtm_RestoreBackup rt request backup w of ((rollback, err), w') \<Rightarrow>
      let result' = result\<lparr>rs_Rollback := Some rollback\<rparr>
      in if err \<or> rb_BackupID rollback \<noteq> be_BackupID backup
            \<or> rb_Mode rollback \<noteq> rp_Mode (rq_Recovery request)
            \<or> \<not> rb_Restored rollback \<or> \<not> rb_HealthVerified rollback
         then exec_fail st rt s w' result' ''rollback'' ''ROLLBACK_FAILED''
         else exec_fail st rt s w' result' originalStep originalCode)"

text \<open>\<open>if result.Backup != nil && request.Recovery.Mode == "runtime-only"\<close>, three times in the code.\<close>

definition fail_or_recover ::
  "'s jobstore \<Rightarrow> 'w runtime \<Rightarrow> 's \<Rightarrow> 'w \<Rightarrow> Result \<Rightarrow> Request \<Rightarrow> string \<Rightarrow> string
    \<Rightarrow> ('s, 'w) outcome" where
  "fail_or_recover st rt s w result request step code =
     (case rs_Backup result of
        Some backup \<Rightarrow>
          if rp_Mode (rq_Recovery request) = ''runtime-only''
          then recoverAndFail st rt s w result request backup step code
          else exec_fail st rt s w result step code
      | None \<Rightarrow> exec_fail st rt s w result step code)"

definition exec_health ::
  "'s jobstore \<Rightarrow> 'w runtime \<Rightarrow> Request \<Rightarrow> Result \<Rightarrow> 's \<Rightarrow> 'w \<Rightarrow> ('s, 'w) outcome" where
  "exec_health st rt request result0 s w0 =
     (case rtm_VerifyHealth rt request w0 of ((health, err), w) \<Rightarrow>
      let result = result0\<lparr>rs_Health := Some health\<rparr>
      in if err \<or> he_Profile health \<noteq> rq_HealthProfile request \<or> he_ChecksPassed health < 1
         then fail_or_recover st rt s w result request ''health'' ''HEALTH_FAILED''
         else case rtm_now rt w of (finishedAt, w') \<Rightarrow>
           let success = result\<lparr>rs_Status := ''succeeded'', rs_FinishedAt := Some finishedAt\<rparr>
           in case st_CompleteSuccess st s success (rq_ManifestDigest request) of
                (Some e, s') \<Rightarrow> ((zero_Result, Some (ExecPersist e)), s', w')
              | (None, s') \<Rightarrow> ((success, None), s', w'))"

definition exec_apply ::
  "'s jobstore \<Rightarrow> 'w runtime \<Rightarrow> Request \<Rightarrow> Result \<Rightarrow> 's \<Rightarrow> 'w \<Rightarrow> ('s, 'w) outcome" where
  "exec_apply st rt request result0 s w0 =
     (case rtm_Apply rt request w0 of ((applied, err), w) \<Rightarrow>
      let result = result0\<lparr>rs_Apply := Some applied\<rparr>
      in if err \<or> ae_AppliedComponents applied \<noteq> int (length (rq_Images request))
         then fail_or_recover st rt s w result request ''apply'' ''APPLY_FAILED''
         else if mp_Mode (rq_Migration request) = ''preflight-and-apply''
                 \<and> \<not> ae_MigrationApplied applied
         then fail_or_recover st rt s w result request ''apply'' ''MIGRATION_NOT_APPLIED''
         else exec_health st rt request result s w)"

definition backup_verified :: "BackupEvidence \<Rightarrow> bool" where
  "backup_verified b \<longleftrightarrow> be_Verified b \<and> be_Encrypted b \<and> be_OffsiteVerified b
     \<and> digestPattern (be_ManifestSHA256 b) \<and> be_BackupID b \<noteq> []"

definition exec_backup ::
  "'s jobstore \<Rightarrow> 'w runtime \<Rightarrow> Request \<Rightarrow> Result \<Rightarrow> 's \<Rightarrow> 'w \<Rightarrow> ('s, 'w) outcome" where
  "exec_backup st rt request result s w0 =
     (if bp_Required (rq_Backup request) then
        (case rtm_CreateAndVerifyBackup rt request w0 of ((backup, err), w) \<Rightarrow>
         let result' = result\<lparr>rs_Backup := Some backup\<rparr>
         in if err \<or> \<not> backup_verified backup
            then exec_fail st rt s w result' ''backup'' ''BACKUP_NOT_VERIFIED''
            else exec_apply st rt request result' s w)
      else exec_apply st rt request result s w0)"

definition preflight_passed :: "PreflightEvidence \<Rightarrow> bool" where
  "preflight_passed p \<longleftrightarrow> pe_ComposeValid p \<and> pe_ImagesResolved p \<and> pe_MigrationReady p"

definition exec_preflight ::
  "'s jobstore \<Rightarrow> 'w runtime \<Rightarrow> Request \<Rightarrow> Result \<Rightarrow> 's \<Rightarrow> 'w \<Rightarrow> ('s, 'w) outcome" where
  "exec_preflight st rt request result0 s w0 =
     (case rtm_Preflight rt request w0 of ((preflight, err), w) \<Rightarrow>
      let result = result0\<lparr>rs_Preflight := Some preflight\<rparr>
      in if err \<or> \<not> preflight_passed preflight
         then exec_fail st rt s w result ''preflight'' ''PREFLIGHT_FAILED''
         else exec_backup st rt request result s w)"

definition exec_current ::
  "'s jobstore \<Rightarrow> 'w runtime \<Rightarrow> Request \<Rightarrow> Result \<Rightarrow> 's \<Rightarrow> 'w \<Rightarrow> ('s, 'w) outcome" where
  "exec_current st rt request result s0 w =
     (case st_CurrentRelease st s0 (tgt_ID (rq_Target request)) of
        (Inl _, s) \<Rightarrow>
          exec_fail st rt s w result ''expected-current-release'' ''CURRENT_RELEASE_UNAVAILABLE''
      | (Inr current, s) \<Rightarrow>
          if \<not> sameOptionalString current (tgt_ExpectedCurrentReleaseID (rq_Target request))
          then exec_fail st rt s w result ''expected-current-release'' ''CURRENT_RELEASE_MISMATCH''
          else exec_preflight st rt request result s w)"

definition running_result :: "Request \<Rightarrow> time \<Rightarrow> Result" where
  "running_result request startedAt = zero_Result\<lparr>
     rs_SchemaVersion := SchemaVersion, rs_JobID := rq_JobID request,
     rs_IdempotencyKey := rq_IdempotencyKey request, rs_ReleaseID := rq_ReleaseID request,
     rs_TargetID := tgt_ID (rq_Target request), rs_Status := ''running'',
     rs_StartedAt := startedAt\<rparr>"

definition Execute ::
  "(Request \<Rightarrow> string) \<Rightarrow> (string \<Rightarrow> string) \<Rightarrow> 's jobstore \<Rightarrow> 'w runtime \<Rightarrow> Request \<Rightarrow> 's \<Rightarrow> 'w
    \<Rightarrow> ('s, 'w) outcome" where
  "Execute marshal sha256hex st rt request s0 w0 =
     (case Validate request of
        Some e \<Rightarrow> ((zero_Result, Some (ExecInvalid e)), s0, w0)
      | None \<Rightarrow>
          (case rtm_now rt w0 of (startedAt, w) \<Rightarrow>
           case st_Reserve st s0 request (RequestSHA256 marshal sha256hex request) startedAt of
             (Inl e, s) \<Rightarrow> ((zero_Result, Some (ExecReserve e)), s, w)
           | (Inr reservation, s) \<Rightarrow>
               (case rv_State reservation of
                  ReservationReplay \<Rightarrow>
                    (case rv_Result reservation of
                       None \<Rightarrow> ((zero_Result, Some ReplayWithoutResult), s, w)
                     | Some result \<Rightarrow> ((result, None), s, w))
                | ReservationAcquired \<Rightarrow>
                    exec_current st rt request (running_result request startedAt) s w)))"

lemmas stage_defs [release_defs] = exec_fail_def recoverAndFail_def fail_or_recover_def
  exec_health_def exec_apply_def exec_backup_def exec_preflight_def exec_current_def

lemma sameOptionalString_eq [simp]: "sameOptionalString a b \<longleftrightarrow> a = b"
  by (cases a; cases b) (auto simp: sameOptionalString_def)

lemma running_result_simps [simp]:
  "rs_JobID (running_result rq t) = rq_JobID rq"
  "rs_IdempotencyKey (running_result rq t) = rq_IdempotencyKey rq"
  "rs_ReleaseID (running_result rq t) = rq_ReleaseID rq"
  "rs_TargetID (running_result rq t) = tgt_ID (rq_Target rq)"
  "rs_Backup (running_result rq t) = None"
  "rs_SchemaVersion (running_result rq t) = 2"
  "rs_StartedAt (running_result rq t) = t"
  by (simp_all add: running_result_def zero_Result_def SchemaVersion_def)

subsection \<open>The runtime under observation\<close>

text \<open>
  To speak of the calls an execution makes on its runtime, any runtime can be wrapped so
  that it records them, with their answers, beside its own state.
\<close>

datatype call =
    CallPreflight PreflightEvidence bool
  | CallBackup BackupEvidence bool
  | CallRestore BackupEvidence RollbackEvidence bool
  | CallApply ApplyEvidence bool
  | CallHealth HealthEvidence bool

definition observe :: "('a \<times> bool \<Rightarrow> call) \<Rightarrow> ('a \<times> bool) \<times> 'w \<Rightarrow> call list
    \<Rightarrow> ('a \<times> bool) \<times> 'w \<times> call list" where
  "observe f answer log = (case answer of (a, w) \<Rightarrow> (a, w, log @ [f a]))"

definition traced :: "'w runtime \<Rightarrow> ('w \<times> call list) runtime" where
  "traced rt = \<lparr>
     rtm_Preflight = (\<lambda>rq (w, log). observe (\<lambda>(p, err). CallPreflight p err) (rtm_Preflight rt rq w) log),
     rtm_CreateAndVerifyBackup = (\<lambda>rq (w, log).
       observe (\<lambda>(b, err). CallBackup b err) (rtm_CreateAndVerifyBackup rt rq w) log),
     rtm_RestoreBackup = (\<lambda>rq b (w, log).
       observe (\<lambda>(r, err). CallRestore b r err) (rtm_RestoreBackup rt rq b w) log),
     rtm_Apply = (\<lambda>rq (w, log). observe (\<lambda>(a, err). CallApply a err) (rtm_Apply rt rq w) log),
     rtm_VerifyHealth = (\<lambda>rq (w, log).
       observe (\<lambda>(h, err). CallHealth h err) (rtm_VerifyHealth rt rq w) log),
     rtm_now = (\<lambda>(w, log). case rtm_now rt w of (t, w') \<Rightarrow> (t, w', log))\<rparr>"

fun is_apply :: "call \<Rightarrow> bool" where
  "is_apply (CallApply _ _) = True"
| "is_apply _ = False"

fun is_restore :: "call \<Rightarrow> bool" where
  "is_restore (CallRestore _ _ _) = True"
| "is_restore _ = False"

fun passed_preflight :: "call \<Rightarrow> bool" where
  "passed_preflight (CallPreflight p err) = (\<not> err \<and> preflight_passed p)"
| "passed_preflight _ = False"

fun verified_backup :: "call \<Rightarrow> bool" where
  "verified_backup (CallBackup b err) = (\<not> err \<and> backup_verified b)"
| "verified_backup _ = False"

text \<open>
  What may be called after the calls \<open>seen\<close>: an apply only after a passed preflight, after a
  verified backup when one is required, and once; a restore only after the apply, of the backup
  this execution verified, for the recovery mode \<open>runtime-only\<close>, and as the last call.
\<close>

fun calls_safe :: "Request \<Rightarrow> call list \<Rightarrow> call list \<Rightarrow> bool" where
  "calls_safe rq seen [] = True"
| "calls_safe rq seen (x # xs) =
     ((case x of
         CallApply a err \<Rightarrow> list_ex passed_preflight seen
           \<and> (bp_Required (rq_Backup rq) \<longrightarrow> list_ex verified_backup seen)
           \<and> \<not> list_ex is_apply seen
       | CallRestore bk r err \<Rightarrow> list_ex is_apply seen
           \<and> List.member seen (CallBackup bk False) \<and> backup_verified bk
           \<and> rp_Mode (rq_Recovery rq) = ''runtime-only'' \<and> xs = []
       | _ \<Rightarrow> True)
      \<and> calls_safe rq (seen @ [x]) xs)"

subsection \<open>Which calls an execution makes\<close>

lemma traced_simps [simp]:
  "rtm_Preflight (traced rt) rq (w, log) = observe (\<lambda>(p, err). CallPreflight p err) (rtm_Preflight rt rq w) log"
  "rtm_CreateAndVerifyBackup (traced rt) rq (w, log) =
     observe (\<lambda>(b, err). CallBackup b err) (rtm_CreateAndVerifyBackup rt rq w) log"
  "rtm_RestoreBackup (traced rt) rq bk (w, log) =
     observe (\<lambda>(r, err). CallRestore bk r err) (rtm_RestoreBackup rt rq bk w) log"
  "rtm_Apply (traced rt) rq (w, log) = observe (\<lambda>(a, err). CallApply a err) (rtm_Apply rt rq w) log"
  "rtm_VerifyHealth (traced rt) rq (w, log) =
     observe (\<lambda>(h, err). CallHealth h err) (rtm_VerifyHealth rt rq w) log"
  "rtm_now (traced rt) (w, log) = (case rtm_now rt w of (t, w') \<Rightarrow> (t, w', log))"
  by (simp_all add: traced_def)

lemma observe_eq: "observe f answer log = (case answer of (a, w) \<Rightarrow> (a, w, log @ [f a]))"
  by (simp add: observe_def)

definition restore_tail :: "Request \<Rightarrow> BackupEvidence option \<Rightarrow> call list \<Rightarrow> bool" where
  "restore_tail rq bk xs \<longleftrightarrow> xs = [] \<or>
     (\<exists>b r err. bk = Some b \<and> rp_Mode (rq_Recovery rq) = ''runtime-only'' \<and> xs = [CallRestore b r err])"

definition health_tail :: "Request \<Rightarrow> BackupEvidence option \<Rightarrow> call list \<Rightarrow> bool" where
  "health_tail rq bk xs \<longleftrightarrow> (\<exists>h err ys. xs = CallHealth h err # ys \<and> restore_tail rq bk ys)"

definition apply_tail :: "Request \<Rightarrow> BackupEvidence option \<Rightarrow> call list \<Rightarrow> bool" where
  "apply_tail rq bk xs \<longleftrightarrow>
     (\<exists>a err ys. xs = CallApply a err # ys \<and> (restore_tail rq bk ys \<or> health_tail rq bk ys))"

definition backup_tail :: "Request \<Rightarrow> call list \<Rightarrow> bool" where
  "backup_tail rq xs \<longleftrightarrow>
     (if bp_Required (rq_Backup rq)
      then \<exists>b err ys. xs = CallBackup b err # ys
             \<and> (ys = [] \<or> \<not> err \<and> backup_verified b \<and> apply_tail rq (Some b) ys)
      else apply_tail rq None xs)"

lemma exec_fail_log:
  "exec_fail st (traced rt) s (w, log) result step code = (out, s', w', log') \<Longrightarrow> log' = log"
  by (auto simp: exec_fail_def Let_def split: prod.splits option.splits)

lemma fail_or_recover_log:
  assumes "fail_or_recover st (traced rt) s (w, log) result rq step code = (out, s', w', log')"
  shows "\<exists>xs. log' = log @ xs \<and> restore_tail rq (rs_Backup result) xs"
  using assms
  by (auto simp: fail_or_recover_def recoverAndFail_def Let_def observe_eq restore_tail_def
      split: prod.splits option.splits if_splits dest!: exec_fail_log)

lemma exec_health_log:
  assumes "exec_health st (traced rt) rq result s (w, log) = (out, s', w', log')"
  shows "\<exists>xs. log' = log @ xs \<and> health_tail rq (rs_Backup result) xs"
proof -
  obtain h err w1 where call: "rtm_VerifyHealth rt rq w = ((h, err), w1)" by (metis prod.exhaust)
  let ?res = "result\<lparr>rs_Health := Some h\<rparr>"
  have "\<exists>ys. log' = (log @ [CallHealth h err]) @ ys \<and> restore_tail rq (rs_Backup result) ys"
  proof (cases "err \<or> he_Profile h \<noteq> rq_HealthProfile rq \<or> he_ChecksPassed h < 1")
    case True
    with assms call have "fail_or_recover st (traced rt) s (w1, log @ [CallHealth h err]) ?res rq
        ''health'' ''HEALTH_FAILED'' = (out, s', w', log')"
      by (simp add: exec_health_def observe_eq)
    from fail_or_recover_log[OF this] show ?thesis by simp
  next
    case False
    with assms call have "log' = log @ [CallHealth h err]"
      by (auto simp: exec_health_def observe_eq Let_def split: prod.splits option.splits)
    then show ?thesis by (simp add: restore_tail_def)
  qed
  then show ?thesis by (auto simp: health_tail_def)
qed

lemma exec_apply_log:
  assumes "exec_apply st (traced rt) rq result s (w, log) = (out, s', w', log')"
  shows "\<exists>xs. log' = log @ xs \<and> apply_tail rq (rs_Backup result) xs"
proof -
  obtain a err w1 where call: "rtm_Apply rt rq w = ((a, err), w1)" by (metis prod.exhaust)
  let ?res = "result\<lparr>rs_Apply := Some a\<rparr>" and ?log = "log @ [CallApply a err]"
  consider (failed) code where "fail_or_recover st (traced rt) s (w1, ?log) ?res rq ''apply'' code
        = (out, s', w', log')"
    | (healthy) "exec_health st (traced rt) rq ?res s (w1, ?log) = (out, s', w', log')"
    using assms call by (auto simp: exec_apply_def observe_eq Let_def split: if_splits)
  then have "\<exists>ys. log' = ?log @ ys
      \<and> (restore_tail rq (rs_Backup result) ys \<or> health_tail rq (rs_Backup result) ys)"
    by cases (fastforce dest: fail_or_recover_log exec_health_log)+
  then show ?thesis by (auto simp: apply_tail_def)
qed

lemma exec_backup_log:
  assumes "exec_backup st (traced rt) rq result s (w, log) = (out, s', w', log')"
    and "rs_Backup result = None"
  shows "\<exists>xs. log' = log @ xs \<and> backup_tail rq xs"
proof (cases "bp_Required (rq_Backup rq)")
  case True
  obtain b err w1 where call: "rtm_CreateAndVerifyBackup rt rq w = ((b, err), w1)"
    by (metis prod.exhaust)
  let ?res = "result\<lparr>rs_Backup := Some b\<rparr>" and ?log = "log @ [CallBackup b err]"
  show ?thesis
  proof (cases "err \<or> \<not> backup_verified b")
    case bad: True
    with assms True call have "log' = ?log"
      by (auto simp: exec_backup_def observe_eq Let_def dest!: exec_fail_log)
    with True show ?thesis by (auto simp: backup_tail_def)
  next
    case False
    with assms True call have "exec_apply st (traced rt) rq ?res s (w1, ?log) = (out, s', w', log')"
      by (simp add: exec_backup_def observe_eq)
    from exec_apply_log[OF this] False True show ?thesis by (auto simp: backup_tail_def)
  qed
next
  case False
  with assms have "exec_apply st (traced rt) rq result s (w, log) = (out, s', w', log')"
    by (simp add: exec_backup_def)
  from exec_apply_log[OF this] False assms(2) show ?thesis by (simp add: backup_tail_def)
qed

lemma exec_preflight_log:
  assumes "exec_preflight st (traced rt) rq result s (w, log) = (out, s', w', log')"
    and "rs_Backup result = None"
  shows "\<exists>p err ys. log' = log @ CallPreflight p err # ys
    \<and> (ys = [] \<or> \<not> err \<and> preflight_passed p \<and> backup_tail rq ys)"
proof -
  obtain p err w1 where call: "rtm_Preflight rt rq w = ((p, err), w1)" by (metis prod.exhaust)
  let ?res = "result\<lparr>rs_Preflight := Some p\<rparr>" and ?log = "log @ [CallPreflight p err]"
  show ?thesis
  proof (cases "err \<or> \<not> preflight_passed p")
    case True
    with assms call have "log' = ?log"
      by (auto simp: exec_preflight_def observe_eq Let_def dest!: exec_fail_log)
    then show ?thesis by auto
  next
    case False
    with assms call have "exec_backup st (traced rt) rq ?res s (w1, ?log) = (out, s', w', log')"
      by (simp add: exec_preflight_def observe_eq)
    from exec_backup_log[OF this] assms(2) False show ?thesis by force
  qed
qed

lemma Execute_log:
  assumes "Execute marshal sh st (traced rt) rq s (w, []) = (out, s', w', log)"
  shows "log = [] \<or> (\<exists>p err ys. log = CallPreflight p err # ys
    \<and> (ys = [] \<or> \<not> err \<and> preflight_passed p \<and> backup_tail rq ys))"
proof (cases "log = []")
  case False
  obtain t w1 where now: "rtm_now rt w = (t, w1)" by (metis prod.exhaust)
  obtain r s1 where res: "st_Reserve st s rq (RequestSHA256 marshal sh rq) t = (r, s1)"
    by (metis prod.exhaust)
  from False assms now res have
    "exec_current st (traced rt) rq (running_result rq t) s1 (w1, []) = (out, s', w', log)"
    by (auto simp: Execute_def split: option.splits sum.splits ReservationState.splits)
  then obtain s2 where
    "exec_preflight st (traced rt) rq (running_result rq t) s2 (w1, []) = (out, s', w', log)"
    using False by (auto simp: exec_current_def split: prod.splits sum.splits if_splits
        dest!: exec_fail_log)
  from exec_preflight_log[OF this] show ?thesis by auto
qed simp

lemma restore_tail_safe:
  assumes "restore_tail rq bk xs" "list_ex is_apply seen"
    "\<And>b. bk = Some b \<Longrightarrow> backup_verified b \<and> CallBackup b False \<in> set seen"
  shows "calls_safe rq seen xs"
  using assms by (auto simp: restore_tail_def)

lemma apply_tail_safe:
  assumes "apply_tail rq bk xs" "list_ex passed_preflight seen" "\<not> list_ex is_apply seen"
    "bp_Required (rq_Backup rq) \<Longrightarrow> list_ex verified_backup seen"
    "\<And>b. bk = Some b \<Longrightarrow> backup_verified b \<and> CallBackup b False \<in> set seen"
  shows "calls_safe rq seen xs"
  using assms by (auto simp: apply_tail_def health_tail_def elim!: restore_tail_safe)

lemma backup_tail_safe:
  assumes "backup_tail rq ys" "\<not> err" "preflight_passed p"
  shows "calls_safe rq [CallPreflight p err] ys"
  using assms
  by (auto simp: backup_tail_def split: if_splits elim!: apply_tail_safe)

text \<open>C1. Whatever the job store and the runtime answer, the calls one execution makes on the host
  respect the order of the contract: it applies a release at most once, only after a preflight
  that passed and, where the request requires one, after a backup that was verified; it restores
  only what it backed up itself, after the apply, when the recovery mode is runtime-only.\<close>
theorem Execute_calls_safe:
  assumes "Execute marshal sh st (traced rt) rq s (w, []) = (out, s', w', log)"
  shows "calls_safe rq [] log"
  using Execute_log[OF assms] by (auto intro: backup_tail_safe)

subsection \<open>How an execution ends\<close>

text \<open>
  A reserved job ends with one call on the store: \<open>CompleteSuccess\<close> with the evidence of
  every step, or \<open>CompleteFailure\<close>. The lemmas of this section reduce \<open>Execute\<close> to that
  call.
\<close>

definition preflight_evidence :: "Result \<Rightarrow> bool" where
  "preflight_evidence r \<longleftrightarrow> (case rs_Preflight r of None \<Rightarrow> False | Some p \<Rightarrow> preflight_passed p)"

definition backup_evidence :: "Request \<Rightarrow> Result \<Rightarrow> bool" where
  "backup_evidence rq r \<longleftrightarrow>
     (case rs_Backup r of None \<Rightarrow> \<not> bp_Required (rq_Backup rq) | Some b \<Rightarrow> backup_verified b)"

definition apply_evidence :: "Request \<Rightarrow> Result \<Rightarrow> bool" where
  "apply_evidence rq r \<longleftrightarrow>
     (case rs_Apply r of None \<Rightarrow> False
      | Some a \<Rightarrow> ae_AppliedComponents a = int (length (rq_Images rq))
          \<and> (mp_Mode (rq_Migration rq) = ''preflight-and-apply'' \<longrightarrow> ae_MigrationApplied a))"

definition health_evidence :: "Request \<Rightarrow> Result \<Rightarrow> bool" where
  "health_evidence rq r \<longleftrightarrow>
     (case rs_Health r of None \<Rightarrow> False
      | Some h \<Rightarrow> he_Profile h = rq_HealthProfile rq \<and> 1 \<le> he_ChecksPassed h)"

definition complete_evidence :: "Request \<Rightarrow> Result \<Rightarrow> bool" where
  "complete_evidence rq r \<longleftrightarrow> rs_Status r = ''succeeded'' \<and> rs_FinishedAt r \<noteq> None
     \<and> preflight_evidence r \<and> backup_evidence rq r \<and> apply_evidence rq r
     \<and> health_evidence rq r \<and> rs_Rollback r = None"

definition same_job :: "Result \<Rightarrow> Result \<Rightarrow> bool" where
  "same_job r q \<longleftrightarrow> rs_IdempotencyKey r = rs_IdempotencyKey q \<and> rs_JobID r = rs_JobID q
     \<and> rs_ReleaseID r = rs_ReleaseID q \<and> rs_TargetID r = rs_TargetID q
     \<and> rs_StartedAt r = rs_StartedAt q"

definition persisted :: "Result \<Rightarrow> exec_error option \<Rightarrow> store_error option
    \<Rightarrow> Result \<times> exec_error option" where
  "persisted res err e =
     (case e of None \<Rightarrow> (res, err) | Some x \<Rightarrow> (zero_Result, Some (ExecPersist x)))"

definition ends_well :: "'s jobstore \<Rightarrow> 's \<Rightarrow> Request \<Rightarrow> Result \<Rightarrow> ('s, 'w) outcome \<Rightarrow> bool" where
  "ends_well st s rq q out \<longleftrightarrow>
     (\<exists>res e. same_job res q \<and> complete_evidence rq res
        \<and> st_CompleteSuccess st s res (rq_ManifestDigest rq) = (e, fst (snd out))
        \<and> fst out = persisted res None e)"

definition ends_badly :: "'s jobstore \<Rightarrow> 's \<Rightarrow> Result \<Rightarrow> ('s, 'w) outcome \<Rightarrow> bool" where
  "ends_badly st s q out \<longleftrightarrow>
     (\<exists>res e step code. same_job res q \<and> rs_Status res = ''failed'' \<and> rs_FinishedAt res \<noteq> None
        \<and> rs_FailedStep res = step \<and> rs_ErrorCode res = code
        \<and> st_CompleteFailure st s res = (e, fst (snd out))
        \<and> fst out = persisted res (Some (JobFailed step code)) e)"

lemma exec_fail_ends:
  "same_job result q \<Longrightarrow> ends_badly st s q (exec_fail st rt s w result step code)"
  by (auto simp: exec_fail_def ends_badly_def persisted_def same_job_def Let_def
      split: prod.splits option.splits
      intro!: exI[of _ "result\<lparr>rs_Status := ''failed'', rs_FinishedAt := Some _,
        rs_FailedStep := step, rs_ErrorCode := code\<rparr>"])

lemma fail_or_recover_ends:
  "same_job result q \<Longrightarrow> ends_badly st s q (fail_or_recover st rt s w result rq step code)"
  by (auto simp: fail_or_recover_def recoverAndFail_def Let_def same_job_def
      split: prod.splits option.splits intro!: exec_fail_ends)

lemma exec_health_ends:
  assumes "same_job result q" "preflight_evidence result" "backup_evidence rq result"
    "apply_evidence rq result" "rs_Rollback result = None"
  shows "ends_well st s rq q (exec_health st rt rq result s w)
    \<or> ends_badly st s q (exec_health st rt rq result s w)"
proof -
  obtain h err w1 where call: "rtm_VerifyHealth rt rq w = ((h, err), w1)" by (metis prod.exhaust)
  obtain t w2 where now: "rtm_now rt w1 = (t, w2)" by (metis prod.exhaust)
  let ?ok = "result\<lparr>rs_Health := Some h, rs_Status := ''succeeded'', rs_FinishedAt := Some t\<rparr>"
  obtain e s' where fin: "st_CompleteSuccess st s ?ok (rq_ManifestDigest rq) = (e, s')"
    by (metis prod.exhaust)
  show ?thesis
  proof (cases "err \<or> he_Profile h \<noteq> rq_HealthProfile rq \<or> he_ChecksPassed h < 1")
    case True
    then have "exec_health st rt rq result s w = fail_or_recover st rt s w1
        (result\<lparr>rs_Health := Some h\<rparr>) rq ''health'' ''HEALTH_FAILED''"
      using call by (simp add: exec_health_def)
    then show ?thesis
      using assms(1) by (simp add: fail_or_recover_ends same_job_def)
  next
    case False
    then have "exec_health st rt rq result s w = (persisted ?ok None e, s', w2)"
      using call now fin by (simp add: exec_health_def persisted_def split: option.splits)
    moreover have "complete_evidence rq ?ok" "same_job ?ok q"
      using assms False
      by (auto simp: complete_evidence_def preflight_evidence_def backup_evidence_def
          apply_evidence_def health_evidence_def same_job_def)
    ultimately show ?thesis using fin by (auto simp: ends_well_def)
  qed
qed

lemma exec_apply_ends:
  assumes "same_job result q" "preflight_evidence result" "backup_evidence rq result"
    "rs_Rollback result = None"
  shows "ends_well st s rq q (exec_apply st rt rq result s w)
    \<or> ends_badly st s q (exec_apply st rt rq result s w)"
proof -
  obtain a err w1 where call: "rtm_Apply rt rq w = ((a, err), w1)" by (metis prod.exhaust)
  let ?res = "result\<lparr>rs_Apply := Some a\<rparr>"
  have res: "same_job ?res q" "preflight_evidence ?res" "backup_evidence rq ?res"
      "rs_Rollback ?res = None"
    using assms by (auto simp: same_job_def preflight_evidence_def backup_evidence_def)
  consider (failed) code where "exec_apply st rt rq result s w
        = fail_or_recover st rt s w1 ?res rq ''apply'' code"
    | (healthy) "exec_apply st rt rq result s w = exec_health st rt rq ?res s w1"
        "apply_evidence rq ?res"
    using call
    by (cases "err \<or> ae_AppliedComponents a \<noteq> int (length (rq_Images rq))";
        cases "mp_Mode (rq_Migration rq) = ''preflight-and-apply'' \<and> \<not> ae_MigrationApplied a")
      (simp_all add: exec_apply_def apply_evidence_def)
  then show ?thesis
    by cases (simp_all add: fail_or_recover_ends[OF res(1)] exec_health_ends[OF res(1-3) _ res(4)])
qed

lemma exec_backup_ends:
  assumes "same_job result q" "preflight_evidence result" "rs_Backup result = None"
    "rs_Rollback result = None"
  shows "ends_well st s rq q (exec_backup st rt rq result s w)
    \<or> ends_badly st s q (exec_backup st rt rq result s w)"
proof -
  obtain b err w1 where call: "rtm_CreateAndVerifyBackup rt rq w = ((b, err), w1)"
    by (metis prod.exhaust)
  let ?res = "result\<lparr>rs_Backup := Some b\<rparr>"
  have res: "same_job ?res q" "preflight_evidence ?res" "rs_Rollback ?res = None"
    using assms by (auto simp: same_job_def preflight_evidence_def)
  consider (failed) "exec_backup st rt rq result s w
        = exec_fail st rt s w1 ?res ''backup'' ''BACKUP_NOT_VERIFIED''"
    | (backed_up) "exec_backup st rt rq result s w = exec_apply st rt rq ?res s w1"
        "backup_evidence rq ?res"
    | (skipped) "exec_backup st rt rq result s w = exec_apply st rt rq result s w"
        "backup_evidence rq result"
    using call assms(3)
    by (cases "bp_Required (rq_Backup rq)"; cases "err \<or> \<not> backup_verified b")
      (simp_all add: exec_backup_def backup_evidence_def)
  then show ?thesis
    by cases (simp_all add: exec_fail_ends[OF res(1)] exec_apply_ends[OF res(1,2) _ res(3)]
        exec_apply_ends[OF assms(1,2) _ assms(4)])
qed

lemma exec_preflight_ends:
  assumes "same_job result q" "rs_Backup result = None" "rs_Rollback result = None"
  shows "ends_well st s rq q (exec_preflight st rt rq result s w)
    \<or> ends_badly st s q (exec_preflight st rt rq result s w)"
proof -
  obtain p err w1 where call: "rtm_Preflight rt rq w = ((p, err), w1)" by (metis prod.exhaust)
  let ?res = "result\<lparr>rs_Preflight := Some p\<rparr>"
  have res: "same_job ?res q" "rs_Backup ?res = None" "rs_Rollback ?res = None"
    using assms by (auto simp: same_job_def)
  consider (failed) "exec_preflight st rt rq result s w
        = exec_fail st rt s w1 ?res ''preflight'' ''PREFLIGHT_FAILED''"
    | (passed) "exec_preflight st rt rq result s w = exec_backup st rt rq ?res s w1"
        "preflight_evidence ?res"
    using call
    by (cases "err \<or> \<not> preflight_passed p") (simp_all add: exec_preflight_def preflight_evidence_def)
  then show ?thesis
    by cases (simp_all add: exec_fail_ends[OF res(1)] exec_backup_ends[OF res(1) _ res(2,3)])
qed

lemma exec_current_ends:
  assumes "st_CurrentRelease st s (tgt_ID (rq_Target rq)) = (cur, s1)"
    "same_job result q" "rs_Backup result = None" "rs_Rollback result = None"
  shows "ends_well st s1 rq q (exec_current st rt rq result s w)
      \<and> cur = Inr (tgt_ExpectedCurrentReleaseID (rq_Target rq))
    \<or> ends_badly st s1 q (exec_current st rt rq result s w)"
  using assms exec_fail_ends[OF assms(2), of st s1 rt w]
    exec_preflight_ends[OF assms(2-4), of st s1 rq rt w]
  by (auto simp: exec_current_def split: sum.splits)

end
