(* ===== verification/Release_Idempotence.thy ===== *)
theory Release_Idempotence
  imports Release_Executor
begin

text \<open>
  What the executor needs of its \<open>JobStore\<close>, as the locale \<open>job_store\<close> (the jobs by
  idempotency key) and its extension \<open>target_store\<close> (the current release of every target).
  The client lemmas about \<open>Execute\<close> are proved in them; the database of
  \<open>internal/db/release_jobs.go\<close>, whose statements may fail at any call, provides both.
\<close>

subsection \<open>The contract of a job store\<close>

datatype job_state = JobRunning | JobDone "Result option"

locale job_store =
  fixes st :: "'s jobstore"
    and inv :: "'s \<Rightarrow> bool"
    and job :: "'s \<Rightarrow> string \<Rightarrow> (string \<times> job_state) option"
    and stored :: "Result \<Rightarrow> Result option"
  assumes reserve_inv: "inv s \<Longrightarrow> st_Reserve st s rq sha t = (r, s') \<Longrightarrow> inv s'"
    and reserve_acquired: "inv s \<Longrightarrow> st_Reserve st s rq sha t = (Inr rv, s')
      \<Longrightarrow> rv_State rv = ReservationAcquired
      \<Longrightarrow> job s (rq_IdempotencyKey rq) = None
        \<and> job s' = (job s)(rq_IdempotencyKey rq \<mapsto> (sha, JobRunning))"
    and reserve_replay: "inv s \<Longrightarrow> st_Reserve st s rq sha t = (Inr rv, s')
      \<Longrightarrow> rv_State rv = ReservationReplay
      \<Longrightarrow> job s' = job s \<and> rv_Result rv \<noteq> None
        \<and> job s (rq_IdempotencyKey rq) = Some (sha, JobDone (rv_Result rv))"
    and reserve_error: "inv s \<Longrightarrow> st_Reserve st s rq sha t = (Inl e, s') \<Longrightarrow> job s' = job s"
    and current_keeps: "inv s \<Longrightarrow> st_CurrentRelease st s tgt = (c, s') \<Longrightarrow> inv s' \<and> job s' = job s"
    and success_inv: "inv s \<Longrightarrow> st_CompleteSuccess st s res dig = (err, s') \<Longrightarrow> inv s'"
    and success_ok: "inv s \<Longrightarrow> st_CompleteSuccess st s res dig = (None, s')
      \<Longrightarrow> \<exists>sha. job s (rs_IdempotencyKey res) = Some (sha, JobRunning)
        \<and> job s' = (job s)(rs_IdempotencyKey res \<mapsto> (sha, JobDone (stored res)))"
    and failure_inv: "inv s \<Longrightarrow> st_CompleteFailure st s res = (err, s') \<Longrightarrow> inv s'"
    and failure_ok: "inv s \<Longrightarrow> st_CompleteFailure st s res = (None, s')
      \<Longrightarrow> \<exists>sha. job s (rs_IdempotencyKey res) = Some (sha, JobRunning)
        \<and> job s' = (job s)(rs_IdempotencyKey res \<mapsto> (sha, JobDone (stored res)))"

text \<open>The error of an execution that reached the end of its job.\<close>

fun settled :: "exec_error option \<Rightarrow> bool" where
  "settled None = True"
| "settled (Some (JobFailed _ _)) = True"
| "settled _ = False"

lemma persisted_settled:
  "settled (snd (persisted res err e)) \<Longrightarrow> e = None \<and> persisted res err e = (res, err)"
  by (auto simp: persisted_def split: option.splits)

lemma Execute_split:
  assumes "Execute m h st rt rq s w = ((res, err), s', w')"
  obtains (invalid) e where "Validate rq = Some e" "err = Some (ExecInvalid e)" "s' = s"
  | (refused) e t where "st_Reserve st s rq (RequestSHA256 m h rq) t = (Inl e, s')"
      "err = Some (ExecReserve e)"
  | (replay) rv t where "st_Reserve st s rq (RequestSHA256 m h rq) t = (Inr rv, s')"
      "rv_State rv = ReservationReplay"
      "case rv_Result rv of None \<Rightarrow> err = Some ReplayWithoutResult
       | Some r \<Rightarrow> err = None \<and> res = r"
  | (fresh) rv t s1 w1 where "Validate rq = None"
      "st_Reserve st s rq (RequestSHA256 m h rq) t = (Inr rv, s1)"
      "rv_State rv = ReservationAcquired"
      "exec_current st rt rq (running_result rq t) s1 w1 = ((res, err), s', w')"
  using assms
  by (auto simp: Execute_def split: option.splits prod.splits sum.splits ReservationState.splits)

lemma Execute_log_empty:
  assumes "Execute m h st (traced rt) rq s (w, []) = ((res, err), s', w', log)" "log \<noteq> []"
  obtains t rv s1 where "st_Reserve st s rq (RequestSHA256 m h rq) t = (Inr rv, s1)"
    "rv_State rv = ReservationAcquired"
  using assms
  by (auto simp: Execute_def split: option.splits prod.splits sum.splits ReservationState.splits)

context job_store
begin

lemma exec_current_job:
  assumes "inv s" "exec_current st rt rq (running_result rq t) s w = ((res, err), s', w')"
  shows "inv s' \<and> (settled err \<longrightarrow> (\<exists>sha. job s (rq_IdempotencyKey rq) = Some (sha, JobRunning)
    \<and> job s' (rq_IdempotencyKey rq) = Some (sha, JobDone (stored res))))"
proof -
  obtain cur s1 where cur: "st_CurrentRelease st s (tgt_ID (rq_Target rq)) = (cur, s1)"
    by (metis prod.exhaust)
  note kept = current_keeps[OF assms(1) cur]
  have "ends_well st s1 rq (running_result rq t) ((res, err), s', w')
      \<or> ends_badly st s1 (running_result rq t) ((res, err), s', w')"
    using exec_current_ends[OF cur, of "running_result rq t" "running_result rq t" rt w] assms(2)
    by (auto simp: same_job_def running_result_def zero_Result_def)
  then show ?thesis
    using kept success_inv[of s1] failure_inv[of s1] success_ok[of s1] failure_ok[of s1]
    by (fastforce simp: ends_well_def ends_badly_def same_job_def persisted_def split: option.splits)
qed

lemma Execute_inv:
  assumes "inv s" "Execute m h st rt rq s w = ((res, err), s', w')" shows "inv s'"
  using assms(2)
proof (cases rule: Execute_split)
  case (fresh rv t s1 w1)
  show ?thesis using exec_current_job[OF reserve_inv[OF assms(1) fresh(2)] fresh(4)] ..
qed (use assms(1) reserve_inv[OF assms(1)] in blast)+

lemma Execute_settles:
  assumes "inv s" "Execute m h st rt rq s w = ((res, err), s', w')" "settled err"
  shows "\<exists>d. job s' (rq_IdempotencyKey rq) = Some (RequestSHA256 m h rq, JobDone d)
    \<and> (d = stored res \<or> d = Some res)"
  using assms(2)
proof (cases rule: Execute_split)
  case (replay rv t)
  with assms(1) reserve_replay[OF assms(1) replay(1,2)] show ?thesis by auto
next
  case (fresh rv t s1 w1)
  note acquired = reserve_acquired[OF assms(1) fresh(2,3)]
  have "inv s1" using reserve_inv[OF assms(1) fresh(2)] .
  from exec_current_job[OF this fresh(4)] assms(3) acquired show ?thesis by auto
qed (use assms(3) in auto)

lemma Execute_again:
  assumes "inv s" "job s (rq_IdempotencyKey rq) = Some (sha, d)"
    and "Execute m h st (traced rt) rq s (w, []) = ((res, err), s', w', log)"
  shows "log = []" "err = None \<Longrightarrow> d = JobDone (Some res) \<and> sha = RequestSHA256 m h rq"
    "job s' = job s"
proof -
  have no: "\<not> (st_Reserve st s rq x t = (Inr rv, s1) \<and> rv_State rv = ReservationAcquired)" for x t rv s1
    using reserve_acquired[OF assms(1)] assms(2) by auto
  show "log = []"
  proof (rule ccontr)
    assume "log \<noteq> []"
    from Execute_log_empty[OF assms(3) this] no show False by metis
  qed
  show "err = None \<Longrightarrow> d = JobDone (Some res) \<and> sha = RequestSHA256 m h rq"
    using assms(3)
  proof (cases rule: Execute_split)
    case (replay rv t)
    then show "err = None \<Longrightarrow> ?thesis"
      using reserve_replay[OF assms(1) replay(1,2)] assms(2) by (auto split: option.splits)
  next
    case (fresh rv t s1 w1)
    then show ?thesis using no by blast
  qed simp_all
  show "job s' = job s"
    using assms(3)
  proof (cases rule: Execute_split)
    case (refused e t)
    then show ?thesis using reserve_error[OF assms(1)] by blast
  next
    case (replay rv t)
    then show ?thesis using reserve_replay[OF assms(1)] by blast
  next
    case (fresh rv t s1 w1)
    then show ?thesis using no by blast
  qed simp
qed

end

locale target_store = job_store st inv job stored
  for st :: "'s jobstore" and inv job stored +
  fixes current :: "'s \<Rightarrow> string \<Rightarrow> string option"
  assumes reserve_targets: "inv s \<Longrightarrow> st_Reserve st s rq sha t = (r, s') \<Longrightarrow> current s' = current s"
    and read_targets: "inv s \<Longrightarrow> st_CurrentRelease st s tgt = (c, s') \<Longrightarrow> current s' = current s"
    and read_current: "inv s \<Longrightarrow> st_CurrentRelease st s tgt = (Inr cur, s') \<Longrightarrow> cur = current s tgt"
    and success_targets: "inv s \<Longrightarrow> st_CompleteSuccess st s res dig = (None, s')
      \<Longrightarrow> current s' = (current s)(rs_TargetID res \<mapsto> rs_ReleaseID res)"
    and success_error_targets: "inv s \<Longrightarrow> st_CompleteSuccess st s res dig = (Some e, s')
      \<Longrightarrow> current s' = current s"
    and failure_targets: "inv s \<Longrightarrow> st_CompleteFailure st s res = (err, s') \<Longrightarrow> current s' = current s"
begin

lemma exec_current_targets:
  assumes "inv s" "exec_current st rt rq (running_result rq t) s w = ((res, err), s', w')"
  shows "current s' = (if err = None
       then (current s)(tgt_ID (rq_Target rq) \<mapsto> rq_ReleaseID rq) else current s)"
    and "err = None \<Longrightarrow> current s (tgt_ID (rq_Target rq)) = tgt_ExpectedCurrentReleaseID (rq_Target rq)
       \<and> complete_evidence rq res"
proof -
  obtain cur s1 where cur: "st_CurrentRelease st s (tgt_ID (rq_Target rq)) = (cur, s1)"
    by (metis prod.exhaust)
  have kept: "inv s1" "current s1 = current s"
    using current_keeps[OF assms(1) cur] read_targets[OF assms(1) cur] by auto
  have "ends_well st s1 rq (running_result rq t) ((res, err), s', w')
        \<and> cur = Inr (tgt_ExpectedCurrentReleaseID (rq_Target rq))
      \<or> ends_badly st s1 (running_result rq t) ((res, err), s', w')"
    using exec_current_ends[OF cur, of "running_result rq t" "running_result rq t" rt w] assms(2)
    by (auto simp: same_job_def running_result_def zero_Result_def)
  then show "current s' = (if err = None
       then (current s)(tgt_ID (rq_Target rq) \<mapsto> rq_ReleaseID rq) else current s)"
    and "err = None \<Longrightarrow> current s (tgt_ID (rq_Target rq)) = tgt_ExpectedCurrentReleaseID (rq_Target rq)
       \<and> complete_evidence rq res"
    using kept read_current[OF assms(1), of "tgt_ID (rq_Target rq)"] cur success_targets[of s1]
      success_error_targets[of s1] failure_targets[of s1]
    by (fastforce simp: ends_well_def ends_badly_def same_job_def persisted_def split: option.splits)+
qed

lemma Execute_targets:
  assumes "inv s" "Execute m h st rt rq s w = ((res, err), s', w')"
  shows "job s (rq_IdempotencyKey rq) = None \<Longrightarrow> err = None \<Longrightarrow>
      current s (tgt_ID (rq_Target rq)) = tgt_ExpectedCurrentReleaseID (rq_Target rq)
      \<and> current s' = (current s)(tgt_ID (rq_Target rq) \<mapsto> rq_ReleaseID rq)
      \<and> complete_evidence rq res"
    and "err \<noteq> None \<Longrightarrow> current s' = current s"
proof -
  have keep: "st_Reserve st s rq x t = (r, s1) \<Longrightarrow> inv s1 \<and> current s1 = current s" for x t r s1
    using reserve_inv[OF assms(1)] reserve_targets[OF assms(1)] by blast
  show "err \<noteq> None \<Longrightarrow> current s' = current s"
    using assms(2)
    by (cases rule: Execute_split) (use keep exec_current_targets in fastforce)+
  show "job s (rq_IdempotencyKey rq) = None \<Longrightarrow> err = None \<Longrightarrow>
      current s (tgt_ID (rq_Target rq)) = tgt_ExpectedCurrentReleaseID (rq_Target rq)
      \<and> current s' = (current s)(tgt_ID (rq_Target rq) \<mapsto> rq_ReleaseID rq)
      \<and> complete_evidence rq res"
    using assms(2)
  proof (cases rule: Execute_split)
    case (replay rv t)
    then show "job s (rq_IdempotencyKey rq) = None \<Longrightarrow> ?thesis"
      using reserve_replay[OF assms(1) replay(1,2)] by auto
  next
    case (fresh rv t s1 w1)
    then show "err = None \<Longrightarrow> ?thesis"
      using keep[OF fresh(2)] exec_current_targets[of s1 rt rq t w1 res err s' w'] by auto
  qed auto
qed

end

subsection \<open>The database as a job store\<close>

text \<open>
  The store of \<open>internal/db/release_jobs.go\<close> behind the interface: the state counts the calls
  made so far, and \<open>ups n k\<close> tells whether statement \<open>k\<close> of call \<open>n\<close> succeeds.
\<close>

type_synonym sql_state = "release_db \<times> nat"

definition sql_store :: "codec \<Rightarrow> (nat \<Rightarrow> nat \<Rightarrow> bool) \<Rightarrow> sql_state jobstore" where
  "sql_store c ups = \<lparr>
     st_Reserve = (\<lambda>(db, n) rq sha t. case Reserve c (ups n) db rq sha t of (r, db') \<Rightarrow> (r, db', Suc n)),
     st_CurrentRelease = (\<lambda>(db, n) tgt. (CurrentRelease (ups n) db tgt, db, Suc n)),
     st_CompleteSuccess = (\<lambda>(db, n) res dig.
       case CompleteSuccess c (ups n) db res dig of (e, db') \<Rightarrow> (e, db', Suc n)),
     st_CompleteFailure = (\<lambda>(db, n) res.
       case CompleteFailure c (ups n) db res of (e, db') \<Rightarrow> (e, db', Suc n))\<rparr>"

definition row_state :: "codec \<Rightarrow> job_row \<Rightarrow> string \<times> job_state" where
  "row_state c r = (jr_request_sha256 r,
     if jr_status r = ''running'' then JobRunning
     else JobDone (Option.bind (jr_result_json r) (decode_result c)))"

definition rows_job :: "codec \<Rightarrow> job_row list \<Rightarrow> string \<Rightarrow> (string \<times> job_state) option" where
  "rows_job c rows k = map_option (row_state c) (List.find (\<lambda>r. jr_idempotency_key r = k) rows)"

definition target_of :: "target_row list \<Rightarrow> string \<Rightarrow> string option" where
  "target_of rows t = map_option tr_current_release_id (List.find (\<lambda>r. tr_target_id r = t) rows)"

definition sql_job :: "codec \<Rightarrow> sql_state \<Rightarrow> string \<Rightarrow> (string \<times> job_state) option" where
  "sql_job c s = rows_job c (release_jobs (fst s))"

definition sql_current :: "sql_state \<Rightarrow> string \<Rightarrow> string option" where
  "sql_current s = target_of (release_targets (fst s))"

definition sql_inv :: "sql_state \<Rightarrow> bool" where
  "sql_inv s = db_inv (fst s)"

lemma rows_job_simps [simp]:
  "rows_job c [] k = None"
  "rows_job c (r # rows) k = (if jr_idempotency_key r = k then Some (row_state c r) else rows_job c rows k)"
  by (simp_all add: rows_job_def)

lemma target_of_simps [simp]:
  "target_of [] t = None"
  "target_of (r # rows) t = (if tr_target_id r = t then Some (tr_current_release_id r) else target_of rows t)"
  by (simp_all add: target_of_def)

lemma update_where_simps [simp]:
  "update_where p f [] = []"
  "update_where p f (r # rows) = (if p r then f r else r) # update_where p f rows"
  by (simp_all add: update_where_def)

lemma find_append_new: "List.find p (xs @ [x]) =
    (case List.find p xs of None \<Rightarrow> if p x then Some x else None | Some y \<Rightarrow> Some y)"
  by (induction xs) auto

lemma rows_job_append:
  assumes "jr_idempotency_key row \<notin> jr_idempotency_key ` set rows"
  shows "rows_job c (rows @ [row]) = (rows_job c rows)(jr_idempotency_key row \<mapsto> row_state c row)"
    "rows_job c rows (jr_idempotency_key row) = None"
proof -
  have none: "List.find (\<lambda>r. jr_idempotency_key r = jr_idempotency_key row) rows = None"
    using assms unfolding find_None_iff' by (metis image_eqI)
  then show "rows_job c rows (jr_idempotency_key row) = None" by (simp add: rows_job_def)
  from none show "rows_job c (rows @ [row]) = (rows_job c rows)(jr_idempotency_key row \<mapsto> row_state c row)"
    by (auto simp: fun_eq_iff rows_job_def find_append_new split: option.splits)
qed

lemma rows_job_finish:
  assumes "distinct (map jr_idempotency_key rows)" "count_where (is_running_job res) rows = 1"
    and "status = ''succeeded'' \<or> status = ''failed''"
  shows "\<exists>sha. rows_job c rows (rs_IdempotencyKey res) = Some (sha, JobRunning)
    \<and> rows_job c (update_where (is_running_job res) (finish_row c status res) rows)
      = (rows_job c rows)(rs_IdempotencyKey res \<mapsto>
          (sha, JobDone (decode_result c (encode_result c res))))"
  using assms(1,2)
proof (induction rows)
  case Nil
  then show ?case by (simp add: count_where_def)
next
  case (Cons r rows)
  show ?case
  proof (cases "is_running_job res r")
    case True
    have "\<not> is_running_job res x" if "x \<in> set rows" for x
      using Cons.prems(1) True that by (force simp: is_running_job_def)
    then have "update_where (is_running_job res) (finish_row c status res) rows = rows"
      by (simp add: update_where_none)
    moreover have "jr_idempotency_key r = rs_IdempotencyKey res" "jr_status r = ''running''"
      using True by (simp_all add: is_running_job_def)
    ultimately show ?thesis
      using True assms(3) by (auto simp: row_state_def fun_eq_iff)
  next
    case False
    have "rs_IdempotencyKey res \<in> jr_idempotency_key ` set rows"
    proof -
      have "0 < count_where (is_running_job res) rows"
        using Cons.prems(2) False by (simp add: count_where_def)
      then show ?thesis by (auto simp: count_where_pos is_running_job_def intro!: image_eqI[OF sym])
    qed
    then have "jr_idempotency_key r \<noteq> rs_IdempotencyKey res" using Cons.prems(1) by auto
    with False Cons show ?thesis
      by (auto simp: count_where_def fun_eq_iff)
  qed
qed

lemma Reserve_replay:
  assumes "Reserve c up db rq sha t = (Inr rv, db')" "rv_State rv = ReservationReplay"
  shows "db' = db \<and> (\<exists>r. List.find (\<lambda>r. jr_idempotency_key r = rq_IdempotencyKey rq)
    (release_jobs db) = Some r \<and> replay_row c sha r = Inr rv)"
  using assms unfolding Reserve_def by (simp split: if_splits option.splits) auto

lemma replay_row_Inr:
  assumes "replay_row c sha r = Inr rv"
  shows "rv_Result rv \<noteq> None \<and> row_state c r = (sha, JobDone (rv_Result rv))"
  using assms unfolding replay_row_def row_state_def
  by (simp split: if_splits option.splits) auto

lemma target_of_overwrite:
  "target_of (update_where (\<lambda>r. tr_target_id r = tr_target_id row) (\<lambda>_. row) rows) t =
    (if t = tr_target_id row \<and> (\<exists>r \<in> set rows. tr_target_id r = t)
     then Some (tr_current_release_id row) else target_of rows t)"
  by (induction rows) auto

lemma target_of_upsert:
  "target_of (upsert_target row rows) =
    (target_of rows)(tr_target_id row \<mapsto> tr_current_release_id row)"
proof (cases "list_ex (\<lambda>r. tr_target_id r = tr_target_id row) rows")
  case True
  then show ?thesis
    by (auto simp: upsert_target_def target_of_overwrite list_ex_iff fun_eq_iff)
next
  case False
  then have "\<forall>r \<in> set rows. tr_target_id r \<noteq> tr_target_id row" by (auto simp: list_ex_iff)
  then have "target_of (rows @ [row]) t = ((target_of rows)(tr_target_id row \<mapsto> tr_current_release_id row)) t"
    for t by (induction rows) auto
  with False show ?thesis by (simp add: upsert_target_def fun_eq_iff)
qed

interpretation sql: target_store "sql_store c ups" sql_inv "sql_job c"
  "\<lambda>r. decode_result c (encode_result c r)" sql_current for c ups
proof
  fix s s' :: sql_state and rq sha t rv r e tgt res dig and cu :: "store_error + string option"
    and err :: "store_error option"
  obtain db n where s: "s = (db, n)" by (cases s)
  obtain db' n' where s': "s' = (db', n')" by (cases s')
  note defs = sql_store_def sql_inv_def sql_job_def sql_current_def s s'
  assume inv: "sql_inv s"
  { assume op: "st_Reserve (sql_store c ups) s rq sha t = (r, s')"
    then have op': "Reserve c (ups n) db rq sha t = (r, db')"
      by (auto simp: defs split: prod.splits)
    show "sql_inv s'" using Reserve_inv[OF op'] inv by (simp add: defs)
    show "sql_current s' = sql_current s"
      using op' by (cases rule: Reserve_cases) (simp_all add: defs fun_eq_iff) }
  { assume op: "st_Reserve (sql_store c ups) s rq sha t = (Inr rv, s')"
    then have op': "Reserve c (ups n) db rq sha t = (Inr rv, db')"
      by (auto simp: defs split: prod.splits)
    show "rv_State rv = ReservationAcquired \<Longrightarrow> sql_job c s (rq_IdempotencyKey rq) = None
        \<and> sql_job c s' = (sql_job c s)(rq_IdempotencyKey rq \<mapsto> (sha, JobRunning))"
      using op'
    proof (cases rule: Reserve_cases)
      case acquired
      then show ?thesis
        using rows_job_append[of "new_job_row c rq sha t" "release_jobs db" c]
        by (simp add: defs new_job_row_def row_state_def)
    qed auto }
  { assume op: "st_Reserve (sql_store c ups) s rq sha t = (Inr rv, s')"
      and replay: "rv_State rv = ReservationReplay"
    then have op': "Reserve c (ups n) db rq sha t = (Inr rv, db')"
      by (auto simp: defs split: prod.splits)
    from Reserve_replay[OF this replay] show "sql_job c s' = sql_job c s \<and> rv_Result rv \<noteq> None
        \<and> sql_job c s (rq_IdempotencyKey rq) = Some (sha, JobDone (rv_Result rv))"
      by (auto simp: defs rows_job_def dest!: replay_row_Inr) }
  { assume op: "st_Reserve (sql_store c ups) s rq sha t = (Inl e, s')"
    then have op': "Reserve c (ups n) db rq sha t = (Inl e, db')"
      by (auto simp: defs split: prod.splits)
    then show "sql_job c s' = sql_job c s"
      by (cases rule: Reserve_cases) (simp_all add: defs) }
  show "st_CurrentRelease (sql_store c ups) s tgt = (cu, s') \<Longrightarrow> sql_inv s' \<and> sql_job c s' = sql_job c s"
    "st_CurrentRelease (sql_store c ups) s tgt = (cu, s') \<Longrightarrow> sql_current s' = sql_current s"
    using inv by (auto simp: defs)
  show "st_CurrentRelease (sql_store c ups) s tgt = (Inr cur, s') \<Longrightarrow> cur = sql_current s tgt" for cur
    by (auto simp: defs CurrentRelease_def target_of_def split: if_splits)
  { assume op: "st_CompleteSuccess (sql_store c ups) s res dig = (err, s')"
    then have op': "CompleteSuccess c (ups n) db res dig = (err, db')"
      by (auto simp: defs split: prod.splits)
    show "sql_inv s'" using CompleteSuccess_inv[OF op'] inv by (simp add: defs) }
  { assume op: "st_CompleteSuccess (sql_store c ups) s res dig = (None, s')"
    then have op': "CompleteSuccess c (ups n) db res dig = (None, db')"
      by (auto simp: defs split: prod.splits)
    note ok = CompleteSuccess_ok[OF op']
    show "\<exists>sha. sql_job c s (rs_IdempotencyKey res) = Some (sha, JobRunning)
        \<and> sql_job c s' = (sql_job c s)(rs_IdempotencyKey res \<mapsto>
            (sha, JobDone (decode_result c (encode_result c res))))"
      using rows_job_finish[OF _ ok(5), of "''succeeded''" c] inv ok(6)
      by (simp add: defs db_inv_def)
    show "sql_current s' = (sql_current s)(rs_TargetID res \<mapsto> rs_ReleaseID res)"
      by (simp add: defs ok(7) target_of_upsert) }
  { fix x assume op: "st_CompleteSuccess (sql_store c ups) s res dig = (Some x, s')"
    then have "CompleteSuccess c (ups n) db res dig = (Some x, db')"
      by (auto simp: defs split: prod.splits)
    from CompleteSuccess_error[OF this] show "sql_current s' = sql_current s"
      by (simp add: defs fun_eq_iff) }
  { assume op: "st_CompleteFailure (sql_store c ups) s res = (err, s')"
    then have op': "CompleteFailure c (ups n) db res = (err, db')"
      by (auto simp: defs split: prod.splits)
    show "sql_inv s'" using CompleteFailure_inv[OF op'] inv by (simp add: defs)
    have "release_targets db' = release_targets db"
      using op' unfolding CompleteFailure_def by (auto split: if_splits)
    then show "sql_current s' = sql_current s" by (simp add: defs fun_eq_iff) }
  { assume op: "st_CompleteFailure (sql_store c ups) s res = (None, s')"
    then have op': "CompleteFailure c (ups n) db res = (None, db')"
      by (auto simp: defs split: prod.splits)
    note ok = CompleteFailure_ok[OF op']
    show "\<exists>sha. sql_job c s (rs_IdempotencyKey res) = Some (sha, JobRunning)
        \<and> sql_job c s' = (sql_job c s)(rs_IdempotencyKey res \<mapsto>
            (sha, JobDone (decode_result c (encode_result c res))))"
      using rows_job_finish[OF _ ok(3), of "''failed''" c] inv ok(4)
      by (simp add: defs db_inv_def) }
qed

subsection \<open>Properties of an execution on the database\<close>


text \<open>An execution that reports success without having been recorded before found the target
  on the release the request expected, moved exactly this target to the new release, and its
  result carries the evidence of every step; one that reports an error leaves the current
  release of every target as it was.\<close>
theorem Execute_compare_and_swap:
  assumes "sql_inv s" "Execute m h (sql_store c ups) rt rq s w = ((res, err), s', w')"
    and "sql_job c s (rq_IdempotencyKey rq) = None"
  shows "sql_inv s' \<and>
    (if err = None
     then sql_current s (tgt_ID (rq_Target rq)) = tgt_ExpectedCurrentReleaseID (rq_Target rq)
       \<and> sql_current s' = (sql_current s)(tgt_ID (rq_Target rq) \<mapsto> rq_ReleaseID rq)
       \<and> complete_evidence rq res
     else sql_current s' = sql_current s)"
  using sql.Execute_inv[OF assms(1,2)] sql.Execute_targets[OF assms(1,2)] assms(3) by simp

subsection \<open>A sample release\<close>

definition sample_request :: Request where
  "sample_request = \<lparr>rq_SchemaVersion = 2, rq_JobID = ''job-1'', rq_IdempotencyKey = ''key-1'',
     rq_ReleaseID = ''v2'', rq_ManifestDigest = sample_digest,
     rq_Target = \<lparr>tgt_ID = ''shop'', tgt_Environment = ''production'', tgt_Profile = ''web'',
       tgt_ExpectedCurrentReleaseID = None\<rparr>,
     rq_Images = [\<lparr>img_Component = ''app'', img_Reference = ''ghcr.io/shop@'' @ sample_digest\<rparr>],
     rq_Backup = \<lparr>bp_Required = True\<rparr>,
     rq_Migration = \<lparr>mp_Mode = ''none'', mp_Compatibility = ''not-applicable''\<rparr>,
     rq_Recovery = \<lparr>rp_Mode = ''runtime-only''\<rparr>, rq_HealthProfile = ''http''\<rparr>"

definition sample_backup :: BackupEvidence where
  "sample_backup = \<lparr>be_BackupID = ''b1'', be_ManifestSHA256 = sample_digest, be_Verified = True,
     be_Encrypted = True, be_OffsiteVerified = True\<rparr>"

text \<open>A host whose health check passes or not; every call takes a nanosecond.\<close>

definition sample_runtime :: "bool \<Rightarrow> time runtime" where
  "sample_runtime healthy = \<lparr>
     rtm_Preflight = (\<lambda>_ w. ((\<lparr>pe_ComposeValid = True, pe_ImagesResolved = True,
       pe_MigrationReady = True\<rparr>, False), w + 1)),
     rtm_CreateAndVerifyBackup = (\<lambda>_ w. ((sample_backup, False), w + 1)),
     rtm_RestoreBackup = (\<lambda>_ b w. ((\<lparr>rb_BackupID = be_BackupID b, rb_Mode = ''runtime-only'',
       rb_Restored = True, rb_HealthVerified = True\<rparr>, False), w + 1)),
     rtm_Apply = (\<lambda>_ w. ((\<lparr>ae_AppliedComponents = 1, ae_MigrationApplied = False\<rparr>, False), w + 1)),
     rtm_VerifyHealth = (\<lambda>_ w. ((\<lparr>he_Profile = ''http'', he_ChecksPassed = (if healthy then 1 else 0),
       he_Attempts = 1\<rparr>, \<not> healthy), w + 1)),
     rtm_now = (\<lambda>w. (w, w + 1))\<rparr>"

text \<open>An encoding that gives back the one result it was made for.\<close>

definition sample_codec :: "Result \<Rightarrow> codec" where
  "sample_codec res = \<lparr>encode_request = (\<lambda>_. []), encode_result = (\<lambda>_. []),
     decode_result = (\<lambda>_. Some res)\<rparr>"

definition sample_store :: "Result \<Rightarrow> sql_state jobstore" where
  "sample_store recorded = sql_store (sample_codec recorded) (\<lambda>_ _. True)"

definition sample_run ::
  "Result \<Rightarrow> bool \<Rightarrow> sql_state \<Rightarrow> (Result \<times> exec_error option) \<times> sql_state \<times> time \<times> call list" where
  "sample_run recorded healthy s = Execute (\<lambda>_. []) (\<lambda>_. []) (sample_store recorded)
     (traced (sample_runtime healthy)) sample_request s (0, [])"

definition sample_result :: Result where
  "sample_result = \<lparr>rs_SchemaVersion = 2, rs_JobID = ''job-1'', rs_IdempotencyKey = ''key-1'',
     rs_ReleaseID = ''v2'', rs_TargetID = ''shop'', rs_Status = ''succeeded'', rs_StartedAt = 0,
     rs_FinishedAt = Some 5,
     rs_Preflight = Some \<lparr>pe_ComposeValid = True, pe_ImagesResolved = True, pe_MigrationReady = True\<rparr>,
     rs_Backup = Some sample_backup, rs_Rollback = None,
     rs_Apply = Some \<lparr>ae_AppliedComponents = 1, ae_MigrationApplied = False\<rparr>,
     rs_Health = Some \<lparr>he_Profile = ''http'', he_ChecksPassed = 1, he_Attempts = 1\<rparr>,
     rs_FailedStep = [], rs_ErrorCode = []\<rparr>"

lemma sample_request_valid: "Validate sample_request = None"
  by code_simp

lemma sql_inv_empty: "sql_inv (empty_release_db, 0)"
  by (simp add: sql_inv_def db_inv_empty)

lemma Execute_calls_safe_witness:
  "calls_safe sample_request [] (snd (snd (snd (sample_run zero_Result False (empty_release_db, 0)))))
   \<and> length (snd (snd (snd (sample_run zero_Result False (empty_release_db, 0))))) = 5"
proof
  obtain out s' w' log where run:
    "sample_run zero_Result False (empty_release_db, 0) = (out, s', w', log)"
    by (metis prod.exhaust)
  from Execute_calls_safe[OF run[unfolded sample_run_def]] run
  show "calls_safe sample_request [] (snd (snd (snd (sample_run zero_Result False (empty_release_db, 0)))))"
    by simp
qed code_simp

text \<open>One evaluation of the run and of its repetition.\<close>

lemma sample_rerun_evaluated:
  "(let first = sample_run sample_result True (empty_release_db, 0);
        again = sample_run sample_result True (fst (snd first))
    in (fst first, snd (fst again))) = ((sample_result, None), None)"
  by code_simp

lemmas sample_rerun = sample_rerun_evaluated[unfolded Let_def prod.inject]


lemma Execute_compare_and_swap_witness:
  "(let run = sample_run zero_Result True (empty_release_db, 0)
    in snd (fst run) = None \<and> sql_current (fst (snd run)) = [''shop'' \<mapsto> ''v2'']
       \<and> complete_evidence sample_request (fst (fst run)))"
proof -
  obtain res err s1 w1 where run:
    "sample_run zero_Result True (empty_release_db, 0) = ((res, err), s1, w1)"
    by (metis prod.exhaust)
  have "snd (fst (sample_run zero_Result True (empty_release_db, 0))) = None" by code_simp
  then have err: "err = None" using run by simp
  have none: "sql_job (sample_codec zero_Result) (empty_release_db, 0) (rq_IdempotencyKey sample_request) = None"
    by code_simp
  have empty: "sql_current (empty_release_db, 0) = Map.empty"
    by (simp add: sql_current_def empty_release_db_def fun_eq_iff)
  from Execute_compare_and_swap[OF sql_inv_empty run[unfolded sample_run_def sample_store_def] none] err
  show ?thesis by (simp add: run empty sample_request_def)
qed

end
