(* ===== verification/Host_Files.thy ===== *)
theory Host_Files
  imports Go_Paths
begin

text \<open>
  Files of the host, and the way the program replaces one: a temporary file beside it is
  created, filled, closed and renamed over it. The files are a map from paths to contents.
  Every system call may fail: \<open>up k\<close> tells whether the \<open>k\<close>-th call of the operation
  succeeds. A crash in the middle is a schedule in which every later call fails, so what
  holds for every \<open>up\<close> holds after a crash too. A failed write leaves a part of the data.

  The locale \<open>atomic_writer\<close> is the contract of such an operation; the components that write
  this way (compose overrides, monitor state, security state, alert queues) interpret it.
\<close>

type_synonym files = "string \<Rightarrow> string option"
type_synonym schedule = "nat \<Rightarrow> bool"

datatype file_step = StepChmod | StepWrite nat | StepSync | StepClose

text \<open>The calls on the open temporary file, from call \<open>k\<close> on; \<open>StepWrite n\<close> fails after \<open>n\<close> bytes.\<close>

fun file_steps :: "schedule \<Rightarrow> nat \<Rightarrow> string \<Rightarrow> string \<Rightarrow> file_step list \<Rightarrow> files \<Rightarrow> bool \<times> files" where
  "file_steps up k tmp payload [] fs = (True, fs)"
| "file_steps up k tmp payload (st # sts) fs =
     (case st of
        StepWrite n \<Rightarrow>
          if up k then file_steps up (Suc k) tmp payload sts (fs(tmp \<mapsto> payload))
          else (False, fs(tmp \<mapsto> take n payload))
      | _ \<Rightarrow> if up k then file_steps up (Suc k) tmp payload sts fs else (False, fs))"

text \<open>
  \<open>os.CreateTemp\<close> (call \<open>k\<close>), the steps, and the removal of the file (call \<open>9\<close>) when one of
  them failed.
\<close>

definition fill_temporary ::
  "schedule \<Rightarrow> nat \<Rightarrow> string \<Rightarrow> file_step list \<Rightarrow> string \<Rightarrow> files \<Rightarrow> bool \<times> files" where
  "fill_temporary up k tmp steps payload fs =
     (if \<not> up k then (False, fs)
      else case file_steps up (Suc k) tmp payload steps (fs(tmp \<mapsto> [])) of
        (filled, fs') \<Rightarrow> (filled, if \<not> filled \<and> up 9 then fs'(tmp := None) else fs'))"

text \<open>\<open>os.Rename\<close> (call \<open>8\<close>) and the deferred removal of the temporary file.\<close>

definition rename_over :: "schedule \<Rightarrow> string \<Rightarrow> string \<Rightarrow> files \<Rightarrow> bool \<times> files" where
  "rename_over up tmp path fs =
     (if up 8 then (True, fs(path := fs tmp, tmp := None))
      else (False, if up 9 then fs(tmp := None) else fs))"

lemma file_steps_frame:
  "file_steps up k tmp payload sts fs = (r, fs') \<Longrightarrow> p \<noteq> tmp \<Longrightarrow> fs' p = fs p"
  by (induction up k tmp payload sts fs rule: file_steps.induct)
    (auto split: file_step.splits if_splits)

lemma file_steps_written:
  "file_steps up k tmp payload sts fs = (True, fs') \<Longrightarrow>
     fs' tmp = (if \<exists>n. StepWrite n \<in> set sts then Some payload else fs tmp)"
  by (induction up k tmp payload sts fs rule: file_steps.induct)
    (auto split: file_step.splits if_splits)

lemma fill_temporary_frame:
  "fill_temporary up k tmp sts payload fs = (r, fs') \<Longrightarrow> p \<noteq> tmp \<Longrightarrow> fs' p = fs p"
  by (auto simp: fill_temporary_def split: if_splits prod.splits dest: file_steps_frame)

lemma fill_temporary_written:
  "fill_temporary up k tmp sts payload fs = (True, fs') \<Longrightarrow> StepWrite n \<in> set sts
    \<Longrightarrow> fs' tmp = Some payload"
  unfolding fill_temporary_def
  by (simp split: if_splits prod.splits) (metis file_steps_written)

lemma fill_temporary_removed:
  "fill_temporary up k tmp sts payload fs = (False, fs') \<Longrightarrow> up 9 \<Longrightarrow> fs tmp = None \<Longrightarrow> fs' tmp = None"
  by (auto simp: fill_temporary_def split: if_splits prod.splits)

subsection \<open>The contract of a file replacement\<close>

text \<open>
  \<open>wr up tmp fs data\<close> replaces the file at \<open>path\<close> by the encoding of \<open>data\<close> through the
  temporary name \<open>tmp\<close>, which \<open>os.CreateTemp\<close> chose among the free ones. \<open>ok data\<close> are the
  data the operation accepts.
\<close>

locale atomic_writer =
  fixes wr :: "schedule \<Rightarrow> string \<Rightarrow> files \<Rightarrow> 'd \<Rightarrow> bool \<times> files"
    and path :: string
    and content :: "'d \<Rightarrow> string"
  assumes written: "tmp \<noteq> path \<Longrightarrow> wr up tmp fs d = (True, fs') \<Longrightarrow> fs' path = Some (content d)"
    and kept: "tmp \<noteq> path \<Longrightarrow> wr up tmp fs d = (False, fs') \<Longrightarrow> fs' path = fs path"
    and frame: "wr up tmp fs d = (r, fs') \<Longrightarrow> p \<noteq> tmp \<Longrightarrow> p \<noteq> path \<Longrightarrow> fs' p = fs p"
    and no_temporary: "tmp \<noteq> path \<Longrightarrow> fs tmp = None \<Longrightarrow> wr up tmp fs d = (r, fs') \<Longrightarrow> up 9
      \<Longrightarrow> fs' tmp = None"
begin

text \<open>A run of replacements, each with its own schedule and temporary name.\<close>

fun write_all :: "(schedule \<times> string \<times> 'd) list \<Rightarrow> files \<Rightarrow> files" where
  "write_all [] fs = fs"
| "write_all ((up, tmp, d) # ws) fs = write_all ws (snd (wr up tmp fs d))"

text \<open>A reader finds the old content or one complete new content, never a mixture.\<close>

lemma write_all_content:
  assumes "\<forall>(up, tmp, d) \<in> set ws. tmp \<noteq> path"
  shows "write_all ws fs path = fs path \<or> (\<exists>(up, tmp, d) \<in> set ws. write_all ws fs path = Some (content d))"
  using assms
proof (induction ws arbitrary: fs)
  case (Cons w ws)
  obtain up tmp d where w: "w = (up, tmp, d)" by (cases w)
  obtain r fs' where wr: "wr up tmp fs d = (r, fs')" by (metis prod.exhaust)
  have "fs' path = fs path \<or> fs' path = Some (content d)"
    using written[of tmp up fs d fs'] kept[of tmp up fs d fs'] Cons.prems wr w by (cases r) auto
  then show ?case using Cons.IH[of fs'] Cons.prems wr w by auto
qed simp

lemma one_write:
  assumes "tmp \<noteq> path" "fs tmp = None" "wr up tmp fs d = (r, fs')"
  shows "fs' path = (if r then Some (content d) else fs path)"
    "up 9 \<Longrightarrow> fs' = fs(path := fs' path)"
proof -
  show "fs' path = (if r then Some (content d) else fs path)"
    using assms written[of tmp up fs d fs'] kept[of tmp up fs d fs'] by (cases r) auto
  show "fs' = fs(path := fs' path)" if "up 9"
  proof
    fix p
    show "fs' p = (fs(path := fs' path)) p"
      using frame[OF assms(3), of p] no_temporary[OF assms that] assms(2) by (cases "p = tmp") auto
  qed
qed

end

text \<open>The common shape: fill a temporary file, rename it over the path.\<close>

definition replace_file ::
  "schedule \<Rightarrow> nat \<Rightarrow> file_step list \<Rightarrow> string \<Rightarrow> string \<Rightarrow> string \<Rightarrow> files \<Rightarrow> bool \<times> files" where
  "replace_file up k steps tmp path payload fs =
     (case fill_temporary up k tmp steps payload fs of
        (filled, fs') \<Rightarrow> if filled then rename_over up tmp path fs' else (False, fs'))"

lemma replace_file_written:
  assumes "tmp \<noteq> path" "StepWrite n \<in> set steps"
    "replace_file up k steps tmp path payload fs = (True, fs')"
  shows "fs' path = Some payload"
  using assms
  by (auto simp: replace_file_def rename_over_def split: prod.splits if_splits
      dest!: fill_temporary_written)

lemma replace_file_kept:
  assumes "tmp \<noteq> path" "replace_file up k steps tmp path payload fs = (False, fs')"
  shows "fs' path = fs path"
  using assms
  by (auto simp: replace_file_def rename_over_def split: prod.splits if_splits
      dest: fill_temporary_frame)

lemma replace_file_frame:
  assumes "replace_file up k steps tmp path payload fs = (r, fs')" "p \<noteq> tmp" "p \<noteq> path"
  shows "fs' p = fs p"
  using assms
  by (auto simp: replace_file_def rename_over_def split: prod.splits if_splits
      dest: fill_temporary_frame)

lemma replace_file_no_temporary:
  assumes "tmp \<noteq> path" "fs tmp = None" "replace_file up k steps tmp path payload fs = (r, fs')" "up 9"
  shows "fs' tmp = None"
  using assms
  by (auto simp: replace_file_def rename_over_def split: prod.splits if_splits
      dest: fill_temporary_removed)

lemmas replace_file_laws = replace_file_written replace_file_kept replace_file_frame
  replace_file_no_temporary

end
