(* ===== verification/Release_Runtime.thy ===== *)
theory Release_Runtime
  imports Release_Idempotence Host_Files
begin

text \<open>
  \<open>internal/releasejob/compose_runtime.go\<close>, \<open>external_backup_provider.go\<close> and
  \<open>preflight_runtime.go\<close>: the runtime of the executor on a host with Docker Compose.

  The host is the record \<open>rel_host\<close>: the configuration, the project table, symlink
  resolution, and the answers of the commands, of the HTTP requests and of the system calls,
  indexed by the number of calls made so far. The state \<open>rel_world\<close> holds the files, the
  commands run so far and that number. Directories are not part of the files; what creating
  one answers is the first call of a schedule.
\<close>

unbundle bit_operations_syntax

subsection \<open>Host and state\<close>

record Project =
  prj_Name :: string
  prj_Path :: string

type_synonym command = "string \<times> string \<times> string list"

datatype http_answer = HttpStatus int | HttpFailed | HttpBadURL

datatype runtime_error =
    ReleaseDisabled | TargetNotAllowlisted | PolicyMismatch | ProductionOff | NoBackupProvider
  | ProjectUnavailable | ProjectMismatch | PathUnresolved | ComposeUnresolved | ComposeEscapes
  | PreflightDirectory | OverrideFailed | CommandFailed | UnknownComponent string
  | MigrationUnavailable | OverrideNotRemoved | BackupNotAvailable | RestoreNotAvailable
  | ProviderCommandUnsafe | ProviderFailed | ProviderOutput | EvidenceIdentity | EvidenceMalformed
  | HealthPolicyInvalid | HealthEnded nat | HealthNotReady nat

record resolvedTarget =
  rtg_project :: Project
  rtg_projectPath :: string
  rtg_policy :: ReleaseTargetConfig
  rtg_baseFile :: string
  rtg_override :: string

record backup_provider =
  bkp_create :: "Project \<Rightarrow> Request \<Rightarrow> runtime_error + BackupEvidence"
  bkp_restore :: "Project \<Rightarrow> Request \<Rightarrow> BackupEvidence \<Rightarrow> runtime_error + RollbackEvidence"

record rel_host =
  rh_config :: "Config option"
  rh_project :: "string \<Rightarrow> Project option"
  rh_evalsymlinks :: "string \<Rightarrow> string option"
  rh_abs :: "string \<Rightarrow> string option"
  rh_prepare :: "string \<Rightarrow> string option"
  rh_backups :: "backup_provider option"
  rh_duration :: "string \<Rightarrow> duration option"
  rh_marshal :: "(string \<Rightarrow> string option) \<Rightarrow> string"
  rh_run :: "nat \<Rightarrow> command \<Rightarrow> string option"
  rh_get :: "nat \<Rightarrow> string \<Rightarrow> http_answer"
  rh_calls :: "nat \<Rightarrow> schedule"
  rh_temporary :: "nat \<Rightarrow> string \<Rightarrow> string"
  rh_partial :: "nat \<Rightarrow> nat"
  rh_expired :: "nat \<Rightarrow> bool"
  rh_waited :: "nat \<Rightarrow> bool"
  rh_now :: "nat \<Rightarrow> time"

record rel_world =
  rw_files :: files
  rw_commands :: "command list"
  rw_count :: nat

definition tick :: "rel_world \<Rightarrow> rel_world" where
  "tick w = w\<lparr>rw_count := Suc (rw_count w)\<rparr>"

definition run_command :: "rel_host \<Rightarrow> command \<Rightarrow> rel_world \<Rightarrow> string option \<times> rel_world" where
  "run_command h cmd w =
     (rh_run h (rw_count w) cmd, tick (w\<lparr>rw_commands := rw_commands w @ [cmd]\<rparr>))"

subsection \<open>Resolving the target\<close>

definition pathInside :: "string \<Rightarrow> string \<Rightarrow> bool" where
  "pathInside parent child =
     (case path_rel parent child of
        None \<Rightarrow> False
      | Some relative \<Rightarrow> relative \<noteq> ''..'' \<and> \<not> has_prefix relative ''../'')"

definition resolve_policy :: "rel_host \<Rightarrow> Request \<Rightarrow> runtime_error + ReleaseTargetConfig" where
  "resolve_policy h request =
     (case rh_config h of
        None \<Rightarrow> Inl ReleaseDisabled
      | Some cfg \<Rightarrow>
          if \<not> rc_Enabled (cfg_Release cfg) then Inl ReleaseDisabled
          else case map_of (rc_Targets (cfg_Release cfg)) (tgt_ID (rq_Target request)) of
            None \<Rightarrow> Inl TargetNotAllowlisted
          | Some policy \<Rightarrow>
              or_error (first_error
                [(rt_Environment policy \<noteq> tgt_Environment (rq_Target request)
                    \<or> rt_Profile policy \<noteq> tgt_Profile (rq_Target request)
                    \<or> rt_HealthProfile policy \<noteq> rq_HealthProfile request, PolicyMismatch),
                 (tgt_Environment (rq_Target request) = ''production''
                    \<and> \<not> rc_AllowProduction (cfg_Release cfg), ProductionOff),
                 (tgt_Environment (rq_Target request) = ''production''
                    \<and> rh_backups h = None, NoBackupProvider)]) policy)"

definition resolve :: "rel_host \<Rightarrow> Request \<Rightarrow> runtime_error + resolvedTarget" where
  "resolve h request =
     (case resolve_policy h request of
        Inl e \<Rightarrow> Inl e
      | Inr policy \<Rightarrow>
          (case rh_project h (rt_Project policy) of
             None \<Rightarrow> Inl ProjectUnavailable
           | Some project \<Rightarrow>
               if prj_Name project \<noteq> rt_Project policy then Inl ProjectMismatch
               else case Option.bind (rh_evalsymlinks h (prj_Path project)) (rh_abs h) of
                 None \<Rightarrow> Inl PathUnresolved
               | Some projectPath \<Rightarrow>
                   (case rh_evalsymlinks h (path_join [projectPath, rt_ComposeFile policy]) of
                      None \<Rightarrow> Inl ComposeUnresolved
                    | Some base \<Rightarrow>
                        if \<not> pathInside projectPath base then Inl ComposeEscapes
                        else Inr \<lparr>rtg_project = project, rtg_projectPath = projectPath,
                               rtg_policy = policy, rtg_baseFile = base,
                               rtg_override = path_join [path_join [projectPath, ''.fleetdeck'',
                                 ''release-overrides''], rq_JobID request @ ''.json'']\<rparr>)))"

subsection \<open>Override files\<close>

definition composeOverridePayload :: "rel_host \<Rightarrow> Image list \<Rightarrow> string" where
  "composeOverridePayload h images =
     rh_marshal h (map_of (rev (map (\<lambda>im. (img_Component im, img_Reference im)) images)))"

definition override_steps :: "nat \<Rightarrow> file_step list" where
  "override_steps n = [StepChmod, StepWrite n, StepSync, StepClose]"

text \<open>\<open>createComposeOverrideFile\<close>: \<open>os.MkdirAll\<close> is call 0, \<open>os.CreateTemp\<close> call 1.\<close>

definition createComposeOverrideFile ::
  "schedule \<Rightarrow> nat \<Rightarrow> string \<Rightarrow> string \<Rightarrow> files \<Rightarrow> bool \<times> files" where
  "createComposeOverrideFile up n tmp payload fs =
     (if \<not> up 0 then (False, fs) else fill_temporary up 1 tmp (override_steps n) payload fs)"

definition writeComposeOverride ::
  "nat \<Rightarrow> string \<Rightarrow> schedule \<Rightarrow> string \<Rightarrow> files \<Rightarrow> string \<Rightarrow> bool \<times> files" where
  "writeComposeOverride n path up tmp fs payload =
     (case createComposeOverrideFile up n tmp payload fs of
        (created, fs') \<Rightarrow> if created then rename_over up tmp path fs' else (False, fs'))"

definition composeArgs :: "string \<Rightarrow> string \<Rightarrow> string list" where
  "composeArgs baseFile override = [''compose'', ''-f'', baseFile, ''-f'', override]"

definition linesSet :: "string \<Rightarrow> string list" where
  "linesSet value = filter (\<lambda>l. l \<noteq> []) (map trim_space (split_on newline value))"

definition requestedComponents :: "Image list \<Rightarrow> string list" where
  "requestedComponents images = map img_Component images"

subsection \<open>Preflight\<close>

definition zero_preflight :: PreflightEvidence where
  "zero_preflight = \<lparr>pe_ComposeValid = False, pe_ImagesResolved = False, pe_MigrationReady = False\<rparr>"

definition migration_ready :: "Request \<Rightarrow> ReleaseTargetConfig \<Rightarrow> string list \<Rightarrow> bool" where
  "migration_ready request policy services =
     (if mp_Mode (rq_Migration request) = ''preflight-and-apply''
      then rt_MigrationService policy \<in> set services \<and> rt_MigrationArgs policy \<noteq> []
      else mp_Mode (rq_Migration request) = ''none'')"

definition preflight_checks ::
  "rel_host \<Rightarrow> Request \<Rightarrow> resolvedTarget \<Rightarrow> string \<Rightarrow> rel_world
    \<Rightarrow> (PreflightEvidence \<times> runtime_error option) \<times> rel_world" where
  "preflight_checks h request target override w =
     (let dir = prj_Path (rtg_project target);
          args = composeArgs (rtg_baseFile target) override
      in case run_command h (dir, ''docker'', args @ [''config'', ''--quiet'']) w of
        (None, w1) \<Rightarrow> ((zero_preflight, Some CommandFailed), w1)
      | (Some _, w1) \<Rightarrow>
          (case run_command h (dir, ''docker'', args @ [''config'', ''--services'']) w1 of
             (None, w2) \<Rightarrow> ((zero_preflight, Some CommandFailed), w2)
           | (Some out, w2) \<Rightarrow>
               (let services = linesSet out
                in case first_some (\<lambda>im. if img_Component im \<in> set services then None
                       else Some (UnknownComponent (img_Component im))) (rq_Images request) of
                  Some e \<Rightarrow> ((zero_preflight, Some e), w2)
                | None \<Rightarrow>
                    if \<not> migration_ready request (rtg_policy target) services
                    then ((zero_preflight, Some MigrationUnavailable), w2)
                    else case run_command h (dir, ''docker'', args @ [''pull'', ''--quiet'']
                           @ requestedComponents (rq_Images request)) w2 of
                      (None, w3) \<Rightarrow> ((zero_preflight, Some CommandFailed), w3)
                    | (Some _, w3) \<Rightarrow>
                        ((\<lparr>pe_ComposeValid = True, pe_ImagesResolved = True,
                           pe_MigrationReady = True\<rparr>, None), w3))))"

text \<open>The deferred removal of the temporary override: a failure replaces the answer by an error.\<close>

definition remove_override ::
  "schedule \<Rightarrow> string \<Rightarrow> (PreflightEvidence \<times> runtime_error option) \<times> rel_world
    \<Rightarrow> (PreflightEvidence \<times> runtime_error option) \<times> rel_world" where
  "remove_override up tmp answer =
     (case answer of (r, w) \<Rightarrow>
        if up 7 then (r, w\<lparr>rw_files := (rw_files w)(tmp := None)\<rparr>)
        else ((zero_preflight, Some OverrideNotRemoved), w))"

definition Preflight ::
  "rel_host \<Rightarrow> Request \<Rightarrow> rel_world \<Rightarrow> (PreflightEvidence \<times> runtime_error option) \<times> rel_world" where
  "Preflight h request w =
     (case resolve h request of
        Inl e \<Rightarrow> ((zero_preflight, Some e), w)
      | Inr target \<Rightarrow>
          (case rh_prepare h (rtg_projectPath target) of
             None \<Rightarrow> ((zero_preflight, Some PreflightDirectory), w)
           | Some directory \<Rightarrow>
               (let n = rw_count w; tmp = rh_temporary h n directory
                in case createComposeOverrideFile (rh_calls h n) (rh_partial h n) tmp
                       (composeOverridePayload h (rq_Images request)) (rw_files w) of
                  (created, fs) \<Rightarrow>
                    (let w' = tick (w\<lparr>rw_files := fs\<rparr>)
                     in if \<not> created then ((zero_preflight, Some OverrideFailed), w')
                        else remove_override (rh_calls h n) tmp
                          (preflight_checks h request target tmp w')))))"

subsection \<open>Apply\<close>

definition zero_apply :: ApplyEvidence where
  "zero_apply = \<lparr>ae_AppliedComponents = 0, ae_MigrationApplied = False\<rparr>"

definition migration_command :: "Request \<Rightarrow> resolvedTarget \<Rightarrow> command list" where
  "migration_command request target =
     (if mp_Mode (rq_Migration request) = ''preflight-and-apply''
      then [(prj_Path (rtg_project target), ''docker'',
             composeArgs (rtg_baseFile target) (rtg_override target)
               @ [''run'', ''--rm'', ''--no-deps'', rt_MigrationService (rtg_policy target)]
               @ rt_MigrationArgs (rtg_policy target))]
      else [])"

definition up_command :: "Request \<Rightarrow> resolvedTarget \<Rightarrow> command" where
  "up_command request target =
     (prj_Path (rtg_project target), ''docker'',
      composeArgs (rtg_baseFile target) (rtg_override target)
        @ [''up'', ''-d'', ''--no-deps''] @ requestedComponents (rq_Images request))"

definition apply_up ::
  "rel_host \<Rightarrow> Request \<Rightarrow> resolvedTarget \<Rightarrow> bool \<Rightarrow> rel_world
    \<Rightarrow> (ApplyEvidence \<times> runtime_error option) \<times> rel_world" where
  "apply_up h request target migrationApplied w =
     (case run_command h (up_command request target) w of
        (None, w') \<Rightarrow> ((zero_apply, Some CommandFailed), w')
      | (Some _, w') \<Rightarrow>
          ((\<lparr>ae_AppliedComponents = int (length (rq_Images request)),
             ae_MigrationApplied = migrationApplied\<rparr>, None), w'))"

definition Apply ::
  "rel_host \<Rightarrow> Request \<Rightarrow> rel_world \<Rightarrow> (ApplyEvidence \<times> runtime_error option) \<times> rel_world" where
  "Apply h request w =
     (case resolve h request of
        Inl e \<Rightarrow> ((zero_apply, Some e), w)
      | Inr target \<Rightarrow>
          (let n = rw_count w
           in case writeComposeOverride (rh_partial h n) (rtg_override target) (rh_calls h n)
                  (rh_temporary h n (path_dir (rtg_override target))) (rw_files w)
                  (composeOverridePayload h (rq_Images request)) of
             (written, fs) \<Rightarrow>
               (let w1 = tick (w\<lparr>rw_files := fs\<rparr>)
                in if \<not> written then ((zero_apply, Some OverrideFailed), w1)
                   else case migration_command request target of
                     [] \<Rightarrow> apply_up h request target False w1
                   | cmd # _ \<Rightarrow>
                       (case run_command h cmd w1 of
                          (None, w2) \<Rightarrow> ((zero_apply, Some CommandFailed), w2)
                        | (Some _, w2) \<Rightarrow> apply_up h request target True w2))))"

subsection \<open>Health\<close>

fun verifyHealthAttempt ::
  "rel_host \<Rightarrow> string list \<Rightarrow> nat \<Rightarrow> rel_world \<Rightarrow> (nat \<times> bool) \<times> rel_world" where
  "verifyHealthAttempt h [] passed w = ((passed, False), w)"
| "verifyHealthAttempt h (healthURL # urls) passed w =
     (case rh_get h (rw_count w) healthURL of
        HttpBadURL \<Rightarrow> ((passed, True), w)
      | HttpFailed \<Rightarrow> ((passed, True), tick w)
      | HttpStatus code \<Rightarrow>
          if code < 200 \<or> code \<ge> 300 then ((passed, True), tick w)
          else verifyHealthAttempt h urls (Suc passed) (tick w))"

text \<open>
  The loop over the attempts; \<open>left\<close> is the number of attempts after this one. The expiry of
  the health context is asked for after a failed attempt and by the wait.
\<close>

fun health_attempts ::
  "rel_host \<Rightarrow> Request \<Rightarrow> string list \<Rightarrow> nat \<Rightarrow> nat \<Rightarrow> rel_world
    \<Rightarrow> (HealthEvidence \<times> runtime_error option) \<times> rel_world" where
  "health_attempts h request urls attempt left w =
     (case verifyHealthAttempt h urls 0 w of
        ((passed, failed), w1) \<Rightarrow>
          (let evidence = \<lparr>he_Profile = rq_HealthProfile request, he_ChecksPassed = int passed,
                           he_Attempts = int attempt\<rparr>
           in if \<not> failed then ((evidence, None), w1)
              else if rh_expired h (rw_count w1) then ((evidence, Some (HealthEnded attempt)), w1)
              else case left of
                0 \<Rightarrow> ((evidence, Some (HealthNotReady attempt)), w1)
              | Suc k \<Rightarrow>
                  if \<not> rh_waited h (rw_count w1) then ((evidence, Some (HealthEnded attempt)), tick w1)
                  else health_attempts h request urls (Suc attempt) k (tick w1)))"

definition zero_health :: HealthEvidence where
  "zero_health = \<lparr>he_Profile = [], he_ChecksPassed = 0, he_Attempts = 0\<rparr>"

definition VerifyHealth ::
  "rel_host \<Rightarrow> Request \<Rightarrow> rel_world \<Rightarrow> (HealthEvidence \<times> runtime_error option) \<times> rel_world" where
  "VerifyHealth h request w =
     (case resolve h request of
        Inl e \<Rightarrow> ((zero_health, Some e), w)
      | Inr target \<Rightarrow>
          (case HealthReadinessPolicy (rh_duration h) (rtg_policy target) of
             Inl _ \<Rightarrow> ((zero_health, Some HealthPolicyInvalid), w)
           | Inr policy \<Rightarrow> health_attempts h request (rt_HealthURLs (rtg_policy target)) 1
               (nat (hp_MaxAttempts policy - 1)) w))"

end
