(* ===== verification/Release_Compose.thy ===== *)
theory Release_Compose
  imports Release_Runtime
begin

text \<open>
  What the Compose runtime promises: the target it resolves is the allowlisted one and its
  compose file lies inside the project, its preflight leaves no file behind, its apply runs
  only the commands of the request, and its health loop is bounded.
\<close>

subsection \<open>Containment of paths\<close>

text \<open>For absolute paths the test is the prefix order on their components.\<close>

lemma pathInside_prefix:
  assumes "is_abs parent" "is_abs child"
  shows "pathInside parent child \<longleftrightarrow> prefix (clean_components parent) (clean_components child)"
proof -
  obtain bs ts where d: "drop_common (clean_components parent) (clean_components child) = (bs, ts)"
    by (metis prod.exhaust)
  obtain zs where zs: "clean_components parent = zs @ bs" "clean_components child = zs @ ts"
    using drop_common_prefix[OF d] by blast
  have nodot: "''..'' \<notin> set bs" "''..'' \<notin> set ts"
    using clean_components_rooted[OF assms(1)] clean_components_rooted[OF assms(2)] zs by auto
  have noslash: "\<forall>w \<in> set ts. CHR ''/'' \<notin> set w"
    using clean_components_no_slash[of _ child] zs by auto
  show ?thesis
  proof (cases bs)
    case Nil
    then have rel: "path_rel parent child = Some (if ts = [] then ''.'' else join_with ''/'' ts)"
      using d assms by (simp add: path_rel_def)
    have "pathInside parent child"
      using join_dotdot_prefix[OF nodot(2) noslash]
      by (cases "ts = []") (simp_all add: pathInside_def rel has_prefix_def)
    with Nil zs show ?thesis by simp
  next
    case (Cons b bs')
    let ?ws = "map (\<lambda>_. ''..'') bs @ ts"
    have rel: "path_rel parent child = Some (join_with ''/'' ?ws)"
      using d assms nodot Cons by (simp add: path_rel_def)
    have "\<not> pathInside parent child"
      using Cons rel
      by (cases "map (\<lambda>_. ''..'') bs' @ ts") (simp_all add: pathInside_def has_prefix_def)
    moreover have "\<not> prefix (clean_components parent) (clean_components child)"
    proof
      assume "prefix (clean_components parent) (clean_components child)"
      then obtain ys where "clean_components child = clean_components parent @ ys"
        by (auto elim: prefixE)
      then have "drop_common (clean_components parent) (clean_components child) = ([], ys)"
        by (simp add: drop_common_self)
      with d Cons show False by simp
    qed
    ultimately show ?thesis by simp
  qed
qed

subsection \<open>The override file\<close>

lemma writeComposeOverride_replace:
  "writeComposeOverride n path up tmp fs payload =
    (if \<not> up 0 then (False, fs)
     else replace_file up 1 (override_steps n) tmp path payload fs)"
  by (simp add: writeComposeOverride_def createComposeOverrideFile_def replace_file_def)

lemma override_writes: "StepWrite n \<in> set (override_steps n)"
  by (simp add: override_steps_def)

interpretation override: atomic_writer "writeComposeOverride n path" path "\<lambda>payload. payload"
  for n path
  by unfold_locales
    (auto simp: writeComposeOverride_replace split: if_splits
      dest: replace_file_written[OF _ override_writes] replace_file_kept replace_file_frame
        replace_file_no_temporary)

lemma createComposeOverrideFile_frame:
  "createComposeOverrideFile up n tmp payload fs = (r, fs') \<Longrightarrow> p \<noteq> tmp \<Longrightarrow> fs' p = fs p"
  by (auto simp: createComposeOverrideFile_def split: if_splits dest: fill_temporary_frame)

subsection \<open>Resolution\<close>

lemma resolve_Inr:
  assumes "resolve h rq = Inr t"
  shows "resolve_policy h rq = Inr (rtg_policy t)" "prj_Name (rtg_project t) = rt_Project (rtg_policy t)"
    "pathInside (rtg_projectPath t) (rtg_baseFile t)"
    "rtg_override t = path_join [path_join [rtg_projectPath t, ''.fleetdeck'', ''release-overrides''],
       rq_JobID rq @ ''.json'']"
  using assms by (auto simp: resolve_def split: sum.splits option.splits if_splits)

lemma resolve_policy_Inr:
  assumes "resolve_policy h rq = Inr p"
  obtains cfg where "rh_config h = Some cfg" "rc_Enabled (cfg_Release cfg)"
    "map_of (rc_Targets (cfg_Release cfg)) (tgt_ID (rq_Target rq)) = Some p"
    "rt_Environment p = tgt_Environment (rq_Target rq)"
    "rt_Profile p = tgt_Profile (rq_Target rq)" "rt_HealthProfile p = rq_HealthProfile rq"
    "tgt_Environment (rq_Target rq) = ''production''
       \<longrightarrow> rc_AllowProduction (cfg_Release cfg) \<and> rh_backups h \<noteq> None"
  using assms by (auto simp: resolve_policy_def split: option.splits if_splits)

subsection \<open>Commands\<close>

lemma run_command_simps [simp]:
  "fst (run_command h cmd w) = rh_run h (rw_count w) cmd"
  "rw_files (snd (run_command h cmd w)) = rw_files w"
  "rw_commands (snd (run_command h cmd w)) = rw_commands w @ [cmd]"
  by (simp_all add: run_command_def tick_def)

lemma run_commandD:
  "run_command h cmd w = (r, w') \<Longrightarrow> rw_files w' = rw_files w \<and> rw_commands w' = rw_commands w @ [cmd]"
  by (auto simp: run_command_def tick_def)

lemma tick_simps [simp]: "rw_files (tick w) = rw_files w" "rw_commands (tick w) = rw_commands w"
  by (simp_all add: tick_def)

lemma preflight_checks_files:
  "preflight_checks h rq t tmp w = (r, w') \<Longrightarrow> rw_files w' = rw_files w"
  by (auto simp: preflight_checks_def Let_def split: prod.splits option.splits if_splits
      dest!: run_commandD)

lemma preflight_checks_ok:
  assumes "preflight_checks h rq t tmp w = ((ev, None), w')"
  shows "preflight_passed ev"
    "rw_commands w' = rw_commands w @ map (\<lambda>args. (prj_Path (rtg_project t), ''docker'',
        composeArgs (rtg_baseFile t) tmp @ args))
       [[''config'', ''--quiet''], [''config'', ''--services''],
        [''pull'', ''--quiet''] @ requestedComponents (rq_Images rq)]"
  using assms
  by (auto simp: preflight_checks_def Let_def preflight_passed_def
      split: prod.splits option.splits if_splits dest!: run_commandD)

subsection \<open>The runtime of the executor\<close>

definition CreateAndVerifyBackup ::
  "rel_host \<Rightarrow> Request \<Rightarrow> runtime_error + BackupEvidence" where
  "CreateAndVerifyBackup h request =
     (case resolve h request of
        Inl e \<Rightarrow> Inl e
      | Inr target \<Rightarrow>
          if tgt_Environment (rq_Target request) \<noteq> ''production''
             \<or> \<not> bp_Required (rq_Backup request) then Inl BackupNotAvailable
          else case rh_backups h of
            None \<Rightarrow> Inl NoBackupProvider
          | Some provider \<Rightarrow> bkp_create provider (rtg_project target) request)"

definition RestoreBackup ::
  "rel_host \<Rightarrow> Request \<Rightarrow> BackupEvidence \<Rightarrow> runtime_error + RollbackEvidence" where
  "RestoreBackup h request backup =
     (case resolve h request of
        Inl e \<Rightarrow> Inl e
      | Inr target \<Rightarrow>
          if tgt_Environment (rq_Target request) \<noteq> ''production'' then Inl RestoreNotAvailable
          else case rh_backups h of
            None \<Rightarrow> Inl NoBackupProvider
          | Some provider \<Rightarrow> bkp_restore provider (rtg_project target) request backup)"

definition zero_backup :: BackupEvidence where
  "zero_backup = \<lparr>be_BackupID = [], be_ManifestSHA256 = [], be_Verified = False,
     be_Encrypted = False, be_OffsiteVerified = False\<rparr>"

definition zero_rollback :: RollbackEvidence where
  "zero_rollback = \<lparr>rb_BackupID = [], rb_Mode = [], rb_Restored = False, rb_HealthVerified = False\<rparr>"

definition outside_call :: "'a \<Rightarrow> runtime_error + 'a \<Rightarrow> rel_world \<Rightarrow> ('a \<times> bool) \<times> rel_world" where
  "outside_call zero r w = (case r of Inl _ \<Rightarrow> ((zero, True), tick w) | Inr x \<Rightarrow> ((x, False), tick w))"

definition with_error :: "('a \<times> runtime_error option) \<times> rel_world \<Rightarrow> ('a \<times> bool) \<times> rel_world" where
  "with_error r = (case r of ((x, err), w) \<Rightarrow> ((x, err \<noteq> None), w))"

definition compose_runtime :: "rel_host \<Rightarrow> rel_world runtime" where
  "compose_runtime h = \<lparr>
     rtm_Preflight = (\<lambda>rq w. with_error (Preflight h rq w)),
     rtm_CreateAndVerifyBackup = (\<lambda>rq w. outside_call zero_backup (CreateAndVerifyBackup h rq) w),
     rtm_RestoreBackup = (\<lambda>rq b w. outside_call zero_rollback (RestoreBackup h rq b) w),
     rtm_Apply = (\<lambda>rq w. with_error (Apply h rq w)),
     rtm_VerifyHealth = (\<lambda>rq w. with_error (VerifyHealth h rq w)),
     rtm_now = (\<lambda>w. (rh_now h (rw_count w), tick w))\<rparr>"

subsection \<open>Lemmas on apply and health\<close>

lemma apply_up_cases:
  assumes "apply_up h rq t m w = ((ev, err), w')"
  shows "rw_files w' = rw_files w \<and> rw_commands w' = rw_commands w @ [up_command rq t]
    \<and> (err = None \<longrightarrow> ev = \<lparr>ae_AppliedComponents = int (length (rq_Images rq)), ae_MigrationApplied = m\<rparr>)"
  using assms by (auto simp: apply_up_def split: prod.splits option.splits dest!: run_commandD)

lemma migration_command_cases:
  "migration_command rq t = [] \<or> (\<exists>cmd. migration_command rq t = [cmd])"
  by (simp add: migration_command_def)

lemma apply_rest:
  assumes "(case migration_command rq t of
        [] \<Rightarrow> apply_up h rq t False w
      | cmd # _ \<Rightarrow> (case run_command h cmd w of
          (None, w2) \<Rightarrow> ((zero_apply, Some CommandFailed), w2)
        | (Some _, w2) \<Rightarrow> apply_up h rq t True w2)) = ((ev, err), w')"
  shows "rw_files w' = rw_files w
    \<and> (\<exists>ran. rw_commands w' = rw_commands w @ ran
         \<and> prefix ran (migration_command rq t @ [up_command rq t])
         \<and> (err = None \<longrightarrow> ran = migration_command rq t @ [up_command rq t]
              \<and> ae_AppliedComponents ev = int (length (rq_Images rq))
              \<and> (ae_MigrationApplied ev \<longleftrightarrow> migration_command rq t \<noteq> [])))"
proof (cases "migration_command rq t")
  case Nil
  with assms have "apply_up h rq t False w = ((ev, err), w')" by simp
  from apply_up_cases[OF this] Nil show ?thesis by auto
next
  case (Cons cmd rest)
  then have m: "migration_command rq t = [cmd]" using migration_command_cases[of rq t] by auto
  obtain r w2 where run: "run_command h cmd w = (r, w2)" by (metis prod.exhaust)
  note eff = run_commandD[OF run]
  show ?thesis
  proof (cases r)
    case None
    with assms m run eff show ?thesis by auto
  next
    case (Some out)
    with assms m run have "apply_up h rq t True w2 = ((ev, err), w')" by simp
    from apply_up_cases[OF this] eff m show ?thesis by auto
  qed
qed

lemma verifyHealthAttempt_count:
  "verifyHealthAttempt h urls k w = ((p, failed), w') \<Longrightarrow>
     k \<le> p \<and> (if failed then p < k + length urls else p = k + length urls)
     \<and> rw_files w' = rw_files w \<and> rw_commands w' = rw_commands w"
  by (induction h urls k w rule: verifyHealthAttempt.induct)
    (auto split: http_answer.splits if_splits)

lemma health_attempts_bound:
  "health_attempts h rq urls a n w = ((ev, err), w') \<Longrightarrow>
     int a \<le> he_Attempts ev \<and> he_Attempts ev \<le> int (a + n) \<and> he_Profile ev = rq_HealthProfile rq
     \<and> (if err = None then he_ChecksPassed ev = int (length urls)
        else he_ChecksPassed ev < int (length urls))
     \<and> rw_files w' = rw_files w \<and> rw_commands w' = rw_commands w"
proof (induction n arbitrary: a w)
  case 0
  then show ?case
    by (auto simp: Let_def split: prod.splits if_splits dest!: verifyHealthAttempt_count)
next
  case (Suc n)
  obtain p failed w1 where att: "verifyHealthAttempt h urls 0 w = ((p, failed), w1)"
    by (metis prod.exhaust)
  note count = verifyHealthAttempt_count[OF att]
  show ?case
  proof (cases "failed \<and> \<not> rh_expired h (rw_count w1) \<and> rh_waited h (rw_count w1)")
    case True
    with Suc.prems att have "health_attempts h rq urls (Suc a) n (tick w1) = ((ev, err), w')" by simp
    from Suc.IH[OF this] count show ?thesis by simp
  next
    case False
    with Suc.prems att count show ?thesis by (auto simp: Let_def split: if_splits)
  qed
qed

subsection \<open>Properties\<close>

text \<open>The runtime only acts on what the operator allowlisted: a resolved target comes from the
  enabled release section, matches the request in environment, profile and health profile, names
  the allowlisted project, has for production the switch and a backup provider, and its compose
  file, symlinks resolved, is the project directory or below it.\<close>
theorem resolve_allowlisted:
  assumes "resolve h rq = Inr t"
    and "is_abs (rtg_projectPath t)" "is_abs (rtg_baseFile t)"
  shows "\<exists>cfg. rh_config h = Some cfg \<and> rc_Enabled (cfg_Release cfg)
    \<and> map_of (rc_Targets (cfg_Release cfg)) (tgt_ID (rq_Target rq)) = Some (rtg_policy t)
    \<and> rt_Environment (rtg_policy t) = tgt_Environment (rq_Target rq)
    \<and> prj_Name (rtg_project t) = rt_Project (rtg_policy t)
    \<and> (tgt_Environment (rq_Target rq) = ''production''
         \<longrightarrow> rc_AllowProduction (cfg_Release cfg) \<and> rh_backups h \<noteq> None)
    \<and> prefix (clean_components (rtg_projectPath t)) (clean_components (rtg_baseFile t))"
proof -
  note r = resolve_Inr[OF assms(1)]
  from r(1) obtain cfg where "rh_config h = Some cfg" "rc_Enabled (cfg_Release cfg)"
    "map_of (rc_Targets (cfg_Release cfg)) (tgt_ID (rq_Target rq)) = Some (rtg_policy t)"
    "rt_Environment (rtg_policy t) = tgt_Environment (rq_Target rq)"
    "tgt_Environment (rq_Target rq) = ''production''
       \<longrightarrow> rc_AllowProduction (cfg_Release cfg) \<and> rh_backups h \<noteq> None"
    by (rule resolve_policy_Inr)
  with r pathInside_prefix[OF assms(2,3)] show ?thesis by blast
qed

text \<open>A successful preflight leaves the files as it found them, reports every check as passed,
  and ran exactly the three read-only Compose commands on the resolved base file and its own
  temporary override, in the project's directory.\<close>
theorem Preflight_leaves_files:
  assumes "Preflight h rq w = ((ev, None), w')" "\<forall>n d. rw_files w (rh_temporary h n d) = None"
  shows "rw_files w' = rw_files w \<and> preflight_passed ev
    \<and> (\<exists>t dir. resolve h rq = Inr t \<and> rh_prepare h (rtg_projectPath t) = Some dir
         \<and> rw_commands w' = rw_commands w @ map (\<lambda>args. (prj_Path (rtg_project t), ''docker'',
               composeArgs (rtg_baseFile t) (rh_temporary h (rw_count w) dir) @ args))
             [[''config'', ''--quiet''], [''config'', ''--services''],
              [''pull'', ''--quiet''] @ requestedComponents (rq_Images rq)])"
proof -
  obtain t where t: "resolve h rq = Inr t"
    using assms(1) by (auto simp: Preflight_def split: sum.splits)
  then obtain dir where dir: "rh_prepare h (rtg_projectPath t) = Some dir"
    using assms(1) by (auto simp: Preflight_def split: option.splits)
  let ?n = "rw_count w"
  let ?tmp = "rh_temporary h ?n dir"
  obtain created fs where create: "createComposeOverrideFile (rh_calls h ?n) (rh_partial h ?n) ?tmp
      (composeOverridePayload h (rq_Images rq)) (rw_files w) = (created, fs)"
    by (metis prod.exhaust)
  let ?w1 = "tick (w\<lparr>rw_files := fs\<rparr>)"
  obtain r w2 where checks: "preflight_checks h rq t ?tmp ?w1 = (r, w2)" by (metis prod.exhaust)
  from assms(1) t dir create checks
  have "created" "rh_calls h ?n 7" "r = (ev, None)" "w' = w2\<lparr>rw_files := (rw_files w2)(?tmp := None)\<rparr>"
    by (auto simp: Preflight_def Let_def remove_override_def split: if_splits)
  moreover have "rw_files w2 = fs" using preflight_checks_files[OF checks] by simp
  moreover have "(fs(?tmp := None)) p = rw_files w p" for p
    using createComposeOverrideFile_frame[OF create, of p] assms(2) by auto
  ultimately show ?thesis
    using preflight_checks_ok[OF checks[unfolded \<open>r = (ev, None)\<close>]] t dir by auto
qed

text \<open>Applying a release touches nothing but the override file of the job, which afterwards
  holds its old content or the complete new one, and runs the migration command (when the
  request asks for one) and then one \<open>up\<close> of the requested components; it stops at the first
  that fails, and reports success only when the override was written and all of them ran.\<close>
theorem Apply_effects:
  assumes "Apply h rq w = ((ev, err), w')" "resolve h rq = Inr t"
    and "rh_temporary h (rw_count w) (path_dir (rtg_override t)) \<noteq> rtg_override t"
  shows "rw_files w' (rtg_override t)
      \<in> {rw_files w (rtg_override t), Some (composeOverridePayload h (rq_Images rq))}
    \<and> (\<exists>ran. rw_commands w' = rw_commands w @ ran
         \<and> prefix ran (migration_command rq t @ [up_command rq t])
         \<and> (err = None \<longrightarrow> ran = migration_command rq t @ [up_command rq t]
              \<and> rw_files w' (rtg_override t) = Some (composeOverridePayload h (rq_Images rq))
              \<and> ae_AppliedComponents ev = int (length (rq_Images rq))
              \<and> (ae_MigrationApplied ev \<longleftrightarrow> migration_command rq t \<noteq> [])))"
proof -
  let ?n = "rw_count w"
  let ?tmp = "rh_temporary h ?n (path_dir (rtg_override t))"
  let ?payload = "composeOverridePayload h (rq_Images rq)"
  obtain written fs where wr: "writeComposeOverride (rh_partial h ?n) (rtg_override t) (rh_calls h ?n)
      ?tmp (rw_files w) ?payload = (written, fs)"
    by (metis prod.exhaust)
  show ?thesis
  proof (cases written)
    case True
    have "fs (rtg_override t) = Some ?payload"
      using override.written[OF assms(3)] wr True by simp
    moreover have "(case migration_command rq t of
        [] \<Rightarrow> apply_up h rq t False (tick (w\<lparr>rw_files := fs\<rparr>))
      | cmd # _ \<Rightarrow> (case run_command h cmd (tick (w\<lparr>rw_files := fs\<rparr>)) of
          (None, w2) \<Rightarrow> ((zero_apply, Some CommandFailed), w2)
        | (Some _, w2) \<Rightarrow> apply_up h rq t True w2)) = ((ev, err), w')"
      using assms(1,2) wr True by (simp add: Apply_def Let_def)
    note rest = apply_rest[OF this]
    ultimately show ?thesis using rest by auto
  next
    case False
    have "fs (rtg_override t) = rw_files w (rtg_override t)"
      using override.kept[OF assms(3)] wr False by simp
    with assms(1,2) wr False show ?thesis by (auto simp: Apply_def Let_def)
  qed
qed

text \<open>The health loop ends after at least one and at most the configured number of attempts; it
  succeeds exactly when an attempt got a 2xx answer from every configured URL, runs no command
  and changes no file.\<close>
theorem VerifyHealth_bounded:
  assumes "VerifyHealth h rq w = ((ev, err), w')" "resolve h rq = Inr t"
    and "HealthReadinessPolicy (rh_duration h) (rtg_policy t) = Inr policy"
  shows "1 \<le> he_Attempts ev \<and> he_Attempts ev \<le> hp_MaxAttempts policy
    \<and> (err = None \<longleftrightarrow> he_ChecksPassed ev = int (length (rt_HealthURLs (rtg_policy t))))
    \<and> rw_files w' = rw_files w \<and> rw_commands w' = rw_commands w"
proof -
  have "health_attempts h rq (rt_HealthURLs (rtg_policy t)) 1 (nat (hp_MaxAttempts policy - 1)) w
      = ((ev, err), w')"
    using assms by (simp add: VerifyHealth_def)
  from health_attempts_bound[OF this] HealthReadinessPolicy_bounds[OF assms(3)] show ?thesis
    by (auto split: if_splits)
qed

lemma exec_fail_compose:
  assumes "exec_fail st (compose_runtime h) s w result step code = (out, s', w')"
  shows "rw_files w' = rw_files w \<and> rw_commands w' = rw_commands w"
  using assms by (auto simp: exec_fail_def compose_runtime_def Let_def split: option.splits prod.splits)

text \<open>Whatever a request that passed validation asks for, if the configuration of the host does
  not resolve its target then executing it runs no command and changes no file.\<close>
theorem Execute_unresolved_target:
  assumes "Execute m sh st (compose_runtime h) rq s w = (out, s', w')" "resolve h rq = Inl e"
  shows "rw_files w' = rw_files w \<and> rw_commands w' = rw_commands w"
proof -
  have none: "rtm_Preflight (compose_runtime h) rq w1 = ((zero_preflight, True), w1)" for w1
    using assms(2) by (simp add: compose_runtime_def with_error_def Preflight_def)
  have pre: "exec_preflight st (compose_runtime h) rq q s1 w1 = (out, s', w')
      \<Longrightarrow> rw_files w' = rw_files w1 \<and> rw_commands w' = rw_commands w1" for q s1 w1
    by (simp add: exec_preflight_def none exec_fail_compose)
  have cur: "exec_current st (compose_runtime h) rq q s1 w1 = (out, s', w')
      \<Longrightarrow> rw_files w' = rw_files w1 \<and> rw_commands w' = rw_commands w1" for q s1 w1
    by (auto simp: exec_current_def split: prod.splits sum.splits if_splits
        dest!: exec_fail_compose pre)
  have now: "rtm_now (compose_runtime h) w = (rh_now h (rw_count w), tick w)"
    by (simp add: compose_runtime_def)
  show ?thesis
    using assms(1)
    by (auto simp: Execute_def now split: option.splits prod.splits sum.splits ReservationState.splits
        dest!: cur)
qed

subsection \<open>A sample host\<close>

definition sample_rel_host :: "Config \<Rightarrow> rel_host" where
  "sample_rel_host cfg = \<lparr>rh_config = Some cfg,
     rh_project = (\<lambda>n. Some \<lparr>prj_Name = n, prj_Path = ''/srv/app''\<rparr>),
     rh_evalsymlinks = Some, rh_abs = Some, rh_prepare = (\<lambda>_. Some ''/run/p''), rh_backups = None,
     rh_duration = (\<lambda>_. Some (5 * second)), rh_marshal = (\<lambda>_. ''{}''),
     rh_run = (\<lambda>_ _. Some ''web''), rh_get = (\<lambda>_ _. HttpStatus 200), rh_calls = (\<lambda>_ _. True),
     rh_temporary = (\<lambda>_ d. d @ ''/.tmp''), rh_partial = (\<lambda>_. 0), rh_expired = (\<lambda>_. False),
     rh_waited = (\<lambda>_. True), rh_now = int\<rparr>"

definition empty_world :: rel_world where
  "empty_world = \<lparr>rw_files = (\<lambda>_. None), rw_commands = [], rw_count = 0\<rparr>"

definition sample_resolved :: resolvedTarget where
  "sample_resolved = \<lparr>rtg_project = \<lparr>prj_Name = ''app'', prj_Path = ''/srv/app''\<rparr>,
     rtg_projectPath = ''/srv/app'', rtg_policy = sample_target,
     rtg_baseFile = ''/srv/app/compose.yaml'',
     rtg_override = ''/srv/app/.fleetdeck/release-overrides/job-1.json''\<rparr>"

lemma sample_resolve: "resolve (sample_rel_host staging_config) staging_request = Inr sample_resolved"
  by code_simp

lemma resolve_allowlisted_witness:
  "prefix (clean_components ''/srv/app'') (clean_components ''/srv/app/compose.yaml'')"
proof -
  have "is_abs (rtg_projectPath sample_resolved)" "is_abs (rtg_baseFile sample_resolved)"
    by code_simp+
  from resolve_allowlisted[OF sample_resolve this] show ?thesis
    by (auto simp: sample_resolved_def)
qed

lemma Preflight_leaves_files_witness:
  "\<exists>ev w'. Preflight (sample_rel_host staging_config) staging_request empty_world = ((ev, None), w')
     \<and> rw_files w' = rw_files empty_world \<and> length (rw_commands w') = 3"
proof -
  obtain ev err w' where run:
    "Preflight (sample_rel_host staging_config) staging_request empty_world = ((ev, err), w')"
    by (metis prod.exhaust)
  have "snd (fst (Preflight (sample_rel_host staging_config) staging_request empty_world)) = None"
    by code_simp
  with run have ok: "err = None" by simp
  have "\<forall>n d. rw_files empty_world (rh_temporary (sample_rel_host staging_config) n d) = None"
    by (simp add: empty_world_def)
  from Preflight_leaves_files[OF run[unfolded ok] this] run ok show ?thesis
    by (auto simp: empty_world_def)
qed

lemma Apply_effects_witness:
  "\<exists>ev w'. Apply (sample_rel_host staging_config) staging_request empty_world = ((ev, None), w')
     \<and> rw_commands w' = [up_command staging_request sample_resolved]"
proof -
  obtain ev err w' where run:
    "Apply (sample_rel_host staging_config) staging_request empty_world = ((ev, err), w')"
    by (metis prod.exhaust)
  have "snd (fst (Apply (sample_rel_host staging_config) staging_request empty_world)) = None"
    by code_simp
  with run have ok: "err = None" by simp
  have "rh_temporary (sample_rel_host staging_config) (rw_count empty_world)
      (path_dir (rtg_override sample_resolved)) \<noteq> rtg_override sample_resolved"
    by code_simp
  from Apply_effects[OF run[unfolded ok] sample_resolve this] run ok show ?thesis
    by (auto simp: empty_world_def migration_command_def staging_request_def)
qed

lemma VerifyHealth_bounded_witness:
  "\<exists>ev w'. VerifyHealth (sample_rel_host staging_config) staging_request empty_world = ((ev, None), w')
     \<and> he_Attempts ev \<le> 3"
proof -
  obtain ev err w' where run:
    "VerifyHealth (sample_rel_host staging_config) staging_request empty_world = ((ev, err), w')"
    by (metis prod.exhaust)
  have "snd (fst (VerifyHealth (sample_rel_host staging_config) staging_request empty_world)) = None"
    by code_simp
  with run have ok: "err = None" by simp
  have "HealthReadinessPolicy (rh_duration (sample_rel_host staging_config)) (rtg_policy sample_resolved)
      = Inr \<lparr>hp_MaxAttempts = 3, hp_RetryInterval = 2 * second, hp_Timeout = 5 * second\<rparr>"
    by code_simp
  from VerifyHealth_bounded[OF run sample_resolve this] run ok show ?thesis by simp
qed

lemma Execute_unresolved_target_witness:
  "rw_commands (snd (snd (Execute (\<lambda>_. []) (\<lambda>_. []) (sample_store zero_Result)
     (compose_runtime (sample_rel_host DefaultConfig)) staging_request (empty_release_db, 0) empty_world))) = []"
proof -
  obtain out s' w' where run: "Execute (\<lambda>_. []) (\<lambda>_. []) (sample_store zero_Result)
     (compose_runtime (sample_rel_host DefaultConfig)) staging_request (empty_release_db, 0) empty_world
     = (out, s', w')"
    by (metis prod.exhaust)
  have "resolve (sample_rel_host DefaultConfig) staging_request = Inl ReleaseDisabled" by code_simp
  from Execute_unresolved_target[OF run this] run show ?thesis by (simp add: empty_world_def)
qed

end
