(* ===== verification/Release_Provider.thy ===== *)
theory Release_Provider
  imports Release_Compose
begin

text \<open>
  \<open>external_backup_provider.go\<close> and \<open>preflight_runtime.go\<close>: the two parts of the Compose
  runtime that must not trust what they find on the host, the external backup command and the
  private directory of the preflight. \<open>lstat\<close> and \<open>stat\<close> answer with the fields the code reads;
  a process answers with its output and the errors of its calls; JSON is a parameter.
\<close>

record file_stat =
  fst_regular :: bool
  fst_dir :: bool
  fst_symlink :: bool
  fst_sticky :: bool
  fst_perm :: nat
  fst_uid :: nat

datatype lstat_answer = LstatOk file_stat | LstatNotExist | LstatError

subsection \<open>The external backup command\<close>

definition maxBackupProviderOutput :: nat where "maxBackupProviderOutput = 64 * 1024"
definition externalProviderSchemaVersion :: int where "externalProviderSchemaVersion = 1"

record externalBackupRequest =
  xq_SchemaVersion :: int
  xq_Operation :: string
  xq_ReleaseID :: string
  xq_ManifestDigest :: string
  xq_TargetID :: string
  xq_Project :: string
  xq_Environment :: string
  xq_BackupID :: string
  xq_BackupManifest :: string

record externalBackupResult =
  xb_SchemaVersion :: int
  xb_ReleaseID :: string
  xb_TargetID :: string
  xb_BackupID :: string
  xb_ManifestSHA256 :: string
  xb_Verified :: bool
  xb_Encrypted :: bool
  xb_OffsiteVerified :: bool

record externalRollbackResult =
  xr_SchemaVersion :: int
  xr_ReleaseID :: string
  xr_TargetID :: string
  xr_BackupID :: string
  xr_Mode :: string
  xr_Restored :: bool
  xr_HealthVerified :: bool

text \<open>What the command does: starts or not, writes, its pipe fails, its exit status.\<close>

record process_answer =
  pa_started :: bool
  pa_stdout :: string
  pa_read_ok :: bool
  pa_exit_ok :: bool

record provider_host =
  ph_command :: string
  ph_evalsymlinks :: "string \<Rightarrow> string option"
  ph_stat :: "string \<Rightarrow> file_stat option"
  ph_encode :: "externalBackupRequest \<Rightarrow> string"
  ph_exec :: "string \<Rightarrow> string \<Rightarrow> process_answer"
  ph_decode_backup :: "string \<Rightarrow> externalBackupResult option"
  ph_decode_rollback :: "string \<Rightarrow> externalRollbackResult option"
  ph_trailing :: "string \<Rightarrow> bool"

definition safe_command_stat :: "file_stat \<Rightarrow> bool" where
  "safe_command_stat i \<longleftrightarrow> fst_regular i \<and> fst_perm i AND 18 = 0 \<and> fst_perm i AND 73 \<noteq> 0"

definition validateExternalBackupCommand :: "provider_host \<Rightarrow> runtime_error + string" where
  "validateExternalBackupCommand p =
     (if ph_command p = [] \<or> \<not> is_abs (ph_command p) then Inl ProviderCommandUnsafe
      else case ph_evalsymlinks p (ph_command p) of
        None \<Rightarrow> Inl ProviderCommandUnsafe
      | Some resolved \<Rightarrow>
          (case ph_stat p resolved of
             None \<Rightarrow> Inl ProviderCommandUnsafe
           | Some info \<Rightarrow>
               if \<not> safe_command_stat info then Inl ProviderCommandUnsafe
               else if fst_uid info \<noteq> 0 then Inl ProviderCommandUnsafe
               else Inr resolved))"

definition runExternalBackupCommand :: "provider_host \<Rightarrow> string \<Rightarrow> string \<Rightarrow> string option" where
  "runExternalBackupCommand p command payload =
     (let a = ph_exec p command payload
      in if \<not> pa_started a then None
         else let output = take (maxBackupProviderOutput + 1) (pa_stdout a)
           in if length output > maxBackupProviderOutput then None
              else if \<not> pa_read_ok a then None
              else if \<not> pa_exit_ok a then None
              else Some output)"

definition decodeExternalBackupResult ::
  "provider_host \<Rightarrow> string \<Rightarrow> runtime_error + externalBackupResult" where
  "decodeExternalBackupResult p output =
     (case ph_decode_backup p output of
        None \<Rightarrow> Inl ProviderOutput
      | Some result \<Rightarrow> if ph_trailing p output then Inl ProviderOutput else Inr result)"

definition decodeExternalRollbackResult ::
  "provider_host \<Rightarrow> string \<Rightarrow> runtime_error + externalRollbackResult" where
  "decodeExternalRollbackResult p output =
     (case ph_decode_rollback p output of
        None \<Rightarrow> Inl ProviderOutput
      | Some result \<Rightarrow> if ph_trailing p output then Inl ProviderOutput else Inr result)"

definition provider_request ::
  "string \<Rightarrow> Project \<Rightarrow> Request \<Rightarrow> string \<Rightarrow> string \<Rightarrow> externalBackupRequest" where
  "provider_request operation project request backupID backupManifest =
     \<lparr>xq_SchemaVersion = externalProviderSchemaVersion, xq_Operation = operation,
      xq_ReleaseID = rq_ReleaseID request, xq_ManifestDigest = rq_ManifestDigest request,
      xq_TargetID = tgt_ID (rq_Target request), xq_Project = prj_Name project,
      xq_Environment = tgt_Environment (rq_Target request),
      xq_BackupID = backupID, xq_BackupManifest = backupManifest\<rparr>"

definition call_provider :: "provider_host \<Rightarrow> externalBackupRequest \<Rightarrow> runtime_error + string" where
  "call_provider p q =
     (case validateExternalBackupCommand p of
        Inl e \<Rightarrow> Inl e
      | Inr command \<Rightarrow>
          (case runExternalBackupCommand p command (ph_encode p q @ [newline]) of
             None \<Rightarrow> Inl ProviderFailed
           | Some output \<Rightarrow> Inr output))"

definition CreateAndVerify ::
  "provider_host \<Rightarrow> Project \<Rightarrow> Request \<Rightarrow> runtime_error + BackupEvidence" where
  "CreateAndVerify p project request =
     (case call_provider p (provider_request ''create-and-verify'' project request [] []) of
        Inl e \<Rightarrow> Inl e
      | Inr output \<Rightarrow>
          (case decodeExternalBackupResult p output of
             Inl e \<Rightarrow> Inl e
           | Inr result \<Rightarrow>
               if xb_SchemaVersion result \<noteq> externalProviderSchemaVersion
                  \<or> xb_ReleaseID result \<noteq> rq_ReleaseID request
                  \<or> xb_TargetID result \<noteq> tgt_ID (rq_Target request)
               then Inl EvidenceIdentity
               else if \<not> identifierPattern (xb_BackupID result)
                  \<or> \<not> digestPattern (xb_ManifestSHA256 result)
               then Inl EvidenceMalformed
               else Inr \<lparr>be_BackupID = xb_BackupID result, be_ManifestSHA256 = xb_ManifestSHA256 result,
                      be_Verified = xb_Verified result, be_Encrypted = xb_Encrypted result,
                      be_OffsiteVerified = xb_OffsiteVerified result\<rparr>))"

definition Restore ::
  "provider_host \<Rightarrow> Project \<Rightarrow> Request \<Rightarrow> BackupEvidence \<Rightarrow> runtime_error + RollbackEvidence" where
  "Restore p project request backup =
     (case call_provider p (provider_request ''restore-runtime-and-verify'' project request
              (be_BackupID backup) (be_ManifestSHA256 backup)) of
        Inl e \<Rightarrow> Inl e
      | Inr output \<Rightarrow>
          (case decodeExternalRollbackResult p output of
             Inl e \<Rightarrow> Inl e
           | Inr result \<Rightarrow>
               if xr_SchemaVersion result \<noteq> externalProviderSchemaVersion
                  \<or> xr_ReleaseID result \<noteq> rq_ReleaseID request
                  \<or> xr_TargetID result \<noteq> tgt_ID (rq_Target request)
                  \<or> xr_BackupID result \<noteq> be_BackupID backup
                  \<or> xr_Mode result \<noteq> rp_Mode (rq_Recovery request)
               then Inl EvidenceIdentity
               else Inr \<lparr>rb_BackupID = xr_BackupID result, rb_Mode = xr_Mode result,
                      rb_Restored = xr_Restored result, rb_HealthVerified = xr_HealthVerified result\<rparr>))"

definition NewExternalProductionBackupProvider :: "provider_host \<Rightarrow> string \<Rightarrow> backup_provider" where
  "NewExternalProductionBackupProvider p command =
     \<lparr>bkp_create = CreateAndVerify (p\<lparr>ph_command := command\<rparr>),
      bkp_restore = Restore (p\<lparr>ph_command := command\<rparr>)\<rparr>"

definition NewComposeRuntime :: "Config option \<Rightarrow> provider_host \<Rightarrow> rel_host \<Rightarrow> rel_host" where
  "NewComposeRuntime cfg p h =
     h\<lparr>rh_config := cfg,
       rh_backups := (case cfg of None \<Rightarrow> None
         | Some c \<Rightarrow> if rc_ProductionBackupCommand (cfg_Release c) = [] then None
             else Some (NewExternalProductionBackupProvider p
                    (rc_ProductionBackupCommand (cfg_Release c))))\<rparr>"

subsection \<open>The private directory of the preflight\<close>

datatype preflight_dir_error =
    DirNotAbsolute | DirNotIsolated | DirSymlink | DirNotDirectory | DirOwner | DirLeafMode
  | DirWritableAncestor | DirUnavailable | DirInspect | DirCreate | DirResolve

definition inspect_component ::
  "nat \<Rightarrow> bool \<Rightarrow> bool \<Rightarrow> lstat_answer \<Rightarrow> preflight_dir_error option" where
  "inspect_component owner requireLeaf isLeaf answer =
     (case answer of
        LstatOk i \<Rightarrow> first_error
          [(fst_symlink i, DirSymlink), (\<not> fst_dir i, DirNotDirectory),
           (fst_uid i \<noteq> 0 \<and> fst_uid i \<noteq> owner, DirOwner),
           (isLeaf \<and> (fst_uid i \<noteq> owner \<or> fst_perm i \<noteq> 448), DirLeafMode),
           (\<not> isLeaf \<and> fst_perm i AND 18 \<noteq> 0 \<and> \<not> fst_sticky i, DirWritableAncestor)]
      | LstatNotExist \<Rightarrow> if isLeaf \<and> requireLeaf then Some DirUnavailable else None
      | LstatError \<Rightarrow> Some DirInspect)"

text \<open>
  The walk to the root. \<open>None\<close>: out of fuel; one step per path component is enough.
\<close>

fun validateRuntimePath ::
  "nat \<Rightarrow> (string \<Rightarrow> lstat_answer) \<Rightarrow> nat \<Rightarrow> bool \<Rightarrow> bool \<Rightarrow> string
    \<Rightarrow> preflight_dir_error option option" where
  "validateRuntimePath 0 lst owner requireLeaf isLeaf current = None"
| "validateRuntimePath (Suc fuel) lst owner requireLeaf isLeaf current =
     (case inspect_component owner requireLeaf isLeaf (lst current) of
        Some e \<Rightarrow> Some (Some e)
      | None \<Rightarrow>
          if path_dir current = current then Some None
          else validateRuntimePath fuel lst owner requireLeaf False (path_dir current))"

definition prepare ::
  "string \<Rightarrow> nat \<Rightarrow> (string \<Rightarrow> lstat_answer) \<Rightarrow> bool \<Rightarrow> (string \<Rightarrow> lstat_answer)
    \<Rightarrow> (string \<Rightarrow> string option) \<Rightarrow> (string \<Rightarrow> string option) \<Rightarrow> string
    \<Rightarrow> preflight_dir_error + string" where
  "prepare dir owner lst mkdir_ok lst' evalsymlinks absolute projectPath =
     (if dir = [] \<or> \<not> is_abs dir then Inl DirNotAbsolute
      else let directory = path_clean dir; fuel = Suc (length (clean_components dir))
      in if pathInside projectPath directory \<or> pathInside directory projectPath then Inl DirNotIsolated
      else case validateRuntimePath fuel lst owner False True directory of
        Some (Some e) \<Rightarrow> Inl e
      | None \<Rightarrow> Inl DirInspect
      | Some None \<Rightarrow>
          if \<not> mkdir_ok then Inl DirCreate
          else case validateRuntimePath fuel lst' owner True True directory of
            Some (Some e) \<Rightarrow> Inl e
          | None \<Rightarrow> Inl DirInspect
          | Some None \<Rightarrow>
              (case Option.bind (evalsymlinks directory) absolute of
                 None \<Rightarrow> Inl DirResolve
               | Some resolved \<Rightarrow>
                   if resolved \<noteq> directory then Inl DirSymlink
                   else if pathInside projectPath resolved \<or> pathInside resolved projectPath
                   then Inl DirNotIsolated
                   else Inr resolved))"

subsection \<open>The walk to the root\<close>

lemma strict_prefix_snoc: "strict_prefix zs (ws @ [w]) \<longleftrightarrow> zs = ws \<or> strict_prefix zs ws"
  by (auto simp: strict_prefix_def prefix_snoc)

lemma validateRuntimePath_step:
  assumes "list_all normal_component ws" "normal_component w"
  shows "validateRuntimePath (Suc (length (ws @ [w]))) lst owner rl leaf (abs_path (ws @ [w])) =
    (case inspect_component owner rl leaf (lst (abs_path (ws @ [w]))) of
       Some e \<Rightarrow> Some (Some e)
     | None \<Rightarrow> validateRuntimePath (Suc (length ws)) lst owner rl False (abs_path ws))"
  unfolding validateRuntimePath.simps(2)[of "length (ws @ [w])"]
  using path_dir_snoc[OF assms] abs_path_snoc_neq[OF assms]
  by (simp del: validateRuntimePath.simps cong: option.case_cong)

lemma validateRuntimePath_components:
  assumes "list_all normal_component ws"
  shows "validateRuntimePath (Suc (length ws)) lst owner rl leaf (abs_path ws) \<noteq> None
    \<and> (validateRuntimePath (Suc (length ws)) lst owner rl leaf (abs_path ws) = Some None \<longleftrightarrow>
      inspect_component owner rl leaf (lst (abs_path ws)) = None
      \<and> (\<forall>zs. strict_prefix zs ws \<longrightarrow> inspect_component owner rl False (lst (abs_path zs)) = None))"
  using assms
proof (induction ws arbitrary: leaf rule: rev_induct)
  case Nil
  show ?case by (simp add: path_dir_root split: option.splits)
next
  case (snoc w ws)
  then have ws: "list_all normal_component ws" "normal_component w" by simp_all
  show ?case
    unfolding validateRuntimePath_step[OF ws] strict_prefix_snoc
    using snoc.IH[OF ws(1), of False]
    by (cases "inspect_component owner rl leaf (lst (abs_path (ws @ [w])))")
      (auto simp del: validateRuntimePath.simps)
qed

subsection \<open>Properties\<close>

definition private_leaf :: "nat \<Rightarrow> lstat_answer \<Rightarrow> bool" where
  "private_leaf owner a \<longleftrightarrow>
     (\<exists>i. a = LstatOk i \<and> fst_dir i \<and> \<not> fst_symlink i \<and> fst_uid i = owner \<and> fst_perm i = 448)"

definition trusted_ancestor :: "nat \<Rightarrow> lstat_answer \<Rightarrow> bool" where
  "trusted_ancestor owner a \<longleftrightarrow> a = LstatNotExist \<or>
     (\<exists>i. a = LstatOk i \<and> fst_dir i \<and> \<not> fst_symlink i \<and> (fst_uid i = 0 \<or> fst_uid i = owner)
        \<and> (fst_perm i AND 18 = 0 \<or> fst_sticky i))"

lemma inspect_leaf: "inspect_component owner True True a = None \<Longrightarrow> private_leaf owner a"
  by (cases a) (auto simp: inspect_component_def private_leaf_def split: if_splits)

lemma inspect_ancestor: "inspect_component owner rl False a = None \<Longrightarrow> trusted_ancestor owner a"
  by (cases a) (auto simp: inspect_component_def trusted_ancestor_def split: if_splits)

lemma prepare_Inr:
  assumes "prepare dir owner lst mk lst' ev ab proj = Inr d"
  shows "is_abs dir" "d = abs_path (clean_components dir)" "\<not> pathInside proj d" "\<not> pathInside d proj"
    "validateRuntimePath (Suc (length (clean_components dir))) lst' owner True True d = Some None"
  using assms unfolding prepare_def
  by (auto simp: Let_def path_clean_abs simp del: validateRuntimePath.simps
      split: if_splits option.splits)

text \<open>The directory a preflight writes its override into is private: it is the configured
  path without symlinks, owned by the configured user with mode 0700, every ancestor that
  exists is a real directory of root or that user which others cannot write (or is sticky), and
  neither it contains the project nor the project contains it. The walk to the root always ends.\<close>
theorem prepare_private:
  assumes "prepare dir owner lst mk lst' ev ab proj = Inr d"
  shows "d = path_clean dir \<and> private_leaf owner (lst' d)
    \<and> (\<forall>zs. strict_prefix zs (clean_components dir) \<longrightarrow> trusted_ancestor owner (lst' (abs_path zs)))
    \<and> \<not> pathInside proj d \<and> \<not> pathInside d proj"
proof -
  note p = prepare_Inr[OF assms]
  have "inspect_component owner True True (lst' d) = None
    \<and> (\<forall>zs. strict_prefix zs (clean_components dir) \<longrightarrow>
         inspect_component owner True False (lst' (abs_path zs)) = None)"
    using validateRuntimePath_components[OF clean_components_normal[OF p(1)], of lst' owner True True]
      p(2,5) by simp
  with p show ?thesis by (auto simp: path_clean_abs dest: inspect_leaf inspect_ancestor)
qed

text \<open>Backup evidence that reaches the executor comes from a trusted command and names this
  job: the command is an absolute path to a regular executable of root that nobody else can
  write, its answer is at most 64 KiB, carries the release and the target of the request and
  well-formed identifiers, and the evidence repeats its claims.\<close>
theorem CreateAndVerify_evidence:
  assumes "CreateAndVerify p project rq = Inr ev"
  shows "is_abs (ph_command p)
    \<and> (\<exists>cmd info out r. ph_evalsymlinks p (ph_command p) = Some cmd \<and> ph_stat p cmd = Some info
         \<and> safe_command_stat info \<and> fst_uid info = 0
         \<and> length out \<le> maxBackupProviderOutput \<and> ph_decode_backup p out = Some r
         \<and> xb_ReleaseID r = rq_ReleaseID rq \<and> xb_TargetID r = tgt_ID (rq_Target rq)
         \<and> be_BackupID ev = xb_BackupID r \<and> be_Verified ev = xb_Verified r
         \<and> be_Encrypted ev = xb_Encrypted r \<and> be_OffsiteVerified ev = xb_OffsiteVerified r)
    \<and> identifierPattern (be_BackupID ev) \<and> digestPattern (be_ManifestSHA256 ev)"
proof -
  obtain cmd out r where call: "validateExternalBackupCommand p = Inr cmd"
      "runExternalBackupCommand p cmd (ph_encode p (provider_request ''create-and-verify'' project rq [] [])
         @ [newline]) = Some out"
      "decodeExternalBackupResult p out = Inr r"
    using assms unfolding CreateAndVerify_def call_provider_def
    by (auto split: sum.splits option.splits)
  then have "length out \<le> maxBackupProviderOutput"
    unfolding runExternalBackupCommand_def by (auto simp: Let_def split: if_splits)
  moreover have "ph_decode_backup p out = Some r"
    using call(3) unfolding decodeExternalBackupResult_def by (auto split: option.splits if_splits)
  moreover have "\<exists>info. is_abs (ph_command p) \<and> ph_evalsymlinks p (ph_command p) = Some cmd
      \<and> ph_stat p cmd = Some info \<and> safe_command_stat info \<and> fst_uid info = 0"
    using call(1) unfolding validateExternalBackupCommand_def by (auto split: option.splits if_splits)
  moreover have "xb_ReleaseID r = rq_ReleaseID rq \<and> xb_TargetID r = tgt_ID (rq_Target rq)
      \<and> identifierPattern (xb_BackupID r) \<and> digestPattern (xb_ManifestSHA256 r)
      \<and> ev = \<lparr>be_BackupID = xb_BackupID r, be_ManifestSHA256 = xb_ManifestSHA256 r,
          be_Verified = xb_Verified r, be_Encrypted = xb_Encrypted r,
          be_OffsiteVerified = xb_OffsiteVerified r\<rparr>"
    using assms call unfolding CreateAndVerify_def call_provider_def
    by (auto split: if_splits)
  ultimately show ?thesis by auto
qed

definition sample_provider :: provider_host where
  "sample_provider = \<lparr>ph_command = ''/usr/bin/backup'', ph_evalsymlinks = Some,
     ph_stat = (\<lambda>_. Some \<lparr>fst_regular = True, fst_dir = False, fst_symlink = False,
       fst_sticky = False, fst_perm = 493, fst_uid = 0\<rparr>),
     ph_encode = (\<lambda>_. []),
     ph_exec = (\<lambda>_ _. \<lparr>pa_started = True, pa_stdout = ''ok'', pa_read_ok = True, pa_exit_ok = True\<rparr>),
     ph_decode_backup = (\<lambda>_. Some \<lparr>xb_SchemaVersion = 1, xb_ReleaseID = ''v2'', xb_TargetID = ''shop'',
       xb_BackupID = ''b1'', xb_ManifestSHA256 = sample_digest, xb_Verified = True,
       xb_Encrypted = True, xb_OffsiteVerified = True\<rparr>),
     ph_decode_rollback = (\<lambda>_. None), ph_trailing = (\<lambda>_. False)\<rparr>"

lemma CreateAndVerify_evidence_witness:
  "CreateAndVerify sample_provider \<lparr>prj_Name = ''app'', prj_Path = ''/srv/app''\<rparr> sample_request
     = Inr sample_backup
   \<and> identifierPattern (be_BackupID sample_backup)"
proof -
  have run: "CreateAndVerify sample_provider \<lparr>prj_Name = ''app'', prj_Path = ''/srv/app''\<rparr> sample_request
      = Inr sample_backup"
  proof -
    have pats: "digestPattern sample_digest" "identifierPattern ''b1''" by code_simp+
    have out: "runExternalBackupCommand sample_provider cmd payload = Some ''ok''" for cmd payload
      by (simp add: runExternalBackupCommand_def sample_provider_def maxBackupProviderOutput_def)
    have cmd: "validateExternalBackupCommand sample_provider = Inr ''/usr/bin/backup''"
      by (simp add: validateExternalBackupCommand_def sample_provider_def safe_command_stat_def
          is_abs_def has_prefix_def)
    show ?thesis
      by (simp add: CreateAndVerify_def call_provider_def out cmd decodeExternalBackupResult_def)
        (simp add: sample_provider_def externalProviderSchemaVersion_def sample_request_def
          sample_backup_def pats del: releaseIdentifierPattern.simps)
  qed
  from CreateAndVerify_evidence[OF run] run show ?thesis by blast
qed

definition sample_lstat :: "string \<Rightarrow> lstat_answer" where
  "sample_lstat p = LstatOk \<lparr>fst_regular = False, fst_dir = True, fst_symlink = False,
     fst_sticky = False, fst_perm = (if p = ''/run/fleetdeck'' then 448 else 493), fst_uid = 0\<rparr>"

lemma prepare_private_witness:
  "prepare ''/run/fleetdeck'' 0 sample_lstat True sample_lstat Some Some ''/srv/app'' = Inr ''/run/fleetdeck''
   \<and> private_leaf 0 (sample_lstat ''/run/fleetdeck'')"
proof -
  have run: "prepare ''/run/fleetdeck'' 0 sample_lstat True sample_lstat Some Some ''/srv/app''
      = Inr ''/run/fleetdeck''"
    by code_simp
  from prepare_private[OF run] run show ?thesis by blast
qed

end
