(* ===== verification/Server_State.thy ===== *)
theory Server_State
  imports Fleet_Config
begin

text \<open>
  The in-memory tables of the dashboard server: \<open>internal/server/sessions.go\<close>,
  \<open>ratelimit.go\<close> and \<open>webhook_dedup.go\<close>. Each is a Go map whose entries expire, guarded by a
  mutex; an operation is one critical section and takes the time \<open>now\<close> it reads.

  The locale \<open>expiring_map\<close> is what they share: an operation touches at most one key, drops
  nothing that is still live and invents nothing. \<open>bounded_map\<close> adds a cap on the number of
  entries, which sessions and rate limiting promise. Expiry times are integers in nanoseconds.
\<close>

subsection \<open>The contract\<close>

locale expiring_map =
  fixes step :: "time \<Rightarrow> 'op \<Rightarrow> 's \<Rightarrow> 's"
    and entries :: "'s \<Rightarrow> ('k \<times> 'v) list"
    and touched :: "'op \<Rightarrow> 'k option"
    and live :: "time \<Rightarrow> 'v \<Rightarrow> bool"
  assumes step_wf: "al_wf (entries s) \<Longrightarrow> al_wf (entries (step now op s))"
    and step_frame: "al_wf (entries s) \<Longrightarrow> touched op \<noteq> Some k
      \<Longrightarrow> map_of (entries (step now op s)) k = None
        \<or> map_of (entries (step now op s)) k = map_of (entries s) k"
    and step_keeps: "al_wf (entries s) \<Longrightarrow> touched op \<noteq> Some k \<Longrightarrow> map_of (entries s) k = Some v
      \<Longrightarrow> live now v \<Longrightarrow> map_of (entries (step now op s)) k = Some v"
begin

fun run :: "(time \<times> 'op) list \<Rightarrow> 's \<Rightarrow> 's" where
  "run [] s = s"
| "run ((now, op) # ops) s = run ops (step now op s)"

lemma run_append: "run (xs @ ys) s = run ys (run xs s)"
  by (induction xs s rule: run.induct) auto

lemma run_wf: "al_wf (entries s) \<Longrightarrow> al_wf (entries (run ops s))"
  by (induction ops s rule: run.induct) (auto intro: step_wf)

text \<open>What nobody touched was there before.\<close>

lemma run_frame:
  "al_wf (entries s) \<Longrightarrow> \<forall>(now, op) \<in> set ops. touched op \<noteq> Some k
    \<Longrightarrow> map_of (entries (run ops s)) k = Some v \<Longrightarrow> map_of (entries s) k = Some v"
proof (induction ops s rule: run.induct)
  case (2 now op ops s)
  then have "map_of (entries (step now op s)) k = Some v" by (auto intro: step_wf)
  with 2 show ?case using step_frame[of s op k now] by auto
qed simp

lemma run_keeps:
  "al_wf (entries s) \<Longrightarrow> \<forall>(now, op) \<in> set ops. touched op \<noteq> Some k \<and> live now v
    \<Longrightarrow> map_of (entries s) k = Some v \<Longrightarrow> map_of (entries (run ops s)) k = Some v"
  by (induction ops s rule: run.induct) (auto intro: step_wf step_keeps)

text \<open>An entry was put there by the last operation that touched its key.\<close>

lemma run_origin:
  assumes "al_wf (entries s)" "map_of (entries s) k = None"
    and "map_of (entries (run ops s)) k = Some v"
  obtains pre now op post where "ops = pre @ (now, op) # post" "touched op = Some k"
    "\<forall>(now', op') \<in> set post. touched op' \<noteq> Some k"
    "map_of (entries (step now op (run pre s))) k = Some v"
proof -
  have "\<exists>(now, op) \<in> set ops. touched op = Some k"
    using run_frame[OF assms(1) _ assms(3)] assms(2) by (auto split: prod.splits)
  then have "\<exists>x \<in> set ops. touched (snd x) = Some k" by force
  then obtain pre x post where split: "ops = pre @ x # post" "touched (snd x) = Some k"
      "\<forall>y \<in> set post. touched (snd y) \<noteq> Some k"
    using split_list_last_prop[of ops "\<lambda>x. touched (snd x) = Some k"] by blast
  obtain now op where x: "x = (now, op)" by (cases x)
  have wf: "al_wf (entries (step now op (run pre s)))"
    using step_wf run_wf[OF assms(1)] by blast
  have rest: "\<forall>(now', op') \<in> set post. touched op' \<noteq> Some k" using split(3) by auto
  have "map_of (entries (run post (step now op (run pre s)))) k = Some v"
    using assms(3) split(1) x by (simp add: run_append)
  from run_frame[OF wf rest this] show thesis
    using that[of pre now op post] split x rest by simp
qed

end

locale bounded_map = expiring_map step entries touched live
  for step :: "time \<Rightarrow> 'op \<Rightarrow> 's \<Rightarrow> 's" and entries :: "'s \<Rightarrow> ('k \<times> 'v) list" and touched live +
  fixes cap :: nat
  assumes step_bound: "al_wf (entries s) \<Longrightarrow> length (entries s) \<le> cap
    \<Longrightarrow> length (entries (step now op s)) \<le> cap"
begin

lemma run_bound:
  "al_wf (entries s) \<Longrightarrow> length (entries s) \<le> cap \<Longrightarrow> length (entries (run ops s)) \<le> cap"
  by (induction ops s rule: run.induct) (auto intro: step_wf step_bound)

end

subsection \<open>The four shapes of a step\<close>

text \<open>
  A critical section keeps the table, sweeps it, and then puts or deletes at most one entry;
  a key it does not touch is deleted only when expired. \<open>room\<close> is the test before a put.
\<close>

inductive table_step ::
  "('v \<Rightarrow> bool) \<Rightarrow> 'k option \<Rightarrow> (('k \<times> 'v) list \<Rightarrow> 'k \<Rightarrow> bool)
    \<Rightarrow> ('k \<times> 'v) list \<Rightarrow> ('k \<times> 'v) list \<Rightarrow> bool"
  for live tk room s where
  Same: "table_step live tk room s s"
| Sweep: "table_step live tk room s (al_sweep live s)"
| Put: "tk = Some k \<Longrightarrow> room s k \<Longrightarrow> table_step live tk room s (al_put k v s)"
| SweepPut: "tk = Some k \<Longrightarrow> room (al_sweep live s) k
    \<Longrightarrow> table_step live tk room s (al_put k v (al_sweep live s))"
| Del: "tk = Some k \<Longrightarrow> table_step live tk room s (al_del k s)"
| Expire: "map_of s k = Some v \<Longrightarrow> \<not> live v \<Longrightarrow> table_step live tk room s (al_del k s)"

lemma table_step_wf: "table_step live tk room s s' \<Longrightarrow> al_wf s \<Longrightarrow> al_wf s'"
  by (induction rule: table_step.induct) auto

lemma table_step_frame:
  "table_step live tk room s s' \<Longrightarrow> al_wf s \<Longrightarrow> tk \<noteq> Some j \<Longrightarrow> map_of s' j = None \<or> map_of s' j = map_of s j"
  by (induction rule: table_step.induct) (auto simp: store_simps map_of_sweep split: option.splits)

lemma table_step_keeps:
  "table_step live tk room s s' \<Longrightarrow> al_wf s \<Longrightarrow> tk \<noteq> Some j \<Longrightarrow> map_of s j = Some v \<Longrightarrow> live v
    \<Longrightarrow> map_of s' j = Some v"
  by (induction rule: table_step.induct) (auto simp: store_simps map_of_sweep split: option.splits)

definition table_room :: "nat \<Rightarrow> ('k \<times> 'v) list \<Rightarrow> 'k \<Rightarrow> bool" where
  "table_room cap s k \<longleftrightarrow> length s < cap \<or> map_of s k \<noteq> None"

lemma table_put_bound:
  "table_room cap s k \<Longrightarrow> length s \<le> cap \<Longrightarrow> length (al_put k v s) \<le> cap"
  using length_al_put_le[of k v s] al_put_length_old[of s k v] by (auto simp: table_room_def)

lemma table_step_bound:
  "table_step live tk (table_room cap) s s' \<Longrightarrow> length s \<le> cap \<Longrightarrow> length s' \<le> cap"
  by (induction rule: table_step.induct)
    (auto intro: table_put_bound order_trans[OF length_al_del] order_trans[OF length_al_sweep])

subsection \<open>Sessions\<close>

definition sessionLifetime :: duration where "sessionLifetime = 8 * hour"
definition maxSessions :: nat where "maxSessions = 1024"

record sessionEntry =
  se_expires :: time
  se_device :: string
  se_subject :: string
  se_groups :: "string list"

text \<open>The entries by the hash of the token; \<open>h\<close> is SHA-256.\<close>

type_synonym 'h sessions = "('h \<times> sessionEntry) list"

datatype session_error = TokenGeneration | SessionLimit | SessionExpired

definition createIdentityGroups ::
  "(string \<Rightarrow> 'h) \<Rightarrow> string option \<Rightarrow> time \<Rightarrow> string \<Rightarrow> string \<Rightarrow> string list \<Rightarrow> time \<Rightarrow> 'h sessions
    \<Rightarrow> (session_error + string) \<times> 'h sessions" where
  "createIdentityGroups h generated now device subject groups expires s =
     (case generated of
        None \<Rightarrow> (Inl TokenGeneration, s)
      | Some token \<Rightarrow>
          (let s' = al_sweep (\<lambda>e. now < se_expires e) s
           in if length s' \<ge> maxSessions then (Inl SessionLimit, s')
              else if \<not> expires > now then (Inl SessionExpired, s')
              else (Inr token, al_put (h token)
                \<lparr>se_expires = expires, se_device = device, se_subject = subject, se_groups = groups\<rparr> s')))"

definition createForDevice ::
  "(string \<Rightarrow> 'h) \<Rightarrow> string option \<Rightarrow> time \<Rightarrow> string \<Rightarrow> 'h sessions
    \<Rightarrow> (session_error + string) \<times> 'h sessions" where
  "createForDevice h generated now device s =
     createIdentityGroups h generated now device [] [] (now + sessionLifetime) s"

definition session_identity ::
  "(string \<Rightarrow> 'h) \<Rightarrow> time \<Rightarrow> string \<Rightarrow> string \<Rightarrow> 'h sessions \<Rightarrow> sessionEntry option" where
  "session_identity h now token device s =
     (case map_of s (h token) of
        None \<Rightarrow> None
      | Some e \<Rightarrow>
          if length token \<noteq> 64 \<or> se_subject e = [] \<or> se_device e \<noteq> device \<or> \<not> now < se_expires e
          then None else Some e)"

definition validSession ::
  "(string \<Rightarrow> 'h) \<Rightarrow> time \<Rightarrow> string \<Rightarrow> string \<Rightarrow> bool \<Rightarrow> 'h sessions \<Rightarrow> bool \<times> 'h sessions" where
  "validSession h now token device requireIdentity s =
     (if length token \<noteq> 64 then (False, s)
      else case map_of s (h token) of
        None \<Rightarrow> (False, al_del (h token) s)
      | Some entry \<Rightarrow>
          if \<not> now < se_expires entry then (False, al_del (h token) s)
          else (se_device entry = device \<and> (requireIdentity \<longrightarrow> se_subject entry \<noteq> []), s))"

definition revoke :: "(string \<Rightarrow> 'h) \<Rightarrow> string \<Rightarrow> 'h sessions \<Rightarrow> 'h sessions" where
  "revoke h token s = al_del (h token) s"

datatype session_op =
    OpCreate "string option" string string "string list" time
  | OpValidate string string bool
  | OpRevoke string

fun session_step :: "(string \<Rightarrow> 'h) \<Rightarrow> time \<Rightarrow> session_op \<Rightarrow> 'h sessions \<Rightarrow> 'h sessions" where
  "session_step h now (OpCreate tok device subject groups expires) s =
     snd (createIdentityGroups h tok now device subject groups expires s)"
| "session_step h now (OpValidate token device req) s = snd (validSession h now token device req s)"
| "session_step h now (OpRevoke token) s = revoke h token s"

fun session_touched :: "(string \<Rightarrow> 'h) \<Rightarrow> session_op \<Rightarrow> 'h option" where
  "session_touched h (OpCreate tok _ _ _ _) = map_option h tok"
| "session_touched h (OpValidate token _ _) = None"
| "session_touched h (OpRevoke token) = Some (h token)"

lemma al_del_absent: "map_of s k = None \<Longrightarrow> al_del k s = s"
  by (auto simp: al_del_def filter_id_conv map_of_eq_None_iff)

lemma session_table_step:
  "table_step (\<lambda>e. now < se_expires e) (session_touched h op) (table_room maxSessions) s
     (session_step h now op s)"
proof (cases op)
  case (OpCreate tok device subject groups expires)
  then show ?thesis
    by (auto simp: createIdentityGroups_def Let_def table_room_def split: option.splits
        intro: table_step.intros)
next
  case (OpValidate token device req)
  then show ?thesis
    by (auto simp: validSession_def al_del_absent split: option.splits intro: table_step.intros)
next
  case (OpRevoke token)
  then show ?thesis by (auto simp: revoke_def intro: table_step.intros)
qed

interpretation sessions: bounded_map "session_step h" "\<lambda>s. s" "session_touched h"
  "\<lambda>now e. now < se_expires e" maxSessions for h
  by unfold_locales
    (auto dest: table_step_wf[OF session_table_step] table_step_frame[OF session_table_step]
      table_step_keeps[OF session_table_step] table_step_bound[OF session_table_step])

subsection \<open>Rate limiting\<close>

text \<open>
  The token bucket is \<open>golang.org/x/time/rate\<close>: a state with \<open>fresh\<close> (\<open>NewLimiter\<close>) and
  \<open>allow now\<close> (\<open>Allow\<close>). The overflow bucket is shared by the clients that find the table full.
  \<open>lastCleanup\<close> is \<open>None\<close> for the zero time.
\<close>

definition maxRateLimitVisitors :: nat where "maxRateLimitVisitors = 4096"

record 'l ipLimiter =
  il_lastCleanup :: "time option"
  il_overflow :: "'l option"
  il_limiters :: "(string \<times> 'l \<times> time) list"

definition newIPLimiter :: "'l ipLimiter" where
  "newIPLimiter = \<lparr>il_lastCleanup = None, il_overflow = None, il_limiters = []\<rparr>"

definition visitor_live :: "time \<Rightarrow> 'l \<times> time \<Rightarrow> bool" where
  "visitor_live now v \<longleftrightarrow> \<not> now - snd v > 3 * minute"

datatype bucket = Visitor string | Overflow

definition cleanup_visitors :: "time \<Rightarrow> 'l ipLimiter \<Rightarrow> 'l ipLimiter" where
  "cleanup_visitors now il =
     (if (case il_lastCleanup il of None \<Rightarrow> True | Some t \<Rightarrow> now - t \<ge> minute)
      then il\<lparr>il_limiters := al_sweep (visitor_live now) (il_limiters il), il_lastCleanup := Some now\<rparr>
      else il)"

definition getLimiter :: "'l \<Rightarrow> time \<Rightarrow> string \<Rightarrow> 'l ipLimiter \<Rightarrow> bucket \<times> 'l ipLimiter" where
  "getLimiter fresh now ip il0 =
     (let il = cleanup_visitors now il0
      in case map_of (il_limiters il) ip of
        None \<Rightarrow>
          if length (il_limiters il) \<ge> maxRateLimitVisitors
          then (Overflow, il\<lparr>il_overflow := (case il_overflow il of None \<Rightarrow> Some fresh | Some l \<Rightarrow> Some l)\<rparr>)
          else (Visitor ip, il\<lparr>il_limiters := al_put ip (fresh, now) (il_limiters il)\<rparr>)
      | Some (l, _) \<Rightarrow> (Visitor ip, il\<lparr>il_limiters := al_put ip (l, now) (il_limiters il)\<rparr>))"

text \<open>\<open>limiter.getLimiter(ip).Allow()\<close>\<close>

definition allow_ip ::
  "'l \<Rightarrow> (time \<Rightarrow> 'l \<Rightarrow> bool \<times> 'l) \<Rightarrow> time \<Rightarrow> string \<Rightarrow> 'l ipLimiter \<Rightarrow> bool \<times> 'l ipLimiter" where
  "allow_ip fresh allow now ip il0 =
     (case getLimiter fresh now ip il0 of
        (Overflow, il) \<Rightarrow>
          (case allow now (case il_overflow il of None \<Rightarrow> fresh | Some l \<Rightarrow> l) of
             (r, l') \<Rightarrow> (r, il\<lparr>il_overflow := Some l'\<rparr>))
      | (Visitor i, il) \<Rightarrow>
          (case map_of (il_limiters il) i of
             None \<Rightarrow> (False, il)
           | Some (l, seen) \<Rightarrow>
               (case allow now l of
                  (r, l') \<Rightarrow> (r, il\<lparr>il_limiters := al_put i (l', seen) (il_limiters il)\<rparr>))))"

lemma al_put_put [simp]: "al_put k v (al_put k u s) = al_put k v s"
  by (auto simp: al_put_def)

lemma getLimiter_Visitor:
  "getLimiter fresh now ip il = (Visitor i, il') \<Longrightarrow> i = ip \<and> map_of (il_limiters il') ip \<noteq> None"
  by (auto simp: getLimiter_def Let_def store_simps split: option.splits if_splits)

lemma allow_ip_table_step:
  "table_step (visitor_live now) (Some ip) (table_room maxRateLimitVisitors) (il_limiters il)
     (il_limiters (snd (allow_ip fresh allow now ip il)))"
proof -
  let ?s = "il_limiters (cleanup_visitors now il)"
  have s: "?s = il_limiters il \<or> ?s = al_sweep (visitor_live now) (il_limiters il)"
    by (simp add: cleanup_visitors_def)
  have put: "il_limiters (snd (allow_ip fresh allow now ip il)) = ?s
     \<or> (\<exists>v. il_limiters (snd (allow_ip fresh allow now ip il)) = al_put ip v ?s
          \<and> table_room maxRateLimitVisitors ?s ip)"
    by (auto simp: allow_ip_def getLimiter_def Let_def store_simps table_room_def
        split: option.splits prod.splits)
  from put show ?thesis
  proof
    assume "il_limiters (snd (allow_ip fresh allow now ip il)) = ?s"
    with s show ?thesis by (auto intro: table_step.intros)
  next
    assume "\<exists>v. il_limiters (snd (allow_ip fresh allow now ip il)) = al_put ip v ?s
        \<and> table_room maxRateLimitVisitors ?s ip"
    with s show ?thesis by (auto intro: Put[OF refl] SweepPut[OF refl])
  qed
qed

interpretation visitors: bounded_map "\<lambda>now ip il. snd (allow_ip fresh allow now ip il)" il_limiters
  Some visitor_live maxRateLimitVisitors for fresh allow
  by unfold_locales
    (auto dest: table_step_wf[OF allow_ip_table_step] table_step_frame[OF allow_ip_table_step]
      table_step_keeps[OF allow_ip_table_step] table_step_bound[OF allow_ip_table_step])

text \<open>The address a limit applies to; \<open>parse\<close> is \<open>net.ParseIP\<close> followed by \<open>String\<close>.\<close>

definition isTrustedProxy :: "string \<Rightarrow> string \<Rightarrow> bool" where
  "isTrustedProxy raw peer =
     (if raw = [] then False
      else list_ex (\<lambda>entry. trim_space entry = peer) (split_on CHR '','' raw))"

text \<open>The chain is walked from its last element; \<open>rest\<close> holds the elements before it.\<close>

fun walk_chain :: "(string \<Rightarrow> string option) \<Rightarrow> string \<Rightarrow> string \<Rightarrow> string list \<Rightarrow> string" where
  "walk_chain parse raw remote [] = remote"
| "walk_chain parse raw remote (x # rest) =
     (case parse (trim_space x) of
        None \<Rightarrow> remote
      | Some ip \<Rightarrow> if \<not> isTrustedProxy raw ip \<or> rest = [] then ip
                  else walk_chain parse raw remote rest)"

definition clientIP :: "(string \<Rightarrow> string option) \<Rightarrow> string \<Rightarrow> string \<Rightarrow> string \<Rightarrow> string" where
  "clientIP parse raw remote xff =
     (if \<not> isTrustedProxy raw remote then remote
      else walk_chain parse raw remote (rev (split_on CHR '','' xff)))"

subsection \<open>Deliveries of webhooks\<close>

record webhookDedup =
  wd_seen :: "(string \<times> time) list"
  wd_ttl :: duration

definition newWebhookDedup :: "duration \<Rightarrow> webhookDedup" where
  "newWebhookDedup ttl = \<lparr>wd_seen = [], wd_ttl = (if ttl \<le> 0 then 30 * minute else ttl)\<rparr>"

definition seenRecently :: "time \<Rightarrow> string \<Rightarrow> webhookDedup \<Rightarrow> bool \<times> webhookDedup" where
  "seenRecently now wid d =
     (if wid = [] then (False, d)
      else let swept = al_sweep (\<lambda>t. \<not> now - t > wd_ttl d) (wd_seen d);
               again = (case map_of swept wid of None \<Rightarrow> False | Some ts \<Rightarrow> now - ts \<le> wd_ttl d)
           in (again, d\<lparr>wd_seen := al_put wid now swept\<rparr>))"

definition dedup_step :: "duration \<Rightarrow> time \<Rightarrow> string \<Rightarrow> (string \<times> time) list \<Rightarrow> (string \<times> time) list" where
  "dedup_step ttl now wid s = wd_seen (snd (seenRecently now wid \<lparr>wd_seen = s, wd_ttl = ttl\<rparr>))"

lemma dedup_table_step:
  "table_step (\<lambda>t. \<not> now - t > ttl) (if wid = [] then None else Some wid) (\<lambda>_ _. True) s
     (dedup_step ttl now wid s)"
  by (auto simp: dedup_step_def seenRecently_def Let_def intro: table_step.intros)

interpretation deliveries: expiring_map "dedup_step ttl" "\<lambda>s. s"
  "\<lambda>wid. if wid = [] then None else Some wid" "\<lambda>now t. \<not> now - t > ttl" for ttl
  by unfold_locales
    (use table_step_wf[OF dedup_table_step] table_step_frame[OF dedup_table_step]
      table_step_keeps[OF dedup_table_step] in blast)+

lemma seenRecently_dedup_step:
  "wd_seen (snd (seenRecently now wid d)) = dedup_step (wd_ttl d) now wid (wd_seen d)"
  "wd_ttl (snd (seenRecently now wid d)) = wd_ttl d"
  by (cases d; simp add: dedup_step_def seenRecently_def Let_def)+

subsection \<open>Properties\<close>

lemma session_put_origin:
  assumes wf: "al_wf s" and tch: "session_touched h op = Some k"
    and res: "map_of (session_step h t op s) k = Some e"
  shows "(\<exists>tok. op = OpCreate (Some tok) (se_device e) (se_subject e) (se_groups e) (se_expires e)
      \<and> h tok = k \<and> t < se_expires e) \<or> (map_of s k = Some e \<and> (\<exists>tok d u g x. op = OpCreate tok d u g x))"
proof (cases op)
  case (OpCreate tok d u g x)
  with assms show ?thesis
    by (auto simp: createIdentityGroups_def Let_def store_simps map_of_sweep
        split: option.splits if_splits)
next
  case (OpRevoke token)
  with tch res show ?thesis by (auto simp: revoke_def store_simps)
qed (use tch in simp)

lemma session_entry_origin:
  assumes "map_of (sessions.run h ops []) k = Some e"
  shows "\<exists>pre t tok post. ops = pre @ (t, OpCreate (Some tok) (se_device e) (se_subject e)
      (se_groups e) (se_expires e)) # post \<and> h tok = k \<and> t < se_expires e
    \<and> (\<forall>(u, op) \<in> set post. \<forall>x. op = OpRevoke x \<longrightarrow> h x \<noteq> k)"
  using assms
proof (induction ops arbitrary: e rule: rev_induct)
  case Nil
  then show ?case by simp
next
  case (snoc x ops)
  obtain t op where x: "x = (t, op)" by (cases x)
  let ?s = "sessions.run h ops []"
  have wf: "al_wf ?s" by (rule sessions.run_wf) simp
  have now: "map_of (session_step h t op ?s) k = Some e"
    using snoc.prems by (simp add: x sessions.run_append)
  consider (kept) "map_of ?s k = Some e" "\<forall>y. op = OpRevoke y \<longrightarrow> h y \<noteq> k"
    | (made) tok where "op = OpCreate (Some tok) (se_device e) (se_subject e) (se_groups e) (se_expires e)"
        "h tok = k" "t < se_expires e"
    using session_put_origin[OF wf _ now] sessions.step_frame[OF wf, of h op k t] now by force
  then show ?case
  proof cases
    case kept
    from snoc.IH[OF kept(1)] obtain pre u tok post where
      "ops = pre @ (u, OpCreate (Some tok) (se_device e) (se_subject e) (se_groups e) (se_expires e)) # post"
      "h tok = k" "u < se_expires e" "\<forall>(u, op) \<in> set post. \<forall>x. op = OpRevoke x \<longrightarrow> h x \<noteq> k"
      by blast
    with kept(2) show ?thesis
      by (intro exI[of _ pre] exI[of _ u] exI[of _ tok] exI[of _ "post @ [(t, op)]"]) (auto simp: x)
  next
    case made
    then show ?thesis
      by (intro exI[of _ ops] exI[of _ t] exI[of _ tok] exI[of _ "[]"]) (simp add: x)
  qed
qed

text \<open>A session the server accepts is genuine: whatever happened before, it was created for
  this device with the same token hash, by an operation that ran before its expiry, it has not
  expired and no later operation revoked it; an identity check also found a subject. And the
  table never holds more than 1024 sessions.\<close>
theorem session_genuine:
  assumes "fst (validSession h now token device req (sessions.run h ops []))"
  shows "length (sessions.run h ops []) \<le> maxSessions \<and> length token = 64
    \<and> (\<exists>pre t tok subject groups expires post.
        ops = pre @ (t, OpCreate (Some tok) device subject groups expires) # post
        \<and> h tok = h token \<and> t < expires \<and> now < expires \<and> (req \<longrightarrow> subject \<noteq> [])
        \<and> (\<forall>(u, op) \<in> set post. \<forall>x. op = OpRevoke x \<longrightarrow> h x \<noteq> h token))"
proof -
  have bound: "length (sessions.run h ops []) \<le> maxSessions"
    by (rule sessions.run_bound) simp_all
  obtain e where e: "map_of (sessions.run h ops []) (h token) = Some e" "now < se_expires e"
      "se_device e = device" "req \<longrightarrow> se_subject e \<noteq> []" "length token = 64"
    using assms by (auto simp: validSession_def split: option.splits if_splits)
  from session_entry_origin[OF e(1)] e bound show ?thesis by blast
qed

text \<open>Rate limiting cannot be exhausted or bypassed through other clients: the table of visitors
  stays within 4096 entries, and the bucket of an address seen in the last three minutes is
  untouched by any number of requests from other addresses.\<close>
theorem rate_limit_isolated:
  assumes "al_wf (il_limiters il)" "length (il_limiters il) \<le> maxRateLimitVisitors"
    and "map_of (il_limiters il) ip = Some (l, seen)"
    and "\<forall>(now, other) \<in> set reqs. other \<noteq> ip \<and> now - seen \<le> 3 * minute"
  shows "map_of (il_limiters (visitors.run fresh allow reqs il)) ip = Some (l, seen)
    \<and> length (il_limiters (visitors.run fresh allow reqs il)) \<le> maxRateLimitVisitors"
  using visitors.run_keeps[OF assms(1) _ assms(3)] visitors.run_bound[OF assms(1,2)] assms(4)
  by (fastforce simp: visitor_live_def)

lemma rev_split_on_snoc:
  "d \<notin> set b \<Longrightarrow> rev (split_on d (a @ d # b)) = b # rev (split_on d a)"
proof (induction a)
  case Nil
  then have "split_on d b = [b]" by (induction b) auto
  then show ?case by simp
next
  case (Cons c a)
  obtain w ws where w: "split_on d (a @ d # b) = w # ws"
    by (cases "split_on d (a @ d # b)") auto
  obtain v vs where v: "split_on d a = v # vs" by (cases "split_on d a") auto
  have "rev ws @ [w] = b # rev vs @ [v]" using Cons w v by simp
  then have "ws \<noteq> []" "w = v" "rev ws = b # rev vs" by (auto simp: Cons_eq_append_conv)
  then show ?case by (simp add: w v)
qed

text \<open>The address a limit applies to cannot be forged: a peer that is not a configured proxy is
  taken at its own address whatever it sends, and behind a configured proxy the closest
  untrusted address of \<open>X-Forwarded-For\<close> counts, whatever the client put in front of it.\<close>
theorem clientIP_spoof:
  assumes "CHR '','' \<notin> set real" "parse (trim_space real) = Some ip" "\<not> isTrustedProxy raw ip"
  shows "clientIP parse raw remote (spoof @ '','' @ real) = (if isTrustedProxy raw remote then ip else remote)"
  using assms rev_split_on_snoc[OF assms(1), of spoof] by (simp add: clientIP_def)

lemma seenRecently_again:
  assumes "al_wf (wd_seen d)" "wid \<noteq> []" "\<forall>(t, other) \<in> set ops. other \<noteq> wid \<and> t - t0 \<le> wd_ttl d"
    and "t1 - t0 \<le> wd_ttl d"
  shows "fst (seenRecently t1 wid (d\<lparr>wd_seen :=
     deliveries.run (wd_ttl d) ops (wd_seen (snd (seenRecently t0 wid d)))\<rparr>))"
proof -
  let ?s = "wd_seen (snd (seenRecently t0 wid d))"
  have wf: "al_wf ?s"
    using deliveries.step_wf[OF assms(1)] by (simp add: seenRecently_dedup_step)
  have here: "map_of ?s wid = Some t0"
    using assms(2) by (simp add: seenRecently_def Let_def store_simps)
  have "map_of (deliveries.run (wd_ttl d) ops ?s) wid = Some t0"
    by (rule deliveries.run_keeps[OF wf _ here]) (use assms(3) in auto)
  moreover have "al_wf (deliveries.run (wd_ttl d) ops ?s)" by (rule deliveries.run_wf[OF wf])
  ultimately show ?thesis
    using assms(2,4) by (simp add: seenRecently_def Let_def map_of_sweep)
qed

definition sample_token :: string where "sample_token = replicate 64 (CHR ''a'')"

lemma session_genuine_witness:
  "length (sessions.run (\<lambda>t. t) [(0, OpCreate (Some sample_token) ''d'' ''admin'' [] 100)] []) \<le> 1024"
proof -
  have "fst (validSession (\<lambda>t. t) 50 sample_token ''d'' True
      (sessions.run (\<lambda>t. t) [(0, OpCreate (Some sample_token) ''d'' ''admin'' [] 100)] []))"
    by (simp add: createIdentityGroups_def validSession_def Let_def store_simps al_sweep_def
        maxSessions_def sample_token_def)
  from session_genuine[OF this] show ?thesis by (simp add: maxSessions_def)
qed

lemma rate_limit_isolated_witness:
  "map_of (il_limiters (visitors.run 5 (\<lambda>_ n. (0 < n, n - 1)) [(10, ''b''), (20, ''c'')]
     \<lparr>il_lastCleanup = None, il_overflow = None, il_limiters = [(''a'', (3::nat, 0))]\<rparr>)) ''a'' = Some (3, 0)"
  using rate_limit_isolated[of "\<lparr>il_lastCleanup = None, il_overflow = None,
      il_limiters = [(''a'', (3::nat, 0))]\<rparr>" "''a''" 3 0 "[(10, ''b''), (20, ''c'')]"
      5 "\<lambda>_ n. (0 < n, n - 1)"]
  by (simp add: al_wf_def maxRateLimitVisitors_def)

lemma clientIP_spoof_witness:
  "clientIP (\<lambda>s. Some s) ''10.0.0.1'' ''10.0.0.1'' (''6.6.6.6'' @ '','' @ '' 1.2.3.4'') = ''1.2.3.4''"
proof -
  have "Some (trim_space '' 1.2.3.4'') = Some ''1.2.3.4''" by code_simp
  moreover have "\<not> isTrustedProxy ''10.0.0.1'' ''1.2.3.4''" "isTrustedProxy ''10.0.0.1'' ''10.0.0.1''"
    by code_simp+
  ultimately show ?thesis
    using clientIP_spoof[of "'' 1.2.3.4''" Some "''1.2.3.4''" "''10.0.0.1''" "''10.0.0.1''" "''6.6.6.6''"]
    by simp
qed

end
