(* ===== verification/Fleet_Db.thy ===== *)
theory Fleet_Db
  imports Fleet_Config
begin

text \<open>
  The registry database: \<open>internal/db/projects.go\<close>, \<open>deployments.go\<close>, \<open>backups.go\<close>,
  \<open>servers.go\<close>, \<open>migrations.go\<close> and \<open>secrets.go\<close> over the schema of \<open>db.go\<close>, with the value
  encryption of \<open>internal/crypto\<close>.

  A table is a list of rows in insertion order; \<open>ORDER BY\<close> is a stable sort, so equal times
  keep insertion order (SQLite leaves it open). A statement that reaches the database succeeds
  when \<open>up\<close> holds (\<open>up k\<close> for the \<open>k\<close>-th of several); the schema's primary keys, \<open>UNIQUE\<close>
  columns and foreign keys (enforced by the connection) reject a statement otherwise.
  \<open>now\<close> is the time an operation reads, \<open>fresh\<close> the UUID it generates when no id is given.
\<close>

datatype db_error =
    DbFailed | NotFound | Constraint | BadStatus | HasProjects nat | KeyLength | NoKey
  | Base64Invalid | TooShort | DecryptionFailed

subsection \<open>Rows\<close>

record project_row =
  pj_ID :: string
  pj_Name :: string
  pj_Domain :: string
  pj_GitHubRepo :: string
  pj_LinuxUser :: string
  pj_ProjectPath :: string
  pj_Template :: string
  pj_Status :: string
  pj_Source :: string
  pj_ServerID :: string
  pj_BranchMappings :: string
  pj_CreatedAt :: time
  pj_UpdatedAt :: time

record deployment_row =
  dp_ID :: string
  dp_ProjectID :: string
  dp_CommitSHA :: string
  dp_Status :: string
  dp_StartedAt :: time
  dp_FinishedAt :: "time option"
  dp_Log :: string

record backup_row =
  bk_ID :: string
  bk_ProjectID :: string
  bk_Type :: string
  bk_Trigger :: string
  bk_Path :: string
  bk_SizeBytes :: int
  bk_CreatedAt :: time

record secret_row =
  sx_ID :: string
  sx_ProjectID :: string
  sx_Key :: string
  sx_Value :: string

record server_row =
  sv_ID :: string
  sv_Name :: string
  sv_Host :: string
  sv_Port :: string
  sv_User :: string
  sv_KeyPath :: string
  sv_Status :: string
  sv_Version :: string
  sv_Commit :: string
  sv_CheckedAt :: "time option"
  sv_CreatedAt :: time
  sv_UpdatedAt :: time

record migration_row =
  mg_ID :: string
  mg_ProjectID :: string
  mg_Command :: string
  mg_SnapshotID :: string
  mg_Status :: string
  mg_Output :: string
  mg_StartedAt :: "time option"
  mg_FinishedAt :: "time option"

record fleet_db =
  db_projects :: "project_row list"
  db_deployments :: "deployment_row list"
  db_backups :: "backup_row list"
  db_secrets :: "secret_row list"
  db_servers :: "server_row list"
  db_migrations :: "migration_row list"

definition empty_fleet_db :: fleet_db where
  "empty_fleet_db = \<lparr>db_projects = [], db_deployments = [], db_backups = [], db_secrets = [],
     db_servers = [], db_migrations = []\<rparr>"

definition or_default :: "string \<Rightarrow> string \<Rightarrow> string" where
  "or_default d s = (if s = [] then d else s)"

definition project_exists :: "fleet_db \<Rightarrow> string \<Rightarrow> bool" where
  "project_exists db pid = list_ex (\<lambda>p. pj_ID p = pid) (db_projects db)"

subsection \<open>Projects\<close>

definition CreateProject :: "bool \<Rightarrow> time \<Rightarrow> string \<Rightarrow> project_row \<Rightarrow> fleet_db \<Rightarrow> db_error option \<times> fleet_db" where
  "CreateProject up now fresh p db =
     (let row = p\<lparr>pj_ID := or_default fresh (pj_ID p), pj_CreatedAt := now, pj_UpdatedAt := now,
                  pj_Status := or_default ''created'' (pj_Status p),
                  pj_Source := or_default ''created'' (pj_Source p)\<rparr>
      in if \<not> up then (Some DbFailed, db)
         else if list_ex (\<lambda>q. pj_ID q = pj_ID row \<or> pj_Name q = pj_Name row) (db_projects db)
         then (Some Constraint, db)
         else (None, db\<lparr>db_projects := db_projects db @ [row]\<rparr>))"

definition GetProject :: "bool \<Rightarrow> string \<Rightarrow> fleet_db \<Rightarrow> db_error + project_row" where
  "GetProject up name db =
     (if \<not> up then Inl DbFailed
      else case List.find (\<lambda>p. pj_Name p = name) (db_projects db) of
        None \<Rightarrow> Inl NotFound | Some p \<Rightarrow> Inr p)"

definition GetProjectByID :: "bool \<Rightarrow> string \<Rightarrow> fleet_db \<Rightarrow> db_error + project_row" where
  "GetProjectByID up pid db =
     (if \<not> up then Inl DbFailed
      else case List.find (\<lambda>p. pj_ID p = pid) (db_projects db) of
        None \<Rightarrow> Inl NotFound | Some p \<Rightarrow> Inr p)"

definition ListProjects :: "bool \<Rightarrow> fleet_db \<Rightarrow> db_error + project_row list" where
  "ListProjects up db =
     (if \<not> up then Inl DbFailed
      else Inr (sort_key (\<lambda>p. - pj_CreatedAt p) (db_projects db)))"

definition UpdateProjectStatus :: "bool \<Rightarrow> time \<Rightarrow> string \<Rightarrow> string \<Rightarrow> fleet_db \<Rightarrow> db_error option \<times> fleet_db" where
  "UpdateProjectStatus up now name status db =
     (if \<not> up then (Some DbFailed, db)
      else let named = (\<lambda>p. pj_Name p = name)
           in (if count_where named (db_projects db) = 0 then Some NotFound else None,
               db\<lparr>db_projects := update_where named
                 (\<lambda>p. p\<lparr>pj_Status := status, pj_UpdatedAt := now\<rparr>) (db_projects db)\<rparr>))"

definition UpdateProject :: "bool \<Rightarrow> time \<Rightarrow> project_row \<Rightarrow> fleet_db \<Rightarrow> db_error option \<times> fleet_db" where
  "UpdateProject up now p db =
     (if \<not> up then (Some DbFailed, db)
      else let named = (\<lambda>q. pj_Name q = pj_Name p)
           in (if count_where named (db_projects db) = 0 then Some NotFound else None,
               db\<lparr>db_projects := update_where named
                 (\<lambda>q. p\<lparr>pj_ID := pj_ID q, pj_CreatedAt := pj_CreatedAt q, pj_UpdatedAt := now\<rparr>)
                 (db_projects db)\<rparr>))"

text \<open>
  One transaction: begin (0), the lookup (1), a delete per dependent table (2 to 5), the delete
  of the project (6), which the foreign keys allow only when nothing refers to it, commit (7).
\<close>

definition delete_dependents :: "string \<Rightarrow> fleet_db \<Rightarrow> fleet_db" where
  "delete_dependents pid db =
     db\<lparr>db_secrets := filter (\<lambda>x. sx_ProjectID x \<noteq> pid) (db_secrets db),
        db_deployments := filter (\<lambda>x. dp_ProjectID x \<noteq> pid) (db_deployments db),
        db_backups := filter (\<lambda>x. bk_ProjectID x \<noteq> pid) (db_backups db),
        db_migrations := filter (\<lambda>x. mg_ProjectID x \<noteq> pid) (db_migrations db)\<rparr>"

definition project_referenced :: "string \<Rightarrow> fleet_db \<Rightarrow> bool" where
  "project_referenced pid db \<longleftrightarrow>
     list_ex (\<lambda>x. sx_ProjectID x = pid) (db_secrets db)
     \<or> list_ex (\<lambda>x. dp_ProjectID x = pid) (db_deployments db)
     \<or> list_ex (\<lambda>x. bk_ProjectID x = pid) (db_backups db)
     \<or> list_ex (\<lambda>x. mg_ProjectID x = pid) (db_migrations db)"

definition DeleteProject :: "(nat \<Rightarrow> bool) \<Rightarrow> string \<Rightarrow> fleet_db \<Rightarrow> db_error option \<times> fleet_db" where
  "DeleteProject up name db =
     (if \<not> up 0 \<or> \<not> up 1 then (Some DbFailed, db)
      else case List.find (\<lambda>p. pj_Name p = name) (db_projects db) of
        None \<Rightarrow> (Some NotFound, db)
      | Some p \<Rightarrow>
          if \<not> (up 2 \<and> up 3 \<and> up 4 \<and> up 5 \<and> up 6) then (Some DbFailed, db)
          else let db' = delete_dependents (pj_ID p) db
          in if project_referenced (pj_ID p) db' then (Some Constraint, db)
             else if \<not> up 7 then (Some DbFailed, db)
             else (None, db'\<lparr>db_projects := filter (\<lambda>q. pj_ID q \<noteq> pj_ID p) (db_projects db')\<rparr>))"

definition ProjectExistsByPath :: "bool \<Rightarrow> string \<Rightarrow> fleet_db \<Rightarrow> bool" where
  "ProjectExistsByPath up path db =
     (up \<and> count_where (\<lambda>p. pj_ProjectPath p = path) (db_projects db) > 0)"

subsection \<open>Deployments\<close>

definition CreateDeployment :: "bool \<Rightarrow> time \<Rightarrow> string \<Rightarrow> deployment_row \<Rightarrow> fleet_db \<Rightarrow> db_error option \<times> fleet_db" where
  "CreateDeployment up now fresh d db =
     (let row = d\<lparr>dp_ID := or_default fresh (dp_ID d), dp_StartedAt := now,
                  dp_Status := or_default ''pending'' (dp_Status d)\<rparr>
      in if \<not> up then (Some DbFailed, db)
         else if list_ex (\<lambda>q. dp_ID q = dp_ID row) (db_deployments db)
                 \<or> \<not> project_exists db (dp_ProjectID row)
         then (Some Constraint, db)
         else (None, db\<lparr>db_deployments := db_deployments db @ [row]\<rparr>))"

definition UpdateDeployment :: "bool \<Rightarrow> time \<Rightarrow> string \<Rightarrow> string \<Rightarrow> string \<Rightarrow> fleet_db \<Rightarrow> db_error option \<times> fleet_db" where
  "UpdateDeployment up now did status log db =
     (if \<not> up then (Some DbFailed, db)
      else (None, db\<lparr>db_deployments := update_where (\<lambda>d. dp_ID d = did)
              (\<lambda>d. d\<lparr>dp_Status := status, dp_FinishedAt := Some now, dp_Log := log\<rparr>)
              (db_deployments db)\<rparr>))"

definition newest_deployments :: "string \<Rightarrow> nat \<Rightarrow> fleet_db \<Rightarrow> deployment_row list" where
  "newest_deployments pid n db =
     take n (sort_key (\<lambda>d. - dp_StartedAt d) (filter (\<lambda>d. dp_ProjectID d = pid) (db_deployments db)))"

definition ListDeployments :: "bool \<Rightarrow> string \<Rightarrow> int \<Rightarrow> fleet_db \<Rightarrow> db_error + deployment_row list" where
  "ListDeployments up pid limit db =
     (if \<not> up then Inl DbFailed
      else Inr (newest_deployments pid (nat (if limit \<le> 0 then 20 else limit)) db))"

definition PruneDeployments :: "bool \<Rightarrow> string \<Rightarrow> int \<Rightarrow> fleet_db \<Rightarrow> (db_error + nat) \<times> fleet_db" where
  "PruneDeployments up pid keep db =
     (if keep \<le> 0 then (Inr 0, db)
      else if \<not> up then (Inl DbFailed, db)
      else let kept = map dp_ID (newest_deployments pid (nat keep) db);
               old = (\<lambda>d. dp_ProjectID d = pid \<and> dp_ID d \<notin> set kept)
           in (Inr (count_where old (db_deployments db)),
               db\<lparr>db_deployments := filter (\<lambda>d. \<not> old d) (db_deployments db)\<rparr>))"

fun prune_projects :: "(nat \<Rightarrow> bool) \<Rightarrow> nat \<Rightarrow> int \<Rightarrow> nat \<Rightarrow> project_row list \<Rightarrow> fleet_db
    \<Rightarrow> (nat \<times> db_error option) \<times> fleet_db" where
  "prune_projects up k keep removed [] db = ((removed, None), db)"
| "prune_projects up k keep removed (p # ps) db =
     (case PruneDeployments (up k) (pj_ID p) keep db of
        (Inl e, db') \<Rightarrow> ((removed, Some e), db')
      | (Inr n, db') \<Rightarrow> prune_projects up (Suc k) keep (removed + n) ps db')"

definition PruneAllDeployments :: "(nat \<Rightarrow> bool) \<Rightarrow> int \<Rightarrow> fleet_db \<Rightarrow> (nat \<times> db_error option) \<times> fleet_db" where
  "PruneAllDeployments up keep db =
     (if keep \<le> 0 then ((0, None), db)
      else case ListProjects (up 0) db of
        Inl e \<Rightarrow> ((0, Some e), db)
      | Inr ps \<Rightarrow> prune_projects up 1 keep 0 ps db)"

subsection \<open>Backup records\<close>

definition CreateBackupRecord :: "bool \<Rightarrow> time \<Rightarrow> string \<Rightarrow> backup_row \<Rightarrow> fleet_db \<Rightarrow> db_error option \<times> fleet_db" where
  "CreateBackupRecord up now fresh b db =
     (let row = b\<lparr>bk_ID := or_default fresh (bk_ID b), bk_CreatedAt := now,
                  bk_Type := or_default ''manual'' (bk_Type b),
                  bk_Trigger := or_default ''user'' (bk_Trigger b)\<rparr>
      in if \<not> up then (Some DbFailed, db)
         else if list_ex (\<lambda>q. bk_ID q = bk_ID row) (db_backups db)
                 \<or> \<not> project_exists db (bk_ProjectID row)
         then (Some Constraint, db)
         else (None, db\<lparr>db_backups := db_backups db @ [row]\<rparr>))"

definition GetBackupRecord :: "bool \<Rightarrow> string \<Rightarrow> fleet_db \<Rightarrow> db_error + backup_row" where
  "GetBackupRecord up bid db =
     (if \<not> up then Inl DbFailed
      else case List.find (\<lambda>b. bk_ID b = bid) (db_backups db) of
        None \<Rightarrow> Inl NotFound | Some b \<Rightarrow> Inr b)"

definition ListBackupRecords :: "bool \<Rightarrow> string \<Rightarrow> int \<Rightarrow> fleet_db \<Rightarrow> db_error + backup_row list" where
  "ListBackupRecords up pid limit db =
     (if \<not> up then Inl DbFailed
      else Inr (take (nat (if limit \<le> 0 then 50 else limit))
        (sort_key (\<lambda>b. - bk_CreatedAt b) (filter (\<lambda>b. bk_ProjectID b = pid) (db_backups db)))))"

definition DeleteBackupRecord :: "bool \<Rightarrow> string \<Rightarrow> fleet_db \<Rightarrow> db_error option \<times> fleet_db" where
  "DeleteBackupRecord up bid db =
     (if \<not> up then (Some DbFailed, db)
      else (None, db\<lparr>db_backups := filter (\<lambda>b. bk_ID b \<noteq> bid) (db_backups db)\<rparr>))"

definition of_type :: "string \<Rightarrow> string \<Rightarrow> backup_row \<Rightarrow> bool" where
  "of_type pid ty b \<longleftrightarrow> bk_ProjectID b = pid \<and> bk_Type b = ty"

definition CountBackupsByType :: "bool \<Rightarrow> string \<Rightarrow> string \<Rightarrow> fleet_db \<Rightarrow> db_error + nat" where
  "CountBackupsByType up pid ty db =
     (if \<not> up then Inl DbFailed else Inr (count_where (of_type pid ty) (db_backups db)))"

definition GetOldestBackups :: "bool \<Rightarrow> string \<Rightarrow> string \<Rightarrow> nat \<Rightarrow> fleet_db \<Rightarrow> db_error + backup_row list" where
  "GetOldestBackups up pid ty limit db =
     (if \<not> up then Inl DbFailed
      else Inr (take limit (sort_key bk_CreatedAt (filter (of_type pid ty) (db_backups db)))))"

definition GetExpiredBackups :: "bool \<Rightarrow> string \<Rightarrow> time \<Rightarrow> fleet_db \<Rightarrow> db_error + backup_row list" where
  "GetExpiredBackups up pid cutoff db =
     (if \<not> up then Inl DbFailed
      else Inr (sort_key bk_CreatedAt
        (filter (\<lambda>b. bk_ProjectID b = pid \<and> bk_CreatedAt b < cutoff) (db_backups db))))"

definition DeleteBackupsForProject :: "bool \<Rightarrow> string \<Rightarrow> fleet_db \<Rightarrow> db_error option \<times> fleet_db" where
  "DeleteBackupsForProject up pid db =
     (if \<not> up then (Some DbFailed, db)
      else (None, db\<lparr>db_backups := filter (\<lambda>b. bk_ProjectID b \<noteq> pid) (db_backups db)\<rparr>))"

subsection \<open>Servers\<close>

definition CreateServer :: "bool \<Rightarrow> time \<Rightarrow> string \<Rightarrow> server_row \<Rightarrow> fleet_db \<Rightarrow> db_error option \<times> fleet_db" where
  "CreateServer up now fresh s db =
     (let row = s\<lparr>sv_ID := or_default fresh (sv_ID s), sv_CreatedAt := now, sv_UpdatedAt := now,
                  sv_Status := or_default ''active'' (sv_Status s),
                  sv_Port := or_default ''22'' (sv_Port s)\<rparr>
      in if \<not> up then (Some DbFailed, db)
         else if list_ex (\<lambda>q. sv_ID q = sv_ID row \<or> sv_Name q = sv_Name row) (db_servers db)
         then (Some Constraint, db)
         else (None, db\<lparr>db_servers := db_servers db @ [row]\<rparr>))"

definition GetServer :: "bool \<Rightarrow> string \<Rightarrow> fleet_db \<Rightarrow> db_error + server_row" where
  "GetServer up name db =
     (if \<not> up then Inl DbFailed
      else case List.find (\<lambda>s. sv_Name s = name) (db_servers db) of
        None \<Rightarrow> Inl NotFound | Some s \<Rightarrow> Inr s)"

definition UpdateServerVersion :: "bool \<Rightarrow> time \<Rightarrow> string \<Rightarrow> string \<Rightarrow> string \<Rightarrow> fleet_db \<Rightarrow> db_error option \<times> fleet_db" where
  "UpdateServerVersion up now name version commit db =
     (if \<not> up then (Some DbFailed, db)
      else (if count_where (\<lambda>s. sv_Name s = name) (db_servers db) \<noteq> 1 then Some NotFound else None,
            db\<lparr>db_servers := update_where (\<lambda>s. sv_Name s = name)
              (\<lambda>s. s\<lparr>sv_Version := version, sv_Commit := commit, sv_CheckedAt := Some now\<rparr>)
              (db_servers db)\<rparr>))"

definition UpdateServerStatus :: "bool \<Rightarrow> time \<Rightarrow> string \<Rightarrow> string \<Rightarrow> fleet_db \<Rightarrow> db_error option \<times> fleet_db" where
  "UpdateServerStatus up now name status db =
     (if \<not> up then (Some DbFailed, db)
      else (if count_where (\<lambda>s. sv_Name s = name) (db_servers db) = 0 then Some NotFound else None,
            db\<lparr>db_servers := update_where (\<lambda>s. sv_Name s = name)
              (\<lambda>s. s\<lparr>sv_Status := status, sv_UpdatedAt := now\<rparr>) (db_servers db)\<rparr>))"

definition DeleteServer :: "(nat \<Rightarrow> bool) \<Rightarrow> string \<Rightarrow> fleet_db \<Rightarrow> db_error option \<times> fleet_db" where
  "DeleteServer up name db =
     (if \<not> up 0 then (Some DbFailed, db)
      else let count = (case List.find (\<lambda>s. sv_Name s = name) (db_servers db) of
               None \<Rightarrow> 0
             | Some s \<Rightarrow> count_where (\<lambda>p. pj_ServerID p = sv_ID s) (db_projects db))
      in if count > 0 then (Some (HasProjects count), db)
         else if \<not> up 1 then (Some DbFailed, db)
         else (if count_where (\<lambda>s. sv_Name s = name) (db_servers db) = 0 then Some NotFound else None,
               db\<lparr>db_servers := filter (\<lambda>s. sv_Name s \<noteq> name) (db_servers db)\<rparr>))"

subsection \<open>Application migrations\<close>

definition CreateAppMigration :: "bool \<Rightarrow> time \<Rightarrow> migration_row \<Rightarrow> fleet_db \<Rightarrow> db_error option \<times> fleet_db" where
  "CreateAppMigration up now m db =
     (let row = m\<lparr>mg_Status := or_default ''running'' (mg_Status m),
                  mg_StartedAt := (case mg_StartedAt m of None \<Rightarrow> Some now | Some t \<Rightarrow> Some t),
                  mg_FinishedAt := None\<rparr>
      in if \<not> up then (Some DbFailed, db)
         else if list_ex (\<lambda>q. mg_ID q = mg_ID row) (db_migrations db)
                 \<or> \<not> project_exists db (mg_ProjectID row)
         then (Some Constraint, db)
         else (None, db\<lparr>db_migrations := db_migrations db @ [row]\<rparr>))"

definition MarkAppMigration :: "bool \<Rightarrow> time \<Rightarrow> string \<Rightarrow> string \<Rightarrow> string \<Rightarrow> fleet_db \<Rightarrow> db_error option \<times> fleet_db" where
  "MarkAppMigration up now mid status output db =
     (if status \<noteq> ''succeeded'' \<and> status \<noteq> ''failed'' then (Some BadStatus, db)
      else if \<not> up then (Some DbFailed, db)
      else (None, db\<lparr>db_migrations := update_where (\<lambda>m. mg_ID m = mid)
              (\<lambda>m. m\<lparr>mg_Status := status, mg_Output := output, mg_FinishedAt := Some now\<rparr>)
              (db_migrations db)\<rparr>))"

subsection \<open>Secrets\<close>

text \<open>
  \<open>internal/crypto\<close>: AES-256-GCM behind \<open>seal\<close> and \<open>open\<close>, a nonce of 12 random bytes before
  the ciphertext, base64 around it. Keys have 32 bytes.
\<close>

record cipher =
  ci_seal :: "string \<Rightarrow> string \<Rightarrow> string \<Rightarrow> string"
  ci_open :: "string \<Rightarrow> string \<Rightarrow> string \<Rightarrow> string option"
  ci_encode :: "string \<Rightarrow> string"
  ci_decode :: "string \<Rightarrow> string option"

definition keyLen :: nat where "keyLen = 32"
definition nonceSize :: nat where "nonceSize = 12"

definition Encrypt :: "cipher \<Rightarrow> string \<Rightarrow> string \<Rightarrow> string \<Rightarrow> db_error + string" where
  "Encrypt ci nonce plaintext key =
     (if length key \<noteq> keyLen then Inl KeyLength
      else Inr (nonce @ ci_seal ci key nonce plaintext))"

definition Decrypt :: "cipher \<Rightarrow> string \<Rightarrow> string \<Rightarrow> db_error + string" where
  "Decrypt ci ciphertext key =
     (if length key \<noteq> keyLen then Inl KeyLength
      else if length ciphertext < nonceSize then Inl TooShort
      else case ci_open ci key (take nonceSize ciphertext) (drop nonceSize ciphertext) of
        None \<Rightarrow> Inl DecryptionFailed | Some p \<Rightarrow> Inr p)"

definition encryptedPrefix :: string where "encryptedPrefix = ''enc:''"

definition encryptValue :: "cipher \<Rightarrow> string \<Rightarrow> string \<Rightarrow> string \<Rightarrow> db_error + string" where
  "encryptValue ci key nonce value =
     (if key = [] then Inr value
      else case Encrypt ci nonce value key of
        Inl e \<Rightarrow> Inl e | Inr ciphertext \<Rightarrow> Inr (encryptedPrefix @ ci_encode ci ciphertext))"

definition decryptValue :: "cipher \<Rightarrow> string \<Rightarrow> string \<Rightarrow> db_error + string" where
  "decryptValue ci key stored =
     (if length stored \<le> length encryptedPrefix
         \<or> take (length encryptedPrefix) stored \<noteq> encryptedPrefix then Inr stored
      else if key = [] then Inl NoKey
      else case ci_decode ci (drop (length encryptedPrefix) stored) of
        None \<Rightarrow> Inl Base64Invalid
      | Some ciphertext \<Rightarrow> Decrypt ci ciphertext key)"

definition same_secret :: "string \<Rightarrow> string \<Rightarrow> secret_row \<Rightarrow> bool" where
  "same_secret pid k s \<longleftrightarrow> sx_ProjectID s = pid \<and> sx_Key s = k"

definition SetSecret ::
  "cipher \<Rightarrow> string \<Rightarrow> bool \<Rightarrow> string \<Rightarrow> string \<Rightarrow> string \<Rightarrow> string \<Rightarrow> string \<Rightarrow> fleet_db
    \<Rightarrow> db_error option \<times> fleet_db" where
  "SetSecret ci key up fresh nonce pid k value db =
     (case encryptValue ci key nonce value of
        Inl e \<Rightarrow> (Some e, db)
      | Inr stored \<Rightarrow>
          if \<not> up then (Some DbFailed, db)
          else if list_ex (same_secret pid k) (db_secrets db)
          then (None, db\<lparr>db_secrets := update_where (same_secret pid k)
                  (\<lambda>s. s\<lparr>sx_Value := stored\<rparr>) (db_secrets db)\<rparr>)
          else if list_ex (\<lambda>s. sx_ID s = fresh) (db_secrets db) \<or> \<not> project_exists db pid
          then (Some Constraint, db)
          else (None, db\<lparr>db_secrets := db_secrets db
                  @ [\<lparr>sx_ID = fresh, sx_ProjectID = pid, sx_Key = k, sx_Value = stored\<rparr>]\<rparr>))"

definition GetSecret :: "cipher \<Rightarrow> string \<Rightarrow> bool \<Rightarrow> string \<Rightarrow> string \<Rightarrow> fleet_db \<Rightarrow> db_error + secret_row" where
  "GetSecret ci key up pid k db =
     (if \<not> up then Inl DbFailed
      else case List.find (same_secret pid k) (db_secrets db) of
        None \<Rightarrow> Inl NotFound
      | Some s \<Rightarrow> (case decryptValue ci key (sx_Value s) of
          Inl e \<Rightarrow> Inl e | Inr v \<Rightarrow> Inr (s\<lparr>sx_Value := v\<rparr>)))"

fun decrypt_rows :: "cipher \<Rightarrow> string \<Rightarrow> secret_row list \<Rightarrow> db_error + secret_row list" where
  "decrypt_rows ci key [] = Inr []"
| "decrypt_rows ci key (s # ss) =
     (case decryptValue ci key (sx_Value s) of
        Inl e \<Rightarrow> Inl e
      | Inr v \<Rightarrow> (case decrypt_rows ci key ss of
          Inl e \<Rightarrow> Inl e | Inr rest \<Rightarrow> Inr (s\<lparr>sx_Value := v\<rparr> # rest)))"

definition ListSecrets :: "cipher \<Rightarrow> string \<Rightarrow> bool \<Rightarrow> string \<Rightarrow> fleet_db \<Rightarrow> db_error + secret_row list" where
  "ListSecrets ci key up pid db =
     (if \<not> up then Inl DbFailed
      else decrypt_rows ci key (sort_key sx_Key (filter (\<lambda>s. sx_ProjectID s = pid) (db_secrets db))))"

definition DeleteSecret :: "bool \<Rightarrow> string \<Rightarrow> string \<Rightarrow> fleet_db \<Rightarrow> db_error option \<times> fleet_db" where
  "DeleteSecret up pid k db =
     (if \<not> up then (Some DbFailed, db)
      else (if count_where (same_secret pid k) (db_secrets db) = 0 then Some NotFound else None,
            db\<lparr>db_secrets := filter (\<lambda>s. \<not> same_secret pid k s) (db_secrets db)\<rparr>))"

end
