(* ===== verification/Fleet_Registry.thy ===== *)
theory Fleet_Registry
  imports Fleet_Db
begin

text \<open>
  What the registry database promises: the integrity of its tables under every sequence of
  operations, what deleting a project removes, which deployments pruning keeps, and that a
  secret is read back as it was written.
\<close>

subsection \<open>Integrity\<close>

definition unique_rows :: "('r \<Rightarrow> 'k) \<Rightarrow> 'r list \<Rightarrow> bool" where
  "unique_rows f rows \<longleftrightarrow> distinct (map f rows)"

text \<open>A table whose rows have distinct ids and refer to existing projects.\<close>

definition child_ok :: "fleet_db \<Rightarrow> ('r \<Rightarrow> string) \<Rightarrow> ('r \<Rightarrow> string) \<Rightarrow> 'r list \<Rightarrow> bool" where
  "child_ok db idf ref rows \<longleftrightarrow>
     unique_rows idf rows \<and> ref ` set rows \<subseteq> pj_ID ` set (db_projects db)"

definition fleet_inv :: "fleet_db \<Rightarrow> bool" where
  "fleet_inv db \<longleftrightarrow>
     unique_rows pj_ID (db_projects db) \<and> unique_rows pj_Name (db_projects db)
     \<and> unique_rows sv_ID (db_servers db) \<and> unique_rows sv_Name (db_servers db)
     \<and> unique_rows (\<lambda>s. (sx_ProjectID s, sx_Key s)) (db_secrets db)
     \<and> child_ok db dp_ID dp_ProjectID (db_deployments db)
     \<and> child_ok db bk_ID bk_ProjectID (db_backups db)
     \<and> child_ok db sx_ID sx_ProjectID (db_secrets db)
     \<and> child_ok db mg_ID mg_ProjectID (db_migrations db)"

text \<open>One operation on the database, with any inputs and any failing statements.\<close>

inductive db_step :: "fleet_db \<Rightarrow> fleet_db \<Rightarrow> bool" where
  "CreateProject up now fresh p db = (e, db') \<Longrightarrow> db_step db db'"
| "UpdateProjectStatus up now name status db = (e, db') \<Longrightarrow> db_step db db'"
| "UpdateProject up now p db = (e, db') \<Longrightarrow> db_step db db'"
| "DeleteProject ups name db = (e, db') \<Longrightarrow> db_step db db'"
| "CreateDeployment up now fresh d db = (e, db') \<Longrightarrow> db_step db db'"
| "UpdateDeployment up now did status log db = (e, db') \<Longrightarrow> db_step db db'"
| "PruneDeployments up pid keep db = (r, db') \<Longrightarrow> db_step db db'"
| "CreateBackupRecord up now fresh b db = (e, db') \<Longrightarrow> db_step db db'"
| "DeleteBackupRecord up bid db = (e, db') \<Longrightarrow> db_step db db'"
| "DeleteBackupsForProject up pid db = (e, db') \<Longrightarrow> db_step db db'"
| "CreateServer up now fresh s db = (e, db') \<Longrightarrow> db_step db db'"
| "UpdateServerVersion up now name v c db = (e, db') \<Longrightarrow> db_step db db'"
| "UpdateServerStatus up now name status db = (e, db') \<Longrightarrow> db_step db db'"
| "DeleteServer ups name db = (e, db') \<Longrightarrow> db_step db db'"
| "CreateAppMigration up now m db = (e, db') \<Longrightarrow> db_step db db'"
| "MarkAppMigration up now mid status out db = (e, db') \<Longrightarrow> db_step db db'"
| "SetSecret ci key up fresh nonce pid k v db = (e, db') \<Longrightarrow> db_step db db'"
| "DeleteSecret up pid k db = (e, db') \<Longrightarrow> db_step db db'"

lemma unique_append:
  "unique_rows f rows \<Longrightarrow> \<not> list_ex (\<lambda>q. f q = f r) rows \<Longrightarrow> unique_rows f (rows @ [r])"
  by (induction rows) (auto simp: unique_rows_def)

lemma unique_update:
  assumes "\<And>r. p r \<Longrightarrow> f (u r) = f r" "unique_rows f rows"
  shows "unique_rows f (update_where p u rows)"
proof -
  have "map f (update_where p u rows) = map f rows"
    using assms(1) by (induction rows) (auto simp: update_where_def)
  with assms(2) show ?thesis by (simp add: unique_rows_def)
qed

lemma unique_filter: "unique_rows f rows \<Longrightarrow> unique_rows f (filter p rows)"
  by (simp add: unique_rows_def distinct_map inj_on_def)

lemma child_append:
  "child_ok db f g rows \<Longrightarrow> \<not> list_ex (\<lambda>q. f q = f r) rows \<Longrightarrow> project_exists db (g r)
    \<Longrightarrow> child_ok db f g (rows @ [r])"
  by (auto simp: child_ok_def unique_append project_exists_def list_ex_iff) (metis image_eqI)

lemma update_where_ids: "(\<And>r. p r \<Longrightarrow> f (u r) = f r) \<Longrightarrow> f ` set (update_where p u rows) = f ` set rows"
  by (induction rows) (auto simp: update_where_def)

lemma child_update:
  assumes "\<And>r. p r \<Longrightarrow> f (u r) = f r" "\<And>r. p r \<Longrightarrow> g (u r) = g r" "child_ok db f g rows"
  shows "child_ok db f g (update_where p u rows)"
  using assms(3) unique_update[of p f u rows] update_where_ids[of p g u rows] assms(1,2)
  by (simp add: child_ok_def)

lemma child_filter: "child_ok db f g rows \<Longrightarrow> child_ok db f g (filter p rows)"
  by (auto simp: child_ok_def unique_filter)

lemma child_projects:
  "pj_ID ` set (db_projects db') = pj_ID ` set (db_projects db) \<Longrightarrow>
     child_ok db' f g rows = child_ok db f g rows"
  by (simp add: child_ok_def)

lemma child_more_projects:
  "child_ok db f g rows \<Longrightarrow> pj_ID ` set (db_projects db) \<subseteq> pj_ID ` set (db_projects db')
    \<Longrightarrow> child_ok db' f g rows"
  unfolding child_ok_def by blast

lemmas table_rules = unique_append unique_update unique_filter child_append child_update child_filter

text \<open>Operations on one table leave the projects, and so the references of the others, alone.\<close>

lemma child_ok_frame [simp]:
  "child_ok (db\<lparr>db_deployments := x1\<rparr>) = child_ok db"
  "child_ok (db\<lparr>db_backups := x2\<rparr>) = child_ok db"
  "child_ok (db\<lparr>db_secrets := x3\<rparr>) = child_ok db"
  "child_ok (db\<lparr>db_servers := x4\<rparr>) = child_ok db"
  "child_ok (db\<lparr>db_migrations := x5\<rparr>) = child_ok db"
  by (intro ext, simp add: child_ok_def)+

lemma fleet_inv_projects:
  assumes "fleet_inv db" "unique_rows pj_ID ps" "unique_rows pj_Name ps"
    "pj_ID ` set (db_projects db) \<subseteq> pj_ID ` set ps"
  shows "fleet_inv (db\<lparr>db_projects := ps\<rparr>)"
proof -
  note more = child_more_projects[where db = db and db' = "db\<lparr>db_projects := ps\<rparr>", simplified,
      OF _ assms(4)]
  from assms(1-3) show ?thesis by (simp add: fleet_inv_def more)
qed

lemma CreateProject_inv:
  assumes "CreateProject up now fresh p db = (e, db')" "fleet_inv db" shows "fleet_inv db'"
proof -
  consider "db' = db" | row where "db' = db\<lparr>db_projects := db_projects db @ [row]\<rparr>"
      "\<not> list_ex (\<lambda>q. pj_ID q = pj_ID row \<or> pj_Name q = pj_Name row) (db_projects db)"
    using assms(1) by (auto simp: CreateProject_def Let_def split: if_splits)
  then show ?thesis
  proof cases
    case 2
    then have "\<not> list_ex (\<lambda>q. pj_ID q = pj_ID row) (db_projects db)"
        "\<not> list_ex (\<lambda>q. pj_Name q = pj_Name row) (db_projects db)"
      by (auto simp: list_ex_iff)
    with assms(2) have "unique_rows pj_ID (db_projects db @ [row])"
        "unique_rows pj_Name (db_projects db @ [row])"
      by (simp_all add: fleet_inv_def unique_append)
    from fleet_inv_projects[OF assms(2) this] 2(1) show ?thesis by auto
  qed (use assms in simp)
qed

lemma update_projects_inv:
  assumes "fleet_inv db" "\<And>r. p r \<Longrightarrow> pj_ID (u r) = pj_ID r" "\<And>r. p r \<Longrightarrow> pj_Name (u r) = pj_Name r"
  shows "fleet_inv (db\<lparr>db_projects := update_where p u (db_projects db)\<rparr>)"
proof (rule fleet_inv_projects[OF assms(1)])
  show "pj_ID ` set (db_projects db) \<subseteq> pj_ID ` set (update_where p u (db_projects db))"
    using update_where_ids[of p pj_ID u "db_projects db"] assms(2) by simp
qed (use assms in \<open>auto simp: fleet_inv_def intro!: unique_update\<close>)

lemma UpdateProjectStatus_inv:
  "UpdateProjectStatus up now name status db = (e, db') \<Longrightarrow> fleet_inv db \<Longrightarrow> fleet_inv db'"
  by (auto simp: UpdateProjectStatus_def Let_def split: if_splits intro!: update_projects_inv)

lemma UpdateProject_inv: "UpdateProject up now p db = (e, db') \<Longrightarrow> fleet_inv db \<Longrightarrow> fleet_inv db'"
  by (auto simp: UpdateProject_def Let_def split: if_splits intro!: update_projects_inv)

lemma DeleteProject_cases:
  assumes "DeleteProject ups name db = (e, db')"
  obtains (failed) "e \<noteq> None" "db' = db"
  | (deleted) p where "e = None" "p \<in> set (db_projects db)" "pj_Name p = name"
      "db' = (delete_dependents (pj_ID p) db)\<lparr>db_projects :=
         filter (\<lambda>q. pj_ID q \<noteq> pj_ID p) (db_projects db)\<rparr>"
proof (cases "List.find (\<lambda>p. pj_Name p = name) (db_projects db)")
  case None
  with assms show thesis by (intro failed) (auto simp: DeleteProject_def split: if_splits)
next
  case (Some p)
  have frame: "db_projects (delete_dependents (pj_ID p) db) = db_projects db"
    by (simp add: delete_dependents_def)
  show thesis
  proof (cases "e = None")
    case True
    with assms Some show thesis
      by (intro deleted[of p])
        (auto simp: DeleteProject_def Let_def frame dest!: find_Some_in split: if_splits)
  next
    case False
    with assms Some show thesis
      by (intro failed) (auto simp: DeleteProject_def Let_def split: if_splits)
  qed
qed

lemma child_delete:
  "child_ok db f g rows \<Longrightarrow> db_projects db' = filter (\<lambda>q. pj_ID q \<noteq> pid) (db_projects db) \<Longrightarrow>
     child_ok db' f g (filter (\<lambda>x. g x \<noteq> pid) rows)"
  by (auto simp: child_ok_def unique_filter)

lemma DeleteProject_inv:
  assumes "DeleteProject ups name db = (e, db')" "fleet_inv db" shows "fleet_inv db'"
  using assms(1)
proof (cases rule: DeleteProject_cases)
  case (deleted p)
  have rows: "db_projects db' = filter (\<lambda>q. pj_ID q \<noteq> pj_ID p) (db_projects db)"
    "db_deployments db' = filter (\<lambda>x. dp_ProjectID x \<noteq> pj_ID p) (db_deployments db)"
    "db_backups db' = filter (\<lambda>x. bk_ProjectID x \<noteq> pj_ID p) (db_backups db)"
    "db_secrets db' = filter (\<lambda>x. sx_ProjectID x \<noteq> pj_ID p) (db_secrets db)"
    "db_migrations db' = filter (\<lambda>x. mg_ProjectID x \<noteq> pj_ID p) (db_migrations db)"
    "db_servers db' = db_servers db"
    by (simp_all add: deleted(4) delete_dependents_def)
  note child = child_delete[OF _ rows(1)]
  from assms(2) show ?thesis by (simp add: fleet_inv_def rows child unique_filter)
qed (use assms in simp)

lemma CreateDeployment_inv:
  assumes "CreateDeployment up now fresh d db = (e, db')" "fleet_inv db" shows "fleet_inv db'"
proof -
  consider "db' = db" | row where "db' = db\<lparr>db_deployments := db_deployments db @ [row]\<rparr>"
      "\<not> list_ex (\<lambda>q. dp_ID q = dp_ID row) (db_deployments db)" "project_exists db (dp_ProjectID row)"
    using assms(1) by (auto simp: CreateDeployment_def Let_def split: if_splits)
  then show ?thesis by cases (use assms(2) in \<open>simp_all add: fleet_inv_def table_rules\<close>)
qed

lemma deployment_ops_inv:
  "UpdateDeployment up now did status log db = (e, db') \<Longrightarrow> fleet_inv db \<Longrightarrow> fleet_inv db'"
  "PruneDeployments up pid keep db = (r, db') \<Longrightarrow> fleet_inv db \<Longrightarrow> fleet_inv db'"
  by (auto simp: UpdateDeployment_def PruneDeployments_def Let_def fleet_inv_def table_rules
      split: if_splits)

lemma CreateBackupRecord_inv:
  assumes "CreateBackupRecord up now fresh b db = (e, db')" "fleet_inv db" shows "fleet_inv db'"
proof -
  consider "db' = db" | row where "db' = db\<lparr>db_backups := db_backups db @ [row]\<rparr>"
      "\<not> list_ex (\<lambda>q. bk_ID q = bk_ID row) (db_backups db)" "project_exists db (bk_ProjectID row)"
    using assms(1) by (auto simp: CreateBackupRecord_def Let_def split: if_splits)
  then show ?thesis by cases (use assms(2) in \<open>simp_all add: fleet_inv_def table_rules\<close>)
qed

lemma backup_ops_inv:
  "DeleteBackupRecord up bid db = (e, db') \<Longrightarrow> fleet_inv db \<Longrightarrow> fleet_inv db'"
  "DeleteBackupsForProject up pid db = (e, db') \<Longrightarrow> fleet_inv db \<Longrightarrow> fleet_inv db'"
  by (auto simp: DeleteBackupRecord_def DeleteBackupsForProject_def fleet_inv_def table_rules
      split: if_splits)

lemma CreateServer_inv:
  assumes "CreateServer up now fresh s db = (e, db')" "fleet_inv db" shows "fleet_inv db'"
proof -
  consider "db' = db" | row where "db' = db\<lparr>db_servers := db_servers db @ [row]\<rparr>"
      "\<not> list_ex (\<lambda>q. sv_ID q = sv_ID row) (db_servers db)"
      "\<not> list_ex (\<lambda>q. sv_Name q = sv_Name row) (db_servers db)"
    using assms(1) by (fastforce simp: CreateServer_def Let_def list_ex_iff split: if_splits)
  then show ?thesis by cases (use assms(2) in \<open>simp_all add: fleet_inv_def table_rules\<close>)
qed

lemma server_ops_inv:
  "UpdateServerVersion up now name v c db = (e, db') \<Longrightarrow> fleet_inv db \<Longrightarrow> fleet_inv db'"
  "UpdateServerStatus up now name status db = (e, db') \<Longrightarrow> fleet_inv db \<Longrightarrow> fleet_inv db'"
  "DeleteServer ups name db = (e, db') \<Longrightarrow> fleet_inv db \<Longrightarrow> fleet_inv db'"
  by (auto simp: UpdateServerVersion_def UpdateServerStatus_def DeleteServer_def Let_def
      fleet_inv_def table_rules split: if_splits)

lemma CreateAppMigration_inv:
  assumes "CreateAppMigration up now m db = (e, db')" "fleet_inv db" shows "fleet_inv db'"
proof -
  consider "db' = db" | row where "db' = db\<lparr>db_migrations := db_migrations db @ [row]\<rparr>"
      "\<not> list_ex (\<lambda>q. mg_ID q = mg_ID row) (db_migrations db)" "project_exists db (mg_ProjectID row)"
    using assms(1) by (auto simp: CreateAppMigration_def Let_def split: if_splits)
  then show ?thesis by cases (use assms(2) in \<open>simp_all add: fleet_inv_def table_rules\<close>)
qed

lemma MarkAppMigration_inv:
  "MarkAppMigration up now mid status out db = (e, db') \<Longrightarrow> fleet_inv db \<Longrightarrow> fleet_inv db'"
  by (auto simp: MarkAppMigration_def fleet_inv_def table_rules split: if_splits)

lemma SetSecret_cases:
  assumes "SetSecret ci key up fresh nonce pid k v db = (e, db')"
  obtains (failed) "e \<noteq> None" "db' = db"
  | (updated) stored where "e = None" "encryptValue ci key nonce v = Inr stored"
      "list_ex (same_secret pid k) (db_secrets db)"
      "db' = db\<lparr>db_secrets := update_where (same_secret pid k) (\<lambda>s. s\<lparr>sx_Value := stored\<rparr>) (db_secrets db)\<rparr>"
  | (inserted) stored where "e = None" "encryptValue ci key nonce v = Inr stored"
      "\<not> list_ex (same_secret pid k) (db_secrets db)"
      "\<not> list_ex (\<lambda>s. sx_ID s = fresh) (db_secrets db)" "project_exists db pid"
      "db' = db\<lparr>db_secrets := db_secrets db
         @ [\<lparr>sx_ID = fresh, sx_ProjectID = pid, sx_Key = k, sx_Value = stored\<rparr>]\<rparr>"
proof (cases "encryptValue ci key nonce v")
  case (Inl err)
  with assms show thesis by (intro failed) (auto simp: SetSecret_def)
next
  case (Inr stored)
  note def = assms[unfolded SetSecret_def Inr sum.case]
  show thesis
  proof (cases "up \<and> list_ex (same_secret pid k) (db_secrets db)")
    case True
    with def Inr show thesis by (intro updated[of stored]) auto
  next
    case False
    with def Inr show thesis
      by (cases "up \<and> \<not> list_ex (\<lambda>s. sx_ID s = fresh) (db_secrets db) \<and> project_exists db pid")
        (auto intro: inserted failed split: if_splits)
  qed
qed

lemma SetSecret_inv:
  assumes "SetSecret ci key up fresh nonce pid k v db = (e, db')" "fleet_inv db" shows "fleet_inv db'"
  using assms(1)
proof (cases rule: SetSecret_cases)
  case (updated stored)
  with assms(2) show ?thesis by (simp add: fleet_inv_def table_rules)
next
  case (inserted stored)
  then have "\<not> list_ex (\<lambda>s. (sx_ProjectID s, sx_Key s) = (pid, k)) (db_secrets db)"
    by (auto simp: list_ex_iff same_secret_def)
  with inserted assms(2) show ?thesis by (simp add: fleet_inv_def table_rules)
qed (use assms in simp)

lemma DeleteSecret_inv: "DeleteSecret up pid k db = (e, db') \<Longrightarrow> fleet_inv db \<Longrightarrow> fleet_inv db'"
  by (auto simp: DeleteSecret_def fleet_inv_def table_rules split: if_splits)

lemma db_step_inv: "db_step db db' \<Longrightarrow> fleet_inv db \<Longrightarrow> fleet_inv db'"
  by (erule db_step.cases)
    (simp_all add: CreateProject_inv UpdateProjectStatus_inv UpdateProject_inv DeleteProject_inv
      CreateDeployment_inv deployment_ops_inv CreateBackupRecord_inv backup_ops_inv CreateServer_inv
      server_ops_inv CreateAppMigration_inv MarkAppMigration_inv SetSecret_inv DeleteSecret_inv)

subsection \<open>Pruning\<close>

lemma take_drop_order:
  assumes "sorted (map f xs)" "x \<in> set (take n xs)" "y \<in> set (drop n xs)"
  shows "f x \<le> f (y :: 'r)"
proof -
  have "map f xs = map f (take n xs) @ map f (drop n xs)"
    by (metis append_take_drop_id map_append)
  with assms show ?thesis by (simp add: sorted_append)
qed

lemma unique_row_by_id:
  "unique_rows f rows \<Longrightarrow> x \<in> set rows \<Longrightarrow> y \<in> set rows \<Longrightarrow> f x = f y \<Longrightarrow> x = y"
  by (auto simp: unique_rows_def distinct_map inj_on_def)

text \<open>The rows of one project split into the kept and the removed ones.\<close>

lemma newest_split:
  fixes pid :: string
  assumes "unique_rows dp_ID (db_deployments db)"
  defines "mine \<equiv> filter (\<lambda>d. dp_ProjectID d = pid) (db_deployments db)"
  shows "set (newest_deployments pid k db) \<subseteq> set mine"
    "length (newest_deployments pid k db) = min k (length mine)"
    "x \<in> set (newest_deployments pid k db) \<Longrightarrow> y \<in> set mine
      \<Longrightarrow> dp_ID y \<notin> dp_ID ` set (newest_deployments pid k db) \<Longrightarrow> dp_StartedAt y \<le> dp_StartedAt x"
proof -
  let ?s = "sort_key (\<lambda>d. - dp_StartedAt d) mine"
  have n: "newest_deployments pid k db = take k ?s"
    by (simp add: newest_deployments_def mine_def)
  show "set (newest_deployments pid k db) \<subseteq> set mine"
    unfolding n by (metis set_sort set_take_subset)
  show "length (newest_deployments pid k db) = min k (length mine)" by (simp add: n)
  assume x: "x \<in> set (newest_deployments pid k db)" and y: "y \<in> set mine"
    and out: "dp_ID y \<notin> dp_ID ` set (newest_deployments pid k db)"
  have "y \<in> set (take k ?s) \<union> set (drop k ?s)" using y
    by (metis append_take_drop_id set_append set_sort)
  then have "y \<in> set (drop k ?s)" using out n by auto
  from take_drop_order[OF sorted_sort_key x[unfolded n] this] show "dp_StartedAt y \<le> dp_StartedAt x"
    by simp
qed

lemma filter_id_mem_count:
  assumes "unique_rows f rows" "set ns \<subseteq> set rows" "distinct ns"
  shows "length (filter (\<lambda>r. f r \<in> f ` set ns) rows) = length ns"
proof -
  have "r \<in> set ns" if "r \<in> set rows" "f r \<in> f ` set ns" for r
  proof -
    from that(2) obtain x where "x \<in> set ns" "f r = f x" by auto
    with unique_row_by_id[OF assms(1) that(1), of x] assms(2) show ?thesis by auto
  qed
  then have "set (filter (\<lambda>r. f r \<in> f ` set ns) rows) = set ns"
    using assms(2) by auto
  moreover have "distinct (filter (\<lambda>r. f r \<in> f ` set ns) rows)"
    using assms(1) by (auto simp: unique_rows_def distinct_map)
  ultimately show ?thesis using assms(3) by (metis distinct_card)
qed

subsection \<open>Properties\<close>

text \<open>C38. The registry keeps its integrity: after any sequence of operations on a new database, with
  any inputs and any failing statements, ids and names are unique, a project has at most one
  secret per key, and every deployment, backup, secret and migration belongs to a project.\<close>
theorem registry_integrity:
  assumes "db_step\<^sup>*\<^sup>* empty_fleet_db db"
  shows "fleet_inv db"
  using assms
proof (induction rule: rtranclp_induct)
  case base
  show ?case by (simp add: fleet_inv_def empty_fleet_db_def unique_rows_def child_ok_def)
next
  case (step db db')
  then show ?case by (blast intro: db_step_inv)
qed

text \<open>Deleting a project is all or nothing: it either changes no table, or removes the project
  together with exactly its deployments, backups, secrets and migrations, and the foreign keys
  never stand in the way.\<close>
theorem DeleteProject_complete:
  assumes "DeleteProject ups name db = (e, db')" "fleet_inv db"
  shows "(e \<noteq> None \<longrightarrow> db' = db \<and> e \<noteq> Some Constraint)
    \<and> (e = None \<longrightarrow> (\<exists>p. p \<in> set (db_projects db) \<and> pj_Name p = name
        \<and> \<not> project_exists db' (pj_ID p) \<and> \<not> project_referenced (pj_ID p) db'
        \<and> db_projects db' = filter (\<lambda>q. pj_Name q \<noteq> name) (db_projects db)
        \<and> db_deployments db' = filter (\<lambda>x. dp_ProjectID x \<noteq> pj_ID p) (db_deployments db)
        \<and> db_backups db' = filter (\<lambda>x. bk_ProjectID x \<noteq> pj_ID p) (db_backups db)
        \<and> db_secrets db' = filter (\<lambda>x. sx_ProjectID x \<noteq> pj_ID p) (db_secrets db)
        \<and> db_migrations db' = filter (\<lambda>x. mg_ProjectID x \<noteq> pj_ID p) (db_migrations db)
        \<and> db_servers db' = db_servers db))"
proof -
  have no_fk: "e \<noteq> Some Constraint"
    using assms(1)
    by (auto simp: DeleteProject_def Let_def project_referenced_def delete_dependents_def list_ex_iff
        split: if_splits option.splits)
  from assms(1) show ?thesis
  proof (cases rule: DeleteProject_cases)
    case (deleted p)
    have "filter (\<lambda>q. pj_ID q \<noteq> pj_ID p) (db_projects db) = filter (\<lambda>q. pj_Name q \<noteq> name) (db_projects db)"
      using assms(2) deleted(2,3)
      by (intro filter_cong) (auto simp: fleet_inv_def dest: unique_row_by_id)
    moreover have "\<not> project_exists db' (pj_ID p)"
      by (auto simp: deleted(4) project_exists_def list_ex_iff)
    ultimately show ?thesis
      using deleted by (intro conjI impI exI[of _ p])
        (auto simp: delete_dependents_def project_referenced_def list_ex_iff)
  qed (use no_fk in auto)
qed

text \<open>Pruning keeps the newest deployments: of the pruned project the requested number stays (or
  all, when there are fewer), none of them older than a removed one, the reported number is the
  number removed, and other projects keep theirs.\<close>
theorem PruneDeployments_newest:
  assumes "PruneDeployments up pid keep db = (Inr n, db')" "0 < keep" "fleet_inv db"
  shows "length (filter (\<lambda>d. dp_ProjectID d = pid) (db_deployments db'))
      = min (nat keep) (length (filter (\<lambda>d. dp_ProjectID d = pid) (db_deployments db)))
    \<and> (\<forall>x \<in> set (db_deployments db'). \<forall>y \<in> set (db_deployments db) - set (db_deployments db').
         dp_ProjectID x = pid \<longrightarrow> dp_ProjectID y = pid \<and> dp_StartedAt y \<le> dp_StartedAt x)
    \<and> n + length (db_deployments db') = length (db_deployments db)
    \<and> filter (\<lambda>d. dp_ProjectID d \<noteq> pid) (db_deployments db')
      = filter (\<lambda>d. dp_ProjectID d \<noteq> pid) (db_deployments db)"
proof -
  let ?k = "nat keep" and ?rows = "db_deployments db"
  let ?new = "newest_deployments pid ?k db"
  let ?old = "\<lambda>d. dp_ProjectID d = pid \<and> dp_ID d \<notin> set (map dp_ID ?new)"
  have uniq: "unique_rows dp_ID ?rows" using assms(3) by (simp add: fleet_inv_def child_ok_def)
  have db': "db_deployments db' = filter (\<lambda>d. \<not> ?old d) ?rows" and n: "n = count_where ?old ?rows"
    using assms(1,2) by (auto simp: PruneDeployments_def Let_def split: if_splits)
  note split = newest_split[OF uniq, where pid = pid and k = ?k]
  have dist: "distinct ?new"
    using uniq by (simp add: newest_deployments_def unique_rows_def distinct_map)
  have mine: "unique_rows dp_ID (filter (\<lambda>d. dp_ProjectID d = pid) ?rows)"
    by (rule unique_filter[OF uniq])
  have "filter (\<lambda>d. dp_ProjectID d = pid) (db_deployments db')
      = filter (\<lambda>d. dp_ID d \<in> dp_ID ` set ?new) (filter (\<lambda>d. dp_ProjectID d = pid) ?rows)"
    by (auto simp: db' intro!: filter_cong)
  then have len: "length (filter (\<lambda>d. dp_ProjectID d = pid) (db_deployments db'))
      = min ?k (length (filter (\<lambda>d. dp_ProjectID d = pid) ?rows))"
    using filter_id_mem_count[OF mine split(1) dist] split(2) by simp
  have order: "dp_ProjectID y = pid \<and> dp_StartedAt y \<le> dp_StartedAt x"
    if "x \<in> set (db_deployments db')" "y \<in> set ?rows - set (db_deployments db')" "dp_ProjectID x = pid" for x y
  proof -
    from that have y: "y \<in> set ?rows" "dp_ProjectID y = pid" "dp_ID y \<notin> dp_ID ` set ?new"
      by (auto simp: db')
    from that obtain z where z: "z \<in> set ?new" "dp_ID x = dp_ID z" "x \<in> set ?rows"
      by (auto simp: db')
    have "z \<in> set ?rows" using z(1) split(1) by auto
    then have "x = z" using unique_row_by_id[OF uniq z(3)] z(2) by blast
    with split(3)[OF z(1), of y] y show ?thesis by simp
  qed
  have "n + length (db_deployments db') = length ?rows"
    unfolding db' n count_where_def by (rule sum_length_filter_compl)
  moreover have "filter (\<lambda>d. dp_ProjectID d \<noteq> pid) (db_deployments db')
      = filter (\<lambda>d. dp_ProjectID d \<noteq> pid) ?rows"
    by (auto simp: db' intro!: filter_cong)
  ultimately show ?thesis using len order by blast
qed

text \<open>A secret is read back as it was written: with a 32-byte key every value, without a key every
  value that does not itself look encrypted; the other secrets stay as they are. The cipher and
  base64 give back what they encoded.\<close>
theorem SetSecret_GetSecret:
  assumes "SetSecret ci key up fresh nonce pid k value db = (None, db')"
    and "\<forall>p. ci_open ci key nonce (ci_seal ci key nonce p) = Some p"
    and "\<forall>x. ci_decode ci (ci_encode ci x) = Some x \<and> ci_encode ci x \<noteq> []"
    and "length nonce = nonceSize"
    and "key = [] \<longrightarrow> length value \<le> length encryptedPrefix \<or> \<not> has_prefix value encryptedPrefix"
  shows "(\<exists>s. GetSecret ci key True pid k db' = Inr s \<and> sx_Value s = value)
    \<and> (\<forall>pid' k'. (pid', k') \<noteq> (pid, k) \<longrightarrow>
         List.find (same_secret pid' k') (db_secrets db') = List.find (same_secret pid' k') (db_secrets db))"
proof -
  have dec: "decryptValue ci key stored = Inr value" if "encryptValue ci key nonce value = Inr stored" for stored
  proof (cases "key = []")
    case True
    with that assms(5) show ?thesis
      by (auto simp: encryptValue_def decryptValue_def has_prefix_def)
  next
    case False
    with that obtain c where c: "length key = keyLen" "c = nonce @ ci_seal ci key nonce value"
        "stored = encryptedPrefix @ ci_encode ci c"
      by (auto simp: encryptValue_def Encrypt_def split: sum.splits if_splits)
    have "Decrypt ci c key = Inr value"
      using c(1,2) assms(2,4) by (simp add: Decrypt_def)
    with False assms(3) c(3) show ?thesis by (auto simp: decryptValue_def)
  qed
  have find_new: "\<not> list_ex (same_secret pid k) rows \<Longrightarrow> same_secret pid k r
      \<Longrightarrow> List.find (same_secret pid k) (rows @ [r]) = Some r" for rows r
    by (induction rows) auto
  have find_other: "(pid', k') \<noteq> (pid, k) \<Longrightarrow> same_secret pid k r
      \<Longrightarrow> List.find (same_secret pid' k') (rows @ [r]) = List.find (same_secret pid' k') rows" for rows r pid' k'
    by (induction rows) (auto simp: same_secret_def)
  have upd: "list_ex (same_secret pid k) rows \<Longrightarrow>
      \<exists>s. List.find (same_secret pid k) (update_where (same_secret pid k) (\<lambda>s. s\<lparr>sx_Value := v\<rparr>) rows) = Some s
        \<and> sx_Value s = v" for rows v
    by (induction rows) (auto simp: update_where_def same_secret_def)
  have upd_other: "(pid', k') \<noteq> (pid, k) \<Longrightarrow>
      List.find (same_secret pid' k') (update_where (same_secret pid k) (\<lambda>s. s\<lparr>sx_Value := v\<rparr>) rows)
      = List.find (same_secret pid' k') rows" for rows v pid' k'
    by (induction rows) (auto simp: update_where_def same_secret_def)
  from assms(1) show ?thesis
  proof (cases rule: SetSecret_cases)
    case (updated stored)
    obtain s where "List.find (same_secret pid k) (db_secrets db') = Some s" "sx_Value s = stored"
      using upd[OF updated(3), of stored] updated(4) by auto
    with dec[OF updated(2)] upd_other updated(4) show ?thesis by (auto simp: GetSecret_def)
  next
    case (inserted stored)
    let ?r = "\<lparr>sx_ID = fresh, sx_ProjectID = pid, sx_Key = k, sx_Value = stored\<rparr>"
    have r: "same_secret pid k ?r" by (simp add: same_secret_def)
    show ?thesis
      using dec[OF inserted(2)] find_new[OF inserted(3) r] find_other[OF _ r] inserted(6)
      by (auto simp: GetSecret_def)
  qed simp
qed

subsection \<open>A sample registry\<close>

definition sample_project :: project_row where
  "sample_project = \<lparr>pj_ID = ''p1'', pj_Name = ''shop'', pj_Domain = ''shop.example'',
     pj_GitHubRepo = ''acme/shop'', pj_LinuxUser = ''shop'', pj_ProjectPath = ''/srv/shop'',
     pj_Template = ''node'', pj_Status = [], pj_Source = [], pj_ServerID = [],
     pj_BranchMappings = [], pj_CreatedAt = 0, pj_UpdatedAt = 0\<rparr>"

definition sample_deployment :: "string \<Rightarrow> deployment_row" where
  "sample_deployment did = \<lparr>dp_ID = did, dp_ProjectID = ''p1'', dp_CommitSHA = ''c'', dp_Status = [],
     dp_StartedAt = 0, dp_FinishedAt = None, dp_Log = []\<rparr>"

definition registry1 :: fleet_db where
  "registry1 = snd (CreateProject True 1 ''u1'' sample_project empty_fleet_db)"

definition registry3 :: fleet_db where
  "registry3 = snd (CreateDeployment True 3 ''u3'' (sample_deployment ''d2'')
     (snd (CreateDeployment True 2 ''u2'' (sample_deployment ''d1'') registry1)))"

lemma db_step_snd:
  "db_step db (snd (CreateProject up now fresh p db))"
  "db_step db (snd (CreateDeployment up now fresh d db))"
  by (auto intro: db_step.intros(1,5) simp: prod_eq_iff)

lemma registry3_reachable: "db_step\<^sup>*\<^sup>* empty_fleet_db registry3"
proof -
  have one: "db_step\<^sup>*\<^sup>* empty_fleet_db registry1"
    unfolding registry1_def by (rule r_into_rtranclp) (rule db_step_snd)
  have two: "db_step\<^sup>*\<^sup>* empty_fleet_db
      (snd (CreateDeployment True 2 ''u2'' (sample_deployment ''d1'') registry1))"
    by (rule rtranclp.rtrancl_into_rtrancl[OF one]) (rule db_step_snd)
  show ?thesis
    unfolding registry3_def by (rule rtranclp.rtrancl_into_rtrancl[OF two]) (rule db_step_snd)
qed

lemma registry3_inv: "fleet_inv registry3"
proof -
  have "fleet_inv empty_fleet_db"
    by (simp add: fleet_inv_def empty_fleet_db_def unique_rows_def child_ok_def)
  with registry3_reachable show ?thesis
    by (induction rule: rtranclp_induct) (auto intro: db_step_inv)
qed

lemma registry_integrity_witness: "fleet_inv registry3 \<and> length (db_deployments registry3) = 2"
proof
  show "fleet_inv registry3" by (rule registry_integrity[OF registry3_reachable])
qed code_simp

lemma DeleteProject_complete_witness:
  "\<not> project_referenced ''p1'' (snd (DeleteProject (\<lambda>_. True) ''shop'' registry3))"
proof -
  obtain e db' where run: "DeleteProject (\<lambda>_. True) ''shop'' registry3 = (e, db')"
    by (metis prod.exhaust)
  have "fst (DeleteProject (\<lambda>_. True) ''shop'' registry3) = None" by code_simp
  moreover have "map pj_ID (db_projects registry3) = [''p1'']" by code_simp
  ultimately show ?thesis
    using DeleteProject_complete[OF run registry3_inv] run by auto
qed

lemma PruneDeployments_newest_witness:
  "length (filter (\<lambda>d. dp_ProjectID d = ''p1'')
     (db_deployments (snd (PruneDeployments True ''p1'' 1 registry3)))) = 1"
proof -
  obtain r db' where run: "PruneDeployments True ''p1'' 1 registry3 = (r, db')"
    by (metis prod.exhaust)
  moreover have "fst (PruneDeployments True ''p1'' 1 registry3) = Inr 1" by code_simp
  ultimately have run': "PruneDeployments True ''p1'' 1 registry3 = (Inr 1, db')" by simp
  have "length (filter (\<lambda>d. dp_ProjectID d = ''p1'') (db_deployments registry3)) = 2" by code_simp
  with PruneDeployments_newest[OF run' _ registry3_inv] run' show ?thesis by simp
qed

definition sample_cipher :: cipher where
  "sample_cipher = \<lparr>ci_seal = (\<lambda>_ _ p. p), ci_open = (\<lambda>_ _ c. Some c),
     ci_encode = (\<lambda>x. CHR ''b'' # x), ci_decode = (\<lambda>x. Some (drop 1 x))\<rparr>"

lemma SetSecret_GetSecret_witness:
  "\<exists>s. GetSecret sample_cipher (replicate 32 (CHR ''k'')) True ''p1'' ''TOKEN''
     (snd (SetSecret sample_cipher (replicate 32 (CHR ''k'')) True ''u9'' (replicate 12 (CHR ''n''))
        ''p1'' ''TOKEN'' ''enc:hello'' registry3)) = Inr s \<and> sx_Value s = ''enc:hello''"
proof -
  let ?set = "SetSecret sample_cipher (replicate 32 (CHR ''k'')) True ''u9'' (replicate 12 (CHR ''n''))
        ''p1'' ''TOKEN'' ''enc:hello'' registry3"
  obtain e db' where run: "?set = (e, db')" by (metis prod.exhaust)
  have "fst ?set = None" by code_simp
  with run have run': "?set = (None, db')" by simp
  from SetSecret_GetSecret[OF run'] run' show ?thesis
    by (simp add: sample_cipher_def nonceSize_def)
qed

end
