(* ===== verification/Backup_Retention.thy ===== *)
theory Backup_Retention
  imports Fleet_Registry
begin

text \<open>
  \<open>internal/backup/retention.go\<close>: the retention of one project's backups over the record
  operations of the registry. The operations form the record \<open>backup_ops\<close> over a state \<open>'s\<close>;
  \<open>backup_table\<close> is their contract when any of them may fail, \<open>reliable_backup_table\<close> when none
  does. \<open>internal/db/backups.go\<close> provides both. The directories removed so far are a list;
  \<open>AddDate\<close> is a parameter (it depends on the calendar of the local time zone).
\<close>

record 's backup_ops =
  bo_CountBackupsByType :: "'s \<Rightarrow> string \<Rightarrow> (db_error + nat) \<times> 's"
  bo_GetOldestBackups :: "'s \<Rightarrow> string \<Rightarrow> nat \<Rightarrow> (db_error + backup_row list) \<times> 's"
  bo_GetExpiredBackups :: "'s \<Rightarrow> time \<Rightarrow> (db_error + backup_row list) \<times> 's"
  bo_DeleteBackupRecord :: "'s \<Rightarrow> string \<Rightarrow> db_error option \<times> 's"

subsection \<open>Retention\<close>

definition deleteBackup ::
  "'s backup_ops \<Rightarrow> (string \<Rightarrow> bool) \<Rightarrow> backup_row \<Rightarrow> 's \<times> string list \<Rightarrow> 's \<times> string list" where
  "deleteBackup ops rmdir_ok b st =
     (case st of (s, gone) \<Rightarrow>
        case bo_DeleteBackupRecord ops s (bk_ID b) of
          (Some e, s') \<Rightarrow> (s', gone)
        | (None, s') \<Rightarrow> (s', if rmdir_ok (bk_Path b) then bk_Path b # gone else gone))"

definition enforceMaxCount ::
  "'s backup_ops \<Rightarrow> (string \<Rightarrow> bool) \<Rightarrow> string \<Rightarrow> int \<Rightarrow> 's \<times> string list
    \<Rightarrow> db_error option \<times> 's \<times> string list" where
  "enforceMaxCount ops rmdir_ok backupType maxCount st =
     (if maxCount \<le> 0 then (None, st)
      else case bo_CountBackupsByType ops (fst st) backupType of
        (Inl e, s) \<Rightarrow> (Some e, s, snd st)
      | (Inr count, s) \<Rightarrow>
          if int count \<le> maxCount then (None, s, snd st)
          else case bo_GetOldestBackups ops s backupType (nat (int count - maxCount)) of
            (Inl e, s') \<Rightarrow> (Some e, s', snd st)
          | (Inr oldest, s') \<Rightarrow> (None, fold (deleteBackup ops rmdir_ok) oldest (s', snd st)))"

text \<open>The count's error is dropped, which leaves the count at zero.\<close>

definition expire_one ::
  "'s backup_ops \<Rightarrow> (string \<Rightarrow> bool) \<Rightarrow> backup_row \<Rightarrow> 's \<times> string list \<Rightarrow> 's \<times> string list" where
  "expire_one ops rmdir_ok b st =
     (case bo_CountBackupsByType ops (fst st) (bk_Type b) of
        (r, s) \<Rightarrow>
          if (case r of Inl _ \<Rightarrow> 0 | Inr n \<Rightarrow> n) \<le> 1 then (s, snd st)
          else deleteBackup ops rmdir_ok b (s, snd st))"

definition enforceMaxAge ::
  "'s backup_ops \<Rightarrow> (string \<Rightarrow> bool) \<Rightarrow> (time \<Rightarrow> int \<Rightarrow> time) \<Rightarrow> time \<Rightarrow> int \<Rightarrow> 's \<times> string list
    \<Rightarrow> db_error option \<times> 's \<times> string list" where
  "enforceMaxAge ops rmdir_ok addDays now maxAgeDays st =
     (if maxAgeDays > 0 then
        (case bo_GetExpiredBackups ops (fst st) (addDays now (- maxAgeDays)) of
           (Inl e, s) \<Rightarrow> (Some e, s, snd st)
         | (Inr expired, s) \<Rightarrow> (None, fold (expire_one ops rmdir_ok) expired (s, snd st)))
      else (None, st))"

definition EnforceRetention ::
  "'s backup_ops \<Rightarrow> (string \<Rightarrow> bool) \<Rightarrow> (time \<Rightarrow> int \<Rightarrow> time) \<Rightarrow> time \<Rightarrow> BackupConfig \<Rightarrow> 's \<times> string list
    \<Rightarrow> db_error option \<times> 's \<times> string list" where
  "EnforceRetention ops rmdir_ok addDays now cfg st =
     (case enforceMaxCount ops rmdir_ok ''manual'' (bc_MaxManualBackups cfg) st of
        (Some e, st1) \<Rightarrow> (Some e, st1)
      | (None, st1) \<Rightarrow>
          (case enforceMaxCount ops rmdir_ok ''snapshot'' (bc_MaxSnapshots cfg) st1 of
             (Some e, st2) \<Rightarrow> (Some e, st2)
           | (None, st2) \<Rightarrow> enforceMaxAge ops rmdir_ok addDays now (bc_MaxAgeDays cfg) st2))"

subsection \<open>The contract of the backup table\<close>

abbreviation typed :: "string \<Rightarrow> backup_row \<Rightarrow> bool" where
  "typed ty \<equiv> \<lambda>b. bk_Type b = ty"

locale backup_table =
  fixes ops :: "'s backup_ops" and inv :: "'s \<Rightarrow> bool" and rows :: "'s \<Rightarrow> backup_row list"
  assumes rows_unique: "inv s \<Longrightarrow> unique_rows bk_ID (rows s)"
    and count_law: "inv s \<Longrightarrow> bo_CountBackupsByType ops s ty = (r, s') \<Longrightarrow>
      inv s' \<and> rows s' = rows s \<and> (\<forall>n. r = Inr n \<longrightarrow> n = count_where (typed ty) (rows s))"
    and oldest_law: "inv s \<Longrightarrow> bo_GetOldestBackups ops s ty n = (q, s') \<Longrightarrow>
      inv s' \<and> rows s' = rows s
      \<and> (\<forall>bs. q = Inr bs \<longrightarrow> bs = take n (sort_key bk_CreatedAt (filter (typed ty) (rows s))))"
    and expired_law: "inv s \<Longrightarrow> bo_GetExpiredBackups ops s t = (q, s') \<Longrightarrow>
      inv s' \<and> rows s' = rows s
      \<and> (\<forall>bs. q = Inr bs \<longrightarrow> bs = sort_key bk_CreatedAt (filter (\<lambda>b. bk_CreatedAt b < t) (rows s)))"
    and delete_law: "inv s \<Longrightarrow> bid \<in> bk_ID ` set (rows s) \<Longrightarrow> bo_DeleteBackupRecord ops s bid = (e, s') \<Longrightarrow>
      inv s' \<and> rows s' = (if e = None then filter (\<lambda>b. bk_ID b \<noteq> bid) (rows s) else rows s)"

locale reliable_backup_table = backup_table ops inv rows
  for ops :: "'s backup_ops" and inv rows +
  assumes count_ok: "inv s \<Longrightarrow> bo_CountBackupsByType ops s ty = (r, s') \<Longrightarrow> \<exists>n. r = Inr n"
    and oldest_ok: "inv s \<Longrightarrow> bo_GetOldestBackups ops s ty n = (q, s') \<Longrightarrow> \<exists>bs. q = Inr bs"
    and expired_ok: "inv s \<Longrightarrow> bo_GetExpiredBackups ops s t = (q, s') \<Longrightarrow> \<exists>bs. q = Inr bs"
    and delete_ok: "inv s \<Longrightarrow> bo_DeleteBackupRecord ops s bid = (e, s') \<Longrightarrow> e = None"

lemma others_survive:
  "set bs \<subseteq> set rs \<Longrightarrow> bk_ID b \<notin> bk_ID ` set bs \<Longrightarrow> rs' \<in> {rs, filter (\<lambda>x. bk_ID x \<noteq> bk_ID b) rs} \<Longrightarrow>
    set bs \<subseteq> set rs'"
  by (auto 0 3 simp: image_iff intro: sym)

lemma count_delete:
  assumes "unique_rows bk_ID rs" "b \<in> set rs"
  shows "count_where p rs = (if p b then 1 else 0) + count_where p (filter (\<lambda>x. bk_ID x \<noteq> bk_ID b) rs)"
  using assms
proof (induction rs)
  case (Cons r rs)
  have tail: "unique_rows bk_ID rs" using Cons.prems by (simp add: unique_rows_def)
  show ?case
  proof (cases "r = b")
    case True
    then have "filter (\<lambda>x. bk_ID x \<noteq> bk_ID b) rs = rs"
      using Cons.prems by (auto simp: unique_rows_def filter_id_conv image_iff)
    with True show ?thesis by (simp add: count_where_def)
  next
    case False
    then have "b \<in> set rs" "bk_ID r \<noteq> bk_ID b"
      using Cons.prems by (auto simp: unique_rows_def)
    with Cons.IH[OF tail] show ?thesis by (simp add: count_where_def)
  qed
qed simp

text \<open>The files that went belong to records that went.\<close>

definition gone_ok :: "backup_row list \<Rightarrow> backup_row list \<Rightarrow> string list \<Rightarrow> string list \<Rightarrow> bool" where
  "gone_ok rs rs' gone gone' \<longleftrightarrow>
     (\<forall>p \<in> set gone' - set gone. \<exists>b \<in> set rs. bk_Path b = p \<and> bk_ID b \<notin> bk_ID ` set rs')
     \<and> set rs' \<subseteq> set rs"

lemma gone_ok_refl: "gone_ok rs rs gone gone"
  by (simp add: gone_ok_def)

lemma gone_ok_trans:
  assumes "gone_ok rs rs1 g g1" "gone_ok rs1 rs2 g1 g2"
  shows "gone_ok rs rs2 g g2"
  unfolding gone_ok_def
proof (intro conjI ballI)
  show "set rs2 \<subseteq> set rs" using assms by (auto simp: gone_ok_def)
  fix p
  assume p: "p \<in> set g2 - set g"
  show "\<exists>b\<in>set rs. bk_Path b = p \<and> bk_ID b \<notin> bk_ID ` set rs2"
  proof (cases "p \<in> set g1")
    case True
    then obtain b where "b \<in> set rs" "bk_Path b = p" "bk_ID b \<notin> bk_ID ` set rs1"
      using assms(1) p unfolding gone_ok_def by blast
    moreover have "bk_ID ` set rs2 \<subseteq> bk_ID ` set rs1" using assms(2) by (auto simp: gone_ok_def)
    ultimately show ?thesis by blast
  next
    case False
    then obtain b where "b \<in> set rs1" "bk_Path b = p" "bk_ID b \<notin> bk_ID ` set rs2"
      using assms(2) p unfolding gone_ok_def by blast
    with assms(1) show ?thesis unfolding gone_ok_def by blast
  qed
qed

lemma gone_ok_delete:
  assumes "b \<in> set rs"
  shows "gone_ok rs (filter (\<lambda>x. bk_ID x \<noteq> bk_ID b) rs) gone (if c then bk_Path b # gone else gone)"
proof -
  have "bk_ID b \<notin> bk_ID ` set (filter (\<lambda>x. bk_ID x \<noteq> bk_ID b) rs)" by auto
  with assms show ?thesis unfolding gone_ok_def by (cases c) auto
qed

context backup_table
begin

lemma deleteBackup_effect:
  assumes "inv s" "b \<in> set rs" "rs = rows s"
  shows "inv (fst (deleteBackup ops rm b (s, gone)))"
    "rows (fst (deleteBackup ops rm b (s, gone))) \<in> {rs, filter (\<lambda>x. bk_ID x \<noteq> bk_ID b) rs}"
    "gone_ok rs (rows (fst (deleteBackup ops rm b (s, gone)))) gone (snd (deleteBackup ops rm b (s, gone)))"
proof -
  obtain e s' where d: "bo_DeleteBackupRecord ops s (bk_ID b) = (e, s')" by (metis prod.exhaust)
  note law = delete_law[OF assms(1) _ d]
  have res: "deleteBackup ops rm b (s, gone) =
      (s', if e = None \<and> rm (bk_Path b) then bk_Path b # gone else gone)"
    using d by (simp add: deleteBackup_def split: option.split)
  show "inv (fst (deleteBackup ops rm b (s, gone)))"
    "rows (fst (deleteBackup ops rm b (s, gone))) \<in> {rs, filter (\<lambda>x. bk_ID x \<noteq> bk_ID b) rs}"
    "gone_ok rs (rows (fst (deleteBackup ops rm b (s, gone)))) gone (snd (deleteBackup ops rm b (s, gone)))"
    using law assms(2,3) gone_ok_delete[OF assms(2), of gone True] gone_ok_delete[OF assms(2), of gone False]
    by (cases e; simp add: res gone_ok_refl)+
qed

text \<open>Deleting a list of records removes at most that many of a type.\<close>

lemma fold_delete:
  assumes "inv s" "set bs \<subseteq> set (rows s)" "distinct (map bk_ID bs)"
  shows "inv (fst (fold (deleteBackup ops rm) bs (s, gone)))
    \<and> count_where p (rows s)
        \<le> length (filter p bs) + count_where p (rows (fst (fold (deleteBackup ops rm) bs (s, gone))))
    \<and> gone_ok (rows s) (rows (fst (fold (deleteBackup ops rm) bs (s, gone)))) gone
        (snd (fold (deleteBackup ops rm) bs (s, gone)))"
  using assms
proof (induction bs arbitrary: s gone)
  case Nil
  then show ?case by (simp add: gone_ok_refl)
next
  case (Cons b bs)
  obtain s1 gone1 where d: "deleteBackup ops rm b (s, gone) = (s1, gone1)" by (metis prod.exhaust)
  have b: "b \<in> set (rows s)" using Cons.prems(2) by simp
  note eff = deleteBackup_effect[OF Cons.prems(1) b refl, of rm gone, unfolded d fst_conv snd_conv]
  have "set bs \<subseteq> set (rows s1)"
    by (rule others_survive[OF _ _ eff(2)]) (use Cons.prems(2,3) in auto)
  note IH = Cons.IH[OF eff(1) this, of gone1]
  have "count_where p (rows s) \<le> (if p b then 1 else 0) + count_where p (rows s1)"
    using eff(2) count_delete[OF rows_unique[OF Cons.prems(1)] b, of p] by auto
  with IH Cons.prems(3) d show ?case by (auto intro: gone_ok_trans[OF eff(3)])
qed

lemma sorted_rows:
  assumes "inv s"
  shows "set (sort_key bk_CreatedAt (filter q (rows s))) \<subseteq> set (rows s)"
    "distinct (map bk_ID (sort_key bk_CreatedAt (filter q (rows s))))"
proof -
  show "set (sort_key bk_CreatedAt (filter q (rows s))) \<subseteq> set (rows s)" by auto
  have "distinct (map bk_ID (filter q (rows s)))"
    using unique_filter[OF rows_unique[OF assms], of q] by (simp add: unique_rows_def)
  moreover have "set (map bk_ID (sort_key bk_CreatedAt (filter q (rows s)))) = set (map bk_ID (filter q (rows s)))"
    by simp
  ultimately show "distinct (map bk_ID (sort_key bk_CreatedAt (filter q (rows s))))"
    by (metis card_distinct distinct_card length_map length_sort)
qed

text \<open>What every stage of the retention keeps: the invariant, the files, and a backup per type.\<close>

definition keeps :: "'s \<times> string list \<Rightarrow> 's \<times> string list \<Rightarrow> bool" where
  "keeps st st' \<longleftrightarrow> inv (fst st') \<and> gone_ok (rows (fst st)) (rows (fst st')) (snd st) (snd st')
     \<and> (\<forall>ty. count_where (typed ty) (rows (fst st)) > 0 \<longrightarrow> count_where (typed ty) (rows (fst st')) > 0)"

lemma keeps_trans: "keeps st st1 \<Longrightarrow> keeps st1 st2 \<Longrightarrow> keeps st st2"
  by (auto simp: keeps_def intro: gone_ok_trans)

lemma keeps_same: "inv s \<Longrightarrow> rows s = rows s0 \<Longrightarrow> keeps (s0, gone) (s, gone)"
  by (simp add: keeps_def gone_ok_refl)

lemma enforceMaxCount_keeps:
  assumes "inv (fst st)" "enforceMaxCount ops rm ty mx st = (e, st')"
  shows "keeps st st'"
proof -
  obtain s gone where st: "st = (s, gone)" by (cases st)
  have inv: "inv s" using assms(1) st by simp
  obtain r s1 where c: "bo_CountBackupsByType ops s ty = (r, s1)" by (metis prod.exhaust)
  note count = count_law[OF inv c]
  consider (skip) "st' = st" | (quiet) "st' = (s1, gone)"
    | (old) n where "r = Inr n" "0 < mx" "mx < int n"
    using assms(2) c st by (cases r) (auto simp: enforceMaxCount_def split: if_splits)
  then show ?thesis
  proof cases
    case (old n)
    obtain q s2 where o: "bo_GetOldestBackups ops s1 ty (nat (int n - mx)) = (q, s2)"
      by (metis prod.exhaust)
    note oldest = oldest_law[OF _ o]
    have n: "n = count_where (typed ty) (rows s)" using count old(1) by simp
    show ?thesis
    proof (cases q)
      case (Inl x)
      then have "st' = (s2, gone)"
        using assms(2) c st old o by (simp add: enforceMaxCount_def)
      then show ?thesis using st count oldest by (simp add: keeps_same)
    next
      case (Inr bs)
      then have st': "st' = fold (deleteBackup ops rm) bs (s2, gone)"
        using assms(2) c st old o by (simp add: enforceMaxCount_def)
      have inv2: "inv s2" and rows2: "rows s2 = rows s" using count oldest by auto
      let ?sorted = "sort_key bk_CreatedAt (filter (typed ty) (rows s))"
      have bs: "bs = take (nat (int n - mx)) ?sorted" using count oldest Inr by simp
      have sub: "set bs \<subseteq> set (rows s2)" "distinct (map bk_ID bs)"
        using sorted_rows[OF inv, of "typed ty"] bs rows2
        by (auto dest: in_set_takeD simp: take_map[symmetric])
      note f = fold_delete[OF inv2 sub, of rm gone]
      have "count_where (typed t) (rows (fst st')) > 0" if "count_where (typed t) (rows s) > 0" for t
      proof -
        have "length (filter (typed t) bs) < count_where (typed t) (rows s)"
        proof (cases "t = ty")
          case True
          have "length bs < n" using bs old by (simp add: n count_where_def)
          with True n show ?thesis
            using le_less_trans[OF length_filter_le[of "typed ty" bs]] by simp
        next
          case False
          have "bk_Type x = ty" if "x \<in> set bs" for x
            using that bs by (auto dest: in_set_takeD)
          with False have "filter (typed t) bs = []" by (auto simp: filter_empty_conv)
          with that show ?thesis by simp
        qed
        then show ?thesis using f rows2 st' by (metis add_less_cancel_left leD le_add_same_cancel1 not_gr_zero add.right_neutral)
      qed
      then show ?thesis using f st' st rows2 by (simp add: keeps_def)
    qed
  qed (use st inv count in \<open>auto simp: keeps_same\<close>)
qed

lemma expire_one_keeps:
  assumes "inv (fst st)" "b \<in> set (rows (fst st))"
  shows "keeps st (expire_one ops rm b st)
    \<and> rows (fst (expire_one ops rm b st)) \<in> {rows (fst st), filter (\<lambda>x. bk_ID x \<noteq> bk_ID b) (rows (fst st))}"
proof -
  obtain s gone where st: "st = (s, gone)" by (cases st)
  obtain r s1 where c: "bo_CountBackupsByType ops s (bk_Type b) = (r, s1)" by (metis prod.exhaust)
  have inv: "inv s" using assms st by simp
  note count = count_law[OF inv c]
  show ?thesis
  proof (cases "\<exists>n. r = Inr n \<and> 1 < n")
    case True
    then obtain n where n: "r = Inr n" "1 < n" by blast
    obtain s2 gone2 where d: "deleteBackup ops rm b (s1, gone) = (s2, gone2)" by (metis prod.exhaust)
    have b: "b \<in> set (rows s1)" using count assms(2) st by simp
    note eff = deleteBackup_effect[OF _ b refl, of rm gone, unfolded d fst_conv snd_conv]
    have res: "expire_one ops rm b st = (s2, gone2)" using c d n st by (simp add: expire_one_def)
    have "count_where (typed t) (rows s2) > 0" if "count_where (typed t) (rows s) > 0" for t
      using eff(2) count n that count_delete[OF rows_unique[OF inv], of b "typed t"] b
      by (auto split: if_splits)
    then show ?thesis using eff count res st by (auto simp: keeps_def)
  next
    case False
    then have "expire_one ops rm b st = (s1, gone)"
      using c st by (auto simp: expire_one_def split: sum.splits)
    with count st show ?thesis by (simp add: keeps_same)
  qed
qed

lemma fold_expire_keeps:
  assumes "inv (fst st)" "set bs \<subseteq> set (rows (fst st))" "distinct (map bk_ID bs)"
  shows "keeps st (fold (expire_one ops rm) bs st)"
  using assms
proof (induction bs arbitrary: st)
  case Nil
  then show ?case by (cases st) (simp add: keeps_same)
next
  case (Cons b bs)
  have step: "keeps st (expire_one ops rm b st)"
    "rows (fst (expire_one ops rm b st)) \<in> {rows (fst st), filter (\<lambda>x. bk_ID x \<noteq> bk_ID b) (rows (fst st))}"
    using expire_one_keeps[of st b rm] Cons.prems by auto
  have "set bs \<subseteq> set (rows (fst (expire_one ops rm b st)))"
    by (rule others_survive[OF _ _ step(2)]) (use Cons.prems(2,3) in auto)
  then have "keeps (expire_one ops rm b st) (fold (expire_one ops rm) bs (expire_one ops rm b st))"
    using Cons.IH[of "expire_one ops rm b st"] step(1) Cons.prems(3) by (simp add: keeps_def)
  with keeps_trans[OF step(1)] show ?case by simp
qed

lemma EnforceRetention_keeps:
  assumes "inv (fst st)" "EnforceRetention ops rm addDays now cfg st = (e, st')"
  shows "keeps st st'"
proof -
  obtain e1 st1 where m: "enforceMaxCount ops rm ''manual'' (bc_MaxManualBackups cfg) st = (e1, st1)"
    by (metis prod.exhaust)
  note k1 = enforceMaxCount_keeps[OF assms(1) m]
  obtain e2 st2 where n: "enforceMaxCount ops rm ''snapshot'' (bc_MaxSnapshots cfg) st1 = (e2, st2)"
    by (metis prod.exhaust)
  have "inv (fst st1)" using k1 by (simp add: keeps_def)
  note k2 = keeps_trans[OF k1 enforceMaxCount_keeps[OF this n]]
  obtain s2 g2 where s2: "st2 = (s2, g2)" by (cases st2)
  have inv2: "inv s2" using k2 s2 by (simp add: keeps_def)
  obtain q s3 where x: "bo_GetExpiredBackups ops s2 (addDays now (- bc_MaxAgeDays cfg)) = (q, s3)"
    by (metis prod.exhaust)
  note ex = expired_law[OF inv2 x]
  have k3: "keeps st2 (s3, g2)" using ex s2 by (simp add: keeps_same)
  consider "st' = st1" | "st' = st2" | "st' = (s3, g2)"
    | bs where "q = Inr bs" "st' = fold (expire_one ops rm) bs (s3, g2)"
    using assms(2) m n x s2
    by (cases e1; cases e2; cases q) (auto simp: EnforceRetention_def enforceMaxAge_def split: if_splits)
  then show ?thesis
  proof cases
    case 4
    have inv3: "inv (fst (s3, g2))" and rows3: "rows s3 = rows s2" using ex by simp_all
    have "set bs \<subseteq> set (rows (fst (s3, g2)))" "distinct (map bk_ID bs)"
      using sorted_rows[OF inv2] ex 4(1) rows3 by auto
    from fold_expire_keeps[OF inv3 this, of rm] 4 show ?thesis
      by (metis keeps_trans k2 k3)
  qed (use k1 k2 keeps_trans[OF k2 k3] in auto)
qed

end

subsection \<open>What remains when nothing fails\<close>

text \<open>The backups of one type, oldest first, and what a cap and a cutoff leave of them.\<close>

definition by_age :: "string \<Rightarrow> backup_row list \<Rightarrow> backup_row list" where
  "by_age ty rs = sort_key bk_CreatedAt (filter (typed ty) rs)"

definition capped :: "int \<Rightarrow> backup_row list \<Rightarrow> backup_row list" where
  "capped cap xs = (if cap \<le> 0 then xs else drop (length xs - nat cap) xs)"

definition unexpired :: "int \<Rightarrow> time \<Rightarrow> backup_row list \<Rightarrow> backup_row list" where
  "unexpired maxAgeDays cutoff xs =
     (if maxAgeDays \<le> 0 then xs
      else let ys = filter (\<lambda>b. cutoff \<le> bk_CreatedAt b) xs in
           if ys = [] then drop (length xs - 1) xs else ys)"

lemma delete_row:
  "unique_rows bk_ID rs \<Longrightarrow> b \<in> set rs \<Longrightarrow> filter (\<lambda>x. bk_ID x \<noteq> bk_ID b) rs = filter (\<lambda>x. x \<noteq> b) rs"
  by (rule filter_cong) (auto dest: unique_row_by_id)

lemma by_age_remove:
  "by_age ty (filter P rs) = filter P (by_age ty rs)"
  by (simp add: by_age_def filter_sort conj_commute)

lemma by_age_other:
  assumes "\<And>x. x \<in> set bs \<Longrightarrow> bk_Type x \<noteq> t"
  shows "by_age t (filter (\<lambda>x. x \<notin> set bs) rs) = by_age t rs"
proof -
  have "filter (\<lambda>x. x \<notin> set bs \<and> typed t x) rs = filter (typed t) rs"
    using assms by (intro filter_cong) auto
  then show ?thesis by (simp add: by_age_def conj_commute)
qed

lemma by_age_distinct:
  assumes "unique_rows bk_ID rs"
  shows "distinct (by_age ty rs)"
  using assms by (simp add: by_age_def unique_rows_def distinct_map)

lemma drop_is_filter:
  "distinct xs \<Longrightarrow> filter (\<lambda>x. x \<notin> set (take n xs)) xs = drop n xs"
proof -
  assume d: "distinct xs"
  have "filter (\<lambda>x. x \<notin> set (take n xs)) (take n xs @ drop n xs) = drop n xs"
    using set_take_disj_set_drop_if_distinct[OF d, of n n] by (subst filter_append) (auto simp: filter_id_conv)
  then show ?thesis by simp
qed

lemma snoc_split: "us @ x # vs = ys @ [x] \<Longrightarrow> x \<notin> set vs \<Longrightarrow> us = ys \<and> vs = []"
  by (cases vs rule: rev_cases) simp_all

lemma count_by_age: "count_where (typed ty) rs = length (by_age ty rs)"
  by (simp add: by_age_def count_where_def)

context reliable_backup_table
begin

lemma deleteBackup_done:
  assumes "inv s" "b \<in> set (rows s)"
  shows "inv (fst (deleteBackup ops rm b (s, gone)))"
    "rows (fst (deleteBackup ops rm b (s, gone))) = filter (\<lambda>x. x \<noteq> b) (rows s)"
proof -
  obtain e s' where d: "bo_DeleteBackupRecord ops s (bk_ID b) = (e, s')" by (metis prod.exhaust)
  from delete_law[OF assms(1) _ d] delete_ok[OF assms(1) d] d assms(2)
  show "inv (fst (deleteBackup ops rm b (s, gone)))"
    "rows (fst (deleteBackup ops rm b (s, gone))) = filter (\<lambda>x. x \<noteq> b) (rows s)"
    by (simp_all add: deleteBackup_def delete_row[OF rows_unique[OF assms(1)] assms(2)])
qed

lemma fold_delete_done:
  assumes "inv s" "set bs \<subseteq> set (rows s)" "distinct bs"
  shows "inv (fst (fold (deleteBackup ops rm) bs (s, gone)))
    \<and> rows (fst (fold (deleteBackup ops rm) bs (s, gone))) = filter (\<lambda>x. x \<notin> set bs) (rows s)"
  using assms
proof (induction bs arbitrary: s gone)
  case (Cons b bs)
  obtain s1 g1 where d: "deleteBackup ops rm b (s, gone) = (s1, g1)" by (metis prod.exhaust)
  have b: "b \<in> set (rows s)" using Cons.prems by simp
  note del = deleteBackup_done[OF Cons.prems(1) b, of rm gone, unfolded d fst_conv]
  have "set bs \<subseteq> set (rows s1)" using del Cons.prems by auto
  from Cons.IH[OF del(1) this] Cons.prems(3) show ?case
    by (auto simp: d del intro: filter_cong)
qed simp

lemma enforceMaxCount_done:
  assumes "inv s"
  shows "\<exists>st'. enforceMaxCount ops rm ty mx (s, gone) = (None, st') \<and> inv (fst st')
    \<and> by_age ty (rows (fst st')) = capped mx (by_age ty (rows s))
    \<and> (\<forall>t. t \<noteq> ty \<longrightarrow> by_age t (rows (fst st')) = by_age t (rows s))"
proof -
  obtain r s1 where c: "bo_CountBackupsByType ops s ty = (r, s1)" by (metis prod.exhaust)
  note count = count_law[OF assms c]
  from count_ok[OF assms c] count have r: "r = Inr (length (by_age ty (rows s)))"
    by (auto simp: count_by_age)
  let ?n = "length (by_age ty (rows s))"
  obtain q s2 where o: "bo_GetOldestBackups ops s1 ty (nat (int ?n - mx)) = (q, s2)"
    by (metis prod.exhaust)
  have inv1: "inv s1" using count by simp
  note oldest = oldest_law[OF inv1 o]
  have q: "q = Inr (take (nat (int ?n - mx)) (by_age ty (rows s)))"
    using oldest_ok[OF inv1 o] oldest count by (auto simp: by_age_def)
  show ?thesis
  proof (cases "0 < mx \<and> mx < int ?n")
    case True
    let ?bs = "take (nat (int ?n - mx)) (by_age ty (rows s))"
    have sub: "set ?bs \<subseteq> set (rows s2)" "distinct ?bs"
      using by_age_distinct[OF rows_unique[OF assms], of ty] oldest count
      by (auto simp: by_age_def dest!: in_set_takeD)
    have inv2: "inv s2" and rows2: "rows s2 = rows s" using oldest count by auto
    note f = fold_delete_done[OF inv2 sub, of rm gone]
    have other: "by_age t (rows (fst (fold (deleteBackup ops rm) ?bs (s2, gone)))) = by_age t (rows s)"
      if "t \<noteq> ty" for t
    proof -
      have "bk_Type x \<noteq> t" if "x \<in> set ?bs" for x
        using that \<open>t \<noteq> ty\<close> by (auto simp: by_age_def dest!: in_set_takeD)
      from by_age_other[OF this] f rows2 show ?thesis by simp
    qed
    have "by_age ty (rows (fst (fold (deleteBackup ops rm) ?bs (s2, gone)))) = capped mx (by_age ty (rows s))"
      using f rows2 True drop_is_filter[OF by_age_distinct[OF rows_unique[OF assms]], of "nat (int ?n - mx)" ty]
      by (simp add: by_age_remove capped_def nat_diff_distrib)
    with f other True c r o q show ?thesis by (simp add: enforceMaxCount_def)
  next
    case False
    then show ?thesis
      using c r count assms by (cases "mx \<le> 0") (auto simp: enforceMaxCount_def capped_def)
  qed
qed

lemma expire_one_done:
  assumes "inv s" "b \<in> set (rows s)"
  shows "inv (fst (expire_one ops rm b (s, gone)))
    \<and> rows (fst (expire_one ops rm b (s, gone)))
        = (if length (by_age (bk_Type b) (rows s)) \<le> 1 then rows s else filter (\<lambda>x. x \<noteq> b) (rows s))"
proof -
  obtain r s1 where c: "bo_CountBackupsByType ops s (bk_Type b) = (r, s1)" by (metis prod.exhaust)
  note count = count_law[OF assms(1) c]
  from count_ok[OF assms(1) c] count have r: "r = Inr (length (by_age (bk_Type b) (rows s)))"
    by (auto simp: count_by_age)
  have "inv s1" "b \<in> set (rows s1)" using count assms by auto
  from deleteBackup_done[OF this, of rm gone] count c r assms show ?thesis
    by (simp add: expire_one_def)
qed

text \<open>While a newer backup of the type stays out of the list, every backup of the type in it goes.\<close>

lemma fold_expire_done:
  assumes "inv s" "set bs \<subseteq> set (rows s)" "distinct bs" "x \<in> set (rows s) \<Longrightarrow> bk_Type x = ty \<Longrightarrow> x \<notin> set bs"
    and "(\<exists>b \<in> set bs. bk_Type b = ty) \<longrightarrow> x \<in> set (rows s) \<and> bk_Type x = ty"
  shows "inv (fst (fold (expire_one ops rm) bs (s, gone)))
    \<and> set (rows s) - set bs \<subseteq> set (rows (fst (fold (expire_one ops rm) bs (s, gone))))
    \<and> by_age ty (rows (fst (fold (expire_one ops rm) bs (s, gone))))
        = filter (\<lambda>y. y \<notin> set bs) (by_age ty (rows s))"
  using assms
proof (induction bs arbitrary: s gone)
  case (Cons b bs)
  obtain s1 g1 where e: "expire_one ops rm b (s, gone) = (s1, g1)" by (metis prod.exhaust)
  have b: "b \<in> set (rows s)" using Cons.prems by simp
  note one = expire_one_done[OF Cons.prems(1) b, of rm gone, unfolded e fst_conv]
  have sub: "set bs \<subseteq> set (rows s1)" using one Cons.prems(2,3) by auto
  have sup: "set (rows s) - {b} \<subseteq> set (rows s1)" "set (rows s1) \<subseteq> set (rows s)"
    using one by (auto split: if_splits)
  have keep: "(\<exists>c \<in> set bs. bk_Type c = ty) \<longrightarrow> x \<in> set (rows s1) \<and> bk_Type x = ty"
    using Cons.prems(4,5) sup by auto
  have "x \<in> set (rows s1) \<Longrightarrow> bk_Type x = ty \<Longrightarrow> x \<notin> set bs" using Cons.prems(4) sup by auto
  note IH = Cons.IH[OF conjunct1[OF one] sub _ this keep, of g1]
  have step: "by_age ty (rows s1) = filter (\<lambda>y. y \<noteq> b) (by_age ty (rows s))"
  proof (cases "bk_Type b = ty")
    case True
    then have x: "x \<in> set (rows s)" "bk_Type x = ty" "x \<noteq> b" using Cons.prems(4,5) by auto
    have "{x, b} \<subseteq> set (by_age ty (rows s))" using x b True by (auto simp: by_age_def)
    then have "card {x, b} \<le> length (by_age ty (rows s))"
      by (meson card_length card_mono List.finite_set order_trans)
    with one True x(3) show ?thesis by (simp add: by_age_remove)
  next
    case False
    then have "by_age ty (filter (\<lambda>y. y \<notin> set [b]) (rows s)) = by_age ty (rows s)"
      by (intro by_age_other) simp
    with one False show ?thesis
      by (auto simp: by_age_remove by_age_def intro!: filter_True[symmetric])
  qed
  from IH Cons.prems(3) sup(1) show ?case
    by (auto simp: e step intro: filter_cong)
qed simp

text \<open>When the whole type is in the list, the last one of it stays.\<close>

lemma fold_expire_last:
  assumes "inv s" "set bs \<subseteq> set (rows s)" "distinct bs"
    and "filter (typed ty) bs = by_age ty (rows s)" "by_age ty (rows s) = ys @ [x]"
  shows "by_age ty (rows (fst (fold (expire_one ops rm) bs (s, gone)))) = [x]"
proof -
  have "x \<in> set (filter (typed ty) bs)" using assms(4,5) by simp
  then obtain us vs where split: "bs = us @ x # vs" "bk_Type x = ty" by (auto dest: split_list)
  have "filter (typed ty) us @ x # filter (typed ty) vs = ys @ [x]" using assms(4,5) split by simp
  moreover have "x \<notin> set (filter (typed ty) vs)" using assms(3) split by simp
  ultimately have vs: "filter (typed ty) us = ys \<and> filter (typed ty) vs = []" by (rule snoc_split)
  note bs = split(1) conjunct1[OF vs] conjunct2[OF vs] split(2)
  obtain s1 g1 where f1: "fold (expire_one ops rm) us (s, gone) = (s1, g1)" by (metis prod.exhaust)
  have pre: "set us \<subseteq> set (rows s)" "distinct us" "x \<notin> set us" "x \<in> set (rows s)"
    using assms(2,3) bs by auto
  note one = fold_expire_done[OF assms(1) pre(1,2), of x ty rm gone, unfolded f1 fst_conv]
  have s1: "inv s1" "set (rows s) - set us \<subseteq> set (rows s1)"
    "by_age ty (rows s1) = filter (\<lambda>y. y \<notin> set us) (by_age ty (rows s))"
    using one pre bs(4) by auto
  have "set ys \<subseteq> set us" using bs(2) by auto
  then have left: "by_age ty (rows s1) = [x]"
    using s1(3) assms(5) pre(3) by (auto simp: filter_empty_conv)
  have x1: "x \<in> set (rows s1)" using s1(2) pre by auto
  obtain s2 g2 where f2: "expire_one ops rm x (s1, g1) = (s2, g2)" by (metis prod.exhaust)
  note two = expire_one_done[OF s1(1) x1, of rm g1, unfolded f2 fst_conv]
  have s2: "inv s2" "rows s2 = rows s1" using two left bs(4) by auto
  have "set vs \<subseteq> set (rows s2)" "distinct vs" using assms(2,3) bs s1(2) s2(2) by auto
  from fold_expire_done[OF s2(1) this, of x ty rm g2] bs(1,3) assms(3) s2 left
  have "by_age ty (rows (fst (fold (expire_one ops rm) vs (s2, g2)))) = filter (\<lambda>y. y \<notin> set vs) [x]"
    by (auto simp: filter_empty_conv)
  then show ?thesis using assms(3) by (simp add: bs(1) f1 f2)
qed

lemma enforceMaxAge_done:
  assumes "inv s"
  shows "\<exists>st'. enforceMaxAge ops rm addDays now maxAge (s, gone) = (None, st') \<and> inv (fst st')
    \<and> (\<forall>ty. by_age ty (rows (fst st')) = unexpired maxAge (addDays now (- maxAge)) (by_age ty (rows s)))"
proof (cases "0 < maxAge")
  case True
  let ?cut = "addDays now (- maxAge)"
  obtain q s1 where x: "bo_GetExpiredBackups ops s ?cut = (q, s1)" by (metis prod.exhaust)
  note ex = expired_law[OF assms x]
  let ?bs = "sort_key bk_CreatedAt (filter (\<lambda>b. bk_CreatedAt b < ?cut) (rows s))"
  have q: "q = Inr ?bs" using expired_ok[OF assms x] ex by auto
  have s1: "inv s1" "rows s1 = rows s" using ex by auto
  have bs: "set ?bs \<subseteq> set (rows s1)" "distinct ?bs"
    using rows_unique[OF assms] s1(2) by (auto simp: unique_rows_def distinct_map)
  let ?fin = "fold (expire_one ops rm) ?bs (s1, gone)"
  have res: "by_age ty (rows (fst ?fin)) = unexpired maxAge ?cut (by_age ty (rows s))" for ty
  proof -
    let ?L = "by_age ty (rows s)"
    have mem: "y \<in> set ?bs \<longleftrightarrow> \<not> ?cut \<le> bk_CreatedAt y" if "y \<in> set ?L" for y
      using that by (auto simp: by_age_def)
    have part: "filter (typed ty) ?bs = filter (\<lambda>b. bk_CreatedAt b < ?cut) ?L"
      by (simp add: by_age_def filter_sort conj_commute)
    show ?thesis
    proof (cases "\<exists>y \<in> set ?L. ?cut \<le> bk_CreatedAt y")
      case True
      then obtain y where y: "y \<in> set ?L" "?cut \<le> bk_CreatedAt y" by blast
      then have "y \<in> set (rows s1)" "bk_Type y = ty" "y \<notin> set ?bs" using s1 by (auto simp: by_age_def)
      with fold_expire_done[OF s1(1) bs, of y ty rm gone]
      have "by_age ty (rows (fst ?fin)) = filter (\<lambda>y. y \<notin> set ?bs) ?L" using s1(2) by simp
      also have "\<dots> = filter (\<lambda>b. ?cut \<le> bk_CreatedAt b) ?L"
        using mem by (intro filter_cong) auto
      finally show ?thesis using \<open>0 < maxAge\<close> y by (auto simp: unexpired_def filter_empty_conv)
    next
      case False
      then have all: "filter (typed ty) ?bs = by_age ty (rows s1)"
        unfolding part s1(2) by (auto simp: filter_id_conv not_le)
      have none: "filter (\<lambda>b. ?cut \<le> bk_CreatedAt b) ?L = []" using False by (auto simp: filter_empty_conv)
      show ?thesis
      proof (cases ?L rule: rev_cases)
        case Nil
        then have "\<not> (\<exists>b\<in>set ?bs. bk_Type b = ty)" using all s1(2) by (auto simp: filter_empty_conv)
        then show ?thesis
          using fold_expire_done[OF s1(1) bs, of undefined ty rm gone] Nil s1(2) by (auto simp: unexpired_def)
      next
        case (snoc ys y)
        with fold_expire_last[OF s1(1) bs all, of ys y rm gone] none s1(2) \<open>0 < maxAge\<close> show ?thesis
          by (simp add: unexpired_def)
      qed
    qed
  qed
  have "enforceMaxAge ops rm addDays now maxAge (s, gone) = (None, ?fin)"
    using True x q by (simp add: enforceMaxAge_def)
  moreover have "inv (fst ?fin)"
    using fold_expire_keeps[of "(s1, gone)" ?bs rm] s1 bs sorted_rows[OF assms] by (simp add: keeps_def)
  ultimately show ?thesis using res by blast
next
  case False
  then show ?thesis using assms by (simp add: enforceMaxAge_def unexpired_def)
qed

text \<open>The retention policy of a project, type by type.\<close>

lemma EnforceRetention_done:
  assumes "inv s"
  shows "\<exists>st'. EnforceRetention ops rm addDays now cfg (s, gone) = (None, st') \<and> inv (fst st')
    \<and> (\<forall>ty. by_age ty (rows (fst st')) = unexpired (bc_MaxAgeDays cfg) (addDays now (- bc_MaxAgeDays cfg))
          ((if ty = ''manual'' then capped (bc_MaxManualBackups cfg)
            else if ty = ''snapshot'' then capped (bc_MaxSnapshots cfg) else (\<lambda>xs. xs)) (by_age ty (rows s))))"
proof -
  obtain s1 g1 where one: "enforceMaxCount ops rm ''manual'' (bc_MaxManualBackups cfg) (s, gone) = (None, s1, g1)"
    "inv s1" "by_age ''manual'' (rows s1) = capped (bc_MaxManualBackups cfg) (by_age ''manual'' (rows s))"
    "\<forall>t. t \<noteq> ''manual'' \<longrightarrow> by_age t (rows s1) = by_age t (rows s)"
    using enforceMaxCount_done[OF assms, of rm "''manual''" "bc_MaxManualBackups cfg" gone] by auto
  obtain s2 g2 where two: "enforceMaxCount ops rm ''snapshot'' (bc_MaxSnapshots cfg) (s1, g1) = (None, s2, g2)"
    "inv s2" "by_age ''snapshot'' (rows s2) = capped (bc_MaxSnapshots cfg) (by_age ''snapshot'' (rows s1))"
    "\<forall>t. t \<noteq> ''snapshot'' \<longrightarrow> by_age t (rows s2) = by_age t (rows s1)"
    using enforceMaxCount_done[OF one(2), of rm "''snapshot''" "bc_MaxSnapshots cfg" g1] by auto
  have "by_age ty (rows s2) = (if ty = ''manual'' then capped (bc_MaxManualBackups cfg)
            else if ty = ''snapshot'' then capped (bc_MaxSnapshots cfg) else (\<lambda>xs. xs)) (by_age ty (rows s))" for ty
    using one two by auto
  with enforceMaxAge_done[OF two(2), of rm addDays now "bc_MaxAgeDays cfg" g2] show ?thesis
    using one(1) two(1) by (auto simp: EnforceRetention_def)
qed

end

subsection \<open>The registry as a backup table\<close>

text \<open>The operations of one project on the registry; the counter numbers the statements and \<open>ups\<close> says
  which of them succeed. The rest of the registry is frozen by \<open>registry_frame\<close>.\<close>

definition sql_backups :: "string \<Rightarrow> (nat \<Rightarrow> bool) \<Rightarrow> (fleet_db \<times> nat) backup_ops" where
  "sql_backups pid ups =
     \<lparr>bo_CountBackupsByType = (\<lambda>(db, n) ty. (CountBackupsByType (ups n) pid ty db, db, Suc n)),
      bo_GetOldestBackups = (\<lambda>(db, n) ty k. (GetOldestBackups (ups n) pid ty k db, db, Suc n)),
      bo_GetExpiredBackups = (\<lambda>(db, n) t. (GetExpiredBackups (ups n) pid t db, db, Suc n)),
      bo_DeleteBackupRecord = (\<lambda>(db, n) bid. case DeleteBackupRecord (ups n) bid db of (e, db') \<Rightarrow> (e, db', Suc n))\<rparr>"

definition project_backups :: "string \<Rightarrow> fleet_db \<Rightarrow> backup_row list" where
  "project_backups pid db = filter (\<lambda>b. bk_ProjectID b = pid) (db_backups db)"

definition without_backups_of :: "string \<Rightarrow> fleet_db \<Rightarrow> fleet_db" where
  "without_backups_of pid db = db\<lparr>db_backups := filter (\<lambda>b. bk_ProjectID b \<noteq> pid) (db_backups db)\<rparr>"

definition registry_frame :: "string \<Rightarrow> fleet_db \<Rightarrow> fleet_db \<times> nat \<Rightarrow> bool" where
  "registry_frame pid rest s \<longleftrightarrow> fleet_inv (fst s) \<and> without_backups_of pid (fst s) = rest"

lemma of_type_project:
  "filter (of_type pid ty) rows = filter (typed ty) (filter (\<lambda>b. bk_ProjectID b = pid) rows)"
  by (auto simp: of_type_def intro!: filter_cong)

lemma sql_backups_delete:
  assumes "fleet_inv db" "bid \<in> bk_ID ` set (project_backups pid db)" "DeleteBackupRecord up bid db = (e, db')"
  shows "fleet_inv db' \<and> without_backups_of pid db' = without_backups_of pid db
    \<and> project_backups pid db' = (if e = None then filter (\<lambda>b. bk_ID b \<noteq> bid) (project_backups pid db)
                                else project_backups pid db)"
proof -
  have "unique_rows bk_ID (db_backups db)" using assms(1) by (simp add: fleet_inv_def child_ok_def)
  then have "b \<in> set (db_backups db) \<Longrightarrow> bk_ProjectID b \<noteq> pid \<Longrightarrow> bk_ID b \<noteq> bid" for b
    using assms(2) unique_row_by_id[of bk_ID "db_backups db" b] by (auto simp: project_backups_def)
  then have frame: "filter (\<lambda>b. bk_ProjectID b \<noteq> pid \<and> bk_ID b \<noteq> bid) (db_backups db)
      = filter (\<lambda>b. bk_ProjectID b \<noteq> pid) (db_backups db)"
    by (intro filter_cong) auto
  show ?thesis
    using backup_ops_inv(1)[OF assms(3,1)] assms(3) frame
    by (auto simp: DeleteBackupRecord_def without_backups_of_def project_backups_def conj_commute split: if_splits)
qed

interpretation registry: backup_table "sql_backups pid ups" "registry_frame pid rest" "\<lambda>s. project_backups pid (fst s)"
  for pid ups rest
proof unfold_locales
  fix s
  assume "registry_frame pid rest s"
  then show "unique_rows bk_ID (project_backups pid (fst s))"
    by (simp add: registry_frame_def fleet_inv_def child_ok_def project_backups_def unique_filter)
next
  fix s ty r s'
  assume "registry_frame pid rest s" "bo_CountBackupsByType (sql_backups pid ups) s ty = (r, s')"
  then show "registry_frame pid rest s' \<and> project_backups pid (fst s') = project_backups pid (fst s)
    \<and> (\<forall>n. r = Inr n \<longrightarrow> n = count_where (typed ty) (project_backups pid (fst s)))"
    by (cases s) (auto simp: sql_backups_def CountBackupsByType_def count_where_def of_type_project
        project_backups_def registry_frame_def split: if_splits)
next
  fix s ty n r s'
  assume "registry_frame pid rest s" "bo_GetOldestBackups (sql_backups pid ups) s ty n = (r, s')"
  then show "registry_frame pid rest s' \<and> project_backups pid (fst s') = project_backups pid (fst s)
    \<and> (\<forall>bs. r = Inr bs \<longrightarrow>
          bs = take n (sort_key bk_CreatedAt (filter (typed ty) (project_backups pid (fst s)))))"
    by (cases s) (auto simp: sql_backups_def GetOldestBackups_def of_type_project
        project_backups_def registry_frame_def split: if_splits)
next
  fix s t r s'
  assume "registry_frame pid rest s" "bo_GetExpiredBackups (sql_backups pid ups) s t = (r, s')"
  then show "registry_frame pid rest s' \<and> project_backups pid (fst s') = project_backups pid (fst s)
    \<and> (\<forall>bs. r = Inr bs \<longrightarrow>
          bs = sort_key bk_CreatedAt (filter (\<lambda>b. bk_CreatedAt b < t) (project_backups pid (fst s))))"
    by (cases s) (auto simp: sql_backups_def GetExpiredBackups_def project_backups_def registry_frame_def
        conj_commute split: if_splits)
next
  fix s bid e s'
  assume inv: "registry_frame pid rest s" and mem: "bid \<in> bk_ID ` set (project_backups pid (fst s))"
    and del: "bo_DeleteBackupRecord (sql_backups pid ups) s bid = (e, s')"
  obtain db' where d: "DeleteBackupRecord (ups (snd s)) bid (fst s) = (e, db')" "s' = (db', Suc (snd s))"
    using del by (auto simp: sql_backups_def split: prod.splits)
  show "registry_frame pid rest s' \<and> project_backups pid (fst s')
      = (if e = None then filter (\<lambda>b. bk_ID b \<noteq> bid) (project_backups pid (fst s))
         else project_backups pid (fst s))"
    using sql_backups_delete[OF _ mem d(1)] inv d(2) by (simp add: registry_frame_def)
qed

interpretation sound_registry: reliable_backup_table "sql_backups pid (\<lambda>_. True)" "registry_frame pid rest"
  "\<lambda>s. project_backups pid (fst s)" for pid rest
  by unfold_locales (auto simp: sql_backups_def CountBackupsByType_def GetOldestBackups_def
      GetExpiredBackups_def DeleteBackupRecord_def)

text \<open>C16. Whatever statements and removals fail, retention leaves every type of backup a project had with
  at least one backup, touches nothing of the registry but backups of that project, and removes the
  files only of backups whose record is gone.\<close>
theorem retention_keeps_a_backup:
  assumes "fleet_inv db"
    and "EnforceRetention (sql_backups pid ups) rmdir_ok addDays now cfg ((db, n), gone) = (e, (db', n'), gone')"
  shows "fleet_inv db' \<and> without_backups_of pid db' = without_backups_of pid db
    \<and> (\<forall>ty. count_where (of_type pid ty) (db_backups db) > 0 \<longrightarrow> count_where (of_type pid ty) (db_backups db') > 0)
    \<and> (\<forall>p \<in> set gone' - set gone. \<exists>b \<in> set (project_backups pid db).
          bk_Path b = p \<and> bk_ID b \<notin> bk_ID ` set (project_backups pid db'))"
proof -
  have "registry_frame pid (without_backups_of pid db) (db, n)" using assms(1) by (simp add: registry_frame_def)
  from registry.EnforceRetention_keeps[of pid "without_backups_of pid db" "((db, n), gone)", simplified fst_conv,
      OF this assms(2)]
  show ?thesis
    unfolding registry.keeps_def gone_ok_def registry_frame_def
    by (simp add: count_where_def of_type_project project_backups_def)
qed

text \<open>C17. When nothing fails, retention leaves exactly what the policy says of the backups of every type
  of the project: the newest ones up to the cap of the type (a cap of zero keeps all), without those
  older than the cutoff, except that the newest one stays.\<close>
theorem retention_policy:
  assumes "fleet_inv db"
    and "EnforceRetention (sql_backups pid (\<lambda>_. True)) rmdir_ok addDays now cfg ((db, n), gone) = (e, (db', n'), gone')"
  shows "e = None \<and> by_age ty (project_backups pid db') =
    unexpired (bc_MaxAgeDays cfg) (addDays now (- bc_MaxAgeDays cfg))
      ((if ty = ''manual'' then capped (bc_MaxManualBackups cfg)
        else if ty = ''snapshot'' then capped (bc_MaxSnapshots cfg) else (\<lambda>xs. xs))
       (by_age ty (project_backups pid db)))"
proof -
  have "registry_frame pid (without_backups_of pid db) (db, n)" using assms(1) by (simp add: registry_frame_def)
  from sound_registry.EnforceRetention_done[OF this, of rmdir_ok addDays now cfg gone] assms(2)
  show ?thesis by fastforce
qed

subsection \<open>Examples\<close>

definition sample_backup_row :: "string \<Rightarrow> backup_row" where
  "sample_backup_row bid = \<lparr>bk_ID = bid, bk_ProjectID = ''p1'', bk_Type = ''manual'', bk_Trigger = ''user'',
     bk_Path = ''/b/'' @ bid, bk_SizeBytes = 1, bk_CreatedAt = 0\<rparr>"

definition registry_backups :: fleet_db where
  "registry_backups = snd (CreateBackupRecord True 7 ''u'' (sample_backup_row ''b2'')
     (snd (CreateBackupRecord True 5 ''u'' (sample_backup_row ''b1'') registry3)))"

definition sample_retention :: BackupConfig where
  "sample_retention = \<lparr>bc_BasePath = ''/b'', bc_MaxManualBackups = 1, bc_MaxSnapshots = 2, bc_MaxAgeDays = 1,
     bc_MaxTotalSizeGB = 1, bc_AutoSnapshot = False, bc_Remote = \<lparr>br_Driver = [], br_Target = [], br_AutoPush = False\<rparr>\<rparr>"

lemma registry_backups_inv: "fleet_inv registry_backups"
  unfolding registry_backups_def
  by (rule CreateBackupRecord_inv[OF surjective_pairing], rule CreateBackupRecord_inv[OF surjective_pairing],
      rule registry3_inv)

definition retained :: "db_error option \<times> (fleet_db \<times> nat) \<times> string list" where
  "retained = EnforceRetention (sql_backups ''p1'' (\<lambda>_. True)) (\<lambda>_. True) (\<lambda>t d. t + d) 100 sample_retention
     ((registry_backups, 0), [])"

lemma retention_keeps_a_backup_witness:
  "fleet_inv (fst (fst (snd retained)))
    \<and> count_where (of_type ''p1'' ''manual'') (db_backups (fst (fst (snd retained)))) = 1"
proof
  obtain e db' n' gone' where r: "retained = (e, (db', n'), gone')" by (metis prod.exhaust)
  from retention_keeps_a_backup[OF registry_backups_inv r[unfolded retained_def]]
  show "fleet_inv (fst (fst (snd retained)))" by (simp add: r)
qed code_simp

lemma retention_policy_witness:
  "map bk_ID (by_age ''manual'' (project_backups ''p1'' (fst (fst (snd retained))))) = [''b2'']"
proof -
  obtain e db' n' gone' where r: "retained = (e, (db', n'), gone')" by (metis prod.exhaust)
  have "map bk_ID (unexpired 1 (100 - 1) (capped 1 (by_age ''manual'' (project_backups ''p1'' registry_backups))))
      = [''b2'']"
    by code_simp
  with retention_policy[OF registry_backups_inv r[unfolded retained_def], of "''manual''"] show ?thesis
    by (simp add: r sample_retention_def)
qed

end
