(* ===== verification/Backup_Files.thy ===== *)
theory Backup_Files
  imports Backup_Retention "HOL-Library.List_Lexorder" "HOL-Library.Char_ord"
begin

text \<open>
  \<open>internal/backup\<close>: the files of a backup and their verification (\<open>paths.go\<close>, \<open>files.go\<close>,
  \<open>source.go\<close>, \<open>verify.go\<close>, \<open>backup.go\<close>, \<open>ReadManifest\<close> of \<open>restore.go\<close>). A directory
  opened with \<open>os.OpenRoot\<close> is a tree: the association list of its entries by relative name.
  Every operation on an entry may fail: \<open>io_bad op name\<close> says so, \<open>io_cut\<close> is how much of a
  failed copy was written. \<open>sha\<close> (hex SHA-256), the gzip reader, the manifest's JSON, YAML and
  \<open>filepath.Glob\<close> are parameters. Links inside a backup are not followed: the model refuses to
  write through one.
\<close>

subsection \<open>Entries\<close>

datatype node = Regular nat string | Directory | Symlink | Special

type_synonym tree = "(string \<times> node) list"

datatype backup_error =
    InvalidPath | NotExist | IoFailed | UnsafePath | BadComponent | NotRegular | NoChecksum
  | ChecksumMismatch | BadGzip | BadManifest | BadCompose | BadEnvFile | BadLabel | RecordFailed

datatype file_op =
    OpRoot | OpLstat | OpOpen | OpStat | OpRead | OpSeek | OpMkdir | OpCreate | OpChmod | OpWrite
  | OpClose | OpSync | OpRename | OpRemove | OpGlob

record fs_io =
  io_bad :: "file_op \<Rightarrow> string \<Rightarrow> bool"
  io_cut :: "string \<Rightarrow> nat"

definition good_io :: fs_io where
  "good_io = \<lparr>io_bad = (\<lambda>_ _. False), io_cut = (\<lambda>_. 0)\<rparr>"

definition lstat :: "fs_io \<Rightarrow> tree \<Rightarrow> string \<Rightarrow> backup_error + node" where
  "lstat io t name =
     (if io_bad io OpLstat name then Inl IoFailed
      else case map_of t name of None \<Rightarrow> Inl NotExist | Some nd \<Rightarrow> Inr nd)"

fun is_regular :: "node \<Rightarrow> bool" where
  "is_regular (Regular _ _) = True"
| "is_regular _ = False"

fun node_size :: "node \<Rightarrow> int" where
  "node_size (Regular _ c) = int (length c)"
| "node_size _ = 0"

subsection \<open>Paths\<close>

definition validateRelativePath :: "string \<Rightarrow> backup_error option" where
  "validateRelativePath name =
     (if \<not> is_local name \<or> name = ''.'' \<or> contains_any name [CHR 0x5C, CHR '':'', CHR 0x00]
         \<or> (\<exists>part \<in> set (split_on CHR ''/'' name). part = ''..'' \<or> part = ''.'' \<or> part = [])
      then Some InvalidPath else None)"

definition dockerObjectName :: "string \<Rightarrow> bool" where
  "dockerObjectName s \<longleftrightarrow>
     (case s of [] \<Rightarrow> False
      | c # cs \<Rightarrow> is_alnum c \<and> list_all (\<lambda>d. is_alnum d \<or> d \<in> set ''_.-'') cs)"

definition databaseComponentName :: "string \<Rightarrow> bool" where
  "databaseComponentName s \<longleftrightarrow>
     has_suffix s '' (PostgreSQL)'' \<and> dockerObjectName (trim_suffix s '' (PostgreSQL)'')
     \<or> has_suffix s '' (MySQL)'' \<and> dockerObjectName (trim_suffix s '' (MySQL)'')"

record ComponentInfo =
  ci_Type :: string
  ci_Name :: string
  ci_Path :: string
  ci_SizeBytes :: int
  ci_Checksum :: string
  ci_RestorePath :: string

record Manifest =
  mf_Version :: string
  mf_ProjectName :: string
  mf_ProjectPath :: string
  mf_Domain :: string
  mf_CreatedAt :: string
  mf_Type :: string
  mf_Trigger :: string
  mf_Components :: "ComponentInfo list"

definition validate_volume :: "ComponentInfo \<Rightarrow> backup_error option" where
  "validate_volume cmp =
     (if has_prefix (path_base (ci_Path cmp)) ''namedvol_'' then
        (if \<not> has_suffix (ci_Name cmp) '' (named volume)''
            \<or> \<not> dockerObjectName (trim_suffix (ci_Name cmp) '' (named volume)'')
            \<or> ci_RestorePath cmp \<noteq> [] then Some BadComponent else None)
      else if ci_RestorePath cmp \<noteq> [] then validateRelativePath (ci_RestorePath cmp) else None)"

definition validateComponent :: "ComponentInfo \<Rightarrow> backup_error option" where
  "validateComponent cmp =
     (case validateRelativePath (ci_Path cmp) of
        Some e \<Rightarrow> Some e
      | None \<Rightarrow>
          if ci_Type cmp = ''config'' then validateRelativePath (ci_Name cmp)
          else if ci_Type cmp = ''database'' then
            (if databaseComponentName (ci_Name cmp) then None else Some BadComponent)
          else if ci_Type cmp = ''volume'' then validate_volume cmp
          else Some BadComponent)"

definition path_prefixes :: "string \<Rightarrow> string list" where
  "path_prefixes name =
     (let parts = split_on CHR ''/'' name in
      map (\<lambda>i. join_with ''/'' (take (Suc i) parts)) [0..<length parts])"

fun check_prefixes ::
  "fs_io \<Rightarrow> tree \<Rightarrow> bool \<Rightarrow> bool \<Rightarrow> string list \<Rightarrow> backup_error option" where
  "check_prefixes io t directory allowMissing [] = None"
| "check_prefixes io t directory allowMissing (p # ps) =
     (case lstat io t p of
        Inl e \<Rightarrow> if e = NotExist \<and> allowMissing then None else Some e
      | Inr nd \<Rightarrow>
          let wantDir = (ps \<noteq> [] \<or> directory) in
          if nd = Symlink \<or> (wantDir \<and> nd \<noteq> Directory) \<or> (\<not> wantDir \<and> \<not> is_regular nd)
          then Some UnsafePath
          else check_prefixes io t directory allowMissing ps)"

definition checkPath :: "fs_io \<Rightarrow> tree \<Rightarrow> string \<Rightarrow> bool \<Rightarrow> bool \<Rightarrow> backup_error option" where
  "checkPath io t name directory allowMissing =
     (case validateRelativePath name of
        Some e \<Rightarrow> Some e
      | None \<Rightarrow> check_prefixes io t directory allowMissing (path_prefixes name))"

text \<open>\<open>root.Open\<close>, \<open>Stat\<close> and reading to the end.\<close>

definition open_file :: "fs_io \<Rightarrow> tree \<Rightarrow> string \<Rightarrow> backup_error + node" where
  "open_file io t name =
     (if io_bad io OpOpen name then Inl IoFailed
      else case map_of t name of None \<Rightarrow> Inl NotExist | Some nd \<Rightarrow> Inr nd)"

definition read_file :: "fs_io \<Rightarrow> tree \<Rightarrow> string \<Rightarrow> backup_error + string" where
  "read_file io t name =
     (case open_file io t name of
        Inl e \<Rightarrow> Inl e
      | Inr (Regular m c) \<Rightarrow> if io_bad io OpRead name then Inl IoFailed else Inr c
      | Inr _ \<Rightarrow> Inl IoFailed)"

subsection \<open>Verification\<close>

datatype VerifyStatus = VerifyOK | VerifyMissing | VerifyFailed

record VerifyResult =
  vr_Component :: ComponentInfo
  vr_Status :: VerifyStatus
  vr_Error :: "backup_error option"

datatype gzip_result = GzBadHeader | GzCorrupt | GzOk

definition verify_failed :: "ComponentInfo \<Rightarrow> backup_error \<Rightarrow> VerifyResult" where
  "verify_failed cmp e = \<lparr>vr_Component = cmp, vr_Status = VerifyFailed, vr_Error = Some e\<rparr>"

definition verify_ok :: "ComponentInfo \<Rightarrow> VerifyResult" where
  "verify_ok cmp = \<lparr>vr_Component = cmp, vr_Status = VerifyOK, vr_Error = None\<rparr>"

definition verifyConfigFile ::
  "(string \<Rightarrow> string) \<Rightarrow> fs_io \<Rightarrow> string \<Rightarrow> ComponentInfo \<Rightarrow> VerifyResult" where
  "verifyConfigFile sha io content cmp =
     (if ci_Checksum cmp = [] then verify_failed cmp NoChecksum
      else if io_bad io OpRead (ci_Path cmp) then verify_failed cmp IoFailed
      else if sha content \<noteq> ci_Checksum cmp then verify_failed cmp ChecksumMismatch
      else verify_ok cmp)"

definition verifyGzipFile ::
  "(string \<Rightarrow> gzip_result) \<Rightarrow> fs_io \<Rightarrow> string \<Rightarrow> ComponentInfo \<Rightarrow> VerifyResult" where
  "verifyGzipFile gz io content cmp =
     (if io_bad io OpRead (ci_Path cmp) \<or> gz content \<noteq> GzOk then verify_failed cmp BadGzip
      else verify_ok cmp)"

definition verify_content ::
  "(string \<Rightarrow> string) \<Rightarrow> (string \<Rightarrow> gzip_result) \<Rightarrow> fs_io \<Rightarrow> string \<Rightarrow> ComponentInfo \<Rightarrow> VerifyResult" where
  "verify_content sha gz io content cmp =
     (if ci_Type cmp = ''config'' then verifyConfigFile sha io content cmp
      else if ci_Checksum cmp \<noteq> [] then
        (let result = verifyConfigFile sha io content cmp in
         if vr_Status result \<noteq> VerifyOK then result
         else if io_bad io OpSeek (ci_Path cmp) then verify_failed cmp IoFailed
         else verifyGzipFile gz io content cmp)
      else verifyGzipFile gz io content cmp)"

definition verifyComponent ::
  "(string \<Rightarrow> string) \<Rightarrow> (string \<Rightarrow> gzip_result) \<Rightarrow> fs_io \<Rightarrow> tree \<Rightarrow> ComponentInfo \<Rightarrow> VerifyResult" where
  "verifyComponent sha gz io t cmp =
     (case validateComponent cmp of
        Some e \<Rightarrow> verify_failed cmp e
      | None \<Rightarrow>
          if io_bad io OpRoot [] then verify_failed cmp IoFailed
          else case checkPath io t (ci_Path cmp) False False of
            Some e \<Rightarrow>
              if e = NotExist
              then \<lparr>vr_Component = cmp, vr_Status = VerifyMissing, vr_Error = Some e\<rparr>
              else verify_failed cmp e
          | None \<Rightarrow>
              (case open_file io t (ci_Path cmp) of
                 Inl e \<Rightarrow> verify_failed cmp e
               | Inr nd \<Rightarrow>
                   if io_bad io OpStat (ci_Path cmp) then verify_failed cmp IoFailed
                   else (case nd of
                       Regular m content \<Rightarrow> verify_content sha gz io content cmp
                     | _ \<Rightarrow> verify_failed cmp NotRegular)))"

definition verifyManifest ::
  "(string \<Rightarrow> string) \<Rightarrow> (string \<Rightarrow> gzip_result) \<Rightarrow> fs_io \<Rightarrow> tree \<Rightarrow> Manifest \<Rightarrow> VerifyResult list" where
  "verifyManifest sha gz io t m = map (verifyComponent sha gz io t) (mf_Components m)"

definition manifestName :: string where
  "manifestName = ''manifest.json''"

definition ReadManifest ::
  "(string \<Rightarrow> Manifest option) \<Rightarrow> fs_io \<Rightarrow> tree \<Rightarrow> backup_error + Manifest" where
  "ReadManifest dec io t =
     (if io_bad io OpRoot [] then Inl IoFailed
      else case checkPath io t manifestName False False of
        Some e \<Rightarrow> Inl e
      | None \<Rightarrow>
          (case read_file io t manifestName of
             Inl e \<Rightarrow> Inl e
           | Inr data \<Rightarrow> (case dec data of None \<Rightarrow> Inl BadManifest | Some m \<Rightarrow> Inr m)))"

definition VerifyBackup ::
  "(string \<Rightarrow> string) \<Rightarrow> (string \<Rightarrow> gzip_result) \<Rightarrow> (string \<Rightarrow> Manifest option) \<Rightarrow> fs_io \<Rightarrow> tree
    \<Rightarrow> backup_error + VerifyResult list" where
  "VerifyBackup sha gz dec io t =
     (case ReadManifest dec io t of
        Inl e \<Rightarrow> Inl e
      | Inr m \<Rightarrow> Inr (verifyManifest sha gz io t m))"

definition CountResults :: "VerifyResult list \<Rightarrow> nat \<times> nat \<times> nat \<times> nat" where
  "CountResults results =
     (length results,
      count_where (\<lambda>r. vr_Status r = VerifyOK) results,
      count_where (\<lambda>r. vr_Status r = VerifyFailed) results,
      count_where (\<lambda>r. vr_Status r = VerifyMissing) results)"

definition HasFailures :: "VerifyResult list \<Rightarrow> bool" where
  "HasFailures results \<longleftrightarrow> list_ex (\<lambda>r. vr_Status r \<noteq> VerifyOK) results"

subsection \<open>What the checks establish\<close>

lemma split_on_two: "split_on d (a @ d # b) = split_on d a @ split_on d b"
  by (induction a) (auto split: list.splits)

lemma clean_step_append:
  "clean_step True st (us @ vs) = clean_step True (rev (clean_step True st us)) vs"
  by (induction "True" st us rule: clean_step.induct) (auto split: list.splits)

lemma is_abs_first: "is_abs p \<longleftrightarrow> (\<exists>q. p = CHR ''/'' # q)"
  by (auto simp: is_abs_def has_prefix_iff)

lemma split_on_first_slash: "is_abs p \<Longrightarrow> [] \<in> set (split_on CHR ''/'' p)"
  by (auto simp: is_abs_first)

lemma if_None_cond: "(if b then Some e else None) = None \<Longrightarrow> \<not> b"
  by (simp split: if_splits)

lemma valid_components:
  "validateRelativePath name = None \<longleftrightarrow>
     list_all normal_component (split_on CHR ''/'' name)
     \<and> \<not> contains_any name [CHR 0x5C, CHR '':'', CHR 0x00]"
    (is "?l \<longleftrightarrow> ?parts \<and> ?chars")
proof
  assume ?l
  then have "\<not> (\<not> is_local name \<or> name = ''.'' \<or> contains_any name [CHR 0x5C, CHR '':'', CHR 0x00]
      \<or> (\<exists>part \<in> set (split_on CHR ''/'' name). part = ''..'' \<or> part = ''.'' \<or> part = []))"
    unfolding validateRelativePath_def by (rule if_None_cond)
  then show "?parts \<and> ?chars"
    using split_on_no_sep[of _ "CHR ''/''" name] by (simp add: list_all_iff normal_component_def)
next
  assume r: "?parts \<and> ?chars"
  then have parts: "\<forall>part \<in> set (split_on CHR ''/'' name). part \<noteq> ''..'' \<and> part \<noteq> ''.'' \<and> part \<noteq> []"
    by (simp add: list_all_iff normal_component_def)
  have "name \<noteq> []" "name \<noteq> ''.''" "name \<noteq> ''..''" using parts by (intro notI; simp)+
  moreover have "\<not> is_abs name" using split_on_first_slash parts by blast
  moreover have "\<not> has_prefix name ''../''"
  proof
    assume "has_prefix name ''../''"
    then obtain z where "name = ''..'' @ CHR ''/'' # z" by (auto simp: has_prefix_iff)
    with parts show False using split_on_append[of "CHR ''/''" "''..''" z] by simp
  qed
  ultimately have "is_local name" using parts by (auto simp: is_local_def list_ex_iff)
  with r parts \<open>name \<noteq> ''.''\<close> show ?l by (auto simp: validateRelativePath_def)
qed

lemma join_under_root:
  assumes "is_abs root" "list_all normal_component (split_on CHR ''/'' name)"
  shows "path_join [root, name] = abs_path (clean_components root @ split_on CHR ''/'' name)"
proof -
  have ne: "root \<noteq> []" "name \<noteq> []" using assms by (auto simp: is_abs_first normal_component_def)
  let ?p = "root @ CHR ''/'' # name"
  have abs: "is_abs ?p" using assms(1) by (auto simp: is_abs_first)
  have "clean_components ?p = clean_step True (rev (clean_components root)) (split_on CHR ''/'' name)"
    using abs assms(1) by (simp add: clean_components_def split_on_two clean_step_append)
  also have "\<dots> = clean_components root @ filter (\<lambda>w. w \<noteq> []) (split_on CHR ''/'' name)"
    using assms(2) by (subst clean_step_keeps) (auto simp: list_all_iff)
  also have "\<dots> = clean_components root @ split_on CHR ''/'' name"
    by (simp add: filter_nonempty_normal[OF assms(2)])
  finally show ?thesis using ne by (simp add: path_join_def path_clean_abs[OF abs])
qed

text \<open>A component or destination path the backup accepts is a chain of plain names: it has no empty,
  \<open>.\<close> or \<open>..\<close> part, no backslash, colon or NUL, and below any absolute directory it names exactly the
  entry reached through these parts, never one outside.\<close>
theorem validateRelativePath_inside:
  "(validateRelativePath name = None \<longleftrightarrow>
      list_all normal_component (split_on CHR ''/'' name) \<and> set name \<inter> {CHR 0x5C, CHR '':'', CHR 0x00} = {})
   \<and> (\<forall>root. is_abs root \<and> validateRelativePath name = None \<longrightarrow>
        path_join [root, name] = abs_path (clean_components root @ split_on CHR ''/'' name))"
  using valid_components[of name] join_under_root[of _ name]
  by (auto simp: contains_any_def list_ex_iff)

lemma validateRelativePath_inside_witness:
  "path_join [''/srv/shop'', ''config/.env''] = abs_path [''srv'', ''shop'', ''config'', ''.env'']"
proof -
  have "is_abs ''/srv/shop'' \<and> validateRelativePath ''config/.env'' = None" by code_simp
  moreover have "clean_components ''/srv/shop'' @ split_on CHR ''/'' ''config/.env'' = [''srv'', ''shop'', ''config'', ''.env'']"
    by code_simp
  ultimately show ?thesis using validateRelativePath_inside[of "''config/.env''"] by metis
qed

subsection \<open>What a verification accepts\<close>

lemma check_prefixes_None:
  "check_prefixes io t d False ps = None \<longleftrightarrow>
     (\<forall>p \<in> set ps. \<not> io_bad io OpLstat p)
     \<and> (\<forall>p \<in> set (butlast ps). map_of t p = Some Directory)
     \<and> (ps \<noteq> [] \<longrightarrow> (if d then map_of t (last ps) = Some Directory
                    else \<exists>m c. map_of t (last ps) = Some (Regular m c)))"
proof (induction ps)
  case (Cons p ps)
  show ?case
  proof (cases "io_bad io OpLstat p")
    case False
    show ?thesis
    proof (cases "map_of t p")
      case (Some nd)
      with False Cons show ?thesis by (cases nd) (auto simp: lstat_def)
    qed (use False in \<open>auto simp: lstat_def\<close>)
  qed (simp add: lstat_def)
qed simp

lemma path_prefixes_last: "path_prefixes name \<noteq> []" "last (path_prefixes name) = name"
  by (simp_all add: path_prefixes_def Let_def last_map)

text \<open>The file a component names, as the verification finds it.\<close>

definition sound_file :: "fs_io \<Rightarrow> tree \<Rightarrow> string \<Rightarrow> string \<Rightarrow> bool" where
  "sound_file io t name content \<longleftrightarrow>
     (\<forall>p \<in> set (path_prefixes name). \<not> io_bad io OpLstat p)
     \<and> (\<forall>p \<in> set (butlast (path_prefixes name)). map_of t p = Some Directory)
     \<and> (\<exists>m. map_of t name = Some (Regular m content))"

lemma checkPath_None:
  "checkPath io t name False False = None \<longleftrightarrow>
     validateRelativePath name = None \<and> (\<exists>content. sound_file io t name content)"
  by (auto simp: checkPath_def check_prefixes_None sound_file_def path_prefixes_last split: option.splits)

definition sound_content :: "(string \<Rightarrow> string) \<Rightarrow> (string \<Rightarrow> gzip_result) \<Rightarrow> ComponentInfo \<Rightarrow> string \<Rightarrow> bool" where
  "sound_content sha gz cmp content \<longleftrightarrow>
     (if ci_Type cmp = ''config'' then ci_Checksum cmp \<noteq> [] \<and> sha content = ci_Checksum cmp
      else gz content = GzOk \<and> (ci_Checksum cmp = [] \<or> sha content = ci_Checksum cmp))"

definition readable :: "fs_io \<Rightarrow> ComponentInfo \<Rightarrow> bool" where
  "readable io cmp \<longleftrightarrow> \<not> io_bad io OpRoot [] \<and> \<not> io_bad io OpOpen (ci_Path cmp)
     \<and> \<not> io_bad io OpStat (ci_Path cmp) \<and> \<not> io_bad io OpRead (ci_Path cmp)
     \<and> (ci_Type cmp = ''config'' \<or> ci_Checksum cmp = [] \<or> \<not> io_bad io OpSeek (ci_Path cmp))"

lemma verify_status [simp]:
  "vr_Status (verify_failed cmp e) = VerifyFailed" "vr_Status (verify_ok cmp) = VerifyOK"
  by (simp_all add: verify_failed_def verify_ok_def)

lemma verify_content_ok:
  "vr_Status (verify_content sha gz io content cmp) = VerifyOK \<longleftrightarrow>
     sound_content sha gz cmp content \<and> \<not> io_bad io OpRead (ci_Path cmp)
     \<and> (ci_Type cmp = ''config'' \<or> ci_Checksum cmp = [] \<or> \<not> io_bad io OpSeek (ci_Path cmp))"
  by (auto simp: verify_content_def verifyConfigFile_def verifyGzipFile_def sound_content_def Let_def)

lemma verifyComponent_ok:
  "vr_Status (verifyComponent sha gz io t cmp) = VerifyOK \<longleftrightarrow>
     validateComponent cmp = None \<and> readable io cmp
     \<and> (\<exists>content. sound_file io t (ci_Path cmp) content \<and> sound_content sha gz cmp content)"
proof (cases "validateComponent cmp")
  case None
  then have valid: "validateRelativePath (ci_Path cmp) = None"
    by (simp add: validateComponent_def split: option.splits)
  show ?thesis
  proof (cases "checkPath io t (ci_Path cmp) False False")
    case None2: None
    then obtain content m where f: "sound_file io t (ci_Path cmp) content"
      "map_of t (ci_Path cmp) = Some (Regular m content)"
      by (auto simp: checkPath_None sound_file_def)
    then have "sound_file io t (ci_Path cmp) c \<longleftrightarrow> c = content" for c
      by (auto simp: sound_file_def)
    with None None2 f show ?thesis
      by (auto simp: verifyComponent_def open_file_def verify_content_ok readable_def)
  next
    case (Some e)
    then have "\<not> (\<exists>content. sound_file io t (ci_Path cmp) content)"
      using checkPath_None[of io t "ci_Path cmp"] valid by auto
    with None Some show ?thesis by (auto simp: verifyComponent_def)
  qed
qed (simp add: verifyComponent_def)

lemma HasFailures_iff: "HasFailures rs \<longleftrightarrow> (\<exists>r \<in> set rs. vr_Status r \<noteq> VerifyOK)"
  by (simp add: HasFailures_def list_ex_iff)

text \<open>C15. A backup verifies without failure exactly when its manifest could be read and every component of
  it is of a known kind with valid names, and its file is a regular one below real directories (no
  link on the way), readable, with the recorded SHA-256 (required for configuration files) and, for
  dumps and archives, an intact gzip stream; the counts then say that all are OK.\<close>
theorem VerifyBackup_sound:
  "(\<exists>results. VerifyBackup sha gz dec io t = Inr results \<and> \<not> HasFailures results
      \<and> CountResults results = (length results, length results, 0, 0)) \<longleftrightarrow>
   (\<exists>m. ReadManifest dec io t = Inr m
      \<and> (\<forall>cmp \<in> set (mf_Components m). validateComponent cmp = None \<and> readable io cmp
           \<and> (\<exists>content. sound_file io t (ci_Path cmp) content \<and> sound_content sha gz cmp content)))"
proof -
  have counts: "CountResults rs = (length rs, length rs, 0, 0)" if "\<forall>r \<in> set rs. vr_Status r = VerifyOK" for rs
    using that by (auto simp: CountResults_def count_where_def filter_empty_conv)
  show ?thesis
  proof (cases "ReadManifest dec io t")
    case (Inr m)
    then show ?thesis
      using counts[of "verifyManifest sha gz io t m"]
      by (auto simp: VerifyBackup_def HasFailures_iff verifyManifest_def verifyComponent_ok)
  qed (simp add: VerifyBackup_def)
qed

definition sample_manifest :: Manifest where
  "sample_manifest = \<lparr>mf_Version = ''1'', mf_ProjectName = ''shop'', mf_ProjectPath = ''/srv/shop'', mf_Domain = [],
     mf_CreatedAt = [], mf_Type = ''manual'', mf_Trigger = ''user'',
     mf_Components = [\<lparr>ci_Type = ''config'', ci_Name = ''.env'', ci_Path = ''config/.env'', ci_SizeBytes = 3,
        ci_Checksum = ''A=1'', ci_RestorePath = []\<rparr>]\<rparr>"

definition sample_tree :: tree where
  "sample_tree = [(''manifest.json'', Regular 0 ''{}''), (''config'', Directory), (''config/.env'', Regular 0 ''A=1'')]"

lemma VerifyBackup_sound_witness:
  "\<exists>results. VerifyBackup (\<lambda>s. s) (\<lambda>_. GzCorrupt) (\<lambda>_. Some sample_manifest) good_io sample_tree = Inr results
     \<and> \<not> HasFailures results \<and> CountResults results = (length results, length results, 0, 0)"
proof -
  let ?c = "hd (mf_Components sample_manifest)"
  have one: "set (mf_Components sample_manifest) = {?c}" by (simp add: sample_manifest_def)
  have m: "ReadManifest (\<lambda>_. Some sample_manifest) good_io sample_tree = Inr sample_manifest" by code_simp
  have "vr_Status (verifyComponent (\<lambda>s. s) (\<lambda>_. GzCorrupt) good_io sample_tree ?c) = VerifyOK" by code_simp
  with m one show ?thesis by (intro VerifyBackup_sound[THEN iffD2]) (simp add: verifyComponent_ok)
qed

end
