(* ===== verification/Backup_Create.thy ===== *)
theory Backup_Create
  imports Backup_Files
begin

text \<open>
  \<open>internal/backup\<close>: the creation of a backup (\<open>files.go\<close>, \<open>database.go\<close>,
  \<open>database_environment.go\<close>, \<open>database_kind.go\<close>, \<open>volumes.go\<close>, \<open>volume_config.go\<close>,
  \<open>CreateBackup\<close> of \<open>backup.go\<close>). The project and the backup are trees. What leaves the
  process is the host: globbing, YAML and JSON decoding, the docker commands, the dump pipelines
  and the archive commands, each \<open>None\<close> when it failed. Maps are association lists in the order
  the loop visits them. The progress output is dropped.
\<close>

subsection \<open>Compose files\<close>

datatype yaml_node =
    YamlAbsent
  | YamlScalar string string
  | YamlMapping "(string \<times> bool) option"
  | YamlSequence "yaml_node list"
  | YamlOther

datatype label_value = LabelString string | LabelOther

datatype labels =
    LabelsNil
  | LabelsMap "(string \<times> label_value) list"
  | LabelsList "label_value list"
  | LabelsInvalid

record compose_service =
  cs_Image :: string
  cs_Labels :: labels
  cs_EnvFile :: yaml_node

type_synonym compose_file = "(string \<times> compose_service) list"

record environmentFile =
  ef_Path :: string
  ef_Required :: bool

definition one_env_file :: "string \<Rightarrow> bool \<Rightarrow> backup_error + environmentFile list" where
  "one_env_file p required = (if p = [] then Inl BadEnvFile else Inr [\<lparr>ef_Path = p, ef_Required = required\<rparr>])"

fun environmentFiles :: "yaml_node \<Rightarrow> backup_error + environmentFile list" where
  "environmentFiles YamlAbsent = Inr []"
| "environmentFiles (YamlScalar tag v) = (if tag \<noteq> ''!!str'' then Inl BadEnvFile else one_env_file v True)"
| "environmentFiles (YamlMapping None) = Inl BadEnvFile"
| "environmentFiles (YamlMapping (Some (p, required))) = one_env_file p required"
| "environmentFiles (YamlSequence []) = Inr []"
| "environmentFiles (YamlSequence (entry # entries)) =
     (case environmentFiles entry of
        Inl e \<Rightarrow> Inl e
      | Inr refs \<Rightarrow>
          (case environmentFiles (YamlSequence entries) of
             Inl e \<Rightarrow> Inl e
           | Inr rest \<Rightarrow> Inr (refs @ rest)))"
| "environmentFiles YamlOther = Inl BadEnvFile"

definition DatabaseLabel :: string where
  "DatabaseLabel = ''io.fleetdeck.backup.database''"

fun label_in_list :: "label_value list \<Rightarrow> label_value option \<Rightarrow> backup_error + label_value option" where
  "label_in_list [] found = Inr found"
| "label_in_list (LabelOther # ls) found = Inl BadLabel"
| "label_in_list (LabelString l # ls) found =
     (case cut_at CHR ''='' l of
        (key, v, _) \<Rightarrow>
          if key = DatabaseLabel then
            (if found \<noteq> None then Inl BadLabel else label_in_list ls (Some (LabelString v)))
          else label_in_list ls found)"

fun find_label :: "labels \<Rightarrow> backup_error + label_value option" where
  "find_label LabelsNil = Inr None"
| "find_label (LabelsMap m) = Inr (map_of m DatabaseLabel)"
| "find_label (LabelsList ls) = label_in_list ls None"
| "find_label LabelsInvalid = Inl BadLabel"

definition bare_image :: "string \<Rightarrow> string" where
  "bare_image img =
     (let name = before CHR ''@'' (to_lower img) in
      before CHR '':''
        (if has_prefix name ''docker.io/library/'' then trim_prefix name ''docker.io/library/''
         else if has_prefix name ''index.docker.io/library/'' then trim_prefix name ''index.docker.io/library/''
         else if has_prefix name ''library/'' then trim_prefix name ''library/''
         else name))"

definition engines :: "string list" where
  "engines = [''postgres'', ''mysql'', ''mariadb'']"

definition DatabaseKind :: "string \<Rightarrow> labels \<Rightarrow> backup_error + string" where
  "DatabaseKind img labels =
     (case find_label labels of
        Inl e \<Rightarrow> Inl e
      | Inr (Some v) \<Rightarrow>
          (case v of
             LabelString engine \<Rightarrow> if engine \<in> set engines then Inr engine else Inl BadLabel
           | LabelOther \<Rightarrow> Inl BadLabel)
      | Inr None \<Rightarrow>
          (let name = bare_image img in
           if name \<in> set engines then Inr name
           else if list_ex (has_prefix name) engines then Inl BadLabel
           else Inr []))"

subsection \<open>The host\<close>

record composeMount =
  cm_Type :: string
  cm_Source :: string
  cm_Target :: string
  cm_ReadOnly :: bool

record volumeConfig =
  vc_Services :: "(string \<times> composeMount list) list"
  vc_Volumes :: "(string \<times> string) list"

record backup_host =
  bh_glob :: "string \<Rightarrow> string list option"
  bh_yaml :: "string \<Rightarrow> compose_file option"
  bh_docker :: "string list \<Rightarrow> string option"
  bh_json_env :: "string \<Rightarrow> string list option"
  bh_shell :: "string \<Rightarrow> string option"
  bh_volumes :: "volumeConfig option"
  bh_archive :: "string list \<Rightarrow> string option"
  bh_inspect :: "string \<Rightarrow> bool"
  bh_abs :: "string option"

subsection \<open>Writing into a backup\<close>

fun make_dirs :: "fs_io \<Rightarrow> string list \<Rightarrow> tree \<Rightarrow> backup_error option \<times> tree" where
  "make_dirs io [] t = (None, t)"
| "make_dirs io (p # ps) t =
     (if io_bad io OpMkdir p then (Some IoFailed, t)
      else case map_of t p of
        None \<Rightarrow> make_dirs io ps (al_put p Directory t)
      | Some Directory \<Rightarrow> make_dirs io ps t
      | Some _ \<Rightarrow> (Some IoFailed, t))"

definition mkdir_all :: "fs_io \<Rightarrow> string \<Rightarrow> tree \<Rightarrow> backup_error option \<times> tree" where
  "mkdir_all io name t = (if name = ''.'' then (None, t) else make_dirs io (path_prefixes name) t)"

text \<open>Opening for writing truncates a regular file and creates an absent one.\<close>

definition writable :: "tree \<Rightarrow> string \<Rightarrow> bool" where
  "writable t name = (case map_of t name of None \<Rightarrow> True | Some nd \<Rightarrow> is_regular nd)"

definition copyOpenedFileWithChecksum ::
  "(string \<Rightarrow> string) \<Rightarrow> fs_io \<Rightarrow> fs_io \<Rightarrow> string \<Rightarrow> nat \<Rightarrow> string \<Rightarrow> string \<Rightarrow> bool \<Rightarrow> tree
    \<Rightarrow> (backup_error + int \<times> string) \<times> tree" where
  "copyOpenedFileWithChecksum sha src dst name perm content target private t =
     (case mkdir_all dst (path_dir target) t of
        (Some e, t1) \<Rightarrow> (Inl e, t1)
      | (None, t1) \<Rightarrow>
          let mode = (if private then 384 else perm) in
          if io_bad src OpStat name then (Inl IoFailed, t1)
          else if io_bad dst OpCreate target \<or> \<not> writable t1 target then (Inl IoFailed, t1)
          else if io_bad dst OpChmod target then (Inl IoFailed, al_put target (Regular mode []) t1)
          else if io_bad src OpRead name \<or> io_bad dst OpWrite target
          then (Inl IoFailed, al_put target (Regular mode (take (io_cut dst target) content)) t1)
          else if io_bad dst OpClose target
          then (Inl IoFailed, al_put target (Regular mode content) t1)
          else (Inr (int (length content), sha content), al_put target (Regular mode content) t1))"

subsection \<open>Configuration files\<close>

definition configFilePatterns :: "string list" where
  "configFilePatterns =
     [''docker-compose.yml'', ''docker-compose.yaml'', ''compose.yml'', ''compose.yaml'', ''.env'',
      ''Dockerfile'', ''Dockerfile.*'', ''*.dockerfile'', ''nginx.conf'', ''Caddyfile'', ''Makefile'',
      ''.github/workflows/*'']"

text \<open>The files to save, with \<open>True\<close> for a private environment file.\<close>

type_synonym config_set = "(string \<times> bool) list"

fun collect_matches :: "fs_io \<Rightarrow> tree \<Rightarrow> string list \<Rightarrow> config_set \<Rightarrow> backup_error + config_set" where
  "collect_matches io t [] files = Inr files"
| "collect_matches io t (name # names) files =
     (case lstat io t name of
        Inl e \<Rightarrow> Inl e
      | Inr nd \<Rightarrow>
          if nd = Directory then collect_matches io t names files
          else case checkPath io t name False False of
            Some e \<Rightarrow> Inl e
          | None \<Rightarrow> collect_matches io t names (al_put name (name = ''.env'') files))"

fun collect_patterns ::
  "backup_host \<Rightarrow> fs_io \<Rightarrow> tree \<Rightarrow> string list \<Rightarrow> config_set \<Rightarrow> backup_error + config_set" where
  "collect_patterns h io t [] files = Inr files"
| "collect_patterns h io t (pat # pats) files =
     (case bh_glob h pat of
        None \<Rightarrow> Inl IoFailed
      | Some matches \<Rightarrow>
          (case collect_matches io t matches files of
             Inl e \<Rightarrow> Inl e
           | Inr files' \<Rightarrow> collect_patterns h io t pats files'))"

fun collect_refs :: "fs_io \<Rightarrow> tree \<Rightarrow> environmentFile list \<Rightarrow> config_set \<Rightarrow> backup_error + config_set" where
  "collect_refs io t [] files = Inr files"
| "collect_refs io t (ref # refs) files =
     (if contains_str (ef_Path ref) ''$'' then Inl BadEnvFile
      else let p = path_clean (ef_Path ref) in
        case checkPath io t p False False of
          Some e \<Rightarrow> if \<not> ef_Required ref \<and> e = NotExist then collect_refs io t refs files else Inl e
        | None \<Rightarrow> collect_refs io t refs (al_put p True files))"

fun collect_services ::
  "fs_io \<Rightarrow> tree \<Rightarrow> compose_file \<Rightarrow> config_set \<Rightarrow> backup_error + config_set" where
  "collect_services io t [] files = Inr files"
| "collect_services io t ((svc, s) # ss) files =
     (case environmentFiles (cs_EnvFile s) of
        Inl e \<Rightarrow> Inl e
      | Inr refs \<Rightarrow>
          (case collect_refs io t refs files of
             Inl e \<Rightarrow> Inl e
           | Inr files' \<Rightarrow> collect_services io t ss files'))"

fun collect_compose ::
  "backup_host \<Rightarrow> fs_io \<Rightarrow> tree \<Rightarrow> string list \<Rightarrow> config_set \<Rightarrow> backup_error + config_set" where
  "collect_compose h io t [] files = Inr files"
| "collect_compose h io t (name # names) files =
     (if \<not> al_has files name then collect_compose h io t names files
      else case read_file io t name of
        Inl e \<Rightarrow> Inl e
      | Inr data \<Rightarrow>
          (case bh_yaml h data of
             None \<Rightarrow> Inl BadCompose
           | Some services \<Rightarrow>
               (case collect_services io t services files of
                  Inl e \<Rightarrow> Inl e
                | Inr files' \<Rightarrow> collect_compose h io t names files')))"

fun copy_configs ::
  "(string \<Rightarrow> string) \<Rightarrow> fs_io \<Rightarrow> tree \<Rightarrow> fs_io \<Rightarrow> config_set \<Rightarrow> string list \<Rightarrow> tree
    \<Rightarrow> (backup_error + ComponentInfo list) \<times> tree" where
  "copy_configs sha src proj dst files [] t = (Inr [], t)"
| "copy_configs sha src proj dst files (name # names) t =
     (case open_file src proj name of
        Inl e \<Rightarrow> (Inl e, t)
      | Inr (Regular perm content) \<Rightarrow>
          (let target = path_join [''config'', name] in
           case copyOpenedFileWithChecksum sha src dst name perm content target (map_of files name = Some True) t of
             (Inl e, t1) \<Rightarrow> (Inl e, t1)
           | (Inr (bytes, checksum), t1) \<Rightarrow>
               (case copy_configs sha src proj dst files names t1 of
                  (Inl e, t2) \<Rightarrow> (Inl e, t2)
                | (Inr cs, t2) \<Rightarrow>
                    (Inr (\<lparr>ci_Type = ''config'', ci_Name = name, ci_Path = target, ci_SizeBytes = bytes,
                           ci_Checksum = checksum, ci_RestorePath = []\<rparr> # cs), t2)))
      | Inr _ \<Rightarrow> (Inl IoFailed, t))"

definition config_files :: "backup_host \<Rightarrow> fs_io \<Rightarrow> tree \<Rightarrow> backup_error + config_set" where
  "config_files h src proj =
     (if io_bad src OpRoot [] then Inl IoFailed
      else case collect_patterns h src proj configFilePatterns [] of
        Inl e \<Rightarrow> Inl e
      | Inr files \<Rightarrow> collect_compose h src proj (take 4 configFilePatterns) files)"

definition BackupConfigFiles ::
  "backup_host \<Rightarrow> (string \<Rightarrow> string) \<Rightarrow> fs_io \<Rightarrow> tree \<Rightarrow> fs_io \<Rightarrow> tree
    \<Rightarrow> (backup_error + ComponentInfo list) \<times> tree" where
  "BackupConfigFiles h sha src proj dst t =
     (case config_files h src proj of
        Inl e \<Rightarrow> (Inl e, t)
      | Inr files \<Rightarrow> copy_configs sha src proj dst files (sort (al_keys files)) t)"

subsection \<open>Databases\<close>

definition quote_one :: "string \<Rightarrow> string" where
  "quote_one arg =
     CHR 0x27 # concat (map (\<lambda>c. if c = CHR 0x27 then [CHR 0x27, CHR 0x22, CHR 0x27, CHR 0x22, CHR 0x27] else [c]) arg)
     @ [CHR 0x27]"

definition shellQuote :: "string list \<Rightarrow> string" where
  "shellQuote args = join_with '' '' (map quote_one args)"

fun env_entries :: "string list \<Rightarrow> (string \<times> string) list \<Rightarrow> (string \<times> string) list" where
  "env_entries [] env = env"
| "env_entries (entry # es) env =
     (case cut_at CHR ''='' entry of
        (key, v, ok) \<Rightarrow> env_entries es (if ok then al_put key v env else env))"

definition env_value :: "(string \<times> string) list \<Rightarrow> string \<Rightarrow> string" where
  "env_value env key = (case map_of env key of None \<Rightarrow> [] | Some v \<Rightarrow> v)"

definition databaseEnvironment ::
  "backup_host \<Rightarrow> string \<Rightarrow> backup_error + (string \<times> (string \<times> string) list)" where
  "databaseEnvironment h service =
     (if \<not> dockerObjectName service then Inl BadComponent
      else case bh_docker h [''compose'', ''ps'', ''-q'', service] of
        None \<Rightarrow> Inl IoFailed
      | Some ids \<Rightarrow>
          (case Go_Strings.fields ids of
             [container] \<Rightarrow>
               if \<not> dockerObjectName container then Inl BadComponent
               else (case bh_docker h [''inspect'', ''--format'', ''{{json .Config.Env}}'', container] of
                   None \<Rightarrow> Inl IoFailed
                 | Some data \<Rightarrow>
                     (case bh_json_env h data of
                        None \<Rightarrow> Inl BadComponent
                      | Some entries \<Rightarrow> Inr (container, env_entries entries [])))
           | _ \<Rightarrow> Inl BadComponent))"

definition minValidDumpBytes :: nat where
  "minValidDumpBytes = 100"

definition postgres_command :: "string \<Rightarrow> (string \<times> string) list \<Rightarrow> string \<Rightarrow> string" where
  "postgres_command container env dumpFile =
     (let user = or_default ''postgres'' (env_value env ''POSTGRES_USER'');
          dbName = or_default user (env_value env ''POSTGRES_DB'')
      in ''umask 077; set -o pipefail; ''
         @ shellQuote [''docker'', ''exec'', container, ''pg_dump'', ''--clean'', ''--if-exists'', ''-U'', user, dbName]
         @ '' | gzip > '' @ shellQuote [dumpFile])"

definition mysql_database :: "(string \<times> string) list \<Rightarrow> string" where
  "mysql_database env = or_default (env_value env ''MYSQL_DB'') (env_value env ''MYSQL_DATABASE'')"

definition mysql_command :: "string \<Rightarrow> (string \<times> string) list \<Rightarrow> string \<Rightarrow> string" where
  "mysql_command container env dumpFile =
     ''umask 077; set -o pipefail; docker exec''
     @ (if env_value env ''MYSQL_ROOT_PASSWORD'' \<noteq> [] then '' -e MYSQL_PWD'' else [])
     @ '' '' @ shellQuote [container]
     @ '' mysqldump --single-transaction --routines --triggers -u root '' @ shellQuote [mysql_database env]
     @ '' | gzip > '' @ shellQuote [dumpFile]"

text \<open>The pipeline leaves the dump in its file; a failed or too small dump is removed (best effort).\<close>

definition run_dump ::
  "backup_host \<Rightarrow> fs_io \<Rightarrow> string \<Rightarrow> string \<Rightarrow> string \<Rightarrow> tree
    \<Rightarrow> (backup_error + ComponentInfo) \<times> tree" where
  "run_dump h dst command name file t =
     (let drop = (\<lambda>t. if io_bad dst OpRemove file then t else al_del file t) in
      if \<not> writable t file then (Inl IoFailed, t)
      else case bh_shell h command of
        None \<Rightarrow> (Inl IoFailed, drop (al_put file (Regular 384 []) t))
      | Some content \<Rightarrow>
          let t1 = al_put file (Regular 384 content) t in
          if io_bad dst OpStat file \<or> length content < minValidDumpBytes then (Inl IoFailed, drop t1)
          else (Inr \<lparr>ci_Type = ''database'', ci_Name = name, ci_Path = file, ci_SizeBytes = int (length content),
                     ci_Checksum = [], ci_RestorePath = []\<rparr>, t1))"

definition dump_path :: "string \<Rightarrow> string" where
  "dump_path service = path_join [''databases'', service @ ''.sql.gz'']"

definition dumpPostgres ::
  "backup_host \<Rightarrow> fs_io \<Rightarrow> string \<Rightarrow> string \<Rightarrow> string \<Rightarrow> (string \<times> string) list \<Rightarrow> tree
    \<Rightarrow> (backup_error + ComponentInfo) \<times> tree" where
  "dumpPostgres h dst backupDir container service env t =
     (if \<not> dockerObjectName service then (Inl BadComponent, t)
      else run_dump h dst (postgres_command container env (path_join [backupDir, dump_path service]))
             (service @ '' (PostgreSQL)'') (dump_path service) t)"

definition dumpMySQL ::
  "backup_host \<Rightarrow> fs_io \<Rightarrow> string \<Rightarrow> string \<Rightarrow> string \<Rightarrow> (string \<times> string) list \<Rightarrow> tree
    \<Rightarrow> (backup_error + ComponentInfo) \<times> tree" where
  "dumpMySQL h dst backupDir container service env t =
     (if mysql_database env = [] \<or> \<not> dockerObjectName service then (Inl BadComponent, t)
      else run_dump h dst (mysql_command container env (path_join [backupDir, dump_path service]))
             (service @ '' (MySQL)'') (dump_path service) t)"

fun parse_compose :: "backup_host \<Rightarrow> fs_io \<Rightarrow> tree \<Rightarrow> string list \<Rightarrow> backup_error + compose_file" where
  "parse_compose h io t [] = Inl BadCompose"
| "parse_compose h io t (name # names) =
     (case read_file io t name of
        Inl e \<Rightarrow> if e = NotExist then parse_compose h io t names else Inl e
      | Inr data \<Rightarrow> (case bh_yaml h data of None \<Rightarrow> Inl BadCompose | Some c \<Rightarrow> Inr c))"

definition parseComposeFile :: "backup_host \<Rightarrow> fs_io \<Rightarrow> tree \<Rightarrow> backup_error + compose_file" where
  "parseComposeFile h io t = parse_compose h io t (take 4 configFilePatterns)"

definition dump_service ::
  "backup_host \<Rightarrow> fs_io \<Rightarrow> string \<Rightarrow> string \<times> compose_service \<Rightarrow> tree
    \<Rightarrow> (backup_error + ComponentInfo list) \<times> tree" where
  "dump_service h dst backupDir svc t =
     (case DatabaseKind (cs_Image (snd svc)) (cs_Labels (snd svc)) of
        Inl e \<Rightarrow> (Inl e, t)
      | Inr kind \<Rightarrow>
          if kind = [] then (Inr [], t)
          else case databaseEnvironment h (fst svc) of
            Inl e \<Rightarrow> (Inl e, t)
          | Inr (container, env) \<Rightarrow>
              (case (if kind = ''postgres'' then dumpPostgres else dumpMySQL)
                      h dst backupDir container (fst svc) env t of
                 (Inl e, t1) \<Rightarrow> (Inl e, t1)
               | (Inr c, t1) \<Rightarrow> (Inr [c], t1)))"

fun dump_services ::
  "backup_host \<Rightarrow> fs_io \<Rightarrow> string \<Rightarrow> compose_file \<Rightarrow> tree
    \<Rightarrow> (backup_error + ComponentInfo list) \<times> tree" where
  "dump_services h dst backupDir [] t = (Inr [], t)"
| "dump_services h dst backupDir (svc # svcs) t =
     (case dump_service h dst backupDir svc t of
        (Inl e, t1) \<Rightarrow> (Inl e, t1)
      | (Inr cs, t1) \<Rightarrow>
          (case dump_services h dst backupDir svcs t1 of
             (Inl e, t2) \<Rightarrow> (Inl e, t2)
           | (Inr cs', t2) \<Rightarrow> (Inr (cs @ cs'), t2)))"

definition BackupDatabases ::
  "backup_host \<Rightarrow> fs_io \<Rightarrow> tree \<Rightarrow> fs_io \<Rightarrow> string \<Rightarrow> tree \<Rightarrow> (backup_error + ComponentInfo list) \<times> tree" where
  "BackupDatabases h src proj dst backupDir t =
     (case mkdir_all dst ''databases'' t of
        (Some e, t1) \<Rightarrow> (Inl e, t1)
      | (None, t1) \<Rightarrow>
          (case parseComposeFile h src proj of
             Inl e \<Rightarrow> (Inl e, t1)
           | Inr services \<Rightarrow> dump_services h dst backupDir services t1))"

subsection \<open>Volumes\<close>

text \<open>The source of a bind mount relative to the project.\<close>

definition bind_relative :: "string \<Rightarrow> string \<Rightarrow> string option" where
  "bind_relative absoluteProject source =
     path_rel absoluteProject (if is_abs source then source else path_join [absoluteProject, source])"

definition mount_key :: "volumeConfig \<Rightarrow> string \<Rightarrow> composeMount \<Rightarrow> backup_error + string option" where
  "mount_key config absoluteProject m =
     (if cm_Type m = ''volume'' then
        Inr (Some (''volume:'' @ (case map_of (vc_Volumes config) (cm_Source m) of None \<Rightarrow> [] | Some n \<Rightarrow> n)))
      else if cm_Type m = ''bind'' then
        (case bind_relative absoluteProject (cm_Source m) of
           None \<Rightarrow> Inl IoFailed
         | Some r \<Rightarrow> Inr (Some (''bind:'' @ r)))
      else Inr None)"

fun logical_keys :: "volumeConfig \<Rightarrow> string \<Rightarrow> composeMount list \<Rightarrow> string list \<Rightarrow> backup_error + string list" where
  "logical_keys config prj [] seen = Inr seen"
| "logical_keys config prj (m # ms) seen =
     (case mount_key config prj m of
        Inl e \<Rightarrow> Inl e
      | Inr k \<Rightarrow> logical_keys config prj ms (case k of None \<Rightarrow> seen | Some k \<Rightarrow> k # seen))"

definition service_mounts :: "volumeConfig \<Rightarrow> string \<Rightarrow> composeMount list" where
  "service_mounts config service = (case map_of (vc_Services config) service of None \<Rightarrow> [] | Some ms \<Rightarrow> ms)"

definition volumeServiceNames :: "volumeConfig \<Rightarrow> string list" where
  "volumeServiceNames config = sort (al_keys (vc_Services config))"

text \<open>The archive is created exclusively, streamed and closed; a failed one is removed.\<close>

definition writeVolumeArchive :: "backup_host \<Rightarrow> fs_io \<Rightarrow> string list \<Rightarrow> string \<Rightarrow> tree \<Rightarrow> backup_error option \<times> tree" where
  "writeVolumeArchive h dst command file t =
     (let drop = (\<lambda>t. if io_bad dst OpRemove file then t else al_del file t) in
      if io_bad dst OpCreate file \<or> al_has t file then (Some IoFailed, t)
      else case bh_archive h command of
        None \<Rightarrow> (Some IoFailed, drop (al_put file (Regular 384 []) t))
      | Some content \<Rightarrow>
          let t1 = al_put file (Regular 384 content) t in
          if io_bad dst OpClose file then (Some IoFailed, drop t1) else (None, t1))"

definition archiveDirectory :: "string \<Rightarrow> string list" where
  "archiveDirectory srcDir = [''tar'', ''cf'', ''-'', ''-C'', path_dir srcDir, path_base srcDir]"

definition volume_command :: "string \<Rightarrow> string list" where
  "volume_command name =
     [''docker'', ''run'', ''--rm'', ''--network'', ''none'', ''--read-only'', ''--cap-drop=ALL'',
      ''--cap-add=DAC_OVERRIDE'', ''--security-opt=no-new-privileges:true'', ''--pids-limit=32'',
      ''--memory=128m'', ''--mount'', ''type=volume,src='' @ name @ '',dst=/data,readonly'',
      ''alpine'', ''tar'', ''cf'', ''-'', ''-C'', ''/data'', ''.'']"

text \<open>Size and checksum of the finished archive.\<close>

definition finish_volume ::
  "(string \<Rightarrow> string) \<Rightarrow> fs_io \<Rightarrow> string \<Rightarrow> string \<Rightarrow> string \<Rightarrow> tree \<Rightarrow> backup_error + ComponentInfo" where
  "finish_volume sha dst name restore file t =
     (case map_of t file of
        Some (Regular m content) \<Rightarrow>
          if io_bad dst OpStat file \<or> io_bad dst OpOpen file \<or> io_bad dst OpRead file then Inl IoFailed
          else Inr \<lparr>ci_Type = ''volume'', ci_Name = name, ci_Path = file, ci_SizeBytes = int (length content),
                    ci_Checksum = sha content, ci_RestorePath = restore\<rparr>
      | _ \<Rightarrow> Inl IoFailed)"

definition volume_path :: "string \<Rightarrow> string" where
  "volume_path archiveName = path_join [''volumes'', archiveName]"

definition backup_bind ::
  "backup_host \<Rightarrow> (string \<Rightarrow> string) \<Rightarrow> fs_io \<Rightarrow> tree \<Rightarrow> fs_io \<Rightarrow> string \<Rightarrow> string \<Rightarrow> composeMount \<Rightarrow> string list
    \<Rightarrow> tree \<Rightarrow> (backup_error + (ComponentInfo \<times> string) option) \<times> tree" where
  "backup_bind h sha src proj dst prj service m seen t =
     (if cm_Source m = [] then (Inl BadComponent, t)
      else case bind_relative prj (cm_Source m) of
        None \<Rightarrow> (Inl IoFailed, t)
      | Some relative \<Rightarrow>
          (case checkPath src proj relative True False of
             Some e \<Rightarrow> (Inl e, t)
           | None \<Rightarrow>
               let key = ''bind:'' @ relative; file = volume_path (''bind_'' @ sha relative @ ''.tar.gz'') in
               if key \<in> set seen then (Inr None, t)
               else case writeVolumeArchive h dst
                     (archiveDirectory (if is_abs (cm_Source m) then cm_Source m else path_join [prj, cm_Source m]))
                     file t of
                 (Some e, t1) \<Rightarrow> (Inl e, t1)
               | (None, t1) \<Rightarrow>
                   (case finish_volume sha dst (service @ ''/'' @ path_base relative) relative file t1 of
                      Inl e \<Rightarrow> (Inl e, t1)
                    | Inr c \<Rightarrow> (Inr (Some (c, key)), t1))))"

definition backup_named ::
  "backup_host \<Rightarrow> (string \<Rightarrow> string) \<Rightarrow> fs_io \<Rightarrow> volumeConfig \<Rightarrow> composeMount \<Rightarrow> string list
    \<Rightarrow> tree \<Rightarrow> (backup_error + (ComponentInfo \<times> string) option) \<times> tree" where
  "backup_named h sha dst config m seen t =
     (case map_of (vc_Volumes config) (cm_Source m) of
        None \<Rightarrow> (Inl BadComponent, t)
      | Some name \<Rightarrow>
          if cm_Source m = [] \<or> \<not> dockerObjectName name then (Inl BadComponent, t)
          else let key = ''volume:'' @ name; file = volume_path (''namedvol_'' @ sha name @ ''.tar.gz'') in
            if key \<in> set seen then (Inr None, t)
            else if \<not> bh_inspect h name then (Inl IoFailed, t)
            else case writeVolumeArchive h dst (volume_command name) file t of
              (Some e, t1) \<Rightarrow> (Inl e, t1)
            | (None, t1) \<Rightarrow>
                (case finish_volume sha dst (name @ '' (named volume)'') [] file t1 of
                   Inl e \<Rightarrow> (Inl e, t1)
                 | Inr c \<Rightarrow> (Inr (Some (c, key)), t1)))"

definition backup_mount ::
  "backup_host \<Rightarrow> (string \<Rightarrow> string) \<Rightarrow> fs_io \<Rightarrow> tree \<Rightarrow> fs_io \<Rightarrow> volumeConfig \<Rightarrow> string \<Rightarrow> string \<times> composeMount
    \<Rightarrow> string list \<Rightarrow> tree \<Rightarrow> (backup_error + (ComponentInfo \<times> string) option) \<times> tree" where
  "backup_mount h sha src proj dst config prj sm seen t =
     (let m = snd sm in
      if cm_ReadOnly m \<or> cm_Type m = ''tmpfs'' then (Inr None, t)
      else if cm_Type m = ''bind'' then backup_bind h sha src proj dst prj (fst sm) m seen t
      else if cm_Type m = ''volume'' then backup_named h sha dst config m seen t
      else (Inl BadComponent, t))"

fun backup_mounts ::
  "backup_host \<Rightarrow> (string \<Rightarrow> string) \<Rightarrow> fs_io \<Rightarrow> tree \<Rightarrow> fs_io \<Rightarrow> volumeConfig \<Rightarrow> string
    \<Rightarrow> (string \<times> composeMount) list \<Rightarrow> string list \<Rightarrow> tree \<Rightarrow> (backup_error + ComponentInfo list) \<times> tree" where
  "backup_mounts h sha src proj dst config prj [] seen t = (Inr [], t)"
| "backup_mounts h sha src proj dst config prj (m # ms) seen t =
     (case backup_mount h sha src proj dst config prj m seen t of
        (Inl e, t1) \<Rightarrow> (Inl e, t1)
      | (Inr None, t1) \<Rightarrow> backup_mounts h sha src proj dst config prj ms seen t1
      | (Inr (Some (c, key)), t1) \<Rightarrow>
          (case backup_mounts h sha src proj dst config prj ms (key # seen) t1 of
             (Inl e, t2) \<Rightarrow> (Inl e, t2)
           | (Inr cs, t2) \<Rightarrow> (Inr (c # cs), t2)))"

definition backupVolumes ::
  "backup_host \<Rightarrow> (string \<Rightarrow> string) \<Rightarrow> fs_io \<Rightarrow> tree \<Rightarrow> fs_io \<Rightarrow> string list \<Rightarrow> tree
    \<Rightarrow> (backup_error + ComponentInfo list) \<times> tree" where
  "backupVolumes h sha src proj dst logicalDatabases t =
     (case mkdir_all dst ''volumes'' t of
        (Some e, t1) \<Rightarrow> (Inl e, t1)
      | (None, t1) \<Rightarrow>
          (case bh_volumes h of
             None \<Rightarrow> (Inl BadCompose, t1)
           | Some config \<Rightarrow>
               if io_bad src OpRoot [] then (Inl IoFailed, t1)
               else case bh_abs h of
                 None \<Rightarrow> (Inl IoFailed, t1)
               | Some prj \<Rightarrow>
                   (case logical_keys config prj (concat (map (service_mounts config) logicalDatabases)) [] of
                      Inl e \<Rightarrow> (Inl e, t1)
                    | Inr seen \<Rightarrow>
                        backup_mounts h sha src proj dst config prj
                          (concat (map (\<lambda>svc. map (Pair svc) (service_mounts config svc))
                            (volumeServiceNames config))) seen t1)))"

subsection \<open>The backup\<close>

record backup_options =
  bo_SkipDB :: bool
  bo_SkipVolumes :: bool

type_synonym backup_store = "string \<Rightarrow> tree option"

definition logical_databases :: "ComponentInfo list \<Rightarrow> string list" where
  "logical_databases cs =
     remdups (map (\<lambda>c. hd (Go_Strings.fields (ci_Name c))) (filter (\<lambda>c. ci_Type c = ''database'') cs))"

definition dirSize :: "fs_io \<Rightarrow> tree \<Rightarrow> int" where
  "dirSize io t = sum_list (map (\<lambda>(p, nd). if io_bad io OpLstat p then 0 else node_size nd) t)"

definition backup_databases_step ::
  "backup_host \<Rightarrow> fs_io \<Rightarrow> tree \<Rightarrow> fs_io \<Rightarrow> string \<Rightarrow> backup_options \<Rightarrow> ComponentInfo list \<Rightarrow> tree
    \<Rightarrow> (backup_error + ComponentInfo list) \<times> tree" where
  "backup_databases_step h src proj dst backupDir opts cs t =
     (if bo_SkipDB opts then (Inr cs, t)
      else case BackupDatabases h src proj dst backupDir t of
        (Inl e, t1) \<Rightarrow> (Inl e, t1)
      | (Inr ds, t1) \<Rightarrow> (Inr (cs @ ds), t1))"

definition backup_volumes_step ::
  "backup_host \<Rightarrow> (string \<Rightarrow> string) \<Rightarrow> fs_io \<Rightarrow> tree \<Rightarrow> fs_io \<Rightarrow> backup_options \<Rightarrow> ComponentInfo list \<Rightarrow> tree
    \<Rightarrow> (backup_error + ComponentInfo list) \<times> tree" where
  "backup_volumes_step h sha src proj dst opts cs t =
     (if bo_SkipVolumes opts then (Inr cs, t)
      else case backupVolumes h sha src proj dst (logical_databases cs) t of
        (Inl e, t1) \<Rightarrow> (Inl e, t1)
      | (Inr vs, t1) \<Rightarrow> (Inr (cs @ vs), t1))"

definition write_manifest ::
  "(Manifest \<Rightarrow> string) \<Rightarrow> fs_io \<Rightarrow> Manifest \<Rightarrow> tree \<Rightarrow> backup_error option \<times> tree" where
  "write_manifest enc dst m t =
     (if io_bad dst OpCreate manifestName \<or> \<not> writable t manifestName then (Some IoFailed, t)
      else if io_bad dst OpWrite manifestName
      then (Some IoFailed, al_put manifestName (Regular 420 (take (io_cut dst manifestName) (enc m))) t)
      else (None, al_put manifestName (Regular 420 (enc m)) t))"

text \<open>The three stages in the backup's directory, and the manifest.\<close>

definition fill_backup ::
  "backup_host \<Rightarrow> (string \<Rightarrow> string) \<Rightarrow> (Manifest \<Rightarrow> string) \<Rightarrow> fs_io \<Rightarrow> tree \<Rightarrow> fs_io \<Rightarrow> string \<Rightarrow> backup_options
    \<Rightarrow> Manifest \<Rightarrow> tree \<Rightarrow> backup_error option \<times> tree" where
  "fill_backup h sha enc src proj dst backupDir opts base t =
     (case BackupConfigFiles h sha src proj dst t of
        (Inl e, t1) \<Rightarrow> (Some e, t1)
      | (Inr cs, t1) \<Rightarrow>
          (case backup_databases_step h src proj dst backupDir opts cs t1 of
             (Inl e, t2) \<Rightarrow> (Some e, t2)
           | (Inr cs2, t2) \<Rightarrow>
               (case backup_volumes_step h sha src proj dst opts cs2 t2 of
                  (Inl e, t3) \<Rightarrow> (Some e, t3)
                | (Inr cs3, t3) \<Rightarrow> write_manifest enc dst (base\<lparr>mf_Components := cs3\<rparr>) t3)))"

definition CreateBackup ::
  "backup_host \<Rightarrow> (string \<Rightarrow> string) \<Rightarrow> (Manifest \<Rightarrow> string) \<Rightarrow> fs_io \<Rightarrow> tree \<Rightarrow> fs_io \<Rightarrow> BackupConfig \<Rightarrow> project_row
    \<Rightarrow> string \<Rightarrow> string \<Rightarrow> backup_options \<Rightarrow> string \<Rightarrow> time \<Rightarrow> string \<Rightarrow> bool \<Rightarrow> backup_store \<times> fleet_db
    \<Rightarrow> (backup_error + backup_row) \<times> backup_store \<times> fleet_db" where
  "CreateBackup h sha enc src proj dst cfg prj backupType trigger opts backupID now stamp db_up st =
     (let backupDir = path_join [bc_BasePath cfg, pj_Name prj, backupID];
          store = fst st; db = snd st;
          abandon = (\<lambda>t. store(backupDir := if io_bad dst OpRemove [] then Some t else None))
      in if io_bad dst OpMkdir [] then (Inl IoFailed, st)
         else
           let base = \<lparr>mf_Version = ''1'', mf_ProjectName = pj_Name prj, mf_ProjectPath = pj_ProjectPath prj,
                 mf_Domain = pj_Domain prj, mf_CreatedAt = stamp, mf_Type = backupType, mf_Trigger = trigger,
                 mf_Components = []\<rparr>
           in case fill_backup h sha enc src proj dst backupDir opts base [] of
             (Some e, t) \<Rightarrow> (Inl e, abandon t, db)
           | (None, t) \<Rightarrow>
               let row = \<lparr>bk_ID = backupID, bk_ProjectID = pj_ID prj, bk_Type = backupType, bk_Trigger = trigger,
                     bk_Path = backupDir, bk_SizeBytes = dirSize dst t, bk_CreatedAt = 0\<rparr>
               in (case CreateBackupRecord db_up now backupID row db of
                     (Some e, db') \<Rightarrow> (Inl RecordFailed, abandon t, db')
                   | (None, db') \<Rightarrow>
                       (Inr (row\<lparr>bk_CreatedAt := now, bk_Type := or_default ''manual'' backupType,
                              bk_Trigger := or_default ''user'' trigger\<rparr>),
                        store(backupDir \<mapsto> t), db')))"

end
