(* ===== verification/Backup_Created.thy ===== *)
theory Backup_Created
  imports Backup_Create
begin

text \<open>
  Correctness of the creation of a backup: what is written verifies. A stage that succeeds adds
  one regular file per component below real directories and leaves the files before it alone
  (\<open>file_added\<close>, \<open>stage_ok\<close>); the manifest then describes exactly these files.
\<close>

subsection \<open>Relative paths by component\<close>

abbreviation rel_path :: "string list \<Rightarrow> string" where
  "rel_path ws \<equiv> join_with ''/'' ws"

lemma split_rel_path:
  "list_all normal_component ws \<Longrightarrow> ws \<noteq> [] \<Longrightarrow> split_on CHR ''/'' (rel_path ws) = ws"
proof (induction ws rule: induct_list012)
  case (2 x)
  then show ?case by (simp add: split_on_single normal_component_def)
next
  case (3 x y zs)
  then show ?case by (simp add: split_on_append normal_component_def)
qed simp

lemma clean_step_rel:
  "\<forall>w \<in> set ws. w = [] \<or> normal_component w
    \<Longrightarrow> clean_step False st ws = rev st @ filter (\<lambda>w. w \<noteq> []) ws"
  by (induction ws arbitrary: st) (auto simp: normal_component_def)

lemma rel_path_not_abs:
  assumes "list_all normal_component ws" "ws \<noteq> []"
  shows "\<not> is_abs (rel_path ws @ s)"
proof -
  obtain w vs where "ws = w # vs" using assms(2) by (cases ws) auto
  then show ?thesis using assms(1)
    by (cases vs; cases w) (auto simp: is_abs_first normal_component_def)
qed

lemma path_clean_rel:
  assumes "list_all normal_component ws" "ws \<noteq> []"
  shows "path_clean (rel_path ws) = rel_path ws" "path_clean (rel_path ws @ ''/'') = rel_path ws"
proof -
  have filter: "filter (\<lambda>w. w \<noteq> []) ws = ws" by (rule filter_nonempty_normal[OF assms(1)])
  have "clean_components (rel_path ws) = ws"
    using rel_path_not_abs[OF assms, of "[]"] assms filter
    by (simp add: clean_components_def split_rel_path, subst clean_step_rel) (auto simp: list_all_iff)
  then show "path_clean (rel_path ws) = rel_path ws"
    using rel_path_not_abs[OF assms, of "[]"] assms(2) by (simp add: path_clean_def Let_def)
  have "clean_components (rel_path ws @ ''/'') = ws"
    using rel_path_not_abs[OF assms, of "''/''"] assms filter
    by (simp add: clean_components_def split_on_join_slash, subst clean_step_rel) (auto simp: list_all_iff)
  then show "path_clean (rel_path ws @ ''/'') = rel_path ws"
    using rel_path_not_abs[OF assms, of "''/''"] assms(2) by (simp add: path_clean_def Let_def)
qed

lemma path_dir_rel:
  assumes "list_all normal_component ws" "normal_component w"
  shows "path_dir (rel_path (ws @ [w])) = (if ws = [] then ''.'' else rel_path ws)"
proof (cases "ws = []")
  case True
  have "dropWhile (\<lambda>c. c \<noteq> CHR ''/'') (rev w) = []"
    using assms(2) by (auto simp: normal_component_def dropWhile_eq_Nil_conv)
  then have "path_dir w = path_clean []" unfolding path_dir_def by (metis rev.simps(1))
  moreover have "path_clean [] = ''.''" by code_simp
  ultimately show ?thesis using True by simp
next
  case False
  then show ?thesis
    using drop_last_component[of w "rel_path ws"] assms path_clean_rel(2)[OF assms(1) False]
    by (simp add: path_dir_def join_with_snoc normal_component_def)
qed

lemma prefixes_rel_path:
  assumes "list_all normal_component ws" "ws \<noteq> []"
  shows "path_prefixes (rel_path ws) = map (\<lambda>i. rel_path (take (Suc i) ws)) [0..<length ws]"
  by (simp add: path_prefixes_def split_rel_path[OF assms])

lemma prefixes_snoc:
  assumes "list_all normal_component (ws @ [w])"
  shows "path_prefixes (rel_path (ws @ [w]))
    = (if ws = [] then [] else path_prefixes (rel_path ws)) @ [rel_path (ws @ [w])]"
  using assms by (auto simp: prefixes_rel_path)

text \<open>Names below one directory of the backup.\<close>

lemma below_directory:
  assumes "normal_component d" "list_all normal_component (split_on CHR ''/'' name)"
  shows "path_join [d, name] = rel_path (d # split_on CHR ''/'' name)"
    "path_join [d, name] = d @ ''/'' @ name"
proof -
  let ?ws = "split_on CHR ''/'' name"
  have ne: "d \<noteq> []" "name \<noteq> []" using assms by (auto simp: normal_component_def)
  have shape: "rel_path (d # ?ws) = d @ ''/'' @ name"
    using join_split[of "CHR ''/''" name] by (cases ?ws) auto
  show "path_join [d, name] = d @ ''/'' @ name" "path_join [d, name] = rel_path (d # ?ws)"
    using path_clean_rel(1)[of "d # ?ws"] assms ne shape by (simp_all add: path_join_def)
qed

subsection \<open>Trees that grow\<close>

definition extends :: "tree \<Rightarrow> tree \<Rightarrow> bool" where
  "extends t t' \<longleftrightarrow> (\<forall>p nd. map_of t p = Some nd \<longrightarrow> map_of t' p = Some nd)"

definition regular_paths :: "tree \<Rightarrow> string set" where
  "regular_paths t = {p. \<exists>m c. map_of t p = Some (Regular m c)}"

lemma extends_refl [simp]: "extends t t"
  by (simp add: extends_def)

lemma extends_trans: "extends t t1 \<Longrightarrow> extends t1 t2 \<Longrightarrow> extends t t2"
  by (simp add: extends_def)

lemma extends_put: "map_of t p = None \<Longrightarrow> extends t (al_put p nd t)"
  by (auto simp: extends_def map_of_put)

lemma sound_file_extends: "sound_file good_io t p c \<Longrightarrow> extends t t' \<Longrightarrow> sound_file good_io t' p c"
  by (auto simp: sound_file_def extends_def good_io_def)

text \<open>A step that added one regular file, readable through real directories.\<close>

definition file_added :: "tree \<Rightarrow> tree \<Rightarrow> string \<Rightarrow> string \<Rightarrow> bool" where
  "file_added t t' p content \<longleftrightarrow>
     extends t t' \<and> sound_file good_io t' p content \<and> regular_paths t' = insert p (regular_paths t)"

lemma make_dirs_ok:
  "make_dirs io ps t = (None, t') \<Longrightarrow>
     extends t t' \<and> (\<forall>p \<in> set ps. map_of t' p = Some Directory) \<and> regular_paths t' = regular_paths t"
proof (induction io ps t rule: make_dirs.induct)
  case (2 io p ps t)
  show ?case
  proof (cases "map_of t p")
    case None
    then have ok: "make_dirs io ps (al_put p Directory t) = (None, t')" "\<not> io_bad io OpMkdir p"
      using "2.prems" by (auto split: if_splits)
    have "regular_paths (al_put p Directory t) = regular_paths t"
      using None by (auto simp: regular_paths_def map_of_put)
    with "2.IH"(1)[OF ok(2) None ok(1)] extends_put[OF None] show ?thesis
      by (auto simp: extends_def map_of_put)
  next
    case (Some nd)
    then have ok: "nd = Directory" "make_dirs io ps t = (None, t')" "\<not> io_bad io OpMkdir p"
      using "2.prems" by (auto split: if_splits node.splits)
    with "2.IH"(2)[OF ok(3) _ ok(1,2)] Some show ?thesis by (auto simp: extends_def)
  qed
qed simp

lemma put_file_added:
  assumes "list_all normal_component (ws @ [w])" "map_of t (rel_path (ws @ [w])) = None"
    and "ws \<noteq> [] \<longrightarrow> (\<forall>p \<in> set (path_prefixes (rel_path ws)). map_of t p = Some Directory)"
  shows "file_added t (al_put (rel_path (ws @ [w])) (Regular m c) t) (rel_path (ws @ [w])) c"
proof -
  have "p \<noteq> rel_path (ws @ [w])" if "ws \<noteq> []" "p \<in> set (path_prefixes (rel_path ws))" for p
    using assms that by auto
  then show ?thesis
    using assms extends_put[OF assms(2)] unfolding file_added_def sound_file_def
    by (auto simp: prefixes_snoc map_of_put good_io_def regular_paths_def)
qed

lemma copy_added:
  assumes "copyOpenedFileWithChecksum sha src dst name perm content (rel_path (ws @ [w])) private t = (Inr (n, s), t')"
    and "list_all normal_component (ws @ [w])" "rel_path (ws @ [w]) \<notin> regular_paths t"
  shows "n = int (length content) \<and> s = sha content \<and> file_added t t' (rel_path (ws @ [w])) content"
proof -
  let ?p = "rel_path (ws @ [w])"
  obtain t1 where t1: "mkdir_all dst (path_dir ?p) t = (None, t1)"
    and w: "writable t1 ?p" "n = int (length content)" "s = sha content"
      "t' = al_put ?p (Regular (if private then 384 else perm) content) t1"
    using assms(1) by (auto simp: copyOpenedFileWithChecksum_def Let_def split: prod.splits option.splits if_splits)
  have not_dot: "rel_path ws \<noteq> ''.''" if "ws \<noteq> []"
  proof
    assume "rel_path ws = ''.''"
    then have "ws = [''.'']" using split_rel_path[of ws] that assms(2) by simp
    then show False using assms(2) by (simp add: normal_component_def)
  qed
  have ws: "list_all normal_component ws" "normal_component w" using assms(2) by simp_all
  have dirs: "extends t t1 \<and> regular_paths t1 = regular_paths t
    \<and> (ws \<noteq> [] \<longrightarrow> (\<forall>p \<in> set (path_prefixes (rel_path ws)). map_of t1 p = Some Directory))"
  proof (cases "ws = []")
    case True
    then have "path_dir ?p = ''.''" using path_dir_rel[OF ws] by simp
    then have "t1 = t" using t1 by (simp add: mkdir_all_def)
    with True show ?thesis by simp
  next
    case False
    then have "path_dir ?p = rel_path ws" using path_dir_rel[OF ws] by simp
    then have "make_dirs dst (path_prefixes (rel_path ws)) t = (None, t1)"
      using t1 not_dot[OF False] by (simp add: mkdir_all_def)
    then show ?thesis using make_dirs_ok by blast
  qed
  have "?p \<notin> regular_paths t1" using dirs assms(3) by simp
  have "map_of t1 ?p = None"
  proof (cases "map_of t1 ?p")
    case (Some nd)
    then show ?thesis using w(1) \<open>?p \<notin> regular_paths t1\<close> by (cases nd) (auto simp: writable_def regular_paths_def)
  qed
  from put_file_added[OF assms(2) this conjunct2[OF conjunct2[OF dirs]], of "if private then 384 else perm" content] dirs w
  show ?thesis by (auto simp: file_added_def intro: extends_trans)
qed

subsection \<open>Stages\<close>

text \<open>What a stage adds: verified components, one per new regular file.\<close>

definition verified :: "(string \<Rightarrow> string) \<Rightarrow> (string \<Rightarrow> gzip_result) \<Rightarrow> tree \<Rightarrow> ComponentInfo \<Rightarrow> bool" where
  "verified sha gz t c \<longleftrightarrow> vr_Status (verifyComponent sha gz good_io t c) = VerifyOK"

definition stage_ok ::
  "(string \<Rightarrow> string) \<Rightarrow> (string \<Rightarrow> gzip_result) \<Rightarrow> tree \<Rightarrow> tree \<Rightarrow> ComponentInfo list \<Rightarrow> bool" where
  "stage_ok sha gz t t' cs \<longleftrightarrow>
     extends t t' \<and> (\<forall>c \<in> set cs. verified sha gz t' c \<and> CHR ''/'' \<in> set (ci_Path c))
     \<and> regular_paths t' = regular_paths t \<union> ci_Path ` set cs"

lemma readable_good [simp]: "readable good_io c"
  by (simp add: readable_def good_io_def)

lemma verified_extends: "verified sha gz t c \<Longrightarrow> extends t t' \<Longrightarrow> verified sha gz t' c"
  by (auto simp: verified_def verifyComponent_ok dest: sound_file_extends)

lemma stage_ok_nil: "extends t t' \<Longrightarrow> regular_paths t' = regular_paths t \<Longrightarrow> stage_ok sha gz t t' []"
  by (simp add: stage_ok_def)

lemma stage_ok_append:
  "stage_ok sha gz t t1 cs \<Longrightarrow> stage_ok sha gz t1 t2 cs' \<Longrightarrow> stage_ok sha gz t t2 (cs @ cs')"
  by (auto simp: stage_ok_def intro: extends_trans verified_extends)

lemma stage_ok_one:
  "file_added t t' (ci_Path c) content \<Longrightarrow> validateComponent c = None \<Longrightarrow> sound_content sha gz c content
    \<Longrightarrow> CHR ''/'' \<in> set (ci_Path c) \<Longrightarrow> stage_ok sha gz t t' [c]"
  by (auto simp: stage_ok_def file_added_def verified_def verifyComponent_ok)

text \<open>The names a stage uses are plain.\<close>

definition plain :: "string \<Rightarrow> bool" where
  "plain s \<longleftrightarrow> set s \<inter> {CHR ''/'', CHR 0x5C, CHR '':'', CHR 0x00} = {}"

lemma valid_below:
  assumes "normal_component d" "plain d" "validateRelativePath name = None"
  shows "validateRelativePath (path_join [d, name]) = None"
    "\<exists>ws w. path_join [d, name] = rel_path (ws @ [w]) \<and> list_all normal_component (ws @ [w])"
    "path_join [d, name] = d @ ''/'' @ name"
proof -
  let ?ws = "split_on CHR ''/'' name"
  have ws: "list_all normal_component ?ws" "\<not> contains_any name [CHR 0x5C, CHR '':'', CHR 0x00]"
    using assms(3) valid_components by auto
  note join = below_directory[OF assms(1) ws(1)]
  show "path_join [d, name] = d @ ''/'' @ name" by (rule join(2))
  have "split_on CHR ''/'' (path_join [d, name]) = d # ?ws"
    unfolding join(1) using assms(1) ws(1) by (intro split_rel_path) auto
  moreover have "\<not> contains_any (path_join [d, name]) [CHR 0x5C, CHR '':'', CHR 0x00]"
    unfolding join(2) using assms(2) ws(2) by (auto simp: contains_any_def plain_def list_ex_iff)
  ultimately show "validateRelativePath (path_join [d, name]) = None"
    using assms(1) ws(1) by (subst valid_components) simp
  obtain us u where "d # ?ws = us @ [u]" by (metis append_butlast_last_id list.distinct(1))
  then show "\<exists>ws w. path_join [d, name] = rel_path (ws @ [w]) \<and> list_all normal_component (ws @ [w])"
    using join(1) assms(1) ws(1) by (intro exI[of _ us] exI[of _ u]) (metis list.pred_inject(2))
qed

lemma valid_plain:
  assumes "plain w" "w \<noteq> []" "w \<noteq> ''.''" "w \<noteq> ''..''"
  shows "validateRelativePath w = None" "normal_component w"
proof -
  show "normal_component w" using assms by (auto simp: normal_component_def plain_def)
  then show "validateRelativePath w = None"
    using assms by (subst valid_components) (auto simp: split_on_single contains_any_def plain_def normal_component_def list_ex_iff)
qed

lemma append_cancel_both: "d @ a = d @ b \<longleftrightarrow> a = b"
  by simp

lemma copy_configs_ok:
  assumes "copy_configs sha src proj dst files names t = (Inr cs, t')"
    and "distinct names" "\<forall>n \<in> set names. validateRelativePath n = None"
    and "\<forall>n \<in> set names. path_join [''config'', n] \<notin> regular_paths t"
    and "\<forall>x. sha x \<noteq> []"
  shows "stage_ok sha gz t t' cs \<and> map ci_Name cs = names
    \<and> (\<forall>c \<in> set cs. ci_Type c = ''config'' \<and> ci_Path c = path_join [''config'', ci_Name c]
         \<and> (\<exists>m content. map_of proj (ci_Name c) = Some (Regular m content) \<and> sound_file good_io t' (ci_Path c) content))"
  using assms(1-4)
proof (induction names arbitrary: cs t)
  case Nil
  then show ?case by (simp add: stage_ok_def)
next
  case (Cons name names)
  have conf: "normal_component ''config''" "plain ''config''" by (simp_all add: normal_component_def plain_def)
  have valid: "validateRelativePath name = None" using Cons.prems(3) by simp
  note below = valid_below[OF conf valid]
  let ?p = "path_join [''config'', name]"
  obtain perm content where f: "open_file src proj name = Inr (Regular perm content)"
    using Cons.prems(1) by (auto split: sum.splits node.splits)
  obtain n s t1 cs1 where one: "copyOpenedFileWithChecksum sha src dst name perm content ?p
        (map_of files name = Some True) t = (Inr (n, s), t1)"
    and rest: "copy_configs sha src proj dst files names t1 = (Inr cs1, t')"
    and cs: "cs = \<lparr>ci_Type = ''config'', ci_Name = name, ci_Path = ?p, ci_SizeBytes = n, ci_Checksum = s,
                   ci_RestorePath = []\<rparr> # cs1"
    using Cons.prems(1) f by (auto simp: Let_def split: sum.splits prod.splits)
  obtain ws w where p: "?p = rel_path (ws @ [w])" "list_all normal_component (ws @ [w])"
    using below(2) by blast
  have "?p \<notin> regular_paths t" using Cons.prems(4) by simp
  with copy_added[OF one[unfolded p(1)] p(2)] p(1)
  have added: "n = int (length content) \<and> s = sha content \<and> file_added t t1 ?p content" by simp
  have "regular_paths t1 = insert ?p (regular_paths t)" using added by (simp add: file_added_def)
  moreover have "path_join [''config'', m] \<noteq> ?p" if "m \<in> set names" for m
    using that Cons.prems(2,3) below(3) valid_below(3)[OF conf, of m] by auto
  ultimately have "\<forall>m \<in> set names. path_join [''config'', m] \<notin> regular_paths t1"
    using Cons.prems(4) by auto
  then have IH: "stage_ok sha gz t1 t' cs1 \<and> map ci_Name cs1 = names
    \<and> (\<forall>c \<in> set cs1. ci_Type c = ''config'' \<and> ci_Path c = path_join [''config'', ci_Name c]
         \<and> (\<exists>m content. map_of proj (ci_Name c) = Some (Regular m content) \<and> sound_file good_io t' (ci_Path c) content))"
    using Cons.prems(2,3) by (intro Cons.IH[OF rest]) simp_all
  have "stage_ok sha gz t t1 [hd cs]"
    using added below(1) valid assms(5) by (intro stage_ok_one[of _ _ _ content])
      (auto simp: cs validateComponent_def sound_content_def below(3))
  with stage_ok_append[of sha gz t t1 "[hd cs]" t' cs1] IH cs have ok: "stage_ok sha gz t t' cs" by simp
  have "sound_file good_io t' ?p content"
    using added IH by (auto simp: file_added_def stage_ok_def intro: sound_file_extends)
  moreover have "map_of proj name = Some (Regular perm content)"
    using f by (auto simp: open_file_def split: if_splits option.splits)
  ultimately show ?case using ok IH cs by auto
qed

text \<open>The names to save are checked and distinct.\<close>

definition checked_names :: "fs_io \<Rightarrow> tree \<Rightarrow> config_set \<Rightarrow> bool" where
  "checked_names io t files \<longleftrightarrow> al_wf files \<and> (\<forall>n \<in> set (al_keys files). checkPath io t n False False = None)"

lemma checked_names_put:
  "checked_names io t files \<Longrightarrow> checkPath io t n False False = None \<Longrightarrow> checked_names io t (al_put n v files)"
  by (auto simp: checked_names_def al_keys_def al_put_def al_wf_def distinct_map_filter_fst)

lemma collect_matches_checked:
  "collect_matches io t ns files = Inr files' \<Longrightarrow> checked_names io t files \<Longrightarrow> checked_names io t files'"
  by (induction io t ns files rule: collect_matches.induct)
    (auto intro: checked_names_put split: sum.splits if_splits option.splits)

lemma collect_patterns_checked:
  "collect_patterns h io t ps files = Inr files' \<Longrightarrow> checked_names io t files \<Longrightarrow> checked_names io t files'"
  by (induction h io t ps files rule: collect_patterns.induct)
    (auto dest: collect_matches_checked split: sum.splits option.splits)

lemma collect_refs_checked:
  "collect_refs io t rs files = Inr files' \<Longrightarrow> checked_names io t files \<Longrightarrow> checked_names io t files'"
  by (induction io t rs files rule: collect_refs.induct)
    (auto simp: Let_def intro: checked_names_put split: if_splits option.splits)

lemma collect_services_checked:
  "collect_services io t ss files = Inr files' \<Longrightarrow> checked_names io t files \<Longrightarrow> checked_names io t files'"
  by (induction io t ss files rule: collect_services.induct)
    (auto dest: collect_refs_checked split: sum.splits)

lemma collect_compose_checked:
  "collect_compose h io t ns files = Inr files' \<Longrightarrow> checked_names io t files \<Longrightarrow> checked_names io t files'"
  by (induction h io t ns files rule: collect_compose.induct)
    (auto dest: collect_services_checked split: sum.splits if_splits option.splits)

lemma config_files_checked: "config_files h src proj = Inr files \<Longrightarrow> checked_names src proj files"
proof -
  assume "config_files h src proj = Inr files"
  then obtain files0 where f: "collect_patterns h src proj configFilePatterns [] = Inr files0"
    "collect_compose h src proj (take 4 configFilePatterns) files0 = Inr files"
    by (auto simp: config_files_def split: if_splits sum.splits)
  have "checked_names src proj []" by (simp add: checked_names_def al_keys_def)
  from collect_compose_checked[OF f(2) collect_patterns_checked[OF f(1) this]] show ?thesis .
qed

lemma BackupConfigFiles_ok:
  assumes "BackupConfigFiles h sha src proj dst t = (Inr cs, t')" "regular_paths t = {}" "\<forall>x. sha x \<noteq> []"
  shows "\<exists>files. config_files h src proj = Inr files \<and> stage_ok sha gz t t' cs
    \<and> set (map ci_Name cs) = set (al_keys files)
    \<and> (\<forall>c \<in> set cs. ci_Type c = ''config'' \<and> ci_Path c = path_join [''config'', ci_Name c]
         \<and> (\<exists>m content. map_of proj (ci_Name c) = Some (Regular m content) \<and> sound_file good_io t' (ci_Path c) content))"
proof -
  obtain files where files: "config_files h src proj = Inr files"
    and copy: "copy_configs sha src proj dst files (sort (al_keys files)) t = (Inr cs, t')"
    using assms(1) by (auto simp: BackupConfigFiles_def split: sum.splits)
  have checked: "checked_names src proj files" by (rule config_files_checked[OF files])
  then have "\<forall>n \<in> set (sort (al_keys files)). validateRelativePath n = None" "distinct (sort (al_keys files))"
    by (auto simp: checked_names_def checkPath_None al_wf_def al_keys_def)
  from copy_configs_ok[OF copy this(2,1) _ assms(3), of gz] assms(2) files show ?thesis by auto
qed

subsection \<open>Dumps and archives\<close>

lemma docker_char_plain: "is_alnum d \<or> d \<in> set ''_.-'' \<Longrightarrow> d \<notin> {CHR ''/'', CHR 0x5C, CHR '':'', CHR 0x00}"
  by (auto simp: is_alnum_def is_upper_def is_lower_def is_digit_def)

lemma docker_name_plain:
  assumes "dockerObjectName s"
  shows "plain s" "s \<noteq> []" "hd s \<noteq> CHR ''.''"
proof -
  obtain c cs where s: "s = c # cs" "is_alnum c" "\<forall>d \<in> set cs. is_alnum d \<or> d \<in> set ''_.-''"
    using assms by (auto simp: dockerObjectName_def list_all_iff split: list.splits)
  then show "plain s" using docker_char_plain[of c] docker_char_plain by (auto simp: plain_def)
  show "s \<noteq> []" "hd s \<noteq> CHR ''.''"
    using s by (auto simp: is_alnum_def is_upper_def is_lower_def is_digit_def)
qed

lemma plain_append [simp]: "plain (a @ b) \<longleftrightarrow> plain a \<and> plain b"
  by (auto simp: plain_def)

lemma plain_Cons: "plain (c # s) \<longleftrightarrow> c \<notin> {CHR ''/'', CHR 0x5C, CHR '':'', CHR 0x00} \<and> plain s"
  by (auto simp: plain_def)

text \<open>A new file directly below a directory that exists.\<close>

lemma put_below:
  assumes "normal_component d" "normal_component w" "map_of t d = Some Directory"
    and "map_of t (rel_path [d, w]) = None"
  shows "file_added t (al_put (rel_path [d, w]) (Regular m content) t) (rel_path [d, w]) content"
proof -
  have "path_prefixes (rel_path [d]) = [d]" using assms(1) by (subst prefixes_rel_path) simp_all
  then show ?thesis using put_file_added[of "[d]" w t m content] assms by simp
qed

lemma fresh_writable: "writable t p \<Longrightarrow> p \<notin> regular_paths t \<Longrightarrow> map_of t p = None"
  by (cases "map_of t p") (auto simp: writable_def regular_paths_def elim: is_regular.elims)

lemma dump_name:
  assumes "dockerObjectName service"
  shows "normal_component (service @ ''.sql.gz'')" "dump_path service = rel_path [''databases'', service @ ''.sql.gz'']"
    "validateRelativePath (dump_path service) = None"
proof -
  have p: "plain (service @ ''.sql.gz'')" using docker_name_plain[OF assms] by (simp add: plain_def)
  have "length (service @ ''.sql.gz'') > 2" by simp
  then have "service @ ''.sql.gz'' \<noteq> ''.''" "service @ ''.sql.gz'' \<noteq> ''..''" by (metis One_nat_def length_Cons less_irrefl list.size(3) numeral_2_eq_2 Suc_lessD)+
  from valid_plain[OF p _ this] have v: "validateRelativePath (service @ ''.sql.gz'') = None"
    "normal_component (service @ ''.sql.gz'')" by simp_all
  have d: "normal_component ''databases''" "plain ''databases''" by (simp_all add: normal_component_def plain_def)
  show "normal_component (service @ ''.sql.gz'')" by (rule v(2))
  show "dump_path service = rel_path [''databases'', service @ ''.sql.gz'']"
    using valid_below(3)[OF d v(1)] by (simp add: dump_path_def)
  show "validateRelativePath (dump_path service) = None"
    using valid_below(1)[OF d v(1)] by (simp add: dump_path_def)
qed

lemma run_dump_ok:
  assumes "run_dump h dst command name (dump_path service) t = (Inr c, t')"
    and "dockerObjectName service" "databaseComponentName name"
    and "dump_path service \<notin> regular_paths t" "map_of t ''databases'' = Some Directory"
    and "\<forall>cmd content. bh_shell h cmd = Some content \<longrightarrow> gz content = GzOk"
  shows "ci_Path c = dump_path service \<and> stage_ok sha gz t t' [c]"
proof -
  obtain content where w: "writable t (dump_path service)" "bh_shell h command = Some content"
    "c = \<lparr>ci_Type = ''database'', ci_Name = name, ci_Path = dump_path service, ci_SizeBytes = int (length content),
          ci_Checksum = [], ci_RestorePath = []\<rparr>" "t' = al_put (dump_path service) (Regular 384 content) t"
    using assms(1) by (auto simp: run_dump_def Let_def split: option.splits if_splits)
  note path = dump_name[OF assms(2)]
  have "file_added t t' (dump_path service) content"
    unfolding w(4) path(2) using fresh_writable[OF w(1) assms(4)] path assms(5)
    by (intro put_below) (simp_all add: normal_component_def)
  then show ?thesis
    using w assms(3,6) path(3) by (auto intro!: stage_ok_one simp: validateComponent_def sound_content_def path(2))
qed

lemma suffix_append [simp]: "has_suffix (a @ b) b" "trim_suffix (a @ b) b = a"
  by (auto simp: has_suffix_iff trim_suffix_def)

lemma dump_service_ok:
  assumes "dump_service h dst backupDir (service, s) t = (Inr cs, t')"
    and "dockerObjectName service \<longrightarrow> dump_path service \<notin> regular_paths t"
    and "map_of t ''databases'' = Some Directory"
    and "\<forall>cmd content. bh_shell h cmd = Some content \<longrightarrow> gz content = GzOk"
  shows "stage_ok sha gz t t' cs \<and> (cs \<noteq> [] \<longrightarrow> dockerObjectName service \<and> map ci_Path cs = [dump_path service])"
proof -
  obtain kind where kind: "DatabaseKind (cs_Image s) (cs_Labels s) = Inr kind"
    using assms(1) by (auto simp: dump_service_def split: sum.splits)
  show ?thesis
  proof (cases "kind = []")
    case True
    then show ?thesis using assms(1) kind by (simp add: dump_service_def stage_ok_def)
  next
    case False
    obtain container env where env: "databaseEnvironment h service = Inr (container, env)"
      using assms(1) kind False by (auto simp: dump_service_def split: sum.splits)
    let ?dump = "(if kind = ''postgres'' then dumpPostgres else dumpMySQL) h dst backupDir container service env t"
    obtain c where c: "?dump = (Inr c, t')" "cs = [c]"
      using assms(1) kind False env by (auto simp: dump_service_def split: sum.splits prod.splits)
    obtain command name where run: "dockerObjectName service"
      "run_dump h dst command name (dump_path service) t = (Inr c, t')"
      "name = service @ '' (PostgreSQL)'' \<or> name = service @ '' (MySQL)''"
      using c(1) by (cases "kind = ''postgres''") (auto simp: dumpPostgres_def dumpMySQL_def split: if_splits)
    then have "databaseComponentName name" by (auto simp: databaseComponentName_def)
    from run_dump_ok[OF run(2,1) this _ assms(3,4), of sha] assms(2) run(1) c(2) show ?thesis by simp
  qed
qed

lemma dump_path_inj:
  "dockerObjectName a \<Longrightarrow> dockerObjectName b \<Longrightarrow> dump_path a = dump_path b \<Longrightarrow> a = b"
  by (simp add: dump_name(2))

lemma stage_directory: "stage_ok sha gz t t' cs \<Longrightarrow> map_of t d = Some Directory \<Longrightarrow> map_of t' d = Some Directory"
  by (simp add: stage_ok_def extends_def)

lemma dump_services_ok:
  assumes "dump_services h dst backupDir svcs t = (Inr cs, t')" "distinct (map fst svcs)"
    and "\<forall>svc \<in> fst ` set svcs. dockerObjectName svc \<longrightarrow> dump_path svc \<notin> regular_paths t"
    and "map_of t ''databases'' = Some Directory"
    and gzip: "\<forall>cmd content. bh_shell h cmd = Some content \<longrightarrow> gz content = GzOk"
  shows "stage_ok sha gz t t' cs"
  using assms(1-4)
proof (induction svcs arbitrary: t cs)
  case Nil
  then show ?case by (simp add: stage_ok_def)
next
  case (Cons svc svcs)
  obtain service s where svc: "svc = (service, s)" by (cases svc)
  obtain cs1 t1 cs2 where one: "dump_service h dst backupDir (service, s) t = (Inr cs1, t1)"
    and rest: "dump_services h dst backupDir svcs t1 = (Inr cs2, t')" and cs: "cs = cs1 @ cs2"
    using Cons.prems(1) svc by (auto split: sum.splits prod.splits)
  have ok: "stage_ok sha gz t t1 cs1" "cs1 \<noteq> [] \<longrightarrow> dockerObjectName service \<and> map ci_Path cs1 = [dump_path service]"
    using dump_service_ok[OF one _ Cons.prems(4) gzip, of sha] Cons.prems(3) svc by auto
  have "dump_path n \<notin> regular_paths t1" if "n \<in> fst ` set svcs" "dockerObjectName n" for n
  proof -
    have "n \<noteq> service" using Cons.prems(2) that svc by auto
    then have "dump_path n \<notin> ci_Path ` set cs1"
      using ok(2) dump_path_inj[OF that(2), of service] by (cases cs1) auto
    then show ?thesis using ok(1) Cons.prems(3) that by (auto simp: stage_ok_def)
  qed
  with Cons.IH[OF rest _ _ stage_directory[OF ok(1) Cons.prems(4)]] Cons.prems(2)
  have "stage_ok sha gz t1 t' cs2" by simp
  with ok(1) cs show ?case by (auto intro: stage_ok_append)
qed

lemma mkdir_one:
  assumes "mkdir_all dst d t = (None, t1)" "normal_component d"
  shows "extends t t1" "regular_paths t1 = regular_paths t" "map_of t1 d = Some Directory"
proof -
  have "path_prefixes (rel_path [d]) = [d]" using assms(2) by (subst prefixes_rel_path) simp_all
  then have "make_dirs dst [d] t = (None, t1)"
    using assms by (simp add: mkdir_all_def normal_component_def)
  from make_dirs_ok[OF this] show "extends t t1" "regular_paths t1 = regular_paths t" "map_of t1 d = Some Directory"
    by auto
qed

lemma parse_compose_yaml: "parse_compose h io t names = Inr c \<Longrightarrow> \<exists>data. bh_yaml h data = Some c"
  by (induction h io t names rule: parse_compose.induct) (auto split: sum.splits if_splits option.splits)

lemma BackupDatabases_ok:
  assumes "BackupDatabases h src proj dst backupDir t = (Inr cs, t')"
    and "\<forall>data c. bh_yaml h data = Some c \<longrightarrow> distinct (map fst c)"
    and "\<forall>svc. dockerObjectName svc \<longrightarrow> dump_path svc \<notin> regular_paths t"
    and "\<forall>cmd content. bh_shell h cmd = Some content \<longrightarrow> gz content = GzOk"
  shows "stage_ok sha gz t t' cs"
proof -
  obtain t1 svcs where one: "mkdir_all dst ''databases'' t = (None, t1)"
    "parseComposeFile h src proj = Inr svcs" "dump_services h dst backupDir svcs t1 = (Inr cs, t')"
    using assms(1) by (auto simp: BackupDatabases_def split: prod.splits option.splits sum.splits)
  have d: "normal_component ''databases''" by (simp add: normal_component_def)
  note dir = mkdir_one[OF one(1) d]
  have "\<exists>data. bh_yaml h data = Some svcs"
    using parse_compose_yaml one(2) unfolding parseComposeFile_def by blast
  then have "distinct (map fst svcs)" using assms(2) by blast
  from dump_services_ok[OF one(3) this _ dir(3) assms(4), of sha] assms(3) dir(2)
  have "stage_ok sha gz t1 t' cs" by simp
  with stage_ok_append[OF stage_ok_nil[OF dir(1,2)] this] show ?thesis by simp
qed

subsection \<open>Volumes\<close>

lemma archive_added:
  assumes "writeVolumeArchive h dst command p t = (None, t1)" "finish_volume sha dst name restore p t1 = Inr c"
    and path: "p = rel_path [''volumes'', w]"
    and "normal_component w" "map_of t ''volumes'' = Some Directory"
    and "validateRelativePath (rel_path [''volumes'', w]) = None"
    and "validate_volume c = None"
    and "\<forall>cmd content. bh_archive h cmd = Some content \<longrightarrow> gz content = GzOk"
  shows "stage_ok sha gz t t1 [c]"
proof -
  let ?p = "rel_path [''volumes'', w]"
  obtain content where a: "\<not> al_has t ?p" "bh_archive h command = Some content" "t1 = al_put ?p (Regular 384 content) t"
    using assms(1) path by (auto simp: writeVolumeArchive_def Let_def split: if_splits option.splits)
  then have c: "c = \<lparr>ci_Type = ''volume'', ci_Name = name, ci_Path = ?p, ci_SizeBytes = int (length content),
      ci_Checksum = sha content, ci_RestorePath = restore\<rparr>"
    using assms(2) path by (auto simp: finish_volume_def map_of_put split: if_splits)
  have "file_added t t1 ?p content"
    unfolding a(3) using assms(4,5) a(1)
    by (intro put_below) (simp_all add: normal_component_def al_has_def)
  then show ?thesis
    using assms(6-8) a(2) c path
    by (intro stage_ok_one[of _ _ _ content]) (auto simp: validateComponent_def sound_content_def)
qed

definition hex_digest :: "string \<Rightarrow> bool" where
  "hex_digest s \<longleftrightarrow> s \<noteq> [] \<and> list_all is_lower_hex s"

lemma hex_digest_plain: "hex_digest s \<Longrightarrow> plain s"
  by (auto simp: hex_digest_def plain_def list_all_iff is_lower_hex_def is_digit_def)

lemma volume_name:
  assumes "hex_digest s" "pre = ''bind_'' \<or> pre = ''namedvol_''"
  shows "normal_component (pre @ s @ ''.tar.gz'')"
    "volume_path (pre @ s @ ''.tar.gz'') = rel_path [''volumes'', pre @ s @ ''.tar.gz'']"
    "validateRelativePath (rel_path [''volumes'', pre @ s @ ''.tar.gz'']) = None"
    "path_base (rel_path [''volumes'', pre @ s @ ''.tar.gz'']) = pre @ s @ ''.tar.gz''"
proof -
  let ?w = "pre @ s @ ''.tar.gz''"
  have p: "plain ?w" "?w \<noteq> []" "?w \<noteq> ''.''" "?w \<noteq> ''..''"
    using hex_digest_plain[OF assms(1)] assms(2) by (auto simp: plain_def)
  note v = valid_plain[OF p]
  have d: "normal_component ''volumes''" "plain ''volumes''" by (simp_all add: normal_component_def plain_def)
  show "normal_component ?w" by (rule v(2))
  show path: "volume_path ?w = rel_path [''volumes'', ?w]"
    using valid_below(3)[OF d v(1)] by (simp add: volume_path_def)
  show "validateRelativePath (rel_path [''volumes'', ?w]) = None"
    using valid_below(1)[OF d v(1)] path by (simp add: volume_path_def)
  have "split_on CHR ''/'' (rel_path [''volumes'', ?w]) = [''volumes'', ?w]"
    using v(2) d by (intro split_rel_path) auto
  then show "path_base (rel_path [''volumes'', ?w]) = ?w"
    by (simp add: path_base_def Let_def)
qed

lemma bind_prefix: "\<not> has_prefix (''bind_'' @ s) ''namedvol_''"
  by (simp add: has_prefix_def)

text \<open>The assumptions on the host: hex digests, and gzip writers that produce readable streams.\<close>

definition sound_host :: "backup_host \<Rightarrow> (string \<Rightarrow> string) \<Rightarrow> (string \<Rightarrow> gzip_result) \<Rightarrow> bool" where
  "sound_host h sha gz \<longleftrightarrow>
     (\<forall>x. hex_digest (sha x))
     \<and> (\<forall>cmd content. bh_shell h cmd = Some content \<longrightarrow> gz content = GzOk)
     \<and> (\<forall>cmd content. bh_archive h cmd = Some content \<longrightarrow> gz content = GzOk)
     \<and> (\<forall>data c. bh_yaml h data = Some c \<longrightarrow> distinct (map fst c))"

lemma backup_mount_ok:
  assumes "backup_mount h sha src proj dst config prj sm seen t = (Inr r, t')"
    and "map_of t ''volumes'' = Some Directory" "sound_host h sha gz"
  shows "stage_ok sha gz t t' (case r of None \<Rightarrow> [] | Some (c, _) \<Rightarrow> [c])"
proof -
  have hex: "\<And>x. hex_digest (sha x)" and gzip: "\<forall>cmd content. bh_archive h cmd = Some content \<longrightarrow> gz content = GzOk"
    using assms(3) by (auto simp: sound_host_def)
  obtain service m where sm: "sm = (service, m)" by (cases sm)
  consider (none) "r = None" "t' = t"
    | (bind) relative command c key where "checkPath src proj relative True False = None"
        "writeVolumeArchive h dst command (volume_path (''bind_'' @ sha relative @ ''.tar.gz'')) t = (None, t')"
        "finish_volume sha dst (service @ ''/'' @ path_base relative) relative
           (volume_path (''bind_'' @ sha relative @ ''.tar.gz'')) t' = Inr c" "r = Some (c, key)"
    | (named) name c key where "dockerObjectName name"
        "writeVolumeArchive h dst (volume_command name) (volume_path (''namedvol_'' @ sha name @ ''.tar.gz'')) t = (None, t')"
        "finish_volume sha dst (name @ '' (named volume)'') []
           (volume_path (''namedvol_'' @ sha name @ ''.tar.gz'')) t' = Inr c" "r = Some (c, key)"
    using assms(1) sm
    by (simp add: backup_mount_def Let_def split: if_splits)
      (auto simp: backup_bind_def backup_named_def Let_def split: if_splits option.splits prod.splits sum.splits)
  then show ?thesis
  proof cases
    case none
    then show ?thesis by (simp add: stage_ok_def)
  next
    case (bind relative command c key)
    let ?w = "''bind_'' @ sha relative @ ''.tar.gz''"
    note name = volume_name[OF hex disjI1[OF refl], of relative]
    have "validateRelativePath relative = None"
      using bind(1) by (auto simp: checkPath_def split: option.splits)
    moreover have "ci_Path c = rel_path [''volumes'', ?w]" "ci_RestorePath c = relative"
      using bind(3) name(2) by (auto simp: finish_volume_def split: option.splits node.splits if_splits)
    ultimately have "validate_volume c = None"
      using name(4) bind_prefix[of "sha relative @ ''.tar.gz''"] by (simp add: validate_volume_def)
    from archive_added[OF bind(2,3) name(2,1) assms(2) name(3) this gzip] bind(4) show ?thesis by simp
  next
    case (named name c key)
    let ?w = "''namedvol_'' @ sha name @ ''.tar.gz''"
    note path = volume_name[OF hex disjI2[OF refl], of name]
    have "ci_Path c = rel_path [''volumes'', ?w]" "ci_Name c = name @ '' (named volume)''" "ci_RestorePath c = []"
      using named(3) path(2) by (auto simp: finish_volume_def split: option.splits node.splits if_splits)
    then have "validate_volume c = None"
      using path(4) named(1) by (simp add: validate_volume_def)
    from archive_added[OF named(2,3) path(2,1) assms(2) path(3) this gzip] named(4) show ?thesis by simp
  qed
qed

lemma backup_mounts_ok:
  assumes "backup_mounts h sha src proj dst config prj ms seen t = (Inr cs, t')"
    and "map_of t ''volumes'' = Some Directory" "sound_host h sha gz"
  shows "stage_ok sha gz t t' cs"
  using assms(1,2)
proof (induction ms arbitrary: seen t cs)
  case Nil
  then show ?case by (simp add: stage_ok_def)
next
  case (Cons m ms)
  obtain r t1 where one: "backup_mount h sha src proj dst config prj m seen t = (Inr r, t1)"
    using Cons.prems(1) by (auto split: sum.splits prod.splits)
  note ok = backup_mount_ok[OF one Cons.prems(2) assms(3)]
  note dir = stage_directory[OF ok Cons.prems(2)]
  show ?case
  proof (cases r)
    case None
    then have "backup_mounts h sha src proj dst config prj ms seen t1 = (Inr cs, t')"
      using Cons.prems(1) one by simp
    from stage_ok_append[OF ok Cons.IH[OF this dir]] None show ?thesis by simp
  next
    case (Some ck)
    obtain c key where ck: "ck = (c, key)" by (cases ck)
    obtain cs1 where "backup_mounts h sha src proj dst config prj ms (key # seen) t1 = (Inr cs1, t')" "cs = c # cs1"
      using Cons.prems(1) one Some ck by (auto split: sum.splits prod.splits)
    from stage_ok_append[OF ok Cons.IH[OF this(1) dir]] this(2) Some ck show ?thesis by simp
  qed
qed

lemma backupVolumes_ok:
  assumes "backupVolumes h sha src proj dst dbs t = (Inr cs, t')" "sound_host h sha gz"
  shows "stage_ok sha gz t t' cs"
proof -
  obtain t1 config prj ms seen where one: "mkdir_all dst ''volumes'' t = (None, t1)"
    "backup_mounts h sha src proj dst config prj ms seen t1 = (Inr cs, t')"
    using assms(1) by (auto simp: backupVolumes_def split: prod.splits option.splits sum.splits if_splits)
  have d: "normal_component ''volumes''" by (simp add: normal_component_def)
  note dir = mkdir_one[OF one(1) d]
  from stage_ok_append[OF stage_ok_nil[OF dir(1,2)] backup_mounts_ok[OF one(2) dir(3) assms(2)]] show ?thesis by simp
qed

subsection \<open>The whole backup\<close>

lemma config_path_dump:
  assumes "c \<in> set cs" "stage_ok sha gz t t' cs" "ci_Type c = ''config''" "ci_Path c = path_join [''config'', ci_Name c]"
    and "dockerObjectName svc"
  shows "dump_path svc \<noteq> ci_Path c"
proof -
  have "validateComponent c = None" using assms(1,2) by (auto simp: stage_ok_def verified_def verifyComponent_ok)
  then have "validateRelativePath (ci_Name c) = None"
    using assms(3) by (auto simp: validateComponent_def split: option.splits)
  from valid_below(3)[OF _ _ this, of "''config''"] have "ci_Path c = ''config/'' @ ci_Name c"
    using assms(4) by (simp add: normal_component_def plain_def)
  then show ?thesis using dump_name(2)[OF assms(5)] by simp
qed

text \<open>The configuration file \<open>n\<close> of the project is saved as component \<open>c\<close>.\<close>

definition saved_file :: "tree \<Rightarrow> tree \<Rightarrow> string \<Rightarrow> ComponentInfo \<Rightarrow> bool" where
  "saved_file proj t n c \<longleftrightarrow> ci_Type c = ''config'' \<and> ci_Name c = n
     \<and> (\<exists>m content. map_of proj n = Some (Regular m content) \<and> sound_file good_io t (ci_Path c) content)"

lemma saved_file_extends: "saved_file proj t n c \<Longrightarrow> extends t t' \<Longrightarrow> saved_file proj t' n c"
  by (auto simp: saved_file_def intro: sound_file_extends)

text \<open>Only the first stage makes configuration components.\<close>

lemma dump_services_type:
  "dump_services h dst backupDir svcs t = (Inr cs, t') \<Longrightarrow> c \<in> set cs \<Longrightarrow> ci_Type c = ''database''"
proof (induction svcs arbitrary: t cs)
  case (Cons svc svcs)
  obtain cs1 t1 cs2 where one: "dump_service h dst backupDir svc t = (Inr cs1, t1)"
    "dump_services h dst backupDir svcs t1 = (Inr cs2, t')" "cs = cs1 @ cs2"
    using Cons.prems(1) by (auto split: sum.splits prod.splits)
  have "\<forall>c \<in> set cs1. ci_Type c = ''database''"
    using one(1) by (cases svc) (auto simp: dump_service_def dumpPostgres_def dumpMySQL_def run_dump_def Let_def
        split: sum.splits prod.splits option.splits if_splits)
  with Cons.IH[OF one(2)] Cons.prems(2) one(3) show ?case by auto
qed simp

lemma finish_volume_type: "finish_volume sha dst name restore p t = Inr c \<Longrightarrow> ci_Type c = ''volume''"
  by (auto simp: finish_volume_def split: option.splits node.splits if_splits)

lemma backup_mount_type:
  "backup_mount h sha src proj dst config prj sm seen t = (Inr (Some (c, key)), t') \<Longrightarrow> ci_Type c = ''volume''"
  by (auto simp: backup_mount_def backup_bind_def backup_named_def Let_def dest: finish_volume_type
      split: if_splits option.splits prod.splits sum.splits)

lemma backup_mounts_type:
  "backup_mounts h sha src proj dst config prj ms seen t = (Inr cs, t') \<Longrightarrow> c \<in> set cs \<Longrightarrow> ci_Type c = ''volume''"
proof (induction ms arbitrary: seen t cs)
  case (Cons m ms)
  then show ?case
    by (auto split: sum.splits prod.splits option.splits dest: backup_mount_type)
qed simp

lemma BackupDatabases_type:
  "BackupDatabases h src proj dst backupDir t = (Inr cs, t') \<Longrightarrow> c \<in> set cs \<Longrightarrow> ci_Type c = ''database''"
  by (auto simp: BackupDatabases_def dest: dump_services_type split: prod.splits option.splits sum.splits)

lemma backupVolumes_type:
  "backupVolumes h sha src proj dst dbs t = (Inr cs, t') \<Longrightarrow> c \<in> set cs \<Longrightarrow> ci_Type c = ''volume''"
  by (auto simp: backupVolumes_def dest: backup_mounts_type split: prod.splits option.splits sum.splits if_splits)

lemma fill_backup_ok:
  assumes "fill_backup h sha enc src proj dst backupDir opts base [] = (None, t)" "sound_host h sha gz"
  shows "\<exists>files cs t1. config_files h src proj = Inr files \<and> stage_ok sha gz [] t1 cs
    \<and> write_manifest enc dst (base\<lparr>mf_Components := cs\<rparr>) t1 = (None, t)
    \<and> (\<forall>n \<in> set (al_keys files). \<exists>c \<in> set cs. saved_file proj t1 n c)
    \<and> (\<forall>c \<in> set cs. ci_Type c = ''config'' \<longrightarrow> saved_file proj t1 (ci_Name c) c)"
proof -
  have nonempty: "\<forall>x. sha x \<noteq> []" using assms(2) by (auto simp: sound_host_def hex_digest_def)
  obtain cs t1 cs2 t2 cs3 t3 where one: "BackupConfigFiles h sha src proj dst [] = (Inr cs, t1)"
    and two: "backup_databases_step h src proj dst backupDir opts cs t1 = (Inr cs2, t2)"
    and three: "backup_volumes_step h sha src proj dst opts cs2 t2 = (Inr cs3, t3)"
    and m: "write_manifest enc dst (base\<lparr>mf_Components := cs3\<rparr>) t3 = (None, t)"
    using assms(1) by (auto simp: fill_backup_def split: prod.splits sum.splits)
  have empty: "regular_paths [] = {}" by (simp add: regular_paths_def)
  obtain files where files: "config_files h src proj = Inr files" "stage_ok sha gz [] t1 cs"
    "set (map ci_Name cs) = set (al_keys files)"
    "\<forall>c \<in> set cs. ci_Type c = ''config'' \<and> ci_Path c = path_join [''config'', ci_Name c]
       \<and> (\<exists>m content. map_of proj (ci_Name c) = Some (Regular m content) \<and> sound_file good_io t1 (ci_Path c) content)"
    using BackupConfigFiles_ok[OF one empty nonempty, of gz] by blast
  have "\<exists>ds. cs2 = cs @ ds \<and> stage_ok sha gz t1 t2 ds \<and> (\<forall>c \<in> set ds. ci_Type c \<noteq> ''config'')"
  proof (cases "bo_SkipDB opts")
    case False
    then obtain ds where ds: "BackupDatabases h src proj dst backupDir t1 = (Inr ds, t2)" "cs2 = cs @ ds"
      using two by (auto simp: backup_databases_step_def split: prod.splits sum.splits)
    have "dump_path svc \<notin> regular_paths t1" if "dockerObjectName svc" for svc
      using config_path_dump[OF _ files(2) _ _ that] files(2,4) empty by (auto simp: stage_ok_def)
    then show ?thesis
      using BackupDatabases_ok[OF ds(1), of gz sha] BackupDatabases_type[OF ds(1)] ds(2) assms(2)
      by (auto simp: sound_host_def)
  qed (use two in \<open>auto simp: backup_databases_step_def stage_ok_def\<close>)
  then obtain ds where ds: "cs2 = cs @ ds" "stage_ok sha gz t1 t2 ds" "\<forall>c \<in> set ds. ci_Type c \<noteq> ''config''" by blast
  have "\<exists>vs. cs3 = cs2 @ vs \<and> stage_ok sha gz t2 t3 vs \<and> (\<forall>c \<in> set vs. ci_Type c \<noteq> ''config'')"
  proof (cases "bo_SkipVolumes opts")
    case False
    then obtain vs where "backupVolumes h sha src proj dst (logical_databases cs2) t2 = (Inr vs, t3)" "cs3 = cs2 @ vs"
      using three by (auto simp: backup_volumes_step_def split: prod.splits sum.splits)
    then show ?thesis using backupVolumes_ok[OF _ assms(2)] backupVolumes_type by fastforce
  qed (use three in \<open>auto simp: backup_volumes_step_def stage_ok_def\<close>)
  then obtain vs where vs: "cs3 = cs2 @ vs" "stage_ok sha gz t2 t3 vs" "\<forall>c \<in> set vs. ci_Type c \<noteq> ''config''" by blast
  have ok: "stage_ok sha gz [] t3 cs3"
    using stage_ok_append[OF stage_ok_append[OF files(2) ds(2)] vs(2)] ds(1) vs(1) by simp
  have ext: "extends t1 t3" using ds(2) vs(2) by (auto simp: stage_ok_def intro: extends_trans)
  have "\<exists>c \<in> set cs3. saved_file proj t3 n c" if "n \<in> set (al_keys files)" for n
  proof -
    have "n \<in> ci_Name ` set cs" using files(3) that by simp
    then obtain c where "c \<in> set cs" "ci_Name c = n" by blast
    then have "saved_file proj t1 n c" using files(4) by (auto simp: saved_file_def)
    from saved_file_extends[OF this ext] show ?thesis using \<open>c \<in> set cs\<close> ds(1) vs(1) by auto
  qed
  moreover have "saved_file proj t3 (ci_Name c) c" if "c \<in> set cs3" "ci_Type c = ''config''" for c
  proof -
    have "c \<in> set cs" using that ds(1,3) vs(1,3) by auto
    then have "saved_file proj t1 (ci_Name c) c" using files(4) by (auto simp: saved_file_def)
    then show ?thesis by (rule saved_file_extends[OF _ ext])
  qed
  ultimately show ?thesis using files(1) ok m by blast
qed

text \<open>The files a tree holds once the manifest is written.\<close>

lemma manifest_added:
  assumes "write_manifest enc dst m t1 = (None, t)" "stage_ok sha gz [] t1 cs"
  shows "extends t1 t" "map_of t manifestName = Some (Regular 420 (enc m))"
proof -
  have w: "writable t1 manifestName" "t = al_put manifestName (Regular 420 (enc m)) t1"
    using assms(1) by (auto simp: write_manifest_def split: if_splits)
  have "CHR ''/'' \<notin> set manifestName" by (simp add: manifestName_def)
  then have "manifestName \<notin> regular_paths t1"
    using assms(2) by (auto simp: stage_ok_def regular_paths_def)
  from fresh_writable[OF w(1) this] show "extends t1 t" by (simp add: w(2) extends_put)
  show "map_of t manifestName = Some (Regular 420 (enc m))" by (simp add: w(2) map_of_put)
qed

lemma ReadManifest_good:
  assumes "map_of t manifestName = Some (Regular 420 (enc m))" "dec (enc m) = Some m"
  shows "ReadManifest dec good_io t = Inr m"
proof -
  have "path_prefixes manifestName = [manifestName]" "validateRelativePath manifestName = None" by code_simp+
  then have "checkPath good_io t manifestName False False = None"
    using assms(1) by (simp add: checkPath_None sound_file_def good_io_def)
  then show ?thesis using assms by (simp add: ReadManifest_def read_file_def open_file_def good_io_def)
qed

lemma verifyComponent_component [simp]: "vr_Component (verifyComponent sha gz io t c) = c"
  by (simp add: verifyComponent_def verify_content_def verifyConfigFile_def verifyGzipFile_def verify_failed_def
      verify_ok_def Let_def split: option.split sum.split node.split)

lemma CreateBackup_filled:
  assumes "CreateBackup h sha enc src proj dst cfg prj backupType trigger opts backupID now stamp up (store, db)
      = (Inr row, store', db')" "sound_host h sha gz"
  shows "\<exists>t files m. store' (bk_Path row) = Some t \<and> row \<in> set (db_backups db')
    \<and> map_of t manifestName = Some (Regular 420 (enc m)) \<and> config_files h src proj = Inr files
    \<and> (\<forall>c \<in> set (mf_Components m). verified sha gz t c \<and> (ci_Type c = ''config'' \<longrightarrow> saved_file proj t (ci_Name c) c))
    \<and> (\<forall>n \<in> set (al_keys files). \<exists>c \<in> set (mf_Components m). saved_file proj t n c)"
proof -
  let ?dir = "path_join [bc_BasePath cfg, pj_Name prj, backupID]"
  obtain base t where fill: "fill_backup h sha enc src proj dst ?dir opts base [] = (None, t)"
    and row: "store' = store(?dir \<mapsto> t)" "bk_Path row = ?dir" "row \<in> set (db_backups db')"
    using assms(1)
    by (auto simp: CreateBackup_def Let_def CreateBackupRecord_def or_default_def split: prod.splits option.splits if_splits)
  obtain files cs t1 where b: "config_files h src proj = Inr files" "stage_ok sha gz [] t1 cs"
    "write_manifest enc dst (base\<lparr>mf_Components := cs\<rparr>) t1 = (None, t)"
    "\<forall>n \<in> set (al_keys files). \<exists>c \<in> set cs. saved_file proj t1 n c"
    "\<forall>c \<in> set cs. ci_Type c = ''config'' \<longrightarrow> saved_file proj t1 (ci_Name c) c"
    using fill_backup_ok[OF fill assms(2)] by blast
  note added = manifest_added[OF b(3,2)]
  have "\<forall>c \<in> set cs. verified sha gz t c" using b(2) added(1) by (auto simp: stage_ok_def intro: verified_extends)
  moreover have "\<forall>n \<in> set (al_keys files). \<exists>c \<in> set cs. saved_file proj t n c"
    using b(4) saved_file_extends[OF _ added(1)] by blast
  ultimately show ?thesis
    using row b(1,5) added saved_file_extends[OF _ added(1)]
    by (intro exI[of _ t] exI[of _ files] exI[of _ "base\<lparr>mf_Components := cs\<rparr>"]) simp
qed

lemma CreateBackup_sound:
  assumes "CreateBackup h sha enc src proj dst cfg prj backupType trigger opts backupID now stamp up (store, db)
      = (Inr row, store', db')"
    and "\<forall>m. dec (enc m) = Some m" "sound_host h sha gz"
  shows "\<exists>t results files. store' (bk_Path row) = Some t \<and> row \<in> set (db_backups db')
    \<and> VerifyBackup sha gz dec good_io t = Inr results \<and> \<not> HasFailures results
    \<and> config_files h src proj = Inr files
    \<and> (\<forall>n \<in> set (al_keys files). \<exists>r \<in> set results. saved_file proj t n (vr_Component r))"
proof -
  obtain t files m where b: "store' (bk_Path row) = Some t" "row \<in> set (db_backups db')"
    "map_of t manifestName = Some (Regular 420 (enc m))" "config_files h src proj = Inr files"
    "\<forall>c \<in> set (mf_Components m). verified sha gz t c"
    "\<forall>n \<in> set (al_keys files). \<exists>c \<in> set (mf_Components m). saved_file proj t n c"
    using CreateBackup_filled[OF assms(1,3)] by blast
  let ?results = "map (verifyComponent sha gz good_io t) (mf_Components m)"
  have "VerifyBackup sha gz dec good_io t = Inr ?results"
    using ReadManifest_good[of t enc m dec] b(3) assms(2) by (simp add: VerifyBackup_def verifyManifest_def)
  moreover have "\<not> HasFailures ?results" using b(5) by (auto simp: HasFailures_iff verified_def)
  ultimately show ?thesis using b(1,2,4,6) by fastforce
qed


text \<open>A backup that fails leaves no record: the registry is unchanged, and no directory is left at the
  backup's place unless removing it failed too; other backups are never touched.\<close>
theorem CreateBackup_failure:
  assumes "CreateBackup h sha enc src proj dst cfg prj backupType trigger opts backupID now stamp up (store, db)
      = (Inl e, store', db')"
  shows "db' = db
    \<and> (\<forall>d. d \<noteq> path_join [bc_BasePath cfg, pj_Name prj, backupID] \<longrightarrow> store' d = store d)
    \<and> (\<not> io_bad dst OpRemove [] \<and> \<not> io_bad dst OpMkdir []
        \<longrightarrow> store' (path_join [bc_BasePath cfg, pj_Name prj, backupID]) = None)"
  using assms
  by (auto simp: CreateBackup_def Let_def CreateBackupRecord_def split: prod.splits option.splits if_splits)

subsection \<open>Shell quoting\<close>

text \<open>How a POSIX shell reads words made of plain characters and quoted parts; \<open>None\<close> stands for
  anything it would interpret (expansions, operators, escapes) or an unclosed quote.\<close>

datatype quote_state = Bare | InSingle | InDouble

definition shell_special :: string where
  "shell_special = [CHR ''$'', CHR 0x60, CHR 0x5C, CHR '';'', CHR ''|'', CHR ''&'', CHR ''<'', CHR ''>'', CHR ''('', CHR '')'',
     CHR ''*'', CHR ''?'', CHR ''['', CHR ''#'', CHR ''~'', CHR 0x0A, CHR 0x09]"

definition end_word :: "string option \<Rightarrow> string list" where
  "end_word cur = (case cur of None \<Rightarrow> [] | Some w \<Rightarrow> [w])"

definition grow :: "string option \<Rightarrow> char \<Rightarrow> string option" where
  "grow cur c = Some ((case cur of None \<Rightarrow> [] | Some w \<Rightarrow> w) @ [c])"

definition begun :: "string option \<Rightarrow> string option" where
  "begun cur = Some (case cur of None \<Rightarrow> [] | Some w \<Rightarrow> w)"

fun shell_words :: "quote_state \<Rightarrow> string option \<Rightarrow> string \<Rightarrow> string list option" where
  "shell_words Bare cur [] = Some (end_word cur)"
| "shell_words q cur [] = None"
| "shell_words Bare cur (c # s) =
     (if c = CHR '' '' then map_option ((@) (end_word cur)) (shell_words Bare None s)
      else if c = CHR 0x27 then shell_words InSingle (begun cur) s
      else if c = CHR 0x22 then shell_words InDouble (begun cur) s
      else if c \<in> set shell_special then None
      else shell_words Bare (grow cur c) s)"
| "shell_words InSingle cur (c # s) =
     (if c = CHR 0x27 then shell_words Bare cur s else shell_words InSingle (grow cur c) s)"
| "shell_words InDouble cur (c # s) =
     (if c = CHR 0x22 then shell_words Bare cur s
      else if c \<in> {CHR ''$'', CHR 0x60, CHR 0x5C} then None
      else shell_words InDouble (grow cur c) s)"

definition escaped :: "string \<Rightarrow> string" where
  "escaped arg = concat (map (\<lambda>c. if c = CHR 0x27 then [CHR 0x27, CHR 0x22, CHR 0x27, CHR 0x22, CHR 0x27] else [c]) arg)"

lemma shell_words_escaped:
  "shell_words InSingle (Some w) (escaped arg @ CHR 0x27 # rest) = shell_words Bare (Some (w @ arg)) rest"
  by (induction arg arbitrary: w) (auto simp: escaped_def grow_def begun_def)

lemma quote_one_escaped: "quote_one arg = CHR 0x27 # escaped arg @ [CHR 0x27]"
  by (simp add: quote_one_def escaped_def)

lemma shellQuote_words: "shell_words Bare None (shellQuote (a # args)) = Some (a # args)"
proof (induction args arbitrary: a)
  case Nil
  then show ?case
    using shell_words_escaped[of "[]" a "[]"]
    by (simp add: shellQuote_def quote_one_escaped begun_def end_word_def)
next
  case (Cons b args)
  have "shell_words Bare None (shellQuote (a # b # args))
      = shell_words InSingle (Some []) (escaped a @ CHR 0x27 # CHR '' '' # shellQuote (b # args))"
    by (simp add: shellQuote_def quote_one_escaped begun_def)
  with Cons show ?case by (simp add: shell_words_escaped end_word_def)
qed

text \<open>Shell quoting is exact: whatever the arguments contain (quotes, spaces, dollars, newlines), a shell
  reads the quoted text back as exactly these arguments and interprets nothing in it.\<close>
theorem shellQuote_exact: "shell_words Bare None (shellQuote args) = Some args"
  by (cases args) (simp_all add: shellQuote_words, simp add: shellQuote_def end_word_def)

subsection \<open>Examples\<close>

definition sample_project_tree :: tree where
  "sample_project_tree = [(''compose.yml'', Regular 420 ''services''), (''.env'', Regular 384 ''A=1'')]"

definition sample_backup_host :: backup_host where
  "sample_backup_host =
     \<lparr>bh_glob = (\<lambda>p. Some (if p = ''compose.yml'' \<or> p = ''.env'' then [p] else [])),
      bh_yaml = (\<lambda>_. Some [(''db'', \<lparr>cs_Image = ''postgres:16'', cs_Labels = LabelsNil, cs_EnvFile = YamlAbsent\<rparr>)]),
      bh_docker = (\<lambda>args. Some (if args = [''compose'', ''ps'', ''-q'', ''db''] then ''c1'' else ''[]'')),
      bh_json_env = (\<lambda>_. Some [''POSTGRES_DB=shop'']),
      bh_shell = (\<lambda>_. Some (replicate 100 CHR ''d'')),
      bh_volumes = Some \<lparr>vc_Services = [(''web'', [\<lparr>cm_Type = ''volume'', cm_Source = ''data'', cm_Target = ''/d'', cm_ReadOnly = False\<rparr>])],
                         vc_Volumes = [(''data'', ''shop_data'')]\<rparr>,
      bh_archive = (\<lambda>_. Some ''tar''),
      bh_inspect = (\<lambda>_. True),
      bh_abs = Some ''/srv/shop''\<rparr>"

text \<open>A codec of manifests: their fields as quoted words.\<close>

definition int_word :: "int \<Rightarrow> string" where
  "int_word i = (if i < 0 then CHR ''-'' # replicate (nat (- i)) CHR ''1'' else replicate (nat i) CHR ''1'')"

definition word_int :: "string \<Rightarrow> int" where
  "word_int w = (case w of CHR ''-'' # v \<Rightarrow> - int (length v) | _ \<Rightarrow> int (length w))"

lemma word_int_word: "word_int (int_word i) = i"
  by (cases "nat i") (auto simp: word_int_def int_word_def split: list.split)

fun component_words :: "ComponentInfo list \<Rightarrow> string list" where
  "component_words [] = []"
| "component_words (c # cs) =
     ci_Type c # ci_Name c # ci_Path c # int_word (ci_SizeBytes c) # ci_Checksum c # ci_RestorePath c # component_words cs"

fun words_components :: "string list \<Rightarrow> ComponentInfo list" where
  "words_components (a # b # c # d # e # f # ws) =
     \<lparr>ci_Type = a, ci_Name = b, ci_Path = c, ci_SizeBytes = word_int d, ci_Checksum = e, ci_RestorePath = f\<rparr>
       # words_components ws"
| "words_components ws = []"

definition sample_enc :: "Manifest \<Rightarrow> string" where
  "sample_enc m = shellQuote (mf_Version m # mf_ProjectName m # mf_ProjectPath m # mf_Domain m # mf_CreatedAt m
     # mf_Type m # mf_Trigger m # component_words (mf_Components m))"

definition sample_dec :: "string \<Rightarrow> Manifest option" where
  "sample_dec s = (case shell_words Bare None s of
       Some (v # n # p # d # c # t # g # ws) \<Rightarrow>
         Some \<lparr>mf_Version = v, mf_ProjectName = n, mf_ProjectPath = p, mf_Domain = d, mf_CreatedAt = c, mf_Type = t,
               mf_Trigger = g, mf_Components = words_components ws\<rparr>
     | _ \<Rightarrow> None)"

lemma words_component_words: "words_components (component_words cs) = cs"
  by (induction cs) (simp_all add: word_int_word)

lemma sample_codec_exact: "sample_dec (sample_enc m) = Some m"
  by (simp add: sample_dec_def sample_enc_def shellQuote_words words_component_words)

definition sample_created :: "(backup_error + backup_row) \<times> backup_store \<times> fleet_db" where
  "sample_created = CreateBackup sample_backup_host (\<lambda>_. ''ab'') sample_enc good_io sample_project_tree good_io
     sample_retention sample_project ''manual'' ''user'' \<lparr>bo_SkipDB = False, bo_SkipVolumes = False\<rparr> ''b9'' 9 [] True
     (\<lambda>_. None, registry3)"

lemma sample_host_sound: "sound_host sample_backup_host (\<lambda>_. ''ab'') (\<lambda>_. GzOk)"
  by (simp add: sound_host_def sample_backup_host_def hex_digest_def is_lower_hex_def is_digit_def)


lemma CreateBackup_failure_witness:
  "snd (snd (CreateBackup sample_backup_host (\<lambda>_. ''ab'') sample_enc good_io sample_project_tree
       good_io sample_retention sample_project ''manual'' ''user'' \<lparr>bo_SkipDB = False, bo_SkipVolumes = False\<rparr>
       ''b9'' 9 [] False (\<lambda>_. None, registry3))) = registry3"
proof -
  let ?run = "CreateBackup sample_backup_host (\<lambda>_. ''ab'') sample_enc good_io sample_project_tree
       good_io sample_retention sample_project ''manual'' ''user'' \<lparr>bo_SkipDB = False, bo_SkipVolumes = False\<rparr>
       ''b9'' 9 [] False (\<lambda>_. None, registry3)"
  have "is_ok (fst ?run) = False" by code_simp
  then obtain e store' db' where r: "?run = (Inl e, store', db')"
    by (cases ?run rule: prod_cases3; cases "fst ?run") auto
  from CreateBackup_failure[OF r] r show ?thesis by simp
qed

end
