(* ===== verification/Backup_Restore.thy ===== *)
theory Backup_Restore
  imports Backup_Created
begin

text \<open>
  \<open>internal/backup/restore.go\<close> and \<open>config_restore.go\<close>: restoring a backup into a project. The state
  is the project's tree and the log of the commands run; the host answers a command from the log
  before it. Putting one bind archive back (\<open>bind_restore.go\<close>) is a command of the host here; \<open>Bind_Restore\<close> models it.
\<close>

datatype restore_cmd =
    CmdCompose "string list"
  | CmdDocker "string list"
  | CmdShell "(string \<times> string) list" string
  | CmdBind string string

record restore_state =
  rs_tree :: tree
  rs_log :: "restore_cmd list"

record restore_host =
  rh_run :: "restore_cmd list \<Rightarrow> restore_cmd \<Rightarrow> bool"
  rh_backup :: backup_host

definition run_restore :: "restore_host \<Rightarrow> restore_cmd \<Rightarrow> restore_state \<Rightarrow> bool \<times> restore_state" where
  "run_restore h c st = (rh_run h (rs_log st) c, st\<lparr>rs_log := rs_log st @ [c]\<rparr>)"

record RestoreOptions =
  ro_FilesOnly :: bool
  ro_VolumesOnly :: bool
  ro_DBOnly :: bool
  ro_NoStart :: bool

subsection \<open>Configuration files\<close>

definition config_mode :: "string \<Rightarrow> nat \<Rightarrow> nat" where
  "config_mode name perm = (if path_base name = ''.env'' then 384 else perm)"

text \<open>The calls on the temporary file, from its creation to the rename; the deferred removal.\<close>

definition replace_config ::
  "(string \<Rightarrow> string) \<Rightarrow> fs_io \<Rightarrow> fs_io \<Rightarrow> ComponentInfo \<Rightarrow> nat \<Rightarrow> string \<Rightarrow> string \<Rightarrow> tree
    \<Rightarrow> backup_error option \<times> tree" where
  "replace_config sha src dst c perm content tmp t =
     (let mode = config_mode (ci_Name c) perm;
          leave = (\<lambda>e t. (Some e, if io_bad dst OpRemove tmp then t else al_del tmp t));
          full = al_put tmp (Regular 384 content) t
      in if io_bad src OpRead (ci_Path c) \<or> io_bad dst OpWrite tmp
         then leave IoFailed (al_put tmp (Regular 384 (take (io_cut dst tmp) content)) t)
         else if sha content \<noteq> ci_Checksum c then leave ChecksumMismatch full
         else if io_bad dst OpChmod tmp then leave IoFailed full
         else if io_bad dst OpClose tmp then leave IoFailed (al_put tmp (Regular mode content) t)
         else if io_bad dst OpRename (ci_Name c) then leave IoFailed (al_put tmp (Regular mode content) t)
         else (None, al_put (ci_Name c) (Regular mode content) (al_del tmp (al_put tmp (Regular mode content) t))))"

definition restoreConfigFile ::
  "(string \<Rightarrow> string) \<Rightarrow> fs_io \<Rightarrow> tree \<Rightarrow> fs_io \<Rightarrow> string \<Rightarrow> ComponentInfo \<Rightarrow> tree
    \<Rightarrow> backup_error option \<times> tree" where
  "restoreConfigFile sha src backup dst uuid c t =
     (case checkPath src backup (ci_Path c) False False of
        Some e \<Rightarrow> (Some e, t)
      | None \<Rightarrow>
          (case checkPath dst t (ci_Name c) False True of
             Some e \<Rightarrow> (Some e, t)
           | None \<Rightarrow>
               (case open_file src backup (ci_Path c) of
                  Inl e \<Rightarrow> (Some e, t)
                | Inr nd \<Rightarrow>
                    if io_bad src OpStat (ci_Path c) then (Some IoFailed, t)
                    else (case nd of
                        Regular perm content \<Rightarrow>
                          (case mkdir_all dst (path_dir (ci_Name c)) t of
                             (Some e, t1) \<Rightarrow> (Some e, t1)
                           | (None, t1) \<Rightarrow>
                               let tmp = path_join [path_dir (ci_Name c), ''.fleetdeck-config-'' @ uuid] in
                               if io_bad dst OpCreate tmp \<or> al_has t1 tmp then (Some IoFailed, t1)
                               else replace_config sha src dst c perm content tmp t1)
                      | _ \<Rightarrow> (Some NotRegular, t)))))"

fun restore_configs ::
  "(string \<Rightarrow> string) \<Rightarrow> fs_io \<Rightarrow> tree \<Rightarrow> fs_io \<Rightarrow> (nat \<Rightarrow> string) \<Rightarrow> nat \<Rightarrow> ComponentInfo list \<Rightarrow> tree
    \<Rightarrow> string list \<times> tree" where
  "restore_configs sha src backup dst uuid i [] t = ([], t)"
| "restore_configs sha src backup dst uuid i (c # cs) t =
     (if ci_Type c \<noteq> ''config'' then restore_configs sha src backup dst uuid i cs t
      else case restoreConfigFile sha src backup dst (uuid i) c t of
        (e, t1) \<Rightarrow>
          (case restore_configs sha src backup dst uuid (Suc i) cs t1 of
             (fails, t2) \<Rightarrow> (if e = None then fails else ci_Name c # fails, t2)))"

subsection \<open>Volumes\<close>

definition volume_script :: "string \<Rightarrow> string" where
  "volume_script archiveFile =
     ''set -e; '' @ ''rm -rf /data/.restore.tmp; mkdir -p /data/.restore.tmp; ''
     @ ''tar xzf /backup/'' @ shellQuote [archiveFile] @ '' -C /data/.restore.tmp; ''
     @ ''find /data -mindepth 1 -maxdepth 1 -not -name .restore.tmp -exec rm -rf {} +; ''
     @ ''cp -a /data/.restore.tmp/. /data/; '' @ ''rm -rf /data/.restore.tmp''"

definition restoreNamedVolume :: "string \<Rightarrow> string \<Rightarrow> restore_cmd" where
  "restoreNamedVolume archivePath volumeName =
     CmdDocker [''run'', ''--rm'', ''-v'', volumeName @ '':/data'', ''-v'', path_dir archivePath @ '':/backup:ro'',
       ''alpine'', ''sh'', ''-c'', volume_script (path_base archivePath)]"

definition extractNamedVolumeName :: "string \<Rightarrow> string" where
  "extractNamedVolumeName name = hd (split_on CHR '' '' name)"

definition restore_volume :: "restore_host \<Rightarrow> string \<Rightarrow> ComponentInfo \<Rightarrow> restore_state \<Rightarrow> bool \<times> restore_state" where
  "restore_volume h backupPath c st =
     (let archivePath = path_join [backupPath, ci_Path c] in
      if has_prefix (path_base archivePath) ''namedvol_'' then
        (let volName = extractNamedVolumeName (ci_Name c) in
         if volName = [] then (True, st) else run_restore h (restoreNamedVolume archivePath volName) st)
      else run_restore h (CmdBind archivePath (ci_RestorePath c)) st)"

subsection \<open>Databases\<close>

fun probe_database :: "restore_host \<Rightarrow> string \<Rightarrow> nat \<Rightarrow> restore_state \<Rightarrow> bool \<times> restore_state" where
  "probe_database h service 0 st = (False, st)"
| "probe_database h service (Suc n) st =
     (case run_restore h (CmdCompose [''exec'', ''-T'', service, ''true'']) st of
        (ok, st1) \<Rightarrow> if ok then (True, st1) else probe_database h service n st1)"

definition startDBContainer :: "restore_host \<Rightarrow> string \<Rightarrow> restore_state \<Rightarrow> bool \<times> restore_state" where
  "startDBContainer h componentName st =
     (case Go_Strings.fields componentName of
        [] \<Rightarrow> (False, st)
      | service # _ \<Rightarrow>
          (case run_restore h (CmdCompose [''up'', ''-d'', service]) st of
             (ok, st1) \<Rightarrow> if ok then probe_database h service 30 st1 else (False, st1)))"

definition restore_postgres :: "string \<Rightarrow> string \<Rightarrow> (string \<times> string) list \<Rightarrow> restore_cmd" where
  "restore_postgres dumpPath container env =
     (let user = or_default ''postgres'' (env_value env ''POSTGRES_USER'');
          dbName = or_default user (env_value env ''POSTGRES_DB'')
      in CmdShell [] (''set -o pipefail; gunzip -c '' @ shellQuote [dumpPath] @ '' | docker exec -i ''
           @ shellQuote [container] @ '' psql -X --set=ON_ERROR_STOP=on -U '' @ shellQuote [user] @ '' '' @ shellQuote [dbName]))"

definition restore_mysql :: "string \<Rightarrow> string \<Rightarrow> (string \<times> string) list \<Rightarrow> restore_cmd" where
  "restore_mysql dumpPath container env =
     (let password = env_value env ''MYSQL_ROOT_PASSWORD''
      in CmdShell (if password = [] then [] else [(''MYSQL_PWD'', password)])
           (''set -o pipefail; gunzip -c '' @ shellQuote [dumpPath] @ '' | docker exec -i''
             @ (if password = [] then [] else '' -e MYSQL_PWD'')
             @ '' '' @ shellQuote [container] @ '' mysql -u root '' @ shellQuote [mysql_database env]))"

definition restoreDatabase ::
  "restore_host \<Rightarrow> string \<Rightarrow> string \<Rightarrow> restore_state \<Rightarrow> bool \<times> restore_state" where
  "restoreDatabase h dumpPath componentName st =
     (if \<not> databaseComponentName componentName then (False, st)
      else case databaseEnvironment (rh_backup h) (hd (Go_Strings.fields componentName)) of
        Inl e \<Rightarrow> (False, st)
      | Inr (container, env) \<Rightarrow>
          if contains_str componentName ''PostgreSQL'' then
            run_restore h (restore_postgres dumpPath container env) st
          else if contains_str componentName ''MySQL'' then
            (if mysql_database env = [] then (False, st)
             else run_restore h (restore_mysql dumpPath container env) st)
          else (True, st))"

definition restore_database :: "restore_host \<Rightarrow> string \<Rightarrow> ComponentInfo \<Rightarrow> restore_state \<Rightarrow> bool \<times> restore_state" where
  "restore_database h backupPath c st =
     (case startDBContainer h (ci_Name c) st of
        (ok, st1) \<Rightarrow> if ok then restoreDatabase h (path_join [backupPath, ci_Path c]) (ci_Name c) st1 else (False, st1))"

text \<open>The components of one type, with the names of those that failed.\<close>

fun restore_typed ::
  "(ComponentInfo \<Rightarrow> restore_state \<Rightarrow> bool \<times> restore_state) \<Rightarrow> string \<Rightarrow> ComponentInfo list \<Rightarrow> restore_state
    \<Rightarrow> string list \<times> restore_state" where
  "restore_typed f ty [] st = ([], st)"
| "restore_typed f ty (c # cs) st =
     (if ci_Type c \<noteq> ty then restore_typed f ty cs st
      else case f c st of
        (ok, st1) \<Rightarrow>
          (case restore_typed f ty cs st1 of
             (fails, st2) \<Rightarrow> (if ok then fails else ci_Name c # fails, st2)))"

subsection \<open>The restore\<close>

datatype restore_error =
    RestoreManifest backup_error
  | RestoreVerification
  | RestoreRoot
  | RestoreUnsafe backup_error
  | RestoreStop
  | RestoreIncomplete "string list"
  | RestoreStart

definition restore_selected :: "RestoreOptions \<Rightarrow> bool \<Rightarrow> bool" where
  "restore_selected opts only \<longleftrightarrow>
     (\<not> ro_FilesOnly opts \<and> \<not> ro_VolumesOnly opts \<and> \<not> ro_DBOnly opts) \<or> only"

definition unsafe_destination :: "fs_io \<Rightarrow> tree \<Rightarrow> ComponentInfo list \<Rightarrow> backup_error option" where
  "unsafe_destination dst t cs =
     first_some (\<lambda>c. checkPath dst t (ci_Name c) False True) (filter (\<lambda>c. ci_Type c = ''config'') cs)"

definition restore_data ::
  "restore_host \<Rightarrow> (string \<Rightarrow> string) \<Rightarrow> fs_io \<Rightarrow> tree \<Rightarrow> fs_io \<Rightarrow> (nat \<Rightarrow> string) \<Rightarrow> string \<Rightarrow> RestoreOptions
    \<Rightarrow> ComponentInfo list \<Rightarrow> restore_state \<Rightarrow> string list \<times> restore_state" where
  "restore_data h sha src backup dst uuid backupPath opts cs st =
     (let (f1, st1) =
            (if restore_selected opts (ro_FilesOnly opts)
             then (case restore_configs sha src backup dst uuid 0 cs (rs_tree st) of
                     (f, t) \<Rightarrow> (f, st\<lparr>rs_tree := t\<rparr>))
             else ([], st));
          (f2, st2) =
            (if restore_selected opts (ro_VolumesOnly opts)
             then restore_typed (restore_volume h backupPath) ''volume'' cs st1 else ([], st1));
          (f3, st3) =
            (if restore_selected opts (ro_DBOnly opts)
             then restore_typed (restore_database h backupPath) ''database'' cs st2 else ([], st2))
      in (f1 @ f2 @ f3, st3))"

definition restore_run ::
  "restore_host \<Rightarrow> (string \<Rightarrow> string) \<Rightarrow> fs_io \<Rightarrow> tree \<Rightarrow> fs_io \<Rightarrow> (nat \<Rightarrow> string) \<Rightarrow> string \<Rightarrow> RestoreOptions
    \<Rightarrow> ComponentInfo list \<Rightarrow> restore_state \<Rightarrow> restore_error option \<times> restore_state" where
  "restore_run h sha src backup dst uuid backupPath opts cs st =
     (case run_restore h (CmdCompose [''down'']) st of
        (stopped, st1) \<Rightarrow>
          if \<not> stopped then (Some RestoreStop, st1)
          else case restore_data h sha src backup dst uuid backupPath opts cs st1 of
            (fails, st2) \<Rightarrow>
              if fails \<noteq> [] then (Some (RestoreIncomplete fails), st2)
              else if ro_NoStart opts then (None, st2)
              else (case run_restore h (CmdCompose [''up'', ''-d'']) st2 of
                  (ok, st3) \<Rightarrow> (if ok then None else Some RestoreStart, st3)))"

definition RestoreBackup ::
  "restore_host \<Rightarrow> (string \<Rightarrow> string) \<Rightarrow> (string \<Rightarrow> gzip_result) \<Rightarrow> (string \<Rightarrow> Manifest option) \<Rightarrow> fs_io \<Rightarrow> tree
    \<Rightarrow> fs_io \<Rightarrow> (nat \<Rightarrow> string) \<Rightarrow> string \<Rightarrow> RestoreOptions \<Rightarrow> restore_state
    \<Rightarrow> restore_error option \<times> restore_state" where
  "RestoreBackup h sha gz dec src backup dst uuid backupPath opts st =
     (case ReadManifest dec src backup of
        Inl e \<Rightarrow> (Some (RestoreManifest e), st)
      | Inr m \<Rightarrow>
          if HasFailures (verifyManifest sha gz src backup m) then (Some RestoreVerification, st)
          else if io_bad src OpRoot [] \<or> io_bad dst OpRoot [] then (Some RestoreRoot, st)
          else case (if restore_selected opts (ro_FilesOnly opts)
                     then unsafe_destination dst (rs_tree st) (mf_Components m) else None) of
            Some e \<Rightarrow> (Some (RestoreUnsafe e), st)
          | None \<Rightarrow> restore_run h sha src backup dst uuid backupPath opts (mf_Components m) st)"

subsection \<open>What a restore changes\<close>

text \<open>The entries outside \<open>N\<close> that existed are as they were.\<close>

definition keeps_entries :: "string set \<Rightarrow> tree \<Rightarrow> tree \<Rightarrow> bool" where
  "keeps_entries N t t' \<longleftrightarrow> (\<forall>p nd. p \<notin> N \<longrightarrow> map_of t p = Some nd \<longrightarrow> map_of t' p = Some nd)"

lemma keeps_entries_trans:
  "keeps_entries N t t1 \<Longrightarrow> keeps_entries N t1 t2 \<Longrightarrow> keeps_entries N t t2"
  by (simp add: keeps_entries_def)

lemma keeps_entries_mono: "keeps_entries N t t' \<Longrightarrow> N \<subseteq> N' \<Longrightarrow> keeps_entries N' t t'"
  by (auto simp: keeps_entries_def)

lemma keeps_entries_extends: "extends t t' \<Longrightarrow> keeps_entries N t t'"
  by (auto simp: extends_def keeps_entries_def)

definition restored :: "(string \<Rightarrow> string) \<Rightarrow> fs_io \<Rightarrow> tree \<Rightarrow> tree \<Rightarrow> ComponentInfo \<Rightarrow> bool" where
  "restored sha src backup t c \<longleftrightarrow>
     (\<exists>m content. map_of t (ci_Name c) = Some (Regular m content) \<and> sound_file src backup (ci_Path c) content
        \<and> sha content = ci_Checksum c)"

lemma make_dirs_extends: "make_dirs io ps t = (e, t') \<Longrightarrow> extends t t'"
proof (induction io ps t rule: make_dirs.induct)
  case (2 io p ps t)
  show ?case
  proof (cases "map_of t p")
    case None
    with 2 extends_put[OF None, of Directory] show ?thesis
      by (auto split: if_splits intro: extends_trans)
  next
    case (Some nd)
    with 2 show ?thesis by (cases nd) (auto split: if_splits)
  qed
qed simp

lemma mkdir_all_extends: "mkdir_all io p t = (e, t') \<Longrightarrow> extends t t'"
  by (auto simp: mkdir_all_def dest: make_dirs_extends split: if_splits)

lemma replace_config_cases:
  assumes "replace_config sha src dst c perm content tmp t = (e, t')" "map_of t tmp = None"
  shows "if e = None then sha content = ci_Checksum c
            \<and> map_of t' (ci_Name c) = Some (Regular (config_mode (ci_Name c) perm) content)
            \<and> keeps_entries {ci_Name c} t t'
          else keeps_entries {} t t'"
  using assms
  by (auto simp: replace_config_def Let_def keeps_entries_def map_of_put map_of_del split: if_splits)

lemma restoreConfigFile_cases:
  assumes "restoreConfigFile sha src backup dst uuid c t = (e, t')"
  shows "if e = None then restored sha src backup t' c \<and> keeps_entries {ci_Name c} t t'
          else keeps_entries {} t t'"
proof -
  consider (early) "e \<noteq> None" "t' = t"
    | (dirs) e1 t1 where "e \<noteq> None" "mkdir_all dst (path_dir (ci_Name c)) t = (e1, t1)" "t' = t1"
    | (copy) t1 tmp perm content where "mkdir_all dst (path_dir (ci_Name c)) t = (None, t1)"
        "replace_config sha src dst c perm content tmp t1 = (e, t')" "map_of t1 tmp = None"
        "checkPath src backup (ci_Path c) False False = None" "open_file src backup (ci_Path c) = Inr (Regular perm content)"
  proof (cases "checkPath src backup (ci_Path c) False False")
    case (Some x)
    then have "e = Some x \<and> t' = t" using assms by (simp add: restoreConfigFile_def)
    then show ?thesis using that(1) by blast
  next
    case src: None
    show ?thesis
    proof (cases "checkPath dst t (ci_Name c) False True")
      case (Some x)
      then have "e = Some x \<and> t' = t" using assms src by (simp add: restoreConfigFile_def)
      then show ?thesis using that(1) by blast
    next
      case None
      then show ?thesis
        using assms src that
        by (auto simp: restoreConfigFile_def Let_def al_has_def split: sum.splits node.splits prod.splits if_splits option.splits)
    qed
  qed
  then show ?thesis
  proof cases
    case early
    then show ?thesis by (cases e) (simp_all add: keeps_entries_def)
  next
    case dirs
    then show ?thesis using keeps_entries_extends[OF mkdir_all_extends[OF dirs(2)], of "{}"] by (cases e) simp_all
  next
    case copy
    have ext: "extends t t1" by (rule mkdir_all_extends[OF copy(1)])
    have "sound_file src backup (ci_Path c) content"
      using copy(4,5) by (auto simp: checkPath_None sound_file_def open_file_def split: if_splits option.splits)
    with replace_config_cases[OF copy(2,3)] keeps_entries_extends[OF ext] show ?thesis
      by (cases "e = None") (auto simp: restored_def intro: keeps_entries_trans)
  qed
qed

abbreviation config_names :: "ComponentInfo list \<Rightarrow> string set" where
  "config_names cs \<equiv> ci_Name ` {c \<in> set cs. ci_Type c = ''config''}"

lemma restored_keeps:
  "restored sha src backup t c \<Longrightarrow> keeps_entries N t t' \<Longrightarrow> ci_Name c \<notin> N \<Longrightarrow> restored sha src backup t' c"
  by (auto simp: restored_def keeps_entries_def)

text \<open>Restoring keeps everything that is not a configuration of the backup; without failures every
  name carries the content of a component of that name.\<close>

lemma restore_configs_ok:
  assumes "restore_configs sha src backup dst uuid i cs t = (fails, t')"
  shows "keeps_entries (config_names cs) t t'
    \<and> (fails = [] \<longrightarrow> (\<forall>c \<in> set cs. ci_Type c = ''config'' \<longrightarrow>
         (\<exists>c' \<in> set cs. ci_Type c' = ''config'' \<and> ci_Name c' = ci_Name c \<and> restored sha src backup t' c')))"
  using assms
proof (induction cs arbitrary: i t fails)
  case Nil
  then show ?case by (simp add: keeps_entries_def)
next
  case (Cons c cs)
  show ?case
  proof (cases "ci_Type c = ''config''")
    case False
    with Cons show ?thesis by (fastforce intro: keeps_entries_mono)
  next
    case True
    obtain e t1 where one: "restoreConfigFile sha src backup dst (uuid i) c t = (e, t1)" by (metis prod.exhaust)
    obtain fails1 where rest: "restore_configs sha src backup dst uuid (Suc i) cs t1 = (fails1, t')"
      "fails = (if e = None then fails1 else ci_Name c # fails1)"
      using Cons.prems one True by (auto split: prod.splits)
    note IH = Cons.IH[OF rest(1)]
    have first: "keeps_entries (config_names (c # cs)) t t1"
      using restoreConfigFile_cases[OF one] True by (auto split: if_splits intro: keeps_entries_mono)
    have second: "keeps_entries (config_names (c # cs)) t1 t'"
      using IH by (auto intro: keeps_entries_mono)
    have here: "\<exists>c' \<in> set (c # cs). ci_Type c' = ''config'' \<and> ci_Name c' = ci_Name c \<and> restored sha src backup t' c'"
      if "fails = []"
    proof (cases "ci_Name c \<in> config_names cs")
      case True
      then obtain d where "d \<in> set cs" "ci_Type d = ''config''" "ci_Name d = ci_Name c" by auto
      with IH rest(2) that show ?thesis by (metis list.discI list.set_intros(2))
    next
      case False
      have "restored sha src backup t1 c" using restoreConfigFile_cases[OF one] rest(2) that by (auto split: if_splits)
      then have "restored sha src backup t' c" using IH False restored_keeps by blast
      with True show ?thesis by auto
    qed
    have "\<exists>c' \<in> set (c # cs). ci_Type c' = ''config'' \<and> ci_Name c' = ci_Name d \<and> restored sha src backup t' c'"
      if "fails = []" "d \<in> set (c # cs)" "ci_Type d = ''config''" for d
    proof (cases "d = c")
      case False
      then have "fails1 = []" "d \<in> set cs" using that rest(2) by (auto split: if_splits)
      with IH that(3) show ?thesis by (metis list.set_intros(2))
    qed (use here that in simp)
    with keeps_entries_trans[OF first second] show ?thesis by blast
  qed
qed

subsection \<open>The commands of a restore\<close>

abbreviation stop_cmd :: restore_cmd where
  "stop_cmd \<equiv> CmdCompose [''down'']"

abbreviation start_cmd :: restore_cmd where
  "start_cmd \<equiv> CmdCompose [''up'', ''-d'']"

definition data_cmd :: "restore_cmd \<Rightarrow> bool" where
  "data_cmd c \<longleftrightarrow> c \<noteq> stop_cmd \<and> c \<noteq> start_cmd"

definition only_data :: "restore_state \<Rightarrow> restore_state \<Rightarrow> bool" where
  "only_data st st' \<longleftrightarrow> rs_tree st' = rs_tree st \<and> (\<exists>l. rs_log st' = rs_log st @ l \<and> list_all data_cmd l)"

lemma only_data_refl [simp]: "only_data st st"
  by (simp add: only_data_def)

lemma only_data_trans: "only_data st st1 \<Longrightarrow> only_data st1 st2 \<Longrightarrow> only_data st st2"
  by (auto simp: only_data_def)

lemma run_restore_only_data: "run_restore h c st = (ok, st') \<Longrightarrow> data_cmd c \<Longrightarrow> only_data st st'"
  by (auto simp: run_restore_def only_data_def)

lemma restore_volume_only_data: "restore_volume h bp c st = (ok, st') \<Longrightarrow> only_data st st'"
  by (auto simp: restore_volume_def restoreNamedVolume_def data_cmd_def Let_def split: if_splits
      dest!: run_restore_only_data)

lemma probe_database_only_data: "probe_database h svc n st = (ok, st') \<Longrightarrow> only_data st st'"
proof (induction n arbitrary: st)
  case (Suc n)
  obtain r st1 where one: "run_restore h (CmdCompose [''exec'', ''-T'', svc, ''true'']) st = (r, st1)"
    by (metis prod.exhaust)
  have "only_data st st1" by (rule run_restore_only_data[OF one]) (simp add: data_cmd_def)
  with Suc one show ?case by (auto split: if_splits intro: only_data_trans)
qed simp

lemma restore_database_only_data:
  assumes "restore_database h bp c st = (ok, st')"
  shows "only_data st st'"
proof -
  obtain ok1 st1 where start: "startDBContainer h (ci_Name c) st = (ok1, st1)" by (metis prod.exhaust)
  have "only_data st st1"
    using start by (auto simp: startDBContainer_def data_cmd_def split: list.splits prod.splits if_splits
        dest!: run_restore_only_data probe_database_only_data intro: only_data_trans)
  moreover have "only_data st1 st'"
    using assms start
    by (auto simp: restore_database_def restoreDatabase_def restore_postgres_def restore_mysql_def data_cmd_def Let_def
        split: if_splits sum.splits prod.splits dest!: run_restore_only_data)
  ultimately show ?thesis by (rule only_data_trans)
qed

lemma restore_typed_only_data:
  assumes "\<And>c st ok st'. f c st = (ok, st') \<Longrightarrow> only_data st st'"
  shows "restore_typed f ty cs st = (fails, st') \<Longrightarrow> only_data st st'"
proof (induction cs arbitrary: st fails)
  case (Cons c cs)
  obtain ok st1 where one: "f c st = (ok, st1)" by (metis prod.exhaust)
  with Cons show ?case
    by (auto split: if_splits prod.splits intro: only_data_trans[OF assms[OF one]])
qed simp

lemma restore_data_effect:
  assumes "restore_data h sha src backup dst uuid bp opts cs st = (fails, st')"
  shows "\<exists>l. rs_log st' = rs_log st @ l \<and> list_all data_cmd l
    \<and> (if restore_selected opts (ro_FilesOnly opts)
       then keeps_entries (config_names cs) (rs_tree st) (rs_tree st')
         \<and> (fails = [] \<longrightarrow> (\<forall>c \<in> set cs. ci_Type c = ''config'' \<longrightarrow>
             (\<exists>c' \<in> set cs. ci_Type c' = ''config'' \<and> ci_Name c' = ci_Name c \<and> restored sha src backup (rs_tree st') c')))
       else rs_tree st' = rs_tree st)"
proof -
  obtain f1 st1 where one: "(if restore_selected opts (ro_FilesOnly opts)
        then (case restore_configs sha src backup dst uuid 0 cs (rs_tree st) of (f, t) \<Rightarrow> (f, st\<lparr>rs_tree := t\<rparr>))
        else ([], st)) = (f1, st1)" by (metis prod.exhaust)
  obtain f2 st2 where two: "(if restore_selected opts (ro_VolumesOnly opts)
        then restore_typed (restore_volume h bp) ''volume'' cs st1 else ([], st1)) = (f2, st2)" by (metis prod.exhaust)
  obtain f3 st3 where three: "(if restore_selected opts (ro_DBOnly opts)
        then restore_typed (restore_database h bp) ''database'' cs st2 else ([], st2)) = (f3, st3)" by (metis prod.exhaust)
  have res: "fails = f1 @ f2 @ f3" "st' = st3"
    using assms unfolding restore_data_def Let_def one split_conv two three by simp_all
  have "only_data st1 st2"
    using two restore_typed_only_data[OF restore_volume_only_data] by (auto split: if_splits)
  moreover have "only_data st2 st3"
    using three restore_typed_only_data[OF restore_database_only_data] by (auto split: if_splits)
  ultimately have rest: "only_data st1 st'" using res by (auto intro: only_data_trans)
  have log: "rs_log st1 = rs_log st" using one by (auto split: if_splits prod.splits)
  show ?thesis
  proof (cases "restore_selected opts (ro_FilesOnly opts)")
    case True
    then have "restore_configs sha src backup dst uuid 0 cs (rs_tree st) = (f1, rs_tree st1)"
      using one by (auto split: prod.splits)
    from restore_configs_ok[OF this] rest log res True show ?thesis by (auto simp: only_data_def)
  next
    case False
    then have "st1 = st" using one by simp
    with rest False show ?thesis by (auto simp: only_data_def)
  qed
qed

text \<open>The ways a restore that reached the containers ends.\<close>

definition restore_log_ok :: "restore_error option \<Rightarrow> restore_cmd list \<Rightarrow> bool" where
  "restore_log_ok r log \<longleftrightarrow>
     (case log of
        [] \<Rightarrow> False
      | c # l \<Rightarrow> c = stop_cmd \<and>
          (case r of
             Some RestoreStop \<Rightarrow> l = []
           | Some (RestoreIncomplete fails) \<Rightarrow> fails \<noteq> [] \<and> list_all data_cmd l
           | Some RestoreStart \<Rightarrow> l \<noteq> [] \<and> list_all data_cmd (butlast l) \<and> last l = start_cmd
           | None \<Rightarrow> list_all data_cmd l \<or> (l \<noteq> [] \<and> list_all data_cmd (butlast l) \<and> last l = start_cmd)
           | _ \<Rightarrow> False))"

lemma restore_run_effect:
  assumes "restore_run h sha src backup dst uuid bp opts cs st = (r, st')" "rs_log st = []"
  shows "restore_log_ok r (rs_log st')
    \<and> (if restore_selected opts (ro_FilesOnly opts)
       then keeps_entries (config_names cs) (rs_tree st) (rs_tree st')
         \<and> (r = None \<longrightarrow> (\<forall>c \<in> set cs. ci_Type c = ''config'' \<longrightarrow>
             (\<exists>c' \<in> set cs. ci_Type c' = ''config'' \<and> ci_Name c' = ci_Name c \<and> restored sha src backup (rs_tree st') c')))
       else rs_tree st' = rs_tree st)
    \<and> (r = Some RestoreStop \<longrightarrow> rs_tree st' = rs_tree st)"
proof -
  obtain stopped st1 where stop: "run_restore h stop_cmd st = (stopped, st1)" by (metis prod.exhaust)
  have st1: "rs_log st1 = [stop_cmd]" "rs_tree st1 = rs_tree st"
    using stop assms(2) by (auto simp: run_restore_def)
  show ?thesis
  proof (cases stopped)
    case False
    then have "r = Some RestoreStop" "st' = st1" using assms(1) stop by (auto simp: restore_run_def)
    then show ?thesis using st1 by (simp add: restore_log_ok_def keeps_entries_def)
  next
    case True
    obtain fails st2 where data: "restore_data h sha src backup dst uuid bp opts cs st1 = (fails, st2)"
      by (metis prod.exhaust)
    obtain l where l: "rs_log st2 = stop_cmd # l" "list_all data_cmd l"
      using restore_data_effect[OF data] st1(1) by auto
    obtain up st3 where up: "run_restore h start_cmd st2 = (up, st3)" by (metis prod.exhaust)
    have st3: "rs_log st3 = stop_cmd # l @ [start_cmd]" "rs_tree st3 = rs_tree st2"
      using up l by (auto simp: run_restore_def)
    consider "fails \<noteq> []" "r = Some (RestoreIncomplete fails)" "st' = st2"
      | "fails = []" "r = None" "st' = st2"
      | "fails = []" "r = (if up then None else Some RestoreStart)" "st' = st3"
      using assms(1) stop data up True by (auto simp: restore_run_def split: if_splits)
    then show ?thesis
      using restore_data_effect[OF data] st1(2) l st3
      by cases (auto simp: restore_log_ok_def split: if_splits)
  qed
qed

lemma first_some_None_all: "first_some f xs = None \<Longrightarrow> x \<in> set xs \<Longrightarrow> f x = None"
  by (simp add: first_some_None)


lemma RestoreBackup_None:
  assumes "RestoreBackup h sha gz dec src backup dst uuid bp opts st = (None, st')"
    "rs_log st = []" "restore_selected opts (ro_FilesOnly opts)"
  shows "\<exists>m. ReadManifest dec src backup = Inr m \<and> (\<forall>c \<in> set (mf_Components m). ci_Type c = ''config'' \<longrightarrow>
     (\<exists>c' \<in> set (mf_Components m). ci_Type c' = ''config'' \<and> ci_Name c' = ci_Name c
        \<and> restored sha src backup (rs_tree st') c'))"
proof -
  obtain m where m: "ReadManifest dec src backup = Inr m"
    "restore_run h sha src backup dst uuid bp opts (mf_Components m) st = (None, st')"
    using assms(1) by (auto simp: RestoreBackup_def split: sum.splits if_splits option.splits)
  from restore_run_effect[OF m(2) assms(2)] m(1) assms(3) show ?thesis by auto
qed

lemma ReadManifest_content:
  "ReadManifest dec io t = Inr m \<Longrightarrow> map_of t manifestName = Some (Regular k data) \<Longrightarrow> dec data = Some m"
  by (auto simp: ReadManifest_def read_file_def open_file_def split: if_splits option.splits sum.splits)

lemma backup_restored:
  assumes "CreateBackup bh sha enc src proj dst cfg prj backupType trigger bopts backupID now stamp up (store, db)
      = (Inr row, store', db')"
    and "\<forall>m. dec (enc m) = Some m" "sound_host bh sha gz" "store' (bk_Path row) = Some t"
    and "RestoreBackup rh sha gz dec src2 t dst2 uuid (bk_Path row) opts st = (None, st')"
    and "rs_log st = []" "restore_selected opts (ro_FilesOnly opts)"
  shows "\<exists>files. config_files bh src proj = Inr files \<and> (\<forall>n \<in> set (al_keys files). \<exists>m m' content.
     map_of proj n = Some (Regular m content) \<and> map_of (rs_tree st') n = Some (Regular m' content))"
proof -
  obtain files m where b: "map_of t manifestName = Some (Regular 420 (enc m))" "config_files bh src proj = Inr files"
    "\<forall>c \<in> set (mf_Components m). ci_Type c = ''config'' \<longrightarrow> saved_file proj t (ci_Name c) c"
    "\<forall>n \<in> set (al_keys files). \<exists>c \<in> set (mf_Components m). saved_file proj t n c"
    using CreateBackup_filled[OF assms(1,3)] assms(4) by auto
  obtain m' where r: "ReadManifest dec src2 t = Inr m'"
    "\<forall>c \<in> set (mf_Components m'). ci_Type c = ''config'' \<longrightarrow>
       (\<exists>c' \<in> set (mf_Components m'). ci_Type c' = ''config'' \<and> ci_Name c' = ci_Name c
          \<and> restored sha src2 t (rs_tree st') c')"
    using RestoreBackup_None[OF assms(5-7)] by blast
  have "m' = m" using ReadManifest_content[OF r(1) b(1)] assms(2) by simp
  have "\<exists>k k' content. map_of proj n = Some (Regular k content) \<and> map_of (rs_tree st') n = Some (Regular k' content)"
    if n: "n \<in> set (al_keys files)" for n
  proof -
    obtain c where "c \<in> set (mf_Components m)" "saved_file proj t n c" using b(4) n by blast
    then obtain c' where c': "c' \<in> set (mf_Components m)" "ci_Type c' = ''config''" "ci_Name c' = n"
      "restored sha src2 t (rs_tree st') c'"
      using r(2) \<open>m' = m\<close> by (auto simp: saved_file_def)
    then have "saved_file proj t n c'" using b(3) by auto
    with c' show ?thesis by (auto simp: saved_file_def restored_def sound_file_def)
  qed
  with b(2) show ?thesis by blast
qed


subsection \<open>Examples\<close>

definition sample_restore_host :: restore_host where
  "sample_restore_host = \<lparr>rh_run = (\<lambda>_ _. True), rh_backup = sample_backup_host\<rparr>"

definition sample_restore :: "tree \<Rightarrow> restore_error option \<times> restore_state" where
  "sample_restore t = RestoreBackup sample_restore_host (\<lambda>_. ''ab'') (\<lambda>_. GzOk) sample_dec good_io t good_io
     (\<lambda>_. ''u1'') ''/b/shop/b9'' \<lparr>ro_FilesOnly = True, ro_VolumesOnly = False, ro_DBOnly = False, ro_NoStart = False\<rparr>
     \<lparr>rs_tree = [(''.env'', Regular 384 ''A=2'')], rs_log = []\<rparr>"

definition sample_backup_tree :: tree where
  "sample_backup_tree = (case sample_created of (_, store, _) \<Rightarrow> the (store ''/b/shop/b9''))"

lemma sample_restored: "fst (sample_restore sample_backup_tree) = None"
  by code_simp



end
