(* ===== verification/Server_Webhook.thy ===== *)
theory Server_Webhook
  imports Server_State Fleet_Registry
begin

text \<open>
  \<open>internal/server/webhook.go\<close> and \<open>github_status.go\<close>: the GitHub webhook, the decision to start a
  deployment, and the deployment itself. Handlers return their answer, the new state and the
  deployment to start. HMAC, hex and JSON are parameters; so is every command the runner starts
  (\<open>dh_step\<close> answers the n-th step) and every statement on the registry (\<open>dh_up\<close>). The log of a
  deployment is kept without its exact wording: it is the list of its events.
\<close>

datatype http_response =
    HttpError nat string
  | HttpJson "(string \<times> string) list"

subsection \<open>The webhook\<close>

record github_push =
  gp_Ref :: string
  gp_After :: string
  gp_Repo :: string

record http_request =
  hr_Body :: "string option"
  hr_Headers :: "(string \<times> string) list"

definition header :: "http_request \<Rightarrow> string \<Rightarrow> string" where
  "header r k = (case map_of (hr_Headers r) k of None \<Rightarrow> [] | Some v \<Rightarrow> v)"

record webhook_host =
  wh_mac :: "string \<Rightarrow> string \<Rightarrow> string"
  wh_hex :: "string \<Rightarrow> string option"
  wh_push :: "string \<Rightarrow> github_push option"
  wh_mappings :: "string \<Rightarrow> (string \<times> string) list option"

definition verifyHMAC :: "webhook_host \<Rightarrow> string \<Rightarrow> string \<Rightarrow> string \<Rightarrow> bool" where
  "verifyHMAC h body signature secret =
     (if \<not> has_prefix signature ''sha256='' then False
      else case wh_hex h (trim_prefix signature ''sha256='') of
        None \<Rightarrow> False
      | Some sig \<Rightarrow> sig = wh_mac h secret body)"

definition findProjectByRepo :: "bool \<Rightarrow> string \<Rightarrow> fleet_db \<Rightarrow> project_row option" where
  "findProjectByRepo up repoName db =
     (case ListProjects up db of
        Inl e \<Rightarrow> None
      | Inr ps \<Rightarrow> List.find (\<lambda>p. equal_fold (pj_GitHubRepo p) repoName) ps)"

definition resolveBranchEnvironment :: "webhook_host \<Rightarrow> project_row \<Rightarrow> string \<Rightarrow> string" where
  "resolveBranchEnvironment h p branch =
     (if pj_BranchMappings p \<noteq> [] then
        (case wh_mappings h (pj_BranchMappings p) of
           None \<Rightarrow> []
         | Some m \<Rightarrow> (case map_of m branch of None \<Rightarrow> [] | Some e \<Rightarrow> e))
      else if branch = ''main'' \<or> branch = ''master'' then ''production''
      else [])"

record deployment_job =
  dj_Project :: project_row
  dj_FullSHA :: string
  dj_ShortSHA :: string

text \<open>The handler after the signature, the event and the delivery were accepted.\<close>

definition dispatch_push ::
  "webhook_host \<Rightarrow> bool \<Rightarrow> fleet_db \<Rightarrow> string \<Rightarrow> http_response \<times> deployment_job option" where
  "dispatch_push h up db body =
     (case wh_push h body of
        None \<Rightarrow> (HttpError 400 ''invalid JSON payload'', None)
      | Some payload \<Rightarrow>
          (case findProjectByRepo up (gp_Repo payload) db of
             None \<Rightarrow> (HttpError 404 (''no project for repo '' @ gp_Repo payload), None)
           | Some p \<Rightarrow>
               let targetEnv = resolveBranchEnvironment h p (trim_prefix (gp_Ref payload) ''refs/heads/'') in
               if targetEnv = [] then
                 (HttpJson [(''status'', ''ignored''), (''reason'', ''branch not mapped'')], None)
               else if targetEnv \<noteq> ''production'' then
                 (HttpError 409 ''use a bounded release target for staging deployments'', None)
               else
                 let commitSHA = take 12 (gp_After payload) in
                 (HttpJson [(''status'', ''deploying''), (''project'', pj_Name p), (''commit'', commitSHA),
                            (''environment'', targetEnv)],
                  Some \<lparr>dj_Project = p, dj_FullSHA = gp_After payload, dj_ShortSHA = commitSHA\<rparr>)))"

definition handleGitHubWebhook ::
  "webhook_host \<Rightarrow> bool \<Rightarrow> string \<Rightarrow> bool \<Rightarrow> time \<Rightarrow> http_request \<Rightarrow> fleet_db \<Rightarrow> webhookDedup
    \<Rightarrow> http_response \<times> webhookDedup \<times> deployment_job option" where
  "handleGitHubWebhook h oidc webhookSecret up now r db dedup =
     (if oidc then (HttpError 403 ''webhook deployments are disabled on the MFA admin listener; use private CLI automation'', dedup, None)
      else case hr_Body r of
        None \<Rightarrow> (HttpError 400 ''failed to read body'', dedup, None)
      | Some raw \<Rightarrow>
          let body = take 1048576 raw in
          if webhookSecret = [] then (HttpError 403 ''webhook secret not configured'', dedup, None)
          else if \<not> verifyHMAC h body (header r ''X-Hub-Signature-256'') webhookSecret
          then (HttpError 401 ''invalid signature'', dedup, None)
          else
            let event = header r ''X-GitHub-Event'' in
            if event = ''ping'' then (HttpJson [(''status'', ''pong'')], dedup, None)
            else if event \<noteq> ''push'' then (HttpJson [(''status'', ''ignored''), (''event'', event)], dedup, None)
            else case seenRecently now (header r ''X-GitHub-Delivery'') dedup of
              (duplicate, dedup') \<Rightarrow>
                if duplicate then
                  (HttpJson [(''status'', ''ignored''), (''reason'', ''duplicate delivery''),
                             (''delivery'', header r ''X-GitHub-Delivery'')], dedup', None)
                else case dispatch_push h up db body of (answer, job) \<Rightarrow> (answer, dedup', job))"

definition validProjectName :: "string \<Rightarrow> bool" where
  "validProjectName s \<longleftrightarrow>
     2 \<le> length s \<and> is_lower_alnum (hd s) \<and> is_lower_alnum (last s)
     \<and> list_all (\<lambda>c. is_lower_alnum c \<or> c = CHR ''-'') s"

definition start_manual :: "string \<Rightarrow> (db_error \<Rightarrow> string) \<Rightarrow> bool \<Rightarrow> string \<Rightarrow> fleet_db \<Rightarrow> http_response \<times> deployment_job option" where
  "start_manual label err_text up name db =
     (if \<not> validProjectName name then (HttpError 400 ''invalid project name'', None)
      else case GetProject up name db of
        Inl e \<Rightarrow> (HttpError 404 (err_text e), None)
      | Inr p \<Rightarrow>
          (HttpJson [(''status'', ''deploying''), (''project'', pj_Name p)],
           Some \<lparr>dj_Project = p, dj_FullSHA = [], dj_ShortSHA = label\<rparr>))"

definition handleManualDeploy :: "(db_error \<Rightarrow> string) \<Rightarrow> bool \<Rightarrow> string \<Rightarrow> fleet_db \<Rightarrow> http_response \<times> deployment_job option" where
  "handleManualDeploy = start_manual ''manual''"

definition handleDeployProject :: "bool \<Rightarrow> string \<Rightarrow> fleet_db \<Rightarrow> http_response \<times> deployment_job option" where
  "handleDeployProject = start_manual ''api-trigger'' (\<lambda>_. ''project not found'')"

subsection \<open>Running a deployment\<close>

record step_answer =
  sa_prepared :: bool
  sa_ok :: bool
  sa_deadline :: bool
  sa_cancelled :: bool

record ps_entry =
  pe_Name :: string
  pe_Image :: string
  pe_State :: string
  pe_Health :: string

type_synonym deploy_hooks = "string \<times> string"

datatype deploy_event =
    EvCommand "string list"
  | EvRollbackCommand "string list"
  | EvValidate
  | EvHealth
  | EvGitHub string string

record deploy_host =
  dh_step :: "nat \<Rightarrow> step_answer"
  dh_validate :: bool
  dh_ps :: "nat \<Rightarrow> string option"
  dh_polls :: nat
  dh_entry :: "string \<Rightarrow> ps_entry option"
  dh_read :: "string \<Rightarrow> string option"
  dh_yaml :: "string \<Rightarrow> deploy_hooks option"
  dh_github :: "int option"
  dh_up :: "nat \<Rightarrow> bool"
  dh_fresh :: string
  dh_now :: time

record deploy_state =
  ds_db :: fleet_db
  ds_events :: "deploy_event list"
  ds_steps :: nat

text \<open>One step: the network is prepared before \<open>docker compose up\<close>; a deadline or a cancelled
  deployment is a failure whatever the command returned.\<close>

definition is_compose_up :: "string list \<Rightarrow> bool" where
  "is_compose_up cmd \<longleftrightarrow> take 3 cmd = [''docker'', ''compose'', ''up'']"

definition runStep ::
  "deploy_host \<Rightarrow> (string list \<Rightarrow> deploy_event) \<Rightarrow> string list \<Rightarrow> deploy_state \<Rightarrow> bool \<times> deploy_state" where
  "runStep h ev cmd st =
     (let a = dh_step h (ds_steps st); st1 = st\<lparr>ds_steps := Suc (ds_steps st)\<rparr> in
      if is_compose_up cmd \<and> \<not> sa_prepared a then (False, st1)
      else (sa_ok a \<and> \<not> sa_deadline a \<and> \<not> sa_cancelled a,
            st1\<lparr>ds_events := ds_events st1 @ [ev cmd]\<rparr>))"

definition note_event :: "deploy_event \<Rightarrow> deploy_state \<Rightarrow> deploy_state" where
  "note_event e st = st\<lparr>ds_events := ds_events st @ [e]\<rparr>"

definition ps_lines :: "string \<Rightarrow> string list" where
  "ps_lines out = split_on CHR 0x0A (trim_space out)"

fun collect_images :: "deploy_host \<Rightarrow> string list \<Rightarrow> (string \<times> string) list \<Rightarrow> (string \<times> string) list" where
  "collect_images h [] images = images"
| "collect_images h (line # ls) images =
     collect_images h ls
       (if line = [] then images
        else case dh_entry h line of
          None \<Rightarrow> images
        | Some e \<Rightarrow> if pe_Name e \<noteq> [] \<and> pe_Image e \<noteq> [] then al_put (pe_Name e) (pe_Image e) images else images)"

definition captureContainerImages :: "deploy_host \<Rightarrow> (string \<times> string) list" where
  "captureContainerImages h =
     (case dh_ps h 0 of None \<Rightarrow> [] | Some out \<Rightarrow> collect_images h (ps_lines out) [])"

record healthReport =
  hp_Healthy :: bool
  hp_Errors :: "string list"

fun add_health :: "deploy_host \<Rightarrow> string list \<Rightarrow> healthReport \<Rightarrow> healthReport" where
  "add_health h [] rep = rep"
| "add_health h (line # ls) rep =
     add_health h ls
       (if line = [] then rep
        else case dh_entry h line of
          None \<Rightarrow> rep
        | Some e \<Rightarrow>
            let state = to_lower (pe_State e); hlth = to_lower (pe_Health e) in
            if hlth = ''unhealthy'' \<or> state = ''restarting'' then
              \<lparr>hp_Healthy = False, hp_Errors = hp_Errors rep @ [pe_Name e @ '' is '' @ state]\<rparr>
            else if state \<noteq> ''running'' then
              \<lparr>hp_Healthy = False, hp_Errors = hp_Errors rep @ [pe_Name e @ '' has state '' @ state]\<rparr>
            else rep)"

definition checkProjectHealth :: "deploy_host \<Rightarrow> nat \<Rightarrow> healthReport option" where
  "checkProjectHealth h k =
     (case dh_ps h k of
        None \<Rightarrow> None
      | Some out \<Rightarrow>
          let ls = ps_lines out in
          if ls = [[]] then Some \<lparr>hp_Healthy = False, hp_Errors = [''no containers found'']\<rparr>
          else Some (add_health h ls \<lparr>hp_Healthy = True, hp_Errors = []\<rparr>))"

definition healthy :: "healthReport option \<Rightarrow> bool" where
  "healthy r = (case r of None \<Rightarrow> False | Some rep \<Rightarrow> hp_Healthy rep)"

text \<open>The polls before the deadline (\<open>n\<close> of them are left), then one final check.\<close>

fun poll_health :: "deploy_host \<Rightarrow> nat \<Rightarrow> nat \<Rightarrow> healthReport option \<Rightarrow> healthReport option" where
  "poll_health h k 0 prev =
     (case checkProjectHealth h k of None \<Rightarrow> prev | Some r \<Rightarrow> Some r)"
| "poll_health h k (Suc n) prev =
     (let r = checkProjectHealth h k in
      if healthy r then r else poll_health h (Suc k) n r)"

definition waitForHealthy :: "deploy_host \<Rightarrow> healthReport option" where
  "waitForHealthy h = poll_health h 1 (dh_polls h) None"

fun load_first :: "deploy_host \<Rightarrow> string list \<Rightarrow> deploy_hooks option" where
  "load_first h [] = None"
| "load_first h (name # ns) =
     (case dh_read h name of None \<Rightarrow> load_first h ns | Some data \<Rightarrow> dh_yaml h data)"

definition loadFleetdeckConfig :: "deploy_host \<Rightarrow> deploy_hooks option" where
  "loadFleetdeckConfig h = load_first h [''.fleetdeck.yml'', ''fleetdeck.yml'']"

definition pre_hook :: "deploy_hooks option \<Rightarrow> string" where
  "pre_hook c = (case c of None \<Rightarrow> [] | Some (pre, post) \<Rightarrow> pre)"

definition post_hook :: "deploy_hooks option \<Rightarrow> string" where
  "post_hook c = (case c of None \<Rightarrow> [] | Some (pre, post) \<Rightarrow> post)"

definition hook_command :: "string \<Rightarrow> string list" where
  "hook_command script = [''docker'', ''compose'', ''exec'', ''-T'', ''app'', ''sh'', ''-c'', script]"

definition run_hook :: "deploy_host \<Rightarrow> string \<Rightarrow> deploy_state \<Rightarrow> bool \<times> deploy_state" where
  "run_hook h script st = (if script = [] then (True, st) else runStep h EvCommand (hook_command script) st)"

definition up_compose :: "string list" where
  "up_compose = [''docker'', ''compose'', ''up'', ''-d'']"

definition rollback_checkout :: "string list" where
  "rollback_checkout = [''git'', ''checkout'', ''HEAD~1'', ''--'', ''docker-compose.yml'', ''docker-compose.yaml'',
     ''compose.yml'', ''compose.yaml'']"

text \<open>The stages return the status the deployment ends with.\<close>

definition roll_back :: "deploy_host \<Rightarrow> deploy_state \<Rightarrow> string \<times> deploy_state" where
  "roll_back h st =
     (case runStep h EvRollbackCommand rollback_checkout st of
        (_, st1) \<Rightarrow>
          (case runStep h EvRollbackCommand up_compose st1 of
             (ok, st2) \<Rightarrow>
               (''failed'',
                if ok then note_event (EvRollbackCommand [''git'', ''checkout'', ''HEAD'', ''--'', ''.'']) st2 else st2)))"

definition after_up ::
  "deploy_host \<Rightarrow> (string \<times> string) list \<Rightarrow> deploy_hooks option \<Rightarrow> deploy_state \<Rightarrow> string \<times> deploy_state" where
  "after_up h previousImages hooks st0 =
     (let st = note_event EvHealth st0 in
      if healthy (waitForHealthy h) then
        (case run_hook h (post_hook hooks) st of
           (ok, st1) \<Rightarrow> (if ok then ''success'' else ''failed'', st1))
      else if previousImages = [] then (''success'', st)
      else roll_back h st)"

definition deploy_stages ::
  "deploy_host \<Rightarrow> (string \<times> string) list \<Rightarrow> deploy_state \<Rightarrow> string \<times> deploy_state" where
  "deploy_stages h previousImages st =
     (case runStep h EvCommand [''git'', ''pull'', ''--ff-only''] st of
        (pulled, st1) \<Rightarrow>
          if \<not> pulled then (''failed'', st1)
          else
            let st2 = note_event EvValidate st1 in
            if \<not> dh_validate h then (''failed'', st2)
            else case runStep h EvCommand [''docker'', ''compose'', ''build''] st2 of
              (built, st3) \<Rightarrow>
                if \<not> built then (''failed'', st3)
                else
                  let hooks = loadFleetdeckConfig h in
                  case run_hook h (pre_hook hooks) st3 of
                    (ready, st4) \<Rightarrow>
                      if \<not> ready then (''failed'', st4)
                      else case runStep h EvCommand up_compose st4 of
                        (started, st5) \<Rightarrow>
                          if \<not> started then (''failed'', st5) else after_up h previousImages hooks st5)"

definition finishDeployment :: "deploy_host \<Rightarrow> string \<Rightarrow> string \<Rightarrow> string \<Rightarrow> deploy_state \<Rightarrow> deploy_state" where
  "finishDeployment h did status projectName st =
     (let db1 = snd (UpdateDeployment (dh_up h 2) (dh_now h) did status [] (ds_db st));
          finalStatus = (if status = ''failed'' then ''error'' else ''running'')
      in st\<lparr>ds_db := snd (UpdateProjectStatus (dh_up h 3) (dh_now h) projectName finalStatus db1)\<rparr>)"

definition reportDeploymentStatus :: "deploy_host \<Rightarrow> string \<Rightarrow> deploy_state \<Rightarrow> (string \<Rightarrow> deploy_state \<Rightarrow> deploy_state) \<times> deploy_state" where
  "reportDeploymentStatus h repo st =
     (case (if repo = [] then None else dh_github h) of
        None \<Rightarrow> (\<lambda>_ s. s, st)
      | Some deployID \<Rightarrow>
          (\<lambda>status. note_event (EvGitHub repo (if status = ''success'' then ''success'' else ''failure'')),
           note_event (EvGitHub repo ''in_progress'') st))"

definition runDeployment :: "deploy_host \<Rightarrow> deployment_job \<Rightarrow> fleet_db \<Rightarrow> string \<times> deploy_state" where
  "runDeployment h job db =
     (let p = dj_Project job;
          dep = \<lparr>dp_ID = dh_fresh h, dp_ProjectID = pj_ID p, dp_CommitSHA = dj_ShortSHA job, dp_Status = ''deploying'',
                dp_StartedAt = dh_now h, dp_FinishedAt = None, dp_Log = []\<rparr>;
          db1 = snd (CreateDeployment (dh_up h 0) (dh_now h) (dh_fresh h) dep db);
          db2 = snd (UpdateProjectStatus (dh_up h 1) (dh_now h) (pj_Name p) ''deploying'' db1)
      in case reportDeploymentStatus h (pj_GitHubRepo p) \<lparr>ds_db = db2, ds_events = [], ds_steps = 0\<rparr> of
           (report, st) \<Rightarrow>
             (case deploy_stages h (captureContainerImages h) st of
                (status, st1) \<Rightarrow>
                  (status, report status (finishDeployment h (dh_fresh h) status (pj_Name p) st1))))"

subsection \<open>The webhook only starts what it may\<close>

lemma verifyHMAC_iff:
  "verifyHMAC h body signature secret \<longleftrightarrow>
     (\<exists>enc. signature = ''sha256='' @ enc \<and> wh_hex h enc = Some (wh_mac h secret body))"
proof (cases "has_prefix signature ''sha256=''")
  case True
  then obtain enc where enc: "signature = ''sha256='' @ enc" unfolding has_prefix_iff by blast
  have "trim_prefix signature ''sha256='' = enc" unfolding enc by (rule trim_prefix_append)
  with True enc show ?thesis by (auto simp: verifyHMAC_def split: option.splits)
next
  case False
  then show ?thesis unfolding verifyHMAC_def has_prefix_iff by auto
qed

lemma dispatch_push_job:
  assumes "dispatch_push h up db body = (answer, Some job)"
  shows "\<exists>payload p. wh_push h body = Some payload \<and> dj_Project job = p \<and> p \<in> set (db_projects db)
    \<and> equal_fold (pj_GitHubRepo p) (gp_Repo payload) \<and> dj_FullSHA job = gp_After payload
    \<and> resolveBranchEnvironment h p (trim_prefix (gp_Ref payload) ''refs/heads/'') = ''production''"
proof -
  obtain payload p where p: "wh_push h body = Some payload" "findProjectByRepo up (gp_Repo payload) db = Some p"
    "resolveBranchEnvironment h p (trim_prefix (gp_Ref payload) ''refs/heads/'') = ''production''"
    "job = \<lparr>dj_Project = p, dj_FullSHA = gp_After payload, dj_ShortSHA = take 12 (gp_After payload)\<rparr>"
    using assms by (auto simp: dispatch_push_def Let_def split: option.splits if_splits)
  have "p \<in> set (db_projects db) \<and> equal_fold (pj_GitHubRepo p) (gp_Repo payload)"
    using p(2) by (auto simp: findProjectByRepo_def ListProjects_def split: sum.splits if_splits dest!: find_Some_in)
  with p show ?thesis by auto
qed

text \<open>C18. A GitHub webhook starts a deployment only when the listener is not in MFA mode, a secret is
  configured, the body carries its HMAC under that secret, the event is a push, the delivery was not
  seen within the window, and the pushed branch of the repository of that registered project maps
  to production. Everything else changes nothing but the table of deliveries.\<close>
theorem webhook_starts_authorized:
  assumes "handleGitHubWebhook h oidc secret up now r db dedup = (answer, dedup', Some job)"
  shows "\<exists>raw enc payload. \<not> oidc \<and> hr_Body r = Some raw \<and> secret \<noteq> []
    \<and> header r ''X-Hub-Signature-256'' = ''sha256='' @ enc \<and> wh_hex h enc = Some (wh_mac h secret (take 1048576 raw))
    \<and> header r ''X-GitHub-Event'' = ''push'' \<and> \<not> fst (seenRecently now (header r ''X-GitHub-Delivery'') dedup)
    \<and> wh_push h (take 1048576 raw) = Some payload \<and> dj_Project job \<in> set (db_projects db)
    \<and> equal_fold (pj_GitHubRepo (dj_Project job)) (gp_Repo payload) \<and> dj_FullSHA job = gp_After payload
    \<and> resolveBranchEnvironment h (dj_Project job) (trim_prefix (gp_Ref payload) ''refs/heads/'') = ''production''"
proof -
  obtain raw where b: "\<not> oidc" "hr_Body r = Some raw" "secret \<noteq> []"
    "verifyHMAC h (take 1048576 raw) (header r ''X-Hub-Signature-256'') secret"
    "header r ''X-GitHub-Event'' = ''push''" "\<not> fst (seenRecently now (header r ''X-GitHub-Delivery'') dedup)"
    "\<exists>a. dispatch_push h up db (take 1048576 raw) = (a, Some job)"
    using assms by (auto simp: handleGitHubWebhook_def Let_def split: if_splits option.splits prod.splits)
  then obtain enc where "header r ''X-Hub-Signature-256'' = ''sha256='' @ enc"
    "wh_hex h enc = Some (wh_mac h secret (take 1048576 raw))"
    by (auto simp: verifyHMAC_iff)
  with b dispatch_push_job[of h up db "take 1048576 raw" _ job] show ?thesis by blast
qed

text \<open>A redelivery starts nothing: once a signed push started a deployment, the same delivery handled
  again within the window, after any other deliveries, is ignored.\<close>
theorem webhook_redelivery_ignored:
  assumes "handleGitHubWebhook h oidc secret up t0 r db dedup = (answer, dedup1, Some job)"
    and "header r ''X-GitHub-Delivery'' = wid" "wid \<noteq> []" "al_wf (wd_seen dedup)"
    and "\<forall>(t, other) \<in> set ops. other \<noteq> wid \<and> t - t0 \<le> wd_ttl dedup" "t1 - t0 \<le> wd_ttl dedup"
  shows "\<exists>dedup2. handleGitHubWebhook h oidc secret up' t1 r db'
      (dedup1\<lparr>wd_seen := deliveries.run (wd_ttl dedup) ops (wd_seen dedup1)\<rparr>)
    = (HttpJson [(''status'', ''ignored''), (''reason'', ''duplicate delivery''), (''delivery'', wid)], dedup2, None)"
proof -
  have d1: "dedup1 = snd (seenRecently t0 wid dedup)" "\<not> oidc" "secret \<noteq> []"
    using assms(1,2) by (auto simp: handleGitHubWebhook_def Let_def split: if_splits option.splits prod.splits)
  obtain raw where raw: "hr_Body r = Some raw" "verifyHMAC h (take 1048576 raw) (header r ''X-Hub-Signature-256'') secret"
    "header r ''X-GitHub-Event'' = ''push''"
    using assms(1) by (auto simp: handleGitHubWebhook_def Let_def split: if_splits option.splits prod.splits)
  let ?d = "dedup1\<lparr>wd_seen := deliveries.run (wd_ttl dedup) ops (wd_seen dedup1)\<rparr>"
  have "fst (seenRecently t1 wid ?d)"
  proof -
    have same: "?d = dedup\<lparr>wd_seen := deliveries.run (wd_ttl dedup) ops (wd_seen (snd (seenRecently t0 wid dedup)))\<rparr>"
      using d1(1) assms(3) by (simp add: seenRecently_def Let_def)
    show ?thesis unfolding same by (rule seenRecently_again[OF assms(4,3,5,6)])
  qed
  then obtain dedup2 where "seenRecently t1 wid ?d = (True, dedup2)" by (metis (full_types) prod.collapse)
  with d1 raw assms(2) show ?thesis by (simp add: handleGitHubWebhook_def Let_def)
qed

subsection \<open>A deployment ends and ends in order\<close>

lemma runStep_cases:
  assumes "runStep h ev cmd st = (ok, st')"
  obtains "ds_db st' = ds_db st" "ds_events st' = ds_events st @ [ev cmd]"
    | "\<not> ok" "ds_db st' = ds_db st" "ds_events st' = ds_events st"
  using assms by (auto simp: runStep_def Let_def split: if_splits)

definition pull_cmd :: "string list" where "pull_cmd = [''git'', ''pull'', ''--ff-only'']"
definition build_cmd :: "string list" where "build_cmd = [''docker'', ''compose'', ''build'']"

definition hook_events :: "string \<Rightarrow> deploy_event list" where
  "hook_events script = (if script = [] then [] else [EvCommand (hook_command script)])"

text \<open>What a deployment does before \<open>compose up\<close>, and what follows a started one.\<close>

definition before_up :: "deploy_host \<Rightarrow> deploy_event list" where
  "before_up h = [EvCommand pull_cmd, EvValidate, EvCommand build_cmd] @ hook_events (pre_hook (loadFleetdeckConfig h))"

definition rollback_event :: "deploy_event \<Rightarrow> bool" where
  "rollback_event e = (case e of EvRollbackCommand _ \<Rightarrow> True | _ \<Rightarrow> False)"

text \<open>The events of the stages: cut short before \<open>compose up\<close>, or all of them, the health check and
  then the hook, nothing, or the rollback.\<close>

definition tail_ok ::
  "deploy_host \<Rightarrow> deploy_hooks option \<Rightarrow> bool \<Rightarrow> string \<Rightarrow> deploy_event list \<Rightarrow> bool" where
  "tail_ok h hooks images status tail \<longleftrightarrow>
     (if healthy (waitForHealthy h)
      then (status = ''success'' \<and> tail = hook_events (post_hook hooks))
           \<or> (status = ''failed'' \<and> post_hook hooks \<noteq> [] \<and> (\<exists>rest. hook_events (post_hook hooks) = tail @ rest))
      else if images then status = ''failed'' \<and> list_all rollback_event tail
      else status = ''success'' \<and> tail = [])"

definition stages_ok :: "deploy_host \<Rightarrow> bool \<Rightarrow> string \<Rightarrow> deploy_event list \<Rightarrow> bool" where
  "stages_ok h images status es \<longleftrightarrow>
     (status = ''failed'' \<and> (\<exists>rest. before_up h @ [EvCommand up_compose] = es @ rest))
     \<or> (\<exists>tail. es = before_up h @ [EvCommand up_compose, EvHealth] @ tail \<and> dh_validate h
        \<and> tail_ok h (loadFleetdeckConfig h) images status tail)"

lemma run_hook_cases:
  assumes "run_hook h script st = (ok, st')"
  shows "ds_db st' = ds_db st" "ok \<Longrightarrow> ds_events st' = ds_events st @ hook_events script"
    "\<not> ok \<Longrightarrow> script \<noteq> [] \<and> (\<exists>es rest. ds_events st' = ds_events st @ es \<and> hook_events script = es @ rest)"
  using assms
  by (auto simp: run_hook_def hook_events_def elim!: runStep_cases split: if_splits)

lemma runStep_ok: "runStep h ev cmd st = (True, st') \<Longrightarrow> ds_events st' = ds_events st @ [ev cmd]"
  by (auto elim: runStep_cases)

lemma runStep_failed:
  "runStep h ev cmd st = (False, st') \<Longrightarrow> ds_events st' = ds_events st \<or> ds_events st' = ds_events st @ [ev cmd]"
  by (auto elim: runStep_cases)

lemma runStep_tail:
  "runStep h ev cmd st = (ok, st') \<Longrightarrow> \<exists>es. ds_events st' = ds_events st @ es \<and> set es \<subseteq> {ev cmd}"
  by (auto elim!: runStep_cases)

lemma runStep_prefix:
  "runStep h ev cmd st = (ok, st') \<Longrightarrow> \<exists>es. ds_events st' = ds_events st @ es \<and> (\<exists>rest. [ev cmd] = es @ rest)"
  by (auto elim!: runStep_cases)

lemma runStep_db: "runStep h ev cmd st = (ok, st') \<Longrightarrow> ds_db st' = ds_db st"
  by (auto elim: runStep_cases)

lemma note_event_simps [simp]:
  "ds_events (note_event e st) = ds_events st @ [e]" "ds_db (note_event e st) = ds_db st"
  by (simp_all add: note_event_def)

lemma roll_back_events:
  assumes "roll_back h st = (status, st')"
  shows "status = ''failed'' \<and> ds_db st' = ds_db st
    \<and> (\<exists>tail. ds_events st' = ds_events st @ tail \<and> list_all rollback_event tail)"
proof -
  obtain ok1 st1 where one: "runStep h EvRollbackCommand rollback_checkout st = (ok1, st1)" by (metis prod.exhaust)
  obtain ok2 st2 where two: "runStep h EvRollbackCommand up_compose st1 = (ok2, st2)" by (metis prod.exhaust)
  have st': "status = ''failed''" "st' = (if ok2 then note_event (EvRollbackCommand [''git'', ''checkout'', ''HEAD'', ''--'', ''.'']) st2 else st2)"
    using assms one two by (auto simp: roll_back_def)
  obtain es1 es2 where es: "ds_events st1 = ds_events st @ es1" "set es1 \<subseteq> {EvRollbackCommand rollback_checkout}"
    "ds_events st2 = ds_events st1 @ es2" "set es2 \<subseteq> {EvRollbackCommand up_compose}"
    using runStep_tail[OF one] runStep_tail[OF two] by blast
  then have "list_all rollback_event es1" "list_all rollback_event es2"
    by (auto simp: list_all_iff rollback_event_def)
  with es st' runStep_db[OF one] runStep_db[OF two] show ?thesis
    by (auto simp: rollback_event_def)
qed

lemma after_up_events:
  assumes "after_up h images hooks st = (status, st')"
  shows "ds_db st' = ds_db st \<and> (\<exists>tail. ds_events st' = ds_events st @ EvHealth # tail
     \<and> tail_ok h hooks (images \<noteq> []) status tail)"
proof (cases "healthy (waitForHealthy h)")
  case True
  obtain ok st1 where hook: "run_hook h (post_hook hooks) (note_event EvHealth st) = (ok, st1)" by (metis prod.exhaust)
  then have "status = (if ok then ''success'' else ''failed'')" "st' = st1"
    using assms True by (auto simp: after_up_def)
  with run_hook_cases[OF hook] True show ?thesis
    by (cases ok) (fastforce simp: tail_ok_def)+
next
  case False
  then show ?thesis
    using assms roll_back_events[of h "note_event EvHealth st" status st']
    by (cases "images = []") (auto simp: after_up_def tail_ok_def Let_def)
qed

lemma deploy_stages_ok:
  assumes "deploy_stages h images st = (status, st')"
  shows "ds_db st' = ds_db st \<and> (\<exists>es. ds_events st' = ds_events st @ es \<and> stages_ok h (images \<noteq> []) status es)"
proof -
  let ?hooks = "loadFleetdeckConfig h"
  obtain ok1 st1 where one: "runStep h EvCommand pull_cmd st = (ok1, st1)" by (metis prod.exhaust)
  note pulled = runStep_tail[OF one] runStep_db[OF one]
  note defs = deploy_stages_def pull_cmd_def[symmetric] build_cmd_def[symmetric] Let_def
  have failed: "\<exists>es. ds_events st' = ds_events st @ es \<and> stages_ok h (images \<noteq> []) status es"
    if "status = ''failed''" "ds_events st' = ds_events st @ es" "\<exists>rest. before_up h @ [EvCommand up_compose] = es @ rest" for es
    using that by (auto simp: stages_ok_def)
  show ?thesis
  proof (cases "ok1 \<and> dh_validate h")
    case False
    then consider "\<not> ok1" "status = ''failed''" "st' = st1"
      | "ok1" "status = ''failed''" "st' = note_event EvValidate st1"
      using assms one unfolding defs by (auto split: if_splits)
    then show ?thesis
    proof cases
      case 1
      obtain es rest where es: "ds_events st' = ds_events st @ es" "[EvCommand pull_cmd] = es @ rest"
        using runStep_prefix[OF one] 1(3) by auto
      have "before_up h @ [EvCommand up_compose]
          = [EvCommand pull_cmd] @ EvValidate # EvCommand build_cmd # hook_events (pre_hook ?hooks) @ [EvCommand up_compose]"
        by (simp add: before_up_def)
      then have "\<exists>rest. before_up h @ [EvCommand up_compose] = es @ rest" unfolding es(2) by auto
      from failed[OF 1(2) es(1) this] pulled(2) 1(3) show ?thesis by simp
    next
      case 2
      then have "ds_events st' = ds_events st @ [EvCommand pull_cmd, EvValidate]"
        using runStep_ok one by simp
      then show ?thesis using failed[OF 2(2), of "[EvCommand pull_cmd, EvValidate]"] pulled(2) 2(3) by (simp add: before_up_def)
    qed
  next
    case valid: True
    have e1: "ds_events st1 = ds_events st @ [EvCommand pull_cmd]" using valid one runStep_ok by simp
    obtain ok2 st2 where two: "runStep h EvCommand build_cmd (note_event EvValidate st1) = (ok2, st2)" by (metis prod.exhaust)
    obtain ok3 st3 where three: "run_hook h (pre_hook ?hooks) st2 = (ok3, st3)" by (metis prod.exhaust)
    obtain ok4 st4 where four: "runStep h EvCommand up_compose st3 = (ok4, st4)" by (metis prod.exhaust)
    have db: "ds_db st2 = ds_db st" "ds_db st3 = ds_db st" "ds_db st4 = ds_db st"
      using runStep_db[OF two] run_hook_cases(1)[OF three] runStep_db[OF four] pulled(2) by simp_all
    have res: "(status, st') = (if \<not> ok2 then (''failed'', st2) else if \<not> ok3 then (''failed'', st3)
        else if \<not> ok4 then (''failed'', st4) else after_up h images ?hooks st4)"
      using assms valid one two three four unfolding defs by (cases ok2; cases ok3; cases ok4; simp)
    consider (build) "\<not> ok2" "status = ''failed''" "st' = st2"
      | (pre) "ok2" "\<not> ok3" "status = ''failed''" "st' = st3"
      | (up) "ok2" "ok3" "\<not> ok4" "status = ''failed''" "st' = st4"
      | (started) "ok2" "ok3" "ok4" "after_up h images ?hooks st4 = (status, st')"
      using res by (auto split: if_splits)
    then show ?thesis
    proof cases
      case build
      obtain es rest where es: "ds_events st2 = ds_events (note_event EvValidate st1) @ es" "[EvCommand build_cmd] = es @ rest"
        using runStep_prefix[OF two] by auto
      have "before_up h @ [EvCommand up_compose] = [EvCommand pull_cmd, EvValidate] @ [EvCommand build_cmd]
          @ hook_events (pre_hook ?hooks) @ [EvCommand up_compose]" by (simp add: before_up_def)
      then have "\<exists>rest. before_up h @ [EvCommand up_compose] = ([EvCommand pull_cmd, EvValidate] @ es) @ rest"
        unfolding es(2) by auto
      from failed[OF build(2) _ this] es(1) db e1 build(3) show ?thesis by simp
    next
      case pre
      have e2: "ds_events st2 = ds_events st @ [EvCommand pull_cmd, EvValidate, EvCommand build_cmd]"
        using two pre(1) runStep_ok e1 by simp
      obtain es rest where "ds_events st3 = ds_events st2 @ es" "hook_events (pre_hook ?hooks) = es @ rest"
        using run_hook_cases(3)[OF three pre(2)] by blast
      then show ?thesis
        using failed[OF pre(3), of "[EvCommand pull_cmd, EvValidate, EvCommand build_cmd] @ es"] db e2 pre(4)
        by (simp add: before_up_def)
    next
      case up
      have e3: "ds_events st3 = ds_events st @ before_up h"
        using two three up(1,2) runStep_ok run_hook_cases(2)[OF three] e1 by (simp add: before_up_def)
      obtain es where "ds_events st4 = ds_events st3 @ es" "\<exists>rest. [EvCommand up_compose] = es @ rest"
        using runStep_prefix[OF four] by auto
      then show ?thesis
        using failed[OF up(4), of "before_up h @ es"] db e3 up(5) by auto
    next
      case started
      have e4: "ds_events st4 = ds_events st @ before_up h @ [EvCommand up_compose]"
        using two three four started(1-3) runStep_ok run_hook_cases(2)[OF three] e1 by (simp add: before_up_def)
      from after_up_events[OF started(4)] e4 db(3) valid show ?thesis
        by (auto simp: stages_ok_def)
    qed
  qed
qed

definition github_event :: "deploy_event \<Rightarrow> bool" where
  "github_event e = (case e of EvGitHub _ _ \<Rightarrow> True | _ \<Rightarrow> False)"

lemma stages_status: "stages_ok h images status es \<Longrightarrow> status \<in> {''success'', ''failed''}"
  by (auto simp: stages_ok_def tail_ok_def split: if_splits)

lemma stages_no_github:
  assumes "stages_ok h images status es"
  shows "list_all (\<lambda>e. \<not> github_event e) es"
proof -
  have hook: "list_all (\<lambda>e. \<not> github_event e) (hook_events script)" for script
    by (simp add: hook_events_def github_event_def)
  have rollback: "list_all rollback_event l \<Longrightarrow> list_all (\<lambda>e. \<not> github_event e) l" for l
    by (auto simp: list_all_iff rollback_event_def github_event_def split: deploy_event.splits)
  have before: "list_all (\<lambda>e. \<not> github_event e) (before_up h @ [EvCommand up_compose, EvHealth])"
    using hook by (simp add: before_up_def github_event_def)
  have prefix: "list_all (\<lambda>e. \<not> github_event e) l \<Longrightarrow> l = a @ b \<Longrightarrow> list_all (\<lambda>e. \<not> github_event e) a" for l a b
    by simp
  from assms show ?thesis
  proof (unfold stages_ok_def, elim disjE conjE exE)
    fix rest
    assume "before_up h @ [EvCommand up_compose] = es @ rest"
    then have "before_up h @ [EvCommand up_compose, EvHealth] = es @ rest @ [EvHealth]" by simp
    from prefix[OF before this] show ?thesis .
  next
    fix tail
    assume es: "es = before_up h @ [EvCommand up_compose, EvHealth] @ tail"
      and tail: "tail_ok h (loadFleetdeckConfig h) images status tail"
    have "list_all (\<lambda>e. \<not> github_event e) tail"
      using tail hook prefix[OF hook] rollback by (auto simp: tail_ok_def split: if_splits)
    with before show ?thesis by (simp add: es)
  qed
qed

lemma runDeployment_run:
  assumes "runDeployment h job db = (status, st)"
  shows "\<exists>es. stages_ok h (captureContainerImages h \<noteq> []) status es
    \<and> filter (\<lambda>e. \<not> github_event e) (ds_events st) = es
    \<and> ds_events st = (if pj_GitHubRepo (dj_Project job) = [] \<or> dh_github h = None then es
        else EvGitHub (pj_GitHubRepo (dj_Project job)) ''in_progress'' # es
          @ [EvGitHub (pj_GitHubRepo (dj_Project job)) (if status = ''success'' then ''success'' else ''failure'')])
    \<and> ds_db st = ds_db (finishDeployment h (dh_fresh h) status (pj_Name (dj_Project job))
        \<lparr>ds_db = snd (UpdateProjectStatus (dh_up h 1) (dh_now h) (pj_Name (dj_Project job)) ''deploying''
           (snd (CreateDeployment (dh_up h 0) (dh_now h) (dh_fresh h)
             \<lparr>dp_ID = dh_fresh h, dp_ProjectID = pj_ID (dj_Project job), dp_CommitSHA = dj_ShortSHA job,
              dp_Status = ''deploying'', dp_StartedAt = dh_now h, dp_FinishedAt = None, dp_Log = []\<rparr> db))),
         ds_events = [], ds_steps = 0\<rparr>)"
proof -
  let ?p = "dj_Project job"
  let ?db2 = "snd (UpdateProjectStatus (dh_up h 1) (dh_now h) (pj_Name ?p) ''deploying''
           (snd (CreateDeployment (dh_up h 0) (dh_now h) (dh_fresh h)
             \<lparr>dp_ID = dh_fresh h, dp_ProjectID = pj_ID ?p, dp_CommitSHA = dj_ShortSHA job,
              dp_Status = ''deploying'', dp_StartedAt = dh_now h, dp_FinishedAt = None, dp_Log = []\<rparr> db)))"
  let ?st = "\<lparr>ds_db = ?db2, ds_events = [], ds_steps = 0\<rparr>"
  obtain report st0 where rep: "reportDeploymentStatus h (pj_GitHubRepo ?p) ?st = (report, st0)" by (metis prod.exhaust)
  obtain status1 st1 where stages: "deploy_stages h (captureContainerImages h) st0 = (status1, st1)" by (metis prod.exhaust)
  have res: "status = status1" "st = report status (finishDeployment h (dh_fresh h) status (pj_Name ?p) st1)"
    using assms rep stages by (auto simp: runDeployment_def Let_def)
  obtain es where es: "ds_db st1 = ds_db st0" "ds_events st1 = ds_events st0 @ es"
    "stages_ok h (captureContainerImages h \<noteq> []) status es"
    using deploy_stages_ok[OF stages] res(1) by auto
  have pure: "filter (\<lambda>e. \<not> github_event e) es = es"
    using stages_no_github[OF es(3)] by (simp add: list_all_iff filter_id_conv)
  show ?thesis
  proof (cases "pj_GitHubRepo ?p = [] \<or> dh_github h = None")
    case True
    then have "report = (\<lambda>_ s. s)" "st0 = ?st"
      using rep by (auto simp: reportDeploymentStatus_def split: option.splits if_splits)
    with True es res(2) pure show ?thesis by (auto simp: finishDeployment_def Let_def)
  next
    case False
    then obtain did where "dh_github h = Some did" by auto
    with False have "report = (\<lambda>status. note_event (EvGitHub (pj_GitHubRepo ?p) (if status = ''success'' then ''success'' else ''failure'')))"
      "st0 = note_event (EvGitHub (pj_GitHubRepo ?p) ''in_progress'') ?st"
      using rep by (auto simp: reportDeploymentStatus_def)
    with False es res(2) pure show ?thesis by (auto simp: finishDeployment_def Let_def github_event_def)
  qed
qed

text \<open>A deployment does its steps in order and reports what happened: \<open>compose up\<close> runs only after the
  pull, a valid configuration, the build and the pre-deploy hook succeeded; success means that the
  services became healthy and the post-deploy hook passed, or that nothing had been running before
  (then nothing can be rolled back); the rollback runs only for unhealthy services that replaced
  running ones, and GitHub is told success exactly for that status, last.\<close>
theorem runDeployment_order:
  assumes "runDeployment h job db = (status, st)"
  shows "stages_ok h (captureContainerImages h \<noteq> []) status (filter (\<lambda>e. \<not> github_event e) (ds_events st))
    \<and> (pj_GitHubRepo (dj_Project job) \<noteq> [] \<and> dh_github h \<noteq> None \<longrightarrow>
        last (ds_events st) = EvGitHub (pj_GitHubRepo (dj_Project job)) (if status = ''success'' then ''success'' else ''failure''))"
proof -
  obtain es where es: "stages_ok h (captureContainerImages h \<noteq> []) status es"
    "filter (\<lambda>e. \<not> github_event e) (ds_events st) = es"
    "ds_events st = (if pj_GitHubRepo (dj_Project job) = [] \<or> dh_github h = None then es
        else EvGitHub (pj_GitHubRepo (dj_Project job)) ''in_progress'' # es
          @ [EvGitHub (pj_GitHubRepo (dj_Project job)) (if status = ''success'' then ''success'' else ''failure'')])"
    using runDeployment_run[OF assms] by blast
  have "last (ds_events st) = EvGitHub (pj_GitHubRepo (dj_Project job)) (if status = ''success'' then ''success'' else ''failure'')"
    if "pj_GitHubRepo (dj_Project job) \<noteq> [] \<and> dh_github h \<noteq> None"
    unfolding es(3) using that by auto
  with es(1,2) show ?thesis by simp
qed


subsection \<open>Examples\<close>

definition sample_webhook_host :: webhook_host where
  "sample_webhook_host = \<lparr>wh_mac = (\<lambda>k b. k @ b), wh_hex = Some,
     wh_push = (\<lambda>_. Some \<lparr>gp_Ref = ''refs/heads/main'', gp_After = ''0123456789abcdef'', gp_Repo = ''acme/shop''\<rparr>),
     wh_mappings = (\<lambda>_. None)\<rparr>"

definition sample_push :: http_request where
  "sample_push = \<lparr>hr_Body = Some ''{}'', hr_Headers = [(''X-Hub-Signature-256'', ''sha256=k{}''),
     (''X-GitHub-Event'', ''push''), (''X-GitHub-Delivery'', ''d1'')]\<rparr>"

definition sample_job :: deployment_job where
  "sample_job = \<lparr>dj_Project = hd (db_projects registry3), dj_FullSHA = ''0123456789abcdef'', dj_ShortSHA = ''0123456789ab''\<rparr>"

lemma sample_push_accepted:
  "\<exists>answer d. handleGitHubWebhook sample_webhook_host False ''k'' True 0 sample_push registry3 (newWebhookDedup 0)
      = (answer, d, Some sample_job)"
proof -
  have body: "take 1048576 ''{}'' = ''{}''" by simp
  have sig: "verifyHMAC sample_webhook_host ''{}'' ''sha256=k{}'' ''k''" by code_simp
  have seen: "fst (seenRecently 0 ''d1'' (newWebhookDedup 0)) = False" by code_simp
  have job: "snd (dispatch_push sample_webhook_host True registry3 ''{}'') = Some sample_job" by code_simp
  obtain d where d: "seenRecently 0 ''d1'' (newWebhookDedup 0) = (False, d)" using seen by (metis prod.collapse)
  obtain a where a: "dispatch_push sample_webhook_host True registry3 ''{}'' = (a, Some sample_job)"
    using job by (metis prod.collapse)
  have fields: "hr_Body sample_push = Some ''{}''" "header sample_push ''X-Hub-Signature-256'' = ''sha256=k{}''"
    "header sample_push ''X-GitHub-Event'' = ''push''" "header sample_push ''X-GitHub-Delivery'' = ''d1''"
    by (simp_all add: sample_push_def header_def)
  show ?thesis
    unfolding handleGitHubWebhook_def fields option.case Let_def body
    using sig by (simp add: d a)
qed

lemma webhook_starts_authorized_witness:
  "dj_Project sample_job \<in> set (db_projects registry3)
    \<and> \<not> fst (seenRecently 0 (header sample_push ''X-GitHub-Delivery'') (newWebhookDedup 0))"
proof -
  obtain answer d where "handleGitHubWebhook sample_webhook_host False ''k'' True 0 sample_push registry3 (newWebhookDedup 0)
      = (answer, d, Some sample_job)" using sample_push_accepted by blast
  from webhook_starts_authorized[OF this] show ?thesis by blast
qed

lemma webhook_redelivery_ignored_witness:
  "\<exists>d1 d2. handleGitHubWebhook sample_webhook_host False ''k'' True 9 sample_push registry3 d1
     = (HttpJson [(''status'', ''ignored''), (''reason'', ''duplicate delivery''), (''delivery'', ''d1'')], d2, None)"
proof -
  obtain answer d where "handleGitHubWebhook sample_webhook_host False ''k'' True 0 sample_push registry3 (newWebhookDedup 0)
      = (answer, d, Some sample_job)" using sample_push_accepted by blast
  from webhook_redelivery_ignored[OF this, of "''d1''" "[(3, ''d2'')]" 9 True registry3]
  show ?thesis by (auto simp: sample_push_def header_def newWebhookDedup_def)
qed

definition sample_deploy_host :: deploy_host where
  "sample_deploy_host = \<lparr>dh_step = (\<lambda>_. \<lparr>sa_prepared = True, sa_ok = True, sa_deadline = False, sa_cancelled = False\<rparr>),
     dh_validate = True, dh_ps = (\<lambda>_. Some ''x''), dh_polls = 2,
     dh_entry = (\<lambda>_. Some \<lparr>pe_Name = ''web'', pe_Image = ''app'', pe_State = ''exited'', pe_Health = []\<rparr>),
     dh_read = (\<lambda>_. None), dh_yaml = (\<lambda>_. None), dh_github = Some 7, dh_up = (\<lambda>_. True), dh_fresh = ''u7'', dh_now = 50\<rparr>"

lemma sample_stages: "\<exists>st'. deploy_stages sample_deploy_host (captureContainerImages sample_deploy_host) st = (''failed'', st')"
proof -
  have images: "captureContainerImages sample_deploy_host = [(''web'', ''app'')]" by code_simp
  have sick: "healthy (waitForHealthy sample_deploy_host) = False" by code_simp
  have hooks: "loadFleetdeckConfig sample_deploy_host = None" by code_simp
  have ok: "runStep sample_deploy_host ev cmd s =
      (True, s\<lparr>ds_steps := Suc (ds_steps s), ds_events := ds_events s @ [ev cmd]\<rparr>)" for ev cmd s
    by (simp add: runStep_def Let_def sample_deploy_host_def)
  have "dh_validate sample_deploy_host" by (simp add: sample_deploy_host_def)
  then show ?thesis
    unfolding deploy_stages_def images hooks ok Let_def split_conv after_up_def sick run_hook_def pre_hook_def option.case
      roll_back_def by simp
qed

lemma sample_deployment_status: "fst (runDeployment sample_deploy_host sample_job registry3) = ''failed''"
proof -
  have "fst (runDeployment h job db) = status"
    if stages: "\<And>st. \<exists>st'. deploy_stages h (captureContainerImages h) st = (status, st')" for h job db status
  proof -
    obtain report st where rep: "reportDeploymentStatus h (pj_GitHubRepo (dj_Project job))
      \<lparr>ds_db = snd (UpdateProjectStatus (dh_up h 1) (dh_now h) (pj_Name (dj_Project job)) ''deploying''
         (snd (CreateDeployment (dh_up h 0) (dh_now h) (dh_fresh h) \<lparr>dp_ID = dh_fresh h, dp_ProjectID = pj_ID (dj_Project job),
            dp_CommitSHA = dj_ShortSHA job, dp_Status = ''deploying'', dp_StartedAt = dh_now h, dp_FinishedAt = None,
            dp_Log = []\<rparr> db))), ds_events = [], ds_steps = 0\<rparr> = (report, st)" by (metis prod.exhaust)
    obtain st' where "deploy_stages h (captureContainerImages h) st = (status, st')" using stages by blast
    then show ?thesis unfolding runDeployment_def Let_def rep by simp
  qed
  then show ?thesis using sample_stages by blast
qed

lemma runDeployment_order_witness:
  "last (ds_events (snd (runDeployment sample_deploy_host sample_job registry3))) = EvGitHub ''acme/shop'' ''failure''"
proof -
  obtain st where r: "runDeployment sample_deploy_host sample_job registry3 = (''failed'', st)"
    using sample_deployment_status by (metis prod.collapse)
  have "pj_GitHubRepo (dj_Project sample_job) = ''acme/shop''" by code_simp
  with runDeployment_order[OF r] r show ?thesis by (simp add: sample_deploy_host_def)
qed


end
