(* ===== verification/Release_System.thy ===== *)
theory Release_System
  imports Release_Idempotence
begin

text \<open>
  Many executors over one database. A release runs in a process of its own (the command \<open>release\<close>,
  the CI receiver), so executions interleave between the statements of \<open>Execute\<close> that touch the
  database, and a process may die at any point. A step of the system is one transaction of one
  process; \<open>Execute\<close> itself is shown to be such a sequence of steps.
\<close>

subsection \<open>The system\<close>

datatype phase =
    Idle
  | Waiting Request
  | Reserved Request time
  | Checked Request time

fun works_on :: "phase \<Rightarrow> Request option" where
  "works_on (Reserved rq t) = Some rq"
| "works_on (Checked rq t) = Some rq"
| "works_on _ = None"

record release_system =
  sys_db :: release_db
  sys_phase :: "nat \<Rightarrow> phase"

definition advance :: "nat \<Rightarrow> phase \<Rightarrow> release_db \<Rightarrow> release_system \<Rightarrow> release_system" where
  "advance p ph db s = \<lparr>sys_db = db, sys_phase = (sys_phase s)(p := ph)\<rparr>"

lemma advance_simps [simp]:
  "sys_db (advance p ph db s) = db" "sys_phase (advance p ph db s) = (sys_phase s)(p := ph)"
  by (simp_all add: advance_def)

definition acquired :: "store_error + Reservation \<Rightarrow> bool" where
  "acquired r = (case r of Inl e \<Rightarrow> False | Inr rv \<Rightarrow> rv_State rv = ReservationAcquired)"

inductive sys_step :: "codec \<Rightarrow> release_system \<Rightarrow> release_system \<Rightarrow> bool" for c where
  Submit: "sys_phase s p = Idle \<Longrightarrow> sys_step c s (advance p (Waiting rq) (sys_db s) s)"
| Acquire: "sys_phase s p = Waiting rq \<Longrightarrow> Validate rq = None
    \<Longrightarrow> Reserve c up (sys_db s) rq sha t = (r, db) \<Longrightarrow> acquired r
    \<Longrightarrow> sys_step c s (advance p (Reserved rq t) db s)"
| Refuse: "sys_phase s p = Waiting rq \<Longrightarrow> Reserve c up (sys_db s) rq sha t = (r, db) \<Longrightarrow> \<not> acquired r
    \<Longrightarrow> sys_step c s (advance p Idle db s)"
| Check: "sys_phase s p = Reserved rq t
    \<Longrightarrow> CurrentRelease up (sys_db s) (tgt_ID (rq_Target rq)) = Inr (tgt_ExpectedCurrentReleaseID (rq_Target rq))
    \<Longrightarrow> sys_step c s (advance p (Checked rq t) (sys_db s) s)"
| Succeed: "sys_phase s p = Checked rq t \<Longrightarrow> same_job res (running_result rq t) \<Longrightarrow> complete_evidence rq res
    \<Longrightarrow> CompleteSuccess c up (sys_db s) res (rq_ManifestDigest rq) = (e, db)
    \<Longrightarrow> sys_step c s (advance p Idle db s)"
| Fail: "sys_phase s p = Reserved rq t \<or> sys_phase s p = Checked rq t \<Longrightarrow> same_job res (running_result rq t)
    \<Longrightarrow> CompleteFailure c up (sys_db s) res = (e, db) \<Longrightarrow> sys_step c s (advance p Idle db s)"
| Die: "sys_step c s (advance p Idle (sys_db s) s)"

inductive sys_steps :: "codec \<Rightarrow> release_system \<Rightarrow> release_system \<Rightarrow> bool" for c where
  sys_steps_refl [intro!]: "sys_steps c s s"
| sys_steps_step: "sys_step c s s1 \<Longrightarrow> sys_steps c s1 s2 \<Longrightarrow> sys_steps c s s2"

definition sys_start :: release_system where
  "sys_start = \<lparr>sys_db = empty_release_db, sys_phase = (\<lambda>_. Idle)\<rparr>"

subsection \<open>The invariant\<close>

definition holds_row :: "release_db \<Rightarrow> Request \<Rightarrow> bool" where
  "holds_row db rq \<longleftrightarrow> (\<exists>r \<in> set (release_jobs db). running_on (tgt_ID (rq_Target rq)) r
     \<and> jr_idempotency_key r = rq_IdempotencyKey rq \<and> jr_job_id r = rq_JobID rq)"

definition sys_inv :: "release_system \<Rightarrow> bool" where
  "sys_inv s \<longleftrightarrow> db_inv (sys_db s)
     \<and> (\<forall>p rq. works_on (sys_phase s p) = Some rq \<longrightarrow> holds_row (sys_db s) rq)
     \<and> (\<forall>p q rq rq'. p \<noteq> q \<longrightarrow> works_on (sys_phase s p) = Some rq \<longrightarrow> works_on (sys_phase s q) = Some rq' \<longrightarrow>
          tgt_ID (rq_Target rq) \<noteq> tgt_ID (rq_Target rq'))
     \<and> (\<forall>p rq t. sys_phase s p = Checked rq t \<longrightarrow>
          target_of (release_targets (sys_db s)) (tgt_ID (rq_Target rq)) = tgt_ExpectedCurrentReleaseID (rq_Target rq))"

lemma sys_invI:
  assumes "db_inv (sys_db s)"
    and "\<And>p rq. works_on (sys_phase s p) = Some rq \<Longrightarrow> holds_row (sys_db s) rq"
    and "\<And>p q rq rq'. p \<noteq> q \<Longrightarrow> works_on (sys_phase s p) = Some rq \<Longrightarrow> works_on (sys_phase s q) = Some rq' \<Longrightarrow>
          tgt_ID (rq_Target rq) \<noteq> tgt_ID (rq_Target rq')"
    and "\<And>p rq t. sys_phase s p = Checked rq t \<Longrightarrow>
          target_of (release_targets (sys_db s)) (tgt_ID (rq_Target rq)) = tgt_ExpectedCurrentReleaseID (rq_Target rq)"
  shows "sys_inv s"
  using assms unfolding sys_inv_def by blast

lemma sys_invD:
  assumes "sys_inv s"
  shows "db_inv (sys_db s)"
    and "works_on (sys_phase s p) = Some rq \<Longrightarrow> holds_row (sys_db s) rq"
    and "p \<noteq> q \<Longrightarrow> works_on (sys_phase s p) = Some rq \<Longrightarrow> works_on (sys_phase s q) = Some rq' \<Longrightarrow>
          tgt_ID (rq_Target rq) \<noteq> tgt_ID (rq_Target rq')"
    and "sys_phase s p = Checked rq t \<Longrightarrow>
          target_of (release_targets (sys_db s)) (tgt_ID (rq_Target rq)) = tgt_ExpectedCurrentReleaseID (rq_Target rq)"
  using assms unfolding sys_inv_def by blast+

lemma sys_inv_start: "sys_inv sys_start"
  by (rule sys_invI) (simp_all add: sys_start_def db_inv_empty)

text \<open>A step that ends the work of a process keeps the rest, if the rows of the others stay.\<close>

lemma sys_inv_release:
  assumes inv: "sys_inv s" and db: "db_inv db"
    and rows: "\<And>q rq. q \<noteq> p \<Longrightarrow> works_on (sys_phase s q) = Some rq \<Longrightarrow> holds_row db rq"
    and targets: "\<And>q rq t. q \<noteq> p \<Longrightarrow> sys_phase s q = Checked rq t \<Longrightarrow>
      target_of (release_targets db) (tgt_ID (rq_Target rq))
        = target_of (release_targets (sys_db s)) (tgt_ID (rq_Target rq))"
    and ph: "works_on ph = None"
  shows "sys_inv (advance p ph db s)"
proof (rule sys_invI)
  show "db_inv (sys_db (advance p ph db s))" using db by simp
  show "holds_row (sys_db (advance p ph db s)) rq" if "works_on (sys_phase (advance p ph db s) q) = Some rq" for q rq
    using that rows ph by (simp split: if_splits)
  show "tgt_ID (rq_Target rq) \<noteq> tgt_ID (rq_Target rq')"
    if "q \<noteq> q'" "works_on (sys_phase (advance p ph db s) q) = Some rq"
      "works_on (sys_phase (advance p ph db s) q') = Some rq'" for q q' rq rq'
    using that sys_invD(3)[OF inv] ph by (simp split: if_splits)
  show "target_of (release_targets (sys_db (advance p ph db s))) (tgt_ID (rq_Target rq))
      = tgt_ExpectedCurrentReleaseID (rq_Target rq)"
    if "sys_phase (advance p ph db s) q = Checked rq t" for q rq t
    using that targets sys_invD(4)[OF inv] ph by (auto split: if_splits)
qed

text \<open>Finishing the row of one process leaves the rows of the others, which are on other targets.\<close>

lemma holds_row_finish:
  assumes "holds_row db rq" "holds_row db rq'" "tgt_ID (rq_Target rq) \<noteq> tgt_ID (rq_Target rq')"
    and "distinct (map jr_idempotency_key (release_jobs db))" "rs_IdempotencyKey res = rq_IdempotencyKey rq"
    and jobs: "release_jobs db' = update_where (is_running_job res) f (release_jobs db)"
  shows "holds_row db' rq'"
proof -
  obtain r where r: "r \<in> set (release_jobs db)" "running_on (tgt_ID (rq_Target rq)) r"
    "jr_idempotency_key r = rq_IdempotencyKey rq" using assms(1) unfolding holds_row_def by blast
  obtain q where q: "q \<in> set (release_jobs db)" "running_on (tgt_ID (rq_Target rq')) q"
    "jr_idempotency_key q = rq_IdempotencyKey rq'" "jr_job_id q = rq_JobID rq'"
    using assms(2) unfolding holds_row_def by blast
  have "q \<noteq> r" using r(2) q(2) assms(3) by (auto simp: running_on_def)
  then have "jr_idempotency_key q \<noteq> jr_idempotency_key r"
    using r(1) q(1) assms(4) by (metis distinct_map inj_on_def)
  then have "\<not> is_running_job res q" using r(3) assms(5) by (simp add: is_running_job_def)
  then have "q \<in> set (release_jobs db')" using q(1) unfolding jobs by (auto simp: set_update_where)
  with q(2-4) show ?thesis unfolding holds_row_def by blast
qed

lemma CompleteSuccess_rows:
  assumes "CompleteSuccess c up db res dig = (e, db')"
  shows "db' = db \<or> (release_jobs db' = update_where (is_running_job res) (finish_row c ''succeeded'' res) (release_jobs db)
      \<and> target_of (release_targets db') = (target_of (release_targets db))(rs_TargetID res \<mapsto> rs_ReleaseID res))"
proof (cases e)
  case None
  then show ?thesis using CompleteSuccess_ok(6,7)[of c up db res dig db'] assms by (simp add: target_of_upsert)
qed (use assms CompleteSuccess_error in blast)

lemma CompleteFailure_rows:
  assumes "CompleteFailure c up db res = (e, db')" "db_inv db"
  shows "db' = db \<or> (release_jobs db' = update_where (is_running_job res) (finish_row c ''failed'' res) (release_jobs db)
      \<and> release_targets db' = release_targets db)"
proof (cases e)
  case None
  then show ?thesis using CompleteFailure_ok(4,5)[of c up db res db'] assms by simp
qed (use assms CompleteFailure_error in blast)

lemma sys_inv_acquire:
  assumes inv: "sys_inv s" and op: "Reserve c up (sys_db s) rq sha t = (r, db)" and ok: "acquired r"
  shows "sys_inv (advance p (Reserved rq t) db s)"
  using op
proof (cases rule: Reserve_cases)
  case acquired
  let ?s = "advance p (Reserved rq t) db s"
  have keeps: "holds_row db rq'" if "holds_row (sys_db s) rq'" for rq'
    using that acquired(2) by (auto simp: holds_row_def)
  have own: "holds_row db rq"
    using acquired(2) by (auto simp: holds_row_def new_job_row_def running_on_def)
  have free: "tgt_ID (rq_Target rq') \<noteq> tgt_ID (rq_Target rq)" if "holds_row (sys_db s) rq'" for rq'
    using that acquired(5) unfolding holds_row_def by auto
  show ?thesis
  proof (rule sys_invI)
    show "db_inv (sys_db ?s)" using Reserve_inv[OF op sys_invD(1)[OF inv]] by simp
    show "holds_row (sys_db ?s) rq'" if "works_on (sys_phase ?s q) = Some rq'" for q rq'
      using that keeps own sys_invD(2)[OF inv] by (auto split: if_splits)
    show "tgt_ID (rq_Target rq1) \<noteq> tgt_ID (rq_Target rq2)" if "q \<noteq> q'" "works_on (sys_phase ?s q) = Some rq1"
        "works_on (sys_phase ?s q') = Some rq2" for q q' rq1 rq2
      using that free sys_invD(2,3)[OF inv] by (fastforce split: if_splits)
    show "target_of (release_targets (sys_db ?s)) (tgt_ID (rq_Target rq')) = tgt_ExpectedCurrentReleaseID (rq_Target rq')"
      if "sys_phase ?s q = Checked rq' t'" for q rq' t'
      using that acquired(2) sys_invD(4)[OF inv] by (auto split: if_splits)
  qed
next
  case unchanged
  then show ?thesis using ok by (auto simp: acquired_def split: sum.splits)
qed

lemma sys_inv_finish:
  assumes inv: "sys_inv s" and work: "works_on (sys_phase s p) = Some rq" and db: "db_inv db"
    and key: "rs_IdempotencyKey res = rq_IdempotencyKey rq"
    and change: "db = sys_db s \<or> (release_jobs db = update_where (is_running_job res) f (release_jobs (sys_db s))
      \<and> (\<forall>t. t \<noteq> tgt_ID (rq_Target rq) \<longrightarrow>
           target_of (release_targets db) t = target_of (release_targets (sys_db s)) t))"
  shows "sys_inv (advance p Idle db s)"
proof (rule sys_inv_release[OF inv db])
  fix q rq' assume q: "q \<noteq> p" "works_on (sys_phase s q) = Some rq'"
  have diff: "tgt_ID (rq_Target rq) \<noteq> tgt_ID (rq_Target rq')"
    using sys_invD(3)[OF inv q(1)[symmetric] work q(2)] .
  show "holds_row db rq'"
    using change holds_row_finish[OF sys_invD(2)[OF inv work] sys_invD(2)[OF inv q(2)] diff _ key] sys_invD(1,2)[OF inv] q(2)
    by (auto simp: db_inv_def)
next
  fix q rq' t assume q: "q \<noteq> p" "sys_phase s q = Checked rq' t"
  then have "tgt_ID (rq_Target rq') \<noteq> tgt_ID (rq_Target rq)"
    using sys_invD(3)[OF inv q(1) _ work, of rq'] by simp
  then show "target_of (release_targets db) (tgt_ID (rq_Target rq'))
      = target_of (release_targets (sys_db s)) (tgt_ID (rq_Target rq'))" using change by auto
qed simp

lemma same_job_running [simp]:
  "same_job res (running_result rq t) \<Longrightarrow> rs_IdempotencyKey res = rq_IdempotencyKey rq"
  "same_job res (running_result rq t) \<Longrightarrow> rs_JobID res = rq_JobID rq"
  "same_job res (running_result rq t) \<Longrightarrow> rs_TargetID res = tgt_ID (rq_Target rq)"
  "same_job res (running_result rq t) \<Longrightarrow> rs_ReleaseID res = rq_ReleaseID rq"
  by (simp_all add: same_job_def)

lemma sys_step_inv:
  assumes "sys_step c s s'" "sys_inv s" shows "sys_inv s'"
  using assms
proof (induction rule: sys_step.induct)
  case (Submit s p rq)
  show ?case by (rule sys_inv_release[OF Submit(2)]) (use sys_invD[OF Submit(2)] in auto)
next
  case (Acquire s p rq up sha t r db)
  show ?case by (rule sys_inv_acquire[OF Acquire(5,3,4)])
next
  case (Refuse s p rq up sha t r db)
  have "db = sys_db s" using Refuse(2,3)
    by (cases rule: Reserve_cases) (auto simp: acquired_def)
  then show ?case by (intro sys_inv_release[OF Refuse(4)]) (use sys_invD[OF Refuse(4)] in auto)
next
  case (Check s p rq t up)
  note inv = Check(3)
  let ?s = "advance p (Checked rq t) (sys_db s) s"
  have now: "target_of (release_targets (sys_db s)) (tgt_ID (rq_Target rq)) = tgt_ExpectedCurrentReleaseID (rq_Target rq)"
    using Check(2) by (simp add: CurrentRelease_def target_of_def split: if_splits)
  have same: "works_on (sys_phase ?s q) = works_on (sys_phase s q)" for q using Check(1) by simp
  show ?case
  proof (rule sys_invI)
    show "db_inv (sys_db ?s)" using sys_invD(1)[OF inv] by simp
  next
    fix q rq' assume "works_on (sys_phase ?s q) = Some rq'"
    then show "holds_row (sys_db ?s) rq'" unfolding same using sys_invD(2)[OF inv] by simp
  next
    fix q q' rq1 rq2 assume "q \<noteq> q'" "works_on (sys_phase ?s q) = Some rq1" "works_on (sys_phase ?s q') = Some rq2"
    then show "tgt_ID (rq_Target rq1) \<noteq> tgt_ID (rq_Target rq2)" unfolding same by (rule sys_invD(3)[OF inv])
  next
    fix q rq' t' assume "sys_phase ?s q = Checked rq' t'"
    then show "target_of (release_targets (sys_db ?s)) (tgt_ID (rq_Target rq')) = tgt_ExpectedCurrentReleaseID (rq_Target rq')"
      using now sys_invD(4)[OF inv, of q] by (auto split: if_splits)
  qed
next
  case (Succeed s p rq t res up e db)
  note rows = CompleteSuccess_rows[OF Succeed(4)]
  show ?case
    by (rule sys_inv_finish[OF Succeed(5), of p rq db res "finish_row c ''succeeded'' res"])
      (use Succeed rows CompleteSuccess_inv[OF Succeed(4)] sys_invD(1)[OF Succeed(5)] in auto)
next
  case (Fail s p rq t res up e db)
  note inv = sys_invD(1)[OF Fail(4)]
  show ?case
    by (rule sys_inv_finish[OF Fail(4), of p rq db res "finish_row c ''failed'' res"])
      (use Fail(1,2) CompleteFailure_rows[OF Fail(3) inv] CompleteFailure_inv[OF Fail(3) inv] in auto)
next
  case (Die s p)
  show ?case by (rule sys_inv_release[OF Die]) (use sys_invD[OF Die] in auto)
qed

lemma sys_steps_inv: "sys_steps c s s' \<Longrightarrow> sys_inv s \<Longrightarrow> sys_inv s'"
  by (induction rule: sys_steps.induct) (auto dest: sys_step_inv)

lemma sys_steps_trans: "sys_steps c s s1 \<Longrightarrow> sys_steps c s1 s2 \<Longrightarrow> sys_steps c s s2"
  by (induction rule: sys_steps.induct) (auto intro: sys_steps_step)

lemma sys_steps_one: "sys_step c s s' \<Longrightarrow> sys_steps c s s'"
  by (rule sys_steps_step[OF _ sys_steps_refl])

subsection \<open>What interleaved executions keep\<close>

text \<open>C3. Concurrent executions exclude each other: in every state the processes can reach, with any
  interleaving, any failing statement and any process dying, two executors work on different targets,
  each of them holds the only running row of its target, and what an executor read as the current
  release still is the current release.\<close>
theorem executors_exclude_each_other:
  assumes "sys_steps c sys_start s"
  shows "(\<forall>p q rq rq'. p \<noteq> q \<and> works_on (sys_phase s p) = Some rq \<and> works_on (sys_phase s q) = Some rq'
      \<longrightarrow> tgt_ID (rq_Target rq) \<noteq> tgt_ID (rq_Target rq'))
    \<and> (\<forall>t. count_where (running_on t) (release_jobs (sys_db s)) \<le> 1)
    \<and> (\<forall>p rq. works_on (sys_phase s p) = Some rq \<longrightarrow> holds_row (sys_db s) rq)
    \<and> (\<forall>p rq t. sys_phase s p = Checked rq t \<longrightarrow>
         target_of (release_targets (sys_db s)) (tgt_ID (rq_Target rq)) = tgt_ExpectedCurrentReleaseID (rq_Target rq))"
proof -
  have inv: "sys_inv s" using sys_steps_inv[OF assms sys_inv_start] .
  show ?thesis using sys_invD[OF inv] by (auto simp: db_inv_def)
qed

lemma sql_complete:
  "st_CompleteSuccess (sql_store c ups) (db, n) res dig = (e, (db', n')) \<Longrightarrow> CompleteSuccess c (ups n) db res dig = (e, db')"
  "st_CompleteFailure (sql_store c ups) (db, n) res = (e, (db', n')) \<Longrightarrow> CompleteFailure c (ups n) db res = (e, db')"
  by (simp_all add: sql_store_def split: prod.splits)

lemma sql_execution_tail:
  assumes "ends_well (sql_store c ups) (db, n) rq (running_result rq t) ((res, err), (db', n'), w')
      \<and> CurrentRelease up db (tgt_ID (rq_Target rq)) = Inr (tgt_ExpectedCurrentReleaseID (rq_Target rq))
    \<or> ends_badly (sql_store c ups) (db, n) (running_result rq t) ((res, err), (db', n'), w')"
    and "sys_db s = db" "sys_phase s p = Reserved rq t"
  shows "sys_steps c s (advance p Idle db' s)"
  using assms(1)
proof (elim disjE conjE)
  assume "ends_badly (sql_store c ups) (db, n) (running_result rq t) ((res, err), (db', n'), w')"
  then obtain r e where "same_job r (running_result rq t)" "CompleteFailure c (ups n) (sys_db s) r = (e, db')"
    unfolding ends_badly_def assms(2) fst_conv snd_conv by (meson sql_complete(2))
  from sys_step.Fail[OF disjI1[OF assms(3)] this] show ?thesis by (rule sys_steps_one)
next
  assume well: "ends_well (sql_store c ups) (db, n) rq (running_result rq t) ((res, err), (db', n'), w')"
    and cur: "CurrentRelease up db (tgt_ID (rq_Target rq)) = Inr (tgt_ExpectedCurrentReleaseID (rq_Target rq))"
  let ?s = "advance p (Checked rq t) (sys_db s) s"
  obtain r e where fin: "same_job r (running_result rq t)" "complete_evidence rq r"
    "CompleteSuccess c (ups n) (sys_db ?s) r (rq_ManifestDigest rq) = (e, db')"
    using well unfolding ends_well_def advance_simps assms(2) fst_conv snd_conv by (meson sql_complete(1))
  have "sys_phase ?s p = Checked rq t" by simp
  from sys_step.Succeed[OF this fin] have "sys_step c ?s (advance p Idle db' s)"
    by (simp add: advance_def)
  moreover have "sys_step c s ?s" by (rule sys_step.Check[OF assms(3)]) (use cur assms(2) in simp)
  ultimately show ?thesis by (blast intro: sys_steps_step)
qed

lemma sql_reserve:
  assumes "st_Reserve (sql_store c ups) (db, n) rq sha t = (r, s')"
  obtains db' where "Reserve c (ups n) db rq sha t = (r, db')" "s' = (db', Suc n)"
  using assms by (auto simp: sql_store_def split: prod.splits)

text \<open>C4. The executor refines the system: whatever its host answers and whichever statements fail, one call of
  \<open>Execute\<close> on the database is a sequence of steps of its process, which is idle again at the end.\<close>
theorem Execute_refines_system:
  assumes "Execute m h (sql_store c ups) rt rq (db, n) w = ((res, err), (db', n'), w')"
    and "sys_db s = db" "sys_phase s p = Idle"
  shows "\<exists>s'. sys_steps c s s' \<and> sys_db s' = db' \<and> sys_phase s' = sys_phase s"
proof -
  let ?w = "advance p (Waiting rq) db s"
  have begun: "sys_step c s ?w" using sys_step.Submit[OF assms(3)] assms(2) by simp
  have restored: "sys_phase (advance p Idle d ?w) = sys_phase s" "sys_phase (advance p Idle d s) = sys_phase s" for d
    using assms(3) by (auto simp: fun_eq_iff)
  have reject: ?thesis if "Reserve c up db rq sha t = (r, db')" "\<not> acquired r" for up sha t r
  proof -
    have "sys_step c ?w (advance p Idle db' ?w)" by (rule sys_step.Refuse) (use that in auto)
    then have "sys_steps c s (advance p Idle db' ?w)" using begun by (blast intro: sys_steps_step)
    with restored show ?thesis by (intro exI[of _ "advance p Idle db' ?w"]) simp
  qed
  show ?thesis
    using assms(1)
  proof (cases rule: Execute_split)
    case invalid
    then show ?thesis using assms(2) by auto
  next
    case (refused e t)
    then show ?thesis using reject by (auto elim!: sql_reserve simp: acquired_def)
  next
    case (replay rv t)
    then show ?thesis using reject by (auto elim!: sql_reserve simp: acquired_def)
  next
    case (fresh rv t s1 w1)
    obtain db1 where op: "Reserve c (ups n) db rq (RequestSHA256 m h rq) t = (Inr rv, db1)" and s1: "s1 = (db1, Suc n)"
      using fresh(2) by (rule sql_reserve)
    let ?r = "advance p (Reserved rq t) db1 ?w"
    have acq: "sys_step c ?w ?r"
      by (rule sys_step.Acquire[where r = "Inr rv"]) (use fresh(1,3) op in \<open>auto simp: acquired_def\<close>)
    have "st_CurrentRelease (sql_store c ups) (db1, Suc n) (tgt_ID (rq_Target rq))
        = (CurrentRelease (ups (Suc n)) db1 (tgt_ID (rq_Target rq)), (db1, Suc (Suc n)))"
      by (simp add: sql_store_def)
    from exec_current_ends[OF this, of "running_result rq t" "running_result rq t" rt w1] fresh(4)
    have "sys_steps c ?r (advance p Idle db' ?r)"
      by (intro sql_execution_tail[of c ups db1 "Suc (Suc n)" rq t res err db' n' w' "ups (Suc n)"])
        (auto simp: s1 same_job_def running_result_def zero_Result_def)
    then have "sys_steps c s (advance p Idle db' ?r)" using begun acq by (blast intro: sys_steps_step)
    moreover have "sys_phase (advance p Idle db' ?r) = sys_phase s" using restored by (simp add: advance_def)
    ultimately show ?thesis by (intro exI[of _ "advance p Idle db' ?r"]) simp
  qed
qed

subsection \<open>A dead executor\<close>

definition abandoned :: "string \<Rightarrow> release_system \<Rightarrow> bool" where
  "abandoned t s \<longleftrightarrow> (\<exists>r \<in> set (release_jobs (sys_db s)). running_on t r)
     \<and> (\<forall>p rq. works_on (sys_phase s p) = Some rq \<longrightarrow> tgt_ID (rq_Target rq) \<noteq> t)"

lemma abandoned_refused:
  assumes "abandoned t s" "tgt_ID (rq_Target rq) = t" "Reserve c up (sys_db s) rq sha now = (r, db)"
  shows "\<not> acquired r"
  using assms(3)
  by (cases rule: Reserve_cases) (use assms(1,2) in \<open>auto simp: abandoned_def acquired_def split: sum.splits\<close>)

lemma abandoned_finish:
  assumes ab: "abandoned t s" and inv: "sys_inv s" and work: "works_on (sys_phase s p) = Some rq"
    and key: "rs_IdempotencyKey res = rq_IdempotencyKey rq"
    and change: "db = sys_db s \<or> release_jobs db = update_where (is_running_job res) f (release_jobs (sys_db s))"
  shows "abandoned t (advance p Idle db s)"
proof -
  obtain r where r: "r \<in> set (release_jobs (sys_db s))" "running_on t r" using ab unfolding abandoned_def by blast
  obtain q where q: "q \<in> set (release_jobs (sys_db s))" "running_on (tgt_ID (rq_Target rq)) q"
    "jr_idempotency_key q = rq_IdempotencyKey rq"
    using sys_invD(2)[OF inv work] unfolding holds_row_def by blast
  have "tgt_ID (rq_Target rq) \<noteq> t" using ab work unfolding abandoned_def by blast
  then have "r \<noteq> q" using r(2) q(2) by (auto simp: running_on_def)
  then have "jr_idempotency_key r \<noteq> jr_idempotency_key q"
    using r(1) q(1) sys_invD(1)[OF inv] by (metis db_inv_def distinct_map inj_on_def)
  then have "\<not> is_running_job res r" using q(3) key by (simp add: is_running_job_def)
  then have "r \<in> set (release_jobs db)" using change r(1) by (auto simp: set_update_where)
  then show ?thesis using ab r(2) unfolding abandoned_def by auto
qed

lemma abandoned_step:
  assumes "sys_step c s s'" "sys_inv s" "abandoned t s" shows "abandoned t s'"
  using assms
proof (induction rule: sys_step.induct)
  case (Acquire s p rq up sha now r db)
  have "tgt_ID (rq_Target rq) \<noteq> t" using abandoned_refused[OF Acquire(6) _ Acquire(3)] Acquire(4) by blast
  moreover have "set (release_jobs (sys_db s)) \<subseteq> set (release_jobs db)"
    using Acquire(3) by (cases rule: Reserve_cases) auto
  ultimately show ?case using Acquire(6) by (auto simp: abandoned_def)
next
  case (Refuse s p rq up sha now r db)
  have "db = sys_db s" using Refuse(2,3)
    by (cases rule: Reserve_cases) (auto simp: acquired_def)
  with Refuse(5) show ?case by (auto simp: abandoned_def)
next
  case (Succeed s p rq now res up e db)
  show ?case
    by (rule abandoned_finish[OF Succeed(6,5), of p rq res _ "finish_row c ''succeeded'' res"])
      (use Succeed(1,2) CompleteSuccess_rows[OF Succeed(4)] in auto)
next
  case (Fail s p rq now res up e db)
  show ?case
    by (rule abandoned_finish[OF Fail(5,4), of p rq res _ "finish_row c ''failed'' res"])
      (use Fail(1,2) CompleteFailure_rows[OF Fail(3) sys_invD(1)[OF Fail(4)]] in auto)
next
  case (Check s p rq now up)
  have "works_on (sys_phase (advance p (Checked rq now) (sys_db s) s) q) = works_on (sys_phase s q)" for q
    using Check(1) by simp
  with Check(4) show ?case unfolding abandoned_def by simp
qed (auto simp: abandoned_def)

text \<open>A target whose executor died stays reserved: nothing the processes do gives it back.\<close>

lemma abandoned_stays:
  assumes "sys_steps c s s'" "sys_inv s" "abandoned t s"
  shows "sys_inv s' \<and> abandoned t s'"
  using assms
  by (induction rule: sys_steps.induct) (auto dest: sys_step_inv abandoned_step)


subsection \<open>Examples\<close>

definition reserved_db :: release_db where
  "reserved_db = snd (Reserve (sample_codec zero_Result) (\<lambda>_. True) empty_release_db sample_request [] 0)"

definition reserved_system :: release_system where
  "reserved_system = \<lparr>sys_db = reserved_db, sys_phase = (\<lambda>_. Idle)(0 := Reserved sample_request 0)\<rparr>"

lemma reserved_reachable: "sys_steps (sample_codec zero_Result) sys_start reserved_system"
proof -
  let ?c = "sample_codec zero_Result"
  let ?w = "advance 0 (Waiting sample_request) empty_release_db sys_start"
  obtain r where op: "Reserve ?c (\<lambda>_. True) empty_release_db sample_request [] 0 = (r, reserved_db)"
    unfolding reserved_db_def by (metis prod.collapse)
  have "acquired (fst (Reserve ?c (\<lambda>_. True) empty_release_db sample_request [] 0))" by code_simp
  then have acq: "acquired r" using op by simp
  have "sys_step ?c sys_start ?w"
    using sys_step.Submit[of sys_start 0 ?c sample_request] by (simp add: sys_start_def)
  moreover have "sys_step ?c ?w (advance 0 (Reserved sample_request 0) reserved_db ?w)"
    by (rule sys_step.Acquire[OF _ sample_request_valid _ acq]) (use op in simp_all)
  ultimately have "sys_steps ?c sys_start (advance 0 (Reserved sample_request 0) reserved_db ?w)"
    by (blast intro: sys_steps_step)
  moreover have "advance 0 (Reserved sample_request 0) reserved_db ?w = reserved_system"
    by (simp add: advance_def reserved_system_def sys_start_def)
  ultimately show ?thesis by simp
qed

lemma executors_exclude_each_other_witness:
  "holds_row (sys_db reserved_system) sample_request
   \<and> count_where (running_on ''shop'') (release_jobs (sys_db reserved_system)) \<le> 1"
proof -
  have "works_on (sys_phase reserved_system 0) = Some sample_request" by (simp add: reserved_system_def)
  then show ?thesis using executors_exclude_each_other[OF reserved_reachable] by blast
qed

lemma Execute_refines_system_witness:
  "\<exists>s'. sys_steps (sample_codec zero_Result) sys_start s'
     \<and> sys_db s' = fst (fst (snd (sample_run zero_Result True (empty_release_db, 0)))) \<and> sys_phase s' 0 = Idle"
proof -
  obtain res err db' n' w' where run: "sample_run zero_Result True (empty_release_db, 0) = ((res, err), (db', n'), w')"
    by (metis prod.exhaust)
  from Execute_refines_system[OF run[unfolded sample_run_def sample_store_def], of sys_start 0] run
  show ?thesis by (auto simp: sys_start_def)
qed


end
