(* ===== verification/Monitor_Alerts.thy ===== *)
theory Monitor_Alerts
  imports Fleet_Config
begin

text \<open>
  \<open>internal/monitor/monitor.go\<close> and \<open>alerts.go\<close>: one health check of a target and the decision to send
  an alert. The HTTP client's redirect loop is modelled with the code's redirect policy; the answer
  to the \<open>n\<close>-th request of a check is a parameter, as are the clock and the text of a duration. The
  goroutines of the targets serialise on the locks of \<open>record\<close> and \<open>Process\<close>, so a run of the monitor
  is a sequence of results in any interleaving of the targets.
\<close>

subsection \<open>Targets and results\<close>

record Target =
  mt_Name :: string
  mt_URL :: string
  mt_Method :: string
  mt_ExpectedStatus :: int
  mt_Timeout :: duration
  mt_Interval :: duration

record CheckResult =
  cr_Target :: Target
  cr_StatusCode :: int
  cr_ResponseTime :: duration
  cr_Healthy :: bool
  cr_FailureKind :: string
  cr_Error :: string
  cr_CheckedAt :: time

definition FailureCloudflareChallenge :: string where
  "FailureCloudflareChallenge = ''cloudflare_challenge''"

definition HealthStatus :: "CheckResult \<Rightarrow> string" where
  "HealthStatus r =
     (if cr_FailureKind r = FailureCloudflareChallenge then ''blocked''
      else if cr_Healthy r then ''healthy''
      else ''unhealthy'')"

subsection \<open>One check\<close>

record probe_response =
  pr_status :: int
  pr_mitigated :: string
  pr_redirect :: "string option"

record probe_host =
  ph_valid :: "string \<Rightarrow> string \<Rightarrow> string option"
  ph_send :: "duration \<Rightarrow> nat \<Rightarrow> string \<Rightarrow> string \<Rightarrow> string + probe_response"
  ph_took :: duration

definition isCloudflareChallenge :: "probe_response \<Rightarrow> bool" where
  "isCloudflareChallenge resp = equal_fold (trim_space (pr_mitigated resp)) ''challenge''"

datatype redirect_policy = UseLastResponse | StopRedirects | FollowRedirect

definition checkRedirect :: "probe_response \<Rightarrow> nat \<Rightarrow> redirect_policy" where
  "checkRedirect resp via =
     (if isCloudflareChallenge resp then UseLastResponse
      else if 10 \<le> via then StopRedirects
      else FollowRedirect)"

text \<open>The client after \<open>via\<close> requests; a redirect is followed as the policy says.\<close>

function client_do :: "probe_host \<Rightarrow> duration \<Rightarrow> string \<Rightarrow> nat \<Rightarrow> string \<Rightarrow> string + probe_response" where
  "client_do h timeout meth via url =
     (case ph_send h timeout via meth url of
        Inl e \<Rightarrow> Inl e
      | Inr resp \<Rightarrow>
          (case pr_redirect resp of
             None \<Rightarrow> Inr resp
           | Some next \<Rightarrow>
               (case checkRedirect resp (Suc via) of
                  UseLastResponse \<Rightarrow> Inr resp
                | StopRedirects \<Rightarrow> Inl ''stopped after 10 redirects''
                | FollowRedirect \<Rightarrow> client_do h timeout meth (Suc via) next)))"
  by pat_completeness auto
termination
  by (relation "measure (\<lambda>(h, timeout, meth, via, url). 10 - via)")
    (auto simp: checkRedirect_def split: if_splits)

declare client_do.simps [simp del]

definition CheckOnce :: "probe_host \<Rightarrow> time \<Rightarrow> Target \<Rightarrow> CheckResult" where
  "CheckOnce h now tgt =
     (let result = \<lparr>cr_Target = tgt, cr_StatusCode = 0, cr_ResponseTime = 0, cr_Healthy = False,
                    cr_FailureKind = [], cr_Error = [], cr_CheckedAt = now\<rparr>;
          meth = (if mt_Method tgt = [] then ''GET'' else mt_Method tgt);
          expectedStatus = (if mt_ExpectedStatus tgt = 0 then 200 else mt_ExpectedStatus tgt);
          timeout = (if mt_Timeout tgt = 0 then 10 * second else mt_Timeout tgt)
      in case ph_valid h meth (mt_URL tgt) of
           Some e \<Rightarrow> result\<lparr>cr_Error := e\<rparr>
         | None \<Rightarrow>
             let timed = result\<lparr>cr_ResponseTime := ph_took h\<rparr>
             in case client_do h timeout meth 0 (mt_URL tgt) of
                  Inl e \<Rightarrow> timed\<lparr>cr_Error := e\<rparr>
                | Inr resp \<Rightarrow>
                    let answered = timed\<lparr>cr_StatusCode := pr_status resp\<rparr>
                    in if isCloudflareChallenge resp
                       then answered\<lparr>cr_FailureKind := FailureCloudflareChallenge\<rparr>
                       else answered\<lparr>cr_Healthy := pr_status resp = expectedStatus\<rparr>)"

subsection \<open>Alerts\<close>

record Alert =
  alert_Level :: string
  alert_Title :: string
  alert_Message :: string
  alert_Target :: string
  alert_Timestamp :: time

record targetState =
  ts_ConsecutiveFailures :: nat
  ts_ConsecutiveStatus :: nat
  ts_PendingStatus :: string
  ts_AlertedStatus :: string

definition zero_state :: targetState where
  "zero_state = \<lparr>ts_ConsecutiveFailures = 0, ts_ConsecutiveStatus = 0, ts_PendingStatus = [], ts_AlertedStatus = []\<rparr>"

text \<open>\<open>am_sent\<close> are the alerts handed to \<open>send\<close>, which passes each of them to every provider and only
  logs a provider's error.\<close>

record AlertManager =
  am_failureThreshold :: nat
  am_states :: "(string \<times> targetState) list"
  am_sent :: "Alert list"

definition NewAlertManager :: "int \<Rightarrow> AlertManager" where
  "NewAlertManager failureThreshold =
     \<lparr>am_failureThreshold = nat (if failureThreshold < 1 then 1 else failureThreshold), am_states = [], am_sent = []\<rparr>"

definition New :: "int \<Rightarrow> AlertManager" where
  "New failureThreshold = NewAlertManager (if failureThreshold \<le> 0 then 3 else failureThreshold)"

definition state_of :: "string \<Rightarrow> AlertManager \<Rightarrow> targetState" where
  "state_of name am = (case map_of (am_states am) name of None \<Rightarrow> zero_state | Some st \<Rightarrow> st)"

definition send :: "Alert \<Rightarrow> AlertManager \<Rightarrow> AlertManager" where
  "send alert am = am\<lparr>am_sent := am_sent am @ [alert]\<rparr>"

definition recovery_alert :: "(duration \<Rightarrow> string) \<Rightarrow> CheckResult \<Rightarrow> Alert" where
  "recovery_alert dur_text r =
     \<lparr>alert_Level = ''info'', alert_Title = mt_Name (cr_Target r) @ '' recovered'',
      alert_Message = mt_Name (cr_Target r) @ '' is healthy again (status '' @ show_int (cr_StatusCode r)
        @ '', '' @ dur_text (cr_ResponseTime r) @ '')'',
      alert_Target = mt_Name (cr_Target r), alert_Timestamp = cr_CheckedAt r\<rparr>"

definition blocked_alert :: "CheckResult \<Rightarrow> Alert" where
  "blocked_alert r =
     \<lparr>alert_Level = ''warning'', alert_Title = mt_Name (cr_Target r) @ '' health check blocked'',
      alert_Message = ''Cloudflare returned a browser challenge. Application health is unknown; this is not a successful check or proof of a server outage.'',
      alert_Target = mt_Name (cr_Target r), alert_Timestamp = cr_CheckedAt r\<rparr>"

definition down_alert :: "CheckResult \<Rightarrow> nat \<Rightarrow> Alert" where
  "down_alert r failures =
     (let errMsg = (if cr_Error r \<noteq> [] then ''health request failed; inspect the private monitor state''
                    else ''status '' @ show_int (cr_StatusCode r))
      in \<lparr>alert_Level = ''critical'', alert_Title = mt_Name (cr_Target r) @ '' is down'',
          alert_Message = mt_Name (cr_Target r) @ '' failed '' @ show_int (int failures) @ '' consecutive checks: '' @ errMsg,
          alert_Target = mt_Name (cr_Target r), alert_Timestamp = cr_CheckedAt r\<rparr>)"

text \<open>The counters after an unhealthy check.\<close>

definition count_failure :: "nat \<Rightarrow> string \<Rightarrow> targetState \<Rightarrow> targetState" where
  "count_failure k status st0 =
     (let st1 = (if ts_ConsecutiveFailures st0 < k
                 then st0\<lparr>ts_ConsecutiveFailures := Suc (ts_ConsecutiveFailures st0)\<rparr> else st0);
          st2 = (if ts_PendingStatus st1 \<noteq> status
                 then st1\<lparr>ts_PendingStatus := status, ts_ConsecutiveStatus := 0\<rparr> else st1)
      in if ts_ConsecutiveStatus st2 < k
         then st2\<lparr>ts_ConsecutiveStatus := Suc (ts_ConsecutiveStatus st2)\<rparr> else st2)"

definition alert_due :: "nat \<Rightarrow> string \<Rightarrow> targetState \<Rightarrow> bool" where
  "alert_due k status st \<longleftrightarrow> k \<le> ts_ConsecutiveFailures st \<and> ts_AlertedStatus st \<noteq> status
     \<and> (ts_AlertedStatus st = [] \<or> k \<le> ts_ConsecutiveStatus st)"

definition Process :: "(duration \<Rightarrow> string) \<Rightarrow> CheckResult \<Rightarrow> AlertManager \<Rightarrow> AlertManager" where
  "Process dur_text r am =
     (let name = mt_Name (cr_Target r); k = am_failureThreshold am;
          state = state_of name am; status = HealthStatus r;
          store = (\<lambda>st. am\<lparr>am_states := al_put name st (am_states am)\<rparr>)
      in if status = ''healthy'' then
           (if ts_AlertedStatus state \<noteq> [] then send (recovery_alert dur_text r) (store zero_state)
            else store zero_state)
         else
           let counted = count_failure k status state in
           if alert_due k status counted then
             let alerted = store (counted\<lparr>ts_AlertedStatus := status\<rparr>) in
             if status = ''blocked'' then send (blocked_alert r) alerted
             else send (down_alert r (ts_ConsecutiveFailures counted)) alerted
           else store counted)"

definition process_all :: "(duration \<Rightarrow> string) \<Rightarrow> CheckResult list \<Rightarrow> AlertManager \<Rightarrow> AlertManager" where
  "process_all dur_text rs am = fold (Process dur_text) rs am"

subsection \<open>What the alerts mean\<close>

text \<open>
  The specification looks at the statuses of one target, newest first, and knows no counters. The
  diagnosis is the open incident: none as long as fewer than \<open>k\<close> checks failed in a row; once open,
  it changes only to a status seen \<open>k\<close> times in a row.
\<close>

definition bad_run :: "string list \<Rightarrow> nat" where
  "bad_run ss = length (takeWhile (\<lambda>s. s \<noteq> ''healthy'') ss)"

definition same_run :: "string \<Rightarrow> string list \<Rightarrow> nat" where
  "same_run s ss = length (takeWhile (\<lambda>x. x = s) ss)"

fun diagnosis :: "nat \<Rightarrow> string list \<Rightarrow> string" where
  "diagnosis k [] = []"
| "diagnosis k (s # ss) =
     (if s = ''healthy'' then []
      else if k \<le> bad_run (s # ss) \<and> (diagnosis k ss = [] \<or> k \<le> same_run s (s # ss)) then s
      else diagnosis k ss)"

definition level_of :: "string \<Rightarrow> string" where
  "level_of d = (if d = [] then ''info'' else if d = ''blocked'' then ''warning'' else ''critical'')"

text \<open>The levels of the changes of the diagnosis, oldest first.\<close>

fun diagnosis_changes :: "nat \<Rightarrow> string list \<Rightarrow> string list" where
  "diagnosis_changes k [] = []"
| "diagnosis_changes k (s # ss) = diagnosis_changes k ss
     @ (if diagnosis k (s # ss) = diagnosis k ss then [] else [level_of (diagnosis k (s # ss))])"

definition statuses :: "string \<Rightarrow> CheckResult list \<Rightarrow> string list" where
  "statuses name rs = rev (map HealthStatus (filter (\<lambda>r. mt_Name (cr_Target r) = name) rs))"

definition levels_sent :: "string \<Rightarrow> AlertManager \<Rightarrow> string list" where
  "levels_sent name am = map alert_Level (filter (\<lambda>a. alert_Target a = name) (am_sent am))"

lemma statuses_snoc:
  "statuses name (rs @ [r]) =
     (if mt_Name (cr_Target r) = name then HealthStatus r # statuses name rs else statuses name rs)"
  by (simp add: statuses_def)

lemma bad_run_simps [simp]:
  "bad_run [] = 0" "bad_run (s # ss) = (if s = ''healthy'' then 0 else Suc (bad_run ss))"
  by (simp_all add: bad_run_def)

lemma same_run_simps [simp]:
  "same_run t [] = 0" "same_run t (s # ss) = (if s = t then Suc (same_run t ss) else 0)"
  by (simp_all add: same_run_def)

lemma diagnosis_open_iff:
  assumes "0 < k" "[] \<notin> set ss" shows "diagnosis k ss = [] \<longleftrightarrow> bad_run ss < k"
  using assms(2)
proof (induction ss)
  case (Cons s ss)
  then show ?case using assms(1) by auto
qed (use assms in simp)

lemma HealthStatus_cases: "HealthStatus r \<in> {''healthy'', ''unhealthy'', ''blocked''}"
  by (simp add: HealthStatus_def)

lemma statuses_nonempty: "[] \<notin> set (statuses name rs)"
proof -
  have "HealthStatus r \<noteq> []" for r using HealthStatus_cases[of r] by auto
  then show ?thesis unfolding statuses_def by (auto dest: sym)
qed

text \<open>The counters hold what the history says.\<close>

definition counts_history :: "nat \<Rightarrow> string list \<Rightarrow> targetState \<Rightarrow> bool" where
  "counts_history k ss st \<longleftrightarrow>
     ts_ConsecutiveFailures st = min k (bad_run ss)
     \<and> ts_AlertedStatus st = diagnosis k ss
     \<and> (if bad_run ss = 0 then ts_PendingStatus st = [] \<and> ts_ConsecutiveStatus st = 0
        else ts_PendingStatus st = hd ss \<and> ts_ConsecutiveStatus st = min k (same_run (hd ss) ss))"

lemma counts_history_start: "counts_history k [] zero_state"
  by (simp add: counts_history_def zero_state_def)

lemma counts_history_healthy: "counts_history k (''healthy'' # ss) zero_state"
  by (simp add: counts_history_def zero_state_def)

lemma count_failure_history:
  assumes "counts_history k ss st" "status \<noteq> ''healthy''" "status \<noteq> []" "0 < k"
  shows "ts_ConsecutiveFailures (count_failure k status st) = min k (Suc (bad_run ss))"
    "ts_AlertedStatus (count_failure k status st) = diagnosis k ss"
    "ts_PendingStatus (count_failure k status st) = status"
    "ts_ConsecutiveStatus (count_failure k status st) = min k (same_run status (status # ss))"
proof -
  have other: "bad_run ss \<noteq> 0 \<Longrightarrow> hd ss \<noteq> status \<Longrightarrow> same_run status ss = 0"
    by (cases ss) auto
  have none: "bad_run ss = 0 \<Longrightarrow> same_run status ss = 0"
    using assms(2) by (cases ss) (auto split: if_splits)
  show "ts_ConsecutiveFailures (count_failure k status st) = min k (Suc (bad_run ss))"
    "ts_AlertedStatus (count_failure k status st) = diagnosis k ss"
    "ts_PendingStatus (count_failure k status st) = status"
    using assms by (auto simp: counts_history_def count_failure_def Let_def min_def split: if_splits)
  show "ts_ConsecutiveStatus (count_failure k status st) = min k (same_run status (status # ss))"
    using assms other none
    by (auto simp: counts_history_def count_failure_def Let_def min_def split: if_splits)
qed

lemma alert_due_diagnosis:
  assumes "counts_history k ss st" "status \<noteq> ''healthy''" "status \<noteq> []" "0 < k"
  shows "alert_due k status (count_failure k status st) \<longleftrightarrow> diagnosis k (status # ss) \<noteq> diagnosis k ss"
    and "alert_due k status (count_failure k status st) \<Longrightarrow> diagnosis k (status # ss) = status"
proof -
  note c = count_failure_history[OF assms]
  have le: "k \<le> min k n \<longleftrightarrow> k \<le> n" for n by auto
  show "alert_due k status (count_failure k status st) \<longleftrightarrow> diagnosis k (status # ss) \<noteq> diagnosis k ss"
    and "alert_due k status (count_failure k status st) \<Longrightarrow> diagnosis k (status # ss) = status"
    using assms(2,3) unfolding alert_due_def c le by auto
qed

lemma state_of_put [simp]: "am_states am' = al_put n st (am_states am) \<Longrightarrow>
    state_of name am' = (if name = n then st else state_of name am)"
  by (simp add: state_of_def map_of_put)

lemma send_simps [simp]:
  "am_states (send a am) = am_states am" "am_sent (send a am) = am_sent am @ [a]"
  "am_failureThreshold (send a am) = am_failureThreshold am"
  by (simp_all add: send_def)

lemma Process_threshold [simp]: "am_failureThreshold (Process dur_text r am) = am_failureThreshold am"
  by (simp add: Process_def Let_def)

lemma Process_other:
  assumes "mt_Name (cr_Target r) \<noteq> name"
  shows "state_of name (Process dur_text r am) = state_of name am"
    and "levels_sent name (Process dur_text r am) = levels_sent name am"
  using assms
  by (auto simp: Process_def Let_def state_of_def map_of_put levels_sent_def recovery_alert_def blocked_alert_def down_alert_def)

lemma Process_own:
  assumes h: "counts_history (am_failureThreshold am) ss (state_of (mt_Name (cr_Target r)) am)"
    and k: "0 < am_failureThreshold am"
  shows "counts_history (am_failureThreshold am) (HealthStatus r # ss) (state_of (mt_Name (cr_Target r)) (Process dur_text r am))"
    and "levels_sent (mt_Name (cr_Target r)) (Process dur_text r am) = levels_sent (mt_Name (cr_Target r)) am
      @ (if diagnosis (am_failureThreshold am) (HealthStatus r # ss) = diagnosis (am_failureThreshold am) ss then []
         else [level_of (diagnosis (am_failureThreshold am) (HealthStatus r # ss))])"
proof -
  let ?n = "mt_Name (cr_Target r)" and ?k = "am_failureThreshold am" and ?s = "HealthStatus r"
  let ?st = "state_of ?n am"
  have own: "counts_history ?k (?s # ss) (state_of ?n (Process dur_text r am))
    \<and> levels_sent ?n (Process dur_text r am) = levels_sent ?n am
      @ (if diagnosis ?k (?s # ss) = diagnosis ?k ss then [] else [level_of (diagnosis ?k (?s # ss))])"
  proof (cases "?s = ''healthy''")
    case True
    have "ts_AlertedStatus ?st = diagnosis ?k ss" using h by (simp add: counts_history_def)
    then show ?thesis
      using True counts_history_healthy[of ?k ss]
      by (auto simp: Process_def Let_def state_of_def map_of_put levels_sent_def recovery_alert_def level_of_def)
  next
    case False
    have ne: "?s \<noteq> []" using HealthStatus_cases[of r] by auto
    note c = count_failure_history[OF h False ne k] and due = alert_due_diagnosis[OF h False ne k]
    show ?thesis
    proof (cases "alert_due ?k ?s (count_failure ?k ?s ?st)")
      case True
      have "counts_history ?k (?s # ss) ((count_failure ?k ?s ?st)\<lparr>ts_AlertedStatus := ?s\<rparr>)"
        unfolding counts_history_def using c due(2)[OF True] False by simp
      moreover have "level_of ?s = (if ?s = ''blocked'' then ''warning'' else ''critical'')"
        using ne by (simp add: level_of_def)
      ultimately show ?thesis
        using True False due(1) due(2)[OF True]
        by (auto simp: Process_def Let_def state_of_def map_of_put levels_sent_def blocked_alert_def down_alert_def)
    next
      case same: False
      then have d: "diagnosis ?k (?s # ss) = diagnosis ?k ss" using due(1) by blast
      have "counts_history ?k (?s # ss) (count_failure ?k ?s ?st)"
        unfolding counts_history_def d using c False by simp
      then show ?thesis
        using same False d by (auto simp: Process_def Let_def state_of_def map_of_put levels_sent_def)
    qed
  qed
  from own show "counts_history ?k (?s # ss) (state_of ?n (Process dur_text r am))" ..
  from own show "levels_sent ?n (Process dur_text r am) = levels_sent ?n am
      @ (if diagnosis ?k (?s # ss) = diagnosis ?k ss then [] else [level_of (diagnosis ?k (?s # ss))])" ..
qed

lemma process_all_history:
  assumes "1 \<le> threshold"
  shows "am_failureThreshold (process_all dur_text rs (NewAlertManager threshold)) = nat threshold
    \<and> counts_history (nat threshold) (statuses name rs) (state_of name (process_all dur_text rs (NewAlertManager threshold)))
    \<and> levels_sent name (process_all dur_text rs (NewAlertManager threshold))
      = diagnosis_changes (nat threshold) (statuses name rs)"
proof (induction rs rule: rev_induct)
  case Nil
  show ?case
    using assms counts_history_start[of "nat threshold"]
    by (simp add: process_all_def NewAlertManager_def state_of_def levels_sent_def statuses_def)
next
  case (snoc r rs)
  let ?am = "process_all dur_text rs (NewAlertManager threshold)"
  have step: "process_all dur_text (rs @ [r]) (NewAlertManager threshold) = Process dur_text r ?am"
    by (simp add: process_all_def)
  show ?case
  proof (cases "mt_Name (cr_Target r) = name")
    case True
    then show ?thesis
      using snoc Process_own[of ?am "statuses name rs" r] assms unfolding step by (simp add: statuses_snoc)
  next
    case False
    then show ?thesis using snoc Process_other[OF False] unfolding step by (simp add: statuses_snoc)
  qed
qed

text \<open>The alerts of a target are the changes of its diagnosis: whatever checks of other targets come in
  between, an incident opens exactly when \<open>failureThreshold\<close> checks in a row failed, is reported once,
  changes its severity only after the same new status that many times in a row, and a healthy check
  closes it with one recovery message; without an open incident nothing is sent.\<close>
theorem alerts_are_diagnosis_changes:
  assumes "1 \<le> threshold"
  shows "levels_sent name (process_all dur_text rs (NewAlertManager threshold))
      = diagnosis_changes (nat threshold) (statuses name rs)
    \<and> ts_AlertedStatus (state_of name (process_all dur_text rs (NewAlertManager threshold)))
      = diagnosis (nat threshold) (statuses name rs)
    \<and> (diagnosis (nat threshold) (statuses name rs) = [] \<longleftrightarrow> bad_run (statuses name rs) < nat threshold)"
  using process_all_history[OF assms, of dur_text rs name]
    diagnosis_open_iff[OF _ statuses_nonempty, of "nat threshold" name rs] assms
  by (simp add: counts_history_def)

text \<open>What the alerts say outside does not depend on the private detail of a failed request: the
  text of a transport error and the URL of the target stay local.\<close>

definition public_part :: "CheckResult \<Rightarrow> CheckResult" where
  "public_part r = r\<lparr>cr_Error := (if cr_Error r = [] then [] else ''x''), cr_Target := (cr_Target r)\<lparr>mt_URL := []\<rparr>\<rparr>"

lemma Process_public: "Process dur_text (public_part r) am = Process dur_text r am"
proof -
  have "recovery_alert dur_text (public_part r) = recovery_alert dur_text r"
    "blocked_alert (public_part r) = blocked_alert r" "down_alert (public_part r) n = down_alert r n"
    "HealthStatus (public_part r) = HealthStatus r"
    "mt_Name (cr_Target (public_part r)) = mt_Name (cr_Target r)" for n
    by (simp_all add: recovery_alert_def blocked_alert_def down_alert_def HealthStatus_def public_part_def Let_def)
  then show ?thesis unfolding Process_def Let_def by simp
qed

lemma alerts_hide_errors:
  "map public_part rs = map public_part rs' \<Longrightarrow> process_all dur_text rs am = process_all dur_text rs' am"
proof (induction rs arbitrary: rs' am)
  case (Cons r rs)
  then obtain r' rs1 where rs': "rs' = r' # rs1" by (cases rs') auto
  with Cons.prems have "public_part r = public_part r'" "map public_part rs = map public_part rs1" by auto
  then have "Process dur_text r am = Process dur_text r' am" by (metis Process_public)
  then show ?case using Cons.IH[of rs1] Cons.prems by (simp add: process_all_def rs')
qed (simp add: process_all_def)

subsection \<open>What a check observes\<close>

lemma client_do_challenge:
  "ph_send h timeout via meth url = Inr resp \<Longrightarrow> isCloudflareChallenge resp \<Longrightarrow> client_do h timeout meth via url = Inr resp"
  by (simp add: client_do.simps checkRedirect_def split: option.splits)

text \<open>A challenged check is never healthy, whatever status it returned.\<close>

lemma CheckOnce_healthy:
  assumes "HealthStatus (CheckOnce h now tgt) = ''healthy''"
  shows "\<exists>resp. client_do h (if mt_Timeout tgt = 0 then 10 * second else mt_Timeout tgt)
      (if mt_Method tgt = [] then ''GET'' else mt_Method tgt) 0 (mt_URL tgt) = Inr resp
    \<and> \<not> isCloudflareChallenge resp \<and> pr_status resp = (if mt_ExpectedStatus tgt = 0 then 200 else mt_ExpectedStatus tgt)"
  using assms unfolding CheckOnce_def Let_def HealthStatus_def
  by (simp split: option.splits sum.splits if_splits)

subsection \<open>Examples\<close>

definition sample_check :: "string \<Rightarrow> bool \<Rightarrow> CheckResult" where
  "sample_check name healthy = \<lparr>cr_Target = \<lparr>mt_Name = name, mt_URL = [], mt_Method = [], mt_ExpectedStatus = 0,
     mt_Timeout = 0, mt_Interval = 0\<rparr>, cr_StatusCode = 502, cr_ResponseTime = 3, cr_Healthy = healthy,
     cr_FailureKind = [], cr_Error = [], cr_CheckedAt = 9\<rparr>"

lemma alerts_are_diagnosis_changes_witness:
  "levels_sent ''web'' (process_all (\<lambda>_. []) [sample_check ''web'' False, sample_check ''db'' True,
     sample_check ''web'' False, sample_check ''web'' False, sample_check ''web'' True] (NewAlertManager 2))
   = [''critical'', ''info'']"
proof -
  have "diagnosis_changes (nat 2) (statuses ''web'' [sample_check ''web'' False, sample_check ''db'' True,
     sample_check ''web'' False, sample_check ''web'' False, sample_check ''web'' True]) = [''critical'', ''info'']"
    by code_simp
  then show ?thesis using alerts_are_diagnosis_changes[of 2] by simp
qed

end
