(* ===== verification/Monitor_State.thy ===== *)
theory Monitor_State
  imports Monitor_Alerts Host_Files "HOL-Library.Multiset"
begin

text \<open>
  \<open>internal/monitor/state.go\<close>, \<open>targets.go\<close> and \<open>summary.go\<close>: the state kept on disk between runs, the
  operator's list of targets, and the summary other components show. JSON is a codec; a file is
  regular or not (\<open>regular\<close>), and every system call may fail.
\<close>

subsection \<open>The state on disk\<close>

record MonitorState =
  ms_Targets :: "Target list"
  ms_Results :: "(string \<times> CheckResult) list"
  ms_UpdatedAt :: time

definition result_map :: "CheckResult list \<Rightarrow> (string \<times> CheckResult) list" where
  "result_map rs = fold (\<lambda>r m. al_put (mt_Name (cr_Target r)) r m) rs []"

definition monitor_state :: "Target list \<Rightarrow> CheckResult list \<Rightarrow> time \<Rightarrow> MonitorState" where
  "monitor_state targets results now = \<lparr>ms_Targets = targets, ms_Results = result_map results, ms_UpdatedAt = now\<rparr>"

definition SaveState ::
  "(MonitorState \<Rightarrow> string option) \<Rightarrow> nat \<Rightarrow> string \<Rightarrow> schedule \<Rightarrow> string \<Rightarrow> files \<Rightarrow> MonitorState \<Rightarrow> bool \<times> files" where
  "SaveState enc short path up tmp fs state =
     (case enc state of
        None \<Rightarrow> (False, fs)
      | Some data \<Rightarrow>
          if \<not> up 0 then (False, fs)
          else replace_file up 1 [StepWrite short, StepClose] tmp path data fs)"

definition maxStateBytes :: nat where "maxStateBytes = 2 * 1024 * 1024"

definition LoadState ::
  "(string \<Rightarrow> MonitorState option) \<Rightarrow> (string \<Rightarrow> bool) \<Rightarrow> schedule \<Rightarrow> string \<Rightarrow> files \<Rightarrow> MonitorState option" where
  "LoadState dec regular up path fs =
     (case fs path of
        None \<Rightarrow> None
      | Some content \<Rightarrow>
          if \<not> up 0 then None
          else if \<not> up 1 \<or> \<not> regular path then None
          else
            let data = take (Suc maxStateBytes) content
            in if \<not> up 2 \<or> maxStateBytes < length data then None else dec data)"

definition SaveStateToDisk ::
  "(MonitorState \<Rightarrow> string option) \<Rightarrow> nat \<Rightarrow> string \<Rightarrow> schedule \<Rightarrow> string \<Rightarrow> files \<Rightarrow> MonitorState \<Rightarrow> bool \<times> files" where
  "SaveStateToDisk enc short path up tmp fs state =
     (if path = [] then (True, fs) else SaveState enc short path up tmp fs state)"

lemma SaveState_laws:
  assumes "SaveState enc short path up tmp fs st = (r, fs')"
  shows "tmp \<noteq> path \<Longrightarrow> r \<Longrightarrow> enc st \<noteq> None \<and> fs' path = enc st"
    and "tmp \<noteq> path \<Longrightarrow> \<not> r \<Longrightarrow> fs' path = fs path"
    and "p \<noteq> tmp \<Longrightarrow> p \<noteq> path \<Longrightarrow> fs' p = fs p"
    and "tmp \<noteq> path \<Longrightarrow> fs tmp = None \<Longrightarrow> up 9 \<Longrightarrow> fs' tmp = None"
proof -
  have step: "StepWrite short \<in> set [StepWrite short, StepClose]" by simp
  show "tmp \<noteq> path \<Longrightarrow> r \<Longrightarrow> enc st \<noteq> None \<and> fs' path = enc st"
    using assms replace_file_written[OF _ step] unfolding SaveState_def by (auto split: option.splits if_splits)
  show "tmp \<noteq> path \<Longrightarrow> \<not> r \<Longrightarrow> fs' path = fs path"
    using assms replace_file_kept unfolding SaveState_def by (auto split: option.splits if_splits)
  show "p \<noteq> tmp \<Longrightarrow> p \<noteq> path \<Longrightarrow> fs' p = fs p"
    using assms replace_file_frame unfolding SaveState_def by (auto split: option.splits if_splits)
  show "tmp \<noteq> path \<Longrightarrow> fs tmp = None \<Longrightarrow> up 9 \<Longrightarrow> fs' tmp = None"
    using assms replace_file_no_temporary unfolding SaveState_def by (auto split: option.splits if_splits)
qed

interpretation monitor_file: atomic_writer "SaveState enc short path" path "\<lambda>st. the (enc st)" for enc short path
  by unfold_locales (use SaveState_laws[of enc short path] in \<open>fastforce+\<close>)

text \<open>A saved state is loaded again; a failed save leaves what was there.\<close>

lemma monitor_state_kept:
  assumes "tmp \<noteq> path" "SaveState enc short path up tmp fs st = (r, fs')"
  shows "\<not> r \<Longrightarrow> LoadState dec regular up' path fs' = LoadState dec regular up' path fs"
    and "r \<Longrightarrow> \<forall>n. up' n \<Longrightarrow> regular path \<Longrightarrow> length (the (enc st)) \<le> maxStateBytes \<Longrightarrow> dec (the (enc st)) = Some st
      \<Longrightarrow> LoadState dec regular up' path fs' = Some st"
  using SaveState_laws(1,2)[OF assms(2) assms(1)] by (auto simp: LoadState_def Let_def split: option.splits)

lemma result_map_snoc: "result_map (rs @ [r]) = al_put (mt_Name (cr_Target r)) r (result_map rs)"
  by (simp add: result_map_def)

text \<open>The state holds the newest result of every target.\<close>

lemma result_map_newest:
  "map_of (result_map rs) name = List.find (\<lambda>r. mt_Name (cr_Target r) = name) (rev rs)"
  by (induction rs rule: rev_induct) (auto simp: result_map_snoc map_of_put, simp add: result_map_def)

subsection \<open>The summary\<close>

record CheckSummary =
  su_Name :: string
  su_Status :: string
  su_Detail :: string
  su_StatusCode :: int
  su_ResponseTimeMS :: int
  su_CheckedAt :: "time option"

text \<open>The zero value of \<open>time.Time\<close>, January 1 of year 1, and the truncation of \<open>Milliseconds\<close>.\<close>

definition zero_time :: time where "zero_time = - 62135596800 * second"

definition to_milliseconds :: "duration \<Rightarrow> int" where
  "to_milliseconds d = sgn d * (\<bar>d\<bar> div millisecond)"

definition effective_interval :: "Target \<Rightarrow> duration" where
  "effective_interval t = (if mt_Interval t \<le> 0 then 30 * second else mt_Interval t)"

definition effective_timeout :: "Target \<Rightarrow> duration" where
  "effective_timeout t = (if mt_Timeout t \<le> 0 then 10 * second else mt_Timeout t)"

definition stale_after :: "Target \<Rightarrow> duration" where
  "stale_after t = (let s = 3 * effective_interval t + effective_timeout t in if s < minute then minute else s)"

definition status_detail :: "CheckResult \<Rightarrow> string \<times> string" where
  "status_detail r =
     (let status = HealthStatus r in
      (status,
       if status = ''blocked'' then ''Cloudflare browser challenge; application health is unknown.''
       else if status = ''healthy'' then ''Expected HTTP response received.''
       else if cr_Error r \<noteq> [] \<or> cr_StatusCode r = 0
       then ''Request failed. Inspect the private monitor state for details.''
       else ''Unexpected HTTP response.''))"

definition summarize_target :: "(string \<times> CheckResult) list \<Rightarrow> time \<Rightarrow> Target \<Rightarrow> CheckSummary option" where
  "summarize_target results now t =
     (let item = \<lparr>su_Name = mt_Name t, su_Status = ''unknown'', su_Detail = ''No completed check yet.'',
                  su_StatusCode = 0, su_ResponseTimeMS = 0, su_CheckedAt = None\<rparr>
      in case map_of results (mt_Name t) of
           None \<Rightarrow> Some item
         | Some r \<Rightarrow>
             if cr_CheckedAt r = zero_time then Some item
             else
               let seen = item\<lparr>su_CheckedAt := Some (cr_CheckedAt r), su_StatusCode := cr_StatusCode r,
                               su_ResponseTimeMS := to_milliseconds (cr_ResponseTime r)\<rparr>
               in if 24 * hour < effective_interval t \<or> hour < effective_timeout t then None
                  else if now + minute < cr_CheckedAt r
                  then Some (seen\<lparr>su_Detail := ''Check timestamp is in the future; verify the monitor clock.''\<rparr>)
                  else if stale_after t < now - cr_CheckedAt r
                  then Some (seen\<lparr>su_Status := ''stale'', su_Detail := ''No recent check. Current application health is unknown.''\<rparr>)
                  else (case status_detail r of (status, detail) \<Rightarrow>
                          Some (seen\<lparr>su_Status := status, su_Detail := detail\<rparr>)))"

fun summarize_targets ::
  "(string \<times> CheckResult) list \<Rightarrow> time \<Rightarrow> string list \<Rightarrow> Target list \<Rightarrow> CheckSummary list option" where
  "summarize_targets results now seen [] = Some []"
| "summarize_targets results now seen (t # ts) =
     (if mt_Name t = [] \<or> 100 < length (mt_Name t) \<or> mt_Name t \<in> set seen then None
      else case summarize_target results now t of
        None \<Rightarrow> None
      | Some s \<Rightarrow> map_option ((#) s) (summarize_targets results now (mt_Name t # seen) ts))"

definition Summarize :: "MonitorState \<Rightarrow> time \<Rightarrow> CheckSummary list option" where
  "Summarize state now =
     (if 100 < length (ms_Targets state) then None
      else map_option (sort_key su_Name) (summarize_targets (ms_Results state) now [] (ms_Targets state)))"

lemma summarize_target_healthy:
  assumes "summarize_target results now t = Some s" "su_Status s = ''healthy''"
  shows "\<exists>r. map_of results (mt_Name t) = Some r \<and> HealthStatus r = ''healthy'' \<and> cr_CheckedAt r \<le> now + minute
    \<and> now - cr_CheckedAt r \<le> stale_after t"
  using assms unfolding summarize_target_def Let_def status_detail_def
  by (simp split: option.splits if_splits) (auto split: if_splits)

lemma summarize_target_name: "summarize_target results now t = Some s \<Longrightarrow> su_Name s = mt_Name t"
  unfolding summarize_target_def Let_def by (auto split: option.splits if_splits prod.splits)

lemma summarize_targets_ok:
  assumes "summarize_targets results now seen ts = Some ss"
  shows "list_all2 (\<lambda>t s. summarize_target results now t = Some s) ts ss \<and> distinct (map mt_Name ts)
    \<and> set (map mt_Name ts) \<inter> set seen = {}"
  using assms
  by (induction results now seen ts arbitrary: ss rule: summarize_targets.induct)
    (fastforce split: if_splits option.splits)+

text \<open>A summary lists every target once, by name, and calls one healthy only on a fresh, healthy,
  unchallenged check; everything else is unhealthy, blocked, stale or unknown.\<close>

lemma Summarize_sound:
  assumes "Summarize state now = Some ss"
  shows "sorted (map su_Name ss)" "distinct (map su_Name ss)"
    "set (map su_Name ss) = set (map mt_Name (ms_Targets state))" "length ss \<le> 100"
    and "\<And>s. s \<in> set ss \<Longrightarrow> su_Status s = ''healthy'' \<Longrightarrow>
      \<exists>t r. t \<in> set (ms_Targets state) \<and> map_of (ms_Results state) (mt_Name t) = Some r \<and> HealthStatus r = ''healthy''
        \<and> cr_CheckedAt r \<le> now + minute \<and> now - cr_CheckedAt r \<le> stale_after t"
proof -
  obtain us where us: "summarize_targets (ms_Results state) now [] (ms_Targets state) = Some us"
    and ss: "ss = sort_key su_Name us" and few: "length (ms_Targets state) \<le> 100"
    using assms unfolding Summarize_def by (auto split: if_splits)
  note ok = summarize_targets_ok[OF us]
  have len: "length (ms_Targets state) = length us" using ok list_all2_lengthD by blast
  have names: "map su_Name us = map mt_Name (ms_Targets state)"
    using ok len summarize_target_name by (auto simp: list_all2_conv_all_nth intro!: nth_equalityI)
  show "sorted (map su_Name ss)" unfolding ss by simp
  have same: "mset (map su_Name ss) = mset (map su_Name us)" unfolding ss by (simp only: mset_map mset_sort)
  show "distinct (map su_Name ss)" using mset_eq_imp_distinct_iff[OF same] names ok by simp
  show "set (map su_Name ss) = set (map mt_Name (ms_Targets state))" using mset_eq_setD[OF same] names by simp
  show "length ss \<le> 100" using few len unfolding ss by simp
  fix s assume "s \<in> set ss" and h: "su_Status s = ''healthy''"
  then have "s \<in> set us" unfolding ss by simp
  then obtain i where i: "i < length us" "us ! i = s" by (auto simp: in_set_conv_nth)
  then have "ms_Targets state ! i \<in> set (ms_Targets state)"
    "summarize_target (ms_Results state) now (ms_Targets state ! i) = Some s"
    using ok len by (auto simp: list_all2_conv_all_nth)
  with summarize_target_healthy[OF this(2) h]
  show "\<exists>t r. t \<in> set (ms_Targets state) \<and> map_of (ms_Results state) (mt_Name t) = Some r \<and> HealthStatus r = ''healthy''
        \<and> cr_CheckedAt r \<le> now + minute \<and> now - cr_CheckedAt r \<le> stale_after t" by blast
qed

subsection \<open>The operator's targets\<close>

record target_entry =
  te_Name :: string
  te_URL :: string
  te_ExpectedStatus :: int

record targets_codec =
  td_first :: "string \<Rightarrow> target_entry list option"
  td_rest_empty :: "string \<Rightarrow> bool"
  td_url :: "string \<Rightarrow> url option"

definition target_url_ok :: "targets_codec \<Rightarrow> string \<Rightarrow> bool" where
  "target_url_ok d u =
     (case td_url d u of
        None \<Rightarrow> False
      | Some p \<Rightarrow> url_Host p \<noteq> [] \<and> (url_Scheme p = ''https'' \<or> url_Scheme p = ''http'') \<and> \<not> url_HasUser p
          \<and> url_Fragment p = [] \<and> url_RawQuery p = [])"

definition target_name_ok :: "string list \<Rightarrow> string \<Rightarrow> bool" where
  "target_name_ok seen name \<longleftrightarrow> trim_space name \<noteq> [] \<and> length name \<le> 100
     \<and> \<not> contains_any name [CHR 0x0D, CHR 0x0A] \<and> name \<notin> set seen"

fun load_entries :: "targets_codec \<Rightarrow> duration \<Rightarrow> duration \<Rightarrow> string list \<Rightarrow> target_entry list \<Rightarrow> Target list option" where
  "load_entries d interval timeout seen [] = Some []"
| "load_entries d interval timeout seen (e # es) =
     (if \<not> target_url_ok d (te_URL e) then None
      else if \<not> target_name_ok seen (te_Name e) then None
      else
        let status = (if te_ExpectedStatus e = 0 then 200 else te_ExpectedStatus e)
        in if status < 100 \<or> 599 < status then None
           else map_option ((#) \<lparr>mt_Name = te_Name e, mt_URL = te_URL e, mt_Method = ''GET'', mt_ExpectedStatus = status,
                                 mt_Timeout = timeout, mt_Interval = interval\<rparr>)
                  (load_entries d interval timeout (te_Name e # seen) es))"

definition LoadTargets ::
  "targets_codec \<Rightarrow> duration \<Rightarrow> duration \<Rightarrow> schedule \<Rightarrow> string \<Rightarrow> files \<Rightarrow> Target list option" where
  "LoadTargets d interval timeout up path fs =
     (case fs path of
        None \<Rightarrow> None
      | Some content \<Rightarrow>
          if \<not> up 0 then None
          else
            let data = take 65537 content
            in case td_first d data of
                 None \<Rightarrow> None
               | Some entries \<Rightarrow>
                   if \<not> td_rest_empty d data then None
                   else if entries = [] \<or> 100 < length entries then None
                   else load_entries d interval timeout [] entries)"

lemma load_entries_ok:
  assumes "load_entries d interval timeout seen es = Some ts"
  shows "length ts = length es \<and> distinct (map mt_Name ts) \<and> set (map mt_Name ts) \<inter> set seen = {}
    \<and> list_all (\<lambda>t. target_url_ok d (mt_URL t) \<and> mt_Name t \<noteq> [] \<and> length (mt_Name t) \<le> 100
        \<and> mt_Interval t = interval \<and> mt_Timeout t = timeout) ts"
  using assms
proof (induction d interval timeout seen es arbitrary: ts rule: load_entries.induct)
  case (2 d interval timeout seen e es)
  have ne: "target_name_ok seen [] = False" by (simp add: target_name_ok_def trim_space_def)
  from 2 show ?case
    by (auto simp: Let_def target_name_ok_def split: if_splits) (use ne in \<open>auto simp: target_name_ok_def\<close>)
qed simp

text \<open>What the operator's list is accepted as: 1 to 100 targets with distinct names that a summary can
  show, without credentials in their URLs.\<close>

lemma LoadTargets_ok:
  assumes "LoadTargets d interval timeout up path fs = Some ts"
  shows "ts \<noteq> []" "length ts \<le> 100" "distinct (map mt_Name ts)"
    "list_all (\<lambda>t. target_url_ok d (mt_URL t) \<and> mt_Name t \<noteq> [] \<and> length (mt_Name t) \<le> 100) ts"
proof -
  obtain es where es: "load_entries d interval timeout [] es = Some ts" "es \<noteq> []" "length es \<le> 100"
    using assms unfolding LoadTargets_def Let_def by (auto split: option.splits if_splits)
  from load_entries_ok[OF es(1)] es(2,3)
  show "ts \<noteq> []" "length ts \<le> 100" "distinct (map mt_Name ts)"
    "list_all (\<lambda>t. target_url_ok d (mt_URL t) \<and> mt_Name t \<noteq> [] \<and> length (mt_Name t) \<le> 100) ts"
    by (auto simp: list_all_iff)
qed

text \<open>The accepted targets can always be summarized: their state is never refused for its names or
  its number.\<close>

lemma summarize_loaded:
  assumes "distinct (map mt_Name ts)" "set (map mt_Name ts) \<inter> set seen = {}"
    "list_all (\<lambda>t. mt_Name t \<noteq> [] \<and> length (mt_Name t) \<le> 100
       \<and> effective_interval t \<le> 24 * hour \<and> effective_timeout t \<le> hour) ts"
  shows "\<exists>ss. summarize_targets results now seen ts = Some ss"
  using assms
proof (induction ts arbitrary: seen)
  case (Cons t ts)
  have "\<exists>s. summarize_target results now t = Some s"
    using Cons.prems(3) unfolding summarize_target_def Let_def
    by (auto split: option.splits prod.splits)
  moreover have "\<exists>ss. summarize_targets results now (mt_Name t # seen) ts = Some ss"
    by (rule Cons.IH) (use Cons.prems in auto)
  ultimately show ?case using Cons.prems by auto
qed simp

text \<open>The monitor's files are consistent: with targets the operator's list was accepted as, and a bounded
  interval and timeout, whatever results came in, a saved state is loaded back exactly and its
  summary exists, lists every target once, and calls a target healthy only if its newest result is
  healthy, unchallenged and fresh.\<close>
theorem monitor_state_roundtrip:
  assumes "LoadTargets d interval timeout upl tpath fst0 = Some ts"
    and "0 < interval" "interval \<le> 24 * hour" "0 < timeout" "timeout \<le> hour"
    and "tmp \<noteq> path" "SaveState enc short path up tmp fs (monitor_state ts rs saved) = (True, fs')"
    and "\<forall>n. up' n" "regular path" "\<forall>st data. enc st = Some data \<longrightarrow> dec data = Some st"
    and "length (the (enc (monitor_state ts rs saved))) \<le> maxStateBytes"
  shows "\<exists>ss. LoadState dec regular up' path fs' = Some (monitor_state ts rs saved)
    \<and> Summarize (monitor_state ts rs saved) now = Some ss
    \<and> distinct (map su_Name ss) \<and> set (map su_Name ss) = set (map mt_Name ts)
    \<and> (\<forall>s \<in> set ss. su_Status s = ''healthy'' \<longrightarrow> (\<exists>t \<in> set ts. \<exists>r.
        List.find (\<lambda>r. mt_Name (cr_Target r) = mt_Name t) (rev rs) = Some r \<and> HealthStatus r = ''healthy''
        \<and> cr_CheckedAt r \<le> now + minute \<and> now - cr_CheckedAt r \<le> stale_after t))"
proof -
  obtain es where "load_entries d interval timeout [] es = Some ts"
    using assms(1) unfolding LoadTargets_def Let_def by (auto split: option.splits if_splits)
  from load_entries_ok[OF this]
  have timing: "list_all (\<lambda>t. mt_Name t \<noteq> [] \<and> length (mt_Name t) \<le> 100
       \<and> effective_interval t \<le> 24 * hour \<and> effective_timeout t \<le> hour) ts"
    using assms(2-5) by (auto simp: list_all_iff effective_interval_def effective_timeout_def)
  note list = LoadTargets_ok[OF assms(1)]
  obtain us where "summarize_targets (result_map rs) now [] ts = Some us"
    using summarize_loaded[OF list(3) _ timing, of "[]"] by auto
  then have sum: "Summarize (monitor_state ts rs saved) now = Some (sort_key su_Name us)"
    using list(2) by (simp add: Summarize_def monitor_state_def)
  have codec: "dec (the (enc (monitor_state ts rs saved))) = Some (monitor_state ts rs saved)"
    using SaveState_laws(1)[OF assms(7,6)] assms(10) by auto
  have load: "LoadState dec regular up' path fs' = Some (monitor_state ts rs saved)"
    by (rule monitor_state_kept(2)[OF assms(6,7)]) (use assms(8,9,11) codec in simp_all)
  note sound = Summarize_sound[OF sum]
  have "\<exists>t \<in> set ts. \<exists>r. List.find (\<lambda>r. mt_Name (cr_Target r) = mt_Name t) (rev rs) = Some r
      \<and> HealthStatus r = ''healthy'' \<and> cr_CheckedAt r \<le> now + minute \<and> now - cr_CheckedAt r \<le> stale_after t"
    if "s \<in> set (sort_key su_Name us)" "su_Status s = ''healthy''" for s
    using sound(5)[OF that] by (simp add: monitor_state_def result_map_newest) blast
  moreover have "set (map su_Name (sort_key su_Name us)) = set (map mt_Name ts)"
    using sound(3) by (simp add: monitor_state_def)
  ultimately show ?thesis using load sum sound(2) by blast
qed

subsection \<open>Examples\<close>

definition sample_targets_codec :: targets_codec where
  "sample_targets_codec = \<lparr>td_first = (\<lambda>_. Some [\<lparr>te_Name = ''web'', te_URL = ''u'', te_ExpectedStatus = 0\<rparr>]),
     td_rest_empty = (\<lambda>_. True),
     td_url = (\<lambda>_. Some \<lparr>url_Scheme = ''https'', url_Host = ''h'', url_HasUser = False, url_Path = [],
       url_RawQuery = [], url_Fragment = []\<rparr>)\<rparr>"

definition sample_loaded :: "Target list" where
  "sample_loaded = [\<lparr>mt_Name = ''web'', mt_URL = ''u'', mt_Method = ''GET'', mt_ExpectedStatus = 200,
     mt_Timeout = second, mt_Interval = minute\<rparr>]"

definition state_enc :: "MonitorState \<Rightarrow> string option" where
  "state_enc st = (if st = monitor_state sample_loaded [] 5 then Some ''s'' else None)"

definition state_dec :: "string \<Rightarrow> MonitorState option" where
  "state_dec s = (if s = ''s'' then Some (monitor_state sample_loaded [] 5) else None)"

lemma monitor_state_roundtrip_witness:
  "\<exists>fs' ss. SaveState state_enc 0 ''m.json'' (\<lambda>_. True) ''t'' Map.empty (monitor_state sample_loaded [] 5) = (True, fs')
    \<and> LoadState state_dec (\<lambda>_. True) (\<lambda>_. True) ''m.json'' fs' = Some (monitor_state sample_loaded [] 5)
    \<and> Summarize (monitor_state sample_loaded [] 5) 9 = Some ss"
proof -
  have list: "LoadTargets sample_targets_codec minute second (\<lambda>_. True) ''t.json'' (\<lambda>_. Some []) = Some sample_loaded"
    by (simp add: LoadTargets_def sample_targets_codec_def sample_loaded_def target_url_ok_def target_name_ok_def
        contains_any_def trim_space_def is_space_def)
  obtain fs' where save: "SaveState state_enc 0 ''m.json'' (\<lambda>_. True) ''t'' Map.empty (monitor_state sample_loaded [] 5) = (True, fs')"
    by (simp add: SaveState_def state_enc_def replace_file_def fill_temporary_def rename_over_def)
  have laws: "\<forall>st data. state_enc st = Some data \<longrightarrow> state_dec data = Some st"
    by (simp add: state_enc_def state_dec_def)
  have small: "length (the (state_enc (monitor_state sample_loaded [] 5))) \<le> maxStateBytes"
    by (simp add: state_enc_def maxStateBytes_def)
  from monitor_state_roundtrip[OF list _ _ _ _ _ save _ _ laws small, of "\<lambda>_. True" "\<lambda>_. True" 9] save
  show ?thesis by auto
qed

end
