(* ===== verification/Source_Files.thy ===== *)
theory Source_Files
  imports Backup_Restore
begin

text \<open>
  \<open>internal/sourcedeploy/files.go\<close> and the file helpers of \<open>engine.go\<close> and \<open>runtime.go\<close>: which names a
  source may have, which are private to the server, the receiver of the archive, and the copy of one
  file into the project. The staging directory and the project are trees as in \<open>Backup_Files\<close>. The
  tar stream is the list of its headers with the bytes that are really there; YAML decoding is a
  parameter. The upload side (\<open>Archive\<close>) runs on the client and is not modelled.
\<close>

datatype source_error =
    BadName | BadTimeout | BadBase | Locked | RegistryFailed | TargetExists | NameTooLong | UserFailed
  | PathMismatch | NotADirectory | FileFailed | BadArchive | ArchiveTooLarge | ScanNotClean | BadComposeFile
  | OverrideFile | BadIdentity | Unprotected | ComposeRenamed | BadModel | HostAccess | NoBuildx
  | BuildContextEscapes | WriterStillRunning | CommandFailed | BackupFailed | BadVerification
  | SourceLink | NotReady | EdgeFailed

subsection \<open>Names\<close>

definition safeName :: "string \<Rightarrow> bool" where
  "safeName name \<longleftrightarrow> is_local name \<and> name \<noteq> ''.''
     \<and> \<not> contains_any name [CHR 0x5C, CHR '':'', CHR 0x00, CHR 0x0D, CHR 0x0A] \<and> path_clean name = name"

definition skipped :: "string list" where
  "skipped = [''.git'', ''.svn'', ''.ssh'', ''.aws'', ''.kube'', ''.fleetdeck'', ''node_modules'', ''.next'', ''.nuxt'',
     ''.venv'', ''venv'', ''__pycache__'', ''target'', ''.cache'', ''coverage'', ''.turbo'', ''.DS_Store'']"

definition sensitive_part :: "string \<Rightarrow> bool" where
  "sensitive_part part =
     (let lower = to_lower part in
      part \<in> set skipped \<or> has_prefix lower ''.fleetdeck'' \<or> lower = ''.env'' \<or> has_prefix lower ''.env.''
      \<or> list_ex (has_suffix lower) [''.pem'', ''.key'', ''.p12'', ''.pfx'', ''.jks''])"

definition sensitive :: "string \<Rightarrow> bool" where
  "sensitive name = list_ex sensitive_part (split_on CHR ''/'' name)"

definition protected :: "string \<Rightarrow> string list \<Rightarrow> bool" where
  "protected name paths \<longleftrightarrow> sensitive name \<or> list_ex (\<lambda>p. name = p \<or> has_prefix name (p @ ''/'')) paths"

subsection \<open>Private paths of a Compose file\<close>

datatype volume_node =
    VolumeScalar string
  | VolumeMapping "(string \<times> string \<times> bool) option"
  | VolumeOther

datatype volume_nodes = VolumesAbsent | VolumesList "volume_node list" | VolumesInvalid

record source_service =
  sv_Env :: yaml_node
  sv_Volumes :: volume_nodes
  sv_Extends :: bool

record source_compose =
  so_Include :: bool
  so_Services :: "(string \<times> source_service) list"
  so_Secrets :: "string list"
  so_Configs :: "string list"

definition composeNames :: "string list" where
  "composeNames = [''compose.yaml'', ''compose.yml'', ''docker-compose.yml'', ''docker-compose.yaml'']"

definition add_path :: "string \<Rightarrow> string list \<Rightarrow> source_error + string list" where
  "add_path v paths =
     (let clean = path_clean v in
      if contains_str v ''$'' \<or> \<not> safeName clean then Inl BadComposeFile
      else Inr (if clean \<in> set paths then paths else clean # paths))"

fun envPaths :: "yaml_node \<Rightarrow> string list \<Rightarrow> source_error + string list" where
  "envPaths YamlAbsent paths = Inr paths"
| "envPaths (YamlScalar tag v) paths = (if tag \<noteq> ''!!str'' then Inl BadComposeFile else add_path v paths)"
| "envPaths (YamlSequence []) paths = Inr paths"
| "envPaths (YamlSequence (n # ns)) paths =
     (case envPaths n paths of
        Inl e \<Rightarrow> Inl e
      | Inr paths' \<Rightarrow> envPaths (YamlSequence ns) paths')"
| "envPaths (YamlMapping None) paths = Inl BadComposeFile"
| "envPaths (YamlMapping (Some (p, required))) paths = (if p = [] then Inl BadComposeFile else add_path p paths)"
| "envPaths YamlOther paths = Inl BadComposeFile"

definition scalar_volume :: "string \<Rightarrow> string list \<Rightarrow> source_error + string list" where
  "scalar_volume v paths =
     (let parts = split_on CHR '':'' v; source = hd parts in
      if length parts = 1 \<or> 3 < length parts then Inl BadComposeFile
      else if contains_str source ''$'' \<or> has_prefix source ''/'' then Inl BadComposeFile
      else if has_prefix source ''.'' \<or> contains_str source ''/'' then
        (if length parts = 3 \<and> ''ro'' \<in> set (split_on CHR '','' (parts ! 2)) then Inr paths
         else add_path source paths)
      else Inr paths)"

fun volume_path :: "volume_node \<Rightarrow> string list \<Rightarrow> source_error + string list" where
  "volume_path (VolumeScalar v) paths = scalar_volume v paths"
| "volume_path (VolumeMapping None) paths = Inl BadComposeFile"
| "volume_path (VolumeMapping (Some (ty, source, readOnly))) paths =
     (if ty = ''bind'' then
        (if is_abs source \<or> contains_str source ''$'' then Inl BadComposeFile
         else if readOnly then Inr paths else add_path source paths)
      else if ty = ''volume'' \<and> source = [] then Inl BadComposeFile
      else Inr paths)"
| "volume_path VolumeOther paths = Inl BadComposeFile"

fun fold_paths :: "('a \<Rightarrow> string list \<Rightarrow> source_error + string list) \<Rightarrow> 'a list \<Rightarrow> string list
    \<Rightarrow> source_error + string list" where
  "fold_paths f [] paths = Inr paths"
| "fold_paths f (x # xs) paths =
     (case f x paths of Inl e \<Rightarrow> Inl e | Inr paths' \<Rightarrow> fold_paths f xs paths')"

definition service_paths :: "string \<times> source_service \<Rightarrow> string list \<Rightarrow> source_error + string list" where
  "service_paths svc paths =
     (case svc of (_, s) \<Rightarrow>
        if sv_Extends s then Inl BadComposeFile
        else case envPaths (sv_Env s) paths of
          Inl e \<Rightarrow> Inl e
        | Inr paths' \<Rightarrow>
            (case sv_Volumes s of
               VolumesAbsent \<Rightarrow> Inr paths'
             | VolumesInvalid \<Rightarrow> Inl BadComposeFile
             | VolumesList vs \<Rightarrow> fold_paths volume_path vs paths'))"

definition file_path :: "string \<Rightarrow> string list \<Rightarrow> source_error + string list" where
  "file_path f paths = (if f = [] then Inr paths else add_path f paths)"

definition compose_paths :: "source_compose \<Rightarrow> source_error + string list" where
  "compose_paths c =
     (if so_Services c = [] \<or> so_Include c then Inl BadComposeFile
      else case fold_paths service_paths (so_Services c) [] of
        Inl e \<Rightarrow> Inl e
      | Inr p1 \<Rightarrow>
          (case fold_paths file_path (so_Secrets c) p1 of
             Inl e \<Rightarrow> Inl e
           | Inr p2 \<Rightarrow> map_sum (\<lambda>e. e) sort (fold_paths file_path (so_Configs c) p2)))"

text \<open>\<open>os.Stat\<close> of a name; the one Compose file of a directory.\<close>

definition stat_exists :: "fs_io \<Rightarrow> tree \<Rightarrow> string \<Rightarrow> source_error + bool" where
  "stat_exists io t name = (if io_bad io OpStat name then Inl FileFailed else Inr (al_has t name))"

fun find_compose :: "fs_io \<Rightarrow> tree \<Rightarrow> string list \<Rightarrow> string option \<Rightarrow> source_error + string option" where
  "find_compose io t [] file = Inr file"
| "find_compose io t (n # ns) file =
     (case stat_exists io t n of
        Inl e \<Rightarrow> Inl e
      | Inr True \<Rightarrow> if file \<noteq> None then Inl BadComposeFile else find_compose io t ns (Some n)
      | Inr False \<Rightarrow> find_compose io t ns file)"

definition Protected :: "(string \<Rightarrow> source_compose option) \<Rightarrow> fs_io \<Rightarrow> tree \<Rightarrow> source_error + (string \<times> string list)" where
  "Protected yaml io t =
     (case find_compose io t composeNames None of
        Inl e \<Rightarrow> Inl e
      | Inr None \<Rightarrow> Inl BadComposeFile
      | Inr (Some file) \<Rightarrow>
          (case read_file io t file of
             Inl e \<Rightarrow> Inl FileFailed
           | Inr data \<Rightarrow>
               if 4 * 1024 * 1024 < length data then Inl BadComposeFile
               else case yaml data of
                 None \<Rightarrow> Inl BadComposeFile
               | Some c \<Rightarrow> map_sum (\<lambda>e. e) (Pair file) (compose_paths c)))"

subsection \<open>Receiving the archive\<close>

definition MaxArchiveBytes :: int where "MaxArchiveBytes = 1073741824"
definition MaxFiles :: nat where "MaxFiles = 100000"

record tar_entry =
  te_Name :: string
  te_Regular :: bool
  te_Size :: int
  te_Mode :: nat
  te_Raw :: nat
  te_Data :: string

text \<open>An entry of the stream or a header that cannot be read. \<open>te_Raw\<close> are the bytes the reader takes
  from the stream for the header and the padding before it.\<close>

datatype tar_step = TarEntry tar_entry | TarBad

text \<open>Addition on \<open>int64\<close>.\<close>

definition wrap64 :: "int \<Rightarrow> int" where
  "wrap64 x = (x + 2 ^ 63) mod 2 ^ 64 - 2 ^ 63"

definition unsafe_entry :: "tar_entry \<Rightarrow> string list \<Rightarrow> bool" where
  "unsafe_entry e seen \<longleftrightarrow> \<not> safeName (te_Name e) \<or> (sensitive (te_Name e) \<and> te_Name e \<noteq> ''.env'')
     \<or> te_Name e \<in> set seen \<or> \<not> te_Regular e \<or> te_Size e < 0"

fun chmod_parents :: "fs_io \<Rightarrow> string list \<Rightarrow> bool" where
  "chmod_parents io ps = list_ex (io_bad io OpChmod) ps"

definition entry_mode :: "tar_entry \<Rightarrow> nat" where
  "entry_mode e = (if te_Name e = ''.env'' then 384 else te_Mode e mod 512)"

text \<open>Creating the file of an entry; \<open>left\<close> bytes may still be read from the limited stream.\<close>

definition write_entry :: "fs_io \<Rightarrow> tar_entry \<Rightarrow> int \<Rightarrow> tree \<Rightarrow> source_error option \<times> tree" where
  "write_entry io e left t =
     (case mkdir_all io (path_dir (te_Name e)) t of
        (Some _, t1) \<Rightarrow> (Some FileFailed, t1)
      | (None, t1) \<Rightarrow>
          if path_dir (te_Name e) \<noteq> ''.'' \<and> chmod_parents io (path_prefixes (path_dir (te_Name e)))
          then (Some FileFailed, t1)
          else if io_bad io OpCreate (te_Name e) \<or> al_has t1 (te_Name e) then (Some FileFailed, t1)
          else if io_bad io OpChmod (te_Name e) then (Some FileFailed, al_put (te_Name e) (Regular (entry_mode e) []) t1)
          else
            let there = take (nat (min left (te_Size e))) (te_Data e);
                written = (if io_bad io OpWrite (te_Name e) then take (io_cut io (te_Name e)) there else there);
                t2 = al_put (te_Name e) (Regular (entry_mode e) written) t1
            in if io_bad io OpWrite (te_Name e) \<or> int (length there) \<noteq> te_Size e then (Some BadArchive, t2)
               else if io_bad io OpClose (te_Name e) then (Some FileFailed, t2)
               else (None, t2))"

fun extract_entries ::
  "fs_io \<Rightarrow> tar_step list \<Rightarrow> string list \<Rightarrow> int \<Rightarrow> int \<Rightarrow> tree \<Rightarrow> (source_error + string list) \<times> tree" where
  "extract_entries io [] files bytes left t =
     (if files = [] then (Inl BadArchive, t) else (Inr (rev files), t))"
| "extract_entries io (TarBad # es) files bytes left t = (Inl BadArchive, t)"
| "extract_entries io (TarEntry e # es) files bytes left t =
     (let left1 = left - int (te_Raw e); total1 = wrap64 (bytes + te_Size e) in
      if left1 < 0 then (Inl BadArchive, t)
      else if unsafe_entry e files then (Inl BadArchive, t)
      else if MaxFiles \<le> length files \<or> MaxArchiveBytes < total1 \<or> left1 \<le> 0 then (Inl ArchiveTooLarge, t)
      else case write_entry io e left1 t of
        (Some err, t1) \<Rightarrow> (Inl err, t1)
      | (None, t1) \<Rightarrow> extract_entries io es (te_Name e # files) total1 (left1 - te_Size e) t1)"

definition Extract :: "fs_io \<Rightarrow> tar_step list \<Rightarrow> tree \<Rightarrow> (source_error + string list) \<times> tree" where
  "Extract io es t =
     (if io_bad io OpRoot [] then (Inl FileFailed, t)
      else extract_entries io es [] 0 (MaxArchiveBytes + int MaxFiles * 1024 + 1) t)"

subsection \<open>Copying one file\<close>

fun links_in :: "fs_io \<Rightarrow> tree \<Rightarrow> string list \<Rightarrow> source_error option" where
  "links_in io t [] = None"
| "links_in io t (p # ps) =
     (case lstat io t p of
        Inl e \<Rightarrow> if e = NotExist then None else Some FileFailed
      | Inr nd \<Rightarrow>
          if nd = Symlink then Some SourceLink
          else if ps \<noteq> [] \<and> nd \<noteq> Directory then Some SourceLink
          else links_in io t ps)"

definition noLinks :: "fs_io \<Rightarrow> tree \<Rightarrow> string \<Rightarrow> source_error option" where
  "noLinks io t name = (if \<not> safeName name then Some SourceLink else links_in io t (path_prefixes name))"

fun make_parents :: "fs_io \<Rightarrow> string list \<Rightarrow> tree \<Rightarrow> source_error option \<times> tree" where
  "make_parents io [] t = (None, t)"
| "make_parents io (p # ps) t =
     (if p = ''.'' then make_parents io ps t
      else case lstat io t p of
        Inr nd \<Rightarrow> make_parents io ps t
      | Inl e \<Rightarrow>
          if e \<noteq> NotExist then (Some FileFailed, t)
          else if io_bad io OpMkdir p then (Some FileFailed, t)
          else if io_bad io OpChmod p then (Some FileFailed, al_put p Directory t)
          else make_parents io ps (al_put p Directory t))"

text \<open>The temporary file is filled, then renamed; the deferred removal.\<close>

definition fill_copy ::
  "fs_io \<Rightarrow> fs_io \<Rightarrow> string \<Rightarrow> nat \<Rightarrow> string \<Rightarrow> string \<Rightarrow> tree \<Rightarrow> source_error option \<times> tree" where
  "fill_copy src dst name mode content tmp t =
     (let leave = (\<lambda>t. (Some FileFailed, if io_bad dst OpRemove tmp then t else al_del tmp t)) in
      if io_bad dst OpCreate tmp \<or> al_has t tmp then (Some FileFailed, t)
      else if io_bad dst OpChmod tmp then leave (al_put tmp (Regular mode []) t)
      else if io_bad src OpRead name \<or> io_bad dst OpWrite tmp
      then leave (al_put tmp (Regular mode (take (io_cut dst tmp) content)) t)
      else if io_bad dst OpSync tmp \<or> io_bad dst OpClose tmp then leave (al_put tmp (Regular mode content) t)
      else if io_bad dst OpRename name then leave (al_put tmp (Regular mode content) t)
      else (None, al_put name (Regular mode content) (al_del tmp (al_put tmp (Regular mode content) t))))"

definition copyRootFile ::
  "fs_io \<Rightarrow> tree \<Rightarrow> fs_io \<Rightarrow> string \<Rightarrow> nat \<Rightarrow> tree \<Rightarrow> source_error option \<times> tree" where
  "copyRootFile src from dst name mode t =
     (case noLinks src from name of
        Some e \<Rightarrow> (Some e, t)
      | None \<Rightarrow>
          (case noLinks dst t name of
             Some e \<Rightarrow> (Some e, t)
           | None \<Rightarrow>
               (case open_file src from name of
                  Inl e \<Rightarrow> (Some FileFailed, t)
                | Inr nd \<Rightarrow>
                    if io_bad src OpStat name then (Some FileFailed, t)
                    else (case nd of
                        Regular perm content \<Rightarrow>
                          (case make_parents dst (path_prefixes (path_dir name)) t of
                             (Some e, t1) \<Rightarrow> (Some e, t1)
                           | (None, t1) \<Rightarrow>
                               fill_copy src dst name (if mode = 0 then perm mod 512 else mode) content
                                 (path_join [path_dir name, ''.fleetdeck-copy-'' @ path_base name]) t1)
                      | _ \<Rightarrow> (Some SourceLink, t)))))"

fun copy_all :: "fs_io \<Rightarrow> tree \<Rightarrow> fs_io \<Rightarrow> string list \<Rightarrow> string list \<Rightarrow> tree \<Rightarrow> source_error option \<times> string list \<times> tree" where
  "copy_all src from dst [] written t = (None, written, t)"
| "copy_all src from dst (name # names) written t =
     (case copyRootFile src from dst name 0 t of
        (Some e, t1) \<Rightarrow> (Some e, written, t1)
      | (None, t1) \<Rightarrow> copy_all src from dst names (written @ [name]) t1)"

text \<open>Recovery from the snapshot's configuration directory: every written file is copied back or, when the
  snapshot has none, removed. Failures are collected, the others still restored.\<close>

fun restore_names :: "fs_io \<Rightarrow> tree \<Rightarrow> fs_io \<Rightarrow> string list \<Rightarrow> tree \<Rightarrow> string list \<times> tree" where
  "restore_names src snap dst [] t = ([], t)"
| "restore_names src snap dst (name # names) t =
     (let (bad, t1) =
        (case lstat src snap name of
           Inl NotExist \<Rightarrow>
             if io_bad dst OpRemove name \<and> al_has t name then (True, t) else (False, al_del name t)
         | Inl _ \<Rightarrow> (True, t)
         | Inr _ \<Rightarrow> (case copyRootFile src snap dst name 0 t of (e, t') \<Rightarrow> (e \<noteq> None, t')))
      in case restore_names src snap dst names t1 of
           (fails, t2) \<Rightarrow> (if bad then name # fails else fails, t2))"

definition restoreSource :: "fs_io \<Rightarrow> tree \<Rightarrow> fs_io \<Rightarrow> string list \<Rightarrow> tree \<Rightarrow> source_error option \<times> tree" where
  "restoreSource src snap dst names t =
     (if io_bad src OpRoot [] then (Some FileFailed, t)
      else case restore_names src snap dst names t of
        (fails, t1) \<Rightarrow> (if fails = [] then None else Some FileFailed, t1))"

subsection \<open>What a copy changes\<close>

lemma make_parents_extends: "make_parents io ps t = (e, t') \<Longrightarrow> extends t t' \<and> regular_paths t' = regular_paths t"
proof (induction io ps t rule: make_parents.induct)
  case (2 io p ps t)
  have new: "map_of t p = None \<Longrightarrow> extends t (al_put p Directory t) \<and> regular_paths (al_put p Directory t) = regular_paths t"
    by (auto simp: extends_def regular_paths_def map_of_put)
  show ?case
    using 2 new by (auto simp: lstat_def extends_def split: if_splits option.splits sum.splits)
qed (simp add: extends_def)

lemma mkdir_all_regular: "mkdir_all io d t = (None, t') \<Longrightarrow> extends t t' \<and> regular_paths t' = regular_paths t"
  using make_dirs_ok[of io "path_prefixes d" t t'] by (auto simp: mkdir_all_def split: if_splits)

lemma fill_copy_cases:
  assumes "fill_copy src dst name mode content tmp t = (e, t')"
  shows "if e = None
    then map_of t' name = Some (Regular mode content) \<and> keeps_entries {name} t t'
      \<and> regular_paths t' = insert name (regular_paths t)
    else keeps_entries {} t t'"
  using assms
  by (auto simp: fill_copy_def Let_def keeps_entries_def regular_paths_def al_has_def store_simps
      split: if_splits)

lemma noLinks_safe: "noLinks io t name = None \<Longrightarrow> safeName name"
  by (simp add: noLinks_def split: if_splits)

lemma open_file_Inr: "open_file io t name = Inr nd \<Longrightarrow> map_of t name = Some nd"
  by (simp add: open_file_def split: if_splits option.splits)

lemma copyRootFile_cases:
  assumes "copyRootFile src from dst name mode t = (e, t')"
  shows "if e = None
    then (\<exists>perm content. map_of from name = Some (Regular perm content)
        \<and> map_of t' name = Some (Regular (if mode = 0 then perm mod 512 else mode) content))
      \<and> safeName name \<and> keeps_entries {name} t t' \<and> regular_paths t' = insert name (regular_paths t)
    else keeps_entries {} t t'"
proof (cases "noLinks src from name = None \<and> noLinks dst t name = None \<and> \<not> io_bad src OpStat name")
  case False
  then consider (src) a where "noLinks src from name = Some a"
    | (dst) a where "noLinks src from name = None" "noLinks dst t name = Some a"
    | (stat) "noLinks src from name = None" "noLinks dst t name = None" "io_bad src OpStat name"
    by auto
  then have "e \<noteq> None \<and> t' = t"
  proof cases
    case src
    show ?thesis using assms unfolding copyRootFile_def src option.case by auto
  next
    case dst
    show ?thesis using assms unfolding copyRootFile_def dst option.case by auto
  next
    case stat
    show ?thesis using assms stat(3) unfolding copyRootFile_def stat(1,2) option.case by (auto split: sum.splits)
  qed
  then show ?thesis by (auto simp: keeps_entries_def)
next
  case ok: True
  then have safe: "safeName name" using noLinks_safe by blast
  show ?thesis
  proof (cases "open_file src from name")
    case (Inl x)
    then show ?thesis using assms ok by (auto simp: copyRootFile_def keeps_entries_def)
  next
    case (Inr nd)
    show ?thesis
    proof (cases nd)
      case (Regular perm content)
      let ?mode = "if mode = 0 then perm mod 512 else mode"
      let ?tmp = "path_join [path_dir name, ''.fleetdeck-copy-'' @ path_base name]"
      obtain pe t1 where parents: "make_parents dst (path_prefixes (path_dir name)) t = (pe, t1)" by (metis prod.exhaust)
      have ext: "extends t t1" "regular_paths t1 = regular_paths t" using make_parents_extends[OF parents] by auto
      show ?thesis
      proof (cases pe)
        case None
        have fill: "fill_copy src dst name ?mode content ?tmp t1 = (e, t')"
          using assms ok Inr Regular parents None by (simp add: copyRootFile_def)
        have "map_of from name = Some (Regular perm content)" using open_file_Inr[OF Inr] Regular by simp
        then show ?thesis
          using fill_copy_cases[OF fill] safe ext(2) keeps_entries_trans[OF keeps_entries_extends[OF ext(1)]]
          by (auto split: if_splits)
      next
        case (Some x)
        then have "(e, t') = (Some x, t1)" using assms ok Inr Regular parents by (simp add: copyRootFile_def)
        then show ?thesis using keeps_entries_extends[OF ext(1)] by simp
      qed
    qed (use assms ok Inr in \<open>auto simp: copyRootFile_def keeps_entries_def\<close>)
  qed
qed

subsection \<open>What the receiver accepts\<close>

definition tree_bytes :: "tree \<Rightarrow> string list \<Rightarrow> int" where
  "tree_bytes t names = sum_list (map (\<lambda>n. node_size (the (map_of t n))) names)"

lemma write_entry_ok:
  assumes "write_entry io e left t = (None, t')" "0 \<le> left"
  shows "\<exists>content. map_of t' (te_Name e) = Some (Regular (entry_mode e) content)
    \<and> int (length content) = te_Size e \<and> te_Size e \<le> left \<and> keeps_entries {} t t'
    \<and> te_Name e \<notin> regular_paths t \<and> regular_paths t' = insert (te_Name e) (regular_paths t)"
proof -
  obtain t1 where t1: "mkdir_all io (path_dir (te_Name e)) t = (None, t1)"
    using assms unfolding write_entry_def by (auto split: prod.splits option.splits)
  let ?c = "take (nat (min left (te_Size e))) (te_Data e)"
  have t': "t' = al_put (te_Name e) (Regular (entry_mode e) ?c) t1" and new: "map_of t1 (te_Name e) = None"
    and len: "int (length ?c) = te_Size e"
    using assms t1 unfolding write_entry_def Let_def by (auto simp: al_has_def split: if_splits)
  have ext: "extends t t1" "regular_paths t1 = regular_paths t" using mkdir_all_regular[OF t1] by auto
  have "te_Size e \<le> left" using len assms(2) by (simp add: min_def split: if_splits)
  moreover have "keeps_entries {} t t'"
    using ext(1) new unfolding t' by (auto simp: keeps_entries_def extends_def map_of_put)
  moreover have "te_Name e \<notin> regular_paths t" using new ext(1) by (auto simp: regular_paths_def extends_def)
  moreover have "regular_paths t' = insert (te_Name e) (regular_paths t)"
    unfolding ext(2)[symmetric] t' by (auto simp: regular_paths_def map_of_put)
  ultimately show ?thesis using len unfolding t' by (auto simp: map_of_put)
qed

lemma wrap64_small: "0 \<le> x \<Longrightarrow> x < 2 ^ 63 \<Longrightarrow> wrap64 x = x"
  by (simp add: wrap64_def)

definition received_ok :: "string list \<Rightarrow> int \<Rightarrow> tree \<Rightarrow> bool" where
  "received_ok files bytes t \<longleftrightarrow> distinct files \<and> length files \<le> MaxFiles
     \<and> list_all (\<lambda>n. safeName n \<and> (sensitive n \<longrightarrow> n = ''.env'')) files
     \<and> regular_paths t = set files \<and> bytes = tree_bytes t files \<and> 0 \<le> bytes \<and> bytes \<le> MaxArchiveBytes"

lemma received_ok_step:
  assumes "received_ok files bytes t" "\<not> unsafe_entry e files" "length files < MaxFiles"
    and "wrap64 (bytes + te_Size e) \<le> MaxArchiveBytes" "left \<le> MaxArchiveBytes + int MaxFiles * 1024 + 1"
    and "write_entry io e left t = (None, t')" "0 \<le> left"
  shows "received_ok (te_Name e # files) (wrap64 (bytes + te_Size e)) t'" "0 \<le> te_Size e"
proof -
  obtain content where w: "map_of t' (te_Name e) = Some (Regular (entry_mode e) content)"
    "int (length content) = te_Size e" "te_Size e \<le> left" "keeps_entries {} t t'" "te_Name e \<notin> regular_paths t"
    "regular_paths t' = insert (te_Name e) (regular_paths t)"
    using write_entry_ok[OF assms(6,7)] by blast
  show size: "0 \<le> te_Size e" using w(2) by simp
  have wrap: "wrap64 (bytes + te_Size e) = bytes + te_Size e"
    using assms(1,5) w(3) size by (intro wrap64_small) (simp_all add: received_ok_def MaxArchiveBytes_def MaxFiles_def)
  have "map_of t' n = map_of t n" if "n \<in> set files" for n
  proof -
    have "n \<in> regular_paths t" using that assms(1) by (simp add: received_ok_def)
    then obtain m c where "map_of t n = Some (Regular m c)" by (auto simp: regular_paths_def)
    with w(4) show ?thesis by (simp add: keeps_entries_def)
  qed
  then have "tree_bytes t' files = tree_bytes t files"
    unfolding tree_bytes_def by (intro arg_cong[where f = sum_list] map_cong) auto
  then have "tree_bytes t' (te_Name e # files) = bytes + te_Size e"
    using assms(1) w(1,2) by (simp add: tree_bytes_def received_ok_def)
  then show "received_ok (te_Name e # files) (wrap64 (bytes + te_Size e)) t'"
    using assms(1-4) w(5,6) size wrap by (auto simp: received_ok_def unsafe_entry_def)
qed

lemma extract_entries_ok:
  assumes "extract_entries io es files bytes left t = (Inr out, t')" "received_ok files bytes t"
    "left \<le> MaxArchiveBytes + int MaxFiles * 1024 + 1"
  shows "out \<noteq> [] \<and> (\<exists>bytes'. received_ok (rev out) bytes' t')"
  using assms
proof (induction io es files bytes left t rule: extract_entries.induct)
  case (3 io e es files bytes left t)
  let ?left = "left - int (te_Raw e)" and ?bytes = "wrap64 (bytes + te_Size e)"
  obtain t1 where safe: "\<not> unsafe_entry e files" and room: "length files < MaxFiles" "?bytes \<le> MaxArchiveBytes"
    and w: "write_entry io e ?left t = (None, t1)"
    and rest: "extract_entries io es (te_Name e # files) ?bytes (?left - te_Size e) t1 = (Inr out, t')"
    and go: "\<not> ?left < 0" "\<not> (MaxFiles \<le> length files \<or> MaxArchiveBytes < ?bytes \<or> ?left \<le> 0)"
    using "3.prems"(1) by (auto simp: Let_def split: if_splits prod.splits option.splits)
  have lim: "?left \<le> MaxArchiveBytes + int MaxFiles * 1024 + 1" using "3.prems"(3) by simp
  have "0 \<le> ?left" using go by simp
  note step = received_ok_step[OF "3.prems"(2) safe room lim w this]
  show ?case
    by (rule "3.IH"[OF refl refl go(1) safe go(2) w[symmetric] refl rest step(1)]) (use step(2) lim in simp)
qed (auto split: if_splits)

text \<open>C40. The receiver takes only safe source: whatever the archive says, an accepted upload has distinct,
  project-relative names, no known private name but the seed \<open>.env\<close>, at most 100000 files of
  together at most 1 GiB (the 64-bit sum of the claimed sizes cannot wrap), and the staging
  directory holds exactly these files.\<close>
theorem Extract_bounded:
  assumes "Extract io es [] = (Inr files, t)"
  shows "files \<noteq> [] \<and> distinct files \<and> length files \<le> MaxFiles
    \<and> (\<forall>n \<in> set files. safeName n \<and> (sensitive n \<longrightarrow> n = ''.env''))
    \<and> regular_paths t = set files \<and> tree_bytes t (rev files) \<le> MaxArchiveBytes"
proof -
  have "received_ok [] 0 []"
    by (simp add: received_ok_def MaxFiles_def MaxArchiveBytes_def regular_paths_def tree_bytes_def)
  from extract_entries_ok[OF _ this, of io es "MaxArchiveBytes + int MaxFiles * 1024 + 1" files t] assms
  show ?thesis by (auto simp: Extract_def received_ok_def list_all_iff split: if_splits)
qed

end
