(* ===== verification/Source_Deploy.thy ===== *)
theory Source_Deploy
  imports Source_Files
begin

text \<open>
  \<open>internal/sourcedeploy/engine.go\<close>, \<open>identity.go\<close>, \<open>runtime.go\<close> and \<open>internal/backup/source.go\<close>: the
  deployment of reviewed source on the server. A step takes the world (registry, project, staging
  directory, snapshot, stopped services, commands run) and returns an error or nothing, and the new
  world; a failing step ends the deployment, except that stopped services are started again.
  Docker, the secret scanner, YAML, JSON, the account creation, the edge network and the backup
  module (a field of the \<open>Engine\<close>) answer through the host.
\<close>

subsection \<open>The world\<close>

datatype source_dir = InStage | InProject

datatype source_cmd =
    SrcCompose source_dir "string list"
  | SrcDocker source_dir "string list"
  | SrcEdge

record Options =
  so_Name :: string
  so_Domain :: string
  so_Profile :: string
  so_Timeout :: duration
  so_NoCache :: bool

record source_result =
  sr_BackupID :: string
  sr_Created :: bool
  sr_Healthy :: bool

record source_world =
  sw_db :: fleet_db
  sw_dest :: tree
  sw_stage :: tree
  sw_snap :: "(string \<times> tree) option"
  sw_stopped :: "string list"
  sw_log :: "source_cmd list"
  sw_result :: source_result

record service_model =
  sx_Image :: string
  sx_Labels :: "(string \<times> string) list"
  sx_Build :: "(string \<times> string) option"
  sx_Volumes :: "(string \<times> string \<times> bool) list"
  sx_Privileged :: bool
  sx_NetworkMode :: string
  sx_PID :: string
  sx_IPC :: string
  sx_Devices :: "string list"
  sx_CapAdd :: "string list"
  sx_SecurityOpt :: "string list"

record compose_model =
  sm_Name :: string
  sm_Services :: "(string \<times> service_model) list"

record scan_report =
  sn_Status :: string
  sn_Findings :: nat

record source_host =
  sh_run :: "source_cmd list \<Rightarrow> source_cmd \<Rightarrow> string option"
  sh_model :: "string \<Rightarrow> compose_model option"
  sh_yaml :: "string \<Rightarrow> source_compose option"
  sh_identity :: "string \<Rightarrow> string option"
  sh_environ :: "string list"
  sh_scan :: "tree \<Rightarrow> string list \<Rightarrow> scan_report"
  sh_backup :: "fleet_db \<Rightarrow> tree \<Rightarrow> (string \<times> tree) option \<times> fleet_db"
  sh_sha :: "string \<Rightarrow> string"
  sh_gz :: "string \<Rightarrow> gzip_result"
  sh_enc :: "Manifest \<Rightarrow> string"
  sh_dec :: "string \<Rightarrow> Manifest option"
  sh_images :: "(string \<times> string) list \<Rightarrow> string"
  sh_base :: "string option"
  sh_stage_dir :: "string option"
  sh_admitted :: bool
  sh_locked :: bool
  sh_user :: bool
  sh_absent :: bool
  sh_directory :: bool
  sh_mkdir :: bool
  sh_up :: "nat \<Rightarrow> bool"
  sh_now :: time
  sh_fresh :: string
  sh_dst :: fs_io
  sh_stg :: fs_io
  sh_snp :: fs_io

type_synonym source_step = "source_world \<Rightarrow> source_error option \<times> source_world"

definition and_then :: "source_step \<Rightarrow> source_step \<Rightarrow> source_step" where
  "and_then f g st = (case f st of (Some e, st1) \<Rightarrow> (Some e, st1) | (None, st1) \<Rightarrow> g st1)"

definition run_source :: "source_host \<Rightarrow> source_cmd \<Rightarrow> source_world \<Rightarrow> string option \<times> source_world" where
  "run_source h c st = (sh_run h (sw_log st) c, st\<lparr>sw_log := sw_log st @ [c]\<rparr>)"

text \<open>A command whose output is not used.\<close>

definition must_run :: "source_host \<Rightarrow> source_cmd \<Rightarrow> source_error \<Rightarrow> source_step" where
  "must_run h c e st =
     (case run_source h c st of (out, st1) \<Rightarrow> (if out = None then Some e else None, st1))"

definition compose_args :: "string \<Rightarrow> string \<Rightarrow> string list \<Rightarrow> string list" where
  "compose_args name file args = [''compose'', ''--project-name'', name, ''--file'', file] @ args"

definition compose :: "source_dir \<Rightarrow> string \<Rightarrow> string \<Rightarrow> string list \<Rightarrow> source_cmd" where
  "compose dir name file args = SrcCompose dir (compose_args name file args)"

definition model ::
  "source_host \<Rightarrow> source_dir \<Rightarrow> string \<Rightarrow> string \<Rightarrow> source_world \<Rightarrow> (source_error + compose_model) \<times> source_world" where
  "model h dir name file st =
     (case run_source h (compose dir name file [''config'', ''--format'', ''json'']) st of
        (None, st1) \<Rightarrow> (Inl BadModel, st1)
      | (Some data, st1) \<Rightarrow>
          (case sh_model h data of
             None \<Rightarrow> (Inl BadModel, st1)
           | Some m \<Rightarrow>
               if sm_Services m = [] \<or> sm_Name m \<noteq> name then (Inl BadModel, st1) else (Inr m, st1)))"

subsection \<open>What a resolved model may ask for\<close>

definition bind_escapes :: "string \<Rightarrow> string \<Rightarrow> bool" where
  "bind_escapes stage source =
     (case path_rel stage source of None \<Rightarrow> True | Some rel \<Rightarrow> \<not> is_local rel \<or> rel = ''.'')"

definition volume_error :: "string \<Rightarrow> string \<times> string \<times> bool \<Rightarrow> bool" where
  "volume_error stage v =
     (case v of (ty, source, ro) \<Rightarrow>
        ty = ''bind'' \<and> (bind_escapes stage source \<or> path_base source = ''docker.sock''))"

definition service_error :: "string \<Rightarrow> service_model \<Rightarrow> source_error option" where
  "service_error stage s =
     (if sx_Privileged s \<or> sx_NetworkMode s = ''host'' \<or> sx_PID s = ''host'' \<or> sx_IPC s = ''host''
         \<or> sx_Devices s \<noteq> [] \<or> sx_CapAdd s \<noteq> [] then Some HostAccess
      else if list_ex (\<lambda>opt. contains_str opt ''unconfined'') (sx_SecurityOpt s) then Some HostAccess
      else if list_ex (volume_error stage) (sx_Volumes s) then Some HostAccess
      else case sx_Build s of
        None \<Rightarrow> None
      | Some (context, dockerfile) \<Rightarrow>
          (case path_rel stage context of
             None \<Rightarrow> Some BuildContextEscapes
           | Some rel \<Rightarrow> if is_local rel then None else Some BuildContextEscapes))"

definition validateRuntime :: "compose_model \<Rightarrow> string \<Rightarrow> source_error option" where
  "validateRuntime m stage = first_some (\<lambda>(name, s). service_error stage s) (sm_Services m)"

subsection \<open>Identity\<close>

definition validateComposeEnvironment :: "source_host \<Rightarrow> fs_io \<Rightarrow> tree \<Rightarrow> source_error option" where
  "validateComposeEnvironment h io t =
     (if list_ex (\<lambda>v. has_prefix v ''COMPOSE_'') (sh_environ h) then Some BadIdentity
      else case read_file io t ''.env'' of
        Inl e \<Rightarrow> if e = NotExist then None else Some FileFailed
      | Inr data \<Rightarrow> if contains_str data ''COMPOSE_'' then Some BadIdentity else None)"

definition validateComposeIdentity :: "source_host \<Rightarrow> fs_io \<Rightarrow> tree \<Rightarrow> string \<Rightarrow> string \<Rightarrow> source_error option" where
  "validateComposeIdentity h io t file name =
     (case read_file io t file of
        Inl e \<Rightarrow> Some FileFailed
      | Inr data \<Rightarrow>
          (case sh_identity h data of
             None \<Rightarrow> Some BadIdentity
           | Some n \<Rightarrow> if n \<noteq> [] \<and> n \<noteq> name then Some BadIdentity else validateComposeEnvironment h io t))"

definition RequireClean :: "scan_report \<Rightarrow> bool" where
  "RequireClean r \<longleftrightarrow> sn_Status r = ''checked'' \<and> sn_Findings r = 0"

definition ValidateName :: "string \<Rightarrow> bool" where
  "ValidateName name \<longleftrightarrow> name \<noteq> [] \<and> length name \<le> 63
     \<and> is_lower_alnum (hd name) \<and> is_lower_alnum (last name)
     \<and> list_all (\<lambda>c. is_lower_alnum c \<or> c = CHR ''-'') name \<and> \<not> contains_str name ''--''"

definition LinuxUserName :: "string \<Rightarrow> string" where
  "LinuxUserName projectName = ''fleetdeck-'' @ projectName"

subsection \<open>Quiescing writers\<close>

fun service_kinds :: "(string \<times> service_model) list \<Rightarrow> source_error + (string \<times> string) list" where
  "service_kinds [] = Inr []"
| "service_kinds ((name, s) # ss) =
     (case DatabaseKind (sx_Image s) (LabelsMap (map (\<lambda>(k, v). (k, LabelString v)) (sx_Labels s))) of
        Inl e \<Rightarrow> Inl BackupFailed
      | Inr kind \<Rightarrow> map_sum (\<lambda>e. e) ((#) (name, kind)) (service_kinds ss))"

definition stateful :: "compose_model \<Rightarrow> bool" where
  "stateful m = list_ex (\<lambda>(name, s). list_ex (\<lambda>(ty, source, ro). \<not> ro \<and> ty \<noteq> ''tmpfs'') (sx_Volumes s)) (sm_Services m)"

text \<open>The running services to stop; \<open>None\<close> for one the model does not know.\<close>

definition writers :: "compose_model \<Rightarrow> (string \<times> string) list \<Rightarrow> string list \<Rightarrow> string list option" where
  "writers m kinds running =
     (if list_ex (\<lambda>s. \<not> al_has (sm_Services m) s) running then None
      else Some (sort (filter (\<lambda>s. map_of kinds s = Some []) running)))"

definition ps_running :: "string list" where
  "ps_running = [''ps'', ''--status'', ''running'', ''--services'']"

definition quiesce :: "source_host \<Rightarrow> string \<Rightarrow> string \<Rightarrow> compose_model \<Rightarrow> source_step" where
  "quiesce h name file m st =
     (case service_kinds (sm_Services m) of
        Inl e \<Rightarrow> (Some e, st)
      | Inr kinds \<Rightarrow>
          if \<not> stateful m then (None, st)
          else case run_source h (compose InProject name file ps_running) st of
            (None, st1) \<Rightarrow> (Some CommandFailed, st1)
          | (Some out, st1) \<Rightarrow>
              (case writers m kinds (Go_Strings.fields out) of
                 None \<Rightarrow> (Some BadModel, st1)
               | Some ws \<Rightarrow>
                   if ws = [] then (None, st1)
                   else
                     let st2 = st1\<lparr>sw_stopped := ws\<rparr>
                     in and_then (must_run h (compose InProject name file ([''stop'', ''--timeout'', ''30''] @ ws)) CommandFailed)
                          (\<lambda>st3. case run_source h (compose InProject name file ps_running) st3 of
                             (None, st4) \<Rightarrow> (Some CommandFailed, st4)
                           | (Some still, st4) \<Rightarrow>
                               (if list_ex (\<lambda>s. s \<in> set ws) (Go_Strings.fields still) then Some WriterStillRunning else None, st4))
                          st2))"

subsection \<open>The snapshot\<close>

fun add_sources ::
  "source_host \<Rightarrow> tree \<Rightarrow> string list \<Rightarrow> string list \<Rightarrow> ComponentInfo list \<Rightarrow> tree
    \<Rightarrow> backup_error option \<times> ComponentInfo list \<times> tree" where
  "add_sources h proj [] seen cs t = (None, cs, t)"
| "add_sources h proj (name # names) seen cs t =
     (if name \<in> set seen then add_sources h proj names seen cs t
      else if lstat (sh_dst h) proj name = Inr Directory then add_sources h proj names seen cs t
      else case checkPath (sh_dst h) proj name False False of
        Some e \<Rightarrow> if e = NotExist then add_sources h proj names seen cs t else (Some e, cs, t)
      | None \<Rightarrow>
          (case open_file (sh_dst h) proj name of
             Inr (Regular perm content) \<Rightarrow>
               (let target = path_join [''config'', name] in
                case copyOpenedFileWithChecksum (sh_sha h) (sh_dst h) (sh_snp h) name perm content target False t of
                  (Inl e, t1) \<Rightarrow> (Some e, cs, t1)
                | (Inr (bytes, checksum), t1) \<Rightarrow>
                    add_sources h proj names (name # seen)
                      (cs @ [\<lparr>ci_Type = ''config'', ci_Name = name, ci_Path = target, ci_SizeBytes = bytes,
                              ci_Checksum = checksum, ci_RestorePath = []\<rparr>]) t1)
           | Inr _ \<Rightarrow> (Some IoFailed, cs, t)
           | Inl e \<Rightarrow> (Some e, cs, t)))"

definition AddSourceFiles :: "source_host \<Rightarrow> tree \<Rightarrow> string list \<Rightarrow> tree \<Rightarrow> backup_error option \<times> tree" where
  "AddSourceFiles h proj names t =
     (case ReadManifest (sh_dec h) (sh_snp h) t of
        Inl e \<Rightarrow> (Some e, t)
      | Inr m \<Rightarrow>
          if io_bad (sh_dst h) OpRoot [] then (Some IoFailed, t)
          else case add_sources h proj names (map ci_Name (filter (\<lambda>c. ci_Type c = ''config'') (mf_Components m)))
              (mf_Components m) t of
            (Some e, cs, t1) \<Rightarrow> (Some e, t1)
          | (None, cs, t1) \<Rightarrow>
              if list_ex (\<lambda>op. io_bad (sh_snp h) op manifestName) [OpCreate, OpWrite, OpSync, OpClose, OpRename]
              then (Some IoFailed, t1)
              else (None, al_put manifestName (Regular 384 (sh_enc h (m\<lparr>mf_Components := cs\<rparr>))) t1))"

definition imageDigest :: "string \<Rightarrow> bool" where
  "imageDigest s \<longleftrightarrow> has_prefix s ''sha256:'' \<and> class_rep is_lower_hex 64 64 (drop 7 s)"

definition rollback_tag :: "source_host \<Rightarrow> string \<Rightarrow> string \<Rightarrow> string \<Rightarrow> string" where
  "rollback_tag h name backupID service =
     ''fleetdeck-rollback/'' @ name @ '':'' @ backupID @ ''-'' @ take 12 (sh_sha h service)"

fun tag_images ::
  "source_host \<Rightarrow> string \<Rightarrow> string \<Rightarrow> string list \<Rightarrow> (string \<times> string) list \<Rightarrow> (string \<times> string) list \<Rightarrow> source_world
    \<Rightarrow> (source_error + (string \<times> string) list) \<times> source_world" where
  "tag_images h name backupID [] previous services st = (Inr services, st)"
| "tag_images h name backupID (line # ls) previous services st =
     (case Go_Strings.fields line of
        [img, service] \<Rightarrow>
          if \<not> imageDigest img then (Inl BadModel, st)
          else if map_of previous service \<noteq> None \<and> map_of previous service \<noteq> Some img then (Inl BadModel, st)
          else
            let tag = rollback_tag h name backupID service
            in (case run_source h (SrcDocker InProject [''image'', ''tag'', img, tag]) st of
                  (None, st1) \<Rightarrow> (Inl CommandFailed, st1)
                | (Some _, st1) \<Rightarrow>
                    tag_images h name backupID ls (al_put service img previous) (al_put service tag services) st1)
      | _ \<Rightarrow> (Inl BadModel, st))"

definition write_runtime_images :: "source_host \<Rightarrow> string \<Rightarrow> tree \<Rightarrow> (string \<times> string) list \<Rightarrow> source_step" where
  "write_runtime_images h backupID snap services st =
     (if io_bad (sh_snp h) OpWrite ''runtime-images.json'' then (Some FileFailed, st)
      else (None, st\<lparr>sw_snap := Some (backupID, al_put ''runtime-images.json'' (Regular 384 (sh_images h services)) snap)\<rparr>))"

definition saveRuntime :: "source_host \<Rightarrow> string \<Rightarrow> string \<Rightarrow> string \<Rightarrow> tree \<Rightarrow> source_step" where
  "saveRuntime h name file backupID snap st =
     (case run_source h (compose InProject name file [''ps'', ''--all'', ''--quiet'']) st of
        (None, st1) \<Rightarrow> (Some CommandFailed, st1)
      | (Some out, st1) \<Rightarrow>
          let ids = Go_Strings.fields out
          in if ids = [] then write_runtime_images h backupID snap [] st1
             else case run_source h (SrcDocker InProject ([''inspect'', ''--format'',
                 ''{{.Image}} {{index .Config.Labels \"com.docker.compose.service\"}}''] @ ids)) st1 of
               (None, st2) \<Rightarrow> (Some CommandFailed, st2)
             | (Some data, st2) \<Rightarrow>
                 (case tag_images h name backupID (lines (trim_space data)) [] [] st2 of
                    (Inl e, st3) \<Rightarrow> (Some e, st3)
                  | (Inr services, st3) \<Rightarrow> write_runtime_images h backupID snap services st3))"

subsection \<open>Keeping secrets out of build contexts\<close>

definition ignore_rules :: "string list" where
  "ignore_rules = [''.git'', ''**/.git'', ''.env'', ''.env.*'', ''**/.env'', ''**/.env.*'', ''**/*.pem'', ''**/*.key'',
     ''**/*.p12'', ''**/*.pfx'', ''**/*.jks'']"

fun private_rules :: "string \<Rightarrow> string \<Rightarrow> string list \<Rightarrow> string list option" where
  "private_rules context stage [] = Some []"
| "private_rules context stage (name # names) =
     (case path_rel context (path_join [stage, name]) of
        None \<Rightarrow> None
      | Some relative \<Rightarrow>
          if \<not> is_local relative then private_rules context stage names
          else if relative = ''.'' \<or> contains_any relative [CHR ''!'', CHR ''*'', CHR ''?'', CHR ''['', CHR '']'', CHR 0x5C, CHR 0x0D, CHR 0x0A]
          then None
          else map_option ((#) (''/'' @ relative)) (private_rules context stage names))"

definition ignore_content :: "string \<Rightarrow> string list \<Rightarrow> string" where
  "ignore_content data rules =
     data @ [newline] @ ''# FleetDeck: server secrets and mutable data stay outside images.'' @ [newline]
     @ join_with [newline] rules @ [newline]"

text \<open>Reading the Dockerfile's ignore file or, when it is missing, the context's.\<close>

definition read_ignore :: "source_host \<Rightarrow> tree \<Rightarrow> string \<Rightarrow> string option \<Rightarrow> string option" where
  "read_ignore h t rel fallback =
     (case read_file (sh_stg h) t rel of
        Inr data \<Rightarrow> Some data
      | Inl e \<Rightarrow>
          if e \<noteq> NotExist then None
          else (case fallback of
              None \<Rightarrow> Some []
            | Some f \<Rightarrow> (case read_file (sh_stg h) t f of
                  Inr data \<Rightarrow> Some data
                | Inl e' \<Rightarrow> if e' = NotExist then Some [] else None)))"

definition write_ignore :: "source_host \<Rightarrow> string \<Rightarrow> string \<Rightarrow> tree \<Rightarrow> tree option" where
  "write_ignore h rel content t =
     (case mkdir_all (sh_stg h) (path_dir rel) t of
        (Some e, t1) \<Rightarrow> None
      | (None, t1) \<Rightarrow>
          if io_bad (sh_stg h) OpWrite rel \<or> \<not> writable t1 rel then None
          else
            let perm = (case map_of t1 rel of Some (Regular p c) \<Rightarrow> p | _ \<Rightarrow> 384)
            in Some (al_put rel (Regular perm content) t1))"

fun protect_contexts ::
  "source_host \<Rightarrow> string \<Rightarrow> string list \<Rightarrow> (string \<times> service_model) list \<Rightarrow> string list \<Rightarrow> tree
    \<Rightarrow> (source_error + string list) \<times> tree" where
  "protect_contexts h stage private [] seen t = (Inr (rev seen), t)"
| "protect_contexts h stage private ((name, s) # ss) seen t =
     (case sx_Build s of
        None \<Rightarrow> protect_contexts h stage private ss seen t
      | Some (context, dockerfile) \<Rightarrow>
          (let file = path_join [context, or_default ''Dockerfile'' dockerfile @ ''.dockerignore'']
           in case path_rel stage file of
             None \<Rightarrow> (Inl BuildContextEscapes, t)
           | Some rel \<Rightarrow>
               if \<not> safeName rel then (Inl BuildContextEscapes, t)
               else if rel \<in> set seen then protect_contexts h stage private ss seen t
               else case read_ignore h t rel (path_rel stage (path_join [context, ''.dockerignore''])) of
                 None \<Rightarrow> (Inl FileFailed, t)
               | Some data \<Rightarrow>
                   (case private_rules context stage private of
                      None \<Rightarrow> (Inl BuildContextEscapes, t)
                    | Some rules \<Rightarrow>
                        (case write_ignore h rel (ignore_content data (ignore_rules @ rules)) t of
                           None \<Rightarrow> (Inl FileFailed, t)
                         | Some t1 \<Rightarrow> protect_contexts h stage private ss (rel # seen) t1))))"

subsection \<open>Admission and registration\<close>

definition admit :: "source_host \<Rightarrow> Options \<Rightarrow> source_error option" where
  "admit h opts =
     first_error
       [(\<not> ValidateName (so_Name opts), BadName),
        (so_Timeout opts \<le> 0 \<or> hour < so_Timeout opts, BadTimeout),
        (sh_base h = None, BadBase),
        (\<not> sh_admitted h, Locked)]"

definition register :: "source_host \<Rightarrow> Options \<Rightarrow> string \<Rightarrow> source_step" where
  "register h opts path st =
     (case ListProjects (sh_up h 0) (sw_db st) of
        Inl e \<Rightarrow> (Some RegistryFailed, st)
      | Inr ps \<Rightarrow>
          (case List.find (\<lambda>p. pj_Name p = so_Name opts) ps of
             Some p \<Rightarrow>
               (if path_clean (pj_ProjectPath p) \<noteq> path \<or> pj_Domain p \<noteq> so_Domain opts then (Some PathMismatch, st)
                else (None, st))
           | None \<Rightarrow>
               if \<not> sh_absent h then (Some TargetExists, st)
               else if 32 < length (LinuxUserName (so_Name opts)) then (Some NameTooLong, st)
               else if \<not> sh_user h then (Some UserFailed, st)
               else if \<not> sh_mkdir h then (Some FileFailed, st)
               else case CreateProject (sh_up h 1) (sh_now h) (sh_fresh h)
                   \<lparr>pj_ID = [], pj_Name = so_Name opts, pj_Domain = so_Domain opts, pj_GitHubRepo = [],
                    pj_LinuxUser = LinuxUserName (so_Name opts), pj_ProjectPath = path, pj_Template = so_Profile opts,
                    pj_Status = [], pj_Source = ''created'', pj_ServerID = [], pj_BranchMappings = [],
                    pj_CreatedAt = 0, pj_UpdatedAt = 0\<rparr> (sw_db st) of
                 (Some e, db) \<Rightarrow> (Some RegistryFailed, st\<lparr>sw_db := db\<rparr>)
               | (None, db) \<Rightarrow> (None, st\<lparr>sw_db := db, sw_result := (sw_result st)\<lparr>sr_Created := True\<rparr>\<rparr>)))"

definition lock_project :: "source_host \<Rightarrow> source_step" where
  "lock_project h st =
     (if \<not> sh_directory h then (Some NotADirectory, st)
      else if \<not> sh_locked h then (Some Locked, st)
      else if sh_stage_dir h = None then (Some FileFailed, st)
      else (None, st))"

subsection \<open>Receiving and reconciling the source\<close>

definition overrides :: "string list" where
  "overrides = [''compose.override.yml'', ''compose.override.yaml'', ''docker-compose.override.yml'',
     ''docker-compose.override.yaml'']"

definition stat_ok :: "fs_io \<Rightarrow> tree \<Rightarrow> string \<Rightarrow> bool" where
  "stat_ok io t name \<longleftrightarrow> \<not> io_bad io OpStat name \<and> al_has t name"

definition receive :: "source_host \<Rightarrow> tar_step list \<Rightarrow> source_world \<Rightarrow> (source_error + string list) \<times> source_world" where
  "receive h input st =
     (case Extract (sh_stg h) input [] of
        (Inl e, t) \<Rightarrow> (Inl e, st\<lparr>sw_stage := t\<rparr>)
      | (Inr files, t) \<Rightarrow>
          (if RequireClean (sh_scan h t files) then Inr files else Inl ScanNotClean, st\<lparr>sw_stage := t\<rparr>))"

definition readable_entries :: "source_host \<Rightarrow> tree \<Rightarrow> source_error + string list" where
  "readable_entries h t =
     (if io_bad (sh_dst h) OpRead ''.'' then Inl FileFailed
      else Inr (filter (\<lambda>n. CHR ''/'' \<notin> set n) (al_keys t)))"

text \<open>The Compose file and the private paths of both sides, and whether the project has a model already.\<close>

record source_plan =
  sp_compose :: string
  sp_private :: "string list"
  sp_existing :: bool

definition new_project_entries :: "source_host \<Rightarrow> source_world \<Rightarrow> source_error option" where
  "new_project_entries h st =
     (if sr_Created (sw_result st) then None
      else case readable_entries h (sw_dest st) of
        Inl e \<Rightarrow> Some e
      | Inr entries \<Rightarrow>
          if list_ex (\<lambda>n. n \<noteq> ''.fleetdeck.lock'' \<and> \<not> sensitive n) entries then Some Unprotected else None)"

definition reconcile :: "source_host \<Rightarrow> string \<Rightarrow> source_world \<Rightarrow> source_error + source_plan" where
  "reconcile h name st =
     (case Protected (sh_yaml h) (sh_stg h) (sw_stage st) of
        Inl e \<Rightarrow> Inl e
      | Inr (file, private) \<Rightarrow>
          if list_ex (\<lambda>n. stat_ok (sh_stg h) (sw_stage st) n \<or> stat_ok (sh_dst h) (sw_dest st) n) overrides
          then Inl OverrideFile
          else case validateComposeIdentity h (sh_stg h) (sw_stage st) file name of
            Some e \<Rightarrow> Inl e
          | None \<Rightarrow>
              (case Protected (sh_yaml h) (sh_dst h) (sw_dest st) of
                 Inl e \<Rightarrow>
                   (case new_project_entries h st of
                      Some e \<Rightarrow> Inl e
                    | None \<Rightarrow> Inr \<lparr>sp_compose = file, sp_private = private, sp_existing = False\<rparr>)
               | Inr (oldFile, oldPrivate) \<Rightarrow>
                   (case validateComposeIdentity h (sh_dst h) (sw_dest st) oldFile name of
                      Some e \<Rightarrow> Inl e
                    | None \<Rightarrow>
                        if oldFile \<noteq> file then Inl ComposeRenamed
                        else Inr \<lparr>sp_compose = file, sp_private = private @ oldPrivate, sp_existing = True\<rparr>)))"

text \<open>The received files that may replace the project's; the others are removed from the stage.\<close>

fun choose_updates ::
  "source_host \<Rightarrow> string list \<Rightarrow> string list \<Rightarrow> string list \<Rightarrow> source_world
    \<Rightarrow> (source_error + string list) \<times> source_world" where
  "choose_updates h private [] updates st = (Inr updates, st)"
| "choose_updates h private (name # names) updates st =
     (if \<not> protected name private then choose_updates h private names (updates @ [name]) st
      else
        let drop = (\<lambda>_. if io_bad (sh_stg h) OpRemove name then (Inl FileFailed, st)
             else choose_updates h private names updates (st\<lparr>sw_stage := al_del name (sw_stage st)\<rparr>))
        in if name = ''.env'' then
             (case lstat (sh_dst h) (sw_dest st) name of
                Inl e \<Rightarrow> if e = NotExist then choose_updates h private names (updates @ [name]) st else (Inl FileFailed, st)
              | Inr nd \<Rightarrow> drop ())
           else drop ())"

fun preserve :: "source_host \<Rightarrow> string list \<Rightarrow> source_step" where
  "preserve h [] st = (None, st)"
| "preserve h (name # names) st =
     (case lstat (sh_dst h) (sw_dest st) name of
        Inl e \<Rightarrow> if e = NotExist then preserve h names st else (Some FileFailed, st)
      | Inr Directory \<Rightarrow> preserve h names st
      | Inr nd \<Rightarrow>
          (case copyRootFile (sh_dst h) (sw_dest st) (sh_stg h) name 384 (sw_stage st) of
             (Some e, t) \<Rightarrow> (Some e, st\<lparr>sw_stage := t\<rparr>)
           | (None, t) \<Rightarrow> preserve h names (st\<lparr>sw_stage := t\<rparr>)))"

text \<open>The resolved candidate model: no host access, BuildKit where it builds, ignore files written.\<close>

definition check_candidate ::
  "source_host \<Rightarrow> string \<Rightarrow> source_plan \<Rightarrow> string list \<Rightarrow> source_world \<Rightarrow> (source_error + string list) \<times> source_world" where
  "check_candidate h name plan updates st =
     (case validateComposeEnvironment h (sh_stg h) (sw_stage st) of
        Some e \<Rightarrow> (Inl e, st)
      | None \<Rightarrow>
          (case model h InStage name (sp_compose plan) st of
             (Inl e, st1) \<Rightarrow> (Inl e, st1)
           | (Inr m, st1) \<Rightarrow>
               let stage = (case sh_stage_dir h of None \<Rightarrow> [] | Some d \<Rightarrow> d) in
               (case validateRuntime m stage of
                  Some e \<Rightarrow> (Inl e, st1)
                | None \<Rightarrow>
                    (case (if list_ex (\<lambda>(n, s). sx_Build s \<noteq> None) (sm_Services m)
                        then must_run h (SrcDocker InStage [''buildx'', ''version'']) NoBuildx st1 else (None, st1)) of
                       (Some e, st2) \<Rightarrow> (Inl e, st2)
                     | (None, st2) \<Rightarrow>
                         (case protect_contexts h stage (sp_private plan) (sm_Services m) [] (sw_stage st2) of
                            (Inl e, t) \<Rightarrow> (Inl e, st2\<lparr>sw_stage := t\<rparr>)
                          | (Inr ignores, t) \<Rightarrow>
                              (Inr (sort (updates @ filter (\<lambda>n. n \<notin> set updates) ignores)), st2\<lparr>sw_stage := t\<rparr>))))))"

fun check_destinations :: "source_host \<Rightarrow> tree \<Rightarrow> string list \<Rightarrow> source_error option" where
  "check_destinations h t [] = None"
| "check_destinations h t (name # names) =
     (case noLinks (sh_dst h) t name of
        Some e \<Rightarrow> Some e
      | None \<Rightarrow>
          (case lstat (sh_dst h) t name of
             Inr nd \<Rightarrow> if \<not> is_regular nd then Some FileFailed else check_destinations h t names
           | Inl e \<Rightarrow> check_destinations h t names))"

subsection \<open>Snapshot, build and replacement\<close>

definition snapshot_verified :: "source_host \<Rightarrow> tree \<Rightarrow> bool" where
  "snapshot_verified h snap =
     (case VerifyBackup (sh_sha h) (sh_gz h) (sh_dec h) (sh_snp h) snap of
        Inl e \<Rightarrow> False
      | Inr checks \<Rightarrow> checks \<noteq> [] \<and> \<not> HasFailures checks)"

definition take_snapshot :: "source_host \<Rightarrow> string \<Rightarrow> source_plan \<Rightarrow> string list \<Rightarrow> source_step" where
  "take_snapshot h name plan updates st =
     (case model h InProject name (sp_compose plan) st of
        (Inl e, st1) \<Rightarrow> (Some e, st1)
      | (Inr old, st1) \<Rightarrow>
          and_then (quiesce h name (sp_compose plan) old)
            (\<lambda>st2. case sh_backup h (sw_db st2) (sw_dest st2) of
               (None, db) \<Rightarrow> (Some BackupFailed, st2\<lparr>sw_db := db\<rparr>)
             | (Some (backupID, snap), db) \<Rightarrow>
                 let st3 = st2\<lparr>sw_db := db\<rparr> in
                 (case AddSourceFiles h (sw_dest st3) (updates @ sp_private plan) snap of
                    (Some e, snap1) \<Rightarrow> (Some BackupFailed, st3\<lparr>sw_snap := Some (backupID, snap1)\<rparr>)
                  | (None, snap1) \<Rightarrow>
                      let st4 = st3\<lparr>sw_snap := Some (backupID, snap1)\<rparr> in
                      if \<not> snapshot_verified h snap1 then (Some BadVerification, st4)
                      else saveRuntime h name (sp_compose plan) backupID snap1
                             (st4\<lparr>sw_result := (sw_result st4)\<lparr>sr_BackupID := backupID\<rparr>\<rparr>)))
            st1)"

definition build_candidate :: "source_host \<Rightarrow> Options \<Rightarrow> source_plan \<Rightarrow> source_step" where
  "build_candidate h opts plan =
     and_then (must_run h (compose InStage (so_Name opts) (sp_compose plan) [''pull'', ''--ignore-buildable'']) CommandFailed)
       (must_run h (compose InStage (so_Name opts) (sp_compose plan)
          (''build'' # (if so_NoCache opts then [''--no-cache''] else []))) CommandFailed)"

text \<open>The snapshot's \<open>config\<close> directory as a tree of its own.\<close>

definition config_tree :: "tree \<Rightarrow> tree" where
  "config_tree snap =
     map (\<lambda>(n, nd). (trim_prefix n ''config/'', nd)) (filter (\<lambda>(n, nd). has_prefix n ''config/'') snap)"

definition recover :: "source_host \<Rightarrow> string list \<Rightarrow> source_world \<Rightarrow> source_world" where
  "recover h written st =
     (case sw_snap st of
        None \<Rightarrow> st
      | Some (backupID, snap) \<Rightarrow>
          st\<lparr>sw_dest := snd (restoreSource (sh_snp h) (config_tree snap) (sh_dst h) written (sw_dest st))\<rparr>)"

definition replace_source :: "source_host \<Rightarrow> source_plan \<Rightarrow> string list \<Rightarrow> source_step" where
  "replace_source h plan updates st =
     (case copy_all (sh_stg h) (sw_stage st) (sh_dst h) updates [] (sw_dest st) of
        (Some e, written, t) \<Rightarrow> (Some e, recover h written (st\<lparr>sw_dest := t\<rparr>))
      | (None, written, t) \<Rightarrow>
          (case must_run h SrcEdge EdgeFailed (st\<lparr>sw_dest := t\<rparr>) of
             (Some e, st1) \<Rightarrow> (Some e, recover h written st1)
           | (None, st1) \<Rightarrow> (None, st1)))"

text \<open>\<open>remaining\<close> is the wait time left, at least a second.\<close>

definition start_services :: "source_host \<Rightarrow> Options \<Rightarrow> source_plan \<Rightarrow> int \<Rightarrow> source_step" where
  "start_services h opts plan remaining st =
     (case run_source h (compose InProject (so_Name opts) (sp_compose plan)
         [''up'', ''--detach'', ''--no-build'', ''--pull'', ''never'', ''--wait'', ''--wait-timeout'',
          show_int (if remaining < 1 then 1 else remaining)]) st of
        (out, st1) \<Rightarrow>
          let st2 = st1\<lparr>sw_stopped := []\<rparr> in
          if out = None then
            (Some NotReady, st2\<lparr>sw_db := snd (UpdateProjectStatus (sh_up h 2) (sh_now h) (so_Name opts) ''failed'' (sw_db st2))\<rparr>)
          else case UpdateProjectStatus (sh_up h 2) (sh_now h) (so_Name opts) ''running'' (sw_db st2) of
            (Some e, db) \<Rightarrow> (Some RegistryFailed, st2\<lparr>sw_db := db\<rparr>)
          | (None, db) \<Rightarrow> (None, st2\<lparr>sw_db := db, sw_result := (sw_result st2)\<lparr>sr_Healthy := True\<rparr>\<rparr>))"

text \<open>The deferred restart of stopped services.\<close>

definition restart :: "source_host \<Rightarrow> string \<Rightarrow> string \<Rightarrow> source_world \<Rightarrow> source_world" where
  "restart h name file st =
     (if sw_stopped st = [] then st
      else case run_source h (compose InProject name file (''start'' # sw_stopped st)) st of
        (out, st1) \<Rightarrow> if out = None then st1 else st1\<lparr>sw_stopped := []\<rparr>)"

definition deploy_plan :: "source_host \<Rightarrow> Options \<Rightarrow> int \<Rightarrow> source_plan \<Rightarrow> string list \<Rightarrow> source_step" where
  "deploy_plan h opts remaining plan updates =
     and_then (\<lambda>st. (check_destinations h (sw_dest st) updates, st))
       (\<lambda>st0. case and_then (\<lambda>st. if sp_existing plan then take_snapshot h (so_Name opts) plan updates st else (None, st))
            (and_then (build_candidate h opts plan)
              (and_then (replace_source h plan updates) (start_services h opts plan remaining))) st0 of
          (e, st) \<Rightarrow> (e, restart h (so_Name opts) (sp_compose plan) st))"

definition prepare_plan ::
  "source_host \<Rightarrow> Options \<Rightarrow> string list \<Rightarrow> source_plan \<Rightarrow> source_world \<Rightarrow> (source_error + string list) \<times> source_world" where
  "prepare_plan h opts files plan st =
     (if io_bad (sh_dst h) OpRoot [] \<or> io_bad (sh_stg h) OpRoot [] then (Inl FileFailed, st)
      else case choose_updates h (sp_private plan) files [] st of
        (Inl e, st1) \<Rightarrow> (Inl e, st1)
      | (Inr updates, st1) \<Rightarrow>
          (case preserve h (sp_private plan @ [''.env'']) st1 of
             (Some e, st2) \<Rightarrow> (Inl e, st2)
           | (None, st2) \<Rightarrow> check_candidate h (so_Name opts) plan updates st2))"

definition fresh_run :: "source_world \<Rightarrow> source_world" where
  "fresh_run st = st\<lparr>sw_stage := [], sw_snap := None, sw_stopped := [],
     sw_result := \<lparr>sr_BackupID = [], sr_Created = False, sr_Healthy = False\<rparr>\<rparr>"

definition Apply :: "source_host \<Rightarrow> Options \<Rightarrow> int \<Rightarrow> tar_step list \<Rightarrow> source_step" where
  "Apply h opts remaining input st =
     (case admit h opts of
        Some e \<Rightarrow> (Some e, fresh_run st)
      | None \<Rightarrow>
          and_then (register h opts (path_join [the (sh_base h), so_Name opts]))
            (and_then (lock_project h)
              (\<lambda>st1. case receive h input st1 of
                 (Inl e, st2) \<Rightarrow> (Some e, st2)
               | (Inr files, st2) \<Rightarrow>
                   (case reconcile h (so_Name opts) st2 of
                      Inl e \<Rightarrow> (Some e, st2)
                    | Inr plan \<Rightarrow>
                        (case prepare_plan h opts files plan st2 of
                           (Inl e, st3) \<Rightarrow> (Some e, st3)
                         | (Inr updates, st3) \<Rightarrow> deploy_plan h opts remaining plan updates st3)))) (fresh_run st))"

end
