(* ===== verification/Source_Safety.thy ===== *)
theory Source_Safety
  imports Source_Deploy
begin

text \<open>
  What a source deployment guarantees: nothing of the project is replaced before the upload was
  scanned, the resolved model checked, the old state snapshotted and verified and the candidate
  built; private files of the server survive; stopped services are started again.
\<close>

subsection \<open>Steps that leave the project alone\<close>

lemma and_then_cases:
  assumes "and_then f g st = (e, st')"
  obtains (first) x where "f st = (Some x, st')" "e = Some x"
  | (second) st1 where "f st = (None, st1)" "g st1 = (e, st')"
  using assms by (auto simp: and_then_def split: prod.splits option.splits)

text \<open>What a step keeps: the project, and the log as a prefix.\<close>

definition keeps_project :: "source_world \<Rightarrow> source_world \<Rightarrow> bool" where
  "keeps_project st st' \<longleftrightarrow> sw_dest st' = sw_dest st \<and> (\<exists>cs. sw_log st' = sw_log st @ cs)"

lemma keeps_project_refl [simp]: "keeps_project st st"
  by (simp add: keeps_project_def)

lemma keeps_project_trans: "keeps_project st st1 \<Longrightarrow> keeps_project st1 st2 \<Longrightarrow> keeps_project st st2"
  by (auto simp: keeps_project_def)

lemma keeps_project_same [simp]:
  "keeps_project st (st'\<lparr>sw_stage := t\<rparr>) \<longleftrightarrow> keeps_project st st'"
  "keeps_project st (st'\<lparr>sw_db := db\<rparr>) \<longleftrightarrow> keeps_project st st'"
  "keeps_project st (st'\<lparr>sw_snap := sn\<rparr>) \<longleftrightarrow> keeps_project st st'"
  "keeps_project st (st'\<lparr>sw_stopped := ws\<rparr>) \<longleftrightarrow> keeps_project st st'"
  "keeps_project st (st'\<lparr>sw_result := r\<rparr>) \<longleftrightarrow> keeps_project st st'"
  by (simp_all add: keeps_project_def)

lemma keeps_project_from [simp]:
  "keeps_project (st\<lparr>sw_stage := t\<rparr>) st' \<longleftrightarrow> keeps_project st st'"
  "keeps_project (st\<lparr>sw_db := db\<rparr>) st' \<longleftrightarrow> keeps_project st st'"
  "keeps_project (st\<lparr>sw_snap := sn\<rparr>) st' \<longleftrightarrow> keeps_project st st'"
  "keeps_project (st\<lparr>sw_stopped := ws\<rparr>) st' \<longleftrightarrow> keeps_project st st'"
  "keeps_project (st\<lparr>sw_result := r\<rparr>) st' \<longleftrightarrow> keeps_project st st'"
  by (simp_all add: keeps_project_def)

lemma run_source_keeps: "run_source h c st = (r, st') \<Longrightarrow> keeps_project st st'"
  by (auto simp: run_source_def keeps_project_def)

lemma must_run_keeps: "must_run h c e st = (r, st') \<Longrightarrow> keeps_project st st'"
  by (auto simp: must_run_def split: prod.splits dest: run_source_keeps)

lemma model_keeps: "model h d name file st = (r, st') \<Longrightarrow> keeps_project st st'"
  by (auto simp: model_def split: prod.splits option.splits if_splits dest: run_source_keeps)

lemma quiesce_keeps:
  assumes "quiesce h name file m st = (r, st')" shows "keeps_project st st'"
proof -
  have stop: "keeps_project st1 st2"
    if "and_then (must_run h c x) (\<lambda>st3. case run_source h c' st3 of (None, st4) \<Rightarrow> (Some CommandFailed, st4)
        | (Some still, st4) \<Rightarrow> (if P still then Some WriterStillRunning else None, st4)) st1 = (r, st2)" for c x c' P st1 st2
    using that by (cases rule: and_then_cases)
      (auto split: prod.splits option.splits dest!: must_run_keeps run_source_keeps intro: keeps_project_trans)
  obtain out st1 where run: "run_source h (compose InProject name file ps_running) st = (out, st1)" by (metis prod.exhaust)
  note k = run_source_keeps[OF run]
  show ?thesis
    using assms run k unfolding quiesce_def Let_def
    by (auto split: sum.splits option.splits if_splits dest!: stop intro: keeps_project_trans)
qed

lemma tag_images_keeps: "tag_images h name b ls prev svcs st = (r, st') \<Longrightarrow> keeps_project st st'"
proof (induction h name b ls prev svcs st rule: tag_images.induct)
  case (2 h name b line ls prev svcs st)
  show ?case
    using 2 by (auto simp: Let_def split: list.splits if_splits prod.splits option.splits
        dest!: run_source_keeps intro: keeps_project_trans)
qed simp

lemma write_runtime_images_keeps: "write_runtime_images h b snap svcs st = (r, st') \<Longrightarrow> keeps_project st st'"
  by (auto simp: write_runtime_images_def split: if_splits)

lemma saveRuntime_keeps:
  assumes "saveRuntime h name file b snap st = (r, st')" shows "keeps_project st st'"
  using assms unfolding saveRuntime_def Let_def
  by (auto split: prod.splits option.splits if_splits sum.splits
      dest!: run_source_keeps tag_images_keeps write_runtime_images_keeps intro: keeps_project_trans)


lemma build_candidate_keeps:
  assumes "build_candidate h opts plan st = (r, st')" shows "keeps_project st st'"
  using assms unfolding build_candidate_def
  by (cases rule: and_then_cases) (auto dest!: must_run_keeps intro: keeps_project_trans)

lemma take_snapshot_keeps:
  assumes "take_snapshot h name plan updates st = (r, st')" shows "keeps_project st st'"
proof -
  obtain m st1 where m: "model h InProject name (sp_compose plan) st = (m, st1)" by (metis prod.exhaust)
  have save: "keeps_project st2 st'" if "saveRuntime h name f b snap st2 = (r, st')" for f b snap st2
    using saveRuntime_keeps[OF that] .
  show ?thesis
  proof (cases m)
    case (Inl e)
    then show ?thesis using assms m model_keeps[OF m] by (simp add: take_snapshot_def)
  next
    case (Inr old)
    have "keeps_project st1 st'"
      using assms unfolding take_snapshot_def m Inr prod.case sum.case
      by (cases rule: and_then_cases)
        (auto simp: Let_def split: prod.splits option.splits if_splits
          dest!: quiesce_keeps save intro: keeps_project_trans)
    with model_keeps[OF m] show ?thesis by (rule keeps_project_trans)
  qed
qed

lemma start_services_keeps: "start_services h opts plan n st = (r, st') \<Longrightarrow> keeps_project st st'"
  unfolding start_services_def Let_def
  by (auto split: prod.splits option.splits if_splits dest!: run_source_keeps)

lemma restart_keeps: "keeps_project st (restart h name file st)"
  by (auto simp: restart_def split: prod.splits dest: run_source_keeps)

lemma register_keeps: "register h opts path st = (r, st') \<Longrightarrow> keeps_project st st'"
  unfolding register_def
  by (auto split: sum.splits option.splits if_splits prod.splits)

lemma lock_project_keeps: "lock_project h st = (r, st') \<Longrightarrow> st' = st"
  by (auto simp: lock_project_def split: if_splits)

lemma receive_keeps: "receive h input st = (r, st') \<Longrightarrow> keeps_project st st' \<and> sw_snap st' = sw_snap st"
  by (auto simp: receive_def split: sum.splits prod.splits)

lemma choose_updates_keeps: "choose_updates h prv names us st = (r, st') \<Longrightarrow> keeps_project st st'"
  by (induction h prv names us st rule: choose_updates.induct)
    (auto simp: Let_def split: if_splits sum.splits)

lemma preserve_keeps: "preserve h names st = (r, st') \<Longrightarrow> keeps_project st st'"
  by (induction h names st rule: preserve.induct)
    (auto split: if_splits sum.splits node.splits prod.splits option.splits)

lemma check_candidate_keeps:
  assumes "check_candidate h name plan us st = (r, st')" shows "keeps_project st st'"
  using assms unfolding check_candidate_def Let_def
  by (auto split: option.splits prod.splits sum.splits if_splits
      dest!: model_keeps must_run_keeps intro: keeps_project_trans)

lemma prepare_plan_keeps:
  assumes "prepare_plan h opts files plan st = (r, st')" shows "keeps_project st st'"
  using assms unfolding prepare_plan_def
  by (auto split: option.splits prod.splits sum.splits if_splits
      dest!: choose_updates_keeps preserve_keeps check_candidate_keeps intro: keeps_project_trans)


subsection \<open>What was done before the replacement\<close>

text \<open>A command of the log, and what it printed.\<close>

definition ran :: "source_host \<Rightarrow> source_cmd list \<Rightarrow> source_cmd \<Rightarrow> string \<Rightarrow> bool" where
  "ran h log c out \<longleftrightarrow> (\<exists>before_c after_c. log = before_c @ c # after_c \<and> sh_run h before_c c = Some out)"

lemma ran_last: "sh_run h log c = Some out \<Longrightarrow> ran h (log @ [c]) c out"
  unfolding ran_def by (rule exI[of _ log], rule exI[of _ "[]"]) simp

lemma ran_append:
  assumes "ran h log c out" shows "ran h (log @ cs) c out"
proof -
  obtain a b where "log = a @ c # b" "sh_run h a c = Some out" using assms unfolding ran_def by blast
  then have "log @ cs = a @ c # (b @ cs) \<and> sh_run h a c = Some out" by simp
  then show ?thesis unfolding ran_def by blast
qed

definition log_grows :: "source_world \<Rightarrow> source_world \<Rightarrow> bool" where
  "log_grows st st' \<longleftrightarrow> (\<exists>cs. sw_log st' = sw_log st @ cs)"

lemma log_grows_keeps: "keeps_project st st' \<Longrightarrow> log_grows st st'"
  by (simp add: keeps_project_def log_grows_def)

lemma log_grows_trans: "log_grows st st1 \<Longrightarrow> log_grows st1 st2 \<Longrightarrow> log_grows st st2"
  by (auto simp: log_grows_def)

lemma ran_mono: "ran h (sw_log st) c out \<Longrightarrow> log_grows st st' \<Longrightarrow> ran h (sw_log st') c out"
  by (auto simp: log_grows_def ran_append)

lemma must_run_ran: "must_run h c e st = (None, st') \<Longrightarrow> \<exists>out. ran h (sw_log st') c out"
  by (auto simp: must_run_def run_source_def split: if_splits dest!: ran_last)

text \<open>The model read from a directory.\<close>

definition model_read :: "source_host \<Rightarrow> source_dir \<Rightarrow> string \<Rightarrow> string \<Rightarrow> compose_model \<Rightarrow> source_cmd list \<Rightarrow> bool" where
  "model_read h d name file m log \<longleftrightarrow>
     (\<exists>data. ran h log (compose d name file [''config'', ''--format'', ''json'']) data \<and> sh_model h data = Some m)"

lemma model_reads: "model h d name file st = (Inr m, st') \<Longrightarrow> model_read h d name file m (sw_log st')"
  by (auto simp: model_def run_source_def model_read_def split: option.splits if_splits dest!: ran_last)

lemma model_read_mono:
  "model_read h d name file m (sw_log st) \<Longrightarrow> log_grows st st' \<Longrightarrow> model_read h d name file m (sw_log st')"
  by (auto simp: model_read_def dest: ran_mono)

text \<open>The snapshot taken: verified, its id in the result, and the runtime images recorded in it.\<close>

definition snapshot_taken :: "source_host \<Rightarrow> source_world \<Rightarrow> bool" where
  "snapshot_taken h st \<longleftrightarrow>
     (\<exists>b snap services. snapshot_verified h snap \<and> sr_BackupID (sw_result st) = b
        \<and> sw_snap st = Some (b, al_put ''runtime-images.json'' (Regular 384 (sh_images h services)) snap))"

lemma snapshot_taken_cong:
  "sr_BackupID (sw_result st') = sr_BackupID (sw_result st) \<Longrightarrow> sw_snap st' = sw_snap st
    \<Longrightarrow> snapshot_taken h st \<Longrightarrow> snapshot_taken h st'"
  by (simp add: snapshot_taken_def)

lemma write_runtime_images_taken:
  assumes "write_runtime_images h b snap services st = (None, st')" "snapshot_verified h snap"
    and "sr_BackupID (sw_result st) = b"
  shows "snapshot_taken h st'"
proof -
  have "st' = st\<lparr>sw_snap := Some (b, al_put ''runtime-images.json'' (Regular 384 (sh_images h services)) snap)\<rparr>"
    using assms(1) by (simp add: write_runtime_images_def split: if_splits)
  with assms(2,3) show ?thesis by (simp add: snapshot_taken_def) blast
qed

lemma run_source_result: "run_source h c st = (r, st') \<Longrightarrow> sw_result st' = sw_result st \<and> sw_snap st' = sw_snap st"
  by (auto simp: run_source_def)

lemma tag_images_result: "tag_images h name b ls prev svcs st = (r, st') \<Longrightarrow> sw_result st' = sw_result st"
  by (induction h name b ls prev svcs st rule: tag_images.induct)
    (auto simp: Let_def split: list.splits if_splits prod.splits option.splits dest!: run_source_result)

lemma saveRuntime_taken:
  assumes "saveRuntime h name file b snap st = (None, st')" "snapshot_verified h snap"
    and "sr_BackupID (sw_result st) = b"
  shows "snapshot_taken h st'"
  using assms unfolding saveRuntime_def Let_def
  by (auto split: prod.splits option.splits if_splits sum.splits
      dest!: run_source_result tag_images_result elim!: write_runtime_images_taken)

lemma take_snapshot_taken:
  assumes "take_snapshot h name plan updates st = (None, st')" shows "snapshot_taken h st'"
proof -
  obtain old st1 where m: "model h InProject name (sp_compose plan) st = (Inr old, st1)"
    using assms unfolding take_snapshot_def by (auto split: prod.splits sum.splits)
  show ?thesis
    using assms unfolding take_snapshot_def m prod.case sum.case
    by (cases rule: and_then_cases)
      (auto simp: Let_def split: prod.splits option.splits if_splits elim!: saveRuntime_taken)
qed

lemma run_keeps_snapshot: "must_run h c e st = (r, st') \<Longrightarrow> snapshot_taken h st \<Longrightarrow> snapshot_taken h st'"
  by (auto simp: must_run_def split: prod.splits dest!: run_source_result intro: snapshot_taken_cong[of _ st])

lemma build_candidate_done:
  assumes "build_candidate h opts plan st = (None, st')"
  shows "\<exists>out. ran h (sw_log st') (compose InStage (so_Name opts) (sp_compose plan)
      (''build'' # (if so_NoCache opts then [''--no-cache''] else []))) out"
    and "snapshot_taken h st \<Longrightarrow> snapshot_taken h st'"
  using assms unfolding build_candidate_def
  by (cases rule: and_then_cases; auto dest: must_run_ran run_keeps_snapshot)+

lemma recover_same [simp]:
  "sw_log (recover h written st) = sw_log st" "sw_result (recover h written st) = sw_result st"
  "sw_snap (recover h written st) = sw_snap st" "sw_stopped (recover h written st) = sw_stopped st"
  by (simp_all add: recover_def split: option.splits)

lemma replace_source_snapshot:
  assumes "replace_source h plan updates st = (r, st')"
  shows "log_grows st st'" "snapshot_taken h st \<Longrightarrow> snapshot_taken h st'"
proof -
  have same: "snapshot_taken h (recover h w s) \<longleftrightarrow> snapshot_taken h s" for w s
    by (simp add: snapshot_taken_def)
  obtain ce written t where c: "copy_all (sh_stg h) (sw_stage st) (sh_dst h) updates [] (sw_dest st) = (ce, written, t)"
    by (metis prod.exhaust)
  obtain me st1 where m: "must_run h SrcEdge EdgeFailed (st\<lparr>sw_dest := t\<rparr>) = (me, st1)" by (metis prod.exhaust)
  have dest: "snapshot_taken h (st\<lparr>sw_dest := t\<rparr>) \<longleftrightarrow> snapshot_taken h st" by (simp add: snapshot_taken_def)
  have grows: "log_grows (st\<lparr>sw_dest := t\<rparr>) st1" using log_grows_keeps must_run_keeps[OF m] .
  show "log_grows st st'"
    using assms grows unfolding replace_source_def c prod.case
    by (auto simp: m log_grows_def split: option.splits)
  show "snapshot_taken h st \<Longrightarrow> snapshot_taken h st'"
    using assms dest run_keeps_snapshot[OF m] unfolding replace_source_def c prod.case
    by (auto simp: m same split: option.splits)
qed

lemma start_services_snapshot:
  "start_services h opts plan n st = (r, st') \<Longrightarrow> snapshot_taken h st \<Longrightarrow> snapshot_taken h st'"
  unfolding start_services_def Let_def
  by (auto split: prod.splits option.splits if_splits dest!: run_source_result intro: snapshot_taken_cong[of _ st])

lemma restart_snapshot: "snapshot_taken h st \<Longrightarrow> snapshot_taken h (restart h name file st)"
  by (auto simp: restart_def split: prod.splits dest!: run_source_result intro: snapshot_taken_cong[of _ st])


definition build_cmd :: "Options \<Rightarrow> source_plan \<Rightarrow> source_cmd" where
  "build_cmd opts plan = compose InStage (so_Name opts) (sp_compose plan)
     (''build'' # (if so_NoCache opts then [''--no-cache''] else []))"

lemma deploy_plan_guarded:
  assumes "deploy_plan h opts n plan updates st = (e, st')" "sw_dest st' \<noteq> sw_dest st"
  shows "log_grows st st'" "\<exists>out. ran h (sw_log st') (build_cmd opts plan) out"
    and "sp_existing plan \<Longrightarrow> snapshot_taken h st'"
    and "check_destinations h (sw_dest st) updates = None"
proof -
  let ?snap = "\<lambda>st. if sp_existing plan then take_snapshot h (so_Name opts) plan updates st else (None, st)"
  let ?rest = "and_then (build_candidate h opts plan) (and_then (replace_source h plan updates) (start_services h opts plan n))"
  obtain e1 st1 where run: "and_then ?snap ?rest st = (e1, st1)" by (metis prod.exhaust)
  show dest: "check_destinations h (sw_dest st) updates = None"
    using assms by (cases "check_destinations h (sw_dest st) updates") (auto simp: deploy_plan_def and_then_def)
  have st': "st' = restart h (so_Name opts) (sp_compose plan) st1"
    using assms(1) run dest by (simp add: deploy_plan_def and_then_def[of "\<lambda>st. (check_destinations h (sw_dest st) updates, st)"])
  have end_same: "sw_dest st1 = sw_dest st'" using restart_keeps[of st1] unfolding st' by (simp add: keeps_project_def)
  from run obtain sta where a: "?snap st = (None, sta)" "?rest sta = (e1, st1)"
  proof (cases rule: and_then_cases)
    case (first x)
    then have "keeps_project st st1" by (auto split: if_splits dest: take_snapshot_keeps)
    then show ?thesis using assms(2) end_same by (simp add: keeps_project_def)
  qed
  have ka: "keeps_project st sta" using a(1) by (auto split: if_splits dest: take_snapshot_keeps)
  from a(2) obtain stb where b: "build_candidate h opts plan sta = (None, stb)"
    "and_then (replace_source h plan updates) (start_services h opts plan n) stb = (e1, st1)"
  proof (cases rule: and_then_cases)
    case (first x)
    then have "keeps_project sta st1" by (auto dest: build_candidate_keeps)
    then show ?thesis using assms(2) end_same ka by (simp add: keeps_project_def)
  qed
  have kb: "keeps_project sta stb" using b(1) by (rule build_candidate_keeps)
  have tail: "log_grows stb st1 \<and> (snapshot_taken h stb \<longrightarrow> snapshot_taken h st1)"
    using b(2)
  proof (cases rule: and_then_cases)
    case (first x)
    then show ?thesis using replace_source_snapshot by blast
  next
    case (second stc)
    then show ?thesis
      using replace_source_snapshot[OF second(1)] start_services_snapshot[OF second(2)]
        log_grows_keeps[OF start_services_keeps[OF second(2)]]
      by (auto simp: log_grows_def)
  qed
  have grows: "log_grows stb st'"
    unfolding st' using conjunct1[OF tail] log_grows_keeps[OF restart_keeps] by (rule log_grows_trans)
  then show "log_grows st st'"
    using log_grows_keeps[OF ka] log_grows_keeps[OF kb] by (auto simp: log_grows_def)
  show "\<exists>out. ran h (sw_log st') (build_cmd opts plan) out"
    using build_candidate_done(1)[OF b(1)] ran_mono[OF _ grows] unfolding build_cmd_def by blast
  show "snapshot_taken h st'" if "sp_existing plan"
    using that a(1) tail build_candidate_done(2)[OF b(1)] unfolding st'
    by (auto dest: take_snapshot_taken intro: restart_snapshot)
qed

lemma check_candidate_checked:
  assumes "check_candidate h name plan us st = (Inr updates, st')" and stage: "sh_stage_dir h = Some d"
  shows "\<exists>m. model_read h InStage name (sp_compose plan) m (sw_log st') \<and> validateRuntime m d = None"
proof -
  obtain m st1 where m: "model h InStage name (sp_compose plan) st = (Inr m, st1)" "validateRuntime m d = None"
    using assms unfolding check_candidate_def Let_def by (auto split: option.splits prod.splits sum.splits)
  have "log_grows st1 st'"
    using assms m unfolding check_candidate_def Let_def
    by (auto simp: log_grows_def split: option.splits prod.splits sum.splits if_splits
        dest!: must_run_keeps log_grows_keeps)
  with model_reads[OF m(1)] m(2) show ?thesis by (blast intro: model_read_mono)
qed


lemma prepare_plan_checked:
  assumes "prepare_plan h opts files plan st = (Inr updates, st')" "sh_stage_dir h = Some d"
  shows "\<exists>m. model_read h InStage (so_Name opts) (sp_compose plan) m (sw_log st') \<and> validateRuntime m d = None"
  using assms unfolding prepare_plan_def
  by (auto split: if_splits sum.splits prod.splits option.splits intro: check_candidate_checked[OF _ assms(2)])

lemma reconcile_existing:
  "reconcile h name st = Inr plan \<Longrightarrow>
     sp_existing plan \<longleftrightarrow> (\<exists>f p. Protected (sh_yaml h) (sh_dst h) (sw_dest st) = Inr (f, p))"
  unfolding reconcile_def by (auto split: sum.splits if_splits option.splits prod.splits)

lemma run_stopped: "run_source h c st = (r, st') \<Longrightarrow> sw_stopped st' = sw_stopped st"
  by (auto simp: run_source_def)

lemma must_run_stopped: "must_run h c e st = (r, st') \<Longrightarrow> sw_stopped st' = sw_stopped st"
  by (auto simp: must_run_def split: prod.splits dest: run_stopped)

lemma model_stopped: "model h d name file st = (r, st') \<Longrightarrow> sw_stopped st' = sw_stopped st"
  by (auto simp: model_def split: prod.splits option.splits if_splits dest: run_stopped)

lemma register_stopped: "register h opts path st = (r, st') \<Longrightarrow> sw_stopped st' = sw_stopped st"
  unfolding register_def by (auto split: sum.splits option.splits if_splits prod.splits)

lemma receive_stopped: "receive h input st = (r, st') \<Longrightarrow> sw_stopped st' = sw_stopped st"
  by (auto simp: receive_def split: sum.splits prod.splits)

lemma choose_updates_stopped: "choose_updates h prv names us st = (r, st') \<Longrightarrow> sw_stopped st' = sw_stopped st"
  by (induction h prv names us st rule: choose_updates.induct)
    (auto simp: Let_def split: if_splits sum.splits)

lemma preserve_stopped: "preserve h names st = (r, st') \<Longrightarrow> sw_stopped st' = sw_stopped st"
  by (induction h names st rule: preserve.induct)
    (auto split: if_splits sum.splits node.splits prod.splits option.splits)

lemma check_candidate_stopped:
  "check_candidate h name plan us st = (r, st') \<Longrightarrow> sw_stopped st' = sw_stopped st"
  unfolding check_candidate_def Let_def
  by (auto split: option.splits prod.splits sum.splits if_splits dest!: model_stopped must_run_stopped)

lemma prepare_plan_stopped: "prepare_plan h opts files plan st = (r, st') \<Longrightarrow> sw_stopped st' = sw_stopped st"
  unfolding prepare_plan_def
  by (auto split: option.splits prod.splits sum.splits if_splits
      dest!: choose_updates_stopped preserve_stopped check_candidate_stopped)

text \<open>The steps of \<open>Apply\<close> up to the deployment of the plan: either one of them fails, and the project is
  untouched, or the received source is clean, the plan reconciled and the candidate checked.\<close>

lemma admitted_cases:
  assumes "and_then (register h opts path) (and_then (lock_project h) go) (fresh_run st) = (e, st')"
  obtains (refused) x where "e = Some x" "keeps_project st st'" "sw_stopped st' = []"
  | (going) st1 d where "keeps_project st st1" "sw_stopped st1 = []" "sh_stage_dir h = Some d" "go st1 = (e, st')"
  using assms
proof (cases rule: and_then_cases)
  case (first x)
  have "keeps_project st (fresh_run st)" by (simp add: fresh_run_def keeps_project_def)
  then show ?thesis
    using first register_keeps[OF first(1)] register_stopped[OF first(1)]
    by (intro refused) (auto simp: fresh_run_def intro: keeps_project_trans)
next
  case (second st1)
  have "keeps_project st (fresh_run st)" by (simp add: fresh_run_def keeps_project_def)
  then have k1: "keeps_project st st1" "sw_stopped st1 = []"
    using register_keeps[OF second(1)] register_stopped[OF second(1)]
    by (auto simp: fresh_run_def intro: keeps_project_trans)
  from second(2) show ?thesis
  proof (cases rule: and_then_cases)
    case locked: (first x)
    then show ?thesis using k1 lock_project_keeps[OF locked(1)] by (auto intro: refused)
  next
    case locked: (second st2)
    obtain d where "sh_stage_dir h = Some d"
      using locked(1) by (auto simp: lock_project_def split: if_splits)
    then show ?thesis using locked lock_project_keeps[OF locked(1)] k1 by (auto intro: going)
  qed
qed

lemma Apply_cases:
  assumes "Apply h opts n input st = (e, st')"
  obtains (refused) x where "e = Some x" "keeps_project st st'" "sw_stopped st' = []"
  | (deployed) files t st2 st3 plan updates d where
      "Extract (sh_stg h) input [] = (Inr files, t)" "RequireClean (sh_scan h t files)" "sw_stage st2 = t"
      "reconcile h (so_Name opts) st2 = Inr plan" "prepare_plan h opts files plan st2 = (Inr updates, st3)"
      "sh_stage_dir h = Some d" "admit h opts = None"
      "keeps_project st st2" "keeps_project st2 st3" "sw_stopped st3 = []"
      "deploy_plan h opts n plan updates st3 = (e, st')"
proof (cases "admit h opts")
  case (Some x)
  show ?thesis
    by (rule refused[of x]) (use assms Some in \<open>auto simp: Apply_def fresh_run_def keeps_project_def\<close>)
next
  case None
  from assms show ?thesis unfolding Apply_def None option.case
  proof (cases rule: admitted_cases)
    case (going st1 d)
    obtain rr st2 where r: "receive h input st1 = (rr, st2)" by (metis prod.exhaust)
    have k2: "keeps_project st st2" "sw_stopped st2 = []"
      using keeps_project_trans[OF going(1)] receive_keeps[OF r] receive_stopped[OF r] going(2) by simp_all
    note go = going(4)[unfolded r prod.case]
    show ?thesis
    proof (cases rr)
      case (Inr files)
      obtain t where t: "Extract (sh_stg h) input [] = (Inr files, t)" "RequireClean (sh_scan h t files)" "sw_stage st2 = t"
        using r Inr by (auto simp: receive_def split: prod.splits sum.splits if_splits)
      show ?thesis
      proof (cases "reconcile h (so_Name opts) st2")
        case plan: (Inr plan)
        obtain pr st3 where p: "prepare_plan h opts files plan st2 = (pr, st3)" by (metis prod.exhaust)
        have k3: "keeps_project st2 st3" "sw_stopped st3 = []"
          using prepare_plan_keeps[OF p] prepare_plan_stopped[OF p] k2 by simp_all
        show ?thesis
        proof (cases pr)
          case up: (Inr updates)
          have "deploy_plan h opts n plan updates st3 = (e, st')" using go Inr plan p up by simp
          then show ?thesis by (rule deployed[OF t plan p[unfolded up] going(3) None k2(1) k3])
        qed (use go k3 Inr plan p keeps_project_trans[OF k2(1) k3(1)] in \<open>auto intro: refused\<close>)
      qed (use go k2 Inr in \<open>auto intro: refused\<close>)
    qed (use go k2 in \<open>auto intro: refused\<close>)
  qed (use refused in blast)
qed

text \<open>C5. Nothing of a project is replaced unguarded: when a deployment changed the project's files, however
  it ended, the request had a valid name, the received source was clean and safely named, the candidate's
  resolved model asks for no host access, the candidate's images were built, and a project that was deployed
  before was snapshotted: the snapshot verified, its id is in the result and the images of the running
  containers are recorded in it.\<close>
theorem Apply_guarded:
  assumes "Apply h opts n input st = (e, st')" and "sw_dest st' \<noteq> sw_dest st"
  shows "ValidateName (so_Name opts)
    \<and> (\<exists>files t. Extract (sh_stg h) input [] = (Inr files, t) \<and> RequireClean (sh_scan h t files))
    \<and> (\<exists>plan m d. model_read h InStage (so_Name opts) (sp_compose plan) m (sw_log st')
        \<and> sh_stage_dir h = Some d \<and> validateRuntime m d = None
        \<and> (\<exists>out. ran h (sw_log st') (build_cmd opts plan) out))
    \<and> (\<forall>f p. Protected (sh_yaml h) (sh_dst h) (sw_dest st) = Inr (f, p) \<longrightarrow> snapshot_taken h st')"
  using assms(1)
proof (cases rule: Apply_cases)
  case (refused x)
  then show ?thesis using assms(2) by (simp add: keeps_project_def)
next
  case (deployed files t st2 st3 plan updates d)
  have same: "sw_dest st2 = sw_dest st" "sw_dest st3 = sw_dest st" using deployed(8,9) by (auto simp: keeps_project_def)
  have changed: "sw_dest st' \<noteq> sw_dest st3" using assms(2) same by simp
  note g = deploy_plan_guarded[OF deployed(11) changed]
  obtain m where m: "model_read h InStage (so_Name opts) (sp_compose plan) m (sw_log st3)" "validateRuntime m d = None"
    using prepare_plan_checked[OF deployed(5,6)] by blast
  have name: "ValidateName (so_Name opts)" using deployed(7) by (auto simp: admit_def split: if_splits)
  have snap: "snapshot_taken h st'" if "Protected (sh_yaml h) (sh_dst h) (sw_dest st) = Inr (f, p)" for f p
    using g(3) reconcile_existing[OF deployed(4)] that same by simp
  show ?thesis using name deployed(1,2,6) model_read_mono[OF m(1) g(1)] m(2) g(2) snap by blast
qed


subsection \<open>Private files survive\<close>

lemma keeps_entries_refl [simp]: "keeps_entries N t t"
  by (simp add: keeps_entries_def)

lemma copy_all_keeps:
  "copy_all src from dst names w t = (e, w', t') \<Longrightarrow>
     keeps_entries (set names) t t' \<and> set w' \<subseteq> set w \<union> set names"
proof (induction src "from" dst names w t arbitrary: e w' t' rule: copy_all.induct)
  case (1 src "from" dst w t)
  then show ?case by (simp add: keeps_entries_def)
next
  case (2 src "from" dst name names w t)
  obtain ce t1 where c: "copyRootFile src from dst name 0 t = (ce, t1)" by (metis prod.exhaust)
  have k: "keeps_entries (set (name # names)) t t1"
    using copyRootFile_cases[OF c] by (auto split: if_splits intro: keeps_entries_mono)
  show ?case
  proof (cases ce)
    case None
    then have rest: "copy_all src from dst names (w @ [name]) t1 = (e, w', t')" using 2(2) c by simp
    from 2(1)[OF c[symmetric] None rest]
    have "keeps_entries (set names) t1 t'" "set w' \<subseteq> set (w @ [name]) \<union> set names" by auto
    moreover have "keeps_entries (set (name # names)) t1 t'"
      using keeps_entries_mono[OF calculation(1)] by auto
    ultimately show ?thesis using keeps_entries_trans[OF k] by auto
  next
    case (Some x)
    then show ?thesis using 2(2) c k by auto
  qed
qed

lemma restore_names_keeps: "restore_names src snap dst names t = (fs, t') \<Longrightarrow> keeps_entries (set names) t t'"
proof (induction src snap dst names t arbitrary: fs t' rule: restore_names.induct)
  case (1 src snap dst t)
  then show ?case by (simp add: keeps_entries_def)
next
  case (2 src snap dst name names t)
  have del: "keeps_entries {name} t (al_del name t)" by (simp add: keeps_entries_def map_of_del)
  obtain bad t1 where one: "(case lstat src snap name of
       Inl NotExist \<Rightarrow> if io_bad dst OpRemove name \<and> al_has t name then (True, t) else (False, al_del name t)
     | Inl _ \<Rightarrow> (True, t)
     | Inr _ \<Rightarrow> (case copyRootFile src snap dst name 0 t of (e, t') \<Rightarrow> (e \<noteq> None, t'))) = (bad, t1)"
    by (metis prod.exhaust)
  have k: "keeps_entries {name} t t1"
    using one del
    by (auto split: sum.splits backup_error.splits if_splits prod.splits
        intro: keeps_entries_mono dest!: copyRootFile_cases)
  obtain fails t2 where rest: "restore_names src snap dst names t1 = (fails, t2)" by (metis prod.exhaust)
  have "keeps_entries (set names) t1 t2" using "2.IH"[OF one[symmetric] refl rest] .
  moreover have "t' = t2" using "2.prems" one rest by (simp split: if_splits)
  ultimately have "keeps_entries (set (name # names)) t1 t'" by (auto intro: keeps_entries_mono)
  moreover have "keeps_entries (set (name # names)) t t1" using k by (rule keeps_entries_mono) simp
  ultimately show ?case by (rule keeps_entries_trans[rotated])
qed

lemma recover_keeps: "keeps_entries (set written) (sw_dest st) (sw_dest (recover h written st))"
  by (auto simp: recover_def restoreSource_def
      split: option.splits prod.splits if_splits dest: restore_names_keeps)

lemma replace_source_entries:
  assumes "replace_source h plan updates st = (r, st')"
  shows "keeps_entries (set updates) (sw_dest st) (sw_dest st')"
proof -
  obtain ce written t where c: "copy_all (sh_stg h) (sw_stage st) (sh_dst h) updates [] (sw_dest st) = (ce, written, t)"
    by (metis prod.exhaust)
  obtain me st1 where m: "must_run h SrcEdge EdgeFailed (st\<lparr>sw_dest := t\<rparr>) = (me, st1)" by (metis prod.exhaust)
  have k: "keeps_entries (set updates) (sw_dest st) t" "set written \<subseteq> set updates" using copy_all_keeps[OF c] by auto
  have d1: "sw_dest st1 = t" using must_run_keeps[OF m] by (simp add: keeps_project_def)
  have r: "keeps_entries (set updates) (sw_dest st) (sw_dest (recover h written s))" if "sw_dest s = t" for s
    using keeps_entries_trans[OF k(1)] keeps_entries_mono[OF recover_keeps[of written s h] k(2)] that by simp
  show ?thesis
    using assms k(1) d1 r unfolding replace_source_def c prod.case
    by (auto simp: m split: option.splits)
qed


text \<open>A path that ends in a normal component still does after \<open>Clean\<close>, \<open>Join\<close> and \<open>Rel\<close>.\<close>

definition ends_in :: "string \<Rightarrow> string \<Rightarrow> bool" where
  "ends_in w s \<longleftrightarrow> s = w \<or> (\<exists>a. s = a @ CHR ''/'' # w)"

lemma split_on_snoc: "d \<notin> set w \<Longrightarrow> split_on d (a @ d # w) = split_on d a @ [w]"
  by (induction a) (auto simp: split_on_single neq_Nil_conv split: list.splits)

lemma clean_step_snoc: "normal_component w \<Longrightarrow> \<exists>vs. clean_step r st (us @ [w]) = vs @ [w]"
  by (induction us arbitrary: st) (auto simp: normal_component_def split: list.splits)

lemma ends_in_components:
  assumes "ends_in w s" "normal_component w" shows "\<exists>vs. clean_components s = vs @ [w]"
proof -
  have "\<exists>us. split_on CHR ''/'' s = us @ [w]"
    using assms by (auto simp: ends_in_def normal_component_def split_on_single split_on_snoc)
  then show ?thesis using clean_step_snoc[OF assms(2)] by (auto simp: clean_components_def)
qed

lemma ends_in_join: "ends_in w (join_with ''/'' (vs @ [w]))"
  by (cases "vs = []") (auto simp: ends_in_def join_with_snoc)

lemma ends_in_clean:
  assumes "ends_in w s" "normal_component w" shows "ends_in w (path_clean s)"
proof -
  obtain vs where vs: "clean_components s = vs @ [w]" using ends_in_components[OF assms] by blast
  show ?thesis
    using ends_in_join[of w vs] by (auto simp: path_clean_def vs ends_in_def Let_def)
qed

lemma ends_in_path_join: "ends_in w x \<Longrightarrow> normal_component w \<Longrightarrow> ends_in w (path_join [c, x])"
proof -
  assume a: "ends_in w x" "normal_component w"
  then have "x \<noteq> []" by (auto simp: ends_in_def normal_component_def)
  moreover have "ends_in w (c @ CHR ''/'' # x)" using a(1) by (auto simp: ends_in_def)
  ultimately show ?thesis using a by (auto simp: path_join_def Let_def intro: ends_in_clean)
qed

lemma dotdots_not_safe: "bs \<noteq> [] \<Longrightarrow> \<not> safeName (join_with ''/'' (map (\<lambda>_. ''..'') bs))"
proof -
  assume "bs \<noteq> []"
  then obtain b rest where bs: "bs = b # rest" by (cases bs) auto
  let ?s = "join_with ''/'' (map (\<lambda>_. ''..'') bs)"
  have bad: "?s = ''..'' \<or> has_prefix ?s ''../''"
    by (cases rest) (simp_all add: bs has_prefix_iff)
  then have "?s = ''..'' \<or> (\<exists>z. ?s = ''..'' @ CHR ''/'' # z)" by (auto simp: has_prefix_iff)
  then have dots: "list_ex (\<lambda>w. w = ''.'' \<or> w = ''..'') (split_on CHR ''/'' ?s)"
    by (elim disjE exE) (simp_all only: split_on_append split_on_single, simp_all add: split_on_append)
  show ?thesis using bad dots by (auto simp: safeName_def is_local_def Let_def)
qed

lemma path_rel_ends:
  assumes "path_rel base targ = Some rel" "ends_in w targ" "normal_component w" "safeName rel"
  shows "has_suffix rel w"
proof -
  obtain vs where vs: "clean_components targ = vs @ [w]" using ends_in_components[OF assms(2,3)] by blast
  obtain bs ts where d: "drop_common (clean_components base) (vs @ [w]) = (bs, ts)" by (metis prod.exhaust)
  obtain zs where zs: "vs @ [w] = zs @ ts" using drop_common_prefix[OF d] by blast
  have rel: "rel = (if bs = [] \<and> ts = [] then ''.'' else join_with ''/'' (map (\<lambda>_. ''..'') bs @ ts))"
    using assms(1) by (auto simp: path_rel_def vs d Let_def split: if_splits)
  show ?thesis
  proof (cases ts rule: rev_cases)
    case Nil
    then have "rel = ''.'' \<or> bs \<noteq> [] \<and> rel = join_with ''/'' (map (\<lambda>_. ''..'') bs)" using rel by auto
    then show ?thesis using assms(4) dotdots_not_safe by (auto simp: safeName_def)
  next
    case (snoc us u)
    then have "rel = join_with ''/'' ((map (\<lambda>_. ''..'') bs @ us) @ [w])" using rel zs by auto
    then show ?thesis using ends_in_join[of w "map (\<lambda>_. ''..'') bs @ us"] by (auto simp: ends_in_def has_suffix_iff)
  qed
qed


lemma ends_in_last: "ends_in (last (split_on CHR ''/'' d) @ s) (d @ s)"
proof (cases "split_on CHR ''/'' d" rule: rev_cases)
  case (snoc us u)
  have "d = join_with ''/'' (us @ [u])" using join_split[of "CHR ''/''" d] snoc by simp
  then show ?thesis using snoc by (cases "us = []") (auto simp: ends_in_def join_with_snoc)
qed simp

lemma ignore_file_name:
  assumes "path_rel stage (path_join [c, d @ ''.dockerignore'']) = Some rel" "safeName rel"
  shows "has_suffix rel ''.dockerignore''"
proof -
  let ?l = "last (split_on CHR ''/'' d)" and ?w = "last (split_on CHR ''/'' d) @ ''.dockerignore''"
  have "CHR ''/'' \<notin> set ?l" by (rule split_on_no_sep[of _ _ d]) simp
  then have normal: "normal_component ?w"
    unfolding normal_component_def by (cases ?l rule: list.exhaust) auto
  have "has_suffix rel ?w"
    by (rule path_rel_ends[OF assms(1) ends_in_path_join[OF ends_in_last normal] normal assms(2)])
  then show ?thesis by (auto simp: has_suffix_iff)
qed

lemma protect_contexts_names:
  "protect_contexts h stage prv ss seen t = (Inr names, t')
    \<Longrightarrow> set names \<subseteq> set seen \<union> {n. has_suffix n ''.dockerignore''}"
proof (induction h stage prv ss seen t rule: protect_contexts.induct)
  case (2 h stage prv name s ss seen t)
  show ?case
  proof (cases "sx_Build s")
    case None
    then show ?thesis using 2 by simp
  next
    case (Some cd)
    obtain c d where cd: "cd = (c, d)" by (metis prod.exhaust)
    let ?file = "path_join [c, or_default ''Dockerfile'' d @ ''.dockerignore'']"
    obtain rel where rel: "path_rel stage ?file = Some rel" "safeName rel"
      using "2.prems" Some cd by (auto simp: Let_def split: option.splits if_splits)
    have suf: "has_suffix rel ''.dockerignore''" using ignore_file_name[OF rel] .
    show ?thesis
    proof (cases "rel \<in> set seen")
      case True
      then show ?thesis using "2.prems" "2.IH"(2)[OF Some cd[symmetric] refl rel(1)] rel Some cd by (simp add: Let_def)
    next
      case False
      obtain data rules t1 where w: "read_ignore h t rel (path_rel stage (path_join [c, ''.dockerignore''])) = Some data"
        "private_rules c stage prv = Some rules" "write_ignore h rel (ignore_content data (ignore_rules @ rules)) t = Some t1"
        "protect_contexts h stage prv ss (rel # seen) t1 = (Inr names, t')"
        using "2.prems" Some cd rel False by (auto simp: Let_def split: option.splits)
      from "2.IH"(3)[OF Some cd[symmetric] refl rel(1) _ False w] rel(2) suf show ?thesis by auto
    qed
  qed
qed auto

lemma choose_updates_names:
  "choose_updates h prv names us st = (Inr us', st')
    \<Longrightarrow> set us' \<subseteq> set us \<union> {n. \<not> protected n prv \<or> n = ''.env'' \<and> map_of (sw_dest st) n = None}"
proof (induction h prv names us st rule: choose_updates.induct)
  case (2 h prv name names us st)
  show ?case
    using 2 by (auto simp: Let_def lstat_def split: if_splits sum.splits option.splits)
qed simp

lemma check_candidate_names:
  assumes "check_candidate h name plan us st = (Inr us', st')"
  shows "set us' \<subseteq> set us \<union> {n. has_suffix n ''.dockerignore''}"
  using assms unfolding check_candidate_def Let_def
  by (auto split: option.splits prod.splits sum.splits if_splits dest!: protect_contexts_names)

lemma prepare_plan_names:
  assumes "prepare_plan h opts files plan st = (Inr us, st')"
  shows "set us \<subseteq> {n. has_suffix n ''.dockerignore'' \<or> \<not> protected n (sp_private plan)
    \<or> n = ''.env'' \<and> map_of (sw_dest st) n = None}"
  using assms unfolding prepare_plan_def
  by (auto split: if_splits option.splits prod.splits sum.splits
      dest!: choose_updates_names check_candidate_names)

lemma deploy_plan_entries:
  assumes "deploy_plan h opts n plan updates st = (e, st')"
  shows "keeps_entries (set updates) (sw_dest st) (sw_dest st')"
proof -
  let ?P = "\<lambda>a b. keeps_entries (set updates) (sw_dest a) (sw_dest b)"
  have keeps: "keeps_project a b \<Longrightarrow> ?P a b" for a b by (simp add: keeps_project_def)
  have trans: "?P a b \<Longrightarrow> ?P b c \<Longrightarrow> ?P a c" for a b c by (rule keeps_entries_trans)
  have seq: "?P a c" if "and_then f g a = (r, c)" "\<And>a r b. f a = (r, b) \<Longrightarrow> ?P a b"
    "\<And>a r b. g a = (r, b) \<Longrightarrow> ?P a b" for f g :: source_step and a r c
    using that(1) by (cases rule: and_then_cases) (auto intro: that(2,3) trans)
  have main: "?P a b" if "and_then (\<lambda>st. if sp_existing plan then take_snapshot h (so_Name opts) plan updates st else (None, st))
      (and_then (build_candidate h opts plan)
        (and_then (replace_source h plan updates) (start_services h opts plan n))) a = (r, b)" for a r b
    using that
    by (elim seq) (auto split: if_splits intro: keeps take_snapshot_keeps build_candidate_keeps start_services_keeps
        replace_source_entries)
  show ?thesis
    using assms unfolding deploy_plan_def
    by (elim seq) (auto split: prod.splits intro: trans main keeps[OF restart_keeps])
qed


lemma deploy_plan_restarts:
  assumes "deploy_plan h opts n plan updates st = (e, st')" "sw_stopped st = []"
  shows "sw_stopped st' = [] \<or> (\<exists>log. sw_log st' = log @ [compose InProject (so_Name opts) (sp_compose plan) (''start'' # sw_stopped st')]
     \<and> sh_run h log (compose InProject (so_Name opts) (sp_compose plan) (''start'' # sw_stopped st')) = None)"
  using assms unfolding deploy_plan_def
  by (cases rule: and_then_cases)
    (auto simp: restart_def run_source_def split: prod.splits if_splits)


lemma start_services_done:
  assumes "start_services h opts plan n st = (None, st')"
  shows "sr_Healthy (sw_result st')" "sw_stopped st' = []"
  using assms unfolding start_services_def Let_def
  by (auto split: prod.splits option.splits if_splits)

lemma deploy_plan_done:
  assumes "deploy_plan h opts n plan updates st = (None, st')"
  shows "sr_Healthy (sw_result st') \<and> sw_stopped st' = []"
  using assms unfolding deploy_plan_def
proof (cases rule: and_then_cases)
  case (second st0)
  from second(2) obtain st1 where run: "and_then (\<lambda>st. if sp_existing plan then take_snapshot h (so_Name opts) plan updates st else (None, st))
      (and_then (build_candidate h opts plan)
        (and_then (replace_source h plan updates) (start_services h opts plan n))) st0 = (None, st1)"
    and st': "st' = restart h (so_Name opts) (sp_compose plan) st1"
    by (auto split: prod.splits)
  have "sr_Healthy (sw_result st1) \<and> sw_stopped st1 = []"
    using run start_services_done by (elim and_then_cases) auto
  then show ?thesis by (simp add: st' restart_def)
qed simp

text \<open>A deployment does not leave the services it stopped behind: a successful one leaves all services
  running and healthy; one that failed has no stopped service left, or its last command was the
  attempt to start exactly these services, and this command failed.\<close>
theorem Apply_restarts:
  assumes "Apply h opts n input st = (e, st')"
  shows "(e = None \<longrightarrow> sr_Healthy (sw_result st') \<and> sw_stopped st' = [])
    \<and> (sw_stopped st' \<noteq> [] \<longrightarrow> (\<exists>file log.
         sw_log st' = log @ [compose InProject (so_Name opts) file (''start'' # sw_stopped st')]
         \<and> sh_run h log (compose InProject (so_Name opts) file (''start'' # sw_stopped st')) = None))"
  using assms
proof (cases rule: Apply_cases)
  case (deployed files t st2 st3 plan updates d)
  have done_ok: "e = None \<Longrightarrow> sr_Healthy (sw_result st') \<and> sw_stopped st' = []"
    using deploy_plan_done deployed(11) by blast
  show ?thesis
    using done_ok deploy_plan_restarts[OF deployed(11,10)] by blast
qed simp

subsection \<open>Examples\<close>

definition sample_service :: service_model where
  "sample_service = \<lparr>sx_Image = ''app:1'', sx_Labels = [], sx_Build = Some (''/stage'', []), sx_Volumes = [(''volume'', ''data'', False)],
     sx_Privileged = False, sx_NetworkMode = [], sx_PID = [], sx_IPC = [], sx_Devices = [], sx_CapAdd = [], sx_SecurityOpt = []\<rparr>"

definition sample_source_compose :: source_compose where
  "sample_source_compose = \<lparr>so_Include = False,
     so_Services = [(''web'', \<lparr>sv_Env = YamlAbsent, sv_Volumes = VolumesAbsent, sv_Extends = False\<rparr>)],
     so_Secrets = [], so_Configs = []\<rparr>"

definition sample_source_run :: "source_cmd list \<Rightarrow> source_cmd \<Rightarrow> string option" where
  "sample_source_run log c =
     (if c = compose InProject ''shop'' ''compose.yml'' ps_running \<and>
         compose InProject ''shop'' ''compose.yml'' [''stop'', ''--timeout'', ''30'', ''web''] \<notin> set log
      then Some ''web'' else Some [])"

definition sample_source_host :: source_host where
  "sample_source_host = \<lparr>sh_run = sample_source_run,
     sh_model = (\<lambda>_. Some \<lparr>sm_Name = ''shop'', sm_Services = [(''web'', sample_service)]\<rparr>),
     sh_yaml = (\<lambda>_. Some sample_source_compose),
     sh_identity = (\<lambda>_. Some []), sh_environ = [], sh_scan = (\<lambda>_ _. \<lparr>sn_Status = ''checked'', sn_Findings = 0\<rparr>),
     sh_backup = (\<lambda>db t. (Some (''b1'', [(''config'', Directory), (''manifest.json'', Regular 384 [])]), db)),
     sh_sha = (\<lambda>_. ''ab''), sh_gz = (\<lambda>_. GzOk),
     sh_enc = sample_enc,
     sh_dec = (\<lambda>s. if s = [] then Some (sample_manifest\<lparr>mf_Components := []\<rparr>) else sample_dec s),
     sh_images = (\<lambda>_. ''{}''), sh_base = Some ''/srv'', sh_stage_dir = Some ''/stage'', sh_admitted = True, sh_locked = True,
     sh_user = True, sh_absent = False, sh_directory = True, sh_mkdir = True, sh_up = (\<lambda>_. True), sh_now = 5, sh_fresh = ''u5'',
     sh_dst = good_io, sh_stg = good_io, sh_snp = good_io\<rparr>"

definition sample_options :: Options where
  "sample_options = \<lparr>so_Name = ''shop'', so_Domain = ''shop.example'', so_Profile = ''node'', so_Timeout = 60, so_NoCache = False\<rparr>"

definition sample_upload :: "tar_step list" where
  "sample_upload = [TarEntry \<lparr>te_Name = ''compose.yml'', te_Regular = True, te_Size = 3, te_Mode = 420, te_Raw = 512, te_Data = ''new''\<rparr>]"

definition sample_world :: source_world where
  "sample_world = \<lparr>sw_db = registry1, sw_dest = sample_project_tree, sw_stage = [], sw_snap = None, sw_stopped = [], sw_log = [],
     sw_result = \<lparr>sr_BackupID = [], sr_Created = False, sr_Healthy = False\<rparr>\<rparr>"

lemma sample_received:
  "Extract good_io sample_upload [] = (Inr [''compose.yml''], [(''compose.yml'', Regular 420 ''new'')])"
proof -
  have d: "path_dir ''compose.yml'' = ''.''" "safeName ''compose.yml''" "\<not> sensitive ''compose.yml''" by code_simp+
  have m: "mkdir_all good_io ''.'' [] = (None, [])" by code_simp
  show ?thesis
    by (simp add: Extract_def sample_upload_def unsafe_entry_def d m write_entry_def entry_mode_def wrap64_def
        MaxFiles_def MaxArchiveBytes_def good_io_def[THEN arg_cong, of io_bad] al_has_def al_put_def)
qed


lemma sample_protected:
  "Protected (sh_yaml sample_source_host) good_io sample_project_tree = Inr (''compose.yml'', [])"
  "Protected (sh_yaml sample_source_host) good_io [(''compose.yml'', Regular 420 ''new'')] = Inr (''compose.yml'', [])"
proof -
  have f: "find_compose good_io sample_project_tree composeNames None = Inr (Some ''compose.yml'')"
    "find_compose good_io [(''compose.yml'', Regular 420 ''new'')] composeNames None = Inr (Some ''compose.yml'')"
    by code_simp+
  have y: "sh_yaml sample_source_host data = Some sample_source_compose" for data
    by (simp add: sample_source_host_def)
  have c: "compose_paths sample_source_compose = Inr []" by code_simp
  have r: "read_file good_io sample_project_tree ''compose.yml'' = Inr ''services''"
    "read_file good_io [(''compose.yml'', Regular 420 ''new'')] ''compose.yml'' = Inr ''new''" by code_simp+
  show "Protected (sh_yaml sample_source_host) good_io sample_project_tree = Inr (''compose.yml'', [])"
    "Protected (sh_yaml sample_source_host) good_io [(''compose.yml'', Regular 420 ''new'')] = Inr (''compose.yml'', [])"
    by (simp_all add: Protected_def f r y c good_io_def[THEN arg_cong, of io_bad])
qed

lemma Extract_bounded_witness:
  "regular_paths [(''compose.yml'', Regular 420 ''new'')] = {''compose.yml''} \<and> safeName ''compose.yml''"
  using Extract_bounded[OF sample_received] by simp

definition sample_received_world :: source_world where
  "sample_received_world = (fresh_run sample_world)\<lparr>sw_stage := [(''compose.yml'', Regular 420 ''new'')]\<rparr>"

definition sample_plan :: source_plan where
  "sample_plan = \<lparr>sp_compose = ''compose.yml'', sp_private = [], sp_existing = True\<rparr>"

lemma sample_reconciled: "reconcile sample_source_host ''shop'' sample_received_world = Inr sample_plan"
proof -
  have w: "sw_stage sample_received_world = [(''compose.yml'', Regular 420 ''new'')]"
    "sw_dest sample_received_world = sample_project_tree"
    "sh_stg sample_source_host = good_io" "sh_dst sample_source_host = good_io"
    by (simp_all add: sample_received_world_def fresh_run_def sample_world_def sample_source_host_def)
  have i: "validateComposeIdentity sample_source_host good_io [(''compose.yml'', Regular 420 ''new'')] ''compose.yml'' ''shop'' = None"
    "validateComposeIdentity sample_source_host good_io sample_project_tree ''compose.yml'' ''shop'' = None"
    "\<not> list_ex (\<lambda>n. stat_ok good_io [(''compose.yml'', Regular 420 ''new'')] n \<or> stat_ok good_io sample_project_tree n) overrides"
    by code_simp+
  show ?thesis using i(3) by (simp add: reconcile_def w sample_protected i(1,2) sample_plan_def)
qed

definition sample_prepared :: "(source_error + string list) \<times> source_world" where
  "sample_prepared = prepare_plan sample_source_host sample_options [''compose.yml''] sample_plan sample_received_world"

definition sample_deployed :: "source_error option \<times> source_world" where
  "sample_deployed = deploy_plan sample_source_host sample_options 30 sample_plan [''Dockerfile.dockerignore'', ''compose.yml''] (snd sample_prepared)"

text \<open>One evaluation of the preparation and the deployment.\<close>

lemma sample_deployment_facts:
  "(let p = sample_prepared;
        d = deploy_plan sample_source_host sample_options 30 sample_plan [''Dockerfile.dockerignore'', ''compose.yml''] (snd p)
    in (fst p, map_of (sw_dest (snd d)) ''compose.yml'', fst d,
        compose InProject ''shop'' ''compose.yml'' [''stop'', ''--timeout'', ''30'', ''web''] \<in> set (sw_log (snd d))))
    = (Inr [''Dockerfile.dockerignore'', ''compose.yml''], Some (Regular 420 ''new''), None, True)"
  by code_simp

lemmas sample_deployment = sample_deployment_facts[unfolded Let_def, folded sample_deployed_def, unfolded prod.inject eq_True]

lemma sample_prepared_updates: "fst sample_prepared = Inr [''Dockerfile.dockerignore'', ''compose.yml'']"
  using sample_deployment by blast

lemma sample_applied:
  "Apply sample_source_host sample_options 30 sample_upload sample_world = sample_deployed"
proof -
  have reg: "register sample_source_host sample_options (path_join [''/srv'', ''shop'']) (fresh_run sample_world)
      = (None, fresh_run sample_world)"
    by code_simp
  have a: "admit sample_source_host sample_options = None" by code_simp
  have l: "lock_project sample_source_host st = (None, st)" for st
    by (simp add: lock_project_def sample_source_host_def)
  have r: "receive sample_source_host sample_upload (fresh_run sample_world) = (Inr [''compose.yml''], sample_received_world)"
    using sample_received
    by (simp add: receive_def sample_source_host_def RequireClean_def sample_received_world_def)
  have p: "prepare_plan sample_source_host sample_options [''compose.yml''] sample_plan sample_received_world
      = (Inr [''Dockerfile.dockerignore'', ''compose.yml''], snd sample_prepared)"
    using sample_prepared_updates unfolding sample_prepared_def by (metis prod.collapse)
  have n: "so_Name sample_options = ''shop''" "the (sh_base sample_source_host) = ''/srv''"
    by (simp_all add: sample_options_def sample_source_host_def)
  show ?thesis
    by (simp add: Apply_def a n and_then_def[of "register _ _ _"] and_then_def[of "lock_project _"] reg l r
        sample_reconciled p sample_deployed_def)
qed

lemma sample_run:
  "Apply sample_source_host sample_options 30 sample_upload sample_world = (fst sample_deployed, snd sample_deployed)"
  by (simp add: sample_applied)

lemma Apply_guarded_witness:
  "sw_dest (snd sample_deployed) \<noteq> sw_dest sample_world \<and> snapshot_taken sample_source_host (snd sample_deployed)"
proof -
  have changed: "map_of (sw_dest (snd sample_deployed)) ''compose.yml'' = Some (Regular 420 ''new'')" using sample_deployment by blast
  have "map_of (sw_dest sample_world) ''compose.yml'' = Some (Regular 420 ''services'')" by code_simp
  then have ne: "sw_dest (snd sample_deployed) \<noteq> sw_dest sample_world" using changed by auto
  note g = Apply_guarded[OF sample_run ne]
  have d: "sh_dst sample_source_host = good_io" "sw_dest sample_world = sample_project_tree"
    by (simp_all add: sample_source_host_def sample_world_def)
  then show ?thesis using g ne sample_protected(1) by simp
qed


text \<open>The deployment stopped \<open>web\<close>, and its start brought it back.\<close>

lemma Apply_restarts_witness:
  "sw_stopped (snd sample_deployed) = []
    \<and> compose InProject ''shop'' ''compose.yml'' [''stop'', ''--timeout'', ''30'', ''web''] \<in> set (sw_log (snd sample_deployed))"
proof -
  have "fst sample_deployed = None" using sample_deployment by blast
  then have "Apply sample_source_host sample_options 30 sample_upload sample_world = (None, snd sample_deployed)"
    using sample_applied by (metis prod.collapse)
  moreover have "compose InProject ''shop'' ''compose.yml'' [''stop'', ''--timeout'', ''30'', ''web'']
      \<in> set (sw_log (snd sample_deployed))" using sample_deployment by blast
  ultimately show ?thesis using Apply_restarts by blast
qed

end
