(* ===== verification/Server_Auth.thy ===== *)
theory Server_Auth
  imports Server_State
begin

text \<open>
  Who may use the dashboard: \<open>internal/server/server.go\<close> (\<open>requireAuth\<close>, \<open>requirePageAuth\<close>, the login and
  logout handlers), \<open>browser_security.go\<close>, \<open>auth_config.go\<close>, \<open>metrics_auth.go\<close>, \<open>oidc_config.go\<close> and
  \<open>oidc.go\<close>. A handler takes the request, the time and the random tokens it draws and returns its
  answer, the cookies it sets and the new tables. SHA-256, \<open>url.Parse\<close>, \<open>net.ParseIP\<close> and the
  identity provider (token exchange, verified ID token, user info) are parameters; PKCE is the
  verifier handed to the exchange.
\<close>

subsection \<open>Requests\<close>

text \<open>The first value of each header and cookie, the values of the query in order, the certificate of a
  verified client, and the \<open>token\<close> field of the form unless it cannot be parsed.\<close>

record auth_request =
  aq_Method :: string
  aq_Host :: string
  aq_RemoteAddr :: string
  aq_TLS :: bool
  aq_Cert :: "string option"
  aq_Headers :: "(string \<times> string) list"
  aq_Cookies :: "(string \<times> string) list"
  aq_Query :: "(string \<times> string) list"
  aq_Token :: "string option"

record web_url = url +
  wu_Opaque :: string

record oidc_token =
  ot_AccessToken :: string
  ot_TokenType :: string
  ot_IDToken :: "string option"

record id_claims =
  ic_AMR :: "string list"
  ic_AuthTime :: int
  ic_AZP :: string

record id_token =
  it_Subject :: string
  it_Nonce :: string
  it_AccessTokenHash :: string
  it_Audience :: "string list"
  it_IssuedAt :: time
  it_Expiry :: time
  it_Claims :: "id_claims option"

record user_info =
  ui_Subject :: string
  ui_Groups :: "string list option"

record auth_host =
  ah_sha :: "string \<Rightarrow> string"
  ah_url :: "string \<Rightarrow> web_url option"
  ah_ip :: "string \<Rightarrow> bool option"
  ah_proxies :: string
  ah_exchange :: "string \<Rightarrow> string \<Rightarrow> oidc_token option"
  ah_verify :: "string \<Rightarrow> id_token option"
  ah_access_ok :: "id_token \<Rightarrow> string \<Rightarrow> bool"
  ah_userinfo :: "oidc_token \<Rightarrow> user_info option"

definition req_header :: "auth_request \<Rightarrow> string \<Rightarrow> string" where
  "req_header r k = (case map_of (aq_Headers r) k of None \<Rightarrow> [] | Some v \<Rightarrow> v)"

definition query_values :: "auth_request \<Rightarrow> string \<Rightarrow> string list" where
  "query_values r k = map snd (filter (\<lambda>p. fst p = k) (aq_Query r))"

definition query_get :: "auth_request \<Rightarrow> string \<Rightarrow> string" where
  "query_get r k = (case query_values r k of [] \<Rightarrow> [] | v # vs \<Rightarrow> v)"

subsection \<open>Addresses and origins\<close>

text \<open>\<open>net.SplitHostPort\<close>: the host before the last colon, brackets only around an IPv6 address.\<close>

definition index_of :: "char \<Rightarrow> string \<Rightarrow> nat" where
  "index_of c s = length (takeWhile (\<lambda>d. d \<noteq> c) s)"

definition last_index :: "char \<Rightarrow> string \<Rightarrow> nat option" where
  "last_index c s = (if c \<in> set s then Some (length s - Suc (index_of c (rev s))) else None)"

definition SplitHostPort :: "string \<Rightarrow> (string \<times> string) option" where
  "SplitHostPort s =
     (case last_index CHR '':'' s of
        None \<Rightarrow> None
      | Some i \<Rightarrow>
          if has_prefix s ''['' then
            (let close = index_of CHR '']'' s in
             if CHR '']'' \<notin> set s \<or> Suc close \<noteq> i then None
             else if CHR ''['' \<in> set (drop 1 s) \<or> CHR '']'' \<in> set (drop (Suc close) s) then None
             else Some (take (close - 1) (drop 1 s), drop (Suc i) s))
          else
            (let host = take i s in
             if CHR '':'' \<in> set host \<or> CHR ''['' \<in> set s \<or> CHR '']'' \<in> set s then None
             else Some (host, drop (Suc i) s)))"

definition peerIP :: "auth_request \<Rightarrow> string" where
  "peerIP r = (case SplitHostPort (aq_RemoteAddr r) of None \<Rightarrow> aq_RemoteAddr r | Some (host, port) \<Rightarrow> host)"

definition requestHTTPS :: "auth_host \<Rightarrow> auth_request \<Rightarrow> bool" where
  "requestHTTPS h r \<longleftrightarrow> aq_TLS r
     \<or> (isTrustedProxy (ah_proxies h) (peerIP r) \<and> req_header r ''X-Forwarded-Proto'' = ''https'')"

definition forwarded :: "string list" where
  "forwarded = [''Forwarded'', ''X-Forwarded-For'', ''X-Forwarded-Proto'', ''X-Forwarded-Host'']"

definition is_bracket :: "char \<Rightarrow> bool" where
  "is_bracket c \<longleftrightarrow> c = CHR ''['' \<or> c = CHR '']''"

definition directLoopback :: "auth_host \<Rightarrow> auth_request \<Rightarrow> bool" where
  "directLoopback h r \<longleftrightarrow>
     ah_ip h (peerIP r) = Some True
     \<and> list_all (\<lambda>k. req_header r k = []) forwarded
     \<and> (let host0 = (case SplitHostPort (aq_Host r) of None \<Rightarrow> aq_Host r | Some (host, port) \<Rightarrow> host);
            host = rev (dropWhile is_bracket (rev (dropWhile is_bracket host0)))
        in equal_fold host ''localhost'' \<or> ah_ip h host = Some True)"

definition safeTransport :: "auth_host \<Rightarrow> auth_request \<Rightarrow> bool" where
  "safeTransport h r \<longleftrightarrow> requestHTTPS h r \<or> directLoopback h r"

definition sameOrigin :: "auth_host \<Rightarrow> auth_request \<Rightarrow> bool" where
  "sameOrigin h r =
     (case ah_url h (req_header r ''Origin'') of
        None \<Rightarrow> False
      | Some origin \<Rightarrow>
          if url_HasUser origin \<or> url_Host origin = [] \<or> url_Path origin \<noteq> [] \<or> url_RawQuery origin \<noteq> []
             \<or> url_Fragment origin \<noteq> [] then False
          else url_Scheme origin = (if requestHTTPS h r then ''https'' else ''http'')
            \<and> equal_fold (url_Host origin) (aq_Host r))"

definition safeCookieRequest :: "auth_host \<Rightarrow> auth_request \<Rightarrow> bool" where
  "safeCookieRequest h r \<longleftrightarrow> safeTransport h r
     \<and> (aq_Method r \<in> {''GET'', ''HEAD'', ''OPTIONS''} \<or> sameOrigin h r)"

text \<open>The verified TLS peer identifies the device.\<close>

definition requestDevice :: "auth_host \<Rightarrow> auth_request \<Rightarrow> string" where
  "requestDevice h r =
     (if \<not> aq_TLS r then [] else case aq_Cert r of None \<Rightarrow> [] | Some raw \<Rightarrow> ah_sha h raw)"

subsection \<open>Credentials\<close>

definition ValidateAPIToken :: "string \<Rightarrow> bool" where
  "ValidateAPIToken token \<longleftrightarrow> \<not> (length token < 32 \<or> 1024 < length token)
     \<and> list_all (\<lambda>c. CHR ''!'' \<le> c \<and> c \<le> CHR ''~'') token"

definition ValidateDashboardTokens :: "string \<Rightarrow> string \<Rightarrow> bool" where
  "ValidateDashboardTokens admin metrics \<longleftrightarrow> ValidateAPIToken admin
     \<and> (metrics \<noteq> [] \<longrightarrow> ValidateAPIToken metrics \<and> metrics \<noteq> admin)"

text \<open>\<open>url.Hostname\<close>.\<close>

definition url_hostname :: "string \<Rightarrow> string" where
  "url_hostname hp =
     (let host = (case last_index CHR '':'' hp of
                    None \<Rightarrow> hp
                  | Some i \<Rightarrow> if list_all is_digit (drop (Suc i) hp) then take i hp else hp)
      in if has_prefix host ''['' \<and> has_suffix host '']'' then butlast (tl host) else host)"

definition httpsURL :: "auth_host \<Rightarrow> string \<Rightarrow> bool \<Rightarrow> web_url option" where
  "httpsURL h raw originOnly =
     (case ah_url h raw of
        None \<Rightarrow> None
      | Some u \<Rightarrow>
          if url_Scheme u \<noteq> ''https'' \<or> url_hostname (url_Host u) = [] \<or> url_HasUser u \<or> url_RawQuery u \<noteq> []
             \<or> url_Fragment u \<noteq> [] \<or> wu_Opaque u \<noteq> [] \<or> (originOnly \<and> url_Path u \<noteq> [] \<and> url_Path u \<noteq> ''/'')
          then None else Some u)"

definition ValidateDashboardAuth :: "auth_host \<Rightarrow> ServerConfig \<Rightarrow> bool" where
  "ValidateDashboardAuth h cfg =
     (let o' = sc_OIDC cfg in
      if \<not> oidc_Enabled o' then ValidateDashboardTokens (sc_APIToken cfg) (sc_MetricsToken cfg)
      else if httpsURL h (oidc_Issuer o') False = None then False
      else if httpsURL h (oidc_PublicURL o') True = None then False
      else if trim_space (oidc_ClientID o') = [] \<or> trim_space (oidc_AdminGroup o') = []
           \<or> oidc_ClientSecretFile o' = [] then False
      else if oidc_AuthenticationMethod o' \<notin> {[], ''webauthn'', ''hardware'', ''mfa''} then False
      else \<not> (sc_MetricsToken cfg \<noteq> []
           \<and> (\<not> ValidateAPIToken (sc_MetricsToken cfg) \<or> sc_MetricsToken cfg = sc_APIToken cfg)))"


subsection \<open>The tables and the answers\<close>

definition oidcPendingCookie :: string where "oidcPendingCookie = ''__Host-fleetdeck_oidc''"
definition oidcLoginWindow :: duration where "oidcLoginWindow = 5 * minute"
definition oidcSessionLifetime :: duration where "oidcSessionLifetime = 15 * minute"

record oidcPending =
  op_nonce :: string
  op_verifier :: string
  op_device :: string
  op_expires :: time

text \<open>The configured server: its tokens, and the host of the public URL once OIDC is set up.\<close>

record auth_server =
  as_OIDC :: OIDCConfig
  as_apiToken :: string
  as_metricsToken :: string
  as_origin :: "string option"

record auth_state =
  au_sessions :: "string sessions"
  au_pending :: "(string \<times> oidcPending) list"

definition empty_auth :: auth_state where
  "empty_auth = \<lparr>au_sessions = [], au_pending = []\<rparr>"

datatype auth_answer =
    Refused nat string
  | NextHandler
  | RedirectTo nat string
  | PageHtml nat

record set_cookie =
  sc_Name :: string
  sc_Value :: string
  sc_Delete :: bool
  sc_Secure :: bool

type_synonym auth_result = "auth_answer \<times> set_cookie list \<times> auth_state"

definition answer :: "auth_answer \<Rightarrow> auth_state \<Rightarrow> auth_result" where
  "answer a st = (a, [], st)"

definition sessionCookieName :: "auth_server \<Rightarrow> string" where
  "sessionCookieName srv =
     (if oidc_Enabled (as_OIDC srv) then ''__Host-fleetdeck_session'' else ''fleetdeck_session'')"

definition oidcRequestAllowed :: "auth_host \<Rightarrow> auth_server \<Rightarrow> auth_request \<Rightarrow> bool" where
  "oidcRequestAllowed h srv r =
     (case as_origin srv of None \<Rightarrow> False
      | Some origin \<Rightarrow> requestHTTPS h r \<and> equal_fold (aq_Host r) origin)"

text \<open>The first check of every protected route.\<close>

definition configured :: "auth_host \<Rightarrow> auth_server \<Rightarrow> auth_request \<Rightarrow> auth_answer option" where
  "configured h srv r =
     (if oidc_Enabled (as_OIDC srv) then
        (if \<not> oidcRequestAllowed h srv r then Some (Refused 403 ''use the configured HTTPS dashboard address'') else None)
      else if as_apiToken srv = [] then Some (Refused 503 ''dashboard authentication is not configured'')
      else None)"

text \<open>A session cookie: \<open>None\<close> when it does not open a session.\<close>

definition cookie_access ::
  "auth_host \<Rightarrow> auth_server \<Rightarrow> time \<Rightarrow> auth_request \<Rightarrow> auth_state \<Rightarrow> auth_answer option \<times> auth_state" where
  "cookie_access h srv now r st =
     (case map_of (aq_Cookies r) (sessionCookieName srv) of
        None \<Rightarrow> (None, st)
      | Some cookie \<Rightarrow>
          (case validSession (ah_sha h) now cookie (requestDevice h r) (oidc_Enabled (as_OIDC srv)) (au_sessions st) of
             (False, s) \<Rightarrow> (None, st\<lparr>au_sessions := s\<rparr>)
           | (True, s) \<Rightarrow>
               (Some (if \<not> safeCookieRequest h r then Refused 403 ''invalid browser request origin or transport''
                      else NextHandler), st\<lparr>au_sessions := s\<rparr>)))"

definition bearer :: "auth_request \<Rightarrow> string option" where
  "bearer r =
     (if has_prefix (req_header r ''Authorization'') ''Bearer ''
      then Some (trim_prefix (req_header r ''Authorization'') ''Bearer '') else None)"

definition requireAuth :: "auth_host \<Rightarrow> auth_server \<Rightarrow> time \<Rightarrow> auth_request \<Rightarrow> auth_state \<Rightarrow> auth_result" where
  "requireAuth h srv now r st =
     (case configured h srv r of
        Some a \<Rightarrow> answer a st
      | None \<Rightarrow>
          if \<not> safeTransport h r then answer (Refused 403 ''HTTPS or direct loopback access is required'') st
          else if \<not> oidc_Enabled (as_OIDC srv) \<and> bearer r = Some (as_apiToken srv) then answer NextHandler st
          else case cookie_access h srv now r st of
            (Some a, st1) \<Rightarrow> answer a st1
          | (None, st1) \<Rightarrow> answer (Refused 401 ''unauthorized: provide Bearer token or login via dashboard'') st1)"

definition requirePageAuth :: "auth_host \<Rightarrow> auth_server \<Rightarrow> time \<Rightarrow> auth_request \<Rightarrow> auth_state \<Rightarrow> auth_result" where
  "requirePageAuth h srv now r st =
     (case configured h srv r of
        Some a \<Rightarrow> answer a st
      | None \<Rightarrow>
          (case cookie_access h srv now r st of
             (Some a, st1) \<Rightarrow> answer a st1
           | (None, st1) \<Rightarrow> answer (RedirectTo 302 ''/login'') st1))"

definition metrics_token_valid :: "auth_server \<Rightarrow> bool" where
  "metrics_token_valid srv =
     (if oidc_Enabled (as_OIDC srv) then ValidateAPIToken (as_metricsToken srv) \<and> as_metricsToken srv \<noteq> as_apiToken srv
      else ValidateDashboardTokens (as_apiToken srv) (as_metricsToken srv))"

definition requireMetricsAuth :: "auth_host \<Rightarrow> auth_server \<Rightarrow> time \<Rightarrow> auth_request \<Rightarrow> auth_state \<Rightarrow> auth_result" where
  "requireMetricsAuth h srv now r st =
     (if as_metricsToken srv \<noteq> [] \<and> metrics_token_valid srv \<and> bearer r = Some (as_metricsToken srv) then
        (if \<not> safeTransport h r then answer (Refused 403 ''HTTPS or direct loopback access is required'') st
         else answer NextHandler st)
      else requireAuth h srv now r st)"

subsection \<open>Signing in with the token\<close>

definition revoke_cookie :: "auth_host \<Rightarrow> auth_request \<Rightarrow> string \<Rightarrow> string sessions \<Rightarrow> string sessions" where
  "revoke_cookie h r name s =
     (case map_of (aq_Cookies r) name of None \<Rightarrow> s | Some c \<Rightarrow> revoke (ah_sha h) c s)"

definition cookie_secure :: "auth_host \<Rightarrow> auth_request \<Rightarrow> bool" where
  "cookie_secure h r \<longleftrightarrow> \<not> directLoopback h r \<or> requestHTTPS h r"

text \<open>\<open>tok\<close> is the random token the session store draws.\<close>

definition handleLoginSubmit ::
  "auth_host \<Rightarrow> auth_server \<Rightarrow> string option \<Rightarrow> time \<Rightarrow> auth_request \<Rightarrow> auth_state \<Rightarrow> auth_result" where
  "handleLoginSubmit h srv tok now r st =
     (if oidc_Enabled (as_OIDC srv) then answer (Refused 403 ''token login is disabled; sign in through Authelia'') st
      else if \<not> safeTransport h r \<or> (req_header r ''Origin'' \<noteq> [] \<and> \<not> sameOrigin h r)
      then answer (Refused 403 ''HTTPS or direct loopback access with a matching origin is required'') st
      else case aq_Token r of
        None \<Rightarrow> answer (Refused 400 ''invalid form data'') st
      | Some token \<Rightarrow>
          if as_apiToken srv \<noteq> [] \<and> token = as_apiToken srv then
            (case createForDevice (ah_sha h) tok now (requestDevice h r) (au_sessions st) of
               (Inl e, s) \<Rightarrow> answer (Refused 503 ''unable to create session'') (st\<lparr>au_sessions := s\<rparr>)
             | (Inr session, s) \<Rightarrow>
                 (RedirectTo 302 ''/'',
                  [\<lparr>sc_Name = ''fleetdeck_session'', sc_Value = session, sc_Delete = False, sc_Secure = cookie_secure h r\<rparr>],
                  st\<lparr>au_sessions := revoke_cookie h r ''fleetdeck_session'' s\<rparr>))
          else answer (PageHtml 401) st)"

definition handleLogout :: "auth_host \<Rightarrow> auth_server \<Rightarrow> auth_request \<Rightarrow> auth_state \<Rightarrow> auth_result" where
  "handleLogout h srv r st =
     (if oidc_Enabled (as_OIDC srv) then PageHtml 200 else RedirectTo 303 ''/login'',
      [\<lparr>sc_Name = sessionCookieName srv, sc_Value = [], sc_Delete = True, sc_Secure = cookie_secure h r\<rparr>],
      st\<lparr>au_sessions := revoke_cookie h r (sessionCookieName srv) (au_sessions st)\<rparr>)"

text \<open>The route \<open>POST /logout\<close>.\<close>

definition logout_route :: "auth_host \<Rightarrow> auth_server \<Rightarrow> time \<Rightarrow> auth_request \<Rightarrow> auth_state \<Rightarrow> auth_result" where
  "logout_route h srv now r st =
     (case requireAuth h srv now r st of
        (NextHandler, cs, st1) \<Rightarrow> handleLogout h srv r st1
      | refused \<Rightarrow> refused)"

subsection \<open>Signing in with the identity provider\<close>

text \<open>\<open>state\<close>, \<open>nonce\<close> and \<open>verifier\<close> are the random values drawn; the first two may fail.\<close>

definition beginOIDC ::
  "auth_host \<Rightarrow> auth_server \<Rightarrow> string option \<Rightarrow> string option \<Rightarrow> string \<Rightarrow> time \<Rightarrow> auth_request \<Rightarrow> auth_state \<Rightarrow> auth_result" where
  "beginOIDC h srv state nonce verifier now r st =
     (if \<not> oidcRequestAllowed h srv r then answer (Refused 403 ''use the configured HTTPS dashboard address'') st
      else case state of
        None \<Rightarrow> answer (Refused 503 ''login unavailable'') st
      | Some sv \<Rightarrow>
          (case nonce of
             None \<Rightarrow> answer (Refused 503 ''login unavailable'') st
           | Some n \<Rightarrow>
               let p = \<lparr>op_nonce = n, op_verifier = verifier, op_device = requestDevice h r,
                        op_expires = now + oidcLoginWindow\<rparr>;
                   swept = al_sweep (\<lambda>q. now < op_expires q) (au_pending st)
               in if maxSessions \<le> length swept
                  then answer (Refused 503 ''too many pending logins'') (st\<lparr>au_pending := swept\<rparr>)
                  else (RedirectTo 302 ''authorize'',
                        [\<lparr>sc_Name = oidcPendingCookie, sc_Value = sv, sc_Delete = False, sc_Secure = True\<rparr>],
                        st\<lparr>au_pending := al_put (ah_sha h sv) p swept\<rparr>)))"

definition handleLogin ::
  "auth_host \<Rightarrow> auth_server \<Rightarrow> string option \<Rightarrow> string option \<Rightarrow> string \<Rightarrow> time \<Rightarrow> auth_request \<Rightarrow> auth_state \<Rightarrow> auth_result" where
  "handleLogin h srv state nonce verifier now r st =
     (if oidc_Enabled (as_OIDC srv) then beginOIDC h srv state nonce verifier now r st
      else if \<not> safeTransport h r
      then answer (Refused 403 ''open the dashboard over HTTPS or direct loopback before signing in'') st
      else answer (PageHtml 200) st)"

definition allowedAMR :: "string list \<Rightarrow> string \<Rightarrow> bool" where
  "allowedAMR amr meth =
     (if ''mfa'' \<notin> set amr \<or> ''pwd'' \<notin> set amr then False
      else if meth = ''mfa'' then True
      else if meth = ''hardware'' then ''hwk'' \<in> set amr
      else if meth = [] \<or> meth = ''webauthn'' then ''hwk'' \<in> set amr \<or> ''swk'' \<in> set amr
      else False)"

definition check_claims :: "OIDCConfig \<Rightarrow> time \<Rightarrow> id_token \<Rightarrow> id_claims \<Rightarrow> string option" where
  "check_claims settings now i c =
     first_error
       [(\<not> allowedAMR (ic_AMR c) (oidc_AuthenticationMethod settings), ''authentication_factors''),
        ((ic_AZP c \<noteq> [] \<and> ic_AZP c \<noteq> oidc_ClientID settings)
           \<or> (1 < length (it_Audience i) \<and> ic_AZP c \<noteq> oidc_ClientID settings), ''authorized_party''),
        (ic_AuthTime c = 0 \<or> now + 30 * second < ic_AuthTime c * second
           \<or> oidcLoginWindow < now - ic_AuthTime c * second \<or> now + 30 * second < it_IssuedAt i, ''authentication_age'')]"

definition check_id_token :: "auth_host \<Rightarrow> OIDCConfig \<Rightarrow> time \<Rightarrow> oidcPending \<Rightarrow> oidc_token \<Rightarrow> id_token \<Rightarrow> string option" where
  "check_id_token h settings now p token i =
     (if it_Subject i = [] then Some ''id_subject''
      else if it_Nonce i \<noteq> op_nonce p then Some ''nonce''
      else if it_AccessTokenHash i \<noteq> [] \<and> \<not> ah_access_ok h i (ot_AccessToken token) then Some ''access_token_hash''
      else case it_Claims i of
        None \<Rightarrow> Some ''id_claims''
      | Some c \<Rightarrow> check_claims settings now i c)"

definition check_user :: "OIDCConfig \<Rightarrow> id_token \<Rightarrow> user_info \<Rightarrow> string + string list" where
  "check_user settings i info =
     (if ui_Subject info \<noteq> it_Subject i then Inl ''userinfo_subject''
      else case ui_Groups info of
        None \<Rightarrow> Inl ''userinfo_claims''
      | Some groups \<Rightarrow>
          if oidc_AdminGroup settings \<notin> set groups then Inl ''admin_group''
          else if 256 < length groups then Inl ''group_limits''
          else if list_ex (\<lambda>g. 100 < length g) groups then Inl ''group_limits''
          else Inr groups)"

text \<open>From the authorization code to the verified identity.\<close>

definition check_identity ::
  "auth_host \<Rightarrow> OIDCConfig \<Rightarrow> time \<Rightarrow> oidcPending \<Rightarrow> string \<Rightarrow> string + (id_token \<times> string list)" where
  "check_identity h settings now p code =
     (case ah_exchange h code (op_verifier p) of
        None \<Rightarrow> Inl ''token_exchange''
      | Some token \<Rightarrow>
          if ot_AccessToken token = [] \<or> \<not> equal_fold (ot_TokenType token) ''Bearer'' then Inl ''token_response''
          else case ot_IDToken token of
            None \<Rightarrow> Inl ''id_token_missing''
          | Some raw \<Rightarrow>
              (case ah_verify h raw of
                 None \<Rightarrow> Inl ''id_token_verification''
               | Some i \<Rightarrow>
                   (case check_id_token h settings now p token i of
                      Some reason \<Rightarrow> Inl reason
                    | None \<Rightarrow>
                        (case ah_userinfo h token of
                           None \<Rightarrow> Inl ''userinfo_response''
                         | Some info \<Rightarrow> map_sum (\<lambda>e. e) (Pair i) (check_user settings i info)))))"

definition fail :: "string \<Rightarrow> auth_answer" where
  "fail reason = Refused 401 reason"

definition pending_cookie_gone :: set_cookie where
  "pending_cookie_gone = \<lparr>sc_Name = oidcPendingCookie, sc_Value = [], sc_Delete = True, sc_Secure = True\<rparr>"

text \<open>The pending login a callback answers, if the callback may use it at all.\<close>

definition callback_pending :: "auth_host \<Rightarrow> time \<Rightarrow> auth_request \<Rightarrow> oidcPending option \<Rightarrow> string + oidcPending \<times> string" where
  "callback_pending h now r found =
     (case found of
        None \<Rightarrow> Inl ''pending_missing''
      | Some p \<Rightarrow>
          if \<not> now < op_expires p then Inl ''pending_expired''
          else if op_device p \<noteq> requestDevice h r then Inl ''device_binding''
          else if query_get r ''error'' \<noteq> [] then Inl ''provider_error''
          else if length (query_values r ''code'') \<noteq> 1 \<or> query_get r ''code'' = [] then Inl ''authorization_code''
          else Inr (p, query_get r ''code''))"

definition completeOIDC ::
  "auth_host \<Rightarrow> auth_server \<Rightarrow> string option \<Rightarrow> time \<Rightarrow> auth_request \<Rightarrow> auth_state \<Rightarrow> auth_result" where
  "completeOIDC h srv tok now r st =
     (if \<not> oidc_Enabled (as_OIDC srv) \<or> \<not> oidcRequestAllowed h srv r then answer (fail ''request_origin'') st
      else
        let state = query_get r ''state'' in
        if length state \<noteq> 64 \<or> map_of (aq_Cookies r) oidcPendingCookie \<noteq> Some state
           \<or> length (query_values r ''state'') \<noteq> 1 then answer (fail ''state_cookie'') st
        else
          let key = ah_sha h state; st1 = st\<lparr>au_pending := al_del key (au_pending st)\<rparr> in
          case callback_pending h now r (map_of (au_pending st) key) of
            Inl reason \<Rightarrow> (fail reason, [pending_cookie_gone], st1)
          | Inr (p, code) \<Rightarrow>
              (case check_identity h (as_OIDC srv) now p code of
                 Inl reason \<Rightarrow> (fail reason, [pending_cookie_gone], st1)
               | Inr (i, groups) \<Rightarrow>
                   (case createIdentityGroups (ah_sha h) tok now (requestDevice h r) (it_Subject i) groups
                       (min (now + oidcSessionLifetime) (it_Expiry i)) (au_sessions st1) of
                      (Inl e, s) \<Rightarrow>
                        (Refused 503 ''unable to create session'', [pending_cookie_gone], st1\<lparr>au_sessions := s\<rparr>)
                    | (Inr session, s) \<Rightarrow>
                        (RedirectTo 303 ''/'',
                         [pending_cookie_gone,
                          \<lparr>sc_Name = sessionCookieName srv, sc_Value = session, sc_Delete = False, sc_Secure = True\<rparr>],
                         st1\<lparr>au_sessions := revoke_cookie h r (sessionCookieName srv) s\<rparr>))))"

subsection \<open>A run of the server\<close>

datatype auth_op =
    ApiRoute
  | PageRoute
  | MetricsRoute
  | LoginRoute "string option" "string option" string
  | SubmitRoute "string option"
  | CallbackRoute "string option"
  | LogoutRoute

record auth_event =
  ae_now :: time
  ae_op :: auth_op
  ae_req :: auth_request

definition auth_step :: "auth_host \<Rightarrow> auth_server \<Rightarrow> auth_event \<Rightarrow> auth_state \<Rightarrow> auth_result" where
  "auth_step h srv ev st =
     (case ae_op ev of
        ApiRoute \<Rightarrow> requireAuth h srv (ae_now ev) (ae_req ev) st
      | PageRoute \<Rightarrow> requirePageAuth h srv (ae_now ev) (ae_req ev) st
      | MetricsRoute \<Rightarrow> requireMetricsAuth h srv (ae_now ev) (ae_req ev) st
      | LoginRoute state nonce verifier \<Rightarrow> handleLogin h srv state nonce verifier (ae_now ev) (ae_req ev) st
      | SubmitRoute tok \<Rightarrow> handleLoginSubmit h srv tok (ae_now ev) (ae_req ev) st
      | CallbackRoute tok \<Rightarrow> completeOIDC h srv tok (ae_now ev) (ae_req ev) st
      | LogoutRoute \<Rightarrow> logout_route h srv (ae_now ev) (ae_req ev) st)"

type_synonym auth_trace = "(auth_event \<times> auth_answer) list"

text \<open>The events handled so far with their answers, and the tables.\<close>

definition auth_next :: "auth_host \<Rightarrow> auth_server \<Rightarrow> auth_event \<Rightarrow> auth_trace \<times> auth_state \<Rightarrow> auth_trace \<times> auth_state" where
  "auth_next h srv ev x = (case auth_step h srv ev (snd x) of (a, cs, st) \<Rightarrow> (fst x @ [(ev, a)], st))"

definition auth_run :: "auth_host \<Rightarrow> auth_server \<Rightarrow> auth_event list \<Rightarrow> auth_trace \<times> auth_state" where
  "auth_run h srv evs = fold (auth_next h srv) evs ([], empty_auth)"

end
