(* ===== verification/Server_Access.thy ===== *)
theory Server_Access
  imports Server_Auth
begin

text \<open>
  What the dashboard's authentication guarantees over every run of the server: a request reaches a
  protected handler only with the configured token or with a session that an earlier sign-in
  issued to the same device, which has not expired and was not signed out since.
\<close>

subsection \<open>Where sessions and pending logins come from\<close>

definition token_login :: "auth_server \<Rightarrow> auth_event \<Rightarrow> auth_answer \<Rightarrow> string \<Rightarrow> bool" where
  "token_login srv ev a tok \<longleftrightarrow>
     ae_op ev = SubmitRoute (Some tok) \<and> a = RedirectTo 302 ''/'' \<and> \<not> oidc_Enabled (as_OIDC srv)
     \<and> as_apiToken srv \<noteq> [] \<and> aq_Token (ae_req ev) = Some (as_apiToken srv)"

text \<open>A callback that answered the pending login \<open>p\<close> with a verified identity.\<close>

definition callback_login ::
  "auth_host \<Rightarrow> auth_server \<Rightarrow> oidcPending \<Rightarrow> auth_event \<Rightarrow> auth_answer \<Rightarrow> string \<Rightarrow> bool" where
  "callback_login h srv p ev a tok \<longleftrightarrow>
     ae_op ev = CallbackRoute (Some tok) \<and> a = RedirectTo 303 ''/'' \<and> oidc_Enabled (as_OIDC srv)
     \<and> ae_now ev < op_expires p \<and> op_device p = requestDevice h (ae_req ev)
     \<and> map_of (aq_Cookies (ae_req ev)) oidcPendingCookie = Some (query_get (ae_req ev) ''state'')
     \<and> (\<exists>code i groups. check_identity h (as_OIDC srv) (ae_now ev) p code = Inr (i, groups))"

definition login_begun :: "auth_host \<Rightarrow> auth_event \<Rightarrow> auth_answer \<Rightarrow> string \<Rightarrow> oidcPending \<Rightarrow> bool" where
  "login_begun h ev a k p \<longleftrightarrow>
     (\<exists>s n v. ae_op ev = LoginRoute (Some s) (Some n) v \<and> a = RedirectTo 302 ''authorize'' \<and> ah_sha h s = k
        \<and> p = \<lparr>op_nonce = n, op_verifier = v, op_device = requestDevice h (ae_req ev),
               op_expires = ae_now ev + oidcLoginWindow\<rparr>)"

definition signs_out :: "auth_host \<Rightarrow> auth_server \<Rightarrow> string \<Rightarrow> auth_event \<times> auth_answer \<Rightarrow> bool" where
  "signs_out h srv k x \<longleftrightarrow>
     ae_op (fst x) = LogoutRoute \<and> snd x \<in> {PageHtml 200, RedirectTo 303 ''/login''}
     \<and> (\<exists>c. map_of (aq_Cookies (ae_req (fst x))) (sessionCookieName srv) = Some c \<and> ah_sha h c = k)"

definition uses_state :: "auth_host \<Rightarrow> string \<Rightarrow> auth_event \<times> auth_answer \<Rightarrow> bool" where
  "uses_state h k x \<longleftrightarrow>
     (\<exists>tok. ae_op (fst x) = CallbackRoute tok) \<and> snd x = RedirectTo 303 ''/''
     \<and> ah_sha h (query_get (ae_req (fst x)) ''state'') = k"

text \<open>The same, looked up in the events so far.\<close>

definition pending_source :: "auth_host \<Rightarrow> auth_trace \<Rightarrow> string \<Rightarrow> oidcPending \<Rightarrow> bool" where
  "pending_source h tr k p \<longleftrightarrow>
     (\<exists>before_e ev a after_e. tr = before_e @ (ev, a) # after_e \<and> login_begun h ev a k p
        \<and> (\<forall>x \<in> set after_e. \<not> uses_state h k x))"

definition identity_login ::
  "auth_host \<Rightarrow> auth_server \<Rightarrow> auth_trace \<Rightarrow> auth_event \<Rightarrow> auth_answer \<Rightarrow> string \<Rightarrow> bool" where
  "identity_login h srv tr ev a tok \<longleftrightarrow>
     (\<exists>p. callback_login h srv p ev a tok \<and> pending_source h tr (ah_sha h (query_get (ae_req ev) ''state'')) p)"

definition session_source :: "auth_host \<Rightarrow> auth_server \<Rightarrow> auth_trace \<Rightarrow> string \<Rightarrow> sessionEntry \<Rightarrow> bool" where
  "session_source h srv tr k e \<longleftrightarrow>
     (\<exists>before_e ev a after_e tok. tr = before_e @ (ev, a) # after_e \<and> ah_sha h tok = k
        \<and> se_device e = requestDevice h (ae_req ev)
        \<and> (token_login srv ev a tok \<and> se_expires e = ae_now ev + sessionLifetime
           \<or> identity_login h srv before_e ev a tok \<and> se_expires e \<le> ae_now ev + oidcSessionLifetime)
        \<and> (\<forall>x \<in> set after_e. \<not> signs_out h srv k x))"

subsection \<open>One step\<close>

lemma map_of_revoke_cookie:
  "map_of (revoke_cookie h r name s) k = Some e \<Longrightarrow>
     map_of s k = Some e \<and> (\<forall>c. map_of (aq_Cookies r) name = Some c \<longrightarrow> ah_sha h c \<noteq> k)"
  by (auto simp: revoke_cookie_def revoke_def store_simps split: option.splits if_splits)

lemma map_of_validSession:
  "validSession h now t d req s = (b, s') \<Longrightarrow> map_of s' k = Some e \<Longrightarrow> map_of s k = Some e"
  by (auto simp: validSession_def store_simps split: if_splits option.splits)

lemma map_of_create:
  assumes "createIdentityGroups h tok now d u g x s = (r, s')" "map_of s' k = Some e" "al_wf s"
  shows "map_of s k = Some e
    \<or> (\<exists>t. r = Inr t \<and> tok = Some t \<and> h t = k \<and> e = \<lparr>se_expires = x, se_device = d, se_subject = u, se_groups = g\<rparr>)"
  using assms
  by (auto simp: createIdentityGroups_def Let_def store_simps map_of_sweep split: option.splits if_splits)

lemma cookie_access_sessions:
  "cookie_access h srv now r st = (b, st') \<Longrightarrow> map_of (au_sessions st') k = Some e \<Longrightarrow> map_of (au_sessions st) k = Some e"
  by (auto simp: cookie_access_def split: option.splits prod.splits bool.splits dest: map_of_validSession)

lemma requireAuth_sessions:
  "requireAuth h srv now r st = (a, cs, st') \<Longrightarrow> map_of (au_sessions st') k = Some e \<Longrightarrow> map_of (au_sessions st) k = Some e"
  by (auto simp: requireAuth_def answer_def split: option.splits if_splits prod.splits dest: cookie_access_sessions)

lemma requirePageAuth_sessions:
  "requirePageAuth h srv now r st = (a, cs, st') \<Longrightarrow> map_of (au_sessions st') k = Some e \<Longrightarrow> map_of (au_sessions st) k = Some e"
  by (auto simp: requirePageAuth_def answer_def split: option.splits if_splits prod.splits dest: cookie_access_sessions)

lemma requireMetricsAuth_sessions:
  "requireMetricsAuth h srv now r st = (a, cs, st') \<Longrightarrow> map_of (au_sessions st') k = Some e
    \<Longrightarrow> map_of (au_sessions st) k = Some e"
  by (auto simp: requireMetricsAuth_def answer_def split: if_splits dest: requireAuth_sessions)

lemma handleLogin_sessions:
  "handleLogin h srv s n v now r st = (a, cs, st') \<Longrightarrow> au_sessions st' = au_sessions st"
  by (auto simp: handleLogin_def beginOIDC_def answer_def Let_def split: if_splits option.splits)

lemma submit_sessions:
  assumes "handleLoginSubmit h srv tok now r st = (a, cs, st')" "map_of (au_sessions st') k = Some e"
    "al_wf (au_sessions st)"
  shows "map_of (au_sessions st) k = Some e
    \<or> (\<exists>t. tok = Some t \<and> ah_sha h t = k \<and> a = RedirectTo 302 ''/'' \<and> \<not> oidc_Enabled (as_OIDC srv)
        \<and> as_apiToken srv \<noteq> [] \<and> aq_Token r = Some (as_apiToken srv)
        \<and> se_device e = requestDevice h r \<and> se_expires e = now + sessionLifetime)"
  using assms
  by (auto simp: handleLoginSubmit_def answer_def createForDevice_def split: if_splits option.splits prod.splits sum.splits
      dest!: map_of_revoke_cookie map_of_create)

lemma callback_sessions:
  assumes "completeOIDC h srv tok now r st = (a, cs, st')" "map_of (au_sessions st') k = Some e"
    "al_wf (au_sessions st)"
  shows "map_of (au_sessions st) k = Some e
    \<or> (\<exists>t p code i groups. tok = Some t \<and> ah_sha h t = k \<and> a = RedirectTo 303 ''/'' \<and> oidc_Enabled (as_OIDC srv)
        \<and> map_of (au_pending st) (ah_sha h (query_get r ''state'')) = Some p
        \<and> now < op_expires p \<and> op_device p = requestDevice h r
        \<and> map_of (aq_Cookies r) oidcPendingCookie = Some (query_get r ''state'')
        \<and> check_identity h (as_OIDC srv) now p code = Inr (i, groups)
        \<and> se_device e = requestDevice h r \<and> se_expires e \<le> now + oidcSessionLifetime)"
proof (cases "callback_pending h now r (map_of (au_pending st) (ah_sha h (query_get r ''state'')))")
  case (Inl reason)
  then show ?thesis
    using assms by (auto simp: completeOIDC_def answer_def Let_def split: if_splits)
next
  case (Inr pc)
  obtain p code where pc: "pc = (p, code)" by (metis prod.exhaust)
  have p: "map_of (au_pending st) (ah_sha h (query_get r ''state'')) = Some p" "now < op_expires p"
    "op_device p = requestDevice h r"
    using Inr pc by (auto simp: callback_pending_def split: option.splits if_splits)
  show ?thesis
  proof (cases "check_identity h (as_OIDC srv) now p code")
    case (Inl reason)
    then show ?thesis
      using assms Inr pc by (auto simp: completeOIDC_def answer_def Let_def split: if_splits)
  next
    case id: (Inr ig)
    obtain i groups where ig: "ig = (i, groups)" by (metis prod.exhaust)
    show ?thesis
      using assms Inr pc id ig p
      by (auto simp: completeOIDC_def answer_def Let_def split: if_splits prod.splits sum.splits
          dest!: map_of_revoke_cookie map_of_create)
  qed
qed


lemma logout_sessions:
  assumes "logout_route h srv now r st = (a, cs, st')" "map_of (au_sessions st') k = Some e"
  shows "map_of (au_sessions st) k = Some e
    \<and> (a \<in> {PageHtml 200, RedirectTo 303 ''/login''} \<longrightarrow>
         (\<forall>c. map_of (aq_Cookies r) (sessionCookieName srv) = Some c \<longrightarrow> ah_sha h c \<noteq> k))"
proof -
  obtain a1 cs1 st1 where one: "requireAuth h srv now r st = (a1, cs1, st1)" by (metis prod.exhaust)
  have sub: "map_of (au_sessions st1) k = Some e \<Longrightarrow> map_of (au_sessions st) k = Some e"
    using requireAuth_sessions[OF one] .
  show ?thesis
  proof (cases "a1 = NextHandler")
    case True
    then have "a1 = NextHandler \<and> handleLogout h srv r st1 = (a, cs, st')" using assms(1) one by (simp add: logout_route_def)
    then show ?thesis using assms(2) sub by (auto simp: handleLogout_def dest!: map_of_revoke_cookie)
  next
    case False
    then have same: "(a, cs, st') = (a1, cs1, st1)"
      using assms(1) one by (cases a1) (auto simp: logout_route_def)
    have "a1 \<notin> {PageHtml 200, RedirectTo 303 ''/login''}"
      using one by (auto simp: requireAuth_def answer_def configured_def cookie_access_def
          split: option.splits if_splits prod.splits bool.splits)
    with same sub assms(2) show ?thesis by simp
  qed
qed

text \<open>A session after a step was there before and not signed out, or a sign-in put it there.\<close>

lemma step_sessions:
  assumes step: "auth_step h srv ev st = (a, cs, st')" and e: "map_of (au_sessions st') k = Some e"
    and wf: "al_wf (au_sessions st)"
  shows "map_of (au_sessions st) k = Some e \<and> \<not> signs_out h srv k (ev, a)
    \<or> (\<exists>tok. ah_sha h tok = k \<and> se_device e = requestDevice h (ae_req ev)
        \<and> (token_login srv ev a tok \<and> se_expires e = ae_now ev + sessionLifetime
           \<or> (\<exists>p. map_of (au_pending st) (ah_sha h (query_get (ae_req ev) ''state'')) = Some p
               \<and> callback_login h srv p ev a tok \<and> se_expires e \<le> ae_now ev + oidcSessionLifetime)))"
proof (cases "ae_op ev")
  case ApiRoute
  then show ?thesis using step e by (auto simp: auth_step_def signs_out_def dest: requireAuth_sessions)
next
  case PageRoute
  then show ?thesis using step e by (auto simp: auth_step_def signs_out_def dest: requirePageAuth_sessions)
next
  case MetricsRoute
  then show ?thesis using step e by (auto simp: auth_step_def signs_out_def dest: requireMetricsAuth_sessions)
next
  case (LoginRoute s n v)
  then show ?thesis using step e by (auto simp: auth_step_def signs_out_def dest: handleLogin_sessions)
next
  case (SubmitRoute tok)
  then have "handleLoginSubmit h srv tok (ae_now ev) (ae_req ev) st = (a, cs, st')" using step by (simp add: auth_step_def)
  from submit_sessions[OF this e wf] SubmitRoute show ?thesis by (auto simp: signs_out_def token_login_def)
next
  case (CallbackRoute tok)
  then have "completeOIDC h srv tok (ae_now ev) (ae_req ev) st = (a, cs, st')" using step by (simp add: auth_step_def)
  from callback_sessions[OF this e wf] show ?thesis
  proof (elim disjE exE conjE)
    assume "map_of (au_sessions st) k = Some e"
    then show ?thesis using CallbackRoute by (simp add: signs_out_def)
  next
    fix t p code i groups
    assume a: "tok = Some t" "ah_sha h t = k" "a = RedirectTo 303 ''/''" "oidc_Enabled (as_OIDC srv)"
      "map_of (au_pending st) (ah_sha h (query_get (ae_req ev) ''state'')) = Some p" "ae_now ev < op_expires p"
      "op_device p = requestDevice h (ae_req ev)"
      "map_of (aq_Cookies (ae_req ev)) oidcPendingCookie = Some (query_get (ae_req ev) ''state'')"
      "check_identity h (as_OIDC srv) (ae_now ev) p code = Inr (i, groups)"
      "se_device e = requestDevice h (ae_req ev)" "se_expires e \<le> ae_now ev + oidcSessionLifetime"
    then have "callback_login h srv p ev a t" using CallbackRoute by (auto simp: callback_login_def)
    with a show ?thesis by blast
  qed
next
  case LogoutRoute
  then have "logout_route h srv (ae_now ev) (ae_req ev) st = (a, cs, st')" using step by (simp add: auth_step_def)
  from logout_sessions[OF this e] show ?thesis by (auto simp: signs_out_def)
qed

lemma cookie_access_pending: "cookie_access h srv now r st = (b, st') \<Longrightarrow> au_pending st' = au_pending st"
  by (auto simp: cookie_access_def split: option.splits prod.splits bool.splits)

lemma requireAuth_pending: "requireAuth h srv now r st = (a, cs, st') \<Longrightarrow> au_pending st' = au_pending st"
  by (auto simp: requireAuth_def answer_def split: option.splits if_splits prod.splits dest: cookie_access_pending)

lemma pages_pending:
  "requirePageAuth h srv now r st = (a, cs, st') \<Longrightarrow> au_pending st' = au_pending st"
  "requireMetricsAuth h srv now r st = (a, cs, st') \<Longrightarrow> au_pending st' = au_pending st"
  "logout_route h srv now r st = (a, cs, st') \<Longrightarrow> au_pending st' = au_pending st"
  "handleLoginSubmit h srv tok now r st = (a, cs, st') \<Longrightarrow> au_pending st' = au_pending st"
  by (auto simp: requirePageAuth_def requireMetricsAuth_def logout_route_def handleLogout_def handleLoginSubmit_def
      answer_def split: option.splits if_splits prod.splits sum.splits auth_answer.splits
      dest: cookie_access_pending requireAuth_pending)

lemma login_pending:
  assumes "handleLogin h srv s n v now r st = (a, cs, st')" "map_of (au_pending st') k = Some p" "al_wf (au_pending st)"
  shows "map_of (au_pending st) k = Some p
    \<or> (\<exists>s' n'. s = Some s' \<and> n = Some n' \<and> a = RedirectTo 302 ''authorize'' \<and> ah_sha h s' = k
        \<and> p = \<lparr>op_nonce = n', op_verifier = v, op_device = requestDevice h r, op_expires = now + oidcLoginWindow\<rparr>)"
  using assms
  by (auto simp: handleLogin_def beginOIDC_def answer_def Let_def store_simps map_of_sweep
      split: if_splits option.splits)

lemma callback_pending_table:
  assumes "completeOIDC h srv tok now r st = (a, cs, st')" "map_of (au_pending st') k = Some p"
  shows "map_of (au_pending st) k = Some p \<and> (a = RedirectTo 303 ''/'' \<longrightarrow> ah_sha h (query_get r ''state'') \<noteq> k)"
  using assms
  by (auto simp: completeOIDC_def answer_def fail_def Let_def store_simps
      split: if_splits sum.splits prod.splits)

lemma step_pending:
  assumes step: "auth_step h srv ev st = (a, cs, st')" and p: "map_of (au_pending st') k = Some p"
    and wf: "al_wf (au_pending st)"
  shows "map_of (au_pending st) k = Some p \<and> \<not> uses_state h k (ev, a) \<or> login_begun h ev a k p"
proof (cases "ae_op ev")
  case (LoginRoute s n v)
  then have "handleLogin h srv s n v (ae_now ev) (ae_req ev) st = (a, cs, st')" using step by (simp add: auth_step_def)
  from login_pending[OF this p wf] LoginRoute show ?thesis by (auto simp: uses_state_def login_begun_def)
next
  case (CallbackRoute tok)
  then have "completeOIDC h srv tok (ae_now ev) (ae_req ev) st = (a, cs, st')" using step by (simp add: auth_step_def)
  from callback_pending_table[OF this p] show ?thesis by (auto simp: uses_state_def)
qed (use step p in \<open>auto simp: auth_step_def uses_state_def dest: requireAuth_pending pages_pending\<close>)


subsection \<open>Every run\<close>

definition auth_wf :: "auth_state \<Rightarrow> bool" where
  "auth_wf st \<longleftrightarrow> al_wf (au_sessions st) \<and> al_wf (au_pending st)"

lemma wf_validSession: "validSession h now t d req s = (b, s') \<Longrightarrow> al_wf s \<Longrightarrow> al_wf s'"
  by (auto simp: validSession_def split: if_splits option.splits)

lemma wf_create: "createIdentityGroups h tok now d u g x s = (r, s') \<Longrightarrow> al_wf s \<Longrightarrow> al_wf s'"
  by (auto simp: createIdentityGroups_def Let_def split: if_splits option.splits)

lemma wf_revoke_cookie: "al_wf s \<Longrightarrow> al_wf (revoke_cookie h r name s)"
  by (auto simp: revoke_cookie_def revoke_def split: option.splits)

lemma wf_cookie_access: "cookie_access h srv now r st = (b, st') \<Longrightarrow> auth_wf st \<Longrightarrow> auth_wf st'"
  by (auto simp: cookie_access_def auth_wf_def split: option.splits prod.splits bool.splits dest: wf_validSession)

lemma wf_requireAuth: "requireAuth h srv now r st = (a, cs, st') \<Longrightarrow> auth_wf st \<Longrightarrow> auth_wf st'"
  by (auto simp: requireAuth_def answer_def split: option.splits if_splits prod.splits dest: wf_cookie_access)

lemma wf_page: "requirePageAuth h srv now r st = (a, cs, st') \<Longrightarrow> auth_wf st \<Longrightarrow> auth_wf st'"
  by (auto simp: requirePageAuth_def answer_def split: option.splits prod.splits dest: wf_cookie_access)

lemma wf_metrics: "requireMetricsAuth h srv now r st = (a, cs, st') \<Longrightarrow> auth_wf st \<Longrightarrow> auth_wf st'"
  by (auto simp: requireMetricsAuth_def answer_def split: if_splits dest: wf_requireAuth)

lemma wf_handleLogout: "handleLogout h srv r st = (a, cs, st') \<Longrightarrow> auth_wf st \<Longrightarrow> auth_wf st'"
  by (auto simp: handleLogout_def auth_wf_def wf_revoke_cookie)

lemmas wf_routes = wf_page wf_metrics wf_handleLogout

lemma wf_submit: "handleLoginSubmit h srv tok now r st = (a, cs, st') \<Longrightarrow> auth_wf st \<Longrightarrow> auth_wf st'"
  by (auto simp: handleLoginSubmit_def createForDevice_def answer_def auth_wf_def
      split: option.splits if_splits prod.splits sum.splits dest: wf_create intro!: wf_revoke_cookie)

lemma wf_login: "handleLogin h srv s n v now r st = (a, cs, st') \<Longrightarrow> auth_wf st \<Longrightarrow> auth_wf st'"
  by (auto simp: handleLogin_def beginOIDC_def Let_def answer_def auth_wf_def split: option.splits if_splits)

lemma wf_callback: "completeOIDC h srv tok now r st = (a, cs, st') \<Longrightarrow> auth_wf st \<Longrightarrow> auth_wf st'"
  by (auto simp: completeOIDC_def Let_def answer_def auth_wf_def
      split: option.splits if_splits prod.splits sum.splits dest: wf_create intro!: wf_revoke_cookie)

lemma wf_logout: "logout_route h srv now r st = (a, cs, st') \<Longrightarrow> auth_wf st \<Longrightarrow> auth_wf st'"
  by (auto simp: logout_route_def split: prod.splits auth_answer.splits dest: wf_requireAuth wf_handleLogout)

lemma wf_step: "auth_step h srv ev st = (a, cs, st') \<Longrightarrow> auth_wf st \<Longrightarrow> auth_wf st'"
  by (auto simp: auth_step_def split: auth_op.splits
      dest: wf_requireAuth wf_routes wf_submit wf_login wf_callback wf_logout)

text \<open>The invariant: every session and every pending login has its origin in the events so far.\<close>

definition auth_inv :: "auth_host \<Rightarrow> auth_server \<Rightarrow> auth_trace \<Rightarrow> auth_state \<Rightarrow> bool" where
  "auth_inv h srv tr st \<longleftrightarrow> auth_wf st
     \<and> (\<forall>k e. map_of (au_sessions st) k = Some e \<longrightarrow> session_source h srv tr k e)
     \<and> (\<forall>k p. map_of (au_pending st) k = Some p \<longrightarrow> pending_source h tr k p)"

lemma session_source_snoc:
  assumes "session_source h srv tr k e" "\<not> signs_out h srv k x" shows "session_source h srv (tr @ [x]) k e"
proof -
  obtain b ev a post tok where t: "tr = b @ (ev, a) # post" "ah_sha h tok = k" "se_device e = requestDevice h (ae_req ev)"
    "token_login srv ev a tok \<and> se_expires e = ae_now ev + sessionLifetime
      \<or> identity_login h srv b ev a tok \<and> se_expires e \<le> ae_now ev + oidcSessionLifetime"
    "\<forall>y \<in> set post. \<not> signs_out h srv k y"
    using assms(1) unfolding session_source_def by blast
  then have "tr @ [x] = b @ (ev, a) # (post @ [x])" "\<forall>y \<in> set (post @ [x]). \<not> signs_out h srv k y"
    using assms(2) by auto
  then show ?thesis unfolding session_source_def using t(2-4) by blast
qed

lemma session_source_here:
  assumes "ah_sha h tok = k" "se_device e = requestDevice h (ae_req ev)"
    and "token_login srv ev a tok \<and> se_expires e = ae_now ev + sessionLifetime
      \<or> identity_login h srv tr ev a tok \<and> se_expires e \<le> ae_now ev + oidcSessionLifetime"
  shows "session_source h srv (tr @ [(ev, a)]) k e"
proof -
  have "tr @ [(ev, a)] = tr @ (ev, a) # [] \<and> (\<forall>x \<in> set []. \<not> signs_out h srv k x)" by simp
  with assms show ?thesis unfolding session_source_def by blast
qed

lemma pending_source_here: "login_begun h ev a k p \<Longrightarrow> pending_source h (tr @ [(ev, a)]) k p"
  unfolding pending_source_def by (rule exI[of _ tr], rule exI[of _ ev], rule exI[of _ a], rule exI[of _ "[]"]) simp

lemma pending_source_snoc:
  assumes "pending_source h tr k p" "\<not> uses_state h k x" shows "pending_source h (tr @ [x]) k p"
proof -
  obtain b ev a post where t: "tr = b @ (ev, a) # post" "login_begun h ev a k p" "\<forall>y \<in> set post. \<not> uses_state h k y"
    using assms(1) unfolding pending_source_def by blast
  then have "tr @ [x] = b @ (ev, a) # (post @ [x])" "\<forall>y \<in> set (post @ [x]). \<not> uses_state h k y"
    using assms(2) by auto
  then show ?thesis unfolding pending_source_def using t(2) by blast
qed

lemma auth_inv_step:
  assumes "auth_inv h srv tr st" "auth_step h srv ev st = (a, cs, st')"
  shows "auth_inv h srv (tr @ [(ev, a)]) st'"
proof -
  have wf: "al_wf (au_sessions st)" "al_wf (au_pending st)" "auth_wf st'"
    using assms wf_step by (auto simp: auth_inv_def auth_wf_def)
  have "session_source h srv (tr @ [(ev, a)]) k e" if k: "map_of (au_sessions st') k = Some e" for k e
    using step_sessions[OF assms(2) k wf(1)]
  proof (elim disjE exE conjE)
    assume "map_of (au_sessions st) k = Some e" "\<not> signs_out h srv k (ev, a)"
    then show ?thesis using assms(1) by (auto simp: auth_inv_def intro: session_source_snoc)
  next
    fix tok assume "ah_sha h tok = k" "se_device e = requestDevice h (ae_req ev)"
      "token_login srv ev a tok" "se_expires e = ae_now ev + sessionLifetime"
    then show ?thesis by (blast intro: session_source_here)
  next
    fix tok p assume o: "ah_sha h tok = k" "se_device e = requestDevice h (ae_req ev)"
      "map_of (au_pending st) (ah_sha h (query_get (ae_req ev) ''state'')) = Some p"
      "callback_login h srv p ev a tok" "se_expires e \<le> ae_now ev + oidcSessionLifetime"
    then have "identity_login h srv tr ev a tok"
      using assms(1) unfolding identity_login_def auth_inv_def by blast
    with o show ?thesis by (blast intro: session_source_here)
  qed
  moreover have "pending_source h (tr @ [(ev, a)]) k p" if k: "map_of (au_pending st') k = Some p" for k p
    using step_pending[OF assms(2) k wf(2)]
  proof (elim disjE conjE)
    assume "map_of (au_pending st) k = Some p" "\<not> uses_state h k (ev, a)"
    then show ?thesis using assms(1) by (auto simp: auth_inv_def intro: pending_source_snoc)
  next
    assume "login_begun h ev a k p"
    then show ?thesis by (rule pending_source_here)
  qed
  ultimately show ?thesis using wf(3) by (simp add: auth_inv_def)
qed

lemma auth_run_inv: "auth_run h srv evs = (tr, st) \<Longrightarrow> auth_inv h srv tr st"
proof (induction evs arbitrary: tr st rule: rev_induct)
  case Nil
  then show ?case by (auto simp: auth_run_def auth_inv_def auth_wf_def empty_auth_def)
next
  case (snoc ev evs)
  obtain tr0 st0 where before: "auth_run h srv evs = (tr0, st0)" by (metis prod.exhaust)
  obtain a cs st1 where step: "auth_step h srv ev st0 = (a, cs, st1)" by (metis prod.exhaust)
  have "auth_next h srv ev (auth_run h srv evs) = (tr, st)" using snoc.prems by (simp add: auth_run_def)
  then have "tr = tr0 @ [(ev, a)]" "st = st1" using before step by (simp_all add: auth_next_def)
  with auth_inv_step[OF snoc.IH[OF before] step] show ?case by simp
qed

subsection \<open>Who reaches a handler\<close>

lemma cookie_access_next:
  assumes "cookie_access h srv now r st = (Some NextHandler, st')"
  shows "\<exists>c e. map_of (aq_Cookies r) (sessionCookieName srv) = Some c \<and> length c = 64
    \<and> map_of (au_sessions st) (ah_sha h c) = Some e \<and> now < se_expires e \<and> se_device e = requestDevice h r
    \<and> (oidc_Enabled (as_OIDC srv) \<longrightarrow> se_subject e \<noteq> []) \<and> safeCookieRequest h r"
  using assms
  by (auto simp: cookie_access_def validSession_def split: option.splits prod.splits bool.splits if_splits)

lemma requireAuth_next:
  assumes "requireAuth h srv now r st = (NextHandler, cs, st')"
  shows "safeTransport h r
    \<and> (\<not> oidc_Enabled (as_OIDC srv) \<and> as_apiToken srv \<noteq> [] \<and> bearer r = Some (as_apiToken srv)
       \<or> (\<exists>st1. cookie_access h srv now r st = (Some NextHandler, st1)))"
  using assms
  by (auto simp: requireAuth_def configured_def answer_def split: option.splits if_splits prod.splits)

text \<open>C20. Nobody gets past the dashboard's authentication: after any sequence of requests, a request reaches a
  protected handler only over TLS, a trusted proxy or direct loopback, and only with the configured API token
  (never in OIDC mode, never for a page), with the separate metrics token on the metrics route, or with a cookie of
  a session that is not expired and belongs to this device; an unsafe method also needs the same origin.
  The session was issued by an earlier sign-in of this device, with the API token or by a callback
  whose identity was verified against the nonce and PKCE verifier of a login that this device began
  within five minutes and whose state no earlier callback had used; and no sign-out ended it since.\<close>
theorem dashboard_access_genuine:
  assumes "auth_run h srv evs = (tr, st)" and "auth_step h srv ev st = (NextHandler, cs, st')"
  shows "safeTransport h (ae_req ev) \<and>
    (\<not> oidc_Enabled (as_OIDC srv) \<and> as_apiToken srv \<noteq> [] \<and> bearer (ae_req ev) = Some (as_apiToken srv)
       \<and> ae_op ev \<noteq> PageRoute
     \<or> ae_op ev = MetricsRoute \<and> as_metricsToken srv \<notin> {[], as_apiToken srv}
       \<and> bearer (ae_req ev) = Some (as_metricsToken srv)
     \<or> (\<exists>cookie e. map_of (aq_Cookies (ae_req ev)) (sessionCookieName srv) = Some cookie \<and> length cookie = 64
         \<and> session_source h srv tr (ah_sha h cookie) e \<and> se_device e = requestDevice h (ae_req ev)
         \<and> ae_now ev < se_expires e
         \<and> (aq_Method (ae_req ev) \<in> {''GET'', ''HEAD'', ''OPTIONS''} \<or> sameOrigin h (ae_req ev))))"
proof -
  have inv: "\<And>k e. map_of (au_sessions st) k = Some e \<Longrightarrow> session_source h srv tr k e"
    using auth_run_inv[OF assms(1)] by (simp add: auth_inv_def)
  have cookie: ?thesis if ca: "cookie_access h srv (ae_now ev) (ae_req ev) st = (Some NextHandler, st1)" for st1
    using cookie_access_next[OF ca] inv unfolding safeCookieRequest_def by blast
  have api: ?thesis if ra: "requireAuth h srv (ae_now ev) (ae_req ev) st = (NextHandler, cs, st')"
    and op: "ae_op ev \<noteq> PageRoute"
    using requireAuth_next[OF ra] cookie op by blast
  show ?thesis
  proof (cases "ae_op ev")
    case PageRoute
    then show ?thesis
      using assms(2) cookie
      by (auto simp: auth_step_def requirePageAuth_def configured_def answer_def split: option.splits if_splits prod.splits)
  next
    case MetricsRoute
    show ?thesis
    proof (cases "as_metricsToken srv \<noteq> [] \<and> metrics_token_valid srv \<and> bearer (ae_req ev) = Some (as_metricsToken srv)")
      case True
      then have "safeTransport h (ae_req ev)" "as_metricsToken srv \<notin> {[], as_apiToken srv}"
        using assms(2) MetricsRoute
        by (auto simp: auth_step_def requireMetricsAuth_def metrics_token_valid_def ValidateDashboardTokens_def answer_def
            split: if_splits)
      with True MetricsRoute show ?thesis by blast
    next
      case False
      then have "requireAuth h srv (ae_now ev) (ae_req ev) st = (NextHandler, cs, st')"
        using assms(2) MetricsRoute by (auto simp: auth_step_def requireMetricsAuth_def split: if_splits)
      then show ?thesis by (rule api) (use MetricsRoute in simp)
    qed
  qed (use assms(2) api in \<open>auto simp: auth_step_def handleLogin_def beginOIDC_def handleLoginSubmit_def completeOIDC_def
      logout_route_def handleLogout_def fail_def answer_def Let_def
      split: if_splits option.splits prod.splits sum.splits auth_answer.splits\<close>)
qed


subsection \<open>What a verified identity is\<close>

lemma check_claims_ok:
  assumes "check_claims settings now i c = None"
  shows "{''mfa'', ''pwd''} \<subseteq> set (ic_AMR c)" "set (ic_AMR c) \<inter> {''hwk'', ''swk''} \<noteq> {} \<or> oidc_AuthenticationMethod settings = ''mfa''"
    "oidc_AuthenticationMethod settings = ''hardware'' \<Longrightarrow> ''hwk'' \<in> set (ic_AMR c)"
    "ic_AZP c \<in> {[], oidc_ClientID settings}" "now - ic_AuthTime c * second \<le> oidcLoginWindow"
    "ic_AuthTime c * second \<le> now + 30 * second"
  using assms
  by (auto simp: check_claims_def first_error_None allowedAMR_def split: if_splits)

lemma check_user_ok:
  assumes "check_user settings i info = Inr groups"
  shows "ui_Subject info = it_Subject i" "oidc_AdminGroup settings \<in> set groups" "ui_Groups info = Some groups"
  using assms by (auto simp: check_user_def split: if_splits option.splits)

lemma map_sum_Inr: "map_sum f g x = Inr y \<longleftrightarrow> (\<exists>z. x = Inr z \<and> y = g z)"
  by (cases x) auto

lemma check_identity_ok:
  assumes "check_identity h settings now p code = Inr (i, groups)"
  obtains token raw c info where
    "ah_exchange h code (op_verifier p) = Some token" "ot_IDToken token = Some raw" "ah_verify h raw = Some i"
    "it_Subject i \<noteq> []" "it_Nonce i = op_nonce p" "it_Claims i = Some c" "check_claims settings now i c = None"
    "ah_userinfo h token = Some info" "check_user settings i info = Inr groups"
  using assms
  by (auto simp: check_identity_def check_id_token_def map_sum_Inr split: option.splits if_splits sum.splits)

text \<open>C34. A callback signs in exactly one verified administrator: when it succeeds, the browser held the state
  cookie of a pending login of this device that had not expired and is used up now, the code was
  exchanged with that login's PKCE verifier, the verified ID token carries its nonce and a second
  factor of the configured kind performed within five minutes for this client, and the user info is of the
  same subject, who is in the admin group.\<close>
theorem callback_verified:
  assumes "completeOIDC h srv tok now r st = (RedirectTo 303 ''/'', cs, st')"
  shows "\<exists>p token raw i c info groups.
     map_of (aq_Cookies r) oidcPendingCookie = Some (query_get r ''state'')
     \<and> map_of (au_pending st) (ah_sha h (query_get r ''state'')) = Some p
     \<and> map_of (au_pending st') (ah_sha h (query_get r ''state'')) = None
     \<and> now < op_expires p \<and> op_device p = requestDevice h r
     \<and> ah_exchange h (query_get r ''code'') (op_verifier p) = Some token
     \<and> ot_IDToken token = Some raw \<and> ah_verify h raw = Some i \<and> it_Nonce i = op_nonce p
     \<and> it_Claims i = Some c \<and> {''mfa'', ''pwd''} \<subseteq> set (ic_AMR c)
     \<and> (oidc_AuthenticationMethod (as_OIDC srv) = ''hardware'' \<longrightarrow> ''hwk'' \<in> set (ic_AMR c))
     \<and> ic_AZP c \<in> {[], oidc_ClientID (as_OIDC srv)} \<and> now - ic_AuthTime c * second \<le> 5 * minute
     \<and> ah_userinfo h token = Some info \<and> ui_Subject info = it_Subject i
     \<and> ui_Groups info = Some groups \<and> oidc_AdminGroup (as_OIDC srv) \<in> set groups"
proof -
  let ?key = "ah_sha h (query_get r ''state'')"
  obtain p code where pend: "callback_pending h now r (map_of (au_pending st) ?key) = Inr (p, code)"
    and ck: "map_of (aq_Cookies r) oidcPendingCookie = Some (query_get r ''state'')"
    using assms by (auto simp: completeOIDC_def answer_def fail_def Let_def split: if_splits sum.splits)
  have p: "map_of (au_pending st) ?key = Some p" "now < op_expires p" "op_device p = requestDevice h r"
    "code = query_get r ''code''"
    using pend by (auto simp: callback_pending_def split: option.splits if_splits)
  obtain i groups where id: "check_identity h (as_OIDC srv) now p code = Inr (i, groups)"
    using assms pend by (auto simp: completeOIDC_def answer_def fail_def Let_def split: if_splits sum.splits)
  have used: "map_of (au_pending st') ?key = None"
    using assms pend id
    by (auto simp: completeOIDC_def answer_def fail_def Let_def store_simps split: if_splits sum.splits prod.splits)
  from id obtain token raw c info where t: "ah_exchange h code (op_verifier p) = Some token" "ot_IDToken token = Some raw"
    "ah_verify h raw = Some i" "it_Subject i \<noteq> []" "it_Nonce i = op_nonce p" "it_Claims i = Some c"
    "check_claims (as_OIDC srv) now i c = None" "ah_userinfo h token = Some info"
    "check_user (as_OIDC srv) i info = Inr groups"
    by (rule check_identity_ok)
  note facts = ck p(1-3) used t(1)[unfolded p(4)] t(2,3,5,6,8) check_user_ok[OF t(9)]
    check_claims_ok(1,3,4)[OF t(7)] check_claims_ok(5)[OF t(7), unfolded oidcLoginWindow_def]
  show ?thesis
    by (rule exI[of _ p], rule exI[of _ token], rule exI[of _ raw], rule exI[of _ i], rule exI[of _ c],
        rule exI[of _ info], rule exI[of _ groups], intro conjI impI; (rule facts | assumption)+)
qed

subsection \<open>Examples\<close>

definition sample_oidc :: OIDCConfig where
  "sample_oidc = \<lparr>oidc_Enabled = True, oidc_Issuer = ''https://auth.example'', oidc_ClientID = ''deck'',
     oidc_ClientSecretFile = ''/s'', oidc_PublicURL = ''https://deck.example'', oidc_AdminGroup = ''admins'',
     oidc_AuthenticationMethod = ''webauthn''\<rparr>"

definition sample_auth_server :: auth_server where
  "sample_auth_server = \<lparr>as_OIDC = sample_oidc, as_apiToken = [], as_metricsToken = [], as_origin = Some ''deck.example''\<rparr>"

text \<open>A provider whose access tokens name the verifier, so that only the right one is accepted.\<close>

definition sample_auth_host :: auth_host where
  "sample_auth_host = \<lparr>ah_sha = (\<lambda>s. s), ah_url = (\<lambda>_. None), ah_ip = (\<lambda>_. None), ah_proxies = [],
     ah_exchange = (\<lambda>code v. if code = ''c0de'' \<and> v = ''ver''
       then Some \<lparr>ot_AccessToken = ''at'', ot_TokenType = ''bearer'', ot_IDToken = Some ''jwt''\<rparr> else None),
     ah_verify = (\<lambda>raw. Some \<lparr>it_Subject = ''ann'', it_Nonce = ''n0'', it_AccessTokenHash = [], it_Audience = [''deck''],
       it_IssuedAt = 50, it_Expiry = 1000000000000000,
       it_Claims = Some \<lparr>ic_AMR = [''pwd'', ''mfa'', ''hwk''], ic_AuthTime = 1, ic_AZP = ''deck''\<rparr>\<rparr>),
     ah_access_ok = (\<lambda>_ _. True),
     ah_userinfo = (\<lambda>_. Some \<lparr>ui_Subject = ''ann'', ui_Groups = Some [''users'', ''admins'']\<rparr>)\<rparr>"

definition sample_browser :: auth_request where
  "sample_browser = \<lparr>aq_Method = ''GET'', aq_Host = ''Deck.example'', aq_RemoteAddr = ''10.0.0.9:4711'', aq_TLS = True,
     aq_Cert = Some ''cert'', aq_Headers = [], aq_Cookies = [], aq_Query = [], aq_Token = None\<rparr>"

definition sample_state :: string where "sample_state = replicate 64 (CHR ''5'')"

definition sample_callback :: auth_request where
  "sample_callback = sample_browser\<lparr>aq_Cookies := [(oidcPendingCookie, sample_state)],
     aq_Query := [(''state'', sample_state), (''code'', ''c0de'')]\<rparr>"

definition sample_logins :: "auth_event list" where
  "sample_logins =
     [\<lparr>ae_now = 1000000000, ae_op = LoginRoute (Some sample_state) (Some ''n0'') ''ver'', ae_req = sample_browser\<rparr>,
      \<lparr>ae_now = 2000000000, ae_op = CallbackRoute (Some sample_token), ae_req = sample_callback\<rparr>]"

definition sample_pending :: auth_state where
  "sample_pending = \<lparr>au_sessions = [], au_pending = [(sample_state,
     \<lparr>op_nonce = ''n0'', op_verifier = ''ver'', op_device = ''cert'', op_expires = 301000000000\<rparr>)]\<rparr>"

definition sample_signed_in :: auth_state where
  "sample_signed_in = \<lparr>au_sessions = [(sample_token,
     \<lparr>se_expires = 902000000000, se_device = ''cert'', se_subject = ''ann'',
      se_groups = [''users'', ''admins'']\<rparr>)], au_pending = []\<rparr>"

definition sample_access :: auth_event where
  "sample_access = \<lparr>ae_now = 3000000000, ae_op = ApiRoute,
     ae_req = sample_browser\<lparr>aq_Cookies := [(''__Host-fleetdeck_session'', sample_token)]\<rparr>\<rparr>"


lemma sample_browser_https:
  "requestHTTPS sample_auth_host sample_browser" "oidcRequestAllowed sample_auth_host sample_auth_server sample_browser"
  "requestDevice sample_auth_host sample_browser = ''cert''"
  by code_simp+

lemma sample_callback_https:
  "oidcRequestAllowed sample_auth_host sample_auth_server sample_callback"
  "requestDevice sample_auth_host sample_callback = ''cert''"
  "query_get sample_callback ''state'' = sample_state" "query_get sample_callback ''error'' = []"
  "query_get sample_callback ''code'' = ''c0de''" "length (query_values sample_callback ''code'') = 1"
  "length (query_values sample_callback ''state'') = 1"
  "map_of (aq_Cookies sample_callback) oidcPendingCookie = Some sample_state"
  "map_of (aq_Cookies sample_callback) (sessionCookieName sample_auth_server) = None"
  by code_simp+

lemma sample_server_simps [simp]:
  "oidc_Enabled (as_OIDC sample_auth_server)" "as_OIDC sample_auth_server = sample_oidc"
  "oidc_Enabled sample_oidc" "ah_sha sample_auth_host = (\<lambda>s. s)" "length sample_state = 64"
  by (simp_all add: sample_auth_server_def sample_oidc_def sample_auth_host_def sample_state_def)

lemma sample_begin:
  "auth_step sample_auth_host sample_auth_server (hd sample_logins) empty_auth
    = (RedirectTo 302 ''authorize'',
       [\<lparr>sc_Name = oidcPendingCookie, sc_Value = sample_state, sc_Delete = False, sc_Secure = True\<rparr>], sample_pending)"
  by (simp add: auth_step_def sample_logins_def handleLogin_def beginOIDC_def sample_browser_https Let_def empty_auth_def
      sample_pending_def oidcLoginWindow_def maxSessions_def al_sweep_def al_put_def)

lemma sample_identity:
  "\<exists>i. check_identity sample_auth_host sample_oidc 2000000000
     \<lparr>op_nonce = ''n0'', op_verifier = ''ver'', op_device = ''cert'', op_expires = 301000000000\<rparr> ''c0de''
     = Inr (i, [''users'', ''admins'']) \<and> it_Subject i = ''ann'' \<and> it_Expiry i = 1000000000000000"
proof -
  have b: "equal_fold ''bearer'' ''Bearer''" by code_simp
  show ?thesis
    by (simp add: check_identity_def sample_auth_host_def b check_id_token_def check_claims_def
        allowedAMR_def sample_oidc_def oidcLoginWindow_def check_user_def)
qed

lemma sample_signs_in:
  "\<exists>cs. auth_step sample_auth_host sample_auth_server (sample_logins ! 1) sample_pending
    = (RedirectTo 303 ''/'', cs, sample_signed_in)"
proof -
  obtain i where i: "check_identity sample_auth_host sample_oidc 2000000000
     \<lparr>op_nonce = ''n0'', op_verifier = ''ver'', op_device = ''cert'', op_expires = 301000000000\<rparr> ''c0de''
     = Inr (i, [''users'', ''admins''])" "it_Subject i = ''ann''" "it_Expiry i = 1000000000000000"
    using sample_identity by blast
  show ?thesis
    by (simp add: auth_step_def sample_logins_def completeOIDC_def sample_callback_https Let_def callback_pending_def
        sample_pending_def i createIdentityGroups_def maxSessions_def al_sweep_def al_put_def al_del_def revoke_cookie_def
        sample_signed_in_def oidcSessionLifetime_def)
qed


lemma sample_logged_in:
  "auth_run sample_auth_host sample_auth_server sample_logins
    = ([(hd sample_logins, RedirectTo 302 ''authorize''), (sample_logins ! 1, RedirectTo 303 ''/'')], sample_signed_in)"
proof -
  obtain cs where "auth_step sample_auth_host sample_auth_server (sample_logins ! 1) sample_pending
      = (RedirectTo 303 ''/'', cs, sample_signed_in)"
    using sample_signs_in by blast
  moreover have "fold (auth_next h srv) sample_logins x
      = auth_next h srv (sample_logins ! 1) (auth_next h srv (hd sample_logins) x)" for h srv x
    by (simp add: sample_logins_def)
  ultimately show ?thesis by (simp add: auth_run_def auth_next_def sample_begin)
qed

lemma callback_verified_witness:
  "\<exists>p. map_of (au_pending sample_pending) sample_state = Some p \<and> op_verifier p = ''ver''
    \<and> ah_exchange sample_auth_host ''c0de'' (op_verifier p) \<noteq> None"
proof -
  obtain cs where "completeOIDC sample_auth_host sample_auth_server (Some sample_token) 2000000000 sample_callback sample_pending
      = (RedirectTo 303 ''/'', cs, sample_signed_in)"
    using sample_signs_in by (auto simp: auth_step_def sample_logins_def)
  from callback_verified[OF this] show ?thesis
    by (auto simp: sample_callback_https sample_pending_def)
qed

lemma dashboard_access_genuine_witness:
  "\<exists>e. session_source sample_auth_host sample_auth_server
     [(hd sample_logins, RedirectTo 302 ''authorize''), (sample_logins ! 1, RedirectTo 303 ''/'')] sample_token e
     \<and> se_device e = ''cert''"
proof -
  have ck: "map_of (aq_Cookies (ae_req sample_access)) (sessionCookieName sample_auth_server) = Some sample_token"
    "requestDevice sample_auth_host (ae_req sample_access) = ''cert''"
    "requestHTTPS sample_auth_host (ae_req sample_access)" "aq_Method (ae_req sample_access) = ''GET''"
    "oidcRequestAllowed sample_auth_host sample_auth_server (ae_req sample_access)" "ae_op sample_access = ApiRoute"
    "length sample_token = 64" "ae_now sample_access = 3000000000"
    by code_simp+
  have "validSession (\<lambda>s. s) 3000000000 sample_token ''cert'' True (au_sessions sample_signed_in) = (True, au_sessions sample_signed_in)"
    by (simp add: validSession_def ck sample_signed_in_def)
  then have "auth_step sample_auth_host sample_auth_server sample_access sample_signed_in = (NextHandler, [], sample_signed_in)"
    by (simp add: auth_step_def ck requireAuth_def configured_def safeTransport_def cookie_access_def safeCookieRequest_def
        answer_def)
  from dashboard_access_genuine[OF sample_logged_in this] show ?thesis using ck by auto
qed

end
