(* ===== verification/Notify_Relay.thy ===== *)
theory Notify_Relay
  imports Monitor_Alerts Host_Files "HOL-Library.List_Lexorder" "HOL-Library.Char_ord"
begin

text \<open>
  \<open>internal/notify\<close>: host events of the system journal become minimal alerts (\<open>events.go\<close>), and the relay
  hands every alert to every channel (\<open>relay.go\<close>). The relay's state is one private file, replaced
  atomically; a batch is written there before it is sent, and each channel after it accepted it.
  JSON, \<open>journalctl\<close>, the channels and the system calls are parameters. A crash leaves the file
  and the deliveries as a run that ends with failing calls does, so the runs cover the crashes.
\<close>

subsection \<open>Events\<close>

record JournalEntry =
  je_Cursor :: string
  je_UID :: string
  je_Identifier :: string
  je_Message :: string

definition event_char :: "char \<Rightarrow> bool" where
  "event_char c \<longleftrightarrow> is_lower c \<or> is_digit c \<or> c \<in> set ''_.-''"

definition eventName :: "string \<Rightarrow> bool" where
  "eventName s \<longleftrightarrow> (case s of [] \<Rightarrow> False | c # cs \<Rightarrow> is_lower c \<and> class_rep event_char 0 63 cs)"

definition rejected_prefixes :: "string list" where
  "rejected_prefixes = [''Failed '', ''Invalid user '', ''error: PAM: Authentication failure'',
     ''maximum authentication attempts exceeded'']"

text \<open>\<open>audit\<close> decodes an audit event: its action and its success, when it has one.\<close>

definition Classify :: "(string \<Rightarrow> (string \<times> bool option) option) \<Rightarrow> JournalEntry \<Rightarrow> string" where
  "Classify audit entry =
     (if je_UID entry \<noteq> ''0'' then []
      else if je_Identifier entry \<in> {''sshd'', ''sshd-session''} then
        (if has_prefix (je_Message entry) ''Accepted '' then ''ssh.login.accepted''
         else if list_ex (has_prefix (je_Message entry)) rejected_prefixes then ''ssh.authentication.rejected''
         else [])
      else if je_Identifier entry = ''fleetdeck-audit'' then
        (case audit (je_Message entry) of
           Some (action, Some success) \<Rightarrow>
             if eventName action then ''fleetdeck.'' @ action @ (if success then ''.succeeded'' else ''.failed'') else []
         | _ \<Rightarrow> [])
      else [])"

definition kinds :: "(string \<Rightarrow> (string \<times> bool option) option) \<Rightarrow> JournalEntry list \<Rightarrow> string list" where
  "kinds audit entries = filter (\<lambda>k. k \<noteq> []) (map (Classify audit) entries)"

definition kind_line :: "string list \<Rightarrow> string \<Rightarrow> string" where
  "kind_line ks key = key @ '': '' @ show_int (int (count_list ks key)) @ [newline]"

definition Summarize ::
  "(string \<Rightarrow> (string \<times> bool option) option) \<Rightarrow> JournalEntry list \<Rightarrow> string \<Rightarrow> time \<Rightarrow> Alert option" where
  "Summarize audit entries label now =
     (let ks = kinds audit entries; keys = sort (remdups ks) in
      if ks = [] then None
      else Some \<lparr>alert_Level = (if list_ex (\<lambda>k. has_suffix k ''.failed'' \<or> has_suffix k ''.rejected'') keys
                              then ''warning'' else ''info''),
                 alert_Title = ''Server activity'',
                 alert_Message = ''Host events since the previous delivered batch:'' @ [newline]
                   @ concat (map (kind_line ks) keys)
                   @ ''Counts describe journal events, not unique people. Inspect the private server journal for details. This notification does not approve access.'',
                 alert_Target = label, alert_Timestamp = now\<rparr>)"

subsection \<open>The state file\<close>

text \<open>\<open>None\<close> is the nil map of deliveries.\<close>

record pendingBatch =
  pb_Cursor :: string
  pb_Alert :: Alert
  pb_Delivered :: "string list option"

record relayState =
  rs_Since :: string
  rs_Cursor :: string
  rs_Pending :: "pendingBatch option"

definition delivered_to :: "pendingBatch \<Rightarrow> string list" where
  "delivered_to b = (case pb_Delivered b of None \<Rightarrow> [] | Some ds \<Rightarrow> ds)"

text \<open>After the rename the directory is opened and synced (calls 10 and 11); the file is then new already.\<close>

definition saveState ::
  "(relayState \<Rightarrow> string option) \<Rightarrow> nat \<Rightarrow> string \<Rightarrow> schedule \<Rightarrow> string \<Rightarrow> files \<Rightarrow> relayState \<Rightarrow> bool \<times> files" where
  "saveState enc short path up tmp fs state =
     (case enc state of
        None \<Rightarrow> (False, fs)
      | Some data \<Rightarrow>
          (case replace_file up 0 [StepWrite short, StepSync, StepClose] tmp path data fs of
             (replaced, fs') \<Rightarrow> (replaced \<and> up 10 \<and> up 11, fs')))"

subsection \<open>Delivery\<close>

text \<open>The host: the channels' answers to the \<open>n\<close>-th attempt, and for the \<open>n\<close>-th save its schedule, its
  temporary name and the length of a failed write.\<close>

record relay_host =
  lh_path :: string
  lh_label :: string
  lh_audit :: "string \<Rightarrow> (string \<times> bool option) option"
  lh_enc :: "relayState \<Rightarrow> string option"
  lh_dec :: "relayState \<Rightarrow> string \<Rightarrow> relayState option"
  lh_send :: "nat \<Rightarrow> string \<Rightarrow> Alert \<Rightarrow> bool"
  lh_up :: "nat \<Rightarrow> schedule"
  lh_tmp :: "nat \<Rightarrow> string"
  lh_short :: "nat \<Rightarrow> nat"

record relay_world =
  lw_files :: files
  lw_sent :: "(string \<times> Alert) list"
  lw_attempts :: nat
  lw_saves :: nat

datatype relay_error =
    RelaySetup | RelayBusy | RelayBadFile | RelayBadState | RelaySave | RelayDelivery | RelayJournal

definition save :: "relay_host \<Rightarrow> relayState \<Rightarrow> relay_world \<Rightarrow> bool \<times> relay_world" where
  "save h st w =
     (let n = lw_saves w in
      case saveState (lh_enc h) (lh_short h n) (lh_path h) (lh_up h n) (lh_tmp h n) (lw_files w) st of
        (r, fs) \<Rightarrow> (r, w\<lparr>lw_files := fs, lw_saves := Suc n\<rparr>))"

text \<open>One pass over the channels: the batch as delivered so far, whether one failed, and an error of a save.\<close>

fun send_all ::
  "relay_host \<Rightarrow> string list \<Rightarrow> relayState \<Rightarrow> pendingBatch \<Rightarrow> bool \<Rightarrow> relay_world
    \<Rightarrow> relay_error option \<times> pendingBatch \<times> bool \<times> relay_world" where
  "send_all h [] st b failed w = (None, b, failed, w)"
| "send_all h (p # ps) st b failed w =
     (if p \<in> set (delivered_to b) then send_all h ps st b failed w
      else
        let tried = w\<lparr>lw_attempts := Suc (lw_attempts w)\<rparr> in
        if \<not> lh_send h (lw_attempts w) p (pb_Alert b) then send_all h ps st b True tried
        else
          let b' = b\<lparr>pb_Delivered := Some (p # delivered_to b)\<rparr>;
              sent = tried\<lparr>lw_sent := lw_sent w @ [(p, pb_Alert b)]\<rparr>
          in case save h (st\<lparr>rs_Pending := Some b'\<rparr>) sent of
               (False, w1) \<Rightarrow> (Some RelaySave, b', failed, w1)
             | (True, w1) \<Rightarrow> send_all h ps st b' failed w1)"

definition deliver :: "relay_host \<Rightarrow> string list \<Rightarrow> relayState \<Rightarrow> relay_world \<Rightarrow> relay_error option \<times> relayState \<times> relay_world" where
  "deliver h providers st w =
     (case rs_Pending st of
        None \<Rightarrow> (None, st, w)
      | Some b \<Rightarrow>
          (case send_all h providers st b False w of
             (Some e, b', failed, w1) \<Rightarrow> (Some e, st\<lparr>rs_Pending := Some b'\<rparr>, w1)
           | (None, b', failed, w1) \<Rightarrow>
               if failed then (Some RelayDelivery, st\<lparr>rs_Pending := Some b'\<rparr>, w1)
               else
                 let st1 = st\<lparr>rs_Cursor := pb_Cursor b', rs_Pending := None\<rparr> in
                 (case save h st1 w1 of
                    (ok, w2) \<Rightarrow> (if ok then None else Some RelaySave, st1, w2))))"

subsection \<open>The journal\<close>

text \<open>One round of the relay: what \<open>journalctl\<close> prints for a starting point (a line that is no entry
  with a cursor is \<open>None\<close>), whether the command ended well, the context and the time.\<close>

record relay_round =
  rr_output :: "string \<Rightarrow> string \<Rightarrow> JournalEntry option list"
  rr_ok :: bool
  rr_cancelled :: bool
  rr_now :: time

fun scan_journal :: "JournalEntry option list \<Rightarrow> bool \<Rightarrow> JournalEntry list \<Rightarrow> relay_error + JournalEntry list" where
  "scan_journal [] ok acc = (if ok then Inr acc else Inl RelayJournal)"
| "scan_journal (None # ls) ok acc = Inl RelayJournal"
| "scan_journal (Some e # ls) ok acc =
     (if Suc (length acc) = 1000 then Inr (acc @ [e]) else scan_journal ls ok (acc @ [e]))"

definition readJournal :: "relay_round \<Rightarrow> relayState \<Rightarrow> relay_error + JournalEntry list" where
  "readJournal rd st =
     scan_journal
       (rr_output rd (if rs_Cursor st = [] then rs_Since st else []) (rs_Cursor st)) (rr_ok rd) []"

definition queue_batch :: "relay_host \<Rightarrow> time \<Rightarrow> JournalEntry list \<Rightarrow> relayState \<Rightarrow> relayState" where
  "queue_batch h now entries st =
     (let cursor = je_Cursor (last entries) in
      case Summarize (lh_audit h) entries (lh_label h) now of
        Some alert \<Rightarrow> st\<lparr>rs_Pending := Some \<lparr>pb_Cursor = cursor, pb_Alert = alert, pb_Delivered = Some []\<rparr>\<rparr>
      | None \<Rightarrow> st\<lparr>rs_Cursor := cursor\<rparr>)"

fun watch_loop ::
  "relay_host \<Rightarrow> string list \<Rightarrow> relay_round list \<Rightarrow> relayState \<Rightarrow> relay_world \<Rightarrow> relay_error option \<times> relay_world" where
  "watch_loop h providers [] st w = (None, w)"
| "watch_loop h providers (rd # rds) st w =
     (case deliver h providers st w of
        (Some e, st1, w1) \<Rightarrow> (Some e, w1)
      | (None, st1, w1) \<Rightarrow>
          (case readJournal rd st1 of
             Inl e \<Rightarrow> (if rr_cancelled rd then None else Some e, w1)
           | Inr [] \<Rightarrow> watch_loop h providers rds st1 w1
           | Inr entries \<Rightarrow>
               let st2 = queue_batch h (rr_now rd) entries st1 in
               (case save h st2 w1 of
                  (False, w2) \<Rightarrow> (Some RelaySave, w2)
                | (True, w2) \<Rightarrow>
                    (case deliver h providers st2 w2 of
                       (Some e, st3, w3) \<Rightarrow> (Some e, w3)
                     | (None, st3, w3) \<Rightarrow> watch_loop h providers rds st3 w3))))"

text \<open>One run of the service. \<open>sv_private\<close> are the checks of the directory, \<open>sv_free\<close> the lock, \<open>sv_plain\<close> the
  check that an existing file is regular and private.\<close>

record relay_run =
  sv_private :: bool
  sv_free :: bool
  sv_plain :: bool
  sv_readable :: bool
  sv_since :: string
  sv_rounds :: "relay_round list"

definition load_state :: "relay_host \<Rightarrow> relay_run \<Rightarrow> files \<Rightarrow> relay_error + relayState" where
  "load_state h v fs =
     (let state = \<lparr>rs_Since = sv_since v, rs_Cursor = [], rs_Pending = None\<rparr> in
      case fs (lh_path h) of
        None \<Rightarrow> Inr state
      | Some data \<Rightarrow>
          if \<not> sv_plain v \<or> 65536 < length data then Inl RelayBadFile
          else if \<not> sv_readable v then Inl RelayBadFile
          else case lh_dec h state data of
            None \<Rightarrow> Inl RelayBadState
          | Some st \<Rightarrow>
              if rs_Since st = [] \<or> (\<exists>b. rs_Pending st = Some b \<and> pb_Delivered b = None) then Inl RelayBadState
              else Inr st)"

definition Watch :: "relay_host \<Rightarrow> string list \<Rightarrow> relay_run \<Rightarrow> relay_world \<Rightarrow> relay_error option \<times> relay_world" where
  "Watch h providers v w =
     (if \<not> is_abs (lh_path h) \<or> providers = [] then (Some RelaySetup, w)
      else if \<not> sv_private v then (Some RelaySetup, w)
      else if \<not> sv_free v then (Some RelayBusy, w)
      else case load_state h v (lw_files w) of
        Inl e \<Rightarrow> (Some e, w)
      | Inr st \<Rightarrow>
          (case save h st w of
             (False, w1) \<Rightarrow> (Some RelaySave, w1)
           | (True, w1) \<Rightarrow> watch_loop h providers (sv_rounds v) st w1))"

end
