(* ===== verification/Notify_Delivery.thy ===== *)
theory Notify_Delivery
  imports Notify_Relay
begin

text \<open>
  What the relay guarantees across restarts, crashes and failing channels: the cursor in the state file
  never passes an event that some channel has not accepted an alert about.
\<close>

subsection \<open>The state file\<close>

lemma saveState_laws:
  assumes "saveState enc short path up tmp fs st = (r, fs')"
  shows "tmp \<noteq> path \<Longrightarrow> r \<Longrightarrow> enc st \<noteq> None \<and> fs' path = enc st"
    and "tmp \<noteq> path \<Longrightarrow> fs' path = fs path \<or> (enc st \<noteq> None \<and> fs' path = enc st)"
    and "p \<noteq> tmp \<Longrightarrow> p \<noteq> path \<Longrightarrow> fs' p = fs p"
    and "tmp \<noteq> path \<Longrightarrow> fs tmp = None \<Longrightarrow> up 9 \<Longrightarrow> fs' tmp = None"
proof -
  have step: "StepWrite short \<in> set [StepWrite short, StepSync, StepClose]" by simp
  obtain d ok where d: "enc st = None \<and> fs' = fs \<and> \<not> r
      \<or> enc st = Some d \<and> replace_file up 0 [StepWrite short, StepSync, StepClose] tmp path d fs = (ok, fs') \<and> (r \<longrightarrow> ok)"
    using assms unfolding saveState_def by (auto split: option.splits prod.splits)
  show "tmp \<noteq> path \<Longrightarrow> r \<Longrightarrow> enc st \<noteq> None \<and> fs' path = enc st"
    using d replace_file_written[OF _ step] by fastforce
  show "tmp \<noteq> path \<Longrightarrow> fs' path = fs path \<or> (enc st \<noteq> None \<and> fs' path = enc st)"
    using d replace_file_written[OF _ step] replace_file_kept by (cases ok) fastforce+
  show "p \<noteq> tmp \<Longrightarrow> p \<noteq> path \<Longrightarrow> fs' p = fs p"
    using d replace_file_frame by blast
  show "tmp \<noteq> path \<Longrightarrow> fs tmp = None \<Longrightarrow> up 9 \<Longrightarrow> fs' tmp = None"
    using d replace_file_no_temporary by blast
qed

subsection \<open>What has been told\<close>

text \<open>The number of journal entries up to a cursor.\<close>

definition journal_pos :: "JournalEntry list \<Rightarrow> string \<Rightarrow> nat" where
  "journal_pos J c = (if c = [] then 0 else Suc (length (takeWhile (\<lambda>e. je_Cursor e \<noteq> c) J)))"

definition journal_wf :: "JournalEntry list \<Rightarrow> bool" where
  "journal_wf J \<longleftrightarrow> distinct (map je_Cursor J) \<and> [] \<notin> set (map je_Cursor J)"

text \<open>\<open>journalctl\<close> prints entries of the journal after the cursor, perhaps not all yet, then perhaps garbage.\<close>

definition journal_ok :: "JournalEntry list \<Rightarrow> relay_round \<Rightarrow> bool" where
  "journal_ok J rd \<longleftrightarrow>
     (\<forall>s c. \<exists>n. takeWhile (\<lambda>l. l \<noteq> None) (rr_output rd s c) = map Some (take n (drop (journal_pos J c) J)))"

definition batch :: "JournalEntry list \<Rightarrow> nat \<Rightarrow> nat \<Rightarrow> JournalEntry list" where
  "batch J k j = take (j - k) (drop k J)"

text \<open>The first \<open>k\<close> entries were cut into batches, and each batch with a reportable event was accepted as one
  alert by every channel.\<close>

inductive told_upto :: "relay_host \<Rightarrow> string list \<Rightarrow> JournalEntry list \<Rightarrow> (string \<times> Alert) list \<Rightarrow> nat \<Rightarrow> bool"
  for h ps J sent where
  Start: "told_upto h ps J sent 0"
| Quiet: "told_upto h ps J sent k \<Longrightarrow> k < j \<Longrightarrow> j \<le> length J
    \<Longrightarrow> Summarize (lh_audit h) (batch J k j) (lh_label h) now = None \<Longrightarrow> told_upto h ps J sent j"
| Told: "told_upto h ps J sent k \<Longrightarrow> k < j \<Longrightarrow> j \<le> length J
    \<Longrightarrow> Summarize (lh_audit h) (batch J k j) (lh_label h) now = Some a
    \<Longrightarrow> \<forall>p \<in> set ps. (p, a) \<in> set sent \<Longrightarrow> told_upto h ps J sent j"

lemma told_upto_mono: "told_upto h ps J sent k \<Longrightarrow> set sent \<subseteq> set sent' \<Longrightarrow> told_upto h ps J sent' k"
  by (induction rule: told_upto.induct) (auto intro: told_upto.intros)

lemma told_upto_bound: "told_upto h ps J sent k \<Longrightarrow> k \<le> length J"
  by (induction rule: told_upto.induct) auto

definition pending_ok ::
  "relay_host \<Rightarrow> JournalEntry list \<Rightarrow> (string \<times> Alert) list \<Rightarrow> nat \<Rightarrow> pendingBatch \<Rightarrow> bool" where
  "pending_ok h J sent k b \<longleftrightarrow>
     (\<exists>j now. k < j \<and> j \<le> length J \<and> journal_pos J (pb_Cursor b) = j
        \<and> Summarize (lh_audit h) (batch J k j) (lh_label h) now = Some (pb_Alert b)
        \<and> (\<forall>p \<in> set (delivered_to b). (p, pb_Alert b) \<in> set sent))"

definition state_ok :: "relay_host \<Rightarrow> string list \<Rightarrow> JournalEntry list \<Rightarrow> (string \<times> Alert) list \<Rightarrow> relayState \<Rightarrow> bool" where
  "state_ok h ps J sent st \<longleftrightarrow>
     told_upto h ps J sent (journal_pos J (rs_Cursor st))
     \<and> (\<forall>b. rs_Pending st = Some b \<longrightarrow> pending_ok h J sent (journal_pos J (rs_Cursor st)) b)"

definition world_ok :: "relay_host \<Rightarrow> string list \<Rightarrow> JournalEntry list \<Rightarrow> relay_world \<Rightarrow> bool" where
  "world_ok h ps J w \<longleftrightarrow>
     (\<forall>data. lw_files w (lh_path h) = Some data \<longrightarrow> (\<exists>st. lh_enc h st = Some data \<and> state_ok h ps J (lw_sent w) st))"

lemma state_ok_mono: "state_ok h ps J sent st \<Longrightarrow> set sent \<subseteq> set sent' \<Longrightarrow> state_ok h ps J sent' st"
  by (auto simp: state_ok_def pending_ok_def intro: told_upto_mono)

lemma world_ok_sent:
  "world_ok h ps J w \<Longrightarrow> lw_files w' = lw_files w \<Longrightarrow> set (lw_sent w) \<subseteq> set (lw_sent w') \<Longrightarrow> world_ok h ps J w'"
  unfolding world_ok_def using state_ok_mono[of h ps J "lw_sent w" _ "lw_sent w'"] by metis

subsection \<open>The steps keep it\<close>

lemma save_ok:
  assumes "save h st w = (r, w')" "\<forall>n. lh_tmp h n \<noteq> lh_path h" "world_ok h ps J w" "state_ok h ps J (lw_sent w) st"
  shows "world_ok h ps J w'" "lw_sent w' = lw_sent w"
proof -
  obtain fs where fs: "saveState (lh_enc h) (lh_short h (lw_saves w)) (lh_path h) (lh_up h (lw_saves w))
      (lh_tmp h (lw_saves w)) (lw_files w) st = (r, fs)" "w' = w\<lparr>lw_files := fs, lw_saves := Suc (lw_saves w)\<rparr>"
    using assms(1) by (auto simp: save_def Let_def split: prod.splits)
  have "lh_tmp h (lw_saves w) \<noteq> lh_path h" using assms(2) by blast
  from saveState_laws(2)[OF fs(1) this] show "world_ok h ps J w'"
    using assms(3,4) unfolding fs(2) world_ok_def by auto
  show "lw_sent w' = lw_sent w" by (simp add: fs(2))
qed

lemma send_all_ok:
  assumes "send_all h qs st b failed w = (e, b', failed', w')" "\<forall>n. lh_tmp h n \<noteq> lh_path h"
    and "world_ok h ps J w" "state_ok h ps J (lw_sent w) (st\<lparr>rs_Pending := Some b\<rparr>)"
  shows "world_ok h ps J w' \<and> state_ok h ps J (lw_sent w') (st\<lparr>rs_Pending := Some b'\<rparr>)
    \<and> pb_Cursor b' = pb_Cursor b \<and> set (delivered_to b) \<subseteq> set (delivered_to b')
    \<and> (e = None \<and> \<not> failed' \<longrightarrow> \<not> failed \<and> set qs \<subseteq> set (delivered_to b'))"
  using assms
proof (induction h qs st b failed w arbitrary: e b' failed' w' rule: send_all.induct)
  case (2 h p qs st b failed w)
  let ?b = "b\<lparr>pb_Delivered := Some (p # delivered_to b)\<rparr>"
  let ?tried = "w\<lparr>lw_attempts := Suc (lw_attempts w)\<rparr>"
  let ?sent = "?tried\<lparr>lw_sent := lw_sent w @ [(p, pb_Alert b)]\<rparr>"
  have del: "delivered_to ?b = p # delivered_to b" by (simp add: delivered_to_def)
  consider (known) "p \<in> set (delivered_to b)"
    | (refused) "p \<notin> set (delivered_to b)" "\<not> lh_send h (lw_attempts w) p (pb_Alert b)"
    | (accepted) "p \<notin> set (delivered_to b)" "lh_send h (lw_attempts w) p (pb_Alert b)" by blast
  then show ?case
  proof cases
    case known
    then show ?thesis using "2.IH"(1)[OF known _ "2.prems"(2,3,4)] "2.prems"(1) by auto
  next
    case refused
    have "send_all h qs st b True ?tried = (e, b', failed', w')" using "2.prems"(1) refused by simp
    from "2.IH"(2)[OF refused(1) refl refused(2) this "2.prems"(2)] "2.prems"(3,4)
    show ?thesis by (auto simp: world_ok_def)
  next
    case accepted
    have s: "state_ok h ps J (lw_sent ?sent) (st\<lparr>rs_Pending := Some ?b\<rparr>)"
      using "2.prems"(4) unfolding state_ok_def pending_ok_def
      by (auto simp: del intro: told_upto_mono)
    have w: "world_ok h ps J ?sent" by (rule world_ok_sent[OF "2.prems"(3)]) auto
    obtain r w1 where sv: "save h (st\<lparr>rs_Pending := Some ?b\<rparr>) ?sent = (r, w1)" by (metis prod.exhaust)
    note ok = save_ok[OF sv "2.prems"(2) w s]
    show ?thesis
    proof (cases r)
      case False
      then show ?thesis using "2.prems"(1) accepted sv ok s by (auto simp: del Let_def)
    next
      case True
      then have sv': "(True, w1) = save h (st\<lparr>rs_Pending := Some ?b\<rparr>) ?sent" using sv by simp
      have rest: "send_all h qs st ?b failed w1 = (e, b', failed', w')"
        using "2.prems"(1) accepted sv'[symmetric] by (simp add: Let_def)
      have "\<not> \<not> lh_send h (lw_attempts w) p (pb_Alert b)" using accepted by simp
      from "2.IH"(3)[OF accepted(1) refl this refl refl sv' refl rest "2.prems"(2) ok(1)] s ok(2)
      show ?thesis by (auto simp: del)
    qed
  qed
qed auto

lemma deliver_ok:
  assumes "deliver h ps st w = (e, st', w')" "\<forall>n. lh_tmp h n \<noteq> lh_path h"
    and "world_ok h ps J w" "state_ok h ps J (lw_sent w) st"
  shows "world_ok h ps J w' \<and> state_ok h ps J (lw_sent w') st' \<and> (e = None \<longrightarrow> rs_Pending st' = None)"
proof (cases "rs_Pending st")
  case None
  then show ?thesis using assms by (auto simp: deliver_def)
next
  case (Some b)
  obtain e1 b' failed w1 where sa: "send_all h ps st b False w = (e1, b', failed, w1)" by (metis prod.exhaust)
  have "st\<lparr>rs_Pending := Some b\<rparr> = st" using Some by simp
  then have ok: "world_ok h ps J w1" "state_ok h ps J (lw_sent w1) (st\<lparr>rs_Pending := Some b'\<rparr>)"
      "e1 = None \<and> \<not> failed \<longrightarrow> set ps \<subseteq> set (delivered_to b')"
    using send_all_ok[OF sa assms(2,3)] assms(4) by simp_all
  show ?thesis
  proof (cases "e1 = None \<and> \<not> failed")
    case False
    then show ?thesis using assms(1) Some sa ok by (auto simp: deliver_def split: option.splits)
  next
    case True
    let ?st = "st\<lparr>rs_Cursor := pb_Cursor b', rs_Pending := None\<rparr>"
    let ?k = "journal_pos J (rs_Cursor st)"
    have told: "told_upto h ps J (lw_sent w1) ?k" and pend: "pending_ok h J (lw_sent w1) ?k b'"
      using ok(2) by (simp_all add: state_ok_def)
    obtain j now where j: "?k < j" "j \<le> length J" "journal_pos J (pb_Cursor b') = j"
        "Summarize (lh_audit h) (batch J ?k j) (lh_label h) now = Some (pb_Alert b')"
        "\<forall>p \<in> set (delivered_to b'). (p, pb_Alert b') \<in> set (lw_sent w1)"
      using pend unfolding pending_ok_def by blast
    have "\<forall>p \<in> set ps. (p, pb_Alert b') \<in> set (lw_sent w1)" using ok(3) True j(5) by blast
    from told_upto.Told[OF told j(1,2,4) this]
    have "told_upto h ps J (lw_sent w1) (journal_pos J (pb_Cursor b'))" by (simp add: j(3))
    then have st: "state_ok h ps J (lw_sent w1) ?st" by (simp add: state_ok_def)
    obtain r w2 where sv: "save h ?st w1 = (r, w2)" by (metis prod.exhaust)
    show ?thesis using assms(1) Some sa True sv save_ok[OF sv assms(2) ok(1) st] st
      by (auto simp: deliver_def Let_def split: if_splits)
  qed
qed

subsection \<open>The journal and the runs\<close>

lemma scan_journal_prefix:
  "scan_journal ls ok acc = Inr es
    \<Longrightarrow> \<exists>n. map Some es = map Some acc @ take n (takeWhile (\<lambda>l. l \<noteq> None) ls)"
proof (induction ls ok acc rule: scan_journal.induct)
  case (1 ok acc)
  then show ?case by (auto split: if_splits)
next
  case (3 e ls ok acc)
  show ?case
  proof (cases "Suc (length acc) = 1000")
    case True
    then show ?thesis using "3.prems" by (auto intro!: exI[of _ "Suc 0"])
  next
    case False
    then obtain n where "map Some es = map Some (acc @ [e]) @ take n (takeWhile (\<lambda>l. l \<noteq> None) ls)"
      using "3.IH" "3.prems" by auto
    then show ?thesis by (intro exI[of _ "Suc n"]) simp
  qed
qed simp

lemma readJournal_batch:
  assumes "readJournal rd st = Inr es" "journal_ok J rd"
  shows "es = batch J (journal_pos J (rs_Cursor st)) (journal_pos J (rs_Cursor st) + length es)"
    and "journal_pos J (rs_Cursor st) + length es \<le> length J \<or> es = []"
proof -
  let ?k = "journal_pos J (rs_Cursor st)"
  obtain n where "takeWhile (\<lambda>l. l \<noteq> None) (rr_output rd (if rs_Cursor st = [] then rs_Since st else []) (rs_Cursor st))
      = map Some (take n (drop ?k J))" using assms(2) unfolding journal_ok_def by blast
  moreover obtain m where "map Some es = take m (takeWhile (\<lambda>l. l \<noteq> None)
      (rr_output rd (if rs_Cursor st = [] then rs_Since st else []) (rs_Cursor st)))"
    using scan_journal_prefix[OF assms(1)[unfolded readJournal_def]] by auto
  ultimately have "map Some es = map Some (take m (take n (drop ?k J)))" by (simp add: take_map)
  then have es: "es = take m (take n (drop ?k J))" by (simp add: inj_map_eq_map)
  then show "es = batch J ?k (?k + length es)" unfolding batch_def by (simp add: min_def)
  show "?k + length es \<le> length J \<or> es = []" using es by auto
qed

lemma takeWhile_before:
  "distinct (map f xs) \<Longrightarrow> i < length xs \<Longrightarrow> length (takeWhile (\<lambda>x. f x \<noteq> f (xs ! i)) xs) = i"
proof (induction xs arbitrary: i)
  case (Cons x xs)
  then show ?case by (cases i) auto
qed simp

lemma journal_pos_entry: "journal_wf J \<Longrightarrow> i < length J \<Longrightarrow> journal_pos J (je_Cursor (J ! i)) = Suc i"
  using takeWhile_before[of je_Cursor J i]
  by (auto simp: journal_wf_def journal_pos_def) (metis image_eqI nth_mem)

lemma queue_batch_ok:
  assumes "es = batch J k (k + length es)" "k + length es \<le> length J" "es \<noteq> []" "journal_wf J"
    and "k = journal_pos J (rs_Cursor st)" "state_ok h ps J sent st" "rs_Pending st = None"
  shows "state_ok h ps J sent (queue_batch h now es st)"
proof -
  let ?j = "k + length es"
  have "es ! (length es - 1) = take (length es) (drop k J) ! (length es - 1)"
    using assms(1) by (simp add: batch_def)
  also have "\<dots> = J ! (?j - 1)" using assms(2,3) by (cases es) simp_all
  finally have "last es = J ! (?j - 1)" using assms(3) by (simp add: last_conv_nth)
  then have pos: "journal_pos J (je_Cursor (last es)) = ?j" using journal_pos_entry[OF assms(4), of "?j - 1"] assms(2,3)
    by (cases es) auto
  have "k < ?j" using assms(3) by simp
  have told: "told_upto h ps J sent k" using assms(5,6) by (simp add: state_ok_def)
  show ?thesis
  proof (cases "Summarize (lh_audit h) es (lh_label h) now")
    case None
    then show ?thesis using told_upto.Quiet[OF told \<open>k < ?j\<close> assms(2)] assms(1,7) pos
      by (simp add: queue_batch_def Let_def state_ok_def)
  next
    case (Some a)
    have "pending_ok h J sent k \<lparr>pb_Cursor = je_Cursor (last es), pb_Alert = a, pb_Delivered = Some []\<rparr>"
      unfolding pending_ok_def using \<open>k < ?j\<close> assms(1,2) pos Some by (auto simp: delivered_to_def)
    then show ?thesis using Some told assms(5) by (simp add: queue_batch_def Let_def state_ok_def)
  qed
qed

lemma watch_loop_ok:
  assumes "watch_loop h ps rds st w = (e, w')" "\<forall>n. lh_tmp h n \<noteq> lh_path h" "journal_wf J"
    and "\<forall>rd \<in> set rds. journal_ok J rd" "world_ok h ps J w" "state_ok h ps J (lw_sent w) st"
  shows "world_ok h ps J w'"
  using assms
proof (induction h ps rds st w arbitrary: e w' rule: watch_loop.induct)
  case (2 h ps rd rds st w)
  obtain e1 st1 w1 where d1: "deliver h ps st w = (e1, st1, w1)" by (metis prod.exhaust)
  note ok1 = deliver_ok[OF d1 "2.prems"(2,5,6)]
  show ?case
  proof (cases e1)
    case (Some x)
    then show ?thesis using "2.prems"(1) d1 ok1 by simp
  next
    case None
    have rounds: "journal_ok J rd" "\<forall>rd \<in> set rds. journal_ok J rd" using "2.prems"(4) by simp_all
    show ?thesis
    proof (cases "readJournal rd st1")
      case (Inl x)
      then show ?thesis using "2.prems"(1) d1 None ok1 by (auto split: if_splits)
    next
      case (Inr es)
      show ?thesis
      proof (cases es)
        case Nil
        then show ?thesis using "2.IH"(1)[OF d1[unfolded None, symmetric] refl refl Inr[unfolded Nil]]
          "2.prems" d1 None Inr ok1 rounds by auto
      next
        case (Cons x xs)
        let ?st2 = "queue_batch h (rr_now rd) es st1"
        have len: "journal_pos J (rs_Cursor st1) + length es \<le> length J" "es \<noteq> []"
          using readJournal_batch(2)[OF Inr rounds(1)] Cons by auto
        have st2: "state_ok h ps J (lw_sent w1) ?st2"
          using queue_batch_ok[OF readJournal_batch(1)[OF Inr rounds(1)] len "2.prems"(3) refl] ok1 None by blast
        obtain r w2 where sv: "save h ?st2 w1 = (r, w2)" by (metis prod.exhaust)
        note ok2 = save_ok[OF sv "2.prems"(2) conjunct1[OF ok1] st2]
        obtain e3 st3 w3 where d3: "deliver h ps ?st2 w2 = (e3, st3, w3)" by (metis prod.exhaust)
        note ok3 = deliver_ok[OF d3 "2.prems"(2) ok2(1)]
        show ?thesis using "2.prems" d1 None Inr Cons sv ok2 st2 d3 ok3 rounds "2.IH"(2)
          by (auto simp: Let_def split: bool.splits option.splits)
      qed
    qed
  qed
qed simp

definition codec_ok :: "relay_host \<Rightarrow> bool" where
  "codec_ok h \<longleftrightarrow> (\<forall>st data d. lh_enc h st = Some data \<longrightarrow> lh_dec h d data = Some st)"

lemma Watch_ok:
  assumes "Watch h ps v w = (e, w')" "\<forall>n. lh_tmp h n \<noteq> lh_path h" "journal_wf J" "codec_ok h"
    and "\<forall>rd \<in> set (sv_rounds v). journal_ok J rd" "world_ok h ps J w"
  shows "world_ok h ps J w'"
proof (cases "w' = w")
  case True
  then show ?thesis using assms(6) by simp
next
  case False
  then obtain st where st: "load_state h v (lw_files w) = Inr st"
    using assms(1) by (auto simp: Watch_def split: if_splits sum.splits)
  obtain r w1 where sv: "save h st w = (r, w1)" by (metis prod.exhaust)
  have ok: "state_ok h ps J (lw_sent w) st"
  proof (cases "lw_files w (lh_path h)")
    case None
    then have "st = \<lparr>rs_Since = sv_since v, rs_Cursor = [], rs_Pending = None\<rparr>"
      using st by (simp add: load_state_def Let_def)
    then show ?thesis by (simp add: state_ok_def journal_pos_def told_upto.Start)
  next
    case (Some data)
    then obtain st0 where st0: "lh_enc h st0 = Some data" "state_ok h ps J (lw_sent w) st0"
      using assms(6) unfolding world_ok_def by blast
    have "st = st0" using st st0(1) Some assms(4)
      by (auto simp: load_state_def Let_def codec_ok_def split: if_splits option.splits)
    then show ?thesis using st0(2) by simp
  qed
  note saved = save_ok[OF sv assms(2,6) ok]
  have "state_ok h ps J (lw_sent w1) st" using ok saved(2) by simp
  with watch_loop_ok[of h ps "sv_rounds v" st w1 _ _ J] assms(1-3,5) False st sv saved(1) show ?thesis
    by (auto simp: Watch_def split: if_splits sum.splits bool.splits)
qed

text \<open>The service runs again and again, after every failure and restart.\<close>

definition relay_runs :: "relay_host \<Rightarrow> string list \<Rightarrow> relay_run list \<Rightarrow> relay_world \<Rightarrow> relay_world" where
  "relay_runs h ps vs w = foldl (\<lambda>w v. snd (Watch h ps v w)) w vs"

lemma relay_runs_ok:
  assumes "\<forall>n. lh_tmp h n \<noteq> lh_path h" "journal_wf J" "codec_ok h"
    and "\<forall>v \<in> set vs. \<forall>rd \<in> set (sv_rounds v). journal_ok J rd" "world_ok h ps J w"
  shows "world_ok h ps J (relay_runs h ps vs w)"
  using assms(4,5) unfolding relay_runs_def
proof (induction vs arbitrary: w)
  case (Cons v vs)
  have "world_ok h ps J (snd (Watch h ps v w))"
    using Watch_ok[OF prod.collapse[symmetric] assms(1-3)] Cons.prems by simp
  then show ?case using Cons by simp
qed simp

lemma Summarize_none:
  "Summarize audit es label now = None \<Longrightarrow> e \<in> set es \<Longrightarrow> Classify audit e = []"
  by (auto simp: Summarize_def kinds_def Let_def filter_empty_conv split: if_splits)

lemma told_upto_told:
  assumes "told_upto h ps J sent m" "i < m" "Classify (lh_audit h) (J ! i) \<noteq> []"
  shows "\<exists>k j now a. k \<le> i \<and> i < j \<and> Summarize (lh_audit h) (batch J k j) (lh_label h) now = Some a
    \<and> (\<forall>p \<in> set ps. (p, a) \<in> set sent)"
  using assms
proof (induction rule: told_upto.induct)
  case (Quiet k j now)
  have "i < k"
  proof (rule ccontr)
    assume "\<not> i < k"
    then have "J ! i = batch J k j ! (i - k)" "i - k < length (batch J k j)" using Quiet by (simp_all add: batch_def)
    then have "J ! i \<in> set (batch J k j)" by simp
    from Summarize_none[OF Quiet.hyps(4) this] show False using Quiet.prems by simp
  qed
  then show ?case using Quiet by simp
next
  case (Told k j now a)
  show ?case
  proof (cases "i < k")
    case True
    then show ?thesis using Told by simp
  next
    case False
    then show ?thesis using Told by (metis not_less)
  qed
qed simp


definition example_entry :: JournalEntry where
  "example_entry = \<lparr>je_Cursor = ''c'', je_UID = ''0'', je_Identifier = ''sshd'', je_Message = ''Accepted publickey''\<rparr>"

definition example_alert :: Alert where
  "example_alert = the (Summarize (\<lambda>m. None) [example_entry] ''host'' 0)"

definition example_batch :: "string list \<Rightarrow> pendingBatch" where
  "example_batch ds = \<lparr>pb_Cursor = ''c'', pb_Alert = example_alert, pb_Delivered = Some ds\<rparr>"

definition example_state :: "string \<Rightarrow> pendingBatch option \<Rightarrow> relayState" where
  "example_state c b = \<lparr>rs_Since = ''1'', rs_Cursor = c, rs_Pending = b\<rparr>"

definition example_codec :: "(relayState \<times> string) list" where
  "example_codec = [(example_state [] None, ''0''), (example_state [] (Some (example_batch [])), ''1''),
     (example_state [] (Some (example_batch [''mail''])), ''2''), (example_state ''c'' None, ''3'')]"

text \<open>The channel refuses the first attempt and accepts the second, in the second run.\<close>

definition example_host :: relay_host where
  "example_host = \<lparr>lh_path = ''/s'', lh_label = ''host'', lh_audit = (\<lambda>m. None), lh_enc = map_of example_codec,
     lh_dec = (\<lambda>d data. map_of (map prod.swap example_codec) data), lh_send = (\<lambda>n p a. n = 1), lh_up = (\<lambda>n i. True),
     lh_tmp = (\<lambda>n. ''/t''), lh_short = (\<lambda>n. 0)\<rparr>"

definition example_run :: relay_run where
  "example_run = \<lparr>sv_private = True, sv_free = True, sv_plain = True, sv_readable = True, sv_since = ''1'',
     sv_rounds = [\<lparr>rr_output = (\<lambda>s c. if c = [] then [Some example_entry] else []), rr_ok = True, rr_cancelled = False,
       rr_now = 0\<rparr>]\<rparr>"

lemma example_saved:
  "save example_host st w = (case map_of example_codec st of
     None \<Rightarrow> (False, w\<lparr>lw_saves := Suc (lw_saves w)\<rparr>)
   | Some data \<Rightarrow> (True, w\<lparr>lw_files := (lw_files w)(''/t'' := None, ''/s'' \<mapsto> data), lw_saves := Suc (lw_saves w)\<rparr>))"
  by (auto simp: save_def example_host_def saveState_def replace_file_def fill_temporary_def rename_over_def
      fun_eq_iff split: option.splits)

lemma example_codes:
  "map_of example_codec (example_state [] None) = Some ''0''"
  "map_of example_codec (example_state [] (Some (example_batch []))) = Some ''1''"
  "map_of example_codec (example_state [] (Some (example_batch [''mail'']))) = Some ''2''"
  "map_of example_codec (example_state ''c'' None) = Some ''3''"
  by (simp_all add: example_codec_def example_state_def example_batch_def)

lemma example_codec_ok: "codec_ok example_host"
  by (auto simp: codec_ok_def example_host_def example_codec_def split: if_splits)

lemma example_summary: "Summarize (\<lambda>m. None) [example_entry] ''host'' 0 = Some example_alert"
  by (simp add: example_alert_def Summarize_def example_entry_def kinds_def Classify_def has_prefix_def)

lemma example_fields:
  "lh_path example_host = ''/s''" "lh_label example_host = ''host''" "lh_audit example_host = (\<lambda>m. None)"
  "lh_send example_host n p a = (n = 1)" "lh_dec example_host d data = map_of (map prod.swap example_codec) data"
  "sv_private example_run" "sv_free example_run" "sv_plain example_run" "sv_readable example_run"
  "sv_since example_run = ''1''" "rs_Cursor (example_state c b) = c" "rs_Pending (example_state c b) = b"
  "rs_Since (example_state c b) = ''1''" "pb_Alert (example_batch ds) = example_alert"
  "pb_Cursor (example_batch ds) = ''c''" "delivered_to (example_batch ds) = ds" "pb_Delivered (example_batch ds) = Some ds"
  "je_Cursor example_entry = ''c''"
  by (simp_all add: example_entry_def example_host_def example_run_def example_state_def example_batch_def delivered_to_def)

lemma example_updates:
  "example_state c b\<lparr>rs_Pending := b'\<rparr> = example_state c b'" "example_state c b\<lparr>rs_Cursor := c'\<rparr> = example_state c' b"
  "example_batch ds\<lparr>pb_Delivered := Some ds'\<rparr> = example_batch ds'"
  by (simp_all add: example_state_def example_batch_def)

lemmas example_eval = example_fields example_updates example_codes example_saved

lemma example_first_run:
  "lw_files w ''/s'' = None \<Longrightarrow> lw_attempts w = 0 \<Longrightarrow>
     \<exists>w'. Watch example_host [''mail''] example_run w = (Some RelayDelivery, w')
       \<and> lw_files w' ''/s'' = Some ''1'' \<and> lw_attempts w' = 1 \<and> lw_sent w' = lw_sent w"
proof -
  assume w: "lw_files w ''/s'' = None" "lw_attempts w = 0"
  have load: "load_state example_host example_run (lw_files w) = Inr (example_state [] None)"
    using w by (simp add: load_state_def example_fields example_state_def)
  have queue: "queue_batch example_host 0 [example_entry] (example_state [] None) = example_state [] (Some (example_batch []))"
    by (simp add: queue_batch_def example_fields example_summary example_updates Let_def)
  show ?thesis using w by (simp add: Watch_def example_eval load is_abs_def has_prefix_def deliver_def readJournal_def queue
      example_run_def[THEN arg_cong[of _ _ sv_rounds]] Let_def)
qed

lemma example_second_run:
  "lw_files w ''/s'' = Some ''1'' \<Longrightarrow> lw_attempts w = 1 \<Longrightarrow>
     \<exists>w'. Watch example_host [''mail''] example_run w = (None, w')
       \<and> lw_files w' ''/s'' = Some ''3'' \<and> lw_sent w' = lw_sent w @ [(''mail'', example_alert)]"
proof -
  assume w: "lw_files w ''/s'' = Some ''1''" "lw_attempts w = 1"
  have load: "load_state example_host example_run (lw_files w) = Inr (example_state [] (Some (example_batch [])))"
    using w by (simp add: load_state_def example_fields example_codec_def Let_def)
  show ?thesis using w by (simp add: Watch_def example_eval load is_abs_def has_prefix_def deliver_def readJournal_def
      example_run_def[THEN arg_cong[of _ _ sv_rounds]] Let_def)
qed

definition example_world :: relay_world where
  "example_world = \<lparr>lw_files = (\<lambda>p. None), lw_sent = [], lw_attempts = 0, lw_saves = 0\<rparr>"


end
