(* ===== verification/Security_Watch.thy ===== *)
theory Security_Watch
  imports Monitor_Alerts Host_Files "HOL-Library.List_Lexorder" "HOL-Library.Char_ord"
begin

text \<open>
  \<open>internal/securitywatch/check.go\<close> and \<open>source.go\<close>: the read-only security report of a host. A checker asks
  GitHub for the latest release or branch, \<open>apt-get\<close> for upgrades, Docker for the running containers and Trivy
  for the vulnerabilities of their images. The answers of the tools and the decoding of their JSON are
  parameters. What cannot be established is reported as \<open>unknown\<close>.
\<close>

subsection \<open>Reports\<close>

record Check =
  ck_Status :: string
  ck_Code :: string
  ck_Installed :: string
  ck_Latest :: string
  ck_Count :: nat
  ck_RebootRequired :: bool
  ck_SourceBranch :: string

record Finding =
  fd_ID :: string
  fd_Severity :: string

record Image =
  im_ID :: string
  im_Status :: string
  im_Code :: string
  im_Findings :: "Finding list"

record Container =
  ct_ID :: string
  ct_ImageID :: string
  ct_Findings :: "Finding list"

record Report =
  rp_CheckedAt :: time
  rp_Release :: Check
  rp_Host :: Check
  rp_Inventory :: Check
  rp_Images :: "Image list"
  rp_Containers :: "Container list"

definition unknown_check :: Check where
  "unknown_check = \<lparr>ck_Status = ''unknown'', ck_Code = [], ck_Installed = [], ck_Latest = [], ck_Count = 0,
     ck_RebootRequired = False, ck_SourceBranch = []\<rparr>"

subsection \<open>The host and the decoded answers\<close>

record http_reply =
  hr_Status :: int
  hr_Body :: "string option"

record release_json =
  rj_Tag :: string
  rj_Draft :: bool
  rj_Prerelease :: bool

record ref_json =
  rf_Ref :: string
  rf_Type :: string
  rf_SHA :: string

record compare_json =
  cj_Status :: string
  cj_AheadBy :: int
  cj_BehindBy :: int
  cj_Base :: string
  cj_MergeBase :: string

record inspect_item =
  ii_ID :: string
  ii_Image :: string
  ii_User :: string
  ii_Privileged :: bool
  ii_Network :: string
  ii_PID :: string
  ii_Security :: "string list"
  ii_Caps :: "string list"
  ii_Mounts :: "(string \<times> string) list"

record scan_json =
  sj_SchemaVersion :: int
  sj_ArtifactType :: string
  sj_ImageID :: string
  sj_EOSL :: "bool option"
  sj_Results :: "(string \<times> string) list list"

datatype marker_answer = MarkerAbsent | MarkerError | MarkerRegular | MarkerOther

text \<open>
  \<open>sw_run\<close> is the runner: the output of a command unless it failed. \<open>sw_get\<close> answers an HTTP request unless it
  failed; a body that could not be read is \<open>None\<close>. \<open>sw_items\<close> are the values of a JSON stream, \<open>None\<close> for a
  broken one. \<open>sw_now\<close> is the clock at its \<open>n\<close>-th reading.
\<close>

record watch_host =
  sw_run :: "string list \<Rightarrow> string option"
  sw_get :: "string \<Rightarrow> http_reply option"
  sw_release :: "string \<Rightarrow> release_json option"
  sw_ref :: "string \<Rightarrow> ref_json option"
  sw_compare :: "string \<Rightarrow> compare_json option"
  sw_items :: "string \<Rightarrow> inspect_item option list"
  sw_scan :: "string \<Rightarrow> scan_json option"
  sw_escape :: "string \<Rightarrow> string"
  sw_marker :: marker_answer
  sw_stamp :: "time option"
  sw_now :: "nat \<Rightarrow> time"

record Checker =
  cc_API :: string
  cc_ScanTimeout :: string
  cc_HostOS :: string
  cc_SourceCommit :: string
  cc_SourceBranch :: string

subsection \<open>Patterns\<close>

definition repository_char :: "char \<Rightarrow> bool" where
  "repository_char c \<longleftrightarrow> is_alnum c \<or> c \<in> set ''_.-''"

definition repositoryPattern :: "string \<Rightarrow> bool" where
  "repositoryPattern s \<longleftrightarrow>
     (case cut_at CHR ''/'' s of
        (owner, repo, found) \<Rightarrow> found \<and> owner \<noteq> [] \<and> repo \<noteq> [] \<and> list_all repository_char owner \<and> list_all repository_char repo)"

definition imageIDPattern :: "string \<Rightarrow> bool" where
  "imageIDPattern s \<longleftrightarrow> has_prefix s ''sha256:'' \<and> class_rep is_lower_hex 64 64 (drop 7 s)"

definition containerIDPattern :: "string \<Rightarrow> bool" where
  "containerIDPattern s \<longleftrightarrow> class_rep is_lower_hex 12 64 s"

definition sourceCommitPattern :: "string \<Rightarrow> bool" where
  "sourceCommitPattern s \<longleftrightarrow> class_rep is_lower_hex 40 40 s"

definition branch_char :: "char \<Rightarrow> bool" where
  "branch_char c \<longleftrightarrow> is_alnum c \<or> c \<in> set ''._/-''"

definition sourceBranchPattern :: "string \<Rightarrow> bool" where
  "sourceBranchPattern s \<longleftrightarrow> (case s of [] \<Rightarrow> False | c # cs \<Rightarrow> is_alnum c \<and> class_rep branch_char 0 199 cs)"

definition vulnerability_char :: "char \<Rightarrow> bool" where
  "vulnerability_char c \<longleftrightarrow> is_alnum c \<or> c \<in> set ''_.:-''"

definition vulnerability_id :: "string \<Rightarrow> bool" where
  "vulnerability_id s \<longleftrightarrow> \<not> 160 < length s \<and> s \<noteq> [] \<and> list_all vulnerability_char s"

subsection \<open>Versions\<close>

text \<open>\<open>0|[1-9][0-9]*\<close> at the start: the digits and the rest.\<close>

definition version_number :: "string \<Rightarrow> (string \<times> string) option" where
  "version_number s =
     (let ds = takeWhile is_digit s in
      if ds = [] \<or> (1 < length ds \<and> hd ds = CHR ''0'') then None else Some (ds, drop (length ds) s))"

definition expect_char :: "char \<Rightarrow> string \<Rightarrow> string option" where
  "expect_char c s = (case s of [] \<Rightarrow> None | d # ds \<Rightarrow> if d = c then Some ds else None)"

definition suffix_char :: "char \<Rightarrow> bool" where
  "suffix_char c \<longleftrightarrow> is_alnum c \<or> c = CHR ''.'' \<or> c = CHR ''-''"

text \<open>The optional \<open>(-[0-9A-Za-z.-]+)?(\+[0-9A-Za-z.-]+)?$\<close>: the first group, empty without one.\<close>

definition build_suffix :: "string \<Rightarrow> bool" where
  "build_suffix s \<longleftrightarrow> s = [] \<or> (hd s = CHR ''+'' \<and> tl s \<noteq> [] \<and> list_all suffix_char (tl s))"

definition version_suffix :: "string \<Rightarrow> string option" where
  "version_suffix s =
     (if has_prefix s ''-'' then
        (let pre = takeWhile suffix_char (tl s) in
         if pre \<noteq> [] \<and> build_suffix (drop (length pre) (tl s)) then Some (CHR ''-'' # pre) else None)
      else if build_suffix s then Some [] else None)"

text \<open>\<open>releasePattern.FindStringSubmatch\<close>: the three numbers and the pre-release.\<close>

definition releasePattern :: "string \<Rightarrow> (string \<times> string \<times> string \<times> string) option" where
  "releasePattern s =
     (case version_number (trim_prefix s ''v'') of
        None \<Rightarrow> None
      | Some (a, s1) \<Rightarrow>
          (case Option.bind (expect_char CHR ''.'' s1) version_number of
             None \<Rightarrow> None
           | Some (b, s2) \<Rightarrow>
               (case Option.bind (expect_char CHR ''.'' s2) version_number of
                  None \<Rightarrow> None
                | Some (c, s3) \<Rightarrow> map_option (\<lambda>pre. (a, b, c, pre)) (version_suffix s3))))"

text \<open>\<open>strconv.ParseUint(ds, 10, 64)\<close> on a string of digits.\<close>

definition decimal :: "string \<Rightarrow> nat" where
  "decimal ds = foldl (\<lambda>n c. 10 * n + (of_char c - 48)) 0 ds"

definition ParseUint :: "string \<Rightarrow> nat option" where
  "ParseUint ds = (if decimal ds < 2 ^ 64 then Some (decimal ds) else None)"

text \<open>The comparison of the numbers, in order: \<open>Some\<close> is a final status.\<close>

fun compare_numbers :: "(string \<times> string) list \<Rightarrow> (string \<times> string) option" where
  "compare_numbers [] = None"
| "compare_numbers ((c, l) # rest) =
     (case (ParseUint c, ParseUint l) of
        (Some a, Some b) \<Rightarrow>
          if a < b then Some (''update_available'', []) else if b < a then Some (''up_to_date'', [])
          else compare_numbers rest
      | _ \<Rightarrow> Some (''unknown'', ''invalid_version''))"

definition release_status :: "string \<times> string \<times> string \<times> string \<Rightarrow> string \<times> string \<times> string \<times> string \<Rightarrow> string \<times> string" where
  "release_status current latest =
     (case (current, latest) of
        ((a, b, c, pre), (a', b', c', pre')) \<Rightarrow>
          (case compare_numbers [(a, a'), (b, b'), (c, c')] of
             Some r \<Rightarrow> r
           | None \<Rightarrow> (if pre \<noteq> [] \<and> pre' = [] then ''update_available'' else ''up_to_date'', [])))"

subsection \<open>The release and the source branch\<close>

definition read_body :: "http_reply \<Rightarrow> string option" where
  "read_body r = (case hr_Body r of None \<Rightarrow> None | Some data \<Rightarrow> if 1048576 < length data then None else Some data)"

definition sourceJSON :: "watch_host \<Rightarrow> Checker \<Rightarrow> string \<Rightarrow> (string \<Rightarrow> 'a option) \<Rightarrow> 'a option" where
  "sourceJSON h c path dec =
     (case sw_get h (cc_API c @ path) of
        None \<Rightarrow> None
      | Some r \<Rightarrow> if hr_Status r \<noteq> 200 then None else Option.bind (read_body r) dec)"

definition bad_branch :: "string \<Rightarrow> bool" where
  "bad_branch b \<longleftrightarrow> \<not> sourceBranchPattern b \<or> contains_str b ''..'' \<or> contains_str b ''//'' \<or> has_suffix b ''/''
     \<or> has_suffix b ''.'' \<or> has_suffix b ''.lock''"

definition fast_forward :: "string \<Rightarrow> compare_json \<Rightarrow> bool" where
  "fast_forward installed j \<longleftrightarrow> cj_Base j = installed \<and> cj_MergeBase j = installed \<and> cj_Status j = ''ahead''
     \<and> 0 < cj_AheadBy j \<and> cj_BehindBy j = 0"

definition sourceRelease :: "watch_host \<Rightarrow> Checker \<Rightarrow> string \<Rightarrow> string \<Rightarrow> Check" where
  "sourceRelease h c repo installed =
     (let result = unknown_check\<lparr>ck_Installed := cc_SourceCommit c, ck_SourceBranch := cc_SourceBranch c\<rparr> in
      if installed \<noteq> ''dev'' \<or> \<not> sourceCommitPattern (cc_SourceCommit c)
      then result\<lparr>ck_Code := ''invalid_source_build_metadata''\<rparr>
      else if \<not> repositoryPattern repo \<or> contains_str repo ''..'' \<or> bad_branch (cc_SourceBranch c)
      then result\<lparr>ck_Code := ''invalid_source_tracking_target''\<rparr>
      else case sourceJSON h c (''/repos/'' @ repo @ ''/git/ref/heads/'' @ sw_escape h (cc_SourceBranch c)) (sw_ref h) of
        None \<Rightarrow> result\<lparr>ck_Code := ''source_branch_lookup_unavailable''\<rparr>
      | Some r \<Rightarrow>
          if rf_Ref r \<noteq> ''refs/heads/'' @ cc_SourceBranch c \<or> rf_Type r \<noteq> ''commit'' \<or> \<not> sourceCommitPattern (rf_SHA r)
          then result\<lparr>ck_Code := ''invalid_source_branch_response''\<rparr>
          else
            let result1 = result\<lparr>ck_Latest := rf_SHA r\<rparr> in
            if ck_Installed result1 = ck_Latest result1
            then result1\<lparr>ck_Status := ''up_to_date'', ck_Code := ''source_commit_current''\<rparr>
            else case sourceJSON h c (''/repos/'' @ repo @ ''/compare/'' @ ck_Installed result1 @ ''...'' @ ck_Latest result1)
                (sw_compare h) of
              None \<Rightarrow> result1\<lparr>ck_Code := ''source_comparison_unavailable''\<rparr>
            | Some j \<Rightarrow>
                if \<not> fast_forward (ck_Installed result1) j
                then result1\<lparr>ck_Code := ''source_history_not_fast_forward''\<rparr>
                else result1\<lparr>ck_Status := ''update_available'', ck_Code := ''source_commit_update_available''\<rparr>)"

definition release :: "watch_host \<Rightarrow> Checker \<Rightarrow> string \<Rightarrow> string \<Rightarrow> Check" where
  "release h c repo installed =
     (if cc_SourceBranch c \<noteq> [] then sourceRelease h c repo installed
      else
        let result = unknown_check\<lparr>ck_Installed := installed\<rparr> in
        if \<not> repositoryPattern repo then result\<lparr>ck_Code := ''invalid_release_repository''\<rparr>
        else case sw_get h (cc_API c @ ''/repos/'' @ repo @ ''/releases/latest'') of
          None \<Rightarrow> result\<lparr>ck_Code := ''release_lookup_failed''\<rparr>
        | Some r \<Rightarrow>
            if hr_Status r \<noteq> 200 then result\<lparr>ck_Code := ''release_lookup_unavailable''\<rparr>
            else case Option.bind (read_body r) (sw_release h) of
              None \<Rightarrow> result\<lparr>ck_Code := ''invalid_release_response''\<rparr>
            | Some j \<Rightarrow>
                (case releasePattern (rj_Tag j) of
                   None \<Rightarrow> result\<lparr>ck_Code := ''invalid_release_response''\<rparr>
                 | Some latest \<Rightarrow>
                     if rj_Draft j \<or> rj_Prerelease j then result\<lparr>ck_Code := ''invalid_release_response''\<rparr>
                     else
                       let result1 = result\<lparr>ck_Latest := rj_Tag j\<rparr> in
                       (case releasePattern installed of
                          None \<Rightarrow> result1\<lparr>ck_Code := ''unversioned_local_build''\<rparr>
                        | Some current \<Rightarrow>
                            (case release_status current latest of
                               (status, code) \<Rightarrow> result1\<lparr>ck_Status := status, ck_Code := code\<rparr>))))"

subsection \<open>The host\<close>

definition host :: "watch_host \<Rightarrow> Checker \<Rightarrow> Check" where
  "host h c =
     (if cc_HostOS c \<noteq> ''linux''
      then unknown_check\<lparr>ck_Status := ''not_applicable'', ck_Code := ''linux_host_check_only''\<rparr>
      else if sw_marker h = MarkerOther \<or> sw_marker h = MarkerError
      then unknown_check\<lparr>ck_Code := ''host_reboot_status_unverified''\<rparr>
      else
        let result = unknown_check\<lparr>ck_RebootRequired := (sw_marker h = MarkerRegular)\<rparr> in
        case sw_run h [''apt-get'', ''--simulate'', ''-o'', ''Debug::NoLocking=1'', ''upgrade''] of
          None \<Rightarrow> result\<lparr>ck_Code := ''apt_unavailable_or_failed''\<rparr>
        | Some data \<Rightarrow>
            let count = length (filter (\<lambda>l. has_prefix l ''Inst '') (lines data));
                result1 = result\<lparr>ck_Count := count\<rparr>
            in case sw_stamp h of
                 None \<Rightarrow> result1\<lparr>ck_Code := ''apt_index_freshness_unverified''\<rparr>
               | Some modified \<Rightarrow>
                   if 48 * hour < sw_now h 1 - modified \<or> sw_now h 2 + minute < modified
                   then result1\<lparr>ck_Code := ''apt_index_freshness_unverified''\<rparr>
                   else result1\<lparr>ck_Status := (if 0 < count then ''update_available'' else ''up_to_date'')\<rparr>)"

subsection \<open>Images\<close>

fun scan_findings :: "(string \<times> string) list \<Rightarrow> string list \<Rightarrow> Finding list \<Rightarrow> bool \<times> Finding list" where
  "scan_findings [] seen acc = (True, acc)"
| "scan_findings ((vid, severity) # vs) seen acc =
     (if severity \<noteq> ''HIGH'' \<and> severity \<noteq> ''CRITICAL'' then scan_findings vs seen acc
      else if \<not> vulnerability_id vid then (False, acc)
      else if vid @ severity \<in> set seen then scan_findings vs seen acc
      else scan_findings vs ((vid @ severity) # seen) (acc @ [\<lparr>fd_ID = vid, fd_Severity = to_lower severity\<rparr>]))"

definition scan_command :: "Checker \<Rightarrow> string \<Rightarrow> string list" where
  "scan_command c imageID =
     [''trivy'', ''image'', ''--quiet'', ''--scanners'', ''vuln'', ''--format'', ''json'', ''--severity'', ''HIGH,CRITICAL'',
      ''--exit-code'', ''0'', ''--image-src'', ''docker'', ''--timeout'', cc_ScanTimeout c, ''--'', imageID]"

text \<open>Findings are sorted by their id; the order of equal ids is left to the library, here it is kept.\<close>

definition scan :: "watch_host \<Rightarrow> Checker \<Rightarrow> string \<Rightarrow> Image" where
  "scan h c imageID =
     (let result = \<lparr>im_ID = imageID, im_Status = ''unknown'', im_Code = [], im_Findings = []\<rparr> in
      case sw_run h (scan_command c imageID) of
        None \<Rightarrow> result\<lparr>im_Code := ''vulnerability_scan_failed_or_unavailable''\<rparr>
      | Some data \<Rightarrow>
          (case sw_scan h data of
             None \<Rightarrow> result\<lparr>im_Code := ''invalid_or_mismatched_scan''\<rparr>
           | Some j \<Rightarrow>
               if sj_SchemaVersion j \<noteq> 2 \<or> sj_ArtifactType j \<noteq> ''container_image'' \<or> sj_ImageID j \<noteq> imageID
               then result\<lparr>im_Code := ''invalid_or_mismatched_scan''\<rparr>
               else (case scan_findings (concat (sj_Results j)) [] [] of
                 (False, fs) \<Rightarrow> result\<lparr>im_Code := ''invalid_vulnerability_identity'', im_Findings := fs\<rparr>
               | (True, fs) \<Rightarrow>
                   let fs' = (if sj_EOSL j = Some True
                              then fs @ [\<lparr>fd_ID = ''unsupported_os_release'', fd_Severity = ''warning''\<rparr>] else fs)
                   in result\<lparr>im_Status := ''checked'', im_Findings := sort_key fd_ID fs'\<rparr>)))"

subsection \<open>Containers\<close>

definition finding :: "bool \<Rightarrow> string \<Rightarrow> string \<Rightarrow> Finding list" where
  "finding present name severity = (if present then [\<lparr>fd_ID = name, fd_Severity = severity\<rparr>] else [])"

definition no_new_privileges :: "string \<Rightarrow> bool" where
  "no_new_privileges opt \<longleftrightarrow>
     opt \<in> {''no-new-privileges'', ''no-new-privileges:true'', ''no-new-privileges=true''}"

definition socket_mount :: "string \<times> string \<Rightarrow> bool" where
  "socket_mount m \<longleftrightarrow> has_suffix (fst m) ''/docker.sock'' \<or> has_suffix (snd m) ''/docker.sock''"

definition container_findings :: "inspect_item \<Rightarrow> Finding list" where
  "container_findings item =
     (let user = hd (split_on CHR '':'' (ii_User item)) in
      finding (user \<in> {[], ''0'', ''root''}) ''root_or_image_default_startup_user'' ''warning''
      @ concat (map (\<lambda>opt. finding (contains_str opt ''unconfined'') ''runtime_confinement_disabled'' ''critical'') (ii_Security item))
      @ finding (\<not> list_ex no_new_privileges (ii_Security item)) ''no_new_privileges_missing'' ''warning''
      @ finding (ii_Privileged item) ''privileged_container'' ''critical''
      @ finding (ii_Network item = ''host'' \<or> ii_PID item = ''host'') ''shared_host_namespace'' ''warning''
      @ finding (ii_Caps item \<noteq> []) ''additional_linux_capabilities'' ''warning''
      @ concat (map (\<lambda>m. finding (socket_mount m) ''docker_socket_mounted'' ''critical'') (ii_Mounts item)))"

definition inspected :: "inspect_item \<Rightarrow> Container" where
  "inspected item = \<lparr>ct_ID = ii_ID item, ct_ImageID = ii_Image item, ct_Findings = sort_key fd_ID (container_findings item)\<rparr>"

text \<open>The stream of inspections, up to a value that is broken.\<close>

fun read_items :: "inspect_item option list \<Rightarrow> Container list \<Rightarrow> bool \<times> Container list" where
  "read_items [] acc = (True, acc)"
| "read_items (None # rest) acc = (False, acc)"
| "read_items (Some item # rest) acc =
     (if \<not> containerIDPattern (ii_ID item) \<or> \<not> imageIDPattern (ii_Image item) then (False, acc)
      else read_items rest (acc @ [inspected item]))"

definition inspect_format :: string where
  "inspect_format = ''{\"id\":{{json .Id}},\"image\":{{json .Image}},\"user\":{{json .Config.User}},\"privileged\":{{json .HostConfig.Privileged}},\"network\":{{json .HostConfig.NetworkMode}},\"pid\":{{json .HostConfig.PidMode}},\"security\":{{json .HostConfig.SecurityOpt}},\"caps\":{{json .HostConfig.CapAdd}},\"mounts\":{{json .Mounts}}}''"

subsection \<open>The report\<close>

definition unknown_inventory :: "string \<Rightarrow> Check" where
  "unknown_inventory code = unknown_check\<lparr>ck_Code := code\<rparr>"

text \<open>The inspected containers and the images they run.\<close>

definition report_images :: "watch_host \<Rightarrow> Checker \<Rightarrow> nat \<Rightarrow> Container list \<Rightarrow> Report \<Rightarrow> Report" where
  "report_images h c listed cs report =
     (let report1 = report\<lparr>rp_Containers := cs,
            rp_Inventory := (if length cs \<noteq> listed then unknown_inventory ''incomplete_container_inventory''
                             else rp_Inventory report)\<rparr>;
          images = sort (remdups (map ct_ImageID cs))
      in if 100 < length images then report1\<lparr>rp_Inventory := unknown_inventory ''image_limit_exceeded''\<rparr>
         else report1\<lparr>rp_Images := map (scan h c) images, rp_Containers := sort_key ct_ID cs\<rparr>)"

definition Run :: "watch_host \<Rightarrow> Checker \<Rightarrow> string \<Rightarrow> string \<Rightarrow> Report" where
  "Run h c repository installed =
     (let report = \<lparr>rp_CheckedAt = sw_now h 0, rp_Release = release h c repository installed, rp_Host = host h c,
            rp_Inventory = unknown_check\<lparr>ck_Status := []\<rparr>, rp_Images = [], rp_Containers = []\<rparr> in
      case sw_run h [''docker'', ''ps'', ''--quiet''] of
        None \<Rightarrow> report\<lparr>rp_Inventory := unknown_inventory ''docker_inventory_unavailable''\<rparr>
      | Some ids \<Rightarrow>
          let values = Go_Strings.fields ids in
          if 200 < length values then report\<lparr>rp_Inventory := unknown_inventory ''container_limit_exceeded''\<rparr>
          else if \<not> list_all containerIDPattern values
          then report\<lparr>rp_Inventory := unknown_inventory ''invalid_container_identity''\<rparr>
          else
            let report1 = report\<lparr>rp_Inventory := unknown_check\<lparr>ck_Status := ''checked'', ck_Count := length values\<rparr>\<rparr> in
            if values = [] then report1
            else case sw_run h ([''docker'', ''inspect'', ''--format'', inspect_format] @ values) of
              None \<Rightarrow> report1\<lparr>rp_Inventory := unknown_inventory ''container_inspection_failed''\<rparr>
            | Some data \<Rightarrow>
                (case read_items (sw_items h data) [] of
                   (False, cs) \<Rightarrow>
                     report1\<lparr>rp_Containers := cs, rp_Inventory := unknown_inventory ''invalid_container_inspection''\<rparr>
                 | (True, cs) \<Rightarrow> report_images h c (length values) cs report1))"

definition count_findings :: "Finding list \<Rightarrow> nat \<times> nat" where
  "count_findings fs =
     (length (filter (\<lambda>f. fd_Severity f = ''critical'') fs), length (filter (\<lambda>f. fd_Severity f \<noteq> ''critical'') fs))"

text \<open>Critical findings, warnings and unknown checks.\<close>

definition Counts :: "Report \<Rightarrow> nat \<times> nat \<times> nat" where
  "Counts r =
     (let checks = [rp_Release r, rp_Host r, rp_Inventory r];
          fs = concat (map im_Findings (rp_Images r)) @ concat (map ct_Findings (rp_Containers r))
      in (fst (count_findings fs),
          length (filter (\<lambda>c. ck_Status c = ''update_available'') checks) + length (filter ck_RebootRequired checks)
            + snd (count_findings fs),
          length (filter (\<lambda>c. ck_Status c = ''unknown'') checks)
            + length (filter (\<lambda>i. im_Status i = ''unknown'') (rp_Images r))))"

end
