(* ===== verification/Security_State.thy ===== *)
theory Security_State
  imports Security_Watch
begin

text \<open>
  \<open>internal/securitywatch/state.go\<close> and the command in \<open>cmd/security.go\<close>: the report and what each channel
  was told last are one private file; a channel that did not accept the alert of a changed report is tried
  again by the next run. JSON, SHA-256, the channels and the system calls are parameters.
\<close>

subsection \<open>The state file\<close>

record delivery =
  dl_Digest :: string
  dl_Alerted :: bool

record State =
  ss_Version :: int
  ss_Report :: "Report option"
  ss_Deliveries :: "(string \<times> delivery) list"

definition maxSecurityState :: nat where "maxSecurityState = 4 * 1024 * 1024"

datatype security_error =
    BadStateFile | BadSecurityState | SaveFailed | DeliveryFailed nat | BadFlags | SetupFailed | LockBusy
  | OutputFailed | ProvidersFailed | Incomplete nat | FindingsPresent

text \<open>\<open>dec\<close> decodes into the empty state of version 1; \<open>plain\<close> is the check that the file is regular and private.\<close>

definition Load :: "(string \<Rightarrow> State option) \<Rightarrow> bool \<Rightarrow> schedule \<Rightarrow> string \<Rightarrow> files \<Rightarrow> security_error + State" where
  "Load dec plain up path fs =
     (case fs path of
        None \<Rightarrow> Inr \<lparr>ss_Version = 1, ss_Report = None, ss_Deliveries = []\<rparr>
      | Some data \<Rightarrow>
          if \<not> up 0 then Inl BadStateFile
          else if \<not> plain \<or> maxSecurityState < length data then Inl BadStateFile
          else if \<not> up 1 then Inl BadStateFile
          else case dec data of
            None \<Rightarrow> Inl BadSecurityState
          | Some st \<Rightarrow> if ss_Version st \<noteq> 1 then Inl BadSecurityState else Inr st)"

definition Save :: "(State \<Rightarrow> string option) \<Rightarrow> nat \<Rightarrow> string \<Rightarrow> schedule \<Rightarrow> string \<Rightarrow> files \<Rightarrow> State \<Rightarrow> bool \<times> files" where
  "Save enc short path up tmp fs st =
     (case enc st of
        None \<Rightarrow> (False, fs)
      | Some data \<Rightarrow>
          if maxSecurityState < length data then (False, fs)
          else if \<not> up 0 then (False, fs)
          else replace_file up 1 [StepWrite short, StepSync, StepClose] tmp path data fs)"

lemma Save_laws:
  assumes "Save enc short path up tmp fs st = (r, fs')"
  shows "tmp \<noteq> path \<Longrightarrow> r \<Longrightarrow> enc st \<noteq> None \<and> fs' path = enc st"
    and "tmp \<noteq> path \<Longrightarrow> \<not> r \<Longrightarrow> fs' path = fs path"
    and "p \<noteq> tmp \<Longrightarrow> p \<noteq> path \<Longrightarrow> fs' p = fs p"
    and "tmp \<noteq> path \<Longrightarrow> fs tmp = None \<Longrightarrow> up 9 \<Longrightarrow> fs' tmp = None"
proof -
  have step: "StepWrite short \<in> set [StepWrite short, StepSync, StepClose]" by simp
  show "tmp \<noteq> path \<Longrightarrow> r \<Longrightarrow> enc st \<noteq> None \<and> fs' path = enc st"
    using assms replace_file_written[OF _ step] unfolding Save_def by (auto split: option.splits if_splits)
  show "tmp \<noteq> path \<Longrightarrow> \<not> r \<Longrightarrow> fs' path = fs path"
    using assms replace_file_kept unfolding Save_def by (auto split: option.splits if_splits)
  show "p \<noteq> tmp \<Longrightarrow> p \<noteq> path \<Longrightarrow> fs' p = fs p"
    using assms replace_file_frame unfolding Save_def by (auto split: option.splits if_splits)
  show "tmp \<noteq> path \<Longrightarrow> fs tmp = None \<Longrightarrow> up 9 \<Longrightarrow> fs' tmp = None"
    using assms replace_file_no_temporary unfolding Save_def by (auto split: option.splits if_splits)
qed

interpretation security_file: atomic_writer "Save enc short path" path "\<lambda>st. the (enc st)" for enc short path
  by unfold_locales (use Save_laws[of enc short path] in \<open>fastforce+\<close>)

subsection \<open>Notification\<close>

definition level_for :: "nat \<Rightarrow> nat \<Rightarrow> nat \<Rightarrow> string" where
  "level_for critical warning unknown =
     (if 0 < critical then ''critical'' else if 0 < warning + unknown then ''warning'' else ''info'')"

definition security_alert :: "string \<Rightarrow> Report \<Rightarrow> Alert" where
  "security_alert label report =
     (case Counts report of
        (critical, warning, unknown) \<Rightarrow>
          \<lparr>alert_Level = level_for critical warning unknown,
           alert_Title = (if 0 < critical + warning + unknown then ''Security checks need attention''
                          else ''Previously reported security checks are clear''),
           alert_Message = show_int (int critical) @ '' critical findings, '' @ show_int (int warning)
             @ '' warnings or updates, '' @ show_int (int unknown)
             @ '' incomplete checks. Review the private FleetDeck security report. No software was updated automatically.''
             @ (if ck_RebootRequired (rp_Host report)
                then '' The host reports a required restart; schedule it with verified recovery access.'' else []),
           alert_Target = label, alert_Timestamp = rp_CheckedAt report\<rparr>)"

definition active :: "Report \<Rightarrow> bool" where
  "active report = (case Counts report of (critical, warning, unknown) \<Rightarrow> 0 < critical + warning + unknown)"

text \<open>The digest of a report without its time.\<close>

definition report_digest :: "(Report \<Rightarrow> string) \<Rightarrow> Report \<Rightarrow> string" where
  "report_digest sha report = sha (report\<lparr>rp_CheckedAt := 0\<rparr>)"

definition previous :: "State \<Rightarrow> string \<Rightarrow> delivery" where
  "previous st p = (case map_of (ss_Deliveries st) p of None \<Rightarrow> \<lparr>dl_Digest = [], dl_Alerted = False\<rparr> | Some d \<Rightarrow> d)"

text \<open>One pass over the channels. \<open>accepts p\<close> tells whether channel \<open>p\<close> accepts; the log holds the accepted alerts.\<close>

fun notify_all ::
  "(string \<Rightarrow> bool) \<Rightarrow> string \<Rightarrow> bool \<Rightarrow> Alert \<Rightarrow> string list \<Rightarrow> State \<Rightarrow> nat \<Rightarrow> (string \<times> Alert) list
    \<Rightarrow> nat \<times> State \<times> (string \<times> Alert) list" where
  "notify_all accepts digest act a [] st failures log = (failures, st, log)"
| "notify_all accepts digest act a (p # ps) st failures log =
     (if dl_Digest (previous st p) = digest then notify_all accepts digest act a ps st failures log
      else
        let tell = act \<or> dl_Alerted (previous st p) in
        if tell \<and> \<not> accepts p then notify_all accepts digest act a ps st (Suc failures) log
        else notify_all accepts digest act a ps
          (st\<lparr>ss_Deliveries := al_put p \<lparr>dl_Digest = digest, dl_Alerted = act\<rparr> (ss_Deliveries st)\<rparr>) failures
          (if tell then log @ [(p, a)] else log))"

definition Notify ::
  "(Report \<Rightarrow> string) \<Rightarrow> (string \<Rightarrow> bool) \<Rightarrow> Report \<Rightarrow> string \<Rightarrow> string list \<Rightarrow> State \<Rightarrow> (string \<times> Alert) list
    \<Rightarrow> security_error option \<times> State \<times> (string \<times> Alert) list" where
  "Notify sha accepts report label providers st log =
     (case notify_all accepts (report_digest sha report) (active report) (security_alert label report) providers st 0 log of
        (failures, st1, log1) \<Rightarrow>
          (if 0 < failures then Some (DeliveryFailed failures) else None, st1\<lparr>ss_Report := Some report\<rparr>, log1))"

subsection \<open>The command\<close>

text \<open>One call of \<open>fleetdeck security check\<close>. \<open>sk_up\<close> answers the making of the directory (0), the lock (1), the
  output (2) and the loading of the channels (3); \<open>sk_load\<close> and \<open>sk_save\<close> are the schedules of the state file.\<close>

record security_call =
  sk_notify :: bool
  sk_path :: string
  sk_label :: string
  sk_repo :: string
  sk_failFindings :: bool
  sk_sourceBranch :: string
  sk_host :: watch_host
  sk_send :: "string \<Rightarrow> bool"
  sk_up :: schedule
  sk_load :: schedule
  sk_plain :: bool
  sk_save :: schedule
  sk_tmp :: string
  sk_short :: nat

record security_world =
  sx_files :: files
  sx_log :: "(string \<times> Alert) list"

record security_env =
  se_enc :: "State \<Rightarrow> string option"
  se_dec :: "string \<Rightarrow> State option"
  se_sha :: "Report \<Rightarrow> string"
  se_os :: string
  se_Version :: string
  se_Commit :: string
  se_ReleaseRepository :: string
  se_providers :: "string list"

definition New_Checker :: "security_env \<Rightarrow> Checker" where
  "New_Checker env = \<lparr>cc_API = ''https://api.github.com'', cc_ScanTimeout = ''5m0s'', cc_HostOS = se_os env,
     cc_SourceCommit = [], cc_SourceBranch = []\<rparr>"

definition release_repository :: "security_env \<Rightarrow> security_call \<Rightarrow> string" where
  "release_repository env k =
     (if sk_repo k \<noteq> [] then sk_repo k
      else if se_ReleaseRepository env \<noteq> [] then se_ReleaseRepository env else ''Artaeon/fleetdeck'')"

definition security_report :: "security_env \<Rightarrow> security_call \<Rightarrow> Report" where
  "security_report env k =
     Run (sk_host k) ((New_Checker env)\<lparr>cc_SourceBranch := sk_sourceBranch k, cc_SourceCommit := se_Commit env\<rparr>)
       (release_repository env k) (se_Version env)"

definition verdict :: "security_call \<Rightarrow> Report \<Rightarrow> security_error option" where
  "verdict k report =
     (case Counts report of
        (critical, warning, unknown) \<Rightarrow>
          if 0 < unknown then Some (Incomplete unknown)
          else if sk_failFindings k \<and> 0 < critical + warning then Some FindingsPresent
          else None)"

definition load_security :: "security_env \<Rightarrow> security_call \<Rightarrow> files \<Rightarrow> security_error + State" where
  "load_security env k fs =
     (if sk_path k = [] then Inr \<lparr>ss_Version = 0, ss_Report = None, ss_Deliveries = []\<rparr>
      else if \<not> sk_up k 0 then Inl SetupFailed
      else if \<not> sk_up k 1 then Inl LockBusy
      else Load (se_dec env) (sk_plain k) (sk_load k) (sk_path k) fs)"

definition security_check :: "security_env \<Rightarrow> security_call \<Rightarrow> security_world \<Rightarrow> security_error option \<times> security_world" where
  "security_check env k w =
     (if sk_notify k \<and> (sk_path k = [] \<or> sk_label k = []) then (Some BadFlags, w)
      else case load_security env k (sx_files w) of
        Inl e \<Rightarrow> (Some e, w)
      | Inr st \<Rightarrow>
          let report = security_report env k in
          if \<not> sk_up k 2 then (Some OutputFailed, w)
          else if sk_notify k \<and> \<not> sk_up k 3 then (Some ProvidersFailed, w)
          else
            case (if sk_notify k then Notify (se_sha env) (sk_send k) report (sk_label k) (se_providers env) st (sx_log w)
                  else (None, st\<lparr>ss_Report := Some report\<rparr>, sx_log w)) of
              (notificationErr, st1, log1) \<Rightarrow>
                (case (if sk_path k = [] then (True, sx_files w)
                       else Save (se_enc env) (sk_short k) (sk_path k) (sk_save k) (sk_tmp k) (sx_files w) st1) of
                   (saved, fs1) \<Rightarrow>
                     let w1 = \<lparr>sx_files = fs1, sx_log = log1\<rparr> in
                     if \<not> saved then (Some SaveFailed, w1)
                     else if notificationErr \<noteq> None then (notificationErr, w1)
                     else (verdict k report, w1)))"

end
