(* ===== verification/Security_Safety.thy ===== *)
theory Security_Safety
  imports Security_State
begin

text \<open>
  A clean verdict of the security check is backed by evidence of every part of it, and the channels of the
  notification know the last verdict that was delivered to them.
\<close>

subsection \<open>What a clean report means\<close>

definition hardened :: "inspect_item \<Rightarrow> bool" where
  "hardened item \<longleftrightarrow> hd (split_on CHR '':'' (ii_User item)) \<notin> {[], ''0'', ''root''}
     \<and> list_ex no_new_privileges (ii_Security item)
     \<and> (\<forall>opt \<in> set (ii_Security item). \<not> contains_str opt ''unconfined'')
     \<and> \<not> ii_Privileged item \<and> ii_Network item \<noteq> ''host'' \<and> ii_PID item \<noteq> ''host'' \<and> ii_Caps item = []
     \<and> (\<forall>m \<in> set (ii_Mounts item). \<not> socket_mount m)"

definition clean_image :: "watch_host \<Rightarrow> Checker \<Rightarrow> string \<Rightarrow> bool" where
  "clean_image h c i \<longleftrightarrow> (\<exists>data j. sw_run h (scan_command c i) = Some data \<and> sw_scan h data = Some j \<and> sj_ImageID j = i
     \<and> sj_SchemaVersion j = 2 \<and> sj_ArtifactType j = ''container_image'' \<and> sj_EOSL j \<noteq> Some True
     \<and> (\<forall>r \<in> set (sj_Results j). \<forall>v \<in> set r. snd v \<notin> {''HIGH'', ''CRITICAL''}))"

definition patched_host :: "watch_host \<Rightarrow> bool" where
  "patched_host h \<longleftrightarrow> sw_marker h = MarkerAbsent
     \<and> (\<exists>data modified. sw_run h [''apt-get'', ''--simulate'', ''-o'', ''Debug::NoLocking=1'', ''upgrade''] = Some data
          \<and> (\<forall>l \<in> set (lines data). \<not> has_prefix l ''Inst '')
          \<and> sw_stamp h = Some modified \<and> sw_now h 1 - modified \<le> 48 * hour \<and> modified \<le> sw_now h 2 + minute)"

text \<open>The three numbers of a version, compared lexicographically; a release supersedes its pre-releases.\<close>

definition version_key :: "string \<times> string \<times> string \<times> string \<Rightarrow> nat list" where
  "version_key v = (case v of (a, b, c, pre) \<Rightarrow> [decimal a, decimal b, decimal c])"

definition pre_release :: "string \<times> string \<times> string \<times> string \<Rightarrow> bool" where
  "pre_release v = (case v of (a, b, c, pre) \<Rightarrow> pre \<noteq> [])"

definition current_release :: "watch_host \<Rightarrow> Checker \<Rightarrow> string \<Rightarrow> string \<Rightarrow> bool" where
  "current_release h c repo installed \<longleftrightarrow>
     (if cc_SourceBranch c = [] then
        (\<exists>r data j current latest. sw_get h (cc_API c @ ''/repos/'' @ repo @ ''/releases/latest'') = Some r \<and> hr_Status r = 200
           \<and> hr_Body r = Some data \<and> sw_release h data = Some j \<and> \<not> rj_Draft j \<and> \<not> rj_Prerelease j
           \<and> releasePattern (rj_Tag j) = Some latest \<and> releasePattern installed = Some current
           \<and> (version_key latest < version_key current
              \<or> version_key latest = version_key current \<and> (pre_release current \<longrightarrow> pre_release latest)))
      else
        (\<exists>r data j. sw_get h (cc_API c @ ''/repos/'' @ repo @ ''/git/ref/heads/'' @ sw_escape h (cc_SourceBranch c)) = Some r
           \<and> hr_Status r = 200 \<and> hr_Body r = Some data \<and> sw_ref h data = Some j
           \<and> rf_Ref j = ''refs/heads/'' @ cc_SourceBranch c \<and> rf_SHA j = cc_SourceCommit c))"

definition clean_containers :: "watch_host \<Rightarrow> Checker \<Rightarrow> bool" where
  "clean_containers h c \<longleftrightarrow> (\<exists>ids. sw_run h [''docker'', ''ps'', ''--quiet''] = Some ids
     \<and> (Go_Strings.fields ids = []
        \<or> (\<exists>data items. sw_run h ([''docker'', ''inspect'', ''--format'', inspect_format] @ Go_Strings.fields ids) = Some data
              \<and> sw_items h data = map Some items \<and> length items = length (Go_Strings.fields ids)
              \<and> (\<forall>item \<in> set items. hardened item \<and> clean_image h c (ii_Image item)))))"

subsection \<open>Each part\<close>

lemma finding_none [simp]: "finding b n s = [] \<longleftrightarrow> \<not> b"
  by (simp add: finding_def)

lemma container_findings_none: "container_findings item = [] \<longleftrightarrow> hardened item"
  by (auto simp: container_findings_def hardened_def Let_def)

lemma sort_key_none [simp]: "sort_key f xs = [] \<longleftrightarrow> xs = []"
  by (metis length_0_conv length_sort)

lemma scan_findings_none:
  "scan_findings vs seen [] = (True, []) \<Longrightarrow> set seen = {} \<Longrightarrow> v \<in> set vs \<Longrightarrow> snd v \<notin> {''HIGH'', ''CRITICAL''}"
proof (induction vs arbitrary: seen)
  case (Cons u vs)
  obtain vid sev where u: "u = (vid, sev)" by (cases u)
  have grows: "scan_findings ws seen' acc = (b, fs) \<Longrightarrow> \<exists>ys. fs = acc @ ys" for ws seen' acc b fs
    by (induction ws seen' acc rule: scan_findings.induct) (auto split: if_splits)
  show ?case
  proof (cases "sev \<noteq> ''HIGH'' \<and> sev \<noteq> ''CRITICAL''")
    case True
    then show ?thesis using Cons u by auto
  next
    case False
    then show ?thesis using Cons.prems u grows by (auto split: if_splits) fastforce+
  qed
qed simp

lemma scan_clean:
  assumes "im_Status (scan h c i) \<noteq> ''unknown''" "im_Findings (scan h c i) = []"
  shows "clean_image h c i"
proof -
  obtain data j where j: "sw_run h (scan_command c i) = Some data" "sw_scan h data = Some j" "sj_SchemaVersion j = 2"
      "sj_ArtifactType j = ''container_image''" "sj_ImageID j = i"
    using assms(1) by (auto simp: scan_def Let_def split: option.splits if_splits)
  obtain b fs where fs: "scan_findings (concat (sj_Results j)) [] [] = (b, fs)" by (cases "scan_findings (concat (sj_Results j)) [] []")
  have b: b using assms(1) j fs by (cases b) (simp_all add: scan_def Let_def)
  have "fs = []" "sj_EOSL j \<noteq> Some True" using assms(2) j fs b by (simp_all add: scan_def Let_def split: if_splits)
  then have "snd v \<notin> {''HIGH'', ''CRITICAL''}" if "r \<in> set (sj_Results j)" "v \<in> set r" for r v
    using scan_findings_none[of "concat (sj_Results j)" "[]" v] fs b that by auto
  then show ?thesis unfolding clean_image_def using j \<open>sj_EOSL j \<noteq> Some True\<close> by blast
qed

lemma read_items_all: "read_items xs acc = (True, cs) \<Longrightarrow> \<exists>items. xs = map Some items \<and> cs = acc @ map inspected items"
proof (induction xs acc rule: read_items.induct)
  case (3 item rest acc)
  then obtain items where "rest = map Some items" "cs = (acc @ [inspected item]) @ map inspected items"
    by (auto split: if_splits)
  then show ?case by (intro exI[of _ "item # items"]) simp
qed simp_all

lemma compare_numbers_up_to_date:
  assumes "release_status v w = (''up_to_date'', code)"
  shows "version_key w < version_key v \<or> version_key w = version_key v \<and> (pre_release v \<longrightarrow> pre_release w)"
  using assms
  by (cases v; cases w)
    (auto simp: release_status_def version_key_def pre_release_def ParseUint_def split: option.splits if_splits)

lemma release_clean:
  assumes "ck_Status (release h c repo installed) \<noteq> ''unknown''" "ck_Status (release h c repo installed) \<noteq> ''update_available''"
  shows "current_release h c repo installed"
proof (cases "cc_SourceBranch c = []")
  case True
  obtain r data j current latest status code where x: "sw_get h (cc_API c @ ''/repos/'' @ repo @ ''/releases/latest'') = Some r"
      "hr_Status r = 200" "read_body r = Some data" "sw_release h data = Some j" "\<not> rj_Draft j" "\<not> rj_Prerelease j"
      "releasePattern (rj_Tag j) = Some latest" "releasePattern installed = Some current"
      "release_status current latest = (status, code)" "status \<noteq> ''unknown''" "status \<noteq> ''update_available''"
    using assms True
    by (auto simp: release_def Let_def unknown_check_def Option.bind_eq_Some_conv split: option.splits if_splits prod.splits)
  have "status = ''up_to_date''" using x(9-11)
    by (cases current; cases latest) (auto simp: release_status_def split: option.splits if_splits)
  then have "release_status current latest = (''up_to_date'', code)" using x(9) by simp
  moreover have "hr_Body r = Some data" using x(3) by (simp add: read_body_def split: option.splits if_splits)
  ultimately have "version_key latest < version_key current
      \<or> version_key latest = version_key current \<and> (pre_release current \<longrightarrow> pre_release latest)" "hr_Body r = Some data"
    using compare_numbers_up_to_date by blast+
  with x(1,2,4-8) show ?thesis unfolding current_release_def if_P[OF True] by blast
next
  case False
  then show ?thesis using assms
    by (auto simp: release_def sourceRelease_def current_release_def sourceJSON_def read_body_def Let_def unknown_check_def
        Option.bind_eq_Some_conv split: option.splits if_splits)
qed

lemma host_clean:
  assumes "ck_Status (host h c) \<noteq> ''unknown''" "ck_Status (host h c) \<noteq> ''update_available''" "\<not> ck_RebootRequired (host h c)"
    and "cc_HostOS c = ''linux''"
  shows "patched_host h"
  using assms
  by (cases "sw_marker h")
    (auto simp: host_def patched_host_def Let_def unknown_check_def filter_empty_conv split: option.splits if_splits)

lemma containers_clean:
  assumes "ck_Status (rp_Inventory (Run h c repo installed)) \<noteq> ''unknown''"
    and "\<forall>i \<in> set (rp_Images (Run h c repo installed)). im_Status i \<noteq> ''unknown'' \<and> im_Findings i = []"
    and "\<forall>ct \<in> set (rp_Containers (Run h c repo installed)). ct_Findings ct = []"
  shows "clean_containers h c"
proof -
  obtain ids where ids: "sw_run h [''docker'', ''ps'', ''--quiet''] = Some ids"
      "\<not> 200 < length (Go_Strings.fields ids)" "list_all containerIDPattern (Go_Strings.fields ids)"
    using assms(1) by (auto simp: Run_def Let_def unknown_inventory_def unknown_check_def split: option.splits if_splits)
  show ?thesis
  proof (cases "Go_Strings.fields ids = []")
    case True
    then show ?thesis using ids by (auto simp: clean_containers_def)
  next
    case False
    obtain data where data: "sw_run h ([''docker'', ''inspect'', ''--format'', inspect_format] @ Go_Strings.fields ids) = Some data"
      using assms(1) ids False by (auto simp: Run_def Let_def unknown_inventory_def unknown_check_def split: option.splits)
    obtain b cs where cs: "read_items (sw_items h data) [] = (b, cs)" by (cases "read_items (sw_items h data) []")
    have b: b using assms(1) ids False data cs
      by (cases b) (simp_all add: Run_def Let_def unknown_inventory_def unknown_check_def)
    obtain items where items: "sw_items h data = map Some items" "cs = map inspected items"
      using read_items_all cs b by fastforce
    let ?images = "sort (remdups (map ct_ImageID cs))"
    have len: "length cs = length (Go_Strings.fields ids)" "\<not> 100 < length ?images"
      using assms(1) ids False data cs b
      by (auto simp: Run_def Let_def unknown_inventory_def unknown_check_def report_images_def split: if_splits)
    have "rp_Images (Run h c repo installed) = map (scan h c) ?images" "set (rp_Containers (Run h c repo installed)) = set cs"
      using ids False data cs b len by (simp_all add: Run_def Let_def report_images_def)
    then have "\<forall>item \<in> set items. hardened item \<and> clean_image h c (ii_Image item)"
      using assms(2,3) scan_clean items(2) by (auto simp: inspected_def container_findings_none)
    then show ?thesis using ids(1) data items len(1) unfolding clean_containers_def by fastforce
  qed
qed

lemma Counts_none:
  assumes "Counts r = (0, 0, 0)"
  shows "\<forall>c \<in> {rp_Release r, rp_Host r, rp_Inventory r}.
      ck_Status c \<noteq> ''unknown'' \<and> ck_Status c \<noteq> ''update_available'' \<and> \<not> ck_RebootRequired c"
    and "\<forall>i \<in> set (rp_Images r). im_Status i \<noteq> ''unknown'' \<and> im_Findings i = []"
    and "\<forall>ct \<in> set (rp_Containers r). ct_Findings ct = []"
proof -
  let ?fs = "concat (map im_Findings (rp_Images r)) @ concat (map ct_Findings (rp_Containers r))"
  have "?fs = []"
  proof (rule ccontr)
    assume "?fs \<noteq> []"
    then obtain f where "f \<in> set ?fs" by (cases ?fs) auto
    moreover have "\<forall>f \<in> set ?fs. fd_Severity f \<noteq> ''critical''" "\<forall>f \<in> set ?fs. \<not> fd_Severity f \<noteq> ''critical''"
      using assms by (simp_all only: Counts_def Let_def count_findings_def prod.inject fst_conv snd_conv add_is_0
          length_0_conv filter_empty_conv simp_thms) blast+
    ultimately show False by blast
  qed
  then show "\<forall>i \<in> set (rp_Images r). im_Status i \<noteq> ''unknown'' \<and> im_Findings i = []"
    and "\<forall>ct \<in> set (rp_Containers r). ct_Findings ct = []"
    using assms by (auto simp: Counts_def Let_def filter_empty_conv)
  show "\<forall>c \<in> {rp_Release r, rp_Host r, rp_Inventory r}.
      ck_Status c \<noteq> ''unknown'' \<and> ck_Status c \<noteq> ''update_available'' \<and> \<not> ck_RebootRequired c"
    using assms by (auto simp: Counts_def Let_def split: if_splits)
qed

lemma Run_parts: "rp_Release (Run h c repo installed) = release h c repo installed" "rp_Host (Run h c repo installed) = host h c"
  by (simp_all add: Run_def report_images_def Let_def split: option.splits prod.splits bool.splits)


definition sample_container :: inspect_item where
  "sample_container = \<lparr>ii_ID = replicate 64 CHR ''a'', ii_Image = ''sha256:'' @ replicate 64 CHR ''b'', ii_User = ''1000:1000'',
     ii_Privileged = False, ii_Network = ''bridge'', ii_PID = [], ii_Security = [''no-new-privileges:true''], ii_Caps = [],
     ii_Mounts = [(''/srv/data'', ''/data'')]\<rparr>"

definition sample_watch_host :: watch_host where
  "sample_watch_host = \<lparr>
     sw_run = (\<lambda>cmd. if cmd ! 1 = ''ps'' then Some (replicate 12 CHR ''a'') else Some []),
     sw_get = (\<lambda>path. Some \<lparr>hr_Status = 200, hr_Body = Some ''{}''\<rparr>),
     sw_release = (\<lambda>d. Some \<lparr>rj_Tag = ''v1.2.3'', rj_Draft = False, rj_Prerelease = False\<rparr>),
     sw_ref = (\<lambda>d. None), sw_compare = (\<lambda>d. None),
     sw_items = (\<lambda>d. [Some sample_container]),
     sw_scan = (\<lambda>d. Some \<lparr>sj_SchemaVersion = 2, sj_ArtifactType = ''container_image'', sj_ImageID = ii_Image sample_container,
       sj_EOSL = Some False, sj_Results = [[(''CVE-1'', ''LOW'')]]\<rparr>),
     sw_escape = (\<lambda>s. s), sw_marker = MarkerAbsent, sw_stamp = Some 0, sw_now = (\<lambda>n. hour)\<rparr>"

definition sample_security_env :: security_env where
  "sample_security_env = \<lparr>se_enc = (\<lambda>st. None), se_dec = (\<lambda>d. None), se_sha = (\<lambda>r. []), se_os = ''linux'',
     se_Version = ''v1.3.0'', se_Commit = [], se_ReleaseRepository = [], se_providers = []\<rparr>"

definition sample_security_call :: security_call where
  "sample_security_call = \<lparr>sk_notify = False, sk_path = [], sk_label = [], sk_repo = [], sk_failFindings = True,
     sk_sourceBranch = [], sk_host = sample_watch_host, sk_send = (\<lambda>p. True), sk_up = (\<lambda>n. True), sk_load = (\<lambda>n. True),
     sk_plain = True, sk_save = (\<lambda>n. True), sk_tmp = ''t'', sk_short = 0\<rparr>"

definition sample_checker :: Checker where
  "sample_checker = (New_Checker sample_security_env)\<lparr>cc_SourceBranch := [], cc_SourceCommit := []\<rparr>"

lemma sample_versions:
  "releasePattern ''v1.2.3'' = Some (''1'', ''2'', ''3'', [])" "releasePattern ''v1.3.0'' = Some (''1'', ''3'', ''0'', [])"
  "repositoryPattern ''Artaeon/fleetdeck''"
  by code_simp+

lemma sample_release: "ck_Status (release sample_watch_host sample_checker ''Artaeon/fleetdeck'' ''v1.3.0'') = ''up_to_date''"
  by (simp add: release_def sample_watch_host_def sample_checker_def read_body_def sample_versions release_status_def
      ParseUint_def decimal_def Let_def)

lemma sample_clean_host: "ck_Status (host sample_watch_host sample_checker) = ''up_to_date''"
    "\<not> ck_RebootRequired (host sample_watch_host sample_checker)"
  by (simp_all add: host_def sample_watch_host_def sample_checker_def New_Checker_def sample_security_env_def unknown_check_def
      lines_def has_prefix_def Let_def)

lemma sample_ids:
  "Go_Strings.fields (replicate 12 CHR ''a'') = [replicate 12 CHR ''a'']" "containerIDPattern (replicate 12 CHR ''a'')"
  "containerIDPattern (ii_ID sample_container)" "imageIDPattern (ii_Image sample_container)"
  "container_findings sample_container = []"
  by code_simp+

lemma sample_scan: "scan sample_watch_host sample_checker (ii_Image sample_container)
    = \<lparr>im_ID = ii_Image sample_container, im_Status = ''checked'', im_Code = [], im_Findings = []\<rparr>"
  by (simp add: scan_def sample_watch_host_def scan_command_def Let_def)

lemma sample_report: "Counts (Run sample_watch_host sample_checker ''Artaeon/fleetdeck'' ''v1.3.0'') = (0, 0, 0)"
proof -
  let ?r = "Run sample_watch_host sample_checker ''Artaeon/fleetdeck'' ''v1.3.0''"
  have "rp_Images ?r = [scan sample_watch_host sample_checker (ii_Image sample_container)]
      \<and> rp_Containers ?r = [inspected sample_container] \<and> ck_Status (rp_Inventory ?r) = ''checked''
      \<and> \<not> ck_RebootRequired (rp_Inventory ?r)"
    by (simp add: Run_def report_images_def sample_watch_host_def sample_ids inspected_def unknown_check_def Let_def)
  moreover have "\<not> ck_RebootRequired (release sample_watch_host sample_checker ''Artaeon/fleetdeck'' ''v1.3.0'')"
    by (simp add: release_def sample_watch_host_def sample_checker_def read_body_def sample_versions release_status_def
        ParseUint_def decimal_def unknown_check_def Let_def)
  ultimately show ?thesis
    by (simp add: Counts_def Run_parts sample_release sample_clean_host sample_scan inspected_def sample_ids
        count_findings_def Let_def)
qed


subsection \<open>What the channels are told\<close>

text \<open>What one run does to one channel: its delivery record and the alerts it gets.\<close>

definition channel_step :: "string \<Rightarrow> bool \<Rightarrow> Alert \<Rightarrow> bool \<Rightarrow> delivery \<Rightarrow> delivery \<times> Alert list \<times> bool" where
  "channel_step digest act a accept d =
     (if dl_Digest d = digest then (d, [], True)
      else if (act \<or> dl_Alerted d) \<and> \<not> accept then (d, [], False)
      else (\<lparr>dl_Digest = digest, dl_Alerted = act\<rparr>, if act \<or> dl_Alerted d then [a] else [], True))"

definition sent_to :: "string \<Rightarrow> (string \<times> Alert) list \<Rightarrow> Alert list" where
  "sent_to p log = map snd (filter (\<lambda>x. fst x = p) log)"

lemma previous_put [simp]:
  "previous (st\<lparr>ss_Deliveries := al_put p d (ss_Deliveries st)\<rparr>) q = (if q = p then d else previous st q)"
  by (auto simp: previous_def al_put_def map_of_filter_key)

lemma sent_to_snoc [simp]: "sent_to q (log @ [(p, a)]) = sent_to q log @ (if q = p then [a] else [])"
  by (simp add: sent_to_def)

lemma notify_all_rest:
  "notify_all accepts digest act a ps st n log = (m, st', log')
    \<Longrightarrow> n \<le> m \<and> (\<forall>p. p \<notin> set ps \<longrightarrow> previous st' p = previous st p \<and> sent_to p log' = sent_to p log)"
proof (induction ps arbitrary: st n log)
  case (Cons q qs)
  then show ?case by (fastforce simp: Let_def split: if_splits dest!: Cons.IH)
qed simp

lemma notify_all_channel:
  assumes "notify_all accepts digest act a ps st n log = (m, st', log')" "distinct ps" "p \<in> set ps"
    and "channel_step digest act a (accepts p) (previous st p) = (d, as, ok)"
  shows "previous st' p = d \<and> sent_to p log' = sent_to p log @ as \<and> (\<not> ok \<longrightarrow> n < m)"
  using assms
proof (induction ps arbitrary: st n log)
  case (Cons q qs)
  show ?case
  proof (cases "q = p")
    case True
    then have "p \<notin> set qs" using Cons.prems by simp
    then show ?thesis using Cons.prems(1,4) True
      by (auto simp: Let_def channel_step_def split: if_splits dest!: notify_all_rest)
  next
    case False
    have p: "p \<in> set qs" "distinct qs" using Cons.prems False by auto
    let ?st = "st\<lparr>ss_Deliveries := al_put q \<lparr>dl_Digest = digest, dl_Alerted = act\<rparr> (ss_Deliveries st)\<rparr>"
    consider "notify_all accepts digest act a qs st n log = (m, st', log')"
      | "notify_all accepts digest act a qs st (Suc n) log = (m, st', log')"
      | "notify_all accepts digest act a qs ?st n log = (m, st', log')"
      | "notify_all accepts digest act a qs ?st n (log @ [(q, a)]) = (m, st', log')"
      using Cons.prems(1) by (auto simp: Let_def split: if_splits)
    then show ?thesis using Cons.IH[OF _ p(2,1)] Cons.prems(4) False by cases fastforce+
  qed
qed simp

text \<open>The state after a saved run is the state of the next run; a failed save leaves the old one.\<close>

lemma security_state_kept:
  assumes "tmp \<noteq> path" "Save enc short path up tmp fs st = (r, fs')"
  shows "\<not> r \<Longrightarrow> Load dec plain up' path fs' = Load dec plain up' path fs"
    and "r \<Longrightarrow> up' 0 \<Longrightarrow> up' 1 \<Longrightarrow> plain \<Longrightarrow> dec (the (enc st)) = Some st \<Longrightarrow> ss_Version st = 1
      \<Longrightarrow> Load dec plain up' path fs' = Inr st"
proof -
  show "\<not> r \<Longrightarrow> Load dec plain up' path fs' = Load dec plain up' path fs"
    using security_file.kept[OF assms(1), of enc short up fs st fs'] assms(2) by (simp add: Load_def)
  assume r: r and "up' 0" "up' 1" plain "dec (the (enc st)) = Some st" "ss_Version st = 1"
  moreover have "fs' path = Some (the (enc st))" using security_file.written[OF assms(1)] assms(2) r by simp
  moreover have "\<not> maxSecurityState < length (the (enc st))"
    using assms(2) r by (auto simp: Save_def split: option.splits if_splits)
  ultimately show "Load dec plain up' path fs' = Inr st" by (simp add: Load_def)
qed

text \<open>
  Each channel is told about each changed report once and by its own record: what a run does to a channel does
  not depend on the other channels; a channel that was told this report already gets nothing, one that
  refuses keeps its record (and the run fails, so that it is tried again), one that accepts gets exactly one alert,
  also the all-clear after an alert; and what was saved is what the next run starts from.
\<close>

theorem security_channels_independent:
  assumes "Notify sha accepts report label providers st log = (err, st', log')" "distinct providers" "p \<in> set providers"
    and "channel_step (report_digest sha report) (active report) (security_alert label report) (accepts p) (previous st p)
      = (d, as, ok)"
    and "tmp \<noteq> path" "Save enc short path up tmp fs st' = (r, fs')"
    and "dec (the (enc st')) = Some st'" "ss_Version st' = 1"
  shows "previous st' p = d \<and> sent_to p log' = sent_to p log @ as \<and> (err = None \<longrightarrow> ok)
    \<and> Load dec True (\<lambda>n. True) path fs' = (if r then Inr st' else Load dec True (\<lambda>n. True) path fs)"
proof -
  obtain m st1 where n: "notify_all accepts (report_digest sha report) (active report) (security_alert label report) providers st 0 log
      = (m, st1, log')" "st' = st1\<lparr>ss_Report := Some report\<rparr>" "err = (if 0 < m then Some (DeliveryFailed m) else None)"
    using assms(1) by (auto simp: Notify_def split: prod.splits)
  have "previous st' p = previous st1 p" by (simp add: n(2) previous_def)
  then show ?thesis using notify_all_channel[OF n(1) assms(2-4)] n(3) security_state_kept[OF assms(5,6)] assms(7,8)
    by (auto split: if_splits)
qed

definition sample_unknown_report :: Report where
  "sample_unknown_report = \<lparr>rp_CheckedAt = 0, rp_Release = unknown_check, rp_Host = unknown_check, rp_Inventory = unknown_check,
     rp_Images = [], rp_Containers = []\<rparr>"

definition sample_security_state :: "(string \<times> delivery) list \<Rightarrow> Report option \<Rightarrow> State" where
  "sample_security_state ds r = \<lparr>ss_Version = 1, ss_Report = r, ss_Deliveries = ds\<rparr>"

definition sample_told_state :: State where
  "sample_told_state = sample_security_state [(''mail'', \<lparr>dl_Digest = ''d'', dl_Alerted = True\<rparr>)] (Some sample_unknown_report)"

lemma security_channels_independent_witness:
  "previous sample_told_state ''mail'' = \<lparr>dl_Digest = ''d'', dl_Alerted = True\<rparr>
    \<and> sent_to ''mail'' [(''mail'', security_alert ''host'' sample_unknown_report)]
      = sent_to ''mail'' [] @ [security_alert ''host'' sample_unknown_report]
    \<and> Load (\<lambda>s. Some sample_told_state) True (\<lambda>n. True) ''/s'' [''/s'' \<mapsto> ''x''] = Inr sample_told_state"
proof -
  have act: "active sample_unknown_report"
    by (simp add: active_def Counts_def sample_unknown_report_def unknown_check_def count_findings_def Let_def)
  have n: "Notify (\<lambda>r. ''d'') (\<lambda>p. p = ''mail'') sample_unknown_report ''host'' [''chat'', ''mail''] (sample_security_state [] None) []
      = (Some (DeliveryFailed 1), sample_told_state, [(''mail'', security_alert ''host'' sample_unknown_report)])"
    using act by (simp add: Notify_def report_digest_def previous_def sample_security_state_def sample_told_state_def al_put_def Let_def)
  have c: "channel_step (report_digest (\<lambda>r. ''d'') sample_unknown_report) (active sample_unknown_report)
      (security_alert ''host'' sample_unknown_report) (''mail'' = ''mail'') (previous (sample_security_state [] None) ''mail'')
      = (\<lparr>dl_Digest = ''d'', dl_Alerted = True\<rparr>, [security_alert ''host'' sample_unknown_report], True)"
    using act by (simp add: channel_step_def report_digest_def previous_def sample_security_state_def)
  have w: "Save (\<lambda>st. Some ''x'') 0 ''/s'' (\<lambda>n. True) ''/t'' (\<lambda>p. None) sample_told_state = (True, [''/s'' \<mapsto> ''x''])"
    by (simp add: Save_def replace_file_def fill_temporary_def rename_over_def maxSecurityState_def fun_eq_iff)
  show ?thesis
    using security_channels_independent[OF n _ _ c _ w, of "\<lambda>s. Some sample_told_state"]
    by (simp add: sample_told_state_def sample_security_state_def)
qed

end
