(* ===== verification/Edge_Network.thy ===== *)
theory Edge_Network
  imports Go_Paths
begin

text \<open>
  \<open>internal/edge/network.go\<close>: the bridge network between the reverse proxy and one project. The runner answers a
  shell command from the commands before it; YAML and JSON decoding and reading the Compose file are parameters.
\<close>

datatype compose_text = FileMissing | FileUnreadable | FileText string

record network =
  nw_Driver :: string
  nw_Labels :: "(string \<times> string) list"
  nw_Containers :: "string list"

record edge_host =
  eh_run :: "string list \<Rightarrow> string \<Rightarrow> bool \<times> string"
  eh_read :: "string \<Rightarrow> compose_text"
  eh_yaml :: "string \<Rightarrow> string option"
  eh_networks :: "string \<Rightarrow> network list option"

datatype edge_error =
    EdgeUnreadable | EdgeYaml | EdgeName | EdgeProxyLookup | EdgeProxy | EdgeList | EdgeInspect | EdgeResponse
  | EdgeForeign | EdgeCreate | EdgeConnect

definition networkName :: "string \<Rightarrow> bool" where
  "networkName s \<longleftrightarrow>
     has_prefix s ''fleetdeck-'' \<and> has_suffix s ''-edge''
     \<and> (let mid = take (length s - 15) (drop 10 s) in
        15 < length s
        \<and> is_lower_alnum (hd mid) \<and> class_rep (\<lambda>c. is_lower_alnum c \<or> c = CHR ''-'') 0 62 (tl mid))"

definition containerID :: "string \<Rightarrow> bool" where
  "containerID s \<longleftrightarrow> class_rep is_lower_hex 64 64 s"

text \<open>The commands the runner gets, and their text; names are put between single quotes.\<close>

datatype edge_cmd =
    InspectNetwork string
  | CreateNetwork string
  | ConnectNetwork string string
  | ListProxies
  | ListNetworks
  | ListEdges

definition quoted :: "string \<Rightarrow> string" where
  "quoted s = CHR 0x27 # s @ [CHR 0x27]"

fun edge_text :: "edge_cmd \<Rightarrow> string" where
  "edge_text (InspectNetwork name) = ''docker network inspect '' @ quoted name"
| "edge_text (CreateNetwork name) = ''docker network create --driver bridge --label io.fleetdeck.edge=true '' @ quoted name"
| "edge_text (ConnectNetwork name p) = ''docker network connect '' @ quoted name @ '' '' @ quoted p"
| "edge_text ListProxies = ''docker ps --no-trunc -q --filter label=io.fleetdeck.proxy=true''"
| "edge_text ListNetworks = ''docker network ls --format '' @ quoted ''{{.Name}}''"
| "edge_text ListEdges = ''docker network ls --filter label=io.fleetdeck.edge=true --format '' @ quoted ''{{.Name}}''"

definition edge_run :: "edge_host \<Rightarrow> edge_cmd \<Rightarrow> edge_cmd list \<Rightarrow> string option \<times> edge_cmd list" where
  "edge_run h c log = (case eh_run h (map edge_text log) (edge_text c) of (ok, out) \<Rightarrow> (if ok then Some out else None, log @ [c]))"

text \<open>A network is FleetDeck's own when it is a bridge with the label.\<close>

definition own_network :: "network \<Rightarrow> bool" where
  "own_network n \<longleftrightarrow> nw_Driver n = ''bridge'' \<and> map_of (nw_Labels n) ''io.fleetdeck.edge'' = Some ''true''"

definition inspect :: "edge_host \<Rightarrow> string \<Rightarrow> edge_cmd list \<Rightarrow> (edge_error + network) \<times> edge_cmd list" where
  "inspect h name log =
     (case edge_run h (InspectNetwork name) log of
        (None, log1) \<Rightarrow> (Inl EdgeInspect, log1)
      | (Some out, log1) \<Rightarrow>
          (case eh_networks h out of
             Some [n] \<Rightarrow> (if own_network n then Inr n else Inl EdgeForeign, log1)
           | _ \<Rightarrow> (Inl EdgeResponse, log1)))"

definition ensure_created :: "edge_host \<Rightarrow> string \<Rightarrow> string \<Rightarrow> edge_cmd list \<Rightarrow> edge_error option \<times> edge_cmd list" where
  "ensure_created h name existing log =
     (if name \<in> set (Go_Strings.fields existing) then (None, log)
      else case edge_run h (CreateNetwork name) log of
        (Some out, log1) \<Rightarrow> (None, log1)
      | (None, log1) \<Rightarrow>
          (case inspect h name log1 of (Inl e, log2) \<Rightarrow> (Some EdgeCreate, log2) | (Inr n, log2) \<Rightarrow> (None, log2)))"

definition ensure_connected :: "edge_host \<Rightarrow> string \<Rightarrow> string \<Rightarrow> edge_cmd list \<Rightarrow> edge_error option \<times> edge_cmd list" where
  "ensure_connected h name p log =
     (case inspect h name log of
        (Inl e, log1) \<Rightarrow> (Some e, log1)
      | (Inr n, log1) \<Rightarrow>
          if p \<in> set (nw_Containers n) then (None, log1)
          else case edge_run h (ConnectNetwork name p) log1 of
            (Some out, log2) \<Rightarrow> (None, log2)
          | (None, log2) \<Rightarrow>
              (case inspect h name log2 of
                 (Inr n2, log3) \<Rightarrow> (if p \<in> set (nw_Containers n2) then None else Some EdgeConnect, log3)
               | (Inl e, log3) \<Rightarrow> (Some EdgeConnect, log3)))"

definition Ensure :: "edge_host \<Rightarrow> string \<Rightarrow> edge_cmd list \<Rightarrow> edge_error option \<times> edge_cmd list" where
  "Ensure h name log =
     (if \<not> networkName name then (Some EdgeName, log)
      else case edge_run h ListProxies log of
        (None, log1) \<Rightarrow> (Some EdgeProxyLookup, log1)
      | (Some proxies, log1) \<Rightarrow>
          (case Go_Strings.fields proxies of
             [p] \<Rightarrow>
               if \<not> containerID p then (Some EdgeProxy, log1)
               else (case edge_run h ListNetworks log1 of
                 (None, log2) \<Rightarrow> (Some EdgeList, log2)
               | (Some existing, log2) \<Rightarrow>
                   (case ensure_created h name existing log2 of
                      (Some e, log3) \<Rightarrow> (Some e, log3)
                    | (None, log3) \<Rightarrow> ensure_connected h name p log3))
           | _ \<Rightarrow> (Some EdgeProxy, log1)))"

definition base_names :: "string list" where
  "base_names = [''compose.yaml'', ''compose.yml'', ''docker-compose.yml'', ''docker-compose.yaml'']"

fun prepare_from :: "edge_host \<Rightarrow> string \<Rightarrow> string list \<Rightarrow> edge_cmd list \<Rightarrow> edge_error option \<times> edge_cmd list" where
  "prepare_from h dir [] log = (None, log)"
| "prepare_from h dir (path # paths) log =
     (case eh_read h (if is_abs path then path else path_join [dir, path]) of
        FileMissing \<Rightarrow> prepare_from h dir paths log
      | FileUnreadable \<Rightarrow> (Some EdgeUnreadable, log)
      | FileText data \<Rightarrow>
          if \<not> contains_str data ''x-fleetdeck:'' then (None, log)
          else case eh_yaml h data of
            None \<Rightarrow> (Some EdgeYaml, log)
          | Some name \<Rightarrow> if name = [] then (None, log) else Ensure h name log)"

definition Prepare :: "edge_host \<Rightarrow> string \<Rightarrow> string \<Rightarrow> edge_cmd list \<Rightarrow> edge_error option \<times> edge_cmd list" where
  "Prepare h dir composeFile log =
     prepare_from h dir (if composeFile = [] then base_names else [composeFile]) log"

fun reconnect_all :: "edge_host \<Rightarrow> string list \<Rightarrow> edge_cmd list \<Rightarrow> edge_error option \<times> edge_cmd list" where
  "reconnect_all h [] log = (None, log)"
| "reconnect_all h (name # names) log =
     (case Ensure h name log of (Some e, log1) \<Rightarrow> (Some e, log1) | (None, log1) \<Rightarrow> reconnect_all h names log1)"

definition Reconnect :: "edge_host \<Rightarrow> edge_cmd list \<Rightarrow> edge_error option \<times> edge_cmd list" where
  "Reconnect h log =
     (case edge_run h ListEdges log of
        (None, log1) \<Rightarrow> (Some EdgeList, log1)
      | (Some names, log1) \<Rightarrow> reconnect_all h (Go_Strings.fields names) log1)"

subsection \<open>Whose network is joined\<close>

text \<open>After the commands of \<open>log\<close>, Docker says that the network is FleetDeck's own, with these containers.\<close>

definition says_own :: "edge_host \<Rightarrow> edge_cmd list \<Rightarrow> string \<Rightarrow> string list \<Rightarrow> bool" where
  "says_own h log name members \<longleftrightarrow>
     (\<exists>out n. eh_run h (map edge_text log) (edge_text (InspectNetwork name)) = (True, out)
        \<and> eh_networks h out = Some [n] \<and> own_network n \<and> nw_Containers n = members)"

text \<open>A proxy joins a network only directly after an inspection that found it an own network without the proxy.\<close>

inductive joins_own :: "edge_host \<Rightarrow> edge_cmd list \<Rightarrow> bool" for h where
  Start: "joins_own h []"
| Other: "joins_own h log \<Longrightarrow> (\<And>name p. c \<noteq> ConnectNetwork name p) \<Longrightarrow> joins_own h (log @ [c])"
| Join: "joins_own h (log @ [InspectNetwork name]) \<Longrightarrow> says_own h log name members \<Longrightarrow> p \<notin> set members
    \<Longrightarrow> networkName name \<Longrightarrow> containerID p
    \<Longrightarrow> joins_own h (log @ [InspectNetwork name, ConnectNetwork name p])"

text \<open>The last command shows that the proxy is connected.\<close>

definition joined :: "edge_host \<Rightarrow> edge_cmd list \<Rightarrow> string \<Rightarrow> string \<Rightarrow> bool" where
  "joined h log name p \<longleftrightarrow>
     (\<exists>log0 members. log = log0 @ [InspectNetwork name] \<and> says_own h log0 name members \<and> p \<in> set members)
     \<or> (\<exists>log0. log = log0 @ [ConnectNetwork name p] \<and> fst (eh_run h (map edge_text log0) (edge_text (ConnectNetwork name p))))"

lemma edge_run_cases:
  assumes "edge_run h c log = (r, log')"
  shows "log' = log @ [c]" "r = Some out \<longleftrightarrow> eh_run h (map edge_text log) (edge_text c) = (True, out)"
  using assms by (auto simp: edge_run_def split: prod.splits if_splits)

lemma inspect_cases:
  assumes "inspect h name log = (r, log')"
  shows "log' = log @ [InspectNetwork name]" "r = Inr n \<Longrightarrow> says_own h log name (nw_Containers n)"
  using assms
  by (auto simp: inspect_def says_own_def edge_run_def split: prod.splits if_splits option.splits list.splits)

lemma ensure_created_joins:
  assumes "ensure_created h name existing log = (r, log')" "joins_own h log"
  shows "joins_own h log'"
  using assms
  by (auto simp: ensure_created_def split: prod.splits option.splits if_splits sum.splits
      dest!: edge_run_cases(1) inspect_cases(1) intro!: joins_own.Other)

lemma ensure_connected_joins:
  assumes "ensure_connected h name p log = (r, log')" "joins_own h log" "networkName name" "containerID p"
  shows "joins_own h log' \<and> (r = None \<longrightarrow> joined h log' name p)"
proof -
  obtain i log1 where i: "inspect h name log = (i, log1)" by (metis prod.exhaust)
  have safe: "joins_own h (log @ [InspectNetwork name])" using assms(2) by (auto intro: joins_own.Other)
  show ?thesis
  proof (cases i)
    case (Inl e)
    then show ?thesis using assms(1) i safe inspect_cases(1)[OF i] by (auto simp: ensure_connected_def)
  next
    case (Inr n)
    note own = inspect_cases(2)[OF i Inr]
    show ?thesis
    proof (cases "p \<in> set (nw_Containers n)")
      case True
      then show ?thesis using assms(1) i Inr safe inspect_cases(1)[OF i] own
        by (auto simp: ensure_connected_def joined_def)
    next
      case False
      obtain c log2 where c: "edge_run h (ConnectNetwork name p) log1 = (c, log2)" by (metis prod.exhaust)
      have log2: "log2 = log @ [InspectNetwork name, ConnectNetwork name p]"
        using edge_run_cases(1)[OF c] inspect_cases(1)[OF i] by simp
      have safe2: "joins_own h log2" unfolding log2 by (rule joins_own.Join[OF safe own False assms(3,4)])
      show ?thesis
      proof (cases c)
        case (Some out)
        then have "fst (eh_run h (map edge_text log1) (edge_text (ConnectNetwork name p)))"
          using edge_run_cases(2)[OF c, of out] by simp
        then show ?thesis using assms(1) i Inr False c Some safe2 edge_run_cases(1)[OF c]
          by (auto simp: ensure_connected_def joined_def)
      next
        case None
        obtain j log3 where j: "inspect h name log2 = (j, log3)" by (metis prod.exhaust)
        have "joins_own h log3" unfolding inspect_cases(1)[OF j] using safe2 by (auto intro: joins_own.Other)
        then show ?thesis using assms(1) i Inr False c None j inspect_cases[OF j]
          by (auto simp: ensure_connected_def joined_def split: sum.splits if_splits)
      qed
    qed
  qed
qed

lemma Ensure_joins:
  assumes "Ensure h name log = (r, log')" "joins_own h log"
  shows "joins_own h log' \<and> (r = None \<longrightarrow> networkName name \<and> (\<exists>p. containerID p \<and> joined h log' name p))"
proof (cases "networkName name")
  case False
  then show ?thesis using assms by (auto simp: Ensure_def)
next
  case True
  obtain a log1 where a: "edge_run h ListProxies log = (a, log1)" by (metis prod.exhaust)
  have safe1: "joins_own h log1" unfolding edge_run_cases(1)[OF a] using assms(2) by (auto intro: joins_own.Other)
  show ?thesis
  proof (cases "\<exists>proxies p. a = Some proxies \<and> Go_Strings.fields proxies = [p] \<and> containerID p")
    case False
    then show ?thesis using assms(1) a True safe1 by (auto simp: Ensure_def split: option.splits list.splits)
  next
    case proxy: True
    then obtain proxies p where p: "a = Some proxies" "Go_Strings.fields proxies = [p]" "containerID p" by blast
    obtain b log2 where b: "edge_run h ListNetworks log1 = (b, log2)" by (metis prod.exhaust)
    have safe2: "joins_own h log2" unfolding edge_run_cases(1)[OF b] using safe1 by (auto intro: joins_own.Other)
    show ?thesis
    proof (cases b)
      case None
      then show ?thesis using assms(1) a True p b safe2 by (auto simp: Ensure_def)
    next
      case (Some existing)
      obtain e log3 where e: "ensure_created h name existing log2 = (e, log3)" by (metis prod.exhaust)
      note safe3 = ensure_created_joins[OF e safe2]
      show ?thesis
      proof (cases e)
        case None
        then show ?thesis using assms(1) a True p b Some e ensure_connected_joins[OF _ safe3 True p(3)]
          by (auto simp: Ensure_def)
      next
        case e': (Some x)
        then show ?thesis using assms(1) a True p b Some e safe3 by (auto simp: Ensure_def)
      qed
    qed
  qed
qed

lemma Reconnect_joins: "Reconnect h log = (r, log') \<Longrightarrow> joins_own h log \<Longrightarrow> joins_own h log'"
proof -
  have all: "reconnect_all h names log1 = (r, log') \<Longrightarrow> joins_own h log1 \<Longrightarrow> joins_own h log'" for names log1
    by (induction names arbitrary: log1) (auto split: prod.splits option.splits dest: Ensure_joins)
  assume "Reconnect h log = (r, log')" "joins_own h log"
  then show ?thesis
    by (auto simp: Reconnect_def split: prod.splits option.splits dest!: edge_run_cases(1) intro: all joins_own.Other)
qed

text \<open>The network a Compose file asks for.\<close>

fun selected_edge :: "edge_host \<Rightarrow> string \<Rightarrow> string list \<Rightarrow> string option" where
  "selected_edge h dir [] = None"
| "selected_edge h dir (path # paths) =
     (case eh_read h (if is_abs path then path else path_join [dir, path]) of
        FileMissing \<Rightarrow> selected_edge h dir paths
      | FileUnreadable \<Rightarrow> None
      | FileText data \<Rightarrow>
          if contains_str data ''x-fleetdeck:'' \<and> eh_yaml h data \<noteq> Some [] then eh_yaml h data else None)"

text \<open>
  Preparing a project's network never adopts a foreign one: whatever Docker answers, in whichever order
  commands fail, the proxy joins a network only directly after an inspection that found it a bridge with
  FleetDeck's label and without the proxy, under a well-formed name; a preparation that succeeds for a Compose
  file that names a network ends with exactly one proxy known to be in it, and one that
  names none runs no command.
\<close>

theorem Prepare_joins_own:
  assumes "Prepare h dir composeFile log = (r, log')" "joins_own h log"
  shows "joins_own h log'
    \<and> (case selected_edge h dir (if composeFile = [] then base_names else [composeFile]) of
         None \<Rightarrow> log' = log
       | Some name \<Rightarrow> r = None \<longrightarrow> networkName name \<and> (\<exists>p. containerID p \<and> joined h log' name p))"
proof -
  have "prepare_from h dir paths log = (r, log') \<Longrightarrow> joins_own h log'
    \<and> (case selected_edge h dir paths of None \<Rightarrow> log' = log
       | Some name \<Rightarrow> r = None \<longrightarrow> networkName name \<and> (\<exists>p. containerID p \<and> joined h log' name p))" for paths
  proof (induction paths)
    case (Cons path paths)
    then show ?case using assms(2)
      by (auto split: compose_text.splits option.splits if_splits dest: Ensure_joins)
  qed (use assms(2) in simp)
  then show ?thesis using assms(1) unfolding Prepare_def by blast
qed

definition sample_proxy :: string where
  "sample_proxy = replicate 64 CHR ''a''"

definition sample_edge_host :: edge_host where
  "sample_edge_host = \<lparr>
     eh_run = (\<lambda>log c. (True, if c = edge_text ListProxies then sample_proxy else if c = edge_text ListNetworks then ''bridge'' else [])),
     eh_read = (\<lambda>path. if path = ''/p/docker-compose.yml'' then FileText ''x-fleetdeck:'' else FileMissing),
     eh_yaml = (\<lambda>data. Some ''fleetdeck-a-edge''),
     eh_networks = (\<lambda>out. Some [\<lparr>nw_Driver = ''bridge'', nw_Labels = [(''io.fleetdeck.edge'', ''true'')], nw_Containers = []\<rparr>])\<rparr>"

lemma sample_edge_facts:
  "path_join [''/p'', ''compose.yaml''] = ''/p/compose.yaml''" "path_join [''/p'', ''compose.yml''] = ''/p/compose.yml''"
  "path_join [''/p'', ''docker-compose.yml''] = ''/p/docker-compose.yml''"
  "Go_Strings.fields sample_proxy = [sample_proxy]" "Go_Strings.fields ''bridge'' = [''bridge'']" "containerID sample_proxy"
  "networkName ''fleetdeck-a-edge''" "contains_str ''x-fleetdeck:'' ''x-fleetdeck:''"
  by code_simp+

definition sample_edge_log :: "edge_cmd list" where
  "sample_edge_log = [ListProxies, ListNetworks, CreateNetwork ''fleetdeck-a-edge'', InspectNetwork ''fleetdeck-a-edge'',
     ConnectNetwork ''fleetdeck-a-edge'' sample_proxy]"

lemma sample_prepare: "Prepare sample_edge_host ''/p'' [] [] = (None, sample_edge_log)"
proof -
  have run: "edge_run sample_edge_host c log = (Some (if edge_text c = edge_text ListProxies then sample_proxy
      else if edge_text c = edge_text ListNetworks then ''bridge'' else []), log @ [c])" for c log
    by (simp add: edge_run_def sample_edge_host_def del: edge_text.simps)
  have ins: "inspect sample_edge_host name log
      = (Inr \<lparr>nw_Driver = ''bridge'', nw_Labels = [(''io.fleetdeck.edge'', ''true'')], nw_Containers = []\<rparr>, log @ [InspectNetwork name])"
    for name log
    by (simp add: inspect_def edge_run_def sample_edge_host_def own_network_def)
  have "Ensure sample_edge_host ''fleetdeck-a-edge'' [] = (None, sample_edge_log)"
    by (simp add: Ensure_def ensure_created_def ensure_connected_def run ins sample_edge_facts sample_edge_log_def)
  then show ?thesis
    by (simp add: Prepare_def base_names_def sample_edge_facts is_abs_def has_prefix_def sample_edge_host_def)
qed

lemma Prepare_joins_own_witness:
  "joins_own sample_edge_host sample_edge_log
    \<and> (case selected_edge sample_edge_host ''/p'' base_names of
         None \<Rightarrow> sample_edge_log = []
       | Some name \<Rightarrow> networkName name \<and> (\<exists>p. containerID p \<and> joined sample_edge_host sample_edge_log name p))"
  using Prepare_joins_own[OF sample_prepare joins_own.Start] by (simp split: option.splits)

end
