(* ===== verification/Deploy_Strategies.thy ===== *)
theory Deploy_Strategies
  imports Edge_Network Fleet_Config
begin

text \<open>
  \<open>internal/deploy/strategy.go\<close> and \<open>bluegreen.go\<close>: the basic, rolling and blue-green deployment of a project.
  Docker answers a command from the commands before it; the clock, the sleeps, the cancellation and the answers
  to the health requests of the blue-green loop are indexed by its rounds. Durations and log texts of a
  result are only displayed and are left out.
\<close>

subsection \<open>Options, results and the host\<close>

record DeployOptions =
  do_ProjectPath :: string
  do_ProjectName :: string
  do_ComposeFile :: string
  do_HealthCheckURL :: string
  do_Timeout :: duration
  do_PreDeployHook :: string
  do_PostDeployHook :: string
  do_NoCache :: bool

record DeployResult =
  dr_Success :: bool
  dr_OldContainers :: "string list"
  dr_NewContainers :: "string list"

definition empty_result :: DeployResult where
  "empty_result = \<lparr>dr_Success = False, dr_OldContainers = [], dr_NewContainers = []\<rparr>"

datatype deploy_error =
    EdgeFailed edge_error | BuildFailed | HookFailed | UpFailed | PullFailed | ServicesFailed | ServiceFailed string
  | StartNewFailed | HealthTimeout | HealthCancelled | PromoteFailed

datatype Strategy = BasicStrategy | BlueGreenStrategy | RollingStrategy

definition GetStrategy :: "string \<Rightarrow> Strategy option" where
  "GetStrategy name =
     (if name = ''basic'' \<or> name = [] then Some BasicStrategy
      else if name = ''bluegreen'' then Some BlueGreenStrategy
      else if name = ''rolling'' then Some RollingStrategy
      else None)"

text \<open>A command is the argument list of \<open>docker\<close>, run in the project's directory.\<close>

record strategy_host =
  sh_edge :: edge_host
  sh_run :: "string list list \<Rightarrow> string list \<Rightarrow> bool \<times> string"
  sh_settled :: bool
  sh_start :: time
  sh_now :: "nat \<Rightarrow> time"
  sh_cancelled :: "nat \<Rightarrow> bool"
  sh_get :: "nat \<Rightarrow> int option"
  sh_slept :: "nat \<Rightarrow> bool"

record deploy_world =
  dw_edge :: "edge_cmd list"
  dw_log :: "string list list"

type_synonym deploy_outcome = "DeployResult \<times> deploy_error option \<times> deploy_world"

definition docker :: "strategy_host \<Rightarrow> string list \<Rightarrow> deploy_world \<Rightarrow> string option \<times> deploy_world" where
  "docker h args w =
     (case sh_run h (dw_log w) args of
        (ok, out) \<Rightarrow> (if ok then Some out else None, w\<lparr>dw_log := dw_log w @ [args]\<rparr>))"

definition compose :: "DeployOptions \<Rightarrow> string list \<Rightarrow> string list" where
  "compose opts args = [''compose''] @ (if do_ComposeFile opts \<noteq> [] then [''-f'', do_ComposeFile opts] else []) @ args"

definition output_lines :: "string \<Rightarrow> string list" where
  "output_lines out = filter (\<lambda>l. l \<noteq> []) (map trim_space (split_on newline (trim_space out)))"

definition ps_args :: "string list" where
  "ps_args = [''compose'', ''ps'', ''--format'', ''{{.Name}}'']"

text \<open>An error of \<open>listContainers\<close> is ignored by its callers; the list is then empty.\<close>

definition listContainers :: "strategy_host \<Rightarrow> deploy_world \<Rightarrow> string list \<times> deploy_world" where
  "listContainers h w =
     (case docker h ps_args w of (out, w1) \<Rightarrow> (case out of None \<Rightarrow> [] | Some o' \<Rightarrow> output_lines o', w1))"

definition listServices :: "strategy_host \<Rightarrow> DeployOptions \<Rightarrow> deploy_world \<Rightarrow> string list option \<times> deploy_world" where
  "listServices h opts w =
     (case docker h (compose opts [''config'', ''--services'']) w of (out, w1) \<Rightarrow> (map_option output_lines out, w1))"

definition hook_args :: "string \<Rightarrow> string list" where
  "hook_args command = [''compose'', ''exec'', ''-T'', ''app'', ''sh'', ''-c'', command]"

definition runHook :: "strategy_host \<Rightarrow> string \<Rightarrow> deploy_world \<Rightarrow> bool \<times> deploy_world" where
  "runHook h command w = (case docker h (hook_args command) w of (out, w1) \<Rightarrow> (out \<noteq> None, w1))"

definition buildNoCache :: "strategy_host \<Rightarrow> DeployOptions \<Rightarrow> deploy_world \<Rightarrow> bool \<times> deploy_world" where
  "buildNoCache h opts w =
     (case docker h (compose opts [''build'', ''--no-cache'']) w of (out, w1) \<Rightarrow> (out \<noteq> None, w1))"

text \<open>What every strategy does first: the edge network, the old containers, the build and the hook.\<close>

definition deploy_start :: "strategy_host \<Rightarrow> DeployOptions \<Rightarrow> deploy_world \<Rightarrow> deploy_outcome" where
  "deploy_start h opts w =
     (case Prepare (sh_edge h) (do_ProjectPath opts) (do_ComposeFile opts) (dw_edge w) of
        (Some e, el) \<Rightarrow> (empty_result, Some (EdgeFailed e), w\<lparr>dw_edge := el\<rparr>)
      | (None, el) \<Rightarrow>
          (case listContainers h (w\<lparr>dw_edge := el\<rparr>) of
             (old, w1) \<Rightarrow>
               let result = empty_result\<lparr>dr_OldContainers := old\<rparr> in
               (case (if do_NoCache opts then buildNoCache h opts w1 else (True, w1)) of
                  (False, w2) \<Rightarrow> (result, Some BuildFailed, w2)
                | (True, w2) \<Rightarrow>
                    (case (if do_PreDeployHook opts \<noteq> [] then runHook h (do_PreDeployHook opts) w2 else (True, w2)) of
                       (ok, w3) \<Rightarrow> (result, if ok then None else Some HookFailed, w3)))))"

text \<open>And last: the hook and the new containers.\<close>

definition deploy_finish :: "strategy_host \<Rightarrow> DeployOptions \<Rightarrow> DeployResult \<Rightarrow> deploy_world \<Rightarrow> deploy_outcome" where
  "deploy_finish h opts result w =
     (case (if do_PostDeployHook opts \<noteq> [] then runHook h (do_PostDeployHook opts) w else (True, w)) of
        (False, w1) \<Rightarrow> (result, Some HookFailed, w1)
      | (True, w1) \<Rightarrow>
          (case listContainers h w1 of
             (new, w2) \<Rightarrow> (result\<lparr>dr_NewContainers := new, dr_Success := True\<rparr>, None, w2)))"

subsection \<open>Basic and rolling\<close>

definition basic_deploy :: "strategy_host \<Rightarrow> DeployOptions \<Rightarrow> deploy_world \<Rightarrow> deploy_outcome" where
  "basic_deploy h opts w =
     (case deploy_start h opts w of
        (result, Some e, w1) \<Rightarrow> (result, Some e, w1)
      | (result, None, w1) \<Rightarrow>
          (case docker h (compose opts [''up'', ''-d'', ''--pull'', ''always'']) w1 of
             (None, w2) \<Rightarrow> (result, Some UpFailed, w2)
           | (Some out, w2) \<Rightarrow> deploy_finish h opts result w2))"

definition service_args :: "DeployOptions \<Rightarrow> string \<Rightarrow> string list" where
  "service_args opts svc = compose opts [''up'', ''-d'', ''--no-deps'', svc]"

fun update_services :: "strategy_host \<Rightarrow> DeployOptions \<Rightarrow> string list \<Rightarrow> deploy_world \<Rightarrow> deploy_error option \<times> deploy_world" where
  "update_services h opts [] w = (None, w)"
| "update_services h opts (svc # svcs) w =
     (case docker h (service_args opts svc) w of
        (None, w1) \<Rightarrow> (Some (ServiceFailed svc), w1)
      | (Some out, w1) \<Rightarrow> update_services h opts svcs w1)"

definition rolling_deploy :: "strategy_host \<Rightarrow> DeployOptions \<Rightarrow> deploy_world \<Rightarrow> deploy_outcome" where
  "rolling_deploy h opts w =
     (case deploy_start h opts w of
        (result, Some e, w1) \<Rightarrow> (result, Some e, w1)
      | (result, None, w1) \<Rightarrow>
          (case docker h (compose opts [''pull'']) w1 of
             (None, w2) \<Rightarrow> (result, Some PullFailed, w2)
           | (Some out, w2) \<Rightarrow>
               (case listServices h opts w2 of
                  (None, w3) \<Rightarrow> (result, Some ServicesFailed, w3)
                | (Some services, w3) \<Rightarrow>
                    (case update_services h opts services w3 of
                       (Some e, w4) \<Rightarrow> (result, Some e, w4)
                     | (None, w4) \<Rightarrow> deploy_finish h opts result w4))))"

subsection \<open>Blue-green\<close>

text \<open>The polling loop, in round \<open>n\<close>.\<close>

partial_function (option) wait_loop :: "strategy_host \<Rightarrow> time \<Rightarrow> nat \<Rightarrow> deploy_error option option" where
  "wait_loop h deadline n =
     (if \<not> sh_now h n < deadline then Some (Some HealthTimeout)
      else if sh_cancelled h n then Some (Some HealthCancelled)
      else if (case sh_get h n of None \<Rightarrow> False | Some status \<Rightarrow> 200 \<le> status \<and> status < 400) then Some None
      else if \<not> sh_slept h n then Some (Some HealthCancelled)
      else wait_loop h deadline (Suc n))"

definition waitHealthy :: "strategy_host \<Rightarrow> DeployOptions \<Rightarrow> duration \<Rightarrow> deploy_error option option" where
  "waitHealthy h opts timeout =
     (if do_HealthCheckURL opts = [] then Some (if sh_settled h then None else Some HealthCancelled)
      else wait_loop h (sh_start h + timeout) 0)"

definition newProject :: "DeployOptions \<Rightarrow> string" where
  "newProject opts = do_ProjectName opts @ ''-new''"

definition start_new_args :: "DeployOptions \<Rightarrow> string list" where
  "start_new_args opts =
     [''compose'', ''-p'', newProject opts] @ (if do_ComposeFile opts \<noteq> [] then [''-f'', do_ComposeFile opts] else [])
       @ [''up'', ''-d'', ''--pull'', ''always'']"

definition remove_new_args :: "DeployOptions \<Rightarrow> string list" where
  "remove_new_args opts = [''compose'', ''-p'', newProject opts, ''down'', ''--remove-orphans'']"

definition down_args :: "DeployOptions \<Rightarrow> string list" where
  "down_args opts = compose opts [''down'']"

definition up_args :: "DeployOptions \<Rightarrow> string list" where
  "up_args opts = compose opts [''up'', ''-d'', ''--pull'', ''always'']"

text \<open>Steps 3 and 4: failures to stop the old project or to remove the new one are only warnings.\<close>

definition promote :: "strategy_host \<Rightarrow> DeployOptions \<Rightarrow> DeployResult \<Rightarrow> deploy_world \<Rightarrow> deploy_outcome" where
  "promote h opts result w =
     (case docker h (down_args opts) w of
        (stopped, w1) \<Rightarrow>
          (case docker h (remove_new_args opts) w1 of
             (removed, w2) \<Rightarrow>
               (case docker h (up_args opts) w2 of
                  (None, w3) \<Rightarrow> (result, Some PromoteFailed, w3)
                | (Some out, w3) \<Rightarrow> deploy_finish h opts result w3)))"

definition bluegreen_timeout :: "DeployOptions \<Rightarrow> duration" where
  "bluegreen_timeout opts = (if do_Timeout opts = 0 then 60 * second else do_Timeout opts)"

definition bluegreen_deploy :: "strategy_host \<Rightarrow> DeployOptions \<Rightarrow> deploy_world \<Rightarrow> deploy_outcome option" where
  "bluegreen_deploy h opts w =
     (case deploy_start h opts w of
        (result, Some e, w1) \<Rightarrow> Some (result, Some e, w1)
      | (result, None, w1) \<Rightarrow>
          (case docker h (start_new_args opts) w1 of
             (None, w2) \<Rightarrow> Some (result, Some StartNewFailed, w2)
           | (Some out, w2) \<Rightarrow>
               (case waitHealthy h opts (bluegreen_timeout opts) of
                  None \<Rightarrow> None
                | Some (Some e) \<Rightarrow>
                    (case docker h (remove_new_args opts) w2 of (removed, w3) \<Rightarrow> Some (result, Some e, w3))
                | Some None \<Rightarrow> Some (promote h opts result w2))))"

definition Deploy :: "Strategy \<Rightarrow> strategy_host \<Rightarrow> DeployOptions \<Rightarrow> deploy_world \<Rightarrow> deploy_outcome option" where
  "Deploy s h opts w =
     (case s of
        BasicStrategy \<Rightarrow> Some (basic_deploy h opts w)
      | RollingStrategy \<Rightarrow> Some (rolling_deploy h opts w)
      | BlueGreenStrategy \<Rightarrow> bluegreen_deploy h opts w)"

end
