(* ===== verification/Deploy_Safety.thy ===== *)
theory Deploy_Safety
  imports Deploy_Strategies
begin

text \<open>
  What the deployment strategies run, in which order and when, and that the loops of the blue-green
  deployment end.
\<close>

subsection \<open>The commands of a deployment\<close>

definition before_cmds :: "DeployOptions \<Rightarrow> string list list" where
  "before_cmds opts = [ps_args] @ (if do_NoCache opts then [compose opts [''build'', ''--no-cache'']] else [])
     @ (if do_PreDeployHook opts \<noteq> [] then [hook_args (do_PreDeployHook opts)] else [])"

definition post_hook_cmds :: "DeployOptions \<Rightarrow> string list list" where
  "post_hook_cmds opts = (if do_PostDeployHook opts \<noteq> [] then [hook_args (do_PostDeployHook opts)] else [])"

lemma docker_log:
  "docker h args w = (r, w') \<Longrightarrow> dw_log w' = dw_log w @ [args]"
  by (auto simp: docker_def split: prod.splits)

lemma deploy_start_log:
  assumes "deploy_start h opts w = (res, e, w')"
  shows "\<exists>k. dw_log w' = dw_log w @ take k (before_cmds opts) \<and> (e = None \<longrightarrow> length (before_cmds opts) \<le> k)
    \<and> \<not> dr_Success res \<and> (e \<noteq> None \<longrightarrow> e \<in> {Some BuildFailed, Some HookFailed} \<union> Some ` range EdgeFailed)"
proof -
  obtain r el where p: "Prepare (sh_edge h) (do_ProjectPath opts) (do_ComposeFile opts) (dw_edge w) = (r, el)"
    by (metis prod.exhaust)
  show ?thesis
  proof (cases r)
    case (Some x)
    then show ?thesis using assms p by (auto simp: deploy_start_def empty_result_def intro: exI[of _ 0])
  next
    case None
    have n: "take (Suc 0) (before_cmds opts) = [ps_args]" "1 \<le> length (before_cmds opts)"
      "do_NoCache opts \<Longrightarrow> take 2 (before_cmds opts) = [ps_args, compose opts [''build'', ''--no-cache'']]"
      by (auto simp: before_cmds_def numeral_2_eq_2)
    consider (build) "do_NoCache opts" "e = Some BuildFailed"
        "dw_log w' = dw_log w @ [ps_args, compose opts [''build'', ''--no-cache'']]"
      | (rest) "e = None \<or> e = Some HookFailed" "dw_log w' = dw_log w @ before_cmds opts"
      using assms p None
      by (auto simp: deploy_start_def before_cmds_def listContainers_def buildNoCache_def runHook_def Let_def
          split: prod.splits if_splits bool.splits dest!: docker_log)
    moreover have "\<not> dr_Success res" using assms p None
      by (auto simp: deploy_start_def empty_result_def Let_def split: prod.splits if_splits bool.splits)
    ultimately show ?thesis
    proof cases
      case build
      then show ?thesis using n(3) \<open>\<not> dr_Success res\<close> by (intro exI[of _ 2]) simp
    next
      case rest
      then show ?thesis using \<open>\<not> dr_Success res\<close> by (intro exI[of _ "length (before_cmds opts)"]) auto
    qed
  qed
qed

lemma deploy_finish_log:
  assumes "deploy_finish h opts result w = (res, e, w')" "\<not> dr_Success result"
  shows "dr_Success res \<longleftrightarrow> e = None"
    and "e = None \<Longrightarrow> dw_log w' = dw_log w @ post_hook_cmds opts @ [ps_args]"
    and "e \<noteq> None \<Longrightarrow> e = Some HookFailed \<and> dw_log w' = dw_log w @ post_hook_cmds opts"
  using assms
  by (auto simp: deploy_finish_def post_hook_cmds_def listContainers_def runHook_def
      split: prod.splits if_splits bool.splits dest!: docker_log)

text \<open>How a blue-green deployment that went past the first steps ends.\<close>

definition bluegreen_end :: "strategy_host \<Rightarrow> DeployOptions \<Rightarrow> deploy_error option \<Rightarrow> string list list \<Rightarrow> bool" where
  "bluegreen_end h opts e cs \<longleftrightarrow>
     (let switched = [start_new_args opts, down_args opts, remove_new_args opts, up_args opts] in
      if cs = [start_new_args opts] then e = Some StartNewFailed
      else if cs = [start_new_args opts, remove_new_args opts]
      then e \<noteq> None \<and> waitHealthy h opts (bluegreen_timeout opts) = Some e
      else waitHealthy h opts (bluegreen_timeout opts) = Some None
        \<and> (e = Some PromoteFailed \<and> cs = switched
           \<or> e = Some HookFailed \<and> cs = switched @ post_hook_cmds opts
           \<or> e = None \<and> cs = switched @ post_hook_cmds opts @ [ps_args]))"

lemma bluegreen_log:
  assumes "bluegreen_deploy h opts w = Some (res, e, w')"
  shows "(dr_Success res \<longleftrightarrow> e = None)
    \<and> ((\<exists>k. dw_log w' = dw_log w @ take k (before_cmds opts) \<and> e \<noteq> None)
       \<or> (\<exists>cs. dw_log w' = dw_log w @ before_cmds opts @ cs \<and> bluegreen_end h opts e cs))"
proof -
  obtain r0 e0 w0 where s: "deploy_start h opts w = (r0, e0, w0)" by (metis prod.exhaust)
  obtain k where k: "dw_log w0 = dw_log w @ take k (before_cmds opts)" "e0 = None \<longrightarrow> length (before_cmds opts) \<le> k"
      "\<not> dr_Success r0"
    using deploy_start_log[OF s] by blast
  show ?thesis
  proof (cases e0)
    case (Some x)
    then show ?thesis using assms s k by (auto simp: bluegreen_deploy_def)
  next
    case None
    have l0: "dw_log w0 = dw_log w @ before_cmds opts" using k None by simp
    obtain r1 w1 where d: "docker h (start_new_args opts) w0 = (r1, w1)" by (metis prod.exhaust)
    have l1: "dw_log w1 = dw_log w @ before_cmds opts @ [start_new_args opts]" using docker_log[OF d] l0 by simp
    show ?thesis
    proof (cases r1)
      case None
      then show ?thesis using assms s \<open>e0 = None\<close> d l1 k(3) by (auto simp: bluegreen_deploy_def bluegreen_end_def Let_def)
    next
      case (Some out)
      then obtain v where v: "waitHealthy h opts (bluegreen_timeout opts) = Some v"
        using assms s \<open>e0 = None\<close> d by (auto simp: bluegreen_deploy_def split: option.splits)
      show ?thesis
      proof (cases v)
        case (Some x)
        obtain r2 w2 where rm: "docker h (remove_new_args opts) w1 = (r2, w2)" by (metis prod.exhaust)
        have "res = r0" "e = Some x" "w' = w2"
          using assms s \<open>e0 = None\<close> d \<open>r1 = Some out\<close> v Some rm by (simp_all add: bluegreen_deploy_def)
        then show ?thesis using l1 docker_log[OF rm] k(3) v Some
          by (auto simp: bluegreen_end_def Let_def)
      next
        case None
        obtain r2 w2 r3 w3 r4 w4 where p: "docker h (down_args opts) w1 = (r2, w2)"
            "docker h (remove_new_args opts) w2 = (r3, w3)" "docker h (up_args opts) w3 = (r4, w4)"
          by (metis prod.exhaust)
        have l4: "dw_log w4 = dw_log w @ before_cmds opts
            @ [start_new_args opts, down_args opts, remove_new_args opts, up_args opts]"
          using docker_log[OF p(1)] docker_log[OF p(2)] docker_log[OF p(3)] l1 by simp
        have pr: "promote h opts r0 w1 = (res, e, w')"
          using assms s \<open>e0 = None\<close> d \<open>r1 = Some out\<close> v None by (simp add: bluegreen_deploy_def)
        show ?thesis
        proof (cases r4)
          case none: None
          then have "res = r0" "e = Some PromoteFailed" "w' = w4" using pr p by (simp_all add: promote_def)
          then show ?thesis using l4 k(3) v None by (auto simp: bluegreen_end_def Let_def)
        next
          case some: (Some out4)
          then have fin: "deploy_finish h opts r0 w4 = (res, e, w')" using pr p by (simp add: promote_def)
          note f = deploy_finish_log[OF fin k(3)]
          show ?thesis
            using f l4 v None by (cases "e = None") (auto simp: bluegreen_end_def Let_def)
        qed
      qed
    qed
  qed
qed

subsection \<open>The health loop\<close>

definition healthy_round :: "strategy_host \<Rightarrow> time \<Rightarrow> nat \<Rightarrow> bool" where
  "healthy_round h deadline m \<longleftrightarrow> sh_now h m < deadline \<and> \<not> sh_cancelled h m
     \<and> (\<exists>status. sh_get h m = Some status \<and> 200 \<le> status \<and> status < 400)"

lemma wait_loop_result:
  assumes "wait_loop h deadline n = Some r"
  shows "r \<in> {None, Some HealthTimeout, Some HealthCancelled} \<and> (r = None \<longrightarrow> (\<exists>m \<ge> n. healthy_round h deadline m))"
proof (rule wait_loop.raw_induct[OF _ assms])
  fix f h deadline n r
  assume IH: "\<And>h deadline n r. f h deadline n = Some r \<Longrightarrow>
      r \<in> {None, Some HealthTimeout, Some HealthCancelled} \<and> (r = None \<longrightarrow> (\<exists>m \<ge> n. healthy_round h deadline m))"
    and step: "(if \<not> sh_now h n < deadline then Some (Some HealthTimeout)
      else if sh_cancelled h n then Some (Some HealthCancelled)
      else if (case sh_get h n of None \<Rightarrow> False | Some status \<Rightarrow> 200 \<le> status \<and> status < 400) then Some None
      else if \<not> sh_slept h n then Some (Some HealthCancelled)
      else f h deadline (Suc n)) = Some r"
  show "r \<in> {None, Some HealthTimeout, Some HealthCancelled} \<and> (r = None \<longrightarrow> (\<exists>m \<ge> n. healthy_round h deadline m))"
  proof (cases "healthy_round h deadline n")
    case True
    then show ?thesis using step by (auto simp: healthy_round_def)
  next
    case False
    then show ?thesis using step IH[of h deadline "Suc n" r]
      by (auto simp: healthy_round_def split: if_splits option.splits dest: Suc_leD)
  qed
qed

text \<open>A slept round takes at least the two seconds of its timer.\<close>

definition clock_runs :: "strategy_host \<Rightarrow> bool" where
  "clock_runs h \<longleftrightarrow> (\<forall>n. sh_slept h n \<longrightarrow> sh_now h n + 2 * second \<le> sh_now h (Suc n))"

lemma wait_loop_returns:
  assumes "clock_runs h"
  shows "\<exists>r. wait_loop h deadline n = Some r"
proof (induction "nat (deadline - sh_now h n)" arbitrary: n rule: less_induct)
  case less
  show ?case
  proof (cases "sh_now h n < deadline \<and> sh_slept h n")
    case True
    then have "sh_now h n + 2 * second \<le> sh_now h (Suc n)" using assms by (simp add: clock_runs_def)
    then have "nat (deadline - sh_now h (Suc n)) < nat (deadline - sh_now h n)" using True by simp
    from less(1)[OF this] show ?thesis by (subst wait_loop.simps) auto
  next
    case False
    then show ?thesis by (subst wait_loop.simps) auto
  qed
qed

lemma Deploy_returns: "clock_runs h \<Longrightarrow> Deploy s h opts w \<noteq> None"
proof -
  assume "clock_runs h"
  then have "\<exists>v. waitHealthy h opts (bluegreen_timeout opts) = Some v"
    using wait_loop_returns by (simp add: waitHealthy_def)
  then show ?thesis
    by (cases s) (auto simp: Deploy_def bluegreen_deploy_def simp del: not_None_eq split: prod.splits option.splits)
qed

text \<open>
  C10. A blue-green deployment returns, and it never touches the running project before the new containers were found
  healthy: it runs the containers' list, the build and the hook, then starts the new project; when the health
  check fails it removes the new project and nothing else, and only after a healthy answer within the
  timeout does it stop the old project, remove the new one and start the project again, with the last hook after
  it; it reports success exactly when every step of this was done.
\<close>

theorem bluegreen_guarded:
  assumes "clock_runs h"
  shows "\<exists>res e w'. Deploy BlueGreenStrategy h opts w = Some (res, e, w')
    \<and> (dr_Success res \<longleftrightarrow> e = None)
    \<and> (\<exists>cs. dw_log w' = dw_log w @ cs
         \<and> ((\<exists>k. cs = take k (before_cmds opts) \<and> e \<noteq> None)
            \<or> (\<exists>ds. cs = before_cmds opts @ ds \<and> bluegreen_end h opts e ds))
         \<and> (down_args opts \<in> set cs \<and> do_HealthCheckURL opts \<noteq> []
              \<longrightarrow> (\<exists>m. healthy_round h (sh_start h + bluegreen_timeout opts) m)))"
proof -
  obtain res e w' where d: "bluegreen_deploy h opts w = Some (res, e, w')"
    using Deploy_returns[OF assms, of BlueGreenStrategy opts w] by (auto simp: Deploy_def)
  have args: "down_args opts \<notin> set (before_cmds opts)" "down_args opts \<noteq> start_new_args opts"
      "down_args opts \<noteq> remove_new_args opts"
    by (auto simp: down_args_def before_cmds_def compose_def ps_args_def hook_args_def start_new_args_def remove_new_args_def)
  have healthy: "\<exists>m. healthy_round h (sh_start h + bluegreen_timeout opts) m"
    if "waitHealthy h opts (bluegreen_timeout opts) = Some None" "do_HealthCheckURL opts \<noteq> []"
    using wait_loop_result[of h "sh_start h + bluegreen_timeout opts" 0 None] that by (auto simp: waitHealthy_def)
  from bluegreen_log[OF d] show ?thesis
  proof (elim conjE disjE exE)
    fix k assume s: "dr_Success res \<longleftrightarrow> e = None" and k: "dw_log w' = dw_log w @ take k (before_cmds opts)" "e \<noteq> None"
    have "down_args opts \<notin> set (take k (before_cmds opts))" using args(1) by (meson in_set_takeD)
    with d s k show ?thesis unfolding Deploy_def Strategy.case by blast
  next
    fix ds assume s: "dr_Success res \<longleftrightarrow> e = None" and l: "dw_log w' = dw_log w @ before_cmds opts @ ds"
      and ds: "bluegreen_end h opts e ds"
    have "waitHealthy h opts (bluegreen_timeout opts) = Some None" if "down_args opts \<in> set (before_cmds opts @ ds)"
      using ds that args by (auto simp: bluegreen_end_def Let_def split: if_splits)
    with healthy d s l ds show ?thesis unfolding Deploy_def Strategy.case by blast
  qed
qed

definition sample_strategy_host :: strategy_host where
  "sample_strategy_host = \<lparr>sh_edge = sample_edge_host, sh_run = (\<lambda>log args. (True, [])), sh_settled = True, sh_start = 0,
     sh_now = (\<lambda>n. int n * (2 * second)), sh_cancelled = (\<lambda>n. False), sh_get = (\<lambda>n. if n = 1 then Some 200 else Some 502),
     sh_slept = (\<lambda>n. True)\<rparr>"

definition sample_deploy_options :: DeployOptions where
  "sample_deploy_options = \<lparr>do_ProjectPath = ''/p'', do_ProjectName = ''demo'', do_ComposeFile = [],
     do_HealthCheckURL = ''https://demo'', do_Timeout = 10 * second, do_PreDeployHook = [], do_PostDeployHook = [],
     do_NoCache = False\<rparr>"

definition sample_deploy_world :: deploy_world where
  "sample_deploy_world = \<lparr>dw_edge = [], dw_log = []\<rparr>"

lemma bluegreen_guarded_witness:
  "clock_runs sample_strategy_host \<and>
   (\<exists>res e w'. Deploy BlueGreenStrategy sample_strategy_host sample_deploy_options sample_deploy_world = Some (res, e, w')
    \<and> (dr_Success res \<longleftrightarrow> e = None))"
proof -
  have "clock_runs sample_strategy_host" by (simp add: clock_runs_def sample_strategy_host_def)
  with bluegreen_guarded[OF this, of sample_deploy_options sample_deploy_world] show ?thesis by blast
qed

subsection \<open>All strategies\<close>

text \<open>The commands of a deployment that succeeds, for the services a rolling update finds.\<close>

definition deploy_plan :: "Strategy \<Rightarrow> DeployOptions \<Rightarrow> string list \<Rightarrow> string list list" where
  "deploy_plan s opts services =
     before_cmds opts
     @ (case s of
          BasicStrategy \<Rightarrow> [up_args opts]
        | RollingStrategy \<Rightarrow> [compose opts [''pull''], compose opts [''config'', ''--services'']] @ map (service_args opts) services
        | BlueGreenStrategy \<Rightarrow> [start_new_args opts, down_args opts, remove_new_args opts, up_args opts])
     @ post_hook_cmds opts @ [ps_args]"

lemma update_services_log:
  "update_services h opts svcs w = (e, w') \<Longrightarrow>
     \<exists>k. dw_log w' = dw_log w @ take k (map (service_args opts) svcs) \<and> (e = None \<longrightarrow> length svcs \<le> k)"
proof (induction svcs arbitrary: w)
  case (Cons svc svcs)
  obtain r w1 where d: "docker h (service_args opts svc) w = (r, w1)" by (metis prod.exhaust)
  show ?case
  proof (cases r)
    case None
    then show ?thesis using Cons.prems d docker_log[OF d] by (intro exI[of _ 1]) auto
  next
    case (Some out)
    then obtain k where "dw_log w' = dw_log w1 @ take k (map (service_args opts) svcs)" "e = None \<longrightarrow> length svcs \<le> k"
      using Cons.IH[of w1] Cons.prems d by auto
    then show ?thesis using docker_log[OF d] by (intro exI[of _ "Suc k"]) simp
  qed
qed (auto intro: exI[of _ 0])

text \<open>A log that is a prefix of a plan.\<close>

definition ran_part :: "string list list \<Rightarrow> deploy_world \<Rightarrow> deploy_world \<Rightarrow> bool" where
  "ran_part plan w w' \<longleftrightarrow> (\<exists>rest. dw_log w' @ rest = dw_log w @ plan)"

lemma deploy_finish_part:
  assumes "deploy_finish h opts result w1 = (res, e, w')" "\<not> dr_Success result" "dw_log w1 = dw_log w @ pre"
  shows "(dr_Success res \<longleftrightarrow> e = None) \<and> ran_part (pre @ post_hook_cmds opts @ [ps_args]) w w'
    \<and> (e = None \<longrightarrow> dw_log w' = dw_log w @ pre @ post_hook_cmds opts @ [ps_args])"
  using deploy_finish_log[OF assms(1,2)] assms(3) by (cases "e = None") (auto simp: ran_part_def)

lemma deploy_start_part:
  assumes "deploy_start h opts w = (res, e, w')"
  shows "\<not> dr_Success res" "e = None \<Longrightarrow> dw_log w' = dw_log w @ before_cmds opts"
    "ran_part (deploy_plan s opts services) w w'"
proof -
  obtain k where k: "dw_log w' = dw_log w @ take k (before_cmds opts)" "e = None \<longrightarrow> length (before_cmds opts) \<le> k"
      "\<not> dr_Success res"
    using deploy_start_log[OF assms] by blast
  then show "\<not> dr_Success res" "e = None \<Longrightarrow> dw_log w' = dw_log w @ before_cmds opts" by simp_all
  have "take k (before_cmds opts) @ drop k (before_cmds opts) = before_cmds opts" by simp
  then show "ran_part (deploy_plan s opts services) w w'"
    unfolding ran_part_def deploy_plan_def k(1) by (metis append.assoc)
qed

lemma basic_part:
  assumes "basic_deploy h opts w = (res, e, w')"
  shows "(dr_Success res \<longleftrightarrow> e = None) \<and> ran_part (deploy_plan BasicStrategy opts []) w w'
    \<and> (e = None \<longrightarrow> dw_log w' = dw_log w @ deploy_plan BasicStrategy opts [])"
proof -
  obtain r0 e0 w0 where s: "deploy_start h opts w = (r0, e0, w0)" by (metis prod.exhaust)
  note start = deploy_start_part[OF s]
  obtain r1 w1 where u: "docker h (compose opts [''up'', ''-d'', ''--pull'', ''always'']) w0 = (r1, w1)" by (metis prod.exhaust)
  consider (early) x where "e0 = Some x" | (up) "e0 = None" "r1 = None" | (finish) out where "e0 = None" "r1 = Some out"
    by (cases e0; cases r1) auto
  then show ?thesis
  proof cases
    case early
    then show ?thesis using assms s start(1) start(3)[of BasicStrategy "[]"] by (auto simp: basic_deploy_def)
  next
    case up
    then show ?thesis using assms s u start(1,2) docker_log[OF u]
      by (auto simp: basic_deploy_def deploy_plan_def ran_part_def up_args_def)
  next
    case finish
    then have f: "deploy_finish h opts r0 w1 = (res, e, w')" using assms s u by (auto simp: basic_deploy_def)
    have "dw_log w1 = dw_log w @ before_cmds opts @ [up_args opts]"
      using start(2) finish docker_log[OF u] by (simp add: up_args_def)
    from deploy_finish_part[OF f start(1) this] show ?thesis by (simp add: deploy_plan_def)
  qed
qed

lemma rolling_part:
  assumes "rolling_deploy h opts w = (res, e, w')"
  shows "(dr_Success res \<longleftrightarrow> e = None) \<and> (\<exists>services. ran_part (deploy_plan RollingStrategy opts services) w w'
    \<and> (e = None \<longrightarrow> dw_log w' = dw_log w @ deploy_plan RollingStrategy opts services))"
proof -
  obtain r0 e0 w0 where s: "deploy_start h opts w = (r0, e0, w0)" by (metis prod.exhaust)
  note start = deploy_start_part[OF s]
  obtain r1 w1 where p: "docker h (compose opts [''pull'']) w0 = (r1, w1)" by (metis prod.exhaust)
  obtain ss w2 where l: "listServices h opts w1 = (ss, w2)" by (metis prod.exhaust)
  have l2: "dw_log w2 = dw_log w1 @ [compose opts [''config'', ''--services'']]"
    using l by (auto simp: listServices_def split: prod.splits dest: docker_log)
  consider (early) x where "e0 = Some x" | (pull) "e0 = None" "r1 = None" | (list) out where "e0 = None" "r1 = Some out" "ss = None"
    | (update) out services where "e0 = None" "r1 = Some out" "ss = Some services"
    by (cases e0; cases r1; cases ss) auto
  then show ?thesis
  proof cases
    case early
    then show ?thesis using assms s start(1) start(3)[of RollingStrategy "[]"] by (auto simp: rolling_deploy_def)
  next
    case pull
    then show ?thesis using assms s p start(1,2) docker_log[OF p]
      by (auto simp: rolling_deploy_def deploy_plan_def ran_part_def)
  next
    case list
    then show ?thesis using assms s p l start(1,2) docker_log[OF p] l2
      by (auto simp: rolling_deploy_def deploy_plan_def ran_part_def)
  next
    case update
    then have True: "e0 = None" "r1 = Some out" and ss: "ss = Some services" by simp_all
    obtain e3 w3 where u: "update_services h opts services w2 = (e3, w3)" by (metis prod.exhaust)
    obtain k where k: "dw_log w3 = dw_log w2 @ take k (map (service_args opts) services)" "e3 = None \<longrightarrow> length services \<le> k"
      using update_services_log[OF u] by blast
    have log3: "dw_log w3 = dw_log w @ before_cmds opts @ [compose opts [''pull''], compose opts [''config'', ''--services'']]
        @ take k (map (service_args opts) services)"
      using k(1) l2 docker_log[OF p] start(2) True by simp
    show ?thesis
    proof (cases e3)
      case (Some x)
      then have "res = r0" "e = Some x" "w' = w3" using assms s p l ss u True by (auto simp: rolling_deploy_def)
      moreover have "take k (map (service_args opts) services) @ drop k (map (service_args opts) services)
          = map (service_args opts) services" by simp
      ultimately show ?thesis unfolding ran_part_def using log3 start(1)
        by (auto simp: deploy_plan_def simp del: append_take_drop_id intro!: exI[of _ services])
          (metis append.assoc)
    next
      case None
      then have f: "deploy_finish h opts r0 w3 = (res, e, w')" using assms s p l ss u True by (auto simp: rolling_deploy_def)
      have "dw_log w3 = dw_log w @ before_cmds opts @ [compose opts [''pull''], compose opts [''config'', ''--services'']]
          @ map (service_args opts) services" using log3 k(2) None by simp
      from deploy_finish_part[OF f start(1) this] show ?thesis
        by (intro conjI exI[of _ services]) (simp_all add: deploy_plan_def)
    qed
  qed
qed

text \<open>
  Every strategy follows its plan: a deployment reports success exactly when it has no error, and then it ran
  exactly the commands of its plan in order (a rolling one updates the listed services one after the other);
  a basic or rolling deployment that fails stopped at the failing command, with the rest of the plan not run.
\<close>

theorem Deploy_follows_plan:
  assumes "Deploy s h opts w = Some (res, e, w')"
  shows "(dr_Success res \<longleftrightarrow> e = None) \<and> (\<exists>services. (e = None \<longrightarrow> dw_log w' = dw_log w @ deploy_plan s opts services)
    \<and> (s \<noteq> BlueGreenStrategy \<longrightarrow> ran_part (deploy_plan s opts services) w w'))"
proof (cases s)
  case BasicStrategy
  then show ?thesis using assms basic_part[of h opts w res e w'] by (auto simp: Deploy_def)
next
  case RollingStrategy
  then show ?thesis using assms rolling_part[of h opts w res e w'] by (auto simp: Deploy_def)
next
  case BlueGreenStrategy
  then show ?thesis using assms bluegreen_log[of h opts w res e w']
    by (auto simp: Deploy_def bluegreen_end_def deploy_plan_def Let_def split: if_splits)
qed

lemma Deploy_follows_plan_witness:
  "\<exists>res w'. Deploy RollingStrategy sample_strategy_host sample_deploy_options sample_deploy_world = Some (res, None, w')
     \<and> dr_Success res \<and> (\<exists>services. dw_log w' = deploy_plan RollingStrategy sample_deploy_options services)"
proof -
  have run: "docker sample_strategy_host args w = (Some [], w\<lparr>dw_log := dw_log w @ [args]\<rparr>)" for args w
    by (simp add: docker_def sample_strategy_host_def)
  have empty: "output_lines [] = []" by (simp add: output_lines_def trim_space_def)
  have ok: "\<exists>res w'. rolling_deploy sample_strategy_host sample_deploy_options sample_deploy_world = (res, None, w')"
    by (simp add: rolling_deploy_def deploy_start_def deploy_finish_def listContainers_def listServices_def run empty
        sample_deploy_options_def sample_deploy_world_def sample_prepare sample_strategy_host_def[THEN arg_cong[of _ _ sh_edge]])
  then obtain res w' where d: "Deploy RollingStrategy sample_strategy_host sample_deploy_options sample_deploy_world
      = Some (res, None, w')" by (auto simp: Deploy_def)
  have "dw_log sample_deploy_world = []" by (simp add: sample_deploy_world_def)
  with d Deploy_follows_plan[OF d] show ?thesis by auto
qed

end
