(* ===== verification/Deploy_Watchdog.thy ===== *)
theory Deploy_Watchdog
  imports Fleet_Config
begin

text \<open>
  \<open>internal/deploy/watchdog.go\<close>: the observation of a deployed endpoint. The answers of the endpoint are indexed
  by the probes, what the loop waits for (a tick, with the time read after it, or the end of the
  context) by its rounds.
\<close>

record WatchdogConfig =
  wc_URL :: string
  wc_Duration :: duration
  wc_Interval :: duration
  wc_Timeout :: duration
  wc_FailureThreshold :: int
  wc_ExpectedStatus :: int

record WatchResult =
  wr_Healthy :: bool
  wr_Probes :: nat
  wr_ConsecutiveFailures :: nat
  wr_LastStatus :: int
  wr_LastError :: string

text \<open>\<open>ob_probe n\<close> is the answer to the \<open>n\<close>-th request: an error text or a status. \<open>ob_event n = None\<close> is the end of
  the context.\<close>

record observer =
  ob_start :: time
  ob_probe :: "nat \<Rightarrow> string + int"
  ob_event :: "nat \<Rightarrow> time option"

definition applyWatchdogDefaults :: "WatchdogConfig \<Rightarrow> WatchdogConfig" where
  "applyWatchdogDefaults cfg =
     cfg\<lparr>wc_Duration := (if wc_Duration cfg \<le> 0 then 5 * minute else wc_Duration cfg),
         wc_Interval := (if wc_Interval cfg \<le> 0 then 10 * second else wc_Interval cfg),
         wc_Timeout := (if wc_Timeout cfg \<le> 0 then 5 * second else wc_Timeout cfg),
         wc_FailureThreshold := (if wc_FailureThreshold cfg \<le> 0 then 3 else wc_FailureThreshold cfg),
         wc_ExpectedStatus := (if wc_ExpectedStatus cfg = 0 then 200 else wc_ExpectedStatus cfg)\<rparr>"

definition singleProbe :: "observer \<Rightarrow> nat \<Rightarrow> int \<times> string" where
  "singleProbe ob n = (case ob_probe ob n of Inl e \<Rightarrow> (0, e) | Inr status \<Rightarrow> (status, []))"

text \<open>One probe: the result and the consecutive failures after it.\<close>

definition probe :: "WatchdogConfig \<Rightarrow> observer \<Rightarrow> nat \<times> WatchResult \<Rightarrow> nat \<times> WatchResult" where
  "probe cfg ob s =
     (case s of (consecutive, result) \<Rightarrow>
        (case singleProbe ob (wr_Probes result) of
           (status, err) \<Rightarrow>
             let result1 = result\<lparr>wr_Probes := Suc (wr_Probes result), wr_LastStatus := status, wr_LastError := err\<rparr> in
             if status = wc_ExpectedStatus cfg then (0, result1)
             else (Suc consecutive, result1\<lparr>wr_ConsecutiveFailures := max (Suc consecutive) (wr_ConsecutiveFailures result)\<rparr>)))"

partial_function (option) observe_loop ::
  "WatchdogConfig \<Rightarrow> observer \<Rightarrow> time \<Rightarrow> nat \<Rightarrow> nat \<times> WatchResult \<Rightarrow> WatchResult option" where
  "observe_loop cfg ob deadline n s =
     (case ob_event ob n of
        None \<Rightarrow> Some ((snd s)\<lparr>wr_Healthy := int (fst s) < wc_FailureThreshold cfg\<rparr>)
      | Some now \<Rightarrow>
          if deadline < now then Some ((snd s)\<lparr>wr_Healthy := True\<rparr>)
          else if wc_FailureThreshold cfg \<le> int (fst (probe cfg ob s)) then Some (snd (probe cfg ob s))
          else observe_loop cfg ob deadline (Suc n) (probe cfg ob s))"

definition empty_watch :: WatchResult where
  "empty_watch = \<lparr>wr_Healthy = False, wr_Probes = 0, wr_ConsecutiveFailures = 0, wr_LastStatus = 0, wr_LastError = []\<rparr>"

definition Observe :: "WatchdogConfig \<Rightarrow> observer \<Rightarrow> WatchResult option" where
  "Observe cfg0 ob =
     (let cfg = applyWatchdogDefaults cfg0; s = probe cfg ob (0, empty_watch) in
      if wc_FailureThreshold cfg \<le> int (fst s) then Some (snd s)
      else observe_loop cfg ob (ob_start ob + wc_Duration cfg) 0 s)"

subsection \<open>The verdict\<close>

definition failing :: "WatchdogConfig \<Rightarrow> observer \<Rightarrow> nat \<Rightarrow> bool" where
  "failing cfg ob i \<longleftrightarrow> fst (singleProbe ob i) \<noteq> wc_ExpectedStatus cfg"

text \<open>The failures that end the first \<open>n\<close> probes, and the longest such run among them.\<close>

fun failures_at_end :: "(nat \<Rightarrow> bool) \<Rightarrow> nat \<Rightarrow> nat" where
  "failures_at_end bad 0 = 0"
| "failures_at_end bad (Suc n) = (if bad n then Suc (failures_at_end bad n) else 0)"

definition longest_run :: "(nat \<Rightarrow> bool) \<Rightarrow> nat \<Rightarrow> nat" where
  "longest_run bad n = Max (failures_at_end bad ` {..n})"

lemma longest_run_0 [simp]: "longest_run bad 0 = 0"
  by (simp add: longest_run_def)

lemma longest_run_Suc: "longest_run bad (Suc n) = max (failures_at_end bad (Suc n)) (longest_run bad n)"
  by (simp add: longest_run_def atMost_Suc)

text \<open>The state after some probes, none of which completed a run of \<open>k\<close> failures.\<close>

definition probed :: "WatchdogConfig \<Rightarrow> observer \<Rightarrow> nat \<times> WatchResult \<Rightarrow> bool" where
  "probed cfg ob s \<longleftrightarrow>
     (let n = wr_Probes (snd s) in
      fst s = failures_at_end (failing cfg ob) n \<and> wr_ConsecutiveFailures (snd s) = longest_run (failing cfg ob) n
      \<and> \<not> wr_Healthy (snd s))"

lemma probe_probed:
  assumes "probed cfg ob s"
  shows "probed cfg ob (probe cfg ob s)" "wr_Probes (snd (probe cfg ob s)) = Suc (wr_Probes (snd s))"
  using assms
  by (auto simp: probe_def probed_def failing_def longest_run_Suc Let_def max_def split: prod.splits)

text \<open>A verdict: after at most \<open>m\<close> probes; unhealthy exactly when the last of them completed a run of \<open>k\<close> failures.\<close>

definition verdict_ok :: "WatchdogConfig \<Rightarrow> observer \<Rightarrow> nat \<Rightarrow> WatchResult \<Rightarrow> bool" where
  "verdict_ok cfg ob m r \<longleftrightarrow>
     0 < wr_Probes r \<and> wr_Probes r \<le> m
     \<and> wr_ConsecutiveFailures r = longest_run (failing cfg ob) (wr_Probes r)
     \<and> (wr_Healthy r \<longleftrightarrow> int (longest_run (failing cfg ob) (wr_Probes r)) < wc_FailureThreshold cfg)
     \<and> (\<forall>i < wr_Probes r. int (longest_run (failing cfg ob) i) < wc_FailureThreshold cfg)"

definition calm :: "WatchdogConfig \<Rightarrow> observer \<Rightarrow> nat \<times> WatchResult \<Rightarrow> bool" where
  "calm cfg ob s \<longleftrightarrow> probed cfg ob s \<and> int (longest_run (failing cfg ob) (wr_Probes (snd s))) < wc_FailureThreshold cfg"

lemma longest_run_mono: "i \<le> j \<Longrightarrow> longest_run bad i \<le> longest_run bad j"
  by (auto simp: longest_run_def intro!: Max_mono)

lemma failures_at_end_le: "failures_at_end bad n \<le> longest_run bad n"
  by (simp add: longest_run_def)

lemma calm_stop:
  assumes "calm cfg ob s" "0 < wr_Probes (snd s)" "wr_Probes (snd s) \<le> m"
  shows "verdict_ok cfg ob m ((snd s)\<lparr>wr_Healthy := True\<rparr>)" "int (fst s) < wc_FailureThreshold cfg"
proof -
  have "int (longest_run (failing cfg ob) i) < wc_FailureThreshold cfg" if "i < wr_Probes (snd s)" for i
    using longest_run_mono[of i "wr_Probes (snd s)" "failing cfg ob"] assms(1) that by (simp add: calm_def)
  then show "verdict_ok cfg ob m ((snd s)\<lparr>wr_Healthy := True\<rparr>)"
    using assms by (simp add: verdict_ok_def calm_def probed_def Let_def)
  show "int (fst s) < wc_FailureThreshold cfg"
    using assms(1) failures_at_end_le[of "failing cfg ob" "wr_Probes (snd s)"] by (simp add: calm_def probed_def Let_def)
qed

lemma calm_probe:
  assumes "calm cfg ob s"
  shows "wc_FailureThreshold cfg \<le> int (fst (probe cfg ob s)) \<Longrightarrow> Suc (wr_Probes (snd s)) \<le> m
      \<Longrightarrow> verdict_ok cfg ob m (snd (probe cfg ob s))"
    and "\<not> wc_FailureThreshold cfg \<le> int (fst (probe cfg ob s)) \<Longrightarrow> calm cfg ob (probe cfg ob s)"
proof -
  let ?s = "probe cfg ob s" and ?n = "wr_Probes (snd s)"
  have s: "probed cfg ob ?s" "wr_Probes (snd ?s) = Suc ?n" using probe_probed assms by (auto simp: calm_def)
  have now: "fst ?s = failures_at_end (failing cfg ob) (Suc ?n)" using s by (simp add: probed_def Let_def)
  have before: "int (longest_run (failing cfg ob) i) < wc_FailureThreshold cfg" if "i \<le> ?n" for i
    using longest_run_mono[OF that, of "failing cfg ob"] assms by (simp add: calm_def)
  show "verdict_ok cfg ob m (snd ?s)" if "wc_FailureThreshold cfg \<le> int (fst ?s)" "Suc ?n \<le> m"
    using s now before that longest_run_Suc[of "failing cfg ob" ?n] by (auto simp: verdict_ok_def probed_def Let_def)
  show "calm cfg ob ?s" if "\<not> wc_FailureThreshold cfg \<le> int (fst ?s)"
    using s now before[of ?n] that longest_run_Suc[of "failing cfg ob" ?n] by (auto simp: calm_def)
qed

text \<open>The \<open>n\<close>-th tick of a ticker comes no earlier than \<open>n\<close> intervals after its start (a slow receiver loses ticks).\<close>

definition ticks_run :: "WatchdogConfig \<Rightarrow> observer \<Rightarrow> bool" where
  "ticks_run cfg ob \<longleftrightarrow> (\<forall>n t. ob_event ob n = Some t \<longrightarrow> ob_start ob + int (Suc n) * wc_Interval cfg \<le> t)"

definition max_probes :: "WatchdogConfig \<Rightarrow> nat" where
  "max_probes cfg = Suc (nat (wc_Duration cfg div wc_Interval cfg))"

lemma observe_loop_returns:
  assumes "ticks_run cfg ob" "0 < wc_Interval cfg" "calm cfg ob s" "wr_Probes (snd s) = Suc n" "Suc n \<le> max_probes cfg"
  shows "\<exists>r. observe_loop cfg ob (ob_start ob + wc_Duration cfg) n s = Some r \<and> verdict_ok cfg ob (max_probes cfg) r"
  using assms(3-)
proof (induction "max_probes cfg - n" arbitrary: n s rule: less_induct)
  case less
  let ?s = "probe cfg ob s"
  note stop = calm_stop[OF less.prems(1), of "max_probes cfg"]
  show ?case
  proof (cases "ob_event ob n")
    case None
    then show ?thesis using stop less.prems by (subst observe_loop.simps) simp
  next
    case (Some t)
    show ?thesis
    proof (cases "ob_start ob + wc_Duration cfg < t")
      case True
      then show ?thesis using Some stop less.prems by (subst observe_loop.simps) simp
    next
      case False
      then have "int (Suc n) * wc_Interval cfg \<le> wc_Duration cfg"
        using Some assms(1) unfolding ticks_run_def by fastforce
      then have "int (Suc n) * wc_Interval cfg div wc_Interval cfg \<le> wc_Duration cfg div wc_Interval cfg"
        using assms(2) by (rule zdiv_mono1)
      moreover have "int (Suc n) * wc_Interval cfg div wc_Interval cfg = int (Suc n)"
        using assms(2) by (intro nonzero_mult_div_cancel_right) simp
      ultimately have "int (Suc n) \<le> wc_Duration cfg div wc_Interval cfg" by simp
      then have n: "Suc (Suc n) \<le> max_probes cfg" by (simp add: max_probes_def)
      have probes: "wr_Probes (snd ?s) = Suc (Suc n)"
        using probe_probed(2) less.prems(1,2) by (auto simp: calm_def)
      show ?thesis
      proof (cases "wc_FailureThreshold cfg \<le> int (fst ?s)")
        case True
        then show ?thesis using Some False calm_probe(1)[OF less.prems(1)] less.prems(2) n
          by (subst observe_loop.simps) simp
      next
        case calm: False
        have "max_probes cfg - Suc n < max_probes cfg - n" using n by simp
        from less.hyps[OF this calm_probe(2)[OF less.prems(1) calm] probes n] show ?thesis
          using Some False calm by (subst observe_loop.simps) simp
      qed
    qed
  qed
qed

text \<open>
  C37. The watchdog always reaches a verdict and the verdict is right: with a ticker that runs, it stops after at most
  one probe more than intervals fit into the window; it reports the longest run of failing probes it saw, and
  it calls the deployment unhealthy exactly when that run reached the threshold, at the first probe that completed it.
\<close>

theorem Observe_verdict:
  assumes "ticks_run (applyWatchdogDefaults cfg) ob"
  shows "\<exists>r. Observe cfg ob = Some r
    \<and> verdict_ok (applyWatchdogDefaults cfg) ob (max_probes (applyWatchdogDefaults cfg)) r"
proof -
  let ?cfg = "applyWatchdogDefaults cfg"
  have pos: "0 < wc_Interval ?cfg" "0 < wc_FailureThreshold ?cfg" by (simp_all add: applyWatchdogDefaults_def)
  have start: "calm ?cfg ob (0, empty_watch)" using pos(2) by (simp add: calm_def probed_def empty_watch_def)
  let ?s = "probe ?cfg ob (0, empty_watch)"
  show ?thesis
  proof (cases "wc_FailureThreshold ?cfg \<le> int (fst ?s)")
    case True
    then show ?thesis using calm_probe(1)[OF start True, of "max_probes ?cfg"]
      by (simp add: Observe_def Let_def empty_watch_def max_probes_def)
  next
    case False
    have "wr_Probes (snd ?s) = Suc 0" using probe_probed(2) start by (simp add: calm_def empty_watch_def)
    with observe_loop_returns[OF assms pos(1) calm_probe(2)[OF start False], of 0] False show ?thesis
      by (simp add: Observe_def Let_def max_probes_def)
  qed
qed

text \<open>An endpoint that breaks after the third probe.\<close>

definition sample_watch :: WatchdogConfig where
  "sample_watch = \<lparr>wc_URL = ''https://demo'', wc_Duration = 60 * second, wc_Interval = 0, wc_Timeout = 0,
     wc_FailureThreshold = 2, wc_ExpectedStatus = 0\<rparr>"

definition sample_observer :: observer where
  "sample_observer = \<lparr>ob_start = 0, ob_probe = (\<lambda>n. if n < 3 then Inr 200 else Inl ''timeout''),
     ob_event = (\<lambda>n. Some (int (Suc n) * (10 * second)))\<rparr>"

lemma Observe_verdict_witness:
  "\<exists>r. Observe sample_watch sample_observer = Some r
    \<and> verdict_ok (applyWatchdogDefaults sample_watch) sample_observer (max_probes (applyWatchdogDefaults sample_watch)) r"
proof -
  have "ticks_run (applyWatchdogDefaults sample_watch) sample_observer"
    by (simp add: ticks_run_def applyWatchdogDefaults_def sample_watch_def sample_observer_def)
  from Observe_verdict[OF this] show ?thesis .
qed

end
