(* ===== verification/Project_Recovery.thy ===== *)
theory Project_Recovery
  imports Backup_Restore Deploy_Watchdog
begin

text \<open>
  The operations that take and use snapshots of a project: the automatic snapshot (\<open>cmd/lifecycle.go\<close>), the rollback
  after a failed observation (\<open>cmd/deploy.go\<close>), the rollback to a chosen backup (\<open>cmd/rollback.go\<close>), and application
  migrations with their rollback (\<open>internal/migrate\<close>, \<open>cmd/migrate.go\<close>). They are composed from the models of the
  registry, of backup creation, retention and restore.
\<close>

subsection \<open>The host and the state\<close>

text \<open>\<open>rc_up k\<close> tells whether the \<open>k\<close>-th statement on the registry succeeds; \<open>rc_exec\<close> answers a command in a
  container. Reads of the project and writes into a backup, reads of a backup and writes into the project have
  their own faults.\<close>

record recovery_host =
  rc_backup :: backup_host
  rc_restore :: restore_host
  rc_sha :: "string \<Rightarrow> string"
  rc_gz :: "string \<Rightarrow> gzip_result"
  rc_enc :: "Manifest \<Rightarrow> string"
  rc_dec :: "string \<Rightarrow> Manifest option"
  rc_read :: fs_io
  rc_write :: fs_io
  rc_archive :: fs_io
  rc_project :: fs_io
  rc_uuid :: "nat \<Rightarrow> string"
  rc_id :: string
  rc_migration :: string
  rc_now :: time
  rc_stamp :: string
  rc_up :: "nat \<Rightarrow> bool"
  rc_rmdir :: "string \<Rightarrow> bool"
  rc_addDays :: "time \<Rightarrow> int \<Rightarrow> time"
  rc_exec :: "string \<Rightarrow> string \<Rightarrow> bool \<times> string"

record recovery_world =
  rw_restore :: restore_state
  rw_store :: backup_store
  rw_db :: fleet_db
  rw_exec :: "(string \<times> string) list"

datatype recovery_error =
    NoProject | ListFailed | BadMode | RestoreFailed restore_error | NoSnapshot | BackupNotFound | Cancelled
  | SnapshotFailed backup_error | MigrationRecord | MigrationFailed | NoCommand

definition create_snapshot ::
  "recovery_host \<Rightarrow> BackupConfig \<Rightarrow> project_row \<Rightarrow> string \<Rightarrow> bool \<Rightarrow> recovery_world
    \<Rightarrow> (backup_error + backup_row) \<times> recovery_world" where
  "create_snapshot h cfg p trigger up w =
     (case CreateBackup (rc_backup h) (rc_sha h) (rc_enc h) (rc_read h) (rs_tree (rw_restore w)) (rc_write h) cfg p
         ''snapshot'' trigger \<lparr>bo_SkipDB = False, bo_SkipVolumes = False\<rparr> (rc_id h) (rc_now h) (rc_stamp h) up
         (rw_store w, rw_db w) of
        (r, store, db) \<Rightarrow> (r, w\<lparr>rw_store := store, rw_db := db\<rparr>))"

definition restore_backup ::
  "recovery_host \<Rightarrow> backup_row \<Rightarrow> RestoreOptions \<Rightarrow> recovery_world \<Rightarrow> restore_error option \<times> recovery_world" where
  "restore_backup h b opts w =
     (case RestoreBackup (rc_restore h) (rc_sha h) (rc_gz h) (rc_dec h) (rc_archive h)
         (case rw_store w (bk_Path b) of None \<Rightarrow> [] | Some t \<Rightarrow> t) (rc_project h) (rc_uuid h) (bk_Path b) opts (rw_restore w) of
        (r, st) \<Rightarrow> (r, w\<lparr>rw_restore := st\<rparr>))"

definition everything :: RestoreOptions where
  "everything = \<lparr>ro_FilesOnly = False, ro_VolumesOnly = False, ro_DBOnly = False, ro_NoStart = False\<rparr>"

subsection \<open>The automatic snapshot\<close>

text \<open>Its failure, and that of the retention after it, is only a warning.\<close>

definition enforce_retention :: "recovery_host \<Rightarrow> BackupConfig \<Rightarrow> string \<Rightarrow> recovery_world \<Rightarrow> recovery_world" where
  "enforce_retention h cfg pid w =
     (case EnforceRetention (sql_backups pid (rc_up h)) (rc_rmdir h) (rc_addDays h) (rc_now h) cfg ((rw_db w, 2), []) of
        (e, (db, n), gone) \<Rightarrow>
          w\<lparr>rw_db := db, rw_store := (\<lambda>d. if d \<in> set gone then None else rw_store w d)\<rparr>)"

definition autoSnapshot :: "recovery_host \<Rightarrow> BackupConfig \<Rightarrow> string \<Rightarrow> string \<Rightarrow> recovery_world \<Rightarrow> recovery_world" where
  "autoSnapshot h cfg projectName trigger w =
     (if \<not> bc_AutoSnapshot cfg then w
      else case GetProject (rc_up h 0) projectName (rw_db w) of
        Inl e \<Rightarrow> w
      | Inr p \<Rightarrow>
          (case create_snapshot h cfg p (''pre-'' @ trigger) (rc_up h 1) w of
             (r, w1) \<Rightarrow> enforce_retention h cfg (pj_ID p) w1))"

subsection \<open>Rolling back\<close>

definition set_running :: "recovery_host \<Rightarrow> nat \<Rightarrow> string \<Rightarrow> recovery_world \<Rightarrow> recovery_world" where
  "set_running h k name w =
     (case UpdateProjectStatus (rc_up h k) (rc_now h) name ''running'' (rw_db w) of (e, db) \<Rightarrow> w\<lparr>rw_db := db\<rparr>)"

definition restoreBackupRecord ::
  "recovery_host \<Rightarrow> nat \<Rightarrow> project_row \<Rightarrow> backup_row \<Rightarrow> RestoreOptions \<Rightarrow> recovery_world \<Rightarrow> recovery_error option \<times> recovery_world" where
  "restoreBackupRecord h k p b opts w =
     (case restore_backup h b opts w of
        (Some e, w1) \<Rightarrow> (Some (RestoreFailed e), w1)
      | (None, w1) \<Rightarrow> (None, set_running h k (pj_Name p) w1))"

definition rollback_options :: "string \<Rightarrow> RestoreOptions option" where
  "rollback_options mode =
     (if mode = [] \<or> mode = ''full'' then Some everything
      else if mode = ''files'' then Some (everything\<lparr>ro_FilesOnly := True\<rparr>)
      else None)"

definition rollbackToPreDeploySnapshot ::
  "recovery_host \<Rightarrow> string \<Rightarrow> string \<Rightarrow> recovery_world \<Rightarrow> recovery_error option \<times> recovery_world" where
  "rollbackToPreDeploySnapshot h projectName mode w =
     (case GetProject (rc_up h 0) projectName (rw_db w) of
        Inl e \<Rightarrow> (Some NoProject, w)
      | Inr p \<Rightarrow>
          (case ListBackupRecords (rc_up h 1) (pj_ID p) 0 (rw_db w) of
             Inl e \<Rightarrow> (Some ListFailed, w)
           | Inr backups \<Rightarrow>
               (case rollback_options mode of
                  None \<Rightarrow> (Some BadMode, w)
                | Some opts \<Rightarrow>
                    (case List.find (\<lambda>b. bk_Trigger b = ''pre-deploy'') backups of
                       None \<Rightarrow> (Some NoSnapshot, w)
                     | Some b \<Rightarrow> restoreBackupRecord h 2 p b opts w))))"

record deployWatchOptions =
  dp_watch :: duration
  dp_rollback :: bool
  dp_rollbackMode :: string
  dp_interval :: duration
  dp_threshold :: int
  dp_expectedCode :: int

definition watch_config :: "string \<Rightarrow> deployWatchOptions \<Rightarrow> WatchdogConfig" where
  "watch_config domain opts = \<lparr>wc_URL = ''https://'' @ domain, wc_Duration = dp_watch opts, wc_Interval = dp_interval opts,
     wc_Timeout = 0, wc_FailureThreshold = dp_threshold opts, wc_ExpectedStatus = dp_expectedCode opts\<rparr>"

definition runPostDeployWatchdog ::
  "recovery_host \<Rightarrow> observer \<Rightarrow> string \<Rightarrow> string \<Rightarrow> deployWatchOptions \<Rightarrow> recovery_world
    \<Rightarrow> (recovery_error option \<times> recovery_world) option" where
  "runPostDeployWatchdog h ob projectName domain opts w =
     (if dp_watch opts \<le> 0 then Some (None, w)
      else case Observe (watch_config domain opts) ob of
        None \<Rightarrow> None
      | Some res \<Rightarrow>
          if wr_Healthy res then Some (None, w)
          else if \<not> dp_rollback opts then Some (None, w)
          else Some (rollbackToPreDeploySnapshot h projectName (dp_rollbackMode opts) w))"

definition findBackupByPrefix :: "backup_row list \<Rightarrow> string \<Rightarrow> backup_row option" where
  "findBackupByPrefix backups start = List.find (\<lambda>b. has_prefix (bk_ID b) start) backups"

text \<open>The flags of \<open>fleetdeck rollback\<close> and the number typed at the prompt, if it is one.\<close>

record rollback_flags =
  rf_backupID :: string
  rf_latest :: bool
  rf_noSnapshot :: bool
  rf_choice :: "nat option"

definition select_backup :: "rollback_flags \<Rightarrow> backup_row list \<Rightarrow> recovery_error + backup_row" where
  "select_backup fl backups =
     (if rf_backupID fl \<noteq> [] then
        (case findBackupByPrefix backups (rf_backupID fl) of None \<Rightarrow> Inl BackupNotFound | Some b \<Rightarrow> Inr b)
      else if rf_latest fl then Inr (hd backups)
      else case rf_choice fl of
        None \<Rightarrow> Inl Cancelled
      | Some n \<Rightarrow> if n < 1 \<or> length backups < n then Inl Cancelled else Inr (backups ! (n - 1)))"

definition runRollback ::
  "recovery_host \<Rightarrow> BackupConfig \<Rightarrow> string \<Rightarrow> rollback_flags \<Rightarrow> recovery_world \<Rightarrow> recovery_error option \<times> recovery_world" where
  "runRollback h cfg projectName fl w =
     (case GetProject (rc_up h 0) projectName (rw_db w) of
        Inl e \<Rightarrow> (Some NoProject, w)
      | Inr p \<Rightarrow>
          (case ListBackupRecords (rc_up h 1) (pj_ID p) 10 (rw_db w) of
             Inl e \<Rightarrow> (Some ListFailed, w)
           | Inr [] \<Rightarrow> (None, w)
           | Inr backups \<Rightarrow>
               (case select_backup fl backups of
                  Inl e \<Rightarrow> (Some e, w)
                | Inr b \<Rightarrow>
                    (case (if rf_noSnapshot fl then (None, w)
                           else case create_snapshot h cfg p ''pre-rollback'' (rc_up h 2) w of
                             (Inl e, w1) \<Rightarrow> (Some e, w1) | (Inr s, w1) \<Rightarrow> (None, w1)) of
                       (Some e, w1) \<Rightarrow> (Some (SnapshotFailed e), w1)
                     | (None, w1) \<Rightarrow> restoreBackupRecord h 3 p b everything w1))))"

subsection \<open>Migrations\<close>

record migrate_options =
  mo_Service :: string
  mo_Command :: string
  mo_SkipSnapshot :: bool

record migrate_result =
  mr_MigrationID :: string
  mr_SnapshotID :: string
  mr_Output :: string

definition applyDefaults :: "migrate_options \<Rightarrow> migrate_options" where
  "applyDefaults o' = (if mo_Service o' = [] then o'\<lparr>mo_Service := ''app''\<rparr> else o')"

definition truncate :: "string \<Rightarrow> int \<Rightarrow> string" where
  "truncate s lim =
     (if int (length s) \<le> lim then s
      else take (nat lim) s @ [newline] @ ''... (output truncated to '' @ show_int lim @ '' bytes)'')"

definition migrate_exec :: "recovery_host \<Rightarrow> migrate_options \<Rightarrow> migrate_result \<Rightarrow> recovery_world
    \<Rightarrow> migrate_result \<times> recovery_error option \<times> recovery_world" where
  "migrate_exec h opts res w =
     (case rc_exec h (mo_Service opts) (mo_Command opts) of
        (ok, out) \<Rightarrow>
          (case MarkAppMigration (rc_up h 3) (rc_now h) (mr_MigrationID res) (if ok then ''succeeded'' else ''failed'')
              (truncate out (64 * 1024)) (rw_db w) of
             (marked, db) \<Rightarrow>
               (res\<lparr>mr_Output := out\<rparr>, if ok \<and> marked = None then None else Some MigrationFailed,
                w\<lparr>rw_exec := rw_exec w @ [(mo_Service opts, mo_Command opts)], rw_db := db\<rparr>)))"

definition migrate_run ::
  "recovery_host \<Rightarrow> BackupConfig \<Rightarrow> project_row \<Rightarrow> migrate_options \<Rightarrow> recovery_world
    \<Rightarrow> migrate_result \<times> recovery_error option \<times> recovery_world" where
  "migrate_run h cfg p opts0 w =
     (let opts = applyDefaults opts0;
          res = \<lparr>mr_MigrationID = rc_migration h, mr_SnapshotID = [], mr_Output = []\<rparr>
      in case (if mo_SkipSnapshot opts then (Inr [], w)
               else case create_snapshot h cfg p ''pre-migration'' (rc_up h 1) w of
                 (Inl e, w1) \<Rightarrow> (Inl e, w1) | (Inr b, w1) \<Rightarrow> (Inr (bk_ID b), w1)) of
           (Inl e, w1) \<Rightarrow> (res, Some (SnapshotFailed e), w1)
         | (Inr snap, w1) \<Rightarrow>
             let res1 = res\<lparr>mr_SnapshotID := snap\<rparr>;
                 row = \<lparr>mg_ID = mr_MigrationID res1, mg_ProjectID = pj_ID p, mg_Command = mo_Command opts,
                        mg_SnapshotID = snap, mg_Status = ''running'', mg_Output = [], mg_StartedAt = None,
                        mg_FinishedAt = None\<rparr>
             in (case CreateAppMigration (rc_up h 2) (rc_now h) row (rw_db w1) of
                   (Some e, db) \<Rightarrow> (res1, Some MigrationRecord, w1\<lparr>rw_db := db\<rparr>)
                 | (None, db) \<Rightarrow> migrate_exec h opts res1 (w1\<lparr>rw_db := db\<rparr>)))"

text \<open>The newest first, by the time they started.\<close>

definition ListAppMigrations :: "bool \<Rightarrow> string \<Rightarrow> nat \<Rightarrow> fleet_db \<Rightarrow> db_error + migration_row list" where
  "ListAppMigrations up pid limit db =
     (if \<not> up then Inl DbFailed
      else let rows = sort_key (\<lambda>m. - (case mg_StartedAt m of None \<Rightarrow> 0 | Some t \<Rightarrow> t))
                 (filter (\<lambda>m. mg_ProjectID m = pid) (db_migrations db))
           in Inr (if 0 < limit then take limit rows else rows))"

definition migrateRunCmd ::
  "recovery_host \<Rightarrow> BackupConfig \<Rightarrow> string \<Rightarrow> migrate_options \<Rightarrow> recovery_world \<Rightarrow> recovery_error option \<times> recovery_world" where
  "migrateRunCmd h cfg projectName opts w =
     (case GetProject (rc_up h 0) projectName (rw_db w) of
        Inl e \<Rightarrow> (Some NoProject, w)
      | Inr p \<Rightarrow>
          if mo_Command opts = [] then (Some NoCommand, w)
          else case migrate_run h cfg p opts w of (res, e, w1) \<Rightarrow> (e, w1))"

definition migrateRollbackCmd :: "recovery_host \<Rightarrow> string \<Rightarrow> recovery_world \<Rightarrow> recovery_error option \<times> recovery_world" where
  "migrateRollbackCmd h projectName w =
     (case GetProject (rc_up h 0) projectName (rw_db w) of
        Inl e \<Rightarrow> (Some NoProject, w)
      | Inr p \<Rightarrow>
          (case ListAppMigrations (rc_up h 1) (pj_ID p) 0 (rw_db w) of
             Inl e \<Rightarrow> (Some ListFailed, w)
           | Inr rows \<Rightarrow>
               (case List.find (\<lambda>m. mg_SnapshotID m \<noteq> []) rows of
                  None \<Rightarrow> (Some NoSnapshot, w)
                | Some m \<Rightarrow>
                    (case ListBackupRecords (rc_up h 2) (pj_ID p) 0 (rw_db w) of
                       Inl e \<Rightarrow> (Some ListFailed, w)
                     | Inr backups \<Rightarrow>
                         (case findBackupByPrefix backups (mg_SnapshotID m) of
                            None \<Rightarrow> (Some BackupNotFound, w)
                          | Some b \<Rightarrow> restoreBackupRecord h 3 p b everything w)))))"

end
