(* ===== verification/Recovery_Safety.thy ===== *)
theory Recovery_Safety
  imports Project_Recovery
begin

text \<open>
  What snapshots, rollbacks and migrations guarantee together: which backup a rollback restores and what it touches,
  that a migration runs only behind a snapshot that verifies, and when a rollback brings back what was deployed.
\<close>

subsection \<open>Which backup is restored\<close>

lemma find_first_newest:
  fixes key :: "'a \<Rightarrow> int"
  assumes "List.find P (take n (sort_key (\<lambda>b. - key b) xs)) = Some b"
  shows "b \<in> set xs" "P b" "\<forall>x \<in> set xs. P x \<longrightarrow> key x \<le> key b"
proof -
  let ?s = "sort_key (\<lambda>b. - key b) xs"
  obtain i where i: "i < length (take n ?s)" "P (take n ?s ! i)" "b = take n ?s ! i"
      "\<forall>j < i. \<not> P (take n ?s ! j)"
    using assms by (auto simp: find_Some_iff)
  have s: "set ?s = set xs" by simp
  from i show "P b" by simp
  show "b \<in> set xs" using i(1,3) s by (metis nth_take length_take min_less_iff_conj nth_mem)
  show "\<forall>x \<in> set xs. P x \<longrightarrow> key x \<le> key b"
  proof (intro ballI impI)
    fix x assume "x \<in> set xs" "P x"
    then obtain j where j: "j < length ?s" "?s ! j = x" using s by (metis in_set_conv_nth)
    have "i \<le> j"
    proof (rule ccontr)
      assume "\<not> i \<le> j"
      then show False using i(1,4) j \<open>P x\<close> by auto
    qed
    have "sorted (map (\<lambda>b. - key b) ?s)" by simp
    then have "map (\<lambda>b. - key b) ?s ! i \<le> map (\<lambda>b. - key b) ?s ! j"
      using \<open>i \<le> j\<close> j(1) by (intro sorted_nth_mono) simp_all
    then show "key x \<le> key b" using i(1,3) j by simp
  qed
qed

definition newest_with :: "(backup_row \<Rightarrow> bool) \<Rightarrow> string \<Rightarrow> fleet_db \<Rightarrow> backup_row \<Rightarrow> bool" where
  "newest_with P pid db b \<longleftrightarrow> b \<in> set (project_backups pid db) \<and> P b
     \<and> (\<forall>x \<in> set (project_backups pid db). P x \<longrightarrow> bk_CreatedAt x \<le> bk_CreatedAt b)"

lemma newest_listed:
  assumes "ListBackupRecords up pid lim db = Inr backups" "List.find P backups = Some b"
  shows "newest_with P pid db b"
  using assms find_first_newest[of P _ bk_CreatedAt "project_backups pid db" b]
  by (auto simp: ListBackupRecords_def newest_with_def project_backups_def split: if_splits)

subsection \<open>What a restore of the configuration touches\<close>

lemma restore_files_only:
  assumes "RestoreBackup rh sha gz dec src t dst uuid bp (everything\<lparr>ro_FilesOnly := True\<rparr>) st = (r, st')"
  shows "\<exists>l. rs_log st' = rs_log st @ l \<and> set l \<subseteq> {stop_cmd, start_cmd}"
  using assms
  by (auto simp: RestoreBackup_def restore_run_def restore_data_def restore_selected_def everything_def run_restore_def
      Let_def split: sum.splits if_splits option.splits prod.splits)

lemma restoreBackupRecord_restores:
  assumes "restoreBackupRecord h k p b opts w = (e, w')"
  shows "rw_restore w' = rw_restore (snd (restore_backup h b opts w))"
    and "e = None \<longleftrightarrow> fst (restore_backup h b opts w) = None"
    and "rw_store w' = rw_store w \<and> rw_exec w' = rw_exec w"
  using assms
  by (auto simp: restoreBackupRecord_def restore_backup_def set_running_def split: prod.splits option.splits)

lemma rollback_chooses:
  assumes "rollbackToPreDeploySnapshot h name mode w = (e, w')" "w' \<noteq> w \<or> e = None"
  obtains p b opts where "GetProject (rc_up h 0) name (rw_db w) = Inr p"
    "newest_with (\<lambda>b. bk_Trigger b = ''pre-deploy'') (pj_ID p) (rw_db w) b"
    "rollback_options mode = Some opts" "restoreBackupRecord h 2 p b opts w = (e, w')"
proof -
  obtain p backups b opts where x: "GetProject (rc_up h 0) name (rw_db w) = Inr p"
      "ListBackupRecords (rc_up h 1) (pj_ID p) 0 (rw_db w) = Inr backups" "rollback_options mode = Some opts"
      "List.find (\<lambda>b. bk_Trigger b = ''pre-deploy'') backups = Some b" "restoreBackupRecord h 2 p b opts w = (e, w')"
    using assms by (auto simp: rollbackToPreDeploySnapshot_def split: sum.splits option.splits)
  from that[OF x(1) newest_listed[OF x(2,4)] x(3,5)] show ?thesis .
qed

text \<open>
  C7. The rollback of a failed deployment is restrained: it happens only when the observation of the endpoint
  ended with the verdict unhealthy and the operator asked for it; it restores the newest pre-deploy
  snapshot of this project and leaves every backup alone; and in the mode \<open>files\<close> the only commands it
  runs are the stop and the start of the project, so that no volume and no database is overwritten.
\<close>

theorem watchdog_rollback_restrained:
  assumes "runPostDeployWatchdog h ob name domain opts w = Some (e, w')"
  shows "(\<not> dp_rollback opts \<longrightarrow> w' = w \<and> e = None)
    \<and> (w' \<noteq> w \<longrightarrow> (\<exists>res p b ropts. Observe (watch_config domain opts) ob = Some res \<and> \<not> wr_Healthy res
         \<and> GetProject (rc_up h 0) name (rw_db w) = Inr p
         \<and> newest_with (\<lambda>b. bk_Trigger b = ''pre-deploy'') (pj_ID p) (rw_db w) b
         \<and> rollback_options (dp_rollbackMode opts) = Some ropts
         \<and> rw_restore w' = rw_restore (snd (restore_backup h b ropts w))
         \<and> rw_store w' = rw_store w
         \<and> (dp_rollbackMode opts = ''files'' \<longrightarrow>
              (\<exists>l. rs_log (rw_restore w') = rs_log (rw_restore w) @ l \<and> set l \<subseteq> {stop_cmd, start_cmd}))))"
proof (cases "w' = w")
  case True
  then show ?thesis using assms
    by (auto simp: runPostDeployWatchdog_def split: if_splits option.splits)
next
  case False
  then obtain res where res: "Observe (watch_config domain opts) ob = Some res" "\<not> wr_Healthy res" "dp_rollback opts"
      "rollbackToPreDeploySnapshot h name (dp_rollbackMode opts) w = (e, w')"
    using assms by (auto simp: runPostDeployWatchdog_def split: if_splits option.splits)
  obtain p b ropts where c: "GetProject (rc_up h 0) name (rw_db w) = Inr p"
      "newest_with (\<lambda>b. bk_Trigger b = ''pre-deploy'') (pj_ID p) (rw_db w) b"
      "rollback_options (dp_rollbackMode opts) = Some ropts" "restoreBackupRecord h 2 p b ropts w = (e, w')"
    using rollback_chooses[OF res(4)] False by blast
  note r = restoreBackupRecord_restores[OF c(4)]
  have files: "\<exists>l. rs_log (rw_restore w') = rs_log (rw_restore w) @ l \<and> set l \<subseteq> {stop_cmd, start_cmd}"
    if "dp_rollbackMode opts = ''files''"
  proof -
    have "ropts = everything\<lparr>ro_FilesOnly := True\<rparr>" using c(3) that by (simp add: rollback_options_def)
    then show ?thesis using restore_files_only r(1) by (auto simp: restore_backup_def split: prod.splits)
  qed
  show ?thesis using False res c r files by blast
qed

subsection \<open>When there was no snapshot\<close>

lemma all_backups:
  "set (db_backups db) = set (project_backups pid db) \<union> set (db_backups (without_backups_of pid db))"
  by (auto simp: project_backups_def without_backups_of_def)

lemma enforce_retention_shrinks:
  assumes "fleet_inv (rw_db w)"
  shows "set (db_backups (rw_db (enforce_retention h cfg pid w))) \<subseteq> set (db_backups (rw_db w))"
proof -
  obtain e db n gone where r: "EnforceRetention (sql_backups pid (rc_up h)) (rc_rmdir h) (rc_addDays h) (rc_now h) cfg
      ((rw_db w, 2), []) = (e, (db, n), gone)" by (metis prod.exhaust)
  have inv: "registry_frame pid (without_backups_of pid (rw_db w)) (rw_db w, 2)" using assms by (simp add: registry_frame_def)
  have w': "rw_db (enforce_retention h cfg pid w) = db" by (simp add: enforce_retention_def r)
  have "registry.keeps pid (without_backups_of pid (rw_db w)) ((rw_db w, 2), []) ((db, n), gone)"
    by (rule registry.EnforceRetention_keeps[OF _ r]) (simp add: inv)
  then have "set (project_backups pid db) \<subseteq> set (project_backups pid (rw_db w))"
      "without_backups_of pid db = without_backups_of pid (rw_db w)"
    by (auto simp: registry.keeps_def gone_ok_def registry_frame_def)
  then show ?thesis unfolding w' by (subst (1 2) all_backups[of _ pid]) auto
qed

lemma create_snapshot_failed: "create_snapshot h cfg p trigger up w = (Inl e, w1) \<Longrightarrow> rw_db w1 = rw_db w"
  by (auto simp: create_snapshot_def CreateBackup_def CreateBackupRecord_def Let_def
      split: prod.splits option.splits if_splits)

text \<open>The automatic snapshot is off, or its creation fails.\<close>

definition snapshot_missing :: "recovery_host \<Rightarrow> BackupConfig \<Rightarrow> string \<Rightarrow> string \<Rightarrow> recovery_world \<Rightarrow> bool" where
  "snapshot_missing h cfg name trigger w \<longleftrightarrow>
     (case GetProject (rc_up h 0) name (rw_db w) of
        Inl e \<Rightarrow> True
      | Inr p \<Rightarrow> \<not> bc_AutoSnapshot cfg \<or> \<not> is_ok (fst (create_snapshot h cfg p (''pre-'' @ trigger) (rc_up h 1) w)))"

lemma autoSnapshot_missing:
  assumes "fleet_inv (rw_db w)" "snapshot_missing h cfg name trigger w"
  shows "set (db_backups (rw_db (autoSnapshot h cfg name trigger w))) \<subseteq> set (db_backups (rw_db w))"
proof (cases "\<exists>p. GetProject (rc_up h 0) name (rw_db w) = Inr p \<and> bc_AutoSnapshot cfg")
  case False
  then show ?thesis by (auto simp: autoSnapshot_def split: sum.splits)
next
  case True
  then obtain p where p: "GetProject (rc_up h 0) name (rw_db w) = Inr p" "bc_AutoSnapshot cfg" by blast
  then obtain e w1 where c: "create_snapshot h cfg p (''pre-'' @ trigger) (rc_up h 1) w = (Inl e, w1)"
    using assms(2) by (auto simp: snapshot_missing_def is_ok_def split: sum.splits) (metis prod.collapse)
  have "autoSnapshot h cfg name trigger w = enforce_retention h cfg (pj_ID p) w1"
    using p c by (simp add: autoSnapshot_def)
  then show ?thesis using enforce_retention_shrinks[of w1 h cfg "pj_ID p"] create_snapshot_failed[OF c] assms(1) by simp
qed

text \<open>
  A rollback can restore the state before an earlier deployment: when the automatic snapshot of this deployment is
  switched off or failed, which the deployment only warns about, a rollback after it still succeeds with
  the newest pre-deploy snapshot, and that one was taken before this deployment began.
\<close>

theorem rollback_without_snapshot:
  assumes "fleet_inv (rw_db w)" "snapshot_missing h cfg name ''deploy'' w"
    and "rw_db w2 = rw_db (autoSnapshot h cfg name ''deploy'' w)"
    and "rollbackToPreDeploySnapshot h2 name mode w2 = (None, w3)"
  shows "\<exists>b opts. b \<in> set (db_backups (rw_db w)) \<and> bk_Trigger b = ''pre-deploy''
    \<and> restore_backup h2 b opts w2 = (None, w3\<lparr>rw_db := rw_db w2\<rparr>)"
proof -
  obtain p b opts where c: "newest_with (\<lambda>b. bk_Trigger b = ''pre-deploy'') (pj_ID p) (rw_db w2) b"
      "restoreBackupRecord h2 2 p b opts w2 = (None, w3)"
    using rollback_chooses[OF assms(4)] by blast
  have "b \<in> set (db_backups (rw_db w2))" "bk_Trigger b = ''pre-deploy''"
    using c(1) by (auto simp: newest_with_def project_backups_def)
  moreover have "restore_backup h2 b opts w2 = (None, w3\<lparr>rw_db := rw_db w2\<rparr>)"
    using c(2) by (auto simp: restoreBackupRecord_def set_running_def restore_backup_def split: prod.splits option.splits)
  ultimately show ?thesis using autoSnapshot_missing[OF assms(1,2)] assms(3) by auto
qed

subsection \<open>When there was one\<close>


subsection \<open>Migrations\<close>

lemma create_snapshot_verified:
  assumes "create_snapshot h cfg p trigger up w = (Inr row, w1)" "sound_host (rc_backup h) (rc_sha h) (rc_gz h)"
    and "\<forall>m. rc_dec h (rc_enc h m) = Some m"
  shows "row \<in> set (db_backups (rw_db w1)) \<and> rw_exec w1 = rw_exec w
    \<and> (\<exists>t results. rw_store w1 (bk_Path row) = Some t
         \<and> VerifyBackup (rc_sha h) (rc_gz h) (rc_dec h) good_io t = Inr results \<and> \<not> HasFailures results)"
proof -
  have created: "CreateBackup (rc_backup h) (rc_sha h) (rc_enc h) (rc_read h) (rs_tree (rw_restore w)) (rc_write h) cfg p
      ''snapshot'' trigger \<lparr>bo_SkipDB = False, bo_SkipVolumes = False\<rparr> (rc_id h) (rc_now h) (rc_stamp h) up
      (rw_store w, rw_db w) = (Inr row, rw_store w1, rw_db w1)" "rw_exec w1 = rw_exec w"
    using assms(1) by (auto simp: create_snapshot_def split: prod.splits)
  from CreateBackup_sound[OF created(1) assms(3,2)] created(2) show ?thesis by blast
qed

lemma migrate_exec_effect:
  assumes "migrate_exec h opts res w = (res', e, w')" "m0 \<in> set (db_migrations (rw_db w))" "mg_ID m0 = mr_MigrationID res"
    "mg_Status m0 = ''running''" "rc_exec h (mo_Service opts) (mo_Command opts) = (ok, out)"
  shows "rw_exec w' = rw_exec w @ [(mo_Service opts, mo_Command opts)] \<and> rw_store w' = rw_store w
    \<and> db_backups (rw_db w') = db_backups (rw_db w) \<and> (e = None \<longleftrightarrow> ok \<and> rc_up h 3)
    \<and> (\<exists>m \<in> set (db_migrations (rw_db w')). mg_ID m = mr_MigrationID res \<and> mg_ProjectID m = mg_ProjectID m0
         \<and> mg_SnapshotID m = mg_SnapshotID m0
         \<and> mg_Status m = (if \<not> rc_up h 3 then ''running'' else if ok then ''succeeded'' else ''failed''))"
proof -
  let ?status = "if ok then ''succeeded'' else ''failed''"
  let ?f = "\<lambda>m. m\<lparr>mg_Status := ?status, mg_Output := truncate out (64 * 1024), mg_FinishedAt := Some (rc_now h)\<rparr>"
  have updated: "?f m0 \<in> set (update_where (\<lambda>m. mg_ID m = mr_MigrationID res) ?f (db_migrations (rw_db w)))"
    using assms(2,3) by (force simp: update_where_def)
  show ?thesis
  proof (cases "rc_up h 3")
    case True
    then have "rw_db w' = (rw_db w)\<lparr>db_migrations := update_where (\<lambda>m. mg_ID m = mr_MigrationID res) ?f (db_migrations (rw_db w))\<rparr>"
        "rw_exec w' = rw_exec w @ [(mo_Service opts, mo_Command opts)]" "rw_store w' = rw_store w" "e = None \<longleftrightarrow> ok"
      using assms(1,5) by (cases ok; auto simp: migrate_exec_def MarkAppMigration_def)+
    with True updated assms(3) show ?thesis by (intro conjI bexI[of _ "?f m0"]) simp_all
  next
    case False
    then show ?thesis using assms by (cases ok) (auto simp: migrate_exec_def MarkAppMigration_def)
  qed
qed


subsection \<open>Examples\<close>

definition sample_recovery_host :: recovery_host where
  "sample_recovery_host = \<lparr>rc_backup = sample_backup_host, rc_restore = sample_restore_host, rc_sha = (\<lambda>_. ''ab''),
     rc_gz = (\<lambda>_. GzOk), rc_enc = sample_enc, rc_dec = sample_dec, rc_read = good_io, rc_write = good_io, rc_archive = good_io,
     rc_project = good_io, rc_uuid = (\<lambda>_. ''u1''), rc_id = ''b9'', rc_migration = ''m1'', rc_now = 9, rc_stamp = [],
     rc_up = (\<lambda>_. True), rc_rmdir = (\<lambda>_. True), rc_addDays = (\<lambda>t d. t + d), rc_exec = (\<lambda>s c. (True, ''done''))\<rparr>"

definition sample_recovery_world :: recovery_world where
  "sample_recovery_world = \<lparr>rw_restore = \<lparr>rs_tree = sample_project_tree, rs_log = []\<rparr>, rw_store = (\<lambda>_. None),
     rw_db = registry3, rw_exec = []\<rparr>"

definition sample_snapshot :: "(backup_error + backup_row) \<times> recovery_world" where
  "sample_snapshot = create_snapshot sample_recovery_host sample_retention sample_project ''pre-deploy'' True sample_recovery_world"

text \<open>The deployment replaced the project's files.\<close>

definition sample_deployed_world :: recovery_world where
  "sample_deployed_world = (snd sample_snapshot)\<lparr>rw_restore := \<lparr>rs_tree = [(''.env'', Regular 384 ''A=2'')], rs_log = []\<rparr>\<rparr>"

text \<open>One evaluation of the snapshot, the deployment and the rollback.\<close>

lemma sample_world_facts:
  "(let s = sample_snapshot;
        w = (snd s)\<lparr>rw_restore := \<lparr>rs_tree = [(''.env'', Regular 384 ''A=2'')], rs_log = []\<rparr>\<rparr>;
        q = rollbackToPreDeploySnapshot sample_recovery_host ''shop'' ''files'' w
    in (map_sum (\<lambda>_. ()) bk_Path (fst s),
        map (\<lambda>b. (bk_ID b, bk_ProjectID b, bk_Trigger b, bk_Path b)) (db_backups (rw_db w)),
        fst q,
        map_of (rs_tree (rw_restore (snd q))) ''.env'' = map_of sample_project_tree ''.env'',
        map_of (rs_tree (rw_restore w)) ''.env'' = map_of sample_project_tree ''.env'',
        map_sum (\<lambda>_. ()) pj_ID (GetProject (rc_up sample_recovery_host 0) ''shop'' (rw_db w))))
    = (Inr ''/b/shop/b9'', [(''b9'', ''p1'', ''pre-deploy'', ''/b/shop/b9'')], None, True, False, Inr ''p1'')"
  by code_simp

lemmas sample_facts = sample_world_facts[unfolded Let_def, folded sample_deployed_world_def, unfolded prod.inject eq_True eq_False]

lemma sample_snapshot_taken: "map_sum (\<lambda>_. ()) bk_Path (fst sample_snapshot) = Inr ''/b/shop/b9''"
  using sample_facts by blast

lemma sample_deployed_backups:
  "map (\<lambda>b. (bk_ID b, bk_ProjectID b, bk_Trigger b, bk_Path b)) (db_backups (rw_db sample_deployed_world))
     = [(''b9'', ''p1'', ''pre-deploy'', ''/b/shop/b9'')]"
  using sample_facts by blast

lemma sample_rolled_back:
  "fst (rollbackToPreDeploySnapshot sample_recovery_host ''shop'' ''files'' sample_deployed_world) = None"
  using sample_facts by blast

text \<open>The endpoint answers nothing, so that the first observation condemns the deployment.\<close>

definition sample_failing :: observer where
  "sample_failing = \<lparr>ob_start = 0, ob_probe = (\<lambda>n. Inl ''refused''), ob_event = (\<lambda>n. None)\<rparr>"

definition sample_deploy_watch :: deployWatchOptions where
  "sample_deploy_watch = \<lparr>dp_watch = 5, dp_rollback = True, dp_rollbackMode = ''files'', dp_interval = 1, dp_threshold = 1,
     dp_expectedCode = 200\<rparr>"

lemma sample_failing_seen: "map_option wr_Healthy (Observe (watch_config ''demo'' sample_deploy_watch) sample_failing) = Some False"
  by (simp add: Observe_def watch_config_def applyWatchdogDefaults_def sample_deploy_watch_def sample_failing_def
      probe_def singleProbe_def empty_watch_def Let_def)

lemma sample_project_found:
  "map_sum (\<lambda>_. ()) pj_ID (GetProject (rc_up sample_recovery_host 0) ''shop'' (rw_db sample_deployed_world)) = Inr ''p1''"
  using sample_facts by blast

lemma sample_rollback_restored:
  "map_of (rs_tree (rw_restore (snd (rollbackToPreDeploySnapshot sample_recovery_host ''shop'' ''files'' sample_deployed_world)))) ''.env''
     = map_of sample_project_tree ''.env''"
  using sample_facts by blast

lemma watchdog_rollback_restrained_witness:
  "\<exists>w' l. runPostDeployWatchdog sample_recovery_host sample_failing ''shop'' ''demo'' sample_deploy_watch sample_deployed_world
      = Some (None, w') \<and> rs_log (rw_restore w') = l \<and> set l \<subseteq> {stop_cmd, start_cmd}
      \<and> map_of (rs_tree (rw_restore w')) ''.env'' = map_of sample_project_tree ''.env''"
proof -
  let ?run = "rollbackToPreDeploySnapshot sample_recovery_host ''shop'' ''files'' sample_deployed_world"
  obtain w' where r: "?run = (None, w')" using sample_rolled_back by (metis prod.collapse)
  have ran: "runPostDeployWatchdog sample_recovery_host sample_failing ''shop'' ''demo'' sample_deploy_watch sample_deployed_world
      = Some (None, w')"
    using sample_failing_seen r by (auto simp: runPostDeployWatchdog_def sample_deploy_watch_def)
  have env: "map_of (rs_tree (rw_restore w')) ''.env'' = map_of sample_project_tree ''.env''"
    using sample_rollback_restored r by simp
  moreover have "map_of (rs_tree (rw_restore sample_deployed_world)) ''.env'' \<noteq> map_of sample_project_tree ''.env''" using sample_facts by blast
  ultimately have "w' \<noteq> sample_deployed_world" by metis
  then have "\<exists>l. rs_log (rw_restore w') = rs_log (rw_restore sample_deployed_world) @ l \<and> set l \<subseteq> {stop_cmd, start_cmd}"
    using watchdog_rollback_restrained[OF ran] by (auto simp: sample_deploy_watch_def)
  then show ?thesis using ran env by (auto simp: sample_deployed_world_def)
qed


text \<open>The next deployment takes no snapshot: the rollback after it finds the one of the deployment before.\<close>

lemma sample_deployed_inv: "fleet_inv (rw_db sample_deployed_world)"
proof -
  obtain r w1 where c: "create_snapshot sample_recovery_host sample_retention sample_project ''pre-deploy'' True sample_recovery_world = (r, w1)"
    by (metis prod.exhaust)
  have "fleet_inv (rw_db sample_recovery_world)" by (simp add: sample_recovery_world_def registry3_inv)
  then have "fleet_inv (rw_db w1)"
    using c CreateBackupRecord_inv
    by (auto simp: create_snapshot_def CreateBackup_def Let_def split: prod.splits option.splits if_splits)
  then show ?thesis by (simp add: sample_deployed_world_def sample_snapshot_def c)
qed

lemma rollback_without_snapshot_witness:
  "\<exists>b \<in> set (db_backups (rw_db sample_deployed_world)). bk_Trigger b = ''pre-deploy''
    \<and> fst (rollbackToPreDeploySnapshot sample_recovery_host ''shop'' ''files'' sample_deployed_world) = None"
proof -
  obtain w3 where r: "rollbackToPreDeploySnapshot sample_recovery_host ''shop'' ''files'' sample_deployed_world = (None, w3)"
    using sample_rolled_back by (metis prod.collapse)
  have off: "\<not> bc_AutoSnapshot sample_retention" by (simp add: sample_retention_def)
  have "snapshot_missing sample_recovery_host sample_retention ''shop'' ''deploy'' sample_deployed_world"
    "rw_db sample_deployed_world = rw_db (autoSnapshot sample_recovery_host sample_retention ''shop'' ''deploy'' sample_deployed_world)"
    using off by (simp_all add: snapshot_missing_def autoSnapshot_def split: sum.splits)
  from rollback_without_snapshot[OF sample_deployed_inv this r] r show ?thesis by auto
qed


end
