(* ===== verification/Project_Scaffold.thy ===== *)
theory Project_Scaffold
  imports Backup_Create
begin

text \<open>
  \<open>internal/project/scaffold.go\<close>: the files of a new project, and the plain file operations (\<open>os.MkdirAll\<close>,
  \<open>os.WriteFile\<close>) that it and the environments use, on the tree of a project directory. Rendering a template
  (\<open>text/template\<close>) is a parameter. A call may fail at every entry; a failed write leaves a part of the content.
\<close>

subsection \<open>Files\<close>

definition has_parent :: "tree \<Rightarrow> string \<Rightarrow> bool" where
  "has_parent t name \<longleftrightarrow> path_dir name = ''.'' \<or> map_of t (path_dir name) = Some Directory"

text \<open>\<open>os.WriteFile\<close> truncates an existing file and keeps its mode.\<close>

definition write_file :: "fs_io \<Rightarrow> nat \<Rightarrow> string \<Rightarrow> string \<Rightarrow> tree \<Rightarrow> bool \<times> tree" where
  "write_file io perm name content t =
     (let mode = (case map_of t name of Some (Regular m c) \<Rightarrow> m | _ \<Rightarrow> perm) in
      if io_bad io OpCreate name \<or> \<not> writable t name \<or> \<not> has_parent t name then (False, t)
      else if io_bad io OpWrite name then (False, al_put name (Regular mode (take (io_cut io name) content)) t)
      else (\<not> io_bad io OpClose name, al_put name (Regular mode content) t))"

subsection \<open>Templates\<close>

record TemplateData =
  tp_Name :: string
  tp_Domain :: string
  tp_PostgresVersion :: string

record Template =
  tm_Name :: string
  tm_Description :: string
  tm_Dockerfile :: string
  tm_Compose :: string
  tm_Workflow :: string
  tm_EnvTemplate :: string
  tm_GitIgnore :: string

type_synonym renderer = "string \<Rightarrow> TemplateData \<Rightarrow> string option"

datatype scaffold_error = ScaffoldDir | ScaffoldRender | ScaffoldWrite

text \<open>The files in the order they are made; each is rendered, where it is a template, before it is written.\<close>

definition scaffold_files :: "renderer \<Rightarrow> Template \<Rightarrow> TemplateData \<Rightarrow> (string \<times> string option) list" where
  "scaffold_files render tmpl data =
     [(''Dockerfile'', render (tm_Dockerfile tmpl) data), (''docker-compose.yml'', render (tm_Compose tmpl) data),
      (''.github/workflows/deploy.yml'', Some (tm_Workflow tmpl)), (''.gitignore'', Some (tm_GitIgnore tmpl))]"

fun write_rendered :: "fs_io \<Rightarrow> (string \<times> string option) list \<Rightarrow> tree \<Rightarrow> scaffold_error option \<times> tree" where
  "write_rendered io [] t = (None, t)"
| "write_rendered io ((name, None) # fs) t = (Some ScaffoldRender, t)"
| "write_rendered io ((name, Some content) # fs) t =
     (case write_file io 420 name content t of
        (False, t1) \<Rightarrow> (Some ScaffoldWrite, t1)
      | (True, t1) \<Rightarrow> write_rendered io fs t1)"

fun make_all :: "fs_io \<Rightarrow> string list \<Rightarrow> tree \<Rightarrow> bool \<times> tree" where
  "make_all io [] t = (True, t)"
| "make_all io (d # ds) t =
     (case mkdir_all io d t of (Some e, t1) \<Rightarrow> (False, t1) | (None, t1) \<Rightarrow> make_all io ds t1)"

text \<open>The project directory itself comes with the first directory in it.\<close>

definition ScaffoldProject ::
  "renderer \<Rightarrow> fs_io \<Rightarrow> Template \<Rightarrow> TemplateData \<Rightarrow> tree option \<Rightarrow> scaffold_error option \<times> tree option" where
  "ScaffoldProject render io tmpl data dir =
     (if io_bad io OpMkdir [] then (Some ScaffoldDir, dir)
      else
        let t = (case dir of None \<Rightarrow> [] | Some t \<Rightarrow> t) in
        case make_all io [''.github/workflows'', ''deployments''] t of
          (False, t1) \<Rightarrow> (Some ScaffoldDir, Some t1)
        | (True, t1) \<Rightarrow>
            (case write_rendered io (scaffold_files render tmpl data) t1 of (e, t2) \<Rightarrow> (e, Some t2)))"

subsection \<open>What a write changes\<close>

lemma write_file_other: "write_file io perm name c t = (r, t') \<Longrightarrow> n \<noteq> name \<Longrightarrow> map_of t' n = map_of t n"
  by (auto simp: write_file_def Let_def map_of_put split: if_splits)

lemma write_file_written:
  "write_file io perm name c t = (True, t') \<Longrightarrow> \<exists>m. map_of t' name = Some (Regular m c)"
  by (auto simp: write_file_def Let_def map_of_put split: if_splits)

text \<open>A scaffold that was reported complete holds every rendered file.\<close>

lemma write_rendered_complete:
  assumes "write_rendered io fs t = (None, t')" "distinct (map fst fs)"
  shows "(\<forall>(n, c) \<in> set fs. \<exists>m x. c = Some x \<and> map_of t' n = Some (Regular m x))
    \<and> (\<forall>n. n \<notin> fst ` set fs \<longrightarrow> map_of t' n = map_of t n)"
  using assms
proof (induction io fs t rule: write_rendered.induct)
  case (3 io name content fs t)
  then obtain t1 where w: "write_file io 420 name content t = (True, t1)" "write_rendered io fs t1 = (None, t')"
    by (auto split: prod.splits bool.splits)
  from 3(1)[OF w(1)[symmetric] refl w(2)] 3(3) write_file_other[OF w(1)] write_file_written[OF w(1)]
  show ?case by auto
qed simp_all

lemma ScaffoldProject_complete:
  assumes "ScaffoldProject render io tmpl data dir = (None, dir')"
  shows "\<exists>t. dir' = Some t \<and> (\<forall>(n, c) \<in> set (scaffold_files render tmpl data). \<exists>m x. c = Some x \<and> map_of t n = Some (Regular m x))"
proof -
  obtain t1 t2 where "write_rendered io (scaffold_files render tmpl data) t1 = (None, t2)" "dir' = Some t2"
    using assms by (auto simp: ScaffoldProject_def Let_def split: if_splits prod.splits bool.splits)
  then show ?thesis using write_rendered_complete[of io "scaffold_files render tmpl data" t1 t2]
    by (simp add: scaffold_files_def)
qed

end
