(* ===== verification/Audit_Log.thy ===== *)
theory Audit_Log
  imports Go_Paths Fleet_Config
begin

text \<open>
  \<open>internal/audit/audit.go\<close>: the audit log, one JSON line per entry, with its rotation, and the readers of the
  newest entries (\<open>ReadRecent\<close> and the handler of the dashboard). The files are a map; the open handle appends to
  the file at the configured path. JSON, the clock, the user and the answers of the system calls are parameters;
  a failed write leaves a part of the line.
\<close>

record AuditEntry =
  au_Timestamp :: time
  au_Action :: string
  au_Project :: string
  au_User :: string
  au_Details :: string
  au_Success :: bool

record audit_host =
  ho_enc :: "AuditEntry \<Rightarrow> string option"
  ho_dec :: "string \<Rightarrow> AuditEntry option"
  ho_user :: "string option"
  ho_now :: time
  ho_write :: "nat option"
  ho_stat :: bool
  ho_rename :: "nat \<Rightarrow> bool"
  ho_reopen :: bool

text \<open>\<open>lg_journal\<close> holds what the local journal received, if it is enabled.\<close>

record audit_state =
  lg_open :: bool
  lg_path :: string
  lg_files :: "string \<Rightarrow> string option"
  lg_journal :: "(string \<times> bool) list option"

definition DefaultLogPath :: string where
  "DefaultLogPath = ''/var/log/fleetdeck/audit.log''"

definition maxFileSize :: int where
  "maxFileSize = 10 * 1024 * 1024"

definition maxRotatedFiles :: nat where
  "maxRotatedFiles = 5"

definition currentUser :: "audit_host \<Rightarrow> string" where
  "currentUser h = (case ho_user h of None \<Rightarrow> ''unknown'' | Some u \<Rightarrow> u)"

text \<open>\<open>mkdir\<close> and \<open>opens\<close> are the answers of the two calls that may stop it.\<close>

definition Init_log :: "bool \<Rightarrow> bool \<Rightarrow> string \<Rightarrow> audit_state \<Rightarrow> bool \<times> audit_state" where
  "Init_log mkdir opens path0 st =
     (let path = (if path0 = [] then DefaultLogPath else path0); st1 = st\<lparr>lg_path := path\<rparr> in
      if \<not> mkdir \<or> \<not> opens then (False, st1)
      else (True, st1\<lparr>lg_open := True,
              lg_files := (lg_files st)(path \<mapsto> (case lg_files st path of None \<Rightarrow> [] | Some c \<Rightarrow> c))\<rparr>))"

definition Close_log :: "audit_state \<Rightarrow> audit_state" where
  "Close_log st = st\<lparr>lg_open := False, lg_journal := None\<rparr>"

definition rotated_name :: "string \<Rightarrow> nat \<Rightarrow> string" where
  "rotated_name path i = path @ ''.'' @ show_int (int i)"

text \<open>A rename of an absent file fails; a failed rename is ignored.\<close>

definition rename_log :: "bool \<Rightarrow> string \<Rightarrow> string \<Rightarrow> (string \<Rightarrow> string option) \<Rightarrow> (string \<Rightarrow> string option)" where
  "rename_log ok a b fs = (if \<not> ok \<or> fs a = None then fs else fs(b := fs a, a := None))"

fun shift_logs :: "(nat \<Rightarrow> bool) \<Rightarrow> string \<Rightarrow> nat \<Rightarrow> (string \<Rightarrow> string option) \<Rightarrow> (string \<Rightarrow> string option)" where
  "shift_logs ok path 0 fs = fs"
| "shift_logs ok path (Suc i) fs =
     shift_logs ok path i (rename_log (ok (Suc i)) (rotated_name path (Suc i)) (rotated_name path (Suc (Suc i))) fs)"

definition rotate_log :: "audit_host \<Rightarrow> audit_state \<Rightarrow> audit_state" where
  "rotate_log h st =
     (if \<not> lg_open st \<or> lg_path st = [] then st
      else
        let path = lg_path st;
            fs1 = shift_logs (ho_rename h) path (maxRotatedFiles - 1) (lg_files st);
            fs2 = rename_log (ho_rename h 0) path (rotated_name path 1) fs1
        in if \<not> ho_reopen h then st\<lparr>lg_open := False, lg_files := fs2\<rparr>
           else st\<lparr>lg_files := fs2(path \<mapsto> (case fs2 path of None \<Rightarrow> [] | Some c \<Rightarrow> c))\<rparr>)"

definition append_log :: "audit_host \<Rightarrow> string \<Rightarrow> audit_state \<Rightarrow> audit_state" where
  "append_log h data st =
     (let old = (case lg_files st (lg_path st) of None \<Rightarrow> [] | Some c \<Rightarrow> c);
          written = (case ho_write h of None \<Rightarrow> data | Some n \<Rightarrow> take n data)
      in st\<lparr>lg_files := (lg_files st)(lg_path st \<mapsto> old @ written)\<rparr>)"

definition log_size :: "audit_state \<Rightarrow> int" where
  "log_size st = (case lg_files st (lg_path st) of None \<Rightarrow> 0 | Some c \<Rightarrow> int (length c))"

definition Log :: "audit_host \<Rightarrow> string \<Rightarrow> string \<Rightarrow> string \<Rightarrow> bool \<Rightarrow> audit_state \<Rightarrow> audit_state" where
  "Log h action project details success st =
     (if \<not> lg_open st then st
      else case ho_enc h \<lparr>au_Timestamp = ho_now h, au_Action = action, au_Project = project, au_User = currentUser h,
                au_Details = details, au_Success = success\<rparr> of
        None \<Rightarrow> st
      | Some data \<Rightarrow>
          let st1 = append_log h (data @ [newline]) st;
              st2 = st1\<lparr>lg_journal := map_option (\<lambda>j. j @ [(action, success)]) (lg_journal st1)\<rparr>
          in if ho_stat h \<and> maxFileSize \<le> log_size st2 then rotate_log h st2 else st2)"

subsection \<open>Reading\<close>

fun read_back :: "(string \<Rightarrow> AuditEntry option) \<Rightarrow> int \<Rightarrow> string list \<Rightarrow> AuditEntry list" where
  "read_back dec limit [] = []"
| "read_back dec limit (line # ls) =
     (if limit \<le> 0 then []
      else let l = trim_space line in
        if l = [] then read_back dec limit ls
        else case dec l of
          None \<Rightarrow> read_back dec limit ls
        | Some e \<Rightarrow> e # read_back dec (limit - 1) ls)"

text \<open>\<open>reads\<close> is the answer to reading an existing file.\<close>

definition ReadRecent :: "audit_host \<Rightarrow> bool \<Rightarrow> int \<Rightarrow> audit_state \<Rightarrow> AuditEntry list option" where
  "ReadRecent h reads limit st =
     (let path = (if lg_path st = [] then DefaultLogPath else lg_path st) in
      case lg_files st path of
        None \<Rightarrow> Some []
      | Some data \<Rightarrow>
          if \<not> reads then None
          else Some (read_back (ho_dec h) limit (rev (split_on newline (trim_space data)))))"

text \<open>The handler reads the lines in order with \<open>bufio.Scanner\<close>, which gives up at a line of a megabyte.\<close>

definition drop_cr :: "string \<Rightarrow> string" where
  "drop_cr l = (if l \<noteq> [] \<and> last l = CHR 0x0D then butlast l else l)"

definition scanned_lines :: "string \<Rightarrow> string list" where
  "scanned_lines data = map drop_cr (takeWhile (\<lambda>l. int (length l) < 1048576) (split_on newline data))"

definition last_entries :: "(string \<Rightarrow> AuditEntry option) \<Rightarrow> int \<Rightarrow> string \<Rightarrow> AuditEntry list" where
  "last_entries dec limit data =
     (let entries = List.map_filter dec (filter (\<lambda>l. l \<noteq> []) (scanned_lines data));
          start = (if limit < int (length entries) then length entries - nat limit else 0)
      in rev (drop start entries))"

subsection \<open>What is read back\<close>

text \<open>A run of entries, each with its time.\<close>

type_synonym log_call = "time \<times> string \<times> string \<times> string \<times> bool"

definition entry_of :: "audit_host \<Rightarrow> log_call \<Rightarrow> AuditEntry" where
  "entry_of h c = (case c of (t, action, project, details, success) \<Rightarrow>
     \<lparr>au_Timestamp = t, au_Action = action, au_Project = project, au_User = currentUser h, au_Details = details,
      au_Success = success\<rparr>)"

fun run_log :: "audit_host \<Rightarrow> log_call list \<Rightarrow> audit_state \<Rightarrow> audit_state" where
  "run_log h [] st = st"
| "run_log h ((t, action, project, details, success) # cs) st =
     run_log h cs (Log (h\<lparr>ho_now := t\<rparr>) action project details success st)"

text \<open>A line of the log: what JSON makes of an entry is one line without space around it, read back as it was.\<close>

definition line_ok :: "audit_host \<Rightarrow> AuditEntry \<Rightarrow> bool" where
  "line_ok h e \<longleftrightarrow> (case ho_enc h e of
     None \<Rightarrow> False
   | Some l \<Rightarrow> l \<noteq> [] \<and> newline \<notin> set l \<and> \<not> is_space (hd l) \<and> \<not> is_space (last l) \<and> int (length l) < 1048576
       \<and> ho_dec h l = Some e)"

definition log_text :: "audit_host \<Rightarrow> AuditEntry list \<Rightarrow> string" where
  "log_text h es = concat (map (\<lambda>e. the (ho_enc h e) @ [newline]) es)"

lemma log_text_simps [simp]:
  "log_text h [] = []" "log_text h (e # es) = the (ho_enc h e) @ newline # log_text h es"
  by (simp_all add: log_text_def)

lemma currentUser_now [simp]: "currentUser (h\<lparr>ho_now := t\<rparr>) = currentUser h"
  by (simp add: currentUser_def)

lemma Log_appends:
  assumes "lg_open st" "ho_write h = None" "line_ok h (entry_of h (t, a, p, d, ok))" "lg_files st (lg_path st) = Some c"
    "int (length (c @ log_text h [entry_of h (t, a, p, d, ok)])) < maxFileSize"
  shows "lg_open (Log (h\<lparr>ho_now := t\<rparr>) a p d ok st)" "lg_path (Log (h\<lparr>ho_now := t\<rparr>) a p d ok st) = lg_path st"
    "lg_files (Log (h\<lparr>ho_now := t\<rparr>) a p d ok st) =
       (lg_files st)(lg_path st \<mapsto> c @ log_text h [entry_of h (t, a, p, d, ok)])"
  using assms
  by (auto simp: Log_def entry_of_def line_ok_def append_log_def log_size_def Let_def split: option.splits)

lemma run_log_text:
  assumes "lg_open st" "ho_write h = None" "lg_files st (lg_path st) = Some c"
    "\<forall>e \<in> set (map (entry_of h) cs). line_ok h e"
    "int (length (c @ log_text h (map (entry_of h) cs))) < maxFileSize"
  shows "lg_path (run_log h cs st) = lg_path st
    \<and> lg_files (run_log h cs st) (lg_path st) = Some (c @ log_text h (map (entry_of h) cs))"
  using assms
proof (induction cs arbitrary: st c)
  case (Cons x cs)
  obtain t a p d ok where x: "x = (t, a, p, d, ok)" by (cases x)
  let ?c = "c @ log_text h [entry_of h x]"
  have small: "int (length ?c) < maxFileSize" using Cons.prems(5) by simp
  note step = Log_appends[OF Cons.prems(1,2) _ Cons.prems(3) small[unfolded x]]
  have ok: "line_ok h (entry_of h (t, a, p, d, ok))" using Cons.prems(4) x by simp
  show ?case
    using Cons.IH[of "Log (h\<lparr>ho_now := t\<rparr>) a p d ok st" ?c] step[OF ok] Cons.prems x by simp
qed simp

lemma split_log_text:
  assumes "\<forall>e \<in> set es. line_ok h e"
  shows "split_on newline (log_text h es) = map (\<lambda>e. the (ho_enc h e)) es @ [[]]"
  using assms by (induction es) (auto simp: line_ok_def split_on_append split: option.splits)

lemma read_back_lines:
  assumes "\<forall>l \<in> set ls. trim_space l \<noteq> [] \<longrightarrow> dec (trim_space l) \<noteq> None"
  shows "read_back dec limit ls = take (nat limit) (map (\<lambda>l. the (dec (trim_space l))) (filter (\<lambda>l. trim_space l \<noteq> []) ls))"
  using assms by (induction ls arbitrary: limit) (auto simp: Let_def nat_diff_distrib take_Cons' split: option.splits)

lemma trim_space_id: "l \<noteq> [] \<Longrightarrow> \<not> is_space (hd l) \<Longrightarrow> \<not> is_space (last l) \<Longrightarrow> trim_space l = l"
  unfolding trim_space_def by (subst (1 2) iffD2[OF dropWhile_eq_self_iff]) (auto simp: hd_rev)

lemma trim_log_text:
  assumes "\<forall>e \<in> set es. line_ok h e" "es \<noteq> []"
  shows "trim_space (log_text h es) @ [newline] = log_text h es"
proof -
  obtain e es' where first: "es = e # es'" using assms(2) by (cases es) auto
  obtain es0 e0 where last: "es = es0 @ [e0]" using assms(2) by (cases es rule: rev_cases) auto
  obtain l where l: "ho_enc h e = Some l" "l \<noteq> []" "\<not> is_space (hd l)" using assms(1) first by (auto simp: line_ok_def split: option.splits)
  obtain m where m: "ho_enc h e0 = Some m" "m \<noteq> []" "\<not> is_space (last m)" using assms(1) last by (auto simp: line_ok_def split: option.splits)
  have front: "dropWhile is_space (log_text h es) = log_text h es"
    using l first by (cases l) auto
  have content: "log_text h es = (log_text h es0 @ m) @ [newline]" using last m by (simp add: log_text_def)
  have "dropWhile is_space (rev (log_text h es)) = rev (log_text h es0 @ m)"
    unfolding content using m by (cases m rule: rev_cases) (auto simp: is_space_def)
  then show ?thesis unfolding trim_space_def front by (simp add: content)
qed

lemma log_lines:
  assumes "\<forall>e \<in> set es. line_ok h e"
  shows "filter (\<lambda>l. trim_space l \<noteq> []) (split_on newline (trim_space (log_text h es))) = map (\<lambda>e. the (ho_enc h e)) es"
proof (cases "es = []")
  case True
  then show ?thesis by (simp add: trim_space_def)
next
  case False
  have "split_on newline (trim_space (log_text h es) @ newline # []) = map (\<lambda>e. the (ho_enc h e)) es @ [[]]"
    using trim_log_text[OF assms False] split_log_text[OF assms] by simp
  moreover have "split_on newline (s @ newline # []) = split_on newline s @ [[]]" for s
    by (induction s) (auto split: list.splits)
  ultimately have "split_on newline (trim_space (log_text h es)) = map (\<lambda>e. the (ho_enc h e)) es" by simp
  moreover have "trim_space l \<noteq> []" if "l \<in> set (map (\<lambda>e. the (ho_enc h e)) es)" for l
    using that assms trim_space_id by (fastforce simp: line_ok_def split: option.splits)
  ultimately show ?thesis by (simp add: filter_id_conv)
qed

lemma last_entries_text:
  assumes "\<forall>e \<in> set es. line_ok h e" "0 < limit"
  shows "last_entries (ho_dec h) limit (log_text h es) = take (nat limit) (rev es)"
proof -
  have "\<not> is_space (CHR 0x0D) \<Longrightarrow> False" by (simp add: is_space_def)
  then have cr: "drop_cr (the (ho_enc h e)) = the (ho_enc h e)" if "e \<in> set es" for e
    using assms(1) that by (auto simp: line_ok_def drop_cr_def split: option.splits)
  have short: "int (length (the (ho_enc h e))) < 1048576" if "e \<in> set es" for e
    using assms(1) that by (auto simp: line_ok_def split: option.splits)
  have all: "takeWhile (\<lambda>l. int (length l) < 1048576) (map (\<lambda>e. the (ho_enc h e)) es @ [[]]) = map (\<lambda>e. the (ho_enc h e)) es @ [[]]"
    using short by (subst takeWhile_eq_all_conv) auto
  moreover have "drop_cr [] = []" by (simp add: drop_cr_def)
  ultimately have "scanned_lines (log_text h es) = map (\<lambda>e. the (ho_enc h e)) es @ [[]]"
    unfolding scanned_lines_def split_log_text[OF assms(1)] all using cr by simp
  moreover have "filter (\<lambda>l. l \<noteq> []) (map (\<lambda>e. the (ho_enc h e)) es @ [[]]) = map (\<lambda>e. the (ho_enc h e)) es"
    using assms(1) by (auto simp: filter_id_conv line_ok_def split: option.splits)
  moreover have "List.map_filter (ho_dec h) (map (\<lambda>e. the (ho_enc h e)) es) = es"
    using assms(1) by (induction es) (auto simp: line_ok_def split: option.splits)
  ultimately have "last_entries (ho_dec h) limit (log_text h es)
      = rev (drop (if limit < int (length es) then length es - nat limit else 0) es)"
    by (simp add: last_entries_def Let_def)
  then show ?thesis using assms(2) by (auto simp: rev_drop)
qed

text \<open>
  The audit log is read back as it was written: as long as the file is not rotated and no write fails, both readers
  return exactly the newest entries that were logged, the newest first and at most as many as asked for.
\<close>

theorem audit_readers_agree:
  assumes "lg_open st" "ho_write h = None" "lg_path st \<noteq> []" "lg_files st (lg_path st) = Some []"
    and "\<forall>e \<in> set (map (entry_of h) cs). line_ok h e"
    and "int (length (log_text h (map (entry_of h) cs))) < maxFileSize" "0 < limit"
  shows "ReadRecent h True limit (run_log h cs st) = Some (take (nat limit) (rev (map (entry_of h) cs)))
    \<and> (\<exists>data. lg_files (run_log h cs st) (lg_path st) = Some data
         \<and> last_entries (ho_dec h) limit data = take (nat limit) (rev (map (entry_of h) cs)))"
proof -
  let ?es = "map (entry_of h) cs"
  have content: "lg_path (run_log h cs st) = lg_path st" "lg_files (run_log h cs st) (lg_path st) = Some (log_text h ?es)"
    using run_log_text[OF assms(1,2,4,5)] assms(6) by auto
  let ?ls = "split_on newline (trim_space (log_text h ?es))"
  have lines: "filter (\<lambda>l. trim_space l \<noteq> []) ?ls = map (\<lambda>e. the (ho_enc h e)) ?es" by (rule log_lines[OF assms(5)])
  have same: "trim_space (the (ho_enc h e)) = the (ho_enc h e)" "ho_dec h (the (ho_enc h e)) = Some e" if "e \<in> set ?es" for e
    using assms(5) that by (auto simp: line_ok_def trim_space_id split: option.splits)
  have "ho_dec h (trim_space l) \<noteq> None" if "l \<in> set ?ls" "trim_space l \<noteq> []" for l
  proof -
    have "l \<in> set (filter (\<lambda>l. trim_space l \<noteq> []) ?ls)" using that by simp
    then show ?thesis unfolding lines using same by auto
  qed
  then have "read_back (ho_dec h) limit (rev ?ls)
      = take (nat limit) (map (\<lambda>l. the (ho_dec h (trim_space l))) (rev (map (\<lambda>e. the (ho_enc h e)) ?es)))"
    by (subst read_back_lines) (auto simp: rev_filter[symmetric] lines)
  moreover have "map (\<lambda>l. the (ho_dec h (trim_space l))) (rev (map (\<lambda>e. the (ho_enc h e)) ?es)) = rev ?es"
    using same by (auto simp: rev_map intro!: map_idI)
  ultimately show ?thesis using content last_entries_text[OF assms(5,7)] assms(3) by (simp add: ReadRecent_def Let_def)
qed

subsection \<open>Rotation\<close>

text \<open>When nothing fails, each file moves one up, the oldest is dropped and the log starts empty.\<close>

lemma rotated_names [simp]:
  "rotated_name path (Suc 0) = path @ ''.1''" "rotated_name path (Suc (Suc 0)) = path @ ''.2''"
  "rotated_name path (Suc (Suc (Suc 0))) = path @ ''.3''" "rotated_name path (Suc (Suc (Suc (Suc 0)))) = path @ ''.4''"
  "rotated_name path (Suc (Suc (Suc (Suc (Suc 0))))) = path @ ''.5''"
  by (simp_all add: rotated_name_def, code_simp+)

lemma rotate_log_shifts:
  assumes "lg_open st" "lg_path st \<noteq> []" "ho_reopen h" "\<And>i. ho_rename h i"
    and "\<forall>i \<in> {''.1'', ''.2'', ''.3'', ''.4'', []}. lg_files st (lg_path st @ i) \<noteq> None"
  shows "lg_files (rotate_log h st) = (lg_files st)(lg_path st \<mapsto> [], lg_path st @ ''.1'' := lg_files st (lg_path st),
    lg_path st @ ''.2'' := lg_files st (lg_path st @ ''.1''), lg_path st @ ''.3'' := lg_files st (lg_path st @ ''.2''),
    lg_path st @ ''.4'' := lg_files st (lg_path st @ ''.3''), lg_path st @ ''.5'' := lg_files st (lg_path st @ ''.4''))"
proof -
  obtain c0 c1 c2 c3 c4 where f: "lg_files st (lg_path st) = Some c0" "lg_files st (lg_path st @ ''.1'') = Some c1"
      "lg_files st (lg_path st @ ''.2'') = Some c2" "lg_files st (lg_path st @ ''.3'') = Some c3"
      "lg_files st (lg_path st @ ''.4'') = Some c4"
    using assms(5) by auto
  have steps: "maxRotatedFiles - 1 = Suc (Suc (Suc (Suc 0)))" by (simp add: maxRotatedFiles_def)
  show ?thesis
    unfolding rotate_log_def steps Let_def using assms(1-4) f by (intro ext) (simp add: rename_log_def)
qed

text \<open>A log that could not be opened again stays closed: later entries are dropped.\<close>

lemma closed_log_drops: "\<not> lg_open st \<Longrightarrow> run_log h cs st = st"
  by (induction h cs st rule: run_log.induct) (auto simp: Log_def)

subsection \<open>An example\<close>

definition sample_entry :: AuditEntry where
  "sample_entry = \<lparr>au_Timestamp = 5, au_Action = ''project.create'', au_Project = ''shop'', au_User = ''unknown'',
     au_Details = [], au_Success = True\<rparr>"

definition sample_audit_host :: audit_host where
  "sample_audit_host = \<lparr>ho_enc = (\<lambda>e. Some ''{}''), ho_dec = (\<lambda>l. if l = ''{}'' then Some sample_entry else None),
     ho_user = None, ho_now = 5, ho_write = None, ho_stat = True, ho_rename = (\<lambda>_. True), ho_reopen = True\<rparr>"

definition sample_audit :: audit_state where
  "sample_audit = snd (Init_log True True ''/l'' \<lparr>lg_open = False, lg_path = [], lg_files = (\<lambda>_. None), lg_journal = None\<rparr>)"

lemma audit_readers_agree_witness:
  "ReadRecent sample_audit_host True 10 (run_log sample_audit_host [(5, ''project.create'', ''shop'', [], True)] sample_audit)
     = Some [sample_entry]"
proof -
  let ?cs = "[(5, ''project.create'', ''shop'', [], True)] :: log_call list"
  have es: "map (entry_of sample_audit_host) ?cs = [sample_entry]"
    by (simp add: entry_of_def currentUser_def sample_audit_host_def sample_entry_def)
  have st: "lg_open sample_audit" "lg_path sample_audit \<noteq> []" "lg_files sample_audit (lg_path sample_audit) = Some []"
    by (simp_all add: sample_audit_def Init_log_def Let_def)
  have h: "ho_write sample_audit_host = None" "line_ok sample_audit_host sample_entry" "ho_enc sample_audit_host sample_entry = Some ''{}''"
    by (simp_all add: sample_audit_host_def line_ok_def is_space_def)
  from audit_readers_agree[OF st(1) h(1) st(2,3), of ?cs 10, unfolded es] h(2,3)
  show ?thesis by (simp add: maxFileSize_def)
qed

end
