(* ===== verification/Server_Api.thy ===== *)
theory Server_Api
  imports Project_Scaffold Project_Recovery Server_Webhook Source_Deploy Edge_Network Audit_Log Server_Auth
begin

text \<open>
  The API of the dashboard (\<open>internal/server/server.go\<close>, \<open>handlers_domain.go\<close>, \<open>handlers_servers.go\<close>,
  \<open>handlers_volumes.go\<close>): projects, their containers, backups and deployments, the servers, the volumes and the audit
  log. A handler takes the request and the world and returns its answer and the new world; a handler that holds the
  mutex of its project is one step. The handlers rest on the models of the registry, of backup creation and restore,
  of the edge network, of the scaffold and of the audit log.

  Docker, JSON, templates, the dialer and every statement on the registry (\<open>ap_up k\<close>) are answered by the host. The
  text of a wrapped error is left out of a message.
\<close>

subsection \<open>The world\<close>

text \<open>The project directories and the backup directories by their path; the commands run in a directory.\<close>

record api_world =
  aw_db :: fleet_db
  aw_trees :: "string \<Rightarrow> tree option"
  aw_store :: "string \<Rightarrow> tree option"
  aw_docker :: "(string \<times> string list) list"
  aw_edge :: "edge_cmd list"
  aw_restore :: "restore_cmd list"
  aw_audit :: audit_state

record server_body =
  sb_Name :: string
  sb_Host :: string
  sb_Port :: string
  sb_User :: string
  sb_KeyPath :: string

record project_body =
  pb_Name :: string
  pb_Domain :: string
  pb_Template :: string

record api_host =
  ap_project_body :: "string \<Rightarrow> project_body option"
  ap_domain_body :: "string \<Rightarrow> string option"
  ap_server_body :: "string \<Rightarrow> server_body option"
  ap_templates :: "string \<Rightarrow> Template option"
  ap_render :: renderer
  ap_io :: "string \<Rightarrow> fs_io"
  ap_left :: "string \<Rightarrow> tree \<Rightarrow> tree option"
  ap_docker :: "(string \<times> string list) list \<Rightarrow> string \<Rightarrow> string list \<Rightarrow> bool \<times> string"
  ap_edge :: edge_host
  ap_recovery :: recovery_host
  ap_audit :: audit_host
  ap_opens :: bool
  ap_dial :: "string \<Rightarrow> string \<Rightarrow> bool"
  ap_err :: "db_error \<Rightarrow> string"
  ap_up :: "nat \<Rightarrow> bool"
  ap_now :: time
  ap_fresh :: string

datatype api_answer =
    ApiError nat string
  | ApiStatus string
  | ApiProject project_row nat
  | ApiProjects "(project_row \<times> nat) list"
  | ApiBackup backup_row
  | ApiBackups "backup_row list"
  | ApiDeployments "deployment_row list"
  | ApiServers "server_row list"
  | ApiLogs string
  | ApiAudit "AuditEntry list"
  | ApiVolumes "(string \<times> string \<times> string) list"

type_synonym api_result = "api_answer \<times> api_world"

definition audited :: "api_host \<Rightarrow> string \<Rightarrow> string \<Rightarrow> string \<Rightarrow> api_world \<Rightarrow> api_world" where
  "audited h action project details w = w\<lparr>aw_audit := Log (ap_audit h) action project details True (aw_audit w)\<rparr>"

definition docker_in :: "api_host \<Rightarrow> string \<Rightarrow> string list \<Rightarrow> api_world \<Rightarrow> bool \<times> string \<times> api_world" where
  "docker_in h dir args w =
     (case ap_docker h (aw_docker w) dir args of (ok, out) \<Rightarrow> (ok, out, w\<lparr>aw_docker := aw_docker w @ [(dir, args)]\<rparr>))"

text \<open>\<open>os.RemoveAll\<close> takes everything below the path with it; what it could not remove is left.\<close>

definition path_below :: "string \<Rightarrow> string \<Rightarrow> bool" where
  "path_below d p \<longleftrightarrow> p = d \<or> has_prefix p (d @ ''/'')"

definition removed_below :: "api_host \<Rightarrow> string \<Rightarrow> (string \<Rightarrow> tree option) \<Rightarrow> string \<Rightarrow> tree option" where
  "removed_below h d m p = (if path_below d p then (case m p of None \<Rightarrow> None | Some t \<Rightarrow> ap_left h p t) else m p)"

definition remove_all :: "api_host \<Rightarrow> string \<Rightarrow> api_world \<Rightarrow> api_world" where
  "remove_all h d w = w\<lparr>aw_trees := removed_below h d (aw_trees w), aw_store := removed_below h d (aw_store w)\<rparr>"

text \<open>\<open>strconv.Atoi\<close>, into a 64-bit integer.\<close>

definition Atoi :: "string \<Rightarrow> int option" where
  "Atoi s =
     (let ds = (case s of [] \<Rightarrow> [] | c # cs \<Rightarrow> if c \<in> {CHR ''-'', CHR ''+''} then cs else s);
          v = foldl (\<lambda>n c. 10 * n + (of_char c - 48)) 0 ds;
          n = (if has_prefix s ''-'' then - v else v)
      in if ds = [] \<or> \<not> list_all is_digit ds then None
         else if n < - (2 ^ 63) \<or> 2 ^ 63 \<le> n then None else Some n)"

definition validUUID :: "string \<Rightarrow> bool" where
  "validUUID s \<longleftrightarrow> map length (split_on CHR ''-'' s) = [8, 4, 4, 4, 12]
     \<and> list_all (\<lambda>c. is_lower_hex c \<or> c = CHR ''-'') s"

definition validServerName :: "string \<Rightarrow> bool" where
  "validServerName s \<longleftrightarrow>
     2 \<le> length s \<and> is_lower_alnum (hd s) \<and> is_lower_alnum (last s)
     \<and> list_all (\<lambda>c. is_lower_alnum c \<or> c \<in> {CHR ''.'', CHR ''_'', CHR ''-''}) s"

definition count_running :: "string list \<Rightarrow> nat" where
  "count_running ls = length (filter (\<lambda>l. contains_str l (CHR 0x22 # ''running'' @ [CHR 0x22])) ls)"

definition countContainers :: "api_host \<Rightarrow> string \<Rightarrow> api_world \<Rightarrow> (nat \<times> nat) \<times> api_world" where
  "countContainers h dir w =
     (case docker_in h dir [''compose'', ''ps'', ''--format'', ''json''] w of
        (False, out, w1) \<Rightarrow> ((0, 0), w1)
      | (True, out, w1) \<Rightarrow>
          let ls = filter (\<lambda>l. l \<noteq> []) (split_on newline (trim_space out)) in ((count_running ls, length ls), w1))"

text \<open>What the handlers of a project do first.\<close>

definition with_project ::
  "api_host \<Rightarrow> (db_error \<Rightarrow> string) \<Rightarrow> string \<Rightarrow> api_world \<Rightarrow> (project_row \<Rightarrow> api_result) \<Rightarrow> api_result" where
  "with_project h msg name w go =
     (if \<not> validProjectName name then (ApiError 400 ''invalid project name'', w)
      else case GetProject (ap_up h 0) name (aw_db w) of
        Inl e \<Rightarrow> (ApiError 404 (msg e), w)
      | Inr p \<Rightarrow> go p)"

definition not_found :: "db_error \<Rightarrow> string" where
  "not_found e = ''project not found''"

subsection \<open>Projects\<close>

fun project_views :: "api_host \<Rightarrow> project_row list \<Rightarrow> api_world \<Rightarrow> (project_row \<times> nat) list \<times> api_world" where
  "project_views h [] w = ([], w)"
| "project_views h (p # ps) w =
     (case countContainers h (pj_ProjectPath p) w of
        ((running, cnt), w1) \<Rightarrow> (case project_views h ps w1 of (vs, w2) \<Rightarrow> ((p, cnt) # vs, w2)))"

definition handleListProjects :: "api_host \<Rightarrow> api_world \<Rightarrow> api_result" where
  "handleListProjects h w =
     (case ListProjects (ap_up h 0) (aw_db w) of
        Inl e \<Rightarrow> (ApiError 500 ''failed to list projects'', w)
      | Inr ps \<Rightarrow> (case project_views h ps w of (vs, w1) \<Rightarrow> (ApiProjects vs, w1)))"

definition handleGetProject :: "api_host \<Rightarrow> string \<Rightarrow> api_world \<Rightarrow> api_result" where
  "handleGetProject h name w =
     with_project h not_found name w (\<lambda>p.
       case countContainers h (pj_ProjectPath p) w of ((running, cnt), w1) \<Rightarrow> (ApiProject p cnt, w1))"

text \<open>The text of \<open>ValidateName\<close>'s error.\<close>

definition name_message :: "string \<Rightarrow> string" where
  "name_message name =
     (if length name < 1 \<or> 63 < length name then ''project name must be 1-63 characters, got '' @ show_int (int (length name))
      else if \<not> (is_lower_alnum (hd name) \<and> is_lower_alnum (last name)
                   \<and> list_all (\<lambda>c. is_lower_alnum c \<or> c = CHR ''-'') name)
      then ''project name must contain only lowercase letters, numbers, and hyphens (cannot start/end with hyphen)''
      else ''project name cannot contain consecutive hyphens'')"

text \<open>The checks before anything is made. Every failure of the lookup counts as a free name.\<close>

definition create_check :: "api_host \<Rightarrow> string \<Rightarrow> api_world \<Rightarrow> api_answer + project_body \<times> Template" where
  "create_check h body w =
     (case ap_project_body h body of
        None \<Rightarrow> Inl (ApiError 400 ''invalid JSON body'')
      | Some req \<Rightarrow>
          if pb_Name req = [] \<or> pb_Domain req = [] then Inl (ApiError 400 ''name and domain are required'')
          else if \<not> ValidateName (pb_Name req) then Inl (ApiError 400 (name_message (pb_Name req)))
          else
            let template = or_default ''custom'' (pb_Template req) in
            (case ap_templates h template of
               None \<Rightarrow> Inl (ApiError 400 (''unknown template: '' @ template))
             | Some t \<Rightarrow>
                 (case GetProject (ap_up h 0) (pb_Name req) (aw_db w) of
                    Inr p \<Rightarrow> Inl (ApiError 409 (''project '' @ [CHR 0x22] @ pb_Name req @ [CHR 0x22] @ '' already exists''))
                  | Inl e \<Rightarrow> Inr (req\<lparr>pb_Template := template\<rparr>, t))))"

definition new_project :: "api_host \<Rightarrow> Config \<Rightarrow> project_body \<Rightarrow> project_row" where
  "new_project h cfg req = \<lparr>pj_ID = [], pj_Name = pb_Name req, pj_Domain = pb_Domain req, pj_GitHubRepo = [],
     pj_LinuxUser = LinuxUserName (pb_Name req), pj_ProjectPath = ProjectPath cfg (pb_Name req),
     pj_Template = pb_Template req, pj_Status = ''created'', pj_Source = ''created'', pj_ServerID = [],
     pj_BranchMappings = [], pj_CreatedAt = 0, pj_UpdatedAt = 0\<rparr>"

text \<open>And the work: the scaffold, the row, and the removal of the directory when there is no row.\<close>

definition create_commit :: "api_host \<Rightarrow> Config \<Rightarrow> project_body \<times> Template \<Rightarrow> api_world \<Rightarrow> api_result" where
  "create_commit h cfg x w =
     (case x of (req, tmpl) \<Rightarrow>
        let path = ProjectPath cfg (pb_Name req);
            data = \<lparr>tp_Name = pb_Name req, tp_Domain = pb_Domain req,
                    tp_PostgresVersion = dc_PostgresVersion (cfg_Defaults cfg)\<rparr>
        in (case ScaffoldProject (ap_render h) (ap_io h path) tmpl data (aw_trees w path) of
              (Some e, dir) \<Rightarrow> (ApiError 500 ''scaffolding project'', w\<lparr>aw_trees := (aw_trees w)(path := dir)\<rparr>)
            | (None, dir) \<Rightarrow>
                let w1 = w\<lparr>aw_trees := (aw_trees w)(path := dir)\<rparr>; p = new_project h cfg req in
                (case CreateProject (ap_up h 1) (ap_now h) (ap_fresh h) p (aw_db w1) of
                   (Some e, db) \<Rightarrow> (ApiError 500 ''saving to database'', remove_all h path (w1\<lparr>aw_db := db\<rparr>))
                 | (None, db) \<Rightarrow>
                     let w2 = audited h ''project.create'' (pb_Name req)
                           (''template='' @ pb_Template req @ '' domain='' @ pb_Domain req @ '' via=api'') (w1\<lparr>aw_db := db\<rparr>)
                     in (case countContainers h path w2 of
                           ((running, cnt), w3) \<Rightarrow>
                             (ApiProject (p\<lparr>pj_ID := ap_fresh h, pj_CreatedAt := ap_now h, pj_UpdatedAt := ap_now h\<rparr>) cnt,
                              w3)))))"

definition handleCreateProject :: "api_host \<Rightarrow> Config \<Rightarrow> string \<Rightarrow> api_world \<Rightarrow> api_result" where
  "handleCreateProject h cfg body w =
     (case create_check h body w of Inl a \<Rightarrow> (a, w) | Inr x \<Rightarrow> create_commit h cfg x w)"

definition show_bool :: "bool \<Rightarrow> string" where
  "show_bool b = (if b then ''true'' else ''false'')"

definition handleDeleteProject :: "api_host \<Rightarrow> string \<Rightarrow> string \<Rightarrow> api_world \<Rightarrow> api_result" where
  "handleDeleteProject h name keep w =
     with_project h not_found name w (\<lambda>p.
       let keepData = (keep = ''true'');
           w1 = snd (snd (docker_in h (pj_ProjectPath p) [''compose'', ''down''] w));
           w2 = (if keepData then w1 else remove_all h (pj_ProjectPath p) w1)
       in case DeleteProject (\<lambda>k. ap_up h (Suc k)) name (aw_db w2) of
            (Some e, db) \<Rightarrow> (ApiError 500 ''deleting from database'', w2\<lparr>aw_db := db\<rparr>)
          | (None, db) \<Rightarrow>
              (ApiStatus ''deleted'',
               audited h ''project.destroy'' name (''keep_data='' @ show_bool keepData @ '' via=api'') (w2\<lparr>aw_db := db\<rparr>)))"

definition set_status :: "api_host \<Rightarrow> nat \<Rightarrow> string \<Rightarrow> string \<Rightarrow> api_world \<Rightarrow> api_world" where
  "set_status h k name status w =
     (case UpdateProjectStatus (ap_up h k) (ap_now h) name status (aw_db w) of (e, db) \<Rightarrow> w\<lparr>aw_db := db\<rparr>)"

definition handleStartProject :: "api_host \<Rightarrow> string \<Rightarrow> api_world \<Rightarrow> api_result" where
  "handleStartProject h name w =
     with_project h (ap_err h) name w (\<lambda>p.
       case Prepare (ap_edge h) (pj_ProjectPath p) [] (aw_edge w) of
         (Some e, el) \<Rightarrow> (ApiError 500 ''failed to prepare project network'', w\<lparr>aw_edge := el\<rparr>)
       | (None, el) \<Rightarrow>
           (case docker_in h (pj_ProjectPath p) [''compose'', ''up'', ''-d''] (w\<lparr>aw_edge := el\<rparr>) of
              (False, out, w1) \<Rightarrow> (ApiError 500 ''failed to start project'', w1)
            | (True, out, w1) \<Rightarrow> (ApiStatus ''started'', set_status h 1 name ''running'' w1)))"

definition handleStopProject :: "api_host \<Rightarrow> string \<Rightarrow> api_world \<Rightarrow> api_result" where
  "handleStopProject h name w =
     with_project h (ap_err h) name w (\<lambda>p.
       case docker_in h (pj_ProjectPath p) [''compose'', ''down''] w of
         (False, out, w1) \<Rightarrow> (ApiError 500 ''failed to stop project'', w1)
       | (True, out, w1) \<Rightarrow> (ApiStatus ''stopped'', set_status h 1 name ''stopped'' w1))"

definition handleRestartProject :: "api_host \<Rightarrow> string \<Rightarrow> api_world \<Rightarrow> api_result" where
  "handleRestartProject h name w =
     with_project h (ap_err h) name w (\<lambda>p.
       case docker_in h (pj_ProjectPath p) [''compose'', ''restart''] w of
         (False, out, w1) \<Rightarrow> (ApiError 500 ''failed to restart project'', w1)
       | (True, out, w1) \<Rightarrow> (ApiStatus ''restarted'', w1))"

text \<open>The number of lines goes into the command as it was given.\<close>

definition handleProjectLogs :: "api_host \<Rightarrow> string \<Rightarrow> string \<Rightarrow> api_world \<Rightarrow> api_result" where
  "handleProjectLogs h name query w =
     with_project h (ap_err h) name w (\<lambda>p.
       let tail = or_default ''100'' query in
       if (case Atoi tail of None \<Rightarrow> True | Some n \<Rightarrow> n < 1 \<or> 10000 < n)
       then (ApiError 400 ''lines must be a number between 1 and 10000'', w)
       else case docker_in h (pj_ProjectPath p) [''compose'', ''logs'', ''--tail'', tail, ''--no-color''] w of
         (ok, out, w1) \<Rightarrow> (ApiLogs out, w1))"

text \<open>The whole row is written back.\<close>

definition handleUpdateProjectDomain :: "api_host \<Rightarrow> string \<Rightarrow> string \<Rightarrow> api_world \<Rightarrow> api_result" where
  "handleUpdateProjectDomain h name body w =
     with_project h not_found name w (\<lambda>p.
       case ap_domain_body h body of
         None \<Rightarrow> (ApiError 400 ''invalid JSON body'', w)
       | Some domain \<Rightarrow>
           if domain = [] then (ApiError 400 ''domain is required'', w)
           else case UpdateProject (ap_up h 1) (ap_now h) (p\<lparr>pj_Domain := domain\<rparr>) (aw_db w) of
             (Some e, db) \<Rightarrow> (ApiError 500 ''failed to update domain'', w\<lparr>aw_db := db\<rparr>)
           | (None, db) \<Rightarrow>
               (ApiStatus ''updated'', audited h ''project.domain'' name (''domain='' @ domain @ '' via=api'') (w\<lparr>aw_db := db\<rparr>)))"

subsection \<open>Backups and deployments\<close>

definition project_tree :: "api_world \<Rightarrow> project_row \<Rightarrow> tree" where
  "project_tree w p = (case aw_trees w (pj_ProjectPath p) of None \<Rightarrow> [] | Some t \<Rightarrow> t)"

text \<open>A directory that is not there cannot be opened.\<close>

definition project_io :: "api_world \<Rightarrow> project_row \<Rightarrow> fs_io \<Rightarrow> fs_io" where
  "project_io w p io =
     (if aw_trees w (pj_ProjectPath p) = None
      then io\<lparr>io_bad := (\<lambda>op n. op = OpRoot \<or> io_bad io op n)\<rparr> else io)"

definition handleListBackups :: "api_host \<Rightarrow> string \<Rightarrow> api_world \<Rightarrow> api_result" where
  "handleListBackups h name w =
     with_project h (ap_err h) name w (\<lambda>p.
       case ListBackupRecords (ap_up h 1) (pj_ID p) 20 (aw_db w) of
         Inl e \<Rightarrow> (ApiError 500 ''failed to list backups'', w)
       | Inr bs \<Rightarrow> (ApiBackups bs, w))"

definition handleCreateBackup :: "api_host \<Rightarrow> Config \<Rightarrow> string \<Rightarrow> api_world \<Rightarrow> api_result" where
  "handleCreateBackup h cfg name w =
     with_project h not_found name w (\<lambda>p.
       let rc = ap_recovery h in
       case CreateBackup (rc_backup rc) (rc_sha rc) (rc_enc rc) (project_io w p (rc_read rc)) (project_tree w p) (rc_write rc)
           (cfg_Backup cfg) p ''manual'' ''api'' \<lparr>bo_SkipDB = False, bo_SkipVolumes = False\<rparr> (rc_id rc) (ap_now h)
           (rc_stamp rc) (ap_up h 1) (aw_store w, aw_db w) of
         (Inl e, store, db) \<Rightarrow> (ApiError 500 ''backup failed'', w\<lparr>aw_store := store, aw_db := db\<rparr>)
       | (Inr row, store, db) \<Rightarrow>
           (ApiBackup row,
            audited h ''backup.create'' name (''backup_id='' @ bk_ID row @ '' via=api'') (w\<lparr>aw_store := store, aw_db := db\<rparr>)))"

text \<open>The checks of a backup that belongs to the project.\<close>

definition with_backup ::
  "api_host \<Rightarrow> string \<Rightarrow> string \<Rightarrow> api_world \<Rightarrow> (project_row \<Rightarrow> backup_row \<Rightarrow> api_result) \<Rightarrow> api_result" where
  "with_backup h name backupID w go =
     (if \<not> validProjectName name then (ApiError 400 ''invalid project name'', w)
      else if \<not> validUUID backupID then (ApiError 400 ''invalid backup ID'', w)
      else with_project h not_found name w (\<lambda>p.
        case GetBackupRecord (ap_up h 1) backupID (aw_db w) of
          Inl e \<Rightarrow> (ApiError 404 ''backup not found'', w)
        | Inr b \<Rightarrow>
            if bk_ProjectID b \<noteq> pj_ID p then (ApiError 404 ''backup not found for this project'', w) else go p b))"

definition handleRestoreBackup :: "api_host \<Rightarrow> string \<Rightarrow> string \<Rightarrow> api_world \<Rightarrow> api_result" where
  "handleRestoreBackup h name backupID w =
     with_backup h name backupID w (\<lambda>p b.
       let rc = ap_recovery h; path = pj_ProjectPath p in
       case RestoreBackup (rc_restore rc) (rc_sha rc) (rc_gz rc) (rc_dec rc) (rc_archive rc)
           (case aw_store w (bk_Path b) of None \<Rightarrow> [] | Some t \<Rightarrow> t) (project_io w p (rc_project rc)) (rc_uuid rc)
           (bk_Path b) everything \<lparr>rs_tree = project_tree w p, rs_log = aw_restore w\<rparr> of
         (r, st) \<Rightarrow>
           let w1 = w\<lparr>aw_trees := (if aw_trees w path = None then aw_trees w else (aw_trees w)(path \<mapsto> rs_tree st)),
                      aw_restore := rs_log st\<rparr> in
           (case r of
              Some e \<Rightarrow> (ApiError 500 ''restore failed'', w1)
            | None \<Rightarrow>
                (ApiStatus ''restored'',
                 audited h ''backup.restore'' name (''backup_id='' @ backupID @ '' via=api'')
                   (set_status h 2 name ''running'' w1))))"

definition handleDeleteBackup :: "api_host \<Rightarrow> string \<Rightarrow> string \<Rightarrow> api_world \<Rightarrow> api_result" where
  "handleDeleteBackup h name backupID w =
     with_backup h name backupID w (\<lambda>p b.
       let w1 = (if bk_Path b \<noteq> [] then remove_all h (bk_Path b) w else w) in
       case DeleteBackupRecord (ap_up h 2) backupID (aw_db w1) of
         (Some e, db) \<Rightarrow> (ApiError 500 ''deleting backup record'', w1\<lparr>aw_db := db\<rparr>)
       | (None, db) \<Rightarrow>
           (ApiStatus ''deleted'', audited h ''backup.delete'' name (''backup_id='' @ backupID @ '' via=api'') (w1\<lparr>aw_db := db\<rparr>)))"

text \<open>A limit of the query counts only when it is a number in its range.\<close>

definition query_limit :: "string \<Rightarrow> int \<Rightarrow> int \<Rightarrow> int" where
  "query_limit query most standard =
     (case Atoi query of None \<Rightarrow> standard | Some n \<Rightarrow> if 0 < n \<and> n \<le> most then n else standard)"

definition handleListDeployments :: "api_host \<Rightarrow> string \<Rightarrow> string \<Rightarrow> api_world \<Rightarrow> api_result" where
  "handleListDeployments h name query w =
     with_project h not_found name w (\<lambda>p.
       case ListDeployments (ap_up h 1) (pj_ID p) (query_limit query 100 20) (aw_db w) of
         Inl e \<Rightarrow> (ApiError 500 ''failed to list deployments'', w)
       | Inr ds \<Rightarrow> (ApiDeployments ds, w))"

definition handleAuditLog :: "api_host \<Rightarrow> Config \<Rightarrow> string \<Rightarrow> api_world \<Rightarrow> api_result" where
  "handleAuditLog h cfg query w =
     (case lg_files (aw_audit w) (or_default DefaultLogPath (au_LogPath (cfg_Audit cfg))) of
        None \<Rightarrow> (ApiAudit [], w)
      | Some data \<Rightarrow>
          if \<not> ap_opens h then (ApiError 500 ''opening audit log'', w)
          else (ApiAudit (last_entries (ho_dec (ap_audit h)) (query_limit query 1000 50) data), w))"

subsection \<open>Servers and volumes\<close>

definition ListServers :: "bool \<Rightarrow> fleet_db \<Rightarrow> db_error + server_row list" where
  "ListServers up db = (if \<not> up then Inl DbFailed else Inr (sort_key (\<lambda>s. - sv_CreatedAt s) (db_servers db)))"

definition handleListServers :: "api_host \<Rightarrow> api_world \<Rightarrow> api_result" where
  "handleListServers h w =
     (case ListServers (ap_up h 0) (aw_db w) of
        Inl e \<Rightarrow> (ApiError 500 ''failed to list servers'', w)
      | Inr ss \<Rightarrow> (ApiServers ss, w))"

definition new_server :: "server_body \<Rightarrow> server_row" where
  "new_server req = \<lparr>sv_ID = [], sv_Name = sb_Name req, sv_Host = sb_Host req, sv_Port = or_default ''22'' (sb_Port req),
     sv_User = or_default ''root'' (sb_User req), sv_KeyPath = sb_KeyPath req, sv_Status = [], sv_Version = [],
     sv_Commit = [], sv_CheckedAt = None, sv_CreatedAt = 0, sv_UpdatedAt = 0\<rparr>"

definition handleCreateServer :: "api_host \<Rightarrow> string \<Rightarrow> api_world \<Rightarrow> api_result" where
  "handleCreateServer h body w =
     (case ap_server_body h body of
        None \<Rightarrow> (ApiError 400 ''invalid JSON body'', w)
      | Some req \<Rightarrow>
          if sb_Name req = [] \<or> sb_Host req = [] then (ApiError 400 ''name and host are required'', w)
          else if \<not> validServerName (sb_Name req) then (ApiError 400 ''invalid server name'', w)
          else
            case CreateServer (ap_up h 0) (ap_now h) (ap_fresh h) (new_server req) (aw_db w) of
              (Some e, db) \<Rightarrow>
                   (if e = Constraint
                    then ApiError 409 (''server '' @ [CHR 0x22] @ sb_Name req @ [CHR 0x22] @ '' already exists'')
                    else ApiError 500 ''failed to create server'', w\<lparr>aw_db := db\<rparr>)
            | (None, db) \<Rightarrow>
                   (ApiStatus ''created'', audited h ''server.add'' (sb_Name req) (''host='' @ sb_Host req @ '' via=api'') (w\<lparr>aw_db := db\<rparr>)))"

definition handleDeleteServer :: "api_host \<Rightarrow> string \<Rightarrow> api_world \<Rightarrow> api_result" where
  "handleDeleteServer h name w =
     (if \<not> validServerName name then (ApiError 400 ''invalid server name'', w)
      else case DeleteServer (ap_up h) name (aw_db w) of
        (Some e, db) \<Rightarrow>
          (if e = NotFound then ApiError 404 ''server not found'' else ApiError 500 (ap_err h e), w\<lparr>aw_db := db\<rparr>)
      | (None, db) \<Rightarrow> (ApiStatus ''deleted'', audited h ''server.delete'' name ''via=api'' (w\<lparr>aw_db := db\<rparr>)))"

definition handleCheckServer :: "api_host \<Rightarrow> string \<Rightarrow> api_world \<Rightarrow> api_result" where
  "handleCheckServer h name w =
     (if \<not> validServerName name then (ApiError 400 ''invalid server name'', w)
      else case GetServer (ap_up h 0) name (aw_db w) of
        Inl e \<Rightarrow> (ApiError 404 ''server not found'', w)
      | Inr srv \<Rightarrow>
          let status = (if ap_dial h (sv_Host srv) (sv_Port srv) then ''active'' else ''unreachable'') in
          (case UpdateServerStatus (ap_up h 1) (ap_now h) name status (aw_db w) of
             (e, db) \<Rightarrow> (ApiStatus status, w\<lparr>aw_db := db\<rparr>)))"

text \<open>\<open>strings.SplitN(line, tab, 3)\<close>; docker runs in the directory of the server, here \<open>.\<close>.\<close>

definition volume_line :: "string \<Rightarrow> (string \<times> string \<times> string) list" where
  "volume_line line =
     (case split_on CHR 0x09 line of
        name # driver # rest \<Rightarrow> [(name, driver, join_with [CHR 0x09] rest)]
      | _ \<Rightarrow> [])"

definition volume_format :: string where
  "volume_format = ''{{.Name}}'' @ [CHR 0x09] @ ''{{.Driver}}'' @ [CHR 0x09] @ ''{{.Mountpoint}}''"

definition handleListVolumes :: "api_host \<Rightarrow> api_world \<Rightarrow> api_result" where
  "handleListVolumes h w =
     (case docker_in h ''.'' [''volume'', ''ls'', ''--format'', volume_format] w of
        (False, out, w1) \<Rightarrow> (ApiError 500 ''failed to list volumes'', w1)
      | (True, out, w1) \<Rightarrow>
          (ApiVolumes (concat (map volume_line (filter (\<lambda>l. l \<noteq> []) (split_on newline (trim_space out))))), w1))"

definition bad_volume_chars :: string where
  "bad_volume_chars = [CHR '' '', CHR 0x09, newline, CHR '';'', CHR ''|'', CHR ''&'', CHR ''$'', CHR 0x60, CHR 0x22, CHR 0x27, CHR 0x5C]"

definition handleDeleteVolume :: "api_host \<Rightarrow> string \<Rightarrow> api_world \<Rightarrow> api_result" where
  "handleDeleteVolume h name w =
     (if name = [] then (ApiError 400 ''volume name is required'', w)
      else if contains_any name bad_volume_chars then (ApiError 400 ''invalid volume name'', w)
      else case docker_in h ''.'' [''volume'', ''rm'', name] w of
        (False, out, w1) \<Rightarrow> (ApiError 500 (''failed to remove volume: '' @ trim_space out), w1)
      | (True, out, w1) \<Rightarrow> (ApiStatus ''deleted'', audited h ''volume.delete'' name ''via=api'' w1))"

subsection \<open>The routes\<close>

datatype api_request =
    ListProjectsRequest | CreateProjectRequest string | GetProjectRequest string | DeleteProjectRequest string string
  | StartRequest string | StopRequest string | RestartRequest string | LogsRequest string string
  | DomainRequest string string | ListBackupsRequest string | CreateBackupRequest string
  | RestoreBackupRequest string string | DeleteBackupRequest string string | ListDeploymentsRequest string string
  | AuditRequest string | ListServersRequest | CreateServerRequest string | DeleteServerRequest string
  | CheckServerRequest string | ListVolumesRequest | DeleteVolumeRequest string

definition api_handle :: "api_host \<Rightarrow> Config \<Rightarrow> api_request \<Rightarrow> api_world \<Rightarrow> api_result" where
  "api_handle h cfg req w =
     (case req of
        ListProjectsRequest \<Rightarrow> handleListProjects h w
      | CreateProjectRequest body \<Rightarrow> handleCreateProject h cfg body w
      | GetProjectRequest name \<Rightarrow> handleGetProject h name w
      | DeleteProjectRequest name keep \<Rightarrow> handleDeleteProject h name keep w
      | StartRequest name \<Rightarrow> handleStartProject h name w
      | StopRequest name \<Rightarrow> handleStopProject h name w
      | RestartRequest name \<Rightarrow> handleRestartProject h name w
      | LogsRequest name query \<Rightarrow> handleProjectLogs h name query w
      | DomainRequest name body \<Rightarrow> handleUpdateProjectDomain h name body w
      | ListBackupsRequest name \<Rightarrow> handleListBackups h name w
      | CreateBackupRequest name \<Rightarrow> handleCreateBackup h cfg name w
      | RestoreBackupRequest name backup \<Rightarrow> handleRestoreBackup h name backup w
      | DeleteBackupRequest name backup \<Rightarrow> handleDeleteBackup h name backup w
      | ListDeploymentsRequest name query \<Rightarrow> handleListDeployments h name query w
      | AuditRequest query \<Rightarrow> handleAuditLog h cfg query w
      | ListServersRequest \<Rightarrow> handleListServers h w
      | CreateServerRequest body \<Rightarrow> handleCreateServer h body w
      | DeleteServerRequest name \<Rightarrow> handleDeleteServer h name w
      | CheckServerRequest name \<Rightarrow> handleCheckServer h name w
      | ListVolumesRequest \<Rightarrow> handleListVolumes h w
      | DeleteVolumeRequest name \<Rightarrow> handleDeleteVolume h name w)"

text \<open>Every route is behind \<open>requireAuth\<close>: a refused request gets its answer and reaches no handler.\<close>

definition api_serve ::
  "auth_host \<Rightarrow> auth_server \<Rightarrow> time \<Rightarrow> auth_request \<Rightarrow> api_host \<Rightarrow> Config \<Rightarrow> api_request \<Rightarrow> auth_state \<times> api_world
    \<Rightarrow> (auth_answer + api_answer) \<times> auth_state \<times> api_world" where
  "api_serve ah srv now r h cfg req s =
     (case requireAuth ah srv now r (fst s) of
        (NextHandler, cookies, st) \<Rightarrow> (case api_handle h cfg req (snd s) of (a, w) \<Rightarrow> (Inr a, st, w))
      | (refusal, cookies, st) \<Rightarrow> (Inl refusal, st, snd s))"

end
