(* ===== verification/Server_Layout.thy ===== *)
theory Server_Layout
  imports Server_Api
begin

text \<open>
  Where the API keeps its files: the directory of a project is a child of the base path, a backup lies two levels below
  the backup path. When directories lie below one another, and when they cannot.
\<close>

subsection \<open>Paths as lists of components\<close>

lemma split_abs_path: "list_all normal_component ws \<Longrightarrow> ws \<noteq> [] \<Longrightarrow> split_on CHR ''/'' (abs_path ws) = [] # ws"
proof -
  assume ws: "list_all normal_component ws" "ws \<noteq> []"
  have "split_on CHR ''/'' (join_with ''/'' ws) = ws"
    using ws by (induction ws rule: induct_list012) (auto simp: split_on_single split_on_append normal_component_def)
  then show ?thesis by (simp add: abs_path_def)
qed

lemma abs_path_inj:
  assumes "list_all normal_component ws" "list_all normal_component vs" "abs_path ws = abs_path vs"
  shows "ws = vs"
proof (cases "ws = [] \<or> vs = []")
  case True
  have "abs_path (u # us) \<noteq> abs_path []" if "normal_component u" for u us
    using that by (cases us) (auto simp: abs_path_def normal_component_def)
  with True assms show ?thesis by (cases ws; cases vs) (auto dest: sym)
next
  case False
  then show ?thesis using split_abs_path assms by (metis list.inject)
qed

lemma path_below_abs:
  assumes "list_all normal_component ws" "list_all normal_component vs" "ws \<noteq> []"
  shows "path_below (abs_path ws) (abs_path vs) \<longleftrightarrow> (\<exists>zs. vs = ws @ zs)"
proof
  assume below: "path_below (abs_path ws) (abs_path vs)"
  show "\<exists>zs. vs = ws @ zs"
  proof (cases "abs_path vs = abs_path ws")
    case True
    then show ?thesis using abs_path_inj[OF assms(2,1)] by simp
  next
    case False
    then obtain z where z: "abs_path vs = abs_path ws @ CHR ''/'' # z"
      using below by (auto simp: path_below_def has_prefix_iff)
    have "vs \<noteq> []" using z assms(3) by (cases ws) (auto simp: abs_path_def)
    then have "[] # vs = ([] # ws) @ split_on CHR ''/'' z"
      using split_abs_path[OF assms(1,3)] split_abs_path[OF assms(2)] by (simp add: z split_on_two)
    then show ?thesis by auto
  qed
next
  assume "\<exists>zs. vs = ws @ zs"
  then obtain zs where zs: "vs = ws @ zs" by blast
  show "path_below (abs_path ws) (abs_path vs)"
  proof (cases zs)
    case (Cons w us)
    have "join_with ''/'' (ws @ w # us) = join_with ''/'' ws @ CHR ''/'' # join_with ''/'' (w # us)"
      using assms(3) by (induction ws rule: induct_list012) auto
    then show ?thesis using zs Cons by (auto simp: path_below_def abs_path_def has_prefix_iff)
  qed (simp add: zs path_below_def)
qed

text \<open>Normal components joined to an absolute path are appended to its components.\<close>

lemma path_join_normal:
  assumes "is_abs base" "list_all normal_component ns"
  shows "path_join (base # ns) = abs_path (clean_components base @ ns)"
proof -
  have base: "base \<noteq> []" using assms(1) by (auto simp: is_abs_def has_prefix_def)
  have split: "split_on CHR ''/'' (join_with ''/'' (base # ns)) = split_on CHR ''/'' base @ ns"
  proof (cases ns)
    case (Cons n us)
    have "split_on CHR ''/'' (join_with ''/'' (n # us)) = n # us"
      using assms(2) unfolding Cons
      by (induction us arbitrary: n) (auto simp: split_on_single split_on_append normal_component_def)
    then show ?thesis by (simp add: Cons split_on_two)
  qed simp
  have abs: "is_abs (join_with ''/'' (base # ns))" using assms(1) by (cases ns) (auto simp: is_abs_def has_prefix_iff)
  have "clean_components (join_with ''/'' (base # ns)) = clean_components base @ filter (\<lambda>w. w \<noteq> []) ns"
    using abs assms split
    by (simp add: clean_components_def clean_step_append clean_step_keeps list_all_iff)
  moreover have "filter (\<lambda>w. w \<noteq> []) (base # ns) = base # ns" "filter (\<lambda>w. w \<noteq> []) ns = ns"
    using assms(2) base by (auto simp: filter_nonempty_normal)
  ultimately show ?thesis using abs by (simp add: path_join_def path_clean_abs)
qed

lemma ValidateName_normal: "ValidateName n \<Longrightarrow> normal_component n"
proof -
  assume v: "ValidateName n"
  then have "c \<in> set n \<Longrightarrow> is_lower_alnum c \<or> c = CHR ''-''" for c by (auto simp: ValidateName_def list_all_iff)
  moreover have "\<not> is_lower_alnum CHR ''/''" "\<not> is_lower_alnum CHR ''.''" by code_simp+
  ultimately have "CHR ''/'' \<notin> set n" "CHR ''.'' \<notin> set n" by auto
  then show ?thesis using v by (auto simp: normal_component_def ValidateName_def)
qed

subsection \<open>The layout\<close>

text \<open>The backups lie below the base path, and the first directory on the way to them is not the project's.\<close>

definition layout_ok :: "Config \<Rightarrow> string \<Rightarrow> bool" where
  "layout_ok cfg name \<longleftrightarrow>
     (let base = sc_BasePath (cfg_Server cfg); backups = bc_BasePath (cfg_Backup cfg);
          ws = clean_components base; bs = clean_components backups
      in is_abs base \<and> is_abs backups \<and> take (length ws) bs = ws \<and> take 1 (drop (length ws) bs) \<noteq> [name])"

definition backup_dir :: "Config \<Rightarrow> string \<Rightarrow> string \<Rightarrow> string" where
  "backup_dir cfg name bid = path_join [bc_BasePath (cfg_Backup cfg), name, bid]"

lemma layout_apart:
  assumes "layout_ok cfg n" "normal_component n" "normal_component q" "n \<noteq> q" "normal_component i" "normal_component j"
  shows "\<not> path_below (ProjectPath cfg n) (ProjectPath cfg q)"
    and "\<not> path_below (ProjectPath cfg n) (backup_dir cfg q j)"
    and "\<not> path_below (backup_dir cfg n i) (ProjectPath cfg q)"
    and "\<not> path_below (backup_dir cfg n i) (backup_dir cfg q j)"
    and "ProjectPath cfg n \<noteq> ProjectPath cfg q" and "backup_dir cfg n i \<noteq> backup_dir cfg q j"
proof -
  let ?ws = "clean_components (sc_BasePath (cfg_Server cfg))" and ?bs = "clean_components (bc_BasePath (cfg_Backup cfg))"
  have abs: "is_abs (sc_BasePath (cfg_Server cfg))" "is_abs (bc_BasePath (cfg_Backup cfg))"
    and shape: "take (length ?ws) ?bs = ?ws" "take 1 (drop (length ?ws) ?bs) \<noteq> [n]"
    using assms(1) by (simp_all add: layout_ok_def Let_def)
  obtain cs where cs: "?bs = ?ws @ cs" using shape(1) by (metis append_take_drop_id)
  have hd: "cs = [] \<or> hd cs \<noteq> n" using shape(2) cs by (cases cs) auto
  have normal: "list_all normal_component (?ws @ [x])" "list_all normal_component (?bs @ [x, y])"
    if "normal_component x" "normal_component y" for x y
    using that clean_components_normal[OF abs(1)] clean_components_normal[OF abs(2)] by simp_all
  have dirs: "ProjectPath cfg x = abs_path (?ws @ [x])" "backup_dir cfg x y = abs_path (?bs @ [x, y])"
    if "normal_component x" "normal_component y" for x y
    using that path_join_normal[OF abs(1), of "[x]"] path_join_normal[OF abs(2), of "[x, y]"]
    by (simp_all add: ProjectPath_def backup_dir_def)
  note n = dirs[OF assms(2,5)] and q = dirs[OF assms(3,6)]
  have ne: "?ws @ [n] \<noteq> []" "?bs @ [n, i] \<noteq> []" by simp_all
  show "\<not> path_below (ProjectPath cfg n) (ProjectPath cfg q)"
    using assms(4) unfolding n q by (subst path_below_abs[OF normal(1)[OF assms(2,5)] normal(1)[OF assms(3,6)] ne(1)]) auto
  show "\<not> path_below (ProjectPath cfg n) (backup_dir cfg q j)"
    using assms(4) hd unfolding n q
    by (subst path_below_abs[OF normal(1)[OF assms(2,5)] normal(2)[OF assms(3,6)] ne(1)]) (cases cs; auto simp: cs)
  show "\<not> path_below (backup_dir cfg n i) (ProjectPath cfg q)"
    unfolding n q by (subst path_below_abs[OF normal(2)[OF assms(2,5)] normal(1)[OF assms(3,6)] ne(2)]) (auto simp: cs)
  show "\<not> path_below (backup_dir cfg n i) (backup_dir cfg q j)"
    using assms(4) unfolding n q
    by (subst path_below_abs[OF normal(2)[OF assms(2,5)] normal(2)[OF assms(3,6)] ne(2)]) auto
  then show "backup_dir cfg n i \<noteq> backup_dir cfg q j" by (auto simp: path_below_def)
  show "ProjectPath cfg n \<noteq> ProjectPath cfg q"
    using \<open>\<not> path_below (ProjectPath cfg n) (ProjectPath cfg q)\<close> by (auto simp: path_below_def)
qed

end
