(* ===== verification/Server_Api_Safety.thy ===== *)
theory Server_Api_Safety
  imports Server_Layout
begin

text \<open>What the API of \<open>Server_Api\<close> guarantees, and two ways in which it loses files.\<close>

subsection \<open>What the helpers change\<close>

lemma docker_in_world:
  "docker_in h d args w = (ok, out, w') \<Longrightarrow> w' = w\<lparr>aw_docker := aw_docker w @ [(d, args)]\<rparr>"
  by (auto simp: docker_in_def split: prod.splits)

lemma docker_in_snd [simp]:
  "snd (snd (docker_in h d args w)) = w\<lparr>aw_docker := aw_docker w @ [(d, args)]\<rparr>"
  by (auto simp: docker_in_def split: prod.splits)

lemma countContainers_world:
  assumes "countContainers h d w = (n, w')"
  shows "\<exists>log. w' = w\<lparr>aw_docker := log\<rparr>"
  using assms by (auto simp: countContainers_def Let_def split: prod.splits bool.splits dest!: docker_in_world)

lemma project_views_world: "project_views h ps w = (vs, w') \<Longrightarrow> \<exists>log. w' = w\<lparr>aw_docker := log\<rparr>"
proof (induction h ps w arbitrary: vs w' rule: project_views.induct)
  case (1 h w)
  then show ?case by (auto intro: exI[of _ "aw_docker w"])
next
  case (2 h p ps w)
  obtain r cnt w1 where c: "countContainers h (pj_ProjectPath p) w = ((r, cnt), w1)" by (metis prod.exhaust)
  obtain vs1 w2 where v: "project_views h ps w1 = (vs1, w2)" by (metis prod.exhaust)
  obtain log where "w1 = w\<lparr>aw_docker := log\<rparr>" using countContainers_world[OF c] by blast
  moreover obtain log' where "w2 = w1\<lparr>aw_docker := log'\<rparr>" using 2(1)[OF c[symmetric] refl v] by blast
  ultimately show ?case using 2(2) c v by auto
qed

lemmas world_changes = docker_in_world countContainers_world project_views_world

text \<open>A statement that failed left the registry alone.\<close>

lemma failed_statements:
  "CreateProject up now fresh p db = (Some e, db') \<Longrightarrow> db' = db"
  "UpdateProject up now p db = (Some e, db') \<Longrightarrow> db' = db"
  "CreateServer up now fresh s db = (Some e, db') \<Longrightarrow> db' = db"
  "DeleteBackupRecord up bid db = (Some e, db') \<Longrightarrow> db' = db"
  by (auto simp: CreateProject_def UpdateProject_def CreateServer_def DeleteBackupRecord_def Let_def count_where_0 update_where_none
      split: if_splits)

lemma failed_deletes:
  "DeleteProject ups name db = (Some e, db') \<Longrightarrow> db' = db"
  "DeleteServer ups name db = (Some e, db') \<Longrightarrow> db' = db"
  subgoal by (erule DeleteProject_cases) auto
  subgoal by (auto simp: DeleteServer_def Let_def count_where_0 filter_id_conv split: if_splits)
  done

lemma failed_backup:
  "CreateBackup bh sha enc src proj dst cfg p ty tr opts bid now stamp up (store, db) = (Inl e, store', db') \<Longrightarrow> db' = db"
  by (auto simp: CreateBackup_def CreateBackupRecord_def Let_def split: prod.splits option.splits if_splits)

lemma remove_all_keeps [simp]:
  "aw_db (remove_all h d w) = aw_db w" "aw_audit (remove_all h d w) = aw_audit w"
  by (simp_all add: remove_all_def)

subsection \<open>Errors\<close>

lemma create_commit_error:
  assumes "create_commit h cfg x w = (ApiError c m, w')"
  shows "aw_db w' = aw_db w \<and> aw_audit w' = aw_audit w \<and> c = 500"
  using assms
  by (auto simp: create_commit_def Let_def split: prod.splits option.splits dest: failed_statements)

lemma handler_errors:
  "handleListProjects h w = (ApiError c m, w') \<Longrightarrow> w' = w"
  "handleGetProject h name w = (ApiError c m, w') \<Longrightarrow> w' = w"
  "handleListBackups h name w = (ApiError c m, w') \<Longrightarrow> w' = w"
  "handleListDeployments h name q w = (ApiError c m, w') \<Longrightarrow> w' = w"
  "handleAuditLog h cfg q w = (ApiError c m, w') \<Longrightarrow> w' = w"
  "handleListServers h w = (ApiError c m, w') \<Longrightarrow> w' = w"
  "handleCreateServer h b w = (ApiError c m, w') \<Longrightarrow> w' = w"
  "handleDeleteServer h name w = (ApiError c m, w') \<Longrightarrow> w' = w"
  "handleCheckServer h name w = (ApiError c m, w') \<Longrightarrow> w' = w"
  "handleUpdateProjectDomain h name b w = (ApiError c m, w') \<Longrightarrow> w' = w"
  "handleProjectLogs h name q w = (ApiError c m, w') \<Longrightarrow> w' = w"
  by (auto simp: handleListProjects_def handleGetProject_def handleListBackups_def handleListDeployments_def
      handleAuditLog_def handleListServers_def handleCreateServer_def handleDeleteServer_def handleCheckServer_def
      handleUpdateProjectDomain_def handleProjectLogs_def with_project_def Let_def
      split: sum.splits prod.splits if_splits option.splits dest: failed_statements failed_deletes)

text \<open>The handlers that can fail after they began: the registry and the log are as they were.\<close>

definition undone :: "nat \<Rightarrow> api_world \<Rightarrow> api_world \<Rightarrow> bool" where
  "undone c w w' \<longleftrightarrow> aw_db w' = aw_db w \<and> aw_audit w' = aw_audit w \<and> (c < 500 \<longrightarrow> w' = w)"

lemma effect_errors:
  "handleCreateProject h cfg b w = (ApiError c m, w') \<Longrightarrow> undone c w w'"
  "handleDeleteProject h name k w = (ApiError c m, w') \<Longrightarrow> undone c w w'"
  "handleStartProject h name w = (ApiError c m, w') \<Longrightarrow> undone c w w'"
  "handleStopProject h name w = (ApiError c m, w') \<Longrightarrow> undone c w w'"
  "handleRestartProject h name w = (ApiError c m, w') \<Longrightarrow> undone c w w'"
  "handleCreateBackup h cfg name w = (ApiError c m, w') \<Longrightarrow> undone c w w'"
  "handleRestoreBackup h name bid w = (ApiError c m, w') \<Longrightarrow> undone c w w'"
  "handleDeleteBackup h name bid w = (ApiError c m, w') \<Longrightarrow> undone c w w'"
  "handleListVolumes h w = (ApiError c m, w') \<Longrightarrow> undone c w w'"
  "handleDeleteVolume h name w = (ApiError c m, w') \<Longrightarrow> undone c w w'"
  subgoal by (auto simp: undone_def handleCreateProject_def split: sum.splits dest!: create_commit_error)
  subgoal by (auto simp: undone_def handleDeleteProject_def with_project_def Let_def
        split: sum.splits prod.splits if_splits option.splits dest!: failed_deletes)
  subgoal by (auto simp: undone_def handleStartProject_def with_project_def
        split: sum.splits prod.splits if_splits option.splits bool.splits dest!: docker_in_world)
  subgoal by (auto simp: undone_def handleStopProject_def with_project_def
        split: sum.splits prod.splits if_splits bool.splits dest!: docker_in_world)
  subgoal by (auto simp: undone_def handleRestartProject_def with_project_def
        split: sum.splits prod.splits if_splits bool.splits dest!: docker_in_world)
  subgoal by (auto simp: undone_def handleCreateBackup_def with_project_def Let_def
        split: sum.splits prod.splits if_splits dest!: failed_backup)
  subgoal by (auto simp: undone_def handleRestoreBackup_def with_project_def with_backup_def Let_def
        split: sum.splits prod.splits if_splits option.splits)
  subgoal by (auto simp: undone_def handleDeleteBackup_def with_project_def with_backup_def Let_def
        split: sum.splits prod.splits if_splits option.splits dest!: failed_statements)
  subgoal by (auto simp: undone_def handleListVolumes_def split: prod.splits bool.splits dest!: docker_in_world)
  subgoal by (auto simp: undone_def handleDeleteVolume_def split: prod.splits bool.splits if_splits dest!: docker_in_world)
  done

text \<open>
  C32. An error of the API is a promise: whatever the request, an answer with an error leaves the registry and the audit log
  as they were, and an error below 500 leaves everything alone: no command ran, no file and no network changed.
\<close>

theorem api_errors_undone:
  assumes "api_handle h cfg req w = (ApiError c m, w')"
  shows "aw_db w' = aw_db w \<and> aw_audit w' = aw_audit w \<and> (c < 500 \<longrightarrow> w' = w)"
proof -
  have "w' = w \<or> undone c w w'"
    by (cases req) (use assms in \<open>auto simp: api_handle_def dest: handler_errors effect_errors\<close>)
  then show ?thesis by (auto simp: undone_def)
qed

subsection \<open>What the registry holds\<close>

text \<open>The rows the API makes: a project is named, placed and owned by its name, a backup lies in the directory of its
  project and its id, a server has a valid name and an address.\<close>

definition project_typed :: "Config \<Rightarrow> project_row \<Rightarrow> bool" where
  "project_typed cfg p \<longleftrightarrow> ValidateName (pj_Name p) \<and> pj_Domain p \<noteq> [] \<and> pj_ProjectPath p = ProjectPath cfg (pj_Name p)
     \<and> pj_LinuxUser p = LinuxUserName (pj_Name p) \<and> pj_Status p \<in> {''created'', ''running'', ''stopped''}
     \<and> pj_Source p = ''created''"

definition backup_typed :: "Config \<Rightarrow> fleet_db \<Rightarrow> backup_row \<Rightarrow> bool" where
  "backup_typed cfg db b \<longleftrightarrow> bk_Type b \<in> {''manual'', ''snapshot''} \<and> normal_component (bk_ID b)
     \<and> (\<exists>n. (bk_ProjectID b, n) \<in> (\<lambda>p. (pj_ID p, pj_Name p)) ` set (db_projects db) \<and> bk_Path b = backup_dir cfg n (bk_ID b))"

definition server_typed :: "server_row \<Rightarrow> bool" where
  "server_typed s \<longleftrightarrow> validServerName (sv_Name s) \<and> sv_Host s \<noteq> [] \<and> sv_Port s \<noteq> [] \<and> sv_User s \<noteq> []
     \<and> sv_Status s \<in> {''active'', ''unreachable''}"

definition registry_typed :: "Config \<Rightarrow> fleet_db \<Rightarrow> bool" where
  "registry_typed cfg db \<longleftrightarrow> fleet_inv db \<and> (\<forall>p \<in> set (db_projects db). project_typed cfg p)
     \<and> (\<forall>b \<in> set (db_backups db). backup_typed cfg db b) \<and> (\<forall>s \<in> set (db_servers db). server_typed s)"

text \<open>What a request can do to the registry.\<close>

inductive registry_change :: "Config \<Rightarrow> fleet_db \<Rightarrow> fleet_db \<Rightarrow> bool" for cfg where
  Same: "registry_change cfg db db"
| Created: "ValidateName (pb_Name req) \<Longrightarrow> pb_Domain req \<noteq> []
    \<Longrightarrow> CreateProject up now fresh (new_project h cfg req) db = (e, db') \<Longrightarrow> registry_change cfg db db'"
| Status: "status \<in> {''running'', ''stopped''} \<Longrightarrow> UpdateProjectStatus up now name status db = (e, db')
    \<Longrightarrow> registry_change cfg db db'"
| Domain: "p \<in> set (db_projects db) \<Longrightarrow> d \<noteq> [] \<Longrightarrow> UpdateProject up now (p\<lparr>pj_Domain := d\<rparr>) db = (e, db')
    \<Longrightarrow> registry_change cfg db db'"
| Deleted: "DeleteProject ups name db = (e, db') \<Longrightarrow> registry_change cfg db db'"
| BackedUp: "p \<in> set (db_projects db) \<Longrightarrow> normal_component bid
    \<Longrightarrow> CreateBackup bh sha enc src proj dst (cfg_Backup cfg) p ''manual'' ''api'' opts bid now stamp up (store, db) = (r, store', db')
    \<Longrightarrow> registry_change cfg db db'"
| Forgotten: "DeleteBackupRecord up bid db = (e, db') \<Longrightarrow> registry_change cfg db db'"
| ServerAdded: "validServerName (sv_Name s) \<Longrightarrow> sv_Host s \<noteq> [] \<Longrightarrow> sv_User s \<noteq> [] \<Longrightarrow> sv_Status s = []
    \<Longrightarrow> CreateServer up now fresh s db = (e, db') \<Longrightarrow> registry_change cfg db db'"
| ServerDeleted: "DeleteServer ups name db = (e, db') \<Longrightarrow> registry_change cfg db db'"
| ServerChecked: "status \<in> {''active'', ''unreachable''} \<Longrightarrow> UpdateServerStatus up now name status db = (e, db')
    \<Longrightarrow> registry_change cfg db db'"

lemma found_project: "GetProject up name db = Inr p \<Longrightarrow> p \<in> set (db_projects db) \<and> pj_Name p = name"
  by (auto simp: GetProject_def find_Some_iff split: if_splits option.splits)

lemma create_check_ok:
  assumes "create_check h body w = Inr (req, tmpl)"
  shows "ValidateName (pb_Name req) \<and> pb_Domain req \<noteq> []
    \<and> (\<exists>r. ap_project_body h body = Some r \<and> pb_Name req = pb_Name r)"
  using assms by (auto simp: create_check_def Let_def split: option.splits if_splits sum.splits)

lemma create_commit_change:
  assumes "create_commit h cfg (req, tmpl) w = (a, w')" "ValidateName (pb_Name req)" "pb_Domain req \<noteq> []"
  shows "registry_change cfg (aw_db w) (aw_db w')"
proof -
  let ?p = "new_project h cfg req"
  obtain e db where c: "CreateProject (ap_up h 1) (ap_now h) (ap_fresh h) ?p (aw_db w) = (e, db)" by (metis prod.exhaust)
  have "aw_db w' = aw_db w \<or> aw_db w' = db"
    using assms(1) c by (auto simp: create_commit_def audited_def Let_def split: prod.splits option.splits
        dest!: countContainers_world)
  then show ?thesis using registry_change.Same registry_change.Created[OF assms(2,3) c] by auto
qed

lemma set_status_db:
  "\<exists>e. UpdateProjectStatus (ap_up h k) (ap_now h) name status (aw_db w) = (e, aw_db (set_status h k name status w))"
  by (simp add: set_status_def split: prod.splits)

lemma set_status_change:
  "status \<in> {''running'', ''stopped''} \<Longrightarrow> aw_db w1 = db \<Longrightarrow> registry_change cfg db (aw_db (set_status h k name status w1))"
  using set_status_db registry_change.Status by blast

lemma new_server_change:
  "CreateServer up now fresh (new_server req) db = (e, db') \<Longrightarrow> validServerName (sb_Name req) \<Longrightarrow> sb_Host req \<noteq> []
    \<Longrightarrow> registry_change cfg db db'"
  by (rule registry_change.ServerAdded[of "new_server req"]) (auto simp: new_server_def or_default_def)

lemma handler_changes:
  "handleCreateProject h cfg b w = (a, w') \<Longrightarrow> registry_change cfg (aw_db w) (aw_db w')"
  "handleDeleteProject h name k w = (a, w') \<Longrightarrow> registry_change cfg (aw_db w) (aw_db w')"
  "handleStartProject h name w = (a, w') \<Longrightarrow> registry_change cfg (aw_db w) (aw_db w')"
  "handleStopProject h name w = (a, w') \<Longrightarrow> registry_change cfg (aw_db w) (aw_db w')"
  "handleUpdateProjectDomain h name b w = (a, w') \<Longrightarrow> registry_change cfg (aw_db w) (aw_db w')"
  "handleCreateBackup h cfg name w = (a, w') \<Longrightarrow> normal_component (rc_id (ap_recovery h))
     \<Longrightarrow> registry_change cfg (aw_db w) (aw_db w')"
  "handleRestoreBackup h name bid w = (a, w') \<Longrightarrow> registry_change cfg (aw_db w) (aw_db w')"
  "handleDeleteBackup h name bid w = (a, w') \<Longrightarrow> registry_change cfg (aw_db w) (aw_db w')"
  "handleCreateServer h b w = (a, w') \<Longrightarrow> registry_change cfg (aw_db w) (aw_db w')"
  "handleDeleteServer h name w = (a, w') \<Longrightarrow> registry_change cfg (aw_db w) (aw_db w')"
  "handleCheckServer h name w = (a, w') \<Longrightarrow> registry_change cfg (aw_db w) (aw_db w')"
  subgoal by (auto simp: handleCreateProject_def split: sum.splits intro: registry_change.Same create_commit_change
        dest: create_check_ok)
  subgoal
    apply (simp add: handleDeleteProject_def with_project_def Let_def split: sum.splits if_splits option.splits prod.splits)
    apply (auto simp: audited_def intro: registry_change.Same registry_change.Deleted)
    done
  subgoal by (auto simp: handleStartProject_def with_project_def registry_change.Same
        split: sum.splits prod.splits if_splits option.splits bool.splits dest!: docker_in_world intro!: set_status_change)
  subgoal by (auto simp: handleStopProject_def with_project_def registry_change.Same
        split: sum.splits prod.splits if_splits bool.splits dest!: docker_in_world intro!: set_status_change)
  subgoal by (auto simp: handleUpdateProjectDomain_def with_project_def audited_def
        split: sum.splits prod.splits if_splits option.splits dest!: found_project
        intro: registry_change.Same registry_change.Domain)
  subgoal by (auto simp: handleCreateBackup_def with_project_def audited_def Let_def
        split: sum.splits prod.splits if_splits option.splits dest!: found_project
        intro: registry_change.Same registry_change.BackedUp)
  subgoal by (auto simp: handleRestoreBackup_def with_project_def with_backup_def audited_def Let_def registry_change.Same
        split: sum.splits prod.splits if_splits option.splits intro!: set_status_change)
  subgoal by (auto simp: handleDeleteBackup_def with_project_def with_backup_def audited_def Let_def
        split: sum.splits prod.splits if_splits option.splits intro: registry_change.Same registry_change.Forgotten)
  subgoal by (auto simp: handleCreateServer_def audited_def registry_change.Same split: prod.splits if_splits option.splits
        intro: new_server_change)
  subgoal by (auto simp: handleDeleteServer_def audited_def registry_change.Same split: prod.splits if_splits option.splits
        intro: registry_change.ServerDeleted)
  subgoal by (auto simp: handleCheckServer_def Let_def registry_change.Same split: sum.splits prod.splits if_splits
        intro: registry_change.ServerChecked[rotated])
  done

lemma readers_keep_registry:
  "handleListProjects h w = (a, w') \<Longrightarrow> aw_db w' = aw_db w" "handleGetProject h name w = (a, w') \<Longrightarrow> aw_db w' = aw_db w"
  "handleRestartProject h name w = (a, w') \<Longrightarrow> aw_db w' = aw_db w"
  "handleProjectLogs h name q w = (a, w') \<Longrightarrow> aw_db w' = aw_db w"
  "handleListBackups h name w = (a, w') \<Longrightarrow> aw_db w' = aw_db w"
  "handleListDeployments h name q w = (a, w') \<Longrightarrow> aw_db w' = aw_db w"
  "handleAuditLog h cfg q w = (a, w') \<Longrightarrow> aw_db w' = aw_db w" "handleListServers h w = (a, w') \<Longrightarrow> aw_db w' = aw_db w"
  "handleListVolumes h w = (a, w') \<Longrightarrow> aw_db w' = aw_db w" "handleDeleteVolume h name w = (a, w') \<Longrightarrow> aw_db w' = aw_db w"
  by (auto simp: handleListProjects_def handleGetProject_def handleRestartProject_def handleProjectLogs_def
      handleListBackups_def handleListDeployments_def handleAuditLog_def handleListServers_def handleListVolumes_def
      handleDeleteVolume_def with_project_def audited_def Let_def
      split: sum.splits prod.splits if_splits option.splits bool.splits
      dest!: countContainers_world project_views_world docker_in_world)

lemma api_handle_change:
  assumes "api_handle h cfg req w = (a, w')" "normal_component (rc_id (ap_recovery h))"
  shows "registry_change cfg (aw_db w) (aw_db w')"
  by (cases req) (use assms in \<open>auto simp: api_handle_def registry_change.Same dest!: readers_keep_registry dest: handler_changes\<close>)

subsection \<open>The types of the rows\<close>

definition project_keys :: "fleet_db \<Rightarrow> (string \<times> string) set" where
  "project_keys db = (\<lambda>p. (pj_ID p, pj_Name p)) ` set (db_projects db)"

lemma backup_typed_keys:
  "backup_typed cfg db b \<Longrightarrow> (\<And>n. (bk_ProjectID b, n) \<in> project_keys db \<Longrightarrow> (bk_ProjectID b, n) \<in> project_keys db')
    \<Longrightarrow> backup_typed cfg db' b"
  unfolding backup_typed_def project_keys_def by blast

lemma registry_typed_step:
  assumes "registry_typed cfg db" "fleet_inv db'"
    and "\<And>p. p \<in> set (db_projects db') \<Longrightarrow> project_typed cfg p"
    and "\<And>b. b \<in> set (db_backups db') \<Longrightarrow> b \<in> set (db_backups db) \<and> (\<forall>n. (bk_ProjectID b, n) \<in> project_keys db \<longrightarrow> (bk_ProjectID b, n) \<in> project_keys db')
      \<or> backup_typed cfg db' b"
    and "\<And>s. s \<in> set (db_servers db') \<Longrightarrow> server_typed s"
  shows "registry_typed cfg db'"
proof -
  have "backup_typed cfg db' b" if "b \<in> set (db_backups db')" for b
    using assms(4)[OF that] assms(1) backup_typed_keys[of cfg db b db'] unfolding registry_typed_def by blast
  then show ?thesis using assms(2,3,5) unfolding registry_typed_def by blast
qed

lemma typed_created:
  assumes "registry_typed cfg db" "CreateProject up now fresh (new_project h cfg req) db = (e, db')"
    "ValidateName (pb_Name req)" "pb_Domain req \<noteq> []"
  shows "registry_typed cfg db'"
proof (cases e)
  case None
  then have rows: "db_projects db' = db_projects db @ [(new_project h cfg req)\<lparr>pj_ID := fresh, pj_CreatedAt := now, pj_UpdatedAt := now\<rparr>]"
    "db_backups db' = db_backups db" "db_servers db' = db_servers db"
    using assms(2) by (auto simp: CreateProject_def new_project_def or_default_def Let_def split: if_splits)
  have inv: "fleet_inv db'" using CreateProject_inv[OF assms(2)] assms(1) by (simp add: registry_typed_def)
  show ?thesis
    by (rule registry_typed_step[OF assms(1) inv])
      (use assms in \<open>auto simp: rows project_keys_def registry_typed_def project_typed_def new_project_def\<close>)
next
  case (Some x)
  then show ?thesis using failed_statements(1)[OF assms(2)[unfolded Some]] assms(1) by simp
qed

lemma typed_updated:
  assumes "registry_typed cfg db" "fleet_inv (db\<lparr>db_projects := update_where sel u (db_projects db)\<rparr>)"
    "\<And>q. q \<in> set (db_projects db) \<Longrightarrow> sel q \<Longrightarrow> project_typed cfg (u q) \<and> pj_ID (u q) = pj_ID q \<and> pj_Name (u q) = pj_Name q"
  shows "registry_typed cfg (db\<lparr>db_projects := update_where sel u (db_projects db)\<rparr>)"
proof (rule registry_typed_step[OF assms(1,2)])
  let ?u = "\<lambda>q. if sel q then u q else q"
  have same: "(pj_ID (?u q), pj_Name (?u q)) = (pj_ID q, pj_Name q)" if "q \<in> set (db_projects db)" for q
    using assms(3)[OF that] by simp
  have keys: "project_keys (db\<lparr>db_projects := update_where sel u (db_projects db)\<rparr>) = project_keys db"
  proof -
    have "map (\<lambda>p. (pj_ID p, pj_Name p)) (map ?u (db_projects db)) = map (\<lambda>p. (pj_ID p, pj_Name p)) (db_projects db)"
      unfolding map_map by (rule map_cong[OF refl]) (use same in simp)
    then have "set (map (\<lambda>p. (pj_ID p, pj_Name p)) (map ?u (db_projects db))) = set (map (\<lambda>p. (pj_ID p, pj_Name p)) (db_projects db))"
      by (rule arg_cong)
    note keys = this
    have rows: "db_projects (db\<lparr>db_projects := update_where sel u (db_projects db)\<rparr>) = map ?u (db_projects db)"
      by (simp add: update_where_def)
    show ?thesis using keys unfolding project_keys_def rows set_map[of "\<lambda>p. (pj_ID p, pj_Name p)"] .
  qed
  show "project_typed cfg p" if "p \<in> set (db_projects (db\<lparr>db_projects := update_where sel u (db_projects db)\<rparr>))" for p
    using that assms(1,3) by (auto simp: registry_typed_def update_where_def)
  show "b \<in> set (db_backups db) \<and> (\<forall>n. (bk_ProjectID b, n) \<in> project_keys db \<longrightarrow>
      (bk_ProjectID b, n) \<in> project_keys (db\<lparr>db_projects := update_where sel u (db_projects db)\<rparr>))
      \<or> backup_typed cfg (db\<lparr>db_projects := update_where sel u (db_projects db)\<rparr>) b"
    if "b \<in> set (db_backups (db\<lparr>db_projects := update_where sel u (db_projects db)\<rparr>))" for b
    using that keys by simp
  show "server_typed s" if "s \<in> set (db_servers (db\<lparr>db_projects := update_where sel u (db_projects db)\<rparr>))" for s
    using that assms(1) by (simp add: registry_typed_def)
qed

lemma typed_deleted:
  assumes "registry_typed cfg db" "DeleteProject ups name db = (e, db')"
  shows "registry_typed cfg db'"
  using assms(2)
proof (cases rule: DeleteProject_cases)
  case (deleted p)
  have rows: "db_projects db' = filter (\<lambda>q. pj_ID q \<noteq> pj_ID p) (db_projects db)"
    "db_backups db' = filter (\<lambda>b. bk_ProjectID b \<noteq> pj_ID p) (db_backups db)" "db_servers db' = db_servers db"
    by (simp_all add: deleted(4) delete_dependents_def)
  have inv: "fleet_inv db'" using DeleteProject_inv[OF assms(2)] assms(1) by (simp add: registry_typed_def)
  show ?thesis
    by (rule registry_typed_step[OF assms(1) inv]) (use assms(1) in \<open>auto simp: rows registry_typed_def project_keys_def\<close>)
qed (use assms in simp)

lemma CreateBackup_row:
  assumes "CreateBackup bh sha enc src proj dst bc p ty tr opts bid now stamp up (store, db) = (r, store', db')" "bid \<noteq> []"
  obtains (failed) "db' = db"
  | (recorded) row where "bk_ID row = bid" "bk_ProjectID row = pj_ID p" "bk_Type row = or_default ''manual'' ty"
      "bk_Path row = path_join [bc_BasePath bc, pj_Name p, bid]" "db' = db\<lparr>db_backups := db_backups db @ [row]\<rparr>"
      "fleet_inv db \<Longrightarrow> fleet_inv db'"
proof (cases "db' = db")
  case False
  then obtain row0 e where rec: "CreateBackupRecord up now bid row0 db = (e, db')"
      and row0: "bk_ID row0 = bid" "bk_ProjectID row0 = pj_ID p" "bk_Type row0 = ty"
        "bk_Path row0 = path_join [bc_BasePath bc, pj_Name p, bid]"
    using assms(1) by (auto simp: CreateBackup_def Let_def split: prod.splits option.splits if_splits)
  from rec False have "db' = db\<lparr>db_backups := db_backups db @ [row0\<lparr>bk_ID := or_default bid (bk_ID row0), bk_CreatedAt := now,
      bk_Type := or_default ''manual'' (bk_Type row0), bk_Trigger := or_default ''user'' (bk_Trigger row0)\<rparr>]\<rparr>"
    by (auto simp: CreateBackupRecord_def Let_def split: if_splits)
  then show thesis using row0 assms(2) CreateBackupRecord_inv[OF rec]
    by (intro recorded) (simp_all add: or_default_def)
qed (rule failed)

lemma typed_backed_up:
  assumes "registry_typed cfg db" "p \<in> set (db_projects db)" "normal_component bid"
    "CreateBackup bh sha enc src proj dst (cfg_Backup cfg) p ''manual'' ''api'' opts bid now stamp up (store, db) = (r, store', db')"
  shows "registry_typed cfg db'"
proof -
  have bid: "bid \<noteq> []" using assms(3) by (simp add: normal_component_def)
  from assms(4) bid show ?thesis
  proof (cases rule: CreateBackup_row)
    case (recorded row)
    have inv: "fleet_inv db'" using recorded(6) assms(1) by (simp add: registry_typed_def)
    have "backup_typed cfg db' row"
      using recorded assms(2,3) by (auto simp: backup_typed_def backup_dir_def or_default_def)
    then show ?thesis
      by (intro registry_typed_step[OF assms(1) inv])
        (use assms(1) in \<open>auto simp: recorded(5) registry_typed_def project_keys_def\<close>)
  qed (use assms(1) in simp)
qed

lemma registry_change_typed:
  assumes "registry_change cfg db db'" "registry_typed cfg db"
  shows "registry_typed cfg db'"
  using assms
proof cases
  case (Created req up now fresh h e)
  then show ?thesis using typed_created assms(2) by blast
next
  case (Status status up now name e)
  have "fleet_inv db'" using UpdateProjectStatus_inv[OF Status(2)] assms(2) by (simp add: registry_typed_def)
  moreover have "db' = db \<or> db' = db\<lparr>db_projects := update_where (\<lambda>p. pj_Name p = name)
      (\<lambda>p. p\<lparr>pj_Status := status, pj_UpdatedAt := now\<rparr>) (db_projects db)\<rparr>"
    using Status(2) by (auto simp: UpdateProjectStatus_def Let_def split: if_splits)
  moreover have "project_typed cfg (q\<lparr>pj_Status := status, pj_UpdatedAt := now\<rparr>)" if "q \<in> set (db_projects db)" for q
    using that Status(1) assms(2) by (auto simp: registry_typed_def project_typed_def)
  ultimately show ?thesis using assms(2) typed_updated[OF assms(2)] by auto
next
  case (Domain p d up now e)
  let ?u = "\<lambda>q. p\<lparr>pj_Domain := d, pj_ID := pj_ID q, pj_CreatedAt := pj_CreatedAt q, pj_UpdatedAt := now\<rparr>"
  have "fleet_inv db'" using UpdateProject_inv[OF Domain(3)] assms(2) by (simp add: registry_typed_def)
  moreover have "db' = db \<or> db' = db\<lparr>db_projects := update_where (\<lambda>q. pj_Name q = pj_Name p) ?u (db_projects db)\<rparr>"
    using Domain(3) by (auto simp: UpdateProject_def Let_def split: if_splits)
  moreover have "project_typed cfg (?u q)" for q
    using Domain(1,2) assms(2) by (auto simp: registry_typed_def project_typed_def)
  ultimately show ?thesis using assms(2) typed_updated[OF assms(2), of "\<lambda>q. pj_Name q = pj_Name p" ?u] by auto
next
  case (Deleted ups name e)
  then show ?thesis using typed_deleted assms(2) by blast
next
  case BackedUp
  then show ?thesis using typed_backed_up assms(2) by blast
next
  case (Forgotten up bid e)
  have "fleet_inv db'" using backup_ops_inv(1)[OF Forgotten(1)] assms(2) by (simp add: registry_typed_def)
  then show ?thesis using Forgotten assms(2)
    by (intro registry_typed_step[OF assms(2)]) (auto simp: DeleteBackupRecord_def registry_typed_def project_keys_def split: if_splits)
next
  case (ServerAdded s up now fresh e)
  have "fleet_inv db'" using CreateServer_inv[OF ServerAdded(5)] assms(2) by (simp add: registry_typed_def)
  then show ?thesis using ServerAdded assms(2)
    by (intro registry_typed_step[OF assms(2)])
      (auto simp: CreateServer_def registry_typed_def project_keys_def server_typed_def or_default_def Let_def split: if_splits)
next
  case (ServerDeleted ups name e)
  have "fleet_inv db'" using server_ops_inv(3)[OF ServerDeleted(1)] assms(2) by (simp add: registry_typed_def)
  then show ?thesis using ServerDeleted assms(2)
    by (intro registry_typed_step[OF assms(2)])
      (auto simp: DeleteServer_def registry_typed_def project_keys_def Let_def split: if_splits)
next
  case (ServerChecked status up now name e)
  have "fleet_inv db'" using server_ops_inv(2)[OF ServerChecked(2)] assms(2) by (simp add: registry_typed_def)
  then show ?thesis using ServerChecked assms(2)
    by (intro registry_typed_step[OF assms(2)])
      (auto simp: UpdateServerStatus_def registry_typed_def project_keys_def server_typed_def set_update_where split: if_splits)
qed simp

text \<open>A run of requests, each with the answers the host gives to it.\<close>

fun api_run :: "Config \<Rightarrow> (api_host \<times> api_request) list \<Rightarrow> api_world \<Rightarrow> api_world" where
  "api_run cfg [] w = w"
| "api_run cfg ((h, req) # rs) w = api_run cfg rs (snd (api_handle h cfg req w))"

lemma api_run_typed:
  "registry_typed cfg (aw_db w) \<Longrightarrow> \<forall>(h, req) \<in> set rs. normal_component (rc_id (ap_recovery h))
    \<Longrightarrow> registry_typed cfg (aw_db (api_run cfg rs w))"
proof (induction cfg rs w rule: api_run.induct)
  case (2 cfg h req rs w)
  have "registry_change cfg (aw_db w) (aw_db (snd (api_handle h cfg req w)))"
    by (rule api_handle_change[OF surjective_pairing]) (use 2(3) in simp)
  then show ?case using registry_change_typed 2 by simp
qed simp


end
