(* ===== verification/Server_Isolation.thy ===== *)
theory Server_Isolation
  imports Server_Api_Safety
begin

text \<open>
  Requests about one project and what the others keep; and the ways in which the API does lose files: a creation that
  loses against another one, and the project called \<open>backups\<close>.
\<close>

subsection \<open>What another project keeps\<close>

text \<open>Its row, its directory, and its backups with their files.\<close>

definition project_kept :: "project_row \<Rightarrow> api_world \<Rightarrow> api_world \<Rightarrow> bool" where
  "project_kept q w w' \<longleftrightarrow> q \<in> set (db_projects (aw_db w')) \<and> aw_trees w' (pj_ProjectPath q) = aw_trees w (pj_ProjectPath q)
     \<and> (\<forall>b \<in> set (db_backups (aw_db w)). bk_ProjectID b = pj_ID q \<longrightarrow>
          b \<in> set (db_backups (aw_db w')) \<and> aw_store w' (bk_Path b) = aw_store w (bk_Path b))"

definition same_files :: "api_world \<Rightarrow> api_world \<Rightarrow> bool" where
  "same_files w w' \<longleftrightarrow> aw_trees w' = aw_trees w \<and> aw_store w' = aw_store w"

text \<open>The project a request is about.\<close>

fun request_project :: "api_host \<Rightarrow> api_request \<Rightarrow> string option" where
  "request_project h (CreateProjectRequest body) = map_option pb_Name (ap_project_body h body)"
| "request_project h (DeleteProjectRequest name keep) = Some name"
| "request_project h (StartRequest name) = Some name"
| "request_project h (StopRequest name) = Some name"
| "request_project h (DomainRequest name body) = Some name"
| "request_project h (CreateBackupRequest name) = Some name"
| "request_project h (RestoreBackupRequest name bid) = Some name"
| "request_project h (DeleteBackupRequest name bid) = Some name"
| "request_project h req = None"

lemma kept_same: "q \<in> set (db_projects (aw_db w)) \<Longrightarrow> aw_db w' = aw_db w \<Longrightarrow> same_files w w' \<Longrightarrow> project_kept q w w'"
  by (simp add: project_kept_def same_files_def)

lemma readers_same_files:
  "handleListProjects h w = (a, w') \<Longrightarrow> same_files w w'" "handleGetProject h name w = (a, w') \<Longrightarrow> same_files w w'"
  "handleRestartProject h name w = (a, w') \<Longrightarrow> same_files w w'"
  "handleProjectLogs h name q w = (a, w') \<Longrightarrow> same_files w w'"
  "handleListBackups h name w = (a, w') \<Longrightarrow> same_files w w'"
  "handleListDeployments h name q w = (a, w') \<Longrightarrow> same_files w w'"
  "handleAuditLog h cfg q w = (a, w') \<Longrightarrow> same_files w w'" "handleListServers h w = (a, w') \<Longrightarrow> same_files w w'"
  "handleListVolumes h w = (a, w') \<Longrightarrow> same_files w w'" "handleDeleteVolume h name w = (a, w') \<Longrightarrow> same_files w w'"
  by (auto simp: handleListProjects_def handleGetProject_def handleRestartProject_def handleProjectLogs_def
      handleListBackups_def handleListDeployments_def handleAuditLog_def handleListServers_def handleListVolumes_def
      handleDeleteVolume_def with_project_def audited_def same_files_def Let_def
      split: sum.splits prod.splits if_splits option.splits bool.splits
      dest!: countContainers_world project_views_world docker_in_world)

lemma servers_keep:
  "handleCreateServer h b w = (a, w') \<Longrightarrow> same_files w w' \<and> db_projects (aw_db w') = db_projects (aw_db w) \<and> db_backups (aw_db w') = db_backups (aw_db w)"
  "handleDeleteServer h name w = (a, w') \<Longrightarrow> same_files w w' \<and> db_projects (aw_db w') = db_projects (aw_db w) \<and> db_backups (aw_db w') = db_backups (aw_db w)"
  "handleCheckServer h name w = (a, w') \<Longrightarrow> same_files w w' \<and> db_projects (aw_db w') = db_projects (aw_db w) \<and> db_backups (aw_db w') = db_backups (aw_db w)"
  by (auto simp: handleCreateServer_def handleDeleteServer_def handleCheckServer_def same_files_def audited_def Let_def
      CreateServer_def DeleteServer_def UpdateServerStatus_def split: prod.splits if_splits option.splits sum.splits)

lemma status_kept:
  "q \<in> set (db_projects (aw_db w)) \<Longrightarrow> pj_Name q \<noteq> name \<Longrightarrow> q \<in> set (db_projects (aw_db (set_status h k name s w)))"
  "db_backups (aw_db (set_status h k name s w)) = db_backups (aw_db w)" "same_files w (set_status h k name s w)"
  by (auto simp: set_status_def UpdateProjectStatus_def same_files_def set_update_where Let_def split: if_splits prod.splits)

lemma status_files [simp]:
  "aw_trees (set_status h k name s w) = aw_trees w" "aw_store (set_status h k name s w) = aw_store w"
  using status_kept(3) by (simp_all add: same_files_def)

lemma audited_simps [simp]:
  "aw_db (audited h a p d w) = aw_db w" "aw_trees (audited h a p d w) = aw_trees w" "aw_store (audited h a p d w) = aw_store w"
  by (simp_all add: audited_def)

lemma container_handlers_keep:
  assumes "q \<in> set (db_projects (aw_db w))" "pj_Name q \<noteq> name"
  shows "handleStartProject h name w = (a, w') \<Longrightarrow> project_kept q w w'"
    "handleStopProject h name w = (a, w') \<Longrightarrow> project_kept q w w'"
    "handleUpdateProjectDomain h name b w = (a, w') \<Longrightarrow> project_kept q w w'"
  using assms
  by (auto simp: handleStartProject_def handleStopProject_def handleUpdateProjectDomain_def with_project_def project_kept_def
      status_kept(2) UpdateProject_def Let_def set_update_where
      split: sum.splits prod.splits if_splits option.splits bool.splits
      dest!: docker_in_world found_project intro!: status_kept(1))

text \<open>In a typed registry the directories follow from the names.\<close>

lemma typed_project:
  "registry_typed cfg db \<Longrightarrow> q \<in> set (db_projects db) \<Longrightarrow>
     normal_component (pj_Name q) \<and> pj_ProjectPath q = ProjectPath cfg (pj_Name q)"
  using ValidateName_normal by (auto simp: registry_typed_def project_typed_def)

lemma same_id: "registry_typed cfg db \<Longrightarrow> p \<in> set (db_projects db) \<Longrightarrow> q \<in> set (db_projects db) \<Longrightarrow> pj_ID p = pj_ID q \<Longrightarrow> p = q"
  by (auto simp: registry_typed_def fleet_inv_def unique_rows_def distinct_map inj_on_def)

lemma typed_backup:
  assumes "registry_typed cfg db" "b \<in> set (db_backups db)" "q \<in> set (db_projects db)" "bk_ProjectID b = pj_ID q"
  shows "bk_Path b = backup_dir cfg (pj_Name q) (bk_ID b) \<and> normal_component (bk_ID b)"
proof -
  have t: "backup_typed cfg db b" using assms(1,2) by (simp add: registry_typed_def)
  then obtain n where n: "(bk_ProjectID b, n) \<in> (\<lambda>p. (pj_ID p, pj_Name p)) ` set (db_projects db)" "bk_Path b = backup_dir cfg n (bk_ID b)"
    unfolding backup_typed_def by blast
  then obtain p where p: "p \<in> set (db_projects db)" "pj_ID p = bk_ProjectID b" "n = pj_Name p" by auto
  have "p = q" using same_id[OF assms(1) p(1) assms(3)] p(2) assms(4) by simp
  then show ?thesis using n(2) p(3) t by (simp add: backup_typed_def)
qed

lemma removed_apart: "\<not> path_below d p \<Longrightarrow> removed_below h d m p = m p"
  by (simp add: removed_below_def)

subsection \<open>Requests about a project keep the others\<close>

text \<open>The setting of the lemmas below: a request about the project \<open>n\<close>, and another project \<open>q\<close>.\<close>

definition other_project :: "Config \<Rightarrow> string \<Rightarrow> project_row \<Rightarrow> api_world \<Rightarrow> bool" where
  "other_project cfg n q w \<longleftrightarrow> registry_typed cfg (aw_db w) \<and> q \<in> set (db_projects (aw_db w)) \<and> pj_Name q \<noteq> n
     \<and> normal_component n \<and> layout_ok cfg n"

lemma other_apart:
  assumes "other_project cfg n q w"
  shows "\<not> path_below (ProjectPath cfg n) (pj_ProjectPath q)" "ProjectPath cfg n \<noteq> pj_ProjectPath q"
    and "normal_component i \<Longrightarrow> \<not> path_below (backup_dir cfg n i) (pj_ProjectPath q)"
    and "b \<in> set (db_backups (aw_db w)) \<Longrightarrow> bk_ProjectID b = pj_ID q \<Longrightarrow> \<not> path_below (ProjectPath cfg n) (bk_Path b)"
    and "b \<in> set (db_backups (aw_db w)) \<Longrightarrow> bk_ProjectID b = pj_ID q \<Longrightarrow> normal_component i
      \<Longrightarrow> \<not> path_below (backup_dir cfg n i) (bk_Path b) \<and> backup_dir cfg n i \<noteq> bk_Path b"
proof -
  have o': "registry_typed cfg (aw_db w)" "q \<in> set (db_projects (aw_db w))" "n \<noteq> pj_Name q" "normal_component n" "layout_ok cfg n"
    using assms by (auto simp: other_project_def)
  note q = typed_project[OF o'(1,2)]
  have x: "normal_component ''x''" by (simp add: normal_component_def)
  note apart = layout_apart[OF o'(5,4) conjunct1[OF q] o'(3)]
  show "\<not> path_below (ProjectPath cfg n) (pj_ProjectPath q)" "ProjectPath cfg n \<noteq> pj_ProjectPath q"
    using apart(1,5)[OF x x] q by simp_all
  show "\<not> path_below (backup_dir cfg n i) (pj_ProjectPath q)" if "normal_component i"
    using apart(3)[OF that x] q by simp
  assume b: "b \<in> set (db_backups (aw_db w))" "bk_ProjectID b = pj_ID q"
  note t = typed_backup[OF o'(1) b(1) o'(2) b(2)]
  show "\<not> path_below (ProjectPath cfg n) (bk_Path b)" using apart(2)[OF x, of "bk_ID b"] t by simp
  show "\<not> path_below (backup_dir cfg n i) (bk_Path b) \<and> backup_dir cfg n i \<noteq> bk_Path b" if "normal_component i"
    using apart(4,6)[OF that, of "bk_ID b"] t by simp
qed

lemma kept_removed:
  assumes "q \<in> set (db_projects db)" "\<forall>b \<in> set (db_backups (aw_db w)). bk_ProjectID b = pj_ID q \<longrightarrow> b \<in> set (db_backups db) \<and> \<not> path_below d (bk_Path b)"
    "\<not> path_below d (pj_ProjectPath q)" "aw_trees u (pj_ProjectPath q) = aw_trees w (pj_ProjectPath q)" "aw_store u = aw_store w"
    "aw_db v = db" "aw_trees v = removed_below h d (aw_trees u)" "aw_store v = removed_below h d (aw_store u)"
  shows "project_kept q w v"
  using assms by (auto simp: project_kept_def removed_apart)

lemma create_keeps:
  assumes "other_project cfg n q w" "handleCreateProject h cfg body w = (a, w')" "map_option pb_Name (ap_project_body h body) = Some n"
  shows "project_kept q w w'"
proof (cases "create_check h body w")
  case (Inl x)
  then show ?thesis using assms by (auto simp: handleCreateProject_def other_project_def intro!: kept_same simp: same_files_def)
next
  case (Inr y)
  obtain req tmpl where y: "y = (req, tmpl)" by (cases y)
  have name: "pb_Name req = n" using create_check_ok[OF Inr[unfolded y]] assms(3) by auto
  have q: "q \<in> set (db_projects (aw_db w))" using assms(1) by (simp add: other_project_def)
  let ?path = "ProjectPath cfg n"
  have run: "create_commit h cfg (req, tmpl) w = (a, w')" using assms(2) Inr y by (simp add: handleCreateProject_def)
  obtain e dir where sc: "ScaffoldProject (ap_render h) (ap_io h ?path) tmpl \<lparr>tp_Name = n, tp_Domain = pb_Domain req,
      tp_PostgresVersion = dc_PostgresVersion (cfg_Defaults cfg)\<rparr> (aw_trees w ?path) = (e, dir)" by (metis prod.exhaust)
  obtain f db where cr: "CreateProject (ap_up h 1) (ap_now h) (ap_fresh h) (new_project h cfg req) (aw_db w) = (f, db)" by (metis prod.exhaust)
  have db: "f = None \<Longrightarrow> q \<in> set (db_projects db) \<and> db_backups db = db_backups (aw_db w)" "f \<noteq> None \<Longrightarrow> db = aw_db w"
    using cr q by (auto simp: CreateProject_def Let_def split: if_splits)
  note apart = other_apart[OF assms(1)]
  show ?thesis
  proof (cases e)
    case (Some x)
    then have "w' = w\<lparr>aw_trees := (aw_trees w)(?path := dir)\<rparr>" using run sc name by (simp add: create_commit_def)
    then show ?thesis using apart(2) q by (auto simp: project_kept_def)
  next
    case None
    show ?thesis
    proof (cases f)
      case (Some x)
      then have w': "w' = remove_all h ?path (w\<lparr>aw_trees := (aw_trees w)(?path := dir), aw_db := db\<rparr>)"
        using run sc None cr name by (simp add: create_commit_def Let_def)
      show ?thesis
        by (rule kept_removed[where d = ?path and u = "w\<lparr>aw_trees := (aw_trees w)(?path := dir)\<rparr>"])
          (use db(2) Some q apart in \<open>auto simp: w' remove_all_def\<close>)
    next
      case ok: None
      then have "aw_db w' = db \<and> aw_trees w' = (aw_trees w)(?path := dir) \<and> aw_store w' = aw_store w"
        using run sc None cr name by (auto simp: create_commit_def Let_def split: prod.splits dest!: countContainers_world)
      then show ?thesis using db(1)[OF ok] apart(2) by (auto simp: project_kept_def)
    qed
  qed
qed

lemma delete_keeps:
  assumes "other_project cfg n q w" "handleDeleteProject h n keep w = (a, w')"
  shows "project_kept q w w'"
proof (cases "\<exists>p. validProjectName n \<and> GetProject (ap_up h 0) n (aw_db w) = Inr p")
  case False
  then have "w' = w" using assms(2) by (auto simp: handleDeleteProject_def with_project_def split: if_splits sum.splits)
  then show ?thesis using assms(1) by (auto simp: other_project_def intro!: kept_same simp: same_files_def)
next
  case True
  then obtain p where p: "validProjectName n" "GetProject (ap_up h 0) n (aw_db w) = Inr p" by blast
  have o': "registry_typed cfg (aw_db w)" "q \<in> set (db_projects (aw_db w))" "pj_Name q \<noteq> n"
    using assms(1) by (auto simp: other_project_def)
  have found: "p \<in> set (db_projects (aw_db w))" "pj_Name p = n" using found_project[OF p(2)] by auto
  have path: "pj_ProjectPath p = ProjectPath cfg n" using typed_project[OF o'(1) found(1)] found(2) by simp
  let ?w1 = "w\<lparr>aw_docker := aw_docker w @ [(pj_ProjectPath p, [''compose'', ''down''])]\<rparr>"
  let ?w2 = "if keep = ''true'' then ?w1 else remove_all h (pj_ProjectPath p) ?w1"
  obtain e db where d: "DeleteProject (\<lambda>k. ap_up h (Suc k)) n (aw_db w) = (e, db)" by (metis prod.exhaust)
  have db2: "aw_db ?w2 = aw_db w" by simp
  have w': "aw_db w' = db" "aw_trees w' = aw_trees ?w2" "aw_store w' = aw_store ?w2"
    using assms(2) p d db2 by (auto simp: handleDeleteProject_def with_project_def Let_def split: option.splits if_splits)
  have rows: "q \<in> set (db_projects db) \<and> (\<forall>b \<in> set (db_backups (aw_db w)). bk_ProjectID b = pj_ID q \<longrightarrow> b \<in> set (db_backups db))"
    using d
  proof (cases rule: DeleteProject_cases)
    case (deleted p')
    have "pj_ID q \<noteq> pj_ID p'" using same_id[OF o'(1) deleted(2) o'(2)] deleted(3) o'(3) by metis
    then show ?thesis using o'(2) by (simp add: deleted(4) delete_dependents_def)
  qed (use o' in simp)
  note apart = other_apart[OF assms(1)]
  show ?thesis
  proof (cases "keep = ''true''")
    case True
    then show ?thesis using rows w' by (auto simp: project_kept_def)
  next
    case False
    show ?thesis
      by (rule kept_removed[where d = "ProjectPath cfg n" and u = ?w1 and db = db])
        (use False rows apart w' path in \<open>auto simp: remove_all_def\<close>)
  qed
qed

lemma CreateBackup_store:
  assumes "CreateBackup bh sha enc src proj dst bc p ty tr opts bid now stamp up (store, db) = (r, store', db')"
    and "x \<noteq> path_join [bc_BasePath bc, pj_Name p, bid]"
  shows "store' x = store x"
  using assms by (auto simp: CreateBackup_def Let_def split: prod.splits option.splits if_splits)

lemma backup_keeps:
  assumes "other_project cfg n q w" "handleCreateBackup h cfg n w = (a, w')" "normal_component (rc_id (ap_recovery h))"
  shows "project_kept q w w'"
proof (cases "\<exists>p. validProjectName n \<and> GetProject (ap_up h 0) n (aw_db w) = Inr p")
  case False
  then have "w' = w" using assms(2) by (auto simp: handleCreateBackup_def with_project_def split: if_splits sum.splits)
  then show ?thesis using assms(1) by (auto simp: other_project_def intro!: kept_same simp: same_files_def)
next
  case True
  then obtain p where p: "validProjectName n" "GetProject (ap_up h 0) n (aw_db w) = Inr p" by blast
  let ?rc = "ap_recovery h" and ?id = "rc_id (ap_recovery h)"
  obtain r store db where c: "CreateBackup (rc_backup ?rc) (rc_sha ?rc) (rc_enc ?rc) (project_io w p (rc_read ?rc)) (project_tree w p)
      (rc_write ?rc) (cfg_Backup cfg) p ''manual'' ''api'' \<lparr>bo_SkipDB = False, bo_SkipVolumes = False\<rparr> ?id (ap_now h)
      (rc_stamp ?rc) (ap_up h 1) (aw_store w, aw_db w) = (r, store, db)" by (metis prod.exhaust)
  have w': "aw_db w' = db" "aw_trees w' = aw_trees w" "aw_store w' = store"
    using assms(2) p c by (auto simp: handleCreateBackup_def with_project_def Let_def split: sum.splits)
  have rows: "db_projects db = db_projects (aw_db w) \<and> set (db_backups (aw_db w)) \<subseteq> set (db_backups db)"
    using c by (auto simp: CreateBackup_def CreateBackupRecord_def Let_def split: prod.splits option.splits if_splits)
  have "store (bk_Path b) = aw_store w (bk_Path b)" if "b \<in> set (db_backups (aw_db w))" "bk_ProjectID b = pj_ID q" for b
    using other_apart(5)[OF assms(1) that assms(3)] CreateBackup_store[OF c, of "bk_Path b"] found_project[OF p(2)]
    by (auto simp: backup_dir_def)
  then show ?thesis using rows w' assms(1) by (auto simp: project_kept_def other_project_def)
qed

lemma with_backup_cases:
  assumes "with_backup h n bid w go = (a, w')"
  obtains (refused) "w' = w"
  | (going) p b where "GetProject (ap_up h 0) n (aw_db w) = Inr p" "GetBackupRecord (ap_up h 1) bid (aw_db w) = Inr b"
      "bk_ProjectID b = pj_ID p" "go p b = (a, w')"
  using assms by (auto simp: with_backup_def with_project_def split: if_splits sum.splits)

lemma found_backup: "GetBackupRecord up bid db = Inr b \<Longrightarrow> b \<in> set (db_backups db) \<and> bk_ID b = bid"
  by (auto simp: GetBackupRecord_def find_Some_iff split: if_splits option.splits)

lemma restore_keeps:
  assumes "other_project cfg n q w" "handleRestoreBackup h n bid w = (a, w')"
  shows "project_kept q w w'"
proof -
  have o': "registry_typed cfg (aw_db w)" "q \<in> set (db_projects (aw_db w))" "pj_Name q \<noteq> n"
    using assms(1) by (auto simp: other_project_def)
  from assms(2)[unfolded handleRestoreBackup_def] show ?thesis
  proof (cases rule: with_backup_cases)
    case refused
    then show ?thesis using o'(2) by (auto intro!: kept_same simp: same_files_def)
  next
    case (going p b)
    have "pj_ProjectPath p = ProjectPath cfg n"
      using found_project[OF going(1)] typed_project[OF o'(1)] by auto
    then have "pj_ProjectPath p \<noteq> pj_ProjectPath q" using other_apart(2)[OF assms(1)] by simp
    then show ?thesis using going(4) o'(2,3)
      by (auto simp: project_kept_def status_kept(2) Let_def split: prod.splits option.splits if_splits intro!: status_kept(1))
  qed
qed

lemma delete_backup_keeps:
  assumes "other_project cfg n q w" "handleDeleteBackup h n bid w = (a, w')"
  shows "project_kept q w w'"
proof -
  have o': "registry_typed cfg (aw_db w)" "q \<in> set (db_projects (aw_db w))" "pj_Name q \<noteq> n"
    using assms(1) by (auto simp: other_project_def)
  from assms(2)[unfolded handleDeleteBackup_def] show ?thesis
  proof (cases rule: with_backup_cases)
    case refused
    then show ?thesis using o'(2) by (auto intro!: kept_same simp: same_files_def)
  next
    case (going p b)
    have p: "p \<in> set (db_projects (aw_db w))" "pj_Name p = n" using found_project[OF going(1)] by auto
    note b = found_backup[OF going(2)]
    have path: "bk_Path b = backup_dir cfg n bid \<and> normal_component bid"
      using typed_backup[OF o'(1) conjunct1[OF b] p(1) going(3)] p(2) b by simp
    let ?w1 = "if bk_Path b \<noteq> [] then remove_all h (bk_Path b) w else w"
    obtain e db where d: "DeleteBackupRecord (ap_up h 2) bid (aw_db w) = (e, db)" by (metis prod.exhaust)
    have w': "aw_db w' = db" "aw_trees w' = aw_trees ?w1" "aw_store w' = aw_store ?w1"
      using going(4) d by (auto simp: Let_def split: option.splits if_splits)
    have "bk_ID b' \<noteq> bid" if "b' \<in> set (db_backups (aw_db w))" "bk_ProjectID b' = pj_ID q" for b'
    proof
      assume same: "bk_ID b' = bid"
      have "b' = b" using b that(1) same o'(1)
        by (auto simp: registry_typed_def fleet_inv_def child_ok_def unique_rows_def distinct_map inj_on_def)
      then have "p = q" using same_id[OF o'(1) p(1) o'(2)] going(3) that(2) by simp
      then show False using p(2) o'(3) by simp
    qed
    then have rows: "db_projects db = db_projects (aw_db w)
        \<and> (\<forall>b' \<in> set (db_backups (aw_db w)). bk_ProjectID b' = pj_ID q \<longrightarrow> b' \<in> set (db_backups db))"
      using d by (auto simp: DeleteBackupRecord_def split: if_splits)
    note apart = other_apart[OF assms(1)]
    show ?thesis
    proof (cases "bk_Path b = []")
      case True
      then show ?thesis using rows w' o'(2) by (auto simp: project_kept_def)
    next
      case False
      show ?thesis
        by (rule kept_removed[where d = "bk_Path b" and u = w and db = db])
          (use False rows apart(3,5) w' path o'(2) in \<open>auto simp: remove_all_def\<close>)
    qed
  qed
qed


subsection \<open>How a creation destroys a project\<close>

lemma create_existing:
  assumes "p \<in> set (db_projects (aw_db w))" "pj_Name p = pb_Name req" "path = ProjectPath cfg (pb_Name req)"
    and "fst (ScaffoldProject (ap_render h) (ap_io h path) tmpl \<lparr>tp_Name = pb_Name req, tp_Domain = pb_Domain req,
      tp_PostgresVersion = dc_PostgresVersion (cfg_Defaults cfg)\<rparr> (aw_trees w path)) = None"
    and "ap_left h = (\<lambda>p t. None)" "create_commit h cfg (req, tmpl) w = (a, w')"
  shows "a = ApiError 500 ''saving to database'' \<and> aw_db w' = aw_db w \<and> aw_trees w' path = None"
proof -
  obtain dir where sc: "ScaffoldProject (ap_render h) (ap_io h path) tmpl \<lparr>tp_Name = pb_Name req, tp_Domain = pb_Domain req,
      tp_PostgresVersion = dc_PostgresVersion (cfg_Defaults cfg)\<rparr> (aw_trees w path) = (None, dir)"
    using assms(4) by (metis prod.collapse)
  obtain f db where cr: "CreateProject (ap_up h 1) (ap_now h) (ap_fresh h) (new_project h cfg req) (aw_db w) = (f, db)"
    by (metis prod.exhaust)
  have "f \<noteq> None \<and> db = aw_db w"
    using cr assms(1,2) by (auto simp: CreateProject_def new_project_def Let_def list_ex_iff split: if_splits)
  then show ?thesis
    using assms(6) sc cr unfolding assms(3)
    by (auto simp: create_commit_def Let_def remove_all_def removed_below_def path_below_def assms(5) split: option.splits)
qed

text \<open>
  C33. Two creations of the same name can destroy the project: when both check the name before either has made its row, the
  first succeeds and the second then writes over its files, fails on the name, and removes the directory: it is answered
  with an error and the project is registered without its files.
\<close>

theorem create_race_loses_files:
  assumes "create_check h1 body1 w = Inr (req1, tmpl1)" "create_check h2 body2 w = Inr (req2, tmpl2)"
    and "pb_Name req1 = pb_Name req2" "path = ProjectPath cfg (pb_Name req2)"
    and "create_commit h1 cfg (req1, tmpl1) w = (ApiProject p cnt, w1)"
    and "create_commit h2 cfg (req2, tmpl2) w1 = (a, w2)"
    and "fst (ScaffoldProject (ap_render h2) (ap_io h2 path) tmpl2 \<lparr>tp_Name = pb_Name req2, tp_Domain = pb_Domain req2,
      tp_PostgresVersion = dc_PostgresVersion (cfg_Defaults cfg)\<rparr> (aw_trees w1 path)) = None"
    and "ap_left h2 = (\<lambda>p t. None)"
  shows "a = ApiError 500 ''saving to database'' \<and> aw_trees w1 path \<noteq> None \<and> aw_trees w2 path = None
    \<and> (\<exists>q \<in> set (db_projects (aw_db w2)). pj_Name q = pb_Name req1 \<and> pj_ProjectPath q = path)"
proof -
  obtain e dir where sc: "ScaffoldProject (ap_render h1) (ap_io h1 path) tmpl1 \<lparr>tp_Name = pb_Name req1, tp_Domain = pb_Domain req1,
      tp_PostgresVersion = dc_PostgresVersion (cfg_Defaults cfg)\<rparr> (aw_trees w path) = (e, dir)" by (metis prod.exhaust)
  obtain f db where cr: "CreateProject (ap_up h1 1) (ap_now h1) (ap_fresh h1) (new_project h1 cfg req1) (aw_db w) = (f, db)"
    by (metis prod.exhaust)
  have ok: "e = None" "f = None" "aw_db w1 = db" "aw_trees w1 path = dir"
    using assms(5) sc cr unfolding assms(4) assms(3)[symmetric]
    by (auto simp: create_commit_def Let_def split: option.splits prod.splits dest!: countContainers_world)
  have dir: "dir \<noteq> None" using ScaffoldProject_complete[OF sc[unfolded ok(1)]] by auto
  have "\<exists>q \<in> set (db_projects db). pj_Name q = pb_Name req1 \<and> pj_ProjectPath q = path"
    using cr ok(2) unfolding assms(4) assms(3)[symmetric]
    by (auto simp: CreateProject_def new_project_def Let_def split: if_splits)
  then obtain q where q: "q \<in> set (db_projects (aw_db w1))" "pj_Name q = pb_Name req1" "pj_ProjectPath q = path"
    using ok(3) by blast
  from create_existing[OF q(1) q(2)[unfolded assms(3)] assms(4,7,8,6)] q ok(4) dir show ?thesis by auto
qed

subsection \<open>The project that holds the backups\<close>

text \<open>
  With the standard paths a project called \<open>backups\<close> owns the backups of all: its name is accepted, its directory is the
  directory of the backups, and deleting it removes the files of every backup of every project, while the records of the
  other projects' backups stay.
\<close>

theorem backups_project_holds_all:
  assumes "registry_typed DefaultConfig (aw_db w)" "ap_left h = (\<lambda>p t. None)"
    and "GetProject (ap_up h 0) ''backups'' (aw_db w) = Inr p"
    and "handleDeleteProject h ''backups'' [] w = (ApiStatus ''deleted'', w')" "b \<in> set (db_backups (aw_db w))"
  shows "ValidateName ''backups'' \<and> aw_store w' (bk_Path b) = None
    \<and> (bk_ProjectID b \<noteq> pj_ID p \<longrightarrow> b \<in> set (db_backups (aw_db w')))"
proof -
  have valid: "ValidateName ''backups''" "validProjectName ''backups''" by code_simp+
  have p: "p \<in> set (db_projects (aw_db w))" "pj_Name p = ''backups''" using found_project[OF assms(3)] by auto
  have comps: "clean_components (sc_BasePath (cfg_Server DefaultConfig)) = [''opt'', ''fleetdeck'']"
    "clean_components (bc_BasePath (cfg_Backup DefaultConfig)) = [''opt'', ''fleetdeck'', ''backups'']"
    "is_abs (sc_BasePath (cfg_Server DefaultConfig))" "is_abs (bc_BasePath (cfg_Backup DefaultConfig))" by code_simp+
  have normal: "normal_component ''opt''" "normal_component ''fleetdeck''" "normal_component ''backups''" by code_simp+
  have path: "pj_ProjectPath p = abs_path [''opt'', ''fleetdeck'', ''backups'']"
    using typed_project[OF assms(1) p(1)] p(2) path_join_normal[OF comps(3), of "[''backups'']"] normal(3)
    by (simp add: ProjectPath_def comps(1))
  obtain n i where n: "normal_component n" "normal_component i" "bk_Path b = backup_dir DefaultConfig n i"
  proof -
    have "backup_typed DefaultConfig (aw_db w) b" using assms(1,5) by (simp add: registry_typed_def)
    then obtain n where x: "(bk_ProjectID b, n) \<in> (\<lambda>p. (pj_ID p, pj_Name p)) ` set (db_projects (aw_db w))"
        "bk_Path b = backup_dir DefaultConfig n (bk_ID b)" "normal_component (bk_ID b)" unfolding backup_typed_def by blast
    then obtain q where "q \<in> set (db_projects (aw_db w))" "n = pj_Name q" by auto
    then show thesis using that[of n "bk_ID b"] x typed_project[OF assms(1)] by auto
  qed
  have bpath: "bk_Path b = abs_path ([''opt'', ''fleetdeck'', ''backups''] @ [n, i])"
    using n path_join_normal[OF comps(4), of "[n, i]"] by (simp add: backup_dir_def comps(2))
  have below: "path_below (pj_ProjectPath p) (bk_Path b)"
    unfolding path bpath using normal n by (subst path_below_abs) auto
  obtain e db where d: "DeleteProject (\<lambda>k. ap_up h (Suc k)) ''backups'' (aw_db w) = (e, db)" by (metis prod.exhaust)
  have w': "e = None" "aw_db w' = db" "aw_store w' = removed_below h (pj_ProjectPath p) (aw_store w)"
    using assms(3,4) valid(2) d
    by (auto simp: handleDeleteProject_def with_project_def remove_all_def Let_def split: option.splits)
  have "bk_ProjectID b \<noteq> pj_ID p \<longrightarrow> b \<in> set (db_backups db)"
    using d
  proof (cases rule: DeleteProject_cases)
    case (deleted p')
    have "p' = p" using deleted(2,3) p assms(1)
      by (auto simp: registry_typed_def fleet_inv_def unique_rows_def distinct_map inj_on_def)
    then show ?thesis using assms(5) by (simp add: deleted(4) delete_dependents_def)
  qed (use w' in simp)
  then show ?thesis using valid below w' by (simp add: removed_below_def assms(2) split: option.splits)
qed

end
