(* ===== verification/Server_Samples.thy ===== *)
theory Server_Samples
  imports Server_Isolation Recovery_Safety
begin

text \<open>
  The theorems on the dashboard's API at concrete requests.
\<close>

subsection \<open>A host and three worlds\<close>

text \<open>The body of a creation is the name; every request makes the id it is given.\<close>

definition sample_api_host :: "bool \<Rightarrow> string \<Rightarrow> api_host" where
  "sample_api_host docker uid = \<lparr>
     ap_project_body = (\<lambda>b. Some \<lparr>pb_Name = b, pb_Domain = ''shop.example'', pb_Template = []\<rparr>),
     ap_domain_body = (\<lambda>b. Some b),
     ap_server_body = (\<lambda>b. Some \<lparr>sb_Name = b, sb_Host = ''10.0.0.1'', sb_Port = [], sb_User = [], sb_KeyPath = []\<rparr>),
     ap_templates = (\<lambda>n. Some \<lparr>tm_Name = n, tm_Description = [], tm_Dockerfile = ''FROM node'', tm_Compose = ''services:'',
       tm_Workflow = ''on: push'', tm_EnvTemplate = [], tm_GitIgnore = ''.env''\<rparr>),
     ap_render = (\<lambda>t d. Some t), ap_io = (\<lambda>_. good_io), ap_left = (\<lambda>p t. None), ap_docker = (\<lambda>log dir args. (docker, [])),
     ap_edge = sample_edge_host,
     ap_recovery = sample_recovery_host\<lparr>rc_backup := sample_backup_host\<lparr>bh_glob := (\<lambda>p. Some [])\<rparr>, rc_id := uid\<rparr>,
     ap_audit = sample_audit_host, ap_opens = True, ap_dial = (\<lambda>_ _. True), ap_err = (\<lambda>e. ''not found''), ap_up = (\<lambda>k. True),
     ap_now = 7, ap_fresh = uid\<rparr>"

definition sample_api_world :: api_world where
  "sample_api_world = \<lparr>aw_db = empty_fleet_db, aw_trees = (\<lambda>p. None), aw_store = (\<lambda>p. None), aw_docker = [], aw_edge = [],
     aw_restore = [], aw_audit = sample_audit\<rparr>"

definition sample_requests :: "(api_host \<times> api_request) list" where
  "sample_requests = [(sample_api_host True ''u1'', CreateProjectRequest ''shop''),
     (sample_api_host True ''u2'', CreateProjectRequest ''backups''), (sample_api_host True ''u6'', CreateProjectRequest ''blog''),
     (sample_api_host True ''u3'', CreateServerRequest ''node1''),
     (sample_api_host True ''u4'', CreateBackupRequest ''shop'')]"

definition sample_api_state :: api_world where
  "sample_api_state = api_run DefaultConfig sample_requests sample_api_world"

lemma sample_requests_ids: "\<forall>(h, req) \<in> set sample_requests. normal_component (rc_id (ap_recovery h))"
  by code_simp

text \<open>One evaluation of the requests and of the handlers the theorems are applied to.\<close>

lemma sample_state_evaluated:
  "(let w = sample_api_state in
     (map pj_Name (db_projects (aw_db w)), map sv_Name (db_servers (aw_db w)),
      map (\<lambda>b. (bk_ID b, bk_ProjectID b, bk_Path b)) (db_backups (aw_db w)),
      aw_store w ''/opt/fleetdeck/backups/shop/u4'' \<noteq> None, aw_trees w ''/opt/fleetdeck/shop'' \<noteq> None,
      (case fst (api_handle (sample_api_host False ''u5'') DefaultConfig (StopRequest ''shop'') w) of
         ApiError c m \<Rightarrow> int c = 500 \<and> m = ''failed to stop project'' | _ \<Rightarrow> False),
      (case fst (handleDeleteProject (sample_api_host True ''u5'') ''backups'' [] w) of ApiStatus s \<Rightarrow> s = ''deleted'' | _ \<Rightarrow> False),
      (case fst (handleDeleteProject (sample_api_host True ''u5'') ''blog'' [] w) of ApiStatus s \<Rightarrow> s = ''deleted'' | _ \<Rightarrow> False)))
   = ([''shop'', ''backups'', ''blog''], [''node1''], [(''u4'', ''u1'', ''/opt/fleetdeck/backups/shop/u4'')], True, True, True, True, True)"
  by code_simp

lemmas sample_state_facts = sample_state_evaluated[unfolded Let_def prod.inject eq_True]

lemma sample_state_rows:
  "map pj_Name (db_projects (aw_db sample_api_state)) = [''shop'', ''backups'', ''blog'']
    \<and> map sv_Name (db_servers (aw_db sample_api_state)) = [''node1'']
    \<and> map (\<lambda>b. (bk_ID b, bk_ProjectID b, bk_Path b)) (db_backups (aw_db sample_api_state))
        = [(''u4'', ''u1'', ''/opt/fleetdeck/backups/shop/u4'')]
    \<and> aw_store sample_api_state ''/opt/fleetdeck/backups/shop/u4'' \<noteq> None
    \<and> aw_trees sample_api_state ''/opt/fleetdeck/shop'' \<noteq> None"
  using sample_state_facts by (elim conjE) (intro conjI)

lemma sample_state_typed: "registry_typed DefaultConfig (aw_db sample_api_state)"
  unfolding sample_api_state_def
  by (rule api_run_typed[OF _ sample_requests_ids])
    (simp add: sample_api_world_def registry_typed_def fleet_inv_def empty_fleet_db_def unique_rows_def child_ok_def)

subsection \<open>The theorems there\<close>


text \<open>A stop that docker refuses: the command has run, and nothing else has changed.\<close>

lemma api_errors_undone_witness:
  "\<exists>w'. api_handle (sample_api_host False ''u5'') DefaultConfig (StopRequest ''shop'') sample_api_state
          = (ApiError 500 ''failed to stop project'', w')
     \<and> aw_db w' = aw_db sample_api_state \<and> aw_audit w' = aw_audit sample_api_state"
proof -
  let ?a = "api_handle (sample_api_host False ''u5'') DefaultConfig (StopRequest ''shop'') sample_api_state"
  have "fst ?a = ApiError 500 ''failed to stop project''"
  proof -
    have "case fst ?a of ApiError c m \<Rightarrow> int c = 500 \<and> m = ''failed to stop project'' | _ \<Rightarrow> False"
      using sample_state_facts by blast
    then show ?thesis by (auto split: api_answer.splits)
  qed
  then have a: "?a = (ApiError 500 ''failed to stop project'', snd ?a)" by (metis prod.collapse)
  from api_errors_undone[OF a] a show ?thesis by blast
qed

lemma sample_project:
  assumes "n \<in> {''shop'', ''backups'', ''blog''}"
  obtains p where "p \<in> set (db_projects (aw_db sample_api_state))" "pj_Name p = n"
proof -
  have "n \<in> set (map pj_Name (db_projects (aw_db sample_api_state)))" using assms by (simp add: sample_state_rows)
  then show thesis using that by auto
qed

lemma sample_deleted:
  "fst (handleDeleteProject (sample_api_host True ''u5'') ''backups'' [] sample_api_state) = ApiStatus ''deleted''"
  "fst (handleDeleteProject (sample_api_host True ''u5'') ''blog'' [] sample_api_state) = ApiStatus ''deleted''"
proof -
  have deleted: "a = ApiStatus ''deleted''" if "case a of ApiStatus s \<Rightarrow> s = ''deleted'' | _ \<Rightarrow> False" for a
    using that by (auto split: api_answer.splits)
  show "fst (handleDeleteProject (sample_api_host True ''u5'') ''backups'' [] sample_api_state) = ApiStatus ''deleted''"
    by (rule deleted) (use sample_state_facts in blast)
  show "fst (handleDeleteProject (sample_api_host True ''u5'') ''blog'' [] sample_api_state) = ApiStatus ''deleted''"
    by (rule deleted) (use sample_state_facts in blast)
qed


lemma backups_project_holds_all_witness:
  "\<exists>(b :: backup_row) w'. handleDeleteProject (sample_api_host True ''u5'') ''backups'' [] sample_api_state = (ApiStatus ''deleted'', w')
     \<and> bk_Path b = ''/opt/fleetdeck/backups/shop/u4'' \<and> aw_store sample_api_state (bk_Path b) \<noteq> None
     \<and> aw_store w' (bk_Path b) = None"
proof -
  let ?h = "sample_api_host True ''u5''"
  obtain w' where run: "handleDeleteProject ?h ''backups'' [] sample_api_state = (ApiStatus ''deleted'', w')"
    using sample_deleted(1) by (auto simp: prod_eq_iff)
  have "(''u4'', ''u1'', ''/opt/fleetdeck/backups/shop/u4'')
      \<in> set (map (\<lambda>b. (bk_ID b, bk_ProjectID b, bk_Path b)) (db_backups (aw_db sample_api_state)))"
    by (simp add: sample_state_rows)
  then obtain b where b: "b \<in> set (db_backups (aw_db sample_api_state))" "bk_Path b = ''/opt/fleetdeck/backups/shop/u4''"
    by auto
  have "\<exists>p. GetProject (ap_up ?h 0) ''backups'' (aw_db sample_api_state) = Inr p"
  proof -
    obtain q where "q \<in> set (db_projects (aw_db sample_api_state))" "pj_Name q = ''backups''"
      by (rule sample_project[of "''backups''"]) simp_all
    moreover have "ap_up ?h 0" by (simp add: sample_api_host_def)
    ultimately have "List.find (\<lambda>p. pj_Name p = ''backups'') (db_projects (aw_db sample_api_state)) \<noteq> None"
      by (auto simp: find_None_iff)
    then show ?thesis using \<open>ap_up ?h 0\<close> by (auto simp: GetProject_def)
  qed
  then obtain p where p: "GetProject (ap_up ?h 0) ''backups'' (aw_db sample_api_state) = Inr p" by blast
  have left: "ap_left ?h = (\<lambda>p t. None)" by (simp add: sample_api_host_def)
  have gone: "aw_store w' (bk_Path b) = None" using backups_project_holds_all[OF sample_state_typed left p run b(1)] by simp
  have there: "aw_store sample_api_state (bk_Path b) \<noteq> None" unfolding b(2) using sample_state_rows by simp
  show ?thesis using run b(2) gone there by blast
qed

text \<open>Two creations of \<open>shop\<close> from the empty registry.\<close>

lemma create_race_loses_files_witness:
  "\<exists>x1 x2 p w1 w2. create_check (sample_api_host True ''u1'') ''shop'' sample_api_world = Inr x1
     \<and> create_check (sample_api_host True ''u2'') ''shop'' sample_api_world = Inr x2
     \<and> create_commit (sample_api_host True ''u1'') DefaultConfig x1 sample_api_world = (ApiProject p 0, w1)
     \<and> create_commit (sample_api_host True ''u2'') DefaultConfig x2 w1 = (ApiError 500 ''saving to database'', w2)
     \<and> aw_trees w1 ''/opt/fleetdeck/shop'' \<noteq> None \<and> aw_trees w2 ''/opt/fleetdeck/shop'' = None"
proof -
  let ?h1 = "sample_api_host True ''u1''" and ?h2 = "sample_api_host True ''u2''"
  let ?req = "\<lparr>pb_Name = ''shop'', pb_Domain = ''shop.example'', pb_Template = ''custom''\<rparr> :: project_body"
  let ?tmpl = "\<lparr>tm_Name = ''custom'', tm_Description = [], tm_Dockerfile = ''FROM node'', tm_Compose = ''services:'',
       tm_Workflow = ''on: push'', tm_EnvTemplate = [], tm_GitIgnore = ''.env''\<rparr> :: Template"
  let ?r1 = "create_commit ?h1 DefaultConfig (?req, ?tmpl) sample_api_world"
  have valid: "ValidateName ''shop''" by code_simp
  have checks: "create_check ?h1 ''shop'' sample_api_world = Inr (?req, ?tmpl)" "create_check ?h2 ''shop'' sample_api_world = Inr (?req, ?tmpl)"
    using valid by (simp_all add: create_check_def sample_api_host_def sample_api_world_def GetProject_def empty_fleet_db_def
        or_default_def Let_def)
  have "case fst ?r1 of ApiProject p n \<Rightarrow> int n = 0 | _ \<Rightarrow> False" by code_simp
  then obtain p w1 where r1: "?r1 = (ApiProject p 0, w1)" by (cases ?r1) (auto split: api_answer.splits)
  have path: "''/opt/fleetdeck/shop'' = ProjectPath DefaultConfig (pb_Name ?req)" by code_simp
  have "fst (ScaffoldProject (ap_render ?h2) (ap_io ?h2 ''/opt/fleetdeck/shop'') ?tmpl \<lparr>tp_Name = pb_Name ?req, tp_Domain = pb_Domain ?req,
      tp_PostgresVersion = dc_PostgresVersion (cfg_Defaults DefaultConfig)\<rparr> (aw_trees (snd ?r1) ''/opt/fleetdeck/shop'')) = None"
    by code_simp
  then have again: "fst (ScaffoldProject (ap_render ?h2) (ap_io ?h2 ''/opt/fleetdeck/shop'') ?tmpl \<lparr>tp_Name = pb_Name ?req, tp_Domain = pb_Domain ?req,
      tp_PostgresVersion = dc_PostgresVersion (cfg_Defaults DefaultConfig)\<rparr> (aw_trees w1 ''/opt/fleetdeck/shop'')) = None"
    using r1 by simp
  have left: "ap_left ?h2 = (\<lambda>p t. None)" by (simp add: sample_api_host_def)
  obtain a w2 where r2: "create_commit ?h2 DefaultConfig (?req, ?tmpl) w1 = (a, w2)" by (metis prod.exhaust)
  from create_race_loses_files[OF checks refl path r1 r2 again left] checks r1 r2 show ?thesis by auto
qed

end
