(* ===== verification/State_Archive.thy ===== *)
theory State_Archive
  imports Project_Scaffold Go_Paths
begin

text \<open>
  \<open>internal/disaster\<close>: the export of the whole state into an archive (\<open>export.go\<close>) and its import into a base directory
  (\<open>import.go\<close>). An archive is the list of its entries; \<open>ar_bad\<close> says that reading it fails behind them. Trees are the
  directories of the model of backups: the source of an export is a map from backup directories to trees, an import
  writes a temporary tree and the tree of the base directory, and every call on an entry may fail.

  The database file, TOML, JSON and the formatted time are parameters. The modes are those before the umask; closing
  a file and removing the temporary directory are not observed.
\<close>

subsection \<open>Archives\<close>

datatype entry_kind = EntryDir | EntryReg | EntryOther

record archive_entry =
  ae_Name :: string
  ae_Kind :: entry_kind
  ae_Mode :: nat
  ae_Data :: string

record archive =
  ar_entries :: "archive_entry list"
  ar_bad :: bool

record StateManifest =
  sm_ExportTimestamp :: string
  sm_FleetDeckVersion :: string
  sm_ProjectCount :: nat
  sm_BackupCount :: nat

definition file_entry :: "string \<Rightarrow> nat \<Rightarrow> string \<Rightarrow> archive_entry" where
  "file_entry name mode content = \<lparr>ae_Name = name, ae_Kind = EntryReg, ae_Mode = mode, ae_Data = content\<rparr>"

subsection \<open>Export\<close>

text \<open>\<open>xh_up k\<close> answers the \<open>k\<close>-th call that is not about an entry, \<open>xh_add\<close> the writing of an entry, \<open>xh_list\<close> the
  listing of a project's backups, \<open>xh_follow\<close> what opening a link yields, \<open>xh_torn\<close> whether a failure cut an entry.\<close>

record export_host =
  xh_up :: "nat \<Rightarrow> bool"
  xh_add :: "string \<Rightarrow> bool"
  xh_list :: "string \<Rightarrow> bool"
  xh_stat :: "string \<Rightarrow> bool"
  xh_io :: "string \<Rightarrow> fs_io"
  xh_follow :: "string \<Rightarrow> string \<Rightarrow> (nat \<times> string) option"
  xh_torn :: bool
  xh_snapshot :: "fleet_db \<Rightarrow> string option"
  xh_toml :: "Config \<Rightarrow> string option"
  xh_enc :: "StateManifest \<Rightarrow> string option"
  xh_now :: string

datatype state_error =
    StateDir | StateCreate | StateTemp | StateSnapshot | StateDatabase | StateConfig | StateList | StateBackup
  | StateManifestBad | StateClose | StateArchive | StateUnstamped | StateNoDatabase | StateCorrupt | StateBackups

text \<open>\<open>filepath.Walk\<close> visits the files in the order of their components; what cannot be seen is passed over.\<close>

definition walk_sees :: "fs_io \<Rightarrow> string \<Rightarrow> bool" where
  "walk_sees io name \<longleftrightarrow>
     list_all (\<lambda>p. \<not> io_bad io OpLstat p \<and> (p = name \<or> \<not> io_bad io OpOpen p)) (path_prefixes name)"

definition walk_order :: "tree \<Rightarrow> tree" where
  "walk_order t = sort_key (\<lambda>e. split_on CHR ''/'' (fst e)) t"

definition walk_files :: "fs_io \<Rightarrow> tree \<Rightarrow> tree" where
  "walk_files io t =
     (if io_bad io OpLstat ''.'' \<or> io_bad io OpOpen ''.'' then []
      else filter (\<lambda>(n, nd). nd \<noteq> Directory \<and> walk_sees io n) (walk_order t))"

definition addFileToTar ::
  "export_host \<Rightarrow> string \<Rightarrow> string \<Rightarrow> node \<Rightarrow> string \<Rightarrow> archive_entry list \<Rightarrow> bool \<times> archive_entry list" where
  "addFileToTar h dir rel nd name es =
     (case (case nd of Regular m c \<Rightarrow> Some (m, c) | _ \<Rightarrow> xh_follow h dir rel) of
        None \<Rightarrow> (False, es)
      | Some (m, c) \<Rightarrow> if xh_add h name then (True, es @ [file_entry name m c]) else (False, es))"

definition addBytesToTar :: "export_host \<Rightarrow> string \<Rightarrow> string \<Rightarrow> archive_entry list \<Rightarrow> bool \<times> archive_entry list" where
  "addBytesToTar h data name es = (if xh_add h name then (True, es @ [file_entry name 420 data]) else (False, es))"

fun add_backup_files ::
  "export_host \<Rightarrow> string \<Rightarrow> string \<Rightarrow> tree \<Rightarrow> archive_entry list \<Rightarrow> bool \<times> archive_entry list" where
  "add_backup_files h dir project [] es = (True, es)"
| "add_backup_files h dir project ((rel, nd) # fs) es =
     (case addFileToTar h dir rel nd (path_join [''backups'', project, rel]) es of
        (False, es1) \<Rightarrow> (False, es1)
      | (True, es1) \<Rightarrow> add_backup_files h dir project fs es1)"

text \<open>The newest backup of every project; one that cannot be listed or whose directory is missing is passed over.\<close>

definition latest_backup :: "export_host \<Rightarrow> fleet_db \<Rightarrow> (string \<Rightarrow> tree option) \<Rightarrow> project_row \<Rightarrow> (string \<times> tree) option" where
  "latest_backup h db store p =
     (case ListBackupRecords (xh_list h (pj_ID p)) (pj_ID p) 1 db of
        Inl e \<Rightarrow> None
      | Inr [] \<Rightarrow> None
      | Inr (b # bs) \<Rightarrow>
          (if xh_stat h (bk_Path b) then map_option (\<lambda>t. (bk_Path b, t)) (store (bk_Path b))
           else Some (bk_Path b, [])))"

fun add_backups ::
  "export_host \<Rightarrow> fleet_db \<Rightarrow> (string \<Rightarrow> tree option) \<Rightarrow> project_row list \<Rightarrow> nat \<Rightarrow> archive_entry list
    \<Rightarrow> nat option \<times> archive_entry list" where
  "add_backups h db store [] n es = (Some n, es)"
| "add_backups h db store (p # ps) n es =
     (case latest_backup h db store p of
        None \<Rightarrow> add_backups h db store ps n es
      | Some (dir, t) \<Rightarrow>
          (case add_backup_files h dir (pj_Name p) (walk_files (xh_io h dir) t) es of
             (False, es1) \<Rightarrow> (None, es1)
           | (True, es1) \<Rightarrow> add_backups h db store ps (Suc n) es1))"

text \<open>The entries in their order, up to the first failure.\<close>

definition export_entries ::
  "export_host \<Rightarrow> Config \<Rightarrow> fleet_db \<Rightarrow> (string \<Rightarrow> tree option) \<Rightarrow> string \<Rightarrow> state_error option \<times> archive_entry list" where
  "export_entries h cfg db store version =
     (if \<not> xh_up h 3 then (Some StateTemp, [])
      else case xh_snapshot h db of None \<Rightarrow> (Some StateSnapshot, []) | Some snap \<Rightarrow>
      if \<not> xh_add h ''fleetdeck.db'' then (Some StateDatabase, [])
      else
        let es = [file_entry ''fleetdeck.db'' 420 snap] in
        case xh_toml h cfg of None \<Rightarrow> (Some StateConfig, es) | Some toml \<Rightarrow>
        (case addBytesToTar h toml ''config.toml'' es of
           (False, es1) \<Rightarrow> (Some StateConfig, es1)
         | (True, es1) \<Rightarrow>
             (case ListProjects (xh_up h 4) db of
                Inl e \<Rightarrow> (Some StateList, es1)
              | Inr projects \<Rightarrow>
                  (case add_backups h db store projects 0 es1 of
                     (None, es2) \<Rightarrow> (Some StateBackup, es2)
                   | (Some n, es2) \<Rightarrow>
                       (case xh_enc h \<lparr>sm_ExportTimestamp = xh_now h, sm_FleetDeckVersion = version,
                                sm_ProjectCount = length projects, sm_BackupCount = n\<rparr> of
                          None \<Rightarrow> (Some StateManifestBad, es2)
                        | Some data \<Rightarrow>
                            (case addBytesToTar h data ''state.json'' es2 of
                               (False, es3) \<Rightarrow> (Some StateManifestBad, es3)
                             | (True, es3) \<Rightarrow> (None, es3)))))))"

text \<open>The archive replaces the file at the output path, and what was written stays there when the export fails.\<close>

definition ExportState ::
  "export_host \<Rightarrow> Config \<Rightarrow> fleet_db \<Rightarrow> (string \<Rightarrow> tree option) \<Rightarrow> string \<Rightarrow> archive option
    \<Rightarrow> state_error option \<times> archive option" where
  "ExportState h cfg db store version old =
     (if \<not> xh_up h 0 then (Some StateDir, old)
      else if \<not> xh_up h 1 then (Some StateCreate, old)
      else if \<not> xh_up h 2 then (Some StateCreate, Some \<lparr>ar_entries = [], ar_bad = False\<rparr>)
      else case export_entries h cfg db store version of
        (Some e, es) \<Rightarrow> (Some e, Some \<lparr>ar_entries = es, ar_bad = xh_torn h\<rparr>)
      | (None, es) \<Rightarrow>
          if xh_up h 5 then (None, Some \<lparr>ar_entries = es, ar_bad = False\<rparr>)
          else (Some StateClose, Some \<lparr>ar_entries = es, ar_bad = xh_torn h\<rparr>))"

subsection \<open>Import\<close>

text \<open>The place of an entry below the destination.\<close>

definition entry_target :: "string \<Rightarrow> string" where
  "entry_target name = (let c = trim_prefix (path_clean name) ''/'' in if c = [] then ''.'' else c)"

definition extract_file :: "fs_io \<Rightarrow> nat \<Rightarrow> string \<Rightarrow> string \<Rightarrow> tree \<Rightarrow> bool \<times> tree" where
  "extract_file io perm name content t =
     (let mode = (case map_of t name of Some (Regular m c) \<Rightarrow> m | _ \<Rightarrow> perm) in
      if io_bad io OpCreate name \<or> name = ''.'' \<or> \<not> writable t name then (False, t)
      else if io_bad io OpWrite name then (False, al_put name (Regular mode (take (io_cut io name) content)) t)
      else (True, al_put name (Regular mode content) t))"

definition extract_entry :: "fs_io \<Rightarrow> archive_entry \<Rightarrow> tree \<Rightarrow> bool \<times> tree" where
  "extract_entry io e t =
     (if contains_str (path_clean (ae_Name e)) ''..'' then (True, t)
      else
        let name = entry_target (ae_Name e) in
        (case ae_Kind e of
           EntryDir \<Rightarrow> (case mkdir_all io name t of (err, t1) \<Rightarrow> (err = None, t1))
         | EntryReg \<Rightarrow>
             (case mkdir_all io (path_dir name) t of
                (Some err, t1) \<Rightarrow> (False, t1)
              | (None, t1) \<Rightarrow> extract_file io (ae_Mode e) name (ae_Data e) t1)
         | EntryOther \<Rightarrow> (True, t)))"

fun extract_all :: "fs_io \<Rightarrow> archive_entry list \<Rightarrow> tree \<Rightarrow> bool \<times> tree" where
  "extract_all io [] t = (True, t)"
| "extract_all io (e # es) t =
     (case extract_entry io e t of (False, t1) \<Rightarrow> (False, t1) | (True, t1) \<Rightarrow> extract_all io es t1)"

text \<open>An archive that cannot be opened or is no gzip file is \<open>None\<close>.\<close>

definition extractTarGz :: "fs_io \<Rightarrow> archive option \<Rightarrow> tree \<Rightarrow> bool \<times> tree" where
  "extractTarGz io ar t =
     (case ar of
        None \<Rightarrow> (False, t)
      | Some a \<Rightarrow> (case extract_all io (ar_entries a) t of (ok, t1) \<Rightarrow> (ok \<and> \<not> ar_bad a, t1)))"

text \<open>The temporary tree and the base directory are both addressed by the same relative name.\<close>

definition copyFile :: "fs_io \<Rightarrow> tree \<Rightarrow> fs_io \<Rightarrow> string \<Rightarrow> tree \<Rightarrow> bool \<times> tree" where
  "copyFile src tmp io name t =
     (if map_of tmp name = None \<or> io_bad src OpOpen name then (False, t)
      else case mkdir_all io (path_dir name) t of
        (Some e, t1) \<Rightarrow> (False, t1)
      | (None, t1) \<Rightarrow>
          (case map_of tmp name of
             Some (Regular m content) \<Rightarrow>
               if io_bad src OpRead name
               then (False, snd (extract_file (io\<lparr>io_bad := (\<lambda>op n. op = OpWrite \<or> io_bad io op n)\<rparr>) 438 name content t1))
               else extract_file io 438 name content t1
           | _ \<Rightarrow> (False, snd (extract_file io 438 name [] t1))))"

fun copy_nodes :: "fs_io \<Rightarrow> tree \<Rightarrow> fs_io \<Rightarrow> tree \<Rightarrow> tree \<Rightarrow> bool \<times> tree" where
  "copy_nodes src tmp io [] t = (True, t)"
| "copy_nodes src tmp io ((name, nd) # ns) t =
     (if \<not> walk_sees src name \<or> (nd = Directory \<and> io_bad src OpOpen name) then (False, t)
      else case (if nd = Directory then (case mkdir_all io name t of (e, t1) \<Rightarrow> (e = None, t1))
                 else copyFile src tmp io name t) of
        (False, t1) \<Rightarrow> (False, t1)
      | (True, t1) \<Rightarrow> copy_nodes src tmp io ns t1)"

definition below_backups :: "tree \<Rightarrow> tree" where
  "below_backups tmp = filter (\<lambda>(n, nd). n = ''backups'' \<or> has_prefix n ''backups/'') (walk_order tmp)"

text \<open>\<open>ih_open\<close> opens the database and yields the file that this leaves, if it is one.\<close>

record import_host =
  ih_temp :: bool
  ih_tmp :: fs_io
  ih_base :: fs_io
  ih_dec :: "string \<Rightarrow> StateManifest option"
  ih_open :: "string \<Rightarrow> string option"

definition read_manifest :: "import_host \<Rightarrow> tree \<Rightarrow> state_error + StateManifest" where
  "read_manifest h tmp =
     (case map_of tmp ''state.json'' of
        Some (Regular m data) \<Rightarrow>
          if io_bad (ih_tmp h) OpRead ''state.json'' then Inl StateManifestBad
          else (case ih_dec h data of
                  None \<Rightarrow> Inl StateManifestBad
                | Some sm \<Rightarrow> if sm_ExportTimestamp sm = [] then Inl StateUnstamped else Inr sm)
      | _ \<Rightarrow> Inl StateManifestBad)"

definition import_rest :: "import_host \<Rightarrow> tree \<Rightarrow> tree \<Rightarrow> state_error option \<times> tree" where
  "import_rest h tmp t =
     (case (if map_of tmp ''backups'' = Some Directory
            then copy_nodes (ih_tmp h) tmp (ih_base h) (below_backups tmp) t else (True, t)) of
        (False, t1) \<Rightarrow> (Some StateBackups, t1)
      | (True, t1) \<Rightarrow>
          if map_of tmp ''config.toml'' = None then (None, t1)
          else (case copyFile (ih_tmp h) tmp (ih_base h) ''config.toml'' t1 of
                  (ok, t2) \<Rightarrow> (if ok then None else Some StateConfig, t2)))"

definition import_database :: "import_host \<Rightarrow> tree \<Rightarrow> tree \<Rightarrow> state_error option \<times> tree" where
  "import_database h tmp t =
     (case copyFile (ih_tmp h) tmp (ih_base h) ''fleetdeck.db'' t of
        (False, t1) \<Rightarrow> (Some StateDatabase, t1)
      | (True, t1) \<Rightarrow>
          (case map_of t1 ''fleetdeck.db'' of
             Some (Regular m content) \<Rightarrow>
               (case ih_open h content of
                  None \<Rightarrow> (Some StateCorrupt,
                            if io_bad (ih_base h) OpRemove ''fleetdeck.db'' then t1 else al_del ''fleetdeck.db'' t1)
                | Some opened \<Rightarrow> import_rest h tmp (al_put ''fleetdeck.db'' (Regular m opened) t1))
           | _ \<Rightarrow> (Some StateCorrupt, t1)))"

definition ImportState :: "import_host \<Rightarrow> archive option \<Rightarrow> tree option \<Rightarrow> state_error option \<times> tree option" where
  "ImportState h ar base =
     (if \<not> ih_temp h then (Some StateTemp, base)
      else case extractTarGz (ih_tmp h) ar [] of
        (False, tmp) \<Rightarrow> (Some StateArchive, base)
      | (True, tmp) \<Rightarrow>
          (case read_manifest h tmp of
             Inl e \<Rightarrow> (Some e, base)
           | Inr sm \<Rightarrow>
               if map_of tmp ''fleetdeck.db'' = None then (Some StateNoDatabase, base)
               else if io_bad (ih_base h) OpMkdir [] then (Some StateDir, base)
               else (case import_database h tmp (case base of None \<Rightarrow> [] | Some t \<Rightarrow> t) of (e, t) \<Rightarrow> (e, Some t))))"

text \<open>The manifest alone: the first entry of the name decides.\<close>

definition ReadStateManifest :: "(string \<Rightarrow> StateManifest option) \<Rightarrow> archive option \<Rightarrow> StateManifest option" where
  "ReadStateManifest dec ar =
     (case ar of
        None \<Rightarrow> None
      | Some a \<Rightarrow>
          (case List.find (\<lambda>e. ae_Name e = ''state.json'') (ar_entries a) of
             None \<Rightarrow> None
           | Some e \<Rightarrow> dec (if ae_Kind e = EntryReg then ae_Data e else [])))"

end
