(* ===== verification/State_Restored.thy ===== *)
theory State_Restored
  imports State_Archive Backup_Created
begin

text \<open>
  What an import restores. A set of files that do not lie below one another can be written into a tree in any order
  (\<open>grown\<close>); the entries of an export are such a set.
\<close>

subsection \<open>Trees that grow towards a set of files\<close>

definition apart :: "string list set \<Rightarrow> bool" where
  "apart F \<longleftrightarrow> (\<forall>a \<in> F. a \<noteq> [] \<and> list_all normal_component a) \<and> (\<forall>a \<in> F. \<forall>b \<in> F. \<forall>k. a = take k b \<longrightarrow> a = b)"

definition grown :: "string list set \<Rightarrow> tree \<Rightarrow> bool" where
  "grown F t \<longleftrightarrow> (\<forall>p nd. map_of t p = Some nd \<longrightarrow>
     (\<exists>ws \<in> F. p = rel_path ws \<and> is_regular nd) \<or>
     (\<exists>ws \<in> F. \<exists>k. 0 < k \<and> k < length ws \<and> p = rel_path (take k ws) \<and> nd = Directory))"

lemma grown_nil [simp]: "grown F []"
  by (simp add: grown_def)

lemma rel_path_inj:
  "list_all normal_component a \<Longrightarrow> list_all normal_component b \<Longrightarrow> a \<noteq> [] \<Longrightarrow> b \<noteq> [] \<Longrightarrow> rel_path a = rel_path b \<Longrightarrow> a = b"
  using split_rel_path by metis

lemma apart_normal: "apart F \<Longrightarrow> ws \<in> F \<Longrightarrow> ws \<noteq> [] \<and> list_all normal_component ws"
  by (auto simp: apart_def)

lemma apart_take:
  assumes "apart F" "a \<in> F" "b \<in> F" "a = take k b"
  shows "a = b"
proof -
  have "\<forall>a \<in> F. \<forall>b \<in> F. \<forall>k. a = take k b \<longrightarrow> a = b" using assms(1) unfolding apart_def by (rule conjunct2)
  from this[rule_format, OF assms(2,3,4)] show ?thesis .
qed

lemma normal_take: "list_all normal_component ws \<Longrightarrow> list_all normal_component (take k ws)"
  by (auto simp: list_all_iff dest: in_set_takeD)

lemma apart_strict:
  assumes "apart F" "ws \<in> F" "vs \<in> F" "k < length vs"
  shows "rel_path ws \<noteq> rel_path (take k vs)"
proof
  assume same: "rel_path ws = rel_path (take k vs)"
  have n: "ws \<noteq> []" "list_all normal_component ws" "vs \<noteq> []" "list_all normal_component vs"
    using apart_normal[OF assms(1)] assms(2,3) by auto
  show False
  proof (cases "k = 0")
    case True
    then show False using same n(1,2) join_with_empty[OF n(2)] by simp
  next
    case False
    then have cut: "ws = take k vs" using same n by (intro rel_path_inj normal_take) auto
    then have "ws = vs" by (rule apart_take[OF assms(1-3)])
    then have "length (take k vs) = length vs" using cut by simp
    then show False using assms(4) by simp
  qed
qed

lemma rel_path_not_dot:
  assumes "list_all normal_component ws" "ws \<noteq> []"
  shows "rel_path ws \<noteq> ''.''"
proof
  assume "rel_path ws = ''.''"
  then have "ws = [''.'']" using split_rel_path[OF assms] by simp
  then show False using assms(1) by (simp add: normal_component_def)
qed

text \<open>A file of the set is either there or free, and a directory on the way to it is there or free.\<close>

lemma grown_file:
  assumes "apart F" "grown F t" "ws \<in> F"
  shows "map_of t (rel_path ws) = None \<or> (\<exists>m c. map_of t (rel_path ws) = Some (Regular m c))"
proof (cases "map_of t (rel_path ws)")
  case (Some nd)
  then have "is_regular nd" using assms(2) apart_strict[OF assms(1,3)] unfolding grown_def by blast
  then show ?thesis using Some by (cases nd) auto
qed simp

lemma grown_dir:
  assumes "apart F" "grown F t" "ws \<in> F" "0 < k" "k < length ws"
  shows "map_of t (rel_path (take k ws)) \<in> {None, Some Directory}"
proof (cases "map_of t (rel_path (take k ws))")
  case (Some nd)
  then show ?thesis using assms(2) apart_strict[OF assms(1) _ assms(3,5)] unfolding grown_def by force
qed simp

lemma make_dirs_good:
  "\<forall>p \<in> set ps. map_of t p \<in> {None, Some Directory}
    \<Longrightarrow> \<exists>t'. make_dirs good_io ps t = (None, t') \<and> (\<forall>q. map_of t' q = (if q \<in> set ps then Some Directory else map_of t q))"
proof (induction ps arbitrary: t)
  case (Cons p ps)
  have bad: "\<not> io_bad good_io op n" for op n by (simp add: good_io_def)
  show ?case
  proof (cases "map_of t p")
    case None
    have "\<forall>q \<in> set ps. map_of (al_put p Directory t) q \<in> {None, Some Directory}" using Cons.prems by (simp add: map_of_put)
    from Cons.IH[OF this] None bad show ?thesis by (fastforce simp: map_of_put)
  next
    case (Some nd)
    then show ?thesis using Cons.IH[of t] Cons.prems bad by auto
  qed
qed simp

definition more_dirs :: "tree \<Rightarrow> tree \<Rightarrow> bool" where
  "more_dirs t t' \<longleftrightarrow> (\<forall>p. map_of t' p = map_of t p \<or> (map_of t p = None \<and> map_of t' p = Some Directory))"

lemma more_dirs_refl [simp]: "more_dirs t t"
  by (simp add: more_dirs_def)

lemma more_dirs_regular: "more_dirs t t' \<Longrightarrow> map_of t' p = Some (Regular m c) \<longleftrightarrow> map_of t p = Some (Regular m c)"
  unfolding more_dirs_def by (metis node.distinct(1) option.distinct(1) option.inject)

text \<open>The directories of \<open>k\<close> components, all of them before the last.\<close>

lemma make_way:
  assumes "apart F" "grown F t" "ws \<in> F" "k < length ws" "0 < k"
  shows "\<exists>t'. mkdir_all good_io (rel_path (take k ws)) t = (None, t') \<and> grown F t' \<and> more_dirs t t'
    \<and> (\<forall>j. 0 < j \<and> j \<le> k \<longrightarrow> map_of t' (rel_path (take j ws)) = Some Directory)"
proof -
  have n: "ws \<noteq> []" "list_all normal_component ws" using apart_normal[OF assms(1,3)] by auto
  have tk: "take k ws \<noteq> []" "list_all normal_component (take k ws)" using n assms(5) normal_take by auto
  have pre: "\<exists>j. 0 < j \<and> j \<le> k \<and> p = rel_path (take j ws)" if "p \<in> set (path_prefixes (rel_path (take k ws)))" for p
  proof -
    have "p \<in> (\<lambda>i. rel_path (take (Suc i) (take k ws))) ` {0..<length (take k ws)}"
      using that unfolding prefixes_rel_path[OF tk(2,1)] set_map set_upt .
    then obtain i where i: "i < k" "p = rel_path (take (Suc i) (take k ws))"
      by (elim imageE) (metis atLeastLessThan_iff length_take min_less_iff_conj)
    then have "take (Suc i) (take k ws) = take (Suc i) ws" by (simp add: min_def)
    then show ?thesis using i by (intro exI[of _ "Suc i"]) simp
  qed
  have free: "\<forall>p \<in> set (path_prefixes (rel_path (take k ws))). map_of t p \<in> {None, Some Directory}"
  proof
    fix p assume "p \<in> set (path_prefixes (rel_path (take k ws)))"
    then obtain j where "0 < j" "j \<le> k" "p = rel_path (take j ws)" using pre by blast
    then show "map_of t p \<in> {None, Some Directory}" using grown_dir[OF assms(1-3), of j] assms(4) by simp
  qed
  obtain t' where t': "make_dirs good_io (path_prefixes (rel_path (take k ws))) t = (None, t')"
      "\<forall>q. map_of t' q = (if q \<in> set (path_prefixes (rel_path (take k ws))) then Some Directory else map_of t q)"
    using make_dirs_good[OF free] by blast
  have "rel_path (take k ws) \<noteq> ''.''" by (rule rel_path_not_dot[OF tk(2,1)])
  moreover have "grown F t'"
    unfolding grown_def
  proof (intro allI impI)
    fix p nd assume at: "map_of t' p = Some nd"
    show "(\<exists>ws \<in> F. p = rel_path ws \<and> is_regular nd)
        \<or> (\<exists>ws \<in> F. \<exists>k. 0 < k \<and> k < length ws \<and> p = rel_path (take k ws) \<and> nd = Directory)"
    proof (cases "p \<in> set (path_prefixes (rel_path (take k ws)))")
      case True
      then obtain j where "0 < j" "j \<le> k" "p = rel_path (take j ws)" using pre by blast
      then have "0 < j \<and> j < length ws \<and> p = rel_path (take j ws) \<and> nd = Directory" using assms(4) at t'(2) True by simp
      then show ?thesis using assms(3) by blast
    next
      case False
      then show ?thesis using assms(2) at t'(2) unfolding grown_def by simp
    qed
  qed
  moreover have "more_dirs t t'" using t'(2) free by (auto simp: more_dirs_def)
  moreover have "map_of t' (rel_path (take j ws)) = Some Directory" if "0 < j" "j \<le> k" for j
  proof -
    have "take (Suc (j - 1)) (take k ws) = take j ws" using that by (simp add: min_def)
    moreover have "j - 1 \<in> {0..<length (take k ws)}" using that assms(4) by auto
    ultimately have "rel_path (take j ws) \<in> set (path_prefixes (rel_path (take k ws)))"
      unfolding prefixes_rel_path[OF tk(2,1)] set_map set_upt by (metis imageI)
    then show ?thesis using t'(2) by simp
  qed
  ultimately show ?thesis using t'(1) by (auto simp: mkdir_all_def)
qed

definition kept_mode :: "tree \<Rightarrow> string \<Rightarrow> nat \<Rightarrow> nat" where
  "kept_mode t p perm = (case map_of t p of Some (Regular m c) \<Rightarrow> m | _ \<Rightarrow> perm)"

lemma write_grown:
  assumes "apart F" "grown F t" "ws \<in> F"
  shows "\<exists>t1. mkdir_all good_io (path_dir (rel_path ws)) t = (None, t1) \<and> more_dirs t t1
    \<and> extract_file good_io perm (rel_path ws) c t1
        = (True, al_put (rel_path ws) (Regular (kept_mode t (rel_path ws) perm) c) t1)
    \<and> grown F (al_put (rel_path ws) (Regular (kept_mode t (rel_path ws) perm) c) t1)
    \<and> (\<forall>k. 0 < k \<and> k < length ws \<longrightarrow> map_of t1 (rel_path (take k ws)) = Some Directory)"
proof -
  have n: "ws \<noteq> []" "list_all normal_component ws" using apart_normal[OF assms(1,3)] by auto
  let ?k = "length ws - 1"
  obtain us u where ws: "ws = us @ [u]" using n(1) by (metis rev_exhaust)
  have dir: "path_dir (rel_path ws) = (if us = [] then ''.'' else rel_path us)"
    using path_dir_rel[of us u] n(2) by (simp add: ws)
  have nd: "rel_path ws \<noteq> ''.''" by (rule rel_path_not_dot[OF n(2,1)])
  obtain t1 where t1: "mkdir_all good_io (path_dir (rel_path ws)) t = (None, t1)" "grown F t1" "more_dirs t t1"
    "\<forall>k. 0 < k \<and> k < length ws \<longrightarrow> map_of t1 (rel_path (take k ws)) = Some Directory"
  proof (cases "us = []")
    case True
    then show thesis using that[of t] dir assms(2) by (simp add: mkdir_all_def ws)
  next
    case False
    have "?k < length ws" "0 < ?k" "rel_path (take ?k ws) = path_dir (rel_path ws)" using False dir by (auto simp: ws)
    then show thesis using that make_way[OF assms, of ?k] by (metis Suc_diff_1 less_Suc_eq_le n(1) length_greater_0_conv)
  qed
  have at: "map_of t1 (rel_path ws) = map_of t (rel_path ws)"
    using grown_file[OF assms(1) t1(2) assms(3)] t1(3) unfolding more_dirs_def
    by (metis node.distinct(1) option.distinct(1) option.inject)
  have w: "writable t1 (rel_path ws)" using grown_file[OF assms(1) t1(2) assms(3)] by (auto simp: writable_def)
  have "extract_file good_io perm (rel_path ws) c t1
      = (True, al_put (rel_path ws) (Regular (kept_mode t (rel_path ws) perm) c) t1)"
    using w nd at by (simp add: extract_file_def good_io_def Let_def kept_mode_def)
  moreover have "grown F (al_put (rel_path ws) (Regular m c) t1)" for m
    using t1(2) assms(3) unfolding grown_def by (auto simp: map_of_put)
  ultimately show ?thesis using t1(1,3,4) by blast
qed

subsection \<open>Extraction\<close>

text \<open>A safe entry is a file of the set; an entry with two dots in its name is passed over.\<close>

definition file_of :: "archive_entry \<Rightarrow> string list" where
  "file_of e = split_on CHR ''/'' (ae_Name e)"

definition plain_entries :: "archive_entry list \<Rightarrow> archive_entry list" where
  "plain_entries es = filter (\<lambda>e. \<not> contains_str (ae_Name e) ''..'') es"

definition sound_entries :: "archive_entry list \<Rightarrow> bool" where
  "sound_entries es \<longleftrightarrow> (\<forall>e \<in> set es. ae_Kind e = EntryReg) \<and> distinct (map file_of es) \<and> apart (file_of ` set es)"

lemma file_of_name: "apart F \<Longrightarrow> file_of e \<in> F \<Longrightarrow> ae_Name e = rel_path (file_of e)"
  by (simp add: file_of_def)

lemma entry_target_rel: "apart F \<Longrightarrow> ws \<in> F \<Longrightarrow> entry_target (rel_path ws) = rel_path ws \<and> path_clean (rel_path ws) = rel_path ws"
proof -
  assume F: "apart F" "ws \<in> F"
  have n: "ws \<noteq> []" "list_all normal_component ws" using apart_normal[OF F] by auto
  have "\<not> has_prefix (rel_path ws) ''/''" using rel_path_not_abs[OF n(2,1), of "[]"] by (simp add: is_abs_def)
  moreover have "rel_path ws \<noteq> []" using n join_with_empty by simp
  ultimately show ?thesis using path_clean_rel(1)[OF n(2,1)] by (simp add: entry_target_def trim_prefix_def Let_def)
qed

lemma extract_all_plain:
  assumes "apart F" "file_of ` set es \<subseteq> F"
  shows "extract_all io es t = extract_all io (plain_entries es) t"
  using assms(2)
proof (induction es arbitrary: t)
  case (Cons e es)
  have "path_clean (ae_Name e) = ae_Name e"
    using entry_target_rel[OF assms(1), of "file_of e"] file_of_name[OF assms(1), of e] Cons.prems by simp
  then show ?case using Cons.IH Cons.prems
    by (simp add: plain_entries_def extract_entry_def split: prod.splits bool.splits)
qed (simp add: plain_entries_def)

definition closed :: "string list set \<Rightarrow> tree \<Rightarrow> bool" where
  "closed F t \<longleftrightarrow> (\<forall>ws \<in> F. \<forall>k. rel_path ws \<in> regular_paths t \<and> 0 < k \<and> k < length ws
     \<longrightarrow> map_of t (rel_path (take k ws)) = Some Directory)"

lemma closed_put:
  assumes "apart F" "closed F t" "more_dirs t t1" "ws \<in> F"
    and "\<forall>k. 0 < k \<and> k < length ws \<longrightarrow> map_of t1 (rel_path (take k ws)) = Some Directory"
  shows "closed F (al_put (rel_path ws) (Regular m c) t1)"
  unfolding closed_def
proof (intro ballI allI impI)
  fix vs k
  assume vs: "vs \<in> F" and k: "rel_path vs \<in> regular_paths (al_put (rel_path ws) (Regular m c) t1) \<and> 0 < k \<and> k < length vs"
  have other: "rel_path ws \<noteq> rel_path (take k vs)" using apart_strict[OF assms(1,4) vs] k by blast
  have "map_of t1 (rel_path (take k vs)) = Some Directory"
  proof (cases "rel_path vs = rel_path ws")
    case True
    then have "vs = ws" using rel_path_inj apart_normal[OF assms(1)] vs assms(4) by metis
    then show ?thesis using assms(5) k by blast
  next
    case False
    then have "rel_path vs \<in> regular_paths t"
      using k more_dirs_regular[OF assms(3)] by (auto simp: regular_paths_def map_of_put)
    then have "map_of t (rel_path (take k vs)) = Some Directory" using assms(2) vs k unfolding closed_def by blast
    then show ?thesis using assms(3) unfolding more_dirs_def by (metis option.distinct(1))
  qed
  then show "map_of (al_put (rel_path ws) (Regular m c) t1) (rel_path (take k vs)) = Some Directory"
    using other by (simp add: map_of_put)
qed

lemma extract_all_good:
  assumes "apart F" "grown F t" "closed F t" "\<forall>e \<in> set es. ae_Kind e = EntryReg \<and> file_of e \<in> F \<and> \<not> contains_str (ae_Name e) ''..''"
    and "distinct (map file_of es)" "\<forall>e \<in> set es. map_of t (ae_Name e) = None"
  shows "\<exists>t'. extract_all good_io es t = (True, t') \<and> grown F t'
    \<and> (\<forall>e \<in> set es. map_of t' (ae_Name e) = Some (Regular (ae_Mode e) (ae_Data e)))
    \<and> (\<forall>p m c. map_of t p = Some (Regular m c) \<longrightarrow> map_of t' p = Some (Regular m c)) \<and> closed F t'"
  using assms(2-6)
proof (induction es arbitrary: t)
  case (Cons e es)
  have F: "file_of e \<in> F" using Cons.prems(3) by simp
  have name: "ae_Name e = rel_path (file_of e)" by (rule file_of_name[OF assms(1) F])
  define t2 where "t2 = (\<lambda>t1. al_put (ae_Name e) (Regular (ae_Mode e) (ae_Data e)) t1)"
  have new: "map_of t (ae_Name e) = None" using Cons.prems(5) by simp
  obtain t1 where w: "mkdir_all good_io (path_dir (ae_Name e)) t = (None, t1)" "more_dirs t t1"
    "extract_file good_io (ae_Mode e) (ae_Name e) (ae_Data e) t1 = (True, t2 t1)" "grown F (t2 t1)"
    "\<forall>k. 0 < k \<and> k < length (file_of e) \<longrightarrow> map_of t1 (rel_path (take k (file_of e))) = Some Directory"
    using write_grown[OF assms(1) Cons.prems(1) F, of "ae_Mode e" "ae_Data e"] new
    unfolding name[symmetric] t2_def kept_mode_def by auto
  have step: "extract_entry good_io e t = (True, t2 t1)"
    using w(1,3) Cons.prems(3) entry_target_rel[OF assms(1) F] by (simp add: extract_entry_def Let_def name)
  have cl: "closed F (t2 t1)"
    unfolding t2_def name by (rule closed_put[OF assms(1) Cons.prems(2) w(2) F w(5)])
  have free: "\<forall>e' \<in> set es. map_of (t2 t1) (ae_Name e') = None"
  proof
    fix e' assume e': "e' \<in> set es"
    have "file_of e \<notin> set (map file_of es)" using Cons.prems(4) by simp
    moreover have "file_of e' \<in> set (map file_of es)" using e' by simp
    ultimately have other: "ae_Name e' \<noteq> ae_Name e" by (metis file_of_def)
    have F': "file_of e' \<in> F" using Cons.prems(3) e' by simp
    have "\<not> (\<exists>m c. map_of (t2 t1) (ae_Name e') = Some (Regular m c))"
      using other Cons.prems(5) e' more_dirs_regular[OF w(2)] by (simp add: t2_def map_of_put)
    then show "map_of (t2 t1) (ae_Name e') = None"
      using grown_file[OF assms(1) w(4) F'] file_of_name[OF assms(1) F'] by simp
  qed
  obtain t' where t': "extract_all good_io es (t2 t1) = (True, t')" "grown F t'"
    "\<forall>e \<in> set es. map_of t' (ae_Name e) = Some (Regular (ae_Mode e) (ae_Data e))"
    "\<forall>p m c. map_of (t2 t1) p = Some (Regular m c) \<longrightarrow> map_of t' p = Some (Regular m c)" "closed F t'"
    using Cons.IH[OF w(4) cl _ _ free] Cons.prems(3,4) by (simp del: map_of.simps) blast
  have "map_of t' (ae_Name e) = Some (Regular (ae_Mode e) (ae_Data e))" using t'(4) by (simp add: t2_def map_of_put)
  moreover have "map_of t' p = Some (Regular m' c)" if "map_of t p = Some (Regular m' c)" for p m' c
  proof -
    have "p \<noteq> ae_Name e" using that Cons.prems(5) by auto
    then have "map_of (t2 t1) p = Some (Regular m' c)"
      using more_dirs_regular[OF w(2), of p m' c] that by (simp add: t2_def map_of_put)
    then show ?thesis using t'(4) by blast
  qed
  ultimately show ?case using step t' by auto
qed simp

subsection \<open>Copying into a fresh base\<close>

text \<open>Every file that is there has the content it should have, and the mode of a new file.\<close>

definition imported :: "string list set \<Rightarrow> (string \<Rightarrow> string option) \<Rightarrow> tree \<Rightarrow> bool" where
  "imported F src t \<longleftrightarrow> grown F t \<and> (\<forall>p m c. map_of t p = Some (Regular m c) \<longrightarrow> m = 438 \<and> src p = Some c)"

lemma extract_wf: "extract_all io es t = (ok, t') \<Longrightarrow> al_wf t \<Longrightarrow> al_wf t'"
proof (induction es arbitrary: t)
  case (Cons e es)
  have dirs: "make_dirs io ps s = (r, s') \<Longrightarrow> al_wf s \<Longrightarrow> al_wf s'" for ps s r s'
    by (induction io ps s rule: make_dirs.induct) (auto split: if_splits option.splits node.splits)
  have mk: "mkdir_all io n s = (r, s') \<Longrightarrow> al_wf s \<Longrightarrow> al_wf s'" for n s r s'
    using dirs by (auto simp: mkdir_all_def split: if_splits)
  have "extract_entry io e t = (b, t1) \<Longrightarrow> al_wf t1" for b t1
    using Cons.prems(2) by (auto simp: extract_entry_def extract_file_def Let_def
        split: if_splits entry_kind.splits prod.splits option.splits dest!: mk)
  then show ?case using Cons by (auto split: prod.splits bool.splits)
qed simp

lemma copyFile_good:
  assumes "apart F" "imported F src t" "ws \<in> F" "map_of tmp (rel_path ws) = Some (Regular m c)" "src (rel_path ws) = Some c"
  shows "\<exists>t'. copyFile good_io tmp good_io (rel_path ws) t = (True, t') \<and> imported F src t'
    \<and> regular_paths t' = insert (rel_path ws) (regular_paths t)"
proof -
  have g: "grown F t" using assms(2) by (simp add: imported_def)
  obtain t1 where w: "mkdir_all good_io (path_dir (rel_path ws)) t = (None, t1)" "more_dirs t t1"
    "extract_file good_io 438 (rel_path ws) c t1 = (True, al_put (rel_path ws) (Regular (kept_mode t (rel_path ws) 438) c) t1)"
    "grown F (al_put (rel_path ws) (Regular (kept_mode t (rel_path ws) 438) c) t1)"
    using write_grown[OF assms(1) g assms(3)] by blast
  have mode: "kept_mode t (rel_path ws) 438 = 438"
    using assms(2) by (auto simp: kept_mode_def imported_def split: option.splits node.splits)
  let ?t' = "al_put (rel_path ws) (Regular 438 c) t1"
  have "imported F src ?t'"
    using assms(2,5) w(4) more_dirs_regular[OF w(2)] by (auto simp: imported_def map_of_put mode)
  moreover have "regular_paths ?t' = insert (rel_path ws) (regular_paths t)"
    using more_dirs_regular[OF w(2)] by (auto simp: regular_paths_def map_of_put)
  ultimately show ?thesis using w(1,3) assms(4) mode by (auto simp: copyFile_def good_io_def)
qed

lemma good_io_bad [simp]: "\<not> io_bad good_io op n"
  by (simp add: good_io_def)

lemma walk_sees_good [simp]: "walk_sees good_io n"
  by (simp add: walk_sees_def good_io_def list_all_iff)

lemma copy_nodes_good:
  assumes "apart F" "grown F tmp" "\<forall>(n, nd) \<in> set ns. map_of tmp n = Some nd \<and> (\<forall>m c. nd = Regular m c \<longrightarrow> src n = Some c)"
    and "imported F src t"
  shows "\<exists>t'. copy_nodes good_io tmp good_io ns t = (True, t') \<and> imported F src t'
    \<and> regular_paths t' = {n. \<exists>m c. (n, Regular m c) \<in> set ns} \<union> regular_paths t"
  using assms(3,4)
proof (induction ns arbitrary: t)
  case (Cons e ns)
  obtain n nd where e: "e = (n, nd)" by (cases e)
  have at: "map_of tmp n = Some nd" "\<forall>m c. nd = Regular m c \<longrightarrow> src n = Some c" using Cons.prems(1) e by auto
  consider (leaf) ws m c where "ws \<in> F" "n = rel_path ws" "nd = Regular m c"
    | (dir) ws k where "ws \<in> F" "0 < k" "k < length ws" "n = rel_path (take k ws)" "nd = Directory"
    using assms(2) at(1) unfolding grown_def by (metis is_regular.elims(2))
  then obtain t1 where t1: "copy_nodes good_io tmp good_io (e # ns) t = copy_nodes good_io tmp good_io ns t1" "imported F src t1"
    "regular_paths t1 = {n'. \<exists>m c. (n', Regular m c) = e} \<union> regular_paths t"
  proof cases
    case leaf
    obtain t' where "copyFile good_io tmp good_io n t = (True, t')" "imported F src t'"
        "regular_paths t' = insert n (regular_paths t)"
      using copyFile_good[OF assms(1) Cons.prems(2) leaf(1), of tmp m c] at leaf by auto
    then show thesis using that[of t'] leaf e by simp
  next
    case dir
    have g: "grown F t" using Cons.prems(2) by (simp add: imported_def)
    obtain t' where t': "mkdir_all good_io n t = (None, t')" "grown F t'" "more_dirs t t'"
      using make_way[OF assms(1) g dir(1,3,2)] dir(4) by auto
    have "imported F src t'" "regular_paths t' = regular_paths t"
      using Cons.prems(2) t'(2) more_dirs_regular[OF t'(3)] by (auto simp: imported_def regular_paths_def)
    then show thesis using that[of t'] t'(1) dir e by simp
  qed
  have "\<forall>(n, nd) \<in> set ns. map_of tmp n = Some nd \<and> (\<forall>m c. nd = Regular m c \<longrightarrow> src n = Some c)" using Cons.prems(1) by auto
  from Cons.IH[OF this t1(2)] obtain t' where t': "copy_nodes good_io tmp good_io ns t1 = (True, t')" "imported F src t'"
    "regular_paths t' = {n. \<exists>m c. (n, Regular m c) \<in> set ns} \<union> regular_paths t1" by blast
  moreover have "{n. \<exists>m c. (n, Regular m c) \<in> set (e # ns)} = {n'. \<exists>m c. (n', Regular m c) = e} \<union> {n. \<exists>m c. (n, Regular m c) \<in> set ns}"
    by (simp add: ex_disj_distrib Collect_disj_eq)
  ultimately show ?case using t1(1,3) by (intro exI[of _ t']) auto
qed simp

subsection \<open>A whole import\<close>

definition good_import :: "import_host \<Rightarrow> bool" where
  "good_import h \<longleftrightarrow> ih_temp h \<and> ih_tmp h = good_io \<and> ih_base h = good_io"

text \<open>An archive of sound entries with a stamped manifest and a database that opens is restored as it is.\<close>

lemma ImportState_good:
  assumes h: "good_import h" and es: "sound_entries es"
    and manifest: "(''state.json'', data) \<in> (\<lambda>e. (ae_Name e, ae_Data e)) ` set es" "ih_dec h data = Some sm"
      "sm_ExportTimestamp sm \<noteq> []"
    and db: "(''fleetdeck.db'', snap) \<in> (\<lambda>e. (ae_Name e, ae_Data e)) ` set es" "ih_open h snap = Some opened"
    and names: "\<forall>e \<in> set es. ae_Name e \<in> {''state.json'', ''fleetdeck.db'', ''config.toml''} \<or> has_prefix (ae_Name e) ''backups/''"
  shows "\<exists>t. ImportState h (Some \<lparr>ar_entries = es, ar_bad = False\<rparr>) None = (None, Some t)
    \<and> map_of t ''fleetdeck.db'' = Some (Regular 438 opened) \<and> grown (file_of ` set es) t
    \<and> (\<forall>e \<in> set es. \<not> contains_str (ae_Name e) ''..'' \<and> ae_Name e \<notin> {''state.json'', ''fleetdeck.db''}
        \<longrightarrow> map_of t (ae_Name e) = Some (Regular 438 (ae_Data e)))"
proof -
  define F where "F = file_of ` set es"
  let ?ps = "plain_entries es"
  have F: "apart F" using es by (simp add: sound_entries_def F_def)
  have ps: "\<forall>e \<in> set ?ps. ae_Kind e = EntryReg \<and> file_of e \<in> F \<and> \<not> contains_str (ae_Name e) ''..''"
    using es by (auto simp: plain_entries_def sound_entries_def F_def)
  have dis: "distinct (map file_of ?ps)" using es by (auto simp: plain_entries_def sound_entries_def distinct_map_filter)
  obtain tmp where tmp: "extract_all good_io ?ps [] = (True, tmp)" "grown F tmp"
    "\<forall>e \<in> set ?ps. map_of tmp (ae_Name e) = Some (Regular (ae_Mode e) (ae_Data e))"
    "closed F tmp"
    using extract_all_good[OF F grown_nil _ ps dis] by (auto simp: closed_def regular_paths_def)
  have ex: "extractTarGz good_io (Some \<lparr>ar_entries = es, ar_bad = False\<rparr>) [] = (True, tmp)"
    using extract_all_plain[OF F, of es good_io "[]"] tmp(1) by (simp add: extractTarGz_def F_def)
  have wf: "al_wf tmp" using extract_wf[OF tmp(1)] by simp
  have there: "\<exists>m. map_of tmp n = Some (Regular m d) \<and> split_on CHR ''/'' n \<in> F"
    if x: "(n, d) \<in> (\<lambda>e. (ae_Name e, ae_Data e)) ` set es" "\<not> contains_str n ''..''" for n d
  proof -
    obtain e where "e \<in> set es" "n = ae_Name e" "d = ae_Data e" using x(1) by auto
    then show ?thesis using tmp(3) x(2) by (auto simp: plain_entries_def F_def file_of_def)
  qed
  have safe: "\<not> contains_str ''state.json'' ''..''" "\<not> contains_str ''fleetdeck.db'' ''..''" by code_simp+
  obtain m1 m2 where sj: "map_of tmp ''state.json'' = Some (Regular m1 data)"
    and fd: "map_of tmp ''fleetdeck.db'' = Some (Regular m2 snap)" "split_on CHR ''/'' ''fleetdeck.db'' \<in> F"
    using there[OF manifest(1) safe(1)] there[OF db(1) safe(2)] by auto
  have read: "read_manifest h tmp = Inr sm" using sj manifest(2,3) h by (simp add: read_manifest_def good_import_def)
  define src where "src p = (if p = ''fleetdeck.db'' then Some opened
      else case map_of tmp p of Some (Regular m c) \<Rightarrow> Some c | _ \<Rightarrow> None)" for p
  have rel_db: "rel_path (split_on CHR ''/'' ''fleetdeck.db'') = ''fleetdeck.db''" by simp
  obtain t1 where t1: "copyFile good_io tmp good_io ''fleetdeck.db'' [] = (True, t1)" "imported F (\<lambda>p. Some snap) t1"
    "regular_paths t1 = {''fleetdeck.db''}"
  proof -
    have "imported F (\<lambda>p. Some snap) []" by (simp add: imported_def)
    from copyFile_good[OF F this fd(2), of tmp m2 snap, unfolded rel_db, OF fd(1) refl]
    obtain t where "copyFile good_io tmp good_io ''fleetdeck.db'' [] = (True, t)" "imported F (\<lambda>p. Some snap) t"
      "regular_paths t = insert ''fleetdeck.db'' (regular_paths [])" by blast
    then show thesis using that[of t] by (simp add: regular_paths_def)
  qed
  have regular: "map_of t p = Some (Regular 438 c)" if "imported F g t" "p \<in> regular_paths t" "g p = Some c" for g t p c
    using that by (auto simp: imported_def regular_paths_def)
  have at: "map_of t1 ''fleetdeck.db'' = Some (Regular 438 snap)" by (rule regular[OF t1(2)]) (simp_all add: t1(3))
  define t2 where "t2 = al_put ''fleetdeck.db'' (Regular 438 opened) t1"
  have "\<exists>ws \<in> F. ''fleetdeck.db'' = rel_path ws" by (rule bexI[OF _ fd(2)]) (simp only: rel_db)
  then have "grown F t2" using t1(2) unfolding t2_def imported_def grown_def by (simp add: map_of_put)
  moreover have "p = ''fleetdeck.db''" if "map_of t1 p = Some (Regular m c)" for p m c
  proof -
    have "p \<in> regular_paths t1" using that by (simp add: regular_paths_def)
    then show ?thesis using t1(3) by simp
  qed
  ultimately have im: "imported F src t2" by (auto simp: imported_def t2_def map_of_put src_def)
  have start: "import_database h tmp [] = import_rest h tmp t2"
    using t1(1) at db(2) h by (simp add: import_database_def t2_def good_import_def)
  let ?ns = "below_backups tmp"
  have sources: "\<forall>(n, nd) \<in> set ?ns. map_of tmp n = Some nd \<and> (\<forall>m c. nd = Regular m c \<longrightarrow> src n = Some c)"
  proof (intro ballI, clarify)
    fix n nd assume "(n, nd) \<in> set ?ns"
    then have x: "(n, nd) \<in> set tmp" "n = ''backups'' \<or> has_prefix n ''backups/''" by (auto simp: below_backups_def walk_order_def)
    have "map_of tmp n = Some nd" using x(1) wf by (simp add: al_wf_def)
    moreover have "n \<noteq> ''fleetdeck.db''" using x(2) by (auto simp: has_prefix_def)
    ultimately show "map_of tmp n = Some nd \<and> (\<forall>m c. nd = Regular m c \<longrightarrow> src n = Some c)" by (simp add: src_def)
  qed
  obtain t3 where t3: "copy_nodes good_io tmp good_io ?ns t2 = (True, t3)" "imported F src t3"
    "regular_paths t3 = {n. \<exists>m c. (n, Regular m c) \<in> set ?ns} \<union> regular_paths t2"
    using copy_nodes_good[OF F tmp(2) sources im] by blast
  have backups: "\<exists>t4. (if map_of tmp ''backups'' = Some Directory then copy_nodes good_io tmp good_io ?ns t2 else (True, t2)) = (True, t4)
      \<and> imported F src t4 \<and> regular_paths t2 \<subseteq> regular_paths t4
      \<and> (\<forall>n m c. map_of tmp n = Some (Regular m c) \<and> has_prefix n ''backups/'' \<longrightarrow> n \<in> regular_paths t4)"
  proof (cases "map_of tmp ''backups'' = Some Directory")
    case True
    have "(n, Regular m c) \<in> set ?ns" if "map_of tmp n = Some (Regular m c)" "has_prefix n ''backups/''" for n m c
      using that map_of_SomeD by (fastforce simp: below_backups_def walk_order_def)
    then have "\<forall>n m c. map_of tmp n = Some (Regular m c) \<and> has_prefix n ''backups/'' \<longrightarrow> n \<in> regular_paths t3"
      unfolding t3(3) by blast
    then show ?thesis using True t3 by (intro exI[of _ t3]) simp
  next
    case False
    have "\<not> has_prefix n ''backups/''" if n: "map_of tmp n = Some (Regular m c)" for n m c
    proof
      assume pre: "has_prefix n ''backups/''"
      obtain ws where ws: "ws \<in> F" "n = rel_path ws" using tmp(2) n unfolding grown_def by fastforce
      have nn: "list_all normal_component ws" "ws \<noteq> []" using apart_normal[OF F ws(1)] by auto
      obtain r where "n = ''backups'' @ CHR ''/'' # r" using pre by (auto simp: has_prefix_iff)
      then have "ws = ''backups'' # split_on CHR ''/'' r" using split_rel_path[OF nn] ws(2) by (simp add: split_on_append)
      then have "rel_path (take 1 ws) = ''backups''" "1 < length ws" by (cases "split_on CHR ''/'' r", simp_all)+
      moreover have "rel_path ws \<in> regular_paths tmp" using n ws(2) by (auto simp: regular_paths_def)
      ultimately have "map_of tmp ''backups'' = Some Directory" using tmp(4) ws(1) unfolding closed_def by (metis zero_less_one)
      then show False using False by simp
    qed
    then show ?thesis using False im by auto
  qed
  then obtain t4 where t4: "(if map_of tmp ''backups'' = Some Directory then copy_nodes good_io tmp good_io ?ns t2 else (True, t2)) = (True, t4)"
    "imported F src t4" "regular_paths t2 \<subseteq> regular_paths t4"
    "\<forall>n m c. map_of tmp n = Some (Regular m c) \<and> has_prefix n ''backups/'' \<longrightarrow> n \<in> regular_paths t4" by blast
  have config: "\<exists>t5. import_rest h tmp t2 = (None, t5) \<and> imported F src t5 \<and> regular_paths t4 \<subseteq> regular_paths t5
      \<and> (\<forall>m c. map_of tmp ''config.toml'' = Some (Regular m c) \<longrightarrow> ''config.toml'' \<in> regular_paths t5)"
  proof (cases "map_of tmp ''config.toml''")
    case None
    then show ?thesis using t4 h by (auto simp: import_rest_def good_import_def)
  next
    case (Some nd)
    have reg: "is_regular nd \<and> split_on CHR ''/'' ''config.toml'' \<in> F"
    proof -
      consider (leaf) ws where "ws \<in> F" "''config.toml'' = rel_path ws" "is_regular nd"
        | (way) ws k where "ws \<in> F" "0 < k" "k < length ws" "''config.toml'' = rel_path (take k ws)"
        using tmp(2) Some unfolding grown_def by blast
      then show ?thesis
      proof cases
        case leaf
        then show ?thesis using split_rel_path[of ws] apart_normal[OF F leaf(1)] by simp
      next
        case way
        have nn: "list_all normal_component ws" "ws \<noteq> []" using apart_normal[OF F way(1)] by auto
        have "take k ws = split_on CHR ''/'' ''config.toml''"
          using split_rel_path[OF normal_take[OF nn(1)], of k] way(2,4) nn(2) by simp
        also have "\<dots> = [''config.toml'']" by code_simp
        finally have cut: "take k ws = [''config.toml'']" .
        then have "k = 1" using way(2,3) by (metis One_nat_def length_Cons length_take list.size(3) min.absorb4)
        then obtain v vs where ws: "ws = ''config.toml'' # v # vs"
          using cut way(3) by (cases ws; cases "tl ws") auto
        obtain e where e: "e \<in> set es" "file_of e = ws" using way(1) by (auto simp: F_def)
        have "ae_Name e = ''config.toml'' @ CHR ''/'' # rel_path (v # vs)"
          using file_of_name[OF F] e way(1) ws by simp
        then show ?thesis using names e(1) by (auto simp: has_prefix_def)
      qed
    qed
    then obtain m c where nd: "nd = Regular m c" by (cases nd) auto
    have "src ''config.toml'' = Some c" using Some nd by (simp add: src_def)
    then obtain t5 where "copyFile good_io tmp good_io ''config.toml'' t4 = (True, t5)" "imported F src t5"
        "regular_paths t5 = insert ''config.toml'' (regular_paths t4)"
      using copyFile_good[OF F t4(2) conjunct2[OF reg], of tmp m c] Some nd by auto
    then show ?thesis using t4(1) h Some by (intro exI[of _ t5]) (auto simp: import_rest_def good_import_def)
  qed
  then obtain t5 where t5: "import_rest h tmp t2 = (None, t5)" "imported F src t5" "regular_paths t4 \<subseteq> regular_paths t5"
    "\<forall>m c. map_of tmp ''config.toml'' = Some (Regular m c) \<longrightarrow> ''config.toml'' \<in> regular_paths t5" by blast
  note files = regular[OF t5(2)]
  have "ImportState h (Some \<lparr>ar_entries = es, ar_bad = False\<rparr>) None = (None, Some t5)"
    using h ex read fd(1) start t5(1) by (simp add: ImportState_def good_import_def)
  moreover have "map_of t5 ''fleetdeck.db'' = Some (Regular 438 opened)"
  proof (rule files)
    have "''fleetdeck.db'' \<in> regular_paths t2" by (simp add: t2_def regular_paths_def map_of_put)
    then show "''fleetdeck.db'' \<in> regular_paths t5" using t4(3) t5(3) by blast
  qed (simp add: src_def)
  moreover have "map_of t5 (ae_Name e) = Some (Regular 438 (ae_Data e))"
    if e: "e \<in> set es" "\<not> contains_str (ae_Name e) ''..''" "ae_Name e \<notin> {''state.json'', ''fleetdeck.db''}" for e
  proof (rule files)
    have at: "map_of tmp (ae_Name e) = Some (Regular (ae_Mode e) (ae_Data e))" using tmp(3) e by (simp add: plain_entries_def)
    then show "src (ae_Name e) = Some (ae_Data e)" using e(3) by (simp add: src_def)
    show "ae_Name e \<in> regular_paths t5"
    proof (cases "ae_Name e = ''config.toml''")
      case True
      then show ?thesis using at t5(4) by simp
    next
      case False
      then have "has_prefix (ae_Name e) ''backups/''" using names[rule_format, OF e(1)] e(3) by simp
      then show ?thesis using at t4(4) t5(3) by blast
    qed
  qed
  moreover have "grown F t5" using t5(2) by (simp add: imported_def)
  ultimately show ?thesis unfolding F_def by blast
qed

end
