(* ===== verification/State_Roundtrip.thy ===== *)
theory State_Roundtrip
  imports State_Restored "HOL-Library.Multiset"
begin

text \<open>
  Export and import together: what comes back, what does not, and what a failure leaves.
\<close>

subsection \<open>The files of an export\<close>

text \<open>A directory as it is on a disk: every name once, and everything on the way to an entry is a directory.\<close>

definition disk_tree :: "tree \<Rightarrow> bool" where
  "disk_tree t \<longleftrightarrow> distinct (map fst t) \<and> (\<forall>(n, nd) \<in> set t. list_all normal_component (split_on CHR ''/'' n)
     \<and> list_all (\<lambda>k. map_of t (rel_path (take k (split_on CHR ''/'' n))) = Some Directory) [1..<length (split_on CHR ''/'' n)])"

lemma disk_tree_entry:
  assumes "disk_tree t" "(n, nd) \<in> set t"
  shows "list_all normal_component (split_on CHR ''/'' n)"
    and "0 < k \<Longrightarrow> k < length (split_on CHR ''/'' n) \<Longrightarrow> map_of t (rel_path (take k (split_on CHR ''/'' n))) = Some Directory"
  using assms unfolding disk_tree_def by (fastforce simp: list_all_iff)+

definition backup_files :: "export_host \<Rightarrow> fleet_db \<Rightarrow> (string \<Rightarrow> tree option) \<Rightarrow> project_row \<Rightarrow> tree" where
  "backup_files h db store p =
     (case latest_backup h db store p of None \<Rightarrow> [] | Some (dir, t) \<Rightarrow> walk_files (xh_io h dir) t)"

definition archive_path :: "project_row \<Rightarrow> string \<times> node \<Rightarrow> string list" where
  "archive_path p e = ''backups'' # pj_Name p # split_on CHR ''/'' (fst e)"

definition archive_paths :: "export_host \<Rightarrow> fleet_db \<Rightarrow> (string \<Rightarrow> tree option) \<Rightarrow> project_row list \<Rightarrow> string list list" where
  "archive_paths h db store ps = concat (map (\<lambda>p. map (archive_path p) (backup_files h db store p)) ps)"

definition entry_matches :: "project_row \<Rightarrow> string \<times> node \<Rightarrow> archive_entry \<Rightarrow> bool" where
  "entry_matches p x e \<longleftrightarrow> ae_Name e = path_join [''backups'', pj_Name p, fst x] \<and> ae_Kind e = EntryReg
     \<and> (\<forall>m c. snd x = Regular m c \<longrightarrow> ae_Data e = c)"

lemma add_backup_files_entries:
  "add_backup_files h dir (pj_Name p) fs es = (True, es') \<Longrightarrow> \<exists>bs. es' = es @ bs \<and> list_all2 (entry_matches p) fs bs"
proof (induction h dir "pj_Name p" fs es rule: add_backup_files.induct)
  case (2 h dir rel nd fs es)
  then obtain es1 where a: "addFileToTar h dir rel nd (path_join [''backups'', pj_Name p, rel]) es = (True, es1)"
    "add_backup_files h dir (pj_Name p) fs es1 = (True, es')" by (auto split: prod.splits bool.splits)
  obtain bs where bs: "es' = es1 @ bs" "list_all2 (entry_matches p) fs bs" using 2(1)[OF a(1)[symmetric] refl a(2)] by blast
  obtain e where "es1 = es @ [e]" "entry_matches p (rel, nd) e"
    using a(1) by (cases nd) (auto simp: addFileToTar_def entry_matches_def file_entry_def split: option.splits if_splits)
  then show ?case using bs by (intro exI[of _ "e # bs"]) simp
qed simp

lemma add_backups_entries:
  "add_backups h db store ps n es = (Some k, es') \<Longrightarrow>
     \<exists>bs. es' = es @ bs \<and> list_all2 (\<lambda>(p, x). entry_matches p x) (concat (map (\<lambda>p. map (Pair p) (backup_files h db store p)) ps)) bs"
proof (induction h db store ps n es rule: add_backups.induct)
  case (2 h db store p ps n es)
  show ?case
  proof (cases "latest_backup h db store p")
    case None
    then show ?thesis using 2 by (simp add: backup_files_def)
  next
    case (Some x)
    obtain dir t where x: "x = (dir, t)" by (cases x)
    obtain es1 where a: "add_backup_files h dir (pj_Name p) (walk_files (xh_io h dir) t) es = (True, es1)"
      "add_backups h db store ps (Suc n) es1 = (Some k, es')" using 2(3) Some x by (auto split: prod.splits bool.splits)
    obtain b1 where b1: "es1 = es @ b1" "list_all2 (entry_matches p) (walk_files (xh_io h dir) t) b1"
      using add_backup_files_entries[OF a(1)] by blast
    obtain b2 where "es' = es1 @ b2"
      "list_all2 (\<lambda>(p, x). entry_matches p x) (concat (map (\<lambda>p. map (Pair p) (backup_files h db store p)) ps)) b2"
      using 2(2)[OF Some x[symmetric] a(1)[symmetric] refl a(2)] by blast
    moreover have "list_all2 (\<lambda>(p, x). entry_matches p x) (map (Pair p) (backup_files h db store p)) b1"
      using b1(2) Some x by (simp add: backup_files_def list_all2_map1)
    ultimately show ?thesis using b1(1) by (intro exI[of _ "b1 @ b2"]) (simp add: list_all2_appendI)
  qed
qed simp

lemma walk_files_sub:
  assumes "disk_tree t"
  shows "distinct (map fst (walk_files io t))"
    and "(n, nd) \<in> set (walk_files io t) \<Longrightarrow> (n, nd) \<in> set t \<and> nd \<noteq> Directory"
proof -
  have "mset (map fst (walk_order t)) = mset (map fst t)" unfolding walk_order_def by (metis mset_map mset_sort)
  then have "distinct (map fst (walk_order t))" using assms mset_eq_imp_distinct_iff unfolding disk_tree_def by blast
  then show "distinct (map fst (walk_files io t))" by (simp add: walk_files_def distinct_map_filter)
  show "(n, nd) \<in> set (walk_files io t) \<Longrightarrow> (n, nd) \<in> set t \<and> nd \<noteq> Directory"
    by (auto simp: walk_files_def walk_order_def split: if_splits)
qed

definition export_ok :: "export_host \<Rightarrow> fleet_db \<Rightarrow> (string \<Rightarrow> tree option) \<Rightarrow> bool" where
  "export_ok h db store \<longleftrightarrow> distinct (map pj_Name (db_projects db)) \<and> (\<forall>p \<in> set (db_projects db). normal_component (pj_Name p))
     \<and> (\<forall>p \<in> set (db_projects db). \<forall>dir t. latest_backup h db store p = Some (dir, t) \<longrightarrow> disk_tree t)"

lemma backup_files_good:
  assumes "export_ok h db store" "p \<in> set (db_projects db)"
  shows "distinct (map fst (backup_files h db store p))"
    and "x \<in> set (backup_files h db store p) \<Longrightarrow> list_all normal_component (split_on CHR ''/'' (fst x))"
    and "x \<in> set (backup_files h db store p) \<Longrightarrow> y \<in> set (backup_files h db store p)
      \<Longrightarrow> split_on CHR ''/'' (fst x) = take k (split_on CHR ''/'' (fst y)) \<Longrightarrow> x = y"
proof -
  have "\<exists>io t. disk_tree t \<and> backup_files h db store p = walk_files io t"
  proof (cases "latest_backup h db store p")
    case None
    have "disk_tree []" "walk_files good_io [] = []" by (simp_all add: disk_tree_def walk_files_def walk_order_def)
    then show ?thesis using None by (intro exI[of _ good_io] exI[of _ "[]"]) (simp add: backup_files_def)
  next
    case (Some x)
    obtain dir t where x: "x = (dir, t)" by (cases x)
    have "disk_tree t" using assms Some unfolding x export_ok_def by blast
    then show ?thesis using Some x by (auto simp: backup_files_def)
  qed
  then obtain io t where t: "disk_tree t" "backup_files h db store p = walk_files io t" by blast
  show d: "distinct (map fst (backup_files h db store p))" using walk_files_sub(1)[OF t(1)] t(2) by simp
  show n: "list_all normal_component (split_on CHR ''/'' (fst x))" if "x \<in> set (backup_files h db store p)" for x
  proof -
    obtain xn xd where e: "x = (xn, xd)" by (cases x)
    then have "(xn, xd) \<in> set t" using that walk_files_sub(2)[OF t(1)] t(2) by simp
    then show ?thesis using disk_tree_entry(1)[OF t(1)] e by simp
  qed
  assume xy: "x \<in> set (backup_files h db store p)" "y \<in> set (backup_files h db store p)"
    "split_on CHR ''/'' (fst x) = take k (split_on CHR ''/'' (fst y))"
  obtain xn xd yn yd where e: "x = (xn, xd)" "y = (yn, yd)" by (cases x; cases y)
  have mem: "(xn, xd) \<in> set t" "xd \<noteq> Directory" "(yn, yd) \<in> set t" using xy(1,2) walk_files_sub(2)[OF t(1)] t(2) e by auto
  have at: "map_of t xn = Some xd" using mem(1) t(1) by (simp add: disk_tree_def)
  have "\<not> k < length (split_on CHR ''/'' yn)"
  proof
    assume "k < length (split_on CHR ''/'' yn)"
    moreover have "0 < k" using xy(3) e by (cases k) auto
    ultimately have "map_of t (rel_path (take k (split_on CHR ''/'' yn))) = Some Directory"
      using disk_tree_entry(2)[OF t(1) mem(3)] by blast
    then show False using at mem(2) xy(3) e by (metis fst_conv join_split option.inject)
  qed
  then have "xn = yn" using xy(3) e by (metis fst_conv join_split not_le take_all)
  then show "x = y" using d xy(1,2) e unfolding distinct_map inj_on_def by (metis fst_conv)
qed

lemma archive_path_name:
  assumes "normal_component (pj_Name p)" "list_all normal_component (split_on CHR ''/'' (fst x))"
  shows "path_join [''backups'', pj_Name p, fst x] = rel_path (archive_path p x)"
    and "split_on CHR ''/'' (path_join [''backups'', pj_Name p, fst x]) = archive_path p x"
    and "list_all normal_component (archive_path p x)"
    and "has_prefix (path_join [''backups'', pj_Name p, fst x]) ''backups/''"
proof -
  let ?ws = "split_on CHR ''/'' (fst x)"
  have b: "normal_component ''backups''" by code_simp
  show n: "list_all normal_component (archive_path p x)" using assms b by (simp add: archive_path_def)
  have ne: "archive_path p x \<noteq> []" by (simp add: archive_path_def)
  have parts: "fst x \<noteq> []" "pj_Name p \<noteq> []" using assms by (auto simp: normal_component_def)
  have joined: "rel_path [''backups'', pj_Name p, fst x] = rel_path (archive_path p x)"
    using join_split[of "CHR ''/''" "fst x"] by (cases ?ws) (auto simp: archive_path_def)
  then show j: "path_join [''backups'', pj_Name p, fst x] = rel_path (archive_path p x)"
    using path_clean_rel(1)[OF n ne] parts by (simp add: path_join_def)
  show "split_on CHR ''/'' (path_join [''backups'', pj_Name p, fst x]) = archive_path p x"
    unfolding j by (rule split_rel_path[OF n ne])
  show "has_prefix (path_join [''backups'', pj_Name p, fst x]) ''backups/''"
    unfolding j archive_path_def by (simp add: has_prefix_def)
qed

definition base_files :: "string list set" where
  "base_files = {[''fleetdeck.db''], [''config.toml''], [''state.json'']}"

definition export_set :: "export_host \<Rightarrow> fleet_db \<Rightarrow> (string \<Rightarrow> tree option) \<Rightarrow> string list set" where
  "export_set h db store = base_files
     \<union> {archive_path p x | p x. p \<in> set (db_projects db) \<and> x \<in> set (backup_files h db store p)}"

lemma export_set_apart:
  assumes "export_ok h db store"
  shows "apart (export_set h db store)"
proof -
  have one: "list_all normal_component a \<and> length a = 1 \<and> hd a \<noteq> ''backups''" if "a \<in> base_files" for a
    using that unfolding base_files_def by (elim insertE emptyE; simp; code_simp)
  have names: "p = q" if "p \<in> set (db_projects db)" "q \<in> set (db_projects db)" "pj_Name p = pj_Name q" for p q
    using that assms unfolding export_ok_def distinct_map inj_on_def by blast
  show ?thesis unfolding apart_def
  proof (intro conjI ballI allI impI)
    fix a assume "a \<in> export_set h db store"
    then consider "a \<in> base_files" | p x where "a = archive_path p x" "p \<in> set (db_projects db)" "x \<in> set (backup_files h db store p)"
      unfolding export_set_def by blast
    then show "a \<noteq> []" "list_all normal_component a"
      using one backup_files_good(2)[OF assms] assms archive_path_name(3) unfolding export_ok_def
      by (cases, fastforce, fastforce simp: archive_path_def)+
  next
    fix a b k assume in_F: "a \<in> export_set h db store" "b \<in> export_set h db store" and cut: "a = take k b"
    consider (base) "a \<in> base_files" | (backup) p x where "a = archive_path p x" "p \<in> set (db_projects db)" "x \<in> set (backup_files h db store p)"
      using in_F(1) unfolding export_set_def by blast
    then show "a = b"
    proof cases
      case base
      have a: "length a = 1" "hd a \<noteq> ''backups''" using one[OF base] by auto
      have "hd b = hd a" using cut a(1) by (cases b; cases k) auto
      then have "b \<in> base_files" using in_F(2) a(2) unfolding export_set_def by (auto simp: archive_path_def)
      then have "length b = 1" using one by blast
      then show ?thesis using cut a(1) by simp
    next
      case backup
      let ?r = "split_on CHR ''/'' (fst x)"
      have ne: "?r \<noteq> []" by simp
      have "length a = Suc (Suc (length ?r))" by (simp add: backup(1) archive_path_def)
      then have "Suc (Suc 0) \<le> k" unfolding cut by (simp add: min_def split: if_splits)
      then obtain j where k: "k = Suc (Suc j)" by (metis Suc_le_D Suc_le_mono)
      have "hd b = ''backups''" "b \<noteq> []" using cut backup(1) k by (cases b; auto simp: archive_path_def)+
      then have "b \<notin> base_files" using one by blast
      then obtain q y where b: "b = archive_path q y" "q \<in> set (db_projects db)" "y \<in> set (backup_files h db store q)"
        using in_F(2) unfolding export_set_def by blast
      have same: "pj_Name p = pj_Name q" "?r = take j (split_on CHR ''/'' (fst y))"
        using cut k unfolding backup(1) b(1) archive_path_def by auto
      have "p = q" by (rule names[OF backup(2) b(2) same(1)])
      then have "x = y" using backup_files_good(3)[OF assms backup(2,3)] b(3) same(2) by blast
      then show ?thesis using \<open>p = q\<close> backup(1) b(1) by simp
    qed
  qed
qed

subsection \<open>The entries of a whole export\<close>

definition backup_pairs :: "export_host \<Rightarrow> fleet_db \<Rightarrow> (string \<Rightarrow> tree option) \<Rightarrow> project_row list \<Rightarrow> (project_row \<times> string \<times> node) list" where
  "backup_pairs h db store ps = concat (map (\<lambda>p. map (Pair p) (backup_files h db store p)) ps)"

definition exported :: "string \<Rightarrow> string \<Rightarrow> archive_entry list \<Rightarrow> string \<Rightarrow> archive_entry list" where
  "exported snap toml bs data = file_entry ''fleetdeck.db'' 420 snap # file_entry ''config.toml'' 420 toml
     # bs @ [file_entry ''state.json'' 420 data]"

lemma ExportState_entries:
  assumes "ExportState h cfg db store version old = (None, Some ar)"
  shows "\<exists>snap toml bs data k ps up. xh_snapshot h db = Some snap \<and> xh_toml h cfg = Some toml
    \<and> ListProjects up db = Inr ps \<and> list_all2 (\<lambda>(p, x). entry_matches p x) (backup_pairs h db store ps) bs
    \<and> xh_enc h \<lparr>sm_ExportTimestamp = xh_now h, sm_FleetDeckVersion = version, sm_ProjectCount = length ps, sm_BackupCount = k\<rparr> = Some data
    \<and> ar = \<lparr>ar_entries = exported snap toml bs data, ar_bad = False\<rparr>"
proof -
  have "export_entries h cfg db store version = (None, ar_entries ar)" "ar_bad ar = False"
    using assms by (auto simp: ExportState_def split: if_splits prod.splits option.splits)
  then show ?thesis
    by (cases ar) (auto simp: export_entries_def Let_def exported_def backup_pairs_def addBytesToTar_def file_entry_def
        split: if_splits option.splits prod.splits bool.splits sum.splits dest!: add_backups_entries, blast)
qed

lemma distinct_pairs: "distinct ps \<Longrightarrow> \<forall>p \<in> set ps. distinct (f p) \<Longrightarrow> distinct (concat (map (\<lambda>p. map (Pair p) (f p)) ps))"
  by (induction ps) (auto simp: distinct_map inj_on_def)

lemma matched_files:
  assumes "list_all2 (\<lambda>(p, x). entry_matches p x) xs bs"
    and "\<forall>(p, x) \<in> set xs. normal_component (pj_Name p) \<and> list_all normal_component (split_on CHR ''/'' (fst x))"
  shows "map file_of bs = map (\<lambda>(p, x). archive_path p x) xs"
    "\<forall>e \<in> set bs. ae_Kind e = EntryReg \<and> has_prefix (ae_Name e) ''backups/''"
proof -
  have one: "file_of e = archive_path p x \<and> ae_Kind e = EntryReg \<and> has_prefix (ae_Name e) ''backups/''"
    if "entry_matches p x e" "normal_component (pj_Name p)" "list_all normal_component (split_on CHR ''/'' (fst x))" for p x e
    using that archive_path_name(2,4)[OF that(2,3)] by (simp add: entry_matches_def file_of_def)
  have "map file_of bs = map (\<lambda>(p, x). archive_path p x) xs
      \<and> (\<forall>e \<in> set bs. ae_Kind e = EntryReg \<and> has_prefix (ae_Name e) ''backups/'')"
    using assms
  proof (induction xs bs rule: list_all2_induct)
    case (Cons px xs e bs)
    obtain p x where "px = (p, x)" by (cases px)
    then show ?case using Cons one[of p x e] by auto
  qed simp
  then show "map file_of bs = map (\<lambda>(p, x). archive_path p x) xs"
    "\<forall>e \<in> set bs. ae_Kind e = EntryReg \<and> has_prefix (ae_Name e) ''backups/''" by blast+
qed

lemma exported_sound:
  assumes "export_ok h db store" "ListProjects up db = Inr ps"
    and "list_all2 (\<lambda>(p, x). entry_matches p x) (backup_pairs h db store ps) bs"
  shows "sound_entries (exported snap toml bs data)"
    and "\<forall>e \<in> set (exported snap toml bs data). ae_Name e \<in> {''state.json'', ''fleetdeck.db'', ''config.toml''} \<or> has_prefix (ae_Name e) ''backups/''"
    and "file_of ` set (exported snap toml bs data) = export_set h db store"
proof -
  have ps: "set ps = set (db_projects db)" "distinct ps"
    using assms(1,2) unfolding export_ok_def ListProjects_def by (auto simp: distinct_map split: if_splits)
  let ?xs = "backup_pairs h db store ps"
  have mem: "p \<in> set (db_projects db) \<and> x \<in> set (backup_files h db store p)" if "(p, x) \<in> set ?xs" for p x
    using that ps(1) by (auto simp: backup_pairs_def)
  have norm: "\<forall>(p, x) \<in> set ?xs. normal_component (pj_Name p) \<and> list_all normal_component (split_on CHR ''/'' (fst x))"
    using mem backup_files_good(2)[OF assms(1)] assms(1) unfolding export_ok_def by blast
  note m = matched_files[OF assms(3) norm]
  have inj: "inj_on (\<lambda>(p, x). archive_path p x) (set ?xs)"
  proof (rule inj_onI)
    fix c d assume cd: "c \<in> set ?xs" "d \<in> set ?xs" "(case c of (p, x) \<Rightarrow> archive_path p x) = (case d of (p, x) \<Rightarrow> archive_path p x)"
    obtain p xn xd q yn yd where e: "c = (p, xn, xd)" "d = (q, yn, yd)" by (cases c; cases d)
    have x: "(p, xn, xd) \<in> set ?xs" and y: "(q, yn, yd) \<in> set ?xs" and same: "archive_path p (xn, xd) = archive_path q (yn, yd)"
      using cd e by auto
    have "p = q" using mem[OF x] mem[OF y] same assms(1) unfolding export_ok_def distinct_map inj_on_def
      by (metis archive_path_def list.inject)
    moreover have "(xn, xd) = (yn, yd)"
    proof (rule backup_files_good(3)[OF assms(1)])
      show "(xn, xd) \<in> set (backup_files h db store p)" "p \<in> set (db_projects db)" using mem[OF x] by auto
      show "(yn, yd) \<in> set (backup_files h db store p)" using mem[OF y] \<open>p = q\<close> by auto
      show "split_on CHR ''/'' (fst (xn, xd)) = take (length (split_on CHR ''/'' yn)) (split_on CHR ''/'' (fst (yn, yd)))"
        using same by (simp add: archive_path_def)
    qed
    ultimately show "c = d" using e by simp
  qed
  have dis: "distinct (map file_of bs)"
    unfolding m(1) distinct_map backup_pairs_def
    using distinct_pairs[OF ps(2)] backup_files_good(1)[OF assms(1)] ps(1) inj
    by (auto simp: distinct_map backup_pairs_def)
  have files: "file_of ` set bs = {archive_path p x | p x. p \<in> set (db_projects db) \<and> x \<in> set (backup_files h db store p)}"
  proof -
    have "set (map file_of bs) = (\<lambda>(p, x). archive_path p x) ` set ?xs" unfolding m(1) by simp
    then show ?thesis using ps(1) by (auto simp: backup_pairs_def image_iff)
  qed
  have roots: "split_on CHR ''/'' ''fleetdeck.db'' = [''fleetdeck.db'']" "split_on CHR ''/'' ''config.toml'' = [''config.toml'']"
    "split_on CHR ''/'' ''state.json'' = [''state.json'']" by code_simp+
  show F: "file_of ` set (exported snap toml bs data) = export_set h db store"
    unfolding export_set_def base_files_def files[symmetric] by (auto simp: exported_def file_entry_def file_of_def roots)
  have away: "ws \<noteq> [n]" if "ws \<in> file_of ` set bs" for ws n using that unfolding files by (auto simp: archive_path_def)
  have "distinct (map file_of (exported snap toml bs data))"
    using dis away by (auto simp: exported_def file_entry_def file_of_def roots image_iff)
  then show "sound_entries (exported snap toml bs data)"
    using m(2) export_set_apart[OF assms(1)] F
    by (auto simp: sound_entries_def exported_def file_entry_def)
  show "\<forall>e \<in> set (exported snap toml bs data). ae_Name e \<in> {''state.json'', ''fleetdeck.db'', ''config.toml''} \<or> has_prefix (ae_Name e) ''backups/''"
    using m(2) by (auto simp: exported_def file_entry_def)
qed

subsection \<open>What comes back\<close>

text \<open>The manifest is read as it was written, and the database file opens.\<close>

definition reads_back :: "export_host \<Rightarrow> import_host \<Rightarrow> bool" where
  "reads_back h ih \<longleftrightarrow> xh_now h \<noteq> [] \<and> (\<forall>sm data. xh_enc h sm = Some data \<longrightarrow> ih_dec ih data = Some sm)"

lemma import_of_export:
  assumes "ExportState h cfg db store version old = (None, Some ar)" "export_ok h db store" "good_import ih" "reads_back h ih"
    and "xh_snapshot h db = Some snap" "ih_open ih snap = Some opened"
  shows "\<exists>t. ImportState ih (Some ar) None = (None, Some t) \<and> grown (export_set h db store) t
    \<and> map_of t ''fleetdeck.db'' = Some (Regular 438 opened)
    \<and> (\<forall>e \<in> set (ar_entries ar). \<not> contains_str (ae_Name e) ''..'' \<and> ae_Name e \<notin> {''state.json'', ''fleetdeck.db''}
        \<longrightarrow> map_of t (ae_Name e) = Some (Regular 438 (ae_Data e)))
    \<and> (\<forall>toml. xh_toml h cfg = Some toml \<longrightarrow> file_entry ''config.toml'' 420 toml \<in> set (ar_entries ar))
    \<and> (\<forall>p x. p \<in> set (db_projects db) \<and> x \<in> set (backup_files h db store p)
        \<longrightarrow> (\<exists>e \<in> set (ar_entries ar). entry_matches p x e))"
proof -
  obtain toml bs data k ps up where x: "xh_toml h cfg = Some toml" "ListProjects up db = Inr ps"
    "list_all2 (\<lambda>(p, x). entry_matches p x) (backup_pairs h db store ps) bs"
    "xh_enc h \<lparr>sm_ExportTimestamp = xh_now h, sm_FleetDeckVersion = version, sm_ProjectCount = length ps, sm_BackupCount = k\<rparr> = Some data"
    "ar = \<lparr>ar_entries = exported snap toml bs data, ar_bad = False\<rparr>"
    using ExportState_entries[OF assms(1)] assms(5) by auto
  note sound = exported_sound[OF assms(2) x(2,3), where snap = snap and toml = toml and data = data]
  have "(''state.json'', data) \<in> (\<lambda>e. (ae_Name e, ae_Data e)) ` set (exported snap toml bs data)"
    "(''fleetdeck.db'', snap) \<in> (\<lambda>e. (ae_Name e, ae_Data e)) ` set (exported snap toml bs data)"
    by (force simp: exported_def file_entry_def)+
  note manifest = this
  obtain t where t: "ImportState ih (Some ar) None = (None, Some t)" "map_of t ''fleetdeck.db'' = Some (Regular 438 opened)"
    "grown (export_set h db store) t"
    "\<forall>e \<in> set (ar_entries ar). \<not> contains_str (ae_Name e) ''..'' \<and> ae_Name e \<notin> {''state.json'', ''fleetdeck.db''}
        \<longrightarrow> map_of t (ae_Name e) = Some (Regular 438 (ae_Data e))"
    using ImportState_good[OF assms(3) sound(1) manifest(1) _ _ manifest(2) assms(6) sound(2)] assms(4) x(4,5)
    unfolding reads_back_def sound(3) by auto
  have "\<exists>e \<in> set bs. entry_matches p x e" if "p \<in> set (db_projects db)" "x \<in> set (backup_files h db store p)" for p x
  proof -
    have "p \<in> set ps" using x(2) that(1) by (auto simp: ListProjects_def split: if_splits)
    then have "(p, x) \<in> set (backup_pairs h db store ps)" using that(2) by (auto simp: backup_pairs_def)
    then show ?thesis using x(3) by (metis (mono_tags, lifting) case_prod_conv in_set_conv_nth list_all2_conv_all_nth)
  qed
  then show ?thesis using t x(1,5) by (intro exI[of _ t]) (auto simp: exported_def)
qed



end
