(* ===== verification/State_Failures.thy ===== *)
theory State_Failures
  imports State_Roundtrip
begin

text \<open>
  What a failed export and a failed import leave behind, and the theorems on both at a concrete registry.
\<close>

subsection \<open>A failed export\<close>

lemma add_backup_files_names:
  "add_backup_files h dir project fs es = (r, es') \<Longrightarrow>
     \<forall>e \<in> set es'. e \<in> set es \<or> (\<exists>x \<in> set fs. ae_Name e = path_join [''backups'', project, fst x])"
proof (induction h dir project fs es rule: add_backup_files.induct)
  case (2 h dir project rel nd fs es)
  obtain ok es1 where a: "addFileToTar h dir rel nd (path_join [''backups'', project, rel]) es = (ok, es1)" by (metis prod.exhaust)
  have one: "\<forall>e \<in> set es1. e \<in> set es \<or> ae_Name e = path_join [''backups'', project, rel]"
    using a by (auto simp: addFileToTar_def file_entry_def split: option.splits node.splits prod.splits if_splits)
  show ?case
  proof (cases ok)
    case True
    then show ?thesis using 2(1)[OF a[symmetric]] 2(2) a one by fastforce
  next
    case False
    then show ?thesis using 2(2) a one by auto
  qed
qed simp

lemma add_backups_names:
  "add_backups h db store ps n es = (r, es') \<Longrightarrow>
     \<forall>e \<in> set es'. e \<in> set es \<or> (\<exists>p \<in> set ps. \<exists>x \<in> set (backup_files h db store p). ae_Name e = path_join [''backups'', pj_Name p, fst x])"
proof (induction h db store ps n es rule: add_backups.induct)
  case (2 h db store p ps n es)
  show ?case
  proof (cases "latest_backup h db store p")
    case None
    then show ?thesis using 2(1,3) by fastforce
  next
    case (Some y)
    obtain dir t where y: "y = (dir, t)" by (cases y)
    obtain ok es1 where a: "add_backup_files h dir (pj_Name p) (walk_files (xh_io h dir) t) es = (ok, es1)" by (metis prod.exhaust)
    have here: "backup_files h db store p = walk_files (xh_io h dir) t" using Some y by (simp add: backup_files_def)
    note one = add_backup_files_names[OF a]
    show ?thesis
    proof (cases ok)
      case True
      then have "\<forall>e \<in> set es'. e \<in> set es1 \<or> (\<exists>p \<in> set ps. \<exists>x \<in> set (backup_files h db store p).
          ae_Name e = path_join [''backups'', pj_Name p, fst x])"
        using 2(2)[OF Some y[symmetric] a[symmetric]] 2(3) Some y a by simp
      then show ?thesis using one here by fastforce
    next
      case False
      then show ?thesis using 2(3) Some y a one here by auto
    qed
  qed
qed simp

lemma export_entries_failed:
  assumes "export_entries h cfg db store version = (Some e, es)"
  shows "\<forall>e \<in> set es. ae_Name e \<in> {''fleetdeck.db'', ''config.toml''}
    \<or> (\<exists>p \<in> set (db_projects db). \<exists>x \<in> set (backup_files h db store p). ae_Name e = path_join [''backups'', pj_Name p, fst x])"
  using assms
  by (auto simp: export_entries_def Let_def addBytesToTar_def file_entry_def ListProjects_def
      split: if_splits option.splits prod.splits bool.splits sum.splits dest!: add_backups_names) fastforce+

lemma extract_all_misses:
  "extract_all io es t = (r, t') \<Longrightarrow> \<not> (\<exists>m c. map_of t p = Some (Regular m c)) \<Longrightarrow> \<forall>e \<in> set es. entry_target (ae_Name e) \<noteq> p
    \<Longrightarrow> \<not> (\<exists>m c. map_of t' p = Some (Regular m c))"
proof (induction es arbitrary: t)
  case (Cons e es)
  have dirs: "make_dirs io ps s = (x, s') \<Longrightarrow> \<not> (\<exists>m c. map_of s p = Some (Regular m c)) \<Longrightarrow> \<not> (\<exists>m c. map_of s' p = Some (Regular m c))" for ps s x s'
    by (induction io ps s rule: make_dirs.induct) (auto simp: map_of_put split: if_splits option.splits node.splits)
  have mk: "mkdir_all io n s = (x, s') \<Longrightarrow> \<not> (\<exists>m c. map_of s p = Some (Regular m c)) \<Longrightarrow> \<not> (\<exists>m c. map_of s' p = Some (Regular m c))" for n s x s'
    using dirs by (auto simp: mkdir_all_def split: if_splits)
  obtain ok t1 where a: "extract_entry io e t = (ok, t1)" by (metis prod.exhaust)
  have "\<not> (\<exists>m c. map_of t1 p = Some (Regular m c))"
    using a Cons.prems(2,3) mk
    by (auto simp: extract_entry_def extract_file_def map_of_put Let_def split: if_splits entry_kind.splits prod.splits option.splits)
  then show ?case using Cons a by (cases ok) auto
qed simp

text \<open>
  An export that failed on the way leaves an archive that no import accepts: it has no manifest, so the import stops before it
  touches the base directory.
\<close>

theorem failed_export_refused:
  assumes "ExportState h cfg db store version None = (Some e, Some ar)" "e \<noteq> StateClose" "export_ok h db store"
  shows "fst (ImportState ih (Some ar) base) \<noteq> None \<and> snd (ImportState ih (Some ar) base) = base"
proof -
  have names: "ae_Name a \<in> {''fleetdeck.db'', ''config.toml''} \<or> has_prefix (ae_Name a) ''backups/''
      \<and> split_on CHR ''/'' (ae_Name a) \<in> export_set h db store" if a: "a \<in> set (ar_entries ar)" for a
  proof -
    have "ar_entries ar = [] \<or> export_entries h cfg db store version = (Some e, ar_entries ar)"
      using assms(1,2) by (auto simp: ExportState_def split: if_splits prod.splits option.splits)
    then have "ae_Name a \<in> {''fleetdeck.db'', ''config.toml''} \<or> (\<exists>p \<in> set (db_projects db).
        \<exists>x \<in> set (backup_files h db store p). ae_Name a = path_join [''backups'', pj_Name p, fst x])"
      using export_entries_failed a by fastforce
    then show ?thesis
    proof
      assume "\<exists>p \<in> set (db_projects db). \<exists>x \<in> set (backup_files h db store p). ae_Name a = path_join [''backups'', pj_Name p, fst x]"
      then obtain p x where x: "p \<in> set (db_projects db)" "x \<in> set (backup_files h db store p)"
        "ae_Name a = path_join [''backups'', pj_Name p, fst x]" by blast
      have "normal_component (pj_Name p)" using assms(3) x(1) by (simp add: export_ok_def)
      note path = archive_path_name[OF this backup_files_good(2)[OF assms(3) x(1,2)]]
      have "archive_path p x \<in> export_set h db store" using x(1,2) unfolding export_set_def by blast
      then show ?thesis using path(2,4) x(3) by simp
    qed simp
  qed
  have away: "entry_target (ae_Name a) \<noteq> ''state.json''" if a: "a \<in> set (ar_entries ar)" for a
  proof -
    consider "ae_Name a = ''fleetdeck.db''" | "ae_Name a = ''config.toml''"
      | (backup) "has_prefix (ae_Name a) ''backups/''" "split_on CHR ''/'' (ae_Name a) \<in> export_set h db store"
      using names[OF a] by blast
    then show ?thesis
    proof cases
      case backup
      have "entry_target (ae_Name a) = ae_Name a"
        using entry_target_rel[OF export_set_apart[OF assms(3)] backup(2)] by simp
      then show ?thesis using backup(1) by (auto simp: has_prefix_def)
    qed (simp_all, code_simp+)
  qed
  obtain ok tmp where x: "extractTarGz (ih_tmp ih) (Some ar) [] = (ok, tmp)" by (metis prod.exhaust)
  obtain ok' where "extract_all (ih_tmp ih) (ar_entries ar) [] = (ok', tmp)"
    using x by (auto simp: extractTarGz_def split: prod.splits)
  then have "\<not> (\<exists>m c. map_of tmp ''state.json'' = Some (Regular m c))" using extract_all_misses away by fastforce
  then have "read_manifest ih tmp = Inl StateManifestBad" by (auto simp: read_manifest_def split: option.splits node.splits)
  then show ?thesis using x by (cases ok) (auto simp: ImportState_def)
qed

subsection \<open>A failed import\<close>

text \<open>
  C22. An import that is refused before it copies - an archive that cannot be read, no manifest or no time in it, no database -
  leaves the base directory alone; but one whose database turns out not to open has by then replaced the database of
  the base directory and removes it.
\<close>

theorem import_errors:
  assumes "ImportState ih ar base = (Some e, base')"
  shows "(e \<in> {StateTemp, StateArchive, StateManifestBad, StateUnstamped, StateNoDatabase, StateDir} \<longrightarrow> base' = base)
    \<and> (e = StateCorrupt \<and> \<not> io_bad (ih_base ih) OpRemove ''fleetdeck.db'' \<longrightarrow>
        (\<exists>t. base' = Some t \<and> \<not> (\<exists>m c. map_of t ''fleetdeck.db'' = Some (Regular m c))))"
proof -
  have late: "x \<notin> {StateTemp, StateArchive, StateManifestBad, StateUnstamped, StateNoDatabase, StateDir}"
    if "import_database ih tmp t = (Some x, t')" for x tmp t t'
    using that by (auto simp: import_database_def import_rest_def split: prod.splits bool.splits option.splits node.splits if_splits)
  have gone: "\<not> (\<exists>m c. map_of t' ''fleetdeck.db'' = Some (Regular m c))"
    if "import_database ih tmp t = (Some StateCorrupt, t')" "\<not> io_bad (ih_base ih) OpRemove ''fleetdeck.db''" for tmp t t'
    using that by (auto simp: import_database_def import_rest_def map_of_del
        split: prod.splits bool.splits option.splits node.splits if_splits)
  have manifest: "x \<noteq> StateCorrupt" if "read_manifest ih tmp = Inl x" for tmp x
    using that by (auto simp: read_manifest_def split: option.splits node.splits if_splits)
  show ?thesis
    using assms late gone manifest unfolding ImportState_def
    by (auto split: if_splits prod.splits bool.splits sum.splits)
qed

subsection \<open>An example\<close>

definition sample_state_enc :: "StateManifest \<Rightarrow> string" where
  "sample_state_enc m = shellQuote [sm_ExportTimestamp m, sm_FleetDeckVersion m, int_word (int (sm_ProjectCount m)), int_word (int (sm_BackupCount m))]"

definition sample_state_dec :: "string \<Rightarrow> StateManifest option" where
  "sample_state_dec s = (case shell_words Bare None s of
       Some [t, v, p, b] \<Rightarrow> Some \<lparr>sm_ExportTimestamp = t, sm_FleetDeckVersion = v, sm_ProjectCount = nat (word_int p), sm_BackupCount = nat (word_int b)\<rparr>
     | _ \<Rightarrow> None)"

definition sample_export_host :: "(string \<Rightarrow> bool) \<Rightarrow> export_host" where
  "sample_export_host add = \<lparr>xh_up = (\<lambda>k. True), xh_add = add, xh_list = (\<lambda>p. True), xh_stat = (\<lambda>d. True), xh_io = (\<lambda>d. good_io),
     xh_follow = (\<lambda>d n. None), xh_torn = False, xh_snapshot = (\<lambda>db. Some ''db''), xh_toml = (\<lambda>cfg. Some ''cfg''),
     xh_enc = (\<lambda>m. Some (sample_state_enc m)), xh_now = ''now''\<rparr>"

definition sample_import_host :: "(string \<Rightarrow> string option) \<Rightarrow> import_host" where
  "sample_import_host opens = \<lparr>ih_temp = True, ih_tmp = good_io, ih_base = good_io, ih_dec = sample_state_dec, ih_open = opens\<rparr>"

definition sample_fleet :: fleet_db where
  "sample_fleet = snd (CreateBackupRecord True 5 ''b9'' ((sample_backup_row [])\<lparr>bk_Path := ''/b/shop/b9''\<rparr>) registry1)"

definition sample_dirs :: "string \<Rightarrow> tree option" where
  "sample_dirs d = (if d = ''/b/shop/b9''
     then Some [(''config'', Directory), (''manifest.json'', Regular 384 ''m''), (''config/.env'', Regular 384 ''A=1'')] else None)"

definition sample_export :: "(string \<Rightarrow> bool) \<Rightarrow> state_error option \<times> archive option" where
  "sample_export add = ExportState (sample_export_host add) DefaultConfig sample_fleet sample_dirs ''1.0'' None"

lemma sample_state_codec: "sample_state_dec (sample_state_enc m) = Some m"
  by (cases m) (simp add: sample_state_dec_def sample_state_enc_def shellQuote_words, simp add: word_int_word)

lemma sample_reads_back: "reads_back (sample_export_host add) (sample_import_host opens)"
  by (simp add: reads_back_def sample_export_host_def sample_import_host_def sample_state_codec)

lemma sample_export_ok: "export_ok (sample_export_host (\<lambda>_. True)) sample_fleet sample_dirs"
proof -
  have "list_all (\<lambda>p. normal_component (pj_Name p) \<and> (case latest_backup (sample_export_host (\<lambda>_. True)) sample_fleet sample_dirs p of
      None \<Rightarrow> True | Some (dir, t) \<Rightarrow> disk_tree t)) (db_projects sample_fleet)" by code_simp
  moreover have "distinct (map pj_Name (db_projects sample_fleet))" by code_simp
  ultimately show ?thesis by (auto simp: export_ok_def list_all_iff)
qed

lemma sample_export_done: "fst (sample_export (\<lambda>_. True)) = None" "snd (sample_export (\<lambda>_. True)) \<noteq> None"
  by code_simp+

lemma sample_exported:
  obtains ar where "ExportState (sample_export_host (\<lambda>_. True)) DefaultConfig sample_fleet sample_dirs ''1.0'' None = (None, Some ar)"
  using sample_export_done unfolding sample_export_def by (metis option.exhaust prod.collapse)

lemma sample_good_import: "good_import (sample_import_host opens)"
  by (simp add: good_import_def sample_import_host_def)

lemma sample_backup_there:
  "list_ex (\<lambda>p. pj_Name p = ''shop'' \<and> (''config/.env'', Regular 384 ''A=1'') \<in> set (backup_files (sample_export_host (\<lambda>_. True)) sample_fleet sample_dirs p)
     \<and> list_all (\<lambda>x. hd (split_on CHR ''/'' (fst x)) \<noteq> ''b9'') (backup_files (sample_export_host (\<lambda>_. True)) sample_fleet sample_dirs p))
     (db_projects sample_fleet)"
  by code_simp

lemma sample_shop:
  obtains p where "p \<in> set (db_projects sample_fleet)" "pj_Name p = ''shop''"
    "(''config/.env'', Regular 384 ''A=1'') \<in> set (backup_files (sample_export_host (\<lambda>_. True)) sample_fleet sample_dirs p)"
    "\<forall>x \<in> set (backup_files (sample_export_host (\<lambda>_. True)) sample_fleet sample_dirs p). hd (split_on CHR ''/'' (fst x)) \<noteq> ''b9''"
  using sample_backup_there unfolding list_ex_iff list_all_iff by blast

lemma sample_path: "path_join [''backups'', ''shop'', ''config/.env''] = ''backups/shop/config/.env''"
  "\<not> contains_str ''backups/shop/config/.env'' ''..''" "path_join [''backups'', ''shop'', ''b9''] = ''backups/shop/b9''"
  "normal_component ''b9''"
  by code_simp+

lemma sample_calls: "xh_snapshot (sample_export_host add) db = Some ''db''" "xh_toml (sample_export_host add) cfg = Some ''cfg''"
  "ih_open (sample_import_host opens) = opens"
  by (simp_all add: sample_export_host_def sample_import_host_def)



lemma failed_export_refused_witness:
  "\<exists>e ar. sample_export (\<lambda>n. n \<noteq> ''state.json'') = (Some e, Some ar) \<and> 3 \<le> length (ar_entries ar)
     \<and> snd (ImportState (sample_import_host Some) (Some ar) None) = None"
proof -
  let ?x = "sample_export (\<lambda>n. n \<noteq> ''state.json'')"
  have "fst ?x = Some StateManifestBad \<and> (case snd ?x of None \<Rightarrow> False | Some ar \<Rightarrow> 3 \<le> int (length (ar_entries ar)))" by code_simp
  then obtain ar where x: "?x = (Some StateManifestBad, Some ar)" "3 \<le> length (ar_entries ar)"
    by (cases ?x) (auto split: option.splits)
  have ok: "export_ok (sample_export_host (\<lambda>n. n \<noteq> ''state.json'')) sample_fleet sample_dirs"
  proof -
    have "latest_backup (sample_export_host add) db store p = latest_backup (sample_export_host (\<lambda>_. True)) db store p" for add db store p
    proof -
      have same: "xh_list (sample_export_host add) = (\<lambda>p. True)" "xh_stat (sample_export_host add) = (\<lambda>d. True)" for add
        by (simp_all add: sample_export_host_def)
      show ?thesis unfolding latest_backup_def same ..
    qed
    then show ?thesis using sample_export_ok unfolding export_ok_def by metis
  qed
  from failed_export_refused[OF x(1)[unfolded sample_export_def] _ ok, of "sample_import_host Some" None] x
  show ?thesis by simp
qed

text \<open>An archive whose database does not open, over a base directory with a database.\<close>

definition sample_bad_archive :: archive where
  "sample_bad_archive = \<lparr>ar_entries = [file_entry ''fleetdeck.db'' 420 ''junk'',
     file_entry ''state.json'' 420 (sample_state_enc \<lparr>sm_ExportTimestamp = ''now'', sm_FleetDeckVersion = [], sm_ProjectCount = 0, sm_BackupCount = 0\<rparr>)],
     ar_bad = False\<rparr>"

lemma import_errors_witness:
  "\<exists>t. ImportState (sample_import_host (\<lambda>c. None)) (Some sample_bad_archive) (Some [(''fleetdeck.db'', Regular 384 ''old'')]) = (Some StateCorrupt, Some t)
     \<and> \<not> (\<exists>m c. map_of t ''fleetdeck.db'' = Some (Regular m c))"
proof -
  let ?x = "ImportState (sample_import_host (\<lambda>c. None)) (Some sample_bad_archive) (Some [(''fleetdeck.db'', Regular 384 ''old'')])"
  have "fst ?x = Some StateCorrupt" by code_simp
  then have x: "?x = (Some StateCorrupt, snd ?x)" by (metis prod.collapse)
  have "\<not> io_bad (ih_base (sample_import_host (\<lambda>c. None))) OpRemove ''fleetdeck.db''" by (simp add: sample_import_host_def)
  with import_errors[OF x] x show ?thesis by auto
qed

end
