(* ===== verification/Environments.thy ===== *)
theory Environments
  imports Server_Api
begin

text \<open>
  \<open>internal/environments\<close>: the deployment environments of a project, and their handlers
  (\<open>internal/server/handlers_environments.go\<close>). Everything lies below the directory of the project, which is the tree of
  the model of backups; a call on an entry may fail. YAML and JSON are parameters, docker answers a command after the
  ones that ran before. A link is read as an entry that cannot be opened.
\<close>

subsection \<open>Strings\<close>

text \<open>\<open>strings.Index\<close>, \<open>strings.Replace\<close> with count 1 and \<open>strings.ReplaceAll\<close>. An empty pattern stands before every rune
  and at the end; \<open>rune_more\<close> is the number of bytes of the first rune behind its first byte.\<close>

fun index_str :: "string \<Rightarrow> string \<Rightarrow> nat option" where
  "index_str sub [] = (if sub = [] then Some 0 else None)"
| "index_str sub (c # s) = (if has_prefix (c # s) sub then Some 0 else map_option Suc (index_str sub s))"

definition replace_once :: "string \<Rightarrow> string \<Rightarrow> string \<Rightarrow> string" where
  "replace_once old new s =
     (case index_str old s of None \<Rightarrow> s | Some i \<Rightarrow> take i s @ new @ drop (i + length old) s)"

definition byte_in :: "nat \<Rightarrow> nat \<Rightarrow> string \<Rightarrow> nat \<Rightarrow> bool" where
  "byte_in lo hi s k \<longleftrightarrow> k < length s \<and> lo \<le> of_char (s ! k) \<and> of_char (s ! k) \<le> hi"

definition rune_more :: "char \<Rightarrow> string \<Rightarrow> nat" where
  "rune_more c s =
     (let x = of_char c :: nat in
      if 194 \<le> x \<and> x \<le> 223 then (if byte_in 128 191 s 0 then 1 else 0)
      else if 224 \<le> x \<and> x \<le> 239 then
        (if byte_in (if x = 224 then 160 else 128) (if x = 237 then 159 else 191) s 0 \<and> byte_in 128 191 s 1 then 2 else 0)
      else if 240 \<le> x \<and> x \<le> 244 then
        (if byte_in (if x = 240 then 144 else 128) (if x = 244 then 143 else 191) s 0
            \<and> byte_in 128 191 s 1 \<and> byte_in 128 191 s 2 then 3 else 0)
      else 0)"

fun replace_empty :: "string \<Rightarrow> string \<Rightarrow> string" where
  "replace_empty new [] = new"
| "replace_empty new (c # s) = new @ c # take (rune_more c s) s @ replace_empty new (drop (rune_more c s) s)"

fun replace_found :: "string \<Rightarrow> string \<Rightarrow> string \<Rightarrow> string" where
  "replace_found old new [] = []"
| "replace_found old new (c # s) =
     (if has_prefix (c # s) old then new @ replace_found old new (drop (length old - 1) s)
      else c # replace_found old new s)"

definition replace_all :: "string \<Rightarrow> string \<Rightarrow> string \<Rightarrow> string" where
  "replace_all old new s = (if old = [] then replace_empty new s else replace_found old new s)"

subsection \<open>Names and metadata\<close>

definition validateEnvName :: "string \<Rightarrow> bool" where
  "validateEnvName name \<longleftrightarrow>
     name \<noteq> [] \<and> length name \<le> 63 \<and> is_lower_alnum (hd name) \<and> is_lower_alnum (last name)
     \<and> list_all (\<lambda>c. is_lower_alnum c \<or> c = CHR ''-'') name"

definition env_domain :: "string \<Rightarrow> bool" where
  "env_domain s \<longleftrightarrow> s \<noteq> [] \<and> list_all (\<lambda>c. is_alnum c \<or> c = CHR ''.'' \<or> c = CHR ''-'') s"

record Environment =
  en_Name :: string
  en_Domain :: string
  en_Branch :: string
  en_ProjectName :: string
  en_Status :: string
  en_CreatedAt :: time

datatype env_error =
    EnvName | EnvDomain | EnvNoProject | EnvExists | EnvDir | EnvRead | EnvYaml | EnvCompose | EnvSecrets
  | EnvMetadata | EnvNotFound | EnvRemove

record env_host =
  eh_yaml :: "string \<Rightarrow> bool"
  eh_named :: "string \<Rightarrow> string \<Rightarrow> string option"
  eh_enc :: "Environment \<Rightarrow> string option"
  eh_dec :: "string \<Rightarrow> Environment option"
  eh_docker :: "(string \<times> string list) list \<Rightarrow> string \<Rightarrow> string list \<Rightarrow> bool \<times> string"
  eh_now :: time

text \<open>The directory of an environment, below the project.\<close>

definition GetEnvPath :: "string \<Rightarrow> string" where
  "GetEnvPath envName = path_join [''environments'', envName]"

definition stat_ok :: "fs_io \<Rightarrow> tree \<Rightarrow> string \<Rightarrow> bool" where
  "stat_ok io t p \<longleftrightarrow> \<not> io_bad io OpStat p \<and> map_of t p \<noteq> None"

definition ReadFile :: "fs_io \<Rightarrow> tree \<Rightarrow> string \<Rightarrow> string option" where
  "ReadFile io t p =
     (case map_of t p of
        Some (Regular m c) \<Rightarrow> if io_bad io OpOpen p \<or> io_bad io OpRead p then None else Some c
      | _ \<Rightarrow> None)"

definition saveMetadata :: "env_host \<Rightarrow> fs_io \<Rightarrow> string \<Rightarrow> Environment \<Rightarrow> tree \<Rightarrow> bool \<times> tree" where
  "saveMetadata h io envPath env t =
     (case eh_enc h env of
        None \<Rightarrow> (False, t)
      | Some data \<Rightarrow> write_file io 420 (path_join [envPath, ''environment.json'']) data t)"

definition loadMetadata :: "env_host \<Rightarrow> fs_io \<Rightarrow> string \<Rightarrow> tree \<Rightarrow> Environment option" where
  "loadMetadata h io envPath t =
     (case ReadFile io t (path_join [envPath, ''environment.json'']) of None \<Rightarrow> None | Some data \<Rightarrow> eh_dec h data)"

subsection \<open>Creation\<close>

definition replaceHostRule :: "string \<Rightarrow> string \<Rightarrow> string" where
  "replaceHostRule line domain =
     (case index_str (''Host('' @ [CHR 0x60]) line of
        None \<Rightarrow> line
      | Some i \<Rightarrow>
          let start = i + 6 in
          (case index_str (CHR 0x60 # '')'') (drop start line) of
             None \<Rightarrow> line
           | Some end \<Rightarrow> take start line @ domain @ drop (start + end) line))"

definition env_compose_name :: "string \<Rightarrow> string \<Rightarrow> string" where
  "env_compose_name envName projectName = envName @ ''-'' @ projectName"

definition adjustComposeForEnv :: "env_host \<Rightarrow> string \<Rightarrow> string \<Rightarrow> string \<Rightarrow> string \<Rightarrow> string" where
  "adjustComposeForEnv h yml projectName envName domain =
     (let ls = map (\<lambda>line. if contains_str line ''Host('' then replaceHostRule line domain else line) (split_on newline yml)
      in case eh_named h (join_with [newline] ls) (env_compose_name envName projectName) of None \<Rightarrow> [] | Some data \<Rightarrow> data)"

text \<open>The file of secrets is made only where there is none.\<close>

definition seed_env :: "fs_io \<Rightarrow> string \<Rightarrow> string \<Rightarrow> tree \<Rightarrow> bool \<times> tree" where
  "seed_env io name domain t =
     (let content = ''DOMAIN='' @ domain @ [newline] in
      if io_bad io file_op.OpCreate name \<or> map_of t name \<noteq> None \<or> \<not> has_parent t name then (False, t)
      else if io_bad io OpWrite name then (False, al_put name (Regular 384 (take (io_cut io name) content)) t)
      else (\<not> io_bad io OpClose name, al_put name (Regular 384 content) t))"

definition create_files ::
  "env_host \<Rightarrow> fs_io \<Rightarrow> string \<Rightarrow> string \<Rightarrow> string \<Rightarrow> string \<Rightarrow> tree \<Rightarrow> (env_error + Environment) \<times> tree" where
  "create_files h io projectName envName domain branch t =
     (let envPath = GetEnvPath envName in
      case ReadFile io t ''docker-compose.yml'' of None \<Rightarrow> (Inl EnvRead, t) | Some yml \<Rightarrow>
      if \<not> eh_yaml h yml then (Inl EnvYaml, t)
      else case write_file io 420 (path_join [envPath, ''docker-compose.yml''])
                  (adjustComposeForEnv h yml projectName envName domain) t of
        (False, t1) \<Rightarrow> (Inl EnvCompose, t1)
      | (True, t1) \<Rightarrow>
          (case (if stat_ok io t1 ''.env'' then seed_env io (path_join [envPath, ''.env'']) domain t1 else (True, t1)) of
             (False, t2) \<Rightarrow> (Inl EnvSecrets, t2)
           | (True, t2) \<Rightarrow>
               let env = \<lparr>en_Name = envName, en_Domain = domain, en_Branch = branch, en_ProjectName = projectName,
                         en_Status = ''creating'', en_CreatedAt = eh_now h\<rparr> in
               (case saveMetadata h io envPath env t2 of
                  (False, t3) \<Rightarrow> (Inl EnvMetadata, t3)
                | (True, t3) \<Rightarrow> (Inr env, t3))))"

definition Create_env ::
  "env_host \<Rightarrow> fs_io \<Rightarrow> string \<Rightarrow> string \<Rightarrow> string \<Rightarrow> string \<Rightarrow> tree option \<Rightarrow> (env_error + Environment) \<times> tree option" where
  "Create_env h io projectName envName domain branch dir =
     (if \<not> validateEnvName projectName then (Inl EnvName, dir)
      else if \<not> env_domain domain then (Inl EnvDomain, dir)
      else if \<not> validateEnvName envName then (Inl EnvName, dir)
      else case dir of None \<Rightarrow> (Inl EnvNoProject, None) | Some t \<Rightarrow>
        if \<not> stat_ok io t ''docker-compose.yml'' then (Inl EnvNoProject, Some t)
        else if stat_ok io t (path_join [GetEnvPath envName, ''environment.json'']) then (Inl EnvExists, Some t)
        else (case mkdir_all io (GetEnvPath envName) t of
                (Some e, t1) \<Rightarrow> (Inl EnvDir, Some t1)
              | (None, t1) \<Rightarrow> (case create_files h io projectName envName domain branch t1 of (r, t2) \<Rightarrow> (r, Some t2))))"

subsection \<open>Listing\<close>

text \<open>The directories below \<open>environments\<close>, by name; those whose metadata cannot be read are passed over.\<close>

definition env_dirs :: "tree \<Rightarrow> string list" where
  "env_dirs t = sort (map fst (filter (\<lambda>(n, nd). nd = Directory \<and> path_dir n = ''environments'') t))"

definition List_envs :: "env_host \<Rightarrow> fs_io \<Rightarrow> string \<Rightarrow> tree option \<Rightarrow> env_error + Environment list" where
  "List_envs h io projectName dir =
     (if \<not> validateEnvName projectName then Inl EnvName
      else case dir of None \<Rightarrow> Inr [] | Some t \<Rightarrow>
        (case map_of t ''environments'' of
           None \<Rightarrow> Inr []
         | Some nd \<Rightarrow>
             if nd \<noteq> Directory \<or> io_bad io OpOpen ''environments'' then Inl EnvRead
             else Inr (concat (map (\<lambda>d. case loadMetadata h io d t of None \<Rightarrow> [] | Some env \<Rightarrow> [env]) (env_dirs t)))))"

subsection \<open>Promotion\<close>

definition replaceEnvPrefix :: "string \<Rightarrow> string \<Rightarrow> string \<Rightarrow> string" where
  "replaceEnvPrefix domain fromEnv toEnv =
     (if has_prefix domain (fromEnv @ ''.'') then toEnv @ ''.'' @ drop (length fromEnv + 1) domain
      else toEnv @ ''.'' @ domain)"

type_synonym docker_log = "(string \<times> string list) list"

definition env_docker :: "env_host \<Rightarrow> string \<Rightarrow> string list \<Rightarrow> docker_log \<Rightarrow> bool \<times> string \<times> docker_log" where
  "env_docker h dir args log = (case eh_docker h log dir args of (ok, out) \<Rightarrow> (ok, out, log @ [(dir, args)]))"

fun tag_images :: "env_host \<Rightarrow> string \<Rightarrow> string \<Rightarrow> string list \<Rightarrow> docker_log \<Rightarrow> docker_log" where
  "tag_images h src dst [] log = log"
| "tag_images h src dst (img # imgs) log =
     (if img = [] then tag_images h src dst imgs log
      else case env_docker h ''.'' [''tag'', img, replace_once src dst img] log of
        (ok, out, log1) \<Rightarrow> tag_images h src dst imgs log1)"

definition copyImages :: "env_host \<Rightarrow> string \<Rightarrow> string \<Rightarrow> string \<Rightarrow> docker_log \<Rightarrow> docker_log" where
  "copyImages h projectName fromEnv toEnv log =
     (let src = env_compose_name fromEnv projectName; dst = env_compose_name toEnv projectName in
      case env_docker h ''.'' [''images'', ''--format'', ''{{.Repository}}:{{.Tag}}'', ''--filter'', ''reference='' @ src @ ''*''] log of
        (False, out, log1) \<Rightarrow> log1
      | (True, out, log1) \<Rightarrow> tag_images h src dst (split_on newline (trim_space out)) log1)"

definition promote_files ::
  "env_host \<Rightarrow> fs_io \<Rightarrow> string \<Rightarrow> string \<Rightarrow> string \<Rightarrow> tree \<times> docker_log \<Rightarrow> env_error option \<times> tree \<times> docker_log" where
  "promote_files h io projectName fromEnv toEnv s =
     (case s of (t, log) \<Rightarrow>
      case loadMetadata h io (GetEnvPath fromEnv) t of None \<Rightarrow> (Some EnvMetadata, t, log) | Some src \<Rightarrow>
      (case ReadFile io t (path_join [GetEnvPath fromEnv, ''docker-compose.yml'']) of None \<Rightarrow> (Some EnvRead, t, log) | Some yml \<Rightarrow>
        let toDomain = replaceEnvPrefix (en_Domain src) fromEnv toEnv;
            adjusted = replace_all (env_compose_name fromEnv projectName) (env_compose_name toEnv projectName)
                         (replace_all (en_Domain src) toDomain yml)
        in (case write_file io 420 (path_join [GetEnvPath toEnv, ''docker-compose.yml'']) adjusted t of
              (False, t1) \<Rightarrow> (Some EnvCompose, t1, log)
            | (True, t1) \<Rightarrow>
                let log1 = copyImages h projectName fromEnv toEnv log;
                    env = \<lparr>en_Name = toEnv, en_Domain = toDomain, en_Branch = en_Branch src, en_ProjectName = projectName,
                           en_Status = ''creating'', en_CreatedAt = eh_now h\<rparr>
                in (case saveMetadata h io (GetEnvPath toEnv) env t1 of
                      (ok, t2) \<Rightarrow> (if ok then None else Some EnvMetadata, t2, log1)))))"

definition Promote ::
  "env_host \<Rightarrow> fs_io \<Rightarrow> string \<Rightarrow> string \<Rightarrow> string \<Rightarrow> tree option \<times> docker_log \<Rightarrow> env_error option \<times> tree option \<times> docker_log" where
  "Promote h io projectName fromEnv toEnv s =
     (case s of (dir, log) \<Rightarrow>
      if \<not> validateEnvName projectName \<or> \<not> validateEnvName fromEnv \<or> \<not> validateEnvName toEnv then (Some EnvName, dir, log)
      else case dir of None \<Rightarrow> (Some EnvNotFound, None, log) | Some t \<Rightarrow>
        if \<not> stat_ok io t (GetEnvPath fromEnv) then (Some EnvNotFound, Some t, log)
        else (case mkdir_all io (GetEnvPath toEnv) t of
                (Some e, t1) \<Rightarrow> (Some EnvDir, Some t1, log)
              | (None, t1) \<Rightarrow>
                  (case promote_files h io projectName fromEnv toEnv (t1, log) of (r, t2, log1) \<Rightarrow> (r, Some t2, log1))))"

subsection \<open>Deletion\<close>

text \<open>What cannot be removed stays, with the directories on the way to it.\<close>

definition remove_tree :: "fs_io \<Rightarrow> string \<Rightarrow> tree \<Rightarrow> bool \<times> tree" where
  "remove_tree io d t =
     (let stuck = (\<lambda>n. list_ex (\<lambda>(m, nd). path_below n m \<and> io_bad io OpRemove m) t)
      in (\<not> list_ex (\<lambda>(n, nd). path_below d n \<and> stuck n) t, filter (\<lambda>(n, nd). path_below d n \<longrightarrow> stuck n) t))"

definition Delete_env ::
  "env_host \<Rightarrow> fs_io \<Rightarrow> string \<Rightarrow> string \<Rightarrow> string \<Rightarrow> tree option \<times> docker_log \<Rightarrow> env_error option \<times> tree option \<times> docker_log" where
  "Delete_env h io base projectName envName s =
     (case s of (dir, log) \<Rightarrow>
      if \<not> validateEnvName projectName \<or> \<not> validateEnvName envName then (Some EnvName, dir, log)
      else case dir of None \<Rightarrow> (None, None, log) | Some t \<Rightarrow>
        let envPath = GetEnvPath envName;
            log1 = (if stat_ok io t (path_join [envPath, ''docker-compose.yml''])
                    then snd (snd (env_docker h (path_join [base, projectName, envPath]) [''compose'', ''down'', ''--remove-orphans''] log))
                    else log)
        in (case remove_tree io envPath t of (ok, t1) \<Rightarrow> (if ok then None else Some EnvRemove, Some t1, log1)))"

subsection \<open>The handlers\<close>

text \<open>Where the project's directory is missing, a creation of the environment's directory is not reached. A body is the
  environment, its domain and its branch, or the two environments of a promotion.\<close>

record env_api =
  ea_env :: env_host
  ea_create :: "string \<Rightarrow> (string \<times> string \<times> string) option"
  ea_promote :: "string \<Rightarrow> (string \<times> string) option"

type_synonym env_result = "(api_answer + Environment list) \<times> api_world"

definition in_project ::
  "api_host \<Rightarrow> string \<Rightarrow> api_world \<Rightarrow> (project_row \<Rightarrow> env_result) \<Rightarrow> env_result" where
  "in_project h name w go =
     (if \<not> validProjectName name then (Inl (ApiError 400 ''invalid project name''), w)
      else case GetProject (ap_up h 0) name (aw_db w) of
        Inl e \<Rightarrow> (Inl (ApiError 404 ''project not found''), w)
      | Inr p \<Rightarrow> go p)"

definition handleListEnvironments :: "env_api \<Rightarrow> api_host \<Rightarrow> Config \<Rightarrow> string \<Rightarrow> api_world \<Rightarrow> env_result" where
  "handleListEnvironments ea h cfg name w =
     in_project h name w (\<lambda>p.
       case List_envs (ea_env ea) (ap_io h (ProjectPath cfg name)) name (aw_trees w (ProjectPath cfg name)) of
         Inl e \<Rightarrow> (Inl (ApiError 500 ''listing environments''), w)
       | Inr envs \<Rightarrow> (Inr envs, w))"

definition handleCreateEnvironment :: "env_api \<Rightarrow> api_host \<Rightarrow> Config \<Rightarrow> string \<Rightarrow> string \<Rightarrow> api_world \<Rightarrow> env_result" where
  "handleCreateEnvironment ea h cfg name body w =
     in_project h name w (\<lambda>p.
       case ea_create ea body of None \<Rightarrow> (Inl (ApiError 400 ''invalid JSON body''), w) | Some (env, domain, branch) \<Rightarrow>
       if env = [] \<or> domain = [] then (Inl (ApiError 400 ''environment and domain are required''), w)
       else let path = ProjectPath cfg name in
         (case Create_env (ea_env ea) (ap_io h path) name env domain branch (aw_trees w path) of
            (Inl e, dir) \<Rightarrow> (Inl (ApiError 500 ''creating environment''), w\<lparr>aw_trees := (aw_trees w)(path := dir)\<rparr>)
          | (Inr row, dir) \<Rightarrow>
              (Inr [row], audited h ''environment.create'' name (''env='' @ env @ '' domain='' @ domain @ '' via=api'')
                 (w\<lparr>aw_trees := (aw_trees w)(path := dir)\<rparr>))))"

definition handleDeleteEnvironment :: "env_api \<Rightarrow> api_host \<Rightarrow> Config \<Rightarrow> string \<Rightarrow> string \<Rightarrow> api_world \<Rightarrow> env_result" where
  "handleDeleteEnvironment ea h cfg name env w =
     in_project h name w (\<lambda>p.
       let path = ProjectPath cfg name in
       (case Delete_env (ea_env ea) (ap_io h path) (sc_BasePath (cfg_Server cfg)) name env (aw_trees w path, aw_docker w) of
          (e, dir, log) \<Rightarrow>
            let w1 = w\<lparr>aw_trees := (aw_trees w)(path := dir), aw_docker := log\<rparr> in
            (if e \<noteq> None then (Inl (ApiError 500 ''deleting environment''), w1)
             else (Inl (ApiStatus ''deleted''), audited h ''environment.delete'' name (''env='' @ env @ '' via=api'') w1))))"

definition handlePromoteEnvironment :: "env_api \<Rightarrow> api_host \<Rightarrow> Config \<Rightarrow> string \<Rightarrow> string \<Rightarrow> api_world \<Rightarrow> env_result" where
  "handlePromoteEnvironment ea h cfg name body w =
     in_project h name w (\<lambda>p.
       case ea_promote ea body of None \<Rightarrow> (Inl (ApiError 400 ''invalid JSON body''), w) | Some (src, dst) \<Rightarrow>
       if src = [] \<or> dst = [] then (Inl (ApiError 400 ''from and to are required''), w)
       else let path = ProjectPath cfg name in
         (case Promote (ea_env ea) (ap_io h path) name src dst (aw_trees w path, aw_docker w) of
            (e, dir, log) \<Rightarrow>
              let w1 = w\<lparr>aw_trees := (aw_trees w)(path := dir), aw_docker := log\<rparr> in
              (if e \<noteq> None then (Inl (ApiError 500 ''promoting environment''), w1)
               else (Inl (ApiStatus ''promoted''), audited h ''environment.promote'' name
                      (''from='' @ src @ '' to='' @ dst @ '' via=api'') w1))))"

end
