(* ===== verification/Environment_Safety.thy ===== *)
theory Environment_Safety
  imports Environments Server_Layout Backup_Created
begin

text \<open>
  The environments of a project are kept apart: what an operation on one environment changes, and what a failed
  creation leaves.
\<close>

subsection \<open>What an operation changes\<close>

text \<open>Outside the directory of the environment a tree only gains the directory \<open>environments\<close>.\<close>

definition only_env :: "string \<Rightarrow> tree \<Rightarrow> tree \<Rightarrow> bool" where
  "only_env env t t' \<longleftrightarrow> (\<forall>p. \<not> path_below (GetEnvPath env) p \<longrightarrow>
     map_of t' p = map_of t p \<or> (p = ''environments'' \<and> map_of t p = None \<and> map_of t' p = Some Directory))"

definition same_at :: "string \<Rightarrow> tree \<Rightarrow> tree \<Rightarrow> bool" where
  "same_at p t t' \<longleftrightarrow> map_of t' p = map_of t p"

lemma only_env_refl [simp]: "only_env env t t"
  by (simp add: only_env_def)

lemma only_env_trans: "only_env env t t1 \<Longrightarrow> only_env env t1 t2 \<Longrightarrow> only_env env t t2"
  unfolding only_env_def by (metis option.distinct(1))

lemma env_name_normal: "validateEnvName env \<Longrightarrow> normal_component env"
proof -
  assume v: "validateEnvName env"
  then have "c \<in> set env \<Longrightarrow> is_lower_alnum c \<or> c = CHR ''-''" for c by (auto simp: validateEnvName_def list_all_iff)
  moreover have "\<not> is_lower_alnum CHR ''/''" "\<not> is_lower_alnum CHR ''.''" by code_simp+
  ultimately have "CHR ''/'' \<notin> set env" "CHR ''.'' \<notin> set env" by auto
  then show ?thesis using v by (auto simp: normal_component_def validateEnvName_def)
qed

lemma rel_join:
  assumes "list_all normal_component ws" "ws \<noteq> []"
  shows "path_join ws = join_with ''/'' ws"
proof -
  have "filter (\<lambda>w. w \<noteq> []) ws = ws" using assms(1) by (rule filter_nonempty_normal)
  then show ?thesis using path_clean_rel(1)[OF assms] assms(2) by (simp add: path_join_def)
qed

lemma env_path:
  assumes "validateEnvName env"
  shows "GetEnvPath env = ''environments/'' @ env"
    and "f \<in> {''docker-compose.yml'', ''.env'', ''environment.json''} \<Longrightarrow> path_join [GetEnvPath env, f] = ''environments/'' @ env @ ''/'' @ f"
    and "path_prefixes (GetEnvPath env) = [''environments'', GetEnvPath env]"
proof -
  have e: "normal_component ''environments''" by code_simp
  have n: "list_all normal_component [''environments'', env]" using env_name_normal[OF assms] e by simp
  show p: "GetEnvPath env = ''environments/'' @ env" using rel_join[OF n] by (simp add: GetEnvPath_def)
  show "path_prefixes (GetEnvPath env) = [''environments'', GetEnvPath env]"
    using prefixes_rel_path[OF n] p by (simp add: upt_rec)
  show "path_join [GetEnvPath env, f] = ''environments/'' @ env @ ''/'' @ f" if "f \<in> {''docker-compose.yml'', ''.env'', ''environment.json''}"
  proof -
    have "normal_component f" using that by (elim insertE emptyE; simp; code_simp)
    then have n3: "list_all normal_component [''environments'', env, f]" using n by simp
    have "f \<noteq> []" using that by auto
    then have "path_join [GetEnvPath env, f] = path_clean (join_with ''/'' [''environments'', env, f])"
      by (simp add: p path_join_def)
    then show ?thesis using path_clean_rel(1)[OF n3] by simp
  qed
qed

abbreviation env_files :: "string set" where
  "env_files \<equiv> {''docker-compose.yml'', ''.env'', ''environment.json''}"

lemma env_file_below: "validateEnvName env \<Longrightarrow> f \<in> env_files \<Longrightarrow> path_below (GetEnvPath env) (path_join [GetEnvPath env, f])"
  using env_path(1)[of env] env_path(2)[of env f] by (simp add: path_below_def has_prefix_iff)

lemma env_files_differ:
  "validateEnvName env \<Longrightarrow> f \<in> env_files \<Longrightarrow> g \<in> env_files \<Longrightarrow> f \<noteq> g \<Longrightarrow> path_join [GetEnvPath env, f] \<noteq> path_join [GetEnvPath env, g]"
  using env_path(2)[of env f] env_path(2)[of env g] by auto

lemma write_only:
  assumes "write_file io perm (path_join [GetEnvPath env, f]) c t = (r, t')" "validateEnvName env" "f \<in> env_files"
  shows "only_env env t t'" and "g \<in> env_files \<Longrightarrow> g \<noteq> f \<Longrightarrow> same_at (path_join [GetEnvPath env, g]) t t'"
proof -
  show "only_env env t t'"
    unfolding only_env_def using write_file_other[OF assms(1)] env_file_below[OF assms(2,3)] by metis
  show "same_at (path_join [GetEnvPath env, g]) t t'" if "g \<in> env_files" "g \<noteq> f"
    unfolding same_at_def using write_file_other[OF assms(1)] env_files_differ[OF assms(2) that(1) assms(3) that(2)] by blast
qed

lemma metadata_only:
  assumes "saveMetadata h io (GetEnvPath env) row t = (r, t')" "validateEnvName env"
  shows "only_env env t t'" and "same_at (path_join [GetEnvPath env, ''.env'']) t t'"
  using assms write_only[of io 420 env "''environment.json''"] by (auto simp: saveMetadata_def same_at_def split: option.splits)

lemma mkdir_only:
  assumes "mkdir_all io (GetEnvPath env) t = (r, t')" "validateEnvName env"
  shows "only_env env t t'" and "f \<in> env_files \<Longrightarrow> same_at (path_join [GetEnvPath env, f]) t t'"
proof -
  have dot: "GetEnvPath env \<noteq> ''.''" "GetEnvPath env \<noteq> ''environments''" using env_path(1)[OF assms(2)] by auto
  have steps: "make_dirs io [''environments'', GetEnvPath env] t = (r, t')"
    using assms dot(1) env_path(3)[OF assms(2)] by (simp add: mkdir_all_def)
  have at: "map_of t' p = map_of t p \<or> (p \<in> {''environments'', GetEnvPath env} \<and> map_of t p = None \<and> map_of t' p = Some Directory)" for p
    using steps dot(2) by (auto simp: map_of_put split: if_splits option.splits node.splits)
  show "only_env env t t'" unfolding only_env_def
  proof (intro allI impI)
    fix p assume "\<not> path_below (GetEnvPath env) p"
    then have "p \<noteq> GetEnvPath env" by (auto simp: path_below_def)
    then show "map_of t' p = map_of t p \<or> p = ''environments'' \<and> map_of t p = None \<and> map_of t' p = Some Directory" using at[of p] by blast
  qed
  show "same_at (path_join [GetEnvPath env, f]) t t'" if "f \<in> env_files"
  proof -
    have "path_join [GetEnvPath env, f] \<notin> {''environments'', GetEnvPath env}"
      using env_path(1,2)[OF assms(2)] that by auto
    then show ?thesis using at unfolding same_at_def by blast
  qed
qed

text \<open>The file of secrets holds nothing but the new domain.\<close>

definition seeded :: "string \<Rightarrow> string \<Rightarrow> tree \<Rightarrow> tree \<Rightarrow> bool" where
  "seeded p domain t t' \<longleftrightarrow> same_at p t t'
     \<or> (map_of t p = None \<and> (\<exists>n. map_of t' p = Some (Regular 384 (take n (''DOMAIN='' @ domain @ [newline])))))"

lemma seed_only:
  assumes "seed_env io (path_join [GetEnvPath env, ''.env'']) domain t = (r, t')" "validateEnvName env"
  shows "only_env env t t'" and "seeded (path_join [GetEnvPath env, ''.env'']) domain t t'"
proof -
  let ?p = "path_join [GetEnvPath env, ''.env'']"
  have other: "map_of t' q = map_of t q" if "q \<noteq> ?p" for q
    using assms(1) that by (auto simp: seed_env_def Let_def map_of_put split: if_splits)
  show "only_env env t t'" unfolding only_env_def 
  proof (intro allI impI)
    fix q assume "\<not> path_below (GetEnvPath env) q"
    then have "q \<noteq> ?p" using env_file_below[OF assms(2), of "''.env''"] by auto
    then show "map_of t' q = map_of t q \<or> q = ''environments'' \<and> map_of t q = None \<and> map_of t' q = Some Directory" using other by simp
  qed
  define content where "content = ''DOMAIN='' @ domain @ [newline]"
  have "t' = t \<or> map_of t ?p = None \<and> (\<exists>n. map_of t' ?p = Some (Regular 384 (take n content)))"
  proof (cases "io_bad io file_op.OpCreate ?p \<or> map_of t ?p \<noteq> None \<or> \<not> has_parent t ?p")
    case True
    then show ?thesis using assms(1) by (auto simp: seed_env_def Let_def)
  next
    case False
    then have "map_of t' ?p = Some (Regular 384 (take (if io_bad io OpWrite ?p then io_cut io ?p else length content) content))"
      using assms(1) unfolding seed_env_def Let_def content_def[symmetric] by (auto simp: map_of_put split: if_splits)
    then show ?thesis using False by blast
  qed
  then show "seeded ?p domain t t'" unfolding content_def by (auto simp: seeded_def same_at_def)
qed

lemma seeded_chain: "same_at p t t1 \<Longrightarrow> seeded p d t1 t2 \<Longrightarrow> same_at p t2 t3 \<Longrightarrow> seeded p d t t3"
  by (auto simp: seeded_def same_at_def)

subsection \<open>The operations\<close>

lemma create_files_only:
  assumes "create_files h io project env domain branch t = (r, t')" "validateEnvName env"
  shows "only_env env t t' \<and> seeded (path_join [GetEnvPath env, ''.env'']) domain t t'"
proof -
  let ?p = "path_join [GetEnvPath env, ''.env'']"
  have refl: "seeded ?p domain t t" "same_at ?p t t" for t by (simp_all add: seeded_def same_at_def)
  show ?thesis
  proof (cases "ReadFile io t ''docker-compose.yml''")
    case None
    then show ?thesis using assms(1) refl by (simp add: create_files_def Let_def)
  next
    case (Some yml)
    obtain ok1 t1 where t1: "write_file io 420 (path_join [GetEnvPath env, ''docker-compose.yml''])
        (adjustComposeForEnv h yml project env domain) t = (ok1, t1)" by (metis prod.exhaust)
    have w: "only_env env t t1" "same_at ?p t t1" using write_only[OF t1 assms(2)] by simp_all
    obtain ok2 t2 where t2: "(if stat_ok io t1 ''.env'' then seed_env io ?p domain t1 else (True, t1)) = (ok2, t2)" by (metis prod.exhaust)
    have sd: "only_env env t1 t2" "seeded ?p domain t1 t2"
      using t2 seed_only[of io env domain t1 ok2 t2] assms(2) refl by (auto split: if_splits)
    let ?env = "\<lparr>en_Name = env, en_Domain = domain, en_Branch = branch, en_ProjectName = project,
      en_Status = ''creating'', en_CreatedAt = eh_now h\<rparr>"
    obtain ok3 t3 where t3: "saveMetadata h io (GetEnvPath env) ?env t2 = (ok3, t3)" by (metis prod.exhaust)
    note m = metadata_only[OF t3 assms(2)]
    have "t' = t \<or> t' = t1 \<or> t' = t2 \<or> t' = t3"
      using assms(1) Some t1 t2 t3 by (auto simp: create_files_def Let_def split: if_splits bool.splits)
    moreover have "only_env env t t2" "only_env env t t3"
      using only_env_trans[OF w(1) sd(1)] only_env_trans[OF only_env_trans[OF w(1) sd(1)] m(1)] by simp_all
    moreover have "seeded ?p domain t t1" "seeded ?p domain t t2" "seeded ?p domain t t3"
      using w(2) seeded_chain[OF w(2) sd(2) refl(2)] seeded_chain[OF w(2) sd(2) m(2)] by (simp_all add: seeded_def)
    ultimately show ?thesis using w(1) refl(1) only_env_refl by blast
  qed
qed

lemma Create_env_only:
  assumes "Create_env h io project env domain branch (Some t) = (r, Some t')"
  shows "only_env env t t' \<and> seeded (path_join [GetEnvPath env, ''.env'']) domain t t'"
proof (cases "t' = t")
  case True
  then show ?thesis by (simp add: seeded_def same_at_def)
next
  case False
  have v: "validateEnvName env" using assms False by (auto simp: Create_env_def split: if_splits)
  obtain e t1 where t1: "mkdir_all io (GetEnvPath env) t = (e, t1)" by (metis prod.exhaust)
  note mk = mkdir_only(1)[OF t1 v] mkdir_only(2)[OF t1 v, of "''.env''"]
  consider "t' = t1" | r where "create_files h io project env domain branch t1 = (r, t')"
    using assms False t1 by (auto simp: Create_env_def split: if_splits option.splits prod.splits)
  then show ?thesis
  proof cases
    case 1
    then show ?thesis using mk by (simp add: seeded_def)
  next
    case 2
    then show ?thesis using create_files_only[OF 2 v] mk only_env_trans by (auto simp: seeded_def same_at_def)
  qed
qed

lemma Promote_only:
  assumes "Promote h io project src dst (Some t, log) = (e, Some t', log')"
  shows "only_env dst t t' \<and> same_at (path_join [GetEnvPath dst, ''.env'']) t t'"
proof (cases "t' = t")
  case True
  then show ?thesis by (simp add: same_at_def)
next
  case False
  have v: "validateEnvName dst" using assms False by (auto simp: Promote_def split: if_splits)
  obtain r t1 where t1: "mkdir_all io (GetEnvPath dst) t = (r, t1)" by (metis prod.exhaust)
  note mk = mkdir_only(1)[OF t1 v] mkdir_only(2)[OF t1 v, of "''.env''"]
  consider "t' = t1" | r where "promote_files h io project src dst (t1, log) = (r, t', log')"
    using assms False t1 by (auto simp: Promote_def split: if_splits option.splits prod.splits)
  then show ?thesis
  proof cases
    case 1
    then show ?thesis using mk by simp
  next
    case 2
    consider "t' = t1" | yml r2 where "write_file io 420 (path_join [GetEnvPath dst, ''docker-compose.yml'']) yml t1 = (r2, t')"
      | yml t2 row ok where "write_file io 420 (path_join [GetEnvPath dst, ''docker-compose.yml'']) yml t1 = (True, t2)"
          "saveMetadata h io (GetEnvPath dst) row t2 = (ok, t')"
      using 2 by (auto simp: promote_files_def Let_def split: option.splits prod.splits bool.splits)
    then show ?thesis
    proof cases
      case 1
      then show ?thesis using mk by simp
    next
      case 2
      then show ?thesis using write_only[OF 2 v] mk only_env_trans by (auto simp: same_at_def)
    next
      case 3
      have a: "only_env dst t1 t2" "same_at (path_join [GetEnvPath dst, ''.env'']) t1 t2" using write_only[OF 3(1) v] by simp_all
      note b = metadata_only[OF 3(2) v]
      show ?thesis using only_env_trans[OF mk(1) only_env_trans[OF a(1) b(1)]] mk(2) a(2) b(2) by (auto simp: same_at_def)
    qed
  qed
qed

lemma remove_only:
  assumes "remove_tree io (GetEnvPath env) t = (r, t')"
  shows "only_env env t t'"
proof -
  have "map_of (filter (\<lambda>(n, nd). path_below d n \<longrightarrow> stuck n) t) p = map_of t p" if "\<not> path_below d p" for d stuck p
    using that by (induction t) auto
  then show ?thesis using assms by (auto simp: remove_tree_def Let_def only_env_def)
qed


subsection \<open>A creation that failed late\<close>

lemma only_env_root: "only_env env t t' \<Longrightarrow> validateEnvName env \<Longrightarrow> map_of t' ''.env'' = map_of t ''.env''"
proof -
  assume o: "only_env env t t'" and v: "validateEnvName env"
  have "\<not> path_below (GetEnvPath env) ''.env''" using env_path(1)[OF v] by (simp add: path_below_def has_prefix_def)
  then show ?thesis using o unfolding only_env_def by force
qed

lemma create_files_seeds:
  assumes "create_files h io project env domain branch t = (r, t')" "validateEnvName env"
    and "\<not> io_bad io OpStat ''.env''" "map_of t ''.env'' \<noteq> None" "r = Inl EnvMetadata \<or> (\<exists>x. r = Inr x)"
  shows "map_of t (path_join [GetEnvPath env, ''.env'']) = None" and "map_of t' (path_join [GetEnvPath env, ''.env'']) \<noteq> None"
proof -
  let ?p = "path_join [GetEnvPath env, ''.env'']"
  obtain yml where yml: "ReadFile io t ''docker-compose.yml'' = Some yml"
    using assms(1,5) by (auto simp: create_files_def Let_def split: option.splits)
  obtain ok1 t1 where t1: "write_file io 420 (path_join [GetEnvPath env, ''docker-compose.yml''])
      (adjustComposeForEnv h yml project env domain) t = (ok1, t1)" by (metis prod.exhaust)
  have w: "only_env env t t1" "same_at ?p t t1" using write_only[OF t1 assms(2)] by simp_all
  have "stat_ok io t1 ''.env''" using assms(3,4) only_env_root[OF w(1) assms(2)] by (simp add: stat_ok_def)
  then obtain t2 where t2: "seed_env io ?p domain t1 = (True, t2)" "(\<exists>row ok. saveMetadata h io (GetEnvPath env) row t2 = (ok, t'))"
    using assms(1,5) yml t1 by (auto simp: create_files_def Let_def split: if_splits prod.splits bool.splits)
  have new: "map_of t1 ?p = None" "map_of t2 ?p \<noteq> None"
    using t2(1) by (auto simp: seed_env_def Let_def map_of_put split: if_splits)
  show "map_of t ?p = None" using new(1) w(2) by (simp add: same_at_def)
  obtain row ok where m: "saveMetadata h io (GetEnvPath env) row t2 = (ok, t')" using t2(2) by blast
  show "map_of t' ?p \<noteq> None" using new(2) metadata_only(2)[OF m assms(2)] by (simp add: same_at_def)
qed


subsection \<open>An example\<close>

definition sample_env_host :: env_host where
  "sample_env_host = \<lparr>eh_yaml = (\<lambda>s. True), eh_named = (\<lambda>s n. Some (''name: '' @ n @ newline # s)),
     eh_enc = (\<lambda>env. Some (en_Domain env)), eh_dec = (\<lambda>s. None), eh_docker = (\<lambda>log d a. (True, [])), eh_now = 3\<rparr>"

definition sample_env_tree :: tree where
  "sample_env_tree = [(''docker-compose.yml'', Regular 420 (''Host('' @ CHR 0x60 # ''a.b'' @ CHR 0x60 # '')'')), (''.env'', Regular 384 ''KEY=1'')]"

definition full_disk :: fs_io where
  "full_disk = \<lparr>io_bad = (\<lambda>op n. op = OpWrite \<and> n = ''environments/staging/environment.json''), io_cut = (\<lambda>n. 0)\<rparr>"

definition sample_environment :: "fs_io \<Rightarrow> (env_error + Environment) \<times> tree option" where
  "sample_environment io = Create_env sample_env_host io ''shop'' ''staging'' ''s.a.b'' ''dev'' (Some sample_env_tree)"

lemma sample_environment_made:
  "map_option (\<lambda>t. (map_of t ''environments/staging/.env'', map_of t ''.env'')) (snd (sample_environment good_io))
     = Some (Some (Regular 384 (''DOMAIN=s.a.b'' @ [newline])), Some (Regular 384 ''KEY=1''))"
  by code_simp



end
