(* ===== verification/Node_Snapshot.thy ===== *)
theory Node_Snapshot
  imports Monitor_State Server_Auth
begin

text \<open>
  \<open>internal/fleet\<close>: the observations a server publishes about itself and the workstation collects.
  A snapshot holds the projects of one node, the summary of its monitor and of its security watch;
  \<open>Snapshot_Validate\<close> is the check both ends apply (\<open>protocol.go\<close>). A node is an enrolled server with
  its pinned certificate and the groups that may see it; the client of a node caches one answer for
  thirty seconds (\<open>client.go\<close>); the agent answers one route from one file (\<open>agent.go\<close>).

  The JSON and PEM decoders, SHA-256, \<open>url.Parse\<close>, \<open>netip.ParseAddrPort\<close> and the TLS stack are
  parameters; what the code checks of a TLS connection is part of the model. Times are in
  nanoseconds, read where the code reads the clock.
\<close>

subsection \<open>Snapshots\<close>

definition MaxBytes :: nat where "MaxBytes = 1048576"
definition MaxAge :: duration where "MaxAge = 3 * minute"

record NodeProject =
  np_Name :: string
  np_RegistryStatus :: string
  np_LastBackup :: "time option"

record Checks =
  ch_Status :: string
  ch_CheckedAt :: "time option"
  ch_Healthy :: int
  ch_Unhealthy :: int
  ch_Unknown :: int

record Security =
  sy_Status :: string
  sy_CheckedAt :: "time option"
  sy_Critical :: int
  sy_High :: int
  sy_RuntimeFindings :: int
  sy_Unknown :: int

record Snapshot =
  sn_Schema :: int
  sn_NodeID :: string
  sn_GeneratedAt :: time
  sn_Version :: string
  sn_Commit :: string
  sn_Projects :: "NodeProject list"
  sn_Monitoring :: Checks
  sn_Security :: Security

text \<open>The zero values of the Go structures.\<close>

definition unknown_checks :: Checks where
  "unknown_checks = \<lparr>ch_Status = ''unknown'', ch_CheckedAt = None, ch_Healthy = 0, ch_Unhealthy = 0, ch_Unknown = 0\<rparr>"

definition unknown_security :: Security where
  "unknown_security = \<lparr>sy_Status = ''unknown'', sy_CheckedAt = None, sy_Critical = 0, sy_High = 0,
     sy_RuntimeFindings = 0, sy_Unknown = 0\<rparr>"

definition empty_snapshot :: Snapshot where
  "empty_snapshot = \<lparr>sn_Schema = 0, sn_NodeID = [], sn_GeneratedAt = zero_time, sn_Version = [], sn_Commit = [],
     sn_Projects = [], sn_Monitoring = unknown_checks\<lparr>ch_Status := []\<rparr>,
     sn_Security = unknown_security\<lparr>sy_Status := []\<rparr>\<rparr>"

text \<open>\<open>^[a-z0-9][a-z0-9-]{0,62}$\<close>\<close>

definition ValidID :: "string \<Rightarrow> bool" where
  "ValidID s = (case s of [] \<Rightarrow> False
     | c # cs \<Rightarrow> is_lower_alnum c \<and> class_rep (\<lambda>d. is_lower_alnum d \<or> d = CHR ''-'') 0 62 cs)"

definition known_status :: "string \<Rightarrow> bool" where
  "known_status st \<longleftrightarrow> st = ''ok'' \<or> st = ''attention'' \<or> st = ''unknown''"

definition project_bad :: "time \<Rightarrow> string list \<Rightarrow> NodeProject \<Rightarrow> bool" where
  "project_bad now seen p \<longleftrightarrow> \<not> ValidID (np_Name p) \<or> np_Name p \<in> set seen \<or> 40 < length (np_RegistryStatus p)
     \<or> (case np_LastBackup p of None \<Rightarrow> False | Some at \<Rightarrow> now + 30 * second < at)"

fun projects_bad :: "time \<Rightarrow> string list \<Rightarrow> NodeProject list \<Rightarrow> bool" where
  "projects_bad now seen [] = False"
| "projects_bad now seen (p # ps) \<longleftrightarrow> project_bad now seen p \<or> projects_bad now (np_Name p # seen) ps"

definition observation_counts :: "Snapshot \<Rightarrow> int list" where
  "observation_counts s = [ch_Healthy (sn_Monitoring s), ch_Unhealthy (sn_Monitoring s), ch_Unknown (sn_Monitoring s),
     sy_Critical (sn_Security s), sy_High (sn_Security s), sy_RuntimeFindings (sn_Security s), sy_Unknown (sn_Security s)]"

definition stale_claim :: "time \<Rightarrow> string \<Rightarrow> time option \<Rightarrow> duration \<Rightarrow> bool" where
  "stale_claim now status at age \<longleftrightarrow> status \<noteq> ''unknown''
     \<and> (case at of None \<Rightarrow> True | Some t \<Rightarrow> t = zero_time \<or> now + 30 * second < t \<or> age < now - t)"

definition Snapshot_Validate :: "string \<Rightarrow> time \<Rightarrow> Snapshot \<Rightarrow> string option" where
  "Snapshot_Validate node now s = first_error
     [(sn_Schema s \<noteq> 1 \<or> \<not> ValidID node \<or> sn_NodeID s \<noteq> node \<or> 100 < length (sn_Version s)
         \<or> 100 < length (sn_Commit s) \<or> 500 < length (sn_Projects s),
       ''invalid snapshot identity or limits''),
      (sn_GeneratedAt s = zero_time \<or> now + 30 * second < sn_GeneratedAt s \<or> MaxAge < now - sn_GeneratedAt s,
       ''snapshot is stale or has an invalid clock''),
      (projects_bad now [] (sn_Projects s), ''invalid project summary''),
      (\<not> known_status (ch_Status (sn_Monitoring s)) \<or> \<not> known_status (sy_Status (sn_Security s)),
       ''invalid observation status''),
      (list_ex (\<lambda>n. n < 0 \<or> 1000000 < n) (observation_counts s), ''invalid observation count''),
      (stale_claim now (ch_Status (sn_Monitoring s)) (ch_CheckedAt (sn_Monitoring s)) MaxAge
         \<or> stale_claim now (sy_Status (sn_Security s)) (sy_CheckedAt (sn_Security s)) (26 * hour),
       ''stale observation marked current''),
      (ch_Status (sn_Monitoring s) = ''ok'' \<and> (ch_Healthy (sn_Monitoring s) = 0
         \<or> ch_Unhealthy (sn_Monitoring s) \<noteq> 0 \<or> ch_Unknown (sn_Monitoring s) \<noteq> 0),
       ''invalid healthy monitoring claim''),
      (sy_Status (sn_Security s) = ''ok'' \<and> (sy_Critical (sn_Security s) \<noteq> 0 \<or> sy_High (sn_Security s) \<noteq> 0
         \<or> sy_RuntimeFindings (sn_Security s) \<noteq> 0 \<or> sy_Unknown (sn_Security s) \<noteq> 0),
       ''invalid clean security claim'')]"

text \<open>A reader of at most \<open>MaxBytes + 1\<close> bytes; \<open>None\<close> is a body that could not be read.\<close>

definition Snapshot_Decode :: "(string \<Rightarrow> Snapshot option) \<Rightarrow> string option \<Rightarrow> string \<Rightarrow> time \<Rightarrow> string + Snapshot" where
  "Snapshot_Decode dec body node now =
     (case body of
        None \<Rightarrow> Inl ''snapshot exceeds limits''
      | Some bytes \<Rightarrow>
          (let b = take (Suc MaxBytes) bytes
           in if MaxBytes < length b then Inl ''snapshot exceeds limits''
              else case dec b of
                None \<Rightarrow> Inl ''invalid snapshot JSON''
              | Some s \<Rightarrow> or_error (Snapshot_Validate node now s) s))"

subsection \<open>Enrolled nodes\<close>

record Node =
  nd_ID :: string
  nd_Label :: string
  nd_Group :: string
  nd_URL :: string
  nd_Address :: string
  nd_CAFile :: string
  nd_ServerCertFile :: string
  nd_ClientCertFile :: string
  nd_ClientKeyFile :: string
  nd_ViewGroups :: "string list"
  nd_DetailGroups :: "string list"

record FleetConfig =
  fl_Enabled :: bool
  fl_Servers :: "Node list"

definition matches :: "string list \<Rightarrow> string list \<Rightarrow> bool" where
  "matches actual allowed \<longleftrightarrow> list_ex (\<lambda>g. g \<in> set allowed) actual"

definition CanDetail :: "Node \<Rightarrow> string list \<Rightarrow> bool" where
  "CanDetail n groups \<longleftrightarrow> matches groups (nd_DetailGroups n)"

definition CanView :: "Node \<Rightarrow> string list \<Rightarrow> bool" where
  "CanView n groups \<longleftrightarrow> matches groups (nd_ViewGroups n) \<or> CanDetail n groups"

text \<open>What \<open>PrivateAddress\<close> reads of a parsed address: its port, its zone, and whether it is private or loopback.\<close>

record addr_port =
  ap_Port :: nat
  ap_Zone :: string
  ap_Local :: bool

record fleet_url = web_url +
  fu_ForceQuery :: bool

definition PrivateAddress :: "(string \<Rightarrow> addr_port option) \<Rightarrow> string \<Rightarrow> bool" where
  "PrivateAddress parse address =
     (case parse address of None \<Rightarrow> False
      | Some a \<Rightarrow> ap_Port a \<noteq> 0 \<and> ap_Zone a = [] \<and> ap_Local a)"

text \<open>\<open>url.Port\<close>.\<close>

definition url_port :: "string \<Rightarrow> string" where
  "url_port hp =
     (case last_index CHR '':'' hp of None \<Rightarrow> []
      | Some i \<Rightarrow> if list_all is_digit (drop (Suc i) hp) then drop (Suc i) hp else [])"

definition port_or_443 :: "string \<Rightarrow> string" where
  "port_or_443 hp = (if url_port hp = [] then ''443'' else url_port hp)"

definition bad_group :: "string \<Rightarrow> bool" where
  "bad_group g \<longleftrightarrow> trim_space g \<noteq> g \<or> g = [] \<or> 100 < length g
     \<or> contains_any g [CHR 0x0D, CHR 0x0A, CHR 0x00]"

definition node_checks ::
  "(string \<Rightarrow> fleet_url option) \<Rightarrow> (string \<Rightarrow> addr_port option) \<Rightarrow> string list \<Rightarrow> Node \<Rightarrow> string option" where
  "node_checks purl parse seen n = first_error
     [(\<not> ValidID (nd_ID n) \<or> nd_ID n \<in> set seen \<or> nd_Label n = [] \<or> 100 < length (nd_Label n) \<or> 100 < length (nd_Group n),
       ''invalid or duplicate fleet node''),
      (case purl (nd_URL n) of None \<Rightarrow> True
       | Some u \<Rightarrow> url_Scheme u \<noteq> ''https'' \<or> url_hostname (url_Host u) = [] \<or> url_HasUser u \<or> url_RawQuery u \<noteq> []
           \<or> fu_ForceQuery u \<or> url_Fragment u \<noteq> [] \<or> url_Path u \<noteq> [] \<or> wu_Opaque u \<noteq> []
           \<or> \<not> PrivateAddress parse (nd_Address n),
       ''fleet node requires an HTTPS origin and pinned private IP:port''),
      ((case SplitHostPort (nd_Address n) of None \<Rightarrow> [] | Some (host, port) \<Rightarrow> port)
         \<noteq> (case purl (nd_URL n) of None \<Rightarrow> ''443'' | Some u \<Rightarrow> port_or_443 (url_Host u)),
       ''fleet URL and pinned port must match''),
      (length (nd_ViewGroups n) + length (nd_DetailGroups n) = 0 \<or> 64 < length (nd_ViewGroups n) + length (nd_DetailGroups n),
       ''fleet node requires explicit group grants''),
      (list_ex bad_group (nd_ViewGroups n @ nd_DetailGroups n), ''invalid fleet group grant''),
      (list_ex (\<lambda>f. f = []) [nd_CAFile n, nd_ServerCertFile n, nd_ClientCertFile n, nd_ClientKeyFile n],
       ''fleet requires CA, pinned server leaf and unique client certificate/key files'')]"

fun nodes_checks ::
  "(string \<Rightarrow> fleet_url option) \<Rightarrow> (string \<Rightarrow> addr_port option) \<Rightarrow> string list \<Rightarrow> Node list \<Rightarrow> string option" where
  "nodes_checks purl parse seen [] = None"
| "nodes_checks purl parse seen (n # ns) =
     (case node_checks purl parse seen n of
        Some e \<Rightarrow> Some e
      | None \<Rightarrow> nodes_checks purl parse (nd_ID n # seen) ns)"

definition Fleet_Validate ::
  "(string \<Rightarrow> fleet_url option) \<Rightarrow> (string \<Rightarrow> addr_port option) \<Rightarrow> FleetConfig \<Rightarrow> string option" where
  "Fleet_Validate purl parse c =
     (if \<not> fl_Enabled c then None
      else if 64 < length (fl_Servers c) then Some ''fleet supports at most 64 explicitly enrolled nodes''
      else nodes_checks purl parse [] (fl_Servers c))"

subsection \<open>The client of a node\<close>

record file_facts =
  ff_Regular :: bool
  ff_Perm :: nat
  ff_Size :: nat

text \<open>\<open>mode & 0077 != 0\<close> and \<open>mode & 0027 != 0\<close>\<close>

definition open_to_others :: "nat \<Rightarrow> bool" where "open_to_others perm \<longleftrightarrow> perm mod 64 \<noteq> 0"
definition group_writable_or_public :: "nat \<Rightarrow> bool" where
  "group_writable_or_public perm \<longleftrightarrow> bit perm 4 \<or> perm mod 8 \<noteq> 0"

definition PrivateKey :: "(string \<Rightarrow> file_facts option) \<Rightarrow> string \<Rightarrow> bool" where
  "PrivateKey lstat path =
     (case lstat path of None \<Rightarrow> False
      | Some i \<Rightarrow> ff_Regular i \<and> \<not> open_to_others (ff_Perm i) \<and> ff_Size i \<le> 65536)"

text \<open>
  The files of the enrolment: \<open>fh_Pair\<close> loads a certificate with its key and gives the public key
  of the leaf, \<open>fh_Leaf\<close> is the content of a file with exactly one certificate that is not a CA,
  \<open>fh_Pool\<close> tells whether a file is a set of CA certificates.
\<close>

record fleet_host =
  fh_sha :: "string \<Rightarrow> string"
  fh_url :: "string \<Rightarrow> fleet_url option"
  fh_addr :: "string \<Rightarrow> addr_port option"
  fh_lstat :: "string \<Rightarrow> file_facts option"
  fh_Pair :: "string \<Rightarrow> string \<Rightarrow> string option"
  fh_Leaf :: "string \<Rightarrow> string option"
  fh_Pool :: "string \<Rightarrow> bool"
  fh_dec :: "string \<Rightarrow> Snapshot option"

record NodeClient =
  nc_node :: Node
  nc_pin :: string
  nc_last :: time
  nc_snapshot :: Snapshot
  nc_err :: "string option"

type_synonym clients = "(string \<times> NodeClient) list"

definition new_client :: "Node \<Rightarrow> string \<Rightarrow> NodeClient" where
  "new_client n pin = \<lparr>nc_node = n, nc_pin = pin, nc_last = zero_time, nc_snapshot = empty_snapshot, nc_err = None\<rparr>"

fun enrol_nodes :: "fleet_host \<Rightarrow> string list \<Rightarrow> clients \<Rightarrow> Node list \<Rightarrow> string + clients" where
  "enrol_nodes h keys cs [] = Inr cs"
| "enrol_nodes h keys cs (n # ns) =
     (if \<not> PrivateKey (fh_lstat h) (nd_ClientKeyFile n) then Inl ''private key must be a private regular file''
      else case fh_Pair h (nd_ClientCertFile n) (nd_ClientKeyFile n) of
        None \<Rightarrow> Inl ''invalid fleet client credentials''
      | Some public \<Rightarrow>
          (let key = fh_sha h public
           in if key \<in> set keys then Inl ''each node requires a different client key''
              else case fh_Leaf h (nd_ServerCertFile n) of
                None \<Rightarrow> Inl ''expected leaf certificate''
              | Some raw \<Rightarrow>
                  if \<not> fh_Pool h (nd_CAFile n) then Inl ''invalid fleet CA''
                  else enrol_nodes h (key # keys) (al_put (nd_ID n) (new_client n (fh_sha h raw)) cs) ns))"

definition NewClients :: "fleet_host \<Rightarrow> FleetConfig \<Rightarrow> string + clients" where
  "NewClients h c =
     (case Fleet_Validate (fh_url h) (fh_addr h) c of
        Some e \<Rightarrow> Inl e
      | None \<Rightarrow> if \<not> fl_Enabled c then Inr [] else enrol_nodes h [] [] (fl_Servers c))"

text \<open>An answer over TLS: the number of verified chains and the certificates of the peer, the status and the body.\<close>

record node_reply =
  nr_Chains :: nat
  nr_Peers :: "string list"
  nr_Status :: int
  nr_Body :: "string option"

definition verify_connection :: "fleet_host \<Rightarrow> string \<Rightarrow> node_reply \<Rightarrow> bool" where
  "verify_connection h pin r =
     (nr_Chains r \<noteq> 0 \<and> (case nr_Peers r of [] \<Rightarrow> False | peer # ps \<Rightarrow> fh_sha h peer = pin))"

text \<open>
  \<open>Fetch\<close> at \<open>t0\<close>: the cached answer for thirty seconds, then a request. \<open>reply\<close> is its answer,
  \<open>None\<close> when none came (the server is down, or the context of the caller was cancelled); it is
  decoded at \<open>t1\<close> and the cache is stamped at \<open>t2\<close>.
\<close>

definition read_reply :: "fleet_host \<Rightarrow> NodeClient \<Rightarrow> node_reply option \<Rightarrow> time \<Rightarrow> string + Snapshot" where
  "read_reply h c reply t1 =
     (case reply of
        None \<Rightarrow> Inl ''request failed''
      | Some r \<Rightarrow>
          if \<not> verify_connection h (nc_pin c) r then Inl ''fleet server certificate not enrolled''
          else if nr_Status r \<noteq> 200 then Inl ''node unavailable''
          else Snapshot_Decode (fh_dec h) (nr_Body r) (nd_ID (nc_node c)) t1)"

definition cached_answer :: "NodeClient \<Rightarrow> string + Snapshot" where
  "cached_answer c = or_error (nc_err c) (nc_snapshot c)"

definition Fetch ::
  "fleet_host \<Rightarrow> node_reply option \<Rightarrow> time \<Rightarrow> time \<Rightarrow> time \<Rightarrow> NodeClient \<Rightarrow> (string + Snapshot) \<times> NodeClient" where
  "Fetch h reply t0 t1 t2 c =
     (if t0 - nc_last c < 30 * second then (cached_answer c, c)
      else
        let c' = (case read_reply h c reply t1 of
                    Inr s \<Rightarrow> c\<lparr>nc_snapshot := s, nc_err := None, nc_last := t2\<rparr>
                  | Inl e \<Rightarrow> c\<lparr>nc_snapshot := empty_snapshot, nc_err := Some ''current node state unavailable'', nc_last := t2\<rparr>)
        in (cached_answer c', c'))"

subsection \<open>The agent on the node\<close>

record agent_request =
  ag_TLS :: "(nat \<times> string list) option"
  ag_Path :: string
  ag_RawQuery :: string
  ag_Method :: string

datatype agent_answer = AgentError nat string | AgentBody string

text \<open>
  \<open>allowed\<close> are the digests of the enrolled client certificates, \<open>info\<close> and \<open>body\<close> the facts and
  the content of the exported file (\<open>None\<close> when it cannot be opened), \<open>enc\<close> the JSON encoder.
\<close>

definition agent_peer_ok :: "fleet_host \<Rightarrow> (string \<Rightarrow> bool) \<Rightarrow> agent_request \<Rightarrow> bool" where
  "agent_peer_ok h allowed r =
     (case ag_TLS r of None \<Rightarrow> False
      | Some (verified, peers) \<Rightarrow> verified \<noteq> 0 \<and> (case peers of [] \<Rightarrow> False | p # ps \<Rightarrow> allowed (fh_sha h p)))"

definition Agent ::
  "fleet_host \<Rightarrow> (Snapshot \<Rightarrow> string) \<Rightarrow> string \<Rightarrow> (string \<Rightarrow> bool) \<Rightarrow> file_facts option \<Rightarrow> string option \<Rightarrow> time
    \<Rightarrow> agent_request \<Rightarrow> agent_answer" where
  "Agent h enc node allowed info body now r =
     (if \<not> agent_peer_ok h allowed r then AgentError 401 ''unauthorized''
      else if ag_Path r \<noteq> ''/v1/snapshot'' \<or> ag_RawQuery r \<noteq> [] then AgentError 404 ''404 page not found''
      else if ag_Method r \<noteq> ''GET'' then AgentError 405 ''read only''
      else case info of
        None \<Rightarrow> AgentError 503 ''snapshot unavailable''
      | Some i \<Rightarrow>
          if \<not> ff_Regular i \<or> group_writable_or_public (ff_Perm i) \<or> MaxBytes < ff_Size i
          then AgentError 503 ''snapshot unavailable''
          else case body of
            None \<Rightarrow> AgentError 503 ''snapshot unavailable''
          | Some content \<Rightarrow>
              (case Snapshot_Decode (fh_dec h) (Some content) node now of
                 Inl e \<Rightarrow> AgentError 503 ''snapshot unavailable or stale''
               | Inr s \<Rightarrow> AgentBody (enc s)))"

end
