(* ===== verification/Node_Export.thy ===== *)
theory Node_Export
  imports Node_Snapshot Security_State Fleet_Registry
begin

text \<open>
  \<open>internal/fleetexport/export.go\<close>: the snapshot a server makes of its registry, of the state of its
  monitor and of its last security report, and the file it is written to. Nothing is probed: an
  observation that is missing, unreadable or too old is exported as \<open>unknown\<close>.

  The registry and the two state files are read by the operations of their components. A statement on
  the registry succeeds as \<open>ee_up\<close> says (statement 0 lists the projects, the others their newest
  backup in order); the file of the snapshot is replaced by the schedule of \<open>replace_file\<close>.
\<close>

record export_env =
  ee_up :: schedule
  ee_files :: files
  ee_mon_dec :: "string \<Rightarrow> MonitorState option"
  ee_mon_regular :: "string \<Rightarrow> bool"
  ee_mon_up :: schedule
  ee_sec_dec :: "string \<Rightarrow> State option"
  ee_sec_plain :: bool
  ee_sec_up :: schedule

subsection \<open>The projects\<close>

fun export_projects :: "schedule \<Rightarrow> nat \<Rightarrow> fleet_db \<Rightarrow> project_row list \<Rightarrow> db_error + NodeProject list" where
  "export_projects up k db [] = Inr []"
| "export_projects up k db (p # ps) =
     (case ListBackupRecords (up k) (pj_ID p) 1 db of
        Inl e \<Rightarrow> Inl e
      | Inr backups \<Rightarrow>
          (case export_projects up (Suc k) db ps of
             Inl e \<Rightarrow> Inl e
           | Inr items \<Rightarrow>
               Inr (\<lparr>np_Name = pj_Name p, np_RegistryStatus = pj_Status p,
                     np_LastBackup = (case backups of [] \<Rightarrow> None | b # bs \<Rightarrow> Some (bk_CreatedAt b))\<rparr> # items)))"

subsection \<open>The monitor\<close>

definition count_item :: "Checks \<Rightarrow> CheckSummary \<Rightarrow> Checks" where
  "count_item m item =
     (if su_Status item = ''healthy'' then m\<lparr>ch_Healthy := ch_Healthy m + 1\<rparr>
      else if su_Status item = ''unhealthy'' then m\<lparr>ch_Unhealthy := ch_Unhealthy m + 1\<rparr>
      else m\<lparr>ch_Unknown := ch_Unknown m + 1\<rparr>)"

definition summarize_checks :: "time \<Rightarrow> time \<Rightarrow> CheckSummary list \<Rightarrow> Checks" where
  "summarize_checks now updated items =
     (let m = foldl count_item (unknown_checks\<lparr>ch_Status := ''ok'', ch_CheckedAt := Some updated\<rparr>) items;
          m1 = (if 0 < ch_Unhealthy m then m\<lparr>ch_Status := ''attention''\<rparr> else m);
          m2 = (if 0 < ch_Unknown m1 \<and> ch_Unhealthy m1 = 0 then m1\<lparr>ch_Status := ''unknown''\<rparr> else m1)
      in if updated = zero_time \<or> now + 30 * second < updated \<or> MaxAge < now - updated
         then m2\<lparr>ch_Status := ''unknown''\<rparr> else m2)"

definition export_monitoring :: "export_env \<Rightarrow> string \<Rightarrow> time \<Rightarrow> Checks" where
  "export_monitoring env path now =
     (case LoadState (ee_mon_dec env) (ee_mon_regular env) (ee_mon_up env) path (ee_files env) of
        None \<Rightarrow> unknown_checks
      | Some st \<Rightarrow>
          if path = [] then unknown_checks
          else case Summarize st now of
            None \<Rightarrow> unknown_checks
          | Some items \<Rightarrow> if items = [] then unknown_checks else summarize_checks now (ms_UpdatedAt st) items)"

subsection \<open>The security report\<close>

text \<open>\<open>strings.ToUpper\<close>, with the rune outside ASCII (U+0131) whose upper case is a letter of a severity.\<close>

definition upper_char :: "char \<Rightarrow> char" where
  "upper_char c = (if is_lower c then char_of ((of_char c :: nat) - 32) else c)"

fun to_upper :: "string \<Rightarrow> string" where
  "to_upper (c1 # c2 # s) =
     (if c1 = CHR 0xC4 \<and> c2 = CHR 0xB1 then CHR ''I'' # to_upper s else upper_char c1 # to_upper (c2 # s))"
| "to_upper [c] = [upper_char c]"
| "to_upper [] = []"

definition attend :: "Security \<Rightarrow> Security" where
  "attend v = v\<lparr>sy_Status := ''attention''\<rparr>"

definition count_check :: "Security \<Rightarrow> Check \<Rightarrow> Security" where
  "count_check v c =
     (let v1 = (if ck_Status c = ''up_to_date'' \<or> ck_Status c = ''checked'' then v
                else if ck_Status c = ''update_available'' then attend v
                else v\<lparr>sy_Unknown := sy_Unknown v + 1\<rparr>)
      in if ck_RebootRequired c then attend v1 else v1)"

definition count_finding :: "Security \<Rightarrow> Finding \<Rightarrow> Security" where
  "count_finding v f =
     (if to_upper (fd_Severity f) = ''CRITICAL'' then v\<lparr>sy_Critical := sy_Critical v + 1\<rparr>
      else if to_upper (fd_Severity f) = ''HIGH'' then v\<lparr>sy_High := sy_High v + 1\<rparr>
      else attend v)"

definition count_image :: "Security \<Rightarrow> Image \<Rightarrow> Security" where
  "count_image v im =
     foldl count_finding (if im_Status im \<noteq> ''checked'' then v\<lparr>sy_Unknown := sy_Unknown v + 1\<rparr> else v) (im_Findings im)"

definition count_container :: "Security \<Rightarrow> Container \<Rightarrow> Security" where
  "count_container v c = v\<lparr>sy_RuntimeFindings := sy_RuntimeFindings v + int (length (ct_Findings c))\<rparr>"

definition judge :: "Security \<Rightarrow> Security" where
  "judge v =
     (let v1 = (if 0 < sy_Critical v + sy_High v + sy_RuntimeFindings v then attend v else v)
      in if 0 < sy_Unknown v1 \<and> sy_Status v1 \<noteq> ''attention'' then v1\<lparr>sy_Status := ''unknown''\<rparr> else v1)"

definition count_report :: "Report \<Rightarrow> Security \<Rightarrow> Security" where
  "count_report r v = foldl count_container
     (foldl count_image (foldl count_check v [rp_Host r, rp_Release r, rp_Inventory r]) (rp_Images r)) (rp_Containers r)"

definition recent_report :: "time \<Rightarrow> Report \<Rightarrow> bool" where
  "recent_report now r \<longleftrightarrow>
     rp_CheckedAt r \<noteq> zero_time \<and> \<not> now + 30 * second < rp_CheckedAt r \<and> now - rp_CheckedAt r \<le> 26 * hour"

text \<open>A state without a report holds the zero report, with the time zero.\<close>

definition summarize_report :: "time \<Rightarrow> Report option \<Rightarrow> Security" where
  "summarize_report now ro =
     (case ro of None \<Rightarrow> unknown_security
      | Some r \<Rightarrow>
          (let v = (if rp_CheckedAt r \<noteq> zero_time then unknown_security\<lparr>sy_CheckedAt := Some (rp_CheckedAt r)\<rparr>
                    else unknown_security)
           in if recent_report now r then judge (count_report r (v\<lparr>sy_Status := ''ok''\<rparr>)) else v))"

definition export_security :: "export_env \<Rightarrow> string \<Rightarrow> time \<Rightarrow> Security" where
  "export_security env path now =
     (case Load (ee_sec_dec env) (ee_sec_plain env) (ee_sec_up env) path (ee_files env) of
        Inl e \<Rightarrow> unknown_security
      | Inr st \<Rightarrow> if path = [] then unknown_security else summarize_report now (ss_Report st))"

subsection \<open>The snapshot\<close>

datatype export_error = ExportDb db_error | ExportInvalid string

definition Export ::
  "export_env \<Rightarrow> fleet_db \<Rightarrow> string \<Rightarrow> string \<Rightarrow> string \<Rightarrow> string \<Rightarrow> string \<Rightarrow> time \<Rightarrow> export_error + Snapshot" where
  "Export env db node version commit monitorPath securityPath now =
     (case ListProjects (ee_up env 0) db of
        Inl e \<Rightarrow> Inl (ExportDb e)
      | Inr projects \<Rightarrow>
          (case export_projects (ee_up env) 1 db projects of
             Inl e \<Rightarrow> Inl (ExportDb e)
           | Inr items \<Rightarrow>
               (let s = \<lparr>sn_Schema = 1, sn_NodeID = node, sn_GeneratedAt = now, sn_Version = version, sn_Commit = commit,
                         sn_Projects = items, sn_Monitoring = export_monitoring env monitorPath now,
                         sn_Security = export_security env securityPath now\<rparr>
                in case Snapshot_Validate node now s of None \<Rightarrow> Inr s | Some e \<Rightarrow> Inl (ExportInvalid e))))"

text \<open>
  \<open>WriteSnapshot\<close>: \<open>dir\<close> is what \<open>Lstat\<close> answers for the parent (its permissions when it is a
  directory), \<open>mode & 0022 != 0\<close> refuses a directory others may write.
\<close>

definition others_may_write :: "nat \<Rightarrow> bool" where "others_may_write perm \<longleftrightarrow> bit perm 4 \<or> bit perm 1"

definition WriteSnapshot ::
  "(Snapshot \<Rightarrow> string option) \<Rightarrow> nat option \<Rightarrow> time \<Rightarrow> nat \<Rightarrow> string \<Rightarrow> schedule \<Rightarrow> string \<Rightarrow> files \<Rightarrow> Snapshot \<Rightarrow> bool \<times> files" where
  "WriteSnapshot enc dir now short path up tmp fs s =
     (if Snapshot_Validate (sn_NodeID s) now s \<noteq> None then (False, fs)
      else case dir of
        None \<Rightarrow> (False, fs)
      | Some perm \<Rightarrow>
          if others_may_write perm then (False, fs)
          else case enc s of
            None \<Rightarrow> (False, fs)
          | Some data \<Rightarrow>
              if MaxBytes < length data then (False, fs)
              else replace_file up 0 [StepWrite short, StepChmod, StepSync, StepClose] tmp path data fs)"

lemma WriteSnapshot_laws:
  assumes "WriteSnapshot enc dir now short path up tmp fs s = (r, fs')"
  shows "tmp \<noteq> path \<Longrightarrow> r \<Longrightarrow> enc s \<noteq> None \<and> fs' path = enc s"
    and "tmp \<noteq> path \<Longrightarrow> \<not> r \<Longrightarrow> fs' path = fs path"
    and "p \<noteq> tmp \<Longrightarrow> p \<noteq> path \<Longrightarrow> fs' p = fs p"
    and "tmp \<noteq> path \<Longrightarrow> fs tmp = None \<Longrightarrow> up 9 \<Longrightarrow> fs' tmp = None"
proof -
  have step: "StepWrite short \<in> set [StepWrite short, StepChmod, StepSync, StepClose]" by simp
  show "tmp \<noteq> path \<Longrightarrow> r \<Longrightarrow> enc s \<noteq> None \<and> fs' path = enc s"
    using assms replace_file_written[OF _ step] unfolding WriteSnapshot_def by (auto split: option.splits if_splits)
  show "tmp \<noteq> path \<Longrightarrow> \<not> r \<Longrightarrow> fs' path = fs path"
    using assms replace_file_kept unfolding WriteSnapshot_def by (auto split: option.splits if_splits)
  show "p \<noteq> tmp \<Longrightarrow> p \<noteq> path \<Longrightarrow> fs' p = fs p"
    using assms replace_file_frame unfolding WriteSnapshot_def by (auto split: option.splits if_splits)
  show "tmp \<noteq> path \<Longrightarrow> fs tmp = None \<Longrightarrow> up 9 \<Longrightarrow> fs' tmp = None"
    using assms replace_file_no_temporary unfolding WriteSnapshot_def by (auto split: option.splits if_splits)
qed

interpretation snapshot_file: atomic_writer "WriteSnapshot enc dir now short path" path "\<lambda>s. the (enc s)"
  for enc dir now short path
  by unfold_locales (use WriteSnapshot_laws[of enc dir now short path] in \<open>fastforce+\<close>)

end
