(* ===== verification/Node_Overview.thy ===== *)
theory Node_Overview
  imports Node_Export Audit_Log
begin

text \<open>
  \<open>internal/server/fleet.go\<close>: the workstation's overview of the enrolled nodes. It runs only on a
  loopback address behind client certificates and OIDC (\<open>ValidateFleetMode\<close>), and its two routes show
  a user the nodes of the user's groups.

  The nodes of an overview are fetched in parallel; each has a client of its own, whose lock makes its
  requests one after the other, so the order between nodes does not matter and the model takes the
  order of the configuration. A call on the network gets its slot or not, its answer, and the readings
  of the clock as a \<open>fleet_call\<close>.
\<close>

subsection \<open>Where the overview may run\<close>

record listener_tls =
  lt_RequireClient :: bool
  lt_Verify :: bool

definition ValidateFleetMode ::
  "fleet_host \<Rightarrow> (string \<Rightarrow> bool option) \<Rightarrow> FleetConfig \<Rightarrow> OIDCConfig \<Rightarrow> string \<Rightarrow> listener_tls option \<Rightarrow> string option" where
  "ValidateFleetMode h ip c oidc addr tls =
     (if \<not> fl_Enabled c then None
      else case SplitHostPort addr of
        None \<Rightarrow> Some ''central fleet dashboard must bind a literal loopback address''
      | Some (bound, port) \<Rightarrow>
          if ip bound \<noteq> Some True then Some ''central fleet dashboard must bind a literal loopback address''
          else if (case tls of None \<Rightarrow> True | Some t \<Rightarrow> \<not> lt_RequireClient t \<or> \<not> lt_Verify t)
          then Some ''central fleet dashboard requires TLS and an allowed device certificate''
          else if \<not> oidc_Enabled oidc \<or> oidc_AuthenticationMethod oidc = ''mfa''
          then Some ''central fleet dashboard requires OIDC with password and WebAuthn''
          else case fh_url h (oidc_PublicURL oidc) of
            None \<Rightarrow> Some ''central fleet OIDC public_url must use HTTPS on localhost or loopback''
          | Some u \<Rightarrow>
              if url_Scheme u \<noteq> ''https''
                 \<or> (url_hostname (url_Host u) \<noteq> ''localhost'' \<and> ip (url_hostname (url_Host u)) \<noteq> Some True)
              then Some ''central fleet OIDC public_url must use HTTPS on localhost or loopback''
              else if port_or_443 (url_Host u) \<noteq> port
              then Some ''central fleet OIDC public_url must match the local listener port''
              else Fleet_Validate (fh_url h) (fh_addr h) c)"

text \<open>The part of \<open>Server.Start\<close> about the nodes.\<close>

definition start_fleet ::
  "fleet_host \<Rightarrow> (string \<Rightarrow> bool option) \<Rightarrow> FleetConfig \<Rightarrow> OIDCConfig \<Rightarrow> string \<Rightarrow> listener_tls option \<Rightarrow> string + clients" where
  "start_fleet h ip c oidc addr tls =
     (if \<not> fl_Enabled c then Inr []
      else case ValidateFleetMode h ip c oidc addr tls of
        Some e \<Rightarrow> Inl e
      | None \<Rightarrow> NewClients h c)"

subsection \<open>One node\<close>

record fleet_call =
  fc_slot :: bool
  fc_reply :: "node_reply option"
  fc_t0 :: time
  fc_t1 :: time
  fc_t2 :: time
  fc_t3 :: time

definition fetchFleet :: "fleet_host \<Rightarrow> string \<Rightarrow> fleet_call \<Rightarrow> clients \<Rightarrow> (string + Snapshot) \<times> clients" where
  "fetchFleet h node call cs =
     (if \<not> fc_slot call then (Inl ''context'', cs)
      else case map_of cs node of
        None \<Rightarrow> (Inl ''not configured'', cs)
      | Some c \<Rightarrow>
          (case Fetch h (fc_reply call) (fc_t0 call) (fc_t1 call) (fc_t2 call) c of
             (r, c') \<Rightarrow>
               (case r of Inl e \<Rightarrow> Inl e | Inr s \<Rightarrow> or_error (Snapshot_Validate node (fc_t3 call) s) s,
                al_put node c' cs)))"

subsection \<open>The routes\<close>

record fleetRow =
  fr_ID :: string
  fr_Label :: string
  fr_Group :: string
  fr_Status :: string
  fr_Details :: bool
  fr_ObservedAt :: "time option"
  fr_Version :: string
  fr_Projects :: nat
  fr_Monitoring :: "Checks option"
  fr_Security :: "Security option"

definition unknown_row :: "Node \<Rightarrow> string list \<Rightarrow> fleetRow" where
  "unknown_row n groups = \<lparr>fr_ID = nd_ID n, fr_Label = nd_Label n, fr_Group = nd_Group n, fr_Status = ''unknown'',
     fr_Details = CanDetail n groups, fr_ObservedAt = None, fr_Version = [], fr_Projects = 0,
     fr_Monitoring = None, fr_Security = None\<rparr>"

definition observed_row :: "Snapshot \<Rightarrow> fleetRow \<Rightarrow> fleetRow" where
  "observed_row s row = row\<lparr>fr_Status := ''observed'', fr_ObservedAt := Some (sn_GeneratedAt s), fr_Version := sn_Version s,
     fr_Projects := length (sn_Projects s), fr_Monitoring := Some (sn_Monitoring s), fr_Security := Some (sn_Security s)\<rparr>"

fun observe_nodes ::
  "fleet_host \<Rightarrow> (string \<Rightarrow> fleet_call) \<Rightarrow> string list \<Rightarrow> Node list \<Rightarrow> clients \<Rightarrow> fleetRow list \<times> clients" where
  "observe_nodes h calls groups [] cs = ([], cs)"
| "observe_nodes h calls groups (n # ns) cs =
     (case fetchFleet h (nd_ID n) (calls (nd_ID n)) cs of
        (r, cs1) \<Rightarrow>
          (case observe_nodes h calls groups ns cs1 of
             (rows, cs2) \<Rightarrow>
               ((case r of Inl e \<Rightarrow> unknown_row n groups | Inr s \<Rightarrow> observed_row s (unknown_row n groups)) # rows, cs2)))"

record fleet_env =
  fe_host :: fleet_host
  fe_auth :: auth_host
  fe_server :: auth_server
  fe_config :: FleetConfig
  fe_audit :: audit_host

record fleet_world =
  fw_auth :: auth_state
  fw_clients :: clients
  fw_audit :: audit_state

datatype fleet_answer =
    FleetError nat string
  | FleetLogin auth_answer
  | FleetRows "fleetRow list"
  | FleetSnapshot Snapshot

definition fleetIdentity :: "fleet_env \<Rightarrow> time \<Rightarrow> auth_request \<Rightarrow> auth_state \<Rightarrow> fleet_answer + sessionEntry" where
  "fleetIdentity env now r st =
     (let device = requestDevice (fe_auth env) r in
      if \<not> fl_Enabled (fe_config env) \<or> \<not> oidc_Enabled (as_OIDC (fe_server env)) \<or> device = []
      then Inl (FleetError 403 ''a device-bound OIDC session is required'')
      else case map_of (aq_Cookies r) (sessionCookieName (fe_server env)) of
        None \<Rightarrow> Inl (FleetError 401 ''sign in again'')
      | Some cookie \<Rightarrow>
          (case session_identity (ah_sha (fe_auth env)) now cookie device (au_sessions st) of
             None \<Rightarrow> Inl (FleetError 401 ''sign in again'')
           | Some identity \<Rightarrow> Inr identity))"

definition fleet_log :: "fleet_env \<Rightarrow> string \<Rightarrow> string \<Rightarrow> sessionEntry \<Rightarrow> bool \<Rightarrow> fleet_world \<Rightarrow> fleet_world" where
  "fleet_log env action node identity ok w =
     w\<lparr>fw_audit := Log (fe_audit env) action node (''actor='' @ ah_sha (fe_auth env) (se_subject identity)) ok (fw_audit w)\<rparr>"

definition handleFleet ::
  "fleet_env \<Rightarrow> (string \<Rightarrow> fleet_call) \<Rightarrow> time \<Rightarrow> auth_request \<Rightarrow> fleet_world \<Rightarrow> fleet_answer \<times> fleet_world" where
  "handleFleet env calls now r w =
     (case fleetIdentity env now r (fw_auth w) of
        Inl a \<Rightarrow> (a, w)
      | Inr identity \<Rightarrow>
          (let nodes = filter (\<lambda>n. CanView n (se_groups identity)) (fl_Servers (fe_config env)) in
           case observe_nodes (fe_host env) calls (se_groups identity) nodes (fw_clients w) of
             (rows, cs) \<Rightarrow> (FleetRows rows, fleet_log env ''fleet.overview'' [] identity True (w\<lparr>fw_clients := cs\<rparr>))))"

definition handleFleetDetail ::
  "fleet_env \<Rightarrow> (string \<Rightarrow> fleet_call) \<Rightarrow> time \<Rightarrow> auth_request \<Rightarrow> string \<Rightarrow> fleet_world \<Rightarrow> fleet_answer \<times> fleet_world" where
  "handleFleetDetail env calls now r node w =
     (case fleetIdentity env now r (fw_auth w) of
        Inl a \<Rightarrow> (a, w)
      | Inr identity \<Rightarrow>
          (case List.find (\<lambda>n. nd_ID n = node \<and> CanDetail n (se_groups identity)) (fl_Servers (fe_config env)) of
             Some n \<Rightarrow>
               (case fetchFleet (fe_host env) (nd_ID n) (calls (nd_ID n)) (fw_clients w) of
                  (res, cs) \<Rightarrow>
                    (let w1 = fleet_log env ''fleet.details'' (nd_ID n) identity (is_ok res) (w\<lparr>fw_clients := cs\<rparr>)
                     in case res of
                          Inl e \<Rightarrow> (FleetError 503 ''current node state unavailable'', w1)
                        | Inr s \<Rightarrow> (FleetSnapshot s, w1)))
           | None \<Rightarrow> (FleetError 404 ''server not found'', fleet_log env ''fleet.denied'' [] identity False w)))"

text \<open>The routes behind \<open>requireAuth\<close>, and the sign-in routes of the same server.\<close>

datatype fleet_route = FleetOverview | FleetDetail string | SignIn auth_op

record fleet_event =
  ev_now :: time
  ev_req :: auth_request
  ev_route :: fleet_route
  ev_calls :: "string \<Rightarrow> fleet_call"

definition fleet_step :: "fleet_env \<Rightarrow> fleet_event \<Rightarrow> fleet_world \<Rightarrow> fleet_answer \<times> fleet_world" where
  "fleet_step env ev w =
     (let op = (case ev_route ev of SignIn op \<Rightarrow> op | _ \<Rightarrow> ApiRoute) in
      case auth_step (fe_auth env) (fe_server env) \<lparr>ae_now = ev_now ev, ae_op = op, ae_req = ev_req ev\<rparr> (fw_auth w) of
        (a, cookies, st) \<Rightarrow>
          (let w1 = w\<lparr>fw_auth := st\<rparr> in
           case ev_route ev of
             SignIn _ \<Rightarrow> (FleetLogin a, w1)
           | FleetOverview \<Rightarrow>
               if a = NextHandler then handleFleet env (ev_calls ev) (ev_now ev) (ev_req ev) w1 else (FleetLogin a, w1)
           | FleetDetail node \<Rightarrow>
               if a = NextHandler then handleFleetDetail env (ev_calls ev) (ev_now ev) (ev_req ev) node w1
               else (FleetLogin a, w1)))"

fun fleet_run :: "fleet_env \<Rightarrow> fleet_event list \<Rightarrow> fleet_world \<Rightarrow> fleet_answer list \<times> fleet_world" where
  "fleet_run env [] w = ([], w)"
| "fleet_run env (ev # evs) w =
     (case fleet_step env ev w of (a, w1) \<Rightarrow> (case fleet_run env evs w1 of (rest, w2) \<Rightarrow> (a # rest, w2)))"

end
