(* ===== verification/Overview_Safety.thy ===== *)
theory Overview_Safety
  imports Node_Overview
begin

text \<open>
  What the overview of the nodes promises: an exported snapshot claims no more than the registry, the
  monitor and the security report hold; what a workstation reads of a node is what the node exported;
  an answer of a client is the outcome of a request at most thirty seconds old; and the dashboard shows
  a node to the users of its groups only, with data that are valid when they are shown.
\<close>

subsection \<open>Exported claims\<close>

definition clean_report :: "Report \<Rightarrow> bool" where
  "clean_report r \<longleftrightarrow>
     (\<forall>c \<in> set [rp_Host r, rp_Release r, rp_Inventory r].
        (ck_Status c = ''up_to_date'' \<or> ck_Status c = ''checked'') \<and> \<not> ck_RebootRequired c)
     \<and> (\<forall>im \<in> set (rp_Images r). im_Status im = ''checked'' \<and> im_Findings im = [])
     \<and> (\<forall>ct \<in> set (rp_Containers r). ct_Findings ct = [])"

text \<open>Counts are not negative and the status is one of the two a fresh report starts with.\<close>

definition counting :: "Security \<Rightarrow> bool" where
  "counting v \<longleftrightarrow> (sy_Status v = ''ok'' \<or> sy_Status v = ''attention'') \<and> 0 \<le> sy_Critical v \<and> 0 \<le> sy_High v
     \<and> 0 \<le> sy_RuntimeFindings v \<and> 0 \<le> sy_Unknown v"

definition calm :: "Security \<Rightarrow> bool" where
  "calm v \<longleftrightarrow> sy_Status v = ''ok'' \<and> sy_Critical v = 0 \<and> sy_High v = 0 \<and> sy_RuntimeFindings v = 0 \<and> sy_Unknown v = 0"

lemma foldl_calm:
  assumes "\<And>v x. counting v \<Longrightarrow> counting (f v x) \<and> (calm (f v x) \<longleftrightarrow> calm v \<and> good x)" "counting v"
  shows "counting (foldl f v xs) \<and> (calm (foldl f v xs) \<longleftrightarrow> calm v \<and> (\<forall>x \<in> set xs. good x))"
  using assms(2)
proof (induction xs arbitrary: v)
  case (Cons x xs)
  then show ?case using assms(1)[of v x] Cons.IH[of "f v x"] by auto
qed simp

lemma count_check_calm:
  "counting v \<Longrightarrow> counting (count_check v c) \<and> (calm (count_check v c) \<longleftrightarrow> calm v
     \<and> (ck_Status c = ''up_to_date'' \<or> ck_Status c = ''checked'') \<and> \<not> ck_RebootRequired c)"
  by (auto simp: counting_def calm_def count_check_def attend_def Let_def)

lemma count_finding_calm: "counting v \<Longrightarrow> counting (count_finding v f) \<and> (calm (count_finding v f) \<longleftrightarrow> calm v \<and> False)"
  by (auto simp: counting_def calm_def count_finding_def attend_def)

lemma count_image_calm:
  "counting v \<Longrightarrow> counting (count_image v im)
     \<and> (calm (count_image v im) \<longleftrightarrow> calm v \<and> im_Status im = ''checked'' \<and> im_Findings im = [])"
proof -
  let ?v = "if im_Status im \<noteq> ''checked'' then v\<lparr>sy_Unknown := sy_Unknown v + 1\<rparr> else v"
  assume v: "counting v"
  then have "counting ?v" "calm ?v \<longleftrightarrow> calm v \<and> im_Status im = ''checked''" by (auto simp: counting_def calm_def)
  moreover have "(\<forall>x \<in> set (im_Findings im). False) \<longleftrightarrow> im_Findings im = []" by (cases "im_Findings im") auto
  ultimately show ?thesis
    using foldl_calm[of count_finding "\<lambda>f. False" ?v "im_Findings im", OF count_finding_calm] unfolding count_image_def by blast
qed

lemma count_container_calm:
  "counting v \<Longrightarrow> counting (count_container v c) \<and> (calm (count_container v c) \<longleftrightarrow> calm v \<and> ct_Findings c = [])"
  by (cases "ct_Findings c") (auto simp: counting_def calm_def count_container_def)

lemma count_report_calm:
  assumes "counting v"
  shows "counting (count_report r v) \<and> (calm (count_report r v) \<longleftrightarrow> calm v \<and> clean_report r)"
proof -
  let ?checks = "foldl count_check v [rp_Host r, rp_Release r, rp_Inventory r]"
  note a = foldl_calm[of count_check, OF count_check_calm assms, of "[rp_Host r, rp_Release r, rp_Inventory r]"]
  note b = foldl_calm[of count_image, OF count_image_calm, of ?checks "rp_Images r"]
  note c = foldl_calm[of count_container, OF count_container_calm, of "foldl count_image ?checks (rp_Images r)" "rp_Containers r"]
  show ?thesis using a b c unfolding count_report_def clean_report_def by blast
qed

lemma judge_ok: "counting v \<Longrightarrow> sy_Status (judge v) = ''ok'' \<longleftrightarrow> calm v"
  by (auto simp: counting_def calm_def judge_def attend_def Let_def)

lemma summarize_report_ok:
  "sy_Status (summarize_report now ro) = ''ok'' \<longleftrightarrow> (\<exists>r. ro = Some r \<and> recent_report now r \<and> clean_report r)"
proof (cases ro)
  case (Some r)
  let ?v = "(if rp_CheckedAt r \<noteq> zero_time then unknown_security\<lparr>sy_CheckedAt := Some (rp_CheckedAt r)\<rparr>
    else unknown_security)\<lparr>sy_Status := ''ok''\<rparr>"
  have start: "counting ?v" "calm ?v" by (auto simp: counting_def calm_def unknown_security_def)
  note r = count_report_calm[OF start(1), of r]
  show ?thesis
    using start judge_ok[OF conjunct1[OF r]] r Some by (auto simp: summarize_report_def Let_def unknown_security_def)
qed (simp add: summarize_report_def unknown_security_def)

definition all_counted :: "Checks \<Rightarrow> bool" where
  "all_counted m \<longleftrightarrow> ch_Status m = ''ok'' \<and> 0 \<le> ch_Unhealthy m \<and> 0 \<le> ch_Unknown m"

lemma count_items_healthy:
  assumes "all_counted m"
  shows "all_counted (foldl count_item m items) \<and> (ch_Unhealthy (foldl count_item m items) = 0 \<and> ch_Unknown (foldl count_item m items) = 0
    \<longleftrightarrow> ch_Unhealthy m = 0 \<and> ch_Unknown m = 0 \<and> (\<forall>i \<in> set items. su_Status i = ''healthy''))"
  using assms
proof (induction items arbitrary: m)
  case (Cons i items)
  have "all_counted (count_item m i)" "ch_Unhealthy (count_item m i) = 0 \<and> ch_Unknown (count_item m i) = 0
      \<longleftrightarrow> ch_Unhealthy m = 0 \<and> ch_Unknown m = 0 \<and> su_Status i = ''healthy''"
    using Cons.prems by (auto simp: all_counted_def count_item_def)
  then show ?case using Cons.IH[of "count_item m i"] by auto
qed simp

definition recent_checks :: "time \<Rightarrow> time \<Rightarrow> bool" where
  "recent_checks now updated \<longleftrightarrow> updated \<noteq> zero_time \<and> \<not> now + 30 * second < updated \<and> now - updated \<le> MaxAge"

lemma summarize_checks_ok:
  "ch_Status (summarize_checks now updated items) = ''ok''
     \<longleftrightarrow> (\<forall>i \<in> set items. su_Status i = ''healthy'') \<and> recent_checks now updated"
proof -
  let ?m = "unknown_checks\<lparr>ch_Status := ''ok'', ch_CheckedAt := Some updated\<rparr>"
  have "all_counted ?m" "ch_Unhealthy ?m = 0" "ch_Unknown ?m = 0" by (simp_all add: all_counted_def unknown_checks_def)
  with count_items_healthy[of ?m items] show ?thesis
    by (auto simp: summarize_checks_def Let_def all_counted_def recent_checks_def)
qed

lemma export_monitoring_ok:
  "ch_Status (export_monitoring env path now) = ''ok'' \<longleftrightarrow>
     (\<exists>st items. LoadState (ee_mon_dec env) (ee_mon_regular env) (ee_mon_up env) path (ee_files env) = Some st
        \<and> path \<noteq> [] \<and> Summarize st now = Some items \<and> items \<noteq> [] \<and> (\<forall>i \<in> set items. su_Status i = ''healthy'')
        \<and> recent_checks now (ms_UpdatedAt st))"
  by (auto simp: export_monitoring_def summarize_checks_ok unknown_checks_def split: option.splits if_splits)

lemma export_security_ok:
  "sy_Status (export_security env path now) = ''ok'' \<longleftrightarrow>
     (\<exists>st r. Load (ee_sec_dec env) (ee_sec_plain env) (ee_sec_up env) path (ee_files env) = Inr st
        \<and> path \<noteq> [] \<and> ss_Report st = Some r \<and> recent_report now r \<and> clean_report r)"
  by (auto simp: export_security_def summarize_report_ok unknown_security_def split: sum.splits if_splits)

text \<open>The time of the newest backup of a project.\<close>

definition newest_backup :: "fleet_db \<Rightarrow> string \<Rightarrow> time option" where
  "newest_backup db pid =
     (let times = map bk_CreatedAt (filter (\<lambda>b. bk_ProjectID b = pid) (db_backups db))
      in if times = [] then None else Some (Max (set times)))"

lemma sort_key_newest:
  assumes "xs \<noteq> []"
  shows "f (hd (sort_key (\<lambda>x. - f x) xs)) = (Max (f ` set xs) :: int)"
proof -
  let ?s = "sort_key (\<lambda>x. - f x) xs"
  obtain y ys where s: "?s = y # ys" using assms by (cases ?s) (auto dest: arg_cong[of _ _ set])
  have sorted: "sorted (map (\<lambda>x. - f x) ?s)" by simp
  have eq: "set xs = set ?s" by simp
  have "f y \<in> f ` set xs" "\<forall>x \<in> set xs. f x \<le> f y" unfolding eq using sorted unfolding s by auto
  then have "Max (f ` set xs) = f y" by (intro Max_eqI) auto
  then show ?thesis unfolding s by simp
qed

lemma newest_listed_backup:
  assumes "ListBackupRecords up pid 1 db = Inr backups"
  shows "(case backups of [] \<Rightarrow> None | b # bs \<Rightarrow> Some (bk_CreatedAt b)) = newest_backup db pid"
proof -
  let ?mine = "filter (\<lambda>b. bk_ProjectID b = pid) (db_backups db)"
  let ?s = "sort_key (\<lambda>b. - bk_CreatedAt b) ?mine"
  have b: "backups = take 1 ?s" using assms by (simp add: ListBackupRecords_def split: if_splits)
  show ?thesis
  proof (cases "?mine = []")
    case False
    then obtain y ys where s: "?s = y # ys" by (cases ?s) (auto dest: arg_cong[of _ _ set])
    with sort_key_newest[OF False, of bk_CreatedAt] have "bk_CreatedAt y = Max (bk_CreatedAt ` set ?mine)" by simp
    moreover have "backups = [y]" unfolding b s by simp
    ultimately show ?thesis using False unfolding newest_backup_def Let_def set_map by simp
  qed (simp add: b newest_backup_def)
qed

lemma export_projects_items:
  assumes "export_projects up k db ps = Inr items"
  shows "items = map (\<lambda>p. \<lparr>np_Name = pj_Name p, np_RegistryStatus = pj_Status p, np_LastBackup = newest_backup db (pj_ID p)\<rparr>) ps"
  using assms by (induction up k db ps arbitrary: items rule: export_projects.induct)
    (auto split: sum.splits dest: newest_listed_backup)

lemma projects_bad_names: "\<not> projects_bad now seen ps \<Longrightarrow> p \<in> set ps \<Longrightarrow> ValidID (np_Name p)"
  by (induction now seen ps rule: projects_bad.induct) (auto simp: project_bad_def)

text \<open>
  C26. An exported snapshot claims what its node knows: it lists the registry's projects, newest first, with
  their status and the time of their newest backup, and exists only when all of them have names of the
  protocol; it says \<open>ok\<close> about the monitor exactly when the
  monitor's state of at most three minutes ago has every target healthy; and about security exactly when
  there is a report of at most 26 hours ago in which every check is done and none is outstanding, no
  restart is due, every image was scanned without a finding and no container has one.
\<close>

theorem export_claims:
  assumes "Export env db node version commit monitorPath securityPath now = Inr s"
  shows "Snapshot_Validate node now s = None \<and> sn_NodeID s = node \<and> sn_GeneratedAt s = now
    \<and> sn_Projects s = map (\<lambda>p. \<lparr>np_Name = pj_Name p, np_RegistryStatus = pj_Status p, np_LastBackup = newest_backup db (pj_ID p)\<rparr>)
        (sort_key (\<lambda>p. - pj_CreatedAt p) (db_projects db))
    \<and> (\<forall>p \<in> set (db_projects db). ValidID (pj_Name p))
    \<and> (ch_Status (sn_Monitoring s) = ''ok'' \<longleftrightarrow>
        (\<exists>st items. LoadState (ee_mon_dec env) (ee_mon_regular env) (ee_mon_up env) monitorPath (ee_files env) = Some st
          \<and> monitorPath \<noteq> [] \<and> Summarize st now = Some items \<and> items \<noteq> [] \<and> (\<forall>i \<in> set items. su_Status i = ''healthy'')
          \<and> recent_checks now (ms_UpdatedAt st)))
    \<and> (sy_Status (sn_Security s) = ''ok'' \<longleftrightarrow>
        (\<exists>st r. Load (ee_sec_dec env) (ee_sec_plain env) (ee_sec_up env) securityPath (ee_files env) = Inr st
          \<and> securityPath \<noteq> [] \<and> ss_Report st = Some r \<and> recent_report now r \<and> clean_report r))"
proof -
  have parts: "export_projects (ee_up env) 1 db (sort_key (\<lambda>p. - pj_CreatedAt p) (db_projects db)) = Inr (sn_Projects s)"
      "Snapshot_Validate node now s = None" "sn_NodeID s = node" "sn_GeneratedAt s = now"
      "sn_Monitoring s = export_monitoring env monitorPath now" "sn_Security s = export_security env securityPath now"
    using assms by (auto simp: Export_def ListProjects_def Let_def split: sum.splits option.splits if_splits)
  have "\<not> projects_bad now [] (sn_Projects s)"
    using parts(2)[unfolded Snapshot_Validate_def first_error_None] by simp
  then have "\<forall>p \<in> set (sn_Projects s). ValidID (np_Name p)" using projects_bad_names by blast
  then have "\<forall>p \<in> set (db_projects db). ValidID (pj_Name p)" unfolding export_projects_items[OF parts(1)] by simp
  then show ?thesis
    using export_projects_items[OF parts(1)] parts(2-4) export_monitoring_ok[of env monitorPath now]
      export_security_ok[of env securityPath now] unfolding parts(5,6) by blast
qed

subsection \<open>From the node to the workstation\<close>

lemma foldl_checked_at:
  assumes "\<And>v x. sy_CheckedAt (f v x) = sy_CheckedAt v"
  shows "sy_CheckedAt (foldl f v xs) = sy_CheckedAt v"
  using assms by (induction xs arbitrary: v) simp_all

lemma count_report_checked_at: "sy_CheckedAt (count_report r v) = sy_CheckedAt v"
proof -
  have check: "sy_CheckedAt (count_check v c) = sy_CheckedAt v" for v c by (simp add: count_check_def attend_def Let_def)
  have find: "sy_CheckedAt (count_finding v f) = sy_CheckedAt v" for v f by (simp add: count_finding_def attend_def)
  have image: "sy_CheckedAt (count_image v im) = sy_CheckedAt v" for v im
    unfolding count_image_def foldl_checked_at[of count_finding, OF find] by simp
  have cont: "sy_CheckedAt (count_container v c) = sy_CheckedAt v" for v c by (simp add: count_container_def)
  show ?thesis
    unfolding count_report_def foldl_checked_at[of count_container, OF cont] foldl_checked_at[of count_image, OF image]
      foldl_checked_at[of count_check, OF check] ..
qed

lemma summarize_report_checked_at:
  assumes "recent_report now r"
  shows "sy_CheckedAt (summarize_report now (Some r)) = Some (rp_CheckedAt r)"
proof -
  have keep: "sy_CheckedAt (judge v) = sy_CheckedAt v" for v by (simp add: judge_def attend_def Let_def)
  show ?thesis using assms
    by (simp add: summarize_report_def recent_report_def keep count_report_checked_at Let_def)
qed

lemma summarize_checks_checked_at: "ch_CheckedAt (summarize_checks now updated items) = Some updated"
proof -
  have "ch_CheckedAt (foldl count_item m items) = ch_CheckedAt m" for m
    by (induction items arbitrary: m) (simp_all add: count_item_def)
  then show ?thesis by (simp add: summarize_checks_def Let_def)
qed

lemma valid_observations:
  assumes "Snapshot_Validate node now s = None"
  shows "sn_NodeID s = node" "now - sn_GeneratedAt s \<le> MaxAge"
    and "ch_Status (sn_Monitoring s) = ''ok'' \<Longrightarrow> \<exists>t. ch_CheckedAt (sn_Monitoring s) = Some t \<and> now - t \<le> MaxAge"
    and "sy_Status (sn_Security s) = ''ok'' \<Longrightarrow> \<exists>t. sy_CheckedAt (sn_Security s) = Some t \<and> now - t \<le> 26 * hour"
proof -
  note all = assms[unfolded Snapshot_Validate_def first_error_None]
  show "sn_NodeID s = node" "now - sn_GeneratedAt s \<le> MaxAge" using all by simp_all
  show "\<exists>t. ch_CheckedAt (sn_Monitoring s) = Some t \<and> now - t \<le> MaxAge" if x: "ch_Status (sn_Monitoring s) = ''ok''"
    using all x by (auto simp: stale_claim_def split: option.splits)
  show "\<exists>t. sy_CheckedAt (sn_Security s) = Some t \<and> now - t \<le> 26 * hour" if x: "sy_Status (sn_Security s) = ''ok''"
    using all x by (auto simp: stale_claim_def split: option.splits)
qed

lemma Decode_published:
  assumes "fh_dec h data = Some s"
  shows "Snapshot_Decode (fh_dec h) (Some data) node now =
    (if MaxBytes < length data then Inl ''snapshot exceeds limits'' else or_error (Snapshot_Validate node now s) s)"
  using assms by (auto simp: Snapshot_Decode_def Let_def)

text \<open>
  C25. What the workstation reads of a node is what the node exported, or nothing: the snapshot is written to
  its file, served by the agent and decoded by the client unchanged, and the client accepts it exactly when
  it comes over the pinned connection with status 200, is small enough and is still valid for this node. So a
  node that the workstation calls \<open>ok\<close> had a clean report of at most 26 hours and a healthy monitor of at
  most three minutes before. The JSON encoder and decoder are exact on this snapshot.
\<close>

theorem snapshot_travels:
  assumes "Export env db node version commit monitorPath securityPath now = Inr s"
    and "WriteSnapshot encf dir tw short path up tmp fs s = (True, fs')" "tmp \<noteq> path"
    and "\<forall>data. encf s = Some data \<longrightarrow> fh_dec ha data = Some s" "fh_dec hc (enc s) = Some s"
    and "Agent ha enc node allowed info (fs' path) ta request = AgentBody b" "nr_Body r = Some b"
  shows "read_reply hc c (Some r) t =
      (if \<not> verify_connection hc (nc_pin c) r then Inl ''fleet server certificate not enrolled''
       else if nr_Status r \<noteq> 200 then Inl ''node unavailable''
       else if MaxBytes < length b then Inl ''snapshot exceeds limits''
       else or_error (Snapshot_Validate (nd_ID (nc_node c)) t s) s)
    \<and> (\<forall>s'. read_reply hc c (Some r) t = Inr s' \<longrightarrow>
        s' = s \<and> nd_ID (nc_node c) = node \<and> t - now \<le> MaxAge
        \<and> (ch_Status (sn_Monitoring s') = ''ok'' \<longrightarrow>
            (\<exists>st items. LoadState (ee_mon_dec env) (ee_mon_regular env) (ee_mon_up env) monitorPath (ee_files env) = Some st
              \<and> Summarize st now = Some items \<and> items \<noteq> [] \<and> (\<forall>i \<in> set items. su_Status i = ''healthy'')
              \<and> t - ms_UpdatedAt st \<le> MaxAge))
        \<and> (sy_Status (sn_Security s') = ''ok'' \<longrightarrow>
            (\<exists>st rep. Load (ee_sec_dec env) (ee_sec_plain env) (ee_sec_up env) securityPath (ee_files env) = Inr st
              \<and> ss_Report st = Some rep \<and> clean_report rep \<and> t - rp_CheckedAt rep \<le> 26 * hour)))"
proof -
  have parts: "sn_NodeID s = node" "sn_GeneratedAt s = now" "sn_Monitoring s = export_monitoring env monitorPath now"
      "sn_Security s = export_security env securityPath now"
    using assms(1) by (auto simp: Export_def Let_def split: sum.splits option.splits)
  obtain data where data: "encf s = Some data" "fs' path = Some data"
    using WriteSnapshot_laws(1)[OF assms(2)] assms(3) by (metis option.exhaust)
  have "fh_dec ha data = Some s" using assms(4) data(1) by blast
  from Decode_published[OF this, of node ta] have b: "b = enc s"
    using assms(6) data(2) by (auto simp: Agent_def or_error_def split: if_splits option.splits sum.splits)
  have read: "read_reply hc c (Some r) t =
      (if \<not> verify_connection hc (nc_pin c) r then Inl ''fleet server certificate not enrolled''
       else if nr_Status r \<noteq> 200 then Inl ''node unavailable''
       else if MaxBytes < length b then Inl ''snapshot exceeds limits''
       else or_error (Snapshot_Validate (nd_ID (nc_node c)) t s) s)"
    unfolding read_reply_def assms(7) Decode_published[OF assms(5)[folded b]] option.case ..
  have accepted: "s' = s \<and> Snapshot_Validate (nd_ID (nc_node c)) t s = None" if x: "read_reply hc c (Some r) t = Inr s'" for s'
    using x unfolding read by (simp split: if_splits)
  have monitor: "\<exists>st items. LoadState (ee_mon_dec env) (ee_mon_regular env) (ee_mon_up env) monitorPath (ee_files env) = Some st
              \<and> Summarize st now = Some items \<and> items \<noteq> [] \<and> (\<forall>i \<in> set items. su_Status i = ''healthy'')
              \<and> t - ms_UpdatedAt st \<le> MaxAge"
    if v: "Snapshot_Validate (nd_ID (nc_node c)) t s = None" and ok: "ch_Status (sn_Monitoring s) = ''ok''"
  proof -
    obtain st items where st: "LoadState (ee_mon_dec env) (ee_mon_regular env) (ee_mon_up env) monitorPath (ee_files env) = Some st"
        "monitorPath \<noteq> []" "Summarize st now = Some items" "items \<noteq> []" "\<forall>i \<in> set items. su_Status i = ''healthy''"
      using ok[unfolded parts(3) export_monitoring_ok] by blast
    have "ch_CheckedAt (sn_Monitoring s) = Some (ms_UpdatedAt st)"
      unfolding parts(3) export_monitoring_def using st by (simp add: summarize_checks_checked_at)
    with valid_observations(3)[OF v ok] st show ?thesis by auto
  qed
  have security: "\<exists>st rep. Load (ee_sec_dec env) (ee_sec_plain env) (ee_sec_up env) securityPath (ee_files env) = Inr st
              \<and> ss_Report st = Some rep \<and> clean_report rep \<and> t - rp_CheckedAt rep \<le> 26 * hour"
    if v: "Snapshot_Validate (nd_ID (nc_node c)) t s = None" and ok: "sy_Status (sn_Security s) = ''ok''"
  proof -
    obtain st rep where st: "Load (ee_sec_dec env) (ee_sec_plain env) (ee_sec_up env) securityPath (ee_files env) = Inr st"
        "securityPath \<noteq> []" "ss_Report st = Some rep" "recent_report now rep" "clean_report rep"
      using ok[unfolded parts(4) export_security_ok] by blast
    have "sy_CheckedAt (sn_Security s) = Some (rp_CheckedAt rep)"
      unfolding parts(4) export_security_def using st by (simp add: summarize_report_checked_at)
    with valid_observations(4)[OF v ok] st show ?thesis by auto
  qed
  show ?thesis
    unfolding read[symmetric] using accepted monitor security valid_observations(1,2) parts(1,2) by (metis (no_types, lifting))
qed

subsection \<open>The cache of a client\<close>

definition fetch_answer :: "fleet_host \<Rightarrow> NodeClient \<Rightarrow> fleet_call \<Rightarrow> string + Snapshot" where
  "fetch_answer h c call =
     (case read_reply h c (fc_reply call) (fc_t1 call) of Inl e \<Rightarrow> Inl ''current node state unavailable'' | Inr s \<Rightarrow> Inr s)"

definition fetch_at :: "fleet_host \<Rightarrow> fleet_call \<Rightarrow> NodeClient \<Rightarrow> (string + Snapshot) \<times> NodeClient" where
  "fetch_at h call c = Fetch h (fc_reply call) (fc_t0 call) (fc_t1 call) (fc_t2 call) c"

fun fetch_run :: "fleet_host \<Rightarrow> fleet_call list \<Rightarrow> NodeClient \<Rightarrow> (string + Snapshot) list" where
  "fetch_run h [] c = []"
| "fetch_run h (call # calls) c = (case fetch_at h call c of (a, c') \<Rightarrow> a # fetch_run h calls c')"

lemma Fetch_same_node:
  assumes "Fetch h reply t0 t1 t2 c = (a, c')"
  shows "nc_node c' = nc_node c" "nc_pin c' = nc_pin c"
  using assms by (cases "read_reply h c reply t1"; cases "t0 - nc_last c < 30 * second"; force simp: Fetch_def Let_def)+

lemma fetch_at_cases:
  assumes "fetch_at h call c = (a, c')"
  obtains "fc_t0 call - nc_last c < 30 * second" "a = cached_answer c" "c' = c"
  | "\<not> fc_t0 call - nc_last c < 30 * second" "a = fetch_answer h c call" "cached_answer c' = a" "nc_last c' = fc_t2 call"
      "nc_node c' = nc_node c" "nc_pin c' = nc_pin c"
proof (cases "fc_t0 call - nc_last c < 30 * second")
  case True
  then have "(a, c') = (cached_answer c, c)" using assms by (simp only: fetch_at_def Fetch_def if_True)
  then show ?thesis using True that(1) by blast
next
  case False
  let ?c = "case read_reply h c (fc_reply call) (fc_t1 call) of
      Inr s \<Rightarrow> c\<lparr>nc_snapshot := s, nc_err := None, nc_last := fc_t2 call\<rparr>
    | Inl e \<Rightarrow> c\<lparr>nc_snapshot := empty_snapshot, nc_err := Some ''current node state unavailable'', nc_last := fc_t2 call\<rparr>"
  have ac: "(a, c') = (cached_answer ?c, ?c)" using assms False by (simp only: fetch_at_def Fetch_def if_False Let_def)
  have "cached_answer ?c = fetch_answer h c call" "nc_last ?c = fc_t2 call" "nc_node ?c = nc_node c" "nc_pin ?c = nc_pin c"
    by (cases "read_reply h c (fc_reply call) (fc_t1 call)"; simp add: cached_answer_def fetch_answer_def or_error_def)+
  with ac show ?thesis using False that(2) by blast
qed

lemma fetch_answer_same:
  assumes "nc_node c' = nc_node c" "nc_pin c' = nc_pin c"
  shows "fetch_answer h c' call = fetch_answer h c call"
  unfolding fetch_answer_def read_reply_def assms ..

text \<open>A client that holds the outcome of the call \<open>last\<close>.\<close>

lemma fetch_run_held:
  assumes "cached_answer c = fetch_answer h c0 lst" "nc_last c = fc_t2 lst" "nc_node c = nc_node c0" "nc_pin c = nc_pin c0"
    and "k < length calls"
  shows "(\<exists>j \<le> k. fetch_run h calls c ! k = fetch_answer h c0 (calls ! j)
      \<and> (j = k \<or> fc_t0 (calls ! k) - fc_t2 (calls ! j) < 30 * second))
    \<or> fetch_run h calls c ! k = fetch_answer h c0 lst \<and> fc_t0 (calls ! k) - fc_t2 lst < 30 * second"
  using assms
proof (induction calls arbitrary: c lst k)
  case (Cons call calls)
  obtain a c' where f: "fetch_at h call c = (a, c')" by (metis prod.exhaust)
  show ?case
  proof (cases k)
    case 0
    from f show ?thesis
      using Cons.prems fetch_answer_same[of c c0 h call] 0 by (cases rule: fetch_at_cases) (auto simp: f)
  next
    case (Suc i)
    have i: "i < length calls" using Cons.prems(5) Suc by simp
    have run: "fetch_run h (call # calls) c ! k = fetch_run h calls c' ! i" using f Suc by simp
    have shift: "\<exists>j \<le> k. fetch_run h (call # calls) c ! k = fetch_answer h c0 ((call # calls) ! j)
        \<and> (j = k \<or> fc_t0 ((call # calls) ! k) - fc_t2 ((call # calls) ! j) < 30 * second)"
      if j: "\<exists>j \<le> i. fetch_run h calls c' ! i = fetch_answer h c0 (calls ! j)
        \<and> (j = i \<or> fc_t0 (calls ! i) - fc_t2 (calls ! j) < 30 * second)"
    proof -
      from j obtain j where "j \<le> i" "fetch_run h calls c' ! i = fetch_answer h c0 (calls ! j)"
        "j = i \<or> fc_t0 (calls ! i) - fc_t2 (calls ! j) < 30 * second" by blast
      then show ?thesis unfolding run using Suc by (intro exI[of _ "Suc j"]) auto
    qed
    from f show ?thesis
    proof (cases rule: fetch_at_cases)
      case 1
      with Cons.IH[OF Cons.prems(1-4) i] shift run Suc show ?thesis by auto
    next
      case 2
      have held: "cached_answer c' = fetch_answer h c0 call" "nc_last c' = fc_t2 call" "nc_node c' = nc_node c0" "nc_pin c' = nc_pin c0"
        using 2 Cons.prems fetch_answer_same[of c c0 h call] by auto
      from Cons.IH[OF held i] show ?thesis
      proof
        assume "fetch_run h calls c' ! i = fetch_answer h c0 call \<and> fc_t0 (calls ! i) - fc_t2 call < 30 * second"
        then show ?thesis unfolding run using Suc by (intro disjI1 exI[of _ 0]) auto
      qed (use shift in blast)
    qed
  qed
qed simp

text \<open>
  C27. Whatever a client answers, data or failure, is the outcome of a request to the node itself: of the
  one this call made, or of one whose answer was stored less than thirty seconds before; a failure replaces
  the data of earlier requests.
\<close>

theorem fetch_answers_recent:
  assumes "k < length calls" "zero_time + 30 * second \<le> fc_t0 (calls ! 0)"
  shows "\<exists>j \<le> k. fetch_run h calls (new_client n pin) ! k = fetch_answer h (new_client n pin) (calls ! j)
    \<and> (j = k \<or> fc_t0 (calls ! k) - fc_t2 (calls ! j) < 30 * second)"
proof -
  obtain call rest where calls: "calls = call # rest" using assms(1) by (cases calls) auto
  let ?c = "new_client n pin"
  obtain a c' where f: "fetch_at h call ?c = (a, c')" by (metis prod.exhaust)
  from f have made: "a = fetch_answer h ?c call" "cached_answer c' = a" "nc_last c' = fc_t2 call"
    "nc_node c' = nc_node ?c" "nc_pin c' = nc_pin ?c"
    using assms(2) by (cases rule: fetch_at_cases; simp add: calls new_client_def)+
  show ?thesis
  proof (cases k)
    case 0
    then show ?thesis using made f by (auto simp: calls)
  next
    case (Suc i)
    with assms(1) have i: "i < length rest" by (simp add: calls)
    have run: "fetch_run h calls ?c ! k = fetch_run h rest c' ! i" using f Suc by (simp add: calls)
    from fetch_run_held[OF _ made(3-5) i, of h] made have
      "(\<exists>j \<le> i. fetch_run h rest c' ! i = fetch_answer h ?c (rest ! j)
          \<and> (j = i \<or> fc_t0 (rest ! i) - fc_t2 (rest ! j) < 30 * second))
       \<or> fetch_run h rest c' ! i = fetch_answer h ?c call \<and> fc_t0 (rest ! i) - fc_t2 call < 30 * second" by simp
    then show ?thesis
    proof
      assume "\<exists>j \<le> i. fetch_run h rest c' ! i = fetch_answer h ?c (rest ! j)
          \<and> (j = i \<or> fc_t0 (rest ! i) - fc_t2 (rest ! j) < 30 * second)"
      then obtain j where "j \<le> i" "fetch_run h rest c' ! i = fetch_answer h ?c (rest ! j)"
        "j = i \<or> fc_t0 (rest ! i) - fc_t2 (rest ! j) < 30 * second" by blast
      then show ?thesis unfolding run using Suc by (intro exI[of _ "Suc j"]) (auto simp: calls)
    next
      assume "fetch_run h rest c' ! i = fetch_answer h ?c call \<and> fc_t0 (rest ! i) - fc_t2 call < 30 * second"
      then show ?thesis unfolding run using Suc by (intro exI[of _ 0]) (auto simp: calls)
    qed
  qed
qed

subsection \<open>The overview\<close>

text \<open>
  The node \<open>n\<close> published \<open>s\<close>: one of the calls brought it, with status 200, over a connection whose
  verified peer has the certificate the configuration pins for the node.
\<close>

definition pinned_reply :: "fleet_host \<Rightarrow> Node \<Rightarrow> node_reply \<Rightarrow> bool" where
  "pinned_reply h n r \<longleftrightarrow> nr_Chains r \<noteq> 0
     \<and> (\<exists>raw peer ps. fh_Leaf h (nd_ServerCertFile n) = Some raw \<and> nr_Peers r = peer # ps \<and> fh_sha h peer = fh_sha h raw)"

definition published :: "fleet_host \<Rightarrow> fleet_event list \<Rightarrow> Node \<Rightarrow> Snapshot \<Rightarrow> bool" where
  "published h evs n s \<longleftrightarrow>
     (\<exists>e \<in> set evs. \<exists>r body. fc_reply (ev_calls e (nd_ID n)) = Some r \<and> pinned_reply h n r \<and> nr_Status r = 200
        \<and> nr_Body r = Some body \<and> fh_dec h (take (Suc MaxBytes) body) = Some s)"

text \<open>The clients are those of the enrolled nodes, and hold nothing or what their node published.\<close>

definition client_of :: "fleet_host \<Rightarrow> Node list \<Rightarrow> string \<Rightarrow> NodeClient \<Rightarrow> bool" where
  "client_of h ns i c \<longleftrightarrow> nc_node c \<in> set ns \<and> nd_ID (nc_node c) = i
     \<and> (\<exists>raw. fh_Leaf h (nd_ServerCertFile (nc_node c)) = Some raw \<and> nc_pin c = fh_sha h raw)"

definition holds_published :: "fleet_host \<Rightarrow> fleet_event list \<Rightarrow> NodeClient \<Rightarrow> bool" where
  "holds_published h evs c \<longleftrightarrow> (\<forall>s. cached_answer c = Inr s \<longrightarrow> s = empty_snapshot \<or> published h evs (nc_node c) s)"

definition clients_ok :: "fleet_host \<Rightarrow> Node list \<Rightarrow> fleet_event list \<Rightarrow> clients \<Rightarrow> bool" where
  "clients_ok h ns evs cs \<longleftrightarrow> (\<forall>i c. map_of cs i = Some c \<longrightarrow> client_of h ns i c \<and> holds_published h evs c)"

lemma published_mono: "published h evs n s \<Longrightarrow> set evs \<subseteq> set evs' \<Longrightarrow> published h evs' n s"
  unfolding published_def by blast

lemma clients_ok_mono: "clients_ok h ns evs cs \<Longrightarrow> set evs \<subseteq> set evs' \<Longrightarrow> clients_ok h ns evs' cs"
  unfolding clients_ok_def holds_published_def using published_mono by blast

lemma clients_ok_put:
  "clients_ok h ns evs cs \<Longrightarrow> client_of h ns i c \<Longrightarrow> holds_published h evs c \<Longrightarrow> clients_ok h ns evs (al_put i c cs)"
  by (simp add: clients_ok_def map_of_put)

lemma enrolled_clients:
  assumes "enrol_nodes h keys cs ns = Inr cs'" "clients_ok h all evs cs" "set ns \<subseteq> set all"
  shows "clients_ok h all evs cs'"
  using assms
proof (induction h keys cs ns rule: enrol_nodes.induct)
  case (2 h keys cs n ns)
  from "2.prems"(1) obtain public raw where key: "PrivateKey (fh_lstat h) (nd_ClientKeyFile n)"
      "fh_Pair h (nd_ClientCertFile n) (nd_ClientKeyFile n) = Some public" "fh_sha h public \<notin> set keys"
      "fh_Leaf h (nd_ServerCertFile n) = Some raw" "fh_Pool h (nd_CAFile n)"
      "enrol_nodes h (fh_sha h public # keys) (al_put (nd_ID n) (new_client n (fh_sha h raw)) cs) ns = Inr cs'"
    by (auto simp: Let_def split: if_splits option.splits)
  have "clients_ok h all evs (al_put (nd_ID n) (new_client n (fh_sha h raw)) cs)"
    using "2.prems"(2,3) key(4)
    by (intro clients_ok_put) (auto simp: client_of_def new_client_def holds_published_def cached_answer_def)
  from "2.IH"[OF _ key(2) refl key(3,4) _ key(6) this] key(1,5) "2.prems"(3) show ?case by simp
qed simp

lemma NewClients_ok: "NewClients h c = Inr cs \<Longrightarrow> clients_ok h (fl_Servers c) [] cs"
  by (auto simp: NewClients_def clients_ok_def[of _ _ _ "[]"] split: option.splits if_splits
      intro!: enrolled_clients[of h "[]" "[]" "fl_Servers c" cs "fl_Servers c" "[]"])

lemma nodes_checks_distinct:
  "nodes_checks purl parse seen ns = None \<Longrightarrow> distinct (map nd_ID ns) \<and> set (map nd_ID ns) \<inter> set seen = {}"
proof (induction purl parse seen ns rule: nodes_checks.induct)
  case (2 purl parse seen n ns)
  then have "node_checks purl parse seen n = None" by (simp split: option.splits)
  then have "nd_ID n \<notin> set seen" by (simp add: node_checks_def split: if_splits)
  with 2 show ?case by (auto split: option.splits)
qed simp

lemma NewClients_distinct: "NewClients h c = Inr cs \<Longrightarrow> fl_Enabled c \<Longrightarrow> distinct (map nd_ID (fl_Servers c))"
  by (auto simp: NewClients_def Fleet_Validate_def split: option.splits if_splits dest: nodes_checks_distinct)

lemma read_reply_published:
  assumes "read_reply h c (fc_reply (ev_calls e (nd_ID (nc_node c)))) t = Inr s" "client_of h ns i c" "e \<in> set evs"
  shows "published h evs (nc_node c) s"
proof -
  obtain r body where r: "fc_reply (ev_calls e (nd_ID (nc_node c))) = Some r" "verify_connection h (nc_pin c) r"
      "nr_Status r = 200" "nr_Body r = Some body" "fh_dec h (take (Suc MaxBytes) body) = Some s"
    using assms(1) by (auto simp: read_reply_def Snapshot_Decode_def Let_def split: option.splits if_splits)
  have "pinned_reply h (nc_node c) r"
    using r(2) assms(2) by (auto simp: pinned_reply_def verify_connection_def client_of_def split: list.splits)
  with r assms(3) show ?thesis unfolding published_def by blast
qed

lemma empty_snapshot_invalid: "Snapshot_Validate node now empty_snapshot \<noteq> None"
  by (simp add: Snapshot_Validate_def empty_snapshot_def)

lemma fetchFleet_ok:
  assumes "fetchFleet h (nd_ID n) (ev_calls e (nd_ID n)) cs = (r, cs')" "clients_ok h ns evs cs" "e \<in> set evs"
    and "n \<in> set ns" "distinct (map nd_ID ns)"
  shows "clients_ok h ns evs cs'"
    and "r = Inr s \<Longrightarrow> Snapshot_Validate (nd_ID n) (fc_t3 (ev_calls e (nd_ID n))) s = None \<and> published h evs n s"
proof -
  let ?call = "ev_calls e (nd_ID n)"
  have both: "clients_ok h ns evs cs' \<and> (r = Inr s \<longrightarrow>
      Snapshot_Validate (nd_ID n) (fc_t3 ?call) s = None \<and> published h evs n s)" (is ?both)
  proof (cases "fc_slot ?call \<and> map_of cs (nd_ID n) \<noteq> None")
    case True
    then obtain c where c: "map_of cs (nd_ID n) = Some c" and slot: "fc_slot ?call" by blast
    have co: "client_of h ns (nd_ID n) c" "holds_published h evs c" using assms(2) c by (auto simp: clients_ok_def)
    have n: "nc_node c = n"
      using co(1) assms(4,5) by (auto simp: client_of_def distinct_map dest: inj_onD)
    obtain a c' where f: "fetch_at h ?call c = (a, c')" by (metis prod.exhaust)
    have held: "client_of h ns (nd_ID n) c' \<and> nc_node c' = n \<and> holds_published h evs c' \<and> cached_answer c' = a"
      using f
    proof (cases rule: fetch_at_cases)
      case 2
      have "s' = empty_snapshot \<or> published h evs n s'" if s': "cached_answer c' = Inr s'" for s'
      proof -
        have "read_reply h c (fc_reply ?call) (fc_t1 ?call) = Inr s'"
          using s' 2(2,3) by (auto simp: fetch_answer_def split: sum.splits)
        then show ?thesis using read_reply_published[OF _ co(1) assms(3)] n by blast
      qed
      then show ?thesis using 2 co(1) n by (simp add: client_of_def holds_published_def)
    qed (use co n in simp)
    have "r = (case a of Inl x \<Rightarrow> Inl x | Inr s \<Rightarrow> or_error (Snapshot_Validate (nd_ID n) (fc_t3 ?call) s) s)"
      and cs': "cs' = al_put (nd_ID n) c' cs"
      using assms(1) slot c f by (auto simp: fetchFleet_def fetch_at_def split: sum.splits)
    then have "r = Inr s \<Longrightarrow> a = Inr s \<and> Snapshot_Validate (nd_ID n) (fc_t3 ?call) s = None"
      by (auto split: sum.splits)
    then have "r = Inr s \<longrightarrow> Snapshot_Validate (nd_ID n) (fc_t3 ?call) s = None \<and> published h evs n s"
      using held empty_snapshot_invalid unfolding holds_published_def by metis
    then show ?thesis using held clients_ok_put[OF assms(2)] unfolding cs' by blast
  next
    case False
    then have "cs' = cs" "\<forall>s. r \<noteq> Inr s" using assms(1) by (auto simp: fetchFleet_def split: if_splits)
    then show ?thesis using assms(2) by blast
  qed
  from both show "clients_ok h ns evs cs'" by blast
  from both show "Snapshot_Validate (nd_ID n) (fc_t3 (ev_calls e (nd_ID n))) s = None \<and> published h evs n s" if x: "r = Inr s"
    using x by blast
qed

text \<open>A row about the node \<open>n\<close>: unknown without data, or a snapshot of the node that is valid when it is shown.\<close>

definition honest_row :: "fleet_host \<Rightarrow> fleet_event list \<Rightarrow> fleet_event \<Rightarrow> string list \<Rightarrow> Node \<Rightarrow> fleetRow \<Rightarrow> bool" where
  "honest_row h evs e groups n row \<longleftrightarrow>
     row = unknown_row n groups
     \<or> (\<exists>s. row = observed_row s (unknown_row n groups)
          \<and> Snapshot_Validate (nd_ID n) (fc_t3 (ev_calls e (nd_ID n))) s = None \<and> published h evs n s)"

lemma observe_nodes_ok:
  assumes "observe_nodes h (ev_calls e) groups ms cs = (rows, cs')" "clients_ok h ns evs cs" "e \<in> set evs"
    and "set ms \<subseteq> set ns" "distinct (map nd_ID ns)"
  shows "clients_ok h ns evs cs' \<and> list_all2 (honest_row h evs e groups) ms rows"
  using assms
proof (induction ms arbitrary: cs cs' rows)
  case (Cons n ms)
  obtain r cs1 where f: "fetchFleet h (nd_ID n) (ev_calls e (nd_ID n)) cs = (r, cs1)" by (metis prod.exhaust)
  obtain rows1 cs2 where o: "observe_nodes h (ev_calls e) groups ms cs1 = (rows1, cs2)" by (metis prod.exhaust)
  have n: "n \<in> set ns" using Cons.prems(4) by simp
  note ok = fetchFleet_ok[OF f Cons.prems(2,3) n Cons.prems(5)]
  have rest: "clients_ok h ns evs cs2 \<and> list_all2 (honest_row h evs e groups) ms rows1"
    using Cons.IH[OF o ok(1) Cons.prems(3) _ Cons.prems(5)] Cons.prems(4) by simp
  have row: "honest_row h evs e groups n (case r of Inl e \<Rightarrow> unknown_row n groups | Inr s \<Rightarrow> observed_row s (unknown_row n groups))"
    using ok(2) by (auto simp: honest_row_def split: sum.splits)
  have "cs' = cs2" "rows = (case r of Inl e \<Rightarrow> unknown_row n groups | Inr s \<Rightarrow> observed_row s (unknown_row n groups)) # rows1"
    using Cons.prems(1) f o by simp_all
  then show ?case using rest row by simp
qed simp

text \<open>The session behind a request: a live session of an identity, bound to the certificate of the device.\<close>

definition device_session :: "fleet_env \<Rightarrow> fleet_event \<Rightarrow> auth_state \<Rightarrow> sessionEntry \<Rightarrow> bool" where
  "device_session env e st identity \<longleftrightarrow>
     requestDevice (fe_auth env) (ev_req e) \<noteq> [] \<and> se_device identity = requestDevice (fe_auth env) (ev_req e)
     \<and> se_subject identity \<noteq> [] \<and> ev_now e < se_expires identity
     \<and> (\<exists>cookie. map_of (aq_Cookies (ev_req e)) (sessionCookieName (fe_server env)) = Some cookie
          \<and> map_of (au_sessions st) (ah_sha (fe_auth env) cookie) = Some identity)"

lemma fleetIdentity_session:
  "fleetIdentity env (ev_now e) (ev_req e) st = Inr identity \<Longrightarrow> device_session env e st identity \<and> fl_Enabled (fe_config env)"
  by (auto simp: fleetIdentity_def session_identity_def device_session_def Let_def split: if_splits option.splits)

lemma fleet_log_simps [simp]: "fw_clients (fleet_log env a n i ok w) = fw_clients w" "fw_auth (fleet_log env a n i ok w) = fw_auth w"
  by (simp_all add: fleet_log_def)

definition shown_to :: "fleet_env \<Rightarrow> fleet_event list \<Rightarrow> fleet_event \<Rightarrow> fleet_answer \<Rightarrow> sessionEntry \<Rightarrow> bool" where
  "shown_to env evs e a identity =
     (case a of
        FleetRows rows \<Rightarrow>
          list_all2 (honest_row (fe_host env) evs e (se_groups identity))
            (filter (\<lambda>n. CanView n (se_groups identity)) (fl_Servers (fe_config env))) rows
      | FleetSnapshot s \<Rightarrow>
          (\<exists>n \<in> set (fl_Servers (fe_config env)). ev_route e = FleetDetail (nd_ID n) \<and> CanDetail n (se_groups identity)
             \<and> Snapshot_Validate (nd_ID n) (fc_t3 (ev_calls e (nd_ID n))) s = None \<and> published (fe_host env) evs n s)
      | _ \<Rightarrow> True)"

definition shows_data :: "fleet_answer \<Rightarrow> bool" where
  "shows_data a = (case a of FleetRows _ \<Rightarrow> True | FleetSnapshot _ \<Rightarrow> True | _ \<Rightarrow> False)"

lemma handleFleet_ok:
  assumes "handleFleet env (ev_calls e) (ev_now e) (ev_req e) w = (a, w')" "clients_ok (fe_host env) (fl_Servers (fe_config env)) evs (fw_clients w)"
    and "e \<in> set evs" "distinct (map nd_ID (fl_Servers (fe_config env)))"
  shows "clients_ok (fe_host env) (fl_Servers (fe_config env)) evs (fw_clients w')
    \<and> (shows_data a \<longrightarrow> (\<exists>identity. device_session env e (fw_auth w') identity \<and> shown_to env evs e a identity))"
proof (cases "fleetIdentity env (ev_now e) (ev_req e) (fw_auth w)")
  case (Inl x)
  moreover have "\<not> shows_data x"
    using Inl by (auto simp: fleetIdentity_def shows_data_def Let_def split: if_splits option.splits)
  ultimately show ?thesis using assms(1,2) by (simp add: handleFleet_def)
next
  case (Inr identity)
  let ?ns = "filter (\<lambda>n. CanView n (se_groups identity)) (fl_Servers (fe_config env))"
  obtain rows cs where o: "observe_nodes (fe_host env) (ev_calls e) (se_groups identity) ?ns (fw_clients w) = (rows, cs)"
    by (metis prod.exhaust)
  have sub: "set ?ns \<subseteq> set (fl_Servers (fe_config env))" by auto
  note ok = observe_nodes_ok[OF o assms(2,3) sub assms(4)]
  have "a = FleetRows rows" "fw_clients w' = cs" "fw_auth w' = fw_auth w" using assms(1) Inr o by (auto simp: handleFleet_def)
  then show ?thesis using ok fleetIdentity_session[OF Inr] by (auto simp: shown_to_def)
qed

lemma handleFleetDetail_ok:
  assumes "handleFleetDetail env (ev_calls e) (ev_now e) (ev_req e) node w = (a, w')" "ev_route e = FleetDetail node"
    and "clients_ok (fe_host env) (fl_Servers (fe_config env)) evs (fw_clients w)"
    and "e \<in> set evs" "distinct (map nd_ID (fl_Servers (fe_config env)))"
  shows "clients_ok (fe_host env) (fl_Servers (fe_config env)) evs (fw_clients w')
    \<and> (shows_data a \<longrightarrow> (\<exists>identity. device_session env e (fw_auth w') identity \<and> shown_to env evs e a identity))"
proof (cases "fleetIdentity env (ev_now e) (ev_req e) (fw_auth w)")
  case (Inl x)
  moreover have "\<not> shows_data x"
    using Inl by (auto simp: fleetIdentity_def shows_data_def Let_def split: if_splits option.splits)
  ultimately show ?thesis using assms(1,3) by (simp add: handleFleetDetail_def)
next
  case (Inr identity)
  let ?find = "List.find (\<lambda>n. nd_ID n = node \<and> CanDetail n (se_groups identity)) (fl_Servers (fe_config env))"
  show ?thesis
  proof (cases ?find)
    case None
    then show ?thesis using assms(1,3) Inr by (auto simp: handleFleetDetail_def shows_data_def)
  next
    case (Some n)
    note n = find_Some_in[OF Some]
    obtain r cs where f: "fetchFleet (fe_host env) (nd_ID n) (ev_calls e (nd_ID n)) (fw_clients w) = (r, cs)"
      by (metis prod.exhaust)
    note ok = fetchFleet_ok[OF f assms(3,4) conjunct1[OF n] assms(5)]
    have res: "a = (case r of Inl x \<Rightarrow> FleetError 503 ''current node state unavailable'' | Inr s \<Rightarrow> FleetSnapshot s)"
        "fw_clients w' = cs" "fw_auth w' = fw_auth w"
      using assms(1) Inr Some f by (auto simp: handleFleetDetail_def Let_def split: sum.splits)
    show ?thesis
    proof (cases r)
      case (Inl x)
      then show ?thesis using ok(1) res by (simp add: shows_data_def)
    next
      case r: (Inr s)
      have "shown_to env evs e (FleetSnapshot s) identity"
        using ok(2)[OF r] n assms(2) by (auto simp: shown_to_def)
      then show ?thesis using ok(1) res r fleetIdentity_session[OF Inr] by auto
    qed
  qed
qed

lemma fleet_step_ok:
  assumes "fleet_step env e w = (a, w')" "clients_ok (fe_host env) (fl_Servers (fe_config env)) evs (fw_clients w)"
    and "e \<in> set evs" "distinct (map nd_ID (fl_Servers (fe_config env)))"
  shows "clients_ok (fe_host env) (fl_Servers (fe_config env)) evs (fw_clients w')
    \<and> (shows_data a \<longrightarrow> (\<exists>identity. device_session env e (fw_auth w') identity \<and> shown_to env evs e a identity))"
proof -
  define op where "op = (case ev_route e of SignIn op \<Rightarrow> op | _ \<Rightarrow> ApiRoute)"
  obtain x cookies st where au:
    "auth_step (fe_auth env) (fe_server env) \<lparr>ae_now = ev_now e, ae_op = op, ae_req = ev_req e\<rparr> (fw_auth w) = (x, cookies, st)"
    by (metis prod.exhaust)
  let ?w1 = "w\<lparr>fw_auth := st\<rparr>"
  have w1: "clients_ok (fe_host env) (fl_Servers (fe_config env)) evs (fw_clients ?w1)" using assms(2) by simp
  have login: "\<not> shows_data (FleetLogin x)" by (simp add: shows_data_def)
  note step = assms(1)[unfolded fleet_step_def, folded op_def, unfolded Let_def au prod.case]
  show ?thesis
  proof (cases "ev_route e")
    case FleetOverview
    show ?thesis
    proof (cases "x = NextHandler")
      case True
      with step FleetOverview have "handleFleet env (ev_calls e) (ev_now e) (ev_req e) ?w1 = (a, w')" by simp
      from handleFleet_ok[OF this w1 assms(3,4)] show ?thesis .
    next
      case False
      with step FleetOverview have "a = FleetLogin x" "w' = ?w1" by simp_all
      then show ?thesis using login w1 by simp
    qed
  next
    case (FleetDetail node)
    show ?thesis
    proof (cases "x = NextHandler")
      case True
      with step FleetDetail have "handleFleetDetail env (ev_calls e) (ev_now e) (ev_req e) node ?w1 = (a, w')" by simp
      from handleFleetDetail_ok[OF this FleetDetail w1 assms(3,4)] show ?thesis .
    next
      case False
      with step FleetDetail have "a = FleetLogin x" "w' = ?w1" by simp_all
      then show ?thesis using login w1 by simp
    qed
  next
    case (SignIn op')
    with step have "a = FleetLogin x" "w' = ?w1" by simp_all
    then show ?thesis using login w1 by simp
  qed
qed

lemma fleet_run_ok:
  assumes "fleet_run env evs w = (as', w')" "clients_ok (fe_host env) (fl_Servers (fe_config env)) earlier (fw_clients w)"
    and "distinct (map nd_ID (fl_Servers (fe_config env)))"
  shows "clients_ok (fe_host env) (fl_Servers (fe_config env)) (earlier @ evs) (fw_clients w')"
  using assms
proof (induction evs arbitrary: earlier w w' as')
  case (Cons e evs)
  obtain a w1 where s: "fleet_step env e w = (a, w1)" by (metis prod.exhaust)
  obtain rest w2 where r: "fleet_run env evs w1 = (rest, w2)" by (metis prod.exhaust)
  have "clients_ok (fe_host env) (fl_Servers (fe_config env)) (earlier @ [e]) (fw_clients w)"
    by (rule clients_ok_mono[OF Cons.prems(2)]) auto
  from fleet_step_ok[OF s this _ Cons.prems(3)]
  have "clients_ok (fe_host env) (fl_Servers (fe_config env)) (earlier @ [e]) (fw_clients w1)" by simp
  from Cons.IH[OF r this Cons.prems(3)] show ?case using Cons.prems(1) s r by simp
qed simp

text \<open>
  C24. After any run of requests and sign-ins of the workstation's server, data of the nodes go only to a
  live OIDC session bound to the certificate of the requesting device. An overview has one row for each
  node the session's groups may view and no other; the details of a node go to its detail groups; and
  what is shown of a node came from the node, over a connection with the pinned certificate, and passes
  the check of its age and its claims at the time it is shown - otherwise the row says unknown.
\<close>

theorem fleet_overview_guarded:
  assumes "NewClients (fe_host env) (fe_config env) = Inr (fw_clients w0)" "fl_Enabled (fe_config env)"
    and "fleet_run env evs w0 = (answers, w)" "fleet_step env e w = (a, w')" "shows_data a"
  shows "\<exists>identity. device_session env e (fw_auth w') identity \<and> shown_to env (evs @ [e]) e a identity"
proof -
  have ids: "distinct (map nd_ID (fl_Servers (fe_config env)))" using NewClients_distinct[OF assms(1,2)] .
  have "clients_ok (fe_host env) (fl_Servers (fe_config env)) evs (fw_clients w)"
    using fleet_run_ok[OF assms(3) NewClients_ok[OF assms(1)] ids] by simp
  then have "clients_ok (fe_host env) (fl_Servers (fe_config env)) (evs @ [e]) (fw_clients w)"
    by (rule clients_ok_mono) auto
  from fleet_step_ok[OF assms(4) this _ ids] assms(5) show ?thesis by simp
qed

end
