(* ===== verification/Overview_Samples.thy ===== *)
theory Overview_Samples
  imports Overview_Safety Server_Access
begin

text \<open>
  Examples for the overview of the nodes: a node with a healthy monitor and a clean report exports its
  snapshot, the agent serves it, and a signed-in user of the workstation sees it in the overview.
\<close>

subsection \<open>The node\<close>

definition sample_done :: Check where
  "sample_done = unknown_check\<lparr>ck_Status := ''up_to_date''\<rparr>"

definition sample_clean_report :: Report where
  "sample_clean_report = \<lparr>rp_CheckedAt = 1000000000, rp_Release = sample_done, rp_Host = sample_done,
     rp_Inventory = sample_done, rp_Images = [], rp_Containers = []\<rparr>"

definition sample_healthy_state :: MonitorState where
  "sample_healthy_state = \<lparr>ms_Targets = sample_loaded,
     ms_Results = [(''web'', \<lparr>cr_Target = hd sample_loaded, cr_StatusCode = 200, cr_ResponseTime = 5, cr_Healthy = True,
       cr_FailureKind = [], cr_Error = [], cr_CheckedAt = 1000000000\<rparr>)], ms_UpdatedAt = 1000000000\<rparr>"

definition sample_export_env :: export_env where
  "sample_export_env = \<lparr>ee_up = (\<lambda>_. True), ee_files = [''m'' \<mapsto> ''mon'', ''s'' \<mapsto> ''sec''],
     ee_mon_dec = (\<lambda>_. Some sample_healthy_state), ee_mon_regular = (\<lambda>_. True), ee_mon_up = (\<lambda>_. True),
     ee_sec_dec = (\<lambda>_. Some \<lparr>ss_Version = 1, ss_Report = Some sample_clean_report, ss_Deliveries = []\<rparr>),
     ee_sec_plain = True, ee_sec_up = (\<lambda>_. True)\<rparr>"

definition sample_node_db :: fleet_db where
  "sample_node_db = empty_fleet_db\<lparr>
     db_projects := [\<lparr>pj_ID = ''p1'', pj_Name = ''shop'', pj_Domain = [], pj_GitHubRepo = [], pj_LinuxUser = [],
       pj_ProjectPath = [], pj_Template = [], pj_Status = ''running'', pj_Source = [], pj_ServerID = [],
       pj_BranchMappings = [], pj_CreatedAt = 1, pj_UpdatedAt = 1\<rparr>],
     db_backups := [\<lparr>bk_ID = ''b1'', bk_ProjectID = ''p1'', bk_Type = ''manual'', bk_Trigger = [], bk_Path = [],
       bk_SizeBytes = 1, bk_CreatedAt = 7\<rparr>]\<rparr>"

definition sample_taken :: Snapshot where
  "sample_taken = \<lparr>sn_Schema = 1, sn_NodeID = ''alpha'', sn_GeneratedAt = 2000000000, sn_Version = ''v1'', sn_Commit = ''c1'',
     sn_Projects = [\<lparr>np_Name = ''shop'', np_RegistryStatus = ''running'', np_LastBackup = Some 7\<rparr>],
     sn_Monitoring = \<lparr>ch_Status = ''ok'', ch_CheckedAt = Some 1000000000, ch_Healthy = 1, ch_Unhealthy = 0, ch_Unknown = 0\<rparr>,
     sn_Security = \<lparr>sy_Status = ''ok'', sy_CheckedAt = Some 1000000000, sy_Critical = 0, sy_High = 0,
       sy_RuntimeFindings = 0, sy_Unknown = 0\<rparr>\<rparr>"

lemma sample_ids_valid: "ValidID ''alpha''" "ValidID ''beta''" "ValidID ''shop''"
  by code_simp+

lemma sample_taken_valid: "2000000000 \<le> t \<Longrightarrow> t \<le> 60000000000 \<Longrightarrow> Snapshot_Validate ''alpha'' t sample_taken = None"
  by (simp add: Snapshot_Validate_def sample_taken_def sample_ids_valid zero_time_def MaxAge_def project_bad_def
      known_status_def observation_counts_def stale_claim_def)

lemma sample_monitoring: "export_monitoring sample_export_env ''m'' 2000000000 = sn_Monitoring sample_taken"
  by (simp add: export_monitoring_def sample_export_env_def LoadState_def maxStateBytes_def sample_healthy_state_def
      Summarize_def sample_loaded_def summarize_target_def zero_time_def effective_interval_def effective_timeout_def
      stale_after_def status_detail_def HealthStatus_def FailureCloudflareChallenge_def summarize_checks_def count_item_def
      unknown_checks_def MaxAge_def sample_taken_def Let_def)

lemma sample_security: "export_security sample_export_env ''s'' 2000000000 = sn_Security sample_taken"
  by (simp add: export_security_def sample_export_env_def Load_def maxSecurityState_def summarize_report_def
      sample_clean_report_def recent_report_def zero_time_def count_report_def count_check_def sample_done_def
      unknown_check_def unknown_security_def judge_def sample_taken_def Let_def)

lemma sample_export:
  "Export sample_export_env sample_node_db ''alpha'' ''v1'' ''c1'' ''m'' ''s'' 2000000000 = Inr sample_taken"
proof -
  have "ListProjects (ee_up sample_export_env 0) sample_node_db = Inr (db_projects sample_node_db)"
    by (simp add: ListProjects_def sample_export_env_def sample_node_db_def)
  moreover have "export_projects (ee_up sample_export_env) 1 sample_node_db (db_projects sample_node_db)
      = Inr (sn_Projects sample_taken)"
    by (simp add: sample_export_env_def sample_node_db_def ListBackupRecords_def sample_taken_def)
  ultimately show ?thesis
    using sample_taken_valid[of 2000000000]
    by (simp add: Export_def sample_monitoring sample_security Let_def) (simp add: sample_taken_def)
qed

lemma export_claims_witness:
  "ch_Status (sn_Monitoring sample_taken) = ''ok'' \<and> sy_Status (sn_Security sample_taken) = ''ok''
   \<and> (\<exists>st r. Load (ee_sec_dec sample_export_env) (ee_sec_plain sample_export_env) (ee_sec_up sample_export_env) ''s''
        (ee_files sample_export_env) = Inr st \<and> ss_Report st = Some r \<and> clean_report r)"
proof -
  have "ch_Status (sn_Monitoring sample_taken) = ''ok''" "sy_Status (sn_Security sample_taken) = ''ok''"
    by (simp_all add: sample_taken_def)
  with export_claims[OF sample_export] show ?thesis by blast
qed

subsection \<open>The workstation\<close>

definition sample_member :: "string \<Rightarrow> string list \<Rightarrow> string list \<Rightarrow> Node" where
  "sample_member i views details = \<lparr>nd_ID = i, nd_Label = i, nd_Group = ''eu'', nd_URL = i, nd_Address = ''10.0.0.1:443'',
     nd_CAFile = ''ca'', nd_ServerCertFile = i, nd_ClientCertFile = i, nd_ClientKeyFile = i,
     nd_ViewGroups = views, nd_DetailGroups = details\<rparr>"

definition sample_alpha :: Node where "sample_alpha = sample_member ''alpha'' [''users''] [''admins'']"
definition sample_beta :: Node where "sample_beta = sample_member ''beta'' [''owners''] []"

definition sample_fleet_host :: fleet_host where
  "sample_fleet_host = \<lparr>fh_sha = (\<lambda>s. s),
     fh_url = (\<lambda>u. Some \<lparr>url_Scheme = ''https'', url_Host = u, url_HasUser = False, url_Path = [], url_RawQuery = [],
       url_Fragment = [], wu_Opaque = [], fu_ForceQuery = False\<rparr>),
     fh_addr = (\<lambda>_. Some \<lparr>ap_Port = 443, ap_Zone = [], ap_Local = True\<rparr>),
     fh_lstat = (\<lambda>_. Some \<lparr>ff_Regular = True, ff_Perm = 384, ff_Size = 10\<rparr>),
     fh_Pair = (\<lambda>c k. Some c), fh_Leaf = (\<lambda>p. Some p), fh_Pool = (\<lambda>_. True),
     fh_dec = (\<lambda>d. if d = ''snap'' then Some sample_taken else None)\<rparr>"

definition sample_fleet_config :: FleetConfig where
  "sample_fleet_config = \<lparr>fl_Enabled = True, fl_Servers = [sample_alpha, sample_beta]\<rparr>"

definition sample_clients :: clients where
  "sample_clients = [(''beta'', new_client sample_beta ''beta''), (''alpha'', new_client sample_alpha ''alpha'')]"

lemma sample_names:
  "url_hostname ''alpha'' = ''alpha''" "url_hostname ''beta'' = ''beta''" "port_or_443 ''alpha'' = ''443''"
  "port_or_443 ''beta'' = ''443''" "SplitHostPort ''10.0.0.1:443'' = Some (''10.0.0.1'', ''443'')"
  "trim_space ''users'' = ''users''" "trim_space ''admins'' = ''admins''" "trim_space ''owners'' = ''owners''"
  by code_simp+

lemma sample_enrolled: "NewClients sample_fleet_host sample_fleet_config = Inr sample_clients"
  by (simp add: NewClients_def Fleet_Validate_def sample_fleet_config_def node_checks_def sample_alpha_def sample_beta_def
      sample_member_def sample_ids_valid sample_fleet_host_def PrivateAddress_def sample_names bad_group_def contains_any_def
      PrivateKey_def open_to_others_def sample_clients_def al_put_def Let_def)

definition sample_reply :: node_reply where
  "sample_reply = \<lparr>nr_Chains = 1, nr_Peers = [''alpha''], nr_Status = 200, nr_Body = Some ''snap''\<rparr>"

definition sample_call :: "node_reply option \<Rightarrow> time \<Rightarrow> fleet_call" where
  "sample_call reply t = \<lparr>fc_slot = True, fc_reply = reply, fc_t0 = t, fc_t1 = t, fc_t2 = t, fc_t3 = t\<rparr>"

lemma sample_decoded:
  assumes "2000000000 \<le> t" "t \<le> 60000000000" "nc_pin c = ''alpha''" "nc_node c = sample_alpha"
  shows "read_reply sample_fleet_host c (Some sample_reply) t = Inr sample_taken"
  using sample_taken_valid[OF assms(1,2)] assms(3,4)
  by (simp add: read_reply_def sample_reply_def verify_connection_def sample_fleet_host_def Snapshot_Decode_def MaxBytes_def
      sample_alpha_def sample_member_def Let_def)

text \<open>The first request was given up by its caller; a second user gets its failure for thirty seconds.\<close>

lemma fetch_answers_recent_witness:
  "fetch_answer sample_fleet_host (new_client sample_alpha ''alpha'') (sample_call (Some sample_reply) 5000000000) = Inr sample_taken
   \<and> fetch_run sample_fleet_host [sample_call None 3000000000, sample_call (Some sample_reply) 5000000000]
       (new_client sample_alpha ''alpha'') ! 1 = Inl ''current node state unavailable''
   \<and> (\<exists>j \<le> 1. fetch_run sample_fleet_host [sample_call None 3000000000, sample_call (Some sample_reply) 5000000000]
         (new_client sample_alpha ''alpha'') ! 1
       = fetch_answer sample_fleet_host (new_client sample_alpha ''alpha'')
           ([sample_call None 3000000000, sample_call (Some sample_reply) 5000000000] ! j))"
proof (intro conjI)
  show "fetch_answer sample_fleet_host (new_client sample_alpha ''alpha'') (sample_call (Some sample_reply) 5000000000)
      = Inr sample_taken"
    using sample_decoded[of 5000000000 "new_client sample_alpha ''alpha''"]
    by (simp add: fetch_answer_def sample_call_def new_client_def)
  show "fetch_run sample_fleet_host [sample_call None 3000000000, sample_call (Some sample_reply) 5000000000]
      (new_client sample_alpha ''alpha'') ! 1 = Inl ''current node state unavailable''"
    by (simp add: fetch_at_def Fetch_def sample_call_def new_client_def zero_time_def read_reply_def cached_answer_def
        or_error_def Let_def)
  have "zero_time + 30 * second \<le> fc_t0 ([sample_call None 3000000000, sample_call (Some sample_reply) 5000000000] ! 0)"
    by (simp add: zero_time_def sample_call_def)
  from fetch_answers_recent[OF _ this, of 1 sample_fleet_host sample_alpha "''alpha''"]
  show "\<exists>j \<le> 1. fetch_run sample_fleet_host [sample_call None 3000000000, sample_call (Some sample_reply) 5000000000]
         (new_client sample_alpha ''alpha'') ! 1
       = fetch_answer sample_fleet_host (new_client sample_alpha ''alpha'')
           ([sample_call None 3000000000, sample_call (Some sample_reply) 5000000000] ! j)" by auto
qed

subsection \<open>From the node to the workstation\<close>

definition sample_peer_request :: agent_request where
  "sample_peer_request = \<lparr>ag_TLS = Some (1, [''me'']), ag_Path = ''/v1/snapshot'', ag_RawQuery = [], ag_Method = ''GET''\<rparr>"

lemma sample_perms: "\<not> others_may_write 488" "\<not> group_writable_or_public 416"
  by code_simp+

lemma snapshot_travels_witness:
  "\<exists>fs'. WriteSnapshot (\<lambda>_. Some ''snap'') (Some 488) 2000000000 0 ''f'' (\<lambda>_. True) ''t'' Map.empty sample_taken = (True, fs')
    \<and> Agent sample_fleet_host (\<lambda>_. ''snap'') ''alpha'' (\<lambda>d. d = ''me'') (Some \<lparr>ff_Regular = True, ff_Perm = 416, ff_Size = 4\<rparr>)
        (fs' ''f'') 2000000000 sample_peer_request = AgentBody ''snap''
    \<and> read_reply sample_fleet_host (new_client sample_alpha ''alpha'') (Some sample_reply) 3000000000 = Inr sample_taken
    \<and> (\<exists>st rep. Load (ee_sec_dec sample_export_env) (ee_sec_plain sample_export_env) (ee_sec_up sample_export_env) ''s''
        (ee_files sample_export_env) = Inr st \<and> ss_Report st = Some rep \<and> clean_report rep)"
proof -
  obtain fs' where w: "WriteSnapshot (\<lambda>_. Some ''snap'') (Some 488) 2000000000 0 ''f'' (\<lambda>_. True) ''t'' Map.empty sample_taken
      = (True, fs')" "fs' ''f'' = Some ''snap''"
    using sample_taken_valid[of 2000000000]
    by (simp add: WriteSnapshot_def sample_perms MaxBytes_def replace_file_def fill_temporary_def rename_over_def sample_taken_def)
  have a: "Agent sample_fleet_host (\<lambda>_. ''snap'') ''alpha'' (\<lambda>d. d = ''me'') (Some \<lparr>ff_Regular = True, ff_Perm = 416, ff_Size = 4\<rparr>)
        (fs' ''f'') 2000000000 sample_peer_request = AgentBody ''snap''"
    using sample_taken_valid[of 2000000000]
    by (simp add: Agent_def agent_peer_ok_def sample_peer_request_def sample_perms MaxBytes_def w(2) Snapshot_Decode_def
        sample_fleet_host_def or_error_def Let_def)
  have r: "read_reply sample_fleet_host (new_client sample_alpha ''alpha'') (Some sample_reply) 3000000000 = Inr sample_taken"
    by (rule sample_decoded) (simp_all add: new_client_def)
  have laws: "\<forall>data. Some ''snap'' = Some data \<longrightarrow> fh_dec sample_fleet_host data = Some sample_taken"
      "fh_dec sample_fleet_host ''snap'' = Some sample_taken" by (simp_all add: sample_fleet_host_def)
  have body: "nr_Body sample_reply = Some ''snap''" by (simp add: sample_reply_def)
  have "sy_Status (sn_Security sample_taken) = ''ok''" by (simp add: sample_taken_def)
  with snapshot_travels[OF sample_export w(1) _ laws(1) laws(2) a body,
      of "new_client sample_alpha ''alpha''" 3000000000] r w a show ?thesis by blast
qed

subsection \<open>A visit\<close>

definition sample_fleet_env :: fleet_env where
  "sample_fleet_env = \<lparr>fe_host = sample_fleet_host, fe_auth = sample_auth_host, fe_server = sample_auth_server,
     fe_config = sample_fleet_config,
     fe_audit = \<lparr>ho_enc = (\<lambda>_. None), ho_dec = (\<lambda>_. None), ho_user = None, ho_now = 0, ho_write = None, ho_stat = False,
       ho_rename = (\<lambda>_. True), ho_reopen = True\<rparr>\<rparr>"

definition sample_fleet_world :: fleet_world where
  "sample_fleet_world = \<lparr>fw_auth = sample_signed_in, fw_clients = sample_clients,
     fw_audit = \<lparr>lg_open = False, lg_path = [], lg_files = Map.empty, lg_journal = None\<rparr>\<rparr>"

definition sample_visit :: fleet_event where
  "sample_visit = \<lparr>ev_now = 3000000000, ev_req = ae_req sample_access, ev_route = FleetOverview,
     ev_calls = (\<lambda>_. sample_call (Some sample_reply) 3000000000)\<rparr>"

lemma sample_visit_allowed:
  "auth_step sample_auth_host sample_auth_server \<lparr>ae_now = 3000000000, ae_op = ApiRoute, ae_req = ae_req sample_access\<rparr>
     sample_signed_in = (NextHandler, [], sample_signed_in)"
proof -
  have ck: "map_of (aq_Cookies (ae_req sample_access)) (sessionCookieName sample_auth_server) = Some sample_token"
    "requestDevice sample_auth_host (ae_req sample_access) = ''cert''"
    "requestHTTPS sample_auth_host (ae_req sample_access)" "aq_Method (ae_req sample_access) = ''GET''"
    "oidcRequestAllowed sample_auth_host sample_auth_server (ae_req sample_access)" "length sample_token = 64"
    by code_simp+
  have "validSession (\<lambda>s. s) 3000000000 sample_token ''cert'' True (au_sessions sample_signed_in) = (True, au_sessions sample_signed_in)"
    by (simp add: validSession_def ck sample_signed_in_def)
  then show ?thesis
    by (simp add: auth_step_def ck requireAuth_def configured_def safeTransport_def cookie_access_def safeCookieRequest_def answer_def)
qed

lemma sample_visit_identity:
  "\<exists>identity. fleetIdentity sample_fleet_env 3000000000 (ae_req sample_access) sample_signed_in = Inr identity
    \<and> se_groups identity = [''users'', ''admins'']"
proof -
  have ck: "map_of (aq_Cookies (ae_req sample_access)) (sessionCookieName sample_auth_server) = Some sample_token"
    "requestDevice sample_auth_host (ae_req sample_access) = ''cert''" "length sample_token = 64"
    by code_simp+
  show ?thesis
    by (simp add: fleetIdentity_def sample_fleet_env_def sample_fleet_config_def ck session_identity_def sample_signed_in_def)
qed

lemma sample_overview:
  "fst (fleet_step sample_fleet_env sample_visit sample_fleet_world)
     = FleetRows [observed_row sample_taken (unknown_row sample_alpha [''users'', ''admins''])]"
proof -
  obtain identity where i: "fleetIdentity sample_fleet_env 3000000000 (ae_req sample_access) sample_signed_in = Inr identity"
      "se_groups identity = [''users'', ''admins'']" using sample_visit_identity by blast
  let ?c = "new_client sample_alpha ''alpha''"
  have "read_reply sample_fleet_host ?c (Some sample_reply) 3000000000 = Inr sample_taken"
    by (rule sample_decoded) (simp_all add: new_client_def)
  then have "\<exists>c'. Fetch sample_fleet_host (Some sample_reply) 3000000000 3000000000 3000000000 ?c = (Inr sample_taken, c')"
    by (simp add: Fetch_def cached_answer_def new_client_def zero_time_def Let_def)
  then obtain c' where f: "Fetch sample_fleet_host (Some sample_reply) 3000000000 3000000000 3000000000 ?c = (Inr sample_taken, c')"
    by blast
  have "\<exists>cs. fetchFleet sample_fleet_host ''alpha'' (sample_call (Some sample_reply) 3000000000) sample_clients = (Inr sample_taken, cs)"
    using sample_taken_valid[of 3000000000]
    by (simp add: fetchFleet_def sample_call_def sample_clients_def f or_error_def)
  then obtain cs where o:
    "fetchFleet sample_fleet_host ''alpha'' (sample_call (Some sample_reply) 3000000000) sample_clients = (Inr sample_taken, cs)" by blast
  have nodes: "CanView sample_alpha [''users'', ''admins'']" "\<not> CanView sample_beta [''users'', ''admins'']"
      "nd_ID sample_alpha = ''alpha''"
    by (simp_all add: CanView_def CanDetail_def matches_def sample_alpha_def sample_beta_def sample_member_def)
  have env: "fe_auth sample_fleet_env = sample_auth_host" "fe_server sample_fleet_env = sample_auth_server"
      "fe_host sample_fleet_env = sample_fleet_host" "fl_Servers (fe_config sample_fleet_env) = [sample_alpha, sample_beta]"
    by (simp_all add: sample_fleet_env_def sample_fleet_config_def)
  have visit: "ev_now sample_visit = 3000000000" "ev_req sample_visit = ae_req sample_access" "ev_route sample_visit = FleetOverview"
      "ev_calls sample_visit = (\<lambda>_. sample_call (Some sample_reply) 3000000000)" by (simp_all add: sample_visit_def)
  have world: "fw_auth sample_fleet_world = sample_signed_in" "fw_clients sample_fleet_world = sample_clients"
    by (simp_all add: sample_fleet_world_def)
  show ?thesis
    by (simp add: fleet_step_def visit env world sample_visit_allowed handleFleet_def i nodes o Let_def split: prod.split)
qed

lemma fleet_overview_guarded_witness:
  "\<exists>w' identity. fleet_step sample_fleet_env sample_visit sample_fleet_world
      = (FleetRows [observed_row sample_taken (unknown_row sample_alpha [''users'', ''admins''])], w')
    \<and> device_session sample_fleet_env sample_visit (fw_auth w') identity
    \<and> shown_to sample_fleet_env [sample_visit] sample_visit
        (FleetRows [observed_row sample_taken (unknown_row sample_alpha [''users'', ''admins''])]) identity"
proof -
  obtain w' where s: "fleet_step sample_fleet_env sample_visit sample_fleet_world
      = (FleetRows [observed_row sample_taken (unknown_row sample_alpha [''users'', ''admins''])], w')"
    using sample_overview by (metis prod.collapse)
  have start: "NewClients (fe_host sample_fleet_env) (fe_config sample_fleet_env) = Inr (fw_clients sample_fleet_world)"
      "fl_Enabled (fe_config sample_fleet_env)"
    using sample_enrolled by (simp_all add: sample_fleet_env_def sample_fleet_world_def sample_fleet_config_def)
  have data: "shows_data (FleetRows [observed_row sample_taken (unknown_row sample_alpha [''users'', ''admins''])])"
    by (simp add: shows_data_def)
  have "fleet_run sample_fleet_env [] sample_fleet_world = ([], sample_fleet_world)" by simp
  from fleet_overview_guarded[OF start this s data] s show ?thesis by auto
qed

end
