(* ===== verification/Bind_Restore.thy ===== *)
theory Bind_Restore
  imports Go_Paths
begin

text \<open>
  \<open>internal/backup/bind_restore.go\<close>: putting the archive of a bind mount back. The archive is checked,
  extracted beside the destination and moved into its place; what was there before is moved aside first and
  moved back when the second move fails.

  Directories are a map from paths (lists of names) to nodes, since whole directories are renamed. \<open>tar\<close> is a
  parameter: what it leaves below the directory it is told to extract into. The calls that can fail are
  numbered in the order of the code; a removal either happens or does nothing, so a crash is a run in which
  every later call fails.
\<close>

type_synonym fpath = "string list"

datatype bind_node = BDir | BFile string | BLink

type_synonym fsys = "fpath \<Rightarrow> bind_node option"

definition below :: "fpath \<Rightarrow> fpath \<Rightarrow> bool" where
  "below p r \<longleftrightarrow> take (length p) r = p"

text \<open>\<open>os.Rename\<close> of a directory to a name that is free, \<open>os.RemoveAll\<close>, \<open>os.MkdirAll\<close>, and \<open>tar -C\<close>.\<close>

definition move :: "fpath \<Rightarrow> fpath \<Rightarrow> fsys \<Rightarrow> fsys" where
  "move p q fs = (\<lambda>r. if below q r then fs (p @ drop (length q) r) else if below p r then None else fs r)"

definition remove_below :: "fpath \<Rightarrow> fsys \<Rightarrow> fsys" where
  "remove_below p fs = (\<lambda>r. if below p r then None else fs r)"

definition make_dirs :: "fpath \<Rightarrow> fsys \<Rightarrow> fsys" where
  "make_dirs p fs = (\<lambda>r. if below r p \<and> fs r = None then Some BDir else fs r)"

definition extracted :: "fpath \<Rightarrow> fsys \<Rightarrow> fsys \<Rightarrow> fsys" where
  "extracted d ext fs = (\<lambda>r. if below d r \<and> r \<noteq> d \<and> ext (drop (length d) r) \<noteq> None then ext (drop (length d) r) else fs r)"

subsection \<open>The archive\<close>

record bind_entry =
  bn_Name :: string
  bn_Plain :: bool

datatype bind_error =
    BadDestination | NoProject | NotDirectory | LstatFailed | BadArchive | EntryEscapes | SpecialEntry | EmptyArchive
  | MkdirFailed | TarFailed | NoDestination | MoveFailed | ActivateFailed | BothRenamesFailed

text \<open>An entry is a header; \<open>None\<close> is one that cannot be read.\<close>

definition entry_escapes :: "string \<Rightarrow> bind_entry \<Rightarrow> bool" where
  "entry_escapes root e \<longleftrightarrow>
     (let name = path_clean (bn_Name e)
      in is_abs name \<or> (name \<noteq> root \<and> \<not> has_prefix name (root @ ''/'')) \<or> CHR 0x5C \<in> set (bn_Name e))"

fun check_bind_entries :: "string \<Rightarrow> nat \<Rightarrow> bind_entry option list \<Rightarrow> bind_error option" where
  "check_bind_entries root count [] = (if count = 0 then Some EmptyArchive else None)"
| "check_bind_entries root count (None # es) = Some BadArchive"
| "check_bind_entries root count (Some e # es) =
     (if entry_escapes root e then Some EntryEscapes
      else if \<not> bn_Plain e then Some SpecialEntry
      else check_bind_entries root (Suc count) es)"

text \<open>
  \<open>bi_Root\<close> is the project's directory behind its links, \<open>bi_Opens\<close> tells whether the archive opens as gzip,
  \<open>bi_Tar\<close> whether \<open>tar\<close> succeeds and what it leaves; the two names are those \<open>MkdirTemp\<close> chooses.
\<close>

record bind_host =
  bi_Root :: "fpath option"
  bi_Opens :: bool
  bi_Entries :: "bind_entry option list"
  bi_Tar :: "bool \<times> fsys"
  bi_Stage :: string
  bi_Previous :: string

definition validateBindArchive :: "bind_host \<Rightarrow> string \<Rightarrow> bind_error option" where
  "validateBindArchive h root = (if \<not> bi_Opens h then Some BadArchive else check_bind_entries root 0 (bi_Entries h))"

definition restoreBindMount :: "bind_host \<Rightarrow> fpath \<Rightarrow> fsys \<Rightarrow> bind_error option \<times> fsys" where
  "restoreBindMount h d fs =
     (if fst (bi_Tar h) then None else Some TarFailed, extracted d (snd (bi_Tar h)) fs)"

subsection \<open>The destination\<close>

text \<open>The walk from the destination up to the project: a name that exists is a real directory.\<close>

fun check_parents :: "(nat \<Rightarrow> bool) \<Rightarrow> fsys \<Rightarrow> fpath \<Rightarrow> nat \<Rightarrow> bind_error option" where
  "check_parents seen fs root 0 = None"
| "check_parents seen fs path (Suc n) =
     (if \<not> seen n then Some LstatFailed
      else if fs path \<noteq> None \<and> fs path \<noteq> Some BDir then Some NotDirectory
      else check_parents seen fs (butlast path) n)"

definition bad_destination :: "string \<Rightarrow> bool" where
  "bad_destination clean \<longleftrightarrow> is_abs clean \<or> clean = ''.'' \<or> clean = ''..'' \<or> has_prefix clean ''../''"

definition stage_of :: "bind_host \<Rightarrow> fpath \<Rightarrow> fpath" where
  "stage_of h target = butlast target @ [''.fleetdeck-restore-'' @ bi_Stage h]"

definition previous_of :: "bind_host \<Rightarrow> fpath \<Rightarrow> fpath" where
  "previous_of h target = stage_of h target @ [''.previous-'' @ bi_Previous h]"

definition recovery_of :: "bind_host \<Rightarrow> fpath \<Rightarrow> fpath" where
  "recovery_of h target = butlast target @ [''.fleetdeck-restore-'' @ bi_Stage h @ ''-recovery'']"

text \<open>From the look at the destination on (calls 5 to 9).\<close>

definition activate :: "bind_host \<Rightarrow> (nat \<Rightarrow> bool) \<Rightarrow> fpath \<Rightarrow> fsys \<Rightarrow> bind_error option \<times> fsys" where
  "activate h up target fs =
     (let stage = stage_of h target; previous = previous_of h target; prepared = stage @ [last target]
      in if \<not> up 5 then (Some LstatFailed, fs)
         else if fs target = None then
           (if up 7 then (None, move prepared target fs) else (Some ActivateFailed, fs))
         else if \<not> up 6 then (Some MoveFailed, fs)
         else
           let fs1 = move target previous fs in
           if up 7 then (None, move prepared target fs1)
           else if up 8 then (Some ActivateFailed, move previous target fs1)
           else (Some BothRenamesFailed, if up 9 then move stage (recovery_of h target) fs1 else fs1))"

definition staged :: "bind_host \<Rightarrow> (nat \<Rightarrow> bool) \<Rightarrow> fpath \<Rightarrow> fsys \<Rightarrow> bind_error option \<times> fsys" where
  "staged h up target fs =
     (let stage = stage_of h target
      in case restoreBindMount h stage fs of
           (Some e, fs1) \<Rightarrow> (Some e, fs1)
         | (None, fs1) \<Rightarrow>
             if \<not> up 2 \<or> fs1 (stage @ [last target]) \<noteq> Some BDir then (Some NoDestination, fs1)
             else if \<not> up 3 then (Some MkdirFailed, fs1)
             else
               let fs2 = fs1(previous_of h target \<mapsto> BDir) in
               if \<not> up 4 then (Some MkdirFailed, fs2)
               else activate h up target (remove_below (previous_of h target) fs2))"

definition restoreProjectBindMount ::
  "bind_host \<Rightarrow> (nat \<Rightarrow> bool) \<Rightarrow> (nat \<Rightarrow> bool) \<Rightarrow> string \<Rightarrow> fsys \<Rightarrow> bind_error option \<times> fsys" where
  "restoreProjectBindMount h seen up relative fs =
     (if relative = [] then
        (case bi_Root h of None \<Rightarrow> (Some TarFailed, fs) | Some root \<Rightarrow> restoreBindMount h root fs)
      else if bad_destination (path_clean relative) then (Some BadDestination, fs)
      else case bi_Root h of
        None \<Rightarrow> (Some NoProject, fs)
      | Some root \<Rightarrow>
          (let names = split_on CHR ''/'' (path_clean relative); target = root @ names
           in case check_parents seen fs target (length names) of
                Some e \<Rightarrow> (Some e, fs)
              | None \<Rightarrow>
                  (case validateBindArchive h (last names) of
                     Some e \<Rightarrow> (Some e, fs)
                   | None \<Rightarrow>
                       if \<not> up 0 then (Some MkdirFailed, fs)
                       else
                         let fs1 = make_dirs (butlast target) fs in
                         if \<not> up 1 then (Some MkdirFailed, fs1)
                         else
                           (case staged h up target (fs1(stage_of h target \<mapsto> BDir)) of
                              (e, fs2) \<Rightarrow> (e, if up 10 then remove_below (stage_of h target) fs2 else fs2)))))"

subsection \<open>Paths\<close>

lemma below_iff: "below p r \<longleftrightarrow> (\<exists>x. r = p @ x)"
  unfolding below_def by (metis append_eq_conv_conj append_take_drop_id)

lemma below_append [simp]: "below p (p @ x)" by (simp add: below_def)

lemma below_refl [simp]: "below p p" by (simp add: below_def)

definition apart :: "fpath \<Rightarrow> fpath \<Rightarrow> bool" where
  "apart p q \<longleftrightarrow> \<not> below p q \<and> \<not> below q p"

lemma apart_not_below: "apart p q \<Longrightarrow> below p r \<Longrightarrow> \<not> below q r"
  unfolding apart_def below_iff append_eq_append_conv2 by (metis append_eq_append_conv2)

lemma apart_sym: "apart p q \<Longrightarrow> apart q p" by (auto simp: apart_def)

lemma apart_child: "a \<noteq> b \<Longrightarrow> apart (d @ [a]) (d @ b # x)"
  by (auto simp: apart_def below_iff)

lemma below_trans: "below p q \<Longrightarrow> below q r \<Longrightarrow> below p r"
  by (auto simp: below_iff)

lemma move_to: "move p q fs (q @ x) = fs (p @ x)" by (simp add: move_def)

lemma move_other: "\<not> below p r \<Longrightarrow> \<not> below q r \<Longrightarrow> move p q fs r = fs r" by (simp add: move_def)

lemma apart_append: "apart p q \<Longrightarrow> \<not> below q (p @ x)" "apart p q \<Longrightarrow> \<not> below p (q @ x)"
  using apart_not_below[of p q "p @ x"] apart_not_below[OF apart_sym, of p q "q @ x"] by auto

lemma check_parents_error: "check_parents seen fs path n = Some e \<Longrightarrow> e = LstatFailed \<or> e = NotDirectory"
  by (induction seen fs path n rule: check_parents.induct) (auto split: if_splits)

lemma check_entries_error:
  "validateBindArchive h root = Some e \<Longrightarrow> e \<in> {EmptyArchive, BadArchive, EntryEscapes, SpecialEntry}"
proof -
  have "check_bind_entries root n es = Some e \<Longrightarrow> e \<in> {EmptyArchive, BadArchive, EntryEscapes, SpecialEntry}" for n es
    by (induction root n es rule: check_bind_entries.induct) (auto split: if_splits)
  then show "validateBindArchive h root = Some e \<Longrightarrow> e \<in> {EmptyArchive, BadArchive, EntryEscapes, SpecialEntry}"
    by (auto simp: validateBindArchive_def split: if_splits)
qed

subsection \<open>The exchange\<close>

lemma activate_result:
  assumes "activate h up target fs = (e, fs')"
    and stage: "stage = stage_of h target" and previous: "previous = previous_of h target"
    and prepared: "prepared = stage @ [last target]" and recovery: "recovery = recovery_of h target"
    and apart: "apart target stage" "apart target recovery" "apart stage recovery" "apart prepared previous"
  shows "(e = None \<longrightarrow> (\<forall>x. fs' (target @ x) = fs (prepared @ x)))
    \<and> (e = Some BothRenamesFailed \<longrightarrow> \<not> up 7 \<and> \<not> up 8 \<and> (\<forall>x. fs' (target @ x) = None)
         \<and> (up 9 \<longrightarrow> (\<forall>x. fs' (recovery @ drop (length stage) previous @ x) = fs (target @ x))))
    \<and> (e \<noteq> None \<and> e \<noteq> Some BothRenamesFailed \<longrightarrow> (\<forall>x. fs' (target @ x) = fs (target @ x)))
    \<and> (e = Some BothRenamesFailed \<and> \<not> up 9 \<longrightarrow> (\<forall>r. \<not> below target r \<longrightarrow> \<not> below stage r \<longrightarrow> fs' r = fs r))
    \<and> (\<forall>r. \<not> below target r \<longrightarrow> \<not> below stage r \<longrightarrow> \<not> below recovery r \<longrightarrow> fs' r = fs r)"
proof -
  let ?fs1 = "move target previous fs"
  have inside: "below stage previous" "below stage prepared"
    unfolding previous prepared stage previous_of_def by simp_all
  then obtain p where p: "previous = stage @ p" by (auto simp: below_iff)
  have apart2: "apart target previous" "apart target prepared"
  proof -
    have "\<not> below target (stage @ x)" "\<not> below (stage @ x) target" for x
      using apart_append(2)[OF apart(1)] apart(1) by (auto simp: apart_def below_iff)
    then show "apart target previous" "apart target prepared" unfolding p prepared by (auto simp: apart_def)
  qed
  have one: "?fs1 (prepared @ x) = fs (prepared @ x)" "?fs1 (previous @ x) = fs (target @ x)" "?fs1 (target @ x) = None" for x
    using apart_append[OF apart2(1)] apart_append[OF apart2(2)] apart_append[OF apart(4)]
    by (simp_all add: move_def)
  have frame1: "\<not> below target r \<Longrightarrow> \<not> below stage r \<Longrightarrow> ?fs1 r = fs r" for r
    using below_trans[OF inside(1)] by (auto simp: move_def)
  have a: "move prepared target f (target @ x) = f (prepared @ x)" for f x by (rule move_to)
  have af: "\<not> below target r \<Longrightarrow> \<not> below stage r \<Longrightarrow> move prepared target f r = f r" for f r
    using below_trans[OF inside(2)] by (auto simp: move_def)
  have b: "move previous target f (target @ x) = f (previous @ x)" for f x by (rule move_to)
  have bf: "\<not> below target r \<Longrightarrow> \<not> below stage r \<Longrightarrow> move previous target f r = f r" for f r
    using below_trans[OF inside(1)] by (auto simp: move_def)
  have c: "move stage recovery f (recovery @ p @ x) = f (previous @ x)" for f x by (simp add: move_to p)
  have ct: "move stage recovery f (target @ x) = f (target @ x)" for f x
    using apart_append[OF apart(1)] apart_append[OF apart(2)] by (simp add: move_def)
  have cf: "\<not> below stage r \<Longrightarrow> \<not> below recovery r \<Longrightarrow> move stage recovery f r = f r" for f r by (rule move_other)
  have d: "drop (length stage) previous = p" by (simp add: p)
  show ?thesis
    using assms(1) unfolding activate_def Let_def stage[symmetric] previous[symmetric] prepared[symmetric] recovery[symmetric] d
    by (auto split: if_splits simp: one frame1 a af b bf c ct cf)
qed

subsection \<open>Nothing is lost\<close>

lemma make_dirs_other: "\<not> below r p \<Longrightarrow> make_dirs p fs r = fs r" by (simp add: make_dirs_def)

lemma staged_result:
  assumes "staged h up target fs = (e, fs')"
    and stage: "stage = stage_of h target" and previous: "previous = previous_of h target"
    and recovery: "recovery = recovery_of h target"
    and apart: "apart target stage" "apart target recovery" "apart stage recovery"
    and free: "\<forall>x. x \<noteq> [] \<longrightarrow> fs (stage @ x) = None" "snd (bi_Tar h) [''.previous-'' @ bi_Previous h] = None"
  shows "(e = None \<longrightarrow> (\<forall>x. fs' (target @ x) = snd (bi_Tar h) (last target # x)))
    \<and> (e = Some BothRenamesFailed \<longrightarrow> \<not> up 7 \<and> \<not> up 8 \<and> (\<forall>x. fs' (target @ x) = None)
         \<and> (up 9 \<longrightarrow> (\<forall>x. fs' (recovery @ drop (length stage) previous @ x) = fs (target @ x))))
    \<and> (e \<noteq> None \<and> e \<noteq> Some BothRenamesFailed \<longrightarrow> (\<forall>x. fs' (target @ x) = fs (target @ x)))
    \<and> (e = Some BothRenamesFailed \<and> \<not> up 9 \<longrightarrow> (\<forall>r. \<not> below target r \<longrightarrow> \<not> below stage r \<longrightarrow> fs' r = fs r))
    \<and> (\<forall>r. \<not> below target r \<longrightarrow> \<not> below stage r \<longrightarrow> \<not> below recovery r \<longrightarrow> fs' r = fs r)"
proof -
  let ?ext = "snd (bi_Tar h)"
  let ?fs1 = "extracted stage ?ext fs"
  let ?fs2 = "remove_below previous (?fs1(previous \<mapsto> BDir))"
  let ?prepared = "stage @ [last target]"
  have prev: "previous = stage @ [''.previous-'' @ bi_Previous h]" by (simp add: previous stage previous_of_def)
  have t1: "?fs1 (target @ x) = fs (target @ x)" for x
    using apart_append(2)[OF apart_sym[OF apart(1)]] by (simp add: extracted_def)
  have f1: "\<not> below stage r \<Longrightarrow> ?fs1 r = fs r" for r by (simp add: extracted_def)
  have pt: "\<not> below previous (target @ x)" "target @ x \<noteq> previous" for x
    using apart_append(2)[OF apart_sym[OF apart(1)], of x] below_trans[of stage previous "target @ x"] below_append[of stage]
    unfolding prev by (auto simp: below_iff)
  have mkd: "?fs1(previous \<mapsto> BDir) = (\<lambda>r. if r = previous then Some BDir else ?fs1 r)" by (rule ext) simp
  have t2: "(?fs1(previous \<mapsto> BDir)) (target @ x) = fs (target @ x)" "?fs2 (target @ x) = fs (target @ x)" for x
    using pt[of x] t1[of x] by (simp_all add: remove_below_def)
  have np: "\<not> below stage r \<Longrightarrow> \<not> below previous r \<and> r \<noteq> previous" for r
    using below_trans[of stage previous r] below_append[of stage] unfolding prev by auto
  have f2: "\<not> below stage r \<Longrightarrow> (?fs1(previous \<mapsto> BDir)) r = fs r" "\<not> below stage r \<Longrightarrow> ?fs2 r = fs r" for r
    using np[of r] f1[of r] by (simp_all add: remove_below_def)
  show ?thesis
  proof (cases "fst (bi_Tar h) \<and> up 2 \<and> ?fs1 ?prepared = Some BDir \<and> up 3 \<and> up 4")
    case False
    then have e: "e \<noteq> None \<and> e \<noteq> Some BothRenamesFailed \<and> (fs' = ?fs1 \<or> fs' = ?fs1(previous \<mapsto> BDir))"
      using assms(1) by (auto simp: staged_def restoreBindMount_def Let_def stage[symmetric] previous[symmetric] split: if_splits)
    have "\<forall>x. fs' (target @ x) = fs (target @ x)" using e t1 t2(1) by metis
    moreover have "\<forall>r. \<not> below stage r \<longrightarrow> fs' r = fs r" using e f1 f2(1) by metis
    ultimately show ?thesis using e by blast
  next
    case True
    then have act: "activate h up target ?fs2 = (e, fs')"
      using assms(1) by (simp add: staged_def restoreBindMount_def Let_def stage[symmetric] previous[symmetric])
    have there: "?ext [last target] = Some BDir"
      using True free(1) by (simp add: extracted_def below_def split: if_splits)
    then have "last target \<noteq> ''.previous-'' @ bi_Previous h" using free(2) by auto
    then have ap: "apart ?prepared previous" unfolding prev by (rule apart_child)
    have pre: "?fs2 (?prepared @ x) = ?ext (last target # x)" for x
    proof -
      have "\<not> below previous (?prepared @ x)" using apart_append(1)[OF ap] .
      moreover have "?prepared @ x \<noteq> previous" using calculation by auto
      ultimately show ?thesis using free(1) by (simp add: remove_below_def extracted_def below_def)
    qed
    from activate_result[OF act stage previous refl recovery apart ap]
    show ?thesis unfolding pre t2(2) using f2(2) by simp
  qed
qed

lemma siblings_apart: "a \<noteq> b \<Longrightarrow> apart (d @ [a]) (d @ [b])"
  by (rule apart_child)

lemma sibling_of_target:
  assumes "target \<noteq> []" "d = butlast target @ [n]" "d \<noteq> target"
  shows "apart target d"
proof -
  have t: "target = butlast target @ [last target]" using assms(1) by simp
  then have "last target \<noteq> n" using assms(2,3) by auto
  from siblings_apart[OF this, of "butlast target"] show ?thesis using t assms(2) by simp
qed

text \<open>
  C13. Putting a bind mount back loses nothing. When it succeeds, the destination is exactly what the archive
  holds for it, nothing of the old content survives in it; when it fails, at any call or by a crash, the
  destination is as it was - unless the move into place and the move back both failed, and then the old
  content is in the recovery directory if it could be renamed. Outside the destination and the two
  temporary directories only missing parents are created. The exception that remains: when that third
  rename fails too and the cleaning up succeeds, the old content is gone.
\<close>

theorem bind_restore_keeps_data:
  assumes "restoreProjectBindMount h seen up relative fs = (e, fs')" "relative \<noteq> []" "bi_Root h = Some root"
    and target: "target = root @ split_on CHR ''/'' (path_clean relative)"
    and names: "stage_of h target \<noteq> target" "recovery_of h target \<noteq> target"
    and free: "\<forall>x. fs (stage_of h target @ x) = None" "snd (bi_Tar h) [''.previous-'' @ bi_Previous h] = None"
  shows "(e = None \<longrightarrow> (\<forall>x. fs' (target @ x) = snd (bi_Tar h) (last target # x)))
    \<and> (e \<noteq> None \<longrightarrow> (\<forall>x. fs' (target @ x) = fs (target @ x))
        \<or> \<not> up 7 \<and> \<not> up 8 \<and> (up 9 \<longrightarrow>
             (\<forall>x. fs' (recovery_of h target @ [''.previous-'' @ bi_Previous h] @ x) = fs (target @ x))))
    \<and> (e = Some BothRenamesFailed \<and> \<not> up 9 \<and> up 10 \<longrightarrow>
        (\<forall>r. below target r \<or> below (stage_of h target) r \<longrightarrow> fs' r = None))
    \<and> (\<forall>r. \<not> below target r \<longrightarrow> \<not> below (stage_of h target) r \<longrightarrow> \<not> below (recovery_of h target) r \<longrightarrow>
        fs' r = fs r \<or> fs r = None \<and> fs' r = Some BDir \<and> below r target)"
proof -
  let ?names = "split_on CHR ''/'' (path_clean relative)"
  let ?stage = "stage_of h target"
  let ?recovery = "recovery_of h target"
  let ?fs1 = "make_dirs (butlast target) fs"
  let ?fs2 = "?fs1(?stage \<mapsto> BDir)"
  have ne: "target \<noteq> []" unfolding target by simp
  have apart: "apart target ?stage" "apart target ?recovery" "apart ?stage ?recovery"
    using sibling_of_target[OF ne _ names(1)] sibling_of_target[OF ne _ names(2)]
    by (auto simp: stage_of_def recovery_of_def intro!: siblings_apart)
  have parent: "below (butlast target) target" by (simp add: below_def take_butlast butlast_conv_take)
  have long: "\<not> below (target @ x) (butlast target)" "\<not> below (?stage @ x) (butlast target)" for x
  proof -
    show "\<not> below (target @ x) (butlast target)"
    proof
      assume "below (target @ x) (butlast target)"
      then obtain y where "butlast target = target @ x @ y" by (auto simp: below_iff)
      then have "length (butlast target) = length (target @ x @ y)" by (rule arg_cong)
      moreover have "0 < length target" using ne by simp
      ultimately show False by (simp only: length_butlast length_append)
    qed
    show "\<not> below (?stage @ x) (butlast target)" by (auto simp: below_iff stage_of_def)
  qed
  have d1: "?fs1 (target @ x) = fs (target @ x)" "?fs1 (?stage @ x) = fs (?stage @ x)" for x
    using long by (simp_all add: make_dirs_other)
  have d2: "?fs2 (target @ x) = fs (target @ x)" "x \<noteq> [] \<Longrightarrow> ?fs2 (?stage @ x) = None" for x
    using d1[of x] apart_append(2)[OF apart_sym[OF apart(1)], of x] free(1) by auto
  have made: "?fs1 r = fs r \<or> fs r = None \<and> ?fs1 r = Some BDir \<and> below r target" for r
    using below_trans[OF _ parent, of r] by (auto simp: make_dirs_def)
  show ?thesis
  proof (cases "\<not> bad_destination (path_clean relative) \<and> check_parents seen fs target (length ?names) = None
      \<and> validateBindArchive h (last ?names) = None \<and> up 0 \<and> up 1")
    case False
    have e: "e \<noteq> None \<and> e \<noteq> Some BothRenamesFailed \<and> (fs' = fs \<or> fs' = ?fs1)"
    proof (cases "bad_destination (path_clean relative)")
      case True
      then show ?thesis using assms(1,2) by (auto simp: restoreProjectBindMount_def)
    next
      case good: False
      show ?thesis
      proof (cases "check_parents seen fs target (length ?names)")
        case (Some x)
        then have "(Some x, fs) = (e, fs')"
          using assms(1-3) good by (simp add: restoreProjectBindMount_def target Let_def)
        then show ?thesis using check_parents_error[OF Some] by blast
      next
        case parents: None
        show ?thesis
        proof (cases "validateBindArchive h (last ?names)")
          case (Some x)
          then have "(Some x, fs) = (e, fs')"
            using assms(1-3) good parents by (simp add: restoreProjectBindMount_def target Let_def)
          then show ?thesis using check_entries_error[OF Some] by blast
        next
          case None
          then have "\<not> up 0 \<or> \<not> up 1" using False good parents by blast
          then have "(Some MkdirFailed, if up 0 then ?fs1 else fs) = (e, fs')"
            using assms(1-3) good parents None
            by (cases "up 0") (simp_all add: restoreProjectBindMount_def target Let_def del: One_nat_def)
          then show ?thesis by auto
        qed
      qed
    qed
    have here: "\<forall>x. fs' (target @ x) = fs (target @ x)" using e d1(1) by metis
    have outside: "fs' r = fs r \<or> fs r = None \<and> fs' r = Some BDir \<and> below r target" for r using e made[of r] by metis
    show ?thesis using e here outside by blast
  next
    case True
    obtain e2 fs2 where st: "staged h up target ?fs2 = (e2, fs2)" by (metis prod.exhaust)
    have "(e2, if up 10 then remove_below ?stage fs2 else fs2) = (e, fs')"
      using assms(1-3) True st by (simp add: restoreProjectBindMount_def target Let_def split: if_splits)
    then have run: "e = e2" "fs' = (if up 10 then remove_below ?stage fs2 else fs2)" by blast+
    have free2: "\<forall>x. x \<noteq> [] \<longrightarrow> ?fs2 (?stage @ x) = None" using d2(2) by blast
    note res = staged_result[OF st refl refl refl apart free2 free(2), unfolded d2(1), folded run(1)]
    have drop: "drop (length ?stage) (previous_of h target) = [''.previous-'' @ bi_Previous h]"
      by (simp add: previous_of_def)
    have same: "fs' (target @ x) = fs2 (target @ x)" "fs' (?recovery @ x) = fs2 (?recovery @ x)" for x
      using apart_append(1)[OF apart(1)] apart_append(2)[OF apart(3)] run(2) by (simp_all add: remove_below_def)
    have frame: "\<not> below ?stage r \<Longrightarrow> fs' r = fs2 r" for r using run(2) by (simp add: remove_below_def)
    have outside: "\<not> below target r \<Longrightarrow> \<not> below ?stage r \<Longrightarrow> \<not> below ?recovery r \<Longrightarrow> fs' r = ?fs1 r" for r
      using res frame[of r] by (metis fun_upd_other below_refl)
    have lost: "e = Some BothRenamesFailed \<and> \<not> up 9 \<and> up 10 \<longrightarrow>
        (\<forall>r. below target r \<or> below ?stage r \<longrightarrow> fs' r = None)"
    proof (intro impI allI)
      fix r assume bad: "e = Some BothRenamesFailed \<and> \<not> up 9 \<and> up 10" and r: "below target r \<or> below ?stage r"
      show "fs' r = None"
      proof (cases "below ?stage r")
        case True
        then show ?thesis using bad run(2) by (simp add: remove_below_def)
      next
        case False
        with r obtain x where "r = target @ x" by (auto simp: below_iff)
        then show ?thesis using bad res same(1) by metis
      qed
    qed
    have ok: "e = None \<longrightarrow> (\<forall>x. fs' (target @ x) = snd (bi_Tar h) (last target # x))" using res same(1) by metis
    have failed: "e \<noteq> None \<longrightarrow> (\<forall>x. fs' (target @ x) = fs (target @ x))
        \<or> \<not> up 7 \<and> \<not> up 8 \<and> (up 9 \<longrightarrow> (\<forall>x. fs' (?recovery @ [''.previous-'' @ bi_Previous h] @ x) = fs (target @ x)))"
      using res[unfolded drop] same by metis
    have kept: "fs' r = fs r \<or> fs r = None \<and> fs' r = Some BDir \<and> below r target"
      if "\<not> below target r" "\<not> below ?stage r" "\<not> below ?recovery r" for r
      using outside[OF that] made[of r] by simp
    show ?thesis using ok failed lost kept by blast
  qed
qed

subsection \<open>Example\<close>

definition sample_bind_host :: bind_host where
  "sample_bind_host = \<lparr>bi_Root = Some [''srv'', ''shop''], bi_Opens = True,
     bi_Entries = [Some \<lparr>bn_Name = ''data/'', bn_Plain = True\<rparr>, Some \<lparr>bn_Name = ''data/new'', bn_Plain = True\<rparr>],
     bi_Tar = (True, map_of [([''data''], BDir), ([''data'', ''new''], BFile ''2'')]),
     bi_Stage = ''7'', bi_Previous = ''8''\<rparr>"

definition sample_fsys :: fsys where
  "sample_fsys = map_of [([''srv''], BDir), ([''srv'', ''shop''], BDir), ([''srv'', ''shop'', ''data''], BDir),
     ([''srv'', ''shop'', ''data'', ''old''], BFile ''1'')]"

definition sample_bind_run :: "bind_error option \<times> fsys" where
  "sample_bind_run = restoreProjectBindMount sample_bind_host (\<lambda>_. True) (\<lambda>_. True) ''data'' sample_fsys"

lemma bind_restore_keeps_data_witness:
  "sample_fsys [''srv'', ''shop'', ''data'', ''old''] = Some (BFile ''1'')
    \<and> snd sample_bind_run [''srv'', ''shop'', ''data'', ''old''] = None
    \<and> snd sample_bind_run [''srv'', ''shop'', ''data'', ''new''] = Some (BFile ''2'')"
proof -
  let ?t = "[''srv'', ''shop'', ''data'']"
  have ok: "fst sample_bind_run = None" by code_simp
  obtain fs' where run: "sample_bind_run = (None, fs')" using ok by (metis prod.collapse)
  have path: "path_clean ''data'' = ''data''" "split_on CHR ''/'' ''data'' = [''data'']" by code_simp+
  have target: "?t = [''srv'', ''shop''] @ split_on CHR ''/'' (path_clean ''data'')" by (simp add: path)
  have names: "stage_of sample_bind_host ?t = [''srv'', ''shop'', ''.fleetdeck-restore-7'']"
    "recovery_of sample_bind_host ?t = [''srv'', ''shop'', ''.fleetdeck-restore-7-recovery'']"
    by (simp_all add: stage_of_def recovery_of_def sample_bind_host_def)
  have n1: "stage_of sample_bind_host ?t \<noteq> ?t" and n2: "recovery_of sample_bind_host ?t \<noteq> ?t" by (simp_all add: names)
  have free: "\<forall>x. sample_fsys (stage_of sample_bind_host ?t @ x) = None" by (simp add: names sample_fsys_def)
  have root: "bi_Root sample_bind_host = Some [''srv'', ''shop'']" by (simp add: sample_bind_host_def)
  have prev: "snd (bi_Tar sample_bind_host) [''.previous-'' @ bi_Previous sample_bind_host] = None"
    by (simp add: sample_bind_host_def)
  from bind_restore_keeps_data[OF run[unfolded sample_bind_run_def] _ root target n1 n2 free prev]
  have data: "fs' (?t @ x) = snd (bi_Tar sample_bind_host) (last ?t # x)" for x by simp
  show ?thesis
    using data[of "[''old'']"] data[of "[''new'']"] by (simp add: run sample_bind_host_def sample_fsys_def)
qed

end
