(* ===== verification/Spec2Isabelle.thy ===== *)
theory Spec2Isabelle
  imports Release_Idempotence Release_Provider Server_State Backup_Restore Server_Webhook
    Release_System Monitor_State Source_Safety Server_Access Notify_Delivery
    Security_Safety Deploy_Safety Recovery_Safety Server_Samples State_Failures Environment_Safety
    Overview_Samples Bind_Restore
begin

text \<open>
  FleetDeck runs Docker Compose applications on a Linux server: a command line and a per-server dashboard create projects,
  deploy uploaded sources, webhook pushes and signed-off releases, back projects up and restore them, watch them and tell
  the operator; a workstation collects what several servers publish about themselves. This development models the parts of the Go program (under \<open>src/\<close>) that carry its own logic and proves
  what they promise.

  \<^bold>\<open>How the program is put together.\<close> Every component stands on the configuration (\<open>internal/config\<close>) and the registry, an
  SQLite file with projects, deployments, backups, secrets and servers (\<open>internal/db\<close>). A project is a directory below the
  base path; its backups are directories below the backup path. Three ways lead to a running version: the CI pushes a
  release job, which the executor applies through the Compose runtime (\<open>internal/releasejob\<close>); the operator uploads
  sources, which the engine checks, snapshots, builds and starts (\<open>internal/sourcedeploy\<close>); GitHub calls the webhook of the
  dashboard (\<open>internal/server/webhook.go\<close>). Backups (\<open>internal/backup\<close>) are used by all of them, by rollbacks and
  migrations (\<open>internal/migrate\<close>, \<open>cmd\<close>) and by the dashboard's API (\<open>internal/server\<close>), which is reached through its
  sign-in only. The monitor, the alert relay and the security watch (\<open>internal/monitor\<close>, \<open>notify\<close>, \<open>securitywatch\<close>) run
  beside them. The whole state can be exported and imported (\<open>internal/disaster\<close>). Each server exports a snapshot of its
  projects, its monitor and its security report, an agent serves it, and the overview of a workstation shows it to the
  users of the node's groups (\<open>internal/fleetexport\<close>, \<open>fleet\<close>, \<open>server/fleet.go\<close>).

  \<^bold>\<open>How it is modelled.\<close> Data are records and datatypes with the fields and constructors of the code; strings are lists of
  bytes as in Go; an operation is a function from its arguments and state to its result and the new state, and an error is
  a value of a sum or an option. What the repository does not contain - Docker, SQLite's files, JSON, YAML and TOML,
  AES-GCM, SHA-256, HTTP, the clock, new ids - is a parameter: a field of a host record or an argument. Every system call,
  statement and command can fail, at every point; a crash is a run in which everything after it fails. Directories are
  association lists from relative names to entries. Loops are structural recursion over the data they walk; loops that
  wait (health checks, the watchdog, the blue-green wait) are \<open>partial_function (option)\<close> or carry a bound computed from
  their deadline, and are proved to return.

  \<^bold>\<open>The theories.\<close>
  \<^item> \<^bold>\<open>Shared:\<close> \<open>Prelude\<close> (errors, association lists, tables), \<open>Go_Strings\<close> and \<open>Go_Paths\<close> (the functions of \<open>strings\<close>,
    \<open>unicode\<close> and \<open>filepath\<close> that are used), \<open>Host_Files\<close> (replacing a file through a temporary one; the locale
    \<open>atomic_writer\<close>).
  \<^item> \<^bold>\<open>Configuration and registry:\<close> \<open>Fleet_Config\<close> (\<open>internal/config/config.go\<close>), \<open>Fleet_Db\<close> (\<open>internal/db\<close>,
    \<open>internal/crypto\<close>), \<open>Fleet_Registry\<close> (its integrity under every sequence of operations).
  \<^item> \<^bold>\<open>Releases:\<close> \<open>Release_Contract\<close> (\<open>contract.go\<close> and the receiver), \<open>Release_Store\<close> (\<open>db/release_jobs.go\<close>),
    \<open>Release_Executor\<close> (\<open>executor.go\<close>, with its calls traced), \<open>Release_Idempotence\<close> (the contract of the job store as
    locales, interpreted on the database), \<open>Release_Runtime\<close> (\<open>compose_runtime.go\<close>), \<open>Release_Compose\<close> (its promises),
    \<open>Release_Provider\<close> (\<open>external_backup_provider.go\<close>, \<open>preflight_runtime.go\<close>), \<open>Release_System\<close> (many executors over one
    database as a step relation).
  \<^item> \<^bold>\<open>Backups:\<close> \<open>Backup_Retention\<close> (\<open>retention.go\<close>; the record operations form a locale), \<open>Backup_Files\<close> (\<open>paths.go\<close>,
    \<open>verify.go\<close>), \<open>Backup_Create\<close> (\<open>backup.go\<close>, \<open>files.go\<close>, \<open>database.go\<close>, \<open>volumes.go\<close>), \<open>Backup_Created\<close> (what is written
    verifies), \<open>Backup_Restore\<close> (\<open>restore.go\<close>, \<open>config_restore.go\<close>), \<open>Bind_Restore\<close> (\<open>bind_restore.go\<close>), \<open>Project_Recovery\<close> and \<open>Recovery_Safety\<close> (snapshots,
    rollback, migrations: \<open>cmd/lifecycle.go\<close>, \<open>cmd/rollback.go\<close>, \<open>cmd/deploy.go\<close>, \<open>internal/migrate\<close>).
  \<^item> \<^bold>\<open>Deployment:\<close> \<open>Source_Files\<close>, \<open>Source_Deploy\<close>, \<open>Source_Safety\<close> (\<open>internal/sourcedeploy\<close>), \<open>Deploy_Strategies\<close>,
    \<open>Deploy_Watchdog\<close>, \<open>Deploy_Safety\<close> (\<open>internal/deploy\<close>), \<open>Edge_Network\<close> (\<open>internal/edge\<close>), \<open>Server_Webhook\<close>
    (\<open>server/webhook.go\<close>).
  \<^item> \<^bold>\<open>Dashboard:\<close> \<open>Server_State\<close> (sessions, rate limits, webhook deduplication), \<open>Server_Auth\<close> and \<open>Server_Access\<close> (sign-in
    and what it guards), \<open>Server_Api\<close> (the handlers), \<open>Server_Layout\<close> (paths), \<open>Server_Api_Safety\<close>, \<open>Server_Isolation\<close>,
    \<open>Server_Samples\<close> (what the API promises), \<open>Project_Scaffold\<close>, \<open>Audit_Log\<close>, \<open>Environments\<close> and \<open>Environment_Safety\<close>.
  \<^item> \<^bold>\<open>State archives:\<close> \<open>State_Archive\<close> (\<open>internal/disaster\<close>), \<open>State_Restored\<close>, \<open>State_Roundtrip\<close>, \<open>State_Failures\<close>.
  \<^item> \<^bold>\<open>Watching:\<close> \<open>Monitor_Alerts\<close>, \<open>Monitor_State\<close> (\<open>internal/monitor\<close>), \<open>Notify_Relay\<close>, \<open>Notify_Delivery\<close>
    (\<open>internal/notify\<close>), \<open>Security_Watch\<close>, \<open>Security_State\<close>, \<open>Security_Safety\<close> (\<open>internal/securitywatch\<close>).
  \<^item> \<^bold>\<open>Several servers:\<close> \<open>Node_Snapshot\<close> (\<open>internal/fleet\<close>: the protocol, the client, the agent), \<open>Node_Export\<close>
    (\<open>internal/fleetexport\<close>), \<open>Node_Overview\<close> (\<open>server/fleet.go\<close>), \<open>Overview_Safety\<close> and \<open>Overview_Samples\<close> (what they promise).

  \<^bold>\<open>What the lemmas show.\<close> A release is applied only behind a verified backup, once per id, and only over the release it
  expects; executors exclude each other and refine an abstract system of jobs; a row left running by a dead executor blocks
  its target. A backup that was created verifies, a restore verifies first and puts back what was saved, retention keeps a
  backup of every type. A source deployment replaces nothing before every check has passed and never a private file.
  Requests reach the dashboard's handlers only with the token or a genuine session; the API keeps projects apart, types
  its rows and undoes nothing halfway but the calls to Docker. The relay delivers at least once, a clean security verdict
  has evidence for every part, the watchdog ends with the right verdict. Export and import are a round trip, with
  the exceptions that the theorems name. The overview of the servers shows what a node published, while it is valid, and
  to its groups only.

  \<^bold>\<open>Bounds.\<close> The health loop of a release and the blue-green wait run at most as often as their deadline allows by a clock
  that moves on; the watchdog takes one probe per interval of its window; the tables of the server and the upload have the
  bounds of the code, with addition on \<open>int64\<close> where a total is summed.

  \<^bold>\<open>Not modelled.\<close> The pages, scripts and styles of the dashboard (\<open>server/static.go\<close>, \<open>templates.go\<close>) and the text of the
  built-in templates and profiles (\<open>internal/templates\<close>, \<open>internal/profiles\<close>, \<open>internal/generate\<close>) are data. Commands that
  only print or pass arguments on (\<open>cmd\<close>), the terminal (\<open>internal/ui\<close>), SSH and transfers (\<open>internal/remote\<close>), the host's
  preparation (\<open>internal/bootstrap\<close>, \<open>internal/onboarding\<close>), DNS providers (\<open>internal/dns\<close>), systemd units
  (\<open>internal/schedule\<close>) and metrics run external programs or services and keep no state of their own. The detection of
  frameworks and projects (\<open>internal/detect\<close>, \<open>internal/discover\<close>) is a guess from files without a contract. The scanner
  for secrets is a library with its rules; its verdict is a parameter.
  Goroutines are modelled where their interleaving matters (executors, the two halves of a creation) and as one step where
  a mutex makes them one.
\<close>

end
